(* ===== verification/Errors.thy ===== *)
theory Errors
  imports Prelude
begin

text \<open>
  The error types below the protocol layer: \<open>src/clf/errors.rs\<close> and \<open>src/driver/errors.rs\<close>, with
  the fault words a reader chipset reports. \<open>DriverPanicked\<close> stands for a panic, which is none of the
  source's variants. An I/O error is its kind and its message.
\<close>

datatype communication_error =
    CommProtocol string
  | Transmission string
  | Timeout string
  | BrokenLink string

datatype communication_fault = CommunicationFault (errno: u32)

datatype chipset_error = ChipsetStatus u8 | ChipsetFault communication_fault

text \<open>The kinds of \<open>std::io::Error\<close> that the sources name.\<close>

datatype io_error_kind = TimedOut | NotFound | NotConnected | UnexpectedEof | PermissionDenied | OtherKind

datatype io_error = IoError (io_kind: io_error_kind) (io_message: string)

datatype driver_error =
    DriverUnsupported string
  | Communication communication_error
  | Chipset chipset_error
  | Io io_error
  | Other string
  | DriverPanicked string

definition driver_other :: "string \<Rightarrow> driver_error + 'a" where
  "driver_other m = Inl (Other m)"

section \<open>Communication faults\<close>

definition fault_codes :: "(u32 \<times> string) list" where
  "fault_codes =
     [(0x00000000, ''NO_ERROR''), (0x00000001, ''PROTOCOL_ERROR''), (0x00000002, ''PARITY_ERROR''),
      (0x00000004, ''CRC_ERROR''), (0x00000008, ''COLLISION_ERROR''), (0x00000010, ''OVERFLOW_ERROR''),
      (0x00000040, ''TEMPERATURE_ERROR''), (0x00000080, ''RECEIVE_TIMEOUT_ERROR''),
      (0x00000100, ''CRYPTO1_ERROR''), (0x00000200, ''RFCA_ERROR''), (0x00000400, ''RF_OFF_ERROR''),
      (0x00000800, ''TRANSMIT_TIMEOUT_ERROR''), (0x80000000, ''RECEIVE_LENGTH_ERROR'')]"

definition fault_from_status :: "bytes \<Rightarrow> communication_fault option" where
  "fault_from_status bs =
     (if length bs < 4 then None
      else Some (CommunicationFault (u32_from_le (bs ! 0) (bs ! 1) (bs ! 2) (bs ! 3))))"

definition fault_as_str :: "communication_fault \<Rightarrow> string" where
  "fault_as_str f = (case map_of fault_codes (errno f) of Some s \<Rightarrow> s | None \<Rightarrow> ''UNKNOWN_ERROR'')"

definition fault_matches :: "communication_fault \<Rightarrow> string \<Rightarrow> bool" where
  "fault_matches f label \<longleftrightarrow> fault_as_str f = label"

definition fault_is_timeout :: "communication_fault \<Rightarrow> bool" where
  "fault_is_timeout f \<longleftrightarrow> errno f = 0x00000080"

definition fault_is_rf_off :: "communication_fault \<Rightarrow> bool" where
  "fault_is_rf_off f \<longleftrightarrow> errno f = 0x00000400"

text \<open>\<open>{:#010x}\<close>: eight lower-case digits behind \<open>0x\<close>.\<close>

definition hex_digit_lower :: "nat \<Rightarrow> char" where
  "hex_digit_lower d = (if d < 10 then char_of (48 + d) else char_of (87 + d))"

definition hex8_lower :: "u32 \<Rightarrow> string" where
  "hex8_lower w = ''0x'' @ map (\<lambda>i. hex_digit_lower (unat (drop_bit (4 * i) w) mod 16)) (rev [0..<8])"

text \<open>\<open>{:#04x}\<close> of a byte.\<close>

definition hex2_prefixed :: "u8 \<Rightarrow> string" where
  "hex2_prefixed b = ''0x'' @ [hex_digit_lower (unat b div 16), hex_digit_lower (unat b mod 16)]"

definition fault_to_string :: "communication_fault \<Rightarrow> string" where
  "fault_to_string f =
     ''chipset communication error '' @ hex8_lower (errno f) @ '': '' @ fault_as_str f"

definition ensure_status_ok :: "u8 option \<Rightarrow> driver_error + unit" where
  "ensure_status_ok status =
     (case status of
        Some code \<Rightarrow> if code = 0 then Inr () else Inl (Chipset (ChipsetStatus code))
      | None \<Rightarrow> Inr ())"

definition fault_to_driver_error :: "communication_fault \<Rightarrow> bool \<Rightarrow> driver_error" where
  "fault_to_driver_error f treat_rf_off_as_broken =
     (if treat_rf_off_as_broken \<and> fault_is_rf_off f then Communication (BrokenLink (fault_to_string f))
      else if fault_is_timeout f then Communication (Timeout (fault_to_string f))
      else Communication (Transmission (fault_to_string f)))"

end
