(* ===== verification/Types.thy ===== *)
theory Types
  imports Errors
begin

text \<open>
  The protocol constants of \<open>src/felica_standard/constants.rs\<close>, the error type of
  \<open>error.rs\<close> and the data types of \<open>types.rs\<close> with their pure operations. Fixed-size arrays are
  byte lists; where a theorem needs the length it is stated. An \<open>i32\<close> is its 32-bit pattern, read
  with \<open>sint\<close>. \<open>Panicked\<close> stands for the panic of an \<open>expect\<close>, \<open>unwrap\<close> or an index out
  of range, which ends the operation like an error does but is none of the source's variants.
\<close>

section \<open>Constants\<close>

abbreviation (input) IDM_LEN :: nat where "IDM_LEN \<equiv> 8"
abbreviation (input) MAX_SERVICE_CODES :: nat where "MAX_SERVICE_CODES \<equiv> 0x20"
abbreviation (input) MAX_RW_SERVICE_CODES :: nat where "MAX_RW_SERVICE_CODES \<equiv> 0x10"
abbreviation (input) MAX_BLOCK_COUNT :: nat where "MAX_BLOCK_COUNT \<equiv> 0xFF"
abbreviation (input) MAX_PACKET_LEN :: nat where "MAX_PACKET_LEN \<equiv> 0xFF"
abbreviation (input) MAX_NODE_CODES :: nat where "MAX_NODE_CODES \<equiv> 0x20"
abbreviation (input) MAX_NODE_PROPERTY_CODES :: nat where "MAX_NODE_PROPERTY_CODES \<equiv> 0x10"
abbreviation (input) BLOCK_SIZE :: nat where "BLOCK_SIZE \<equiv> 16"
abbreviation (input) DES_BLOCK_SIZE :: nat where "DES_BLOCK_SIZE \<equiv> 8"
abbreviation (input) DES_MAC_SIZE :: nat where "DES_MAC_SIZE \<equiv> 8"
abbreviation (input) V2_AES128_BLOCK_SIZE :: nat where "V2_AES128_BLOCK_SIZE \<equiv> 16"
abbreviation (input) V2_AES128_MAC_SIZE :: nat where "V2_AES128_MAC_SIZE \<equiv> 8"
abbreviation (input) POLLING_COMMAND_CODE :: u8 where "POLLING_COMMAND_CODE \<equiv> 0x00"
abbreviation (input) REQUEST_SERVICE_COMMAND_CODE :: u8 where "REQUEST_SERVICE_COMMAND_CODE \<equiv> 0x02"
abbreviation (input) REQUEST_RESPONSE_COMMAND_CODE :: u8 where "REQUEST_RESPONSE_COMMAND_CODE \<equiv> 0x04"
abbreviation (input) READ_WITHOUT_ENCRYPTION_COMMAND_CODE :: u8 where "READ_WITHOUT_ENCRYPTION_COMMAND_CODE \<equiv> 0x06"
abbreviation (input) WRITE_WITHOUT_ENCRYPTION_COMMAND_CODE :: u8 where "WRITE_WITHOUT_ENCRYPTION_COMMAND_CODE \<equiv> 0x08"
abbreviation (input) SEARCH_SERVICE_CODE_COMMAND_CODE :: u8 where "SEARCH_SERVICE_CODE_COMMAND_CODE \<equiv> 0x0A"
abbreviation (input) REQUEST_SYSTEM_CODE_COMMAND_CODE :: u8 where "REQUEST_SYSTEM_CODE_COMMAND_CODE \<equiv> 0x0C"
abbreviation (input) REQUEST_BLOCK_INFORMATION_COMMAND_CODE :: u8 where "REQUEST_BLOCK_INFORMATION_COMMAND_CODE \<equiv> 0x0E"
abbreviation (input) AUTHENTICATION1_COMMAND_CODE :: u8 where "AUTHENTICATION1_COMMAND_CODE \<equiv> 0x10"
abbreviation (input) AUTHENTICATION2_COMMAND_CODE :: u8 where "AUTHENTICATION2_COMMAND_CODE \<equiv> 0x12"
abbreviation (input) REQUEST_CODE_LIST_COMMAND_CODE :: u8 where "REQUEST_CODE_LIST_COMMAND_CODE \<equiv> 0x1A"
abbreviation (input) REQUEST_BLOCK_INFORMATION_EX_COMMAND_CODE :: u8 where "REQUEST_BLOCK_INFORMATION_EX_COMMAND_CODE \<equiv> 0x1E"
abbreviation (input) SET_PARAMETER_COMMAND_CODE :: u8 where "SET_PARAMETER_COMMAND_CODE \<equiv> 0x20"
abbreviation (input) GET_CONTAINER_ISSUE_INFORMATION_COMMAND_CODE :: u8 where "GET_CONTAINER_ISSUE_INFORMATION_COMMAND_CODE \<equiv> 0x22"
abbreviation (input) GET_AREA_INFORMATION_COMMAND_CODE :: u8 where "GET_AREA_INFORMATION_COMMAND_CODE \<equiv> 0x24"
abbreviation (input) GET_NODE_PROPERTY_COMMAND_CODE :: u8 where "GET_NODE_PROPERTY_COMMAND_CODE \<equiv> 0x28"
abbreviation (input) GET_CONTAINER_PROPERTY_COMMAND_CODE :: u8 where "GET_CONTAINER_PROPERTY_COMMAND_CODE \<equiv> 0x2E"
abbreviation (input) REQUEST_SERVICE_V2_COMMAND_CODE :: u8 where "REQUEST_SERVICE_V2_COMMAND_CODE \<equiv> 0x32"
abbreviation (input) GET_SYSTEM_STATUS_COMMAND_CODE :: u8 where "GET_SYSTEM_STATUS_COMMAND_CODE \<equiv> 0x38"
abbreviation (input) REQUEST_PRODUCT_INFORMATION_COMMAND_CODE :: u8 where "REQUEST_PRODUCT_INFORMATION_COMMAND_CODE \<equiv> 0x3A"
abbreviation (input) REQUEST_SPECIFICATION_VERSION_COMMAND_CODE :: u8 where "REQUEST_SPECIFICATION_VERSION_COMMAND_CODE \<equiv> 0x3C"
abbreviation (input) RESET_MODE_COMMAND_CODE :: u8 where "RESET_MODE_COMMAND_CODE \<equiv> 0x3E"
abbreviation (input) AUTHENTICATION1_V2_COMMAND_CODE :: u8 where "AUTHENTICATION1_V2_COMMAND_CODE \<equiv> 0x40"
abbreviation (input) AUTHENTICATION2_V2_COMMAND_CODE :: u8 where "AUTHENTICATION2_V2_COMMAND_CODE \<equiv> 0x42"
abbreviation (input) READ_V2_COMMAND_CODE :: u8 where "READ_V2_COMMAND_CODE \<equiv> 0x44"
abbreviation (input) WRITE_V2_COMMAND_CODE :: u8 where "WRITE_V2_COMMAND_CODE \<equiv> 0x46"
abbreviation (input) GET_CONTAINER_ID_COMMAND_CODE :: u8 where "GET_CONTAINER_ID_COMMAND_CODE \<equiv> 0x70"
abbreviation (input) READ_COMMAND_CODE :: u8 where "READ_COMMAND_CODE \<equiv> 0x14"
abbreviation (input) WRITE_COMMAND_CODE :: u8 where "WRITE_COMMAND_CODE \<equiv> 0x16"
abbreviation (input) REGISTER_ISSUE_ID_COMMAND_CODE :: u8 where "REGISTER_ISSUE_ID_COMMAND_CODE \<equiv> 0x80"
abbreviation (input) REGISTER_AREA_COMMAND_CODE :: u8 where "REGISTER_AREA_COMMAND_CODE \<equiv> 0x82"
abbreviation (input) REGISTER_SERVICE_COMMAND_CODE :: u8 where "REGISTER_SERVICE_COMMAND_CODE \<equiv> 0x84"
abbreviation (input) CHANGE_SYSTEM_BLOCK_COMMAND_CODE :: u8 where "CHANGE_SYSTEM_BLOCK_COMMAND_CODE \<equiv> 0x8E"
abbreviation (input) POLLING_RESPONSE_CODE :: u8 where "POLLING_RESPONSE_CODE \<equiv> 0x01"
abbreviation (input) REQUEST_SERVICE_RESPONSE_CODE :: u8 where "REQUEST_SERVICE_RESPONSE_CODE \<equiv> 0x03"
abbreviation (input) REQUEST_RESPONSE_RESPONSE_CODE :: u8 where "REQUEST_RESPONSE_RESPONSE_CODE \<equiv> 0x05"
abbreviation (input) READ_WITHOUT_ENCRYPTION_RESPONSE_CODE :: u8 where "READ_WITHOUT_ENCRYPTION_RESPONSE_CODE \<equiv> 0x07"
abbreviation (input) WRITE_WITHOUT_ENCRYPTION_RESPONSE_CODE :: u8 where "WRITE_WITHOUT_ENCRYPTION_RESPONSE_CODE \<equiv> 0x09"
abbreviation (input) SEARCH_SERVICE_CODE_RESPONSE_CODE :: u8 where "SEARCH_SERVICE_CODE_RESPONSE_CODE \<equiv> 0x0B"
abbreviation (input) REQUEST_SYSTEM_CODE_RESPONSE_CODE :: u8 where "REQUEST_SYSTEM_CODE_RESPONSE_CODE \<equiv> 0x0D"
abbreviation (input) REQUEST_BLOCK_INFORMATION_RESPONSE_CODE :: u8 where "REQUEST_BLOCK_INFORMATION_RESPONSE_CODE \<equiv> 0x0F"
abbreviation (input) AUTHENTICATION1_RESPONSE_CODE :: u8 where "AUTHENTICATION1_RESPONSE_CODE \<equiv> 0x11"
abbreviation (input) AUTHENTICATION2_RESPONSE_CODE :: u8 where "AUTHENTICATION2_RESPONSE_CODE \<equiv> 0x13"
abbreviation (input) REQUEST_CODE_LIST_RESPONSE_CODE :: u8 where "REQUEST_CODE_LIST_RESPONSE_CODE \<equiv> 0x1B"
abbreviation (input) REQUEST_BLOCK_INFORMATION_EX_RESPONSE_CODE :: u8 where "REQUEST_BLOCK_INFORMATION_EX_RESPONSE_CODE \<equiv> 0x1F"
abbreviation (input) SET_PARAMETER_RESPONSE_CODE :: u8 where "SET_PARAMETER_RESPONSE_CODE \<equiv> 0x21"
abbreviation (input) GET_CONTAINER_ISSUE_INFORMATION_RESPONSE_CODE :: u8 where "GET_CONTAINER_ISSUE_INFORMATION_RESPONSE_CODE \<equiv> 0x23"
abbreviation (input) GET_AREA_INFORMATION_RESPONSE_CODE :: u8 where "GET_AREA_INFORMATION_RESPONSE_CODE \<equiv> 0x25"
abbreviation (input) GET_NODE_PROPERTY_RESPONSE_CODE :: u8 where "GET_NODE_PROPERTY_RESPONSE_CODE \<equiv> 0x29"
abbreviation (input) GET_CONTAINER_PROPERTY_RESPONSE_CODE :: u8 where "GET_CONTAINER_PROPERTY_RESPONSE_CODE \<equiv> 0x2F"
abbreviation (input) REQUEST_SERVICE_V2_RESPONSE_CODE :: u8 where "REQUEST_SERVICE_V2_RESPONSE_CODE \<equiv> 0x33"
abbreviation (input) GET_SYSTEM_STATUS_RESPONSE_CODE :: u8 where "GET_SYSTEM_STATUS_RESPONSE_CODE \<equiv> 0x39"
abbreviation (input) REQUEST_PRODUCT_INFORMATION_RESPONSE_CODE :: u8 where "REQUEST_PRODUCT_INFORMATION_RESPONSE_CODE \<equiv> 0x3B"
abbreviation (input) REQUEST_SPECIFICATION_VERSION_RESPONSE_CODE :: u8 where "REQUEST_SPECIFICATION_VERSION_RESPONSE_CODE \<equiv> 0x3D"
abbreviation (input) RESET_MODE_RESPONSE_CODE :: u8 where "RESET_MODE_RESPONSE_CODE \<equiv> 0x3F"
abbreviation (input) AUTHENTICATION1_V2_RESPONSE_CODE :: u8 where "AUTHENTICATION1_V2_RESPONSE_CODE \<equiv> 0x41"
abbreviation (input) AUTHENTICATION2_V2_RESPONSE_CODE :: u8 where "AUTHENTICATION2_V2_RESPONSE_CODE \<equiv> 0x43"
abbreviation (input) READ_V2_RESPONSE_CODE :: u8 where "READ_V2_RESPONSE_CODE \<equiv> 0x45"
abbreviation (input) WRITE_V2_RESPONSE_CODE :: u8 where "WRITE_V2_RESPONSE_CODE \<equiv> 0x47"
abbreviation (input) GET_CONTAINER_ID_RESPONSE_CODE :: u8 where "GET_CONTAINER_ID_RESPONSE_CODE \<equiv> 0x71"

abbreviation (input) READ_WITHOUT_ENCRYPTION_RESPONSE_OVERHEAD :: nat where
  "READ_WITHOUT_ENCRYPTION_RESPONSE_OVERHEAD \<equiv> 1 + 1 + IDM_LEN + 1 + 1 + 1"

abbreviation (input) MAX_READ_WITHOUT_ENCRYPTION_BLOCK_COUNT :: nat where
  "MAX_READ_WITHOUT_ENCRYPTION_BLOCK_COUNT \<equiv>
     (MAX_PACKET_LEN - READ_WITHOUT_ENCRYPTION_RESPONSE_OVERHEAD) div BLOCK_SIZE"

definition POLLING_REQUEST_CODES :: "u8 list" where
  "POLLING_REQUEST_CODES = [0x00, 0x01, 0x02]"

definition POLLING_TIME_SLOTS :: "u8 list" where
  "POLLING_TIME_SLOTS = [0x00, 0x01, 0x03, 0x07, 0x0F]"

section \<open>Errors\<close>

datatype felica_error =
    Driver driver_error
  | UnsupportedTarget string
  | InvalidParameter string
  | Status (st_command: string) (st_flag1: u8) (st_flag2: u8) (st_detail: string)
  | AuthenticationRequired
  | AuthenticationFailed string
  | SecureSessionError string
  | Protocol string
  | Panicked string

section \<open>Services\<close>

datatype service_kind = Random | Cyclic | Purse

datatype service_attribute =
    RandomReadWrite | RandomReadOnly | CyclicReadWrite | CyclicReadOnly
  | PurseDirect | PurseCashback | PurseDecrement | PurseReadOnly

definition from_attribute_bits :: "u8 \<Rightarrow> service_attribute option" where
  "from_attribute_bits attribute =
     (let k = drop_bit 1 (attribute AND 0x3F) in
      if k = 0b00100 then Some RandomReadWrite
      else if k = 0b00101 then Some RandomReadOnly
      else if k = 0b00110 then Some CyclicReadWrite
      else if k = 0b00111 then Some CyclicReadOnly
      else if k = 0b01000 then Some PurseDirect
      else if k = 0b01001 then Some PurseCashback
      else if k = 0b01010 then Some PurseDecrement
      else if k = 0b01011 then Some PurseReadOnly
      else None)"

fun attribute_kind :: "service_attribute \<Rightarrow> service_kind" where
  "attribute_kind RandomReadWrite = Random"
| "attribute_kind RandomReadOnly = Random"
| "attribute_kind CyclicReadWrite = Cyclic"
| "attribute_kind CyclicReadOnly = Cyclic"
| "attribute_kind PurseDirect = Purse"
| "attribute_kind PurseCashback = Purse"
| "attribute_kind PurseDecrement = Purse"
| "attribute_kind PurseReadOnly = Purse"

definition allows_write :: "service_attribute \<Rightarrow> bool" where
  "allows_write a \<longleftrightarrow> \<not> (a = RandomReadOnly \<or> a = CyclicReadOnly \<or> a = PurseReadOnly)"

definition allows_decrement :: "service_attribute \<Rightarrow> bool" where
  "allows_decrement a \<longleftrightarrow> a = PurseCashback \<or> a = PurseDecrement"

definition allows_cashback :: "service_attribute \<Rightarrow> bool" where
  "allows_cashback a \<longleftrightarrow> a = PurseCashback"

fun attribute_label :: "service_attribute \<Rightarrow> string" where
  "attribute_label RandomReadWrite = ''Random read/write''"
| "attribute_label RandomReadOnly = ''Random read-only''"
| "attribute_label CyclicReadWrite = ''Cyclic read/write''"
| "attribute_label CyclicReadOnly = ''Cyclic read-only''"
| "attribute_label PurseDirect = ''Purse direct''"
| "attribute_label PurseCashback = ''Purse cashback/decrement''"
| "attribute_label PurseDecrement = ''Purse decrement''"
| "attribute_label PurseReadOnly = ''Purse read-only''"

datatype service_code = ServiceCode (code_raw: u16)

definition code_number :: "service_code \<Rightarrow> u16" where
  "code_number c = drop_bit 6 (code_raw c)"

definition code_attributes :: "service_code \<Rightarrow> u8" where
  "code_attributes c = ucast (code_raw c AND 0x3F)"

definition code_attribute :: "service_code \<Rightarrow> service_attribute option" where
  "code_attribute c = from_attribute_bits (code_attributes c)"

definition code_kind :: "service_code \<Rightarrow> service_kind option" where
  "code_kind c = map_option attribute_kind (code_attribute c)"

definition requires_key :: "service_code \<Rightarrow> bool" where
  "requires_key c \<longleftrightarrow> code_raw c AND 0x0001 = 0"

definition is_key_free_service :: "service_code \<Rightarrow> bool" where
  "is_key_free_service c \<longleftrightarrow> code_attribute c \<noteq> None \<and> \<not> requires_key c"

definition attributes_description :: "service_code \<Rightarrow> string option" where
  "attributes_description c =
     (let suffix = (if requires_key c then ''with key'' else ''without key'') in
      map_option (\<lambda>a. attribute_label a @ '' '' @ suffix) (code_attribute c))"

definition code_to_le_bytes :: "service_code \<Rightarrow> bytes" where
  "code_to_le_bytes c = u16_to_le (code_raw c)"

section \<open>Status flags\<close>

datatype status_flag1 = SF1_NormalCompletion | ErrorNotAssociatedWithList | ErrorAtListPosition u8

definition sf1_from_byte :: "u8 \<Rightarrow> status_flag1" where
  "sf1_from_byte v =
     (if v = 0x00 then SF1_NormalCompletion
      else if v = 0xFF then ErrorNotAssociatedWithList
      else ErrorAtListPosition v)"

fun error_byte :: "status_flag1 \<Rightarrow> u8 option" where
  "error_byte (ErrorAtListPosition v) = Some v"
| "error_byte _ = None"

definition ordinal_position :: "status_flag1 \<Rightarrow> u8 option" where
  "ordinal_position f = error_byte f"

text \<open>The loop pushes \<open>bit + 1\<close>, and \<open>bit + 9\<close> for bits 0 to 6, for every set bit, then sorts.\<close>

definition bitmap_positions :: "status_flag1 \<Rightarrow> nat list" where
  "bitmap_positions f = (case error_byte f of None \<Rightarrow> []
     | Some v \<Rightarrow> sort (concat (map (\<lambda>b.
         if \<not> bit v b then [] else if b \<le> 6 then [b + 1, b + 9] else [b + 1]) [0..<8])))"

datatype status_flag2 =
    SF2_NormalCompletion | PurseDecrementUnderflowOrCashbackOverflow
  | CashbackExceedsStoredValue | LimitPurseOutOfRange | MemoryError | MemoryWriteCountExceeded
  | ServiceOrNodeCountOutOfRange | BlockCountOutOfRange | ServiceListIndexOutOfRange
  | AreaOrServiceAttributeMismatch | AccessDeniedOrParameterMismatch | ReferencedNodeDoesNotExist
  | InvalidAccessMode | BlockNumberOutOfRange | IssuingWriteFailure | KeyChangeFailed
  | PackageParityOrMacInvalid | InvalidParameters | ServiceAlreadyExists | InvalidSystemCode
  | CyclicServiceWriteOverflow | PackageIdentifierInvalid | PackageParameterMismatch
  | IssuingCommandDisabled | NodeAttributeMismatch | SF2_Unknown u8

definition sf2_table :: "(u8 \<times> status_flag2) list" where
  "sf2_table =
    [(0x00, SF2_NormalCompletion), (0x01, PurseDecrementUnderflowOrCashbackOverflow),
     (0x02, CashbackExceedsStoredValue), (0x03, LimitPurseOutOfRange), (0x70, MemoryError),
     (0x71, MemoryWriteCountExceeded), (0xA1, ServiceOrNodeCountOutOfRange),
     (0xA2, BlockCountOutOfRange), (0xA3, ServiceListIndexOutOfRange),
     (0xA4, AreaOrServiceAttributeMismatch), (0xA5, AccessDeniedOrParameterMismatch),
     (0xA6, ReferencedNodeDoesNotExist), (0xA7, InvalidAccessMode),
     (0xA8, BlockNumberOutOfRange), (0xA9, IssuingWriteFailure), (0xAA, KeyChangeFailed),
     (0xAB, PackageParityOrMacInvalid), (0xAC, InvalidParameters), (0xAD, ServiceAlreadyExists),
     (0xAE, InvalidSystemCode), (0xAF, CyclicServiceWriteOverflow),
     (0xC0, PackageIdentifierInvalid), (0xC1, PackageParameterMismatch),
     (0xC2, IssuingCommandDisabled), (0xC3, NodeAttributeMismatch)]"

definition sf2_from_byte :: "u8 \<Rightarrow> status_flag2" where
  "sf2_from_byte v = (case map_of sf2_table v of Some f \<Rightarrow> f | None \<Rightarrow> SF2_Unknown v)"

section \<open>Block list elements\<close>

record block_list_element =
  block_number_or_key_version :: u16
  service_code_list_index :: u8
  access_mode :: u8

definition pack :: "block_list_element \<Rightarrow> bytes" where
  "pack e =
     (if block_number_or_key_version e < 256 then
        [0x80 OR push_bit 4 (access_mode e AND 0x07) OR (service_code_list_index e AND 0x0F),
         ucast (block_number_or_key_version e)]
      else
        [push_bit 4 (access_mode e AND 0x07) OR (service_code_list_index e AND 0x0F)]
        @ u16_to_le (block_number_or_key_version e))"

section \<open>Command and response field types\<close>

datatype search_service_code_result =
    SearchService service_code
  | SearchArea (sa_area_code: u16) (sa_end_service_code: u16)

record area_code_range =
  acr_area_code :: u16
  acr_end_service_code :: u16

record container_information =
  format_version_carrier_information :: bytes
  mobile_phone_model_information :: bytes

datatype container_property = Property1 | Property2 | UnknownProperty u16

fun to_index :: "container_property \<Rightarrow> u16" where
  "to_index Property1 = 0x0000"
| "to_index Property2 = 0x0001"
| "to_index (UnknownProperty i) = i"

definition from_index :: "u16 \<Rightarrow> container_property" where
  "from_index i = (if i = 0x0000 then Property1 else if i = 0x0001 then Property2
     else UnknownProperty i)"

datatype node_property_type = ValueLimitedPurseServiceType | MacCommunicationType

fun npt_to_byte :: "node_property_type \<Rightarrow> u8" where
  "npt_to_byte ValueLimitedPurseServiceType = 0x00"
| "npt_to_byte MacCommunicationType = 0x01"

definition npt_from_byte :: "u8 \<Rightarrow> node_property_type option" where
  "npt_from_byte v = (if v = 0x00 then Some ValueLimitedPurseServiceType
     else if v = 0x01 then Some MacCommunicationType else None)"

datatype node_property =
    ValueLimitedPurseService (vl_enabled: bool) (vl_upper_limit: u32) (vl_lower_limit: u32)
      (vl_generation_number: u8)
  | MacCommunication (mac_enabled: bool)

fun property_type :: "node_property \<Rightarrow> node_property_type" where
  "property_type (ValueLimitedPurseService _ _ _ _) = ValueLimitedPurseServiceType"
| "property_type (MacCommunication _) = MacCommunicationType"

fun np_to_bytes :: "node_property \<Rightarrow> bytes" where
  "np_to_bytes (ValueLimitedPurseService enabled upper lower generation) =
     [if enabled then 0x01 else 0x00] @ u32_to_le upper @ u32_to_le lower @ [generation]"
| "np_to_bytes (MacCommunication enabled) = [if enabled then 0x01 else 0x00]"

datatype set_parameter_encryption_type = SrmType1 | SrmType2

fun spe_to_byte :: "set_parameter_encryption_type \<Rightarrow> u8" where
  "spe_to_byte SrmType1 = 0x00"
| "spe_to_byte SrmType2 = 0x01"

definition spe_from_byte :: "u8 \<Rightarrow> set_parameter_encryption_type option" where
  "spe_from_byte v = (if v = 0x00 then Some SrmType1 else if v = 0x01 then Some SrmType2 else None)"

datatype set_parameter_packet_type = NodeCodeSize2 | NodeCodeSize4

fun spp_to_byte :: "set_parameter_packet_type \<Rightarrow> u8" where
  "spp_to_byte NodeCodeSize2 = 0x00"
| "spp_to_byte NodeCodeSize4 = 0x01"

definition spp_from_byte :: "u8 \<Rightarrow> set_parameter_packet_type option" where
  "spp_from_byte v =
     (if v = 0x00 then Some NodeCodeSize2 else if v = 0x01 then Some NodeCodeSize4 else None)"

record request_code_list_result =
  continue_flag :: bool
  rcl_areas :: "area_code_range list"
  rcl_services :: "service_code list"

record request_block_information_ex_result =
  assigned_block_counts :: "u16 list"
  free_block_counts :: "u16 list"

record get_area_information_result =
  gai_node_code :: u16
  gai_data :: bytes

record get_system_status_result =
  gss_flag :: u8
  gss_data :: bytes

record option_version =
  major :: u8
  minor :: u8
  patch :: u8

definition option_version_new :: "u8 \<Rightarrow> u8 \<Rightarrow> u8 \<Rightarrow> option_version" where
  "option_version_new a b c =
     \<lparr>major = a AND 0x0F, minor = b AND 0x0F, patch = c AND 0x0F\<rparr>"

definition is_valid_bcd :: "option_version \<Rightarrow> bool" where
  "is_valid_bcd v \<longleftrightarrow> major v \<le> 9 \<and> minor v \<le> 9 \<and> patch v \<le> 9"

definition ov_from_le_bytes :: "u8 \<Rightarrow> u8 \<Rightarrow> option_version option" where
  "ov_from_le_bytes b0 b1 =
     (let version = \<lparr>major = b1 AND 0x0F, minor = drop_bit 4 b0 AND 0x0F, patch = b0 AND 0x0F\<rparr> in
      if b1 AND 0xF0 = 0x80 \<and> is_valid_bcd version then Some version else None)"

definition ov_to_le_bytes :: "option_version \<Rightarrow> bytes" where
  "ov_to_le_bytes v =
     [push_bit 4 (minor v AND 0x0F) OR (patch v AND 0x0F), 0x80 OR (major v AND 0x0F)]"

record specification_version =
  format_version :: u8
  basic_version :: option_version
  option_versions :: "option_version list"

definition sv_to_bytes :: "specification_version \<Rightarrow> bytes" where
  "sv_to_bytes v =
     [format_version v] @ ov_to_le_bytes (basic_version v) @ [u8_of (length (option_versions v))]
     @ concat (map ov_to_le_bytes (option_versions v))"

datatype request_service_v2_key_version = Single u16 | Dual (kv_aes: u16) (kv_des: u16)

definition normalize_key_version :: "u16 \<Rightarrow> u16 option" where
  "normalize_key_version v = (if v = 0xFFFF then None else Some v)"

fun primary :: "request_service_v2_key_version \<Rightarrow> u16 option" where
  "primary (Single v) = normalize_key_version v"
| "primary (Dual aes _) = normalize_key_version aes"

fun secondary :: "request_service_v2_key_version \<Rightarrow> u16 option" where
  "secondary (Single _) = None"
| "secondary (Dual _ des) = normalize_key_version des"

fun primary_raw :: "request_service_v2_key_version \<Rightarrow> u16" where
  "primary_raw (Single v) = v"
| "primary_raw (Dual aes _) = aes"

fun secondary_raw :: "request_service_v2_key_version \<Rightarrow> u16 option" where
  "secondary_raw (Single _) = None"
| "secondary_raw (Dual _ des) = Some des"

record request_service_v2_result =
  crypto_id :: u8
  v2_key_versions :: "request_service_v2_key_version list"

record register_result =
  remaining_blocks :: u16

end
