(* ===== verification/Payload.thy ===== *)
theory Payload
  imports Types
begin

text \<open>
  The payload writer of \<open>src/felica_standard/payload.rs\<close> and the length prefix of
  \<open>command/mod.rs\<close>. The writer only ever appends to its buffer, so each of its methods is the
  byte string it appends and an encoder is their concatenation in the order of the calls.
  \<open>push_count\<close> can panic and is therefore a result.
\<close>

section \<open>The writer's methods\<close>

definition response :: "u8 \<Rightarrow> bytes \<Rightarrow> bytes" where
  "response code idm = [code] @ idm"

definition status_flags :: "u8 \<Rightarrow> u8 \<Rightarrow> bytes" where
  "status_flags sf1 sf2 = [sf1, sf2]"

definition push_flag :: "bool \<Rightarrow> bytes" where
  "push_flag v = [if v then 1 else 0]"

definition push_count :: "nat \<Rightarrow> felica_error + bytes" where
  "push_count len = (if len \<le> 255 then Inr [u8_of len]
     else Inl (Panicked ''list length is bounded well below 255''))"

definition extend_u16_list_le :: "u16 list \<Rightarrow> bytes" where
  "extend_u16_list_le vs = concat (map u16_to_le vs)"

definition extend_counted_u16_le :: "u16 list \<Rightarrow> felica_error + bytes" where
  "extend_counted_u16_le vs = bindE (push_count (length vs)) (\<lambda>c. Inr (c @ extend_u16_list_le vs))"

definition extend_counted_u16_be :: "u16 list \<Rightarrow> felica_error + bytes" where
  "extend_counted_u16_be vs =
     bindE (push_count (length vs)) (\<lambda>c. Inr (c @ concat (map u16_to_be vs)))"

definition extend_service_codes :: "service_code list \<Rightarrow> bytes" where
  "extend_service_codes cs = concat (map code_to_le_bytes cs)"

definition extend_counted_service_codes :: "service_code list \<Rightarrow> felica_error + bytes" where
  "extend_counted_service_codes cs =
     bindE (push_count (length cs)) (\<lambda>c. Inr (c @ extend_service_codes cs))"

definition extend_block_list :: "block_list_element list \<Rightarrow> bytes" where
  "extend_block_list bs = concat (map pack bs)"

definition extend_counted_block_list :: "block_list_element list \<Rightarrow> felica_error + bytes" where
  "extend_counted_block_list bs =
     bindE (push_count (length bs)) (\<lambda>c. Inr (c @ extend_block_list bs))"

definition frame_with_length_prefix :: "bytes \<Rightarrow> felica_error + bytes" where
  "frame_with_length_prefix p =
     (let frame_len = length p + 1 in
      if frame_len > MAX_PACKET_LEN then
        Inl (Protocol (''FeliCa packet would be '' @ dec frame_len @
          '' bytes, but the one-byte data length field caps a packet at '' @
          dec MAX_PACKET_LEN @ '' bytes''))
      else Inr (u8_of frame_len # p))"

section \<open>The invariants responses share\<close>

definition ensure_omitted_on_error :: "string \<Rightarrow> string \<Rightarrow> u8 \<Rightarrow> bool \<Rightarrow> felica_error + unit" where
  "ensure_omitted_on_error what noun sf1 has_result =
     (if sf1 \<noteq> 0 \<and> has_result
      then Inl (Protocol (what @ '' '' @ noun @ '' must be omitted on error''))
      else Inr ())"

definition for_success ::
    "string \<Rightarrow> string \<Rightarrow> u8 \<Rightarrow> 'r option \<Rightarrow> felica_error + 'r option" where
  "for_success what noun sf1 result =
     bindE (ensure_omitted_on_error what noun sf1 (result \<noteq> None)) (\<lambda>_.
     if sf1 \<noteq> 0 then Inr None
     else bindE (ok_or result (Protocol (what @ '' '' @ noun @ '' is missing on success''))) (\<lambda>r.
       Inr (Some r)))"

definition ensure_count_in_range :: "string \<Rightarrow> nat \<Rightarrow> nat \<Rightarrow> felica_error + unit" where
  "ensure_count_in_range what len limit =
     (if len = 0 \<or> len > limit then Inl (Protocol (what @ '' out of range'')) else Inr ())"

definition ensure_fits_in_count :: "string \<Rightarrow> nat \<Rightarrow> felica_error + unit" where
  "ensure_fits_in_count what len =
     (if len > 255 then Inl (Protocol (what @ '' out of range'')) else Inr ())"

section \<open>Lemmas\<close>

lemma push_count_Inr [simp, res_simps]: "push_count n = Inr bs \<longleftrightarrow> n \<le> 255 \<and> bs = [u8_of n]"
  by (auto simp: push_count_def)

lemma push_count_ok: "n \<le> 255 \<Longrightarrow> push_count n = Inr [u8_of n]"
  by simp

lemma frame_with_length_prefix_Inr [res_simps]:
  "frame_with_length_prefix p = Inr f \<longleftrightarrow> length p < 255 \<and> f = u8_of (length p + 1) # p"
  by (auto simp: frame_with_length_prefix_def Let_def)

lemma for_success_Inr [res_simps]:
  "for_success what noun sf1 result = Inr r \<longleftrightarrow>
     (sf1 \<noteq> 0 \<and> result = None \<and> r = None \<or> sf1 = 0 \<and> result \<noteq> None \<and> r = result)"
  by (cases result) (auto simp: for_success_def ensure_omitted_on_error_def)

lemma ensure_count_in_range_Inr [res_simps]:
  "ensure_count_in_range what len limit = Inr u \<longleftrightarrow> 1 \<le> len \<and> len \<le> limit"
  by (auto simp: ensure_count_in_range_def)

lemma ensure_fits_in_count_Inr [res_simps]:
  "ensure_fits_in_count what len = Inr u \<longleftrightarrow> len \<le> 255"
  by (auto simp: ensure_fits_in_count_def)

lemma length_extend_u16_list_le [simp]: "length (extend_u16_list_le vs) = 2 * length vs"
  by (induction vs) (auto simp: extend_u16_list_le_def)

lemma length_extend_service_codes [simp]: "length (extend_service_codes cs) = 2 * length cs"
  by (induction cs) (auto simp: extend_service_codes_def code_to_le_bytes_def)

end
