(* ===== verification/Secure_Des.thy ===== *)
theory Secure_Des
  imports Payload
begin

text \<open>
  DES secure messaging: \<open>src/felica_standard/secure/primitives.rs\<close> (its DES half),
  \<open>secure/des.rs\<close>, and the DES branch of the command encryption in \<open>secure/mod.rs\<close>. The block
  ciphers are the crates \<open>des\<close> and \<open>cbc\<close>, a parameter \<open>crypto\<close> of every definition that calls
  them; \<open>crypto_ok\<close> states what they document, that decryption inverts encryption and both keep
  the length. Keys, blocks and transaction IDs are byte lists of the array's length.
\<close>

section \<open>The cipher crates\<close>

record crypto =
  des_encrypt :: "bytes \<Rightarrow> bytes \<Rightarrow> bytes"
  des_decrypt :: "bytes \<Rightarrow> bytes \<Rightarrow> bytes"
  tdes_ede3_encrypt :: "bytes \<Rightarrow> bytes \<Rightarrow> bytes"
  tdes_ede3_decrypt :: "bytes \<Rightarrow> bytes \<Rightarrow> bytes"
  des_cbc_encrypt :: "bytes \<Rightarrow> bytes \<Rightarrow> bytes \<Rightarrow> bytes"
  des_cbc_decrypt :: "bytes \<Rightarrow> bytes \<Rightarrow> bytes \<Rightarrow> bytes"

definition inverse_on :: "(bytes \<Rightarrow> bool) \<Rightarrow> (bytes \<Rightarrow> bytes) \<Rightarrow> (bytes \<Rightarrow> bytes) \<Rightarrow> bool" where
  "inverse_on D f g \<longleftrightarrow> (\<forall>b. D b \<longrightarrow> length (f b) = length b \<and> g (f b) = b)"

definition crypto_ok :: "crypto \<Rightarrow> bool" where
  "crypto_ok C \<longleftrightarrow>
     (\<forall>k. length k = 8 \<longrightarrow>
        inverse_on (\<lambda>b. length b = 8) (des_encrypt C k) (des_decrypt C k) \<and>
        inverse_on (\<lambda>b. length b = 8) (des_decrypt C k) (des_encrypt C k)) \<and>
     (\<forall>k. length k = 24 \<longrightarrow>
        inverse_on (\<lambda>b. length b = 8) (tdes_ede3_encrypt C k) (tdes_ede3_decrypt C k) \<and>
        inverse_on (\<lambda>b. length b = 8) (tdes_ede3_decrypt C k) (tdes_ede3_encrypt C k)) \<and>
     (\<forall>k iv. length k = 8 \<and> length iv = 8 \<longrightarrow>
        inverse_on (\<lambda>d. length d mod 8 = 0) (des_cbc_encrypt C k iv) (des_cbc_decrypt C k iv) \<and>
        inverse_on (\<lambda>d. length d mod 8 = 0) (des_cbc_decrypt C k iv) (des_cbc_encrypt C k iv))"

section \<open>Primitives\<close>

abbreviation (input) TRANSACTION_NUMBER_SIZE :: nat where "TRANSACTION_NUMBER_SIZE \<equiv> 2"
abbreviation (input) TRANSACTION_ID_SIZE :: nat where "TRANSACTION_ID_SIZE \<equiv> 6"
abbreviation (input) DES_SECURE_HEADER_SIZE :: nat where "DES_SECURE_HEADER_SIZE \<equiv> 8"

definition ct_eq :: "bytes \<Rightarrow> bytes \<Rightarrow> bool" where
  "ct_eq a b \<longleftrightarrow> a = b"

definition xor_block :: "bytes \<Rightarrow> bytes \<Rightarrow> bytes" where
  "xor_block a b = map2 (XOR) a b"

definition pad_to_block_size_pkcs7 :: "bytes \<Rightarrow> nat \<Rightarrow> bytes" where
  "pad_to_block_size_pkcs7 data block_size =
     (let remainder = length data mod block_size in
      if remainder \<noteq> 0 then
        let pad_len = u8_of (block_size - remainder) in data @ replicate (unat pad_len) pad_len
      else data)"

definition pad_to_des_block_size :: "bytes \<Rightarrow> bytes" where
  "pad_to_des_block_size data = pad_to_block_size_pkcs7 data DES_BLOCK_SIZE"

definition encrypt_des_block :: "crypto \<Rightarrow> bytes \<Rightarrow> bytes \<Rightarrow> bytes" where
  "encrypt_des_block C data key = des_encrypt C key data"

definition decrypt_des_block :: "crypto \<Rightarrow> bytes \<Rightarrow> bytes \<Rightarrow> bytes" where
  "decrypt_des_block C data key = des_decrypt C key data"

definition encrypt_3des_block :: "crypto \<Rightarrow> bytes \<Rightarrow> bytes \<Rightarrow> bytes \<Rightarrow> bytes" where
  "encrypt_3des_block C data key1 key2 = tdes_ede3_encrypt C (key1 @ key2 @ key1) data"

definition decrypt_3des_block :: "crypto \<Rightarrow> bytes \<Rightarrow> bytes \<Rightarrow> bytes \<Rightarrow> bytes" where
  "decrypt_3des_block C data key1 key2 = tdes_ede3_decrypt C (key1 @ key2 @ key1) data"

definition encrypt_des_cbc_zero_iv :: "crypto \<Rightarrow> bytes \<Rightarrow> bytes \<Rightarrow> string + bytes" where
  "encrypt_des_cbc_zero_iv C data key =
     (if length data mod DES_BLOCK_SIZE \<noteq> 0 then
        Inl ''secure command payload length must be multiple of 8 bytes''
      else Inr (des_cbc_encrypt C key (replicate DES_BLOCK_SIZE 0) data))"

definition decrypt_des_cbc_zero_iv :: "crypto \<Rightarrow> bytes \<Rightarrow> bytes \<Rightarrow> string + bytes" where
  "decrypt_des_cbc_zero_iv C data key =
     (if length data mod DES_BLOCK_SIZE \<noteq> 0 then
        Inl ''authentication2 response length must be multiple of 8 bytes''
      else Inr (des_cbc_decrypt C key (replicate DES_BLOCK_SIZE 0) data))"

text \<open>\<open>slice::chunks\<close>.\<close>

function chunks :: "nat \<Rightarrow> 'a list \<Rightarrow> 'a list list" where
  "chunks n xs = (if n = 0 \<or> xs = [] then [] else take n xs # chunks n (drop n xs))"
  by pat_completeness auto
termination by (relation "measure (length \<circ> snd)") auto

declare chunks.simps [simp del]

section \<open>Packet MACs\<close>

definition calculate_command_mac_des :: "crypto \<Rightarrow> u8 \<Rightarrow> bytes \<Rightarrow> string + bytes" where
  "calculate_command_mac_des C command_code p =
     (if length p mod DES_BLOCK_SIZE \<noteq> 0 then Inl ''secure command payload must be multiple of 8 bytes''
      else
        let total_length = 2 + length p + DES_MAC_SIZE in
        if total_length > 255 then Inl ''secure command payload exceeds maximum frame length''
        else Inr (foldl (\<lambda>mac block. encrypt_des_block C mac block)
          ([u8_of total_length, command_code] @ replicate 6 0) (chunks DES_BLOCK_SIZE p)))"

definition check_packet_mac_des :: "crypto \<Rightarrow> bytes \<Rightarrow> u8 \<Rightarrow> bool" where
  "check_packet_mac_des C data expected_response_code =
     (if length data mod DES_BLOCK_SIZE \<noteq> 0 \<or> length data < DES_BLOCK_SIZE + DES_MAC_SIZE then False
      else
        let p = take (length data - DES_MAC_SIZE) data; mac = drop (length data - DES_MAC_SIZE) data in
        if p = [] then False
        else
          let current = foldl (\<lambda>current block. decrypt_des_block C current block) mac
                (rev (chunks DES_BLOCK_SIZE p));
              expected = [u8_of (length data) + 2, expected_response_code] @ replicate 6 0 in
          ct_eq current expected)"

section \<open>Mutual authentication\<close>

record authentication_context =
  ac_l :: bytes
  ac_alpha :: bytes
  ac_beta :: bytes

definition authentication_context_new :: "crypto \<Rightarrow> bytes \<Rightarrow> bytes \<Rightarrow> bytes \<Rightarrow> authentication_context" where
  "authentication_context_new C idm group_service_key user_service_key =
     (let l = xor_block group_service_key idm;
          alpha = encrypt_des_block C user_service_key l;
          beta = encrypt_des_block C l alpha in
      \<lparr>ac_l = l, ac_alpha = alpha, ac_beta = beta\<rparr>)"

definition decrypt_challenge1a :: "crypto \<Rightarrow> authentication_context \<Rightarrow> bytes \<Rightarrow> bytes" where
  "decrypt_challenge1a C x challenge_1a = decrypt_3des_block C challenge_1a (ac_alpha x) (ac_l x)"

definition encrypt_challenge1a :: "crypto \<Rightarrow> authentication_context \<Rightarrow> bytes \<Rightarrow> bytes" where
  "encrypt_challenge1a C x random_1 = encrypt_3des_block C random_1 (ac_alpha x) (ac_l x)"

definition encrypt_challenge1b :: "crypto \<Rightarrow> authentication_context \<Rightarrow> bytes \<Rightarrow> bytes" where
  "encrypt_challenge1b C x random_1 = encrypt_3des_block C random_1 (ac_l x) (ac_beta x)"

definition encrypt_challenge2a :: "crypto \<Rightarrow> authentication_context \<Rightarrow> bytes \<Rightarrow> bytes" where
  "encrypt_challenge2a C x random_2 = encrypt_3des_block C random_2 (ac_l x) (ac_beta x)"

definition verify_challenge1b :: "crypto \<Rightarrow> authentication_context \<Rightarrow> bytes \<Rightarrow> bytes \<Rightarrow> bool" where
  "verify_challenge1b C x random_1 challenge_1b = ct_eq (encrypt_challenge1b C x random_1) challenge_1b"

definition decrypt_challenge2a :: "crypto \<Rightarrow> authentication_context \<Rightarrow> bytes \<Rightarrow> bytes" where
  "decrypt_challenge2a C x challenge_2a = decrypt_3des_block C challenge_2a (ac_l x) (ac_beta x)"

definition encrypt_challenge2b :: "crypto \<Rightarrow> authentication_context \<Rightarrow> bytes \<Rightarrow> bytes" where
  "encrypt_challenge2b C x random_2 = encrypt_3des_block C random_2 (ac_alpha x) (ac_l x)"

definition generate_service_keys_des ::
    "crypto \<Rightarrow> bytes \<Rightarrow> bytes list \<Rightarrow> bytes list \<Rightarrow> bytes \<times> bytes" where
  "generate_service_keys_des C system_key area_keys service_keys =
     (let group_service_key = foldl (\<lambda>current key. encrypt_des_block C current key) system_key area_keys;
          user_service_key = foldl (\<lambda>current key. encrypt_des_block C current key)
            group_service_key service_keys in
      (group_service_key, user_service_key))"

definition build_authentication2_payload :: "u16 \<Rightarrow> bytes \<Rightarrow> bytes \<Rightarrow> bytes \<Rightarrow> bytes" where
  "build_authentication2_payload transaction_number transaction_id idi pmi =
     u16_to_le transaction_number @ transaction_id @ idi @ pmi"

text \<open>Padding, MAC and encryption, the sequence that four operations of the source share.\<close>

definition seal :: "crypto \<Rightarrow> u8 \<Rightarrow> bytes \<Rightarrow> bytes \<Rightarrow> string + bytes" where
  "seal C code p key =
     (let padded = pad_to_des_block_size p in
      bindE (calculate_command_mac_des C code padded) (\<lambda>mac.
      encrypt_des_cbc_zero_iv C (padded @ mac) key))"

definition encrypt_authentication2_payload :: "crypto \<Rightarrow> bytes \<Rightarrow> bytes \<Rightarrow> bytes option" where
  "encrypt_authentication2_payload C p session_key = ok (seal C 0x13 p session_key)"

definition auth2_decrypt_payload :: "crypto \<Rightarrow> bytes \<Rightarrow> bytes \<Rightarrow> felica_error + bytes" where
  "auth2_decrypt_payload C encrypted_payload session_key =
     bindE (map_err SecureSessionError (decrypt_des_cbc_zero_iv C encrypted_payload session_key)) (\<lambda>plaintext.
     if \<not> check_packet_mac_des C plaintext 0x13 then
       Inl (SecureSessionError ''authentication2 response MAC verification failed'')
     else if length plaintext < DES_MAC_SIZE then
       Inl (Protocol ''authentication2 response payload too short'')
     else Inr (take (length plaintext - DES_MAC_SIZE) plaintext))"

section \<open>Secure commands and responses\<close>

text \<open>The reader's side of a command: \<open>build_payload_des\<close> and the DES branch of \<open>encrypt_command\<close>.\<close>

definition build_payload_des :: "u16 \<Rightarrow> bytes \<Rightarrow> bytes \<Rightarrow> bytes" where
  "build_payload_des transaction_number transaction_id command_payload =
     u16_to_le transaction_number @ transaction_id @ command_payload"

definition encrypt_command_des :: "crypto \<Rightarrow> u8 \<Rightarrow> bytes \<Rightarrow> bytes \<Rightarrow> felica_error + bytes" where
  "encrypt_command_des C command_code p key = map_err Protocol (seal C command_code p key)"

record secure_response =
  sr_transaction_number :: u16
  sr_transaction_id :: bytes
  sr_payload :: bytes

definition secure_response_parse :: "crypto \<Rightarrow> bytes \<Rightarrow> u8 \<Rightarrow> felica_error + secure_response" where
  "secure_response_parse C data response_code =
     (if length data < DES_BLOCK_SIZE * 2 then
        Inl (Protocol ''secure response shorter than minimum encrypted payload'')
      else if \<not> check_packet_mac_des C data response_code then
        Inl (SecureSessionError ''secure response MAC verification failed'')
      else Inr \<lparr>sr_transaction_number = u16_from_le (data ! 0) (data ! 1),
        sr_transaction_id = take TRANSACTION_ID_SIZE (drop TRANSACTION_NUMBER_SIZE data),
        sr_payload = drop DES_SECURE_HEADER_SIZE data\<rparr>)"

definition strip_des_response_mac :: "bytes \<Rightarrow> felica_error + bytes" where
  "strip_des_response_mac payload_with_mac =
     (if length payload_with_mac < DES_MAC_SIZE then
        Inl (Protocol ''secure response payload shorter than MAC'')
      else Inr (take (length payload_with_mac - DES_MAC_SIZE) payload_with_mac))"

definition decrypt_secure_response_des ::
    "crypto \<Rightarrow> u8 \<Rightarrow> bytes \<Rightarrow> bytes \<Rightarrow> bytes \<Rightarrow> felica_error + u16 \<times> bytes" where
  "decrypt_secure_response_des C response_code expected_transaction_id key encrypted_data =
     bindE (map_err Protocol (decrypt_des_cbc_zero_iv C encrypted_data key)) (\<lambda>plaintext.
     bindE (secure_response_parse C plaintext response_code) (\<lambda>parsed.
     if sr_transaction_id parsed \<noteq> expected_transaction_id then
       Inl (SecureSessionError ''secure response transaction ID mismatch'')
     else
       bindE (strip_des_response_mac (sr_payload parsed)) (\<lambda>p.
       Inr (sr_transaction_number parsed, p))))"

definition build_secure_response_frame_des ::
    "crypto \<Rightarrow> u8 \<Rightarrow> u16 \<Rightarrow> bytes \<Rightarrow> bytes \<Rightarrow> bytes \<Rightarrow> bytes option" where
  "build_secure_response_frame_des C response_code transaction_number transaction_id encryption_key
      response_payload =
     (case seal C response_code (u16_to_le transaction_number @ transaction_id @ response_payload)
        encryption_key of
        Inl _ \<Rightarrow> None
      | Inr encrypted \<Rightarrow> ok (frame_with_length_prefix ([response_code] @ encrypted)))"

definition generate_registration_package_des :: "crypto \<Rightarrow> bytes \<Rightarrow> bytes \<Rightarrow> felica_error + bytes" where
  "generate_registration_package_des C package_plain package_key =
     (if package_plain = [] \<or> length package_plain mod DES_BLOCK_SIZE \<noteq> 0 then
        Inl (InvalidParameter ''registration package must be multiple of 8 bytes'')
      else
        let mac_key = map (\<lambda>b. b XOR 0xFF) package_key in
        bindE (map_err Protocol (encrypt_des_cbc_zero_iv C package_plain mac_key)) (\<lambda>encrypted_plain.
        if length encrypted_plain < DES_BLOCK_SIZE then
          Inl (Protocol ''registration package MAC calculation failed'')
        else
          let mac = drop (length encrypted_plain - DES_BLOCK_SIZE) encrypted_plain in
          map_err Protocol (encrypt_des_cbc_zero_iv C (package_plain @ mac) package_key)))"

section \<open>Lemmas on the ciphers, chunks and padding\<close>

lemma inverse_onD: "inverse_on D f g \<Longrightarrow> D b \<Longrightarrow> length (f b) = length b \<and> g (f b) = b"
  unfolding inverse_on_def by blast

lemma crypto_okD:
  assumes "crypto_ok C"
  shows "length k = 8 \<Longrightarrow> inverse_on (\<lambda>b. length b = 8) (des_encrypt C k) (des_decrypt C k)"
    and "length k = 8 \<Longrightarrow> inverse_on (\<lambda>b. length b = 8) (des_decrypt C k) (des_encrypt C k)"
    and "length k = 24 \<Longrightarrow> inverse_on (\<lambda>b. length b = 8) (tdes_ede3_encrypt C k) (tdes_ede3_decrypt C k)"
    and "length k = 24 \<Longrightarrow> inverse_on (\<lambda>b. length b = 8) (tdes_ede3_decrypt C k) (tdes_ede3_encrypt C k)"
    and "length k = 8 \<Longrightarrow> length iv = 8 \<Longrightarrow>
      inverse_on (\<lambda>d. length d mod 8 = 0) (des_cbc_encrypt C k iv) (des_cbc_decrypt C k iv)"
    and "length k = 8 \<Longrightarrow> length iv = 8 \<Longrightarrow>
      inverse_on (\<lambda>d. length d mod 8 = 0) (des_cbc_decrypt C k iv) (des_cbc_encrypt C k iv)"
  using assms unfolding crypto_ok_def by blast+

lemma des_inverse:
  assumes "crypto_ok C" and "length k = 8" and "length b = 8"
  shows "length (encrypt_des_block C b k) = 8" and "decrypt_des_block C (encrypt_des_block C b k) k = b"
    and "length (decrypt_des_block C b k) = 8" and "encrypt_des_block C (decrypt_des_block C b k) k = b"
  using inverse_onD [OF crypto_okD(1) [OF assms(1,2)], of b]
    inverse_onD [OF crypto_okD(2) [OF assms(1,2)], of b] assms(3)
  by (simp_all add: encrypt_des_block_def decrypt_des_block_def)

lemma tdes_inverse:
  assumes "crypto_ok C" and "length k1 = 8" and "length k2 = 8" and "length b = 8"
  shows "length (encrypt_3des_block C b k1 k2) = 8"
    and "decrypt_3des_block C (encrypt_3des_block C b k1 k2) k1 k2 = b"
    and "length (decrypt_3des_block C b k1 k2) = 8"
    and "encrypt_3des_block C (decrypt_3des_block C b k1 k2) k1 k2 = b"
  using inverse_onD [OF crypto_okD(3) [OF assms(1), of "k1 @ k2 @ k1"], of b]
    inverse_onD [OF crypto_okD(4) [OF assms(1), of "k1 @ k2 @ k1"], of b] assms(2-4)
  by (simp_all add: encrypt_3des_block_def decrypt_3des_block_def)

lemma cbc_inverse:
  assumes "crypto_ok C" and "length k = 8" and "encrypt_des_cbc_zero_iv C d k = Inr e"
  shows "length e = length d" and "decrypt_des_cbc_zero_iv C e k = Inr d"
  using assms inverse_onD [OF crypto_okD(5) [OF assms(1,2), of "replicate 8 0"], of d]
  by (auto simp: encrypt_des_cbc_zero_iv_def decrypt_des_cbc_zero_iv_def split: if_splits)

lemma cbc_decrypt_length:
  assumes "crypto_ok C" and "length k = 8" and "decrypt_des_cbc_zero_iv C e k = Inr d"
  shows "length d = length e"
  using assms inverse_onD [OF crypto_okD(6) [OF assms(1,2), of "replicate 8 0"], of e]
  by (auto simp: decrypt_des_cbc_zero_iv_def split: if_splits)

lemma chunks_Nil [simp]: "chunks n [] = []"
  by (simp add: chunks.simps)

lemma chunks_lengths: "length xs mod n = 0 \<Longrightarrow> c \<in> set (chunks n xs) \<Longrightarrow> length c = n"
proof (induction n xs rule: chunks.induct)
  case (1 n xs)
  show ?case
  proof (cases "n = 0 \<or> xs = []")
    case True
    then have "chunks n xs = []" by (simp add: chunks.simps [of n xs])
    then show ?thesis using "1.prems"(2) by simp
  next
    case False
    then have "n \<le> length xs" using "1.prems"(1)
      by (cases "length xs < n") auto
    have rest: "length (drop n xs) mod n = 0"
      using "1.prems"(1) le_mod_geq [OF \<open>n \<le> length xs\<close>] by simp
    have "c = take n xs \<or> c \<in> set (chunks n (drop n xs))"
      using "1.prems"(2) False by (simp add: chunks.simps [of n xs])
    then show ?thesis
      using "1.IH" [OF False rest] \<open>n \<le> length xs\<close> by auto
  qed
qed

lemma pad_aligned [simp]: "length (pad_to_des_block_size d) mod 8 = 0"
proof -
  have "(length d + (8 - length d mod 8)) mod 8 = 0"
    by presburger
  then show ?thesis
    by (simp add: pad_to_des_block_size_def pad_to_block_size_pkcs7_def Let_def)
qed

lemma pad_append: "\<exists>tail. pad_to_des_block_size d = d @ tail \<and> length tail < 8"
  by (auto simp: pad_to_des_block_size_def pad_to_block_size_pkcs7_def Let_def)

lemma pad_id: "length d mod 8 = 0 \<Longrightarrow> pad_to_des_block_size d = d"
  by (simp add: pad_to_des_block_size_def pad_to_block_size_pkcs7_def)

section \<open>MACs\<close>

definition mac_chain :: "crypto \<Rightarrow> bytes list \<Rightarrow> bytes \<Rightarrow> bytes" where
  "mac_chain C cs start = foldl (\<lambda>mac block. encrypt_des_block C mac block) start cs"

definition mac_unchain :: "crypto \<Rightarrow> bytes list \<Rightarrow> bytes \<Rightarrow> bytes" where
  "mac_unchain C cs mac = foldl (\<lambda>current block. decrypt_des_block C current block) mac (rev cs)"

lemma mac_chain_inverse:
  assumes "crypto_ok C" and "\<forall>c \<in> set cs. length c = 8" and "length x = 8"
  shows "length (mac_chain C cs x) = 8 \<and> mac_unchain C cs (mac_chain C cs x) = x"
    and "length (mac_unchain C cs x) = 8 \<and> mac_chain C cs (mac_unchain C cs x) = x"
proof -
  show "length (mac_chain C cs x) = 8 \<and> mac_unchain C cs (mac_chain C cs x) = x"
    using assms(2,3)
  proof (induction cs arbitrary: x)
    case (Cons c cs)
    then show ?case using des_inverse [OF assms(1), of c x]
      by (simp add: mac_chain_def mac_unchain_def)
  qed (simp add: mac_chain_def mac_unchain_def)
  show "length (mac_unchain C cs x) = 8 \<and> mac_chain C cs (mac_unchain C cs x) = x"
    using assms(2,3)
  proof (induction cs arbitrary: x)
    case (Cons c cs)
    then show ?case using des_inverse [OF assms(1), of c "mac_unchain C cs x"]
      by (simp add: mac_chain_def mac_unchain_def)
  qed (simp add: mac_chain_def mac_unchain_def)
qed

definition mac_preimage :: "nat \<Rightarrow> u8 \<Rightarrow> bytes" where
  "mac_preimage n code = [u8_of n, code] @ replicate 6 0"

lemma length_mac_preimage [simp]: "length (mac_preimage n code) = 8"
  by (simp add: mac_preimage_def)

lemma calculate_mac_chain:
  "calculate_command_mac_des C code p = Inr mac \<longleftrightarrow>
    length p mod 8 = 0 \<and> length p \<le> 245 \<and> mac = mac_chain C (chunks 8 p) (mac_preimage (length p + 10) code)"
  by (auto simp: calculate_command_mac_des_def mac_chain_def mac_preimage_def Let_def add.commute)

lemma check_mac_unchain:
  assumes "length mac = 8"
  shows "check_packet_mac_des C (p @ mac) code \<longleftrightarrow>
    length p mod 8 = 0 \<and> p \<noteq> [] \<and> mac_unchain C (chunks 8 p) mac = mac_preimage (length p + 10) code"
proof -
  have "u8_of (length p + 8) + 2 = u8_of (length p + 10)"
    by (simp add: u8_of_def)
  moreover have "(length p + 8) mod 8 = length p mod 8" by simp
  moreover have "length p mod 8 = 0 \<Longrightarrow> p \<noteq> [] \<Longrightarrow> \<not> length p < 8"
    by (metis length_0_conv mod_less)
  ultimately show ?thesis
    using assms by (auto simp: check_packet_mac_des_def mac_unchain_def mac_preimage_def ct_eq_def Let_def)
qed

lemma mac_accepted_iff:
  assumes "crypto_ok C" and "length mac = 8" and "p \<noteq> []" and "length p \<le> 245"
  shows "check_packet_mac_des C (p @ mac) code \<longleftrightarrow> calculate_command_mac_des C code p = Inr mac"
proof (cases "length p mod 8 = 0")
  case True
  then have *: "\<forall>c \<in> set (chunks 8 p). length c = 8" using chunks_lengths [OF True] by blast
  let ?pre = "mac_preimage (length p + 10) code"
  have "mac_unchain C (chunks 8 p) mac = ?pre \<longleftrightarrow> mac = mac_chain C (chunks 8 p) ?pre"
    using mac_chain_inverse(1) [OF assms(1) *, of ?pre] mac_chain_inverse(2) [OF assms(1) * assms(2)]
    by auto
  then show ?thesis
    using assms True by (simp only: calculate_mac_chain check_mac_unchain simp_thms)
next
  case False
  then show ?thesis using assms by (simp only: calculate_mac_chain check_mac_unchain simp_thms)
qed

text \<open>
  The receiver's MAC check, which runs the cipher chain backwards, accepts exactly the MAC that the
  sender computes: for a payload of whole blocks that fits a frame, a packet passes if and only if its
  last eight bytes are the MAC of the rest under the expected code.
\<close>

theorem mac_check_iff:
  assumes "crypto_ok C" and "length mac = 8" and "p \<noteq> []" and "length p \<le> 245"
  shows "check_packet_mac_des C (p @ mac) code \<longleftrightarrow> calculate_command_mac_des C code p = Inr mac"
  using assms by (rule mac_accepted_iff)

text \<open>
  A MAC is bound to its command code: no packet passes the check under two different codes, so a
  sealed command or response cannot be taken for another one.
\<close>

theorem mac_binds_code:
  assumes "check_packet_mac_des C data code" and "check_packet_mac_des C data code'"
  shows "code = code'"
  using assms by (auto simp: check_packet_mac_des_def Let_def ct_eq_def split: if_splits)

section \<open>Sealing\<close>

lemma seal_Inr:
  assumes "crypto_ok C" and "length key = 8" and "p \<noteq> []" and "seal C code p key = Inr e"
  obtains mac where "length mac = 8" and "length (pad_to_des_block_size p) \<le> 245"
    and "check_packet_mac_des C (pad_to_des_block_size p @ mac) code"
    and "length e = length (pad_to_des_block_size p) + 8"
    and "decrypt_des_cbc_zero_iv C e key = Inr (pad_to_des_block_size p @ mac)"
proof -
  let ?p = "pad_to_des_block_size p"
  from assms(4) obtain mac where m: "calculate_command_mac_des C code ?p = Inr mac"
    and e: "encrypt_des_cbc_zero_iv C (?p @ mac) key = Inr e"
    by (auto simp: seal_def Let_def bindE_eq_Inr)
  have "\<forall>c \<in> set (chunks 8 ?p). length c = 8" using chunks_lengths [OF pad_aligned] by blast
  from mac_chain_inverse(1) [OF assms(1) this, of "mac_preimage (length ?p + 10) code"]
  have l: "length mac = 8" using m by (simp add: calculate_mac_chain)
  have ne: "?p \<noteq> []" using pad_append [of p] assms(3) by auto
  have le: "length ?p \<le> 245" using m by (simp add: calculate_mac_chain)
  show ?thesis
    using that [OF l le] mac_accepted_iff [OF assms(1) l ne le] m cbc_inverse [OF assms(1,2) e] l by simp
qed

section \<open>Round trips\<close>

lemma pad_header:
  assumes "length tid = 6"
  obtains tail where
    "pad_to_des_block_size (u16_to_le n @ tid @ p) = u16_to_le n @ tid @ p @ tail" and "length tail < 8"
  using pad_append [of "u16_to_le n @ tid @ p"] by auto

lemma des_header_fields:
  assumes "length tid = 6"
  shows "u16_from_le ((u16_to_le n @ tid @ r) ! 0) ((u16_to_le n @ tid @ r) ! 1) = n"
    and "take 6 (drop 2 (u16_to_le n @ tid @ r)) = tid"
    and "drop 8 (u16_to_le n @ tid @ r) = r"
  using assms by (simp_all add: u16_to_le_def)

lemma sealed_response_opened:
  assumes "crypto_ok C" and "length key = 8" and "length tid = 6"
    and "build_secure_response_frame_des C code n tid key p = Some f"
  shows "\<exists>tail. length tail < 8 \<and> f ! 0 = u8_of (length f) \<and> f ! 1 = code \<and>
    decrypt_secure_response_des C code tid key (drop 2 f) = Inr (n, p @ tail)"
proof -
  let ?p = "u16_to_le n @ tid @ p"
  obtain e where e: "seal C code ?p key = Inr e" and f: "frame_with_length_prefix (code # e) = Inr f"
    using assms(4) by (auto simp: build_secure_response_frame_des_def split: sum.splits)
  obtain mac where m: "length mac = 8" "check_packet_mac_des C (pad_to_des_block_size ?p @ mac) code"
      "decrypt_des_cbc_zero_iv C e key = Inr (pad_to_des_block_size ?p @ mac)"
    using seal_Inr [OF assms(1,2) _ e] by (auto simp: u16_to_le_def)
  obtain tail where t: "pad_to_des_block_size ?p = u16_to_le n @ tid @ p @ tail" "length tail < 8"
    using pad_header [OF assms(3)] by blast
  have "decrypt_secure_response_des C code tid key e = Inr (n, p @ tail)"
    using m t(1) assms(3) des_header_fields [OF assms(3), of n "p @ tail @ mac"]
    by (simp add: decrypt_secure_response_des_def secure_response_parse_def strip_des_response_mac_def)
  moreover have "f = u8_of (length f) # code # e"
    using f by (auto simp: frame_with_length_prefix_Inr)
  ultimately show ?thesis using t(2) by (metis drop0 drop_Suc_Cons nth_Cons_0 nth_Cons_Suc numeral_2_eq_2 One_nat_def)
qed

text \<open>
  A card response is read back by the reader: what \<open>build_secure_response_frame_des\<close> seals,
  \<open>decrypt_secure_response_des\<close> opens under the same key, code and transaction ID to the transaction
  number and the payload, followed by fewer than eight bytes of padding.
\<close>

theorem secure_response_roundtrip:
  assumes "crypto_ok C" and "length key = 8" and "length tid = 6"
    and "build_secure_response_frame_des C code n tid key p = Some f"
  shows "\<exists>tail. length tail < 8 \<and> f ! 0 = u8_of (length f) \<and> f ! 1 = code \<and>
    decrypt_secure_response_des C code tid key (drop 2 f) = Inr (n, p @ tail)"
  using assms by (rule sealed_response_opened)

lemma authentication2_opened:
  assumes "crypto_ok C" and "length key = 8" and "length tid = 6" and "length idi = 8" and "length pmi = 8"
    and "encrypt_authentication2_payload C (build_authentication2_payload n tid idi pmi) key = Some e"
  shows "length e = 32 \<and> auth2_decrypt_payload C e key = Inr (u16_to_le n @ tid @ idi @ pmi)"
proof -
  let ?p = "build_authentication2_payload n tid idi pmi"
  have p: "?p = u16_to_le n @ tid @ idi @ pmi" "length ?p = 24"
    using assms(3-5) by (simp_all add: build_authentication2_payload_def)
  then have pad: "pad_to_des_block_size ?p = ?p" by (simp add: pad_id)
  have s: "seal C 0x13 ?p key = Inr e" and ne: "?p \<noteq> []"
    using assms(6) p by (auto simp: encrypt_authentication2_payload_def)
  obtain mac where "length mac = 8" "check_packet_mac_des C (?p @ mac) 0x13"
      "length e = 32" "decrypt_des_cbc_zero_iv C e key = Inr (?p @ mac)"
    using seal_Inr [OF assms(1,2) ne s] p(2) unfolding pad by auto
  then show ?thesis using p by (simp add: auth2_decrypt_payload_def)
qed

text \<open>
  The Authentication2 response opens to the payload the card put in: with an issue ID and issue
  parameter of eight bytes it is the transaction number, the transaction ID and both of them.
\<close>

theorem authentication2_roundtrip:
  assumes "crypto_ok C" and "length key = 8" and "length tid = 6" and "length idi = 8" and "length pmi = 8"
    and "encrypt_authentication2_payload C (build_authentication2_payload n tid idi pmi) key = Some e"
  shows "length e = 32 \<and> auth2_decrypt_payload C e key = Inr (u16_to_le n @ tid @ idi @ pmi)"
  using assms by (rule authentication2_opened)

text \<open>The context of eight-byte keys and IDm holds eight-byte keys.\<close>

lemma length_xor_block [simp]: "length (xor_block a b) = min (length a) (length b)"
  by (simp add: xor_block_def)

lemma context_lengths:
  assumes "crypto_ok C" and "length idm = 8" and "length g = 8" and "length u = 8"
  shows "length (ac_l (authentication_context_new C idm g u)) = 8"
    and "length (ac_alpha (authentication_context_new C idm g u)) = 8"
    and "length (ac_beta (authentication_context_new C idm g u)) = 8"
  using assms des_inverse(1) [OF assms(1)]
  by (simp_all add: authentication_context_new_def Let_def)

lemma service_keys_length:
  assumes "crypto_ok C" and "length k = 8" and "\<forall>a \<in> set areas. length a = 8"
  shows "length (foldl (\<lambda>current key. encrypt_des_block C current key) k areas) = 8"
  using assms(2,3)
proof (induction areas arbitrary: k)
  case (Cons a areas)
  then show ?case using des_inverse(1) [OF assms(1), of a k] by simp
qed simp

lemma challenges_opened:
  assumes "crypto_ok C" and "length idm = 8" and "length g = 8" and "length u = 8"
    and "x = authentication_context_new C idm g u" and "length r1 = 8" and "length r2 = 8"
  shows "decrypt_challenge1a C x (encrypt_challenge1a C x r1) = r1
    \<and> verify_challenge1b C x r1 (encrypt_challenge1b C x r1)
    \<and> decrypt_challenge2a C x (encrypt_challenge2a C x r2) = r2"
    and "length (encrypt_challenge1a C x r1) = 8" and "length (encrypt_challenge1b C x r1) = 8"
    and "length (encrypt_challenge2a C x r2) = 8" and "length (encrypt_challenge2b C x r2) = 8"
  using context_lengths [OF assms(1-4)] assms(5-7) tdes_inverse(1,2) [OF assms(1)]
  by (simp_all add: decrypt_challenge1a_def encrypt_challenge1a_def verify_challenge1b_def ct_eq_def
      encrypt_challenge1b_def decrypt_challenge2a_def encrypt_challenge2a_def encrypt_challenge2b_def)

text \<open>
  Reader and card agree on both challenges: the card recovers \<open>random_1\<close> from challenge 1A, the
  reader accepts the reflected challenge 1B and recovers \<open>random_2\<close> from challenge 2A, whenever both
  derived their context from the same IDm and keys.
\<close>

theorem challenges_agree:
  assumes "crypto_ok C" and "length idm = 8" and "length g = 8" and "length u = 8"
    and "x = authentication_context_new C idm g u" and "length r1 = 8" and "length r2 = 8"
  shows "decrypt_challenge1a C x (encrypt_challenge1a C x r1) = r1
    \<and> verify_challenge1b C x r1 (encrypt_challenge1b C x r1)
    \<and> decrypt_challenge2a C x (encrypt_challenge2a C x r2) = r2"
  using assms by (rule challenges_opened)

section \<open>A concrete cipher for the witnesses\<close>

definition xor_key :: "bytes \<Rightarrow> bytes \<Rightarrow> bytes" where
  "xor_key k d = map (\<lambda>b. b XOR (if k = [] then 0 else hd k)) d"

definition xor_cipher :: crypto where
  "xor_cipher = \<lparr>des_encrypt = xor_key, des_decrypt = xor_key, tdes_ede3_encrypt = xor_key,
     tdes_ede3_decrypt = xor_key, des_cbc_encrypt = (\<lambda>k iv. xor_key k),
     des_cbc_decrypt = (\<lambda>k iv. xor_key k)\<rparr>"

lemma xor_cipher_ok: "crypto_ok xor_cipher"
proof -
  have "inverse_on D (xor_key k) (xor_key k)" for D k
    by (simp add: inverse_on_def xor_key_def xor.assoc comp_def)
  then show ?thesis by (simp add: crypto_ok_def xor_cipher_def)
qed

theorem mac_check_iff_witness:
  "check_packet_mac_des xor_cipher ([1, 2, 3, 4, 5, 6, 7, 8] @ [0x13, 0x14, 1, 1, 1, 1, 1, 1]) 0x15 \<and>
   \<not> check_packet_mac_des xor_cipher ([1, 2, 3, 4, 5, 6, 7, 8] @ [0x13, 0x14, 1, 1, 1, 1, 1, 0]) 0x15"
proof -
  have "calculate_command_mac_des xor_cipher 0x15 [1, 2, 3, 4, 5, 6, 7, 8] = Inr [0x13, 0x14, 1, 1, 1, 1, 1, 1]"
    by code_simp
  then show ?thesis
    using mac_check_iff [OF xor_cipher_ok, where p = "[1, 2, 3, 4, 5, 6, 7, 8]"] by simp
qed

theorem mac_binds_code_witness:
  "\<not> check_packet_mac_des xor_cipher [1, 2, 3, 4, 5, 6, 7, 8, 0x13, 0x14, 1, 1, 1, 1, 1, 1] 0x17"
proof -
  have "check_packet_mac_des xor_cipher [1, 2, 3, 4, 5, 6, 7, 8, 0x13, 0x14, 1, 1, 1, 1, 1, 1] 0x15"
    by code_simp
  then show ?thesis using mac_binds_code by fastforce
qed

theorem secure_response_roundtrip_witness:
  "\<exists>f tail. build_secure_response_frame_des xor_cipher 0x15 7 [1, 2, 3, 4, 5, 6] (replicate 8 9) [0, 0] = Some f
    \<and> length tail < 8
    \<and> decrypt_secure_response_des xor_cipher 0x15 [1, 2, 3, 4, 5, 6] (replicate 8 9) (drop 2 f) = Inr (7, [0, 0] @ tail)"
proof -
  have "build_secure_response_frame_des xor_cipher 0x15 7 [1, 2, 3, 4, 5, 6] (replicate 8 9) [0, 0] \<noteq> None"
    by code_simp
  then obtain f where
    f: "build_secure_response_frame_des xor_cipher 0x15 7 [1, 2, 3, 4, 5, 6] (replicate 8 9) [0, 0] = Some f"
    by blast
  from secure_response_roundtrip [OF xor_cipher_ok _ _ f] f show ?thesis by auto
qed

theorem authentication2_roundtrip_witness:
  "\<exists>e. encrypt_authentication2_payload xor_cipher
        (build_authentication2_payload 0 [1, 2, 3, 4, 5, 6] (replicate 8 1) (replicate 8 2)) (replicate 8 9) = Some e
    \<and> length e = 32 \<and> auth2_decrypt_payload xor_cipher e (replicate 8 9)
      = Inr (u16_to_le 0 @ [1, 2, 3, 4, 5, 6] @ replicate 8 1 @ replicate 8 2)"
proof -
  have "encrypt_authentication2_payload xor_cipher
      (build_authentication2_payload 0 [1, 2, 3, 4, 5, 6] (replicate 8 1) (replicate 8 2)) (replicate 8 9) \<noteq> None"
    by code_simp
  then obtain e where e: "encrypt_authentication2_payload xor_cipher
      (build_authentication2_payload 0 [1, 2, 3, 4, 5, 6] (replicate 8 1) (replicate 8 2)) (replicate 8 9) = Some e"
    by blast
  from authentication2_roundtrip [OF xor_cipher_ok _ _ _ _ e] e show ?thesis by simp
qed

theorem challenges_agree_witness:
  "decrypt_challenge1a xor_cipher (authentication_context_new xor_cipher (replicate 8 1) (replicate 8 2) (replicate 8 3))
     (encrypt_challenge1a xor_cipher (authentication_context_new xor_cipher (replicate 8 1) (replicate 8 2) (replicate 8 3))
       [1, 2, 3, 4, 5, 6, 7, 8]) = [1, 2, 3, 4, 5, 6, 7, 8]"
  using challenges_agree [OF xor_cipher_ok _ _ _ refl, of "replicate 8 1" "replicate 8 2" "replicate 8 3"
      "[1, 2, 3, 4, 5, 6, 7, 8]" "replicate 8 0"] by simp

end
