(* ===== verification/Secure_Aes.thy ===== *)
theory Secure_Aes
  imports Secure_Des
begin

text \<open>
  AES secure messaging: \<open>src/felica_standard/secure/v2_aes.rs\<close> and the AES half of
  \<open>secure/primitives.rs\<close>. The crates \<open>aes\<close>, \<open>cmac\<close> and \<open>ofb\<close> are the parameter \<open>aes_crypto\<close>:
  the block cipher, the 16-byte tag of a byte string and the keystream of a key and an initial
  vector, which the stream object of \<open>ofb\<close> hands out byte by byte. \<open>aes_ok\<close> states what they
  document: decryption inverts encryption, blocks and tags have 16 bytes.
\<close>

section \<open>The cipher crates\<close>

record aes_crypto =
  aes_encrypt :: "bytes \<Rightarrow> bytes \<Rightarrow> bytes"
  aes_decrypt :: "bytes \<Rightarrow> bytes \<Rightarrow> bytes"
  aes_cmac :: "bytes \<Rightarrow> bytes \<Rightarrow> bytes"
  aes_ofb_keystream :: "bytes \<Rightarrow> bytes \<Rightarrow> nat \<Rightarrow> u8"

definition aes_ok :: "aes_crypto \<Rightarrow> bool" where
  "aes_ok A \<longleftrightarrow>
     (\<forall>k. length k = 16 \<longrightarrow>
        inverse_on (\<lambda>b. length b = 16) (aes_encrypt A k) (aes_decrypt A k) \<and>
        (\<forall>m. length (aes_cmac A k m) = 16))"

abbreviation (input) V2_AES128_BLOCK_SIZE :: nat where "V2_AES128_BLOCK_SIZE \<equiv> 16"
abbreviation (input) V2_AES128_MAC_SIZE :: nat where "V2_AES128_MAC_SIZE \<equiv> 8"
abbreviation (input) V2_AES128_IV_MARKER :: u8 where "V2_AES128_IV_MARKER \<equiv> 0x01"
abbreviation (input) V2_AES128_AUTH_CONTEXT_SUFFIX :: bytes where
  "V2_AES128_AUTH_CONTEXT_SUFFIX \<equiv> [0x01, 0x00]"

definition V2_AES128_NODE_KEY_INIT :: bytes where
  "V2_AES128_NODE_KEY_INIT = [0x01, 0x01] @ replicate 13 0x00 @ [0x80]"

definition V2_AES128_DERIVE_ENCRYPTION_KEY_INPUT :: bytes where
  "V2_AES128_DERIVE_ENCRYPTION_KEY_INPUT = [0x01, 0x03] @ replicate 12 0x00 @ [0x01, 0x00]"

definition V2_AES128_DERIVE_MAC_KEY_INPUT :: bytes where
  "V2_AES128_DERIVE_MAC_KEY_INPUT = [0x02, 0x03] @ replicate 12 0x00 @ [0x01, 0x00]"

definition encrypt_aes128_block_internal :: "aes_crypto \<Rightarrow> bytes \<Rightarrow> bytes \<Rightarrow> bytes" where
  "encrypt_aes128_block_internal A data key = aes_encrypt A key data"

definition decrypt_aes128_block_internal :: "aes_crypto \<Rightarrow> bytes \<Rightarrow> bytes \<Rightarrow> bytes" where
  "decrypt_aes128_block_internal A data key = aes_decrypt A key data"

section \<open>Mutual authentication\<close>

record authentication_context_v2 =
  av_alpha :: bytes
  av_beta :: bytes

definition build_authentication_context_block_v2_aes128 :: "bytes \<Rightarrow> bytes \<Rightarrow> bytes" where
  "build_authentication_context_block_v2_aes128 pre idm =
     pre @ replicate 4 0 @ idm @ V2_AES128_AUTH_CONTEXT_SUFFIX"

definition authentication_context_v2_new ::
    "aes_crypto \<Rightarrow> bytes \<Rightarrow> bytes \<Rightarrow> bytes \<Rightarrow> authentication_context_v2" where
  "authentication_context_v2_new A idm group_key individual_key =
     (let h = xor_block group_key individual_key in
      \<lparr>av_alpha = encrypt_aes128_block_internal A
         (build_authentication_context_block_v2_aes128 [0x01, 0x02] idm) h,
       av_beta = encrypt_aes128_block_internal A
         (build_authentication_context_block_v2_aes128 [0x02, 0x02] idm) h\<rparr>)"

definition beta_with_challenge_3c :: "authentication_context_v2 \<Rightarrow> bytes \<Rightarrow> bytes" where
  "beta_with_challenge_3c x challenge_3c = xor_block (av_beta x) (challenge_3c @ replicate 12 0)"

definition encrypt_challenge1a_v2 :: "aes_crypto \<Rightarrow> authentication_context_v2 \<Rightarrow> bytes \<Rightarrow> bytes" where
  "encrypt_challenge1a_v2 A x random_1 = encrypt_aes128_block_internal A random_1 (av_alpha x)"

definition encrypt_challenge1b_v2 ::
    "aes_crypto \<Rightarrow> authentication_context_v2 \<Rightarrow> bytes \<Rightarrow> bytes \<Rightarrow> bytes" where
  "encrypt_challenge1b_v2 A x random_1 challenge_3c =
     encrypt_aes128_block_internal A random_1 (beta_with_challenge_3c x challenge_3c)"

definition verify_challenge1b_v2 ::
    "aes_crypto \<Rightarrow> authentication_context_v2 \<Rightarrow> bytes \<Rightarrow> bytes \<Rightarrow> bytes \<Rightarrow> bool" where
  "verify_challenge1b_v2 A x random_1 challenge_1b challenge_3c =
     ct_eq (encrypt_challenge1b_v2 A x random_1 challenge_3c) challenge_1b"

definition encrypt_challenge2a_v2 ::
    "aes_crypto \<Rightarrow> authentication_context_v2 \<Rightarrow> bytes \<Rightarrow> bytes \<Rightarrow> bytes" where
  "encrypt_challenge2a_v2 A x random_2 challenge_3c =
     encrypt_aes128_block_internal A random_2 (beta_with_challenge_3c x challenge_3c)"

definition decrypt_challenge2a_v2 ::
    "aes_crypto \<Rightarrow> authentication_context_v2 \<Rightarrow> bytes \<Rightarrow> bytes \<Rightarrow> bytes" where
  "decrypt_challenge2a_v2 A x challenge_2a challenge_3c =
     decrypt_aes128_block_internal A challenge_2a (beta_with_challenge_3c x challenge_3c)"

definition encrypt_challenge2b_v2 :: "aes_crypto \<Rightarrow> authentication_context_v2 \<Rightarrow> bytes \<Rightarrow> bytes" where
  "encrypt_challenge2b_v2 A x random_2 = encrypt_aes128_block_internal A random_2 (av_alpha x)"

definition derive_secure_session_keys :: "aes_crypto \<Rightarrow> bytes \<Rightarrow> bytes \<times> bytes" where
  "derive_secure_session_keys A random_2 =
     (encrypt_aes128_block_internal A V2_AES128_DERIVE_ENCRYPTION_KEY_INPUT random_2,
      encrypt_aes128_block_internal A V2_AES128_DERIVE_MAC_KEY_INPUT random_2)"

definition generate_group_key_v2_aes128 :: "aes_crypto \<Rightarrow> bytes list \<Rightarrow> bytes" where
  "generate_group_key_v2_aes128 A node_keys =
     foldl (\<lambda>current_key key. encrypt_aes128_block_internal A current_key key)
       V2_AES128_NODE_KEY_INIT node_keys"

section \<open>Frames\<close>

definition ceil_to_multiple :: "nat \<Rightarrow> nat \<Rightarrow> nat" where
  "ceil_to_multiple n block_size = (n + block_size - 1) div block_size * block_size"

definition build_initial_vector_v2_aes128 :: "u8 \<Rightarrow> u8 \<Rightarrow> bytes \<Rightarrow> bytes \<Rightarrow> bytes \<Rightarrow> bytes" where
  "build_initial_vector_v2_aes128 frame_length code counter_bytes transaction_id challenge_3c =
     [V2_AES128_IV_MARKER, frame_length, code] @ counter_bytes @ transaction_id
       @ take 3 (drop 1 challenge_3c) @ replicate 2 0"

definition checked_frame_length_u8 :: "nat \<Rightarrow> string \<Rightarrow> string + u8" where
  "checked_frame_length_u8 frame_length label =
     (if frame_length > 255 then Inl label else Inr (u8_of frame_length))"

definition calculate_mac_v2_aes128 :: "aes_crypto \<Rightarrow> bytes \<Rightarrow> bytes \<Rightarrow> bytes \<Rightarrow> bytes" where
  "calculate_mac_v2_aes128 A iv p mac_key =
     (let b0 = [0x19] @ take 13 (drop 1 iv) @ u16_to_be (u16_of (length p)) in
      take V2_AES128_MAC_SIZE (aes_cmac A mac_key (b0 @ p)))"

text \<open>
  The stream object of \<open>ofb\<close>: its keystream and the number of bytes taken. A key or initial vector
  of another length than 16 is refused.
\<close>

type_synonym ofb_stream = "(nat \<Rightarrow> u8) \<times> nat"

definition ofb_new :: "aes_crypto \<Rightarrow> bytes \<Rightarrow> bytes \<Rightarrow> string + ofb_stream" where
  "ofb_new A key iv =
     (if length key = 16 \<and> length iv = 16 then Inr (aes_ofb_keystream A key iv, 0)
      else Inl ''failed to initialize AES-128 OFB stream'')"

definition apply_keystream :: "ofb_stream \<Rightarrow> bytes \<Rightarrow> bytes \<times> ofb_stream" where
  "apply_keystream s data =
     (case s of (ks, n) \<Rightarrow>
        (map2 (XOR) data (map ks [n..<n + length data]), (ks, n + length data)))"

definition crypt_payload_and_mac_v2_aes128 ::
    "aes_crypto \<Rightarrow> bytes \<Rightarrow> bytes \<Rightarrow> bytes \<Rightarrow> bytes \<Rightarrow> string + bytes \<times> bytes" where
  "crypt_payload_and_mac_v2_aes128 A encryption_key iv p mac =
     bindE (ofb_new A encryption_key iv) (\<lambda>stream.
     let (payload_out, stream) = apply_keystream stream p;
         aligned = ceil_to_multiple (length p) V2_AES128_BLOCK_SIZE;
         stream = (if aligned > length p
                   then snd (apply_keystream stream (replicate (aligned - length p) 0)) else stream);
         (mac_out, stream) = apply_keystream stream mac in
     Inr (payload_out, mac_out))"

definition encrypt_secure_request_v2_aes128 ::
    "aes_crypto \<Rightarrow> u8 \<Rightarrow> bytes \<Rightarrow> bytes \<Rightarrow> bytes \<Rightarrow> bytes \<Rightarrow> bytes \<Rightarrow> bytes \<Rightarrow> string + bytes" where
  "encrypt_secure_request_v2_aes128 A command_code counter_bytes transaction_id challenge_3c
      encryption_key mac_key p =
     bindE (checked_frame_length_u8 (1 + 1 + TRANSACTION_NUMBER_SIZE + length p + V2_AES128_MAC_SIZE)
       ''secure command payload exceeds maximum frame length'') (\<lambda>frame_length.
     let iv = build_initial_vector_v2_aes128 frame_length command_code counter_bytes transaction_id
           challenge_3c;
         mac = calculate_mac_v2_aes128 A iv p mac_key in
     bindE (crypt_payload_and_mac_v2_aes128 A encryption_key iv p mac) (\<lambda>(cipher_payload, cipher_mac).
     Inr (counter_bytes @ cipher_payload @ cipher_mac)))"

definition decrypt_secure_response_v2_aes128 ::
    "aes_crypto \<Rightarrow> u8 \<Rightarrow> bytes \<Rightarrow> bytes \<Rightarrow> bytes \<Rightarrow> bytes \<Rightarrow> bytes \<Rightarrow> string + u16 \<times> bytes" where
  "decrypt_secure_response_v2_aes128 A response_code transaction_id challenge_3c encryption_key
      mac_key data =
     (if length data < TRANSACTION_NUMBER_SIZE + V2_AES128_MAC_SIZE then
        Inl ''secure response too short for AES v2 framing''
      else
        let counter_bytes = take 2 data;
            transaction_number = u16_from_le (counter_bytes ! 0) (counter_bytes ! 1);
            cipher_payload = take (length data - V2_AES128_MAC_SIZE - 2) (drop 2 data);
            cipher_mac = drop (length data - V2_AES128_MAC_SIZE) data in
        bindE (checked_frame_length_u8 (TRANSACTION_NUMBER_SIZE + length data)
          ''secure response exceeds maximum frame length'') (\<lambda>frame_length.
        let iv = build_initial_vector_v2_aes128 frame_length response_code counter_bytes
              transaction_id challenge_3c in
        bindE (crypt_payload_and_mac_v2_aes128 A encryption_key iv cipher_payload cipher_mac)
          (\<lambda>(p, mac_plain).
        if ct_eq mac_plain (calculate_mac_v2_aes128 A iv p mac_key) then
          Inr (transaction_number, p)
        else Inl ''secure response MAC verification failed for AES v2'')))"

definition build_secure_response_frame_v2_aes128 ::
    "aes_crypto \<Rightarrow> u8 \<Rightarrow> u16 \<Rightarrow> bytes \<Rightarrow> bytes \<Rightarrow> bytes \<Rightarrow> bytes \<Rightarrow> bytes \<Rightarrow> bytes option" where
  "build_secure_response_frame_v2_aes128 A response_code transaction_number transaction_id
      challenge_3c encryption_key mac_key response_payload =
     ok (bindE (map_err Protocol (checked_frame_length_u8
           (1 + 1 + TRANSACTION_NUMBER_SIZE + length response_payload + V2_AES128_MAC_SIZE)
           ''secure response exceeds maximum frame length'')) (\<lambda>frame_length.
         let counter_bytes = u16_to_le transaction_number;
             iv = build_initial_vector_v2_aes128 frame_length response_code counter_bytes
               transaction_id challenge_3c;
             mac = calculate_mac_v2_aes128 A iv response_payload mac_key in
         bindE (map_err Protocol (crypt_payload_and_mac_v2_aes128 A encryption_key iv response_payload mac))
           (\<lambda>(cipher_payload, cipher_mac).
         frame_with_length_prefix ([response_code] @ counter_bytes @ cipher_payload @ cipher_mac))))"

definition auth2_v2_decrypt_payload ::
    "aes_crypto \<Rightarrow> bytes \<Rightarrow> bytes \<Rightarrow> bytes \<Rightarrow> bytes \<Rightarrow> bytes \<Rightarrow> felica_error + u16 \<times> bytes" where
  "auth2_v2_decrypt_payload A encrypted_payload transaction_id challenge_3c encryption_key mac_key =
     map_err SecureSessionError (decrypt_secure_response_v2_aes128 A AUTHENTICATION2_V2_RESPONSE_CODE
       transaction_id challenge_3c encryption_key mac_key encrypted_payload)"

section \<open>The keystream\<close>

definition keystream_xor :: "(nat \<Rightarrow> u8) \<Rightarrow> nat \<Rightarrow> bytes \<Rightarrow> bytes" where
  "keystream_xor ks n data = map2 (XOR) data (map ks [n..<n + length data])"

lemma length_keystream_xor [simp]: "length (keystream_xor ks n d) = length d"
  by (simp add: keystream_xor_def)

lemma keystream_xor_involution [simp]: "keystream_xor ks n (keystream_xor ks n d) = d"
  by (rule nth_equalityI) (auto simp: keystream_xor_def xor.assoc)

lemma apply_keystream_eq: "apply_keystream (ks, n) d = (keystream_xor ks n d, ks, n + length d)"
  by (simp add: apply_keystream_def keystream_xor_def)

lemma ceil_to_multiple_ge: "n \<le> ceil_to_multiple n 16"
  unfolding ceil_to_multiple_def by presburger

lemma crypt_eq:
  assumes "length key = 16" and "length iv = 16"
  shows "crypt_payload_and_mac_v2_aes128 A key iv p mac =
    Inr (keystream_xor (aes_ofb_keystream A key iv) 0 p,
         keystream_xor (aes_ofb_keystream A key iv) (ceil_to_multiple (length p) 16) mac)"
  using assms ceil_to_multiple_ge [of "length p"]
  by (auto simp: crypt_payload_and_mac_v2_aes128_def ofb_new_def apply_keystream_eq Let_def)

lemma length_iv [simp]:
  "length c = 2 \<Longrightarrow> length tid = 6 \<Longrightarrow> length c3 = 4 \<Longrightarrow>
    length (build_initial_vector_v2_aes128 l code c tid c3) = 16"
  by (simp add: build_initial_vector_v2_aes128_def)

lemma cmac_length [simp]: "aes_ok A \<Longrightarrow> length k = 16 \<Longrightarrow> length (aes_cmac A k m) = 16"
  by (simp add: aes_ok_def)

lemma aes_inverse:
  assumes "aes_ok A" and "length k = 16" and "length b = 16"
  shows "length (encrypt_aes128_block_internal A b k) = 16"
    and "decrypt_aes128_block_internal A (encrypt_aes128_block_internal A b k) k = b"
proof -
  have "inverse_on (\<lambda>b. length b = 16) (aes_encrypt A k) (aes_decrypt A k)"
    using assms(1,2) by (simp add: aes_ok_def)
  from inverse_onD [OF this assms(3)] assms(3)
  show "length (encrypt_aes128_block_internal A b k) = 16"
    and "decrypt_aes128_block_internal A (encrypt_aes128_block_internal A b k) k = b"
    by (simp_all add: encrypt_aes128_block_internal_def decrypt_aes128_block_internal_def)
qed

lemma length_mac_v2 [simp]: "aes_ok A \<Longrightarrow> length k = 16 \<Longrightarrow> length (calculate_mac_v2_aes128 A iv p k) = 8"
  by (simp add: calculate_mac_v2_aes128_def Let_def)

section \<open>Sealed frames\<close>

text \<open>What a holder of the session keys sends for counter \<open>c\<close> and payload \<open>p\<close>, behind the code.\<close>

definition sealed_v2 :: "aes_crypto \<Rightarrow> u8 \<Rightarrow> bytes \<Rightarrow> bytes \<Rightarrow> bytes \<Rightarrow> bytes \<Rightarrow> bytes \<Rightarrow> bytes \<Rightarrow> bytes" where
  "sealed_v2 A code c tid c3 ek mk p =
     (let iv = build_initial_vector_v2_aes128 (u8_of (12 + length p)) code c tid c3;
          ks = aes_ofb_keystream A ek iv in
      c @ keystream_xor ks 0 p
        @ keystream_xor ks (ceil_to_multiple (length p) 16) (calculate_mac_v2_aes128 A iv p mk))"

lemma length_sealed_v2:
  assumes "aes_ok A" and "length mk = 16" and "length c = 2"
  shows "length (sealed_v2 A code c tid c3 ek mk p) = 10 + length p"
  using assms by (simp add: sealed_v2_def Let_def)

text \<open>The lengths that the types of the source fix, and a cipher that works as documented.\<close>

definition aes_session :: "aes_crypto \<Rightarrow> bytes \<Rightarrow> bytes \<Rightarrow> bytes \<Rightarrow> bytes \<Rightarrow> bool" where
  "aes_session A tid c3 ek mk \<longleftrightarrow>
     aes_ok A \<and> length tid = 6 \<and> length c3 = 4 \<and> length ek = 16 \<and> length mk = 16"

lemma aes_sessionD:
  assumes "aes_session A tid c3 ek mk"
  shows "aes_ok A" and "length tid = 6" and "length c3 = 4" and "length ek = 16" and "length mk = 16"
  using assms by (auto simp: aes_session_def)

lemma request_eq:
  assumes "aes_session A tid c3 ek mk" and "length c = 2"
  shows "encrypt_secure_request_v2_aes128 A code c tid c3 ek mk p =
    (if length p \<le> 243 then Inr (sealed_v2 A code c tid c3 ek mk p)
     else Inl ''secure command payload exceeds maximum frame length'')"
  using assms(2) aes_sessionD [OF assms(1)]
  by (simp add: encrypt_secure_request_v2_aes128_def checked_frame_length_u8_def crypt_eq sealed_v2_def Let_def)

lemma response_frame_eq:
  assumes "aes_session A tid c3 ek mk"
  shows "build_secure_response_frame_v2_aes128 A code n tid c3 ek mk p =
    (if length p \<le> 243 then Some (u8_of (12 + length p) # code # sealed_v2 A code (u16_to_le n) tid c3 ek mk p)
     else None)"
  using aes_sessionD [OF assms]
  by (simp add: build_secure_response_frame_v2_aes128_def checked_frame_length_u8_def crypt_eq
      frame_with_length_prefix_def sealed_v2_def Let_def)

lemma decrypt_sealed:
  assumes "aes_session A tid c3 ek mk" and "length p \<le> 243"
  shows "decrypt_secure_response_v2_aes128 A code tid c3 ek mk (sealed_v2 A code (u16_to_le n) tid c3 ek mk p) = Inr (n, p)"
proof -
  note lengths = aes_sessionD(2-5) [OF assms(1)] and ok_cipher = aes_sessionD(1) [OF assms(1)]
  let ?c = "u16_to_le n"
  define iv where "iv = build_initial_vector_v2_aes128 (u8_of (12 + length p)) code ?c tid c3"
  define ks where "ks = aes_ofb_keystream A ek iv"
  define mac where "mac = keystream_xor ks (ceil_to_multiple (length p) 16) (calculate_mac_v2_aes128 A iv p mk)"
  have m: "length mac = 8" using ok_cipher lengths by (simp add: mac_def)
  have s: "sealed_v2 A code ?c tid c3 ek mk p = ?c @ keystream_xor ks 0 p @ mac"
    by (simp add: sealed_v2_def iv_def ks_def mac_def Let_def)
  have n: "u16_from_le (?c ! 0) (?c ! 1) = n" by (simp add: u16_to_le_def)
  have iv: "length iv = 16" using lengths by (simp add: iv_def)
  show ?thesis
    unfolding s decrypt_secure_response_v2_aes128_def
    using assms(2) m lengths iv n
    by (simp add: checked_frame_length_u8_def crypt_eq ct_eq_def mac_def flip: iv_def ks_def)
qed

lemma decrypt_only_sealed:
  assumes "aes_session A tid c3 ek mk" and "decrypt_secure_response_v2_aes128 A code tid c3 ek mk d = Inr (n, p)"
  shows "length p \<le> 243 \<and> d = sealed_v2 A code (u16_to_le n) tid c3 ek mk p"
proof -
  note lengths = aes_sessionD(2-5) [OF assms(1)]
  let ?c = "take 2 d"
  let ?q = "take (length d - 10) (drop 2 d)"
  let ?m = "drop (length d - 8) d"
  let ?iv = "build_initial_vector_v2_aes128 (u8_of (2 + length d)) code ?c tid c3"
  let ?ks = "aes_ofb_keystream A ek ?iv"
  have len: "10 \<le> length d" "length d \<le> 253"
    using assms(2) by (auto simp: decrypt_secure_response_v2_aes128_def checked_frame_length_u8_def Let_def split: if_splits)
  then have c: "length ?c = 2" by simp
  have iv: "length ?iv = 16" using c lengths by simp
  have p: "p = keystream_xor ?ks 0 ?q" and n: "n = u16_from_le (?c ! 0) (?c ! 1)"
    and m: "keystream_xor ?ks (ceil_to_multiple (length ?q) 16) ?m = calculate_mac_v2_aes128 A ?iv p mk"
    using assms(2) len iv lengths
    by (auto simp: decrypt_secure_response_v2_aes128_def checked_frame_length_u8_def crypt_eq ct_eq_def Let_def
        split: if_splits)
  have lp: "length p = length d - 10" using len p by simp
  have cn: "u16_to_le n = ?c"
    using c n by (cases d; cases "tl d") auto
  have "d = ?c @ ?q @ ?m"
  proof -
    have "drop (length d - 10) (drop 2 d) = ?m"
    proof -
      have "length d - 10 + 2 = length d - 8" using len by arith
      then show ?thesis by (simp only: drop_drop)
    qed
    then have "?q @ ?m = drop 2 d"
      using append_take_drop_id [of "length d - 10" "drop 2 d"] by simp
    then show ?thesis by simp
  qed
  moreover have "?q = keystream_xor ?ks 0 p" using p by simp
  moreover have "?m = keystream_xor ?ks (ceil_to_multiple (length p) 16) (calculate_mac_v2_aes128 A ?iv p mk)"
    using m lp len by (metis (no_types, lifting) keystream_xor_involution length_keystream_xor p)
  moreover have "12 + length p = 2 + length d" using lp len by simp
  ultimately show ?thesis using len lp
    by (simp add: sealed_v2_def Let_def cn)
qed

section \<open>What the reader accepts\<close>

text \<open>
  C28. The reader opens exactly the frames that a holder of the session keys builds: a response decrypts
  to a transaction number and a payload if and only if it is the frame that
  \<open>build_secure_response_frame_v2_aes128\<close> makes of them under the same keys, code, transaction ID and
  challenge. In particular every sealed response is read back without padding, and no byte of a
  frame is free.
\<close>

theorem aes_opens_exactly_sealed:
  assumes "aes_session A tid c3 ek mk" and "length d \<le> 253"
  shows "decrypt_secure_response_v2_aes128 A code tid c3 ek mk d = Inr (n, p) \<longleftrightarrow>
    build_secure_response_frame_v2_aes128 A code n tid c3 ek mk p = Some (u8_of (length d + 2) # code # d)"
proof -
  have l: "length (sealed_v2 A code (u16_to_le n) tid c3 ek mk p) = 10 + length p"
    using aes_sessionD [OF assms(1)] by (simp add: length_sealed_v2)
  show ?thesis
    using decrypt_sealed [OF assms(1), of p code n] decrypt_only_sealed [OF assms(1), of code d n p] l
    by (auto simp: response_frame_eq [OF assms(1)] add.commute split: if_splits)
qed

lemma xor_block_16: "length a = 16 \<Longrightarrow> length b = 16 \<Longrightarrow> length (xor_block a b) = 16"
  by simp

lemma context_v2_lengths:
  assumes "aes_ok A" and "length idm = 8" and "length g = 16" and "length u = 16"
  shows "length (av_alpha (authentication_context_v2_new A idm g u)) = 16"
    and "length (av_beta (authentication_context_v2_new A idm g u)) = 16"
  using assms aes_inverse(1) [OF assms(1)]
  by (simp_all add: authentication_context_v2_new_def build_authentication_context_block_v2_aes128_def Let_def)

text \<open>
  Reader and card agree on the challenges of AES authentication: each opens what the other sealed
  under the same node keys, the reader accepts exactly the challenge 1B over its own random number,
  and the keys of the session depend on the second random number alone.
\<close>

theorem aes_challenges_agree:
  assumes "aes_ok A" and "length idm = 8" and "length g = 16" and "length u = 16"
    and "x = authentication_context_v2_new A idm g u" and "length c3 = 4"
    and "length r1 = 16" and "length r2 = 16"
  shows "decrypt_aes128_block_internal A (encrypt_challenge1a_v2 A x r1) (av_alpha x) = r1
    \<and> decrypt_challenge2a_v2 A x (encrypt_challenge2a_v2 A x r2 c3) c3 = r2
    \<and> decrypt_aes128_block_internal A (encrypt_challenge2b_v2 A x r2) (av_alpha x) = r2
    \<and> (verify_challenge1b_v2 A x r1 b c3 \<longleftrightarrow> b = encrypt_challenge1b_v2 A x r1 c3)"
  using context_v2_lengths [OF assms(1-4)] assms(5-8) aes_inverse(2) [OF assms(1)]
  by (auto simp: encrypt_challenge1a_v2_def encrypt_challenge2a_v2_def decrypt_challenge2a_v2_def
      encrypt_challenge2b_v2_def verify_challenge1b_v2_def beta_with_challenge_3c_def ct_eq_def)

text \<open>The initial vector names frame length, code and counter.\<close>

lemma iv_inject:
  assumes "length c = 2" and "length c' = 2"
    and "build_initial_vector_v2_aes128 l code c tid c3 = build_initial_vector_v2_aes128 l' code' c' tid' c3'"
  shows "l = l' \<and> code = code' \<and> c = c'"
  using assms by (simp add: build_initial_vector_v2_aes128_def)

section \<open>A cipher that satisfies the hypotheses\<close>

definition xor_aes :: aes_crypto where
  "xor_aes = \<lparr>aes_encrypt = (\<lambda>k b. xor_block b k), aes_decrypt = (\<lambda>k b. xor_block b k),
     aes_cmac = (\<lambda>k m. take 16 (k @ replicate 16 0)),
     aes_ofb_keystream = (\<lambda>k iv n. (k @ iv) ! (n mod 16))\<rparr>"

lemma xor_aes_ok: "aes_ok xor_aes"
proof -
  have "xor_block (xor_block b k) k = b" if "length b = 16" "length k = 16" for b k :: bytes
    using that by (intro nth_equalityI) (auto simp: xor_block_def xor.assoc)
  then show ?thesis by (simp add: aes_ok_def xor_aes_def inverse_on_def)
qed

theorem aes_opens_exactly_sealed_witness:
  "\<exists>d. length d = 13 \<and> decrypt_secure_response_v2_aes128 xor_aes 0x17 [1, 2, 3, 4, 5, 6] [7, 8, 9, 10]
     (replicate 16 1) (replicate 16 2) d = Inr (5, [0, 0, 9])"
proof -
  let ?f = "build_secure_response_frame_v2_aes128 xor_aes 0x17 5 [1, 2, 3, 4, 5, 6] [7, 8, 9, 10]
     (replicate 16 1) (replicate 16 2) [0, 0, 9]"
  have s: "aes_session xor_aes [1, 2, 3, 4, 5, 6] [7, 8, 9, 10] (replicate 16 1) (replicate 16 2)"
    by (simp add: aes_session_def xor_aes_ok)
  have "(case ?f of None \<Rightarrow> False | Some f \<Rightarrow> length f = 15 \<and> f = u8_of (length (drop 2 f) + 2) # 0x17 # drop 2 f)"
    by code_simp
  then obtain f where f: "?f = Some f" "length f = 15" "f = u8_of (length (drop 2 f) + 2) # 0x17 # drop 2 f"
    by (auto split: option.splits)
  have l: "length (drop 2 f) \<le> 253" using f(2) by simp
  have "?f = Some (u8_of (length (drop 2 f) + 2) # 0x17 # drop 2 f)" using f(1,3) by simp
  then show ?thesis
    using aes_opens_exactly_sealed [OF s l] f(2) by (intro exI [of _ "drop 2 f"]) simp
qed

theorem aes_challenges_agree_witness:
  "decrypt_challenge2a_v2 xor_aes
     (authentication_context_v2_new xor_aes (replicate 8 1) (replicate 16 2) (replicate 16 3))
     (encrypt_challenge2a_v2 xor_aes
       (authentication_context_v2_new xor_aes (replicate 8 1) (replicate 16 2) (replicate 16 3))
       (replicate 16 4) [1, 2, 3, 4]) [1, 2, 3, 4] = replicate 16 4"
  using aes_challenges_agree [OF xor_aes_ok _ _ _ refl, of "replicate 8 1" "replicate 16 2" "replicate 16 3"
      "[1, 2, 3, 4]" "replicate 16 5" "replicate 16 4"] by simp

end
