(* ===== verification/Secure_Session.thy ===== *)
theory Secure_Session
  imports Secure_Aes
begin

text \<open>
  The session types that both schemes share: \<open>src/felica_standard/secure/mod.rs\<close>. An
  \<open>authenticated_context\<close> is what a reader keeps between the commands of a session; capturing it
  advances the transaction number and freezes the keys for one exchange. The borrowed view of the
  credentials is the credentials, and the clearing of key bytes on drop has no effect on a value.
\<close>

datatype secure_session_scheme = SchemeDes | SchemeAes128

datatype secure_session_credentials =
    CredDes bytes
  | CredAes128 (cred_encryption_key: bytes) (cred_mac_key: bytes) (cred_challenge_3c: bytes)

fun credentials_scheme :: "secure_session_credentials \<Rightarrow> secure_session_scheme" where
  "credentials_scheme (CredDes _) = SchemeDes"
| "credentials_scheme (CredAes128 _ _ _) = SchemeAes128"

record authenticated_context =
  ax_transaction_number :: u16
  ax_transaction_id :: bytes
  ax_credentials :: secure_session_credentials
  ax_nodes :: "u16 list"

definition authenticated_context_new ::
    "u16 \<Rightarrow> bytes \<Rightarrow> secure_session_credentials \<Rightarrow> authenticated_context" where
  "authenticated_context_new transaction_number transaction_id credentials =
     \<lparr>ax_transaction_number = transaction_number, ax_transaction_id = transaction_id,
      ax_credentials = credentials, ax_nodes = []\<rparr>"

definition with_nodes :: "authenticated_context \<Rightarrow> u16 list \<Rightarrow> authenticated_context" where
  "with_nodes x nodes = x\<lparr>ax_nodes := nodes\<rparr>"

definition node_index :: "authenticated_context \<Rightarrow> u16 \<Rightarrow> nat option" where
  "node_index x node = position (\<lambda>listed. listed = node) (ax_nodes x)"

definition context_scheme :: "authenticated_context \<Rightarrow> secure_session_scheme" where
  "context_scheme x = credentials_scheme (ax_credentials x)"

definition increment_transaction_number ::
    "authenticated_context \<Rightarrow> felica_error + u16 \<times> authenticated_context" where
  "increment_transaction_number x =
     (if ax_transaction_number x = 0xFFFF then
        Inl (SecureSessionError ''transaction number overflow during secure session'')
      else
        let x' = x\<lparr>ax_transaction_number := ax_transaction_number x + 1\<rparr> in
        Inr (ax_transaction_number x', x'))"

definition set_transaction_number :: "authenticated_context \<Rightarrow> u16 \<Rightarrow> authenticated_context" where
  "set_transaction_number x n = x\<lparr>ax_transaction_number := n\<rparr>"

record secure_command_context =
  sc_transaction_number :: u16
  sc_transaction_id :: bytes
  sc_credentials :: secure_session_credentials

definition capture ::
    "authenticated_context \<Rightarrow> felica_error + secure_command_context \<times> authenticated_context" where
  "capture x =
     bindE (increment_transaction_number x) (\<lambda>(n, x').
     Inr (\<lparr>sc_transaction_number = n, sc_transaction_id = ax_transaction_id x',
           sc_credentials = ax_credentials x'\<rparr>, x'))"

definition build_secure_payload :: "secure_command_context \<Rightarrow> bytes \<Rightarrow> bytes" where
  "build_secure_payload s command_payload =
     (case credentials_scheme (sc_credentials s) of
        SchemeDes \<Rightarrow> build_payload_des (sc_transaction_number s) (sc_transaction_id s) command_payload
      | SchemeAes128 \<Rightarrow> command_payload)"

definition transaction_counter_bytes :: "secure_command_context \<Rightarrow> bytes" where
  "transaction_counter_bytes s = u16_to_le (sc_transaction_number s)"

definition encrypt_command ::
    "crypto \<Rightarrow> aes_crypto \<Rightarrow> secure_command_context \<Rightarrow> u8 \<Rightarrow> bytes \<Rightarrow> felica_error + bytes" where
  "encrypt_command C A s command_code p =
     (case sc_credentials s of
        CredDes key \<Rightarrow> encrypt_command_des C command_code p key
      | CredAes128 ek mk c3 \<Rightarrow>
          map_err Protocol (encrypt_secure_request_v2_aes128 A command_code
            (transaction_counter_bytes s) (sc_transaction_id s) c3 ek mk p))"

definition decrypt_response ::
    "crypto \<Rightarrow> aes_crypto \<Rightarrow> secure_command_context \<Rightarrow> u8 \<Rightarrow> bytes \<Rightarrow> felica_error + u16 \<times> bytes" where
  "decrypt_response C A s response_code data =
     (case sc_credentials s of
        CredDes key \<Rightarrow> decrypt_secure_response_des C response_code (sc_transaction_id s) key data
      | CredAes128 ek mk c3 \<Rightarrow>
          map_err Protocol (decrypt_secure_response_v2_aes128 A response_code (sc_transaction_id s)
            c3 ek mk data))"

section \<open>How many blocks a secure read can return\<close>

abbreviation (input) SECURE_READ_RESPONSE_OVERHEAD :: nat where "SECURE_READ_RESPONSE_OVERHEAD \<equiv> 1 + 1 + 1"

definition padded_to_des_block_size :: "nat \<Rightarrow> nat" where
  "padded_to_des_block_size len = (len div DES_BLOCK_SIZE + 1) * DES_BLOCK_SIZE"

definition read_response_frame_len :: "nat \<Rightarrow> nat" where
  "read_response_frame_len blocks =
     2 + padded_to_des_block_size (DES_SECURE_HEADER_SIZE + SECURE_READ_RESPONSE_OVERHEAD
           + blocks * BLOCK_SIZE) + DES_MAC_SIZE"

lemma read_response_frame_len_ge: "blocks \<le> read_response_frame_len blocks"
  unfolding read_response_frame_len_def padded_to_des_block_size_def by presburger

text \<open>The loop of the constant's initialiser.\<close>

function count_read_blocks :: "nat \<Rightarrow> nat" where
  "count_read_blocks blocks =
     (if read_response_frame_len (blocks + 1) \<le> MAX_PACKET_LEN then count_read_blocks (blocks + 1)
      else blocks)"
  by pat_completeness auto
termination
  by (relation "measure (\<lambda>blocks. MAX_PACKET_LEN - blocks)")
    (auto intro: diff_less_mono2 dest: order_trans [OF read_response_frame_len_ge])

declare count_read_blocks.simps [simp del]

definition MAX_SECURE_READ_BLOCK_COUNT :: nat where
  "MAX_SECURE_READ_BLOCK_COUNT = count_read_blocks 0"

definition MAX_SECURE_READ_V2_BLOCK_COUNT :: nat where
  "MAX_SECURE_READ_V2_BLOCK_COUNT =
     (MAX_PACKET_LEN - (2 + TRANSACTION_NUMBER_SIZE + SECURE_READ_RESPONSE_OVERHEAD
        + V2_AES128_MAC_SIZE)) div BLOCK_SIZE"

lemma MAX_SECURE_READ_BLOCK_COUNT_eq: "MAX_SECURE_READ_BLOCK_COUNT = 14"
  by code_simp

lemma MAX_SECURE_READ_V2_BLOCK_COUNT_eq: "MAX_SECURE_READ_V2_BLOCK_COUNT = 15"
  by code_simp

lemma seal_fits:
  assumes "crypto_ok C" and "length key = 8"
  shows "(\<exists>e. seal C code p key = Inr e) \<longleftrightarrow> length (pad_to_des_block_size p) \<le> 245"
    and "seal C code p key = Inr e \<Longrightarrow> length e = length (pad_to_des_block_size p) + 8"
proof -
  let ?p = "pad_to_des_block_size p"
  have "\<forall>c \<in> set (chunks 8 ?p). length c = 8" using chunks_lengths [OF pad_aligned] by blast
  from mac_chain_inverse(1) [OF assms(1) this, of "mac_preimage (length ?p + 10) code"]
  have mac: "length (mac_chain C (chunks 8 ?p) (mac_preimage (length ?p + 10) code)) = 8" by simp
  then have m: "(length ?p + 8) mod 8 = 0" by simp
  show "(\<exists>e. seal C code p key = Inr e) \<longleftrightarrow> length ?p \<le> 245"
    using m mac by (auto simp: seal_def Let_def bindE_eq_Inr calculate_mac_chain encrypt_des_cbc_zero_iv_def)
  show "length e = length ?p + 8" if "seal C code p key = Inr e"
    using that m mac cbc_inverse(1) [OF assms]
    by (fastforce simp: seal_def Let_def bindE_eq_Inr calculate_mac_chain)
qed

lemma length_pad: "length (pad_to_des_block_size d) = (length d + 7) div 8 * 8"
proof -
  have "length d + (8 - length d mod 8) = (length d + 7) div 8 * 8" if "length d mod 8 \<noteq> 0"
    using that by presburger
  moreover have "length d = (length d + 7) div 8 * 8" if "length d mod 8 = 0"
    using that by presburger
  ultimately show ?thesis
    by (simp add: pad_to_des_block_size_def pad_to_block_size_pkcs7_def Let_def)
qed

text \<open>
  The two read limits are exact: the response with \<open>m\<close> blocks of a secure read can be framed if
  and only if \<open>m\<close> is at most \<open>MAX_SECURE_READ_BLOCK_COUNT\<close> under DES and at most
  \<open>MAX_SECURE_READ_V2_BLOCK_COUNT\<close> under AES. A reader that stays within them never asks for an answer
  that no card could send, and loses no block that one could.
\<close>

theorem secure_read_limits_exact:
  assumes "crypto_ok C" and "length key = 8" and "aes_session A tid c3 ek mk" and "length data = 16 * m"
  shows "(build_secure_response_frame_des C code n tid key (sf1 # sf2 # k # data) \<noteq> None
      \<longleftrightarrow> m \<le> MAX_SECURE_READ_BLOCK_COUNT)
    \<and> (build_secure_response_frame_v2_aes128 A code n tid c3 ek mk (sf1 # sf2 # k # data) \<noteq> None
      \<longleftrightarrow> m \<le> MAX_SECURE_READ_V2_BLOCK_COUNT)"
proof
  let ?p = "u16_to_le n @ tid @ sf1 # sf2 # k # data"
  have "(16 * m + 11 + 7) div 8 * 8 = 16 * m + (16 :: nat)" by presburger
  then have l: "length (pad_to_des_block_size ?p) = 16 * m + 16"
    using assms(4) aes_sessionD(2) [OF assms(3)] by (simp add: length_pad add.commute)
  have fits: "(\<exists>e. seal C code ?p key = Inr e) \<longleftrightarrow> m \<le> 14"
    using seal_fits(1) [OF assms(1,2), of code ?p] l by (simp only:) presburger
  show "build_secure_response_frame_des C code n tid key (sf1 # sf2 # k # data) \<noteq> None
      \<longleftrightarrow> m \<le> MAX_SECURE_READ_BLOCK_COUNT"
  proof (cases "seal C code ?p key")
    case (Inl e)
    then show ?thesis using fits
      by (simp add: build_secure_response_frame_des_def MAX_SECURE_READ_BLOCK_COUNT_eq)
  next
    case (Inr e)
    then have "m \<le> 14" and "length e = 16 * m + 24" using fits seal_fits(2) [OF assms(1,2) Inr] l by auto
    then show ?thesis using Inr
      by (simp add: build_secure_response_frame_des_def MAX_SECURE_READ_BLOCK_COUNT_eq frame_with_length_prefix_def)
  qed
  show "build_secure_response_frame_v2_aes128 A code n tid c3 ek mk (sf1 # sf2 # k # data) \<noteq> None
      \<longleftrightarrow> m \<le> MAX_SECURE_READ_V2_BLOCK_COUNT"
    using assms(4) by (simp add: response_frame_eq [OF assms(3)] MAX_SECURE_READ_V2_BLOCK_COUNT_eq)
qed

theorem secure_read_limits_exact_witness:
  "build_secure_response_frame_des xor_cipher 0x15 1 [1, 2, 3, 4, 5, 6] (replicate 8 9) (0 # 0 # 14 # replicate 224 7) \<noteq> None
  \<and> build_secure_response_frame_des xor_cipher 0x15 1 [1, 2, 3, 4, 5, 6] (replicate 8 9) (0 # 0 # 15 # replicate 240 7) = None
  \<and> build_secure_response_frame_v2_aes128 xor_aes 0x17 1 [1, 2, 3, 4, 5, 6] [1, 2, 3, 4] (replicate 16 1) (replicate 16 2)
      (0 # 0 # 15 # replicate 240 7) \<noteq> None"
proof -
  have s: "aes_session xor_aes [1, 2, 3, 4, 5, 6] [1, 2, 3, 4] (replicate 16 1) (replicate 16 2)"
    by (simp add: aes_session_def xor_aes_ok)
  note at = secure_read_limits_exact [OF xor_cipher_ok _ s, of "replicate 8 9"]
  from at [of "replicate 224 7" 14 "0x15" 1 0 0 14] at [of "replicate 240 7" 15 "0x15" 1 0 0 15]
    at [of "replicate 240 7" 15 "0x17" 1 0 0 15]
  show ?thesis by (simp add: MAX_SECURE_READ_BLOCK_COUNT_eq MAX_SECURE_READ_V2_BLOCK_COUNT_eq)
qed

section \<open>Transaction numbers\<close>

lemma capture_Inr:
  "capture x = Inr (s, x') \<longleftrightarrow> ax_transaction_number x \<noteq> 0xFFFF
    \<and> x' = x\<lparr>ax_transaction_number := ax_transaction_number x + 1\<rparr>
    \<and> s = \<lparr>sc_transaction_number = ax_transaction_number x + 1, sc_transaction_id = ax_transaction_id x,
           sc_credentials = ax_credentials x\<rparr>"
  by (auto simp: capture_def increment_transaction_number_def Let_def bindE_eq_Inr)

lemma unat_plus_one: "(n :: u16) \<noteq> 0xFFFF \<Longrightarrow> unat (n + 1) = unat n + 1"
proof -
  assume "n \<noteq> 0xFFFF"
  then have "unat n \<noteq> 65535" by (metis u16_of_unat u16_of_def of_nat_numeral)
  then have "unat n + 1 < 65536" using unat_u16_less [of n] by linarith
  then show ?thesis by (simp add: unat_word_ariths)
qed

lemma word_less_Suc: "(n :: u16) \<noteq> 0xFFFF \<Longrightarrow> n < n + 1"
  by (simp add: word_less_nat_alt unat_plus_one)

lemma capture_advances:
  "capture x = Inr (s, x') \<Longrightarrow> ax_transaction_number x < ax_transaction_number x'"
  by (simp add: capture_Inr word_less_Suc)

end
