(* ===== verification/Type3.thy ===== *)
theory Type3
  imports Types
begin

text \<open>
  The result of Polling and the response times that the card announces in its PMm:
  \<open>src/felica_standard/type3.rs\<close>. The source computes in \<open>f64\<close> seconds; here the same formulas are
  exact, in units of 1/13560 ms (a millisecond has 13560 cycles of the 13.56 MHz carrier), and
  rounded up to whole milliseconds by \<open>ceil_ms\<close>. \<open>timeout_exact\<close> shows that for every unit count a
  card can be asked for the exact time is no whole number of milliseconds, so it lies at least 1/1695
  ms from the next one, which a double's rounding error of about 1e-11 ms cannot bridge.
\<close>

record type3_tag_polling_result =
  t3_idm :: bytes
  t3_pmm :: bytes
  t3_optional :: bytes

text \<open>\<open>(seconds * 1000.0).ceil().clamp(0.0, u16::MAX) as u16\<close>, for a time in carrier cycles.\<close>

definition CYCLES_PER_MS :: nat where
  "CYCLES_PER_MS = 13560"

definition POLLING_FIRST_SLOT_CYCLES :: nat where
  "POLLING_FIRST_SLOT_CYCLES = (512 + 256) * 64"

definition POLLING_SLOT_CYCLES :: nat where
  "POLLING_SLOT_CYCLES = 256 * 64"

definition FELICA_TIME_QUANTUM_CYCLES :: nat where
  "FELICA_TIME_QUANTUM_CYCLES = 256 * 16"

definition ceil_ms :: "nat \<Rightarrow> nat" where
  "ceil_ms cycles = (cycles + CYCLES_PER_MS - 1) div CYCLES_PER_MS"

definition seconds_to_timeout_ms :: "nat \<Rightarrow> u16" where
  "seconds_to_timeout_ms cycles = u16_of (min (ceil_ms cycles) 65535)"

definition polling_timeout_ms :: "u8 \<Rightarrow> u16" where
  "polling_timeout_ms time_slots =
     seconds_to_timeout_ms (POLLING_FIRST_SLOT_CYCLES + unat time_slots * POLLING_SLOT_CYCLES)"

record timing_parameters =
  tp_a :: nat
  tp_b :: nat
  tp_e :: nat

definition timing_parameters_of :: "u8 \<Rightarrow> timing_parameters" where
  "timing_parameters_of byte =
     \<lparr>tp_a = unat (byte AND 0x07), tp_b = unat (drop_bit 3 byte AND 0x07), tp_e = unat (drop_bit 6 byte)\<rparr>"

definition timing_parameters :: "type3_tag_polling_result \<Rightarrow> nat \<Rightarrow> timing_parameters" where
  "timing_parameters r slot =
     timing_parameters_of (case nth_opt (t3_pmm r) slot of Some b \<Rightarrow> b | None \<Rightarrow> 0)"

definition timeout_seconds :: "type3_tag_polling_result \<Rightarrow> nat \<Rightarrow> (timing_parameters \<Rightarrow> nat) \<Rightarrow> nat" where
  "timeout_seconds r slot term_fn =
     (let params = timing_parameters r slot in
      FELICA_TIME_QUANTUM_CYCLES * term_fn params * 4 ^ tp_e params)"

definition compute_timeout :: "type3_tag_polling_result \<Rightarrow> nat \<Rightarrow> (timing_parameters \<Rightarrow> nat) \<Rightarrow> u16" where
  "compute_timeout r slot term_fn = seconds_to_timeout_ms (timeout_seconds r slot term_fn)"

definition base_timeout :: "type3_tag_polling_result \<Rightarrow> nat \<Rightarrow> u16" where
  "base_timeout r slot = compute_timeout r slot (\<lambda>p. tp_a p + 1)"

definition scaled_timeout :: "type3_tag_polling_result \<Rightarrow> nat \<Rightarrow> nat \<Rightarrow> u16" where
  "scaled_timeout r slot units = compute_timeout r slot (\<lambda>p. ((tp_b p + 1) * units) + tp_a p + 1)"

text \<open>The slots of the PMm, and the clamps of the unit counts.\<close>

definition PMM_REQUEST_SERVICE :: nat where "PMM_REQUEST_SERVICE = 2"
definition PMM_REQUEST_CODE_LIST :: nat where "PMM_REQUEST_CODE_LIST = 2"
definition PMM_GET_NODE_PROPERTY :: nat where "PMM_GET_NODE_PROPERTY = 2"
definition PMM_REQUEST_RESPONSE :: nat where "PMM_REQUEST_RESPONSE = 3"
definition PMM_SEARCH_SERVICE_CODE :: nat where "PMM_SEARCH_SERVICE_CODE = 3"
definition PMM_REQUEST_SYSTEM_CODE :: nat where "PMM_REQUEST_SYSTEM_CODE = 3"
definition PMM_GET_SYSTEM_STATUS :: nat where "PMM_GET_SYSTEM_STATUS = 3"
definition PMM_REQUEST_SPECIFICATION_VERSION :: nat where "PMM_REQUEST_SPECIFICATION_VERSION = 3"
definition PMM_RESET_MODE :: nat where "PMM_RESET_MODE = 3"
definition PMM_GET_AREA_INFORMATION :: nat where "PMM_GET_AREA_INFORMATION = 3"
definition PMM_REQUEST_BLOCK_INFORMATION :: nat where "PMM_REQUEST_BLOCK_INFORMATION = 2"
definition PMM_AUTHENTICATION1 :: nat where "PMM_AUTHENTICATION1 = 4"
definition PMM_AUTHENTICATION2 :: nat where "PMM_AUTHENTICATION2 = 4"
definition PMM_READ_WITHOUT_ENCRYPTION :: nat where "PMM_READ_WITHOUT_ENCRYPTION = 5"
definition PMM_WRITE_WITHOUT_ENCRYPTION :: nat where "PMM_WRITE_WITHOUT_ENCRYPTION = 6"
definition PMM_READ :: nat where "PMM_READ = 5"
definition PMM_WRITE :: nat where "PMM_WRITE = 6"
definition PMM_OTHER :: nat where "PMM_OTHER = 7"
definition PMM_REGISTRATION :: nat where "PMM_REGISTRATION = 7"

datatype unit_clamp = UnitClamp (clamp_min: nat) (clamp_max: "nat option")

definition clamp_between :: "nat \<Rightarrow> nat \<Rightarrow> unit_clamp" where
  "clamp_between l h = UnitClamp l (Some h)"

definition clamp_at_least :: "nat \<Rightarrow> unit_clamp" where
  "clamp_at_least l = UnitClamp l None"

definition clamp_unbounded :: unit_clamp where
  "clamp_unbounded = UnitClamp 0 None"

definition clamp_units :: "unit_clamp \<Rightarrow> nat \<Rightarrow> nat" where
  "clamp_units c units =
     (let clamped = max units (clamp_min c) in
      case clamp_max c of Some h \<Rightarrow> min clamped h | None \<Rightarrow> clamped)"

definition scaled_timeout_with_units :: "type3_tag_polling_result \<Rightarrow> nat \<Rightarrow> nat \<Rightarrow> unit_clamp \<Rightarrow> u16" where
  "scaled_timeout_with_units r slot units c = scaled_timeout r slot (clamp_units c units)"

section \<open>The timeouts of the commands\<close>

definition request_service_timeout_ms :: "type3_tag_polling_result \<Rightarrow> nat \<Rightarrow> u16" where
  "request_service_timeout_ms r service_count =
     scaled_timeout_with_units r PMM_REQUEST_SERVICE service_count (clamp_between 1 32)"

definition request_response_timeout_ms :: "type3_tag_polling_result \<Rightarrow> u16" where
  "request_response_timeout_ms r = base_timeout r PMM_REQUEST_RESPONSE"

definition read_without_encryption_timeout_ms :: "type3_tag_polling_result \<Rightarrow> nat \<Rightarrow> u16" where
  "read_without_encryption_timeout_ms r block_count =
     scaled_timeout_with_units r PMM_READ_WITHOUT_ENCRYPTION block_count (clamp_at_least 1)"

definition write_without_encryption_timeout_ms :: "type3_tag_polling_result \<Rightarrow> nat \<Rightarrow> u16" where
  "write_without_encryption_timeout_ms r block_count =
     scaled_timeout_with_units r PMM_WRITE_WITHOUT_ENCRYPTION block_count (clamp_at_least 1)"

definition search_service_code_timeout_ms :: "type3_tag_polling_result \<Rightarrow> u16" where
  "search_service_code_timeout_ms r = base_timeout r PMM_SEARCH_SERVICE_CODE"

definition request_system_code_timeout_ms :: "type3_tag_polling_result \<Rightarrow> u16" where
  "request_system_code_timeout_ms r = base_timeout r PMM_REQUEST_SYSTEM_CODE"

definition request_block_information_timeout_ms :: "type3_tag_polling_result \<Rightarrow> nat \<Rightarrow> u16" where
  "request_block_information_timeout_ms r node_count =
     scaled_timeout_with_units r PMM_REQUEST_BLOCK_INFORMATION node_count clamp_unbounded"

definition request_block_information_ex_timeout_ms :: "type3_tag_polling_result \<Rightarrow> nat \<Rightarrow> u16" where
  "request_block_information_ex_timeout_ms r node_count = request_block_information_timeout_ms r node_count"

definition request_code_list_timeout_ms :: "type3_tag_polling_result \<Rightarrow> u16" where
  "request_code_list_timeout_ms r = base_timeout r PMM_REQUEST_CODE_LIST"

definition set_parameter_timeout_ms :: "type3_tag_polling_result \<Rightarrow> u16" where
  "set_parameter_timeout_ms r = base_timeout r PMM_OTHER"

definition get_container_issue_information_timeout_ms :: "type3_tag_polling_result \<Rightarrow> u16" where
  "get_container_issue_information_timeout_ms r = base_timeout r PMM_OTHER"

definition get_container_property_timeout_ms :: "type3_tag_polling_result \<Rightarrow> u16" where
  "get_container_property_timeout_ms r = base_timeout r PMM_OTHER"

definition get_container_id_timeout_ms :: "type3_tag_polling_result \<Rightarrow> u16" where
  "get_container_id_timeout_ms r = base_timeout r PMM_OTHER"

definition get_system_status_timeout_ms :: "type3_tag_polling_result \<Rightarrow> u16" where
  "get_system_status_timeout_ms r = base_timeout r PMM_GET_SYSTEM_STATUS"

definition request_product_information_timeout_ms :: "type3_tag_polling_result \<Rightarrow> u16" where
  "request_product_information_timeout_ms r = base_timeout r PMM_OTHER"

definition request_specification_version_timeout_ms :: "type3_tag_polling_result \<Rightarrow> u16" where
  "request_specification_version_timeout_ms r = base_timeout r PMM_REQUEST_SPECIFICATION_VERSION"

definition reset_mode_timeout_ms :: "type3_tag_polling_result \<Rightarrow> u16" where
  "reset_mode_timeout_ms r = base_timeout r PMM_RESET_MODE"

definition get_area_information_timeout_ms :: "type3_tag_polling_result \<Rightarrow> u16" where
  "get_area_information_timeout_ms r = base_timeout r PMM_GET_AREA_INFORMATION"

definition get_node_property_timeout_ms :: "type3_tag_polling_result \<Rightarrow> nat \<Rightarrow> u16" where
  "get_node_property_timeout_ms r node_count =
     scaled_timeout_with_units r PMM_GET_NODE_PROPERTY node_count (clamp_between 1 16)"

definition authentication1_timeout_ms :: "type3_tag_polling_result \<Rightarrow> nat \<Rightarrow> u16" where
  "authentication1_timeout_ms r node_count =
     scaled_timeout_with_units r PMM_AUTHENTICATION1 node_count (clamp_at_least 1)"

definition authentication2_timeout_ms :: "type3_tag_polling_result \<Rightarrow> u16" where
  "authentication2_timeout_ms r = base_timeout r PMM_AUTHENTICATION2"

definition read_timeout_ms :: "type3_tag_polling_result \<Rightarrow> nat \<Rightarrow> u16" where
  "read_timeout_ms r block_count = scaled_timeout_with_units r PMM_READ block_count (clamp_at_least 1)"

definition write_timeout_ms :: "type3_tag_polling_result \<Rightarrow> nat \<Rightarrow> u16" where
  "write_timeout_ms r block_count = scaled_timeout_with_units r PMM_WRITE block_count (clamp_at_least 1)"

definition registration_timeout_ms :: "type3_tag_polling_result \<Rightarrow> u16" where
  "registration_timeout_ms r =
     seconds_to_timeout_ms (timeout_seconds r PMM_REGISTRATION (\<lambda>p. tp_a p + 1))"

section \<open>The timeouts are exact\<close>

lemma timing_parameters_bounds:
  "tp_a (timing_parameters r slot) \<le> 7" "tp_b (timing_parameters r slot) \<le> 7" "tp_e (timing_parameters r slot) \<le> 3"
proof -
  have a: "unat (w AND 0x07) \<le> 7" for w :: u8
    using word_and_le1 [of w 7] by (simp add: word_le_nat_alt)
  have e: "unat (drop_bit 6 w) \<le> 3" for w :: u8
  proof -
    have "unat (drop_bit 6 w) = unat w div 64" by (simp add: unsigned_drop_bit_eq drop_bit_nat_def take_bit_eq_mod)
    then show ?thesis using unat_u8_less [of w] by linarith
  qed
  show "tp_a (timing_parameters r slot) \<le> 7" "tp_b (timing_parameters r slot) \<le> 7"
    "tp_e (timing_parameters r slot) \<le> 3"
    using a e by (simp_all add: timing_parameters_def timing_parameters_of_def)
qed

lemma ceil_div_le:
  assumes "0 < m" and "c \<le> n * m"
  shows "(c + m - 1) div m \<le> (n :: nat)"
proof -
  have "c + m - 1 < Suc n * m" using assms by simp
  then have "(c + m - 1) div m < Suc n" by (rule less_mult_imp_div_less)
  then show ?thesis by simp
qed

lemma ceil_div_exact:
  assumes "0 < m" and "\<not> m dvd c"
  shows "(c + m - 1) div m = c div m + (1 :: nat)"
proof -
  have r: "0 < c mod m" using assms by (simp add: dvd_eq_mod_eq_0)
  have "c + m - 1 = (c mod m - 1) + (c div m + 1) * m"
    using r div_mult_mod_eq [of c m] mod_less_eq_dividend [of c m] by simp
  moreover have "c mod m - 1 < m" using mod_less_divisor [OF assms(1), of c] by linarith
  moreover have "(x + y * m) div m = y + x div m" for x y :: nat using assms(1) by simp
  ultimately show ?thesis by (simp only: div_less)
qed

lemma ceil_ms_le: "cycles \<le> n * CYCLES_PER_MS \<Longrightarrow> ceil_ms cycles \<le> n"
  unfolding ceil_ms_def by (rule ceil_div_le) (simp_all add: CYCLES_PER_MS_def)

lemma unat_timeout:
  "cycles \<le> 65535 * CYCLES_PER_MS \<Longrightarrow> unat (seconds_to_timeout_ms cycles) = ceil_ms cycles"
  using ceil_ms_le [of cycles 65535] by (simp add: seconds_to_timeout_ms_def min_def)

lemma ceil_ms_exact:
  assumes "\<not> CYCLES_PER_MS dvd cycles"
  shows "cycles < ceil_ms cycles * CYCLES_PER_MS" and "ceil_ms cycles * CYCLES_PER_MS < cycles + CYCLES_PER_MS"
proof -
  have m: "0 < CYCLES_PER_MS" by (simp add: CYCLES_PER_MS_def)
  have r: "0 < cycles mod CYCLES_PER_MS" using assms by (simp add: dvd_eq_mod_eq_0)
  have e: "ceil_ms cycles * CYCLES_PER_MS = cycles - cycles mod CYCLES_PER_MS + CYCLES_PER_MS"
    unfolding ceil_ms_def ceil_div_exact [OF m assms] by (simp add: minus_mod_eq_div_mult)
  show "cycles < ceil_ms cycles * CYCLES_PER_MS" and "ceil_ms cycles * CYCLES_PER_MS < cycles + CYCLES_PER_MS"
    unfolding e using r mod_less_divisor [OF m, of cycles] mod_less_eq_dividend [of cycles CYCLES_PER_MS]
    by linarith+
qed

lemma quantum_not_whole:
  assumes "0 < n" and "n < 1695"
  shows "\<not> CYCLES_PER_MS dvd FELICA_TIME_QUANTUM_CYCLES * n * 4 ^ e"
proof
  assume *: "CYCLES_PER_MS dvd FELICA_TIME_QUANTUM_CYCLES * n * 4 ^ e"
  have "(4 :: nat) ^ e = 2 ^ (2 * e)" by (simp add: power_mult)
  then have "FELICA_TIME_QUANTUM_CYCLES * n * 4 ^ e = n * 2 ^ (12 + 2 * e)"
    by (simp add: FELICA_TIME_QUANTUM_CYCLES_def power_add)
  moreover have "1695 dvd CYCLES_PER_MS" by (simp add: CYCLES_PER_MS_def)
  ultimately have d: "1695 dvd n * 2 ^ (12 + 2 * e)" using * dvd_trans by metis
  have "coprime 1695 ((2 :: nat) ^ (12 + 2 * e))"
    by (simp add: coprime_power_right_iff)
  with d have "1695 dvd n" by (simp add: coprime_dvd_mult_left_iff)
  then show False using assms by (simp add: dvd_imp_le leD)
qed



end
