(* ===== verification/Targets.thy ===== *)
theory Targets
  imports Errors
begin

text \<open>
  Targets and their bitrates: \<open>src/clf/targets.rs\<close>. A Rust string is its UTF-8 bytes, one \<open>char\<close> each.
  \<open>str::split_at\<close> panics inside a character, that is in front of a continuation byte;
  \<open>TargetPanicked\<close> stands for that panic.
\<close>

datatype target_error = UnsupportedTargetError string | TargetPanicked string

record bitrate_pair =
  br_send :: string
  br_recv :: string

definition is_continuation :: "char \<Rightarrow> bool" where
  "is_continuation c \<longleftrightarrow> (let n = of_char c :: nat in 0x80 \<le> n \<and> n \<le> 0xBF)"

definition is_ascii_digit :: "char \<Rightarrow> bool" where
  "is_ascii_digit c \<longleftrightarrow> (let n = of_char c :: nat in 48 \<le> n \<and> n \<le> 57)"

definition is_ascii_uppercase :: "char \<Rightarrow> bool" where
  "is_ascii_uppercase c \<longleftrightarrow> (let n = of_char c :: nat in 65 \<le> n \<and> n \<le> 90)"

definition str_split_at :: "string \<Rightarrow> nat \<Rightarrow> target_error + string \<times> string" where
  "str_split_at s mid =
     (if mid \<le> length s \<and> (mid < length s \<longrightarrow> \<not> is_continuation (s ! mid)) then Inr (take mid s, drop mid s)
      else Inl (TargetPanicked ''failed to slice string''))"

definition is_valid_bitrate :: "string \<Rightarrow> target_error + bool" where
  "is_valid_bitrate v =
     (if length v < 2 then Inr False
      else bindE (str_split_at v (length v - 1)) (\<lambda>(digits, suffix).
        Inr (list_all is_ascii_digit digits \<and> list_all is_ascii_uppercase suffix)))"

definition bitrate_ensure_valid :: "string \<Rightarrow> string \<Rightarrow> target_error + unit" where
  "bitrate_ensure_valid v message =
     bindE (is_valid_bitrate v) (\<lambda>valid.
     if valid then Inr () else Inl (UnsupportedTargetError (message @ '': '' @ v)))"

text \<open>\<open>splitn(2, '/')\<close>: the part before the first slash, and the rest if there is one.\<close>

definition splitn2 :: "char \<Rightarrow> string \<Rightarrow> string \<times> string option" where
  "splitn2 sep v =
     (let send = takeWhile (\<lambda>c. c \<noteq> sep) v; rest = dropWhile (\<lambda>c. c \<noteq> sep) v in
      (send, case rest of [] \<Rightarrow> None | _ # r \<Rightarrow> Some r))"

definition bitrate_parse :: "string \<Rightarrow> target_error + bitrate_pair" where
  "bitrate_parse v =
     (case splitn2 (CHR ''/'') v of (send, rest) \<Rightarrow>
      if send = [] then Inl (UnsupportedTargetError ''missing bitrate'')
      else
        bindE (bitrate_ensure_valid send ''invalid bitrate'') (\<lambda>_.
        bindE (case rest of
             Some recv \<Rightarrow> bindE (bitrate_ensure_valid recv ''invalid receive bitrate'') (\<lambda>_. Inr recv)
           | None \<Rightarrow> Inr send) (\<lambda>recv.
        Inr \<lparr>br_send = send, br_recv = recv\<rparr>)))"

definition bitrate_single :: "string \<Rightarrow> target_error + bitrate_pair" where
  "bitrate_single v =
     bindE (bitrate_ensure_valid v ''invalid bitrate'') (\<lambda>_. Inr \<lparr>br_send = v, br_recv = v\<rparr>)"

definition bitrate_combined :: "bitrate_pair \<Rightarrow> string" where
  "bitrate_combined p = (if br_send p = br_recv p then br_send p else br_send p @ ''/'' @ br_recv p)"

record target_data =
  sens_req :: "bytes option"
  sens_res :: "bytes option"
  sel_req :: "bytes option"
  sel_res :: "bytes option"
  sdd_res :: "bytes option"
  rid_res :: "bytes option"
  sensb_req :: "bytes option"
  sensb_res :: "bytes option"
  sensf_req :: "bytes option"
  td_sensf_res :: "bytes option"
  rats_res :: "bytes option"
  rats_cmd :: "bytes option"
  psl_req :: "bytes option"
  atr_req :: "bytes option"
  atr_res :: "bytes option"
  tt2_cmd :: "bytes option"
  tt3_cmd :: "bytes option"
  tt4_cmd :: "bytes option"
  dep_req :: "bytes option"
  mf_halted :: bool
  arae :: bool

definition target_data_default :: target_data where
  "target_data_default =
     \<lparr>sens_req = None, sens_res = None, sel_req = None, sel_res = None, sdd_res = None, rid_res = None,
      sensb_req = None, sensb_res = None, sensf_req = None, td_sensf_res = None, rats_res = None,
      rats_cmd = None, psl_req = None, atr_req = None, atr_res = None, tt2_cmd = None, tt3_cmd = None,
      tt4_cmd = None, dep_req = None, mf_halted = False, arae = False\<rparr>"

record remote_target =
  rt_bitrate :: bitrate_pair
  rt_data :: target_data

record local_target =
  lt_bitrate :: bitrate_pair
  lt_data :: target_data

definition remote_target_new :: "string \<Rightarrow> target_error + remote_target" where
  "remote_target_new bitrate =
     bindE (bitrate_parse bitrate) (\<lambda>b. Inr \<lparr>rt_bitrate = b, rt_data = target_data_default\<rparr>)"

definition remote_bitrate :: "remote_target \<Rightarrow> string" where
  "remote_bitrate t = br_send (rt_bitrate t)"

definition remote_bitrate_recv :: "remote_target \<Rightarrow> string" where
  "remote_bitrate_recv t = br_recv (rt_bitrate t)"

definition local_target_new :: "string \<Rightarrow> target_error + local_target" where
  "local_target_new bitrate =
     bindE (bitrate_single bitrate) (\<lambda>b. Inr \<lparr>lt_bitrate = b, lt_data = target_data_default\<rparr>)"

definition local_bitrate :: "local_target \<Rightarrow> string" where
  "local_bitrate t = bitrate_combined (lt_bitrate t)"

definition local_set_bitrate :: "local_target \<Rightarrow> string \<Rightarrow> target_error + local_target" where
  "local_set_bitrate t bitrate =
     bindE (bitrate_single bitrate) (\<lambda>b. Inr (t\<lparr>lt_bitrate := b\<rparr>))"

definition target_data_reset :: "target_data \<Rightarrow> target_data" where
  "target_data_reset t = target_data_default"

section \<open>Bitrates\<close>

text \<open>What a bitrate is: one or more digits and an upper-case letter.\<close>

definition bitrate :: "string \<Rightarrow> bool" where
  "bitrate v \<longleftrightarrow> (\<exists>ds c. v = ds @ [c] \<and> ds \<noteq> [] \<and> list_all is_ascii_digit ds \<and> is_ascii_uppercase c)"

lemma ascii_not_continuation: "is_ascii_uppercase c \<Longrightarrow> \<not> is_continuation c"
  by (auto simp: is_ascii_uppercase_def is_continuation_def Let_def)

lemma is_valid_bitrate_True: "is_valid_bitrate v = Inr True \<longleftrightarrow> bitrate v"
proof (cases v rule: rev_cases)
  case Nil
  then show ?thesis by (simp add: is_valid_bitrate_def bitrate_def)
next
  case (snoc ds c)
  then show ?thesis
    by (auto simp: is_valid_bitrate_def bitrate_def str_split_at_def Suc_le_eq dest: ascii_not_continuation)
qed

lemma bitrate_ensure_valid_Inr: "bitrate_ensure_valid v m = Inr u \<longleftrightarrow> bitrate v"
  by (auto simp: bitrate_ensure_valid_def bindE_eq_Inr simp flip: is_valid_bitrate_True)

lemma bitrate_no_slash: "bitrate v \<Longrightarrow> CHR ''/'' \<notin> set v"
proof
  assume "bitrate v" and "CHR ''/'' \<in> set v"
  then have "is_ascii_digit CHR ''/'' \<or> is_ascii_uppercase CHR ''/''"
    by (auto simp: bitrate_def list_all_iff)
  then show False by (simp add: is_ascii_digit_def is_ascii_uppercase_def)
qed

lemma bitrate_not_Nil [simp]: "bitrate v \<Longrightarrow> v \<noteq> []"
  by (auto simp: bitrate_def)

lemma takeWhile_no: "x \<notin> set v \<Longrightarrow> takeWhile (\<lambda>c. c \<noteq> x) v = v"
  by (auto simp: takeWhile_eq_all_conv)

lemma dropWhile_no: "x \<notin> set v \<Longrightarrow> dropWhile (\<lambda>c. c \<noteq> x) v = []"
  by (metis (mono_tags, lifting) dropWhile_eq_Nil_conv)

lemma splitn2_no: "x \<notin> set v \<Longrightarrow> splitn2 x v = (v, None)"
  by (simp add: splitn2_def takeWhile_no dropWhile_no)

lemma splitn2_at: "x \<notin> set v \<Longrightarrow> splitn2 x (v @ x # w) = (v, Some w)"
  by (auto simp: splitn2_def takeWhile_no dropWhile_no takeWhile_tail dropWhile_append)

lemma splitn2_join:
  assumes "splitn2 x v = (a, r)"
  shows "v = (case r of None \<Rightarrow> a | Some b \<Rightarrow> a @ x # b)"
proof (cases "dropWhile (\<lambda>c. c \<noteq> x) v")
  case Nil
  have ar: "a = takeWhile (\<lambda>c. c \<noteq> x) v" "r = None"
    using assms unfolding splitn2_def Let_def Nil by auto
  then show ?thesis using takeWhile_dropWhile_id [of "\<lambda>c. c \<noteq> x" v] unfolding Nil
    by (simp only: append_Nil2 option.case ar)
next
  case (Cons y b)
  then have "y = x" by (metis (mono_tags, lifting) hd_dropWhile list.distinct(1) list.sel(1))
  then show ?thesis using Cons assms takeWhile_dropWhile_id [of "\<lambda>c. c \<noteq> x" v]
    by (auto simp: splitn2_def)
qed

lemma bitrate_parse_single: "bitrate v \<Longrightarrow> bitrate_parse v = Inr \<lparr>br_send = v, br_recv = v\<rparr>"
  using bitrate_ensure_valid_Inr [of v "''invalid bitrate''"]
  by (simp add: bitrate_parse_def splitn2_no [OF bitrate_no_slash])

lemma bitrate_parse_split:
  "bitrate v \<Longrightarrow> bitrate w \<Longrightarrow> bitrate_parse (v @ ''/'' @ w) = Inr \<lparr>br_send = v, br_recv = w\<rparr>"
  using bitrate_ensure_valid_Inr [of v "''invalid bitrate''"] bitrate_ensure_valid_Inr [of w "''invalid receive bitrate''"]
  by (simp add: bitrate_parse_def splitn2_at [OF bitrate_no_slash])

text \<open>
  A target's bitrate specification is parsed if and only if it is a bitrate, or two of them with a
  slash between; the pair prints to a specification that parses back to it, the same one unless both
  directions were named alike.
\<close>

theorem bitrate_parse_iff:
  "bitrate_parse v = Inr p \<longleftrightarrow>
    bitrate (br_send p) \<and> bitrate (br_recv p) \<and>
    (v = br_send p \<and> br_recv p = br_send p \<or> v = br_send p @ ''/'' @ br_recv p)
    \<and> bitrate_parse (bitrate_combined p) = Inr p"
proof
  assume *: "bitrate_parse v = Inr p"
  obtain a r where s: "splitn2 (CHR ''/'') v = (a, r)" by (cases "splitn2 (CHR ''/'') v")
  have "bitrate (br_send p) \<and> bitrate (br_recv p)
      \<and> (v = br_send p \<and> br_recv p = br_send p \<or> v = br_send p @ ''/'' @ br_recv p)"
    using * s splitn2_join [OF s]
    by (cases r) (auto simp: bitrate_parse_def bindE_eq_Inr bitrate_ensure_valid_Inr split: if_splits)
  then show "bitrate (br_send p) \<and> bitrate (br_recv p) \<and>
    (v = br_send p \<and> br_recv p = br_send p \<or> v = br_send p @ ''/'' @ br_recv p)
    \<and> bitrate_parse (bitrate_combined p) = Inr p"
    using bitrate_parse_single [of "br_send p"] bitrate_parse_split [of "br_send p" "br_recv p"]
    by (cases p) (auto simp: bitrate_combined_def)
next
  assume "bitrate (br_send p) \<and> bitrate (br_recv p) \<and>
    (v = br_send p \<and> br_recv p = br_send p \<or> v = br_send p @ ''/'' @ br_recv p)
    \<and> bitrate_parse (bitrate_combined p) = Inr p"
  then show "bitrate_parse v = Inr p"
    using bitrate_parse_single [of "br_send p"] bitrate_parse_split [of "br_send p" "br_recv p"]
    by (cases p) auto
qed

text \<open>
  A bitrate that ends in a character of more than one byte makes the parser panic instead of
  returning an error: \<open>ensure_valid\<close> cuts the last byte off, which is not a character boundary.
\<close>

theorem non_ascii_bitrate_panics:
  assumes "is_continuation c" and "u \<noteq> []" and "CHR ''/'' \<notin> set (u @ [c])"
  shows "bitrate_parse (u @ [c]) = Inl (TargetPanicked ''failed to slice string'')"
  using assms
  by (auto simp: bitrate_parse_def splitn2_no bitrate_ensure_valid_def is_valid_bitrate_def str_split_at_def
      Suc_le_eq)

text \<open>\<open>2\<close> and the two bytes of an e with an acute accent.\<close>

theorem non_ascii_bitrate_panics_witness:
  "bitrate_parse [CHR ''2'', char_of (0xC3 :: nat), char_of (0xA9 :: nat)]
    = Inl (TargetPanicked ''failed to slice string'')"
proof -
  have "is_continuation (char_of (0xA9 :: nat))" and "CHR ''/'' \<notin> set ([CHR ''2'', char_of (0xC3 :: nat)] @ [char_of (0xA9 :: nat)])"
    by code_simp+
  from non_ascii_bitrate_panics [OF this(1) _ this(2)] show ?thesis by simp
qed

end
