(* ===== verification/Response.thy ===== *)
theory Response
  imports Payload
begin

text \<open>
  The typed responses of \<open>src/felica_standard/response/mod.rs\<close> and their encoding,
  \<open>response/serialize.rs\<close>. Constructor arguments are in the order of the source's fields; a
  result struct with one field is that field. Fixed-size arrays are byte lists. Each
  \<open>_result\<close> function is the part of its \<open>to_payload\<close> branch that follows the status flags of a
  successful response.
\<close>

section \<open>Responses\<close>

datatype response =
    RespPolling bytes bytes bytes
  | RespRequestService bytes "u16 list"
  | RespRequestResponse bytes u8
  | RespReadWithoutEncryption bytes u8 u8 "bytes list option"
  | RespWriteWithoutEncryption bytes u8 u8
  | RespSearchServiceCode bytes "search_service_code_result option"
  | RespRequestSystemCode bytes "u16 list"
  | RespRequestBlockInformation bytes "u16 list"
  | RespAuthentication1 bytes bytes bytes
  | RespAuthentication2 bytes
  | RespRequestCodeList bytes u8 u8 "request_code_list_result option"
  | RespRequestBlockInformationEx bytes u8 u8 "request_block_information_ex_result option"
  | RespSetParameter bytes u8 u8
  | RespGetContainerIssueInformation bytes container_information
  | RespGetAreaInformation bytes u8 u8 "get_area_information_result option"
  | RespGetNodeProperty bytes u8 u8 "node_property list option"
  | RespGetContainerProperty bytes
  | RespRequestServiceV2 bytes u8 u8 "request_service_v2_result option"
  | RespGetSystemStatus bytes u8 u8 get_system_status_result
  | RespRequestProductInformation bytes u8 u8 "bytes option"
  | RespRequestSpecificationVersion bytes u8 u8 "specification_version option"
  | RespResetMode bytes u8 u8
  | RespAuthentication1V2 bytes bytes bytes bytes
  | RespAuthentication2V2 bytes
  | RespGetContainerId bytes
  | RespRead u8 u8 "bytes list option"
  | RespWrite u8 u8
  | RespReadV2 u8 u8 "bytes list option"
  | RespWriteV2 u8 u8
  | RespRegisterIssueId u8 u8 "register_result option"
  | RespRegisterArea u8 u8
  | RespRegisterService u8 u8 "register_result option"
  | RespChangeSystemBlock u8 u8
  | RespUnknown

section \<open>Encoding\<close>

definition status_only :: "u8 \<Rightarrow> bytes \<Rightarrow> u8 \<Rightarrow> u8 \<Rightarrow> bytes" where
  "status_only code idm sf1 sf2 = response code idm @ status_flags sf1 sf2"

definition secure_status_only :: "u8 \<Rightarrow> u8 \<Rightarrow> bytes" where
  "secure_status_only sf1 sf2 = status_flags sf1 sf2"

text \<open>\<open>success_part what noun sf1 result write\<close> is \<open>if let Some(r) = for_success(..)? { write(r) }\<close>.\<close>

definition success_part ::
    "string \<Rightarrow> string \<Rightarrow> u8 \<Rightarrow> 'r option \<Rightarrow> ('r \<Rightarrow> felica_error + bytes) \<Rightarrow> felica_error + bytes" where
  "success_part what noun sf1 result write =
     bindE (for_success what noun sf1 result) (\<lambda>r. case r of None \<Rightarrow> Inr [] | Some r \<Rightarrow> write r)"

definition blocks_result :: "string \<Rightarrow> bytes list \<Rightarrow> felica_error + bytes" where
  "blocks_result what blocks =
     bindE (ensure_count_in_range what (length blocks) MAX_BLOCK_COUNT) (\<lambda>_.
     bindE (push_count (length blocks)) (\<lambda>c. Inr (c @ concat blocks)))"

definition area_bytes :: "area_code_range \<Rightarrow> bytes" where
  "area_bytes a = u16_to_le (acr_area_code a) @ u16_to_le (acr_end_service_code a)"

definition code_list_result :: "request_code_list_result \<Rightarrow> felica_error + bytes" where
  "code_list_result r =
     bindE (ensure_fits_in_count ''request code list area count'' (length (rcl_areas r))) (\<lambda>_.
     bindE (ensure_fits_in_count ''request code list service count'' (length (rcl_services r))) (\<lambda>_.
     bindE (push_count (length (rcl_areas r))) (\<lambda>ac.
     bindE (push_count (length (rcl_services r))) (\<lambda>sc.
     Inr (push_flag (continue_flag r) @ ac @ concat (map area_bytes (rcl_areas r))
       @ sc @ concat (map (\<lambda>s. u16_to_le (code_raw s)) (rcl_services r)))))))"

definition block_information_ex_result ::
    "request_block_information_ex_result \<Rightarrow> felica_error + bytes" where
  "block_information_ex_result r =
     bindE (ensure_count_in_range ''request block information ex count''
       (length (assigned_block_counts r)) MAX_NODE_CODES) (\<lambda>_.
     if length (assigned_block_counts r) \<noteq> length (free_block_counts r) then
       Inl (Protocol ''request block information ex assigned/free length mismatch'')
     else bindE (push_count (length (assigned_block_counts r))) (\<lambda>c.
       Inr (c @ concat (map (\<lambda>(assigned, free). u16_to_le assigned @ u16_to_le free)
         (zip (assigned_block_counts r) (free_block_counts r))))))"

definition node_property_result :: "node_property list \<Rightarrow> felica_error + bytes" where
  "node_property_result ps =
     bindE (ensure_count_in_range ''get node property count'' (length ps) MAX_NODE_PROPERTY_CODES) (\<lambda>_.
     if list_ex (\<lambda>p. property_type p \<noteq> property_type (hd ps)) ps then
       Inl (Protocol ''get node property response cannot mix property types'')
     else bindE (push_count (length ps)) (\<lambda>c. Inr (c @ concat (map np_to_bytes ps))))"

definition product_information_result :: "bytes \<Rightarrow> felica_error + bytes" where
  "product_information_result r =
     bindE (ensure_fits_in_count ''request product information response data length'' (length r)) (\<lambda>_.
     bindE (push_count (length r)) (\<lambda>c. Inr (c @ r)))"

definition specification_version_result :: "specification_version \<Rightarrow> felica_error + bytes" where
  "specification_version_result v =
     (if format_version v \<noteq> 0x00 then
        Inl (Protocol ''request specification version format version must be 0x00'')
      else if \<not> is_valid_bcd (basic_version v) \<or> list_ex (\<lambda>p. \<not> is_valid_bcd p) (option_versions v) then
        Inl (Protocol ''request specification version contains a non-BCD version digit'')
      else bindE (ensure_fits_in_count ''request specification version option count''
        (length (option_versions v))) (\<lambda>_. Inr (sv_to_bytes v)))"

text \<open>
  The single-key loop stops at the first version that has a second key; the dual-key loop collects
  the second versions and appends them behind all the first ones.
\<close>

definition write_service_v2_key_versions :: "request_service_v2_result \<Rightarrow> felica_error + bytes" where
  "write_service_v2_key_versions r =
     (let key_versions = v2_key_versions r in
      bindE (ensure_count_in_range ''request service v2 key version count'' (length key_versions)
        MAX_SERVICE_CODES) (\<lambda>_.
      if crypto_id r \<notin> {0x4F, 0x41, 0x43} then
        Inl (Protocol ''request service v2 crypto identifier must be 0x4F, 0x41 or 0x43'')
      else bindE (push_count (length key_versions)) (\<lambda>c.
        if crypto_id r = 0x4F then
          bindE (mapE (\<lambda>v. if secondary_raw v \<noteq> None then
              Inl (Protocol ''request service v2 single crypto requires single key versions'')
            else Inr (u16_to_le (primary_raw v))) key_versions) (\<lambda>vs.
          Inr ([crypto_id r] @ c @ concat vs))
        else
          bindE (mapE (\<lambda>v. bindE (ok_or (secondary_raw v)
              (Protocol ''request service v2 dual crypto requires dual key versions'')) (\<lambda>s.
            Inr (u16_to_le (primary_raw v), s))) key_versions) (\<lambda>vs.
          Inr ([crypto_id r] @ c @ concat (map fst vs) @ extend_u16_list_le (map snd vs))))))"

definition search_result_bytes :: "search_service_code_result option \<Rightarrow> bytes" where
  "search_result_bytes result = (case result of
       None \<Rightarrow> [0xFF, 0xFF]
     | Some (SearchService code) \<Rightarrow> u16_to_le (code_raw code)
     | Some (SearchArea area_code end_service_code) \<Rightarrow>
         u16_to_le area_code @ u16_to_le end_service_code)"

definition secure_read_payload :: "u8 \<Rightarrow> u8 \<Rightarrow> bytes list option \<Rightarrow> felica_error + bytes" where
  "secure_read_payload sf1 sf2 result =
     bindE (success_part ''secure read'' ''result'' sf1 result
       (blocks_result ''secure read block count'')) (\<lambda>p. Inr (secure_status_only sf1 sf2 @ p))"

definition remaining_payload :: "string \<Rightarrow> u8 \<Rightarrow> u8 \<Rightarrow> register_result option \<Rightarrow> felica_error + bytes" where
  "remaining_payload what sf1 sf2 result =
     bindE (success_part what ''result'' sf1 result (\<lambda>r. Inr (u16_to_le (remaining_blocks r)))) (\<lambda>p.
     Inr (secure_status_only sf1 sf2 @ p))"

fun to_secure_payload :: "response \<Rightarrow> felica_error + bytes" where
  "to_secure_payload (RespRead sf1 sf2 result) = secure_read_payload sf1 sf2 result"
| "to_secure_payload (RespReadV2 sf1 sf2 result) = secure_read_payload sf1 sf2 result"
| "to_secure_payload (RespRegisterIssueId sf1 sf2 result) =
     remaining_payload ''register issue id'' sf1 sf2 result"
| "to_secure_payload (RespRegisterService sf1 sf2 result) =
     remaining_payload ''register service'' sf1 sf2 result"
| "to_secure_payload (RespWrite sf1 sf2) = Inr [sf1, sf2]"
| "to_secure_payload (RespWriteV2 sf1 sf2) = Inr [sf1, sf2]"
| "to_secure_payload (RespRegisterArea sf1 sf2) = Inr [sf1, sf2]"
| "to_secure_payload (RespChangeSystemBlock sf1 sf2) = Inr [sf1, sf2]"
| "to_secure_payload _ = Inl (Protocol ''plain response cannot be encoded as secure payload'')"

text \<open>The branches of \<open>to_payload\<close> whose response carries status flags and an optional result.\<close>

definition flagged :: "u8 \<Rightarrow> bytes \<Rightarrow> u8 \<Rightarrow> u8 \<Rightarrow> felica_error + bytes \<Rightarrow> felica_error + bytes" where
  "flagged code idm sf1 sf2 part =
     bindE part (\<lambda>p. Inr (response code idm @ status_flags sf1 sf2 @ p))"

fun to_payload :: "response \<Rightarrow> felica_error + bytes" where
  "to_payload (RespPolling idm pmm optional) =
     (if length optional \<notin> {0, 2} then
        Inl (Protocol ''polling response optional data must contain 0 or 2 bytes'')
      else Inr (response POLLING_RESPONSE_CODE idm @ pmm @ optional))"
| "to_payload (RespRequestService idm key_versions) =
     bindE (ensure_count_in_range ''request service key version count'' (length key_versions)
       MAX_SERVICE_CODES) (\<lambda>_.
     bindE (extend_counted_u16_le key_versions) (\<lambda>p.
     Inr (response REQUEST_SERVICE_RESPONSE_CODE idm @ p)))"
| "to_payload (RespRequestResponse idm mode) =
     Inr (response REQUEST_RESPONSE_RESPONSE_CODE idm @ [mode])"
| "to_payload (RespReadWithoutEncryption idm sf1 sf2 result) =
     flagged READ_WITHOUT_ENCRYPTION_RESPONSE_CODE idm sf1 sf2
       (success_part ''read without encryption'' ''result'' sf1 result
         (blocks_result ''read without encryption block count''))"
| "to_payload (RespWriteWithoutEncryption idm sf1 sf2) =
     Inr (status_only WRITE_WITHOUT_ENCRYPTION_RESPONSE_CODE idm sf1 sf2)"
| "to_payload (RespSearchServiceCode idm result) =
     Inr (response SEARCH_SERVICE_CODE_RESPONSE_CODE idm @ search_result_bytes result)"
| "to_payload (RespRequestSystemCode idm system_codes) =
     (if system_codes = [] then
        Inl (Protocol ''request system code must include at least one entry'')
      else bindE (extend_counted_u16_be system_codes) (\<lambda>p.
        Inr (response REQUEST_SYSTEM_CODE_RESPONSE_CODE idm @ p)))"
| "to_payload (RespRequestBlockInformation idm block_counts) =
     bindE (ensure_count_in_range ''request block information count'' (length block_counts)
       MAX_NODE_CODES) (\<lambda>_.
     bindE (extend_counted_u16_le block_counts) (\<lambda>p.
     Inr (response REQUEST_BLOCK_INFORMATION_RESPONSE_CODE idm @ p)))"
| "to_payload (RespAuthentication1 idm challenge_1b challenge_2a) =
     Inr (response AUTHENTICATION1_RESPONSE_CODE idm @ challenge_1b @ challenge_2a)"
| "to_payload (RespAuthentication2 encrypted_payload) =
     (if length encrypted_payload \<noteq> 32 then
        Inl (Protocol ''authentication2 response encrypted payload must contain 32 bytes'')
      else Inr ([AUTHENTICATION2_RESPONSE_CODE] @ encrypted_payload))"
| "to_payload (RespRequestCodeList idm sf1 sf2 result) =
     flagged REQUEST_CODE_LIST_RESPONSE_CODE idm sf1 sf2
       (success_part ''request code list'' ''result'' sf1 result code_list_result)"
| "to_payload (RespRequestBlockInformationEx idm sf1 sf2 result) =
     flagged REQUEST_BLOCK_INFORMATION_EX_RESPONSE_CODE idm sf1 sf2
       (success_part ''request block information ex'' ''result'' sf1 result block_information_ex_result)"
| "to_payload (RespSetParameter idm sf1 sf2) =
     Inr (status_only SET_PARAMETER_RESPONSE_CODE idm sf1 sf2)"
| "to_payload (RespGetContainerIssueInformation idm info) =
     Inr (response GET_CONTAINER_ISSUE_INFORMATION_RESPONSE_CODE idm
       @ format_version_carrier_information info @ mobile_phone_model_information info)"
| "to_payload (RespGetAreaInformation idm sf1 sf2 result) =
     flagged GET_AREA_INFORMATION_RESPONSE_CODE idm sf1 sf2
       (success_part ''get area information'' ''result'' sf1 result
         (\<lambda>r. Inr (u16_to_le (gai_node_code r) @ gai_data r)))"
| "to_payload (RespGetNodeProperty idm sf1 sf2 result) =
     flagged GET_NODE_PROPERTY_RESPONSE_CODE idm sf1 sf2
       (success_part ''get node property'' ''result'' sf1 result node_property_result)"
| "to_payload (RespGetContainerProperty data) =
     (if data = [] then
        Inl (Protocol ''get container property response data must contain at least one byte'')
      else Inr ([GET_CONTAINER_PROPERTY_RESPONSE_CODE] @ data))"
| "to_payload (RespRequestServiceV2 idm sf1 sf2 result) =
     flagged REQUEST_SERVICE_V2_RESPONSE_CODE idm sf1 sf2
       (success_part ''request service v2'' ''result'' sf1 result write_service_v2_key_versions)"
| "to_payload (RespGetSystemStatus idm sf1 sf2 result) =
     bindE (ensure_fits_in_count ''get system status response data length''
       (length (gss_data result))) (\<lambda>_.
     bindE (push_count (length (gss_data result))) (\<lambda>c.
     Inr (response GET_SYSTEM_STATUS_RESPONSE_CODE idm @ status_flags sf1 sf2
       @ [gss_flag result] @ c @ gss_data result)))"
| "to_payload (RespRequestProductInformation idm sf1 sf2 result) =
     flagged REQUEST_PRODUCT_INFORMATION_RESPONSE_CODE idm sf1 sf2
       (success_part ''request product information'' ''result'' sf1 result product_information_result)"
| "to_payload (RespRequestSpecificationVersion idm sf1 sf2 version) =
     flagged REQUEST_SPECIFICATION_VERSION_RESPONSE_CODE idm sf1 sf2
       (success_part ''request specification version'' ''payload'' sf1 version specification_version_result)"
| "to_payload (RespResetMode idm sf1 sf2) = Inr (status_only RESET_MODE_RESPONSE_CODE idm sf1 sf2)"
| "to_payload (RespAuthentication1V2 idm challenge_1b challenge_2a challenge_3c) =
     Inr (response AUTHENTICATION1_V2_RESPONSE_CODE idm @ challenge_1b @ challenge_2a @ challenge_3c)"
| "to_payload (RespAuthentication2V2 encrypted_payload) =
     (if length encrypted_payload \<noteq> 26 then
        Inl (Protocol ''authentication2 v2 response encrypted payload must contain 26 bytes'')
      else Inr ([AUTHENTICATION2_V2_RESPONSE_CODE] @ encrypted_payload))"
| "to_payload (RespGetContainerId container_idm) =
     Inr (response GET_CONTAINER_ID_RESPONSE_CODE container_idm)"
| "to_payload (RespRead sf1 sf2 result) = to_secure_payload (RespRead sf1 sf2 result)"
| "to_payload (RespWrite sf1 sf2) = to_secure_payload (RespWrite sf1 sf2)"
| "to_payload (RespReadV2 sf1 sf2 result) = to_secure_payload (RespReadV2 sf1 sf2 result)"
| "to_payload (RespWriteV2 sf1 sf2) = to_secure_payload (RespWriteV2 sf1 sf2)"
| "to_payload (RespRegisterIssueId sf1 sf2 result) = to_secure_payload (RespRegisterIssueId sf1 sf2 result)"
| "to_payload (RespRegisterArea sf1 sf2) = to_secure_payload (RespRegisterArea sf1 sf2)"
| "to_payload (RespRegisterService sf1 sf2 result) = to_secure_payload (RespRegisterService sf1 sf2 result)"
| "to_payload (RespChangeSystemBlock sf1 sf2) = to_secure_payload (RespChangeSystemBlock sf1 sf2)"
| "to_payload RespUnknown = Inl (Protocol ''cannot encode unknown response'')"

fun is_secure_response :: "response \<Rightarrow> bool" where
  "is_secure_response (RespRead _ _ _) = True"
| "is_secure_response (RespWrite _ _) = True"
| "is_secure_response (RespReadV2 _ _ _) = True"
| "is_secure_response (RespWriteV2 _ _) = True"
| "is_secure_response (RespRegisterIssueId _ _ _) = True"
| "is_secure_response (RespRegisterArea _ _) = True"
| "is_secure_response (RespRegisterService _ _ _) = True"
| "is_secure_response (RespChangeSystemBlock _ _) = True"
| "is_secure_response _ = False"

definition response_to_frame :: "response \<Rightarrow> felica_error + bytes" where
  "response_to_frame r =
     (if is_secure_response r then Inl (Protocol ''secure response requires encryption'')
      else bindE (to_payload r) frame_with_length_prefix)"

end
