(* ===== verification/Response_Parse.thy ===== *)
theory Response_Parse
  imports Response
begin

text \<open>
  The parser of card responses, \<open>src/felica_standard/response/parse.rs\<close>: the shared length checks,
  one parser per response code, the dispatch of \<open>from_bytes\<close> on a received frame and of
  \<open>from_secure_bytes\<close> on a decrypted inner response. Offsets count from the length byte, as in the
  source, and an index is read only behind the length check that covers it.
\<close>

section \<open>Shared checks and readers\<close>

abbreviation (input) IDM_OFFSET :: nat where "IDM_OFFSET \<equiv> 2"
abbreviation (input) PAYLOAD_OFFSET :: nat where "PAYLOAD_OFFSET \<equiv> IDM_OFFSET + IDM_LEN"

definition ensure_response_len :: "bytes \<Rightarrow> nat \<Rightarrow> string \<Rightarrow> driver_error + unit" where
  "ensure_response_len data required message =
     (if length data < required then driver_other message else Inr ())"

definition ensure_exact_response_len :: "bytes \<Rightarrow> nat \<Rightarrow> string \<Rightarrow> driver_error + unit" where
  "ensure_exact_response_len data expected message =
     (if length data = expected then Inr () else driver_other message)"

definition response_status_flags :: "bytes \<Rightarrow> string \<Rightarrow> driver_error + u8 \<times> u8" where
  "response_status_flags data message =
     bindE (ensure_response_len data (PAYLOAD_OFFSET + 2) message) (\<lambda>_.
     Inr (data ! PAYLOAD_OFFSET, data ! (PAYLOAD_OFFSET + 1)))"

definition parse_fixed :: "nat \<Rightarrow> bytes \<Rightarrow> string \<Rightarrow> driver_error + bytes \<times> bytes" where
  "parse_fixed n data label =
     (if length data < n then driver_other (label @ '' payload too short'')
      else Inr (take n data, drop n data))"

definition parse_response_idm :: "bytes \<Rightarrow> driver_error + bytes \<times> bytes" where
  "parse_response_idm data = parse_fixed IDM_LEN data ''IDm''"

definition parse_pmm :: "bytes \<Rightarrow> driver_error + bytes \<times> bytes" where
  "parse_pmm data = parse_fixed 8 data ''PMm''"

text \<open>\<open>data[i..j]\<close> inside the length, and \<open>as_chunks\<close> of pairs and quadruples read as integers.\<close>

definition sub :: "bytes \<Rightarrow> nat \<Rightarrow> nat \<Rightarrow> bytes" where
  "sub data i j = take (j - i) (drop i data)"

fun le_words :: "bytes \<Rightarrow> u16 list" where
  "le_words (a # b # r) = u16_from_le a b # le_words r"
| "le_words _ = []"

fun be_words :: "bytes \<Rightarrow> u16 list" where
  "be_words (a # b # r) = u16_from_be a b # be_words r"
| "be_words _ = []"

fun le_word_pairs :: "bytes \<Rightarrow> (u16 \<times> u16) list" where
  "le_word_pairs (a # b # c # d # r) = (u16_from_le a b, u16_from_le c d) # le_word_pairs r"
| "le_word_pairs _ = []"

fun collect_blocks :: "bytes \<Rightarrow> nat \<Rightarrow> bytes list" where
  "collect_blocks data 0 = []"
| "collect_blocks data (Suc n) = take BLOCK_SIZE data # collect_blocks (drop BLOCK_SIZE data) n"

section \<open>Plain responses\<close>

definition parse_authentication2_response :: "bytes \<Rightarrow> driver_error + response" where
  "parse_authentication2_response data =
     bindE (ensure_exact_response_len data 34
       ''authentication2 response must contain exactly 32 encrypted bytes'') (\<lambda>_.
     Inr (RespAuthentication2 (drop IDM_OFFSET data)))"

definition parse_authentication2_v2_response :: "bytes \<Rightarrow> driver_error + response" where
  "parse_authentication2_v2_response data =
     bindE (ensure_exact_response_len data 28 (''authentication2 v2 response must contain a ''
       @ ''transaction number, 16 encrypted bytes and an 8-byte MAC'')) (\<lambda>_.
     Inr (RespAuthentication2V2 (drop IDM_OFFSET data)))"

definition parse_polling_response :: "bytes \<Rightarrow> bytes \<Rightarrow> driver_error + response" where
  "parse_polling_response idm data =
     bindE (ensure_response_len data 18 ''short polling response'') (\<lambda>_.
     if length data \<notin> {18, 20} then
       driver_other ''polling response optional data must contain 0 or 2 bytes''
     else bindE (parse_pmm (drop 10 data)) (\<lambda>(pmm, rest).
       Inr (RespPolling idm pmm (drop 18 data))))"

definition parse_request_service_response :: "bytes \<Rightarrow> bytes \<Rightarrow> driver_error + response" where
  "parse_request_service_response idm data =
     bindE (ensure_response_len data 11 ''short request service response'') (\<lambda>_.
     let node_count = unat (data ! 10) in
     if node_count = 0 \<or> node_count > MAX_SERVICE_CODES then
       driver_other ''request service node count must be between 1 and 32''
     else bindE (ensure_exact_response_len data (11 + node_count * 2)
         ''request service response length does not match node count'') (\<lambda>_.
       Inr (RespRequestService idm (le_words (sub data 11 (11 + node_count * 2))))))"

text \<open>The dual loop reads the AES version of node \<open>i\<close> and, behind all of them, its DES version.\<close>

definition dual_key_version :: "bytes \<Rightarrow> nat \<Rightarrow> nat \<Rightarrow> request_service_v2_key_version" where
  "dual_key_version payload node_count i =
     (let aes_offset = i * 2; des_offset = node_count * 2 + aes_offset in
      Dual (u16_from_le (payload ! aes_offset) (payload ! (aes_offset + 1)))
        (u16_from_le (payload ! des_offset) (payload ! (des_offset + 1))))"

definition parse_request_service_v2_response :: "bytes \<Rightarrow> bytes \<Rightarrow> driver_error + response" where
  "parse_request_service_v2_response idm data =
     bindE (response_status_flags data ''short request service v2 response header'') (\<lambda>(sf1, sf2).
     if sf1 = 0 then
       bindE (ensure_response_len data 14 ''short request service v2 crypto identifier response'') (\<lambda>_.
       let parsed_crypto_id = data ! 12 in
       if parsed_crypto_id \<notin> {0x4F, 0x41, 0x43} then
         driver_other ''request service v2 crypto identifier must be 0x4F, 0x41 or 0x43''
       else
         let node_count = unat (data ! 13) in
         if node_count = 0 \<or> node_count > MAX_SERVICE_CODES then
           driver_other ''request service v2 node count must be between 1 and 32''
         else
           let payload = drop 14 data in
           bindE (if parsed_crypto_id \<in> {0x41, 0x43} then
               bindE (ensure_exact_response_len data (14 + node_count * 4)
                 ''request service v2 response length does not match dual key version count'') (\<lambda>_.
               Inr (map (dual_key_version payload node_count) [0..<node_count]))
             else
               bindE (ensure_exact_response_len data (14 + node_count * 2)
                 ''request service v2 response length does not match key version count'') (\<lambda>_.
               Inr (map Single (le_words (take (node_count * 2) payload))))) (\<lambda>parsed_versions.
           Inr (RespRequestServiceV2 idm sf1 sf2
             (Some \<lparr>crypto_id = parsed_crypto_id, v2_key_versions = parsed_versions\<rparr>))))
     else
       bindE (ensure_exact_response_len data 12
         ''request service v2 error response must contain only status flags'') (\<lambda>_.
       Inr (RespRequestServiceV2 idm sf1 sf2 None)))"

definition parse_request_response_response :: "bytes \<Rightarrow> bytes \<Rightarrow> driver_error + response" where
  "parse_request_response_response idm data =
     bindE (ensure_exact_response_len data 11 ''request response must contain exactly one mode byte'') (\<lambda>_.
     Inr (RespRequestResponse idm (data ! 10)))"

definition parse_read_without_encryption_response :: "bytes \<Rightarrow> bytes \<Rightarrow> driver_error + response" where
  "parse_read_without_encryption_response idm data =
     bindE (response_status_flags data ''short read without encryption response'') (\<lambda>(sf1, sf2).
     if sf1 \<noteq> 0 then
       bindE (ensure_exact_response_len data 12
         ''read without encryption error response must contain only status flags'') (\<lambda>_.
       Inr (RespReadWithoutEncryption idm sf1 sf2 None))
     else bindE (ensure_response_len data 13 ''short read without encryption success response'') (\<lambda>_.
       let block_count = unat (data ! 12) in
       if block_count = 0 \<or> block_count > MAX_BLOCK_COUNT then
         driver_other ''read without encryption block count must be between 1 and 255''
       else bindE (ensure_exact_response_len data (13 + block_count * BLOCK_SIZE)
           ''read without encryption response length does not match block count'') (\<lambda>_.
         Inr (RespReadWithoutEncryption idm sf1 sf2 (Some (collect_blocks
           (sub data 13 (13 + block_count * BLOCK_SIZE)) block_count))))))"

text \<open>The responses that hold status flags only.\<close>

definition parse_status_response ::
    "string \<Rightarrow> string \<Rightarrow> (u8 \<Rightarrow> u8 \<Rightarrow> response) \<Rightarrow> bytes \<Rightarrow> driver_error + response" where
  "parse_status_response short long resp data =
     bindE (response_status_flags data short) (\<lambda>(sf1, sf2).
     bindE (ensure_exact_response_len data 12 long) (\<lambda>_. Inr (resp sf1 sf2)))"

definition parse_write_without_encryption_response :: "bytes \<Rightarrow> bytes \<Rightarrow> driver_error + response" where
  "parse_write_without_encryption_response idm =
     parse_status_response ''short write without encryption response''
       ''write without encryption response must contain only status flags'' (RespWriteWithoutEncryption idm)"

definition parse_set_parameter_response :: "bytes \<Rightarrow> bytes \<Rightarrow> driver_error + response" where
  "parse_set_parameter_response idm =
     parse_status_response ''short set parameter response''
       ''set parameter response must contain only status flags'' (RespSetParameter idm)"

definition parse_reset_mode_response :: "bytes \<Rightarrow> bytes \<Rightarrow> driver_error + response" where
  "parse_reset_mode_response idm =
     parse_status_response ''short reset mode response''
       ''reset mode response must contain only status flags'' (RespResetMode idm)"

definition parse_search_service_code_response :: "bytes \<Rightarrow> bytes \<Rightarrow> driver_error + response" where
  "parse_search_service_code_response idm data =
     bindE (ensure_response_len data 12 ''short search service code response'') (\<lambda>_.
     let payload = drop 10 data in
     if payload = [0xFF, 0xFF] then Inr (RespSearchServiceCode idm None)
     else if length payload = 2 then
       Inr (RespSearchServiceCode idm (Some (SearchService (ServiceCode (u16_from_le (payload ! 0) (payload ! 1))))))
     else if length payload = 4 then
       Inr (RespSearchServiceCode idm (Some (SearchArea (u16_from_le (payload ! 0) (payload ! 1))
         (u16_from_le (payload ! 2) (payload ! 3)))))
     else driver_other ''search service code response must contain 2 or 4 bytes'')"

definition parse_request_systemcode_response :: "bytes \<Rightarrow> bytes \<Rightarrow> driver_error + response" where
  "parse_request_systemcode_response idm data =
     bindE (ensure_response_len data 12 ''short request system code response'') (\<lambda>_.
     let count = unat (data ! 10) in
     if count = 0 then driver_other ''request system code response count must be at least 1''
     else bindE (ensure_exact_response_len data (11 + count * 2)
         ''request system code response length does not match count'') (\<lambda>_.
       Inr (RespRequestSystemCode idm (be_words (sub data 11 (11 + count * 2))))))"

definition parse_request_block_information_response :: "bytes \<Rightarrow> bytes \<Rightarrow> driver_error + response" where
  "parse_request_block_information_response idm data =
     bindE (ensure_response_len data 12 ''short request block information response'') (\<lambda>_.
     let count = unat (data ! 10) in
     if count = 0 then driver_other ''request block information count must be at least 1''
     else bindE (ensure_exact_response_len data (11 + count * 2)
         ''request block information response length does not match count'') (\<lambda>_.
       Inr (RespRequestBlockInformation idm (le_words (sub data 11 (11 + count * 2))))))"

definition parse_request_block_information_ex_response :: "bytes \<Rightarrow> bytes \<Rightarrow> driver_error + response" where
  "parse_request_block_information_ex_response idm data =
     bindE (response_status_flags data ''short request block information ex response'') (\<lambda>(sf1, sf2).
     if sf1 \<noteq> 0 then
       bindE (ensure_exact_response_len data 12
         ''request block information ex error response must contain only status flags'') (\<lambda>_.
       Inr (RespRequestBlockInformationEx idm sf1 sf2 None))
     else bindE (ensure_response_len data 13 ''short request block information ex success response'') (\<lambda>_.
       let count = unat (data ! 12) in
       if count = 0 \<or> count > MAX_NODE_CODES then
         driver_other ''request block information ex count must be between 1 and 32''
       else bindE (ensure_exact_response_len data (13 + count * 4)
           ''request block information ex response length does not match count'') (\<lambda>_.
         let pairs = le_word_pairs (sub data 13 (13 + count * 4)) in
         Inr (RespRequestBlockInformationEx idm sf1 sf2
           (Some \<lparr>assigned_block_counts = map fst pairs, free_block_counts = map snd pairs\<rparr>)))))"

definition parse_request_code_list_response :: "bytes \<Rightarrow> bytes \<Rightarrow> driver_error + response" where
  "parse_request_code_list_response idm data =
     bindE (response_status_flags data ''short request code list response'') (\<lambda>(sf1, sf2).
     if sf1 \<noteq> 0 then
       bindE (ensure_exact_response_len data 12
         ''request code list error response must contain only status flags'') (\<lambda>_.
       Inr (RespRequestCodeList idm sf1 sf2 None))
     else bindE (ensure_response_len data 15 ''short request code list success response'') (\<lambda>_.
       let continues = data ! 12 \<noteq> 0; area_count = unat (data ! 13); offset = 14;
           area_payload_len = area_count * 4 in
       bindE (ensure_response_len data (offset + area_payload_len + 1)
         ''short request code list area payload'') (\<lambda>_.
       let areas = map (\<lambda>(a, e). \<lparr>acr_area_code = a, acr_end_service_code = e\<rparr>)
             (le_word_pairs (sub data offset (offset + area_payload_len)));
           offset = offset + area_payload_len;
           service_count = unat (data ! offset);
           offset = offset + 1;
           service_payload_len = service_count * 2 in
       bindE (ensure_response_len data (offset + service_payload_len)
         ''short request code list service payload'') (\<lambda>_.
       bindE (ensure_exact_response_len data (offset + service_payload_len)
         ''request code list response length does not match its counts'') (\<lambda>_.
       Inr (RespRequestCodeList idm sf1 sf2 (Some \<lparr>continue_flag = continues, rcl_areas = areas,
         rcl_services = map ServiceCode (le_words (sub data offset (offset + service_payload_len)))\<rparr>)))))))"

definition parse_get_container_issue_information_response ::
    "bytes \<Rightarrow> bytes \<Rightarrow> driver_error + response" where
  "parse_get_container_issue_information_response idm data =
     bindE (ensure_exact_response_len data 26
       ''get container issue information response must contain exactly 16 data bytes'') (\<lambda>_.
     Inr (RespGetContainerIssueInformation idm
       \<lparr>format_version_carrier_information = sub data 10 15, mobile_phone_model_information = sub data 15 26\<rparr>))"

definition parse_get_container_property_response :: "bytes \<Rightarrow> driver_error + response" where
  "parse_get_container_property_response data =
     bindE (ensure_response_len data 3 ''short get container property response'') (\<lambda>_.
     let payload = drop IDM_OFFSET data in
     if payload = [] then
       driver_other ''get container property response data must contain at least one byte''
     else Inr (RespGetContainerProperty payload))"

definition parse_get_container_id_response :: "bytes \<Rightarrow> bytes \<Rightarrow> driver_error + response" where
  "parse_get_container_id_response container_idm data =
     bindE (ensure_exact_response_len data PAYLOAD_OFFSET
       ''get container id response must contain exactly one IDm'') (\<lambda>_.
     Inr (RespGetContainerId container_idm))"

definition parse_get_area_information_response :: "bytes \<Rightarrow> bytes \<Rightarrow> driver_error + response" where
  "parse_get_area_information_response idm data =
     bindE (response_status_flags data ''short get area information response'') (\<lambda>(sf1, sf2).
     if sf1 \<noteq> 0 then
       bindE (ensure_exact_response_len data 12
         ''get area information error response must contain only status flags'') (\<lambda>_.
       Inr (RespGetAreaInformation idm sf1 sf2 None))
     else bindE (ensure_exact_response_len data 16
         ''get area information success response must contain exactly four result bytes'') (\<lambda>_.
       Inr (RespGetAreaInformation idm sf1 sf2
         (Some \<lparr>gai_node_code = u16_from_le (data ! 12) (data ! 13), gai_data = [data ! 14, data ! 15]\<rparr>))))"

fun limited_purse_properties :: "bytes \<Rightarrow> node_property list" where
  "limited_purse_properties (e # u0 # u1 # u2 # u3 # l0 # l1 # l2 # l3 # g # r) =
     ValueLimitedPurseService (e = 0x01) (u32_from_le u0 u1 u2 u3) (u32_from_le l0 l1 l2 l3) g
     # limited_purse_properties r"
| "limited_purse_properties _ = []"

definition parse_get_node_property_response :: "bytes \<Rightarrow> bytes \<Rightarrow> driver_error + response" where
  "parse_get_node_property_response idm data =
     bindE (response_status_flags data ''short get node property response'') (\<lambda>(sf1, sf2).
     if sf1 \<noteq> 0 then
       bindE (ensure_exact_response_len data 12
         ''get node property error response must contain only status flags'') (\<lambda>_.
       Inr (RespGetNodeProperty idm sf1 sf2 None))
     else bindE (ensure_response_len data 13 ''short get node property success response'') (\<lambda>_.
       let node_count = unat (data ! 12) in
       if node_count = 0 \<or> node_count > MAX_NODE_PROPERTY_CODES then
         driver_other ''get node property node count must be between 1 and 16''
       else
         let payload = drop 13 data in
         if length payload = node_count * 10 then
           Inr (RespGetNodeProperty idm sf1 sf2 (Some (limited_purse_properties payload)))
         else if length payload = node_count then
           Inr (RespGetNodeProperty idm sf1 sf2 (Some (map (\<lambda>v. MacCommunication (v = 0x01)) payload)))
         else driver_other ''get node property payload length does not match known node property format''))"

definition parse_get_system_status_response :: "bytes \<Rightarrow> bytes \<Rightarrow> driver_error + response" where
  "parse_get_system_status_response idm data =
     bindE (ensure_response_len data 14 ''short get system status response'') (\<lambda>_.
     let sf1 = data ! PAYLOAD_OFFSET; sf2 = data ! (PAYLOAD_OFFSET + 1); flag = data ! 12;
         data_len = unat (data ! 13) in
     bindE (ensure_exact_response_len data (14 + data_len)
       ''get system status response length does not match data length'') (\<lambda>_.
     Inr (RespGetSystemStatus idm sf1 sf2 \<lparr>gss_flag = flag, gss_data = sub data 14 (14 + data_len)\<rparr>)))"

definition parse_request_product_information_response :: "bytes \<Rightarrow> bytes \<Rightarrow> driver_error + response" where
  "parse_request_product_information_response idm data =
     bindE (response_status_flags data ''short request product information response'') (\<lambda>(sf1, sf2).
     if sf1 \<noteq> 0 then
       bindE (ensure_exact_response_len data 12
         ''request product information error response must contain only status flags'') (\<lambda>_.
       Inr (RespRequestProductInformation idm sf1 sf2 None))
     else bindE (ensure_response_len data 13 ''short request product information success response'') (\<lambda>_.
       let data_len = unat (data ! 12) in
       bindE (ensure_exact_response_len data (13 + data_len)
         ''request product information response length does not match data length'') (\<lambda>_.
       Inr (RespRequestProductInformation idm sf1 sf2 (Some (sub data 13 (13 + data_len)))))))"

fun parse_option_versions :: "bytes \<Rightarrow> driver_error + option_version list" where
  "parse_option_versions (a # b # r) =
     bindE (ok_or (ov_from_le_bytes a b)
       (Other ''request specification version option is not valid packed BCD'')) (\<lambda>v.
     bindE (parse_option_versions r) (\<lambda>vs. Inr (v # vs)))"
| "parse_option_versions _ = Inr []"

definition parse_specification_version_data :: "bytes \<Rightarrow> driver_error + specification_version" where
  "parse_specification_version_data data =
     (if length data < 4 then driver_other ''request specification version payload too short''
      else
        let format = data ! 0 in
        if format \<noteq> 0x00 then
          driver_other ''request specification version format version must be 0x00''
        else bindE (ok_or (ov_from_le_bytes (data ! 1) (data ! 2))
            (Other ''request specification version basic version is not valid packed BCD'')) (\<lambda>basic.
          let option_bytes_len = unat (data ! 3) * 2 in
          if length data \<noteq> 4 + option_bytes_len then
            driver_other ''request specification version payload length does not match option count''
          else bindE (parse_option_versions (sub data 4 (4 + option_bytes_len))) (\<lambda>options.
            Inr \<lparr>format_version = format, basic_version = basic, option_versions = options\<rparr>)))"

definition parse_request_specification_version_response ::
    "bytes \<Rightarrow> bytes \<Rightarrow> driver_error + response" where
  "parse_request_specification_version_response idm data =
     bindE (response_status_flags data ''short request specification version response'') (\<lambda>(sf1, sf2).
     bindE (if sf1 = 0 then
         bindE (parse_specification_version_data (drop 12 data)) (\<lambda>v. Inr (Some v))
       else bindE (ensure_exact_response_len data 12
         ''request specification version error response must contain only status flags'') (\<lambda>_. Inr None))
       (\<lambda>version. Inr (RespRequestSpecificationVersion idm sf1 sf2 version)))"

definition parse_authentication1_response :: "bytes \<Rightarrow> bytes \<Rightarrow> driver_error + response" where
  "parse_authentication1_response idm data =
     bindE (ensure_exact_response_len data 26
       ''authentication1 response must contain exactly two 8-byte challenges'') (\<lambda>_.
     Inr (RespAuthentication1 idm (sub data 10 18) (sub data 18 26)))"

definition parse_authentication1_v2_response :: "bytes \<Rightarrow> bytes \<Rightarrow> driver_error + response" where
  "parse_authentication1_v2_response idm data =
     bindE (ensure_exact_response_len data 46
       ''authentication1 v2 response must contain exactly two 16-byte challenges and challenge3c'') (\<lambda>_.
     Inr (RespAuthentication1V2 idm (sub data 10 26) (sub data 26 42) (sub data 42 46)))"

section \<open>Secure responses\<close>

definition parse_secure_read_response :: "bytes \<Rightarrow> bool \<Rightarrow> driver_error + response" where
  "parse_secure_read_response data read_v2 =
     (if length data < 2 then driver_other ''encrypted read response shorter than status flags''
      else
        let sf1 = data ! 0; sf2 = data ! 1; resp = (if read_v2 then RespReadV2 sf1 sf2 else RespRead sf1 sf2) in
        if sf1 \<noteq> 0 then Inr (resp None)
        else if length data < 3 then
          driver_other ''successful encrypted read response missing block count''
        else
          let block_count = unat (data ! 2) in
          if block_count = 0 \<or> block_count > MAX_BLOCK_COUNT then
            driver_other ''encrypted read response block count must be between 1 and 255''
          else if length data < 3 + block_count * BLOCK_SIZE then
            driver_other ''encrypted read response truncated before block data''
          else Inr (resp (Some (collect_blocks (sub data 3 (3 + block_count * BLOCK_SIZE)) block_count))))"

definition parse_secure_write_response :: "bytes \<Rightarrow> bool \<Rightarrow> driver_error + response" where
  "parse_secure_write_response data write_v2 =
     (if length data < 2 then driver_other ''encrypted write response shorter than status flags''
      else Inr (if write_v2 then RespWriteV2 (data ! 0) (data ! 1) else RespWrite (data ! 0) (data ! 1)))"

definition parse_remaining_blocks ::
    "string \<Rightarrow> (u8 \<Rightarrow> u8 \<Rightarrow> register_result option \<Rightarrow> response) \<Rightarrow> bytes \<Rightarrow> driver_error + response" where
  "parse_remaining_blocks label resp data =
     (if length data < 2 then driver_other (label @ '' response shorter than status flags'')
      else if data ! 0 = 0 then
        (if length data < 4 then driver_other (label @ '' response missing remaining block count'')
         else Inr (resp (data ! 0) (data ! 1) (Some \<lparr>remaining_blocks = u16_from_le (data ! 2) (data ! 3)\<rparr>)))
      else Inr (resp (data ! 0) (data ! 1) None))"

definition parse_register_issue_id_response :: "bytes \<Rightarrow> driver_error + response" where
  "parse_register_issue_id_response = parse_remaining_blocks ''register issue id'' RespRegisterIssueId"

definition parse_register_service_response :: "bytes \<Rightarrow> driver_error + response" where
  "parse_register_service_response = parse_remaining_blocks ''register service'' RespRegisterService"

definition parse_register_area_response :: "bytes \<Rightarrow> driver_error + response" where
  "parse_register_area_response data =
     (if length data < 2 then driver_other ''register area response shorter than status flags''
      else Inr (RespRegisterArea (data ! 0) (data ! 1)))"

definition parse_change_system_block_response :: "bytes \<Rightarrow> driver_error + response" where
  "parse_change_system_block_response data =
     (if length data < 2 then driver_other ''commit registration response shorter than status flags''
      else Inr (RespChangeSystemBlock (data ! 0) (data ! 1)))"

section \<open>Dispatch\<close>

definition from_secure_bytes :: "u8 \<Rightarrow> bytes \<Rightarrow> driver_error + response" where
  "from_secure_bytes command_code data =
     (if command_code = READ_COMMAND_CODE then parse_secure_read_response data False
      else if command_code = READ_V2_COMMAND_CODE then parse_secure_read_response data True
      else if command_code = WRITE_COMMAND_CODE then parse_secure_write_response data False
      else if command_code = WRITE_V2_COMMAND_CODE then parse_secure_write_response data True
      else if command_code = REGISTER_ISSUE_ID_COMMAND_CODE then parse_register_issue_id_response data
      else if command_code = REGISTER_AREA_COMMAND_CODE then parse_register_area_response data
      else if command_code = REGISTER_SERVICE_COMMAND_CODE then parse_register_service_response data
      else if command_code = CHANGE_SYSTEM_BLOCK_COMMAND_CODE then parse_change_system_block_response data
      else driver_other ''unsupported secure Felica command response'')"

definition addressed_parsers :: "(u8 \<times> (bytes \<Rightarrow> bytes \<Rightarrow> driver_error + response)) list" where
  "addressed_parsers =
    [(POLLING_RESPONSE_CODE, parse_polling_response),
     (REQUEST_SERVICE_RESPONSE_CODE, parse_request_service_response),
     (REQUEST_RESPONSE_RESPONSE_CODE, parse_request_response_response),
     (READ_WITHOUT_ENCRYPTION_RESPONSE_CODE, parse_read_without_encryption_response),
     (WRITE_WITHOUT_ENCRYPTION_RESPONSE_CODE, parse_write_without_encryption_response),
     (SEARCH_SERVICE_CODE_RESPONSE_CODE, parse_search_service_code_response),
     (REQUEST_SYSTEM_CODE_RESPONSE_CODE, parse_request_systemcode_response),
     (REQUEST_BLOCK_INFORMATION_RESPONSE_CODE, parse_request_block_information_response),
     (AUTHENTICATION1_RESPONSE_CODE, parse_authentication1_response),
     (REQUEST_CODE_LIST_RESPONSE_CODE, parse_request_code_list_response),
     (REQUEST_BLOCK_INFORMATION_EX_RESPONSE_CODE, parse_request_block_information_ex_response),
     (SET_PARAMETER_RESPONSE_CODE, parse_set_parameter_response),
     (GET_CONTAINER_ISSUE_INFORMATION_RESPONSE_CODE, parse_get_container_issue_information_response),
     (GET_AREA_INFORMATION_RESPONSE_CODE, parse_get_area_information_response),
     (GET_NODE_PROPERTY_RESPONSE_CODE, parse_get_node_property_response),
     (REQUEST_SERVICE_V2_RESPONSE_CODE, parse_request_service_v2_response),
     (GET_SYSTEM_STATUS_RESPONSE_CODE, parse_get_system_status_response),
     (REQUEST_PRODUCT_INFORMATION_RESPONSE_CODE, parse_request_product_information_response),
     (REQUEST_SPECIFICATION_VERSION_RESPONSE_CODE, parse_request_specification_version_response),
     (RESET_MODE_RESPONSE_CODE, parse_reset_mode_response),
     (AUTHENTICATION1_V2_RESPONSE_CODE, parse_authentication1_v2_response),
     (GET_CONTAINER_ID_RESPONSE_CODE, parse_get_container_id_response)]"

definition from_bytes :: "bytes \<Rightarrow> driver_error + response" where
  "from_bytes data =
     bindE (ensure_response_len data 2 ''short Felica response'') (\<lambda>_.
     if unat (data ! 0) \<noteq> length data then
       driver_other ''length byte does not match response length''
     else
       let code = data ! 1 in
       if code = AUTHENTICATION2_RESPONSE_CODE then parse_authentication2_response data
       else if code = GET_CONTAINER_PROPERTY_RESPONSE_CODE then parse_get_container_property_response data
       else if code = AUTHENTICATION2_V2_RESPONSE_CODE then parse_authentication2_v2_response data
       else bindE (ensure_response_len data PAYLOAD_OFFSET ''short Felica response'') (\<lambda>_.
         bindE (parse_response_idm (drop IDM_OFFSET data)) (\<lambda>(idm, rest).
         case map_of addressed_parsers code of
           Some p \<Rightarrow> p idm data
         | None \<Rightarrow> Inr RespUnknown)))"

end
