(* ===== verification/Command.thy ===== *)
theory Command
  imports Payload
begin

text \<open>
  The typed commands of \<open>src/felica_standard/command/mod.rs\<close>, their encoding
  (\<open>command/serialize.rs\<close>) and their parsers (\<open>command/parse.rs\<close>). Constructor arguments are in
  the order of the source's fields. The \<open>debug_assert!\<close>s of the encoder are checks of debug
  builds only and are not part of the model, which is that of a release build.
\<close>

section \<open>Commands\<close>

datatype command =
    CmdPolling u16 u8 u8
  | CmdRequestService bytes "service_code list"
  | CmdRequestResponse bytes
  | CmdReadWithoutEncryption bytes "service_code list" "block_list_element list"
  | CmdWriteWithoutEncryption bytes "service_code list" "block_list_element list" bytes
  | CmdSearchServiceCode bytes u16
  | CmdRequestSystemCode bytes
  | CmdRequestBlockInformation bytes "u16 list"
  | CmdAuthentication1 bytes "u16 list" "u16 list" bytes
  | CmdAuthentication2 bytes bytes
  | CmdRead "block_list_element list"
  | CmdWrite "block_list_element list" bytes
  | CmdReadV2 "block_list_element list"
  | CmdWriteV2 "block_list_element list" bytes
  | CmdRequestCodeList bytes u16 u16
  | CmdRequestBlockInformationEx bytes "u16 list"
  | CmdSetParameter bytes set_parameter_encryption_type set_parameter_packet_type
  | CmdGetContainerIssueInformation bytes
  | CmdGetAreaInformation bytes u16
  | CmdGetNodeProperty bytes node_property_type "u16 list"
  | CmdGetContainerProperty container_property
  | CmdRequestServiceV2 bytes "service_code list"
  | CmdGetSystemStatus bytes
  | CmdRequestProductInformation bytes
  | CmdRequestSpecificationVersion bytes
  | CmdResetMode bytes
  | CmdAuthentication1V2 bytes u8 "u16 list" bytes
  | CmdAuthentication2V2 bytes bytes
  | CmdGetContainerId
  | CmdRegisterIssueId bytes bytes bytes
  | CmdRegisterArea u16 bytes
  | CmdRegisterService u16 bytes
  | CmdChangeSystemBlock

datatype command_encoding = Plain bytes | Secure u8 bytes

section \<open>Encoding\<close>

definition plain :: "bytes \<Rightarrow> felica_error + command_encoding" where
  "plain p = bindE (frame_with_length_prefix p) (\<lambda>f. Inr (Plain f))"

fun encoding :: "command \<Rightarrow> felica_error + command_encoding" where
  "encoding (CmdPolling system_code request_code time_slots) =
     (if request_code \<notin> set POLLING_REQUEST_CODES then
        Inl (Protocol (''polling request code 0x'' @ hex2 request_code @ '' is reserved''))
      else if time_slots \<notin> set POLLING_TIME_SLOTS then
        Inl (Protocol (''polling time slot value 0x'' @ hex2 time_slots @
          '' is not defined; use 0x00, 0x01, 0x03, 0x07 or 0x0F''))
      else plain ([POLLING_COMMAND_CODE] @ u16_to_be system_code @ [request_code] @ [time_slots]))"
| "encoding (CmdRequestService idm service_codes) =
     bindE (extend_counted_service_codes service_codes) (\<lambda>cs.
     plain ([REQUEST_SERVICE_COMMAND_CODE] @ idm @ cs))"
| "encoding (CmdRequestResponse idm) = plain ([REQUEST_RESPONSE_COMMAND_CODE] @ idm)"
| "encoding (CmdReadWithoutEncryption idm service_codes block_list) =
     bindE (extend_counted_service_codes service_codes) (\<lambda>cs.
     bindE (extend_counted_block_list block_list) (\<lambda>bs.
     plain ([READ_WITHOUT_ENCRYPTION_COMMAND_CODE] @ idm @ cs @ bs)))"
| "encoding (CmdWriteWithoutEncryption idm service_codes block_list data) =
     bindE (extend_counted_service_codes service_codes) (\<lambda>cs.
     bindE (extend_counted_block_list block_list) (\<lambda>bs.
     plain ([WRITE_WITHOUT_ENCRYPTION_COMMAND_CODE] @ idm @ cs @ bs @ data)))"
| "encoding (CmdSearchServiceCode idm service_index) =
     plain ([SEARCH_SERVICE_CODE_COMMAND_CODE] @ idm @ u16_to_le service_index)"
| "encoding (CmdRequestSystemCode idm) = plain ([REQUEST_SYSTEM_CODE_COMMAND_CODE] @ idm)"
| "encoding (CmdRequestBlockInformation idm node_codes) =
     bindE (extend_counted_u16_le node_codes) (\<lambda>ns.
     plain ([REQUEST_BLOCK_INFORMATION_COMMAND_CODE] @ idm @ ns))"
| "encoding (CmdAuthentication1 idm areas services challenge_1a) =
     plain ([AUTHENTICATION1_COMMAND_CODE] @ idm @ [u8_of (length areas)] @ extend_u16_list_le areas
       @ [u8_of (length services)] @ extend_u16_list_le services @ challenge_1a)"
| "encoding (CmdAuthentication2 idm challenge_2b) =
     plain ([AUTHENTICATION2_COMMAND_CODE] @ idm @ challenge_2b)"
| "encoding (CmdRead block_list) =
     bindE (extend_counted_block_list block_list) (\<lambda>bs. Inr (Secure READ_COMMAND_CODE bs))"
| "encoding (CmdWrite block_list data) =
     bindE (extend_counted_block_list block_list) (\<lambda>bs. Inr (Secure WRITE_COMMAND_CODE (bs @ data)))"
| "encoding (CmdReadV2 block_list) =
     bindE (extend_counted_block_list block_list) (\<lambda>bs. Inr (Secure READ_V2_COMMAND_CODE bs))"
| "encoding (CmdWriteV2 block_list data) =
     bindE (extend_counted_block_list block_list) (\<lambda>bs. Inr (Secure WRITE_V2_COMMAND_CODE (bs @ data)))"
| "encoding (CmdRequestCodeList idm parent_node_code index) =
     plain ([REQUEST_CODE_LIST_COMMAND_CODE] @ idm @ u16_to_le parent_node_code @ u16_to_le index)"
| "encoding (CmdRequestBlockInformationEx idm node_codes) =
     bindE (extend_counted_u16_le node_codes) (\<lambda>ns.
     plain ([REQUEST_BLOCK_INFORMATION_EX_COMMAND_CODE] @ idm @ ns))"
| "encoding (CmdSetParameter idm encryption_type packet_type) =
     plain ([SET_PARAMETER_COMMAND_CODE] @ idm @ [0x00, 0x00, 0x00, 0x00]
       @ [spe_to_byte encryption_type] @ [spp_to_byte packet_type] @ [0x00, 0x00])"
| "encoding (CmdGetContainerIssueInformation idm) =
     plain ([GET_CONTAINER_ISSUE_INFORMATION_COMMAND_CODE] @ idm @ [0x00, 0x00])"
| "encoding (CmdGetAreaInformation idm node_code) =
     plain ([GET_AREA_INFORMATION_COMMAND_CODE] @ idm @ u16_to_le node_code)"
| "encoding (CmdGetNodeProperty idm node_property_type node_codes) =
     bindE (extend_counted_u16_le node_codes) (\<lambda>ns.
     plain ([GET_NODE_PROPERTY_COMMAND_CODE] @ idm @ [npt_to_byte node_property_type] @ ns))"
| "encoding (CmdGetContainerProperty property) =
     plain ([GET_CONTAINER_PROPERTY_COMMAND_CODE] @ u16_to_le (to_index property))"
| "encoding (CmdRequestServiceV2 idm service_codes) =
     bindE (extend_counted_service_codes service_codes) (\<lambda>cs.
     plain ([REQUEST_SERVICE_V2_COMMAND_CODE] @ idm @ cs))"
| "encoding (CmdGetSystemStatus idm) =
     plain ([GET_SYSTEM_STATUS_COMMAND_CODE] @ idm @ [0x00, 0x00])"
| "encoding (CmdRequestProductInformation idm) =
     plain ([REQUEST_PRODUCT_INFORMATION_COMMAND_CODE] @ idm)"
| "encoding (CmdRequestSpecificationVersion idm) =
     plain ([REQUEST_SPECIFICATION_VERSION_COMMAND_CODE] @ idm @ [0x00, 0x00])"
| "encoding (CmdResetMode idm) = plain ([RESET_MODE_COMMAND_CODE] @ idm @ [0x00, 0x00])"
| "encoding (CmdAuthentication1V2 idm operation_parameter nodes challenge_1a) =
     plain ([AUTHENTICATION1_V2_COMMAND_CODE] @ idm @ [operation_parameter]
       @ [u8_of (length nodes)] @ extend_u16_list_le nodes @ challenge_1a)"
| "encoding (CmdAuthentication2V2 idm challenge_2b) =
     plain ([AUTHENTICATION2_V2_COMMAND_CODE] @ idm @ challenge_2b)"
| "encoding CmdGetContainerId = plain ([GET_CONTAINER_ID_COMMAND_CODE] @ [0x00, 0x00])"
| "encoding (CmdRegisterIssueId issue_id issue_parameter package) =
     Inr (Secure REGISTER_ISSUE_ID_COMMAND_CODE (issue_id @ issue_parameter @ package))"
| "encoding (CmdRegisterArea area_code package) =
     Inr (Secure REGISTER_AREA_COMMAND_CODE (u16_to_le area_code @ package))"
| "encoding (CmdRegisterService service_code package) =
     Inr (Secure REGISTER_SERVICE_COMMAND_CODE (u16_to_le service_code @ package))"
| "encoding CmdChangeSystemBlock = Inr (Secure CHANGE_SYSTEM_BLOCK_COMMAND_CODE [])"

definition to_frame :: "command \<Rightarrow> felica_error + bytes" where
  "to_frame c = bindE (encoding c) (\<lambda>e. case e of
       Plain frame \<Rightarrow> Inr frame
     | Secure _ _ \<Rightarrow> Inl (Protocol
         ''secure commands must be encrypted by a secure session, not framed directly''))"


end
