(* ===== verification/Host_Types.thy ===== *)
theory Host_Types
  imports Secure_Session Type3 Targets Response_Parse Command
begin

text \<open>
  What the reader's API adds to the data types: the texts of the status flags and the parameters of a
  DES key change (\<open>src/felica_standard/types.rs\<close>).
\<close>

section \<open>Status flag texts\<close>

text \<open>\<open>slice::join\<close> of strings.\<close>

fun join_with :: "string \<Rightarrow> string list \<Rightarrow> string" where
  "join_with sep [] = []"
| "join_with sep [x] = x"
| "join_with sep (x # y # ys) = x @ sep @ join_with sep (y # ys)"

fun sf1_description :: "status_flag1 \<Rightarrow> string" where
  "sf1_description SF1_NormalCompletion = ''normal completion''"
| "sf1_description ErrorNotAssociatedWithList = ''error not associated with a specific list entry''"
| "sf1_description (ErrorAtListPosition v) =
     ''error at list position '' @ dec (unat v) @ '' (ordinal encoding) or ''
       @ join_with ''/'' (map dec (bitmap_positions (ErrorAtListPosition v))) @ '' (bit encoding)''"

fun sf2_description :: "status_flag2 \<Rightarrow> string" where
  "sf2_description SF2_NormalCompletion = ''no additional error detail''"
| "sf2_description PurseDecrementUnderflowOrCashbackOverflow = ''purse decrement would underflow or cashback overflow''"
| "sf2_description CashbackExceedsStoredValue = ''cashback amount exceeds stored purse value''"
| "sf2_description LimitPurseOutOfRange = ''limit purse write outside allowed range''"
| "sf2_description MemoryError = ''memory error''"
| "sf2_description MemoryWriteCountExceeded = ''memory write count exceeded''"
| "sf2_description ServiceOrNodeCountOutOfRange = ''service/node count out of range''"
| "sf2_description BlockCountOutOfRange = ''block count out of range''"
| "sf2_description ServiceListIndexOutOfRange = ''service list index out of range''"
| "sf2_description AreaOrServiceAttributeMismatch = ''area or service attribute mismatch''"
| "sf2_description AccessDeniedOrParameterMismatch = ''access denied or parameters do not satisfy constraints''"
| "sf2_description ReferencedNodeDoesNotExist = ''referenced service/area/node does not exist''"
| "sf2_description InvalidAccessMode = ''invalid access mode''"
| "sf2_description BlockNumberOutOfRange = ''block number exceeds service size''"
| "sf2_description IssuingWriteFailure = ''issuing command write failure''"
| "sf2_description KeyChangeFailed = ''key change failed''"
| "sf2_description PackageParityOrMacInvalid = ''package parity or MAC invalid''"
| "sf2_description InvalidParameters = ''invalid parameters''"
| "sf2_description ServiceAlreadyExists = ''service already exists''"
| "sf2_description InvalidSystemCode = ''system code invalid''"
| "sf2_description CyclicServiceWriteOverflow = ''cyclic service simultaneous writes exceed service blocks''"
| "sf2_description PackageIdentifierInvalid = ''package identifier invalid''"
| "sf2_description PackageParameterMismatch = ''package parameter mismatch''"
| "sf2_description IssuingCommandDisabled = ''issuing command disabled''"
| "sf2_description NodeAttributeMismatch = ''node attribute mismatch''"
| "sf2_description (SF2_Unknown _) = ''unknown status flag 2''"

definition status_flag_description :: "u8 \<Rightarrow> u8 \<Rightarrow> string" where
  "status_flag_description sf1 sf2 =
     ''SF1: '' @ sf1_description (sf1_from_byte sf1) @ ''; SF2: '' @ sf2_description (sf2_from_byte sf2)"

section \<open>Key changes\<close>

record change_key_parameters =
  ck_node :: u16
  ck_parent_key :: bytes
  ck_new_key :: bytes
  ck_old_key :: bytes
  ck_new_key_version :: u16

definition block_descriptor_block_number :: "change_key_parameters \<Rightarrow> u16" where
  "block_descriptor_block_number p = ck_new_key_version p"

definition change_key_payload :: "crypto \<Rightarrow> change_key_parameters \<Rightarrow> bytes" where
  "change_key_payload C p =
     (let version_block = replicate 6 0 @ u16_to_le (ck_new_key_version p);
          parameter1 = encrypt_des_block C version_block (ck_new_key p);
          parameter1 = encrypt_des_block C parameter1 (ck_old_key p);
          parameter1 = encrypt_des_block C parameter1 (ck_parent_key p);
          parameter2 = encrypt_des_block C (ck_new_key p) (ck_old_key p);
          parameter2 = encrypt_des_block C parameter2 (ck_parent_key p) in
      parameter1 @ parameter2)"

record mutual_authentication_result =
  issue_id :: bytes
  issue_parameter :: bytes

end
