(* ===== verification/Host.thy ===== *)
theory Host
  imports Host_Types
begin

text \<open>
  The reader's API, \<open>src/felica_standard/api/mod.rs\<close>: the card that a reader has selected, the exchange
  of plain and secure commands with it, and the polling that selects it. The reader driver (the
  trait \<open>FelicaDriver\<close>) and the cipher crates are the \<open>environment\<close>: every call of the driver takes its
  state and returns the new one. An operation is a function on the host's state that returns a
  result and the state it leaves, also when it fails.
\<close>

record 'd environment =
  detect_type_f :: "'d \<Rightarrow> remote_target \<Rightarrow> u16 \<Rightarrow> u8 \<Rightarrow> u8 \<Rightarrow> (driver_error + type3_tag_polling_result) \<times> 'd"
  transceive :: "'d \<Rightarrow> remote_target \<Rightarrow> bytes \<Rightarrow> u16 option \<Rightarrow> (driver_error + bytes) \<times> 'd"
  env_des :: crypto
  env_aes :: aes_crypto

record 'd felica_standard =
  fs_device :: 'd
  fs_target :: remote_target
  fs_polling_result :: type3_tag_polling_result
  fs_authenticated_context :: "authenticated_context option"

type_synonym ('d, 'a) host_op = "'d felica_standard \<Rightarrow> (felica_error + 'a) \<times> 'd felica_standard"

section \<open>Sequencing\<close>

definition bindH :: "('d, 'a) host_op \<Rightarrow> ('a \<Rightarrow> ('d, 'b) host_op) \<Rightarrow> ('d, 'b) host_op" where
  "bindH m f h = (case m h of (Inl e, h') \<Rightarrow> (Inl e, h') | (Inr x, h') \<Rightarrow> f x h')"

definition liftH :: "felica_error + 'a \<Rightarrow> ('d, 'a) host_op" where
  "liftH r h = (r, h)"

definition readH :: "('d felica_standard \<Rightarrow> 'a) \<Rightarrow> ('d, 'a) host_op" where
  "readH f h = (Inr (f h), h)"

lemma liftH_simp [simp]: "liftH r h = (r, h)"
  by (simp add: liftH_def)

lemma readH_simp [simp]: "readH f h = (Inr (f h), h)"
  by (simp add: readH_def)

lemma bindH_liftH_Inr [simp]: "bindH (liftH (Inr x)) f = f x"
  by (rule ext) (simp add: bindH_def)

lemma bindH_liftH_Inl [simp]: "bindH (liftH (Inl e)) f = liftH (Inl e)"
  by (rule ext) (simp add: bindH_def)

lemma bindH_readH [simp]: "bindH (readH g) f h = f (g h) h"
  by (simp add: bindH_def)

lemma bindH_Inr: "m h = (Inr x, h') \<Longrightarrow> bindH m f h = f x h'"
  by (simp add: bindH_def)

lemma bindH_Inl: "m h = (Inl e, h') \<Longrightarrow> bindH m f h = (Inl e, h')"
  by (simp add: bindH_def)

section \<open>Selecting a card\<close>

text \<open>\<open>ordered.contains\<close> and \<open>push\<close>, then the stable sort.\<close>

definition felica_bitrate_preference :: "string \<Rightarrow> nat" where
  "felica_bitrate_preference speed = (if speed = ''424F'' then 0 else if speed = ''212F'' then 1 else 2)"

definition order_felica_bitrates :: "string list \<Rightarrow> string list" where
  "order_felica_bitrates bitrates =
     sort_key felica_bitrate_preference
       (foldl (\<lambda>ordered speed. if speed \<in> set ordered then ordered else ordered @ [speed]) [] bitrates)"

definition validate_polling_parameters :: "u8 \<Rightarrow> u8 \<Rightarrow> felica_error + unit" where
  "validate_polling_parameters request_code time_slots =
     (if request_code \<notin> set POLLING_REQUEST_CODES then
        Inl (InvalidParameter (''polling request code 0x'' @ hex2 request_code @
          '' is reserved; use 0x00 (no request), 0x01 (system code) or 0x02 (communication performance)''))
      else if time_slots \<notin> set POLLING_TIME_SLOTS then
        Inl (InvalidParameter (''polling time slot value 0x'' @ hex2 time_slots @
          '' is not defined; use 0x00, 0x01, 0x03, 0x07 or 0x0F for 1, 2, 4, 8 or 16 slots''))
      else Inr ())"

fun from_target_error :: "target_error \<Rightarrow> felica_error" where
  "from_target_error (UnsupportedTargetError m) = UnsupportedTarget m"
| "from_target_error (TargetPanicked m) = Panicked m"

text \<open>The loop over the bitrates; \<open>last_error\<close> is the error of the last attempt.\<close>

fun polling_attempts ::
    "'d environment \<Rightarrow> u16 \<Rightarrow> u8 \<Rightarrow> u8 \<Rightarrow> felica_error option \<Rightarrow> string list \<Rightarrow> 'd
      \<Rightarrow> (felica_error + 'd felica_standard \<times> type3_tag_polling_result) \<times> 'd" where
  "polling_attempts E system_code request_code time_slots last_error [] d =
     (Inl (case last_error of Some e \<Rightarrow> e
        | None \<Rightarrow> Panicked ''a bitrate was attempted, so an error was recorded''), d)"
| "polling_attempts E system_code request_code time_slots last_error (speed # bitrates) d =
     (case remote_target_new speed of
        Inl e \<Rightarrow> (Inl (from_target_error e), d)
      | Inr target \<Rightarrow>
          (case detect_type_f E d target system_code request_code time_slots of
             (Inr polling_result, d') \<Rightarrow>
               (Inr (\<lparr>fs_device = d', fs_target = target, fs_polling_result = polling_result,
                  fs_authenticated_context = None\<rparr>, polling_result), d')
           | (Inl err, d') \<Rightarrow>
               polling_attempts E system_code request_code time_slots (Some (Driver err)) bitrates d'))"

definition polling_multi ::
    "'d environment \<Rightarrow> string list \<Rightarrow> u16 \<Rightarrow> u8 \<Rightarrow> u8 \<Rightarrow> 'd
      \<Rightarrow> (felica_error + 'd felica_standard \<times> type3_tag_polling_result) \<times> 'd" where
  "polling_multi E bitrates system_code request_code time_slots d =
     (case validate_polling_parameters request_code time_slots of
        Inl e \<Rightarrow> (Inl e, d)
      | Inr _ \<Rightarrow>
          let ordered = order_felica_bitrates bitrates in
          if ordered = [] then (Inl (InvalidParameter ''polling requires at least one bitrate''), d)
          else polling_attempts E system_code request_code time_slots None ordered d)"

definition polling ::
    "'d environment \<Rightarrow> string \<Rightarrow> u16 \<Rightarrow> u8 \<Rightarrow> u8 \<Rightarrow> 'd
      \<Rightarrow> (felica_error + 'd felica_standard \<times> type3_tag_polling_result) \<times> 'd" where
  "polling E speed system_code request_code time_slots d =
     polling_multi E [speed] system_code request_code time_slots d"

definition host_bitrate :: "'d felica_standard \<Rightarrow> string" where
  "host_bitrate h = remote_bitrate (fs_target h)"

section \<open>Parameters and status\<close>

definition idm_bytes :: "('d, bytes) host_op" where
  "idm_bytes h =
     (if length (t3_idm (fs_polling_result h)) = IDM_LEN then (Inr (t3_idm (fs_polling_result h)), h)
      else (Inl (InvalidParameter ''IDm must be 8 bytes long''), h))"

definition status_error :: "string \<Rightarrow> u8 \<Rightarrow> u8 \<Rightarrow> felica_error" where
  "status_error cmd sf1 sf2 = Status cmd sf1 sf2 (status_flag_description sf1 sf2)"

definition check_status_flags :: "string \<Rightarrow> u8 \<Rightarrow> u8 \<Rightarrow> felica_error + unit" where
  "check_status_flags cmd sf1 sf2 =
     (if sf2 = 0x71 \<and> (sf1 = 0x00 \<or> sf1 = 0xFF) then Inr ()
      else if sf1 \<noteq> 0x00 then Inl (status_error cmd sf1 sf2)
      else Inr ())"

definition require_result :: "string \<Rightarrow> u8 \<Rightarrow> u8 \<Rightarrow> 'r option \<Rightarrow> felica_error + 'r" where
  "require_result cmd sf1 sf2 result =
     bindE (check_status_flags cmd sf1 sf2) (\<lambda>_.
     ok_or result (Protocol (cmd @ '' missing result payload'')))"

definition ensure_len_in_range :: "string \<Rightarrow> nat \<Rightarrow> nat \<Rightarrow> nat \<Rightarrow> felica_error + unit" where
  "ensure_len_in_range name len mn mx =
     (if mn \<le> len \<and> len \<le> mx then Inr ()
      else Inl (InvalidParameter (name @ '' must contain between '' @ dec mn @ '' and '' @ dec mx @ '' entries'')))"

definition validate_block_list_indices :: "block_list_element list \<Rightarrow> nat \<Rightarrow> felica_error + unit" where
  "validate_block_list_indices block_list service_codes_len =
     (if list_ex (\<lambda>b. unat (service_code_list_index b) \<ge> service_codes_len) block_list then
        Inl (InvalidParameter ''block_list references out-of-range service index'')
      else Inr ())"

definition ensure_block_data_length :: "nat \<Rightarrow> nat \<Rightarrow> felica_error + unit" where
  "ensure_block_data_length block_count data_len =
     (if data_len = block_count * BLOCK_SIZE then Inr ()
      else Inl (InvalidParameter ''data length must equal 16 * block_list length''))"

definition expected_secure_response_code :: "u8 \<Rightarrow> u8" where
  "expected_secure_response_code command_code =
     (if command_code = READ_V2_COMMAND_CODE then READ_V2_RESPONSE_CODE
      else if command_code = WRITE_V2_COMMAND_CODE then WRITE_V2_RESPONSE_CODE
      else command_code + 1)"

definition unexpected_response :: "string \<Rightarrow> felica_error" where
  "unexpected_response cmd = Protocol (''unexpected response for '' @ cmd @ '' command'')"

section \<open>Secure exchanges\<close>

text \<open>\<open>self.device.transceive(&self.target, frame, Some(timeout))?\<close>, and \<open>secure_context_mut\<close>.\<close>

definition device_transceive :: "'d environment \<Rightarrow> bytes \<Rightarrow> u16 \<Rightarrow> ('d, bytes) host_op" where
  "device_transceive E f timeout_ms h =
     (case transceive E (fs_device h) (fs_target h) f (Some timeout_ms) of
        (r, d') \<Rightarrow> (map_err Driver r, h\<lparr>fs_device := d'\<rparr>))"

definition secure_context :: "('d, authenticated_context) host_op" where
  "secure_context h = (ok_or (fs_authenticated_context h) AuthenticationRequired, h)"

definition put_context :: "authenticated_context \<Rightarrow> ('d, unit) host_op" where
  "put_context x h = (Inr (), h\<lparr>fs_authenticated_context := Some x\<rparr>)"

definition send_encrypted_command :: "'d environment \<Rightarrow> u8 \<Rightarrow> bytes \<Rightarrow> u16 \<Rightarrow> ('d, bytes) host_op" where
  "send_encrypted_command E command_code encrypted_payload timeout_ms =
     bindH (liftH (frame_with_length_prefix ([command_code] @ encrypted_payload))) (\<lambda>f.
     bindH (device_transceive E f timeout_ms) (\<lambda>response.
     liftH (
       if length response < 2 then Inl (Protocol ''secure response too short'')
       else if unat (response ! 0) \<noteq> length response then
         Inl (Protocol ''secure response length field does not match payload'')
       else if response ! 1 \<noteq> expected_secure_response_code command_code then
         Inl (Protocol ''secure response command code mismatch'')
       else Inr (drop 2 response))))"

definition process_encrypted_response :: "u16 \<times> bytes \<Rightarrow> ('d, bytes) host_op" where
  "process_encrypted_response decrypted =
     bindH secure_context (\<lambda>x.
     if fst decrypted \<le> ax_transaction_number x then
       liftH (Inl (SecureSessionError ''secure response transaction number did not advance''))
     else
       bindH (put_context (set_transaction_number x (fst decrypted))) (\<lambda>_.
       liftH (Inr (snd decrypted))))"

definition encrypted_command_exchange :: "'d environment \<Rightarrow> u8 \<Rightarrow> bytes \<Rightarrow> u16 \<Rightarrow> ('d, bytes) host_op" where
  "encrypted_command_exchange E command_code command_payload timeout_ms =
     bindH secure_context (\<lambda>x.
     bindH (liftH (capture x)) (\<lambda>(s, x').
     bindH (put_context x') (\<lambda>_.
     bindH (liftH (encrypt_command (env_des E) (env_aes E) s command_code
       (build_secure_payload s command_payload))) (\<lambda>encrypted.
     bindH (send_encrypted_command E command_code encrypted timeout_ms) (\<lambda>encrypted_response.
     bindH (liftH (decrypt_response (env_des E) (env_aes E) s
       (expected_secure_response_code command_code) encrypted_response)) process_encrypted_response)))))"

definition secure_transceive :: "'d environment \<Rightarrow> u8 \<Rightarrow> bytes \<Rightarrow> u16 \<Rightarrow> ('d, bytes) host_op" where
  "secure_transceive E command_code command_payload timeout_ms =
     encrypted_command_exchange E command_code command_payload timeout_ms"

definition send_command :: "'d environment \<Rightarrow> command \<Rightarrow> u16 \<Rightarrow> ('d, response) host_op" where
  "send_command E command timeout_ms =
     bindH (liftH (encoding command)) (\<lambda>enc.
     case enc of
       Plain f \<Rightarrow>
         bindH (device_transceive E f timeout_ms) (\<lambda>response_bytes.
         liftH (map_err Driver (from_bytes response_bytes)))
     | Secure opcode p \<Rightarrow>
         bindH (encrypted_command_exchange E opcode p timeout_ms) (\<lambda>decrypted.
         liftH (map_err Driver (from_secure_bytes opcode decrypted))))"

definition execute_command :: "'d environment \<Rightarrow> string \<Rightarrow> command \<Rightarrow> u16 \<Rightarrow> ('d, response) host_op" where
  "execute_command E command_name command timeout_ms = send_command E command timeout_ms"

end
