(* ===== verification/Host_Ops.thy ===== *)
theory Host_Ops
  imports Host
begin

text \<open>
  The typed operations of the reader's API: \<open>src/felica_standard/api/basic.rs\<close> and \<open>api/secure_ops.rs\<close>.
  Every operation checks its arguments, derives the timeout from the card's PMm, runs one exchange
  and takes the answer apart. The random numbers of an authentication (\<open>rand::random\<close>) are arguments.
\<close>

section \<open>Plain commands\<close>

definition request_service ::
    "'d environment \<Rightarrow> service_code list \<Rightarrow> ('d, u16 list) host_op" where
  "request_service E service_codes =
     bindH (liftH (ensure_len_in_range ''service_codes'' (length service_codes) 1 MAX_SERVICE_CODES)) (\<lambda>_.
     bindH idm_bytes (\<lambda>idm.
     bindH (readH (\<lambda>h. request_service_timeout_ms (fs_polling_result h) (length service_codes))) (\<lambda>timeout_ms.
     bindH (execute_command E ''Request Service'' (CmdRequestService idm service_codes) timeout_ms) (\<lambda>response.
     liftH (case response of
         RespRequestService _ key_versions \<Rightarrow> 
           if length key_versions \<noteq> length service_codes then Inl (Protocol ''Request Service key version count mismatch'') else Inr key_versions
       | _ \<Rightarrow> Inl (unexpected_response ''Request Service''))))))"

definition request_response ::
    "'d environment \<Rightarrow> ('d, u8) host_op" where
  "request_response E =
     bindH idm_bytes (\<lambda>idm.
     bindH (readH (\<lambda>h. request_response_timeout_ms (fs_polling_result h))) (\<lambda>timeout_ms.
     bindH (execute_command E ''Request Response'' (CmdRequestResponse idm) timeout_ms) (\<lambda>response.
     liftH (case response of
         RespRequestResponse _ mode \<Rightarrow> Inr mode
       | _ \<Rightarrow> Inl (unexpected_response ''Request Response'')))))"

definition read_without_encryption ::
    "'d environment \<Rightarrow> service_code list \<Rightarrow> block_list_element list \<Rightarrow> ('d, bytes list) host_op" where
  "read_without_encryption E service_codes block_list =
     bindH (liftH (ensure_len_in_range ''service_codes'' (length service_codes) 1 MAX_RW_SERVICE_CODES)) (\<lambda>_.
     bindH (liftH (ensure_len_in_range ''block_list'' (length block_list) 1 MAX_READ_WITHOUT_ENCRYPTION_BLOCK_COUNT)) (\<lambda>_.
     bindH (liftH (validate_block_list_indices block_list (length service_codes))) (\<lambda>_.
     bindH idm_bytes (\<lambda>idm.
     bindH (readH (\<lambda>h. read_without_encryption_timeout_ms (fs_polling_result h) (length block_list))) (\<lambda>timeout_ms.
     bindH (execute_command E ''Read Without Encryption'' (CmdReadWithoutEncryption idm service_codes block_list) timeout_ms) (\<lambda>response.
     liftH (case response of
         RespReadWithoutEncryption _ sf1 sf2 result \<Rightarrow> 
           bindE (require_result ''Read Without Encryption'' sf1 sf2 result) (\<lambda>blocks.
           if length blocks \<noteq> length block_list then
             Inl (Protocol ''Read Without Encryption response block count mismatch'')
           else Inr blocks)
       | _ \<Rightarrow> Inl (unexpected_response ''Read Without Encryption''))))))))"

definition write_without_encryption ::
    "'d environment \<Rightarrow> service_code list \<Rightarrow> block_list_element list \<Rightarrow> bytes \<Rightarrow> ('d, unit) host_op" where
  "write_without_encryption E service_codes block_list data =
     bindH (liftH (ensure_len_in_range ''service_codes'' (length service_codes) 1 MAX_RW_SERVICE_CODES)) (\<lambda>_.
     bindH (liftH (ensure_len_in_range ''block_list'' (length block_list) 1 MAX_BLOCK_COUNT)) (\<lambda>_.
     bindH (liftH (validate_block_list_indices block_list (length service_codes))) (\<lambda>_.
     bindH (liftH (ensure_block_data_length (length block_list) (length data))) (\<lambda>_.
     bindH idm_bytes (\<lambda>idm.
     bindH (readH (\<lambda>h. write_without_encryption_timeout_ms (fs_polling_result h) (length block_list))) (\<lambda>timeout_ms.
     bindH (execute_command E ''Write Without Encryption'' (CmdWriteWithoutEncryption idm service_codes block_list data) timeout_ms) (\<lambda>response.
     liftH (case response of
         RespWriteWithoutEncryption _ sf1 sf2 \<Rightarrow> check_status_flags ''Write Without Encryption'' sf1 sf2
       | _ \<Rightarrow> Inl (unexpected_response ''Write Without Encryption'')))))))))"

definition search_service_code ::
    "'d environment \<Rightarrow> u16 \<Rightarrow> ('d, search_service_code_result option) host_op" where
  "search_service_code E service_index =
     bindH idm_bytes (\<lambda>idm.
     bindH (readH (\<lambda>h. search_service_code_timeout_ms (fs_polling_result h))) (\<lambda>timeout_ms.
     bindH (execute_command E ''Search Service Code'' (CmdSearchServiceCode idm service_index) timeout_ms) (\<lambda>response.
     liftH (case response of
         RespSearchServiceCode _ result \<Rightarrow> Inr result
       | _ \<Rightarrow> Inl (unexpected_response ''Search Service Code'')))))"

definition request_system_code ::
    "'d environment \<Rightarrow> ('d, u16 list) host_op" where
  "request_system_code E =
     bindH idm_bytes (\<lambda>idm.
     bindH (readH (\<lambda>h. request_system_code_timeout_ms (fs_polling_result h))) (\<lambda>timeout_ms.
     bindH (execute_command E ''Request System Code'' (CmdRequestSystemCode idm) timeout_ms) (\<lambda>response.
     liftH (case response of
         RespRequestSystemCode _ codes \<Rightarrow> Inr codes
       | _ \<Rightarrow> Inl (unexpected_response ''Request System Code'')))))"

definition request_block_information ::
    "'d environment \<Rightarrow> u16 list \<Rightarrow> ('d, u16 list) host_op" where
  "request_block_information E node_codes =
     bindH (liftH (ensure_len_in_range ''node_codes'' (length node_codes) 1 MAX_NODE_CODES)) (\<lambda>_.
     bindH idm_bytes (\<lambda>idm.
     bindH (readH (\<lambda>h. request_block_information_timeout_ms (fs_polling_result h) (length node_codes))) (\<lambda>timeout_ms.
     bindH (execute_command E ''Request Block Information'' (CmdRequestBlockInformation idm node_codes) timeout_ms) (\<lambda>response.
     liftH (case response of
         RespRequestBlockInformation _ block_counts \<Rightarrow> 
           if length block_counts \<noteq> length node_codes then Inl (Protocol ''Request Block Information block count list length mismatch'') else Inr block_counts
       | _ \<Rightarrow> Inl (unexpected_response ''Request Block Information''))))))"

definition request_block_information_ex ::
    "'d environment \<Rightarrow> u16 list \<Rightarrow> ('d, request_block_information_ex_result) host_op" where
  "request_block_information_ex E node_codes =
     bindH (liftH (ensure_len_in_range ''node_codes'' (length node_codes) 1 MAX_NODE_CODES)) (\<lambda>_.
     bindH idm_bytes (\<lambda>idm.
     bindH (readH (\<lambda>h. request_block_information_ex_timeout_ms (fs_polling_result h) (length node_codes))) (\<lambda>timeout_ms.
     bindH (execute_command E ''Request Block Information Ex'' (CmdRequestBlockInformationEx idm node_codes) timeout_ms) (\<lambda>response.
     liftH (case response of
         RespRequestBlockInformationEx _ sf1 sf2 result \<Rightarrow> 
           bindE (require_result ''Request Block Information Ex'' sf1 sf2 result) (\<lambda>r.
           if length (assigned_block_counts r) \<noteq> length node_codes
               \<or> length (free_block_counts r) \<noteq> length node_codes then
             Inl (Protocol ''Request Block Information Ex count list length mismatch'')
           else Inr r)
       | _ \<Rightarrow> Inl (unexpected_response ''Request Block Information Ex''))))))"

definition request_code_list ::
    "'d environment \<Rightarrow> u16 \<Rightarrow> u16 \<Rightarrow> ('d, request_code_list_result) host_op" where
  "request_code_list E parent_node_code i =
     bindH idm_bytes (\<lambda>idm.
     bindH (readH (\<lambda>h. request_code_list_timeout_ms (fs_polling_result h))) (\<lambda>timeout_ms.
     bindH (execute_command E ''Request Code List'' (CmdRequestCodeList idm parent_node_code i) timeout_ms) (\<lambda>response.
     liftH (case response of
         RespRequestCodeList _ sf1 sf2 result \<Rightarrow> require_result ''Request Code List'' sf1 sf2 result
       | _ \<Rightarrow> Inl (unexpected_response ''Request Code List'')))))"

definition set_parameter ::
    "'d environment \<Rightarrow> set_parameter_encryption_type \<Rightarrow> set_parameter_packet_type \<Rightarrow> ('d, unit) host_op" where
  "set_parameter E encryption_type packet_type =
     bindH idm_bytes (\<lambda>idm.
     bindH (readH (\<lambda>h. set_parameter_timeout_ms (fs_polling_result h))) (\<lambda>timeout_ms.
     bindH (execute_command E ''Set Parameter'' (CmdSetParameter idm encryption_type packet_type) timeout_ms) (\<lambda>response.
     liftH (case response of
         RespSetParameter _ sf1 sf2 \<Rightarrow> check_status_flags ''Set Parameter'' sf1 sf2
       | _ \<Rightarrow> Inl (unexpected_response ''Set Parameter'')))))"

definition get_container_issue_information ::
    "'d environment \<Rightarrow> ('d, container_information) host_op" where
  "get_container_issue_information E =
     bindH idm_bytes (\<lambda>idm.
     bindH (readH (\<lambda>h. get_container_issue_information_timeout_ms (fs_polling_result h))) (\<lambda>timeout_ms.
     bindH (execute_command E ''Get Container Issue Information'' (CmdGetContainerIssueInformation idm) timeout_ms) (\<lambda>response.
     liftH (case response of
         RespGetContainerIssueInformation _ info \<Rightarrow> Inr info
       | _ \<Rightarrow> Inl (unexpected_response ''Get Container Issue Information'')))))"

definition get_container_property ::
    "'d environment \<Rightarrow> container_property \<Rightarrow> ('d, bytes) host_op" where
  "get_container_property E p =
     bindH (readH (\<lambda>h. get_container_property_timeout_ms (fs_polling_result h))) (\<lambda>timeout_ms.
     bindH (execute_command E ''Get Container Property'' (CmdGetContainerProperty p) timeout_ms) (\<lambda>response.
     liftH (case response of
         RespGetContainerProperty data \<Rightarrow> Inr data
       | _ \<Rightarrow> Inl (unexpected_response ''Get Container Property''))))"

definition get_container_id ::
    "'d environment \<Rightarrow> ('d, bytes) host_op" where
  "get_container_id E =
     bindH (readH (\<lambda>h. get_container_id_timeout_ms (fs_polling_result h))) (\<lambda>timeout_ms.
     bindH (execute_command E ''Get Container ID'' (CmdGetContainerId) timeout_ms) (\<lambda>response.
     liftH (case response of
         RespGetContainerId container_idm \<Rightarrow> Inr container_idm
       | _ \<Rightarrow> Inl (unexpected_response ''Get Container ID''))))"

definition get_system_status ::
    "'d environment \<Rightarrow> ('d, get_system_status_result) host_op" where
  "get_system_status E =
     bindH idm_bytes (\<lambda>idm.
     bindH (readH (\<lambda>h. get_system_status_timeout_ms (fs_polling_result h))) (\<lambda>timeout_ms.
     bindH (execute_command E ''Get System Status'' (CmdGetSystemStatus idm) timeout_ms) (\<lambda>response.
     liftH (case response of
         RespGetSystemStatus _ sf1 sf2 result \<Rightarrow> bindE (check_status_flags ''Get System Status'' sf1 sf2) (\<lambda>_. Inr result)
       | _ \<Rightarrow> Inl (unexpected_response ''Get System Status'')))))"

definition request_product_information ::
    "'d environment \<Rightarrow> ('d, bytes) host_op" where
  "request_product_information E =
     bindH idm_bytes (\<lambda>idm.
     bindH (readH (\<lambda>h. request_product_information_timeout_ms (fs_polling_result h))) (\<lambda>timeout_ms.
     bindH (execute_command E ''Request Product Information'' (CmdRequestProductInformation idm) timeout_ms) (\<lambda>response.
     liftH (case response of
         RespRequestProductInformation _ sf1 sf2 result \<Rightarrow> require_result ''Request Product Information'' sf1 sf2 result
       | _ \<Rightarrow> Inl (unexpected_response ''Request Product Information'')))))"

definition request_specification_version ::
    "'d environment \<Rightarrow> ('d, specification_version option) host_op" where
  "request_specification_version E =
     bindH idm_bytes (\<lambda>idm.
     bindH (readH (\<lambda>h. request_specification_version_timeout_ms (fs_polling_result h))) (\<lambda>timeout_ms.
     bindH (execute_command E ''Request Specification Version'' (CmdRequestSpecificationVersion idm) timeout_ms) (\<lambda>response.
     liftH (case response of
         RespRequestSpecificationVersion _ sf1 sf2 version \<Rightarrow> 
           bindE (check_status_flags ''Request Specification Version'' sf1 sf2) (\<lambda>_. Inr version)
       | _ \<Rightarrow> Inl (unexpected_response ''Request Specification Version'')))))"

definition host_reset_mode ::
    "'d environment \<Rightarrow> ('d, unit) host_op" where
  "host_reset_mode E =
     bindH idm_bytes (\<lambda>idm.
     bindH (readH (\<lambda>h. reset_mode_timeout_ms (fs_polling_result h))) (\<lambda>timeout_ms.
     bindH (execute_command E ''Reset Mode'' (CmdResetMode idm) timeout_ms) (\<lambda>response.
     liftH (case response of
         RespResetMode _ sf1 sf2 \<Rightarrow> check_status_flags ''Reset Mode'' sf1 sf2
       | _ \<Rightarrow> Inl (unexpected_response ''Reset Mode'')))))"

definition get_area_information ::
    "'d environment \<Rightarrow> u16 \<Rightarrow> ('d, get_area_information_result) host_op" where
  "get_area_information E node_code =
     bindH idm_bytes (\<lambda>idm.
     bindH (readH (\<lambda>h. get_area_information_timeout_ms (fs_polling_result h))) (\<lambda>timeout_ms.
     bindH (execute_command E ''Get Area Information'' (CmdGetAreaInformation idm node_code) timeout_ms) (\<lambda>response.
     liftH (case response of
         RespGetAreaInformation _ sf1 sf2 result \<Rightarrow> require_result ''Get Area Information'' sf1 sf2 result
       | _ \<Rightarrow> Inl (unexpected_response ''Get Area Information'')))))"

definition get_node_property ::
    "'d environment \<Rightarrow> node_property_type \<Rightarrow> u16 list \<Rightarrow> ('d, node_property list) host_op" where
  "get_node_property E npt node_codes =
     bindH (liftH (ensure_len_in_range ''node_codes'' (length node_codes) 1 MAX_NODE_PROPERTY_CODES)) (\<lambda>_.
     bindH idm_bytes (\<lambda>idm.
     bindH (readH (\<lambda>h. get_node_property_timeout_ms (fs_polling_result h) (length node_codes))) (\<lambda>timeout_ms.
     bindH (execute_command E ''Get Node Property'' (CmdGetNodeProperty idm npt node_codes) timeout_ms) (\<lambda>response.
     liftH (case response of
         RespGetNodeProperty _ sf1 sf2 result \<Rightarrow> 
           bindE (require_result ''Get Node Property'' sf1 sf2 result) (\<lambda>ps.
           if length ps \<noteq> length node_codes then
             Inl (Protocol ''Get Node Property property count mismatch'')
           else if list_ex (\<lambda>p. property_type p \<noteq> npt) ps then
             Inl (Protocol ''Get Node Property returned unexpected property type'')
           else Inr ps)
       | _ \<Rightarrow> Inl (unexpected_response ''Get Node Property''))))))"

section \<open>Mutual authentication\<close>

definition authentication1 ::
    "'d environment \<Rightarrow> u16 list \<Rightarrow> service_code list \<Rightarrow> bytes \<Rightarrow> ('d, bytes \<times> bytes) host_op" where
  "authentication1 E areas services challenge_1a =
     bindH idm_bytes (\<lambda>idm.
     bindH (liftH (guardE (length areas \<le> MAX_SERVICE_CODES)
       (InvalidParameter ''too many areas for authentication1''))) (\<lambda>_.
     bindH (liftH (guardE (length services \<le> MAX_SERVICE_CODES)
       (InvalidParameter ''too many services for authentication1''))) (\<lambda>_.
     bindH (readH (\<lambda>h. authentication1_timeout_ms (fs_polling_result h) (length areas + length services))) (\<lambda>timeout_ms.
     bindH (execute_command E ''Authentication1'' (CmdAuthentication1 idm areas (map code_raw services) challenge_1a) timeout_ms) (\<lambda>response.
     liftH (case response of
         RespAuthentication1 _ challenge_1b challenge_2a \<Rightarrow> Inr (challenge_1b, challenge_2a)
       | _ \<Rightarrow> Inl (unexpected_response ''Authentication1'')))))))"

definition authentication2 ::
    "'d environment \<Rightarrow> bytes \<Rightarrow> ('d, bytes) host_op" where
  "authentication2 E challenge_2b =
     bindH idm_bytes (\<lambda>idm.
     bindH (readH (\<lambda>h. authentication2_timeout_ms (fs_polling_result h))) (\<lambda>timeout_ms.
     bindH (execute_command E ''Authentication2'' (CmdAuthentication2 idm challenge_2b) timeout_ms) (\<lambda>response.
     liftH (case response of
         RespAuthentication2 p \<Rightarrow> Inr p
       | _ \<Rightarrow> Inl (unexpected_response ''Authentication2'')))))"

definition authentication1_v2 ::
    "'d environment \<Rightarrow> u8 \<Rightarrow> u16 list \<Rightarrow> bytes \<Rightarrow> ('d, bytes \<times> bytes \<times> bytes) host_op" where
  "authentication1_v2 E operation_parameter nodes challenge_1a =
     bindH idm_bytes (\<lambda>idm.
     bindH (liftH (guardE (length nodes \<le> MAX_SERVICE_CODES)
       (InvalidParameter ''too many nodes for authentication1 v2''))) (\<lambda>_.
     bindH (readH (\<lambda>h. authentication1_timeout_ms (fs_polling_result h) (length nodes))) (\<lambda>timeout_ms.
     bindH (execute_command E ''Authentication1 v2'' (CmdAuthentication1V2 idm operation_parameter nodes challenge_1a) timeout_ms) (\<lambda>response.
     liftH (case response of
         RespAuthentication1V2 _ challenge_1b challenge_2a c3 \<Rightarrow> 
           Inr (challenge_1b, challenge_2a, c3)
       | _ \<Rightarrow> Inl (unexpected_response ''Authentication1 v2''))))))"

definition authentication2_v2 ::
    "'d environment \<Rightarrow> bytes \<Rightarrow> ('d, bytes) host_op" where
  "authentication2_v2 E challenge_2b =
     bindH idm_bytes (\<lambda>idm.
     bindH (readH (\<lambda>h. authentication2_timeout_ms (fs_polling_result h))) (\<lambda>timeout_ms.
     bindH (execute_command E ''Authentication2 v2'' (CmdAuthentication2V2 idm challenge_2b) timeout_ms) (\<lambda>response.
     liftH (case response of
         RespAuthentication2V2 p \<Rightarrow> Inr p
       | _ \<Rightarrow> Inl (unexpected_response ''Authentication2 v2'')))))"

definition mutual_authentication ::
    "'d environment \<Rightarrow> bytes \<Rightarrow> u16 list \<Rightarrow> service_code list \<Rightarrow> bytes \<Rightarrow> bytes
      \<Rightarrow> ('d, mutual_authentication_result) host_op" where
  "mutual_authentication E random_1 areas services group_service_key user_service_key =
     (let C = env_des E in
      bindH (liftH (guardE (\<not> (areas = [] \<and> services = []))
        (InvalidParameter ''mutual authentication requires at least one area or service code''))) (\<lambda>_.
      bindH idm_bytes (\<lambda>idm.
      let x = authentication_context_new C idm group_service_key user_service_key in
      bindH (authentication1 E areas services (encrypt_challenge1a C x random_1)) (\<lambda>(challenge_1b, challenge_2a).
      if \<not> verify_challenge1b C x random_1 challenge_1b then
        liftH (Inl (AuthenticationFailed ''Authentication1 verification failed''))
      else
        let random_2 = decrypt_challenge2a C x challenge_2a in
        bindH (authentication2 E (encrypt_challenge2b C x random_2)) (\<lambda>auth2_response.
        bindH (liftH (auth2_decrypt_payload C auth2_response random_2)) (\<lambda>p.
        if length p < 24 then liftH (Inl (Protocol ''Authentication2 response payload too short''))
        else
          let transaction_number = u16_from_le (p ! 0) (p ! 1);
              transaction_id = take 6 (drop 2 p);
              expected_id = take 6 (drop 2 random_1) in
          if transaction_id \<noteq> expected_id then
            liftH (Inl (AuthenticationFailed ''Authentication2 transaction ID mismatch''))
          else
            bindH (put_context (with_nodes
              (authenticated_context_new transaction_number transaction_id (CredDes random_2))
              (map code_raw services))) (\<lambda>_.
            liftH (Inr \<lparr>issue_id = take 8 (drop 8 p), issue_parameter = take 8 (drop 16 p)\<rparr>))))))))"

definition mutual_authentication_v2 ::
    "'d environment \<Rightarrow> bytes \<Rightarrow> u8 \<Rightarrow> u16 list \<Rightarrow> bytes \<Rightarrow> bytes
      \<Rightarrow> ('d, mutual_authentication_result) host_op" where
  "mutual_authentication_v2 E random_1 operation_parameter nodes group_key individual_key =
     (let A = env_aes E in
      bindH (liftH (guardE (nodes \<noteq> [])
        (InvalidParameter ''mutual authentication v2 requires at least one node code''))) (\<lambda>_.
      bindH idm_bytes (\<lambda>idm.
      let x = authentication_context_v2_new A idm group_key individual_key in
      bindH (authentication1_v2 E operation_parameter nodes (encrypt_challenge1a_v2 A x random_1))
        (\<lambda>(challenge_1b, challenge_2a, c3).
      if \<not> verify_challenge1b_v2 A x random_1 challenge_1b c3 then
        liftH (Inl (AuthenticationFailed ''Authentication1 v2 verification failed''))
      else
        let random_2 = decrypt_challenge2a_v2 A x challenge_2a c3 in
        bindH (authentication2_v2 E (encrypt_challenge2b_v2 A x random_2)) (\<lambda>auth2_response.
        let transaction_id = take 6 (drop 2 random_1);
            (ek, mk) = derive_secure_session_keys A random_2 in
        bindH (liftH (auth2_v2_decrypt_payload A auth2_response transaction_id c3 ek mk))
          (\<lambda>(transaction_number, p).
        if length p < 16 then liftH (Inl (Protocol ''Authentication2 v2 response payload too short''))
        else
          bindH (put_context (with_nodes
            (authenticated_context_new transaction_number transaction_id (CredAes128 ek mk c3)) nodes)) (\<lambda>_.
          liftH (Inr \<lparr>issue_id = take 8 p, issue_parameter = take 8 (drop 8 p)\<rparr>))))))))"

definition set_authenticated_context :: "authenticated_context \<Rightarrow> ('d, unit) host_op" where
  "set_authenticated_context x h = (Inr (), h\<lparr>fs_authenticated_context := Some x\<rparr>)"

definition clear_authenticated_context :: "('d, unit) host_op" where
  "clear_authenticated_context h = (Inr (), h\<lparr>fs_authenticated_context := None\<rparr>)"

definition authenticated_scheme :: "'d felica_standard \<Rightarrow> secure_session_scheme option" where
  "authenticated_scheme h = map_option context_scheme (fs_authenticated_context h)"

section \<open>Secure commands\<close>

definition read ::
    "'d environment \<Rightarrow> block_list_element list \<Rightarrow> ('d, bytes list) host_op" where
  "read E block_list =
     bindH (liftH (ensure_len_in_range ''block_list'' (length block_list) 1 MAX_SECURE_READ_BLOCK_COUNT)) (\<lambda>_.
     bindH (readH (\<lambda>h. read_timeout_ms (fs_polling_result h) (length block_list))) (\<lambda>timeout_ms.
     bindH (execute_command E ''Read'' (CmdRead block_list) timeout_ms) (\<lambda>response.
     liftH (case response of
         RespRead sf1 sf2 result \<Rightarrow> 
           if sf1 \<noteq> 0 then Inl (status_error ''Read'' sf1 sf2)
           else
             bindE (ok_or result (Protocol ''Read missing result payload'')) (\<lambda>blocks.
             if length blocks \<noteq> length block_list then
               Inl (Protocol ''encrypted read response block count mismatch'')
             else Inr blocks)
       | _ \<Rightarrow> Inl (unexpected_response ''Read'')))))"

definition read_v2 ::
    "'d environment \<Rightarrow> block_list_element list \<Rightarrow> ('d, bytes list) host_op" where
  "read_v2 E block_list =
     bindH (liftH (ensure_len_in_range ''block_list'' (length block_list) 1 MAX_SECURE_READ_V2_BLOCK_COUNT)) (\<lambda>_.
     bindH (readH (\<lambda>h. read_timeout_ms (fs_polling_result h) (length block_list))) (\<lambda>timeout_ms.
     bindH (execute_command E ''Read v2'' (CmdReadV2 block_list) timeout_ms) (\<lambda>response.
     liftH (case response of
         RespReadV2 sf1 sf2 result \<Rightarrow> 
           if sf1 \<noteq> 0 then Inl (status_error ''Read v2'' sf1 sf2)
           else
             bindE (ok_or result (Protocol ''Read v2 missing result payload'')) (\<lambda>blocks.
             if length blocks \<noteq> length block_list then
               Inl (Protocol ''encrypted read v2 response block count mismatch'')
             else Inr blocks)
       | _ \<Rightarrow> Inl (unexpected_response ''Read v2'')))))"

definition write_blocks ::
    "'d environment \<Rightarrow> block_list_element list \<Rightarrow> bytes \<Rightarrow> ('d, unit) host_op" where
  "write_blocks E block_list data =
     bindH (liftH (ensure_len_in_range ''block_list'' (length block_list) 1 MAX_BLOCK_COUNT)) (\<lambda>_.
     bindH (liftH (ensure_block_data_length (length block_list) (length data))) (\<lambda>_.
     bindH (readH (\<lambda>h. write_timeout_ms (fs_polling_result h) (length block_list))) (\<lambda>timeout_ms.
     bindH (execute_command E ''Write'' (CmdWrite block_list data) timeout_ms) (\<lambda>response.
     liftH (case response of
         RespWrite sf1 sf2 \<Rightarrow> check_status_flags ''Write'' sf1 sf2
       | _ \<Rightarrow> Inl (unexpected_response ''Write''))))))"

definition write_v2 ::
    "'d environment \<Rightarrow> block_list_element list \<Rightarrow> bytes \<Rightarrow> ('d, unit) host_op" where
  "write_v2 E block_list data =
     bindH (liftH (ensure_len_in_range ''block_list'' (length block_list) 1 MAX_BLOCK_COUNT)) (\<lambda>_.
     bindH (liftH (ensure_block_data_length (length block_list) (length data))) (\<lambda>_.
     bindH (readH (\<lambda>h. write_timeout_ms (fs_polling_result h) (length block_list))) (\<lambda>timeout_ms.
     bindH (execute_command E ''Write v2'' (CmdWriteV2 block_list data) timeout_ms) (\<lambda>response.
     liftH (case response of
         RespWriteV2 sf1 sf2 \<Rightarrow> check_status_flags ''Write v2'' sf1 sf2
       | _ \<Rightarrow> Inl (unexpected_response ''Write v2''))))))"

text \<open>The text of a node and of a node list in the messages of \<open>change_keys\<close>: \<open>{:#06X}\<close> and \<open>{:04X?}\<close>.\<close>

definition hex4 :: "u16 \<Rightarrow> string" where
  "hex4 w = hex2 (ucast (drop_bit 8 w)) @ hex2 (ucast w)"

definition hex4_list :: "u16 list \<Rightarrow> string" where
  "hex4_list ws = ''['' @ join_with '', '' (map hex4 ws) @ '']''"

definition key_change_element :: "authenticated_context \<Rightarrow> change_key_parameters \<Rightarrow> felica_error + block_list_element" where
  "key_change_element x p =
     bindE (ok_or (node_index x (ck_node p)) (InvalidParameter (''node 0x'' @ hex4 (ck_node p) @
       '' is not in the authenticated node list '' @ hex4_list (ax_nodes x)))) (\<lambda>i.
     if i > 0x0F then
       Inl (InvalidParameter (''node 0x'' @ hex4 (ck_node p) @ '' is at position '' @ dec i @
         '' of the authenticated node list, which a block list element cannot address''))
     else
       Inr \<lparr>block_number_or_key_version = block_descriptor_block_number p,
            service_code_list_index = u8_of i, access_mode = 4\<rparr>)"

definition change_keys :: "'d environment \<Rightarrow> change_key_parameters list \<Rightarrow> ('d, unit) host_op" where
  "change_keys E change_key_params h =
     (if change_key_params = [] then
        (Inl (InvalidParameter ''change_keys requires at least one entry''), h)
      else if authenticated_scheme h = Some SchemeAes128 then
        (Inl (InvalidParameter ''change_keys is only supported for Write (DES)''), h)
      else
        bindH secure_context (\<lambda>x.
        bindH (liftH (mapE (key_change_element x) change_key_params)) (\<lambda>block_list.
        write_blocks E block_list (concat (map (change_key_payload (env_des E)) change_key_params)))) h)"

definition request_service_v2 ::
    "'d environment \<Rightarrow> service_code list \<Rightarrow> ('d, request_service_v2_key_version list) host_op" where
  "request_service_v2 E service_codes =
     bindH (liftH (ensure_len_in_range ''service_codes'' (length service_codes) 1 MAX_SERVICE_CODES)) (\<lambda>_.
     bindH idm_bytes (\<lambda>idm.
     bindH (readH (\<lambda>h. request_service_timeout_ms (fs_polling_result h) (length service_codes))) (\<lambda>timeout_ms.
     bindH (execute_command E ''Request Service v2'' (CmdRequestServiceV2 idm service_codes) timeout_ms) (\<lambda>response.
     liftH (case response of
         RespRequestServiceV2 _ sf1 sf2 result \<Rightarrow> 
           bindE (require_result ''Request Service v2'' sf1 sf2 result) (\<lambda>r.
           if length (v2_key_versions r) \<noteq> length service_codes then
             Inl (Protocol ''Request Service v2 key version count mismatch'')
           else Inr (v2_key_versions r))
       | _ \<Rightarrow> Inl (unexpected_response ''Request Service V2''))))))"

section \<open>Issuing\<close>

definition register_issue_id ::
    "'d environment \<Rightarrow> u16 \<Rightarrow> u16 \<Rightarrow> bytes \<Rightarrow> bytes \<Rightarrow> bytes \<Rightarrow> bytes \<Rightarrow> ('d, u16) host_op" where
  "register_issue_id E system_code area0_key_version area0_key idi pmi package_key =
     bindH (liftH (generate_registration_package_des (env_des E)
       (u16_to_be system_code @ u16_to_le area0_key_version @ area0_key @ replicate 4 0) package_key)) (\<lambda>package.
     bindH (readH (\<lambda>h. registration_timeout_ms (fs_polling_result h))) (\<lambda>timeout_ms.
     bindH (execute_command E ''Register Issue ID'' (CmdRegisterIssueId idi pmi package) timeout_ms) (\<lambda>response.
     liftH (case response of
         RespRegisterIssueId sf1 sf2 result \<Rightarrow> 
           bindE (require_result ''Register Issue ID'' sf1 sf2 result) (\<lambda>r. Inr (remaining_blocks r))
       | _ \<Rightarrow> Inl (unexpected_response ''Register Issue ID'')))))"

definition register_area ::
    "'d environment \<Rightarrow> u16 \<Rightarrow> u16 \<times> u16 \<Rightarrow> u16 \<Rightarrow> u16 \<Rightarrow> bytes \<Rightarrow> bytes \<Rightarrow> ('d, unit) host_op" where
  "register_area E area_code service_code_range count version area_key package_key =
     bindH (liftH (guardE (area_code = fst service_code_range)
       (InvalidParameter ''area_code must match service_code_range start''))) (\<lambda>_.
     bindH (liftH (generate_registration_package_des (env_des E)
       (u16_to_le (fst service_code_range) @ u16_to_le (snd service_code_range) @ u16_to_le count
          @ u16_to_le version @ area_key) package_key)) (\<lambda>package.
     bindH (readH (\<lambda>h. registration_timeout_ms (fs_polling_result h))) (\<lambda>timeout_ms.
     bindH (execute_command E ''Register Area'' (CmdRegisterArea area_code package) timeout_ms) (\<lambda>response.
     liftH (case response of
         RespRegisterArea sf1 sf2 \<Rightarrow> check_status_flags ''Register Area'' sf1 sf2
       | _ \<Rightarrow> Inl (unexpected_response ''Register Area''))))))"

definition register_service ::
    "'d environment \<Rightarrow> u16 \<Rightarrow> u16 \<Rightarrow> u16 \<Rightarrow> bytes \<Rightarrow> bytes \<Rightarrow> ('d, u16) host_op" where
  "register_service E code count version service_key package_key =
     bindH (liftH (generate_registration_package_des (env_des E)
       (u16_to_le code @ replicate 2 0 @ u16_to_le count @ u16_to_le version @ service_key) package_key)) (\<lambda>package.
     bindH (readH (\<lambda>h. registration_timeout_ms (fs_polling_result h))) (\<lambda>timeout_ms.
     bindH (execute_command E ''Register Service'' (CmdRegisterService code package) timeout_ms) (\<lambda>response.
     liftH (case response of
         RespRegisterService sf1 sf2 result \<Rightarrow> 
           bindE (require_result ''Register Service'' sf1 sf2 result) (\<lambda>r. Inr (remaining_blocks r))
       | _ \<Rightarrow> Inl (unexpected_response ''Register Service'')))))"

definition change_system_block ::
    "'d environment \<Rightarrow> ('d, unit) host_op" where
  "change_system_block E =
     bindH (readH (\<lambda>h. registration_timeout_ms (fs_polling_result h))) (\<lambda>timeout_ms.
     bindH (execute_command E ''Change System Block'' (CmdChangeSystemBlock) timeout_ms) (\<lambda>response.
     liftH (case response of
         RespChangeSystemBlock sf1 sf2 \<Rightarrow> check_status_flags ''Change System Block'' sf1 sf2
       | _ \<Rightarrow> Inl (unexpected_response ''Change System Block''))))"

end
