(* ===== verification/Command_Parse.thy ===== *)
theory Command_Parse
  imports Command
begin

text \<open>
  The parsers of \<open>src/felica_standard/command/parse.rs\<close>: the shared takers of counted lists and
  block lists, one parser per command code, the dispatch of \<open>parse_payload\<close> and
  \<open>parse_secure_payload\<close>, and \<open>parse_frame\<close>. A reader returns the value and the
  bytes behind it.
\<close>

section \<open>Shared readers\<close>

definition perr :: "string \<Rightarrow> felica_error + 'a" where
  "perr m = Inl (Protocol m)"

definition parse_idm :: "bytes \<Rightarrow> felica_error + bytes \<times> bytes" where
  "parse_idm data =
     (if length data < IDM_LEN then perr ''missing idm''
      else Inr (take IDM_LEN data, drop IDM_LEN data))"

definition ensure_no_trailing_bytes :: "bytes \<Rightarrow> string \<Rightarrow> felica_error + unit" where
  "ensure_no_trailing_bytes data label =
     (if data = [] then Inr () else perr (label @ '' payload has trailing bytes''))"

definition take_count ::
    "bytes \<Rightarrow> nat \<Rightarrow> nat \<Rightarrow> string \<Rightarrow> string \<Rightarrow> felica_error + nat \<times> bytes" where
  "take_count data lo hi label noun =
     (case data of
        [] \<Rightarrow> perr (label @ '' '' @ noun @ '' count is missing'')
      | count # rest \<Rightarrow>
          if \<not> (lo \<le> unat count \<and> unat count \<le> hi)
          then perr (label @ '' '' @ noun @ '' count out of range'')
          else Inr (unat count, rest))"

fun u16_chunks :: "bytes \<Rightarrow> u16 list" where
  "u16_chunks (a # b # r) = u16_from_le a b # u16_chunks r"
| "u16_chunks _ = []"

definition parse_u16_list_le :: "bytes \<Rightarrow> nat \<Rightarrow> felica_error + u16 list" where
  "parse_u16_list_le data count =
     (let expected = count * 2 in
      if length data < expected then perr ''u16 list truncated''
      else Inr (u16_chunks (take expected data)))"

definition take_u16_list ::
    "bytes \<Rightarrow> nat \<Rightarrow> nat \<Rightarrow> string \<Rightarrow> string \<Rightarrow> felica_error + u16 list \<times> bytes" where
  "take_u16_list data lo hi label noun =
     bindE (take_count data lo hi label noun) (\<lambda>(count, rest).
     bindE (parse_u16_list_le rest count) (\<lambda>values.
     Inr (values, drop (count * 2) rest)))"

definition take_service_code_list ::
    "bytes \<Rightarrow> nat \<Rightarrow> string \<Rightarrow> felica_error + service_code list \<times> bytes" where
  "take_service_code_list data limit label =
     bindE (take_u16_list data 1 limit label ''service'') (\<lambda>(values, rest).
     Inr (map ServiceCode values, rest))"

definition take_block :: "bytes \<Rightarrow> felica_error + block_list_element \<times> bytes" where
  "take_block data =
     (case data of
        [] \<Rightarrow> perr ''block list truncated''
      | header # r \<Rightarrow>
          let mode = drop_bit 4 header AND 0x07; idx = header AND 0x0F in
          if header AND 0x80 \<noteq> 0 then
            (case r of
               [] \<Rightarrow> perr ''block list missing short block number''
             | v # r' \<Rightarrow> Inr (\<lparr>block_number_or_key_version = ucast v,
                 service_code_list_index = idx, access_mode = mode\<rparr>, r'))
          else
            (case r of
               a # b # r' \<Rightarrow> Inr (\<lparr>block_number_or_key_version = u16_from_le a b,
                 service_code_list_index = idx, access_mode = mode\<rparr>, r')
             | _ \<Rightarrow> perr ''block list missing long block number''))"

fun take_block_list :: "bytes \<Rightarrow> nat \<Rightarrow> felica_error + block_list_element list \<times> bytes" where
  "take_block_list data 0 = Inr ([], data)"
| "take_block_list data (Suc n) =
     bindE (take_block data) (\<lambda>(e, rest).
     bindE (take_block_list rest n) (\<lambda>(es, rest').
     Inr (e # es, rest')))"

text \<open>The exact-length checks that most parsers open with.\<close>

definition exact_len :: "bytes \<Rightarrow> nat \<Rightarrow> string \<Rightarrow> string \<Rightarrow> felica_error + unit" where
  "exact_len body n short long =
     (if length body < n then perr short
      else if length body > n then perr long
      else Inr ())"

section \<open>Parsers of the plain commands\<close>

definition parse_polling :: "bytes \<Rightarrow> felica_error + command" where
  "parse_polling body =
     bindE (exact_len body 4 ''polling payload too short'' ''polling payload has trailing bytes'') (\<lambda>_.
     if body ! 2 \<notin> set POLLING_REQUEST_CODES then
       perr (''polling request code 0x'' @ hex2 (body ! 2) @ '' is reserved'')
     else if body ! 3 \<notin> set POLLING_TIME_SLOTS then
       perr (''polling time slot value 0x'' @ hex2 (body ! 3) @ '' is not defined'')
     else Inr (CmdPolling (u16_from_be (body ! 0) (body ! 1)) (body ! 2) (body ! 3)))"

definition parse_request_service :: "bytes \<Rightarrow> felica_error + command" where
  "parse_request_service body =
     bindE (parse_idm body) (\<lambda>(idm, rest).
     bindE (take_service_code_list rest MAX_SERVICE_CODES ''request service'') (\<lambda>(service_codes, rest).
     bindE (ensure_no_trailing_bytes rest ''request service'') (\<lambda>_.
     Inr (CmdRequestService idm service_codes))))"

definition parse_request_response :: "bytes \<Rightarrow> felica_error + command" where
  "parse_request_response body =
     bindE (parse_idm body) (\<lambda>(idm, rest).
     if rest \<noteq> [] then perr ''request response payload has trailing bytes''
     else Inr (CmdRequestResponse idm))"

definition parse_read_without_encryption :: "bytes \<Rightarrow> felica_error + command" where
  "parse_read_without_encryption body =
     bindE (parse_idm body) (\<lambda>(idm, rest).
     bindE (take_service_code_list rest MAX_RW_SERVICE_CODES ''read without encryption'')
       (\<lambda>(service_codes, rest).
     bindE (take_count rest 1 MAX_BLOCK_COUNT ''read without encryption'' ''block'')
       (\<lambda>(block_count, rest).
     bindE (take_block_list rest block_count) (\<lambda>(block_list, rest).
     bindE (ensure_no_trailing_bytes rest ''read without encryption'') (\<lambda>_.
     Inr (CmdReadWithoutEncryption idm service_codes block_list))))))"

definition parse_write_without_encryption :: "bytes \<Rightarrow> felica_error + command" where
  "parse_write_without_encryption body =
     bindE (parse_idm body) (\<lambda>(idm, rest).
     bindE (take_service_code_list rest MAX_RW_SERVICE_CODES ''write without encryption'')
       (\<lambda>(service_codes, rest).
     bindE (take_count rest 1 MAX_BLOCK_COUNT ''write without encryption'' ''block'')
       (\<lambda>(block_count, rest).
     bindE (take_block_list rest block_count) (\<lambda>(block_list, rest).
     let expected_len = block_count * BLOCK_SIZE in
     bindE (exact_len rest expected_len ''write without encryption data truncated''
       ''write without encryption payload has trailing bytes'') (\<lambda>_.
     Inr (CmdWriteWithoutEncryption idm service_codes block_list rest))))))"

definition parse_search_service_code :: "bytes \<Rightarrow> felica_error + command" where
  "parse_search_service_code body =
     bindE (parse_idm body) (\<lambda>(idm, rest).
     bindE (exact_len rest 2 ''search service code payload too short''
       ''search service code payload has trailing bytes'') (\<lambda>_.
     Inr (CmdSearchServiceCode idm (u16_from_le (rest ! 0) (rest ! 1)))))"

definition parse_request_system_code :: "bytes \<Rightarrow> felica_error + command" where
  "parse_request_system_code body =
     bindE (parse_idm body) (\<lambda>(idm, rest).
     if rest \<noteq> [] then perr ''request system code payload has trailing bytes''
     else Inr (CmdRequestSystemCode idm))"

definition parse_request_block_information :: "bytes \<Rightarrow> felica_error + command" where
  "parse_request_block_information body =
     bindE (parse_idm body) (\<lambda>(idm, rest).
     bindE (take_u16_list rest 1 MAX_NODE_CODES ''request block information'' ''node'')
       (\<lambda>(node_codes, rest).
     bindE (ensure_no_trailing_bytes rest ''request block information'') (\<lambda>_.
     Inr (CmdRequestBlockInformation idm node_codes))))"

definition parse_authentication1 :: "bytes \<Rightarrow> felica_error + command" where
  "parse_authentication1 body =
     bindE (parse_idm body) (\<lambda>(idm, rest).
     let cursor = 0 in
     bindE (ok_or (nth_opt rest cursor) (Protocol ''authentication1 missing area count''))
       (\<lambda>area_count_byte. let area_count = unat area_count_byte; cursor = cursor + 1 in
     if area_count > MAX_SERVICE_CODES then perr ''authentication1 area count out of range'' else
     bindE (parse_u16_list_le (drop cursor rest) area_count) (\<lambda>areas.
     let cursor = cursor + area_count * 2 in
     bindE (ok_or (nth_opt rest cursor) (Protocol ''authentication1 missing service count''))
       (\<lambda>service_count_byte. let service_count = unat service_count_byte; cursor = cursor + 1 in
     if service_count > MAX_SERVICE_CODES then perr ''authentication1 service count out of range'' else
     bindE (parse_u16_list_le (drop cursor rest) service_count) (\<lambda>services.
     let cursor = cursor + service_count * 2 in
     bindE (ok_or (slice_opt rest cursor (cursor + 8)) (Protocol ''authentication1 missing challenge1a''))
       (\<lambda>challenge_1a.
     if cursor + 8 \<noteq> length rest then perr ''authentication1 payload has trailing bytes''
     else Inr (CmdAuthentication1 idm areas services challenge_1a)))))))"

definition parse_authentication2 :: "bytes \<Rightarrow> felica_error + command" where
  "parse_authentication2 body =
     bindE (parse_idm body) (\<lambda>(idm, rest).
     bindE (exact_len rest 8 ''authentication2 missing challenge2b''
       ''authentication2 payload has trailing bytes'') (\<lambda>_.
     Inr (CmdAuthentication2 idm rest)))"

definition parse_request_code_list :: "bytes \<Rightarrow> felica_error + command" where
  "parse_request_code_list body =
     bindE (parse_idm body) (\<lambda>(idm, rest).
     bindE (exact_len rest 4 ''request code list payload too short''
       ''request code list payload has trailing bytes'') (\<lambda>_.
     Inr (CmdRequestCodeList idm (u16_from_le (rest ! 0) (rest ! 1))
       (u16_from_le (rest ! 2) (rest ! 3)))))"

definition parse_request_block_information_ex :: "bytes \<Rightarrow> felica_error + command" where
  "parse_request_block_information_ex body =
     bindE (parse_idm body) (\<lambda>(idm, rest).
     bindE (take_u16_list rest 1 MAX_NODE_CODES ''request block information ex'' ''node'')
       (\<lambda>(node_codes, rest).
     bindE (ensure_no_trailing_bytes rest ''request block information ex'') (\<lambda>_.
     Inr (CmdRequestBlockInformationEx idm node_codes))))"

definition parse_set_parameter :: "bytes \<Rightarrow> felica_error + command" where
  "parse_set_parameter body =
     bindE (parse_idm body) (\<lambda>(idm, rest).
     bindE (exact_len rest 8 ''set parameter payload too short''
       ''set parameter payload has trailing bytes'') (\<lambda>_.
     if list_ex (\<lambda>v. v \<noteq> 0x00) (take 4 rest) then
       perr ''set parameter reserved bytes D0-D3 must be 0x00''
     else if list_ex (\<lambda>v. v \<noteq> 0x00) (take 2 (drop 6 rest)) then
       perr ''set parameter reserved bytes D6-D7 must be 0x00''
     else
       bindE (ok_or (spe_from_byte (rest ! 4)) (Protocol ''set parameter encryption type out of range''))
         (\<lambda>encryption_type.
       bindE (ok_or (spp_from_byte (rest ! 5)) (Protocol ''set parameter packet type out of range''))
         (\<lambda>packet_type.
       Inr (CmdSetParameter idm encryption_type packet_type)))))"

text \<open>The commands that carry two reserved zero bytes behind the IDm share one shape.\<close>

definition reserved_zeros :: "bytes \<Rightarrow> string \<Rightarrow> felica_error + unit" where
  "reserved_zeros rest label =
     bindE (exact_len rest 2 (label @ '' payload too short'') (label @ '' payload has trailing bytes''))
       (\<lambda>_. if list_ex (\<lambda>v. v \<noteq> 0x00) rest
             then perr (label @ '' reserved bytes must be 0x00'') else Inr ())"

definition parse_get_container_issue_information :: "bytes \<Rightarrow> felica_error + command" where
  "parse_get_container_issue_information body =
     bindE (parse_idm body) (\<lambda>(idm, rest).
     bindE (reserved_zeros rest ''get container issue information'') (\<lambda>_.
     Inr (CmdGetContainerIssueInformation idm)))"

definition parse_get_area_information :: "bytes \<Rightarrow> felica_error + command" where
  "parse_get_area_information body =
     bindE (parse_idm body) (\<lambda>(idm, rest).
     bindE (exact_len rest 2 ''get area information payload too short''
       ''get area information payload has trailing bytes'') (\<lambda>_.
     Inr (CmdGetAreaInformation idm (u16_from_le (rest ! 0) (rest ! 1)))))"

definition parse_get_node_property :: "bytes \<Rightarrow> felica_error + command" where
  "parse_get_node_property body =
     bindE (parse_idm body) (\<lambda>(idm, rest).
     bindE (ok_or (split_first rest) (Protocol ''get node property payload too short''))
       (\<lambda>(type_byte, rest).
     bindE (ok_or (npt_from_byte type_byte) (Protocol ''get node property type out of range''))
       (\<lambda>node_property_type.
     bindE (take_u16_list rest 1 MAX_NODE_PROPERTY_CODES ''get node property'' ''node'')
       (\<lambda>(node_codes, rest).
     bindE (ensure_no_trailing_bytes rest ''get node property'') (\<lambda>_.
     Inr (CmdGetNodeProperty idm node_property_type node_codes))))))"

definition parse_get_container_property :: "bytes \<Rightarrow> felica_error + command" where
  "parse_get_container_property body =
     bindE (exact_len body 2 ''get container property payload too short''
       ''get container property payload has trailing bytes'') (\<lambda>_.
     let index = u16_from_le (body ! 0) (body ! 1) in
     Inr (CmdGetContainerProperty (from_index index)))"

definition parse_request_service_v2 :: "bytes \<Rightarrow> felica_error + command" where
  "parse_request_service_v2 body =
     bindE (parse_idm body) (\<lambda>(idm, rest).
     bindE (take_service_code_list rest MAX_SERVICE_CODES ''request service v2'')
       (\<lambda>(service_codes, rest).
     bindE (ensure_no_trailing_bytes rest ''request service v2'') (\<lambda>_.
     Inr (CmdRequestServiceV2 idm service_codes))))"

definition parse_authentication1_v2 :: "bytes \<Rightarrow> felica_error + command" where
  "parse_authentication1_v2 body =
     bindE (parse_idm body) (\<lambda>(idm, rest).
     bindE (ok_or (split_first rest) (Protocol ''authentication1 v2 missing operation parameter''))
       (\<lambda>(operation_parameter, rest).
     bindE (take_u16_list rest 1 MAX_SERVICE_CODES ''authentication1 v2'' ''node'') (\<lambda>(nodes, rest).
     bindE (exact_len rest 16 ''authentication1 v2 missing challenge1a''
       ''authentication1 v2 payload has trailing bytes'') (\<lambda>_.
     Inr (CmdAuthentication1V2 idm operation_parameter nodes rest)))))"

definition parse_authentication2_v2 :: "bytes \<Rightarrow> felica_error + command" where
  "parse_authentication2_v2 body =
     bindE (parse_idm body) (\<lambda>(idm, rest).
     bindE (exact_len rest 16 ''authentication2 v2 missing challenge2b''
       ''authentication2 v2 payload has trailing bytes'') (\<lambda>_.
     Inr (CmdAuthentication2V2 idm rest)))"

definition parse_get_system_status :: "bytes \<Rightarrow> felica_error + command" where
  "parse_get_system_status body =
     bindE (parse_idm body) (\<lambda>(idm, rest).
     bindE (reserved_zeros rest ''get system status'') (\<lambda>_.
     Inr (CmdGetSystemStatus idm)))"

definition parse_request_product_information :: "bytes \<Rightarrow> felica_error + command" where
  "parse_request_product_information body =
     bindE (parse_idm body) (\<lambda>(idm, rest).
     if rest \<noteq> [] then perr ''request product information payload has trailing bytes''
     else Inr (CmdRequestProductInformation idm))"

definition parse_request_specification_version :: "bytes \<Rightarrow> felica_error + command" where
  "parse_request_specification_version body =
     bindE (parse_idm body) (\<lambda>(idm, rest).
     bindE (reserved_zeros rest ''request specification version'') (\<lambda>_.
     Inr (CmdRequestSpecificationVersion idm)))"

definition parse_reset_mode :: "bytes \<Rightarrow> felica_error + command" where
  "parse_reset_mode body =
     bindE (parse_idm body) (\<lambda>(idm, rest).
     bindE (reserved_zeros rest ''reset mode'') (\<lambda>_.
     Inr (CmdResetMode idm)))"

definition parse_get_container_id :: "bytes \<Rightarrow> felica_error + command" where
  "parse_get_container_id body =
     bindE (reserved_zeros body ''get container id'') (\<lambda>_. Inr CmdGetContainerId)"

section \<open>Dispatch\<close>

definition is_secure_command_code :: "u8 \<Rightarrow> bool" where
  "is_secure_command_code c \<longleftrightarrow>
     c \<in> {READ_COMMAND_CODE, WRITE_COMMAND_CODE, READ_V2_COMMAND_CODE, WRITE_V2_COMMAND_CODE,
       REGISTER_ISSUE_ID_COMMAND_CODE, REGISTER_AREA_COMMAND_CODE, REGISTER_SERVICE_COMMAND_CODE,
       CHANGE_SYSTEM_BLOCK_COMMAND_CODE}"

definition is_register_command :: "u8 \<Rightarrow> bool" where
  "is_register_command c \<longleftrightarrow>
     c \<in> {REGISTER_ISSUE_ID_COMMAND_CODE, REGISTER_AREA_COMMAND_CODE,
       REGISTER_SERVICE_COMMAND_CODE, CHANGE_SYSTEM_BLOCK_COMMAND_CODE}"

text \<open>The \<open>match\<close> on the command code, as the table of its arms.\<close>

definition plain_parsers :: "(u8 \<times> (bytes \<Rightarrow> felica_error + command)) list" where
  "plain_parsers =
    [(POLLING_COMMAND_CODE, parse_polling),
     (REQUEST_SERVICE_COMMAND_CODE, parse_request_service),
     (REQUEST_RESPONSE_COMMAND_CODE, parse_request_response),
     (READ_WITHOUT_ENCRYPTION_COMMAND_CODE, parse_read_without_encryption),
     (WRITE_WITHOUT_ENCRYPTION_COMMAND_CODE, parse_write_without_encryption),
     (SEARCH_SERVICE_CODE_COMMAND_CODE, parse_search_service_code),
     (REQUEST_SYSTEM_CODE_COMMAND_CODE, parse_request_system_code),
     (REQUEST_BLOCK_INFORMATION_COMMAND_CODE, parse_request_block_information),
     (AUTHENTICATION1_COMMAND_CODE, parse_authentication1),
     (AUTHENTICATION2_COMMAND_CODE, parse_authentication2),
     (AUTHENTICATION1_V2_COMMAND_CODE, parse_authentication1_v2),
     (AUTHENTICATION2_V2_COMMAND_CODE, parse_authentication2_v2),
     (REQUEST_CODE_LIST_COMMAND_CODE, parse_request_code_list),
     (REQUEST_BLOCK_INFORMATION_EX_COMMAND_CODE, parse_request_block_information_ex),
     (SET_PARAMETER_COMMAND_CODE, parse_set_parameter),
     (GET_CONTAINER_ISSUE_INFORMATION_COMMAND_CODE, parse_get_container_issue_information),
     (GET_AREA_INFORMATION_COMMAND_CODE, parse_get_area_information),
     (GET_NODE_PROPERTY_COMMAND_CODE, parse_get_node_property),
     (GET_CONTAINER_PROPERTY_COMMAND_CODE, parse_get_container_property),
     (REQUEST_SERVICE_V2_COMMAND_CODE, parse_request_service_v2),
     (GET_SYSTEM_STATUS_COMMAND_CODE, parse_get_system_status),
     (REQUEST_PRODUCT_INFORMATION_COMMAND_CODE, parse_request_product_information),
     (REQUEST_SPECIFICATION_VERSION_COMMAND_CODE, parse_request_specification_version),
     (RESET_MODE_COMMAND_CODE, parse_reset_mode),
     (GET_CONTAINER_ID_COMMAND_CODE, parse_get_container_id)]"

definition parse_payload :: "bytes \<Rightarrow> felica_error + command" where
  "parse_payload payload =
     bindE (ok_or (split_first payload) (Protocol ''empty command payload'')) (\<lambda>(command, body).
     case map_of plain_parsers command of
       Some p \<Rightarrow> p body
     | None \<Rightarrow>
         if is_secure_command_code command then perr ''secure command payload requires decryption''
         else perr (''unsupported command code: 0x'' @ hex2 command))"

definition parse_frame :: "bytes \<Rightarrow> felica_error + command" where
  "parse_frame frame =
     (case frame of
        [] \<Rightarrow> perr ''empty Felica frame''
      | len # payload \<Rightarrow>
          if unat len \<noteq> length frame then perr ''length byte does not match frame length''
          else parse_payload payload)"

definition parse_secure_payload :: "u8 \<Rightarrow> bytes \<Rightarrow> felica_error + command" where
  "parse_secure_payload command_code payload =
     (if command_code = READ_COMMAND_CODE \<or> command_code = READ_V2_COMMAND_CODE then
        bindE (take_count payload 1 MAX_BLOCK_COUNT ''secure read'' ''block'') (\<lambda>(block_count, payload).
        bindE (take_block_list payload block_count) (\<lambda>(block_list, _).
        if command_code = READ_V2_COMMAND_CODE then Inr (CmdReadV2 block_list)
        else Inr (CmdRead block_list)))
      else if command_code = WRITE_COMMAND_CODE \<or> command_code = WRITE_V2_COMMAND_CODE then
        bindE (take_count payload 1 MAX_BLOCK_COUNT ''secure write'' ''block'') (\<lambda>(block_count, payload).
        bindE (take_block_list payload block_count) (\<lambda>(block_list, payload).
        let expected_len = block_count * BLOCK_SIZE in
        bindE (ok_or (slice_opt payload 0 expected_len) (Protocol ''secure write data truncated''))
          (\<lambda>data.
        if command_code = WRITE_V2_COMMAND_CODE then Inr (CmdWriteV2 block_list data)
        else Inr (CmdWrite block_list data))))
      else if command_code = REGISTER_ISSUE_ID_COMMAND_CODE then
        (if length payload < 16 then perr ''register issue id payload too short''
         else Inr (CmdRegisterIssueId (take 8 payload) (take 8 (drop 8 payload)) (drop 16 payload)))
      else if command_code = REGISTER_AREA_COMMAND_CODE then
        (if length payload < 2 then perr ''register area payload too short''
         else Inr (CmdRegisterArea (u16_from_le (payload ! 0) (payload ! 1)) (drop 2 payload)))
      else if command_code = REGISTER_SERVICE_COMMAND_CODE then
        (if length payload < 2 then perr ''register service payload too short''
         else Inr (CmdRegisterService (u16_from_le (payload ! 0) (payload ! 1)) (drop 2 payload)))
      else if command_code = CHANGE_SYSTEM_BLOCK_COMMAND_CODE then
        (if payload \<noteq> [] then perr ''change system block payload must be empty''
         else Inr CmdChangeSystemBlock)
      else perr (''unsupported secure command code: 0x'' @ hex2 command_code))"

end
