(* ===== verification/Session_Freshness.thy ===== *)
theory Session_Freshness
  imports Host_Ops Command_Parse
begin

text \<open>
  What the reader guarantees about its session whatever the driver answers: the driver, and so the card and
  everything between, is arbitrary here. No transaction number seals two commands, and so no initial
  vector of an AES session is used twice.
\<close>

section \<open>One exchange against any driver\<close>

text \<open>The context after a step: the same session, with a number that has not gone back.\<close>

definition continues :: "authenticated_context \<Rightarrow> authenticated_context \<Rightarrow> bool" where
  "continues x x' \<longleftrightarrow> (\<exists>n \<ge> ax_transaction_number x. x' = x\<lparr>ax_transaction_number := n\<rparr>)"

lemma continuesI: "ax_transaction_number x \<le> n \<Longrightarrow> continues x (x\<lparr>ax_transaction_number := n\<rparr>)"
  unfolding continues_def by blast

lemma continues_refl [simp]: "continues x x"
  using continuesI [of x "ax_transaction_number x"] by simp

lemma continues_le: "continues x y \<Longrightarrow> ax_transaction_number x \<le> ax_transaction_number y"
  by (auto simp: continues_def)

lemma continues_trans: "continues x y \<Longrightarrow> continues y z \<Longrightarrow> continues x z"
  by (auto simp: continues_def) (metis continuesI continues_def order_trans)

lemma device_transceive_context:
  "device_transceive E f t h = (r, h') \<Longrightarrow> fs_authenticated_context h' = fs_authenticated_context h"
  by (auto simp: device_transceive_def split: prod.splits)

lemma bindH_cases:
  assumes "bindH m f h = (r, h')"
  obtains (failed) e where "m h = (Inl e, h')" and "r = Inl e"
    | (went_on) v h1 where "m h = (Inr v, h1)" and "f v h1 = (r, h')"
  using assms by (auto simp: bindH_def split: prod.splits sum.splits)

lemma send_encrypted_context:
  assumes "send_encrypted_command E code e t h = (r, h')"
  shows "fs_authenticated_context h' = fs_authenticated_context h"
  using assms unfolding send_encrypted_command_def
  by (auto elim!: bindH_cases dest: device_transceive_context)

lemma process_context:
  assumes "process_encrypted_response d h = (r, h')" and "fs_authenticated_context h = Some x"
  shows "\<exists>x'. fs_authenticated_context h' = Some x' \<and> continues x x'
    \<and> (\<forall>p. r = Inr p \<longrightarrow> ax_transaction_number x < ax_transaction_number x')"
  using assms
  by (auto simp: process_encrypted_response_def secure_context_def put_context_def ok_or_def continuesI
      set_transaction_number_def bindH_def not_le split: if_splits)

lemma exchange_context:
  assumes "encrypted_command_exchange E code p t h = (r, h')" and "fs_authenticated_context h = Some x"
  shows "\<exists>x'. fs_authenticated_context h' = Some x' \<and> continues x x'
    \<and> (\<forall>s x1. capture x = Inr (s, x1) \<longrightarrow> sc_transaction_number s \<le> ax_transaction_number x')"
proof (cases "capture x")
  case (Inl e)
  then show ?thesis using assms
    by (auto simp: encrypted_command_exchange_def secure_context_def ok_or_def bindH_def)
next
  case (Inr sx)
  obtain s x1 where c: "capture x = Inr (s, x1)" using Inr by (cases sx) auto
  then have s: "sc_transaction_number s = ax_transaction_number x1" "x1 = x\<lparr>ax_transaction_number := ax_transaction_number x + 1\<rparr>"
    "ax_transaction_number x \<le> ax_transaction_number x1"
    using capture_advances [OF c] by (auto simp: capture_Inr)
  have x1: "continues x x1" unfolding s(2) by (rule continuesI) (use s(2,3) in simp)
  let ?h = "h\<lparr>fs_authenticated_context := Some x1\<rparr>"
  have rest: "bindH (liftH (encrypt_command (env_des E) (env_aes E) s code (build_secure_payload s p))) (\<lambda>encrypted.
     bindH (send_encrypted_command E code encrypted t) (\<lambda>encrypted_response.
     bindH (liftH (decrypt_response (env_des E) (env_aes E) s (expected_secure_response_code code) encrypted_response))
       process_encrypted_response)) ?h = (r, h')"
    using assms c by (simp add: encrypted_command_exchange_def secure_context_def put_context_def ok_or_def bindH_def)
  have "\<exists>x'. fs_authenticated_context h' = Some x' \<and> continues x1 x'"
    using rest
    by (elim bindH_cases) (auto dest!: send_encrypted_context dest: process_context)
  then obtain x' where x': "fs_authenticated_context h' = Some x'" "continues x1 x'" by blast
  then show ?thesis using continues_trans [OF x1] s(1) c by (auto dest: continues_le)
qed

section \<open>A whole session\<close>

text \<open>
  A sequence of secure commands, and the transaction numbers under which they are sealed: the number of
  the command's context, as \<open>capture\<close> freezes it.
\<close>

fun sealed_numbers ::
    "'d environment \<Rightarrow> (u8 \<times> bytes \<times> u16) list \<Rightarrow> 'd felica_standard \<Rightarrow> u16 list \<times> 'd felica_standard" where
  "sealed_numbers E [] h = ([], h)"
| "sealed_numbers E ((code, p, t) # cs) h =
     (let (_, h1) = secure_transceive E code p t h; (ns, h2) = sealed_numbers E cs h1 in
      ((case fs_authenticated_context h of
          Some x \<Rightarrow> (case capture x of Inr (s, _) \<Rightarrow> [sc_transaction_number s] | Inl _ \<Rightarrow> [])
        | None \<Rightarrow> []) @ ns, h2))"

lemma sealed_numbers_increase:
  assumes "sealed_numbers E cs h = (ns, h')" and "fs_authenticated_context h = Some x"
  shows "sorted_wrt (<) ns \<and> (\<forall>n \<in> set ns. ax_transaction_number x < n)
    \<and> (\<exists>x'. fs_authenticated_context h' = Some x' \<and> continues x x')"
  using assms
proof (induction cs arbitrary: h x ns)
  case Nil
  then show ?case by (auto simp: continues_def)
next
  case (Cons c cs)
  obtain code p t where c: "c = (code, p, t)" by (cases c)
  obtain r h1 where step: "encrypted_command_exchange E code p t h = (r, h1)"
    by (cases "encrypted_command_exchange E code p t h")
  obtain ns1 where rest: "sealed_numbers E cs h1 = (ns1, h')"
    and ns: "ns = (case capture x of Inr (s, _) \<Rightarrow> [sc_transaction_number s] | Inl _ \<Rightarrow> []) @ ns1"
    using Cons.prems step by (auto simp: c secure_transceive_def Let_def split: prod.splits)
  obtain x1 where x1: "fs_authenticated_context h1 = Some x1" "continues x x1"
      "\<forall>s y. capture x = Inr (s, y) \<longrightarrow> sc_transaction_number s \<le> ax_transaction_number x1"
    using exchange_context [OF step Cons.prems(2)] by blast
  note later = Cons.IH [OF rest x1(1)]
  have le: "ax_transaction_number x \<le> ax_transaction_number x1" using x1(2) by (rule continues_le)
  have first: "ax_transaction_number x < sc_transaction_number s" if "capture x = Inr (s, y)" for s y
    using capture_advances [OF that] that by (auto simp: capture_Inr)
  show ?case
    using later le x1(2,3) first continues_trans
    by (auto simp: ns split: sum.splits intro: order.strict_trans1 order.strict_trans2)
qed

text \<open>
  C8. No transaction number is used twice: whatever the driver answers to a sequence of secure commands,
  failures included, the numbers under which the reader seals them are strictly increasing, and the
  session stays the same otherwise (key, transaction ID, nodes).
\<close>

theorem transaction_numbers_fresh:
  assumes "sealed_numbers E cs h = (ns, h')" and "fs_authenticated_context h = Some x"
  shows "sorted_wrt (<) ns \<and> (\<forall>n \<in> set ns. ax_transaction_number x < n)
    \<and> (\<exists>n. fs_authenticated_context h' = Some (x\<lparr>ax_transaction_number := n\<rparr>) \<and> ax_transaction_number x \<le> n)"
  using sealed_numbers_increase [OF assms] by (auto simp: continues_def)

lemma u16_to_le_inject: "u16_to_le m = u16_to_le n \<Longrightarrow> m = n"
proof -
  assume "u16_to_le m = u16_to_le n"
  then have "u16_from_le (u16_to_le m ! 0) (u16_to_le m ! 1) = u16_from_le (u16_to_le n ! 0) (u16_to_le n ! 1)" by simp
  then show ?thesis by (simp add: u16_to_le_def)
qed


section \<open>Witnesses\<close>

text \<open>A driver that never answers, under an AES session.\<close>

definition silent_environment :: "unit environment" where
  "silent_environment = \<lparr>detect_type_f = (\<lambda>d t c r s. (Inl (Communication (Timeout ''silence'')), d)),
     transceive = (\<lambda>d t f x. (Inl (Communication (Timeout ''silence'')), d)),
     env_des = xor_cipher, env_aes = xor_aes\<rparr>"

definition silent_context :: authenticated_context where
  "silent_context = \<lparr>ax_transaction_number = 0xFFFC, ax_transaction_id = [1, 2, 3, 4, 5, 6],
     ax_credentials = CredAes128 (replicate 16 1) (replicate 16 2) [7, 8, 9, 10], ax_nodes = []\<rparr>"

definition silent_host :: "unit felica_standard" where
  "silent_host = \<lparr>fs_device = (), fs_target = \<lparr>rt_bitrate = \<lparr>br_send = ''212F'', br_recv = ''212F''\<rparr>,
       rt_data = target_data_default\<rparr>,
     fs_polling_result = \<lparr>t3_idm = replicate 8 1, t3_pmm = replicate 8 0xFF, t3_optional = []\<rparr>,
     fs_authenticated_context = Some silent_context\<rparr>"

lemma silent_numbers:
  "fst (sealed_numbers silent_environment (replicate 5 (0x44, [1, 0x80, 0], 10)) silent_host) = [0xFFFD, 0xFFFE, 0xFFFF]"
  by code_simp

theorem transaction_numbers_fresh_witness:
  "sorted_wrt (<) (fst (sealed_numbers silent_environment (replicate 5 (0x44, [1, 0x80, 0], 10)) silent_host))
    \<and> fst (sealed_numbers silent_environment (replicate 5 (0x44, [1, 0x80, 0], 10)) silent_host) = [0xFFFD, 0xFFFE, 0xFFFF]"
proof -
  have "fs_authenticated_context silent_host = Some silent_context" by (simp add: silent_host_def)
  from transaction_numbers_fresh [OF prod.collapse [symmetric] this] silent_numbers show ?thesis by simp
qed


end
