(* ===== verification/Keys.thy ===== *)
theory Keys
  imports Host_Ops "HOL-Library.AList" "HOL-Library.Sublist"
begin

text \<open>
  The key store and the derivation of authentication keys: \<open>src/felica_standard/keys.rs\<close>, and
  \<open>authenticate_node\<close> of \<open>api/secure_ops.rs\<close>. A hash map is an association list that
  \<open>AList.update\<close> keeps free of duplicates. The JSON and hex crates are the \<open>text_crates\<close>; a reader's lines
  come as results, a line or the text of its I/O error. A Rust string is its UTF-8 bytes.
\<close>

section \<open>Keys\<close>

abbreviation (input) SYSTEM_SERVICE_CODE :: u16 where "SYSTEM_SERVICE_CODE \<equiv> 0xFFFF"
abbreviation (input) DES_KEY_LEN :: nat where "DES_KEY_LEN \<equiv> 8"
abbreviation (input) AES_KEY_LEN :: nat where "AES_KEY_LEN \<equiv> 16"

datatype node_key = NkDes bytes | NkAes128 bytes

datatype algorithm = AlgDes | AlgAes128

fun node_key_scheme :: "node_key \<Rightarrow> secure_session_scheme" where
  "node_key_scheme (NkDes _) = SchemeDes"
| "node_key_scheme (NkAes128 _) = SchemeAes128"

fun node_key_algorithm :: "node_key \<Rightarrow> algorithm" where
  "node_key_algorithm (NkDes _) = AlgDes"
| "node_key_algorithm (NkAes128 _) = AlgAes128"

fun algorithm_from_scheme :: "secure_session_scheme \<Rightarrow> algorithm" where
  "algorithm_from_scheme SchemeDes = AlgDes"
| "algorithm_from_scheme SchemeAes128 = AlgAes128"

record node_key_id =
  nk_node :: u16
  nk_algorithm :: algorithm

definition node_key_id_new :: "u16 \<Rightarrow> algorithm \<Rightarrow> node_key_id" where
  "node_key_id_new node a = \<lparr>nk_node = node, nk_algorithm = a\<rparr>"

datatype key_error =
    KeyIo string | MissingKey u16 | MixedAlgorithm | EmptyChain | DesRequiresArea | DesRequiresService
  | IndividualKeyNotApplicable

text \<open>The \<open>Display\<close> texts.\<close>

fun key_error_text :: "key_error \<Rightarrow> string" where
  "key_error_text (KeyIo m) = ''failed to read key file: '' @ m"
| "key_error_text (MissingKey node) = ''missing key for node 0x'' @ hex4 node"
| "key_error_text MixedAlgorithm = ''cannot mix DES and AES-128 keys in one authentication chain''"
| "key_error_text EmptyChain = ''no node to authenticate: area path and service are both empty''"
| "key_error_text DesRequiresArea = ''DES authentication requires at least one area''"
| "key_error_text DesRequiresService = ''DES authentication requires at least one key-contributing service''"
| "key_error_text IndividualKeyNotApplicable = ''individual_key applies only to AES-128 nodes''"

record key_record_warning =
  kw_line :: nat
  kw_message :: string

record jsonl_key_record =
  jr_system_code :: string
  jr_node :: string
  jr_algo :: string
  jr_version :: string
  jr_idm :: "string option"
  jr_key :: string

record text_crates =
  parse_json :: "string \<Rightarrow> string + jsonl_key_record"
  hex_decode :: "string \<Rightarrow> string + bytes"
  hex_encode_upper :: "bytes \<Rightarrow> string"

type_synonym node_keys = "(node_key_id \<times> node_key) list"
type_synonym idm_scoped_keys = "(string \<times> node_keys) list"
type_synonym key_store = "(u16 \<times> idm_scoped_keys) list"
type_synonym key_record = "u16 \<times> string \<times> u16 \<times> node_key"

record key_store_load =
  kl_store :: key_store
  kl_warnings :: "key_record_warning list"

section \<open>Text\<close>

text \<open>\<open>str::trim\<close>: the UTF-8 encodings of the characters with the property White_Space.\<close>

definition whitespace :: "string list" where
  "whitespace = map (map char_of) ([[9], [10], [11], [12], [13], [32], [0xC2, 0x85], [0xC2, 0xA0],
     [0xE1, 0x9A, 0x80], [0xE2, 0x80, 0xA8], [0xE2, 0x80, 0xA9], [0xE2, 0x80, 0xAF], [0xE2, 0x81, 0x9F],
     [0xE3, 0x80, 0x80]] @ map (\<lambda>n. [0xE2, 0x80, n]) [0x80 ..< 0x8B] :: nat list list)"

function strip_all :: "string list \<Rightarrow> string \<Rightarrow> string" where
  "strip_all ws s =
     (case List.find (\<lambda>w. w \<noteq> [] \<and> prefix w s) ws of
        Some w \<Rightarrow> strip_all ws (drop (length w) s)
      | None \<Rightarrow> s)"
  by pat_completeness auto
termination
  by (relation "measure (length \<circ> snd)")
    (auto simp: find_Some_iff prefix_def)

declare strip_all.simps [simp del]

definition str_trim :: "string \<Rightarrow> string" where
  "str_trim s = rev (strip_all (map rev whitespace) (rev (strip_all whitespace s)))"

definition strip_prefix :: "string \<Rightarrow> string \<Rightarrow> string option" where
  "strip_prefix p s = (if prefix p s then Some (drop (length p) s) else None)"

definition str_quoted :: "string \<Rightarrow> string" where
  "str_quoted s = [CHR 0x27] @ s @ [CHR 0x27]"

definition ascii_lower :: "char \<Rightarrow> char" where
  "ascii_lower c = (let n = of_char c :: nat in if 65 \<le> n \<and> n \<le> 90 then char_of (n + 32) else c)"

definition eq_ignore_ascii_case :: "string \<Rightarrow> string \<Rightarrow> bool" where
  "eq_ignore_ascii_case s t \<longleftrightarrow> map ascii_lower s = map ascii_lower t"

definition hex_digit :: "char \<Rightarrow> nat option" where
  "hex_digit c =
     (let n = of_char c :: nat in
      if 48 \<le> n \<and> n \<le> 57 then Some (n - 48)
      else if 65 \<le> n \<and> n \<le> 70 then Some (n - 55)
      else if 97 \<le> n \<and> n \<le> 102 then Some (n - 87)
      else None)"

text \<open>\<open>u16::from_str_radix(s, 16)\<close> with the texts of its \<open>ParseIntError\<close>.\<close>

fun hex_value :: "nat \<Rightarrow> string \<Rightarrow> string + u16" where
  "hex_value acc [] = Inr (u16_of acc)"
| "hex_value acc (c # cs) =
     (case hex_digit c of
        None \<Rightarrow> Inl ''invalid digit found in string''
      | Some d \<Rightarrow> if acc * 16 + d > 0xFFFF then Inl ''number too large to fit in target type''
          else hex_value (acc * 16 + d) cs)"

definition u16_from_hex :: "string \<Rightarrow> string + u16" where
  "u16_from_hex s =
     (if s = [] then Inl ''cannot parse integer from empty string''
      else if s = ''+'' \<or> s = ''-'' then Inl ''invalid digit found in string''
      else hex_value 0 (if hd s = CHR ''+'' then tl s else s))"

definition parse_hex_u16 :: "string \<Rightarrow> string + u16" where
  "parse_hex_u16 v =
     (let trimmed = str_trim v;
          without_prefix = (case strip_prefix ''0x'' trimmed of
              Some r \<Rightarrow> r
            | None \<Rightarrow> (case strip_prefix ''0X'' trimmed of Some r \<Rightarrow> r | None \<Rightarrow> trimmed)) in
      u16_from_hex without_prefix)"

section \<open>Records\<close>

definition parse_idm_hex :: "text_crates \<Rightarrow> string \<Rightarrow> string + string" where
  "parse_idm_hex K v =
     (if v = [] then Inl ''idm is empty''
      else if \<not> list_all (\<lambda>c. hex_digit c \<noteq> None) v then Inl ''idm must be plain hex''
      else
        bindE (hex_decode K v) (\<lambda>bs.
        if length bs \<noteq> IDM_LEN then
          Inl (''idm must be '' @ dec IDM_LEN @ '' bytes, got '' @ dec (length bs))
        else Inr (hex_encode_upper K bs)))"

definition parse_node_key_bytes :: "string \<Rightarrow> bytes \<Rightarrow> string + node_key" where
  "parse_node_key_bytes algo bs =
     (if eq_ignore_ascii_case algo ''DES'' then
        (if length bs = DES_KEY_LEN then Inr (NkDes bs)
         else Inl (''DES key must be '' @ dec DES_KEY_LEN @ '' bytes, got '' @ dec (length bs)))
      else if eq_ignore_ascii_case algo ''AES'' then
        (if length bs = AES_KEY_LEN then Inr (NkAes128 bs)
         else Inl (''AES key must be '' @ dec AES_KEY_LEN @ '' bytes, got '' @ dec (length bs)))
      else Inl (''unsupported algo '' @ str_quoted algo @ ''; expected DES or AES''))"

definition parse_node_key :: "text_crates \<Rightarrow> string \<Rightarrow> string \<Rightarrow> string + node_key" where
  "parse_node_key K algo v =
     bindE (map_err (\<lambda>e. ''invalid key '' @ str_quoted v @ '': '' @ e) (hex_decode K v))
       (parse_node_key_bytes algo)"

definition parse_record :: "text_crates \<Rightarrow> string \<Rightarrow> string + key_record" where
  "parse_record K line =
     bindE (map_err (\<lambda>e. ''failed to parse JSON: '' @ e) (parse_json K line)) (\<lambda>r.
     bindE (map_err (\<lambda>e. ''invalid system_code '' @ str_quoted (jr_system_code r) @ '': '' @ e)
       (parse_hex_u16 (jr_system_code r))) (\<lambda>system_code.
     bindE (map_err (\<lambda>e. ''invalid node '' @ str_quoted (jr_node r) @ '': '' @ e)
       (parse_hex_u16 (jr_node r))) (\<lambda>node.
     bindE (case jr_idm r of Some idm \<Rightarrow> parse_idm_hex K idm | None \<Rightarrow> Inr []) (\<lambda>idm_key.
     bindE (parse_node_key K (jr_algo r) (jr_key r)) (\<lambda>nk.
     Inr (system_code, idm_key, node, nk))))))"

section \<open>The store\<close>

text \<open>\<open>entry(k).or_default()\<close> followed by an update of the entry.\<close>

definition with_entry :: "'k \<Rightarrow> ('v list \<Rightarrow> 'v list) \<Rightarrow> ('k \<times> 'v list) list \<Rightarrow> ('k \<times> 'v list) list" where
  "with_entry k f m = AList.update k (f (case map_of m k of Some v \<Rightarrow> v | None \<Rightarrow> [])) m"

definition store_record :: "key_store \<Rightarrow> key_record \<Rightarrow> key_store" where
  "store_record store r =
     (case r of (system_code, idm_key, node, nk) \<Rightarrow>
        with_entry system_code (with_entry idm_key
          (AList.update (node_key_id_new node (node_key_algorithm nk)) nk)) store)"

definition key_warn :: "nat \<Rightarrow> string \<Rightarrow> key_record_warning" where
  "key_warn line message = \<lparr>kw_line = line, kw_message = message\<rparr>"

text \<open>One pass of the loop over \<open>reader.lines().enumerate()\<close>.\<close>

definition load_line :: "text_crates \<Rightarrow> key_store_load \<Rightarrow> nat \<times> (string + string) \<Rightarrow> key_store_load" where
  "load_line K l item =
     (let line_num = fst item + 1 in
      case snd item of
        Inl err \<Rightarrow> l\<lparr>kl_warnings := kl_warnings l @ [key_warn line_num (''failed to read line: '' @ err)]\<rparr>
      | Inr line \<Rightarrow>
          let trimmed = str_trim line in
          if trimmed = [] then l
          else case parse_record K trimmed of
            Inr r \<Rightarrow> l\<lparr>kl_store := store_record (kl_store l) r\<rparr>
          | Inl message \<Rightarrow> l\<lparr>kl_warnings := kl_warnings l @ [key_warn line_num message]\<rparr>)"

definition from_jsonl_reader :: "text_crates \<Rightarrow> (string + string) list \<Rightarrow> key_store_load" where
  "from_jsonl_reader K lines =
     foldl (load_line K) \<lparr>kl_store = [], kl_warnings = []\<rparr> (enumerate 0 lines)"

text \<open>\<open>BufRead::lines\<close> on a string: split after every line feed, which is removed with a carriage return
  in front of it.\<close>

function str_lines :: "string \<Rightarrow> string list" where
  "str_lines s =
     (if s = [] then []
      else
        let line = takeWhile (\<lambda>c. c \<noteq> CHR 0x0A) s; rest = dropWhile (\<lambda>c. c \<noteq> CHR 0x0A) s in
        if rest = [] then [line]
        else (if line \<noteq> [] \<and> last line = CHR 0x0D then butlast line else line) # str_lines (tl rest))"
  by pat_completeness auto
termination
proof (relation "measure length")
  fix s line rest :: string
  assume "s \<noteq> []" "line = takeWhile (\<lambda>c. c \<noteq> CHR 0x0A) s" "rest = dropWhile (\<lambda>c. c \<noteq> CHR 0x0A) s" "rest \<noteq> []"
  then have "0 < length rest" "length rest \<le> length s" by (simp_all add: length_dropWhile_le)
  then have "length rest - 1 < length s" by linarith
  then show "(tl rest, s) \<in> measure length" by simp
qed simp

declare str_lines.simps [simp del]

definition from_jsonl_str :: "text_crates \<Rightarrow> string \<Rightarrow> key_store_load" where
  "from_jsonl_str K contents = from_jsonl_reader K (map Inr (str_lines contents))"

definition key_count :: "key_store \<Rightarrow> u16 \<Rightarrow> nat" where
  "key_count store system_code =
     (case map_of store system_code of
        Some scoped \<Rightarrow> sum_list (map (length \<circ> snd) scoped)
      | None \<Rightarrow> 0)"

record resolved_node_keys =
  rk_keys :: node_keys

definition extend_keys :: "node_keys \<Rightarrow> node_keys \<Rightarrow> node_keys" where
  "extend_keys m ks = foldl (\<lambda>m (k, v). AList.update k v m) m ks"

definition resolve :: "text_crates \<Rightarrow> key_store \<Rightarrow> u16 \<Rightarrow> bytes \<Rightarrow> resolved_node_keys option" where
  "resolve K store system_code idm =
     (case map_of store system_code of
        None \<Rightarrow> None
      | Some scoped \<Rightarrow>
          let merged = [];
              merged = (case map_of scoped [] of Some shared \<Rightarrow> extend_keys merged shared | None \<Rightarrow> merged);
              merged = (case map_of scoped (hex_encode_upper K idm) of
                  Some specific \<Rightarrow> extend_keys merged specific | None \<Rightarrow> merged) in
          if merged = [] then None else Some \<lparr>rk_keys = merged\<rparr>)"

section \<open>Resolved keys\<close>

definition get_by_algorithm :: "resolved_node_keys \<Rightarrow> u16 \<Rightarrow> algorithm \<Rightarrow> node_key option" where
  "get_by_algorithm rk node a = map_of (rk_keys rk) (node_key_id_new node a)"

definition get_key :: "resolved_node_keys \<Rightarrow> u16 \<Rightarrow> node_key option" where
  "get_key rk node =
     (case get_by_algorithm rk node AlgAes128 of
        Some k \<Rightarrow> Some k
      | None \<Rightarrow> get_by_algorithm rk node AlgDes)"

definition get_for_scheme :: "resolved_node_keys \<Rightarrow> u16 \<Rightarrow> secure_session_scheme \<Rightarrow> node_key option" where
  "get_for_scheme rk node scheme = get_by_algorithm rk node (algorithm_from_scheme scheme)"

definition from_keys :: "(u16 \<times> node_key) list \<Rightarrow> resolved_node_keys" where
  "from_keys ks = \<lparr>rk_keys = foldl (\<lambda>m (node, k).
     AList.update (node_key_id_new node (node_key_algorithm k)) k m) [] ks\<rparr>"

definition from_map :: "(u16 \<times> node_key) list \<Rightarrow> resolved_node_keys" where
  "from_map ks = from_keys ks"

definition require_des :: "resolved_node_keys \<Rightarrow> u16 \<Rightarrow> key_error + bytes" where
  "require_des rk node =
     (case get_by_algorithm rk node AlgDes of
        Some (NkDes k) \<Rightarrow> Inr k
      | Some (NkAes128 _) \<Rightarrow> Inl MixedAlgorithm
      | None \<Rightarrow> if get_key rk node \<noteq> None then Inl MixedAlgorithm else Inl (MissingKey node))"

definition require_aes :: "resolved_node_keys \<Rightarrow> u16 \<Rightarrow> key_error + bytes" where
  "require_aes rk node =
     (case get_by_algorithm rk node AlgAes128 of
        Some (NkAes128 k) \<Rightarrow> Inr k
      | Some (NkDes _) \<Rightarrow> Inl MixedAlgorithm
      | None \<Rightarrow> if get_key rk node \<noteq> None then Inl MixedAlgorithm else Inl (MissingKey node))"

definition chain_algorithm :: "resolved_node_keys \<Rightarrow> u16 list \<Rightarrow> service_code list \<Rightarrow> key_error + algorithm" where
  "chain_algorithm rk area_path services =
     bindE (ok_or
       (case List.find (\<lambda>s. \<not> is_key_free_service s) (rev services) of
          Some s \<Rightarrow> Some (code_raw s)
        | None \<Rightarrow> if services \<noteq> [] then Some (code_raw (last services))
            else if area_path \<noteq> [] then Some (last area_path) else None) EmptyChain) (\<lambda>target.
     bindE (ok_or (get_key rk target) (MissingKey target)) (\<lambda>k. Inr (node_key_algorithm k)))"

datatype derived_auth_keys =
    AuthDes "u16 list" "service_code list" bytes bytes
  | AuthAes128 "u16 list" bytes bytes

definition derive_des ::
    "crypto \<Rightarrow> resolved_node_keys \<Rightarrow> u16 list \<Rightarrow> service_code list \<Rightarrow> key_error + derived_auth_keys" where
  "derive_des C rk area_path services =
     (if area_path = [] then Inl DesRequiresArea
      else if \<not> list_ex (\<lambda>s. \<not> is_key_free_service s) services then Inl DesRequiresService
      else
        bindE (require_des rk SYSTEM_SERVICE_CODE) (\<lambda>system_key.
        bindE (mapE (require_des rk) area_path) (\<lambda>area_keys.
        bindE (mapE (\<lambda>s. require_des rk (code_raw s)) (filter (\<lambda>s. \<not> is_key_free_service s) services)) (\<lambda>service_keys.
        case generate_service_keys_des C system_key area_keys service_keys of
          (group_service_key, user_service_key) \<Rightarrow>
            Inr (AuthDes area_path services group_service_key user_service_key)))))"

definition derive_aes128 ::
    "aes_crypto \<Rightarrow> resolved_node_keys \<Rightarrow> u16 list \<Rightarrow> service_code list \<Rightarrow> bytes
      \<Rightarrow> key_error + derived_auth_keys" where
  "derive_aes128 A rk area_path services individual_key =
     bindE (mapE (require_aes rk) area_path) (\<lambda>area_keys.
     bindE (mapE (\<lambda>s. require_aes rk (code_raw s)) services) (\<lambda>service_keys.
     let nodes = area_path @ map code_raw services in
     if nodes = [] then Inl EmptyChain
     else Inr (AuthAes128 nodes (generate_group_key_v2_aes128 A (area_keys @ service_keys)) individual_key)))"

definition derive_auth_keys_with_scheme ::
    "crypto \<Rightarrow> aes_crypto \<Rightarrow> resolved_node_keys \<Rightarrow> secure_session_scheme \<Rightarrow> u16 list \<Rightarrow> service_code list
      \<Rightarrow> bytes option \<Rightarrow> key_error + derived_auth_keys" where
  "derive_auth_keys_with_scheme C A rk scheme area_path services individual_key =
     (case scheme of
        SchemeDes \<Rightarrow>
          if individual_key \<noteq> None then Inl IndividualKeyNotApplicable else derive_des C rk area_path services
      | SchemeAes128 \<Rightarrow>
          derive_aes128 A rk area_path services
            (case individual_key of Some k \<Rightarrow> k | None \<Rightarrow> replicate 16 0))"

definition derive_auth_keys ::
    "crypto \<Rightarrow> aes_crypto \<Rightarrow> resolved_node_keys \<Rightarrow> u16 list \<Rightarrow> service_code list
      \<Rightarrow> bytes option \<Rightarrow> key_error + derived_auth_keys" where
  "derive_auth_keys C A rk area_path services individual_key =
     bindE (chain_algorithm rk area_path services) (\<lambda>a.
     case a of
       AlgDes \<Rightarrow>
         if individual_key \<noteq> None then Inl IndividualKeyNotApplicable else derive_des C rk area_path services
     | AlgAes128 \<Rightarrow>
         derive_aes128 A rk area_path services
           (case individual_key of Some k \<Rightarrow> k | None \<Rightarrow> replicate 16 0))"

section \<open>Authentication by node\<close>

text \<open>The random number that the authentication draws is an argument, of eight bytes for DES and sixteen
  for AES.\<close>

definition authenticate_node ::
    "'d environment \<Rightarrow> bytes \<Rightarrow> resolved_node_keys \<Rightarrow> u16 list \<Rightarrow> service_code list \<Rightarrow> bytes option
      \<Rightarrow> ('d, mutual_authentication_result) host_op" where
  "authenticate_node E random_1 keys area_path services individual_key =
     bindH (liftH (map_err (\<lambda>e. InvalidParameter (key_error_text e))
       (derive_auth_keys (env_des E) (env_aes E) keys area_path services individual_key))) (\<lambda>derived.
     case derived of
       AuthDes areas services group_service_key user_service_key \<Rightarrow>
         mutual_authentication E random_1 areas services group_service_key user_service_key
     | AuthAes128 nodes group_key individual_key \<Rightarrow>
         mutual_authentication_v2 E random_1 0x00 nodes group_key individual_key)"

section \<open>What a key file means\<close>

text \<open>The records of the lines that parse, in order, and the key that each of them stores.\<close>

definition valid_records :: "text_crates \<Rightarrow> (string + string) list \<Rightarrow> key_record list" where
  "valid_records K lines = concat (map (\<lambda>l.
     (case l of
        Inl _ \<Rightarrow> []
      | Inr line \<Rightarrow>
          if str_trim line = [] then []
          else case parse_record K (str_trim line) of Inr r \<Rightarrow> [r] | Inl _ \<Rightarrow> [])) lines)"

fun stored :: "key_record \<Rightarrow> (u16 \<times> string \<times> node_key_id) \<times> node_key" where
  "stored (system_code, idm_key, node, nk) = ((system_code, idm_key, node_key_id_new node (node_key_algorithm nk)), nk)"

text \<open>The last record for a system, a scope and a node wins.\<close>

definition last_record ::
    "text_crates \<Rightarrow> (string + string) list \<Rightarrow> u16 \<Rightarrow> string \<Rightarrow> node_key_id \<Rightarrow> node_key option" where
  "last_record K lines system_code idm_key i =
     map_of (rev (map stored (valid_records K lines))) (system_code, idm_key, i)"

lemma load_lines_store:
  "kl_store (foldl (load_line K) l (enumerate n lines)) = foldl store_record (kl_store l) (valid_records K lines)"
proof (induction lines arbitrary: l n)
  case Nil
  then show ?case by (simp add: valid_records_def)
next
  case (Cons x lines)
  have "kl_store (load_line K l (n, x)) = foldl store_record (kl_store l) (valid_records K [x])"
    by (auto simp: load_line_def valid_records_def Let_def split: sum.split)
  then show ?case using Cons [of "load_line K l (n, x)"] by (simp add: valid_records_def)
qed

definition store_lookup :: "key_store \<Rightarrow> u16 \<Rightarrow> string \<Rightarrow> node_key_id \<Rightarrow> node_key option" where
  "store_lookup store s i k = Option.bind (map_of store s) (\<lambda>m. Option.bind (map_of m i) (\<lambda>m. map_of m k))"

lemma lookup_with_entry:
  "map_of (with_entry k f m) k' = (if k' = k then Some (f (case map_of m k of Some v \<Rightarrow> v | None \<Rightarrow> [])) else map_of m k')"
  by (simp add: with_entry_def update_conv')

lemma store_lookup_record:
  "store_lookup (store_record st r) s i k = (if fst (stored r) = (s, i, k) then Some (snd (stored r)) else store_lookup st s i k)"
  by (cases r) (auto simp: store_lookup_def store_record_def lookup_with_entry update_conv' split: option.split)

lemma store_lookup_fold:
  "store_lookup (foldl store_record st rs) s i k =
    (case map_of (rev (map stored rs)) (s, i, k) of Some v \<Rightarrow> Some v | None \<Rightarrow> store_lookup st s i k)"
proof (induction rs arbitrary: st)
  case (Cons r rs)
  show ?case unfolding foldl_Cons Cons
    by (cases "stored r") (auto simp: store_lookup_record map_add_def split: option.split)
qed simp

lemma store_lookup_load: "store_lookup (kl_store (from_jsonl_reader K lines)) s i k = last_record K lines s i k"
proof -
  have "store_lookup [] s i k = None" by (simp add: store_lookup_def)
  then show ?thesis
    by (simp add: from_jsonl_reader_def load_lines_store store_lookup_fold last_record_def split: option.split)
qed

text \<open>No node is listed twice, so the order of a hash map does not matter.\<close>

definition distinct_nodes :: "key_store \<Rightarrow> bool" where
  "distinct_nodes store \<longleftrightarrow> (\<forall>s m i ks. map_of store s = Some m \<and> map_of m i = Some ks \<longrightarrow> distinct (map fst ks))"

lemma distinct_nodes_record: "distinct_nodes st \<Longrightarrow> distinct_nodes (store_record st r)"
  by (cases r) (auto simp: distinct_nodes_def store_record_def lookup_with_entry distinct_update split: if_splits option.splits)

lemma distinct_nodes_load: "distinct_nodes (kl_store (from_jsonl_reader K lines))"
proof -
  have "distinct_nodes st \<Longrightarrow> distinct_nodes (foldl store_record st rs)" for st rs
    by (induction rs arbitrary: st) (auto intro: distinct_nodes_record)
  moreover have "distinct_nodes []" by (simp add: distinct_nodes_def)
  ultimately show ?thesis by (simp add: from_jsonl_reader_def load_lines_store)
qed

lemma map_of_extend:
  "distinct (map fst ks) \<Longrightarrow>
    map_of (extend_keys m ks) i = (case map_of ks i of Some k \<Rightarrow> Some k | None \<Rightarrow> map_of m i)"
proof (induction ks arbitrary: m)
  case (Cons p ks)
  obtain a b where p: "p = (a, b)" by (cases p)
  have step: "extend_keys m (p # ks) = extend_keys (AList.update a b m) ks"
    by (simp add: extend_keys_def p)
  have "map_of ks a = None" using Cons.prems by (simp add: map_of_eq_None_iff p)
  then show ?case using Cons.IH [of "AList.update a b m"] Cons.prems
    by (auto simp: step [unfolded p] p update_conv' split: option.split)
qed (simp add: extend_keys_def)

text \<open>
  The key file means what its documentation says: the key that \<open>resolve\<close> finds for a card, a node and
  a scheme is that of the last valid line for this card, and only without one that of the last valid
  line that names no card; keys of the other scheme never hide it.
\<close>

theorem resolve_precedence:
  "Option.bind (resolve K (kl_store (from_jsonl_reader K lines)) system_code idm) (\<lambda>rk. get_by_algorithm rk node a) =
    (case last_record K lines system_code (hex_encode_upper K idm) (node_key_id_new node a) of
       Some k \<Rightarrow> Some k
     | None \<Rightarrow> last_record K lines system_code [] (node_key_id_new node a))"
proof -
  let ?store = "kl_store (from_jsonl_reader K lines)"
  let ?i = "node_key_id_new node a" and ?hex = "hex_encode_upper K idm"
  note d = distinct_nodes_load [of K lines, unfolded distinct_nodes_def, rule_format]
  show ?thesis
  proof (cases "map_of ?store system_code")
    case None
    then show ?thesis by (simp add: resolve_def store_lookup_def flip: store_lookup_load)
  next
    case (Some scoped)
    let ?shared = "case map_of scoped [] of Some ks \<Rightarrow> extend_keys [] ks | None \<Rightarrow> []"
    let ?merged = "case map_of scoped ?hex of Some ks \<Rightarrow> extend_keys ?shared ks | None \<Rightarrow> ?shared"
    have "map_of ?merged ?i = (case store_lookup ?store system_code ?hex ?i of Some k \<Rightarrow> Some k
        | None \<Rightarrow> store_lookup ?store system_code [] ?i)"
      using d Some by (auto simp: store_lookup_def map_of_extend split: option.split)
    moreover have "Option.bind (resolve K ?store system_code idm) (\<lambda>rk. get_by_algorithm rk node a) = map_of ?merged ?i"
      using Some by (simp add: resolve_def get_by_algorithm_def Let_def)
    ultimately show ?thesis unfolding store_lookup_load by simp
  qed
qed

end
