(* ===== verification/Emulator_Blocks.thy ===== *)
theory Emulator_Blocks
  imports Types
begin

text \<open>
  Block-level write semantics of the emulated card, \<open>src/felica_standard/emulator/blocks.rs\<close>: the
  purse arithmetic and the cyclic ring. A block is the list of its 16 bytes; the \<open>i64\<close> values of
  the source are integers, since the sums of two four-byte numbers stay far inside that type. A
  status flag 2 value is the error of a write.
\<close>

type_synonym block = bytes

abbreviation (input) SF2_PURSE_RESULT_OUT_OF_RANGE :: u8 where "SF2_PURSE_RESULT_OUT_OF_RANGE \<equiv> 0x01"
abbreviation (input) SF2_CASHBACK_EXCEEDS_STORED :: u8 where "SF2_CASHBACK_EXCEEDS_STORED \<equiv> 0x02"
abbreviation (input) SF2_LIMIT_PURSE_OUT_OF_RANGE :: u8 where "SF2_LIMIT_PURSE_OUT_OF_RANGE \<equiv> 0x03"
abbreviation (input) SF2_ACCESS_NOT_PERMITTED :: u8 where "SF2_ACCESS_NOT_PERMITTED \<equiv> 0xA5"
abbreviation (input) SF2_CYCLIC_WRITE_OVERFLOW :: u8 where "SF2_CYCLIC_WRITE_OVERFLOW \<equiv> 0xAF"

definition purse_data :: "block \<Rightarrow> bytes" where "purse_data b = take 4 b"
definition cashback_data :: "block \<Rightarrow> bytes" where "cashback_data b = take 4 (drop 4 b)"
definition user_data :: "block \<Rightarrow> bytes" where "user_data b = take 4 (drop 8 b)"
definition execution_id :: "block \<Rightarrow> bytes" where "execution_id b = take 4 (drop 12 b)"

definition PURSE_MAX_UNSIGNED :: int where "PURSE_MAX_UNSIGNED = 2 ^ 32 - 1"

text \<open>\<open>LimitPurseProperty\<close> of \<open>structure.rs\<close>; the limits are \<open>i32\<close> bit patterns.\<close>

record limit_purse_property =
  upper_limit :: u32
  lower_limit :: u32
  generation_number :: u8

definition limit_purse_default :: limit_purse_property where
  "limit_purse_default = \<lparr>upper_limit = 0x7FFFFFFF, lower_limit = 0, generation_number = 0\<rparr>"

section \<open>Purse services\<close>

datatype purse_operation = Direct | Decrement | Cashback

definition purse_resolve :: "service_attribute \<Rightarrow> u8 \<Rightarrow> u8 + purse_operation" where
  "purse_resolve attribute mode =
     (if attribute = PurseDirect \<and> mode = 0b000 then Inr Direct
      else if attribute = PurseDecrement \<and> mode = 0b000 then Inr Decrement
      else if attribute = PurseCashback \<and> mode = 0b000 then Inr Decrement
      else if attribute = PurseCashback \<and> mode = 0b001 then Inr Cashback
      else Inl SF2_ACCESS_NOT_PERMITTED)"

definition read_value :: "bytes \<Rightarrow> bool \<Rightarrow> int" where
  "read_value bs is_signed =
     (let w = u32_from_le (bs ! 0) (bs ! 1) (bs ! 2) (bs ! 3) in if is_signed then sint w else uint w)"

definition value_bytes :: "int \<Rightarrow> bytes" where
  "value_bytes value = u32_to_le (word_of_int value)"

text \<open>\<open>write_value(&mut block[i..i+4], v)\<close> and \<open>block[8..12].copy_from_slice(..)\<close>.\<close>

definition write_at :: "block \<Rightarrow> nat \<Rightarrow> bytes \<Rightarrow> block" where
  "write_at b i bs = take i b @ bs @ drop (i + length bs) b"

definition apply_purse_write ::
    "block \<Rightarrow> block \<Rightarrow> purse_operation \<Rightarrow> limit_purse_property option \<Rightarrow> u8 + block option" where
  "apply_purse_write stored command operation limit =
     (let signed = (limit \<noteq> None);
          (floor, ceiling) = (case limit of
              Some l \<Rightarrow> (sint (lower_limit l), sint (upper_limit l))
            | None \<Rightarrow> (0, PURSE_MAX_UNSIGNED));
          out_of_range = (if limit \<noteq> None then SF2_LIMIT_PURSE_OUT_OF_RANGE
            else SF2_PURSE_RESULT_OUT_OF_RANGE) in
      if operation \<noteq> Direct \<and> execution_id command = execution_id stored then Inr None
      else
        let stored_purse = read_value (purse_data stored) signed;
            stored_cashback = read_value (cashback_data stored) signed;
            updated = command in
        (case operation of
           Direct \<Rightarrow>
             (let new_purse = read_value (purse_data command) signed;
                  new_cashback = read_value (cashback_data command) signed in
              if new_purse > stored_purse \<or> new_cashback > stored_cashback then
                Inl SF2_ACCESS_NOT_PERMITTED
              else if stored_purse + new_cashback > PURSE_MAX_UNSIGNED then
                Inl SF2_ACCESS_NOT_PERMITTED
              else if new_purse < floor \<or> new_purse > ceiling then Inl out_of_range
              else Inr (Some updated))
         | Decrement \<Rightarrow>
             (let amount = read_value (purse_data command) signed;
                  result = stored_purse - amount in
              if result < floor then Inl out_of_range
              else if result > ceiling then Inl out_of_range
              else
                let updated = write_at updated 0 (value_bytes result);
                    updated = write_at updated 4 (value_bytes amount);
                    updated = write_at updated 8 (user_data stored) in
                Inr (Some updated))
         | Cashback \<Rightarrow>
             (let amount = read_value (purse_data command) signed in
              if amount > stored_cashback then Inl SF2_CASHBACK_EXCEEDS_STORED
              else
                let result = stored_purse + amount in
                if result > ceiling then Inl out_of_range
                else if result < floor then Inl out_of_range
                else
                  let updated = write_at updated 0 (value_bytes result);
                      updated = write_at updated 4 (value_bytes 0);
                      updated = write_at updated 8 (user_data stored) in
                  Inr (Some updated))))"

section \<open>Cyclic services\<close>

datatype cyclic_write = Updated "block list" | Unchanged

definition apply_cyclic_write :: "block list \<Rightarrow> block list \<Rightarrow> u8 + cyclic_write" where
  "apply_cyclic_write stored command_blocks =
     (if length command_blocks > length stored then Inl SF2_CYCLIC_WRITE_OVERFLOW
      else if take (length command_blocks) stored = command_blocks then Inr Unchanged
      else Inr (Updated (command_blocks @ take (length stored - length command_blocks) stored)))"

section \<open>Purse lemmas\<close>

text \<open>Blocks by their four fields.\<close>

lemma length_value_bytes [simp]: "length (value_bytes v) = 4"
  by (simp add: value_bytes_def)

lemma block_fields:
  assumes "length b = 16"
  shows "b = purse_data b @ cashback_data b @ user_data b @ execution_id b"
    and "length (purse_data b) = 4" and "length (cashback_data b) = 4"
    and "length (user_data b) = 4" and "length (execution_id b) = 4"
proof -
  have "drop 4 b = take 4 (drop 4 b) @ drop 4 (drop 4 b)" and "drop 8 b = take 4 (drop 8 b) @ drop 4 (drop 8 b)"
    by (simp_all only: append_take_drop_id)
  then have "b = take 4 b @ take 4 (drop 4 b) @ take 4 (drop 8 b) @ drop 12 b"
    using append_take_drop_id [of 4 b] by simp
  then show "b = purse_data b @ cashback_data b @ user_data b @ execution_id b"
    using assms by (simp add: purse_data_def cashback_data_def user_data_def execution_id_def)
qed (use assms in \<open>simp_all add: purse_data_def cashback_data_def user_data_def execution_id_def\<close>)

lemma fields_append [simp]:
  assumes "length p = 4" and "length c = 4" and "length u = 4" and "length e = 4"
  shows "purse_data (p @ c @ u @ e) = p" and "cashback_data (p @ c @ u @ e) = c"
    and "user_data (p @ c @ u @ e) = u" and "execution_id (p @ c @ u @ e) = e"
  using assms by (simp_all add: purse_data_def cashback_data_def user_data_def execution_id_def)

lemma written_block:
  assumes "length b = 16" and "length p = 4" and "length c = 4" and "length u = 4"
  shows "write_at (write_at (write_at b 0 p) 4 c) 8 u = p @ c @ u @ execution_id b"
  using assms by (simp add: write_at_def execution_id_def drop_append)

definition purse_of :: "bool \<Rightarrow> block \<Rightarrow> int" where
  "purse_of sg b = read_value (purse_data b) sg"

definition cashback_of :: "bool \<Rightarrow> block \<Rightarrow> int" where
  "cashback_of sg b = read_value (cashback_data b) sg"

lemma read_value_bytes_unsigned:
  "0 \<le> v \<Longrightarrow> v < 2 ^ 32 \<Longrightarrow> read_value (value_bytes v) False = v"
  by (simp add: read_value_def value_bytes_def u32_to_le_def Let_def uint_word_of_int)

lemma read_value_bytes_signed:
  "- (2 ^ 31) \<le> v \<Longrightarrow> v < 2 ^ 31 \<Longrightarrow> read_value (value_bytes v) True = v"
  by (simp add: read_value_def value_bytes_def u32_to_le_def Let_def sint_sbintrunc'
      signed_take_bit_int_eq_self)

lemma sint_u32_bounds: "- (2 ^ 31) \<le> sint (w :: u32) \<and> sint w < 2 ^ 31"
  using sint_greater_eq [of w] sint_less [of w] by simp

lemma read_value_bounds:
  "0 \<le> read_value bs False \<and> read_value bs False < 2 ^ 32"
  "- (2 ^ 31) \<le> read_value bs True \<and> read_value bs True < 2 ^ 31"
  using sint_u32_bounds uint_lt2p [where ?'a = 32] by (auto simp: read_value_def Let_def)

definition value_floor :: "limit_purse_property option \<Rightarrow> int" where
  "value_floor limit = (case limit of Some l \<Rightarrow> sint (lower_limit l) | None \<Rightarrow> 0)"

definition value_ceiling :: "limit_purse_property option \<Rightarrow> int" where
  "value_ceiling limit = (case limit of Some l \<Rightarrow> sint (upper_limit l) | None \<Rightarrow> PURSE_MAX_UNSIGNED)"

lemma read_value_written:
  assumes "value_floor limit \<le> v" and "v \<le> value_ceiling limit"
  shows "read_value (value_bytes v) (limit \<noteq> None) = v"
proof (cases limit)
  case None
  then show ?thesis
    using assms by (simp add: value_floor_def value_ceiling_def PURSE_MAX_UNSIGNED_def
        read_value_bytes_unsigned)
next
  case (Some l)
  then have "- (2 ^ 31) \<le> v" "v < 2 ^ 31"
    using assms sint_u32_bounds [of "lower_limit l"] sint_u32_bounds [of "upper_limit l"]
    unfolding value_floor_def value_ceiling_def by auto
  then show ?thesis using Some by (simp add: read_value_bytes_signed)
qed

lemma read_value_reread: "read_value (value_bytes (read_value bs sg)) sg = read_value bs sg"
  using read_value_bounds [of bs]
  by (cases sg) (auto intro: read_value_bytes_unsigned read_value_bytes_signed)

lemma read_value_zero: "read_value (value_bytes 0) sg = 0"
  by (cases sg) (auto intro: read_value_bytes_unsigned read_value_bytes_signed)

text \<open>What a successful write of each operation leaves in the block.\<close>

lemma apply_purse_write_cases:
  assumes "apply_purse_write stored command operation limit = Inr (Some b)"
  obtains
    (direct) "operation = Direct" and "b = command"
      and "purse_of (limit \<noteq> None) command \<le> purse_of (limit \<noteq> None) stored"
      and "cashback_of (limit \<noteq> None) command \<le> cashback_of (limit \<noteq> None) stored"
      and "value_floor limit \<le> purse_of (limit \<noteq> None) command"
      and "purse_of (limit \<noteq> None) command \<le> value_ceiling limit"
  | (decrement) result amount where "operation = Decrement"
      and "execution_id command \<noteq> execution_id stored"
      and "amount = purse_of (limit \<noteq> None) command"
      and "result = purse_of (limit \<noteq> None) stored - amount"
      and "value_floor limit \<le> result" and "result \<le> value_ceiling limit"
      and "b = write_at (write_at (write_at command 0 (value_bytes result)) 4 (value_bytes amount)) 8
        (user_data stored)"
  | (cashback) result amount where "operation = Cashback"
      and "execution_id command \<noteq> execution_id stored"
      and "amount = purse_of (limit \<noteq> None) command"
      and "amount \<le> cashback_of (limit \<noteq> None) stored"
      and "result = purse_of (limit \<noteq> None) stored + amount"
      and "value_floor limit \<le> result" and "result \<le> value_ceiling limit"
      and "b = write_at (write_at (write_at command 0 (value_bytes result)) 4 (value_bytes 0)) 8
        (user_data stored)"
proof -
  have fc: "(case limit of Some l \<Rightarrow> (sint (lower_limit l), sint (upper_limit l))
      | None \<Rightarrow> (0, PURSE_MAX_UNSIGNED)) = (value_floor limit, value_ceiling limit)"
    by (cases limit) (simp_all add: value_floor_def value_ceiling_def)
  note a = assms [unfolded apply_purse_write_def fc Let_def prod.case,
      folded purse_of_def cashback_of_def]
  show ?thesis
  proof (cases operation)
    case Direct
    with a show ?thesis by (intro direct) (auto split: if_splits)
  next
    case Decrement
    with a show ?thesis by (intro decrement) (auto split: if_splits)
  next
    case Cashback
    with a show ?thesis by (intro cashback) (auto split: if_splits)
  qed
qed

section \<open>Purse properties\<close>

text \<open>The fields of a block that an accepted write stored.\<close>

lemma purse_written:
  assumes "length c = 4" and "length u = 4" and "length e = 4"
    and "value_floor limit \<le> v" and "v \<le> value_ceiling limit"
  shows "purse_of (limit \<noteq> None) (value_bytes v @ c @ u @ e) = v"
  using assms by (simp add: purse_of_def read_value_written del: not_None_eq)

lemma cashback_written:
  assumes "length p = 4" and "length u = 4" and "length e = 4"
  shows "cashback_of sg (p @ value_bytes (read_value bs sg) @ u @ e) = read_value bs sg"
    and "cashback_of sg (p @ value_bytes 0 @ u @ e) = 0"
  using assms by (simp_all add: cashback_of_def read_value_reread read_value_zero)

lemmas written_fields = purse_written cashback_written

lemma purse_write_length:
  assumes "apply_purse_write stored command operation limit = Inr (Some b)"
    and "length stored = 16" and "length command = 16"
  shows "length b = 16"
  using assms(1)
  by (cases rule: apply_purse_write_cases) (simp_all add: assms written_block block_fields)

text \<open>
  A Decrement with a fresh execution ID subtracts the amount at offset 0 of the command block,
  stores the amount as the new cashback data, keeps the stored user data and records the execution
  ID; it is refused with 01h (03h for a limited purse) exactly when the result leaves the limits.
\<close>

theorem decrement_effect:
  assumes "length stored = 16" and "length command = 16"
    and "execution_id command \<noteq> execution_id stored"
    and "result = purse_of (limit \<noteq> None) stored - purse_of (limit \<noteq> None) command"
  shows "apply_purse_write stored command Decrement limit =
    (if value_floor limit \<le> result \<and> result \<le> value_ceiling limit then
       Inr (Some (value_bytes result @ value_bytes (purse_of (limit \<noteq> None) command) @
         user_data stored @ execution_id command))
     else Inl (if limit = None then SF2_PURSE_RESULT_OUT_OF_RANGE else SF2_LIMIT_PURSE_OUT_OF_RANGE))"
  using assms by (cases limit)
    (auto simp: apply_purse_write_def purse_of_def value_floor_def value_ceiling_def written_block
      block_fields Let_def)

text \<open>
  The blocks a purse holds stay blocks: every accepted write of two sixteen-byte blocks stores
  sixteen bytes, and leaves the purse value between the floor and the ceiling of the service.
\<close>

theorem purse_write_in_range:
  assumes "apply_purse_write stored command operation limit = Inr (Some b)"
    and "length stored = 16" and "length command = 16"
  shows "length b = 16 \<and> value_floor limit \<le> purse_of (limit \<noteq> None) b
    \<and> purse_of (limit \<noteq> None) b \<le> value_ceiling limit"
  using assms(1)
  by (cases rule: apply_purse_write_cases)
    (simp_all add: assms written_block block_fields written_fields del: not_None_eq)

text \<open>Every accepted write leaves the command's execution ID in the block.\<close>

lemma purse_write_execution_id:
  assumes "apply_purse_write stored command operation limit = Inr (Some b)"
    and "length stored = 16" and "length command = 16"
  shows "execution_id b = execution_id command"
  using assms(1)
  by (cases rule: apply_purse_write_cases) (simp_all add: assms written_block block_fields)

text \<open>
  Sending an accepted purse command again is idempotent: whatever operation accepted it, a
  repetition as Decrement or Cashback finds its own execution ID and stores nothing.
\<close>

theorem purse_repeat_unchanged:
  assumes "apply_purse_write stored command operation limit = Inr (Some b)"
    and "length stored = 16" and "length command = 16" and "operation' \<noteq> Direct"
  shows "apply_purse_write b command operation' limit' = Inr None"
  using purse_write_execution_id [OF assms(1-3)] assms(4) by (simp add: apply_purse_write_def)

text \<open>
  A Cashback undoes the Decrement before it: refunding the amount just taken, under an execution
  ID of its own, brings the purse back to the value it had, with no cashback left.
\<close>

theorem cashback_restores_purse:
  assumes "apply_purse_write stored command Decrement limit = Inr (Some b)"
    and "length stored = 16" and "length command = 16" and "length refund = 16"
    and "purse_data refund = purse_data command" and "execution_id refund \<noteq> execution_id command"
    and "value_floor limit \<le> purse_of (limit \<noteq> None) stored"
    and "purse_of (limit \<noteq> None) stored \<le> value_ceiling limit"
  shows "\<exists>b'. apply_purse_write b refund Cashback limit = Inr (Some b')
    \<and> purse_of (limit \<noteq> None) b' = purse_of (limit \<noteq> None) stored
    \<and> cashback_of (limit \<noteq> None) b' = 0"
proof -
  let ?sg = "limit \<noteq> None" and ?v = "purse_of (limit \<noteq> None) stored"
  obtain result amount where
      eqs: "amount = purse_of ?sg command" "result = ?v - amount" "execution_id command \<noteq> execution_id stored"
      and range: "value_floor limit \<le> result" "result \<le> value_ceiling limit"
      and b: "b = value_bytes result @ value_bytes amount @ user_data stored @ execution_id command"
    using assms(1) by (rule apply_purse_write_cases) (use assms in \<open>simp_all add: written_block block_fields\<close>)
  have b': "purse_of ?sg b = result" "cashback_of ?sg b = amount" "purse_of ?sg refund = amount"
      "execution_id b = execution_id command" "user_data b = user_data stored" "length b = 16"
    using eqs range assms
    by (simp_all add: b purse_of_def [of _ command] purse_of_def [of _ refund] block_fields
        written_fields del: not_None_eq)
  have "apply_purse_write b refund Cashback limit =
      Inr (Some (value_bytes ?v @ value_bytes 0 @ user_data stored @ execution_id refund))"
    using b' assms eqs by (cases limit)
      (auto simp: apply_purse_write_def purse_of_def cashback_of_def value_floor_def
        value_ceiling_def written_block block_fields Let_def)
  then show ?thesis using assms
    by (simp add: written_fields block_fields del: not_None_eq)
qed

text \<open>A purse service executes a sequence of commands one after the other; a refused one changes nothing.\<close>

fun purse_history :: "limit_purse_property option \<Rightarrow> block \<Rightarrow> (block \<times> purse_operation) list \<Rightarrow> block" where
  "purse_history limit stored [] = stored"
| "purse_history limit stored ((command, operation) # rest) =
     purse_history limit
       (case apply_purse_write stored command operation limit of Inr (Some b) \<Rightarrow> b | _ \<Rightarrow> stored) rest"

lemma purse_write_total:
  assumes "apply_purse_write stored command operation None = Inr (Some b)"
    and "length stored = 16" and "length command = 16"
  shows "purse_of False b + cashback_of False b \<le> purse_of False stored + cashback_of False stored"
  using assms(1)
proof (cases rule: apply_purse_write_cases)
  case direct
  then show ?thesis by simp
next
  case (decrement result amount)
  then show ?thesis using assms read_value_bounds(1) [of "cashback_data stored"]
      read_value_written [of None result] read_value_reread [of "purse_data command" False]
    by (simp add: written_block block_fields purse_of_def cashback_of_def)
next
  case (cashback result amount)
  then show ?thesis using assms
      read_value_written [of None result] read_value_zero [of False]
    by (simp add: written_block block_fields purse_of_def cashback_of_def)
qed

text \<open>
  C24. No sequence of Purse commands makes money: on an ordinary (unsigned) purse the sum of the purse
  value and the cashback that may still be refunded never rises, whatever commands arrive.
\<close>

theorem purse_never_gains:
  assumes "length stored = 16" and "\<forall>(command, operation) \<in> set history. length command = 16"
  shows "purse_of False (purse_history None stored history) +
      cashback_of False (purse_history None stored history)
    \<le> purse_of False stored + cashback_of False stored"
  using assms
proof (induction history arbitrary: stored)
  case Nil
  then show ?case by simp
next
  case (Cons c rest)
  obtain command operation where c: "c = (command, operation)" by (cases c)
  let ?next = "case apply_purse_write stored command operation None of Inr (Some b) \<Rightarrow> b | _ \<Rightarrow> stored"
  have "length ?next = 16 \<and>
      purse_of False ?next + cashback_of False ?next \<le> purse_of False stored + cashback_of False stored"
    using Cons.prems c purse_write_total [of stored command operation]
      purse_write_length [of stored command operation None]
    by (auto split: sum.split option.split)
  then show ?case using Cons.IH [of ?next] Cons.prems c by auto
qed

definition purse_block :: "u8 \<Rightarrow> u8 \<Rightarrow> u8 \<Rightarrow> block" where
  "purse_block value cashback execution =
     [value, 0, 0, 0, cashback, 0, 0, 0, 7, 7, 7, 7, execution, 0, 0, 0]"

lemmas purse_eval = purse_block_def purse_of_def cashback_of_def purse_data_def cashback_data_def
  user_data_def execution_id_def read_value_def value_floor_def value_ceiling_def
  PURSE_MAX_UNSIGNED_def u32_from_le_def apply_purse_write_def write_at_def value_bytes_def
  u32_to_le_def numeral_eq_Suc Let_def

lemma purse_block_length: "length (purse_block v c e) = 16"
  by (simp add: purse_block_def)

lemma purse_block_write:
  "apply_purse_write (purse_block 100 0 1) (purse_block 30 0 2) Decrement None
     = Inr (Some (purse_block 70 30 2))"
  by code_simp

theorem decrement_effect_witness:
  "apply_purse_write (purse_block 100 0 1) (purse_block 30 0 2) Decrement None =
     (if value_floor None \<le> 70 \<and> 70 \<le> value_ceiling None then
       Inr (Some (value_bytes 70 @ value_bytes (purse_of (None \<noteq> (None :: limit_purse_property option)) (purse_block 30 0 2)) @
         user_data (purse_block 100 0 1) @ execution_id (purse_block 30 0 2)))
     else Inl (if (None :: limit_purse_property option) = None then SF2_PURSE_RESULT_OUT_OF_RANGE
       else SF2_LIMIT_PURSE_OUT_OF_RANGE))"
  by (rule decrement_effect; code_simp)

theorem purse_write_in_range_witness:
  "length (purse_block 70 30 2) = 16
    \<and> value_floor None \<le> purse_of ((None :: limit_purse_property option) \<noteq> None) (purse_block 70 30 2)
    \<and> purse_of ((None :: limit_purse_property option) \<noteq> None) (purse_block 70 30 2) \<le> value_ceiling None"
  by (rule purse_write_in_range [OF purse_block_write purse_block_length purse_block_length])

theorem purse_repeat_unchanged_witness:
  "apply_purse_write (purse_block 70 30 2) (purse_block 30 0 2) Cashback None = Inr None"
  by (rule purse_repeat_unchanged [OF purse_block_write purse_block_length purse_block_length]) simp

theorem cashback_restores_purse_witness:
  "\<exists>b'. apply_purse_write (purse_block 70 30 2) (purse_block 30 0 3) Cashback None = Inr (Some b')
    \<and> purse_of ((None :: limit_purse_property option) \<noteq> None) b'
      = purse_of ((None :: limit_purse_property option) \<noteq> None) (purse_block 100 0 1)
    \<and> cashback_of ((None :: limit_purse_property option) \<noteq> None) b' = 0"
  by (rule cashback_restores_purse [OF purse_block_write purse_block_length purse_block_length
        purse_block_length]) code_simp+

theorem purse_never_gains_witness:
  "purse_of False (purse_history None (purse_block 100 0 1)
        [(purse_block 30 0 2, Decrement), (purse_block 10 0 3, Cashback), (purse_block 50 0 4, Direct)]) +
      cashback_of False (purse_history None (purse_block 100 0 1)
        [(purse_block 30 0 2, Decrement), (purse_block 10 0 3, Cashback), (purse_block 50 0 4, Direct)])
    \<le> purse_of False (purse_block 100 0 1) + cashback_of False (purse_block 100 0 1)"
  by (rule purse_never_gains) (simp_all add: purse_block_length)

text \<open>
  A limited purse has no such bound: its amount is read as a signed number, so a Decrement by a
  negative amount is accepted as a credit, up to the upper limit of the service.
\<close>

theorem limited_purse_decrement_credits:
  assumes "length stored = 16" and "length command = 16"
    and "execution_id command \<noteq> execution_id stored"
    and "purse_of True command = - credit" and "0 < credit"
    and "sint (lower_limit l) \<le> purse_of True stored"
    and "purse_of True stored + credit \<le> sint (upper_limit l)"
  shows "\<exists>b. apply_purse_write stored command Decrement (Some l) = Inr (Some b)
    \<and> purse_of True b = purse_of True stored + credit"
proof -
  let ?v = "purse_of True stored + credit"
  have "apply_purse_write stored command Decrement (Some l) =
      Inr (Some (value_bytes ?v @ value_bytes (- credit) @ user_data stored @ execution_id command))"
    using assms
    by (auto simp: apply_purse_write_def purse_of_def written_block block_fields Let_def)
  then show ?thesis
    using purse_written [of "value_bytes (- credit)" "user_data stored" "execution_id command"
        "Some l" ?v] assms
    by (simp add: block_fields value_floor_def value_ceiling_def)
qed

theorem limited_purse_decrement_credits_witness:
  "\<exists>b. apply_purse_write (purse_block 100 0 1) ([0xFF, 0xFF, 0xFF, 0xFF] @ drop 4 (purse_block 0 0 2))
        Decrement (Some limit_purse_default) = Inr (Some b)
      \<and> purse_of True b = purse_of True (purse_block 100 0 1) + 1"
  by (rule limited_purse_decrement_credits; code_simp)

section \<open>Cyclic properties\<close>

text \<open>
  The ring as a log: \<open>fresh\<close> drops every entry that repeats the one before it (the newest stored
  block first), and the ring is the newest part of the log that fits.
\<close>

fun fresh :: "block \<Rightarrow> block list \<Rightarrow> block list" where
  "fresh newest [] = []"
| "fresh newest (b # bs) = (if b = newest then fresh newest bs else b # fresh b bs)"

fun cyclic_history :: "block list \<Rightarrow> block list \<Rightarrow> block list" where
  "cyclic_history ring [] = ring"
| "cyclic_history ring (b # bs) =
     cyclic_history (case apply_cyclic_write ring [b] of Inr (Updated ring') \<Rightarrow> ring' | _ \<Rightarrow> ring) bs"

lemma cyclic_single:
  "apply_cyclic_write (newest # older) [b] =
     Inr (if b = newest then Unchanged else Updated (b # take (length older) (newest # older)))"
  by (auto simp: apply_cyclic_write_def)

lemma cyclic_history_log:
  "cyclic_history (newest # older) bs =
     take (Suc (length older)) (rev (fresh newest bs) @ newest # older)"
proof (induction bs arbitrary: newest older)
  case Nil
  then show ?case by simp
next
  case (Cons b bs)
  show ?case
  proof (cases "b = newest")
    case True
    then show ?thesis using Cons.IH by (simp add: cyclic_single)
  next
    case False
    have "cyclic_history (newest # older) (b # bs)
        = take (Suc (length older)) (rev (fresh b bs) @ b # take (length older) (newest # older))"
      using False Cons.IH [of b "take (length older) (newest # older)"] by (simp add: cyclic_single)
    also have "\<dots> = take (Suc (length older)) ((rev (fresh b bs) @ [b]) @ newest # older)"
      by (cases "length (fresh b bs) \<le> length older") (auto simp: take_Cons' min_def)
    finally show ?thesis using False by simp
  qed
qed



text \<open>
  A cyclic write of several blocks is all or nothing: more blocks than the ring holds answer AFh,
  and otherwise the ring keeps its size, begins with the written blocks and is stable under a
  repetition of the same command.
\<close>

theorem cyclic_write_shape:
  "case apply_cyclic_write ring blocks of
     Inl e \<Rightarrow> e = SF2_CYCLIC_WRITE_OVERFLOW \<and> length ring < length blocks
   | Inr Unchanged \<Rightarrow> take (length blocks) ring = blocks
   | Inr (Updated ring') \<Rightarrow> length ring' = length ring \<and> take (length blocks) ring' = blocks
       \<and> drop (length blocks) ring' = take (length ring - length blocks) ring
       \<and> apply_cyclic_write ring' blocks = Inr Unchanged"
  by (auto simp: apply_cyclic_write_def)

end
