(* ===== verification/Structure.thy ===== *)
theory Structure
  imports Emulator_Blocks
begin

text \<open>
  The area and service tree of an emulated card, \<open>src/felica_standard/emulator/structure.rs\<close>. The
  shared block vectors (\<open>Rc<RefCell<Vec<..>>>\<close>) live in an explicit store: a service holds the
  address of its blocks, and overlapping services hold the same address. Operations that stop in
  the middle with an error return the tree as far as they changed it, next to the error.
  Clearing keys on drop is not modelled.
\<close>

section \<open>Configuration errors\<close>

datatype config_error =
    InvalidAreaRange u16 u16
  | InvalidRootAreaRange u16
  | NodeCodeOutOfRange u16
  | InvalidAreaAttribute u16 u8
  | ChildAreaForbidden u16
  | UndefinedServiceAttribute u16 u8
  | ServiceOutOfRange u16 u16 u16
  | AreaOutOfRange u16 u16 u16 u16
  | OverlapKindMismatch u16 u16 service_kind service_kind
  | ConfigPanicked string

section \<open>Blocks, services and areas\<close>

type_synonym store = "block list list"

definition blocks_at :: "store \<Rightarrow> nat \<Rightarrow> block list" where
  "blocks_at st a = (if a < length st then st ! a else [])"

definition alloc :: "store \<Rightarrow> block list \<Rightarrow> nat \<times> store" where
  "alloc st bs = (length st, st @ [bs])"

record emulated_service =
  es_code :: service_code
  es_key_version :: u16
  es_key :: bytes
  es_limit_purse :: "limit_purse_property option"
  es_blocks :: nat

datatype emulated_area =
    EmulatedArea (ea_code: u16) (ea_key_version: u16) (ea_key: bytes) (ea_end: u16)
      (ea_children: "area_child list")
and area_child = ChildArea emulated_area | ChildService emulated_service

datatype directory_entry = DirService service_code | DirArea u16 u16

abbreviation (input) ROOT_AREA_CODE :: u16 where "ROOT_AREA_CODE \<equiv> 0x0000"
abbreviation (input) ROOT_END_SERVICE_CODE :: u16 where "ROOT_END_SERVICE_CODE \<equiv> 0xFFFE"
abbreviation (input) MAX_NODE_CODE :: u16 where "MAX_NODE_CODE \<equiv> 0xFFFE"
abbreviation (input) AREA_ATTRIBUTE_CHILD_AREAS_ALLOWED :: u8 where
  "AREA_ATTRIBUTE_CHILD_AREAS_ALLOWED \<equiv> 0b000000"
abbreviation (input) AREA_ATTRIBUTE_CHILD_AREAS_FORBIDDEN :: u8 where
  "AREA_ATTRIBUTE_CHILD_AREAS_FORBIDDEN \<equiv> 0b000001"

section \<open>Validation\<close>

definition validate_node_code :: "u16 \<Rightarrow> config_error + unit" where
  "validate_node_code node_code =
     (if node_code > MAX_NODE_CODE then Inl (NodeCodeOutOfRange node_code) else Inr ())"

definition validate_area_range :: "u16 \<Rightarrow> u16 \<Rightarrow> config_error + unit" where
  "validate_area_range area_code end_service_code =
     bindE (validate_node_code area_code) (\<lambda>_.
     bindE (validate_node_code end_service_code) (\<lambda>_.
     if area_code = ROOT_AREA_CODE \<and> end_service_code \<noteq> ROOT_END_SERVICE_CODE then
       Inl (InvalidRootAreaRange end_service_code)
     else
       let attribute = ucast (area_code AND 0x3F) in
       if attribute \<noteq> AREA_ATTRIBUTE_CHILD_AREAS_ALLOWED
           \<and> attribute \<noteq> AREA_ATTRIBUTE_CHILD_AREAS_FORBIDDEN then
         Inl (InvalidAreaAttribute area_code attribute)
       else if area_code > end_service_code then Inl (InvalidAreaRange area_code end_service_code)
       else Inr ()))"

definition area_new :: "u16 \<Rightarrow> u16 \<Rightarrow> config_error + emulated_area" where
  "area_new area_code end_service_code =
     bindE (validate_area_range area_code end_service_code) (\<lambda>_.
     Inr (EmulatedArea area_code 0x0000 (replicate 8 0x00) end_service_code []))"

definition area_with_key_version :: "u16 \<Rightarrow> u16 \<Rightarrow> u16 \<Rightarrow> config_error + emulated_area" where
  "area_with_key_version area_code end_service_code key_version =
     bindE (validate_area_range area_code end_service_code) (\<lambda>_.
     Inr (EmulatedArea area_code key_version (replicate 8 0x00) end_service_code []))"

definition area_attribute :: "emulated_area \<Rightarrow> u8" where
  "area_attribute a = ucast (ea_code a AND 0x3F)"

definition allows_child_areas :: "emulated_area \<Rightarrow> bool" where
  "allows_child_areas a \<longleftrightarrow> area_attribute a = AREA_ATTRIBUTE_CHILD_AREAS_ALLOWED"

fun area_set_key :: "emulated_area \<Rightarrow> bytes \<Rightarrow> emulated_area" where
  "area_set_key (EmulatedArea c v k e ch) key = EmulatedArea c v key e ch"

definition service_with_blocks ::
    "service_code \<Rightarrow> u16 \<Rightarrow> block list \<Rightarrow> store \<Rightarrow> emulated_service \<times> store" where
  "service_with_blocks code key_version blocks st =
     (let (a, st) = alloc st blocks in
      (\<lparr>es_code = code, es_key_version = key_version, es_key = replicate 8 0x00,
        es_limit_purse = None, es_blocks = a\<rparr>, st))"

definition service_with_key_version ::
    "service_code \<Rightarrow> u16 \<Rightarrow> nat \<Rightarrow> store \<Rightarrow> emulated_service \<times> store" where
  "service_with_key_version code key_version block_count st =
     service_with_blocks code key_version (replicate block_count (replicate BLOCK_SIZE 0x00)) st"

definition service_new :: "service_code \<Rightarrow> nat \<Rightarrow> store \<Rightarrow> emulated_service \<times> store" where
  "service_new code block_count st = service_with_key_version code 0x0000 block_count st"

definition set_limit_purse :: "emulated_service \<Rightarrow> limit_purse_property \<Rightarrow> emulated_service" where
  "set_limit_purse s property = s\<lparr>es_limit_purse := Some property\<rparr>"

definition service_set_key :: "emulated_service \<Rightarrow> bytes \<Rightarrow> emulated_service" where
  "service_set_key s key = s\<lparr>es_key := key\<rparr>"

definition validate_child_service :: "emulated_area \<Rightarrow> emulated_service \<Rightarrow> config_error + unit" where
  "validate_child_service a s =
     (let code = code_raw (es_code s) in
      bindE (validate_node_code code) (\<lambda>_.
      if code_attribute (es_code s) = None then
        Inl (UndefinedServiceAttribute code (code_attributes (es_code s)))
      else if code < ea_code a \<or> code > ea_end a then
        Inl (ServiceOutOfRange (ea_code a) (ea_end a) code)
      else Inr ()))"

definition validate_child_area :: "emulated_area \<Rightarrow> emulated_area \<Rightarrow> config_error + unit" where
  "validate_child_area a area =
     (if \<not> allows_child_areas a then Inl (ChildAreaForbidden (ea_code a))
      else if ea_code area < ea_code a \<or> ea_end area > ea_end a then
        Inl (AreaOutOfRange (ea_code a) (ea_end a) (ea_code area) (ea_end area))
      else Inr ())"

fun push_child :: "emulated_area \<Rightarrow> area_child \<Rightarrow> emulated_area" where
  "push_child (EmulatedArea c v k e ch) x = EmulatedArea c v k e (ch @ [x])"

definition area_add_service :: "emulated_area \<Rightarrow> emulated_service \<Rightarrow> config_error + emulated_area" where
  "area_add_service a s =
     bindE (validate_child_service a s) (\<lambda>_. Inr (push_child a (ChildService s)))"

definition area_add_area :: "emulated_area \<Rightarrow> emulated_area \<Rightarrow> config_error + emulated_area" where
  "area_add_area a area =
     bindE (validate_child_area a area) (\<lambda>_. Inr (push_child a (ChildArea area)))"

section \<open>Walking the tree\<close>

fun directory_entries :: "emulated_area \<Rightarrow> directory_entry list"
  and child_entries :: "area_child list \<Rightarrow> directory_entry list" where
  "directory_entries (EmulatedArea c v k e ch) = DirArea c e # child_entries ch"
| "child_entries [] = []"
| "child_entries (ChildArea a # r) = directory_entries a @ child_entries r"
| "child_entries (ChildService s # r) = DirService (es_code s) # child_entries r"

fun find_service :: "emulated_area \<Rightarrow> service_code \<Rightarrow> emulated_service option"
  and find_service_in :: "area_child list \<Rightarrow> service_code \<Rightarrow> emulated_service option" where
  "find_service (EmulatedArea c v k e ch) code = find_service_in ch code"
| "find_service_in [] code = None"
| "find_service_in (ChildArea a # r) code =
     (case find_service a code of Some s \<Rightarrow> Some s | None \<Rightarrow> find_service_in r code)"
| "find_service_in (ChildService s # r) code =
     (if es_code s = code then Some s else find_service_in r code)"

fun find_area :: "emulated_area \<Rightarrow> u16 \<Rightarrow> emulated_area option"
  and find_area_in :: "area_child list \<Rightarrow> u16 \<Rightarrow> emulated_area option" where
  "find_area (EmulatedArea c v k e ch) code =
     (if c = code then Some (EmulatedArea c v k e ch) else find_area_in ch code)"
| "find_area_in [] code = None"
| "find_area_in (ChildArea a # r) code =
     (case find_area a code of Some f \<Rightarrow> Some f | None \<Rightarrow> find_area_in r code)"
| "find_area_in (ChildService s # r) code = find_area_in r code"

text \<open>\<open>usize\<close> is 64 bits wide; its addition saturates.\<close>

definition saturating_add :: "nat \<Rightarrow> nat \<Rightarrow> nat" where
  "saturating_add a b = min (a + b) (2 ^ 64 - 1)"

fun total_block_count :: "store \<Rightarrow> emulated_area \<Rightarrow> nat"
  and total_blocks_in :: "store \<Rightarrow> nat \<Rightarrow> area_child list \<Rightarrow> nat" where
  "total_block_count st (EmulatedArea c v k e ch) = total_blocks_in st 0 ch"
| "total_blocks_in st acc [] = acc"
| "total_blocks_in st acc (ChildArea a # r) =
     total_blocks_in st (saturating_add acc (total_block_count st a)) r"
| "total_blocks_in st acc (ChildService s # r) =
     total_blocks_in st (saturating_add acc (length (blocks_at st (es_blocks s)))) r"

section \<open>Overlapping services\<close>

record overlap_group =
  og_kind :: service_kind
  og_blocks :: nat

type_synonym registry = "u16 \<Rightarrow> overlap_group option"

definition register :: "registry \<Rightarrow> emulated_service \<Rightarrow> service_kind \<Rightarrow> registry" where
  "register reg s kind = reg(code_number (es_code s) \<mapsto> \<lparr>og_kind = kind, og_blocks = es_blocks s\<rparr>)"

fun sync_area :: "emulated_area \<Rightarrow> registry \<Rightarrow> emulated_area \<times> registry \<times> config_error option"
  and sync_children :: "area_child list \<Rightarrow> registry
    \<Rightarrow> area_child list \<times> registry \<times> config_error option" where
  "sync_area (EmulatedArea c v k e ch) reg =
     (let (ch', reg', err) = sync_children ch reg in (EmulatedArea c v k e ch', reg', err))"
| "sync_children [] reg = ([], reg, None)"
| "sync_children (ChildArea a # r) reg =
     (let (a', reg', err) = sync_area a reg in
      if err \<noteq> None then (ChildArea a' # r, reg', err)
      else let (r', reg'', err') = sync_children r reg' in (ChildArea a' # r', reg'', err'))"
| "sync_children (ChildService s # r) reg =
     (let number = code_number (es_code s) in
      case code_kind (es_code s) of
        None \<Rightarrow> (ChildService s # r, reg, Some (ConfigPanicked
          ''service attributes are validated when the service is added''))
      | Some kind \<Rightarrow>
          (case reg number of
             Some g \<Rightarrow>
               if og_kind g \<noteq> kind then
                 (ChildService s # r, reg, Some (OverlapKindMismatch (code_raw (es_code s)) number
                   (og_kind g) kind))
               else
                 let (r', reg', err) = sync_children r reg in
                 (ChildService (s\<lparr>es_blocks := og_blocks g\<rparr>) # r', reg', err)
           | None \<Rightarrow>
               let (r', reg', err) = sync_children r (register reg s kind) in
               (ChildService s # r', reg', err)))"

section \<open>The services of a tree, in directory order\<close>

fun services_of :: "emulated_area \<Rightarrow> emulated_service list"
  and services_in :: "area_child list \<Rightarrow> emulated_service list" where
  "services_of (EmulatedArea c v k e ch) = services_in ch"
| "services_in [] = []"
| "services_in (ChildArea a # r) = services_of a @ services_in r"
| "services_in (ChildService s # r) = s # services_in r"

fun areas_of :: "emulated_area \<Rightarrow> emulated_area list"
  and areas_in :: "area_child list \<Rightarrow> emulated_area list" where
  "areas_of (EmulatedArea c v k e ch) = EmulatedArea c v k e ch # areas_in ch"
| "areas_in [] = []"
| "areas_in (ChildArea a # r) = areas_of a @ areas_in r"
| "areas_in (ChildService s # r) = areas_in r"

lemma find_append: "List.find P (xs @ ys) = (case List.find P xs of Some x \<Rightarrow> Some x | None \<Rightarrow> List.find P ys)"
  by (induction xs) auto

lemma find_service_flat:
  "find_service a code = List.find (\<lambda>s. es_code s = code) (services_of a)"
  "find_service_in ch code = List.find (\<lambda>s. es_code s = code) (services_in ch)"
  by (induction a code and ch code rule: find_service_find_service_in.induct)
    (auto simp: find_append split: option.splits)

lemma find_area_flat:
  "find_area a code = List.find (\<lambda>x. ea_code x = code) (areas_of a)"
  "find_area_in ch code = List.find (\<lambda>x. ea_code x = code) (areas_in ch)"
  by (induction a code and ch code rule: find_area_find_area_in.induct)
    (auto simp: find_append split: option.splits)

lemma find_service_Some:
  "find_service a code = Some s \<Longrightarrow> s \<in> set (services_of a) \<and> es_code s = code"
  unfolding find_service_flat by (auto simp: find_Some_iff)

lemma find_service_None:
  "find_service a code = None \<longleftrightarrow> (\<forall>s \<in> set (services_of a). es_code s \<noteq> code)"
  unfolding find_service_flat by (auto simp: find_None_iff)

lemma find_area_Some:
  "find_area a code = Some x \<Longrightarrow> x \<in> set (areas_of a) \<and> ea_code x = code"
  unfolding find_area_flat by (auto simp: find_Some_iff)

lemma services_in_append [simp]: "services_in (xs @ ys) = services_in xs @ services_in ys"
proof (induction xs)
  case (Cons x xs)
  then show ?case by (cases x) auto
qed simp

lemma services_of_push [simp]:
  "services_of (push_child a (ChildService s)) = services_of a @ [s]"
  "services_of (push_child a (ChildArea x)) = services_of a @ services_of x"
  by (cases a; simp)+

lemma directory_services:
  "DirService code \<in> set (directory_entries a) \<longleftrightarrow> code \<in> es_code ` set (services_of a)"
  "DirService code \<in> set (child_entries ch) \<longleftrightarrow> code \<in> es_code ` set (services_in ch)"
  by (induction a and ch rule: directory_entries_child_entries.induct) auto

lemma directory_areas:
  "DirArea c e \<in> set (directory_entries a) \<longleftrightarrow> (\<exists>x \<in> set (areas_of a). c = ea_code x \<and> e = ea_end x)"
  "DirArea c e \<in> set (child_entries ch) \<longleftrightarrow> (\<exists>x \<in> set (areas_in ch). c = ea_code x \<and> e = ea_end x)"
  by (induction a and ch rule: directory_entries_child_entries.induct) auto

section \<open>Well-formed trees\<close>

fun wf_area :: "emulated_area \<Rightarrow> bool"
  and wf_children :: "u16 \<Rightarrow> u16 \<Rightarrow> area_child list \<Rightarrow> bool" where
  "wf_area (EmulatedArea c v k e ch) \<longleftrightarrow>
     validate_area_range c e = Inr () \<and> length k = 8 \<and> wf_children c e ch"
| "wf_children c e [] \<longleftrightarrow> True"
| "wf_children c e (ChildArea a # r) \<longleftrightarrow>
     ucast (c AND 0x3F) = AREA_ATTRIBUTE_CHILD_AREAS_ALLOWED \<and> c \<le> ea_code a \<and> ea_end a \<le> e
     \<and> wf_area a \<and> wf_children c e r"
| "wf_children c e (ChildService s # r) \<longleftrightarrow>
     code_raw (es_code s) \<le> MAX_NODE_CODE \<and> code_attribute (es_code s) \<noteq> None
     \<and> c \<le> code_raw (es_code s) \<and> code_raw (es_code s) \<le> e \<and> length (es_key s) = 8
     \<and> wf_children c e r"

lemma wf_children_append [simp]: "wf_children c e (xs @ ys) \<longleftrightarrow> wf_children c e xs \<and> wf_children c e ys"
proof (induction xs)
  case (Cons x xs)
  then show ?case by (cases x) auto
qed simp

lemma wf_services:
  "wf_area a \<Longrightarrow> s \<in> set (services_of a) \<Longrightarrow> code_raw (es_code s) \<le> MAX_NODE_CODE
    \<and> code_attribute (es_code s) \<noteq> None \<and> length (es_key s) = 8"
  "wf_children c e ch \<Longrightarrow> s \<in> set (services_in ch) \<Longrightarrow> code_raw (es_code s) \<le> MAX_NODE_CODE
    \<and> code_attribute (es_code s) \<noteq> None \<and> length (es_key s) = 8"
  by (induction a and c e ch rule: wf_area_wf_children.induct) auto

lemma wf_areas:
  "wf_area a \<Longrightarrow> x \<in> set (areas_of a) \<Longrightarrow> wf_area x"
  "wf_children c e ch \<Longrightarrow> x \<in> set (areas_in ch) \<Longrightarrow> wf_area x"
  by (induction a and c e ch rule: wf_area_wf_children.induct) auto

lemma wf_area_range: "wf_area x \<Longrightarrow> validate_area_range (ea_code x) (ea_end x) = Inr ()"
  by (cases x) simp

text \<open>
  Every tree the builders accept is well formed: the fresh area, and the tree after a service or
  a well-formed area was added to it. Each service lies in the range of its area under a defined
  attribute, each child area inside its parent, below an area that allows children.
\<close>

theorem builders_preserve_wf:
  "(area_new c e = Inr a \<longrightarrow> wf_area a)
   \<and> (wf_area a \<and> length (es_key s) = 8 \<and> area_add_service a s = Inr a' \<longrightarrow> wf_area a')
   \<and> (wf_area a \<and> wf_area x \<and> area_add_area a x = Inr a' \<longrightarrow> wf_area a')"
proof (intro conjI impI; (elim conjE)?)
  assume "area_new c e = Inr a"
  then show "wf_area a" by (auto simp: area_new_def bindE_eq_Inr)
next
  assume "wf_area a" "length (es_key s) = 8" "area_add_service a s = Inr a'"
  then show "wf_area a'"
    by (cases a) (auto simp: area_add_service_def validate_child_service_def Let_def bindE_eq_Inr
        validate_node_code_def split: if_splits)
next
  assume "wf_area a" "wf_area x" "area_add_area a x = Inr a'"
  then show "wf_area a'"
    by (cases a) (auto simp: area_add_area_def validate_child_area_def bindE_eq_Inr
        allows_child_areas_def area_attribute_def split: if_splits)
qed

text \<open>An area attribute is never a service attribute, so a node code names an area or a service.\<close>

lemma area_code_no_attribute:
  assumes "validate_area_range c e = Inr ()"
  shows "code_attribute (ServiceCode c) = None"
proof -
  have "code_attributes (ServiceCode c) = 0 \<or> code_attributes (ServiceCode c) = 1"
    using assms by (auto simp: validate_area_range_def bindE_eq_Inr Let_def code_attributes_def
        split: if_splits)
  then show ?thesis by (auto simp: code_attribute_def from_attribute_bits_def)
qed

text \<open>
  Lookups agree with the directory the card lists, and a node code is never ambiguous: a service
  is found exactly when the directory has its code, an area that is found is listed with its end
  code, and no code of a well-formed tree names both an area and a service.
\<close>

theorem lookup_agrees_with_directory:
  "(find_service a code \<noteq> None \<longleftrightarrow> DirService code \<in> set (directory_entries a))
   \<and> (find_area a n = Some x \<longrightarrow> DirArea n (ea_end x) \<in> set (directory_entries a))
   \<and> (wf_area a \<and> find_service a (ServiceCode n) \<noteq> None \<longrightarrow> find_area a n = None)"
proof (intro conjI impI)
  show "find_service a code \<noteq> None \<longleftrightarrow> DirService code \<in> set (directory_entries a)"
    by (auto simp: directory_services find_service_None)
next
  assume "find_area a n = Some x"
  then show "DirArea n (ea_end x) \<in> set (directory_entries a)"
    by (auto simp: directory_areas dest: find_area_Some)
next
  assume *: "wf_area a \<and> find_service a (ServiceCode n) \<noteq> None"
  then obtain s where "s \<in> set (services_of a)" "es_code s = ServiceCode n"
    using find_service_None [of a "ServiceCode n"] by auto
  then have some: "code_attribute (ServiceCode n) \<noteq> None" using * wf_services(1) by fastforce
  show "find_area a n = None"
  proof (rule ccontr)
    assume "find_area a n \<noteq> None"
    then obtain x where "x \<in> set (areas_of a)" "ea_code x = n"
      using find_area_Some by fastforce
    moreover from this have "validate_area_range n (ea_end x) = Inr ()"
      using wf_areas(1) [of a x] wf_area_range * by blast
    ultimately show False using area_code_no_attribute [of n "ea_end x"] some by simp
  qed
qed


section \<open>Overlap synchronisation\<close>

text \<open>The same walk over the flat list of services.\<close>

fun sync_flat :: "emulated_service list \<Rightarrow> registry
    \<Rightarrow> emulated_service list \<times> registry \<times> config_error option" where
  "sync_flat [] reg = ([], reg, None)"
| "sync_flat (s # r) reg =
     (case code_kind (es_code s) of
        None \<Rightarrow> (s # r, reg, Some (ConfigPanicked
          ''service attributes are validated when the service is added''))
      | Some kind \<Rightarrow>
          (case reg (code_number (es_code s)) of
             Some g \<Rightarrow>
               if og_kind g \<noteq> kind then
                 (s # r, reg, Some (OverlapKindMismatch (code_raw (es_code s))
                   (code_number (es_code s)) (og_kind g) kind))
               else
                 let (r', reg', err) = sync_flat r reg in
                 (s\<lparr>es_blocks := og_blocks g\<rparr> # r', reg', err)
           | None \<Rightarrow>
               let (r', reg', err) = sync_flat r (register reg s kind) in
               (s # r', reg', err)))"

lemma sync_flat_append:
  "sync_flat (xs @ ys) reg =
     (let (xs', reg', err) = sync_flat xs reg in
      if err \<noteq> None then (xs' @ ys, reg', err)
      else let (ys', reg'', err') = sync_flat ys reg' in (xs' @ ys', reg'', err'))"
proof (induction xs arbitrary: reg)
  case (Cons s r)
  then show ?case
    by (simp add: Let_def case_prod_beta split: option.split)
qed simp

lemma sync_area_flat:
  "sync_flat (services_of a) reg =
     (let (a', reg', err) = sync_area a reg in (services_of a', reg', err))"
  "sync_flat (services_in ch) reg =
     (let (ch', reg', err) = sync_children ch reg in (services_in ch', reg', err))"
proof (induction a reg and ch reg rule: sync_area_sync_children.induct)
  case (3 a r reg)
  obtain a' reg' err where "sync_area a reg = (a', reg', err)" by (cases "sync_area a reg")
  with 3 show ?case
    by (cases err) (simp_all add: sync_flat_append Let_def case_prod_beta)
qed (simp_all add: Let_def case_prod_beta split: option.split)

text \<open>What a completed walk guarantees of every service it passed.\<close>

definition registered :: "registry \<Rightarrow> emulated_service \<Rightarrow> bool" where
  "registered reg s \<longleftrightarrow> (\<exists>g. reg (code_number (es_code s)) = Some g
    \<and> og_blocks g = es_blocks s \<and> code_kind (es_code s) = Some (og_kind g))"

lemma registered_mono: "registered reg s \<Longrightarrow> reg \<subseteq>\<^sub>m reg' \<Longrightarrow> registered reg' s"
  by (force simp: registered_def map_le_def dom_def)

lemma registered_unique:
  "registered reg s \<Longrightarrow> registered reg t \<Longrightarrow> code_number (es_code s) = code_number (es_code t)
    \<Longrightarrow> es_blocks s = es_blocks t \<and> code_kind (es_code s) = code_kind (es_code t)"
  by (auto simp: registered_def)

lemma register_mono: "reg (code_number (es_code s)) = None \<Longrightarrow> reg \<subseteq>\<^sub>m register reg s kind"
  by (auto simp: register_def map_le_def)

lemma sync_flat_Cons:
  assumes "sync_flat (s # r) reg = (ss', reg', None)"
  obtains kind s' r' reg1 where "code_kind (es_code s) = Some kind" and "ss' = s' # r'"
    and "sync_flat r reg1 = (r', reg', None)" and "reg \<subseteq>\<^sub>m reg1" and "registered reg1 s'"
    and "s'\<lparr>es_blocks := 0\<rparr> = s\<lparr>es_blocks := 0\<rparr>"
proof -
  obtain kind where kind: "code_kind (es_code s) = Some kind"
    using assms by (auto split: option.splits)
  show ?thesis
  proof (cases "reg (code_number (es_code s))")
    case None
    with assms kind obtain r' where "ss' = s # r'" "sync_flat r (register reg s kind) = (r', reg', None)"
      by (auto simp: Let_def split: prod.splits)
    then show ?thesis using None kind register_mono [of reg s kind] None kind
      by (intro that [of kind s r' "register reg s kind"]) (auto simp: registered_def register_def)
  next
    case (Some g)
    with assms kind obtain r' where "og_kind g = kind" "ss' = s\<lparr>es_blocks := og_blocks g\<rparr> # r'"
      "sync_flat r reg = (r', reg', None)"
      by (auto simp: Let_def split: prod.splits if_splits)
    then show ?thesis using Some kind
      by (intro that [of kind "s\<lparr>es_blocks := og_blocks g\<rparr>" r' reg]) (auto simp: registered_def)
  qed
qed

lemma sync_flat_registered:
  assumes "sync_flat ss reg = (ss', reg', None)"
  shows "reg \<subseteq>\<^sub>m reg' \<and> (\<forall>s \<in> set ss'. registered reg' s)"
  using assms
proof (induction ss arbitrary: reg ss')
  case (Cons s r)
  from Cons.prems obtain kind s' r' reg1 where 1: "ss' = s' # r'" "sync_flat r reg1 = (r', reg', None)"
    "reg \<subseteq>\<^sub>m reg1" "registered reg1 s'" by (rule sync_flat_Cons)
  from Cons.IH [OF 1(2)] 1 show ?case
    by (auto intro: map_le_trans registered_mono)
qed simp

lemma sync_flat_only_blocks:
  assumes "sync_flat ss reg = (ss', reg', None)"
  shows "map (\<lambda>s. s\<lparr>es_blocks := 0\<rparr>) ss' = map (\<lambda>s. s\<lparr>es_blocks := 0\<rparr>) ss"
  using assms
proof (induction ss arbitrary: reg ss')
  case (Cons s r)
  from Cons.prems obtain kind s' r' reg1 where 1: "ss' = s' # r'" "sync_flat r reg1 = (r', reg', None)"
    "s'\<lparr>es_blocks := 0\<rparr> = s\<lparr>es_blocks := 0\<rparr>" by (rule sync_flat_Cons)
  from Cons.IH [OF 1(2)] 1 show ?case by simp
qed simp



section \<open>A small tree\<close>

definition demo_service :: "u16 \<Rightarrow> nat \<Rightarrow> emulated_service" where
  "demo_service code a = \<lparr>es_code = ServiceCode code, es_key_version = 0, es_key = replicate 8 0,
     es_limit_purse = None, es_blocks = a\<rparr>"

definition demo_inner :: emulated_area where
  "demo_inner = EmulatedArea 0x1000 1 (replicate 8 1) 0x1FFF [ChildService (demo_service 0x1048 1)]"

text \<open>Services 0009h and 000Bh are random services of number 0: the second is the read-only view.\<close>

definition demo_root :: emulated_area where
  "demo_root = EmulatedArea 0 0 (replicate 8 0) 0xFFFE
     [ChildService (demo_service 0x0009 0), ChildArea demo_inner, ChildService (demo_service 0x000B 2)]"

lemma demo_wf: "wf_area demo_root" and demo_inner_wf: "wf_area demo_inner"
  by code_simp+

theorem builders_preserve_wf_witness:
  "wf_area (EmulatedArea 0 0 (replicate 8 0) 0xFFFE []) \<and>
   wf_area (push_child demo_root (ChildService (demo_service 0x0049 3))) \<and>
   wf_area (push_child demo_root (ChildArea demo_inner))"
proof (intro conjI)
  have "area_new 0 0xFFFE = Inr (EmulatedArea 0 0 (replicate 8 0) 0xFFFE [])" by code_simp
  then show "wf_area (EmulatedArea 0 0 (replicate 8 0) 0xFFFE [])"
    using builders_preserve_wf by blast
  have "length (es_key (demo_service 0x0049 3)) = 8"
    and "area_add_service demo_root (demo_service 0x0049 3)
      = Inr (push_child demo_root (ChildService (demo_service 0x0049 3)))"
    by code_simp+
  then show "wf_area (push_child demo_root (ChildService (demo_service 0x0049 3)))"
    using builders_preserve_wf demo_wf by blast
  have "area_add_area demo_root demo_inner = Inr (push_child demo_root (ChildArea demo_inner))"
    by code_simp
  then show "wf_area (push_child demo_root (ChildArea demo_inner))"
    using builders_preserve_wf demo_wf demo_inner_wf by blast
qed

theorem lookup_agrees_with_directory_witness:
  "find_area demo_root 0x1048 = None \<and> DirArea 0x1000 0x1FFF \<in> set (directory_entries demo_root)"
proof -
  have "find_service demo_root (ServiceCode 0x1048) \<noteq> None" and "find_area demo_root 0x1000 = Some demo_inner"
    and "ea_end demo_inner = 0x1FFF"
    by code_simp+
  then show ?thesis
    using lookup_agrees_with_directory [where a = demo_root and n = "0x1048"]
      lookup_agrees_with_directory [where a = demo_root and n = "0x1000" and x = demo_inner] demo_wf
    by metis
qed


end
