(* ===== verification/System.thy ===== *)
theory System
  imports Structure Response Secure_Des Command_Parse
begin

text \<open>
  One emulated system, \<open>src/felica_standard/emulator/system.rs\<close>: its identity, keys and mode, the
  DES mutual authentication, validation of block lists, staged block writes and the secure frames.
  A handler takes and returns the system and the store of block vectors. Its result is a sum whose
  left side is a panic (an \<open>expect\<close>, \<open>unwrap\<close> or index out of range), and whose right side
  holds the \<open>Option\<close> of the source: a response frame, or None when the card stays silent. The
  random number that Authentication1 draws is an argument.
\<close>

type_synonym 'a panics = "string + 'a"

abbreviation (input) STATUS_UNSUPPORTED_SF1 :: u8 where "STATUS_UNSUPPORTED_SF1 \<equiv> 0xFF"
abbreviation (input) STATUS_UNSUPPORTED_SF2 :: u8 where "STATUS_UNSUPPORTED_SF2 \<equiv> 0xC2"
abbreviation (input) SYSTEM_NODE_CODE :: u16 where "SYSTEM_NODE_CODE \<equiv> 0xFFFF"

section \<open>Modes\<close>

datatype system_mode = Mode0 | Mode1 | Mode2 | Mode3

fun mode_code :: "system_mode \<Rightarrow> u8" where
  "mode_code Mode0 = 0x00"
| "mode_code Mode1 = 0x01"
| "mode_code Mode2 = 0x02"
| "mode_code Mode3 = 0x03"

datatype mode_requirement = AnyMode | Unauthenticated | AuthenticationStarted | Authenticated | Issuing

fun mode_permits :: "system_mode \<Rightarrow> mode_requirement \<Rightarrow> bool" where
  "mode_permits m AnyMode \<longleftrightarrow> True"
| "mode_permits m Unauthenticated \<longleftrightarrow> m = Mode0"
| "mode_permits m AuthenticationStarted \<longleftrightarrow> m = Mode1 \<or> m = Mode2"
| "mode_permits m Authenticated \<longleftrightarrow> m = Mode2"
| "mode_permits m Issuing \<longleftrightarrow> m = Mode2 \<or> m = Mode3"

record communication_performance =
  supports_212_kbps :: bool
  supports_424_kbps :: bool
  supports_automatic_bitrate_detection :: bool

definition communication_performance_default :: communication_performance where
  "communication_performance_default = \<lparr>supports_212_kbps = True, supports_424_kbps = True,
     supports_automatic_bitrate_detection = False\<rparr>"

definition to_request_data :: "communication_performance \<Rightarrow> bytes" where
  "to_request_data p =
     (let d1 = 0;
          d1 = if supports_212_kbps p then d1 OR 0b00000001 else d1;
          d1 = if supports_424_kbps p then d1 OR 0b00000010 else d1;
          d1 = if supports_automatic_bitrate_detection p then d1 OR 0b10000000 else d1 in
      [0x00, d1])"

section \<open>The system\<close>

record pending_authentication =
  pa_context :: authentication_context
  pa_random_1 :: bytes
  pa_random_2 :: bytes
  pa_service_codes :: "service_code list"

record secure_session =
  ss_transaction_number :: u16
  ss_transaction_id :: bytes
  ss_transaction_key :: bytes
  ss_service_codes :: "service_code list"

record emulated_system =
  sys_code :: u16
  sys_idm :: bytes
  sys_pmm :: bytes
  sys_root :: emulated_area
  sys_mode :: system_mode
  sys_key_version :: u16
  sys_key :: bytes
  sys_idi :: bytes
  sys_pmi :: bytes
  sys_performance :: communication_performance
  sys_pending :: "pending_authentication option"
  sys_session :: "secure_session option"

definition system_new :: "u16 \<Rightarrow> bytes \<Rightarrow> bytes \<Rightarrow> config_error + emulated_system" where
  "system_new system_code idm pmm =
     bindE (area_new ROOT_AREA_CODE ROOT_END_SERVICE_CODE) (\<lambda>root.
     Inr \<lparr>sys_code = system_code, sys_idm = idm, sys_pmm = pmm, sys_root = root, sys_mode = Mode0,
       sys_key_version = 0x0000, sys_key = replicate 8 0x00, sys_idi = replicate 8 0x00,
       sys_pmi = replicate 8 0x00, sys_performance = communication_performance_default,
       sys_pending = None, sys_session = None\<rparr>)"

definition sys_sync_overlapping_services :: "emulated_system \<Rightarrow> emulated_system \<times> config_error option" where
  "sys_sync_overlapping_services y =
     (let (root, reg, err) = sync_area (sys_root y) Map.empty in (y\<lparr>sys_root := root\<rparr>, err))"

definition add_service :: "emulated_system \<Rightarrow> emulated_service \<Rightarrow> emulated_system \<times> config_error option" where
  "add_service y service =
     (case area_add_service (sys_root y) service of
        Inl e \<Rightarrow> (y, Some e)
      | Inr root \<Rightarrow> sys_sync_overlapping_services (y\<lparr>sys_root := root\<rparr>))"

definition add_area :: "emulated_system \<Rightarrow> emulated_area \<Rightarrow> emulated_system \<times> config_error option" where
  "add_area y area =
     (case area_add_area (sys_root y) area of
        Inl e \<Rightarrow> (y, Some e)
      | Inr root \<Rightarrow> sys_sync_overlapping_services (y\<lparr>sys_root := root\<rparr>))"

definition set_system_key :: "emulated_system \<Rightarrow> bytes \<Rightarrow> emulated_system" where
  "set_system_key y key = y\<lparr>sys_key := key\<rparr>"

definition set_idi_pmi :: "emulated_system \<Rightarrow> bytes \<Rightarrow> bytes \<Rightarrow> emulated_system" where
  "set_idi_pmi y idi pmi = y\<lparr>sys_idi := idi, sys_pmi := pmi\<rparr>"

definition directory :: "emulated_system \<Rightarrow> directory_entry list" where
  "directory y = directory_entries (sys_root y)"

definition sys_find_service :: "emulated_system \<Rightarrow> service_code \<Rightarrow> emulated_service option" where
  "sys_find_service y code = find_service (sys_root y) code"

definition sys_find_area :: "emulated_system \<Rightarrow> u16 \<Rightarrow> emulated_area option" where
  "sys_find_area y code = find_area (sys_root y) code"

definition node_key_version :: "emulated_system \<Rightarrow> service_code \<Rightarrow> u16" where
  "node_key_version y node_code =
     (if code_raw node_code = 0xFFFF then sys_key_version y
      else case sys_find_service y node_code of
        Some s \<Rightarrow> es_key_version s
      | None \<Rightarrow> (case sys_find_area y (code_raw node_code) of
          Some a \<Rightarrow> ea_key_version a
        | None \<Rightarrow> 0xFFFF))"

definition block_count_for_node :: "emulated_system \<Rightarrow> store \<Rightarrow> u16 \<Rightarrow> u16" where
  "block_count_for_node y st node_code =
     (case sys_find_service y (ServiceCode node_code) of
        Some s \<Rightarrow> u16_of (min (length (blocks_at st (es_blocks s))) 65535)
      | None \<Rightarrow> (case sys_find_area y node_code of
          Some a \<Rightarrow> u16_of (min (total_block_count st a) 65535)
        | None \<Rightarrow> 0))"

definition reset_mode :: "emulated_system \<Rightarrow> emulated_system" where
  "reset_mode y = y\<lparr>sys_mode := Mode0, sys_pending := None, sys_session := None\<rparr>"

text \<open>\<open>encode_response_frame\<close> of \<open>emulator/mod.rs\<close>: \<open>to_frame().ok()\<close>, where a panic stays one.\<close>

definition encode_response_frame :: "response \<Rightarrow> bytes option panics" where
  "encode_response_frame r =
     (case response_to_frame r of
        Inl (Panicked m) \<Rightarrow> Inl m
      | Inl _ \<Rightarrow> Inr None
      | Inr f \<Rightarrow> Inr (Some f))"

section \<open>Mutual authentication\<close>

datatype service_list_node = Keyed bytes | KeyFree

definition area_list_well_formed :: "emulated_system \<Rightarrow> u16 list \<Rightarrow> bool" where
  "area_list_well_formed y areas =
     (case areas of
        [] \<Rightarrow> False
      | first # _ \<Rightarrow>
          if first = SYSTEM_NODE_CODE \<or> sys_find_area y first = None then False
          else list_all (\<lambda>code. code = SYSTEM_NODE_CODE \<or> sys_find_area y code \<noteq> None) areas)"

definition resolve_service_list_node :: "emulated_system \<Rightarrow> u16 \<Rightarrow> service_list_node option" where
  "resolve_service_list_node y raw_code =
     (if raw_code = SYSTEM_NODE_CODE then Some (Keyed (sys_key y))
      else
        let code = ServiceCode raw_code in
        case sys_find_service y code of
          Some s \<Rightarrow> Some (if requires_key code then Keyed (es_key s) else KeyFree)
        | None \<Rightarrow> map_option (\<lambda>a. Keyed (ea_key a)) (sys_find_area y raw_code))"

fun service_list_loop :: "emulated_system \<Rightarrow> bool \<Rightarrow> bool \<Rightarrow> u16 list \<Rightarrow> bool" where
  "service_list_loop y has_auth_required seen_auth_free [] = has_auth_required"
| "service_list_loop y has_auth_required seen_auth_free (raw_code # r) =
     (case resolve_service_list_node y raw_code of
        Some (Keyed _) \<Rightarrow> if seen_auth_free then False else service_list_loop y True seen_auth_free r
      | Some KeyFree \<Rightarrow> service_list_loop y has_auth_required True r
      | None \<Rightarrow> False)"

definition service_list_well_formed :: "emulated_system \<Rightarrow> u16 list \<Rightarrow> bool" where
  "service_list_well_formed y services = service_list_loop y False False services"

definition area_key :: "emulated_system \<Rightarrow> u16 \<Rightarrow> bytes option" where
  "area_key y area_code =
     (if area_code = SYSTEM_NODE_CODE then Some (sys_key y)
      else map_option ea_key (sys_find_area y area_code))"

fun keyed_keys :: "service_list_node list \<Rightarrow> bytes list" where
  "keyed_keys [] = []"
| "keyed_keys (Keyed key # r) = key # keyed_keys r"
| "keyed_keys (KeyFree # r) = keyed_keys r"

definition handle_authentication1 ::
    "crypto \<Rightarrow> bytes \<Rightarrow> emulated_system \<Rightarrow> bytes \<Rightarrow> u16 list \<Rightarrow> u16 list \<Rightarrow> bytes
      \<Rightarrow> (bytes option \<times> emulated_system) panics" where
  "handle_authentication1 C random_2 y idm areas services challenge_1a =
     (if \<not> area_list_well_formed y areas \<or> \<not> service_list_well_formed y services then Inr (None, y)
      else case those (map (area_key y) areas) of
        None \<Rightarrow> Inr (None, y)
      | Some area_keys \<Rightarrow>
          (case those (map (resolve_service_list_node y) services) of
             None \<Rightarrow> Inr (None, y)
           | Some nodes \<Rightarrow>
               let (group_key, user_key) =
                     generate_service_keys_des C (sys_key y) area_keys (keyed_keys nodes);
                   x = authentication_context_new C idm group_key user_key;
                   random_1 = decrypt_challenge1a C x challenge_1a;
                   challenge_1b = encrypt_challenge1b C x random_1;
                   challenge_2a = encrypt_challenge2a C x random_2;
                   y' = y\<lparr>sys_pending := Some \<lparr>pa_context = x, pa_random_1 = random_1,
                       pa_random_2 = random_2, pa_service_codes = map ServiceCode services\<rparr>,
                     sys_session := None, sys_mode := Mode1\<rparr> in
               bindE (encode_response_frame (RespAuthentication1 idm challenge_1b challenge_2a)) (\<lambda>f.
               Inr (f, y'))))"

definition handle_authentication2 ::
    "crypto \<Rightarrow> emulated_system \<Rightarrow> bytes \<Rightarrow> (bytes option \<times> emulated_system) panics" where
  "handle_authentication2 C y challenge_2b =
     (case sys_pending y of
        None \<Rightarrow> Inr (None, y)
      | Some pending \<Rightarrow>
          let expected = encrypt_challenge2b C (pa_context pending) (pa_random_2 pending) in
          if \<not> ct_eq expected challenge_2b then Inr (None, y)
          else
            let transaction_id = take 6 (drop 2 (pa_random_1 pending));
                transaction_number = (case sys_session y of
                    Some session \<Rightarrow> if ss_transaction_id session = transaction_id
                      then ss_transaction_number session else 0
                  | None \<Rightarrow> 0);
                p = build_authentication2_payload transaction_number transaction_id (sys_idi y) (sys_pmi y) in
            case encrypt_authentication2_payload C p (pa_random_2 pending) of
              None \<Rightarrow> Inr (None, y)
            | Some encrypted_payload \<Rightarrow>
                let y' = y\<lparr>sys_session := Some \<lparr>ss_transaction_number = transaction_number,
                      ss_transaction_id = transaction_id, ss_transaction_key = pa_random_2 pending,
                      ss_service_codes = pa_service_codes pending\<rparr>,
                    sys_mode := Mode2\<rparr> in
                bindE (encode_response_frame (RespAuthentication2 encrypted_payload)) (\<lambda>f. Inr (f, y')))"

section \<open>Block lists\<close>

datatype access_type = AccessRead | AccessWrite

record validated_block =
  vb_position :: u8
  vb_service_code :: service_code
  vb_attribute :: service_attribute
  vb_block_number :: nat
  vb_access_mode :: u8
  vb_limit_purse :: "limit_purse_property option"

definition list_error_index :: "nat \<Rightarrow> u8" where
  "list_error_index index = (let value = index + 1 in if value > 255 then 255 else u8_of value)"

definition validate_block_element ::
    "emulated_system \<Rightarrow> store \<Rightarrow> service_code list \<Rightarrow> nat \<Rightarrow> block_list_element \<Rightarrow> access_type \<Rightarrow> bool
      \<Rightarrow> (u8 \<times> u8) + validated_block" where
  "validate_block_element y st service_codes index block access require_auth_free =
     (let position = list_error_index index in
      case nth_opt service_codes (unat (service_code_list_index block)) of
        None \<Rightarrow> Inl (position, 0xA3)
      | Some code \<Rightarrow>
          if \<not> (case access of AccessRead \<Rightarrow> access_mode block = 0b000
                | AccessWrite \<Rightarrow> access_mode block = 0b000 \<or> access_mode block = 0b001) then
            Inl (position, 0xA7)
          else if code_raw code = SYSTEM_NODE_CODE then Inl (position, 0xA4)
          else case code_attribute code of
            None \<Rightarrow> Inl (position, 0xA4)
          | Some attribute \<Rightarrow>
              (case sys_find_service y code of
                 None \<Rightarrow> Inl (position, 0xA6)
               | Some service \<Rightarrow>
                   if require_auth_free \<and> requires_key code then Inl (position, 0xA5)
                   else if access = AccessWrite \<and> \<not> allows_write attribute then Inl (position, 0xA5)
                   else if access = AccessWrite \<and> access_mode block = 0b001
                     \<and> \<not> allows_cashback attribute then Inl (position, 0xA5)
                   else if access \<noteq> AccessWrite \<and> access_mode block \<noteq> 0b000 then Inl (position, 0xA7)
                   else if unat (block_number_or_key_version block)
                     \<ge> length (blocks_at st (es_blocks service)) then Inl (position, 0xA8)
                   else Inr \<lparr>vb_position = position, vb_service_code = code, vb_attribute = attribute,
                     vb_block_number = unat (block_number_or_key_version block),
                     vb_access_mode = access_mode block, vb_limit_purse = es_limit_purse service\<rparr>))"

definition validate_read_block ::
    "emulated_system \<Rightarrow> store \<Rightarrow> service_code list \<Rightarrow> nat \<Rightarrow> block_list_element \<Rightarrow> bool
      \<Rightarrow> (u8 \<times> u8) + service_code \<times> nat" where
  "validate_read_block y st service_codes index block require_auth_free =
     bindE (validate_block_element y st service_codes index block AccessRead require_auth_free) (\<lambda>v.
     Inr (vb_service_code v, vb_block_number v))"

text \<open>An access ends with the two status flags of an error response, or with a panic.\<close>

datatype access_error = Flags u8 u8 | AccessPanic string

definition flags_error :: "u8 \<times> u8 \<Rightarrow> access_error" where
  "flags_error f = Flags (fst f) (snd f)"

text \<open>The loop that \<open>handle_secure_read\<close> and \<open>handle_read\<close> share.\<close>

definition read_block ::
    "emulated_system \<Rightarrow> store \<Rightarrow> service_code list \<Rightarrow> bool \<Rightarrow> nat \<times> block_list_element
      \<Rightarrow> access_error + block" where
  "read_block y st service_codes require_auth_free e =
     bindE (map_err flags_error
       (validate_read_block y st service_codes (fst e) (snd e) require_auth_free)) (\<lambda>(code, n).
     bindE (ok_or (sys_find_service y code) (AccessPanic ''unwrap on None'')) (\<lambda>service.
     ok_or (nth_opt (blocks_at st (es_blocks service)) n) (AccessPanic ''index out of bounds'')))"

definition read_blocks ::
    "emulated_system \<Rightarrow> store \<Rightarrow> service_code list \<Rightarrow> block_list_element list \<Rightarrow> bool
      \<Rightarrow> access_error + block list" where
  "read_blocks y st service_codes block_list require_auth_free =
     mapE (read_block y st service_codes require_auth_free) (enumerate 0 block_list)"

section \<open>Writes\<close>

type_synonym planned = "validated_block \<times> block"
type_synonym staged = "u16 \<Rightarrow> (nat \<times> block list) option"

definition planned_number :: "planned \<Rightarrow> u16" where
  "planned_number p = code_number (vb_service_code (fst p))"

definition plan_write ::
    "emulated_system \<Rightarrow> store \<Rightarrow> service_code list \<Rightarrow> bytes \<Rightarrow> bool \<Rightarrow> nat \<times> block_list_element
      \<Rightarrow> access_error + planned" where
  "plan_write y st service_codes data require_auth_free e =
     bindE (map_err flags_error
       (validate_block_element y st service_codes (fst e) (snd e) AccessWrite require_auth_free)) (\<lambda>v.
     bindE (ok_or (slice_opt data (fst e * BLOCK_SIZE) (fst e * BLOCK_SIZE + BLOCK_SIZE))
       (AccessPanic ''slice out of bounds'')) (\<lambda>block.
     Inr (v, block)))"

definition stage :: "emulated_system \<Rightarrow> store \<Rightarrow> staged \<Rightarrow> planned \<Rightarrow> access_error + staged" where
  "stage y st staged p =
     (if staged (planned_number p) \<noteq> None then Inr staged
      else bindE (ok_or (sys_find_service y (vb_service_code (fst p)))
          (AccessPanic ''the service was resolved during validation'')) (\<lambda>service.
        Inr (staged(planned_number p \<mapsto> (es_blocks service, blocks_at st (es_blocks service))))))"

definition set_block :: "block list \<Rightarrow> nat \<Rightarrow> block \<Rightarrow> access_error + block list" where
  "set_block blocks n b =
     (if n < length blocks then Inr (blocks[n := b]) else Inl (AccessPanic ''index out of bounds''))"

definition write_random :: "block list \<Rightarrow> planned \<Rightarrow> access_error + block list" where
  "write_random blocks p = set_block blocks (vb_block_number (fst p)) (snd p)"

definition write_purse :: "block list \<Rightarrow> planned \<Rightarrow> access_error + block list" where
  "write_purse blocks p =
     bindE (map_err (\<lambda>sf2. Flags (vb_position (fst p)) sf2)
       (purse_resolve (vb_attribute (fst p)) (vb_access_mode (fst p)))) (\<lambda>operation.
     bindE (ok_or (nth_opt blocks (vb_block_number (fst p))) (AccessPanic ''index out of bounds'')) (\<lambda>stored.
     case apply_purse_write stored (snd p) operation (vb_limit_purse (fst p)) of
       Inr (Some updated) \<Rightarrow> set_block blocks (vb_block_number (fst p)) updated
     | Inr None \<Rightarrow> Inr blocks
     | Inl sf2 \<Rightarrow> Inl (Flags (vb_position (fst p)) sf2)))"

definition write_cyclic :: "block list \<Rightarrow> planned list \<Rightarrow> access_error + block list" where
  "write_cyclic blocks run =
     (case List.find (\<lambda>p. vb_block_number (fst p) \<noteq> 0) run of
        Some p \<Rightarrow> Inl (Flags (vb_position (fst p)) 0xA5)
      | None \<Rightarrow> (case apply_cyclic_write blocks (map snd run) of
          Inr (Updated updated) \<Rightarrow> Inr updated
        | Inr Unchanged \<Rightarrow> Inr blocks
        | Inl sf2 \<Rightarrow> Inl (Flags (vb_position (fst (hd run))) sf2)))"

definition apply_run :: "block list \<Rightarrow> planned list \<Rightarrow> access_error + block list" where
  "apply_run blocks run =
     (case attribute_kind (vb_attribute (fst (hd run))) of
        Random \<Rightarrow> foldE write_random blocks run
      | Cyclic \<Rightarrow> write_cyclic blocks run
      | Purse \<Rightarrow> foldE write_purse blocks run)"

function apply_runs :: "staged \<Rightarrow> planned list \<Rightarrow> access_error + staged" where
  "apply_runs staged [] = Inr staged"
| "apply_runs staged (p # rest) =
     (let number = planned_number p;
          run = p # takeWhile (\<lambda>q. planned_number q = number) rest in
      bindE (ok_or (staged number) (AccessPanic ''every planned service was staged'')) (\<lambda>(a, blocks).
      bindE (apply_run blocks run) (\<lambda>updated.
      apply_runs (staged(number \<mapsto> (a, updated)))
        (dropWhile (\<lambda>q. planned_number q = number) rest))))"
  by pat_completeness auto
termination
  by (relation "measure (length \<circ> snd)") (auto simp: le_imp_less_Suc length_dropWhile_le)

text \<open>The final loop writes every staged vector back, in the order of the \<open>BTreeMap\<close>.\<close>

definition commit :: "staged \<Rightarrow> store \<Rightarrow> u16 \<Rightarrow> store" where
  "commit staged st number = (case staged number of Some (a, blocks) \<Rightarrow> st[a := blocks] | None \<Rightarrow> st)"

definition apply_block_writes ::
    "emulated_system \<Rightarrow> store \<Rightarrow> service_code list \<Rightarrow> block_list_element list \<Rightarrow> bytes \<Rightarrow> bool
      \<Rightarrow> access_error + store" where
  "apply_block_writes y st service_codes block_list data require_auth_free =
     bindE (mapE (plan_write y st service_codes data require_auth_free) (enumerate 0 block_list)) (\<lambda>planned.
     bindE (foldE (stage y st) Map.empty planned) (\<lambda>staged.
     bindE (apply_runs staged planned) (\<lambda>staged.
     Inr (foldl (commit staged) st (sort (remdups (map planned_number planned)))))))"

section \<open>Secure frames\<close>

definition handle_secure_read ::
    "emulated_system \<Rightarrow> store \<Rightarrow> service_code list \<Rightarrow> block_list_element list \<Rightarrow> response panics" where
  "handle_secure_read y st service_codes block_list =
     (case read_blocks y st service_codes block_list False of
        Inr blocks \<Rightarrow> Inr (RespRead 0x00 0x00 (Some blocks))
      | Inl (Flags sf1 sf2) \<Rightarrow> Inr (RespRead sf1 sf2 None)
      | Inl (AccessPanic m) \<Rightarrow> Inl m)"

definition handle_secure_write ::
    "emulated_system \<Rightarrow> store \<Rightarrow> service_code list \<Rightarrow> block_list_element list \<Rightarrow> bytes
      \<Rightarrow> (response \<times> store) panics" where
  "handle_secure_write y st service_codes block_list data =
     (if length data < length block_list * BLOCK_SIZE then Inr (RespWrite 0xFF 0xAC, st)
      else case apply_block_writes y st service_codes block_list data False of
        Inr st' \<Rightarrow> Inr (RespWrite 0x00 0x00, st')
      | Inl (Flags sf1 sf2) \<Rightarrow> Inr (RespWrite sf1 sf2, st)
      | Inl (AccessPanic m) \<Rightarrow> Inl m)"

definition secure_command_response ::
    "emulated_system \<Rightarrow> store \<Rightarrow> service_code list \<Rightarrow> command \<Rightarrow> (response option \<times> store) panics" where
  "secure_command_response y st service_codes c =
     (case c of
        CmdRead block_list \<Rightarrow>
          bindE (handle_secure_read y st service_codes block_list) (\<lambda>r. Inr (Some r, st))
      | CmdWrite block_list data \<Rightarrow>
          bindE (handle_secure_write y st service_codes block_list data) (\<lambda>(r, st'). Inr (Some r, st'))
      | CmdRegisterIssueId _ _ _ \<Rightarrow>
          Inr (Some (RespRegisterIssueId STATUS_UNSUPPORTED_SF1 STATUS_UNSUPPORTED_SF2 None), st)
      | CmdRegisterArea _ _ \<Rightarrow>
          Inr (Some (RespRegisterArea STATUS_UNSUPPORTED_SF1 STATUS_UNSUPPORTED_SF2), st)
      | CmdRegisterService _ _ \<Rightarrow>
          Inr (Some (RespRegisterService STATUS_UNSUPPORTED_SF1 STATUS_UNSUPPORTED_SF2 None), st)
      | CmdChangeSystemBlock \<Rightarrow>
          Inr (Some (RespChangeSystemBlock STATUS_UNSUPPORTED_SF1 STATUS_UNSUPPORTED_SF2), st)
      | _ \<Rightarrow> Inr (None, st))"

text \<open>
  The checks of a secure frame before its command is parsed: the mode, the session, the MAC, the
  transaction ID and the transaction number. The result is the transaction number of the response
  and the command's payload.
\<close>

definition open_secure_frame ::
    "crypto \<Rightarrow> emulated_system \<Rightarrow> u8 \<Rightarrow> bytes \<Rightarrow> (secure_session \<times> u16 \<times> bytes) option" where
  "open_secure_frame C y command_code encrypted_payload =
     (let requirement = if is_register_command command_code then Issuing else Authenticated in
      if \<not> mode_permits (sys_mode y) requirement then None
      else case sys_session y of
        None \<Rightarrow> None
      | Some session \<Rightarrow>
          (case decrypt_des_cbc_zero_iv C encrypted_payload (ss_transaction_key session) of
             Inl _ \<Rightarrow> None
           | Inr decrypted \<Rightarrow>
               if \<not> check_packet_mac_des C decrypted command_code then None
               else if length decrypted < DES_BLOCK_SIZE then None
               else
                 let p = take (length decrypted - DES_BLOCK_SIZE) decrypted in
                 if length p < 8 then None
                 else
                   let transaction_number = u16_from_le (p ! 0) (p ! 1);
                       payload_transaction_id = take 6 (drop 2 p) in
                   if payload_transaction_id \<noteq> ss_transaction_id session then None
                   else if transaction_number \<le> ss_transaction_number session then None
                   else if transaction_number = 0xFFFF then None
                   else Some (session, transaction_number + 1, drop 8 p)))"

text \<open>Encoding, sealing and sending the response, and advancing the transaction number.\<close>

definition finish_secure_frame ::
    "crypto \<Rightarrow> emulated_system \<Rightarrow> store \<Rightarrow> secure_session \<Rightarrow> u16 \<Rightarrow> u8 \<Rightarrow> response
      \<Rightarrow> (bytes option \<times> emulated_system \<times> store) panics" where
  "finish_secure_frame C y st session response_transaction_number command_code r =
     (case to_secure_payload r of
        Inl e \<Rightarrow> (case e of Panicked m \<Rightarrow> Inl m | _ \<Rightarrow> Inr (None, y, st))
      | Inr response_payload \<Rightarrow>
          (case build_secure_response_frame_des C (command_code + 1) response_transaction_number
              (ss_transaction_id session) (ss_transaction_key session) response_payload of
             None \<Rightarrow> Inr (None, y, st)
           | Some f \<Rightarrow>
               let y' = if is_register_command command_code \<and> nth_opt response_payload 0 = Some 0x00
                 then y\<lparr>sys_mode := Mode3\<rparr> else y in
               Inr (Some f, y'\<lparr>sys_session := Some (session\<lparr>ss_transaction_number :=
                 response_transaction_number\<rparr>)\<rparr>, st)))"

definition handle_secure_frame ::
    "crypto \<Rightarrow> emulated_system \<Rightarrow> store \<Rightarrow> u8 \<Rightarrow> bytes
      \<Rightarrow> (bytes option \<times> emulated_system \<times> store) panics" where
  "handle_secure_frame C y st command_code encrypted_payload =
     (case open_secure_frame C y command_code encrypted_payload of
        None \<Rightarrow> Inr (None, y, st)
      | Some (session, response_transaction_number, command_payload) \<Rightarrow>
          (case parse_secure_payload command_code command_payload of
             Inl _ \<Rightarrow> Inr (None, y, st)
           | Inr c \<Rightarrow>
               bindE (secure_command_response y st (ss_service_codes session) c) (\<lambda>(resp, st').
               case resp of
                 None \<Rightarrow> Inr (None, y, st')
               | Some r \<Rightarrow>
                   finish_secure_frame C y st' session response_transaction_number command_code r)))"

end
