(* ===== verification/Emulator.thy ===== *)
theory Emulator
  imports System Type3
begin

text \<open>
  The emulated card, \<open>src/felica_standard/emulator/mod.rs\<close>: its systems, the selected system, the
  resolution of the system that a command addresses, and the dispatch of frames and commands. The
  card carries the store of block vectors of all its systems. \<open>idm_len\<close> and the other lengths that
  the source has in its array types appear as hypotheses of the theorems that need them.
\<close>

record emulator =
  em_systems :: "emulated_system list"
  em_active :: "u16 option"
  em_store :: store

definition emulator_new :: "store \<Rightarrow> emulator" where
  "emulator_new st = \<lparr>em_systems = [], em_active = None, em_store = st\<rparr>"

definition add_system :: "emulator \<Rightarrow> emulated_system \<Rightarrow> emulator" where
  "add_system em y =
     (let em = em\<lparr>em_systems := em_systems em @ [y]\<rparr> in
      if em_active em = None then em\<lparr>em_active := Some (sys_code y)\<rparr> else em)"

definition update_system :: "emulator \<Rightarrow> nat \<Rightarrow> emulated_system \<Rightarrow> emulator" where
  "update_system em i y = em\<lparr>em_systems := (em_systems em)[i := y]\<rparr>"

definition set_active_system :: "emulator \<Rightarrow> u16 \<Rightarrow> bool \<times> emulator" where
  "set_active_system em system_code =
     (case position (\<lambda>y. sys_code y = system_code) (em_systems em) of
        Some i \<Rightarrow> (True, (update_system em i (reset_mode (em_systems em ! i)))\<lparr>em_active := Some system_code\<rparr>)
      | None \<Rightarrow> (False, em))"

definition power_off :: "emulator \<Rightarrow> emulator" where
  "power_off em =
     em\<lparr>em_systems := map reset_mode (em_systems em),
        em_active := (case em_systems em of [] \<Rightarrow> None | y # _ \<Rightarrow> Some (sys_code y))\<rparr>"

definition system_codes :: "emulator \<Rightarrow> u16 list" where
  "system_codes em = map sys_code (em_systems em)"

definition resolve_active_system_code :: "emulator \<Rightarrow> u16 option" where
  "resolve_active_system_code em =
     (let first_code = (case em_systems em of [] \<Rightarrow> None | y # _ \<Rightarrow> Some (sys_code y)) in
      case em_active em of
        Some code \<Rightarrow> if code \<in> set (system_codes em) then Some code else first_code
      | None \<Rightarrow> first_code)"

definition matches_system_code :: "u16 \<Rightarrow> u16 \<Rightarrow> bool" where
  "matches_system_code request system_code =
     (let req_hi = ucast (drop_bit 8 request) :: u8; req_lo = ucast request :: u8;
          sys_hi = ucast (drop_bit 8 system_code); sys_lo = ucast system_code in
      (req_hi = 0xFF \<or> req_hi = sys_hi) \<and> (req_lo = 0xFF \<or> req_lo = sys_lo))"

definition polling_optional :: "emulated_system \<Rightarrow> u8 \<Rightarrow> bytes" where
  "polling_optional y request_code =
     (if request_code = 0x01 then u16_to_be (sys_code y)
      else if request_code = 0x02 then to_request_data (sys_performance y)
      else [])"

section \<open>Polling responses built by the host\<close>

definition polling_payload_for :: "emulator \<Rightarrow> u16 \<Rightarrow> u8 \<Rightarrow> bytes option" where
  "polling_payload_for em system_code request_code =
     (case List.find (\<lambda>y. sys_code y = system_code) (em_systems em) of
        None \<Rightarrow> None
      | Some y \<Rightarrow> ok (to_payload (RespPolling (sys_idm y) (sys_pmm y) (polling_optional y request_code))))"

definition polling_result_for :: "emulator \<Rightarrow> u16 \<Rightarrow> u8 \<Rightarrow> type3_tag_polling_result option" where
  "polling_result_for em system_code request_code =
     map_option (\<lambda>y. \<lparr>t3_idm = sys_idm y, t3_pmm = sys_pmm y, t3_optional = polling_optional y request_code\<rparr>)
       (List.find (\<lambda>y. sys_code y = system_code) (em_systems em))"

definition sensf_res_for :: "emulator \<Rightarrow> u16 \<Rightarrow> bytes option" where
  "sensf_res_for em system_code = polling_payload_for em system_code 0x01"

definition sensf_res_frame_for :: "emulator \<Rightarrow> u16 \<Rightarrow> bytes option" where
  "sensf_res_frame_for em system_code =
     (case sensf_res_for em system_code of None \<Rightarrow> None | Some p \<Rightarrow> ok (frame_with_length_prefix p))"

definition sensf_res :: "emulator \<Rightarrow> bytes option" where
  "sensf_res em = (case resolve_active_system_code em of None \<Rightarrow> None | Some c \<Rightarrow> sensf_res_for em c)"

definition sensf_res_frame :: "emulator \<Rightarrow> bytes option" where
  "sensf_res_frame em =
     (case resolve_active_system_code em of None \<Rightarrow> None | Some c \<Rightarrow> sensf_res_frame_for em c)"

section \<open>The addressed system\<close>

definition system_index_for_idm ::
    "emulator \<Rightarrow> bytes \<Rightarrow> mode_requirement \<Rightarrow> nat option \<times> emulator" where
  "system_index_for_idm em idm requirement =
     (case position (\<lambda>y. sys_idm y = idm) (em_systems em) of
        None \<Rightarrow> (None, em)
      | Some i \<Rightarrow>
          let code = sys_code (em_systems em ! i);
              em = (if em_active em \<noteq> Some code
                then (update_system em i (reset_mode (em_systems em ! i)))\<lparr>em_active := Some code\<rparr>
                else em) in
          if \<not> mode_permits (sys_mode (em_systems em ! i)) requirement then (None, em)
          else (Some i, em))"

definition polling_target_index :: "emulator \<Rightarrow> u16 \<Rightarrow> nat option" where
  "polling_target_index em request_system_code =
     position (\<lambda>y. matches_system_code request_system_code (sys_code y)) (em_systems em)"

definition system_index_for_polling :: "emulator \<Rightarrow> u16 \<Rightarrow> nat option \<times> emulator" where
  "system_index_for_polling em request_system_code =
     (case polling_target_index em request_system_code of
        None \<Rightarrow> (None, em)
      | Some i \<Rightarrow>
          let resolved = sys_code (em_systems em ! i) in
          if em_active em = Some resolved then
            (if \<not> mode_permits (sys_mode (em_systems em ! i)) Unauthenticated then (None, em)
             else (Some i, em\<lparr>em_active := Some resolved\<rparr>))
          else (Some i, (update_system em i (reset_mode (em_systems em ! i)))\<lparr>em_active := Some resolved\<rparr>))"

definition polling_response :: "emulator \<Rightarrow> u16 \<Rightarrow> u8 \<Rightarrow> type3_tag_polling_result option \<times> emulator" where
  "polling_response em request_system_code request_code =
     (case system_index_for_polling em request_system_code of
        (None, em) \<Rightarrow> (None, em)
      | (Some i, em) \<Rightarrow>
          let y = em_systems em ! i in
          (Some \<lparr>t3_idm = sys_idm y, t3_pmm = sys_pmm y, t3_optional = polling_optional y request_code\<rparr>, em))"

section \<open>Plain commands\<close>

definition handle_read ::
    "bytes \<Rightarrow> emulated_system \<Rightarrow> store \<Rightarrow> service_code list \<Rightarrow> block_list_element list
      \<Rightarrow> bytes option panics" where
  "handle_read idm y st service_codes block_list =
     (case read_blocks y st service_codes block_list True of
        Inr blocks \<Rightarrow> encode_response_frame (RespReadWithoutEncryption idm 0x00 0x00 (Some blocks))
      | Inl (Flags sf1 sf2) \<Rightarrow> encode_response_frame (RespReadWithoutEncryption idm sf1 sf2 None)
      | Inl (AccessPanic m) \<Rightarrow> Inl m)"

definition handle_write ::
    "bytes \<Rightarrow> emulated_system \<Rightarrow> store \<Rightarrow> service_code list \<Rightarrow> block_list_element list \<Rightarrow> bytes
      \<Rightarrow> (bytes option \<times> store) panics" where
  "handle_write idm y st service_codes block_list data =
     (if length data < length block_list * BLOCK_SIZE then
        bindE (encode_response_frame (RespWriteWithoutEncryption idm 0xFF 0xAC)) (\<lambda>f. Inr (f, st))
      else case apply_block_writes y st service_codes block_list data True of
        Inr st' \<Rightarrow> bindE (encode_response_frame (RespWriteWithoutEncryption idm 0x00 0x00)) (\<lambda>f. Inr (f, st'))
      | Inl (Flags sf1 sf2) \<Rightarrow>
          bindE (encode_response_frame (RespWriteWithoutEncryption idm sf1 sf2)) (\<lambda>f. Inr (f, st))
      | Inl (AccessPanic m) \<Rightarrow> Inl m)"

definition search_entry :: "directory_entry list \<Rightarrow> u16 \<Rightarrow> search_service_code_result option" where
  "search_entry entries service_index =
     (case nth_opt entries (unat service_index) of
        Some (DirService code) \<Rightarrow> Some (SearchService code)
      | Some (DirArea area_code end_service_code) \<Rightarrow> Some (SearchArea area_code end_service_code)
      | None \<Rightarrow> None)"

text \<open>
  \<open>with_system em idm req f\<close> is the opening of every command that carries an IDm: resolve the
  system, stay silent when there is none, otherwise run \<open>f\<close> on the index and the switched card.
\<close>

definition with_system ::
    "emulator \<Rightarrow> bytes \<Rightarrow> mode_requirement
      \<Rightarrow> (nat \<Rightarrow> emulated_system \<Rightarrow> emulator \<Rightarrow> (bytes option \<times> emulator) panics)
      \<Rightarrow> (bytes option \<times> emulator) panics" where
  "with_system em idm requirement f =
     (case system_index_for_idm em idm requirement of
        (None, em) \<Rightarrow> Inr (None, em)
      | (Some i, em) \<Rightarrow> f i (em_systems em ! i) em)"

definition reply :: "emulator \<Rightarrow> response \<Rightarrow> (bytes option \<times> emulator) panics" where
  "reply em r = bindE (encode_response_frame r) (\<lambda>f. Inr (f, em))"

definition handle_command ::
    "crypto \<Rightarrow> bytes \<Rightarrow> emulator \<Rightarrow> command \<Rightarrow> (bytes option \<times> emulator) panics" where
  "handle_command C random_2 em c =
     (case c of
        CmdPolling system_code request_code _ \<Rightarrow>
          (case system_index_for_polling em system_code of
             (None, em) \<Rightarrow> Inr (None, em)
           | (Some i, em) \<Rightarrow>
               let y = em_systems em ! i in
               reply em (RespPolling (sys_idm y) (sys_pmm y) (polling_optional y request_code)))
      | CmdRequestResponse idm \<Rightarrow>
          with_system em idm AnyMode (\<lambda>i y em. reply em (RespRequestResponse idm (mode_code (sys_mode y))))
      | CmdRequestSystemCode idm \<Rightarrow>
          with_system em idm AnyMode (\<lambda>i y em.
            if system_codes em = [] then Inr (None, em)
            else reply em (RespRequestSystemCode idm (system_codes em)))
      | CmdSearchServiceCode idm service_index \<Rightarrow>
          with_system em idm AnyMode (\<lambda>i y em.
            reply em (RespSearchServiceCode idm (search_entry (directory y) service_index)))
      | CmdRequestService idm service_codes \<Rightarrow>
          with_system em idm AnyMode (\<lambda>i y em.
            reply em (RespRequestService idm (map (node_key_version y) service_codes)))
      | CmdReadWithoutEncryption idm service_codes block_list \<Rightarrow>
          with_system em idm Unauthenticated (\<lambda>i y em.
            bindE (handle_read idm y (em_store em) service_codes block_list) (\<lambda>f. Inr (f, em)))
      | CmdWriteWithoutEncryption idm service_codes block_list data \<Rightarrow>
          with_system em idm Unauthenticated (\<lambda>i y em.
            bindE (handle_write idm y (em_store em) service_codes block_list data) (\<lambda>(f, st).
            Inr (f, em\<lparr>em_store := st\<rparr>)))
      | CmdRequestBlockInformation idm node_codes \<Rightarrow>
          with_system em idm AnyMode (\<lambda>i y em.
            reply em (RespRequestBlockInformation idm (map (block_count_for_node y (em_store em)) node_codes)))
      | CmdResetMode idm \<Rightarrow>
          with_system em idm AnyMode (\<lambda>i y em.
            reply (update_system em i (reset_mode y)) (RespResetMode idm 0x00 0x00))
      | CmdAuthentication1 idm areas services challenge_1a \<Rightarrow>
          with_system em idm AnyMode (\<lambda>i y em.
            bindE (handle_authentication1 C random_2 y idm areas services challenge_1a) (\<lambda>(f, y').
            Inr (f, update_system em i y')))
      | CmdAuthentication2 idm challenge_2b \<Rightarrow>
          with_system em idm AuthenticationStarted (\<lambda>i y em.
            bindE (handle_authentication2 C y challenge_2b) (\<lambda>(f, y').
            Inr (f, update_system em i y')))
      | _ \<Rightarrow> Inr (None, em))"

definition em_handle_secure_frame ::
    "crypto \<Rightarrow> emulator \<Rightarrow> u8 \<Rightarrow> bytes \<Rightarrow> (bytes option \<times> emulator) panics" where
  "em_handle_secure_frame C em command_code encrypted_payload =
     (case resolve_active_system_code em of
        None \<Rightarrow> Inr (None, em)
      | Some system_code \<Rightarrow>
          (case position (\<lambda>y. sys_code y = system_code) (em_systems em) of
             None \<Rightarrow> Inr (None, em)
           | Some i \<Rightarrow>
               bindE (handle_secure_frame C (em_systems em ! i) (em_store em) command_code
                 encrypted_payload) (\<lambda>(f, y', st').
               Inr (f, (update_system em i y')\<lparr>em_store := st'\<rparr>))))"

definition handle_frame :: "crypto \<Rightarrow> bytes \<Rightarrow> emulator \<Rightarrow> bytes \<Rightarrow> (bytes option \<times> emulator) panics" where
  "handle_frame C random_2 em f =
     (if length f < 2 then Inr (None, em)
      else if unat (f ! 0) \<noteq> length f then Inr (None, em)
      else
        let command_code = f ! 1; p = drop 2 f in
        if is_secure_command_code command_code then em_handle_secure_frame C em command_code p
        else case parse_frame f of
          Inl _ \<Rightarrow> Inr (None, em)
        | Inr c \<Rightarrow> handle_command C random_2 em c)"

end
