(* ===== verification/Demo_Card.thy ===== *)
theory Demo_Card
  imports Emulator
begin

text \<open>
  A concrete card and reader for the witnesses: one system with the overlapping key-free services
  0009h and 000Bh and the key-requiring service 1048h, the frames that a reader holding the same keys
  sends to open a session and read a block in it, and the states of the card after them. The
  ciphers are \<open>xor_cipher\<close>.
\<close>

definition demo_system :: emulated_system where
  "demo_system = \<lparr>sys_code = 0x12FC, sys_idm = [1, 2, 3, 4, 5, 6, 7, 8], sys_pmm = replicate 8 0xFF,
     sys_root = fst (sync_area demo_root Map.empty), sys_mode = Mode0, sys_key_version = 0,
     sys_key = replicate 8 0x11, sys_idi = replicate 8 0x22, sys_pmi = replicate 8 0x33,
     sys_performance = communication_performance_default, sys_pending = None, sys_session = None\<rparr>"

definition demo_store :: store where
  "demo_store = [[replicate 16 0xA0, replicate 16 0xA1], [replicate 16 0xB0], []]"

definition demo_card :: emulator where
  "demo_card = add_system (emulator_new demo_store) demo_system"

definition demo_context :: authentication_context where
  "demo_context = (let (g, u) = generate_service_keys_des xor_cipher (replicate 8 0x11)
       [replicate 8 0] [replicate 8 0] in
     authentication_context_new xor_cipher [1, 2, 3, 4, 5, 6, 7, 8] g u)"

definition demo_random_1 :: bytes where "demo_random_1 = [9, 8, 7, 6, 5, 4, 3, 2]"
definition demo_key :: bytes where "demo_key = [0x41, 0x42, 0x43, 0x44, 0x45, 0x46, 0x47, 0x48]"

definition frame_of :: "command \<Rightarrow> bytes" where
  "frame_of c = (case to_frame c of Inr f \<Rightarrow> f | Inl _ \<Rightarrow> [])"

definition demo_auth1 :: bytes where
  "demo_auth1 = frame_of (CmdAuthentication1 [1, 2, 3, 4, 5, 6, 7, 8] [0x0000] [0x1048]
     (encrypt_challenge1a xor_cipher demo_context demo_random_1))"

definition demo_auth2 :: bytes where
  "demo_auth2 = frame_of (CmdAuthentication2 [1, 2, 3, 4, 5, 6, 7, 8]
     (encrypt_challenge2b xor_cipher demo_context demo_key))"

definition demo_secure :: "u8 \<Rightarrow> u16 \<Rightarrow> bytes \<Rightarrow> bytes" where
  "demo_secure code n p =
     (case encrypt_command_des xor_cipher code (build_payload_des n (take 6 (drop 2 demo_random_1)) p) demo_key of
        Inl _ \<Rightarrow> []
      | Inr e \<Rightarrow> (case frame_with_length_prefix (code # e) of Inr f \<Rightarrow> f | Inl _ \<Rightarrow> []))"

definition demo_read :: bytes where
  "demo_read = demo_secure READ_COMMAND_CODE 1 [1, 0x80, 0]"

text \<open>The state after some frames; every frame of the witnesses returns, none of them panics.\<close>

fun after :: "bytes \<Rightarrow> emulator \<Rightarrow> bytes list \<Rightarrow> emulator" where
  "after r em [] = em"
| "after r em (f # fs) = after r (snd (projr (handle_frame xor_cipher r em f))) fs"

definition demo_session :: emulator where
  "demo_session = after demo_key demo_card [demo_auth1, demo_auth2]"

definition returns :: "bytes \<Rightarrow> emulator \<Rightarrow> bytes \<Rightarrow> bool" where
  "returns r em f \<longleftrightarrow> \<not> isl (handle_frame xor_cipher r em f)"

lemma returns_after:
  "returns r em f \<Longrightarrow> handle_frame xor_cipher r em f
    = Inr (fst (projr (handle_frame xor_cipher r em f)), after r em [f])"
  by (cases "handle_frame xor_cipher r em f") (auto simp: returns_def)

end
