(* ===== verification/Session_Safety.thy ===== *)
theory Session_Safety
  imports Demo_Card
begin

text \<open>
  The session protocol of the emulated card: how the mode, the pending authentication and the secure
  session of a system move together, and what the transaction number protects. Systems and cards are
  state machines here: \<open>sys_step\<close> is one operation on a system, \<open>em_step\<close> one input of the card.
\<close>

section \<open>What a secure frame does to its system\<close>

lemma register_response_not_success:
  assumes "secure_command_response y st codes c = Inr (Some r, st')"
    and "to_secure_payload r = Inr p" and "parse_secure_payload code cp = Inr c"
    and "is_register_command code"
  shows "nth_opt p 0 \<noteq> Some 0x00"
proof -
  consider "\<exists>a b c'. c = CmdRegisterIssueId a b c'" | "\<exists>a b. c = CmdRegisterArea a b"
    | "\<exists>a b. c = CmdRegisterService a b" | "c = CmdChangeSystemBlock"
    using assms(3,4)
    by (auto simp: parse_secure_payload_def is_register_command_def bindE_eq_Inr Let_def perr_def
        split: if_splits)
  then show ?thesis
    by cases (use assms(1,2) in \<open>auto simp: secure_command_response_def remaining_payload_def
        success_part_def for_success_def ensure_omitted_on_error_def secure_status_only_def
        status_flags_def\<close>)
qed

lemma open_secure_frame_Some:
  assumes "open_secure_frame C y code e = Some (session, n, p)"
  shows "sys_session y = Some session"
    and "\<exists>d. decrypt_des_cbc_zero_iv C e (ss_transaction_key session) = Inr d
      \<and> check_packet_mac_des C d code \<and> n = u16_from_le (d ! 0) (d ! 1) + 1
      \<and> take 6 (drop 2 d) = ss_transaction_id session"
    and "ss_transaction_number session < n"
    and "is_register_command code \<Longrightarrow> sys_mode y \<in> {Mode2, Mode3}"
    and "\<not> is_register_command code \<Longrightarrow> sys_mode y = Mode2"
proof -
  show "is_register_command code \<Longrightarrow> sys_mode y \<in> {Mode2, Mode3}"
    and "\<not> is_register_command code \<Longrightarrow> sys_mode y = Mode2"
    using assms by (auto simp: open_secure_frame_def Let_def split: if_splits)
  from assms obtain d where 1: "sys_session y = Some session"
    "decrypt_des_cbc_zero_iv C e (ss_transaction_key session) = Inr d"
    "check_packet_mac_des C d code" "\<not> length (take (length d - 8) d) < 8"
    and 2: "n = u16_from_le (take (length d - 8) d ! 0) (take (length d - 8) d ! 1) + 1"
    "take 6 (drop 2 (take (length d - 8) d)) = ss_transaction_id session"
    and 3: "\<not> u16_from_le (take (length d - 8) d ! 0) (take (length d - 8) d ! 1) \<le> ss_transaction_number session"
    "u16_from_le (take (length d - 8) d ! 0) (take (length d - 8) d ! 1) \<noteq> 0xFFFF"
    by (auto simp: open_secure_frame_def Let_def split: if_splits option.splits sum.splits)
  show "sys_session y = Some session" by (rule 1)
  have len: "16 \<le> length d" using 1(4) by simp
  then show "\<exists>d. decrypt_des_cbc_zero_iv C e (ss_transaction_key session) = Inr d
      \<and> check_packet_mac_des C d code \<and> n = u16_from_le (d ! 0) (d ! 1) + 1
      \<and> take 6 (drop 2 d) = ss_transaction_id session"
    using 1 2 by (intro exI [of _ d]) (auto simp: drop_take)
  obtain t where t: "t = u16_from_le (take (length d - 8) d ! 0) (take (length d - 8) d ! 1)" by simp
  have "t \<noteq> 0xFFFF" and gt: "\<not> t \<le> ss_transaction_number session" and n: "n = t + 1"
    using 2(1) 3 unfolding t by simp_all
  then have "unat t \<noteq> 65535" unfolding word_unat_eq_iff by simp
  then have "unat t < 65535" using unat_u16_less [of t] by linarith
  then have "unat (t + 1) = unat t + 1" by (simp add: unat_word_ariths)
  then show "ss_transaction_number session < n"
    using n gt by (simp add: word_less_nat_alt word_le_nat_alt)
qed


lemma finish_secure_frame_result:
  assumes "finish_secure_frame C y st session n code r = Inr (f, y', st')"
    and "\<And>rp. to_secure_payload r = Inr rp \<Longrightarrow> \<not> (is_register_command code \<and> nth_opt rp 0 = Some 0x00)"
  shows "f = None \<and> y' = y \<or> (\<exists>resp. f = Some resp
    \<and> y' = y\<lparr>sys_session := Some (session\<lparr>ss_transaction_number := n\<rparr>)\<rparr>)"
proof (cases "to_secure_payload r")
  case (Inl m)
  then show ?thesis using assms(1) by (cases m) (simp_all add: finish_secure_frame_def)
next
  case (Inr rp)
  then show ?thesis using assms(1) assms(2) [OF Inr]
    by (auto simp: finish_secure_frame_def Let_def split: option.splits if_splits)
qed

lemma handle_secure_frame_result:
  assumes "handle_secure_frame C y st code e = Inr (f, y', st')"
  shows "f = None \<and> y' = y \<or> (\<exists>resp session n p. f = Some resp
    \<and> open_secure_frame C y code e = Some (session, n, p)
    \<and> y' = y\<lparr>sys_session := Some (session\<lparr>ss_transaction_number := n\<rparr>)\<rparr>)"
proof (cases "open_secure_frame C y code e")
  case None
  then show ?thesis using assms by (simp add: handle_secure_frame_def)
next
  case (Some o')
  obtain session n p where o: "open_secure_frame C y code e = Some (session, n, p)"
    using Some by (cases o') simp
  show ?thesis
  proof (cases "parse_secure_payload code p")
    case (Inl m)
    then show ?thesis using assms o by (simp add: handle_secure_frame_def)
  next
    case (Inr c)
    then obtain resp st1 where r: "secure_command_response y st (ss_service_codes session) c = Inr (resp, st1)"
      and h: "(case resp of None \<Rightarrow> Inr (None, y, st1)
        | Some r \<Rightarrow> finish_secure_frame C y st1 session n code r) = Inr (f, y', st')"
      using assms o by (auto simp: handle_secure_frame_def bindE_eq_Inr)
    show ?thesis
    proof (cases resp)
      case None
      then show ?thesis using h by simp
    next
      case (Some r')
      with r register_response_not_success [OF _ _ Inr]
      have "to_secure_payload r' = Inr rp \<Longrightarrow> \<not> (is_register_command code \<and> nth_opt rp 0 = Some 0x00)" for rp
        by blast
      then show ?thesis
        using finish_secure_frame_result [of C y st1 session n code r' f y' st'] h Some o by auto
    qed
  qed
qed

section \<open>Systems as state machines\<close>

text \<open>
  The invariant of a system: the session and the pending authentication exist exactly in the modes
  that need them, and the session is the one the pending authentication describes.
\<close>

fun session_matches :: "pending_authentication \<Rightarrow> secure_session \<Rightarrow> bool" where
  "session_matches p s \<longleftrightarrow> ss_transaction_key s = pa_random_2 p
     \<and> ss_transaction_id s = take 6 (drop 2 (pa_random_1 p))
     \<and> ss_service_codes s = pa_service_codes p"

definition mode_ok :: "emulated_system \<Rightarrow> bool" where
  "mode_ok y \<longleftrightarrow> (case sys_mode y of
       Mode0 \<Rightarrow> sys_pending y = None \<and> sys_session y = None
     | Mode1 \<Rightarrow> sys_pending y \<noteq> None \<and> sys_session y = None
     | Mode2 \<Rightarrow> (\<exists>p s. sys_pending y = Some p \<and> sys_session y = Some s \<and> session_matches p s)
     | Mode3 \<Rightarrow> False)"

inductive sys_step :: "crypto \<Rightarrow> bytes \<Rightarrow> emulated_system \<Rightarrow> emulated_system \<Rightarrow> bool"
  for C random_2 where
  reset: "sys_step C random_2 y (reset_mode y)"
| authentication1: "handle_authentication1 C random_2 y idm areas services challenge_1a = Inr (f, y')
    \<Longrightarrow> sys_step C random_2 y y'"
| authentication2: "handle_authentication2 C y challenge_2b = Inr (f, y') \<Longrightarrow> sys_step C random_2 y y'"
| secure: "handle_secure_frame C y st code e = Inr (f, y', st') \<Longrightarrow> sys_step C random_2 y y'"

inductive_cases sys_stepE: "sys_step C random_2 y y'"

lemma handle_authentication1_result:
  assumes "handle_authentication1 C random_2 y idm areas services challenge_1a = Inr (f, y')"
  shows "y' = y \<or> (\<exists>p. pa_random_2 p = random_2
    \<and> y' = y\<lparr>sys_pending := Some p, sys_session := None, sys_mode := Mode1\<rparr>)"
proof (cases "y' = y")
  case False
  with assms show ?thesis
    unfolding handle_authentication1_def Let_def
    by (simp split: if_splits option.splits prod.splits)
      (force simp: bindE_eq_Inr intro!: exI)
qed simp

lemma handle_authentication2_result:
  assumes "handle_authentication2 C y challenge_2b = Inr (f, y')"
  shows "y' = y \<or> (\<exists>p s. sys_pending y = Some p
    \<and> challenge_2b = encrypt_challenge2b C (pa_context p) (pa_random_2 p)
    \<and> session_matches p s
    \<and> (\<forall>old. sys_session y = Some old \<and> ss_transaction_id old = ss_transaction_id s
        \<longrightarrow> ss_transaction_number s = ss_transaction_number old)
    \<and> y' = y\<lparr>sys_session := Some s, sys_mode := Mode2\<rparr>)"
proof (cases "y' = y")
  case False
  with assms obtain p where p: "sys_pending y = Some p"
    by (auto simp: handle_authentication2_def split: option.splits)
  let ?tid = "take 6 (drop 2 (pa_random_1 p))"
  let ?n = "case sys_session y of Some session \<Rightarrow> if ss_transaction_id session = ?tid
    then ss_transaction_number session else 0 | None \<Rightarrow> 0"
  let ?s = "\<lparr>ss_transaction_number = ?n, ss_transaction_id = ?tid, ss_transaction_key = pa_random_2 p,
    ss_service_codes = pa_service_codes p\<rparr>"
  have "challenge_2b = encrypt_challenge2b C (pa_context p) (pa_random_2 p)"
    and "y' = y\<lparr>sys_session := Some ?s, sys_mode := Mode2\<rparr>"
    using assms p False unfolding handle_authentication2_def Let_def ct_eq_def
    by (simp_all split: if_splits option.splits add: bindE_eq_Inr) auto
  then show ?thesis using p by (intro disjI2 exI [of _ p] exI [of _ ?s]) auto
qed simp

lemma mode_ok_reset: "mode_ok (reset_mode y)"
  by (simp add: mode_ok_def reset_mode_def)

lemma mode_ok_step: "sys_step C r y y' \<Longrightarrow> mode_ok y \<Longrightarrow> mode_ok y'"
proof (induction rule: sys_step.induct)
  case (reset y)
  show ?case by (rule mode_ok_reset)
next
  case (authentication1 y idm areas services challenge_1a f y')
  then show ?case using handle_authentication1_result by (fastforce simp: mode_ok_def)
next
  case (authentication2 y challenge_2b f y')
  then show ?case using handle_authentication2_result by (fastforce simp: mode_ok_def)
next
  case (secure y st code e f y' st')
  from handle_secure_frame_result [OF secure(1)] show ?case
  proof (elim disjE exE conjE)
    fix resp session n p
    assume o: "open_secure_frame C y code e = Some (session, n, p)"
      and y': "y' = y\<lparr>sys_session := Some (session\<lparr>ss_transaction_number := n\<rparr>)\<rparr>"
    have "sys_mode y \<in> {Mode2, Mode3}" using open_secure_frame_Some(4,5) [OF o] by blast
    then show ?thesis using secure(2) y' open_secure_frame_Some(1) [OF o] by (auto simp: mode_ok_def)
  qed (use secure(2) in simp)
qed

text \<open>
  A transaction number is spent for a session key when every session that the system can still have
  under this key is past it.
\<close>

definition spent :: "bytes \<Rightarrow> u16 \<Rightarrow> emulated_system \<Rightarrow> bool" where
  "spent key n y \<longleftrightarrow> mode_ok y \<and> (\<forall>p. sys_pending y = Some p \<and> pa_random_2 p = key \<longrightarrow>
     (\<exists>s. sys_session y = Some s \<and> n \<le> ss_transaction_number s))"

lemma spent_step:
  assumes "sys_step C r y y'" and "r \<noteq> key" and "spent key n y"
  shows "spent key n y'"
  using assms
proof (induction rule: sys_step.induct)
  case (reset y)
  show ?case by (simp add: spent_def mode_ok_reset) (simp add: reset_mode_def)
next
  case (authentication1 y idm areas services challenge_1a f y')
  have "mode_ok y" using authentication1(3) by (simp add: spent_def)
  then have "mode_ok y'" by (rule mode_ok_step [OF sys_step.authentication1 [OF authentication1(1)]])
  then show ?case using handle_authentication1_result [OF authentication1(1)] authentication1(2,3)
    by (auto simp: spent_def)
next
  case (authentication2 y challenge_2b f y')
  have ok1: "mode_ok y" using authentication2(3) by (simp add: spent_def)
  note ok = ok1 mode_ok_step [OF sys_step.authentication2 [OF authentication2(1)] ok1]
  from handle_authentication2_result [OF authentication2(1)] show ?case
  proof (elim disjE exE conjE)
    fix p s
    assume p: "sys_pending y = Some p" and s: "session_matches p s"
      and n: "\<forall>old. sys_session y = Some old \<and> ss_transaction_id old = ss_transaction_id s
        \<longrightarrow> ss_transaction_number s = ss_transaction_number old"
      and y': "y' = y\<lparr>sys_session := Some s, sys_mode := Mode2\<rparr>"
    have "n \<le> ss_transaction_number s" if k: "pa_random_2 p = key"
    proof -
      obtain old where old: "sys_session y = Some old" "n \<le> ss_transaction_number old"
        using k p authentication2(3) by (auto simp: spent_def)
      then have "session_matches p old"
        using ok(1) p by (auto simp: mode_ok_def split: system_mode.splits)
      then show ?thesis using n old s by simp
    qed
    then show ?thesis using ok(2) p y' by (simp add: spent_def)
  qed (use authentication2(3) in simp)
next
  case (secure y st code e f y' st')
  have "mode_ok y" using secure(3) by (simp add: spent_def)
  then have "mode_ok y'" by (rule mode_ok_step [OF sys_step.secure [OF secure(1)]])
  moreover from handle_secure_frame_result [OF secure(1)]
  have "y' = y \<or> (\<exists>session n p. open_secure_frame C y code e = Some (session, n, p)
      \<and> y' = y\<lparr>sys_session := Some (session\<lparr>ss_transaction_number := n\<rparr>)\<rparr>)"
    by blast
  ultimately show ?case using secure(3) open_secure_frame_Some(1,3)
    by (fastforce simp: spent_def)
qed

lemma spent_rejects:
  assumes "spent key n y" and "sys_session y = Some s" and "ss_transaction_key s = key"
    and "decrypt_des_cbc_zero_iv C e key = Inr d" and "u16_from_le (d ! 0) (d ! 1) < n"
  shows "handle_secure_frame C y st code e = Inr (None, y, st)"
proof (cases "open_secure_frame C y code e")
  case None
  then show ?thesis by (simp add: handle_secure_frame_def)
next
  case (Some o')
  then obtain session n' p where o: "open_secure_frame C y code e = Some (session, n', p)"
    by (cases o') simp
  have eq: "session = s" "n' = u16_from_le (d ! 0) (d ! 1) + 1" "ss_transaction_number s < n'"
    using open_secure_frame_Some [OF o] assms by auto
  obtain p where "sys_pending y = Some p" "pa_random_2 p = key"
    using assms(1-3) by (auto simp: spent_def mode_ok_def split: system_mode.splits)
  then have "n \<le> ss_transaction_number s" using assms(1,2) by (auto simp: spent_def)
  moreover have "n' \<le> n" using assms(5) unfolding eq(2) by (simp add: inc_le)
  ultimately show ?thesis using eq(3) by simp
qed


section \<open>The card as a state machine\<close>

text \<open>One input of the card: a frame, with the random number it may draw, or a call of its host.\<close>

inductive em_step :: "crypto \<Rightarrow> bytes \<Rightarrow> emulator \<Rightarrow> emulator \<Rightarrow> bool" for C random_2 where
  frame: "handle_frame C random_2 em f = Inr (resp, em') \<Longrightarrow> em_step C random_2 em em'"
| power_off: "em_step C random_2 em (power_off em)"
| set_active: "em_step C random_2 em (snd (set_active_system em system_code))"
| polling: "em_step C random_2 em (snd (polling_response em system_code request_code))"

text \<open>Every input moves each system by operations on it: the card refines its systems.\<close>

abbreviation sys_steps :: "crypto \<Rightarrow> bytes \<Rightarrow> emulated_system \<Rightarrow> emulated_system \<Rightarrow> bool" where
  "sys_steps C r \<equiv> (sys_step C r)\<^sup>*\<^sup>*"

definition systems_step :: "crypto \<Rightarrow> bytes \<Rightarrow> emulator \<Rightarrow> emulator \<Rightarrow> bool" where
  "systems_step C r em em' \<longleftrightarrow> list_all2 (sys_steps C r) (em_systems em) (em_systems em')"

lemma systems_step_refl [simp]: "systems_step C r em em"
  by (simp add: systems_step_def list.rel_refl)

lemma systems_step_trans:
  "systems_step C r em em1 \<Longrightarrow> systems_step C r em1 em2 \<Longrightarrow> systems_step C r em em2"
  unfolding systems_step_def by (rule list_all2_trans [of "sys_steps C r" "sys_steps C r" "sys_steps C r"]) auto

lemma systems_step_fields [simp]:
  "systems_step C r em (em'\<lparr>em_active := a\<rparr>) = systems_step C r em em'"
  "systems_step C r em (em'\<lparr>em_store := st\<rparr>) = systems_step C r em em'"
  by (simp_all add: systems_step_def)

lemma systems_step_update:
  assumes "sys_steps C r (em_systems em ! i) y"
  shows "systems_step C r em (update_system em i y)"
proof -
  have "sys_steps C r (em_systems em ! j) ((em_systems em)[i := y] ! j)" if "j < length (em_systems em)" for j
    using assms that by (cases "j = i") auto
  then show ?thesis by (simp add: systems_step_def update_system_def list_all2_conv_all_nth)
qed

lemma sys_steps_reset [simp]: "sys_steps C r y (reset_mode y)"
  by (rule r_into_rtranclp) (rule sys_step.reset)

lemma system_index_for_idm_steps:
  "system_index_for_idm em idm req = (i, em') \<Longrightarrow> systems_step C r em em'"
  by (auto simp: system_index_for_idm_def Let_def systems_step_update split: option.splits if_splits)

lemma system_index_for_polling_steps:
  "system_index_for_polling em code = (i, em') \<Longrightarrow> systems_step C r em em'"
  by (auto simp: system_index_for_polling_def Let_def systems_step_update split: option.splits if_splits)

lemma with_system_steps:
  assumes "with_system em idm req f = Inr (resp, em')"
    and "\<And>i em1. f i (em_systems em1 ! i) em1 = Inr (resp, em') \<Longrightarrow> systems_step C r em1 em'"
  shows "systems_step C r em em'"
proof -
  obtain io em1 where s: "system_index_for_idm em idm req = (io, em1)" by (cases "system_index_for_idm em idm req")
  note 1 = system_index_for_idm_steps [OF s]
  show ?thesis
  proof (cases io)
    case None
    then show ?thesis using assms(1) s 1 by (simp add: with_system_def)
  next
    case (Some i)
    then have "f i (em_systems em1 ! i) em1 = Inr (resp, em')"
      using assms(1) s by (simp add: with_system_def)
    then show ?thesis using 1 assms(2) systems_step_trans by blast
  qed
qed

lemma reply_same: "reply em r = Inr (resp, em') \<Longrightarrow> em' = em"
  by (auto simp: reply_def bindE_eq_Inr)

lemma handle_command_steps:
  assumes "handle_command C r em c = Inr (resp, em')"
  shows "systems_step C r em em'"
  using assms
  by (cases c)
    (auto simp: handle_command_def bindE_eq_Inr Let_def
      dest!: reply_same dest: system_index_for_polling_steps
      elim!: with_system_steps split: prod.splits option.splits if_splits
      intro!: systems_step_update r_into_rtranclp intro: sys_step.intros)


lemma em_handle_secure_frame_steps:
  assumes "em_handle_secure_frame C em code e = Inr (resp, em')"
  shows "systems_step C r em em'"
  using assms
  by (auto simp: em_handle_secure_frame_def bindE_eq_Inr split: option.splits
      intro!: systems_step_update r_into_rtranclp intro: sys_step.intros)

lemma em_step_systems: "em_step C r em em' \<Longrightarrow> systems_step C r em em'"
proof (induction rule: em_step.induct)
  case (frame em f resp em')
  then show ?case
    by (auto simp: handle_frame_def Let_def split: if_splits sum.splits
        dest: em_handle_secure_frame_steps handle_command_steps)
next
  case (power_off em)
  show ?case by (simp add: power_off_def systems_step_def list_all2_map2 list.rel_refl)
next
  case (set_active em code)
  show ?case by (auto simp: set_active_system_def systems_step_update split: option.split)
next
  case (polling em code request_code)
  show ?case
    by (auto simp: polling_response_def Let_def split: prod.split option.split
        dest: system_index_for_polling_steps)
qed

text \<open>A property that every operation on a system keeps is kept by every input of the card.\<close>

lemma em_step_invariant:
  assumes "em_step C r em em'" and "\<And>y y'. sys_step C r y y' \<Longrightarrow> P y \<Longrightarrow> P y'"
    and "i < length (em_systems em)" and "P (em_systems em ! i)"
  shows "i < length (em_systems em') \<and> P (em_systems em' ! i)"
proof -
  have "list_all2 (sys_steps C r) (em_systems em) (em_systems em')"
    using em_step_systems [OF assms(1)] by (simp add: systems_step_def)
  then have l: "length (em_systems em') = length (em_systems em)"
    and s: "sys_steps C r (em_systems em ! i) (em_systems em' ! i)"
    using assms(3) by (auto simp: list_all2_conv_all_nth)
  from s have "P (em_systems em' ! i)"
    using assms(4) by (induction rule: rtranclp_induct) (auto intro: assms(2))
  then show ?thesis using l assms(3) by simp
qed

definition fresh_card :: "emulator \<Rightarrow> bool" where
  "fresh_card em \<longleftrightarrow> (\<forall>y \<in> set (em_systems em).
     sys_mode y = Mode0 \<and> sys_pending y = None \<and> sys_session y = None)"

definition reachable :: "crypto \<Rightarrow> emulator \<Rightarrow> emulator \<Rightarrow> bool" where
  "reachable C = (\<lambda>em em'. \<exists>r. em_step C r em em')\<^sup>*\<^sup>*"

lemma reachable_mode_ok:
  assumes "reachable C em0 em" and "fresh_card em0"
  shows "\<forall>y \<in> set (em_systems em). mode_ok y"
  using assms(1) unfolding reachable_def
proof (induction rule: rtranclp_induct)
  case base
  then show ?case using assms(2) by (auto simp: fresh_card_def mode_ok_def)
next
  case (step em1 em2)
  then obtain r where r: "em_step C r em1 em2" by blast
  then have "length (em_systems em2) = length (em_systems em1)"
    using em_step_systems [OF r] by (auto simp: systems_step_def list_all2_lengthD)
  then show ?case
    using em_step_invariant [OF r, where P = mode_ok] mode_ok_step step.IH
    by (metis in_set_conv_nth)
qed

text \<open>
  C10. In every state the card can reach, whatever frames arrive and however the host switches or powers
  it off, each system is in a consistent mode: nothing pending and no session in Mode0, a pending
  authentication in Mode1, a session that is the one of its pending authentication in Mode2, and Mode3
  is never entered, because the emulator refuses to issue.
\<close>

theorem modes_consistent:
  assumes "reachable C em0 em" and "fresh_card em0" and "y \<in> set (em_systems em)"
  shows "case sys_mode y of
       Mode0 \<Rightarrow> sys_pending y = None \<and> sys_session y = None
     | Mode1 \<Rightarrow> sys_pending y \<noteq> None \<and> sys_session y = None
     | Mode2 \<Rightarrow> (\<exists>p s. sys_pending y = Some p \<and> sys_session y = Some s
         \<and> ss_transaction_key s = pa_random_2 p \<and> ss_service_codes s = pa_service_codes p)
     | Mode3 \<Rightarrow> False"
  using reachable_mode_ok [OF assms(1,2)] assms(3)
  by (auto simp: mode_ok_def split: system_mode.splits)

section \<open>Replay\<close>

definition active_index :: "emulator \<Rightarrow> nat option" where
  "active_index em = (case resolve_active_system_code em of
       None \<Rightarrow> None | Some c \<Rightarrow> position (\<lambda>y. sys_code y = c) (em_systems em))"

lemma position_Some: "position P xs = Some i \<Longrightarrow> i < length xs \<and> P (xs ! i)"
  by (induction xs arbitrary: i) (auto split: if_splits)

lemma active_index_less: "active_index em = Some i \<Longrightarrow> i < length (em_systems em)"
  by (auto simp: active_index_def dest: position_Some split: option.splits)

lemma em_handle_secure_frame_active:
  "active_index em = Some i \<Longrightarrow> em_handle_secure_frame C em code e =
     bindE (handle_secure_frame C (em_systems em ! i) (em_store em) code e) (\<lambda>(f, y', st').
       Inr (f, (update_system em i y')\<lparr>em_store := st'\<rparr>))"
  by (auto simp: em_handle_secure_frame_def active_index_def split: option.splits)

lemma word_less_succ:
  assumes "(w :: u16) + 1 \<noteq> 0"
  shows "w < w + 1"
proof -
  have "unat (w + 1) \<noteq> 0" using assms by (metis unat_eq_zero)
  then have "unat (w + 1) = unat w + 1"
    using unat_u16_less [of w] by (auto simp: unat_word_ariths mod_Suc split: if_splits)
  then show ?thesis by (simp add: word_less_nat_alt)
qed

lemma accepted_is_spent:
  assumes "handle_secure_frame C y st code e = Inr (Some resp, y', st')" and "mode_ok y"
    and "sys_session y = Some s"
  shows "\<exists>d n. decrypt_des_cbc_zero_iv C e (ss_transaction_key s) = Inr d
    \<and> u16_from_le (d ! 0) (d ! 1) < n \<and> spent (ss_transaction_key s) n y'"
proof -
  obtain n p where o: "open_secure_frame C y code e = Some (s, n, p)"
    and y': "y' = y\<lparr>sys_session := Some (s\<lparr>ss_transaction_number := n\<rparr>)\<rparr>"
    using handle_secure_frame_result [OF assms(1)] open_secure_frame_Some(1) assms(3) by fastforce
  obtain d where d: "decrypt_des_cbc_zero_iv C e (ss_transaction_key s) = Inr d"
    "n = u16_from_le (d ! 0) (d ! 1) + 1"
    using open_secure_frame_Some(2) [OF o] by blast
  have "n \<noteq> 0" using open_secure_frame_Some(3) [OF o] by (metis not_less_zero word_zero_le not_le)
  then have "u16_from_le (d ! 0) (d ! 1) < n" using word_less_succ d(2) by simp
  moreover have "mode_ok y'"
    using mode_ok_step [OF sys_step.secure [OF assms(1)] assms(2)] .
  ultimately show ?thesis using d(1) y' by (auto simp: spent_def)
qed


definition inputs_without :: "crypto \<Rightarrow> bytes \<Rightarrow> emulator \<Rightarrow> emulator \<Rightarrow> bool" where
  "inputs_without C key = (\<lambda>em em'. \<exists>r. r \<noteq> key \<and> em_step C r em em')\<^sup>*\<^sup>*"

lemma spent_inputs:
  assumes "inputs_without C key em em'" and "i < length (em_systems em)" and "spent key n (em_systems em ! i)"
  shows "i < length (em_systems em') \<and> spent key n (em_systems em' ! i)"
  using assms(1) unfolding inputs_without_def
proof (induction rule: rtranclp_induct)
  case base
  then show ?case using assms(2,3) by simp
next
  case (step em1 em2)
  then obtain r where "r \<noteq> key" "em_step C r em1 em2" by blast
  then show ?case using em_step_invariant [where P = "spent key n"] spent_step step.IH by blast
qed

lemma secure_frame_dispatch:
  assumes "handle_frame C r em f = Inr (Some resp, em')" and "is_secure_command_code (f ! 1)"
  shows "em_handle_secure_frame C em (f ! 1) (drop 2 f) = Inr (Some resp, em')"
    and "handle_frame C r' em2 f = em_handle_secure_frame C em2 (f ! 1) (drop 2 f)"
  using assms by (auto simp: handle_frame_def Let_def split: if_splits)

text \<open>
  C2. A secure frame is accepted once. After the card answered a secure command of a session, whatever
  happens to the card (frames of any kind, repeated Authentication2, other systems, power cycles), the
  same frame is refused without any effect in every later state whose session has the same key; only
  an Authentication1 that draws the very same key again could revive it.
\<close>

theorem secure_frame_not_replayable:
  assumes "reachable C em0 em" and "fresh_card em0"
    and "active_index em = Some i" and "sys_session (em_systems em ! i) = Some s"
    and "is_secure_command_code (f ! 1)" and "handle_frame C r em f = Inr (Some resp, em1)"
    and "inputs_without C (ss_transaction_key s) em1 em2"
    and "active_index em2 = Some i" and "sys_session (em_systems em2 ! i) = Some s2"
    and "ss_transaction_key s2 = ss_transaction_key s"
  shows "handle_frame C r2 em2 f = Inr (None, em2)"
proof -
  let ?y = "em_systems em ! i" and ?key = "ss_transaction_key s"
  have i: "i < length (em_systems em)" by (rule active_index_less [OF assms(3)])
  have ok: "mode_ok ?y" using reachable_mode_ok [OF assms(1,2)] i by simp
  obtain y' st' where h: "handle_secure_frame C ?y (em_store em) (f ! 1) (drop 2 f) = Inr (Some resp, y', st')"
    and em1: "em1 = (update_system em i y')\<lparr>em_store := st'\<rparr>"
    using secure_frame_dispatch(1) [OF assms(6,5)]
    by (auto simp: em_handle_secure_frame_active [OF assms(3)] bindE_eq_Inr)
  obtain d n where d: "decrypt_des_cbc_zero_iv C (drop 2 f) ?key = Inr d" "u16_from_le (d ! 0) (d ! 1) < n"
    and sp: "spent ?key n y'"
    using accepted_is_spent [OF h ok assms(4)] by blast
  have "i < length (em_systems em1)" "em_systems em1 ! i = y'"
    using i em1 by (simp_all add: update_system_def)
  then have "spent ?key n (em_systems em2 ! i)"
    using spent_inputs [OF assms(7)] sp by simp
  from spent_rejects [OF this assms(9,10) d]
  have "em_handle_secure_frame C em2 (f ! 1) (drop 2 f) = Inr (None, em2)"
    by (simp add: em_handle_secure_frame_active [OF assms(8)] update_system_def)
  then show ?thesis using secure_frame_dispatch(2) [OF assms(6,5)] by simp
qed

section \<open>Witnesses\<close>

lemma after_step: "returns r em f \<Longrightarrow> em_step xor_cipher r em (after r em [f])"
  by (rule em_step.frame) (rule returns_after)

lemma inputs_without_step: "em_step C r em em' \<Longrightarrow> r \<noteq> key \<Longrightarrow> inputs_without C key em em'"
  unfolding inputs_without_def by (rule r_into_rtranclp) (rule exI [of _ r], rule conjI)

lemma demo_reachable: "reachable xor_cipher demo_card demo_session"
proof -
  let ?em1 = "after demo_key demo_card [demo_auth1]"
  have "returns demo_key demo_card demo_auth1" and "returns demo_key ?em1 demo_auth2"
    by code_simp+
  then have "em_step xor_cipher demo_key demo_card ?em1"
    and "em_step xor_cipher demo_key ?em1 (after demo_key ?em1 [demo_auth2])"
    using after_step by blast+
  moreover have "after demo_key ?em1 [demo_auth2] = demo_session" by (simp add: demo_session_def)
  ultimately show ?thesis unfolding reachable_def
    by (metis (mono_tags, lifting) converse_rtranclp_into_rtranclp rtranclp.rtrancl_refl)
qed

lemma demo_fresh: "fresh_card demo_card"
  by code_simp

theorem modes_consistent_witness:
  "\<exists>p s. sys_pending (hd (em_systems demo_session)) = Some p
    \<and> sys_session (hd (em_systems demo_session)) = Some s \<and> ss_transaction_key s = pa_random_2 p"
proof -
  have "hd (em_systems demo_session) \<in> set (em_systems demo_session)"
    and "sys_mode (hd (em_systems demo_session)) = Mode2"
    by code_simp+
  then show ?thesis using modes_consistent [OF demo_reachable demo_fresh] by fastforce
qed

text \<open>The same read twice, with a repeated Authentication2 in between.\<close>

definition demo_read_done :: emulator where
  "demo_read_done = after demo_key demo_session [demo_read]"

definition demo_again :: emulator where
  "demo_again = after (replicate 8 0) demo_read_done [demo_auth2]"

theorem secure_frame_not_replayable_witness:
  "handle_frame xor_cipher demo_key demo_again demo_read = Inr (None, demo_again)"
proof -
  have a: "active_index demo_session = Some 0" "active_index demo_again = Some 0"
    and sec: "is_secure_command_code (demo_read ! 1)"
    and acc: "fst (projr (handle_frame xor_cipher demo_key demo_session demo_read)) \<noteq> None"
    and r: "returns demo_key demo_session demo_read" "returns (replicate 8 0) demo_read_done demo_auth2"
    and k: "map_option ss_transaction_key (sys_session (em_systems demo_session ! 0)) = Some demo_key"
      "map_option ss_transaction_key (sys_session (em_systems demo_again ! 0)) = Some demo_key"
    and ne: "replicate 8 0 \<noteq> demo_key"
    by code_simp+
  obtain s s2 resp where s: "sys_session (em_systems demo_session ! 0) = Some s" "ss_transaction_key s = demo_key"
    and s2: "sys_session (em_systems demo_again ! 0) = Some s2" "ss_transaction_key s2 = demo_key"
    and resp: "fst (projr (handle_frame xor_cipher demo_key demo_session demo_read)) = Some resp"
    using k acc by auto
  have first: "handle_frame xor_cipher demo_key demo_session demo_read = Inr (Some resp, demo_read_done)"
    using returns_after [OF r(1)] unfolding resp demo_read_done_def .
  have "inputs_without xor_cipher (ss_transaction_key s) demo_read_done demo_again"
    unfolding demo_again_def s(2) by (rule inputs_without_step [OF after_step [OF r(2)] ne])
  from secure_frame_not_replayable [OF demo_reachable demo_fresh a(1) s(1) sec first this a(2) s2(1)] s(2) s2(2)
  show ?thesis by simp
qed

section \<open>Mutual authentication\<close>

text \<open>The keys that a reader must hold to authenticate against the given lists.\<close>

definition list_keys :: "crypto \<Rightarrow> emulated_system \<Rightarrow> u16 list \<Rightarrow> u16 list \<Rightarrow> (bytes \<times> bytes) option" where
  "list_keys C y areas services =
     (case (those (map (area_key y) areas), those (map (resolve_service_list_node y) services)) of
        (Some area_keys, Some nodes) \<Rightarrow>
          Some (generate_service_keys_des C (sys_key y) area_keys (keyed_keys nodes))
      | _ \<Rightarrow> None)"

lemma encode_authentication1:
  assumes "length idm = 8" and "length b = 8" and "length a = 8"
  shows "encode_response_frame (RespAuthentication1 idm b a)
    = Inr (Some (u8_of 26 # AUTHENTICATION1_RESPONSE_CODE # idm @ b @ a))"
  using assms
  by (simp add: encode_response_frame_def response_to_frame_def frame_with_length_prefix_def
      Payload.response_def)

lemma encode_authentication2:
  assumes "length e = 32"
  shows "encode_response_frame (RespAuthentication2 e)
    = Inr (Some (u8_of 34 # AUTHENTICATION2_RESPONSE_CODE # e))"
  using assms
  by (simp add: encode_response_frame_def response_to_frame_def frame_with_length_prefix_def)

lemma authentication2_sealed:
  assumes "crypto_ok C" and "length key = 8" and "length tid = 6" and "length idi = 8" and "length pmi = 8"
  shows "\<exists>e. encrypt_authentication2_payload C (build_authentication2_payload n tid idi pmi) key = Some e
    \<and> length e = 32"
proof -
  let ?p = "build_authentication2_payload n tid idi pmi"
  have p: "length ?p = 24" "?p \<noteq> []" using assms by (auto simp: build_authentication2_payload_def u16_to_le_def)
  then have pad: "pad_to_des_block_size ?p = ?p" by (simp add: pad_id)
  obtain mac where m: "calculate_command_mac_des C 0x13 ?p = Inr mac"
    using p by (simp add: calculate_mac_chain)
  have "\<forall>c \<in> set (chunks 8 ?p). length c = 8" using chunks_lengths [of ?p 8] p by simp
  from mac_chain_inverse(1) [OF assms(1) this, of "mac_preimage 34 0x13"] m p
  have l: "length mac = 8" by (simp add: calculate_mac_chain)
  then obtain e where e: "encrypt_des_cbc_zero_iv C (?p @ mac) key = Inr e"
    using p by (simp add: encrypt_des_cbc_zero_iv_def)
  then have "seal C 0x13 ?p key = Inr e" using m pad by (simp add: seal_def)
  then show ?thesis using cbc_inverse(1) [OF assms(1,2) e] l p
    by (simp add: encrypt_authentication2_payload_def)
qed

lemma authentication1_answered:
  assumes "crypto_ok C" and "length idm = 8" and "length r1 = 8" and "length r2 = 8"
    and "area_list_well_formed y areas" and "service_list_well_formed y services"
    and "list_keys C y areas services = Some (g, u)" and "length g = 8" and "length u = 8"
    and "x = authentication_context_new C idm g u"
  shows "handle_authentication1 C r2 y idm areas services (encrypt_challenge1a C x r1) =
      Inr (Some (u8_of 26 # AUTHENTICATION1_RESPONSE_CODE # idm @ encrypt_challenge1b C x r1
        @ encrypt_challenge2a C x r2),
        y\<lparr>sys_pending := Some \<lparr>pa_context = x, pa_random_1 = r1, pa_random_2 = r2,
          pa_service_codes = map ServiceCode services\<rparr>, sys_session := None, sys_mode := Mode1\<rparr>)"
proof -
  have len: "length (ac_l x) = 8" "length (ac_alpha x) = 8" "length (ac_beta x) = 8"
    using context_lengths [OF assms(1,2,8,9)] assms(10) by simp_all
  have r1: "decrypt_challenge1a C x (encrypt_challenge1a C x r1) = r1"
    using tdes_inverse(2) [OF assms(1) len(2,1) assms(3)]
    by (simp add: decrypt_challenge1a_def encrypt_challenge1a_def)
  have b: "length (encrypt_challenge1b C x r1) = 8" "length (encrypt_challenge2a C x r2) = 8"
    using tdes_inverse(1) [OF assms(1)] len assms(3,4)
    by (simp_all add: encrypt_challenge1b_def encrypt_challenge2a_def)
  obtain ak ns where k: "those (map (area_key y) areas) = Some ak"
    "those (map (resolve_service_list_node y) services) = Some ns"
    "generate_service_keys_des C (sys_key y) ak (keyed_keys ns) = (g, u)"
    using assms(7) by (auto simp: list_keys_def split: option.splits)
  show ?thesis
    unfolding handle_authentication1_def Let_def k option.case prod.case
    using assms(5,6) by (simp add: assms(10) [symmetric] r1 encode_authentication1 assms(2) b)
qed

lemma authentication2_accepted:
  assumes "sys_pending y = Some p" and "sys_session y = None" and "length e = 32"
    and "encrypt_authentication2_payload C (build_authentication2_payload 0 (take 6 (drop 2 (pa_random_1 p)))
      (sys_idi y) (sys_pmi y)) (pa_random_2 p) = Some e"
  shows "handle_authentication2 C y (encrypt_challenge2b C (pa_context p) (pa_random_2 p)) =
      Inr (Some (u8_of 34 # AUTHENTICATION2_RESPONSE_CODE # e),
        y\<lparr>sys_session := Some \<lparr>ss_transaction_number = 0,
            ss_transaction_id = take 6 (drop 2 (pa_random_1 p)), ss_transaction_key = pa_random_2 p,
            ss_service_codes = pa_service_codes p\<rparr>, sys_mode := Mode2\<rparr>)"
  using assms by (simp add: handle_authentication2_def ct_eq_def encode_authentication2)

text \<open>
  A reader that holds the keys is authenticated: if the lists are well formed and the reader's
  context comes from the keys they name, the card answers challenge 1A with the two challenges the
  reader expects, accepts the reader's answer to its own challenge, and ends in Mode2 with a session
  whose key is the card's random number, whose transaction ID is the tail of the reader's, and whose
  services are exactly those of the service list.
\<close>

theorem authentication_completes:
  assumes "crypto_ok C" and "length idm = 8" and "length r1 = 8" and "length r2 = 8"
    and "length (sys_idi y) = 8" and "length (sys_pmi y) = 8"
    and "area_list_well_formed y areas" and "service_list_well_formed y services"
    and "list_keys C y areas services = Some (g, u)" and "length g = 8" and "length u = 8"
    and "x = authentication_context_new C idm g u"
  shows "\<exists>y1 f2 y2 s.
    handle_authentication1 C r2 y idm areas services (encrypt_challenge1a C x r1) =
      Inr (Some (u8_of 26 # AUTHENTICATION1_RESPONSE_CODE # idm @ encrypt_challenge1b C x r1
        @ encrypt_challenge2a C x r2), y1)
    \<and> handle_authentication2 C y1 (encrypt_challenge2b C x r2) = Inr (Some f2, y2)
    \<and> sys_mode y2 = Mode2 \<and> sys_session y2 = Some s \<and> ss_transaction_key s = r2
    \<and> ss_transaction_id s = take 6 (drop 2 r1) \<and> ss_transaction_number s = 0
    \<and> ss_service_codes s = map ServiceCode services"
proof -
  let ?tid = "take 6 (drop 2 r1)"
  obtain e where e: "encrypt_authentication2_payload C
      (build_authentication2_payload 0 ?tid (sys_idi y) (sys_pmi y)) r2 = Some e" "length e = 32"
    using authentication2_sealed [OF assms(1,4) _ assms(5,6), of ?tid 0] assms(3) by auto
  let ?p = "\<lparr>pa_context = x, pa_random_1 = r1, pa_random_2 = r2, pa_service_codes = map ServiceCode services\<rparr>"
  have "handle_authentication2 C (y\<lparr>sys_pending := Some ?p, sys_session := None, sys_mode := Mode1\<rparr>)
      (encrypt_challenge2b C x r2) = Inr (Some (u8_of 34 # AUTHENTICATION2_RESPONSE_CODE # e),
        y\<lparr>sys_pending := Some ?p, sys_session := Some \<lparr>ss_transaction_number = 0, ss_transaction_id = ?tid,
          ss_transaction_key = r2, ss_service_codes = map ServiceCode services\<rparr>, sys_mode := Mode2\<rparr>)"
    using authentication2_accepted [of "y\<lparr>sys_pending := Some ?p, sys_session := None, sys_mode := Mode1\<rparr>" ?p e C] e
    by simp
  with authentication1_answered [OF assms(1-4,7-12)] show ?thesis by fastforce
qed

text \<open>How the resolution of a system changes it: not at all, or by a reset.\<close>

lemma list_update_same: "xs[k := g (xs ! k)] ! i = xs ! i \<or> xs[k := g (xs ! k)] ! i = g (xs ! i)"
  by (cases "i = k"; cases "k < length xs") (auto simp: list_update_beyond)

definition reset_one :: "emulator \<Rightarrow> emulator \<Rightarrow> bool" where
  "reset_one em em' \<longleftrightarrow> em_systems em' = em_systems em
     \<or> (\<exists>k. em_systems em' = (em_systems em)[k := reset_mode (em_systems em ! k)])"

lemma reset_one_at:
  assumes "reset_one em em'"
  shows "em_systems em' ! i = em_systems em ! i \<or> em_systems em' ! i = reset_mode (em_systems em ! i)"
  using assms list_update_same unfolding reset_one_def by metis

lemma system_index_for_idm_reset: "system_index_for_idm em idm req = (io, em') \<Longrightarrow> reset_one em em'"
  by (auto simp: reset_one_def system_index_for_idm_def update_system_def Let_def
      split: option.splits if_splits)

lemma system_index_for_polling_reset: "system_index_for_polling em code = (io, em') \<Longrightarrow> reset_one em em'"
  by (auto simp: reset_one_def system_index_for_polling_def update_system_def Let_def
      split: option.splits if_splits)

lemma system_index_for_idm_addressed:
  assumes "system_index_for_idm em idm req = (Some k, em')"
  shows "k < length (em_systems em) \<and> sys_idm (em_systems em ! k) = idm
    \<and> mode_permits (sys_mode (em_systems em' ! k)) req"
  using assms
  by (auto simp: system_index_for_idm_def Let_def split: option.splits if_splits dest: position_Some)

text \<open>\<open>no_new\<close>: no system gains a session.\<close>

definition no_new :: "nat \<Rightarrow> emulator \<Rightarrow> emulator \<Rightarrow> bool" where
  "no_new i em em' \<longleftrightarrow> (sys_session (em_systems em ! i) = None \<longrightarrow> sys_session (em_systems em' ! i) = None)"

lemma no_new_trans: "no_new i a b \<Longrightarrow> no_new i b c \<Longrightarrow> no_new i a c"
  by (simp add: no_new_def)

lemma no_new_refl [simp]: "no_new i em em"
  and no_new_fields [simp]: "no_new i em (em'\<lparr>em_store := st\<rparr>) = no_new i em em'"
  by (simp_all add: no_new_def)

lemma no_new_idm: "system_index_for_idm em idm req = (io, em') \<Longrightarrow> no_new i em em'"
  using reset_one_at [OF system_index_for_idm_reset, of em idm req io em' i]
  by (auto simp: no_new_def reset_mode_def)

lemma no_new_polling: "system_index_for_polling em code = (io, em') \<Longrightarrow> no_new i em em'"
  using reset_one_at [OF system_index_for_polling_reset, of em code io em' i]
  by (auto simp: no_new_def reset_mode_def)

lemma no_new_update:
  assumes "sys_session (em_systems em ! k) = None \<Longrightarrow> sys_session y = None"
  shows "no_new i em (update_system em k y)"
  using assms by (cases "i = k"; cases "k < length (em_systems em)")
    (auto simp: no_new_def update_system_def list_update_beyond)

lemma no_new_with_system:
  assumes "with_system em idm req f = Inr (resp, em')"
    and "\<And>k em1. f k (em_systems em1 ! k) em1 = Inr (resp, em') \<Longrightarrow> no_new i em1 em'"
  shows "no_new i em em'"
  using assms no_new_idm [of em idm req] no_new_trans
  by (fastforce simp: with_system_def split: prod.splits option.splits)

lemma authentication1_no_session:
  "handle_authentication1 C r y idm areas services ch = Inr (f, y') \<Longrightarrow> sys_session y = None
    \<Longrightarrow> sys_session y' = None"
  using handle_authentication1_result by fastforce

lemma secure_frame_no_session:
  "handle_secure_frame C y st code e = Inr (f, y', st') \<Longrightarrow> sys_session y = None
    \<Longrightarrow> sys_session y' = None"
  using handle_secure_frame_result open_secure_frame_Some(1) by fastforce

lemma handle_command_no_new:
  assumes "handle_command C r em c = Inr (resp, em')" and "\<forall>idm ch. c \<noteq> CmdAuthentication2 idm ch"
  shows "no_new i em em'"
  using assms
  by (cases c)
    (auto simp: handle_command_def bindE_eq_Inr Let_def reset_mode_def
      dest!: reply_same dest: no_new_polling authentication1_no_session
      elim!: no_new_with_system split: prod.splits option.splits if_splits
      intro!: no_new_update)

text \<open>
  C4. Sessions are opened by proof only. If any frame gives a system of the card a session that it did
  not have, then the frame is an Authentication2 addressed to that system, which had an
  Authentication1 pending, and its answer is the encryption of the card's own challenge under the keys
  of that authentication.
\<close>

theorem session_needs_proof:
  assumes "handle_frame C r em f = Inr (resp, em')"
    and "sys_session (em_systems em ! i) = None" and "sys_session (em_systems em' ! i) \<noteq> None"
  shows "\<exists>p. sys_pending (em_systems em ! i) = Some p \<and> parse_frame f =
    Inr (CmdAuthentication2 (sys_idm (em_systems em ! i))
      (encrypt_challenge2b C (pa_context p) (pa_random_2 p)))"
proof -
  have new: "\<not> no_new i em em'" using assms(2,3) by (simp add: no_new_def)
  have "\<not> is_secure_command_code (f ! 1)"
  proof
    assume "is_secure_command_code (f ! 1)"
    then have "no_new i em em'"
      using assms(1) secure_frame_no_session
      by (auto simp: handle_frame_def em_handle_secure_frame_def bindE_eq_Inr Let_def
          split: if_splits option.splits intro!: no_new_update)
    then show False using new by simp
  qed
  then obtain c where c: "parse_frame f = Inr c" "handle_command C r em c = Inr (resp, em')"
    using assms(1) new by (auto simp: handle_frame_def Let_def split: if_splits sum.splits)
  then obtain idm ch where auth: "c = CmdAuthentication2 idm ch"
    using handle_command_no_new new by blast
  obtain k em1 y' where s: "system_index_for_idm em idm AuthenticationStarted = (Some k, em1)"
    and h: "handle_authentication2 C (em_systems em1 ! k) ch = Inr (resp, y')" and em': "em' = update_system em1 k y'"
    using c(2) new no_new_idm unfolding auth
    by (fastforce simp: handle_command_def with_system_def bindE_eq_Inr split: prod.splits option.splits)
  have ik: "i = k" and y': "y' \<noteq> em_systems em1 ! k"
    using assms(2,3) em' no_new_idm [OF s, of i]
    by (cases "i = k"; auto simp: update_system_def no_new_def nth_list_update)+
  obtain p where p: "sys_pending (em_systems em1 ! k) = Some p"
      "ch = encrypt_challenge2b C (pa_context p) (pa_random_2 p)"
    using handle_authentication2_result [OF h] y' by blast
  have "em_systems em1 ! k = em_systems em ! k"
    using reset_one_at [OF system_index_for_idm_reset [OF s], of k] p(1) by (auto simp: reset_mode_def)
  then show ?thesis using p c(1) auth ik system_index_for_idm_addressed [OF s] by auto
qed

theorem authentication_completes_witness:
  "\<exists>y1 f2 y2. handle_authentication1 xor_cipher demo_key demo_system [1, 2, 3, 4, 5, 6, 7, 8] [0] [0x1048]
      (encrypt_challenge1a xor_cipher demo_context demo_random_1) = Inr (Some (u8_of 26 # 0x11 #
        [1, 2, 3, 4, 5, 6, 7, 8] @ encrypt_challenge1b xor_cipher demo_context demo_random_1
        @ encrypt_challenge2a xor_cipher demo_context demo_key), y1)
    \<and> handle_authentication2 xor_cipher y1 (encrypt_challenge2b xor_cipher demo_context demo_key)
      = Inr (Some f2, y2) \<and> sys_mode y2 = Mode2"
proof -
  have k: "list_keys xor_cipher demo_system [0] [0x1048] = Some (replicate 8 0x11, replicate 8 0x11)"
    and wf: "area_list_well_formed demo_system [0]" "service_list_well_formed demo_system [0x1048]"
    and x: "demo_context = authentication_context_new xor_cipher [1, 2, 3, 4, 5, 6, 7, 8] (replicate 8 0x11) (replicate 8 0x11)"
    and l: "length demo_random_1 = 8" "length demo_key = 8" "length (sys_idi demo_system) = 8"
      "length (sys_pmi demo_system) = 8"
    by code_simp+
  show ?thesis
    using authentication_completes [OF xor_cipher_ok _ l wf k _ _ x] by auto
qed

theorem session_needs_proof_witness:
  "\<exists>p. sys_pending (em_systems (after demo_key demo_card [demo_auth1]) ! 0) = Some p \<and>
    parse_frame demo_auth2 = Inr (CmdAuthentication2 [1, 2, 3, 4, 5, 6, 7, 8]
      (encrypt_challenge2b xor_cipher (pa_context p) (pa_random_2 p)))"
proof -
  let ?em = "after demo_key demo_card [demo_auth1]"
  have r: "returns demo_key ?em demo_auth2" and i: "sys_idm (em_systems ?em ! 0) = [1, 2, 3, 4, 5, 6, 7, 8]"
    and none: "sys_session (em_systems ?em ! 0) = None"
    and some: "sys_session (em_systems (after demo_key ?em [demo_auth2]) ! 0) \<noteq> None"
    by code_simp+
  show ?thesis
    using session_needs_proof [OF returns_after [OF r] none some] unfolding i .
qed

end
