(* ===== verification/Block_Access.thy ===== *)
theory Block_Access
  imports Demo_Card
begin

text \<open>
  Reads and writes of the emulated card: which blocks they reach, what they store, and that the
  staged, run-wise write of \<open>apply_block_writes\<close> is all or nothing, keeps the store well formed and
  never runs into a panic.
\<close>

section \<open>Well-formed systems\<close>

text \<open>
  What the builders establish: a well-formed tree whose services share a block vector exactly when
  they overlap, at allocated addresses, and blocks of sixteen bytes.
\<close>

definition overlaps_shared :: "emulated_service list \<Rightarrow> bool" where
  "overlaps_shared ss \<longleftrightarrow> (\<forall>s \<in> set ss. \<forall>t \<in> set ss.
     (code_number (es_code s) = code_number (es_code t) \<longleftrightarrow> es_blocks s = es_blocks t)
     \<and> (code_number (es_code s) = code_number (es_code t) \<longrightarrow> code_kind (es_code s) = code_kind (es_code t)))"

definition block_inv :: "nat \<Rightarrow> block list \<Rightarrow> bool" where
  "block_inv n bs \<longleftrightarrow> length bs = n \<and> (\<forall>b \<in> set bs. length b = 16)"

definition wf_tree :: "emulated_system \<Rightarrow> store \<Rightarrow> bool" where
  "wf_tree y st \<longleftrightarrow> wf_area (sys_root y) \<and> overlaps_shared (services_of (sys_root y))
     \<and> list_all (\<lambda>s. es_blocks s < length st) (services_of (sys_root y))
     \<and> list_all (\<lambda>bs. list_all (\<lambda>b. length b = 16) bs) st"

lemma wf_tree_blocks: "wf_tree y st \<Longrightarrow> block_inv (length (blocks_at st a)) (blocks_at st a)"
  by (auto simp: wf_tree_def block_inv_def blocks_at_def list_all_iff)

lemma find_service_in_tree:
  "sys_find_service y code = Some s \<Longrightarrow> s \<in> set (services_of (sys_root y)) \<and> es_code s = code"
  using find_service_Some by (simp add: sys_find_service_def)

lemma wf_tree_shared:
  assumes "wf_tree y st" and "s \<in> set (services_of (sys_root y))" and "t \<in> set (services_of (sys_root y))"
  shows "code_number (es_code s) = code_number (es_code t) \<longleftrightarrow> es_blocks s = es_blocks t"
  using assms by (auto simp: wf_tree_def overlaps_shared_def)

lemma wf_tree_address: "wf_tree y st \<Longrightarrow> s \<in> set (services_of (sys_root y)) \<Longrightarrow> es_blocks s < length st"
  by (auto simp: wf_tree_def list_all_iff)

section \<open>Reads\<close>

lemma read_block_ok:
  assumes "read_block y st codes raf e = Inr b"
  shows "\<exists>code s. nth_opt codes (unat (service_code_list_index (snd e))) = Some code
    \<and> sys_find_service y code = Some s \<and> (raf \<longrightarrow> \<not> requires_key code)
    \<and> unat (block_number_or_key_version (snd e)) < length (blocks_at st (es_blocks s))
    \<and> b = blocks_at st (es_blocks s) ! unat (block_number_or_key_version (snd e))"
  using assms
  by (auto simp: read_block_def validate_read_block_def bindE_eq_Inr ok_or_eq_Inr nth_opt_eq_Some
      validate_block_element_def Let_def
      split: option.splits if_splits access_type.splits)

lemma read_block_no_panic: "read_block y st codes raf e \<noteq> Inl (AccessPanic m)"
proof
  assume "read_block y st codes raf e = Inl (AccessPanic m)"
  then show False
    by (auto simp: read_block_def validate_read_block_def bindE_eq_Inr bindE_eq_Inl flags_error_def
        map_err_Inl validate_block_element_def Let_def
        split: option.splits if_splits access_type.splits)
qed

lemma mapE_Inl: "mapE f xs = Inl e \<Longrightarrow> \<exists>x \<in> set xs. f x = Inl e"
  by (induction xs) (auto simp: bindE_eq_Inl bindE_eq_Inr)

lemma read_blocks_no_panic: "read_blocks y st codes bl raf \<noteq> Inl (AccessPanic m)"
  unfolding read_blocks_def using read_block_no_panic by (fastforce dest!: mapE_Inl)

text \<open>
  A successful read returns, for every element of the block list in order, the block that the
  element names: the service it selects from the service list exists in the system, the block number
  is inside that service, and an unencrypted read has reached only services that need no key.
\<close>

theorem read_returns_named_blocks:
  assumes "read_blocks y st codes bl raf = Inr bs"
  shows "length bs = length bl \<and> (\<forall>i < length bl. \<exists>code s.
      nth_opt codes (unat (service_code_list_index (bl ! i))) = Some code
      \<and> sys_find_service y code = Some s \<and> (raf \<longrightarrow> \<not> requires_key code)
      \<and> unat (block_number_or_key_version (bl ! i)) < length (blocks_at st (es_blocks s))
      \<and> bs ! i = blocks_at st (es_blocks s) ! unat (block_number_or_key_version (bl ! i)))"
proof (intro conjI allI impI)
  show "length bs = length bl" using assms mapE_length unfolding read_blocks_def by fastforce
  fix i assume "i < length bl"
  then have "read_block y st codes raf (i, bl ! i) = Inr (bs ! i)"
    using mapE_nth [OF assms [unfolded read_blocks_def], of i] by (simp add: nth_enumerate_eq)
  from read_block_ok [OF this] show "\<exists>code s.
      nth_opt codes (unat (service_code_list_index (bl ! i))) = Some code
      \<and> sys_find_service y code = Some s \<and> (raf \<longrightarrow> \<not> requires_key code)
      \<and> unat (block_number_or_key_version (bl ! i)) < length (blocks_at st (es_blocks s))
      \<and> bs ! i = blocks_at st (es_blocks s) ! unat (block_number_or_key_version (bl ! i))"
    by simp
qed

section \<open>Planning writes\<close>

definition planned_ok :: "emulated_system \<Rightarrow> store \<Rightarrow> planned \<Rightarrow> bool" where
  "planned_ok y st p \<longleftrightarrow> length (snd p) = 16
     \<and> code_attribute (vb_service_code (fst p)) = Some (vb_attribute (fst p))
     \<and> allows_write (vb_attribute (fst p))
     \<and> (\<exists>s. sys_find_service y (vb_service_code (fst p)) = Some s
       \<and> vb_block_number (fst p) < length (blocks_at st (es_blocks s)))"

lemma plan_write_ok:
  assumes "plan_write y st codes data raf e = Inr p"
  shows "planned_ok y st p" and "vb_service_code (fst p) \<in> set codes"
    and "raf \<Longrightarrow> \<not> requires_key (vb_service_code (fst p))"
    and "vb_block_number (fst p) = unat (block_number_or_key_version (snd e))"
    and "nth_opt codes (unat (service_code_list_index (snd e))) = Some (vb_service_code (fst p))"
    and "snd p = take 16 (drop (16 * fst e) data)"
  using assms
  by (auto simp: plan_write_def bindE_eq_Inr ok_or_eq_Inr slice_opt_eq_Some validate_block_element_def
      planned_ok_def Let_def nth_opt_eq_Some mult.commute
      split: option.splits if_splits access_type.splits)

lemma plan_write_no_panic:
  assumes "16 * fst e + 16 \<le> length data"
  shows "plan_write y st codes data raf e \<noteq> Inl (AccessPanic m)"
  using assms
  by (auto simp: plan_write_def bindE_eq_Inl map_err_Inl flags_error_def slice_opt_def ok_or_def)

section \<open>Runs\<close>

definition run_inv :: "nat \<Rightarrow> planned list \<Rightarrow> bool" where
  "run_inv n run \<longleftrightarrow> (\<forall>p \<in> set run. vb_block_number (fst p) < n \<and> length (snd p) = 16)"

text \<open>A write that neither panics nor breaks the vector.\<close>

fun good :: "nat \<Rightarrow> access_error + block list \<Rightarrow> bool" where
  "good n (Inr bs) \<longleftrightarrow> block_inv n bs"
| "good n (Inl (Flags _ _)) \<longleftrightarrow> True"
| "good n (Inl (AccessPanic _)) \<longleftrightarrow> False"

lemma good_Inl_map: "good n (Inl (flags_error f))"
  by (simp add: flags_error_def)

lemma block_inv_update: "block_inv n bs \<Longrightarrow> length b = 16 \<Longrightarrow> block_inv n (bs[i := b])"
  using set_update_subset_insert [of bs i b] by (auto simp: block_inv_def)

lemma good_set_block: "block_inv n bs \<Longrightarrow> i < n \<Longrightarrow> length b = 16 \<Longrightarrow> good n (set_block bs i b)"
  by (simp add: set_block_def block_inv_update) (simp add: block_inv_def)

lemma good_foldE:
  assumes "block_inv n bs" and "run_inv n run"
    and "\<And>bs p. block_inv n bs \<Longrightarrow> vb_block_number (fst p) < n \<Longrightarrow> length (snd p) = 16 \<Longrightarrow> good n (f bs p)"
  shows "good n (foldE f bs run)"
  using assms(1,2)
proof (induction run arbitrary: bs)
  case (Cons p run)
  then have "good n (f bs p)" using assms(3) by (simp add: run_inv_def)
  then show ?case using Cons by (cases "f bs p") (auto simp: run_inv_def)
qed simp

lemma good_write_random:
  "block_inv n bs \<Longrightarrow> vb_block_number (fst p) < n \<Longrightarrow> length (snd p) = 16 \<Longrightarrow> good n (write_random bs p)"
  by (simp add: write_random_def good_set_block)

lemma good_write_purse:
  assumes "block_inv n bs" and "vb_block_number (fst p) < n" and "length (snd p) = 16"
  shows "good n (write_purse bs p)"
proof (cases "purse_resolve (vb_attribute (fst p)) (vb_access_mode (fst p))")
  case (Inl e)
  then show ?thesis by (simp add: write_purse_def)
next
  case (Inr op)
  have stored: "nth_opt bs (vb_block_number (fst p)) = Some (bs ! vb_block_number (fst p))"
    and len: "length (bs ! vb_block_number (fst p)) = 16"
    using assms(1,2) by (auto simp: block_inv_def)
  then show ?thesis
    using Inr assms purse_write_length [OF _ len assms(3)]
    by (auto simp: write_purse_def good_set_block split: sum.splits option.splits)
qed

lemma good_write_cyclic:
  assumes "block_inv n bs" and "run_inv n run"
  shows "good n (write_cyclic bs run)"
  using assms
  by (auto simp: write_cyclic_def apply_cyclic_write_def block_inv_def run_inv_def
      dest: in_set_takeD split: option.splits)

lemma good_apply_run:
  assumes "block_inv n bs" and "run_inv n run"
  shows "good n (apply_run bs run)"
  using assms good_write_cyclic good_foldE [of n bs run write_random] good_foldE [of n bs run write_purse]
    good_write_random good_write_purse
  by (auto simp: apply_run_def split: service_kind.split)

section \<open>Staging and committing\<close>

text \<open>
  What staging establishes and the runs keep: every staged vector belongs to a service of the tree
  with that number, lies in the store, and still has its length and its blocks of sixteen bytes.
\<close>

definition staged_ok :: "emulated_system \<Rightarrow> store \<Rightarrow> staged \<Rightarrow> bool" where
  "staged_ok y st sg \<longleftrightarrow> (\<forall>n a bs. sg n = Some (a, bs) \<longrightarrow> block_inv (length (blocks_at st a)) bs
     \<and> (\<exists>s \<in> set (services_of (sys_root y)). code_number (es_code s) = n \<and> es_blocks s = a))"

lemma staged_okD:
  assumes "staged_ok y st sg" and "sg n = Some (a, bs)"
  shows "block_inv (length (blocks_at st a)) bs"
    and "\<exists>s \<in> set (services_of (sys_root y)). code_number (es_code s) = n \<and> es_blocks s = a"
  using assms unfolding staged_ok_def by blast+

lemma staged_ok_address:
  assumes "wf_tree y st" and "staged_ok y st sg" and "sg n = Some (a, bs)"
    and "t \<in> set (services_of (sys_root y))" and "code_number (es_code t) = n"
  shows "es_blocks t = a"
  using staged_okD(2) [OF assms(2,3)] wf_tree_shared [OF assms(1)] assms(4,5) by metis

lemma staged_ok_injective:
  assumes "wf_tree y st" and "staged_ok y st sg" and "sg n = Some (a, bs)" and "sg m = Some (a, cs)"
  shows "n = m"
  using staged_okD(2) [OF assms(2,3)] staged_okD(2) [OF assms(2,4)] wf_tree_shared [OF assms(1)] by metis

lemma staged_ok_update:
  "staged_ok y st sg \<Longrightarrow> sg n = Some (a, bs) \<Longrightarrow> block_inv (length (blocks_at st a)) bs'
    \<Longrightarrow> staged_ok y st (sg(n \<mapsto> (a, bs')))"
  by (simp add: staged_ok_def)

text \<open>Staging covers the planned services and copies their vectors.\<close>

lemma stage_ok:
  assumes "stage y st sg p = Inr sg'" and "wf_tree y st"
    and "staged_ok y st sg \<and> (\<forall>n a bs. sg n = Some (a, bs) \<longrightarrow> bs = blocks_at st a)"
  shows "staged_ok y st sg' \<and> (\<forall>n a bs. sg' n = Some (a, bs) \<longrightarrow> bs = blocks_at st a)"
    and "dom sg' = insert (planned_number p) (dom sg)"
proof -
  show "dom sg' = insert (planned_number p) (dom sg)"
    using assms(1) by (auto simp: stage_def bindE_eq_Inr split: if_splits)
  show "staged_ok y st sg' \<and> (\<forall>n a bs. sg' n = Some (a, bs) \<longrightarrow> bs = blocks_at st a)"
  proof (cases "sg' = sg")
    case False
    then obtain s where s: "sys_find_service y (vb_service_code (fst p)) = Some s"
        "sg' = sg(planned_number p \<mapsto> (es_blocks s, blocks_at st (es_blocks s)))"
      using assms(1) by (auto simp: stage_def bindE_eq_Inr ok_or_eq_Inr split: if_splits)
    have "s \<in> set (services_of (sys_root y))" "code_number (es_code s) = planned_number p"
      using find_service_in_tree [OF s(1)] by (simp_all add: planned_number_def)
    then show ?thesis using assms(3) wf_tree_blocks [OF assms(2)] s(2) unfolding staged_ok_def by auto
  qed (use assms(3) in simp)
qed

lemma stages_ok:
  assumes "foldE (stage y st) sg ps = Inr sg'" and "wf_tree y st"
    and "staged_ok y st sg" and "\<forall>n a bs. sg n = Some (a, bs) \<longrightarrow> bs = blocks_at st a"
  shows "staged_ok y st sg' \<and> (\<forall>n a bs. sg' n = Some (a, bs) \<longrightarrow> bs = blocks_at st a)
    \<and> dom sg' = planned_number ` set ps \<union> dom sg"
  using assms
proof (induction ps arbitrary: sg)
  case (Cons p ps)
  then obtain sg1 where 1: "stage y st sg p = Inr sg1" "foldE (stage y st) sg1 ps = Inr sg'"
    by (auto simp: bindE_eq_Inr)
  note ok = stage_ok [OF 1(1) Cons.prems(2)]
  show ?case using Cons.IH [OF 1(2) Cons.prems(2)] ok Cons.prems by auto
qed auto

lemma stages_total:
  assumes "\<forall>p \<in> set ps. planned_ok y st p"
  shows "\<exists>sg'. foldE (stage y st) sg ps = Inr sg'"
  using assms
  by (induction ps arbitrary: sg) (auto simp: stage_def planned_ok_def)

text \<open>A planned write fits the vector that is staged for it.\<close>

definition fits :: "store \<Rightarrow> staged \<Rightarrow> planned \<Rightarrow> bool" where
  "fits st sg p \<longleftrightarrow> length (snd p) = 16 \<and> (\<exists>a bs. sg (planned_number p) = Some (a, bs)
     \<and> vb_block_number (fst p) < length (blocks_at st a))"

lemma planned_fits:
  assumes "wf_tree y st" and "staged_ok y st sg" and "planned_ok y st p" and "planned_number p \<in> dom sg"
  shows "fits st sg p"
proof -
  obtain s where s: "sys_find_service y (vb_service_code (fst p)) = Some s"
      "vb_block_number (fst p) < length (blocks_at st (es_blocks s))" "length (snd p) = 16"
    using assms(3) by (auto simp: planned_ok_def)
  obtain a bs where a: "sg (planned_number p) = Some (a, bs)" using assms(4) by auto
  have "es_blocks s = a"
    using staged_ok_address [OF assms(1,2) a] find_service_in_tree [OF s(1)] by (simp add: planned_number_def)
  then show ?thesis using s a by (auto simp: fits_def)
qed

lemma fits_update: "fits st sg p \<Longrightarrow> sg n = Some (a, bs) \<Longrightarrow> fits st (sg(n \<mapsto> (a, bs'))) p"
  by (auto simp: fits_def)

lemma run_of_fits:
  assumes "\<forall>q \<in> set (p # rest). fits st sg q" and "sg (planned_number p) = Some (a, bs)"
  shows "run_inv (length (blocks_at st a)) (p # takeWhile (\<lambda>q. planned_number q = planned_number p) rest)"
  using assms set_takeWhileD by (fastforce simp: run_inv_def fits_def)

lemma apply_runs_ok:
  assumes "staged_ok y st sg" and "\<forall>p \<in> set ps. fits st sg p"
  shows "case apply_runs sg ps of
      Inr sg' \<Rightarrow> staged_ok y st sg' \<and> dom sg' = dom sg
        \<and> (\<forall>n. map_option fst (sg' n) = map_option fst (sg n))
        \<and> (\<forall>n. n \<notin> planned_number ` set ps \<longrightarrow> sg' n = sg n)
    | Inl e \<Rightarrow> \<exists>a b. e = Flags a b"
  using assms
proof (induction sg ps rule: apply_runs.induct)
  case (2 sg p rest)
  let ?n = "planned_number p" let ?run = "p # takeWhile (\<lambda>q. planned_number q = ?n) rest"
  let ?rest = "dropWhile (\<lambda>q. planned_number q = ?n) rest"
  obtain a bs where a: "sg ?n = Some (a, bs)" using "2.prems"(2) by (auto simp: fits_def)
  have good: "good (length (blocks_at st a)) (apply_run bs ?run)"
    by (rule good_apply_run [OF staged_okD(1) [OF "2.prems"(1) a] run_of_fits [OF "2.prems"(2) a]])
  show ?case
  proof (cases "apply_run bs ?run")
    case (Inl e)
    then show ?thesis using good a by (cases e) (simp_all add: Let_def)
  next
    case (Inr bs')
    let ?sg = "sg(?n \<mapsto> (a, bs'))"
    have ok: "staged_ok y st ?sg" using staged_ok_update [OF "2.prems"(1) a] good Inr by simp
    have sub: "set ?rest \<subseteq> set rest" by (rule set_dropWhileD [THEN subsetI])
    then have fit: "\<forall>q \<in> set ?rest. fits st ?sg q" using "2.prems"(2) fits_update [where sg = sg, OF _ a] by auto
    have ih: "case apply_runs ?sg ?rest of
        Inr sg' \<Rightarrow> staged_ok y st sg' \<and> dom sg' = dom ?sg
          \<and> (\<forall>n. map_option fst (sg' n) = map_option fst (?sg n))
          \<and> (\<forall>n. n \<notin> planned_number ` set ?rest \<longrightarrow> sg' n = ?sg n)
      | Inl e \<Rightarrow> \<exists>a b. e = Flags a b"
      by (rule "2.IH" [OF refl refl _ _ Inr ok fit]) (use a in auto)
    have "apply_runs sg (p # rest) = apply_runs ?sg ?rest" using a Inr by (simp add: Let_def)
    moreover have "n \<notin> planned_number ` set (p # rest) \<Longrightarrow> n \<notin> planned_number ` set ?rest \<and> n \<noteq> ?n" for n
      using sub by auto
    moreover have "map_option fst (?sg n) = map_option fst (sg n)" and "dom ?sg = dom sg" for n
      using a by auto
    ultimately show ?thesis using ih by (simp split: sum.splits)
  qed
qed simp

text \<open>Committing writes every staged vector to its own address and nothing else.\<close>

lemma length_commit [simp]: "length (commit sg st n) = length st"
  by (simp add: commit_def split: option.splits)

lemma length_commits [simp]: "length (foldl (commit sg) st ns) = length st"
  by (induction ns arbitrary: st) auto

lemma blocks_at_update: "blocks_at (st[a := bs]) b = (if b = a \<and> a < length st then bs else blocks_at st b)"
  by (auto simp: blocks_at_def)

lemma commits_other:
  assumes "\<forall>n \<in> set ns. \<forall>bs. sg n \<noteq> Some (a, bs)"
  shows "blocks_at (foldl (commit sg) st ns) a = blocks_at st a"
  using assms
  by (induction ns arbitrary: st) (auto simp: commit_def blocks_at_update split: option.splits)

lemma commits_staged:
  assumes "\<forall>n m bs cs. sg n = Some (a, bs) \<and> sg m = Some (a, cs) \<longrightarrow> n = m"
    and "sg n = Some (a, bs)" and "n \<in> set ns" and "a < length st"
  shows "blocks_at (foldl (commit sg) st ns) a = bs"
  using assms(3,4)
proof (induction ns arbitrary: st)
  case (Cons m ns)
  show ?case
  proof (cases "n \<in> set ns")
    case True
    then show ?thesis using Cons by simp
  next
    case False
    then have "m = n" and "\<forall>k \<in> set ns. \<forall>bs. sg k \<noteq> Some (a, bs)" using assms(1,2) Cons.prems by auto
    then have "blocks_at (foldl (commit sg) (commit sg st n) ns) a = blocks_at (commit sg st n) a"
      using commits_other by blast
    moreover have "commit sg st n = st[a := bs]" using assms(2) by (simp add: commit_def)
    ultimately show ?thesis using Cons.prems \<open>m = n\<close> by (simp add: blocks_at_update)
  qed
qed simp

lemma commits_wf:
  assumes "wf_tree y st" and "staged_ok y st sg" and "dom sg \<subseteq> set ns"
  shows "sg n = Some (a, bs) \<Longrightarrow> blocks_at (foldl (commit sg) st ns) a = bs"
    and "\<forall>n bs. sg n \<noteq> Some (a, bs) \<Longrightarrow> blocks_at (foldl (commit sg) st ns) a = blocks_at st a"
proof -
  assume n: "sg n = Some (a, bs)"
  have "a < length st" using staged_okD(2) [OF assms(2) n] wf_tree_address [OF assms(1)] by auto
  moreover have "n \<in> set ns" using n assms(3) by auto
  moreover have "\<forall>n m bs cs. sg n = Some (a, bs) \<and> sg m = Some (a, cs) \<longrightarrow> n = m"
    using staged_ok_injective [OF assms(1,2)] by blast
  ultimately show "blocks_at (foldl (commit sg) st ns) a = bs" using commits_staged [of sg a n bs] n by blast
qed (use commits_other in blast)

lemma store_eqI:
  assumes "length st = length st'" and "\<And>a. blocks_at st a = blocks_at st' a"
  shows "st = st'"
proof (rule nth_equalityI [OF assms(1)])
  fix i assume "i < length st"
  then show "st ! i = st' ! i" using assms(1) assms(2) [of i] by (simp add: blocks_at_def)
qed

lemma wf_tree_change:
  assumes "wf_tree y st" and "length st' = length st" and "\<And>a. block_inv (length (blocks_at st a)) (blocks_at st' a)"
  shows "wf_tree y st'"
proof -
  have "list_all (\<lambda>b. length b = 16) (st' ! a)" if "a < length st'" for a
    using assms(3) [of a] that by (simp add: block_inv_def blocks_at_def list_all_iff)
  then have "list_all (\<lambda>bs. list_all (\<lambda>b. length b = 16) bs) st'" by (simp add: list_all_length)
  then show ?thesis using assms(1,2) by (simp add: wf_tree_def)
qed

text \<open>Writes keep the shape of the store: its vectors, their lengths, and blocks of sixteen bytes.\<close>

definition same_shape :: "store \<Rightarrow> store \<Rightarrow> bool" where
  "same_shape st st' \<longleftrightarrow> length st' = length st
     \<and> (\<forall>a. block_inv (length (blocks_at st a)) (blocks_at st' a))"

lemma same_shape_wf_tree: "wf_tree y st \<Longrightarrow> same_shape st st' \<Longrightarrow> wf_tree y st'"
  using wf_tree_change unfolding same_shape_def by blast

lemma same_shape_refl: "wf_tree y st \<Longrightarrow> same_shape st st"
  using wf_tree_blocks by (simp add: same_shape_def)

section \<open>The whole write\<close>

text \<open>What \<open>apply_block_writes\<close> does, in terms of the planned writes and the staged vectors.\<close>

lemma plans_ok:
  assumes "mapE (plan_write y st codes data raf) (enumerate 0 bl) = Inr ps" and "p \<in> set ps"
  shows "planned_ok y st p" and "vb_service_code (fst p) \<in> set codes"
    and "raf \<Longrightarrow> \<not> requires_key (vb_service_code (fst p))"
proof -
  obtain i where "i < length ps" "p = ps ! i" using assms(2) by (auto simp: in_set_conv_nth)
  then have "plan_write y st codes data raf (enumerate 0 bl ! i) = Inr p"
    using mapE_nth [OF assms(1)] mapE_length [OF assms(1)] by simp
  from plan_write_ok(1-3) [OF this] show "planned_ok y st p" "vb_service_code (fst p) \<in> set codes"
    "raf \<Longrightarrow> \<not> requires_key (vb_service_code (fst p))" .
qed

lemma plans_no_panic:
  assumes "16 * length bl \<le> length data"
  shows "mapE (plan_write y st codes data raf) (enumerate 0 bl) \<noteq> Inl (AccessPanic m)"
proof
  assume "mapE (plan_write y st codes data raf) (enumerate 0 bl) = Inl (AccessPanic m)"
  from mapE_Inl [OF this] obtain e
    where e: "e \<in> set (enumerate 0 bl)" "plan_write y st codes data raf e = Inl (AccessPanic m)" by blast
  have "fst e < length bl" using e(1) by (auto simp: in_set_enumerate_eq)
  then have "16 * fst e + 16 \<le> length data" using assms by simp
  from plan_write_no_panic [OF this] show False using e(2) by simp
qed

lemma staged_ok_empty: "staged_ok y st Map.empty"
  by (simp add: staged_ok_def)

lemma staged_for_plans:
  assumes "wf_tree y st" and "\<forall>p \<in> set ps. planned_ok y st p"
  shows "\<exists>sg. foldE (stage y st) Map.empty ps = Inr sg \<and> staged_ok y st sg
    \<and> (\<forall>n a bs. sg n = Some (a, bs) \<longrightarrow> bs = blocks_at st a) \<and> dom sg = planned_number ` set ps
    \<and> (\<forall>p \<in> set ps. fits st sg p)"
proof -
  obtain sg where sg: "foldE (stage y st) Map.empty ps = Inr sg" using stages_total [OF assms(2)] by blast
  have ok: "staged_ok y st sg \<and> (\<forall>n a bs. sg n = Some (a, bs) \<longrightarrow> bs = blocks_at st a)
      \<and> dom sg = planned_number ` set ps"
    using stages_ok [OF sg assms(1) staged_ok_empty] by simp
  have "\<forall>p \<in> set ps. fits st sg p" using planned_fits [OF assms(1)] ok assms(2) by blast
  then show ?thesis using sg ok by blast
qed

lemma apply_block_writes_no_panic:
  assumes "wf_tree y st" and "16 * length bl \<le> length data"
  shows "apply_block_writes y st codes bl data raf \<noteq> Inl (AccessPanic m)"
proof (cases "mapE (plan_write y st codes data raf) (enumerate 0 bl)")
  case (Inl e)
  then show ?thesis using plans_no_panic [OF assms(2)] by (auto simp: apply_block_writes_def)
next
  case (Inr ps)
  then obtain sg where sg: "foldE (stage y st) Map.empty ps = Inr sg" "staged_ok y st sg" "\<forall>p \<in> set ps. fits st sg p"
    using staged_for_plans [OF assms(1)] plans_ok(1) [OF Inr] by metis
  show ?thesis using apply_runs_ok [OF sg(2,3)] Inr sg(1)
    by (auto simp: apply_block_writes_def bindE_eq_Inl split: sum.splits)
qed

lemma write_effect:
  assumes "wf_tree y st" and "apply_block_writes y st codes bl data raf = Inr st'"
  shows "same_shape st st'"
    and "\<And>a. blocks_at st' a \<noteq> blocks_at st a \<Longrightarrow> \<exists>code \<in> set codes. \<exists>s attr.
      sys_find_service y code = Some s \<and> es_blocks s = a \<and> code_attribute code = Some attr
      \<and> allows_write attr \<and> (raf \<longrightarrow> \<not> requires_key code)"
proof -
  obtain ps sg0 sg where plan: "mapE (plan_write y st codes data raf) (enumerate 0 bl) = Inr ps"
    and staged: "foldE (stage y st) Map.empty ps = Inr sg0" and runs: "apply_runs sg0 ps = Inr sg"
    and st': "st' = foldl (commit sg) st (sort (remdups (map planned_number ps)))"
    using assms(2) by (auto simp: apply_block_writes_def bindE_eq_Inr)
  have "\<forall>p \<in> set ps. planned_ok y st p" using plans_ok(1) [OF plan] by blast
  from staged_for_plans [OF assms(1) this] staged have dom0: "dom sg0 = planned_number ` set ps"
    and "staged_ok y st sg0" and "\<forall>p \<in> set ps. fits st sg0 p" by auto
  from apply_runs_ok [OF this(2,3)] have ok: "staged_ok y st sg" and dom: "dom sg = planned_number ` set ps"
    using runs dom0 by simp_all
  have len: "length st' = length st" by (simp add: st')
  have at: "sg n = Some (a, bs) \<Longrightarrow> blocks_at st' a = bs" for n a bs
    using commits_wf(1) [OF assms(1) ok] dom st' by simp
  have other: "\<forall>n bs. sg n \<noteq> Some (a, bs) \<Longrightarrow> blocks_at st' a = blocks_at st a" for a
    using commits_wf(2) [OF assms(1) ok] dom st' by simp
  have inv: "block_inv (length (blocks_at st a)) (blocks_at st' a)" for a
    using at other staged_okD(1) [OF ok] wf_tree_blocks [OF assms(1)] by (metis (no_types))
  have named: "\<exists>code \<in> set codes. \<exists>s attr. sys_find_service y code = Some s \<and> es_blocks s = a
      \<and> code_attribute code = Some attr \<and> allows_write attr \<and> (raf \<longrightarrow> \<not> requires_key code)"
    if changed: "blocks_at st' a \<noteq> blocks_at st a" for a
  proof -
    obtain n bs where n: "sg n = Some (a, bs)" using other changed by blast
    then have "n \<in> planned_number ` set ps" using dom by blast
    then obtain p where p: "p \<in> set ps" "planned_number p = n" by blast
    note pl = plans_ok [OF plan p(1)]
    obtain s where s: "sys_find_service y (vb_service_code (fst p)) = Some s"
      using pl(1) by (auto simp: planned_ok_def)
    have "es_blocks s = a"
      using staged_ok_address [OF assms(1) ok n] find_service_in_tree [OF s] p(2)
      by (simp add: planned_number_def)
    then show ?thesis using s pl by (auto simp: planned_ok_def)
  qed
  show "same_shape st st'" using len inv by (simp add: same_shape_def)
  show "blocks_at st' a \<noteq> blocks_at st a \<Longrightarrow> \<exists>code \<in> set codes. \<exists>s attr.
      sys_find_service y code = Some s \<and> es_blocks s = a \<and> code_attribute code = Some attr
      \<and> allows_write attr \<and> (raf \<longrightarrow> \<not> requires_key code)" for a
    by (rule named)
qed

text \<open>
  A write reaches only what its block list names. If the write of a block list succeeds, the
  system stays well formed, every service keeps its number of blocks and every block its sixteen
  bytes, and a block vector that changed belongs to a service of the tree whose code is in the
  service list, which permits writing and, for an unencrypted write, needs no key.
\<close>

theorem writes_confined:
  assumes "wf_tree y st" and "apply_block_writes y st codes bl data raf = Inr st'"
  shows "wf_tree y st' \<and> length st' = length st \<and> (\<forall>a. length (blocks_at st' a) = length (blocks_at st a)
    \<and> (blocks_at st' a \<noteq> blocks_at st a \<longrightarrow> (\<exists>code \<in> set codes. \<exists>s attr.
        sys_find_service y code = Some s \<and> es_blocks s = a \<and> code_attribute code = Some attr
        \<and> allows_write attr \<and> (raf \<longrightarrow> \<not> requires_key code))))"
  using write_effect [OF assms] same_shape_wf_tree [OF assms(1)]
  by (simp add: same_shape_def block_inv_def)

section \<open>Staged runs are sequential writes\<close>

text \<open>
  The specification that the staged, run-wise write implements for services that are not cyclic:
  one planned write after the other, each straight to the store.
\<close>

definition write_planned :: "emulated_system \<Rightarrow> store \<Rightarrow> planned \<Rightarrow> access_error + store" where
  "write_planned y st p =
     (case sys_find_service y (vb_service_code (fst p)) of
        None \<Rightarrow> Inl (AccessPanic ''no such service'')
      | Some s \<Rightarrow> bindE (apply_run (blocks_at st (es_blocks s)) [p]) (\<lambda>bs. Inr (st[es_blocks s := bs])))"

definition write_sequentially ::
    "emulated_system \<Rightarrow> store \<Rightarrow> service_code list \<Rightarrow> block_list_element list \<Rightarrow> bytes \<Rightarrow> bool
      \<Rightarrow> access_error + store" where
  "write_sequentially y st codes bl data raf =
     bindE (mapE (plan_write y st codes data raf) (enumerate 0 bl)) (\<lambda>ps.
     foldE (write_planned y) st ps)"

lemma foldE_append: "foldE f s (xs @ ys) = bindE (foldE f s xs) (\<lambda>t. foldE f t ys)"
  by (induction xs arbitrary: s) (simp_all add: bindE_assoc)

definition planned_kind :: "planned \<Rightarrow> service_kind" where
  "planned_kind p = attribute_kind (vb_attribute (fst p))"

lemma apply_run_singles:
  assumes "planned_kind p \<noteq> Cyclic" and "\<forall>q \<in> set run. planned_kind q = planned_kind p"
  shows "apply_run bs (p # run) = foldE (\<lambda>bs q. apply_run bs [q]) bs (p # run)"
proof -
  have eq: "apply_run bs [q] = (if planned_kind p = Random then write_random bs q else write_purse bs q)"
    if "q \<in> set (p # run)" for q bs
    using assms that by (cases "planned_kind p"; cases "write_random bs q"; cases "write_purse bs q")
      (auto simp: apply_run_def planned_kind_def)
  have cong: "(\<And>q bs. q \<in> set qs \<Longrightarrow> f bs q = g bs q) \<Longrightarrow> foldE f bs qs = foldE g bs qs"
    for f g :: "block list \<Rightarrow> planned \<Rightarrow> access_error + block list" and qs bs
    by (induction qs arbitrary: bs) (auto intro: bindE_cong)
  have "foldE (\<lambda>bs q. apply_run bs [q]) bs (p # run)
      = foldE (\<lambda>bs q. if planned_kind p = Random then write_random bs q else write_purse bs q) bs (p # run)"
    using eq by (rule cong)
  also have "\<dots> = apply_run bs (p # run)"
    using assms(1) by (cases "planned_kind p") (simp_all add: apply_run_def planned_kind_def)
  finally show ?thesis by simp
qed

text \<open>The same step on the staged vectors.\<close>

definition write_staged :: "staged \<Rightarrow> planned \<Rightarrow> access_error + staged" where
  "write_staged sg p =
     bindE (ok_or (sg (planned_number p)) (AccessPanic ''every planned service was staged'')) (\<lambda>(a, bs).
     bindE (apply_run bs [p]) (\<lambda>bs'. Inr (sg(planned_number p \<mapsto> (a, bs')))))"

lemma write_staged_run:
  assumes "\<forall>q \<in> set run. planned_number q = n"
  shows "foldE write_staged (sg(n \<mapsto> (a, bs))) run = bindE (foldE (\<lambda>bs q. apply_run bs [q]) bs run)
    (\<lambda>bs'. Inr (sg(n \<mapsto> (a, bs'))))"
  using assms
proof (induction run arbitrary: bs)
  case (Cons p run)
  then have "write_staged (sg(n \<mapsto> (a, bs))) p = bindE (apply_run bs [p]) (\<lambda>bs'. Inr (sg(n \<mapsto> (a, bs'))))"
    by (simp add: write_staged_def)
  then show ?case using Cons by (cases "apply_run bs [p]") (simp_all del: fun_upd_apply)
qed (simp del: fun_upd_apply)

lemma apply_runs_singles:
  assumes "\<forall>p \<in> set ps. k (planned_number p) \<noteq> Cyclic \<and> planned_kind p = k (planned_number p)
    \<and> planned_number p \<in> dom sg"
  shows "apply_runs sg ps = foldE write_staged sg ps"
  using assms
proof (induction sg ps rule: apply_runs.induct)
  case (2 sg p rest)
  let ?n = "planned_number p" let ?run = "takeWhile (\<lambda>q. planned_number q = ?n) rest"
  let ?rest = "dropWhile (\<lambda>q. planned_number q = ?n) rest"
  obtain a bs where a: "sg ?n = Some (a, bs)" using "2.prems" by auto
  have in_rest: "q \<in> set ?rest \<Longrightarrow> q \<in> set rest" for q by (rule set_dropWhileD)
  have run: "\<forall>q \<in> set ?run. planned_number q = ?n \<and> q \<in> set rest" using set_takeWhileD by force
  have kinds: "\<forall>q \<in> set ?run. planned_kind q = planned_kind p"
  proof
    fix q assume "q \<in> set ?run"
    from bspec [OF run this] have "q \<in> set (p # rest)" "planned_number q = ?n" by simp_all
    then show "planned_kind q = planned_kind p" using bspec [OF "2.prems", of q] bspec [OF "2.prems", of p] by simp
  qed
  have single: "apply_run bs (p # ?run) = foldE (\<lambda>bs q. apply_run bs [q]) bs (p # ?run)"
    by (rule apply_run_singles [OF _ kinds]) (use bspec [OF "2.prems" list.set_intros(1)] in simp)
  have triv: "sg(?n \<mapsto> (a, bs)) = sg" using a by (rule fun_upd_idem)
  have nums: "\<forall>q \<in> set (p # ?run). planned_number q = ?n" unfolding list.set using run by blast
  have staged: "foldE write_staged sg (p # ?run) = bindE (apply_run bs (p # ?run)) (\<lambda>bs'. Inr (sg(?n \<mapsto> (a, bs'))))"
    using write_staged_run [OF nums, where sg = sg and a = a and bs = bs] unfolding triv single .
  have split: "p # rest = (p # ?run) @ ?rest" by simp
  have "foldE write_staged sg (p # rest)
      = bindE (foldE write_staged sg (p # ?run)) (\<lambda>t. foldE write_staged t ?rest)"
    by (subst split) (rule foldE_append)
  also have "\<dots> = bindE (apply_run bs (p # ?run)) (\<lambda>bs'. foldE write_staged (sg(?n \<mapsto> (a, bs'))) ?rest)"
    unfolding staged by (simp only: bindE_assoc bindE_Inr)
  also have "\<dots> = bindE (apply_run bs (p # ?run)) (\<lambda>bs'. apply_runs (sg(?n \<mapsto> (a, bs'))) ?rest)"
  proof (rule bindE_cong [OF refl])
    fix bs' assume run': "apply_run bs (p # ?run) = Inr bs'"
    have "\<forall>q \<in> set ?rest. k (planned_number q) \<noteq> Cyclic \<and> planned_kind q = k (planned_number q)
        \<and> planned_number q \<in> dom (sg(?n \<mapsto> (a, bs')))"
      using "2.prems" in_rest by simp
    from "2.IH" [OF refl refl _ refl run' this] a
    show "foldE write_staged (sg(?n \<mapsto> (a, bs'))) ?rest = apply_runs (sg(?n \<mapsto> (a, bs'))) ?rest"
      by (simp del: fun_upd_apply)
  qed
  also have "\<dots> = apply_runs sg (p # rest)" using a by (simp add: Let_def)
  finally show ?case by simp
qed simp

text \<open>A store shows a staging when it holds the staged vectors, and the original ones elsewhere.\<close>

definition shows_staged :: "store \<Rightarrow> staged \<Rightarrow> store \<Rightarrow> bool" where
  "shows_staged st sg st' \<longleftrightarrow> length st' = length st
     \<and> (\<forall>n a bs. sg n = Some (a, bs) \<longrightarrow> blocks_at st' a = bs)
     \<and> (\<forall>a. (\<forall>n bs. sg n \<noteq> Some (a, bs)) \<longrightarrow> blocks_at st' a = blocks_at st a)"

text \<open>The staged addresses are those of the tree, for all the planned writes.\<close>

definition addressed :: "emulated_system \<Rightarrow> store \<Rightarrow> staged \<Rightarrow> planned list \<Rightarrow> bool" where
  "addressed y st sg ps \<longleftrightarrow> (\<forall>n m a bs cs. sg n = Some (a, bs) \<and> sg m = Some (a, cs) \<longrightarrow> n = m)
     \<and> (\<forall>n a bs. sg n = Some (a, bs) \<longrightarrow> a < length st)
     \<and> (\<forall>p \<in> set ps. \<exists>s bs. sys_find_service y (vb_service_code (fst p)) = Some s
        \<and> sg (planned_number p) = Some (es_blocks s, bs))"

lemma addressed_update:
  assumes "addressed y st sg ps" and "sg n = Some (a, bs)"
  shows "addressed y st (sg(n \<mapsto> (a, bs'))) ps"
proof -
  have dom: "(sg(n \<mapsto> (a, bs'))) m = Some (b, cs) \<Longrightarrow> \<exists>ds. sg m = Some (b, ds)" for m b cs
    using assms(2) by (auto split: if_splits)
  show ?thesis
    unfolding addressed_def
  proof (intro conjI allI impI ballI)
    fix p assume "p \<in> set ps"
    then obtain s cs where s: "sys_find_service y (vb_service_code (fst p)) = Some s"
        "sg (planned_number p) = Some (es_blocks s, cs)"
      using assms(1) by (auto simp: addressed_def)
    then show "\<exists>s bs. sys_find_service y (vb_service_code (fst p)) = Some s
        \<and> (sg(n \<mapsto> (a, bs'))) (planned_number p) = Some (es_blocks s, bs)"
      using assms(2) by (intro exI [of _ s]) auto
  qed (use assms(1) dom in \<open>unfold addressed_def, metis\<close>)+
qed

lemma shows_staged_update:
  assumes "shows_staged st sg st'" and "addressed y st sg ps" and "sg n = Some (a, bs)"
  shows "shows_staged st (sg(n \<mapsto> (a, bs'))) (st'[a := bs'])"
proof -
  have "a < length st" using assms(2,3) unfolding addressed_def by blast
  then have a: "a < length st'" using assms(1) by (simp add: shows_staged_def)
  have inj: "sg m = Some (a, cs) \<Longrightarrow> m = n" for m cs using assms(2,3) unfolding addressed_def by blast
  show ?thesis
    unfolding shows_staged_def
  proof (intro conjI allI impI)
    fix m b cs assume "(sg(n \<mapsto> (a, bs'))) m = Some (b, cs)"
    then show "blocks_at (st'[a := bs']) b = cs"
      using assms(1) a inj by (auto simp: shows_staged_def blocks_at_update split: if_splits)
  next
    fix b assume other: "\<forall>m cs. (sg(n \<mapsto> (a, bs'))) m \<noteq> Some (b, cs)"
    then have "b \<noteq> a" by (metis fun_upd_same)
    moreover have "\<forall>m cs. sg m \<noteq> Some (b, cs)"
    proof (intro allI notI)
      fix m cs assume m: "sg m = Some (b, cs)"
      then have "m \<noteq> n" using assms(3) \<open>b \<noteq> a\<close> by auto
      then show False using other m by (metis fun_upd_other)
    qed
    ultimately show "blocks_at (st'[a := bs']) b = blocks_at st b"
      using assms(1) by (simp add: shows_staged_def blocks_at_update)
  qed (use assms(1) in \<open>simp add: shows_staged_def\<close>)
qed

fun same_outcome :: "store \<Rightarrow> access_error + staged \<Rightarrow> access_error + store \<Rightarrow> bool" where
  "same_outcome st (Inl e) (Inl e') \<longleftrightarrow> e = e'"
| "same_outcome st (Inr sg) (Inr st') \<longleftrightarrow> shows_staged st sg st'"
| "same_outcome st _ _ \<longleftrightarrow> False"

lemma write_staged_simulates:
  assumes "shows_staged st sg st'" and "addressed y st sg ps"
  shows "same_outcome st (foldE write_staged sg ps) (foldE (write_planned y) st' ps)"
  using assms
proof (induction ps arbitrary: sg st')
  case (Cons p ps)
  obtain s bs where s: "sys_find_service y (vb_service_code (fst p)) = Some s"
      "sg (planned_number p) = Some (es_blocks s, bs)"
    using Cons.prems(2) by (auto simp: addressed_def)
  have bs: "blocks_at st' (es_blocks s) = bs" using Cons.prems(1) s(2) by (auto simp: shows_staged_def)
  show ?case
  proof (cases "apply_run bs [p]")
    case (Inr bs')
    let ?sg = "sg(planned_number p \<mapsto> (es_blocks s, bs'))"
    have "addressed y st ?sg (p # ps)" by (rule addressed_update [OF Cons.prems(2) s(2)])
    then have "addressed y st ?sg ps" unfolding addressed_def list.set by blast
    from Cons.IH [OF shows_staged_update [OF Cons.prems(1,2) s(2)] this]
    show ?thesis using s bs Inr by (simp add: write_staged_def write_planned_def del: fun_upd_apply)
  qed (use s bs in \<open>simp add: write_staged_def write_planned_def\<close>)
qed simp

lemma wf_tree_kind:
  assumes "wf_tree y st" and "s \<in> set (services_of (sys_root y))" and "t \<in> set (services_of (sys_root y))"
    and "code_number (es_code s) = code_number (es_code t)"
  shows "code_kind (es_code s) = code_kind (es_code t)"
  using assms unfolding wf_tree_def overlaps_shared_def by blast

definition number_kind :: "emulated_system \<Rightarrow> u16 \<Rightarrow> service_kind" where
  "number_kind y n = the (code_kind (es_code (the (List.find (\<lambda>s. code_number (es_code s) = n)
     (services_of (sys_root y))))))"

lemma planned_number_kind:
  assumes "wf_tree y st" and "planned_ok y st p"
  shows "planned_kind p = number_kind y (planned_number p) \<and> code_kind (vb_service_code (fst p)) = Some (planned_kind p)"
proof -
  obtain s where s: "sys_find_service y (vb_service_code (fst p)) = Some s"
      "code_attribute (vb_service_code (fst p)) = Some (vb_attribute (fst p))"
    using assms(2) by (auto simp: planned_ok_def)
  have kind: "code_kind (vb_service_code (fst p)) = Some (planned_kind p)"
    using s(2) by (simp add: code_kind_def planned_kind_def)
  have in_tree: "s \<in> set (services_of (sys_root y))" "es_code s = vb_service_code (fst p)"
    using find_service_in_tree [OF s(1)] by simp_all
  then obtain t where t: "List.find (\<lambda>s. code_number (es_code s) = planned_number p) (services_of (sys_root y)) = Some t"
    by (cases "List.find (\<lambda>s. code_number (es_code s) = planned_number p) (services_of (sys_root y))")
      (auto simp: find_None_iff planned_number_def)
  then have "t \<in> set (services_of (sys_root y))" "code_number (es_code t) = code_number (es_code s)"
    using in_tree(2) by (auto simp: find_Some_iff planned_number_def)
  then have "code_kind (es_code t) = code_kind (es_code s)"
    by (rule wf_tree_kind [OF assms(1) _ in_tree(1)])
  then show ?thesis using kind in_tree(2) t by (simp add: number_kind_def)
qed

lemma staged_is_sequential:
  assumes "wf_tree y st" and "\<forall>code \<in> set codes. code_kind code \<noteq> Some Cyclic"
  shows "apply_block_writes y st codes bl data raf = write_sequentially y st codes bl data raf"
proof (cases "mapE (plan_write y st codes data raf) (enumerate 0 bl)")
  case (Inl e)
  then show ?thesis by (simp add: apply_block_writes_def write_sequentially_def)
next
  case (Inr ps)
  have plan: "\<forall>p \<in> set ps. planned_ok y st p" using plans_ok(1) [OF Inr] by blast
  obtain sg where sg: "foldE (stage y st) Map.empty ps = Inr sg" "staged_ok y st sg"
      "\<forall>n a bs. sg n = Some (a, bs) \<longrightarrow> bs = blocks_at st a" "dom sg = planned_number ` set ps"
      "\<forall>p \<in> set ps. fits st sg p"
    using staged_for_plans [OF assms(1) plan] by blast
  have kinds: "\<forall>p \<in> set ps. number_kind y (planned_number p) \<noteq> Cyclic
      \<and> planned_kind p = number_kind y (planned_number p) \<and> planned_number p \<in> dom sg"
    using planned_number_kind [OF assms(1)] plan plans_ok(2) [OF Inr] assms(2) sg(4) by fastforce
  have "\<exists>s bs. sys_find_service y (vb_service_code (fst p)) = Some s
      \<and> sg (planned_number p) = Some (es_blocks s, bs)" if p: "p \<in> set ps" for p
  proof -
    obtain s where s: "sys_find_service y (vb_service_code (fst p)) = Some s"
      using plan p by (auto simp: planned_ok_def)
    have "planned_number p \<in> dom sg" using sg(4) p by simp
    then obtain a bs where a: "sg (planned_number p) = Some (a, bs)" by auto
    have "es_blocks s = a"
      using staged_ok_address [OF assms(1) sg(2) a] find_service_in_tree [OF s] by (simp add: planned_number_def)
    then show ?thesis using s a by blast
  qed
  then have addr: "addressed y st sg ps"
    using staged_ok_injective [OF assms(1) sg(2)] staged_okD(2) [OF sg(2)] wf_tree_address [OF assms(1)]
    unfolding addressed_def by blast
  have "shows_staged st sg st" using sg(3) by (auto simp: shows_staged_def)
  from write_staged_simulates [OF this addr]
  have sim: "same_outcome st (apply_runs sg ps) (foldE (write_planned y) st ps)"
    using apply_runs_singles [OF kinds] by simp
  show ?thesis
  proof (cases "apply_runs sg ps")
    case (Inl e)
    then show ?thesis using sim sg(1) Inr
      by (cases "foldE (write_planned y) st ps") (simp_all add: apply_block_writes_def write_sequentially_def)
  next
    case runs: (Inr sg')
    then obtain st' where st': "foldE (write_planned y) st ps = Inr st'" "shows_staged st sg' st'"
      using sim by (cases "foldE (write_planned y) st ps") simp_all
    have ok: "staged_ok y st sg'" "dom sg' = planned_number ` set ps"
      using apply_runs_ok [OF sg(2,5)] runs sg(4) by simp_all
    let ?ns = "sort (remdups (map planned_number ps))"
    have "foldl (commit sg') st ?ns = st'"
    proof (rule store_eqI)
      show "length (foldl (commit sg') st ?ns) = length st'" using st'(2) by (simp add: shows_staged_def)
      fix a
      show "blocks_at (foldl (commit sg') st ?ns) a = blocks_at st' a"
      proof (cases "\<exists>n bs. sg' n = Some (a, bs)")
        case True
        then show ?thesis using commits_wf(1) [OF assms(1) ok(1), of ?ns] ok(2) st'(2)
          by (force simp: shows_staged_def)
      next
        case False
        then show ?thesis using commits_wf(2) [OF assms(1) ok(1), of ?ns] ok(2) st'(2)
          by (force simp: shows_staged_def)
      qed
    qed
    then show ?thesis using runs sg(1) Inr st'(1) by (simp add: apply_block_writes_def write_sequentially_def)
  qed
qed

text \<open>
  C18. Staging is invisible. For a block list that names no cyclic service, the staged and run-wise
  write of the card has exactly the outcome of writing one element after the other straight to the
  store: the same final store when every element is accepted, and otherwise the same error.
\<close>

theorem staged_write_is_sequential:
  assumes "wf_tree y st" and "\<forall>code \<in> set codes. code_kind code \<noteq> Some Cyclic"
  shows "apply_block_writes y st codes bl data raf = write_sequentially y st codes bl data raf"
  by (rule staged_is_sequential [OF assms])

section \<open>The last write wins\<close>

text \<open>The service and the block that an element of a block list names.\<close>

definition named :: "service_code list \<Rightarrow> block_list_element \<Rightarrow> u16 option \<times> u16" where
  "named codes e = (map_option code_number (nth_opt codes (unat (service_code_list_index e))),
     block_number_or_key_version e)"

definition named_planned :: "planned \<Rightarrow> u16 \<times> nat" where
  "named_planned p = (planned_number p, vb_block_number (fst p))"

lemma plan_named:
  assumes "plan_write y st codes data raf e = Inr p"
  shows "named codes (snd e) = (Some (planned_number p), block_number_or_key_version (snd e))"
    and "vb_block_number (fst p) = unat (block_number_or_key_version (snd e))"
  using plan_write_ok(4,5) [OF assms] by (simp_all add: named_def planned_number_def)

text \<open>One write to a random service sets its block and leaves every other block alone.\<close>

lemma write_planned_random:
  assumes "write_planned y st p = Inr st'" and "planned_kind p = Random"
    and "sys_find_service y (vb_service_code (fst p)) = Some s"
  shows "st' = st[es_blocks s := (blocks_at st (es_blocks s))[vb_block_number (fst p) := snd p]]"
    and "vb_block_number (fst p) < length (blocks_at st (es_blocks s))"
  using assms
  by (auto simp: write_planned_def apply_run_def planned_kind_def write_random_def set_block_def
      bindE_eq_Inr split: if_splits)

lemma write_planned_sets:
  assumes "write_planned y st p = Inr st'" and "planned_kind p = Random"
    and "sys_find_service y (vb_service_code (fst p)) = Some s" and "es_blocks s < length st"
  shows "blocks_at st' (es_blocks s) ! vb_block_number (fst p) = snd p"
  using write_planned_random [OF assms(1-3)] assms(4) by (simp add: blocks_at_update)

lemma write_planned_keeps:
  assumes "write_planned y st p = Inr st'" and "planned_kind p = Random"
    and "sys_find_service y (vb_service_code (fst p)) = Some s"
    and "(es_blocks s, vb_block_number (fst p)) \<noteq> (a, k)"
  shows "blocks_at st' a ! k = blocks_at st a ! k" and "length st' = length st"
  using write_planned_random [OF assms(1-3)] assms(4)
  by (auto simp: blocks_at_update nth_list_update)

lemma writes_planned_keep:
  assumes "foldE (write_planned y) st ps = Inr st'"
    and "\<And>p. p \<in> set ps \<Longrightarrow> planned_kind p = Random \<and> (\<exists>s. sys_find_service y (vb_service_code (fst p)) = Some s
      \<and> (es_blocks s, vb_block_number (fst p)) \<noteq> (a, k))"
  shows "blocks_at st' a ! k = blocks_at st a ! k \<and> length st' = length st"
  using assms
proof (induction ps arbitrary: st)
  case (Cons p ps)
  then obtain st1 where w: "write_planned y st p = Inr st1" and rest: "foldE (write_planned y) st1 ps = Inr st'"
    by (auto simp: bindE_eq_Inr)
  obtain s where "planned_kind p = Random" "sys_find_service y (vb_service_code (fst p)) = Some s"
      "(es_blocks s, vb_block_number (fst p)) \<noteq> (a, k)"
    using Cons.prems(2) [of p] by auto
  from write_planned_keeps [OF w this] Cons.IH [OF rest] Cons.prems(2)
  show ?case by simp
qed simp

lemma write_planned_length: "write_planned y st p = Inr st' \<Longrightarrow> length st' = length st"
  by (auto simp: write_planned_def bindE_eq_Inr split: option.splits)

lemma writes_planned_length:
  assumes "foldE (write_planned y) st ps = Inr st'" shows "length st' = length st"
  using assms by (induction ps arbitrary: st) (auto simp: bindE_eq_Inr dest: write_planned_length)

text \<open>
  C19. Read after write. After a successful write to random-access services, every block that the
  block list names holds the sixteen bytes of the last element that names it.
\<close>

theorem last_write_wins:
  assumes "wf_tree y st" and "\<forall>code \<in> set codes. code_kind code = Some Random"
    and "apply_block_writes y st codes bl data raf = Inr st'" and "i < length bl"
    and "\<forall>j < length bl. i < j \<longrightarrow> named codes (bl ! j) \<noteq> named codes (bl ! i)"
  shows "\<exists>code s. nth_opt codes (unat (service_code_list_index (bl ! i))) = Some code
    \<and> sys_find_service y code = Some s
    \<and> blocks_at st' (es_blocks s) ! unat (block_number_or_key_version (bl ! i)) = take 16 (drop (16 * i) data)"
proof -
  have "write_sequentially y st codes bl data raf = Inr st'"
    using staged_is_sequential [OF assms(1)] assms(2,3) by force
  then obtain ps where plan: "mapE (plan_write y st codes data raf) (enumerate 0 bl) = Inr ps"
    and writes: "foldE (write_planned y) st ps = Inr st'"
    by (auto simp: write_sequentially_def bindE_eq_Inr)
  have len: "length ps = length bl" using mapE_length [OF plan] by simp
  have each: "plan_write y st codes data raf (j, bl ! j) = Inr (ps ! j)" if "j < length bl" for j
    using mapE_nth [OF plan, of j] that by (simp add: nth_enumerate_eq)
  have ok: "planned_ok y st p \<and> planned_kind p = Random" if "p \<in> set ps" for p
    using plans_ok(1,2) [OF plan that] planned_number_kind [OF assms(1)] assms(2) by fastforce
  let ?p = "ps ! i"
  have p: "?p \<in> set ps" using assms(4) len by simp
  then obtain s where s: "sys_find_service y (vb_service_code (fst ?p)) = Some s"
    using ok [OF p] by (auto simp: planned_ok_def)
  note svc = find_service_in_tree [OF s]
  have code: "nth_opt codes (unat (service_code_list_index (bl ! i))) = Some (vb_service_code (fst ?p))"
    and num: "vb_block_number (fst ?p) = unat (block_number_or_key_version (bl ! i))"
    and val: "snd ?p = take 16 (drop (16 * i) data)"
    using plan_write_ok(4-6) [OF each [OF assms(4)]] by simp_all
  have split: "ps = take i ps @ ?p # drop (Suc i) ps" using assms(4) len by (simp add: id_take_nth_drop)
  obtain st1 st2 where st1: "foldE (write_planned y) st (take i ps) = Inr st1"
    and st2: "write_planned y st1 ?p = Inr st2" and rest: "foldE (write_planned y) st2 (drop (Suc i) ps) = Inr st'"
    using writes by (subst (asm) split) (auto simp: foldE_append bindE_eq_Inr)
  have "es_blocks s < length st1" using writes_planned_length [OF st1] wf_tree_address [OF assms(1)] svc by auto
  from write_planned_sets [OF st2 _ s this] have set: "blocks_at st2 (es_blocks s) ! vb_block_number (fst ?p) = snd ?p"
    using ok [OF p] by simp
  have later: "planned_kind q = Random \<and> (\<exists>t. sys_find_service y (vb_service_code (fst q)) = Some t
      \<and> (es_blocks t, vb_block_number (fst q)) \<noteq> (es_blocks s, vb_block_number (fst ?p)))"
    if q: "q \<in> set (drop (Suc i) ps)" for q
  proof -
    obtain j where j: "i < j" "j < length bl" "q = ps ! j"
      using q len by (auto simp: in_set_conv_nth) (metis add.commute add_Suc_right less_add_Suc1 less_diff_conv)
    obtain t where t: "sys_find_service y (vb_service_code (fst q)) = Some t"
      using ok [of q] j len by (auto simp: planned_ok_def)
    have "named codes (bl ! j) \<noteq> named codes (bl ! i)" using assms(5) j by simp
    then have "(planned_number q, vb_block_number (fst q)) \<noteq> (planned_number ?p, vb_block_number (fst ?p))"
      using plan_named [OF each [OF j(2)]] plan_named [OF each [OF assms(4)]] j(3)
      by (auto simp: word_unat_eq_iff)
    moreover have "es_blocks t = es_blocks s \<Longrightarrow> planned_number q = planned_number ?p"
      using wf_tree_shared [OF assms(1)] find_service_in_tree [OF t] svc by (metis planned_number_def)
    ultimately show ?thesis using t ok [of q] j len by auto
  qed
  have "blocks_at st' (es_blocks s) ! vb_block_number (fst ?p) = snd ?p"
    using writes_planned_keep [OF rest later] set by simp
  then show ?thesis using code s num val by auto
qed

section \<open>Witnesses\<close>

definition demo_elements :: "block_list_element list" where
  "demo_elements = [\<lparr>block_number_or_key_version = 1, service_code_list_index = 0, access_mode = 0\<rparr>,
     \<lparr>block_number_or_key_version = 0, service_code_list_index = 0, access_mode = 0\<rparr>]"

definition demo_data :: bytes where
  "demo_data = replicate 16 0xC0 @ replicate 16 0xC1"

lemma demo_wf_tree: "wf_tree demo_system demo_store"
  by code_simp

lemma demo_write:
  "apply_block_writes demo_system demo_store [ServiceCode 0x0009] demo_elements demo_data True
    = Inr [[replicate 16 0xC1, replicate 16 0xC0], [replicate 16 0xB0], []]"
  by code_simp

theorem read_returns_named_blocks_witness:
  "\<exists>code s. sys_find_service demo_system code = Some s \<and> \<not> requires_key code
    \<and> replicate 16 0xA1 = blocks_at demo_store (es_blocks s) ! 1"
proof -
  have "read_blocks demo_system demo_store [ServiceCode 0x0009] demo_elements True
      = Inr [replicate 16 0xA1, replicate 16 0xA0]" by code_simp
  from read_returns_named_blocks [OF this, THEN conjunct2, rule_format, of 0] show ?thesis
    by (auto simp: demo_elements_def)
qed

theorem writes_confined_witness:
  "wf_tree demo_system [[replicate 16 0xC1, replicate 16 0xC0], [replicate 16 0xB0], []]
    \<and> (\<exists>code \<in> set [ServiceCode 0x0009]. \<exists>s. sys_find_service demo_system code = Some s \<and> es_blocks s = 0)"
proof -
  note w = writes_confined [OF demo_wf_tree demo_write]
  have "blocks_at [[replicate 16 0xC1, replicate 16 0xC0], [replicate 16 0xB0], []] 0 \<noteq> blocks_at demo_store 0"
    by code_simp
  then show ?thesis using w by blast
qed

theorem staged_write_is_sequential_witness:
  "write_sequentially demo_system demo_store [ServiceCode 0x0009] demo_elements demo_data True
    = Inr [[replicate 16 0xC1, replicate 16 0xC0], [replicate 16 0xB0], []]"
proof -
  have "\<forall>code \<in> set [ServiceCode 0x0009]. code_kind code \<noteq> Some Cyclic" by code_simp
  from staged_write_is_sequential [OF demo_wf_tree this] demo_write show ?thesis by simp
qed

theorem last_write_wins_witness:
  "\<exists>s. sys_find_service demo_system (ServiceCode 0x0009) = Some s
    \<and> blocks_at [[replicate 16 0xC1, replicate 16 0xC0], [replicate 16 0xB0], []] (es_blocks s) ! 1
      = take 16 (drop (16 * 0) demo_data)"
proof -
  have k: "\<forall>code \<in> set [ServiceCode 0x0009]. code_kind code = Some Random" by code_simp
  have l: "0 < length demo_elements"
    and n: "\<forall>j < length demo_elements. 0 < j \<longrightarrow>
      named [ServiceCode 0x0009] (demo_elements ! j) \<noteq> named [ServiceCode 0x0009] (demo_elements ! 0)"
    by (auto simp: demo_elements_def named_def nth_Cons split: nat.split)
  from last_write_wins [OF demo_wf_tree k demo_write l n] show ?thesis
    by (auto simp: demo_elements_def)
qed

end
