(* ===== verification/Card_Safety.thy ===== *)
theory Card_Safety
  imports Session_Safety Block_Access
begin

text \<open>
  Safety of the whole card. No frame makes a well-formed card panic, and block data changes only by
  an authorised write: the handlers of the system and of the card are followed from the frame down
  to \<open>apply_block_writes\<close>.
\<close>

section \<open>Encoders that panic\<close>

lemma push_count_Inl: "push_count n = Inl e \<Longrightarrow> 255 < n"
  by (auto simp: push_count_def split: if_splits)

lemma ensures_not_panic [simp]:
  "ensure_count_in_range what n limit \<noteq> Inl (Panicked m)"
  "ensure_fits_in_count what n \<noteq> Inl (Panicked m)"
  "ensure_omitted_on_error what noun sf1 b \<noteq> Inl (Panicked m)"
  "for_success what noun sf1 result \<noteq> Inl (Panicked m)"
  "frame_with_length_prefix p \<noteq> Inl (Panicked m)"
  by (auto simp: ensure_count_in_range_def ensure_fits_in_count_def ensure_omitted_on_error_def
      for_success_def frame_with_length_prefix_def bindE_eq_Inl ok_or_def Let_def split: option.splits)

lemma success_part_no_panic [simp]:
  "(\<And>r. result = Some r \<Longrightarrow> write r \<noteq> Inl (Panicked m)) \<Longrightarrow> success_part what noun sf1 result write \<noteq> Inl (Panicked m)"
  by (auto simp: success_part_def bindE_eq_Inl for_success_Inr split: option.splits)

lemma blocks_result_no_panic [simp]: "blocks_result what bs \<noteq> Inl (Panicked m)"
  by (auto simp: blocks_result_def bindE_eq_Inl ensure_count_in_range_Inr dest: push_count_Inl)

lemma to_secure_payload_no_panic [simp]: "to_secure_payload r \<noteq> Inl (Panicked m)"
  by (cases r) (auto simp: secure_read_payload_def remaining_payload_def bindE_eq_Inl)

lemma results_no_panic [simp]:
  "code_list_result r1 \<noteq> Inl (Panicked m)"
  "block_information_ex_result r2 \<noteq> Inl (Panicked m)"
  "node_property_result r3 \<noteq> Inl (Panicked m)"
  "product_information_result r4 \<noteq> Inl (Panicked m)"
  "specification_version_result r5 \<noteq> Inl (Panicked m)"
  by (auto simp: code_list_result_def block_information_ex_result_def node_property_result_def
      product_information_result_def specification_version_result_def bindE_eq_Inl
      ensure_count_in_range_Inr ensure_fits_in_count_Inr dest: push_count_Inl)

lemma key_versions_no_panic [simp]: "write_service_v2_key_versions r \<noteq> Inl (Panicked m)"
  by (auto simp: write_service_v2_key_versions_def Let_def bindE_eq_Inl ensure_count_in_range_Inr ok_or_def
      dest!: push_count_Inl mapE_Inl split: if_splits option.splits)

lemma flagged_no_panic [simp]: "part \<noteq> Inl (Panicked m) \<Longrightarrow> flagged code idm sf1 sf2 part \<noteq> Inl (Panicked m)"
  by (auto simp: flagged_def bindE_eq_Inl)

lemma to_payload_panic:
  assumes "to_payload r = Inl (Panicked m)"
  shows "\<exists>idm codes. r = RespRequestSystemCode idm codes \<and> 255 < length codes"
  using assms to_secure_payload_no_panic
  by (cases r) (auto simp del: to_secure_payload.simps simp: bindE_eq_Inl extend_counted_u16_le_def extend_counted_u16_be_def
      ensure_count_in_range_Inr ensure_fits_in_count_Inr dest: push_count_Inl split: if_splits)

lemma encode_response_frame_panic:
  assumes "encode_response_frame r = Inl m"
  shows "\<exists>idm codes. r = RespRequestSystemCode idm codes \<and> 255 < length codes"
  using assms to_payload_panic
  by (auto simp: encode_response_frame_def response_to_frame_def bindE_eq_Inl
      split: sum.splits felica_error.splits if_splits)

section \<open>Well-formed cards\<close>

definition wf_card :: "emulator \<Rightarrow> bool" where
  "wf_card em \<longleftrightarrow> (\<forall>y \<in> set (em_systems em). wf_tree y (em_store em))"

lemma handle_secure_write_no_panic:
  assumes "wf_tree y st"
  shows "handle_secure_write y st codes bl data \<noteq> Inl m"
  using apply_block_writes_no_panic [OF assms, of bl data codes False]
  by (auto simp: handle_secure_write_def not_less mult.commute split: sum.splits access_error.splits)

lemma secure_command_response_no_panic:
  assumes "wf_tree y st"
  shows "secure_command_response y st codes c \<noteq> Inl m"
  using handle_secure_write_no_panic [OF assms] read_blocks_no_panic
  by (cases c) (auto simp: secure_command_response_def bindE_eq_Inl handle_secure_read_def
      split: sum.splits access_error.splits)

lemma secure_command_store:
  assumes "wf_tree y st" and "secure_command_response y st codes c = Inr (resp, st')"
  shows "st' = st \<or> (\<exists>bl data. c = CmdWrite bl data \<and> apply_block_writes y st codes bl data False = Inr st')"
  using assms(2)
  by (cases c) (auto simp: secure_command_response_def bindE_eq_Inr handle_secure_write_def
      split: if_splits sum.splits access_error.splits)

lemma finish_secure_frame_no_panic: "finish_secure_frame C y st session n code r \<noteq> Inl m"
  using to_secure_payload_no_panic [of r]
  by (auto simp: finish_secure_frame_def Let_def split: sum.splits option.splits felica_error.splits)

lemma finish_secure_frame_store: "finish_secure_frame C y st session n code r = Inr (f, y', st') \<Longrightarrow> st' = st"
  by (auto simp: finish_secure_frame_def Let_def split: sum.splits option.splits felica_error.splits)

lemma handle_secure_frame_no_panic:
  assumes "wf_tree y st"
  shows "handle_secure_frame C y st code e \<noteq> Inl m"
  using secure_command_response_no_panic [OF assms] finish_secure_frame_no_panic
  by (auto simp: handle_secure_frame_def bindE_eq_Inl split: option.splits sum.splits prod.splits)

lemma handle_secure_frame_store:
  assumes "wf_tree y st" and "handle_secure_frame C y st code e = Inr (f, y', st')"
  shows "st' = st \<or> (\<exists>session n p bl data. open_secure_frame C y code e = Some (session, n, p)
    \<and> parse_secure_payload code p = Inr (CmdWrite bl data)
    \<and> apply_block_writes y st (ss_service_codes session) bl data False = Inr st')"
proof (cases "open_secure_frame C y code e")
  case None
  then show ?thesis using assms(2) by (simp add: handle_secure_frame_def)
next
  case (Some o')
  obtain session n p where o: "o' = (session, n, p)" by (cases o')
  show ?thesis
  proof (cases "parse_secure_payload code p")
    case (Inl x)
    then show ?thesis using assms(2) Some o by (simp add: handle_secure_frame_def)
  next
    case (Inr c)
    then obtain resp st1 where r: "secure_command_response y st (ss_service_codes session) c = Inr (resp, st1)"
      and "(case resp of None \<Rightarrow> Inr (None, y, st1)
        | Some r \<Rightarrow> finish_secure_frame C y st1 session n code r) = Inr (f, y', st')"
      using assms(2) Some o by (auto simp: handle_secure_frame_def bindE_eq_Inr)
    then have "st' = st1" by (auto split: option.splits dest: finish_secure_frame_store)
    then show ?thesis using secure_command_store [OF assms(1) r] Some o Inr by auto
  qed
qed

lemma handle_authentication1_no_panic: "handle_authentication1 C r y idm areas services ch \<noteq> Inl m"
  by (auto simp: handle_authentication1_def Let_def bindE_eq_Inl case_prod_unfold split: option.splits dest: encode_response_frame_panic)

lemma handle_authentication2_no_panic: "handle_authentication2 C y ch \<noteq> Inl m"
  by (auto simp: handle_authentication2_def Let_def bindE_eq_Inl split: option.splits dest: encode_response_frame_panic)

lemma handle_read_no_panic: "handle_read idm y st codes bl \<noteq> Inl m"
  using read_blocks_no_panic
  by (auto simp: handle_read_def split: sum.splits access_error.splits dest: encode_response_frame_panic)

lemma handle_write_no_panic:
  assumes "wf_tree y st"
  shows "handle_write idm y st codes bl data \<noteq> Inl m"
  using apply_block_writes_no_panic [OF assms, of bl data codes True]
  by (auto simp: handle_write_def not_less mult.commute bindE_eq_Inl
      split: sum.splits access_error.splits dest: encode_response_frame_panic)

lemma handle_write_store:
  assumes "handle_write idm y st codes bl data = Inr (f, st')"
  shows "st' = st \<or> apply_block_writes y st codes bl data True = Inr st'"
  using assms
  by (auto simp: handle_write_def bindE_eq_Inr split: if_splits sum.splits access_error.splits)

lemma reply_no_panic:
  assumes "\<And>idm codes. r = RespRequestSystemCode idm codes \<Longrightarrow> length codes \<le> 255"
  shows "reply em r \<noteq> Inl m"
proof
  assume "reply em r = Inl m"
  then have "encode_response_frame r = Inl m" by (simp add: reply_def bindE_eq_Inl)
  from encode_response_frame_panic [OF this] show False using assms by fastforce
qed

section \<open>Steps of the card\<close>

lemma sys_step_root: "sys_step C r y y' \<Longrightarrow> sys_root y' = sys_root y"
proof (induction rule: sys_step.induct)
  case (reset y)
  show ?case by (simp add: reset_mode_def)
next
  case (authentication1 y idm areas services ch f y')
  then show ?case using handle_authentication1_result by fastforce
next
  case (authentication2 y ch f y')
  then show ?case using handle_authentication2_result by fastforce
next
  case (secure y st code e f y' st')
  then show ?case using handle_secure_frame_result by fastforce
qed

lemma systems_step_roots:
  assumes "systems_step C r em em'"
  shows "map sys_root (em_systems em') = map sys_root (em_systems em)"
proof -
  have "sys_root y' = sys_root y" if "sys_steps C r y y'" for y y'
    using that by (induction rule: rtranclp_induct) (auto dest: sys_step_root)
  then show ?thesis using assms unfolding systems_step_def
    by (intro nth_equalityI) (auto simp: list_all2_conv_all_nth)
qed

lemma wf_card_iff: "wf_card em \<longleftrightarrow> (\<forall>x \<in> set (map sys_root (em_systems em)).
    \<forall>y. sys_root y = x \<longrightarrow> wf_tree y (em_store em))"
  by (auto simp: wf_card_def wf_tree_def)

lemma wf_card_step:
  assumes "wf_card em" and "systems_step C r em em'" and "same_shape (em_store em) (em_store em') \<or> em_store em' = em_store em"
  shows "wf_card em'"
proof -
  have "\<forall>x \<in> set (map sys_root (em_systems em')). \<forall>y. sys_root y = x \<longrightarrow> wf_tree y (em_store em)"
    using assms(1) unfolding wf_card_iff systems_step_roots [OF assms(2)] .
  then show ?thesis using assms(3) same_shape_wf_tree unfolding wf_card_iff by metis
qed

lemma wf_card_nth: "wf_card em \<Longrightarrow> i < length (em_systems em) \<Longrightarrow> wf_tree (em_systems em ! i) (em_store em)"
  by (simp add: wf_card_def)

lemma system_index_for_idm_card:
  assumes "system_index_for_idm em idm req = (io, em')" and "wf_card em"
  shows "wf_card em' \<and> em_store em' = em_store em \<and> length (em_systems em') = length (em_systems em)
    \<and> (\<forall>i. io = Some i \<longrightarrow> i < length (em_systems em'))"
proof -
  have st: "em_store em' = em_store em \<and> length (em_systems em') = length (em_systems em)"
    using assms(1) by (auto simp: system_index_for_idm_def update_system_def Let_def split: option.splits if_splits)
  moreover have "io = Some i \<Longrightarrow> i < length (em_systems em)" for i
    using system_index_for_idm_addressed assms(1) by blast
  ultimately show ?thesis
    using wf_card_step [OF assms(2) system_index_for_idm_steps [OF assms(1)]] by simp
qed

text \<open>
  \<open>with_system\<close> runs its body on a well-formed card with the same store and as many systems.
\<close>

lemma with_system_no_panic:
  assumes "wf_card em"
    and "\<And>i em1. wf_card em1 \<Longrightarrow> wf_tree (em_systems em1 ! i) (em_store em1)
      \<Longrightarrow> length (em_systems em1) = length (em_systems em) \<Longrightarrow> f i (em_systems em1 ! i) em1 \<noteq> Inl m"
  shows "with_system em idm req f \<noteq> Inl m"
proof -
  obtain io em1 where s: "system_index_for_idm em idm req = (io, em1)" by (cases "system_index_for_idm em idm req")
  note c = system_index_for_idm_card [OF s assms(1)]
  show ?thesis
  proof (cases io)
    case None
    then show ?thesis using s by (simp add: with_system_def)
  next
    case (Some i)
    then have "wf_tree (em_systems em1 ! i) (em_store em1)" using c wf_card_nth by blast
    from assms(2) [OF _ this] c Some s show ?thesis by (simp add: with_system_def)
  qed
qed

lemma system_index_for_polling_store:
  "system_index_for_polling em code = (io, em') \<Longrightarrow> em_store em' = em_store em"
  by (auto simp: system_index_for_polling_def update_system_def Let_def split: option.splits if_splits)

lemma handle_command_no_panic:
  assumes "wf_card em" and "length (em_systems em) \<le> 255"
  shows "handle_command C r em c \<noteq> Inl m"
proof (cases c)
  case (CmdPolling code rc slots)
  then show ?thesis using reply_no_panic
    by (auto simp: handle_command_def Let_def split: prod.splits option.splits)
next
  case (CmdWriteWithoutEncryption idm codes bl data)
  then show ?thesis using handle_write_no_panic
    by (auto simp: handle_command_def bindE_eq_Inl intro!: with_system_no_panic [OF assms(1)])
next
  case (CmdRequestSystemCode idm)
  have codes: "length codes \<le> 255 \<Longrightarrow> reply em1 (RespRequestSystemCode idm codes) \<noteq> Inl m" for em1 codes
    by (rule reply_no_panic) auto
  show ?thesis unfolding CmdRequestSystemCode handle_command_def command.case
    by (rule with_system_no_panic [OF assms(1)]) (use assms(2) codes in \<open>simp add: system_codes_def\<close>)
qed (auto simp: handle_command_def bindE_eq_Inl handle_read_no_panic handle_authentication1_no_panic
    handle_authentication2_no_panic intro!: with_system_no_panic [OF assms(1)] reply_no_panic)


lemma with_system_store:
  assumes "with_system em idm req f = Inr (resp, em')" and "wf_card em"
    and "em_store em' \<noteq> em_store em"
  shows "\<exists>i em1. system_index_for_idm em idm req = (Some i, em1) \<and> f i (em_systems em1 ! i) em1 = Inr (resp, em')
    \<and> em_store em1 = em_store em \<and> i < length (em_systems em1) \<and> wf_card em1"
proof -
  obtain io em1 where s: "system_index_for_idm em idm req = (io, em1)" by (cases "system_index_for_idm em idm req")
  note c = system_index_for_idm_card [OF s assms(2)]
  then obtain i where "io = Some i" using assms(1,3) s by (cases io) (simp_all add: with_system_def)
  then show ?thesis using c s assms(1) by (simp add: with_system_def)
qed

lemma handle_command_store:
  assumes "handle_command C r em c = Inr (resp, em')" and "wf_card em" and "em_store em' \<noteq> em_store em"
  shows "\<exists>idm codes bl data i em1. c = CmdWriteWithoutEncryption idm codes bl data
    \<and> system_index_for_idm em idm Unauthenticated = (Some i, em1) \<and> wf_card em1
    \<and> i < length (em_systems em1) \<and> em_store em1 = em_store em
    \<and> apply_block_writes (em_systems em1 ! i) (em_store em) codes bl data True = Inr (em_store em')"
proof (cases "\<exists>idm codes bl data. c = CmdWriteWithoutEncryption idm codes bl data")
  case True
  then obtain idm codes bl data where c: "c = CmdWriteWithoutEncryption idm codes bl data" by blast
  obtain i em1 where s: "system_index_for_idm em idm Unauthenticated = (Some i, em1)" "em_store em1 = em_store em"
      "i < length (em_systems em1)" "wf_card em1"
    and h: "bindE (handle_write idm (em_systems em1 ! i) (em_store em1) codes bl data)
      (\<lambda>(f, st). Inr (f, em1\<lparr>em_store := st\<rparr>)) = Inr (resp, em')"
    using with_system_store [OF assms(1) [unfolded c handle_command_def command.case] assms(2,3)] by blast
  then obtain f where f: "handle_write idm (em_systems em1 ! i) (em_store em1) codes bl data = Inr (f, em_store em')"
    by (auto simp: bindE_eq_Inr)
  from handle_write_store [OF this] s assms(3) c show ?thesis by auto
next
  case False
  have keep: "em_store em' = em_store em" if "with_system em idm req f = Inr (resp, em')"
    and "\<And>i em1. f i (em_systems em1 ! i) em1 = Inr (resp, em') \<Longrightarrow> em_store em' = em_store em1" for idm req f
    using with_system_store [OF that(1) assms(2)] that(2) by metis
  have "em_store em' = em_store em"
    using assms(1) False system_index_for_polling_store
    by (cases c) (auto simp: handle_command_def bindE_eq_Inr Let_def update_system_def
        elim!: keep dest!: reply_same split: prod.splits option.splits if_splits)
  then show ?thesis using assms(3) by simp
qed

text \<open>The same two facts for a whole frame.\<close>

lemma em_handle_secure_frame_no_panic:
  assumes "wf_card em"
  shows "em_handle_secure_frame C em code e \<noteq> Inl m"
proof (cases "active_index em")
  case None
  then show ?thesis by (auto simp: em_handle_secure_frame_def active_index_def split: option.splits)
next
  case (Some i)
  from handle_secure_frame_no_panic [OF wf_card_nth [OF assms active_index_less [OF Some]]]
  show ?thesis by (auto simp: em_handle_secure_frame_active [OF Some] bindE_eq_Inl)
qed

lemma handle_frame_no_panic:
  assumes "wf_card em" and "length (em_systems em) \<le> 255"
  shows "\<exists>resp em'. handle_frame C r em f = Inr (resp, em')"
proof -
  have "handle_frame C r em f \<noteq> Inl m" for m
    using em_handle_secure_frame_no_panic [OF assms(1)] handle_command_no_panic [OF assms]
    by (auto simp: handle_frame_def Let_def split: sum.splits)
  then show ?thesis by (cases "handle_frame C r em f") auto
qed

lemma secure_frame_store:
  assumes "em_handle_secure_frame C em code e = Inr (resp, em')" and "wf_card em"
    and "em_store em' \<noteq> em_store em"
  shows "\<exists>i session n p bl data. active_index em = Some i
    \<and> open_secure_frame C (em_systems em ! i) code e = Some (session, n, p)
    \<and> parse_secure_payload code p = Inr (CmdWrite bl data)
    \<and> apply_block_writes (em_systems em ! i) (em_store em) (ss_service_codes session) bl data False
      = Inr (em_store em')"
proof -
  obtain i where i: "active_index em = Some i"
    using assms(1,3) by (cases "active_index em")
      (auto simp: em_handle_secure_frame_def active_index_def split: option.splits)
  obtain f y' st' where h: "handle_secure_frame C (em_systems em ! i) (em_store em) code e = Inr (f, y', st')"
      "em_store em' = st'"
    using assms(1) by (auto simp: em_handle_secure_frame_active [OF i] bindE_eq_Inr)
  from handle_secure_frame_store [OF wf_card_nth [OF assms(2) active_index_less [OF i]] h(1)] show ?thesis
    using i assms(3) h(2) by auto
qed

lemma frame_shape:
  assumes "handle_frame C r em f = Inr (resp, em')" and "wf_card em"
  shows "same_shape (em_store em) (em_store em') \<or> em_store em' = em_store em"
proof (rule ccontr)
  assume "\<not> ?thesis"
  then have shape: "\<not> same_shape (em_store em) (em_store em')" and ne: "em_store em' \<noteq> em_store em" by auto
  consider "em_handle_secure_frame C em (f ! 1) (drop 2 f) = Inr (resp, em')"
    | c where "handle_command C r em c = Inr (resp, em')"
    using assms(1) ne by (auto simp: handle_frame_def Let_def split: if_splits sum.splits)
  then show False
  proof cases
    case 1
    from secure_frame_store [OF this assms(2) ne] show False
      using write_effect(1) [OF wf_card_nth [OF assms(2) active_index_less]] shape by blast
  next
    case 2
    from handle_command_store [OF this assms(2) ne] show False
      using write_effect(1) wf_card_nth shape by metis
  qed
qed

definition card_ok :: "emulator \<Rightarrow> bool" where
  "card_ok em \<longleftrightarrow> wf_card em \<and> length (em_systems em) \<le> 255"

lemma card_ok_step:
  assumes "em_step C r em em'" and "card_ok em"
  shows "card_ok em'"
proof -
  have wf: "wf_card em" using assms(2) by (simp add: card_ok_def)
  have "same_shape (em_store em) (em_store em') \<or> em_store em' = em_store em"
    using assms(1)
  proof cases
    case (frame f resp)
    then show ?thesis using frame_shape wf by blast
  next
    case power_off
    then show ?thesis by (simp add: power_off_def)
  next
    case (set_active code)
    then show ?thesis by (auto simp: set_active_system_def update_system_def split: option.splits)
  next
    case (polling code rc)
    then show ?thesis by (auto simp: polling_response_def Let_def dest: system_index_for_polling_store
          split: prod.splits option.splits)
  qed
  then have "wf_card em'" by (rule wf_card_step [OF wf em_step_systems [OF assms(1)]])
  moreover have "length (em_systems em') = length (em_systems em)"
    using em_step_systems [OF assms(1)] by (auto simp: systems_step_def list_all2_lengthD)
  ultimately show ?thesis using assms(2) by (simp add: card_ok_def)
qed

lemma card_ok_reachable: "reachable C em0 em \<Longrightarrow> card_ok em0 \<Longrightarrow> card_ok em"
  unfolding reachable_def by (induction rule: rtranclp_induct) (auto intro: card_ok_step)

text \<open>
  C3. A card never panics. A card whose systems are well formed answers or ignores every frame in
  every state it can reach, whatever bytes the frame holds and whatever the random number: none of
  the \<open>expect\<close>, \<open>unwrap\<close> and index operations of its handlers fails, and the systems stay well formed.
  The bound of 255 systems is the one Request System Code needs for its count.
\<close>

theorem card_never_panics:
  assumes "reachable C em0 em" and "wf_card em0" and "length (em_systems em0) \<le> 255"
  shows "\<exists>resp em'. handle_frame C r em f = Inr (resp, em') \<and> wf_card em'"
proof -
  have ok: "card_ok em" using card_ok_reachable [OF assms(1)] assms(2,3) by (simp add: card_ok_def)
  then obtain resp em' where h: "handle_frame C r em f = Inr (resp, em')"
    using handle_frame_no_panic [of em C r f] by (auto simp: card_ok_def)
  from card_ok_step [OF em_step.frame [OF h] ok] h show ?thesis by (auto simp: card_ok_def)
qed

lemma system_index_for_idm_unauthenticated:
  assumes "system_index_for_idm em idm Unauthenticated = (Some i, em')"
  shows "i < length (em_systems em) \<and> sys_idm (em_systems em ! i) = idm
    \<and> (em_active em = Some (sys_code (em_systems em ! i)) \<longrightarrow> sys_mode (em_systems em ! i) = Mode0)
    \<and> sys_root (em_systems em' ! i) = sys_root (em_systems em ! i)"
  using assms
  by (auto simp: system_index_for_idm_def update_system_def reset_mode_def Let_def
      split: option.splits if_splits dest: position_Some)

text \<open>What permits a change of the block vector at an address, by a plain or by a secure frame.\<close>

definition permits_write :: "emulated_system \<Rightarrow> service_code list \<Rightarrow> bool \<Rightarrow> nat \<Rightarrow> bool" where
  "permits_write y codes key_free a \<longleftrightarrow> (\<exists>code \<in> set codes. \<exists>s attr. sys_find_service y code = Some s
     \<and> es_blocks s = a \<and> code_attribute code = Some attr \<and> allows_write attr
     \<and> (key_free \<longrightarrow> \<not> requires_key code))"

text \<open>
  C1. Access control. If a frame changes the blocks at some address of a reachable, well-formed card,
  then either it is a Write Without Encryption for a system that is not in a session, whose service
  list names a service at that address that is writable and needs no key; or it is a Write inside the
  secure session of the active system, which passed every check of the session (its key, MAC,
  transaction ID and a fresh transaction number), and the service is writable and one of those that
  the session was authenticated for.
\<close>

theorem access_control:
  assumes "reachable C em0 em" and "wf_card em0" and "length (em_systems em0) \<le> 255"
    and "handle_frame C r em f = Inr (resp, em')"
    and "blocks_at (em_store em') a \<noteq> blocks_at (em_store em) a"
  shows "(\<exists>i idm codes bl data. parse_frame f = Inr (CmdWriteWithoutEncryption idm codes bl data)
      \<and> i < length (em_systems em) \<and> sys_idm (em_systems em ! i) = idm
      \<and> (em_active em = Some (sys_code (em_systems em ! i)) \<longrightarrow> sys_mode (em_systems em ! i) = Mode0)
      \<and> permits_write (em_systems em ! i) codes True a)
    \<or> (\<exists>i session n p bl data. active_index em = Some i
      \<and> open_secure_frame C (em_systems em ! i) (f ! 1) (drop 2 f) = Some (session, n, p)
      \<and> parse_secure_payload (f ! 1) p = Inr (CmdWrite bl data)
      \<and> sys_session (em_systems em ! i) = Some session
      \<and> permits_write (em_systems em ! i) (ss_service_codes session) False a)"
proof -
  have wf: "wf_card em" using card_ok_reachable [OF assms(1)] assms(2,3) by (simp add: card_ok_def)
  have ne: "em_store em' \<noteq> em_store em" using assms(5) by auto
  consider "em_handle_secure_frame C em (f ! 1) (drop 2 f) = Inr (resp, em')"
    | c where "parse_frame f = Inr c" "handle_command C r em c = Inr (resp, em')"
    using assms(4) ne by (auto simp: handle_frame_def Let_def split: if_splits sum.splits)
  then show ?thesis
  proof cases
    case 1
    from secure_frame_store [OF this wf ne] obtain i session n p bl data
      where s: "active_index em = Some i" "open_secure_frame C (em_systems em ! i) (f ! 1) (drop 2 f) = Some (session, n, p)"
        "parse_secure_payload (f ! 1) p = Inr (CmdWrite bl data)"
        and w: "apply_block_writes (em_systems em ! i) (em_store em) (ss_service_codes session) bl data False
          = Inr (em_store em')" by blast
    have "permits_write (em_systems em ! i) (ss_service_codes session) False a"
      using write_effect(2) [OF wf_card_nth [OF wf active_index_less [OF s(1)]] w assms(5)]
      by (auto simp: permits_write_def)
    then show ?thesis using s open_secure_frame_Some(1) [OF s(2)] by blast
  next
    case 2
    from handle_command_store [OF this(2) wf ne] obtain idm codes bl data i em1
      where c: "c = CmdWriteWithoutEncryption idm codes bl data"
        and s: "system_index_for_idm em idm Unauthenticated = (Some i, em1)" "wf_card em1"
          "i < length (em_systems em1)" "em_store em1 = em_store em"
        and w: "apply_block_writes (em_systems em1 ! i) (em_store em) codes bl data True = Inr (em_store em')"
      by blast
    note a = system_index_for_idm_unauthenticated [OF s(1)]
    have "wf_tree (em_systems em1 ! i) (em_store em)" using wf_card_nth [OF s(2,3)] s(4) by simp
    from write_effect(2) [OF this w assms(5)] have "permits_write (em_systems em ! i) codes True a"
      using a by (auto simp: permits_write_def sys_find_service_def)
    then show ?thesis using 2(1) c a by blast
  qed
qed

text \<open>
  C21. A card with more than 255 systems panics when one of them is asked for the system codes.
\<close>

theorem system_code_count_panics:
  assumes "255 < length (em_systems em)" and "y \<in> set (em_systems em)"
  shows "handle_command C r em (CmdRequestSystemCode (sys_idm y))
    = Inl ''list length is bounded well below 255''"
proof -
  obtain i where i: "position (\<lambda>z. sys_idm z = sys_idm y) (em_systems em) = Some i"
  proof (cases "position (\<lambda>z. sys_idm z = sys_idm y) (em_systems em)")
    case None
    have "position P xs = None \<Longrightarrow> \<forall>x \<in> set xs. \<not> P x" for P and xs :: "emulated_system list"
      by (induction xs) (auto split: if_splits)
    from this [OF None] show thesis using assms(2) by blast
  qed
  obtain em1 where s: "system_index_for_idm em (sys_idm y) AnyMode = (Some i, em1)"
    using i by (auto simp: system_index_for_idm_def Let_def)
  then have l: "length (em_systems em1) = length (em_systems em)"
    by (auto simp: system_index_for_idm_def update_system_def Let_def split: option.splits if_splits)
  have "push_count (length (em_systems em1)) = Inl (Panicked ''list length is bounded well below 255'')"
    using assms(1) l by (simp add: push_count_def)
  moreover have "em_systems em1 \<noteq> []" using assms(1) l by auto
  ultimately show ?thesis
    by (simp add: handle_command_def with_system_def s reply_def encode_response_frame_def system_codes_def
        response_to_frame_def extend_counted_u16_be_def)
qed


section \<open>Witnesses\<close>

definition demo_plain_write :: bytes where
  "demo_plain_write = frame_of (CmdWriteWithoutEncryption [1, 2, 3, 4, 5, 6, 7, 8] [ServiceCode 0x0009]
     demo_elements demo_data)"

definition demo_secure_write :: bytes where
  "demo_secure_write = demo_secure WRITE_COMMAND_CODE 1 ([1, 0x80, 0] @ replicate 16 0xDD)"

lemma demo_wf_card: "wf_card demo_card" and demo_size: "length (em_systems demo_card) \<le> 255"
  by code_simp+

theorem card_never_panics_witness:
  "\<exists>resp em'. handle_frame xor_cipher demo_key demo_session [2, 3] = Inr (resp, em') \<and> wf_card em'"
  by (rule card_never_panics [OF demo_reachable demo_wf_card demo_size])

theorem access_control_witness:
  "\<exists>session. sys_session (em_systems demo_session ! 0) = Some session
    \<and> permits_write (em_systems demo_session ! 0) (ss_service_codes session) False 1"
proof -
  have r: "returns demo_key demo_session demo_secure_write"
    and c: "blocks_at (em_store (after demo_key demo_session [demo_secure_write])) 1 \<noteq> blocks_at (em_store demo_session) 1"
    and p: "case parse_frame demo_secure_write of Inr c \<Rightarrow> False | Inl e \<Rightarrow> True"
    and i: "active_index demo_session = Some 0"
    by code_simp+
  show ?thesis
    using access_control [OF demo_reachable demo_wf_card demo_size returns_after [OF r] c] p i by auto
qed

theorem system_code_count_panics_witness:
  "handle_command xor_cipher demo_key (demo_card\<lparr>em_systems := replicate 256 demo_system\<rparr>)
     (CmdRequestSystemCode (sys_idm demo_system)) = Inl ''list length is bounded well below 255''"
  by (rule system_code_count_panics) (simp_all add: in_set_replicate)

end
