(* ===== verification/Command_Codec.thy ===== *)
theory Command_Codec
  imports Command_Parse
begin

text \<open>
  Encoder against parser: the interface of counted lists (a locale with three instances), the
  well-formedness of commands that the parsers guarantee, and the round trips of plain frames and
  of secure payloads.
\<close>

section \<open>Counted lists\<close>

text \<open>
  The interface between the writers of a list and the readers behind a one-byte count: reading
  \<open>n\<close> elements from the concatenation of \<open>n\<close> written ones returns them and what follows.
  Service code lists, node code lists and block lists are its three instances.
\<close>

locale list_codec =
  fixes put :: "'a \<Rightarrow> bytes"
    and get_list :: "bytes \<Rightarrow> nat \<Rightarrow> felica_error + 'a list \<times> bytes"
    and wf :: "'a \<Rightarrow> bool"
  assumes get_put: "list_all wf xs \<Longrightarrow> get_list (concat (map put xs) @ r) (length xs) = Inr (xs, r)"
    and get_wf: "get_list data n = Inr (xs, r) \<Longrightarrow> length xs = n \<and> list_all wf xs"
begin

lemma counted_get_put:
  assumes "lo \<le> length xs" and "length xs \<le> hi" and "hi \<le> 255" and "list_all wf xs"
  shows "bindE (take_count (u8_of (length xs) # concat (map put xs) @ r) lo hi label noun)
    (\<lambda>(n, rest). get_list rest n) = Inr (xs, r)"
proof -
  have "unat (u8_of (length xs)) = length xs" using assms by (intro unat_u8_of) linarith
  then show ?thesis
    using assms(1,2)
    by (simp only: take_count_def list.case simp_thms if_False bindE_Inr prod.case get_put [OF assms(4)])
qed

lemma counted_get_wf:
  assumes "bindE (take_count data lo hi label noun) (\<lambda>(n, rest). get_list rest n) = Inr (xs, r)"
  shows "lo \<le> length xs \<and> length xs \<le> hi \<and> list_all wf xs"
  using assms
  by (auto simp: take_count_def bindE_eq_Inr perr_def split: list.splits if_splits dest!: get_wf)

lemma put_list_inj:
  assumes "list_all wf xs" and "list_all wf ys" and "length xs = length ys"
    and "concat (map put xs) @ r = concat (map put ys) @ s"
  shows "xs = ys \<and> r = s"
  using get_put [OF assms(1), of r] get_put [OF assms(2), of s] assms(3,4)
  by (metis Inr_inject prod.inject)

end

definition get_u16_list :: "bytes \<Rightarrow> nat \<Rightarrow> felica_error + u16 list \<times> bytes" where
  "get_u16_list data n = bindE (parse_u16_list_le data n) (\<lambda>vs. Inr (vs, drop (n * 2) data))"

definition get_code_list :: "bytes \<Rightarrow> nat \<Rightarrow> felica_error + service_code list \<times> bytes" where
  "get_code_list data n = bindE (get_u16_list data n) (\<lambda>(vs, r). Inr (map ServiceCode vs, r))"

definition wf_block_element :: "block_list_element \<Rightarrow> bool" where
  "wf_block_element e \<longleftrightarrow> service_code_list_index e < 16 \<and> access_mode e < 8"

lemma u16_chunks_concat [simp]: "u16_chunks (concat (map u16_to_le vs)) = vs"
  by (induction vs) (auto simp: u16_to_le_def)

lemma length_u16_chunks: "length (u16_chunks bs) = length bs div 2"
  by (induction bs rule: u16_chunks.induct) auto

lemma length_concat_u16_to_le: "length (concat (map u16_to_le vs)) = length vs * 2"
  by (induction vs) auto

lemma get_u16_list_put:
  "get_u16_list (concat (map u16_to_le vs) @ r) (length vs) = Inr (vs, r)"
  by (simp add: get_u16_list_def parse_u16_list_le_def Let_def length_concat_u16_to_le)

lemma get_u16_list_length: "get_u16_list data n = Inr (vs, r) \<Longrightarrow> length vs = n"
  by (auto simp: get_u16_list_def parse_u16_list_le_def Let_def bindE_eq_Inr length_u16_chunks
      perr_def min_def split: if_splits)

interpretation u16_codec: list_codec u16_to_le get_u16_list "\<lambda>_. True"
  by unfold_locales (auto simp: get_u16_list_put dest: get_u16_list_length simp flip: list_all_iff
      intro: list_all_iff [THEN iffD2])

interpretation code_codec: list_codec code_to_le_bytes get_code_list "\<lambda>_. True"
proof
  fix cs r
  have "concat (map code_to_le_bytes cs) = concat (map u16_to_le (map code_raw cs))"
    by (induction cs) (simp_all add: code_to_le_bytes_def)
  then show "get_code_list (concat (map code_to_le_bytes cs) @ r) (length cs) = Inr (cs, r)"
    using get_u16_list_put [of "map code_raw cs" r] by (simp add: get_code_list_def comp_def)
next
  fix data n cs r
  assume "get_code_list data n = Inr (cs, r)"
  then show "length cs = n \<and> list_all (\<lambda>_. True) cs"
    by (auto simp: get_code_list_def bindE_eq_Inr list_all_iff dest: get_u16_list_length)
qed

lemma u8_masks: "(0x07 :: u8) = mask 3" "(0x0F :: u8) = mask 4"
  by (simp_all add: mask_eq_exp_minus_1)

lemma and_0x80: "(w :: u8) AND 0x80 \<noteq> 0 \<longleftrightarrow> bit w 7"
  using and_exp_eq_0_iff_not_bit [of w 7] by simp

lemma bit_0x80: "bit (0x80 :: u8) n \<longleftrightarrow> n = 7"
  using bit_exp_iff [where 'a = "8 word", of 7 n] by auto

lemma header_fields:
  fixes m i k :: u8
  assumes k: "\<And>n. bit k n \<longleftrightarrow> c \<and> n = 7"
  defines "h \<equiv> k OR push_bit 4 (m AND 0x07) OR (i AND 0x0F)"
  shows "drop_bit 4 h AND 0x07 = m AND 0x07" and "h AND 0x0F = i AND 0x0F"
    and "h AND 0x80 \<noteq> 0 \<longleftrightarrow> c"
  unfolding h_def u8_masks and_0x80
  by (auto intro!: bit_word_eqI simp: bit_simps k)

lemma u8_and_7: "m < 8 \<Longrightarrow> (m :: u8) AND 0x07 = m"
  unfolding u8_masks take_bit_eq_mask [symmetric] take_bit_eq_self_iff_drop_bit_eq_0
  by (simp add: word_less_nat_alt drop_bit_eq_div word_unat_eq_iff unat_div)

lemma u8_and_15: "i < 16 \<Longrightarrow> (i :: u8) AND 0x0F = i"
  unfolding u8_masks take_bit_eq_mask [symmetric] take_bit_eq_self_iff_drop_bit_eq_0
  by (simp add: word_less_nat_alt drop_bit_eq_div word_unat_eq_iff unat_div)

lemma u8_and_less: "(m :: u8) AND 0x07 < 8" "(i :: u8) AND 0x0F < 16"
  using word_and_le1 [of m 7] word_and_le1 [of i 15]
  by (auto simp: word_le_nat_alt word_less_nat_alt)

lemma ucast_u16_small: "w < 256 \<Longrightarrow> ucast (ucast (w :: u16) :: u8) = w"
  by (simp add: word_unat_eq_iff word_less_nat_alt)

lemma take_block_pack:
  assumes "wf_block_element e" shows "take_block (pack e @ r) = Inr (e, r)"
proof -
  let ?m = "access_mode e AND 0x07" and ?i = "service_code_list_index e AND 0x0F"
  have e: "?m = access_mode e" "?i = service_code_list_index e"
    using assms by (auto simp: wf_block_element_def u8_and_7 u8_and_15)
  show ?thesis
  proof (cases "block_number_or_key_version e < 256")
    case True
    have k: "\<And>n. bit (0x80 :: u8) n \<longleftrightarrow> True \<and> n = 7" by (simp only: bit_0x80 simp_thms)
    define h where "h = 0x80 OR push_bit 4 ?m OR ?i"
    note f = header_fields [OF k, of "access_mode e" "service_code_list_index e", folded h_def]
    have "pack e = [h, ucast (block_number_or_key_version e)]"
      using True by (simp add: pack_def h_def)
    with True f e show ?thesis by (simp add: take_block_def Let_def ucast_u16_small)
  next
    case False
    have k: "\<And>n. bit (0 :: u8) n \<longleftrightarrow> False \<and> n = 7" by simp
    define h where "h = 0 OR push_bit 4 ?m OR ?i"
    note f = header_fields [OF k, of "access_mode e" "service_code_list_index e", folded h_def]
    have "pack e = [h] @ u16_to_le (block_number_or_key_version e)"
      using False by (simp add: pack_def h_def)
    with f e show ?thesis by (simp add: take_block_def Let_def u16_to_le_def)
  qed
qed

lemma take_block_wf: "take_block data = Inr (e, r) \<Longrightarrow> wf_block_element e"
  by (auto simp: take_block_def wf_block_element_def Let_def perr_def u8_and_less
      split: list.splits if_splits)

lemma take_block_list_wf:
  "take_block_list data n = Inr (es, r) \<Longrightarrow> length es = n \<and> list_all wf_block_element es"
  by (induction n arbitrary: data es r) (auto simp: bindE_eq_Inr dest: take_block_wf)

lemma take_block_list_pack:
  "list_all wf_block_element es \<Longrightarrow> take_block_list (concat (map pack es) @ r) (length es) = Inr (es, r)"
  by (induction es) (auto simp: take_block_pack)

interpretation block_codec: list_codec pack take_block_list wf_block_element
  by unfold_locales (auto dest: take_block_list_wf take_block_list_pack)

section \<open>Well-formed commands\<close>

text \<open>
  What the field types and the protocol limits guarantee of a command: array lengths, list counts,
  four-bit and three-bit block list fields, one block of data per block list element.
\<close>

definition wf_blocks :: "block_list_element list \<Rightarrow> bool" where
  "wf_blocks bs \<longleftrightarrow> 1 \<le> length bs \<and> length bs \<le> MAX_BLOCK_COUNT \<and> list_all wf_block_element bs"

definition count_in :: "nat \<Rightarrow> nat \<Rightarrow> 'a list \<Rightarrow> bool" where
  "count_in lo hi xs \<longleftrightarrow> lo \<le> length xs \<and> length xs \<le> hi"

fun wf_command :: "command \<Rightarrow> bool" where
  "wf_command (CmdPolling _ request_code time_slots) \<longleftrightarrow>
     request_code \<in> set POLLING_REQUEST_CODES \<and> time_slots \<in> set POLLING_TIME_SLOTS"
| "wf_command (CmdRequestService idm cs) \<longleftrightarrow> length idm = 8 \<and> count_in 1 MAX_SERVICE_CODES cs"
| "wf_command (CmdRequestResponse idm) \<longleftrightarrow> length idm = 8"
| "wf_command (CmdReadWithoutEncryption idm cs bs) \<longleftrightarrow>
     length idm = 8 \<and> count_in 1 MAX_RW_SERVICE_CODES cs \<and> wf_blocks bs"
| "wf_command (CmdWriteWithoutEncryption idm cs bs data) \<longleftrightarrow>
     length idm = 8 \<and> count_in 1 MAX_RW_SERVICE_CODES cs \<and> wf_blocks bs \<and>
     length data = length bs * BLOCK_SIZE"
| "wf_command (CmdSearchServiceCode idm _) \<longleftrightarrow> length idm = 8"
| "wf_command (CmdRequestSystemCode idm) \<longleftrightarrow> length idm = 8"
| "wf_command (CmdRequestBlockInformation idm ns) \<longleftrightarrow> length idm = 8 \<and> count_in 1 MAX_NODE_CODES ns"
| "wf_command (CmdAuthentication1 idm as ss ch) \<longleftrightarrow>
     length idm = 8 \<and> count_in 0 MAX_SERVICE_CODES as \<and> count_in 0 MAX_SERVICE_CODES ss \<and> length ch = 8"
| "wf_command (CmdAuthentication2 idm ch) \<longleftrightarrow> length idm = 8 \<and> length ch = 8"
| "wf_command (CmdRead bs) \<longleftrightarrow> wf_blocks bs"
| "wf_command (CmdWrite bs data) \<longleftrightarrow> wf_blocks bs \<and> length data = length bs * BLOCK_SIZE"
| "wf_command (CmdReadV2 bs) \<longleftrightarrow> wf_blocks bs"
| "wf_command (CmdWriteV2 bs data) \<longleftrightarrow> wf_blocks bs \<and> length data = length bs * BLOCK_SIZE"
| "wf_command (CmdRequestCodeList idm _ _) \<longleftrightarrow> length idm = 8"
| "wf_command (CmdRequestBlockInformationEx idm ns) \<longleftrightarrow>
     length idm = 8 \<and> count_in 1 MAX_NODE_CODES ns"
| "wf_command (CmdSetParameter idm _ _) \<longleftrightarrow> length idm = 8"
| "wf_command (CmdGetContainerIssueInformation idm) \<longleftrightarrow> length idm = 8"
| "wf_command (CmdGetAreaInformation idm _) \<longleftrightarrow> length idm = 8"
| "wf_command (CmdGetNodeProperty idm _ ns) \<longleftrightarrow> length idm = 8 \<and> count_in 1 MAX_NODE_PROPERTY_CODES ns"
| "wf_command (CmdGetContainerProperty p) \<longleftrightarrow> from_index (to_index p) = p"
| "wf_command (CmdRequestServiceV2 idm cs) \<longleftrightarrow> length idm = 8 \<and> count_in 1 MAX_SERVICE_CODES cs"
| "wf_command (CmdGetSystemStatus idm) \<longleftrightarrow> length idm = 8"
| "wf_command (CmdRequestProductInformation idm) \<longleftrightarrow> length idm = 8"
| "wf_command (CmdRequestSpecificationVersion idm) \<longleftrightarrow> length idm = 8"
| "wf_command (CmdResetMode idm) \<longleftrightarrow> length idm = 8"
| "wf_command (CmdAuthentication1V2 idm _ ns ch) \<longleftrightarrow>
     length idm = 8 \<and> count_in 1 MAX_SERVICE_CODES ns \<and> length ch = 16"
| "wf_command (CmdAuthentication2V2 idm ch) \<longleftrightarrow> length idm = 8 \<and> length ch = 16"
| "wf_command CmdGetContainerId \<longleftrightarrow> True"
| "wf_command (CmdRegisterIssueId issue_id issue_parameter _) \<longleftrightarrow>
     length issue_id = 8 \<and> length issue_parameter = 8"
| "wf_command (CmdRegisterArea _ _) \<longleftrightarrow> True"
| "wf_command (CmdRegisterService _ _) \<longleftrightarrow> True"
| "wf_command CmdChangeSystemBlock \<longleftrightarrow> True"

section \<open>Readers on the output of writers\<close>

lemma parse_idm_append [simp, wire_simps]: "length idm = 8 \<Longrightarrow> parse_idm (idm @ r) = Inr (idm, r)"
  by (simp add: parse_idm_def)

lemma parse_idm_self [simp, wire_simps]: "length idm = 8 \<Longrightarrow> parse_idm idm = Inr (idm, [])"
  by (simp add: parse_idm_def)

lemma take_u16_list_eq:
  "take_u16_list data lo hi label noun =
    bindE (take_count data lo hi label noun) (\<lambda>(n, rest). get_u16_list rest n)"
  by (simp add: take_u16_list_def get_u16_list_def case_prod_unfold)

lemma take_service_code_list_eq:
  "take_service_code_list data limit label =
    bindE (take_count data 1 limit label ''service'') (\<lambda>(n, rest). get_code_list rest n)"
  by (simp add: take_service_code_list_def take_u16_list_eq get_code_list_def bindE_assoc
      case_prod_unfold)

lemma take_u16_list_written [wire_simps]:
  "count_in lo hi vs \<Longrightarrow> hi \<le> 255 \<Longrightarrow>
    take_u16_list (u8_of (length vs) # extend_u16_list_le vs @ r) lo hi label noun = Inr (vs, r)"
  unfolding take_u16_list_eq extend_u16_list_le_def count_in_def
  by (rule u16_codec.counted_get_put) (auto simp: list_all_iff)

lemma take_service_code_list_written [wire_simps]:
  "count_in 1 limit cs \<Longrightarrow> limit \<le> 255 \<Longrightarrow>
    take_service_code_list (u8_of (length cs) # extend_service_codes cs @ r) limit label = Inr (cs, r)"
  unfolding take_service_code_list_eq extend_service_codes_def count_in_def
  by (rule code_codec.counted_get_put) (auto simp: list_all_iff)

lemma take_count_written [wire_simps]:
  "lo \<le> n \<Longrightarrow> n \<le> hi \<Longrightarrow> hi \<le> 255 \<Longrightarrow> take_count (u8_of n # r) lo hi label noun = Inr (n, r)"
  by (simp add: take_count_def)

lemma take_block_list_written [wire_simps]:
  "wf_blocks bs \<Longrightarrow> take_block_list (extend_block_list bs @ r) (length bs) = Inr (bs, r)"
  by (simp add: wf_blocks_def extend_block_list_def block_codec.get_put)

lemma parse_u16_list_le_written [wire_simps]:
  "parse_u16_list_le (extend_u16_list_le vs @ r) (length vs) = Inr vs"
  using get_u16_list_put [of vs r]
  by (auto simp: get_u16_list_def extend_u16_list_le_def bindE_eq_Inr)

lemma take_block_count_written [wire_simps]:
  "wf_blocks bs \<Longrightarrow> take_count (u8_of (length bs) # r) (Suc 0) 255 label noun = Inr (length bs, r)"
  by (rule take_count_written) (auto simp: wf_blocks_def)

lemmas written_at_end [wire_simps] =
  take_u16_list_written [where r = "[]", unfolded append_Nil2]
  take_service_code_list_written [where r = "[]", unfolded append_Nil2]
  take_block_list_written [where r = "[]", unfolded append_Nil2]

lemma exact_len_ok [simp, wire_simps]: "exact_len body n short long = Inr u \<longleftrightarrow> length body = n"
  by (auto simp: exact_len_def perr_def)

lemma exact_len_same [wire_simps]: "length body = n \<Longrightarrow> exact_len body n short long = Inr ()"
  by simp

lemma ensure_no_trailing_bytes_Nil [simp, wire_simps]: "ensure_no_trailing_bytes [] label = Inr ()"
  by (simp add: ensure_no_trailing_bytes_def)

lemma reserved_zeros_two [simp, wire_simps]: "reserved_zeros [0, 0] label = Inr ()"
  by (simp add: reserved_zeros_def exact_len_def)

lemma from_byte_to_byte [simp, wire_simps]:
  "spe_from_byte (spe_to_byte e) = Some e"
  "spp_from_byte (spp_to_byte p) = Some p"
  "npt_from_byte (npt_to_byte t) = Some t"
  by (cases e; cases p; cases t; simp add: spe_from_byte_def spp_from_byte_def npt_from_byte_def)+

lemma counted_written:
  "extend_counted_u16_le vs = Inr c \<Longrightarrow> c = u8_of (length vs) # extend_u16_list_le vs"
  "extend_counted_service_codes cs = Inr c \<Longrightarrow> c = u8_of (length cs) # extend_service_codes cs"
  "extend_counted_block_list bs = Inr c \<Longrightarrow> c = u8_of (length bs) # extend_block_list bs"
  by (auto simp: extend_counted_u16_le_def extend_counted_service_codes_def
      extend_counted_block_list_def bindE_eq_Inr)

lemma parse_frame_plain:
  "plain p = Inr (Plain f) \<Longrightarrow> parse_frame f = parse_payload p"
  by (auto simp: plain_def bindE_eq_Inr frame_with_length_prefix_Inr parse_frame_def)

lemma plain_not_secure [simp]: "plain p \<noteq> Inr (Secure c q)"
  by (auto simp: plain_def bindE_eq_Inr)

lemma parse_payload_code:
  "map_of plain_parsers code = Some p \<Longrightarrow> parse_payload (code # body) = p body"
  by (simp add: parse_payload_def)

lemmas parser_defs =
  parse_polling_def parse_request_service_def parse_request_response_def
  parse_read_without_encryption_def parse_write_without_encryption_def parse_search_service_code_def
  parse_request_system_code_def parse_request_block_information_def parse_authentication2_def
  parse_request_code_list_def parse_request_block_information_ex_def parse_set_parameter_def
  parse_get_container_issue_information_def parse_get_area_information_def parse_get_node_property_def
  parse_get_container_property_def parse_request_service_v2_def parse_authentication1_v2_def
  parse_authentication2_v2_def parse_get_system_status_def parse_request_product_information_def
  parse_request_specification_version_def parse_reset_mode_def parse_get_container_id_def

lemma parse_authentication1_written [wire_simps]:
  assumes "length idm = 8" and "count_in 0 32 as" and "count_in 0 32 ss" and "length ch = 8"
  shows "parse_authentication1 (idm @ u8_of (length as) # extend_u16_list_le as
    @ u8_of (length ss) # extend_u16_list_le ss @ ch) = Inr (CmdAuthentication1 idm as ss ch)"
  using assms
  by (simp add: parse_authentication1_def Let_def wire_simps slice_opt_def count_in_def)

lemma encoding_plain_roundtrip:
  assumes "wf_command c" and "encoding c = Inr (Plain f)"
  shows "parse_frame f = Inr c"
proof (cases c)
  case (CmdPolling x1 x2 x3)
  then show ?thesis using assms
    by (auto simp: bindE_eq_Inr parser_defs parse_payload_code plain_parsers_def wire_simps Let_def u16_to_le_def u16_to_be_def
      dest!: counted_written parse_frame_plain)
next
  case (CmdRequestService x1 x2)
  then show ?thesis using assms
    by (auto simp: bindE_eq_Inr parser_defs parse_payload_code plain_parsers_def wire_simps Let_def u16_to_le_def u16_to_be_def
      dest!: counted_written parse_frame_plain)
next
  case (CmdReadWithoutEncryption x1 x2 x3)
  then show ?thesis using assms
    by (auto simp: bindE_eq_Inr parser_defs parse_payload_code plain_parsers_def wire_simps Let_def u16_to_le_def u16_to_be_def
      dest!: counted_written parse_frame_plain)
next
  case (CmdWriteWithoutEncryption x1 x2 x3 x4)
  then show ?thesis using assms
    by (auto simp: bindE_eq_Inr parser_defs parse_payload_code plain_parsers_def wire_simps Let_def u16_to_le_def u16_to_be_def
      dest!: counted_written parse_frame_plain)
next
  case (CmdAuthentication1 x1 x2 x3 x4)
  then show ?thesis using assms
    by (auto simp: bindE_eq_Inr parser_defs parse_payload_code plain_parsers_def wire_simps Let_def u16_to_le_def u16_to_be_def
      dest!: counted_written parse_frame_plain)
next
  case (CmdSetParameter x1 x2 x3)
  then show ?thesis using assms
    by (auto simp: bindE_eq_Inr parser_defs parse_payload_code plain_parsers_def wire_simps Let_def u16_to_le_def u16_to_be_def
      dest!: counted_written parse_frame_plain)
next
  case (CmdGetNodeProperty x1 x2 x3)
  then show ?thesis using assms
    by (auto simp: bindE_eq_Inr parser_defs parse_payload_code plain_parsers_def wire_simps Let_def u16_to_le_def u16_to_be_def
      dest!: counted_written parse_frame_plain)
next
  case (CmdAuthentication1V2 x1 x2 x3 x4)
  then show ?thesis using assms
    by (auto simp: bindE_eq_Inr parser_defs parse_payload_code plain_parsers_def wire_simps Let_def u16_to_le_def u16_to_be_def
      dest!: counted_written parse_frame_plain)
qed (use assms in \<open>auto simp: bindE_eq_Inr parser_defs parse_payload_code plain_parsers_def wire_simps Let_def u16_to_le_def
      dest!: counted_written parse_frame_plain\<close>)


text \<open>
  A secure payload travels padded, so the readers of Read and Write ignore what follows the list
  and the data; the issuing commands take everything as their package.
\<close>

lemma extend_counted_block_list_Inr:
  "extend_counted_block_list bs = Inr c \<longleftrightarrow>
    length bs \<le> 255 \<and> c = u8_of (length bs) # extend_block_list bs"
  by (auto simp: extend_counted_block_list_def bindE_eq_Inr)

lemma slice_opt_prefix_length: "length xs = n \<Longrightarrow> slice_opt (xs @ ys) 0 n = Some xs"
  by (simp add: slice_opt_def)

lemma encoding_secure_roundtrip:
  assumes "wf_command c" and "encoding c = Inr (Secure code p)"
    and "is_register_command code \<Longrightarrow> pad = []"
  shows "parse_secure_payload code (p @ pad) = Inr c"
  using assms
  by (cases c) (auto simp: bindE_eq_Inr parse_secure_payload_def extend_counted_block_list_Inr
      is_register_command_def wire_simps Let_def slice_opt_prefix_length u16_to_le_def split: if_splits)

section \<open>Parsers return well-formed commands\<close>

lemma take_service_code_list_wf:
  "take_service_code_list data limit label = Inr (cs, r) \<Longrightarrow> count_in 1 limit cs"
  using code_codec.counted_get_wf [of data 1 limit label "''service''" cs r]
  by (simp add: take_service_code_list_eq count_in_def)

lemma take_u16_list_wf:
  "take_u16_list data lo hi label noun = Inr (vs, r) \<Longrightarrow> count_in lo hi vs"
  using u16_codec.counted_get_wf [of data lo hi label noun vs r]
  by (simp add: take_u16_list_eq count_in_def)

lemma take_blocks_wf:
  assumes "take_count data 1 255 label noun = Inr (n, rest)" and "take_block_list rest n = Inr (bs, r)"
  shows "wf_blocks bs \<and> length bs = n"
  using block_codec.counted_get_wf [of data 1 255 label noun bs r] assms take_block_list_wf
  by (auto simp: wf_blocks_def)

lemma parse_u16_list_le_length: "parse_u16_list_le data n = Inr vs \<Longrightarrow> length vs = n"
  using get_u16_list_length [of data n vs] by (auto simp: get_u16_list_def)

lemma parse_idm_wf: "parse_idm data = Inr (idm, r) \<Longrightarrow> length idm = 8"
  by (auto simp: parse_idm_def perr_def split: if_splits)

lemma from_index_canonical: "from_index (to_index (from_index i)) = from_index i"
  by (simp add: from_index_def)

lemma parse_authentication1_wf: "parse_authentication1 body = Inr c \<Longrightarrow> wf_command c"
  by (auto simp: parse_authentication1_def Let_def bindE_eq_Inr perr_def ok_or_eq_Inr
      slice_opt_eq_Some count_in_def dest!: parse_idm_wf parse_u16_list_le_length split: if_splits)

lemmas reader_wf = parse_idm_wf take_service_code_list_wf take_u16_list_wf take_blocks_wf

lemma plain_parsers_wf:
  assumes "map_of plain_parsers code = Some p" and "p body = Inr c"
  shows "wf_command c"
proof -
  from assms(1) have "(code, p) \<in> set plain_parsers" by (rule map_of_SomeD)
  then show ?thesis
    using assms(2) unfolding plain_parsers_def
    by (auto simp: parser_defs bindE_eq_Inr Let_def from_index_canonical perr_def One_nat_def
        simp del: One_nat_def intro: parse_authentication1_wf dest!: reader_wf split: if_splits)
qed


lemma parse_payload_wf: "parse_payload payload = Inr c \<Longrightarrow> wf_command c"
  by (auto simp: parse_payload_def bindE_eq_Inr split_first_eq_Some perr_def
      split: option.splits if_splits dest: plain_parsers_wf)

lemma parse_frame_wf: "parse_frame f = Inr c \<Longrightarrow> wf_command c"
  by (auto simp: parse_frame_def perr_def split: list.splits if_splits dest: parse_payload_wf)

lemma parse_secure_payload_wf: "parse_secure_payload code p = Inr c \<Longrightarrow> wf_command c"
  by (auto simp: parse_secure_payload_def bindE_eq_Inr Let_def perr_def slice_opt_eq_Some ok_or_eq_Inr
      simp del: One_nat_def dest: take_blocks_wf split: if_splits)

section \<open>Properties\<close>

text \<open>C25. Every well-formed command that encodes to a plain frame is parsed back from that frame.\<close>

theorem parse_frame_to_frame:
  assumes "wf_command c" and "to_frame c = Inr f"
  shows "parse_frame f = Inr c"
proof -
  from assms(2) obtain e where e: "encoding c = Inr e"
    and f: "(case e of Plain frame \<Rightarrow> Inr frame | Secure _ _ \<Rightarrow> Inl (Protocol
      ''secure commands must be encrypted by a secure session, not framed directly'')) = Inr f"
    by (auto simp: to_frame_def bindE_eq_Inr)
  from f have "e = Plain f" by (cases e) auto
  with assms(1) e show ?thesis by (simp add: encoding_plain_roundtrip)
qed

theorem parse_frame_to_frame_witness:
  "parse_frame [0x10, 0x06, 1, 2, 3, 4, 5, 6, 7, 8, 1, 0x09, 0x10, 1, 0x80, 0x05] =
    Inr (CmdReadWithoutEncryption [1, 2, 3, 4, 5, 6, 7, 8] [ServiceCode 0x1009]
      [\<lparr>block_number_or_key_version = 5, service_code_list_index = 0, access_mode = 0\<rparr>])"
proof (rule parse_frame_to_frame)
  show "wf_command (CmdReadWithoutEncryption [1, 2, 3, 4, 5, 6, 7, 8] [ServiceCode 0x1009]
      [\<lparr>block_number_or_key_version = 5, service_code_list_index = 0, access_mode = 0\<rparr>])"
    by (simp add: count_in_def wf_blocks_def wf_block_element_def)
  show "to_frame (CmdReadWithoutEncryption [1, 2, 3, 4, 5, 6, 7, 8] [ServiceCode 0x1009]
      [\<lparr>block_number_or_key_version = 5, service_code_list_index = 0, access_mode = 0\<rparr>]) =
    Inr [0x10, 0x06, 1, 2, 3, 4, 5, 6, 7, 8, 1, 0x09, 0x10, 1, 0x80, 0x05]"
    by (simp add: to_frame_def plain_def extend_counted_service_codes_def
        extend_counted_block_list_def extend_service_codes_def extend_block_list_def pack_def
        code_to_le_bytes_def u16_to_le_def frame_with_length_prefix_def u8_of_def push_count_def)
qed

text \<open>A secure command is parsed back from its inner payload, also behind the padding that the
  session appends, which only the issuing commands would take as theirs.\<close>

theorem parse_secure_payload_encoding:
  assumes "wf_command c" and "encoding c = Inr (Secure code p)"
    and "is_register_command code \<Longrightarrow> pad = []"
  shows "parse_secure_payload code (p @ pad) = Inr c"
  using assms by (rule encoding_secure_roundtrip)

theorem parse_secure_payload_encoding_witness:
  "parse_secure_payload READ_COMMAND_CODE ([1, 0x80, 0x05] @ [5, 5, 5, 5, 5]) =
    Inr (CmdRead [\<lparr>block_number_or_key_version = 5, service_code_list_index = 0, access_mode = 0\<rparr>])"
  by (rule parse_secure_payload_encoding)
    (simp_all add: wf_blocks_def wf_block_element_def extend_counted_block_list_def push_count_def
      extend_block_list_def pack_def is_register_command_def u8_of_def)

text \<open>The parsers return well-formed commands only: array lengths, list counts within the protocol
  limits, block list fields in range and one block of data per element.\<close>

theorem parsers_well_formed:
  "(parse_frame f = Inr c \<longrightarrow> wf_command c) \<and> (parse_secure_payload code p = Inr c \<longrightarrow> wf_command c)"
  using parse_frame_wf parse_secure_payload_wf by blast

theorem parsers_well_formed_witness:
  "wf_command (CmdSearchServiceCode [1, 2, 3, 4, 5, 6, 7, 8] 0x0201)"
proof -
  have "parse_frame [12, 0x0A, 1, 2, 3, 4, 5, 6, 7, 8, 0x01, 0x02] =
      Inr (CmdSearchServiceCode [1, 2, 3, 4, 5, 6, 7, 8] 0x0201)"
    by (simp add: parse_frame_def parse_payload_def plain_parsers_def parse_search_service_code_def
        parse_idm_def exact_len_def u16_from_le_def)
  then show ?thesis using parsers_well_formed by blast
qed

end
