(* ===== verification/Response_Codec.thy ===== *)
theory Response_Codec
  imports Response_Parse Command_Codec
begin

text \<open>
  What the response encoder (felica_standard/response/serialize.rs) writes, the response parser
  (felica_standard/response/parse.rs) reads back, for the plain responses and for the inner responses
  of a secure session.  What the parser accepts is in turn a response that the source's types admit.
\<close>

section \<open>Well-formed responses\<close>

text \<open>
  What the source's types fix (the lengths of arrays), and the one value that the wire format cannot
  tell apart: a Search Service Code result FFFFh is the mark for no result.
\<close>

definition wf_opt :: "('a \<Rightarrow> bool) \<Rightarrow> 'a option \<Rightarrow> bool" where
  "wf_opt P r \<longleftrightarrow> (case r of None \<Rightarrow> True | Some x \<Rightarrow> P x)"

definition wf_blocks_read :: "bytes list option \<Rightarrow> bool" where
  "wf_blocks_read = wf_opt (\<lambda>bs. \<forall>b \<in> set bs. length b = 16)"

fun wf_response :: "response \<Rightarrow> bool" where
  "wf_response (RespPolling idm pmm optional) \<longleftrightarrow> length idm = 8 \<and> length pmm = 8"
| "wf_response (RespRequestService idm vs) \<longleftrightarrow> length idm = 8"
| "wf_response (RespRequestResponse idm m) \<longleftrightarrow> length idm = 8"
| "wf_response (RespReadWithoutEncryption idm sf1 sf2 r) \<longleftrightarrow> length idm = 8 \<and> wf_blocks_read r"
| "wf_response (RespWriteWithoutEncryption idm sf1 sf2) \<longleftrightarrow> length idm = 8"
| "wf_response (RespSearchServiceCode idm r) \<longleftrightarrow> length idm = 8 \<and> r \<noteq> Some (SearchService (ServiceCode 0xFFFF))"
| "wf_response (RespRequestSystemCode idm cs) \<longleftrightarrow> length idm = 8"
| "wf_response (RespRequestBlockInformation idm cs) \<longleftrightarrow> length idm = 8"
| "wf_response (RespAuthentication1 idm b a) \<longleftrightarrow> length idm = 8 \<and> length b = 8 \<and> length a = 8"
| "wf_response (RespAuthentication2 e) \<longleftrightarrow> True"
| "wf_response (RespRequestCodeList idm sf1 sf2 r) \<longleftrightarrow> length idm = 8"
| "wf_response (RespRequestBlockInformationEx idm sf1 sf2 r) \<longleftrightarrow> length idm = 8"
| "wf_response (RespSetParameter idm sf1 sf2) \<longleftrightarrow> length idm = 8"
| "wf_response (RespGetContainerIssueInformation idm i) \<longleftrightarrow> length idm = 8
     \<and> length (format_version_carrier_information i) = 5 \<and> length (mobile_phone_model_information i) = 11"
| "wf_response (RespGetAreaInformation idm sf1 sf2 r) \<longleftrightarrow> length idm = 8 \<and> wf_opt (\<lambda>x. length (gai_data x) = 2) r"
| "wf_response (RespGetNodeProperty idm sf1 sf2 r) \<longleftrightarrow> length idm = 8"
| "wf_response (RespGetContainerProperty d) \<longleftrightarrow> True"
| "wf_response (RespRequestServiceV2 idm sf1 sf2 r) \<longleftrightarrow> length idm = 8"
| "wf_response (RespGetSystemStatus idm sf1 sf2 r) \<longleftrightarrow> length idm = 8"
| "wf_response (RespRequestProductInformation idm sf1 sf2 r) \<longleftrightarrow> length idm = 8"
| "wf_response (RespRequestSpecificationVersion idm sf1 sf2 v) \<longleftrightarrow> length idm = 8"
| "wf_response (RespResetMode idm sf1 sf2) \<longleftrightarrow> length idm = 8"
| "wf_response (RespAuthentication1V2 idm b a c) \<longleftrightarrow> length idm = 8 \<and> length b = 16 \<and> length a = 16 \<and> length c = 4"
| "wf_response (RespAuthentication2V2 e) \<longleftrightarrow> True"
| "wf_response (RespGetContainerId idm) \<longleftrightarrow> length idm = 8"
| "wf_response (RespRead sf1 sf2 r) \<longleftrightarrow> wf_blocks_read r"
| "wf_response (RespReadV2 sf1 sf2 r) \<longleftrightarrow> wf_blocks_read r"
| "wf_response _ \<longleftrightarrow> True"

section \<open>Readers on the output of writers\<close>

lemma le_words_extend [simp]: "le_words (extend_u16_list_le vs) = vs"
  by (induction vs) (auto simp: extend_u16_list_le_def u16_to_le_def)

lemma be_words_extend [simp]: "be_words (concat (map u16_to_be vs)) = vs"
  by (induction vs) (auto simp: u16_to_be_def)

lemma length_concat_be [simp]: "length (concat (map u16_to_be vs)) = 2 * length vs"
  by (induction vs) auto

lemma le_words_raw [simp]: "le_words (concat (map (\<lambda>s. u16_to_le (code_raw s)) cs)) = map code_raw cs"
  by (induction cs) (auto simp: u16_to_le_def)

lemma length_concat_raw [simp]: "length (concat (map (\<lambda>s. u16_to_le (code_raw s)) cs)) = 2 * length cs"
  by (induction cs) auto

lemma areas_pairs [simp]:
  "le_word_pairs (concat (map area_bytes as)) = map (\<lambda>a. (acr_area_code a, acr_end_service_code a)) as"
  by (induction as) (auto simp: area_bytes_def u16_to_le_def)

lemma length_concat_areas [simp]: "length (concat (map area_bytes as)) = 4 * length as"
  by (induction as) (auto simp: area_bytes_def)

lemma collect_blocks_concat [simp]:
  "\<forall>b \<in> set bs. length b = 16 \<Longrightarrow> collect_blocks (concat bs @ r) (length bs) = bs"
  by (induction bs) auto

lemma length_concat_blocks [simp]: "\<forall>b \<in> set bs. length b = 16 \<Longrightarrow> length (concat bs) = 16 * length bs"
  by (induction bs) auto

lemma sub_append [simp]: "i \<le> j \<Longrightarrow> sub (xs @ ys) i j = sub xs i j @ sub ys (i - length xs) (j - length xs)"
  by (cases "i \<le> length xs") (simp_all add: sub_def)

lemma sub_all: "n = length xs \<Longrightarrow> sub xs 0 n = xs"
  by (simp add: sub_def)

lemma sub_middle: "i = length xs \<Longrightarrow> j = i + length ys \<Longrightarrow> sub (xs @ ys @ zs) i j = ys"
  by (simp add: sub_def)

lemma sub_prefix: "n = length xs \<Longrightarrow> sub (xs @ ys) 0 n = xs"
  by (simp add: sub_def)

lemma ensure_simps [simp]:
  "ensure_response_len data n m = (if length data < n then driver_other m else Inr ())"
  "ensure_exact_response_len data n m = (if length data = n then Inr () else driver_other m)"
  by (simp_all add: ensure_response_len_def ensure_exact_response_len_def)

text \<open>An IDm is eight bytes, so that every offset of a parser becomes a literal.\<close>

lemma idm_bytes:
  assumes "length idm = 8"
  obtains a b c d e f g h where "idm = [a, b, c, d, e, f, g, h]"
  using assms by (auto simp: numeral_eq_Suc length_Suc_conv)

lemma from_bytes_addressed:
  assumes "length idm = 8" and "c \<notin> {0x13, 0x2F, 0x43}" and "length rest < 246"
    and "map_of addressed_parsers c = Some p"
  shows "from_bytes (u8_of (10 + length rest) # c # idm @ rest)
    = p idm (u8_of (10 + length rest) # c # idm @ rest)"
  using assms by (simp add: from_bytes_def parse_response_idm_def parse_fixed_def)


text \<open>Each parser on what the encoder wrote behind the IDm.\<close>

lemmas reads = response_status_flags_def parse_pmm_def parse_fixed_def sub_def Let_def mult.commute

lemma read_polling:
  assumes "length idm = 8" and "length pmm = 8" and "length opt = 0 \<or> length opt = 2"
  shows "parse_polling_response idm (n # c # idm @ pmm @ opt) = Inr (RespPolling idm pmm opt)"
  using assms by (auto elim!: idm_bytes simp: parse_polling_response_def reads)

lemma read_request_service:
  assumes "length idm = 8" and "1 \<le> length vs" and "length vs \<le> 32"
  shows "parse_request_service_response idm (n # c # idm @ u8_of (length vs) # extend_u16_list_le vs)
      = Inr (RespRequestService idm vs)"
  using assms by (auto elim!: idm_bytes simp: parse_request_service_response_def reads)

lemma read_blocks_response:
  assumes "length idm = 8" and "1 \<le> length bs" and "length bs \<le> 255" and "\<forall>b \<in> set bs. length b = 16"
  shows "parse_read_without_encryption_response idm (n # c # idm @ 0 # sf2 # u8_of (length bs) # concat bs)
      = Inr (RespReadWithoutEncryption idm 0 sf2 (Some bs))"
  using assms collect_blocks_concat [OF assms(4), of "[]"]
  by (auto elim!: idm_bytes simp: parse_read_without_encryption_response_def reads)

lemma read_status:
  assumes "length idm = 8"
  shows "parse_status_response short long resp (n # c # idm @ [sf1, sf2]) = Inr (resp sf1 sf2)"
  using assms by (auto elim!: idm_bytes simp: parse_status_response_def reads)

lemma le_bytes_FFFF: "(ucast w :: u8) = 0xFF \<and> (ucast (drop_bit 8 w) :: u8) = 0xFF \<Longrightarrow> w = (0xFFFF :: u16)"
  using u16_le_roundtrip [of w] by (simp add: u16_from_le_def)

lemma read_search:
  assumes "length idm = 8" and "r \<noteq> Some (SearchService (ServiceCode 0xFFFF))"
  shows "parse_search_service_code_response idm (n # c # idm @ search_result_bytes r)
      = Inr (RespSearchServiceCode idm r)"
proof (cases r)
  case None
  then show ?thesis using assms(1)
    by (auto elim!: idm_bytes simp: parse_search_service_code_response_def search_result_bytes_def reads)
next
  case (Some x)
  then show ?thesis using assms le_bytes_FFFF
    by (cases x; cases "case x of SearchService code \<Rightarrow> code | _ \<Rightarrow> ServiceCode 0")
      (auto elim!: idm_bytes simp: parse_search_service_code_response_def search_result_bytes_def reads u16_to_le_def)
qed

lemma read_system_codes:
  assumes "length idm = 8" and "1 \<le> length vs" and "length vs \<le> 255"
  shows "parse_request_systemcode_response idm (n # c # idm @ u8_of (length vs) # concat (map u16_to_be vs))
      = Inr (RespRequestSystemCode idm vs)"
  using assms by (auto elim!: idm_bytes simp: parse_request_systemcode_response_def reads)

lemma read_block_information:
  assumes "length idm = 8" and "1 \<le> length vs" and "length vs \<le> 255"
  shows "parse_request_block_information_response idm (n # c # idm @ u8_of (length vs) # extend_u16_list_le vs)
      = Inr (RespRequestBlockInformation idm vs)"
  using assms by (auto elim!: idm_bytes simp: parse_request_block_information_response_def reads)

lemma read_authentication1:
  assumes "length idm = 8" and "length b = 8" and "length a = 8"
  shows "parse_authentication1_response idm (n # c # idm @ b @ a) = Inr (RespAuthentication1 idm b a)"
  using assms by (auto elim!: idm_bytes simp: parse_authentication1_response_def reads)

lemma read_authentication1_v2:
  assumes "length idm = 8" and "length b = 16" and "length a = 16" and "length d = 4"
  shows "parse_authentication1_v2_response idm (n # c # idm @ b @ a @ d) = Inr (RespAuthentication1V2 idm b a d)"
  using assms by (auto elim!: idm_bytes simp: parse_authentication1_v2_response_def reads)

lemma read_error:
  assumes "length idm = 8" and "sf1 \<noteq> 0"
  shows "parse_read_without_encryption_response idm (n # c # idm @ [sf1, sf2]) = Inr (RespReadWithoutEncryption idm sf1 sf2 None)"
    and "parse_request_code_list_response idm (n # c # idm @ [sf1, sf2]) = Inr (RespRequestCodeList idm sf1 sf2 None)"
    and "parse_request_block_information_ex_response idm (n # c # idm @ [sf1, sf2]) = Inr (RespRequestBlockInformationEx idm sf1 sf2 None)"
    and "parse_get_area_information_response idm (n # c # idm @ [sf1, sf2]) = Inr (RespGetAreaInformation idm sf1 sf2 None)"
    and "parse_get_node_property_response idm (n # c # idm @ [sf1, sf2]) = Inr (RespGetNodeProperty idm sf1 sf2 None)"
    and "parse_request_service_v2_response idm (n # c # idm @ [sf1, sf2]) = Inr (RespRequestServiceV2 idm sf1 sf2 None)"
    and "parse_request_product_information_response idm (n # c # idm @ [sf1, sf2]) = Inr (RespRequestProductInformation idm sf1 sf2 None)"
    and "parse_request_specification_version_response idm (n # c # idm @ [sf1, sf2]) = Inr (RespRequestSpecificationVersion idm sf1 sf2 None)"
  using assms
  by (auto elim!: idm_bytes simp: reads parse_read_without_encryption_response_def parse_request_code_list_response_def
      parse_request_block_information_ex_response_def parse_get_area_information_response_def
      parse_get_node_property_response_def parse_request_service_v2_response_def
      parse_request_product_information_response_def parse_request_specification_version_response_def)

lemma read_container_issue_information:
  assumes "length idm = 8" and "length (format_version_carrier_information i) = 5"
    and "length (mobile_phone_model_information i) = 11"
  shows "parse_get_container_issue_information_response idm
      (n # c # idm @ format_version_carrier_information i @ mobile_phone_model_information i)
    = Inr (RespGetContainerIssueInformation idm i)"
  using assms by (auto elim!: idm_bytes simp: parse_get_container_issue_information_response_def reads)

lemma read_area_information:
  assumes "length idm = 8" and "length (gai_data r) = 2"
  shows "parse_get_area_information_response idm (n # c # idm @ 0 # sf2 # u16_to_le (gai_node_code r) @ gai_data r)
    = Inr (RespGetAreaInformation idm 0 sf2 (Some r))"
proof -
  obtain x y where "gai_data r = [x, y]" using assms(2) by (auto simp: numeral_eq_Suc length_Suc_conv)
  then show ?thesis using assms(1)
    by (auto elim!: idm_bytes simp: parse_get_area_information_response_def reads u16_to_le_def)
qed

lemma read_system_status:
  assumes "length idm = 8" and "length (gss_data r) \<le> 255"
  shows "parse_get_system_status_response idm
      (n # c # idm @ sf1 # sf2 # gss_flag r # u8_of (length (gss_data r)) # gss_data r)
    = Inr (RespGetSystemStatus idm sf1 sf2 r)"
  using assms by (auto elim!: idm_bytes simp: parse_get_system_status_response_def reads)

lemma read_product_information:
  assumes "length idm = 8" and "length r \<le> 255"
  shows "parse_request_product_information_response idm (n # c # idm @ 0 # sf2 # u8_of (length r) # r)
    = Inr (RespRequestProductInformation idm 0 sf2 (Some r))"
  using assms by (auto elim!: idm_bytes simp: parse_request_product_information_response_def reads)

lemma read_block_information_ex:
  assumes "length idm = 8" and "1 \<le> length (free_block_counts r)" and "length (free_block_counts r) \<le> 32"
    and "length (assigned_block_counts r) = length (free_block_counts r)"
  shows "parse_request_block_information_ex_response idm (n # c # idm @ 0 # sf2 # u8_of (length (free_block_counts r))
      # concat (map (\<lambda>(a, f). u16_to_le a @ u16_to_le f) (zip (assigned_block_counts r) (free_block_counts r))))
    = Inr (RespRequestBlockInformationEx idm 0 sf2 (Some r))"
proof -
  have p: "le_word_pairs (concat (map (\<lambda>(a, f). u16_to_le a @ u16_to_le f) ps)) = ps"
    and l: "length (concat (map (\<lambda>(a, f). u16_to_le a @ u16_to_le f) ps)) = 4 * length ps" for ps
    by (induction ps) (auto simp: u16_to_le_def)
  show ?thesis using assms
    by (cases r) (auto elim!: idm_bytes simp: parse_request_block_information_ex_response_def reads p l)
qed

lemma limited_purse_properties_bytes [simp]:
  assumes "\<forall>p \<in> set ps. property_type p = ValueLimitedPurseServiceType"
  shows "limited_purse_properties (concat (map np_to_bytes ps)) = ps"
    and "length (concat (map np_to_bytes ps)) = 10 * length ps"
  using assms by (induction ps) (auto simp: u32_to_le_def elim!: property_type.elims)

lemma mac_properties_bytes [simp]:
  assumes "\<forall>p \<in> set ps. property_type p = MacCommunicationType"
  shows "map (\<lambda>v. MacCommunication (v = 1)) (concat (map np_to_bytes ps)) = ps"
    and "length (concat (map np_to_bytes ps)) = length ps"
  using assms by (induction ps) (auto elim!: property_type.elims)

lemma read_node_properties:
  assumes "length idm = 8" and "1 \<le> length ps" and "length ps \<le> 16"
    and "\<forall>p \<in> set ps. property_type p = property_type (hd ps)"
  shows "parse_get_node_property_response idm (n # c # idm @ 0 # sf2 # u8_of (length ps) # concat (map np_to_bytes ps))
    = Inr (RespGetNodeProperty idm 0 sf2 (Some ps))"
proof -
  have n: "unat (u8_of (length ps)) = length ps" "ps \<noteq> []" using assms by auto
  show ?thesis
  proof (cases "property_type (hd ps)")
    case ValueLimitedPurseServiceType
    then have "\<forall>p \<in> set ps. property_type p = ValueLimitedPurseServiceType" using assms(4) by simp
    from limited_purse_properties_bytes [OF this] show ?thesis using assms(1,3) n
      by (auto elim!: idm_bytes simp: parse_get_node_property_response_def reads)
  next
    case MacCommunicationType
    then have "\<forall>p \<in> set ps. property_type p = MacCommunicationType" using assms(4) by simp
    from mac_properties_bytes [OF this] show ?thesis using assms(1,3) n
      by (auto elim!: idm_bytes simp: parse_get_node_property_response_def reads)
  qed
qed

lemma parse_code_list_fields:
  assumes "length data = 15 + 4 * length (rcl_areas r) + 2 * length (rcl_services r)"
    and "data ! 10 = 0" and "data ! 11 = sf2" and "data ! 12 = (if continue_flag r then 1 else 0)"
    and "data ! 13 = u8_of (length (rcl_areas r))"
    and "sub data 14 (14 + length (rcl_areas r) * 4) = concat (map area_bytes (rcl_areas r))"
    and "data ! (14 + length (rcl_areas r) * 4) = u8_of (length (rcl_services r))"
    and "sub data (15 + length (rcl_areas r) * 4) (15 + (length (rcl_areas r) * 4 + length (rcl_services r) * 2))
      = concat (map (\<lambda>s. u16_to_le (code_raw s)) (rcl_services r))"
    and "length (rcl_areas r) \<le> 255" and "length (rcl_services r) \<le> 255"
  shows "parse_request_code_list_response idm data = Inr (RespRequestCodeList idm 0 sf2 (Some r))"
proof -
  have n: "unat (u8_of (length (rcl_areas r))) = length (rcl_areas r)"
    "unat (u8_of (length (rcl_services r))) = length (rcl_services r)" using assms(9,10) by simp_all
  have "map (\<lambda>(a, e). \<lparr>acr_area_code = a, acr_end_service_code = e\<rparr>) (map (\<lambda>a. (acr_area_code a, acr_end_service_code a)) as) = as"
    and "map ServiceCode (map code_raw cs) = cs" for as cs
    by (induction as; simp) (induction cs; simp)
  then show ?thesis using assms n
    by (cases r) (simp add: parse_request_code_list_response_def response_status_flags_def Let_def)
qed

lemma read_code_list:
  assumes "length idm = 8" and "length (rcl_areas r) \<le> 255" and "length (rcl_services r) \<le> 255"
  shows "parse_request_code_list_response idm (n # c # idm @ 0 # sf2 # (if continue_flag r then 1 else 0)
      # u8_of (length (rcl_areas r)) # concat (map area_bytes (rcl_areas r))
      @ u8_of (length (rcl_services r)) # concat (map (\<lambda>s. u16_to_le (code_raw s)) (rcl_services r)))
    = Inr (RespRequestCodeList idm 0 sf2 (Some r))"
proof -
  let ?h = "n # c # idm @ [0, sf2, if continue_flag r then 1 else 0, u8_of (length (rcl_areas r))]"
  let ?a = "concat (map area_bytes (rcl_areas r))"
  let ?s = "concat (map (\<lambda>s. u16_to_le (code_raw s)) (rcl_services r))"
  let ?d = "?h @ ?a @ u8_of (length (rcl_services r)) # ?s"
  have h: "length ?h = 14" using assms(1) by simp
  have l: "length ?a = length (rcl_areas r) * 4" "length ?s = length (rcl_services r) * 2" by simp_all
  have at: "?h ! 10 = 0" "?h ! 11 = sf2" "?h ! 12 = (if continue_flag r then 1 else 0)"
    "?h ! 13 = u8_of (length (rcl_areas r))"
    using assms(1) by (auto elim!: idm_bytes)
  have "parse_request_code_list_response idm ?d = Inr (RespRequestCodeList idm 0 sf2 (Some r))"
  proof (rule parse_code_list_fields)
    show "length ?d = 15 + 4 * length (rcl_areas r) + 2 * length (rcl_services r)" using h by simp
    show "?d ! 10 = 0" "?d ! 11 = sf2" "?d ! 12 = (if continue_flag r then 1 else 0)"
      "?d ! 13 = u8_of (length (rcl_areas r))"
      using at h by (simp_all only: nth_append) simp_all
    show "sub ?d 14 (14 + length (rcl_areas r) * 4) = ?a" by (rule sub_middle) (simp_all only: h l(1))
    show "?d ! (14 + length (rcl_areas r) * 4) = u8_of (length (rcl_services r))"
      using h l(1) by (simp only: nth_append) simp
    have "sub ((?h @ ?a @ [u8_of (length (rcl_services r))]) @ ?s @ []) (15 + length (rcl_areas r) * 4)
        (15 + (length (rcl_areas r) * 4 + length (rcl_services r) * 2)) = ?s"
      by (rule sub_middle) (use h l in simp_all)
    then show "sub ?d (15 + length (rcl_areas r) * 4) (15 + (length (rcl_areas r) * 4 + length (rcl_services r) * 2)) = ?s"
      by simp
  qed (use assms in simp_all)
  then show ?thesis by simp
qed

lemma digit_cases:
  assumes "(x :: u8) \<le> 9"
  obtains "x = 0" | "x = 1" | "x = 2" | "x = 3" | "x = 4" | "x = 5" | "x = 6" | "x = 7" | "x = 8" | "x = 9"
proof -
  have "unat x < 10" using assms by (simp add: word_le_nat_alt)
  then consider "unat x = 0" | "unat x = 1" | "unat x = 2" | "unat x = 3" | "unat x = 4" | "unat x = 5"
    | "unat x = 6" | "unat x = 7" | "unat x = 8" | "unat x = 9"
    by atomize_elim presburger
  then show thesis by cases (use that in \<open>simp_all add: word_unat_eq_iff\<close>)
qed

lemma nibble_bytes:
  fixes x y :: u8
  assumes "x \<le> 9" and "y \<le> 9"
  shows "(push_bit 4 (x AND 0x0F) OR (y AND 0x0F)) AND 0x0F = y"
    and "drop_bit 4 (push_bit 4 (x AND 0x0F) OR (y AND 0x0F)) AND 0x0F = x"
    and "(0x80 OR (x AND 0x0F)) AND 0xF0 = 0x80" and "(0x80 OR (x AND 0x0F)) AND 0x0F = x"
  using assms by - (erule digit_cases; erule digit_cases; simp)+

lemma option_version_bytes:
  assumes "is_valid_bcd v"
  obtains a b where "ov_to_le_bytes v = [a, b]" and "ov_from_le_bytes a b = Some v"
proof -
  have d: "major v \<le> 9" "minor v \<le> 9" "patch v \<le> 9" using assms by (simp_all add: is_valid_bcd_def)
  have v: "\<lparr>major = major v, minor = minor v, patch = patch v\<rparr> = v" by (cases v) simp
  have "ov_from_le_bytes (push_bit 4 (minor v AND 0x0F) OR (patch v AND 0x0F)) (0x80 OR (major v AND 0x0F)) = Some v"
    unfolding ov_from_le_bytes_def nibble_bytes [OF d(2,3)] nibble_bytes(3,4) [OF d(1,1)] Let_def v using assms by simp
  then show thesis by (rule that [rotated]) (simp add: ov_to_le_bytes_def)
qed

lemma parse_option_versions_bytes:
  assumes "\<forall>v \<in> set vs. is_valid_bcd v"
  shows "parse_option_versions (concat (map ov_to_le_bytes vs)) = Inr vs"
    and "length (concat (map ov_to_le_bytes vs)) = length vs * 2"
  using assms by (induction vs) (auto elim!: option_version_bytes)

lemma read_specification_version:
  assumes "length idm = 8" and "format_version v = 0" and "is_valid_bcd (basic_version v)"
    and "\<forall>p \<in> set (option_versions v). is_valid_bcd p" and "length (option_versions v) \<le> 255"
  shows "parse_request_specification_version_response idm (n # c # idm @ 0 # sf2 # sv_to_bytes v)
    = Inr (RespRequestSpecificationVersion idm 0 sf2 (Some v))"
proof -
  obtain a b where ab: "ov_to_le_bytes (basic_version v) = [a, b]" "ov_from_le_bytes a b = Some (basic_version v)"
    using option_version_bytes [OF assms(3)] .
  have "parse_specification_version_data (sv_to_bytes v) = Inr v"
    using assms(2,5) ab parse_option_versions_bytes [OF assms(4)]
    by (cases v) (simp add: parse_specification_version_data_def sv_to_bytes_def sub_def)
  moreover have "drop 12 (n # c # idm @ 0 # sf2 # sv_to_bytes v) = sv_to_bytes v" using assms(1) by simp
  ultimately show ?thesis using assms(1)
    by (simp add: parse_request_specification_version_response_def response_status_flags_def nth_append)
qed

text \<open>Key versions: the AES versions of all nodes, then the DES versions.\<close>

lemma nth_words:
  assumes "i < length vs"
  shows "extend_u16_list_le vs ! (2 * i) = ucast (vs ! i)"
    and "extend_u16_list_le vs ! (2 * i + 1) = ucast (drop_bit 8 (vs ! i))"
  using assms by (induction vs arbitrary: i)
    (auto simp: extend_u16_list_le_def u16_to_le_def nth_Cons split: nat.splits)

lemma dual_key_versions:
  assumes "\<forall>v \<in> set vs. secondary_raw v \<noteq> None" and "ds = map (the \<circ> secondary_raw) vs"
  shows "map (dual_key_version (extend_u16_list_le (map primary_raw vs) @ extend_u16_list_le ds) (length vs))
    [0..<length vs] = vs"
proof (rule nth_equalityI)
  fix i assume "i < length (map (dual_key_version (extend_u16_list_le (map primary_raw vs) @ extend_u16_list_le ds)
    (length vs)) [0..<length vs])"
  then have i: "i < length vs" by simp
  have "secondary_raw (vs ! i) \<noteq> None" using bspec [OF assms(1) nth_mem [OF i]] .
  then obtain a d where v: "vs ! i = Dual a d" by (cases "vs ! i") auto
  have w: "(extend_u16_list_le (map primary_raw vs) @ extend_u16_list_le ds) ! (i * 2) = ucast a"
    "(extend_u16_list_le (map primary_raw vs) @ extend_u16_list_le ds) ! (i * 2 + 1) = ucast (drop_bit 8 a)"
    "(extend_u16_list_le (map primary_raw vs) @ extend_u16_list_le ds) ! (length vs * 2 + i * 2) = ucast d"
    "(extend_u16_list_le (map primary_raw vs) @ extend_u16_list_le ds) ! (length vs * 2 + i * 2 + 1) = ucast (drop_bit 8 d)"
    using i v nth_words [of i "map primary_raw vs"] nth_words [of i ds] assms(2)
    by (auto simp: nth_append mult.commute)
  show "map (dual_key_version (extend_u16_list_le (map primary_raw vs) @ extend_u16_list_le ds) (length vs))
      [0..<length vs] ! i = vs ! i"
    using i v w by (simp add: dual_key_version_def Let_def)
qed simp

lemma mapE_const_error:
  "mapE (\<lambda>v. if P v then Inl e else Inr (g v)) vs = Inr ys \<longleftrightarrow> (\<forall>v \<in> set vs. \<not> P v) \<and> ys = map g vs"
  by (induction vs arbitrary: ys) (auto simp: bindE_eq_Inr)

lemma mapE_ok_or:
  "mapE (\<lambda>v. bindE (ok_or (h v) e) (\<lambda>s. Inr (g v, s))) vs = Inr ys
    \<longleftrightarrow> (\<forall>v \<in> set vs. h v \<noteq> None) \<and> ys = map (\<lambda>v. (g v, the (h v))) vs"
  by (induction vs arbitrary: ys) (auto simp: bindE_eq_Inr ok_or_eq_Inr)

lemma write_service_v2_cases:
  assumes "write_service_v2_key_versions r = Inr p"
  shows "1 \<le> length (v2_key_versions r) \<and> length (v2_key_versions r) \<le> 32 \<and>
    (crypto_id r = 0x4F \<and> (\<forall>v \<in> set (v2_key_versions r). secondary_raw v = None)
       \<and> p = crypto_id r # u8_of (length (v2_key_versions r))
         # extend_u16_list_le (map primary_raw (v2_key_versions r))
     \<or> crypto_id r \<in> {0x41, 0x43} \<and> (\<forall>v \<in> set (v2_key_versions r). secondary_raw v \<noteq> None)
       \<and> p = crypto_id r # u8_of (length (v2_key_versions r))
         # extend_u16_list_le (map primary_raw (v2_key_versions r))
         @ extend_u16_list_le (map (the \<circ> secondary_raw) (v2_key_versions r)))"
  using assms
  by (auto simp: write_service_v2_key_versions_def Let_def bindE_eq_Inr ensure_count_in_range_Inr mapE_const_error
      mapE_ok_or extend_u16_list_le_def comp_def split: if_splits)

lemma single_versions: "\<forall>v \<in> set vs. secondary_raw v = None \<Longrightarrow> map Single (map primary_raw vs) = vs"
  by (induction vs) (auto elim!: secondary_raw.elims)

lemma read_service_v2:
  assumes "length idm = 8" and "write_service_v2_key_versions r = Inr p"
  shows "parse_request_service_v2_response idm (n # c # idm @ 0 # sf2 # p)
    = Inr (RespRequestServiceV2 idm 0 sf2 (Some r))"
proof -
  let ?vs = "v2_key_versions r"
  note cases = write_service_v2_cases [OF assms(2)]
  obtain a b d e f g h i where idm: "idm = [a, b, d, e, f, g, h, i]" using idm_bytes [OF assms(1)] .
  have count: "unat (u8_of (length ?vs)) = length ?vs" "?vs \<noteq> []" "length ?vs \<le> 32" using cases by auto
  have r: "\<lparr>crypto_id = crypto_id r, v2_key_versions = ?vs\<rparr> = r" by (cases r) simp
  from cases consider
    (one) "crypto_id r = 0x4F" "\<forall>v \<in> set ?vs. secondary_raw v = None"
      "p = crypto_id r # u8_of (length ?vs) # extend_u16_list_le (map primary_raw ?vs)"
    | (two) "crypto_id r \<in> {0x41, 0x43}" "\<forall>v \<in> set ?vs. secondary_raw v \<noteq> None"
      "p = crypto_id r # u8_of (length ?vs) # extend_u16_list_le (map primary_raw ?vs)
         @ extend_u16_list_le (map (the \<circ> secondary_raw) ?vs)"
    by blast
  then show ?thesis
  proof cases
    case one
    then show ?thesis using count r single_versions [OF one(2)]
      by (simp add: parse_request_service_v2_response_def idm response_status_flags_def Let_def mult.commute)
  next
    case two
    have "crypto_id r \<in> {0x4F, 0x41, 0x43}" "crypto_id r \<noteq> 0x4F" using two(1) by auto
    then show ?thesis using two(1,3) count r dual_key_versions [OF two(2) refl]
      by (auto simp: parse_request_service_v2_response_def idm response_status_flags_def Let_def)
  qed
qed

section \<open>The round trip\<close>

lemma success_part_cases:
  assumes "success_part what noun sf1 r enc = Inr p"
  shows "sf1 \<noteq> 0 \<and> r = None \<and> p = [] \<or> sf1 = 0 \<and> (\<exists>x. r = Some x \<and> enc x = Inr p)"
  using assms by (auto simp: success_part_def bindE_eq_Inr for_success_Inr split: option.splits)

lemma flagged_cases:
  assumes "flagged code idm sf1 sf2 (success_part what noun sf1 r enc) = Inr p"
  shows "sf1 \<noteq> 0 \<and> r = None \<and> p = code # idm @ [sf1, sf2]
    \<or> sf1 = 0 \<and> (\<exists>x q. r = Some x \<and> enc x = Inr q \<and> p = code # idm @ 0 # sf2 # q)"
  using assms success_part_cases [of what noun sf1 r enc]
  by (auto simp: flagged_def bindE_eq_Inr Payload.response_def status_flags_def)

text \<open>The addressed responses: code, IDm and what the code's parser reads behind them.\<close>

definition read_back :: "response \<Rightarrow> bytes \<Rightarrow> bool" where
  "read_back r p \<longleftrightarrow> (\<exists>c idm rest q. p = c # idm @ rest \<and> length idm = 8 \<and> c \<notin> {0x13, 0x2F, 0x43}
     \<and> map_of addressed_parsers c = Some q \<and> (\<forall>n. q idm (n # c # idm @ rest) = Inr r))"

lemma read_backI:
  assumes "p = c # idm @ rest" and "length idm = 8" and "map_of addressed_parsers c = Some q"
    and "c \<notin> {0x13, 0x2F, 0x43}" and "\<And>n. q idm (n # c # idm @ rest) = Inr r"
  shows "read_back r p"
  using assms unfolding read_back_def by blast

lemma from_bytes_read_back:
  assumes "read_back r p" and "frame_with_length_prefix p = Inr f"
  shows "from_bytes f = Inr r"
proof -
  obtain c idm rest q where p: "p = c # idm @ rest" "length idm = 8" "c \<notin> {0x13, 0x2F, 0x43}"
      "map_of addressed_parsers c = Some q" "\<forall>n. q idm (n # c # idm @ rest) = Inr r"
    using assms(1) unfolding read_back_def by blast
  have f: "f = u8_of (10 + length rest) # c # idm @ rest" "length rest < 246"
    using assms(2) p(1,2) by (auto simp: frame_with_length_prefix_Inr)
  show ?thesis unfolding f(1) using from_bytes_addressed [OF p(2,3) f(2) p(4)] p(5) by simp
qed

lemma flagged_read_back:
  assumes "flagged code idm sf1 sf2 (success_part what noun sf1 r enc) = Inr p" and "length idm = 8"
    and "map_of addressed_parsers code = Some q" and "code \<notin> {0x13, 0x2F, 0x43}"
    and "\<And>n. sf1 \<noteq> 0 \<Longrightarrow> q idm (n # code # idm @ [sf1, sf2]) = Inr (R sf1 None)"
    and "\<And>n x e. r = Some x \<Longrightarrow> enc x = Inr e \<Longrightarrow> q idm (n # code # idm @ 0 # sf2 # e) = Inr (R 0 (Some x))"
  shows "read_back (R sf1 r) p"
  using flagged_cases [OF assms(1)]
proof (elim disjE conjE exE)
  assume "sf1 \<noteq> 0" "r = None" "p = code # idm @ [sf1, sf2]"
  then show ?thesis using read_backI [OF _ assms(2-4)] assms(5) by blast
next
  fix x e assume "sf1 = 0" "r = Some x" "enc x = Inr e" "p = code # idm @ 0 # sf2 # e"
  then show ?thesis using read_backI [OF _ assms(2-4)] assms(6) by blast
qed

lemmas addressed = addressed_parsers_def Payload.response_def status_only_def status_flags_def

text \<open>The responses with status flags and an optional result.\<close>

lemma back_read_without_encryption:
  assumes "to_payload (RespReadWithoutEncryption idm sf1 sf2 r) = Inr p" and "length idm = 8" and "wf_blocks_read r"
  shows "read_back (RespReadWithoutEncryption idm sf1 sf2 r) p"
  by (rule flagged_read_back [OF assms(1) [unfolded to_payload.simps] assms(2), where q = parse_read_without_encryption_response])
    (use assms(3) in \<open>auto simp: addressed read_error(1) [OF assms(2)] read_blocks_response [OF assms(2)] wf_blocks_read_def wf_opt_def blocks_result_def bindE_eq_Inr ensure_count_in_range_Inr\<close>)

lemma back_code_list:
  assumes "to_payload (RespRequestCodeList idm sf1 sf2 r) = Inr p" and "length idm = 8"
  shows "read_back (RespRequestCodeList idm sf1 sf2 r) p"
  by (rule flagged_read_back [OF assms(1) [unfolded to_payload.simps] assms(2), where q = parse_request_code_list_response])
    (auto simp: addressed read_error(2) [OF assms(2)] read_code_list [OF assms(2)] code_list_result_def bindE_eq_Inr ensure_fits_in_count_Inr push_flag_def)

lemma back_block_information_ex:
  assumes "to_payload (RespRequestBlockInformationEx idm sf1 sf2 r) = Inr p" and "length idm = 8"
  shows "read_back (RespRequestBlockInformationEx idm sf1 sf2 r) p"
  by (rule flagged_read_back [OF assms(1) [unfolded to_payload.simps] assms(2), where q = parse_request_block_information_ex_response])
    (auto simp: addressed read_error(3) [OF assms(2)] block_information_ex_result_def bindE_eq_Inr ensure_count_in_range_Inr read_block_information_ex [OF assms(2)] split: if_splits)

lemma back_area_information:
  assumes "to_payload (RespGetAreaInformation idm sf1 sf2 r) = Inr p" and "length idm = 8" and "wf_opt (\<lambda>x. length (gai_data x) = 2) r"
  shows "read_back (RespGetAreaInformation idm sf1 sf2 r) p"
  by (rule flagged_read_back [OF assms(1) [unfolded to_payload.simps] assms(2), where q = parse_get_area_information_response])
    (use assms(3) in \<open>auto simp: addressed read_error(4) [OF assms(2)] read_area_information [OF assms(2)] wf_opt_def\<close>)

lemma back_node_property:
  assumes "to_payload (RespGetNodeProperty idm sf1 sf2 r) = Inr p" and "length idm = 8"
  shows "read_back (RespGetNodeProperty idm sf1 sf2 r) p"
  by (rule flagged_read_back [OF assms(1) [unfolded to_payload.simps] assms(2), where q = parse_get_node_property_response])
    (auto simp: addressed read_error(5) [OF assms(2)] node_property_result_def bindE_eq_Inr ensure_count_in_range_Inr list_ex_iff read_node_properties [OF assms(2)] split: if_splits)

lemma back_service_v2:
  assumes "to_payload (RespRequestServiceV2 idm sf1 sf2 r) = Inr p" and "length idm = 8"
  shows "read_back (RespRequestServiceV2 idm sf1 sf2 r) p"
  by (rule flagged_read_back [OF assms(1) [unfolded to_payload.simps] assms(2), where q = parse_request_service_v2_response])
    (auto simp: addressed read_error(6) [OF assms(2)] read_service_v2 [OF assms(2)])

lemma back_product_information:
  assumes "to_payload (RespRequestProductInformation idm sf1 sf2 r) = Inr p" and "length idm = 8"
  shows "read_back (RespRequestProductInformation idm sf1 sf2 r) p"
  by (rule flagged_read_back [OF assms(1) [unfolded to_payload.simps] assms(2), where q = parse_request_product_information_response])
    (auto simp: addressed read_error(7) [OF assms(2)] product_information_result_def bindE_eq_Inr read_product_information [OF assms(2)])

lemma back_specification_version:
  assumes "to_payload (RespRequestSpecificationVersion idm sf1 sf2 r) = Inr p" and "length idm = 8"
  shows "read_back (RespRequestSpecificationVersion idm sf1 sf2 r) p"
  by (rule flagged_read_back [OF assms(1) [unfolded to_payload.simps] assms(2), where q = parse_request_specification_version_response])
    (auto simp: addressed read_error(8) [OF assms(2)] specification_version_result_def bindE_eq_Inr ensure_fits_in_count_Inr list_ex_iff read_specification_version [OF assms(2)] split: if_splits)

lemmas flagged_back = back_read_without_encryption back_code_list back_block_information_ex back_area_information
  back_node_property back_service_v2 back_product_information back_specification_version

text \<open>The responses without an optional result: the bytes behind the IDm are given in each case.\<close>

lemma back_polling:
  assumes "to_payload (RespPolling idm pmm opt) = Inr p" and "wf_response (RespPolling idm pmm opt)"
  shows "read_back (RespPolling idm pmm opt) p"
  by (rule read_backI [where c = POLLING_RESPONSE_CODE and idm = idm and q = parse_polling_response and rest = "pmm @ opt"])
    (use assms read_polling [of idm pmm opt] in \<open>auto simp: addressed split: if_splits\<close>)

lemma back_request_service:
  assumes "to_payload (RespRequestService idm vs) = Inr p" and "wf_response (RespRequestService idm vs)"
  shows "read_back (RespRequestService idm vs) p"
  by (rule read_backI [where c = REQUEST_SERVICE_RESPONSE_CODE and idm = idm and q = parse_request_service_response and rest = "u8_of (length vs) # extend_u16_list_le vs"])
    (use assms read_request_service [of idm vs] in \<open>auto simp: addressed bindE_eq_Inr extend_counted_u16_le_def ensure_count_in_range_Inr\<close>)

lemma back_request_response:
  assumes "to_payload (RespRequestResponse idm m) = Inr p" and "wf_response (RespRequestResponse idm m)"
  shows "read_back (RespRequestResponse idm m) p"
  by (rule read_backI [where c = REQUEST_RESPONSE_RESPONSE_CODE and idm = idm and q = parse_request_response_response and rest = "[m]"])
    (use assms in \<open>auto simp: addressed parse_request_response_response_def nth_append\<close>)

lemma back_search:
  assumes "to_payload (RespSearchServiceCode idm x) = Inr p" and "wf_response (RespSearchServiceCode idm x)"
  shows "read_back (RespSearchServiceCode idm x) p"
  by (rule read_backI [where c = SEARCH_SERVICE_CODE_RESPONSE_CODE and idm = idm and q = parse_search_service_code_response and rest = "search_result_bytes x"])
    (use assms read_search [of idm x] in \<open>auto simp: addressed\<close>)

lemma back_system_codes:
  assumes "to_payload (RespRequestSystemCode idm vs) = Inr p" and "wf_response (RespRequestSystemCode idm vs)"
  shows "read_back (RespRequestSystemCode idm vs) p"
  by (rule read_backI [where c = REQUEST_SYSTEM_CODE_RESPONSE_CODE and idm = idm and q = parse_request_systemcode_response and rest = "u8_of (length vs) # concat (map u16_to_be vs)"])
    (use assms read_system_codes [of idm vs] in \<open>auto simp: addressed bindE_eq_Inr extend_counted_u16_be_def Suc_le_eq split: if_splits\<close>)

lemma back_block_information:
  assumes "to_payload (RespRequestBlockInformation idm vs) = Inr p" and "wf_response (RespRequestBlockInformation idm vs)"
  shows "read_back (RespRequestBlockInformation idm vs) p"
  by (rule read_backI [where c = REQUEST_BLOCK_INFORMATION_RESPONSE_CODE and idm = idm and q = parse_request_block_information_response and rest = "u8_of (length vs) # extend_u16_list_le vs"])
    (use assms read_block_information [of idm vs] in \<open>auto simp: addressed bindE_eq_Inr extend_counted_u16_le_def ensure_count_in_range_Inr\<close>)

lemma back_authentication1:
  assumes "to_payload (RespAuthentication1 idm b a) = Inr p" and "wf_response (RespAuthentication1 idm b a)"
  shows "read_back (RespAuthentication1 idm b a) p"
  by (rule read_backI [where c = AUTHENTICATION1_RESPONSE_CODE and idm = idm and q = parse_authentication1_response and rest = "b @ a"])
    (use assms read_authentication1 [of idm b a] in \<open>auto simp: addressed\<close>)

lemma back_container_issue:
  assumes "to_payload (RespGetContainerIssueInformation idm i) = Inr p" and "wf_response (RespGetContainerIssueInformation idm i)"
  shows "read_back (RespGetContainerIssueInformation idm i) p"
  by (rule read_backI [where c = GET_CONTAINER_ISSUE_INFORMATION_RESPONSE_CODE and idm = idm and q = parse_get_container_issue_information_response and rest = "format_version_carrier_information i @ mobile_phone_model_information i"])
    (use assms read_container_issue_information [of idm i] in \<open>auto simp: addressed\<close>)

lemma back_system_status:
  assumes "to_payload (RespGetSystemStatus idm sf1 sf2 y) = Inr p" and "wf_response (RespGetSystemStatus idm sf1 sf2 y)"
  shows "read_back (RespGetSystemStatus idm sf1 sf2 y) p"
  by (rule read_backI [where c = GET_SYSTEM_STATUS_RESPONSE_CODE and idm = idm and q = parse_get_system_status_response and rest = "sf1 # sf2 # gss_flag y # u8_of (length (gss_data y)) # gss_data y"])
    (use assms read_system_status [of idm y] in \<open>auto simp: addressed bindE_eq_Inr ensure_fits_in_count_Inr\<close>)

lemma back_authentication1_v2:
  assumes "to_payload (RespAuthentication1V2 idm b a d) = Inr p" and "wf_response (RespAuthentication1V2 idm b a d)"
  shows "read_back (RespAuthentication1V2 idm b a d) p"
  by (rule read_backI [where c = AUTHENTICATION1_V2_RESPONSE_CODE and idm = idm and q = parse_authentication1_v2_response and rest = "b @ a @ d"])
    (use assms read_authentication1_v2 [of idm b a d] in \<open>auto simp: addressed\<close>)

lemma back_container_id:
  assumes "to_payload (RespGetContainerId idm) = Inr p" and "wf_response (RespGetContainerId idm)"
  shows "read_back (RespGetContainerId idm) p"
  by (rule read_backI [where c = GET_CONTAINER_ID_RESPONSE_CODE and idm = idm and q = parse_get_container_id_response and rest = "[]"])
    (use assms in \<open>auto simp: addressed parse_get_container_id_response_def\<close>)

lemma back_write:
  assumes "to_payload (RespWriteWithoutEncryption idm sf1 sf2) = Inr p" and "wf_response (RespWriteWithoutEncryption idm sf1 sf2)"
  shows "read_back (RespWriteWithoutEncryption idm sf1 sf2) p"
  by (rule read_backI [where c = WRITE_WITHOUT_ENCRYPTION_RESPONSE_CODE and idm = idm and q = parse_write_without_encryption_response and rest = "[sf1, sf2]"])
    (use assms in \<open>auto simp: addressed parse_write_without_encryption_response_def read_status\<close>)

lemma back_set_parameter:
  assumes "to_payload (RespSetParameter idm sf1 sf2) = Inr p" and "wf_response (RespSetParameter idm sf1 sf2)"
  shows "read_back (RespSetParameter idm sf1 sf2) p"
  by (rule read_backI [where c = SET_PARAMETER_RESPONSE_CODE and idm = idm and q = parse_set_parameter_response and rest = "[sf1, sf2]"])
    (use assms in \<open>auto simp: addressed parse_set_parameter_response_def read_status\<close>)

lemma back_reset_mode:
  assumes "to_payload (RespResetMode idm sf1 sf2) = Inr p" and "wf_response (RespResetMode idm sf1 sf2)"
  shows "read_back (RespResetMode idm sf1 sf2) p"
  by (rule read_backI [where c = RESET_MODE_RESPONSE_CODE and idm = idm and q = parse_reset_mode_response and rest = "[sf1, sf2]"])
    (use assms in \<open>auto simp: addressed parse_reset_mode_response_def read_status\<close>)

lemmas plain_back = back_polling back_request_service back_request_response back_search back_system_codes back_block_information back_authentication1 back_container_issue back_system_status back_authentication1_v2 back_container_id back_write back_set_parameter back_reset_mode

lemma to_payload_read_back:
  assumes "to_payload r = Inr p" and "wf_response r" and "\<not> is_secure_response r"
  shows "read_back r p \<or> (\<exists>e. r = RespAuthentication2 e \<and> length e = 32 \<and> p = 0x13 # e)
    \<or> (\<exists>e. r = RespAuthentication2V2 e \<and> length e = 26 \<and> p = 0x43 # e)
    \<or> (\<exists>d. r = RespGetContainerProperty d \<and> d \<noteq> [] \<and> p = 0x2F # d)"
  using assms by (cases r) (auto intro: plain_back flagged_back split: if_splits)

lemma response_frame_read_back:
  assumes "response_to_frame r = Inr f" and "wf_response r"
  shows "from_bytes f = Inr r"
proof -
  obtain p where p: "to_payload r = Inr p" "frame_with_length_prefix p = Inr f" "\<not> is_secure_response r"
    using assms(1) by (auto simp: response_to_frame_def bindE_eq_Inr split: if_splits)
  note f = p(2) [unfolded frame_with_length_prefix_Inr]
  from to_payload_read_back [OF p(1) assms(2) p(3)] show ?thesis
  proof (elim disjE exE conjE)
    assume "read_back r p"
    then show ?thesis using from_bytes_read_back p(2) by blast
  qed (use f in \<open>auto simp: from_bytes_def parse_authentication2_response_def parse_authentication2_v2_response_def
      parse_get_container_property_response_def Let_def Suc_le_eq\<close>)
qed

text \<open>
  C22. Every response that the card encodes is read back by the reader: the frame of a well-formed
  response, with status flags and with or without its result, parses to the same response.
\<close>

theorem response_roundtrip:
  assumes "response_to_frame r = Inr f" and "wf_response r"
  shows "from_bytes f = Inr r"
  using assms by (rule response_frame_read_back)

text \<open>The inner responses of a secure session, and the command each answers.\<close>

fun secure_command_code :: "response \<Rightarrow> u8" where
  "secure_command_code (RespRead _ _ _) = READ_COMMAND_CODE"
| "secure_command_code (RespReadV2 _ _ _) = READ_V2_COMMAND_CODE"
| "secure_command_code (RespWrite _ _) = WRITE_COMMAND_CODE"
| "secure_command_code (RespWriteV2 _ _) = WRITE_V2_COMMAND_CODE"
| "secure_command_code (RespRegisterIssueId _ _ _) = REGISTER_ISSUE_ID_COMMAND_CODE"
| "secure_command_code (RespRegisterArea _ _) = REGISTER_AREA_COMMAND_CODE"
| "secure_command_code (RespRegisterService _ _ _) = REGISTER_SERVICE_COMMAND_CODE"
| "secure_command_code _ = CHANGE_SYSTEM_BLOCK_COMMAND_CODE"

lemma read_secure_read:
  assumes "secure_read_payload sf1 sf2 r = Inr p" and "wf_blocks_read r"
  shows "parse_secure_read_response (p @ pad) v2 = Inr ((if v2 then RespReadV2 else RespRead) sf1 sf2 r)"
proof -
  from assms(1) obtain q where p: "p = [sf1, sf2] @ q"
    and q: "success_part ''secure read'' ''result'' sf1 r (blocks_result ''secure read block count'') = Inr q"
    by (auto simp: secure_read_payload_def bindE_eq_Inr secure_status_only_def status_flags_def)
  from success_part_cases [OF q] show ?thesis
  proof (elim disjE conjE exE)
    assume "sf1 \<noteq> 0" "r = None" "q = []"
    then show ?thesis using p by (simp add: parse_secure_read_response_def)
  next
    fix bs assume bs: "sf1 = 0" "r = Some bs" "blocks_result ''secure read block count'' bs = Inr q"
    then have "q = u8_of (length bs) # concat bs" "1 \<le> length bs" "length bs \<le> 255" "\<forall>b \<in> set bs. length b = 16"
      using assms(2) by (auto simp: blocks_result_def bindE_eq_Inr ensure_count_in_range_Inr wf_blocks_read_def wf_opt_def)
    then show ?thesis using p bs(1,2) collect_blocks_concat [of bs "[]"]
      by (auto simp: parse_secure_read_response_def sub_def Let_def)
  qed
qed

lemma read_remaining:
  assumes "remaining_payload what sf1 sf2 r = Inr p"
  shows "parse_remaining_blocks label resp (p @ pad) = Inr (resp sf1 sf2 r)"
proof -
  from assms obtain q where p: "p = [sf1, sf2] @ q"
    and q: "success_part what ''result'' sf1 r (\<lambda>r. Inr (u16_to_le (remaining_blocks r))) = Inr q"
    by (auto simp: remaining_payload_def bindE_eq_Inr secure_status_only_def status_flags_def)
  show ?thesis using p success_part_cases [OF q]
    by (cases "the r") (auto simp: parse_remaining_blocks_def u16_to_le_def)
qed

lemma secure_payload_read_back:
  assumes "to_secure_payload r = Inr p" and "wf_response r"
  shows "from_secure_bytes (secure_command_code r) (p @ pad) = Inr r"
  using assms
  by (cases r) (auto simp: from_secure_bytes_def read_secure_read parse_secure_write_response_def
      parse_register_issue_id_response_def parse_register_service_response_def parse_register_area_response_def
      parse_change_system_block_response_def read_remaining)

text \<open>
  Every inner response of a secure session is read back from its payload, also when the padding of
  the session stands behind it.
\<close>

theorem secure_response_payload_roundtrip:
  assumes "to_secure_payload r = Inr p" and "wf_response r"
  shows "from_secure_bytes (secure_command_code r) (p @ pad) = Inr r"
  using assms by (rule secure_payload_read_back)

section \<open>Parsed responses are well formed\<close>

lemma length_sub: "j \<le> length data \<Longrightarrow> i \<le> j \<Longrightarrow> length (sub data i j) = j - i"
  by (simp add: sub_def)

lemma collect_blocks_lengths: "b \<in> set (collect_blocks data n) \<Longrightarrow> n * 16 \<le> length data \<Longrightarrow> length b = 16"
proof (induction n arbitrary: data)
  case 0
  then show ?case by simp
next
  case (Suc n)
  from Suc.IH [of "drop 16 data"] Suc.prems show ?case by auto
qed

lemma collected_block_length:
  assumes "13 + unat (data ! 12) * 16 \<le> length data"
    and "b \<in> set (collect_blocks (sub data 13 (13 + unat (data ! 12) * 16)) (unat (data ! 12)))"
  shows "length b = 16"
  using collect_blocks_lengths [OF assms(2)] assms(1) by (simp add: length_sub)

lemma driver_other_Inr [simp]: "driver_other m \<noteq> Inr x"
  by (simp add: driver_other_def)

lemma u16_from_le_FFFF:
  assumes "u16_from_le a b = 0xFFFF"
  shows "a = 0xFF \<and> b = 0xFF"
  using u16_from_le_lo [of a b] u16_from_le_hi [of a b] unfolding assms by simp

lemma two_bytes: "length xs = 2 \<Longrightarrow> xs = [xs ! 0, xs ! 1]"
  by (cases xs; cases "tl xs") auto

lemma search_result_wf:
  assumes "parse_search_service_code_response idm data = Inr r" and "length idm = 8"
  shows "wf_response r"
proof -
  have "\<not> (length (drop 10 data) = 2 \<and> drop 10 data \<noteq> [0xFF, 0xFF]
      \<and> u16_from_le (drop 10 data ! 0) (drop 10 data ! 1) = 0xFFFF)"
    using two_bytes [of "drop 10 data"] u16_from_le_FFFF by metis
  then show ?thesis using assms
    by (auto simp only: parse_search_service_code_response_def Let_def ensure_simps bindE_Inr split: if_splits)
      (auto simp: bindE_eq_Inr)
qed

lemma read_response_wf:
  assumes "parse_read_without_encryption_response idm data = Inr r" and "length idm = 8"
  shows "wf_response r"
  using assms
  by (auto simp: parse_read_without_encryption_response_def response_status_flags_def bindE_eq_Inr Let_def
      wf_blocks_read_def wf_opt_def split: if_splits) (rule collected_block_length, simp_all)

lemma addressed_parsers_wf:
  assumes "map_of addressed_parsers c = Some q" and "q idm data = Inr r" and "length idm = 8"
  shows "wf_response r"
proof -
  note parsers = parse_polling_response_def parse_request_service_response_def parse_request_response_response_def
    parse_write_without_encryption_response_def parse_request_systemcode_response_def
    parse_request_block_information_response_def parse_authentication1_response_def
    parse_request_code_list_response_def parse_request_block_information_ex_response_def
    parse_set_parameter_response_def parse_get_container_issue_information_response_def
    parse_get_area_information_response_def parse_get_node_property_response_def
    parse_request_service_v2_response_def parse_get_system_status_response_def
    parse_request_product_information_response_def parse_request_specification_version_response_def
    parse_reset_mode_response_def parse_authentication1_v2_response_def parse_get_container_id_response_def
    parse_status_response_def
  have "q \<in> snd ` set addressed_parsers" using map_of_SomeD [OF assms(1)] by force
  then consider "q = parse_search_service_code_response" | "q = parse_read_without_encryption_response"
    | "q \<in> set [parse_polling_response, parse_request_service_response, parse_request_response_response,
        parse_write_without_encryption_response, parse_request_systemcode_response,
        parse_request_block_information_response, parse_authentication1_response]"
    | "q \<in> set [parse_request_code_list_response, parse_request_block_information_ex_response,
        parse_set_parameter_response, parse_get_container_issue_information_response,
        parse_get_area_information_response, parse_get_node_property_response]"
    | "q \<in> set [parse_request_service_v2_response, parse_get_system_status_response,
        parse_request_product_information_response, parse_request_specification_version_response,
        parse_reset_mode_response, parse_authentication1_v2_response, parse_get_container_id_response]"
    by (auto simp: addressed_parsers_def)
  then show ?thesis
  proof cases
    case 1
    then show ?thesis using search_result_wf assms(2,3) by blast
  next
    case 2
    then show ?thesis using read_response_wf assms(2,3) by blast
  qed (use assms(2,3) in \<open>auto simp: parsers response_status_flags_def parse_pmm_def parse_fixed_def bindE_eq_Inr
      Let_def length_sub wf_opt_def split: if_splits\<close>)
qed

lemma from_bytes_wf:
  assumes "from_bytes f = Inr r"
  shows "wf_response r"
  using assms addressed_parsers_wf
  by (auto simp: from_bytes_def parse_authentication2_response_def parse_authentication2_v2_response_def
      parse_get_container_property_response_def parse_response_idm_def parse_fixed_def bindE_eq_Inr Let_def
      split: if_splits option.splits)



theorem response_roundtrip_witness:
  "from_bytes [31, 7, 1, 2, 3, 4, 5, 6, 7, 8, 0, 0, 1, 1, 2, 3, 4, 5, 6, 7, 8, 9, 10, 11, 12, 13, 14, 15, 16, 0, 0]
    = driver_other ''read without encryption response length does not match block count''
  \<and> from_bytes ([29, 7, 1, 2, 3, 4, 5, 6, 7, 8, 0, 0, 1] @ replicate 16 5)
    = Inr (RespReadWithoutEncryption [1, 2, 3, 4, 5, 6, 7, 8] 0 0 (Some [replicate 16 5]))"
proof
  show "from_bytes [31, 7, 1, 2, 3, 4, 5, 6, 7, 8, 0, 0, 1, 1, 2, 3, 4, 5, 6, 7, 8, 9, 10, 11, 12, 13, 14, 15, 16, 0, 0]
    = driver_other ''read without encryption response length does not match block count''"
    by code_simp
  have "response_to_frame (RespReadWithoutEncryption [1, 2, 3, 4, 5, 6, 7, 8] 0 0 (Some [replicate 16 5]))
      = Inr ([29, 7, 1, 2, 3, 4, 5, 6, 7, 8, 0, 0, 1] @ replicate 16 5)"
    and "wf_response (RespReadWithoutEncryption [1, 2, 3, 4, 5, 6, 7, 8] 0 0 (Some [replicate 16 5]))"
    by code_simp+
  then show "from_bytes ([29, 7, 1, 2, 3, 4, 5, 6, 7, 8, 0, 0, 1] @ replicate 16 5)
    = Inr (RespReadWithoutEncryption [1, 2, 3, 4, 5, 6, 7, 8] 0 0 (Some [replicate 16 5]))"
    by (rule response_roundtrip)
qed

theorem secure_response_payload_roundtrip_witness:
  "from_secure_bytes READ_COMMAND_CODE ((0 # 0 # 1 # replicate 16 7) @ [5, 5, 5, 5, 5])
    = Inr (RespRead 0 0 (Some [replicate 16 7]))"
proof -
  have "to_secure_payload (RespRead 0 0 (Some [replicate 16 7])) = Inr (0 # 0 # 1 # replicate 16 7)"
    and "wf_response (RespRead 0 0 (Some [replicate 16 7]))"
    by code_simp+
  from secure_response_payload_roundtrip [OF this] show ?thesis by simp
qed

end
