(* ===== verification/Reader_Card.thy ===== *)
theory Reader_Card
  imports Host_Ops Card_Safety Response_Codec
begin

text \<open>
  The reader's API on the emulated card. \<open>answering_driver\<close> is what the reader relies on: a driver that
  passes frames to something that answers them. The driver \<open>card_environment\<close> passes them to
  \<open>handle_frame\<close> of the card, so the whole path is exercised: argument checks, command encoder, frame,
  card, response encoder, response parser. The theorems say that this path adds nothing and loses
  nothing: an operation of the API has the outcome of the direct access to the card's file system.
\<close>

section \<open>Drivers that answer\<close>

locale answering_driver =
  fixes E :: "'d environment"
    and answer :: "'d \<Rightarrow> bytes \<Rightarrow> bytes option \<times> 'd"
  assumes answered: "answer d f = (Some r, d') \<Longrightarrow> transceive E d t f x = (Inr r, d')"
begin

lemma device_answers:
  "answer (fs_device h) f = (Some r, d') \<Longrightarrow> device_transceive E f t h = (Inr r, h\<lparr>fs_device := d'\<rparr>)"
  by (simp add: device_transceive_def answered)

lemma plain_exchange:
  assumes "encoding c = Inr (Plain f)" and "answer (fs_device h) f = (Some rf, d')"
    and "response_to_frame r = Inr rf" and "wf_response r"
  shows "execute_command E label c t h = (Inr r, h\<lparr>fs_device := d'\<rparr>)"
  using response_frame_read_back [OF assms(3,4)] device_answers [OF assms(2)] assms(1)
  by (simp add: execute_command_def send_command_def bindH_Inr)

lemma sealed_exchange:
  assumes "frame_with_length_prefix (code # e) = Inr f" and "answer (fs_device h) f = (Some rf, d')"
    and "rf = u8_of (length rf) # expected_secure_response_code code # er" and "length rf \<le> 255"
  shows "send_encrypted_command E code e t h = (Inr er, h\<lparr>fs_device := d'\<rparr>)"
proof -
  have rf: "2 \<le> length rf" "unat (rf ! 0) = length rf" "rf ! 1 = expected_secure_response_code code" "drop 2 rf = er"
  proof -
    have "unat (u8_of (length rf)) = length rf" using assms(4) by simp
    then show "unat (rf ! 0) = length rf" using assms(3) by (metis nth_Cons_0)
    show "2 \<le> length rf" "rf ! 1 = expected_secure_response_code code" "drop 2 rf = er"
      by (subst assms(3), simp)+
  qed
  show ?thesis
    using assms(1) rf device_answers [OF assms(2)] by (simp add: send_encrypted_command_def bindH_Inr)
qed

end

definition card_answer :: "crypto \<Rightarrow> bytes \<Rightarrow> emulator \<Rightarrow> bytes \<Rightarrow> bytes option \<times> emulator" where
  "card_answer C random_2 em f =
     (case handle_frame C random_2 em f of Inl _ \<Rightarrow> (None, em) | Inr (resp, em') \<Rightarrow> (resp, em'))"

definition card_environment :: "crypto \<Rightarrow> aes_crypto \<Rightarrow> bytes \<Rightarrow> emulator environment" where
  "card_environment C A random_2 =
     \<lparr>detect_type_f = (\<lambda>em t system_code request_code time_slots.
        (case polling_response em system_code request_code of
           (Some r, em') \<Rightarrow> (Inr r, em')
         | (None, em') \<Rightarrow> (Inl (Communication (Timeout ''no card'')), em'))),
      transceive = (\<lambda>em t f x.
        (case handle_frame C random_2 em f of
           Inl m \<Rightarrow> (Inl (DriverPanicked m), em)
         | Inr (Some r, em') \<Rightarrow> (Inr r, em')
         | Inr (None, em') \<Rightarrow> (Inl (Communication (Timeout ''no response'')), em'))),
      env_des = C, env_aes = A\<rparr>"

interpretation card: answering_driver "card_environment C A random_2" "card_answer C random_2"
  for C A random_2
  by unfold_locales (auto simp: card_environment_def card_answer_def split: sum.splits prod.splits option.splits)

lemma card_environment_ciphers [simp]:
  "env_des (card_environment C A r) = C" "env_aes (card_environment C A r) = A"
  by (simp_all add: card_environment_def)

section \<open>Plain frames on the card\<close>

lemma secure_code_not_plain: "is_secure_command_code code \<Longrightarrow> map_of plain_parsers code = None"
  by (auto simp: is_secure_command_code_def plain_parsers_def)

lemma parsed_frame_handled:
  assumes "parse_frame f = Inr c"
  shows "handle_frame C r em f = handle_command C r em c"
proof -
  obtain len code p where f: "f = len # code # p" "unat len = length f" "\<not> is_secure_command_code code"
    using assms secure_code_not_plain
    by (cases f; cases "tl f")
      (auto simp: parse_frame_def parse_payload_def perr_def Let_def split: if_splits)
  then show ?thesis using assms by (simp add: handle_frame_def Let_def)
qed

lemma encode_response_frame_Some: "encode_response_frame r = Inr (Some f) \<longleftrightarrow> response_to_frame r = Inr f"
  by (auto simp: encode_response_frame_def split: sum.splits felica_error.splits)

lemma card_plain_exchange:
  assumes "encoding c = Inr (Plain f)" and "wf_command c"
    and "handle_command C r2 (fs_device h) c = Inr (Some rf, em')"
    and "response_to_frame r = Inr rf" and "wf_response r"
  shows "execute_command (card_environment C A r2) label c t h = (Inr r, h\<lparr>fs_device := em'\<rparr>)"
proof (rule card.plain_exchange [OF assms(1) _ assms(4,5)])
  have "parse_frame f = Inr c" by (rule encoding_plain_roundtrip [OF assms(2,1)])
  then show "card_answer C r2 (fs_device h) f = (Some rf, em')"
    using assms(3) by (simp add: card_answer_def parsed_frame_handled)
qed

lemma reader_idm: "length (t3_idm (fs_polling_result h)) = 8 \<Longrightarrow> idm_bytes h = (Inr (t3_idm (fs_polling_result h)), h)"
  by (simp add: idm_bytes_def)

lemma with_reader_idm:
  "length (t3_idm (fs_polling_result h)) = 8 \<Longrightarrow> bindH idm_bytes f h = f (t3_idm (fs_polling_result h)) h"
  by (rule bindH_Inr [OF reader_idm])

text \<open>The outcome of a direct access, as the API reports it.\<close>

definition access_outcome :: "string \<Rightarrow> access_error + 'a \<Rightarrow> felica_error + 'a" where
  "access_outcome label r =
     (case r of
        Inr x \<Rightarrow> Inr x
      | Inl (Flags sf1 sf2) \<Rightarrow> Inl (status_error label sf1 sf2)
      | Inl (AccessPanic m) \<Rightarrow> Inl (Panicked m))"

lemma list_error_index_nonzero: "list_error_index i \<noteq> 0"
proof -
  have "unat (list_error_index i) \<noteq> 0"
    by (auto simp: list_error_index_def Let_def not_less)
  then show ?thesis by auto
qed

lemma validate_block_flags:
  "validate_block_element y st codes i b acc raf = Inl (sf1, sf2) \<Longrightarrow> sf1 \<noteq> 0 \<and> sf2 \<noteq> 0x71"
  using list_error_index_nonzero
  by (auto simp: validate_block_element_def Let_def split: option.splits if_splits access_type.splits)

lemma read_blocks_flags:
  assumes "read_blocks y st codes bl raf = Inl (Flags sf1 sf2)"
  shows "sf1 \<noteq> 0 \<and> sf2 \<noteq> 0x71"
proof -
  obtain e where "read_block y st codes raf e = Inl (Flags sf1 sf2)"
    using mapE_Inl [OF assms [unfolded read_blocks_def]] by blast
  then show ?thesis using validate_block_flags
    by (fastforce simp: read_block_def validate_read_block_def bindE_eq_Inl flags_error_def map_err_Inl
        ok_or_def split: option.splits)
qed

lemma read_blocks_ok:
  assumes "read_blocks y st codes bl raf = Inr bs" and "wf_tree y st"
  shows "length bs = length bl" and "\<forall>b \<in> set bs. length b = 16"
proof -
  show l: "length bs = length bl" using assms(1) mapE_length unfolding read_blocks_def by fastforce
  have "length (bs ! i) = 16" if i: "i < length bl" for i
  proof -
    have "read_block y st codes raf (i, bl ! i) = Inr (bs ! i)"
      using mapE_nth [OF assms(1) [unfolded read_blocks_def], of i] i by (simp add: nth_enumerate_eq)
    then obtain s :: emulated_service where
      n: "unat (block_number_or_key_version (bl ! i)) < length (blocks_at st (es_blocks s))"
        "bs ! i = blocks_at st (es_blocks s) ! unat (block_number_or_key_version (bl ! i))"
      using read_block_ok [of y st codes raf "(i, bl ! i)" "bs ! i"] unfolding snd_conv by metis
    have "bs ! i \<in> set (blocks_at st (es_blocks s))" unfolding n(2) by (rule nth_mem [OF n(1)])
    then show ?thesis using wf_tree_blocks [OF assms(2), of "es_blocks s"] by (simp add: block_inv_def)
  qed
  then show "\<forall>b \<in> set bs. length b = 16" using l by (metis in_set_conv_nth)
qed

lemmas encoders = response_to_frame_def to_payload.simps flagged_def success_part_def for_success_def
  ensure_omitted_on_error_def blocks_result_def ensure_count_in_range_def push_count_def status_only_def
  status_flags_def Payload.response_def frame_with_length_prefix_def

lemma read_response_frames:
  assumes "length idm = 8"
  shows "1 \<le> length bs \<Longrightarrow> length bs \<le> 15 \<Longrightarrow> \<forall>b \<in> set bs. length b = 16 \<Longrightarrow>
      \<exists>f. response_to_frame (RespReadWithoutEncryption idm 0 0 (Some bs)) = Inr f"
    and "sf1 \<noteq> 0 \<Longrightarrow> \<exists>f. response_to_frame (RespReadWithoutEncryption idm sf1 sf2 None) = Inr f"
    and "\<exists>f. response_to_frame (RespWriteWithoutEncryption idm sf1 sf2) = Inr f"
  using assms length_concat_blocks [of bs] by (cases bs; simp add: encoders)+

lemma set_block_no_flags [simp]: "set_block blocks n b \<noteq> Inl (Flags sf1 sf2)"
  by (simp add: set_block_def)

lemma purse_flags:
  "purse_resolve a m = Inl sf2 \<Longrightarrow> sf2 \<noteq> 0x71"
  "apply_purse_write stored b op limit = Inl sf2 \<Longrightarrow> sf2 \<noteq> 0x71"
  by (auto simp: purse_resolve_def apply_purse_write_def Let_def case_prod_unfold
      split: if_splits purse_operation.splits)

lemma write_purse_flags:
  "write_purse blocks p = Inl (Flags sf1 sf2) \<Longrightarrow> sf1 = vb_position (fst p) \<and> sf2 \<noteq> 0x71"
  using purse_flags
  by (cases "purse_resolve (vb_attribute (fst p)) (vb_access_mode (fst p))";
      cases "nth_opt blocks (vb_block_number (fst p))";
      cases "apply_purse_write (the (nth_opt blocks (vb_block_number (fst p)))) (snd p)
        (projr (purse_resolve (vb_attribute (fst p)) (vb_access_mode (fst p)))) (vb_limit_purse (fst p))")
    (auto simp: write_purse_def split: option.splits)

lemma foldE_Inl: "foldE f s xs = Inl e \<Longrightarrow> \<exists>x \<in> set xs. \<exists>s. f s x = Inl e"
  by (induction xs arbitrary: s) (auto simp: bindE_eq_Inl)

lemma find_in_set: "List.find P xs = Some x \<Longrightarrow> x \<in> set xs"
  by (auto simp: find_Some_iff)

lemma apply_run_flags:
  assumes "apply_run blocks run = Inl (Flags sf1 sf2)" and "run \<noteq> []"
  shows "\<exists>p \<in> set run. sf1 = vb_position (fst p) \<and> sf2 \<noteq> 0x71"
proof (cases "attribute_kind (vb_attribute (fst (hd run)))")
  case Random
  then show ?thesis using assms(1) by (auto simp: apply_run_def write_random_def dest!: foldE_Inl)
next
  case Cyclic
  then have "write_cyclic blocks run = Inl (Flags sf1 sf2)" using assms(1) by (simp add: apply_run_def)
  then have "(\<exists>p. List.find (\<lambda>p. vb_block_number (fst p) \<noteq> 0) run = Some p \<and> sf1 = vb_position (fst p) \<and> sf2 = 0xA5)
      \<or> sf1 = vb_position (fst (hd run)) \<and> sf2 = 0xAF"
    by (auto simp: write_cyclic_def apply_cyclic_write_def split: option.splits sum.splits if_splits cyclic_write.splits)
  then show ?thesis using assms(2) find_in_set by fastforce
next
  case Purse
  then have "foldE write_purse blocks run = Inl (Flags sf1 sf2)" using assms(1) by (simp add: apply_run_def)
  from foldE_Inl [OF this] obtain p b where "p \<in> set run" "write_purse b p = Inl (Flags sf1 sf2)" by blast
  then show ?thesis using write_purse_flags by blast
qed

lemma apply_runs_flags:
  "apply_runs staged ps = Inl (Flags sf1 sf2) \<Longrightarrow> \<exists>p \<in> set ps. sf1 = vb_position (fst p) \<and> sf2 \<noteq> 0x71"
proof (induction staged ps rule: apply_runs.induct)
  case (1 staged)
  then show ?case by simp
next
  case (2 staged p rest)
  let ?n = "planned_number p"
  let ?run = "p # takeWhile (\<lambda>q. planned_number q = ?n) rest"
  let ?rest = "dropWhile (\<lambda>q. planned_number q = ?n) rest"
  have sub: "set ?run \<subseteq> set (p # rest)" "set ?rest \<subseteq> set (p # rest)"
    by (auto dest: set_takeWhileD set_dropWhileD)
  obtain a bs where s: "staged ?n = Some (a, bs)"
    using "2.prems" by (cases "staged ?n") (auto simp: Let_def)
  show ?case
  proof (cases "apply_run bs ?run")
    case (Inl e)
    then have "apply_run bs ?run = Inl (Flags sf1 sf2)" using "2.prems" s by (simp add: Let_def)
    from apply_run_flags [OF this] show ?thesis using sub(1) by blast
  next
    case (Inr u)
    then have "apply_runs (staged(?n \<mapsto> (a, u))) ?rest = Inl (Flags sf1 sf2)" using "2.prems" s by (simp add: Let_def)
    then show ?thesis using "2.IH" [OF refl refl _ refl Inr] s sub(2) by fastforce
  qed
qed

lemma plan_write_position: "plan_write y st codes data raf e = Inr p \<Longrightarrow> vb_position (fst p) \<noteq> 0"
  using list_error_index_nonzero
  by (auto simp: plan_write_def bindE_eq_Inr validate_block_element_def Let_def
      split: option.splits if_splits access_type.splits)

lemma plan_write_flags:
  assumes "plan_write y st codes data raf e = Inl (Flags sf1 sf2)"
  shows "sf1 \<noteq> 0 \<and> sf2 \<noteq> 0x71"
proof (cases "validate_block_element y st codes (fst e) (snd e) AccessWrite raf")
  case (Inl f)
  then have "f = (sf1, sf2)" using assms by (cases f) (simp add: plan_write_def flags_error_def)
  then show ?thesis using validate_block_flags Inl by blast
next
  case (Inr v)
  then show ?thesis using assms by (simp add: plan_write_def bindE_eq_Inl ok_or_def split: option.splits)
qed

lemma apply_block_writes_flags:
  assumes "apply_block_writes y st codes bl data raf = Inl (Flags sf1 sf2)"
  shows "sf1 \<noteq> 0 \<and> sf2 \<noteq> 0x71"
proof (cases "mapE (plan_write y st codes data raf) (enumerate 0 bl)")
  case (Inl e)
  then have "mapE (plan_write y st codes data raf) (enumerate 0 bl) = Inl (Flags sf1 sf2)"
    using assms by (simp add: apply_block_writes_def)
  from mapE_Inl [OF this] obtain x where "plan_write y st codes data raf x = Inl (Flags sf1 sf2)" by blast
  then show ?thesis by (rule plan_write_flags)
next
  case (Inr planned)
  have pos: "vb_position (fst p) \<noteq> 0" if p: "p \<in> set planned" for p
  proof -
    obtain k where "k < length planned" "planned ! k = p" using p by (auto simp: in_set_conv_nth)
    then show ?thesis using mapE_nth [OF Inr, of k] mapE_length [OF Inr] plan_write_position by fastforce
  qed
  have "foldE (stage y st) Map.empty planned \<noteq> Inl (Flags sf1 sf2)"
    by (auto simp: stage_def bindE_eq_Inl ok_or_def dest!: foldE_Inl split: if_splits option.splits)
  then obtain staged where "apply_runs staged planned = Inl (Flags sf1 sf2)"
    using assms Inr by (auto simp: apply_block_writes_def bindE_eq_Inl)
  from apply_runs_flags [OF this] obtain p where "p \<in> set planned" "sf1 = vb_position (fst p)" "sf2 \<noteq> 0x71"
    by blast
  then show ?thesis using pos by simp
qed

section \<open>Plain reads and writes through the API\<close>

text \<open>A card and a reader that has polled one of its systems, and the arguments of an access.\<close>

definition polled :: "emulator felica_standard \<Rightarrow> nat \<Rightarrow> emulator \<Rightarrow> bool" where
  "polled h i em \<longleftrightarrow> wf_card (fs_device h) \<and> length (t3_idm (fs_polling_result h)) = 8
     \<and> system_index_for_idm (fs_device h) (t3_idm (fs_polling_result h)) Unauthenticated = (Some i, em)"

lemma polled_wf: "polled h i em \<Longrightarrow> wf_tree (em_systems em ! i) (em_store em)"
  using system_index_for_idm_card [of "fs_device h" "t3_idm (fs_polling_result h)" Unauthenticated "Some i" em]
    wf_card_nth [of em i]
  by (simp add: polled_def)

definition access_arguments :: "service_code list \<Rightarrow> block_list_element list \<Rightarrow> bool" where
  "access_arguments codes bl \<longleftrightarrow> 1 \<le> length codes \<and> length codes \<le> 16 \<and> bl \<noteq> []
     \<and> (\<forall>b \<in> set bl. unat (service_code_list_index b) < length codes \<and> access_mode b < 8)"

lemma access_arguments_wf:
  assumes "access_arguments codes bl" and "length bl \<le> 255"
  shows "wf_blocks bl" and "count_in 1 16 codes" and "validate_block_list_indices bl (length codes) = Inr ()"
proof -
  have "service_code_list_index b < 16" if "b \<in> set bl" for b
  proof -
    have "unat (service_code_list_index b) < 16" using assms(1) that by (force simp: access_arguments_def)
    then show ?thesis by (simp add: word_less_nat_alt)
  qed
  then show "wf_blocks bl" using assms
    by (cases bl) (auto simp: access_arguments_def wf_blocks_def wf_block_element_def list_all_iff)
  show "count_in 1 16 codes" "validate_block_list_indices bl (length codes) = Inr ()"
    using assms by (auto simp: access_arguments_def count_in_def validate_block_list_indices_def list_ex_iff not_le)
qed

lemma ensure_len_in_range_ok [simp]: "mn \<le> n \<Longrightarrow> n \<le> mx \<Longrightarrow> ensure_len_in_range l n mn mx = Inr ()"
  by (simp add: ensure_len_in_range_def)


lemma read_command_encoded:
  assumes "access_arguments codes bl" and "length bl \<le> 15" and "length idm = 8"
  shows "\<exists>f. encoding (CmdReadWithoutEncryption idm codes bl) = Inr (Plain f)"
proof -
  have "length (pack b) \<le> 3" for b by (simp add: pack_def Let_def)
  then have "length (concat (map pack bl)) \<le> 3 * length bl" by (induction bl) (auto intro: add_mono)
  moreover have "length (concat (map code_to_le_bytes codes)) = 2 * length codes"
    by (induction codes) (auto simp: code_to_le_bytes_def)
  ultimately show ?thesis using assms
    by (cases bl) (auto simp: access_arguments_def extend_counted_service_codes_def extend_counted_block_list_def
      extend_service_codes_def extend_block_list_def ensure_count_in_range_def push_count_def plain_def
      frame_with_length_prefix_def Let_def)
qed

text \<open>The answer to a read or a write, as the API hands it to its caller.\<close>

definition read_answer :: "nat \<Rightarrow> response \<Rightarrow> felica_error + bytes list" where
  "read_answer n r =
     (case r of
        RespReadWithoutEncryption _ sf1 sf2 result \<Rightarrow>
          bindE (require_result ''Read Without Encryption'' sf1 sf2 result) (\<lambda>blocks.
          if length blocks \<noteq> n then
            Inl (Protocol ''Read Without Encryption response block count mismatch'')
          else Inr blocks)
      | _ \<Rightarrow> Inl (unexpected_response ''Read Without Encryption''))"

lemma polledD:
  assumes "polled h i em"
  shows "wf_card (fs_device h)" and "length (t3_idm (fs_polling_result h)) = 8"
    and "system_index_for_idm (fs_device h) (t3_idm (fs_polling_result h)) Unauthenticated = (Some i, em)"
  using assms by (auto simp: polled_def)

text \<open>A read that some driver answers with a frame, and the answer of a card to it.\<close>

lemma read_answered_by:
  assumes "access_arguments codes bl" and "length bl \<le> 15" and "length (t3_idm (fs_polling_result h)) = 8"
    and "encoding (CmdReadWithoutEncryption (t3_idm (fs_polling_result h)) codes bl) = Inr (Plain f)"
    and "transceive E (fs_device h) (fs_target h) f
      (Some (read_without_encryption_timeout_ms (fs_polling_result h) (length bl))) = (Inr rf, d')"
    and "response_to_frame r = Inr rf" and "wf_response r"
  shows "read_without_encryption E codes bl h = (read_answer (length bl) r, h\<lparr>fs_device := d'\<rparr>)"
proof -
  let ?t = "read_without_encryption_timeout_ms (fs_polling_result h) (length bl)"
  have "device_transceive E f ?t h = (Inr rf, h\<lparr>fs_device := d'\<rparr>)" by (simp add: device_transceive_def assms(5))
  then have exec: "execute_command E label (CmdReadWithoutEncryption (t3_idm (fs_polling_result h)) codes bl) ?t h
      = (Inr r, h\<lparr>fs_device := d'\<rparr>)" for label
    using response_frame_read_back [OF assms(6,7)] assms(4) by (simp add: execute_command_def send_command_def bindH_Inr)
  show ?thesis
    using access_arguments_wf [OF assms(1)] assms(1,2)
    by (simp add: read_without_encryption_def access_arguments_def with_reader_idm [OF assms(3)] bindH_Inr exec
        Suc_le_eq read_answer_def)
qed

lemma card_answers_read:
  assumes "polled h i em" and "access_arguments codes bl" and "length bl \<le> 15"
    and "encoding (CmdReadWithoutEncryption (t3_idm (fs_polling_result h)) codes bl) = Inr (Plain f)"
  obtains r rf where "handle_frame C r2 (fs_device h) f = Inr (Some rf, em)" and "response_to_frame r = Inr rf"
    and "wf_response r" and "read_answer (length bl) r =
      access_outcome ''Read Without Encryption'' (read_blocks (em_systems em ! i) (em_store em) codes bl True)"
proof -
  let ?y = "em_systems em ! i" and ?idm = "t3_idm (fs_polling_result h)"
  let ?c = "CmdReadWithoutEncryption ?idm codes bl"
  note p = polledD [OF assms(1)]
  note args = access_arguments_wf [OF assms(2)] assms(2,3)
  note results = read_answer_def access_outcome_def require_result_def check_status_flags_def
  have wc: "wf_command ?c" using args p(2) by simp
  have handled: "handle_frame C r2 (fs_device h) f = Inr (Some rf, em)"
    if "handle_read ?idm ?y (em_store em) codes bl = encode_response_frame r" and "response_to_frame r = Inr rf" for r rf
  proof -
    have "parse_frame f = Inr ?c" by (rule encoding_plain_roundtrip [OF wc assms(4)])
    moreover have "handle_command C r2 (fs_device h) ?c = Inr (Some rf, em)"
      by (simp add: handle_command_def with_system_def p(3) that(1) that(2) [folded encode_response_frame_Some])
    ultimately show ?thesis by (simp add: parsed_frame_handled)
  qed
  show thesis
  proof (cases "read_blocks ?y (em_store em) codes bl True")
    case (Inr bs)
    let ?r = "RespReadWithoutEncryption ?idm 0 0 (Some bs)"
    have bs: "length bs = length bl" "\<forall>b \<in> set bs. length b = 16"
      using read_blocks_ok [OF Inr polled_wf [OF assms(1)]] by auto
    then obtain rf where rf: "response_to_frame ?r = Inr rf"
      using read_response_frames(1) [OF p(2), of bs] assms(2,3) by (auto simp: access_arguments_def Suc_le_eq)
    have "wf_response ?r" using bs p(2) by (simp add: wf_blocks_read_def wf_opt_def)
    from that [OF handled [OF _ rf] rf this] show ?thesis by (simp add: handle_read_def Inr results bs)
  next
    case (Inl e)
    then obtain sf1 sf2 where e: "e = Flags sf1 sf2" using read_blocks_no_panic by (cases e) auto
    let ?r = "RespReadWithoutEncryption ?idm sf1 sf2 None"
    have sf: "sf1 \<noteq> 0" "sf2 \<noteq> 0x71" using read_blocks_flags Inl e by auto
    obtain rf where rf: "response_to_frame ?r = Inr rf" using read_response_frames(2) [OF p(2) sf(1)] by blast
    have "wf_response ?r" using p(2) by (simp add: wf_blocks_read_def wf_opt_def)
    from that [OF handled [OF _ rf] rf this] show ?thesis by (simp add: handle_read_def Inl e results sf)
  qed
qed

lemma plain_read_direct:
  assumes "polled h i em" and "access_arguments codes bl" and "length bl \<le> 15"
  shows "read_without_encryption (card_environment C A r2) codes bl h =
    (access_outcome ''Read Without Encryption'' (read_blocks (em_systems em ! i) (em_store em) codes bl True),
     h\<lparr>fs_device := em\<rparr>)"
proof -
  note idm = polledD(2) [OF assms(1)]
  obtain f where f: "encoding (CmdReadWithoutEncryption (t3_idm (fs_polling_result h)) codes bl) = Inr (Plain f)"
    using read_command_encoded [OF assms(2,3) idm] by blast
  obtain r rf where r: "handle_frame C r2 (fs_device h) f = Inr (Some rf, em)" "response_to_frame r = Inr rf" "wf_response r"
    "read_answer (length bl) r =
      access_outcome ''Read Without Encryption'' (read_blocks (em_systems em ! i) (em_store em) codes bl True)"
    by (rule card_answers_read [OF assms f])
  then have "transceive (card_environment C A r2) (fs_device h) t f x = (Inr rf, em)" for t x
    by (simp add: card_environment_def)
  from read_answered_by [OF assms(2,3) idm f this r(2,3)] r(4) show ?thesis by simp
qed

text \<open>
  C11. Reading through the API is reading the card's file system: for a polled card and arguments that the
  API accepts, \<open>read_without_encryption\<close> returns exactly the blocks that the card's system holds, or the
  status flags with which the direct access fails, and changes nothing but the selection of the system.
\<close>

theorem plain_read_is_direct:
  assumes "polled h i em" and "access_arguments codes bl" and "length bl \<le> 15"
  shows "read_without_encryption (card_environment C A r2) codes bl h =
    (access_outcome ''Read Without Encryption'' (read_blocks (em_systems em ! i) (em_store em) codes bl True),
     h\<lparr>fs_device := em\<rparr>)"
  using assms by (rule plain_read_direct)

lemma plain_write_answered:
  assumes "polled h i em" and "access_arguments codes bl" and "length data = 16 * length bl"
    and "encoding (CmdWriteWithoutEncryption (t3_idm (fs_polling_result h)) codes bl data) = Inr (Plain f)"
    and "handle_write (t3_idm (fs_polling_result h)) (em_systems em ! i) (em_store em) codes bl data =
      bindE (encode_response_frame (RespWriteWithoutEncryption (t3_idm (fs_polling_result h)) sf1 sf2)) (\<lambda>f. Inr (f, st))"
  shows "write_without_encryption (card_environment C A r2) codes bl data h
    = (check_status_flags ''Write Without Encryption'' sf1 sf2, h\<lparr>fs_device := em\<lparr>em_store := st\<rparr>\<rparr>)"
proof -
  let ?idm = "t3_idm (fs_polling_result h)"
  let ?c = "CmdWriteWithoutEncryption ?idm codes bl data"
  note p = polledD [OF assms(1)]
  have l: "length bl \<le> 255" using assms(3,4)
    by (auto simp: bindE_eq_Inr plain_def frame_with_length_prefix_Inr)
  note args = access_arguments_wf [OF assms(2) l] assms(2)
  have wc: "wf_command ?c" using args p(2) assms(3) by simp
  obtain rf where rf: "response_to_frame (RespWriteWithoutEncryption ?idm sf1 sf2) = Inr rf"
    using read_response_frames(3) [OF p(2)] by blast
  have wr: "wf_response (RespWriteWithoutEncryption ?idm sf1 sf2)" using p(2) by simp
  have "handle_command C r2 (fs_device h) ?c = Inr (Some rf, em\<lparr>em_store := st\<rparr>)"
    by (simp add: handle_command_def with_system_def p(3) assms(5) rf [folded encode_response_frame_Some])
  then have exec: "execute_command (card_environment C A r2) label ?c t h
      = (Inr (RespWriteWithoutEncryption ?idm sf1 sf2), h\<lparr>fs_device := em\<lparr>em_store := st\<rparr>\<rparr>)" for label t
    by (rule card_plain_exchange [OF assms(4) wc _ rf wr])
  show ?thesis
    using args assms(3) l
    by (simp add: write_without_encryption_def access_arguments_def with_reader_idm [OF p(2)] bindH_Inr exec
        Suc_le_eq ensure_block_data_length_def)
qed

text \<open>
  Writing through the API is writing the card's file system: the card holds afterwards what the direct
  write makes of its store; if that is refused, the API reports its status flags and the card's data is
  unchanged.
\<close>

theorem plain_write_is_direct:
  assumes "polled h i em" and "access_arguments codes bl" and "length data = 16 * length bl"
    and "encoding (CmdWriteWithoutEncryption (t3_idm (fs_polling_result h)) codes bl data) = Inr (Plain f)"
  shows "write_without_encryption (card_environment C A r2) codes bl data h =
    (case apply_block_writes (em_systems em ! i) (em_store em) codes bl data True of
       Inr st \<Rightarrow> (Inr (), h\<lparr>fs_device := em\<lparr>em_store := st\<rparr>\<rparr>)
     | Inl e \<Rightarrow> (access_outcome ''Write Without Encryption'' (Inl e), h\<lparr>fs_device := em\<rparr>))"
proof (cases "apply_block_writes (em_systems em ! i) (em_store em) codes bl data True")
  case (Inr st)
  from plain_write_answered [OF assms, of 0 0 st] assms(3) Inr show ?thesis
    by (simp add: handle_write_def check_status_flags_def)
next
  case (Inl e)
  then obtain sf1 sf2 where e: "e = Flags sf1 sf2"
    using apply_block_writes_no_panic [OF polled_wf [OF assms(1)], of bl data codes True] assms(3) by (cases e) auto
  have sf: "sf1 \<noteq> 0" "sf2 \<noteq> 0x71" using apply_block_writes_flags Inl e by auto
  from plain_write_answered [OF assms, of sf1 sf2 "em_store em"] assms(3) Inl e sf show ?thesis
    by (simp add: handle_write_def check_status_flags_def access_outcome_def)
qed

section \<open>Witnesses\<close>

definition demo_host :: "emulator felica_standard" where
  "demo_host = \<lparr>fs_device = demo_card,
     fs_target = \<lparr>rt_bitrate = \<lparr>br_send = ''212F'', br_recv = ''212F''\<rparr>, rt_data = target_data_default\<rparr>,
     fs_polling_result = \<lparr>t3_idm = [1, 2, 3, 4, 5, 6, 7, 8], t3_pmm = replicate 8 0xFF, t3_optional = []\<rparr>,
     fs_authenticated_context = None\<rparr>"

lemma demo_polled: "polled demo_host 0 demo_card"
proof -
  have "t3_idm (fs_polling_result demo_host) = [1, 2, 3, 4, 5, 6, 7, 8]" "fs_device demo_host = demo_card"
    by (simp_all add: demo_host_def)
  moreover have "case system_index_for_idm demo_card [1, 2, 3, 4, 5, 6, 7, 8] Unauthenticated of
      (io, em) \<Rightarrow> io = Some 0 \<and> em_active em = em_active demo_card \<and> em_systems em = em_systems demo_card
        \<and> em_store em = em_store demo_card" by code_simp
  ultimately show ?thesis using demo_wf_card
    by (cases "system_index_for_idm demo_card [1, 2, 3, 4, 5, 6, 7, 8] Unauthenticated")
      (simp add: polled_def)
qed

lemma demo_arguments: "access_arguments [ServiceCode 0x0009] demo_elements"
  and demo_tree: "em_systems demo_card ! 0 = demo_system" "em_store demo_card = demo_store"
  by (simp_all add: access_arguments_def demo_elements_def demo_card_def add_system_def emulator_new_def)

theorem plain_read_is_direct_witness:
  "fst (read_without_encryption (card_environment xor_cipher xor_aes demo_key) [ServiceCode 0x0009] demo_elements demo_host)
    = Inr [replicate 16 0xA1, replicate 16 0xA0]"
proof -
  have "read_blocks demo_system demo_store [ServiceCode 0x0009] demo_elements True
      = Inr [replicate 16 0xA1, replicate 16 0xA0]" by code_simp
  moreover have "length demo_elements \<le> 15" by (simp add: demo_elements_def)
  ultimately show ?thesis
    using plain_read_is_direct [OF demo_polled demo_arguments] by (simp add: demo_tree access_outcome_def)
qed

theorem plain_write_is_direct_witness:
  "fst (write_without_encryption (card_environment xor_cipher xor_aes demo_key) [ServiceCode 0x0009] demo_elements
     demo_data demo_host) = Inr ()"
proof -
  have "case encoding (CmdWriteWithoutEncryption (t3_idm (fs_polling_result demo_host)) [ServiceCode 0x0009]
      demo_elements demo_data) of Inr (Plain f) \<Rightarrow> True | _ \<Rightarrow> False"
    by code_simp
  then obtain f where f: "encoding (CmdWriteWithoutEncryption (t3_idm (fs_polling_result demo_host))
      [ServiceCode 0x0009] demo_elements demo_data) = Inr (Plain f)"
    by (auto split: sum.splits command_encoding.splits)
  have "length demo_data = 16 * length demo_elements" by (simp add: demo_data_def demo_elements_def)
  from plain_write_is_direct [OF demo_polled demo_arguments this f] show ?thesis
    by (simp add: demo_tree demo_write)
qed

end
