(* ===== verification/Reader_Session.thy ===== *)
theory Reader_Session
  imports Reader_Card
begin

text \<open>
  Secure sessions between the reader's API and the emulated card. \<open>synchronised\<close> relates the reader's
  context to the card's session: same key, transaction ID and transaction number. Mutual authentication
  establishes it, every exchange keeps it and advances the number by two, and a read or write through the
  session is the direct access of the card with the session's services.
\<close>

section \<open>One exchange\<close>

text \<open>The card opens what the reader seals; \<open>response_opened\<close> is the other direction.\<close>

lemma sealed_opened:
  assumes "crypto_ok C" and "length (ss_transaction_key s) = 8" and "length (ss_transaction_id s) = 6"
    and "seal C code (u16_to_le n @ ss_transaction_id s @ p) (ss_transaction_key s) = Inr e"
    and "sys_session y = Some s" and "sys_mode y = Mode2" and "\<not> is_register_command code"
    and "ss_transaction_number s < n" and "n \<noteq> 0xFFFF"
  shows "\<exists>pad. open_secure_frame C y code e = Some (s, n + 1, p @ pad)"
proof -
  let ?p = "u16_to_le n @ ss_transaction_id s @ p"
  obtain mac where m: "length mac = 8" "check_packet_mac_des C (pad_to_des_block_size ?p @ mac) code"
      "decrypt_des_cbc_zero_iv C e (ss_transaction_key s) = Inr (pad_to_des_block_size ?p @ mac)"
    using seal_Inr [OF assms(1,2) _ assms(4)] by (auto simp: u16_to_le_def)
  obtain tail where t: "pad_to_des_block_size ?p = u16_to_le n @ ss_transaction_id s @ p @ tail"
    using pad_header [OF assms(3)] by blast
  show ?thesis
    using m t assms des_header_fields [OF assms(3), of n "p @ tail"]
    by (auto simp: open_secure_frame_def Let_def not_le)
qed

lemma padded_room: "n \<le> 232 \<Longrightarrow> (n + 8 + 7) div 8 * 8 \<le> (240 :: nat)"
  by presburger

lemma sealed_fits:
  assumes "crypto_ok C" and "length key = 8" and "length tid = 6" and "length p \<le> 232"
  obtains e where "seal C code (u16_to_le n @ tid @ p) key = Inr e" and "length e \<le> 248"
proof -
  have "length (pad_to_des_block_size (u16_to_le n @ tid @ p)) \<le> 240"
    using padded_room [OF assms(4)] assms(3) by (simp add: length_pad add.commute)
  moreover from this obtain e where e: "seal C code (u16_to_le n @ tid @ p) key = Inr e"
    using seal_fits(1) [OF assms(1,2), of code "u16_to_le n @ tid @ p"] by fastforce
  ultimately have "length e \<le> 248" using seal_fits(2) [OF assms(1,2) e] by simp
  with e show thesis by (rule that)
qed

lemma response_framed:
  assumes "crypto_ok C" and "length key = 8" and "length tid = 6" and "length p \<le> 232"
  obtains f er where "build_secure_response_frame_des C code n tid key p = Some f"
    and "f = u8_of (length f) # code # er" and "length f \<le> 255"
proof -
  obtain e where e: "seal C code (u16_to_le n @ tid @ p) key = Inr e" "length e \<le> 248"
    by (rule sealed_fits [OF assms])
  show thesis
    by (rule that [of "u8_of (length e + 2) # code # e" e])
      (use e in \<open>simp_all add: build_secure_response_frame_des_def frame_with_length_prefix_def\<close>)
qed

text \<open>Reader and card in the same session.\<close>

definition synchronised :: "emulator felica_standard \<Rightarrow> nat \<Rightarrow> secure_session \<Rightarrow> authenticated_context \<Rightarrow> bool" where
  "synchronised h i s x \<longleftrightarrow>
     wf_card (fs_device h) \<and> active_index (fs_device h) = Some i
     \<and> sys_mode (em_systems (fs_device h) ! i) = Mode2
     \<and> sys_session (em_systems (fs_device h) ! i) = Some s
     \<and> fs_authenticated_context h = Some x
     \<and> ax_credentials x = CredDes (ss_transaction_key s) \<and> length (ss_transaction_key s) = 8
     \<and> ax_transaction_id x = ss_transaction_id s \<and> length (ss_transaction_id s) = 6
     \<and> ax_transaction_number x = ss_transaction_number s"

text \<open>Both sides after an exchange that leaves the store \<open>st\<close>.\<close>

definition advanced ::
    "emulator felica_standard \<Rightarrow> nat \<Rightarrow> secure_session \<Rightarrow> authenticated_context \<Rightarrow> store
      \<Rightarrow> emulator felica_standard" where
  "advanced h i s x st =
     (let n = ss_transaction_number s + 2; em = fs_device h in
      h\<lparr>fs_device := (update_system em i ((em_systems em ! i)\<lparr>sys_session :=
            Some (s\<lparr>ss_transaction_number := n\<rparr>)\<rparr>))\<lparr>em_store := st\<rparr>,
        fs_authenticated_context := Some (x\<lparr>ax_transaction_number := n\<rparr>)\<rparr>)"

lemma map_update_same: "i < length xs \<Longrightarrow> f y = f (xs ! i) \<Longrightarrow> map f (xs[i := y]) = map f xs"
  by (rule nth_equalityI) (auto simp: nth_list_update)

lemma position_by: "position (\<lambda>y. f y = c) xs = position (\<lambda>z. z = c) (map f xs)"
  by (induction xs) auto

lemma active_index_codes:
  "active_index em = (let codes = map sys_code (em_systems em);
       first = (case codes of [] \<Rightarrow> None | c # _ \<Rightarrow> Some c);
       resolved = (case em_active em of Some code \<Rightarrow> if code \<in> set codes then Some code else first | None \<Rightarrow> first) in
     case resolved of None \<Rightarrow> None | Some c \<Rightarrow> position (\<lambda>z. z = c) codes)"
proof -
  have "(case em_systems em of [] \<Rightarrow> None | y # _ \<Rightarrow> Some (sys_code y))
      = (case map sys_code (em_systems em) of [] \<Rightarrow> None | c # _ \<Rightarrow> Some c)"
    by (cases "em_systems em") auto
  then show ?thesis
    by (simp only: active_index_def resolve_active_system_code_def system_codes_def position_by [of sys_code] Let_def)
qed

lemma active_index_update:
  assumes "active_index em = Some i" and "sys_code y = sys_code (em_systems em ! i)"
  shows "active_index ((update_system em i y)\<lparr>em_store := st\<rparr>) = Some i"
proof -
  have "map sys_code ((em_systems em)[i := y]) = map sys_code (em_systems em)"
    using active_index_less [OF assms(1)] assms(2) by (rule map_update_same)
  then show ?thesis using assms(1) by (simp add: active_index_codes update_system_def)
qed

lemma synchronised_advanced:
  assumes "synchronised h i s x" and "wf_card ((fs_device h)\<lparr>em_store := st\<rparr>)"
    and "h' = advanced h i s x st"
  shows "synchronised h' i (s\<lparr>ss_transaction_number := ss_transaction_number s + 2\<rparr>)
    (x\<lparr>ax_transaction_number := ss_transaction_number s + 2\<rparr>)"
proof -
  let ?em = "fs_device h" and ?n = "ss_transaction_number s + 2"
  let ?y = "(em_systems ?em ! i)\<lparr>sys_session := Some (s\<lparr>ss_transaction_number := ?n\<rparr>)\<rparr>"
  have i: "active_index ?em = Some i" using assms(1) by (simp add: synchronised_def)
  have l: "i < length (em_systems ?em)" by (rule active_index_less [OF i])
  have "wf_tree (em_systems ?em ! i) st" using assms(2) l by (simp add: wf_card_def)
  then have "wf_tree ?y st" by (simp add: wf_tree_def)
  then have "wf_card ((update_system ?em i ?y)\<lparr>em_store := st\<rparr>)"
    using assms(2) by (auto simp: wf_card_def update_system_def dest!: set_update_subset_insert [THEN subsetD])
  then show ?thesis
    using assms(1) active_index_update [OF i, of ?y st] l
    by (simp add: assms(3) synchronised_def advanced_def Let_def update_system_def)
qed

lemma card_secure_exchange:
  assumes "crypto_ok C" and "synchronised h i s x" and "code \<in> {READ_COMMAND_CODE, WRITE_COMMAND_CODE}"
    and "seal C code (u16_to_le n @ ss_transaction_id s @ p) (ss_transaction_key s) = Inr e"
    and "ss_transaction_number s < n" and "n \<noteq> 0xFFFF"
    and "\<And>pad. parse_secure_payload code (p @ pad) = Inr c"
    and "secure_command_response (em_systems (fs_device h) ! i) (em_store (fs_device h)) (ss_service_codes s) c
      = Inr (Some r, st)"
    and "to_secure_payload r = Inr rp"
    and "build_secure_response_frame_des C (code + 1) (n + 1) (ss_transaction_id s) (ss_transaction_key s) rp = Some rf"
  shows "em_handle_secure_frame C (fs_device h) code e =
    Inr (Some rf, (update_system (fs_device h) i ((em_systems (fs_device h) ! i)\<lparr>sys_session :=
      Some (s\<lparr>ss_transaction_number := n + 1\<rparr>)\<rparr>))\<lparr>em_store := st\<rparr>)"
proof -
  let ?em = "fs_device h"
  have sync: "active_index ?em = Some i" "sys_mode (em_systems ?em ! i) = Mode2"
    "sys_session (em_systems ?em ! i) = Some s" "length (ss_transaction_key s) = 8" "length (ss_transaction_id s) = 6"
    using assms(2) by (auto simp: synchronised_def)
  have nr: "\<not> is_register_command code" using assms(3) by (auto simp: is_register_command_def)
  obtain pad where "open_secure_frame C (em_systems ?em ! i) code e = Some (s, n + 1, p @ pad)"
    using sealed_opened [OF assms(1) sync(4,5) assms(4) sync(3,2) nr assms(5,6)] by blast
  then have "handle_secure_frame C (em_systems ?em ! i) (em_store ?em) code e = Inr (Some rf,
      (em_systems ?em ! i)\<lparr>sys_session := Some (s\<lparr>ss_transaction_number := n + 1\<rparr>)\<rparr>, st)"
    using assms(7-10) nr by (simp add: handle_secure_frame_def finish_secure_frame_def)
  then show ?thesis by (simp add: em_handle_secure_frame_active [OF sync(1)])
qed

lemma secure_frame_handled:
  assumes "is_secure_command_code code" and "length e \<le> 253"
  shows "handle_frame C r em (u8_of (length e + 2) # code # e) = em_handle_secure_frame C em code e"
  using assms by (simp add: handle_frame_def Let_def)

lemma secure_exchange:
  assumes "crypto_ok C" and "synchronised h i s x" and "unat (ss_transaction_number s) < 0xFFFE"
    and "wf_command c" and "encoding c = Inr (Secure code p)" and "code \<in> {READ_COMMAND_CODE, WRITE_COMMAND_CODE}"
    and "length p \<le> 232"
    and "secure_command_response (em_systems (fs_device h) ! i) (em_store (fs_device h)) (ss_service_codes s) c
      = Inr (Some r, st)"
    and "to_secure_payload r = Inr rp" and "length rp \<le> 232" and "wf_response r" and "secure_command_code r = code"
  shows "execute_command (card_environment C A r2) label c t h = (Inr r, advanced h i s x st)"
proof -
  let ?E = "card_environment C A r2" and ?em = "fs_device h"
  let ?key = "ss_transaction_key s" and ?tid = "ss_transaction_id s"
  define n where "n = ss_transaction_number s + 1"
  have num: "ss_transaction_number s \<noteq> 0xFFFF" "n \<noteq> 0xFFFF" "ss_transaction_number s < n" "n < n + 1"
    "n + 1 = ss_transaction_number s + 2"
  proof -
    have u: "unat n = unat (ss_transaction_number s) + 1"
      unfolding n_def using assms(3) by (intro unat_plus_one) auto
    then show "n \<noteq> 0xFFFF" using assms(3) by auto
    then show "n < n + 1" by (rule word_less_Suc)
    show "ss_transaction_number s \<noteq> 0xFFFF" using assms(3) by auto
    show "ss_transaction_number s < n" using u by (simp add: word_less_nat_alt)
    show "n + 1 = ss_transaction_number s + 2" by (simp add: n_def)
  qed
  have sync: "fs_authenticated_context h = Some x" "ax_credentials x = CredDes ?key" "length ?key = 8"
    "ax_transaction_id x = ?tid" "length ?tid = 6" "ax_transaction_number x = ss_transaction_number s"
    using assms(2) by (auto simp: synchronised_def)
  let ?x = "x\<lparr>ax_transaction_number := n\<rparr>"
  let ?sc = "\<lparr>sc_transaction_number = n, sc_transaction_id = ?tid, sc_credentials = CredDes ?key\<rparr>"
  let ?h = "h\<lparr>fs_authenticated_context := Some ?x\<rparr>"
  have cap: "capture x = Inr (?sc, ?x)" using num(1) sync by (simp add: capture_Inr n_def)
  obtain e where e: "seal C code (u16_to_le n @ ?tid @ p) ?key = Inr e" "length e \<le> 248"
    by (rule sealed_fits [OF assms(1) sync(3,5) assms(7)])
  obtain rf er where rf: "build_secure_response_frame_des C (code + 1) (n + 1) ?tid ?key rp = Some rf"
      "rf = u8_of (length rf) # (code + 1) # er" "length rf \<le> 255"
    by (rule response_framed [OF assms(1) sync(3,5) assms(10)])
  have codes: "expected_secure_response_code code = code + 1" "is_secure_command_code code" "\<not> is_register_command code"
    using assms(6) by (auto simp: expected_secure_response_code_def is_secure_command_code_def is_register_command_def)
  define em' where "em' = (update_system ?em i ((em_systems ?em ! i)\<lparr>sys_session :=
      Some (s\<lparr>ss_transaction_number := n + 1\<rparr>)\<rparr>))\<lparr>em_store := st\<rparr>"
  have card: "card_answer C r2 ?em (u8_of (length e + 2) # code # e) = (Some rf, em')"
    using card_secure_exchange [OF assms(1,2,6) e(1) num(3,2) encoding_secure_roundtrip [OF assms(4,5)] assms(8,9) rf(1)]
      e(2) codes(3) secure_frame_handled [OF codes(2), of e C r2 ?em]
    by (simp add: card_answer_def em'_def)
  have frame: "frame_with_length_prefix (code # e) = Inr (u8_of (length e + 2) # code # e)"
    using e(2) by (simp add: frame_with_length_prefix_def)
  have sent: "send_encrypted_command ?E code e t ?h = (Inr er, ?h\<lparr>fs_device := em'\<rparr>)"
    by (rule card.sealed_exchange [OF frame _ _ rf(3)]) (use card rf(2) codes(1) in simp_all)
  obtain tail where opened: "decrypt_secure_response_des C (code + 1) ?tid ?key er = Inr (n + 1, rp @ tail)"
    using sealed_response_opened [OF assms(1) sync(3,5) rf(1)] rf(2)
    by (metis drop0 drop_Suc_Cons numeral_2_eq_2)
  have "encrypted_command_exchange ?E code p t h
      = (Inr (rp @ tail), ?h\<lparr>fs_device := em', fs_authenticated_context := Some (x\<lparr>ax_transaction_number := n + 1\<rparr>)\<rparr>)"
    using sync cap e(1) sent opened num(4)
    by (simp add: encrypted_command_exchange_def bindH_def secure_context_def put_context_def ok_or_def
        build_secure_payload_def build_payload_des_def encrypt_command_def encrypt_command_des_def
        decrypt_response_def codes(1) process_encrypted_response_def set_transaction_number_def not_le)
  then show ?thesis
    using assms(5) secure_payload_read_back [OF assms(9,11), of tail] assms(12) num(5)
    by (simp add: execute_command_def send_command_def bindH_def advanced_def em'_def Let_def)
qed

section \<open>Reads and writes in a session\<close>

text \<open>A block list that the API and the list format accept.\<close>

definition block_arguments :: "block_list_element list \<Rightarrow> bool" where
  "block_arguments bl \<longleftrightarrow> bl \<noteq> [] \<and> length bl \<le> 14
     \<and> (\<forall>b \<in> set bl. service_code_list_index b < 16 \<and> access_mode b < 8)"

lemma block_arguments_wf: "block_arguments bl \<Longrightarrow> wf_blocks bl"
  by (cases bl) (auto simp: block_arguments_def wf_blocks_def wf_block_element_def list_all_iff)

lemma secure_read_payload_fits:
  "1 \<le> length bs \<Longrightarrow> length bs \<le> 14 \<Longrightarrow> \<forall>b \<in> set bs. length b = 16 \<Longrightarrow>
     \<exists>p. to_secure_payload (RespRead 0 0 (Some bs)) = Inr p \<and> length p \<le> 232"
  "sf1 \<noteq> 0 \<Longrightarrow> \<exists>p. to_secure_payload (RespRead sf1 sf2 None) = Inr p \<and> length p \<le> 232"
  "\<exists>p. to_secure_payload (RespWrite sf1 sf2) = Inr p \<and> length p \<le> 232"
  by (cases bs; simp add: secure_read_payload_def success_part_def for_success_def ensure_omitted_on_error_def
      blocks_result_def ensure_count_in_range_def push_count_def secure_status_only_def status_flags_def)+

lemma counted_list_fits:
  assumes "block_arguments bl"
  obtains bs where "extend_counted_block_list bl = Inr bs" and "length bs \<le> 1 + 3 * length bl"
proof -
  have "length (pack b) \<le> 3" for b by (simp add: pack_def Let_def)
  then have "length (concat (map pack bl)) \<le> 3 * length bl" by (induction bl) (auto intro: add_mono)
  then show thesis using assms
    by (intro that) (auto simp: block_arguments_def extend_counted_block_list_def extend_block_list_def push_count_def)
qed

lemma secure_read_answered:
  assumes "crypto_ok C" and "synchronised h i s x" and "unat (ss_transaction_number s) < 0xFFFE"
    and "block_arguments bl"
    and "handle_secure_read (em_systems (fs_device h) ! i) (em_store (fs_device h)) (ss_service_codes s) bl
      = Inr (RespRead sf1 sf2 result)"
    and "to_secure_payload (RespRead sf1 sf2 result) = Inr rp" and "length rp \<le> 232" and "wf_blocks_read result"
  shows "read (card_environment C A r2) bl h =
    (if sf1 \<noteq> 0 then Inl (status_error ''Read'' sf1 sf2)
     else bindE (ok_or result (Protocol ''Read missing result payload'')) (\<lambda>blocks.
       if length blocks \<noteq> length bl then Inl (Protocol ''encrypted read response block count mismatch'')
       else Inr blocks),
     advanced h i s x (em_store (fs_device h)))"
proof -
  obtain p where p: "extend_counted_block_list bl = Inr p" "length p \<le> 1 + 3 * length bl"
    by (rule counted_list_fits [OF assms(4)])
  have room: "length p \<le> 232" using p(2) assms(4) by (auto simp: block_arguments_def)
  have exec: "execute_command (card_environment C A r2) label (CmdRead bl) t h
      = (Inr (RespRead sf1 sf2 result), advanced h i s x (em_store (fs_device h)))" for label t
    by (rule secure_exchange [OF assms(1-3) _ _ _ room _ assms(6,7)])
      (use block_arguments_wf [OF assms(4)] p(1) assms(5,8) in \<open>simp_all add: secure_command_response_def\<close>)
  show ?thesis
    using assms(4)
    by (simp add: read_def block_arguments_def MAX_SECURE_READ_BLOCK_COUNT_eq Suc_le_eq bindH_Inr exec)
qed

lemma secure_read_direct:
  assumes "crypto_ok C" and "synchronised h i s x" and "unat (ss_transaction_number s) < 0xFFFE"
    and "block_arguments bl"
  shows "read (card_environment C A r2) bl h =
    (access_outcome ''Read'' (read_blocks (em_systems (fs_device h) ! i) (em_store (fs_device h)) (ss_service_codes s) bl False),
     advanced h i s x (em_store (fs_device h)))"
proof -
  let ?y = "em_systems (fs_device h) ! i" and ?st = "em_store (fs_device h)"
  note answered = secure_read_answered [OF assms]
  have wf: "wf_tree ?y ?st"
    using assms(2) active_index_less by (auto simp: synchronised_def intro: wf_card_nth)
  show ?thesis
  proof (cases "read_blocks ?y ?st (ss_service_codes s) bl False")
    case (Inr bs)
    have bs: "length bs = length bl" "\<forall>b \<in> set bs. length b = 16" using read_blocks_ok [OF Inr wf] by auto
    then obtain rp where "to_secure_payload (RespRead 0 0 (Some bs)) = Inr rp" "length rp \<le> 232"
      using secure_read_payload_fits(1) [of bs] assms(4) by (auto simp: block_arguments_def Suc_le_eq)
    from answered [OF _ this] bs show ?thesis
      by (simp add: handle_secure_read_def Inr wf_blocks_read_def wf_opt_def access_outcome_def)
  next
    case (Inl e)
    then obtain sf1 sf2 where e: "e = Flags sf1 sf2" using read_blocks_no_panic by (cases e) auto
    have sf: "sf1 \<noteq> 0" using read_blocks_flags Inl e by auto
    obtain rp where "to_secure_payload (RespRead sf1 sf2 None) = Inr rp" "length rp \<le> 232"
      using secure_read_payload_fits(2) [OF sf] by blast
    from answered [OF _ this] sf show ?thesis
      by (simp add: handle_secure_read_def Inl e wf_blocks_read_def wf_opt_def access_outcome_def)
  qed
qed

lemma secure_write_answered:
  assumes "crypto_ok C" and "synchronised h i s x" and "unat (ss_transaction_number s) < 0xFFFE"
    and "block_arguments bl" and "length data = 16 * length bl" and "length bl \<le> 12"
    and "handle_secure_write (em_systems (fs_device h) ! i) (em_store (fs_device h)) (ss_service_codes s) bl data
      = Inr (RespWrite sf1 sf2, st)"
  shows "write_blocks (card_environment C A r2) bl data h
    = (check_status_flags ''Write'' sf1 sf2, advanced h i s x st)"
proof -
  obtain p where p: "extend_counted_block_list bl = Inr p" "length p \<le> 1 + 3 * length bl"
    by (rule counted_list_fits [OF assms(4)])
  obtain rp where rp: "to_secure_payload (RespWrite sf1 sf2) = Inr rp" "length rp \<le> 232"
    using secure_read_payload_fits(3) by blast
  have room: "length (p @ data) \<le> 232" using p(2) assms(5,6) by simp
  have exec: "execute_command (card_environment C A r2) label (CmdWrite bl data) t h
      = (Inr (RespWrite sf1 sf2), advanced h i s x st)" for label t
    by (rule secure_exchange [OF assms(1-3) _ _ _ room _ rp])
      (use block_arguments_wf [OF assms(4)] p(1) assms(5,7) in \<open>simp_all add: secure_command_response_def\<close>)
  show ?thesis
    using assms(4,5)
    by (simp add: write_blocks_def block_arguments_def Suc_le_eq ensure_block_data_length_def bindH_Inr exec)
qed

lemma secure_write_direct:
  assumes "crypto_ok C" and "synchronised h i s x" and "unat (ss_transaction_number s) < 0xFFFE"
    and "block_arguments bl" and "length data = 16 * length bl" and "length bl \<le> 12"
  shows "write_blocks (card_environment C A r2) bl data h =
    (case apply_block_writes (em_systems (fs_device h) ! i) (em_store (fs_device h)) (ss_service_codes s) bl data False of
       Inr st \<Rightarrow> (Inr (), advanced h i s x st)
     | Inl e \<Rightarrow> (access_outcome ''Write'' (Inl e), advanced h i s x (em_store (fs_device h))))"
proof -
  let ?y = "em_systems (fs_device h) ! i" and ?st = "em_store (fs_device h)"
  note answered = secure_write_answered [OF assms]
  have wf: "wf_tree ?y ?st"
    using assms(2) active_index_less by (auto simp: synchronised_def intro: wf_card_nth)
  show ?thesis
  proof (cases "apply_block_writes ?y ?st (ss_service_codes s) bl data False")
    case (Inr st)
    from answered [of 0 0 st] assms(5) Inr show ?thesis
      by (simp add: handle_secure_write_def check_status_flags_def)
  next
    case (Inl e)
    then obtain sf1 sf2 where e: "e = Flags sf1 sf2"
      using apply_block_writes_no_panic [OF wf, of bl data "ss_service_codes s" False] assms(5) by (cases e) auto
    have sf: "sf1 \<noteq> 0" "sf2 \<noteq> 0x71" using apply_block_writes_flags Inl e by auto
    from answered [of sf1 sf2 ?st] assms(5) Inl e sf show ?thesis
      by (simp add: handle_secure_write_def check_status_flags_def access_outcome_def)
  qed
qed

section \<open>A whole session\<close>

datatype access = ReadAccess "block_list_element list" | WriteAccess "block_list_element list" bytes

text \<open>The accesses through the API, and on the file system of the card.\<close>

fun api_access :: "'d environment \<Rightarrow> access \<Rightarrow> ('d, bytes list) host_op" where
  "api_access E (ReadAccess bl) = read E bl"
| "api_access E (WriteAccess bl data) = bindH (write_blocks E bl data) (\<lambda>_. liftH (Inr []))"

fun api_accesses ::
    "'d environment \<Rightarrow> access list \<Rightarrow> 'd felica_standard \<Rightarrow> (felica_error + bytes list) list \<times> 'd felica_standard" where
  "api_accesses E [] h = ([], h)"
| "api_accesses E (a # as) h = (let (r, h1) = api_access E a h; (rs, h2) = api_accesses E as h1 in (r # rs, h2))"

fun direct_access ::
    "emulated_system \<Rightarrow> service_code list \<Rightarrow> store \<Rightarrow> access \<Rightarrow> (felica_error + bytes list) \<times> store" where
  "direct_access y codes st (ReadAccess bl) = (access_outcome ''Read'' (read_blocks y st codes bl False), st)"
| "direct_access y codes st (WriteAccess bl data) =
     (case apply_block_writes y st codes bl data False of
        Inr st' \<Rightarrow> (Inr [], st')
      | Inl e \<Rightarrow> (access_outcome ''Write'' (Inl e), st))"

fun direct_accesses ::
    "emulated_system \<Rightarrow> service_code list \<Rightarrow> store \<Rightarrow> access list \<Rightarrow> (felica_error + bytes list) list \<times> store" where
  "direct_accesses y codes st [] = ([], st)"
| "direct_accesses y codes st (a # as) =
     (let (r, st1) = direct_access y codes st a; (rs, st2) = direct_accesses y codes st1 as in (r # rs, st2))"

fun access_ok :: "access \<Rightarrow> bool" where
  "access_ok (ReadAccess bl) \<longleftrightarrow> block_arguments bl"
| "access_ok (WriteAccess bl data) \<longleftrightarrow> block_arguments bl \<and> length bl \<le> 12 \<and> length data = 16 * length bl"

lemma find_service_session [simp]: "sys_find_service (y\<lparr>sys_session := z\<rparr>) = sys_find_service y"
  by (rule ext) (simp add: sys_find_service_def)

lemma validate_session [simp]: "validate_block_element (y\<lparr>sys_session := z\<rparr>) = validate_block_element y"
  unfolding fun_eq_iff validate_block_element_def find_service_session by blast

lemma access_session:
  "read_blocks (y\<lparr>sys_session := z\<rparr>) = read_blocks y"
  "apply_block_writes (y\<lparr>sys_session := z\<rparr>) = apply_block_writes y"
proof -
  have "read_block (y\<lparr>sys_session := z\<rparr>) = read_block y"
    by (intro ext) (simp add: read_block_def validate_read_block_def)
  then show "read_blocks (y\<lparr>sys_session := z\<rparr>) = read_blocks y"
    by (intro ext) (simp add: read_blocks_def)
  have "plan_write (y\<lparr>sys_session := z\<rparr>) = plan_write y" "stage (y\<lparr>sys_session := z\<rparr>) = stage y"
    by (intro ext, simp add: plan_write_def, intro ext, simp add: stage_def)
  then show "apply_block_writes (y\<lparr>sys_session := z\<rparr>) = apply_block_writes y"
    by (intro ext) (simp add: apply_block_writes_def)
qed

lemma direct_accesses_session: "direct_accesses (y\<lparr>sys_session := z\<rparr>) codes st as = direct_accesses y codes st as"
proof -
  have "direct_access (y\<lparr>sys_session := z\<rparr>) codes st a = direct_access y codes st a" for st a
    by (cases a) (simp_all add: access_session)
  then show ?thesis by (induction as arbitrary: st) (simp_all split: prod.split)
qed

lemma wf_card_written:
  assumes "wf_card em" and "i < length (em_systems em)"
    and "apply_block_writes (em_systems em ! i) (em_store em) codes bl data raf = Inr st"
  shows "wf_card (em\<lparr>em_store := st\<rparr>)"
  using write_effect(1) [OF wf_card_nth [OF assms(1,2)] assms(3)] same_shape_wf_tree assms(1)
  by (auto simp: wf_card_def)

lemma one_access:
  assumes "crypto_ok C" and "synchronised h i s x" and "unat (ss_transaction_number s) < 0xFFFE" and "access_ok a"
  obtains r st where
    "direct_access (em_systems (fs_device h) ! i) (ss_service_codes s) (em_store (fs_device h)) a = (r, st)"
    and "api_access (card_environment C A r2) a h = (r, advanced h i s x st)"
    and "wf_card ((fs_device h)\<lparr>em_store := st\<rparr>)"
proof (cases a)
  case (ReadAccess bl)
  then show thesis
    using that secure_read_direct [OF assms(1-3)] assms(2,4) by (simp add: synchronised_def)
next
  case (WriteAccess bl data)
  have i: "i < length (em_systems (fs_device h))" and wf: "wf_card (fs_device h)"
    using assms(2) active_index_less by (auto simp: synchronised_def)
  have w: "write_blocks (card_environment C A r2) bl data h =
    (case apply_block_writes (em_systems (fs_device h) ! i) (em_store (fs_device h)) (ss_service_codes s) bl data False of
       Inr st \<Rightarrow> (Inr (), advanced h i s x st)
     | Inl e \<Rightarrow> (access_outcome ''Write'' (Inl e), advanced h i s x (em_store (fs_device h))))"
    using secure_write_direct [OF assms(1-3)] assms(4) WriteAccess by simp
  show thesis
  proof (cases "apply_block_writes (em_systems (fs_device h) ! i) (em_store (fs_device h)) (ss_service_codes s) bl data False")
    case (Inl e)
    then show thesis using that w WriteAccess wf
      by (simp add: bindH_def access_outcome_def split: access_error.splits)
  next
    case (Inr st)
    then show thesis using that w WriteAccess wf_card_written [OF wf i Inr] by (simp add: bindH_def)
  qed
qed

text \<open>
  C5. A session is direct access to the card: for reader and card in the same session and any list of reads
  and writes that the transaction numbers suffice for, the API returns one by one the results that the
  accesses have on the card's file system with the services of the session, the card's store ends up as
  they leave it, and both sides are still in the same session, with the number advanced by two for each.
\<close>

theorem session_is_direct_access:
  assumes "crypto_ok C" and "synchronised h i s x" and "\<forall>a \<in> set as. access_ok a"
    and "unat (ss_transaction_number s) + 2 * length as \<le> 0xFFFF"
    and "direct_accesses (em_systems (fs_device h) ! i) (ss_service_codes s) (em_store (fs_device h)) as = (rs, st)"
  shows "\<exists>h' s' x'. api_accesses (card_environment C A r2) as h = (rs, h') \<and> em_store (fs_device h') = st
    \<and> synchronised h' i s' x' \<and> unat (ss_transaction_number s') = unat (ss_transaction_number s) + 2 * length as"
  using assms(2-)
proof (induction as arbitrary: h s x rs)
  case Nil
  then show ?case by auto
next
  case (Cons a as)
  let ?y = "em_systems (fs_device h) ! i"
  let ?s = "s\<lparr>ss_transaction_number := ss_transaction_number s + 2\<rparr>"
  have room: "unat (ss_transaction_number s) < 0xFFFE" using Cons.prems(3) by simp
  have n: "unat (ss_transaction_number s + 2) = unat (ss_transaction_number s) + 2"
    using room by (simp add: unat_word_ariths)
  have "access_ok a" using Cons.prems(2) by simp
  then obtain r st1 where d: "direct_access ?y (ss_service_codes s) (em_store (fs_device h)) a = (r, st1)"
    and api: "api_access (card_environment C A r2) a h = (r, advanced h i s x st1)"
    and wf: "wf_card ((fs_device h)\<lparr>em_store := st1\<rparr>)"
    by (rule one_access [OF assms(1) Cons.prems(1) room])
  let ?h = "advanced h i s x st1"
  obtain rs' where rs: "rs = r # rs'" "direct_accesses ?y (ss_service_codes s) st1 as = (rs', st)"
    using Cons.prems(4) d by (auto simp: Let_def split: prod.splits)
  have sync: "synchronised ?h i ?s (x\<lparr>ax_transaction_number := ss_transaction_number s + 2\<rparr>)"
    by (rule synchronised_advanced [OF Cons.prems(1) wf refl])
  have i: "i < length (em_systems (fs_device h))"
    using Cons.prems(1) active_index_less by (auto simp: synchronised_def)
  have dev: "em_store (fs_device ?h) = st1" "em_systems (fs_device ?h) ! i = ?y\<lparr>sys_session := Some ?s\<rparr>"
    using i by (simp_all add: advanced_def Let_def update_system_def)
  have "direct_accesses (em_systems (fs_device ?h) ! i) (ss_service_codes ?s) (em_store (fs_device ?h)) as = (rs', st)"
    using rs(2) by (simp add: dev direct_accesses_session)
  moreover have "unat (ss_transaction_number ?s) + 2 * length as \<le> 0xFFFF"
    using n Cons.prems(3) by simp
  moreover have "\<forall>a \<in> set as. access_ok a" using Cons.prems(2) by simp
  ultimately obtain h' s' x' where "api_accesses (card_environment C A r2) as ?h = (rs', h')"
      "em_store (fs_device h') = st" "synchronised h' i s' x'"
      "unat (ss_transaction_number s') = unat (ss_transaction_number ?s) + 2 * length as"
    using Cons.IH [OF sync] by blast
  then show ?case using api rs(1) n by auto
qed

section \<open>Opening a session\<close>

lemma bindH_put_context: "bindH (put_context x) f h = f () (h\<lparr>fs_authenticated_context := Some x\<rparr>)"
  by (simp add: bindH_def put_context_def)

text \<open>What a reader needs to authenticate against a system.\<close>

definition authenticates ::
    "crypto \<Rightarrow> emulated_system \<Rightarrow> u16 list \<Rightarrow> service_code list \<Rightarrow> bytes \<Rightarrow> bytes \<Rightarrow> bool" where
  "authenticates C y areas services g u \<longleftrightarrow>
     areas \<noteq> [] \<and> length areas \<le> MAX_SERVICE_CODES \<and> length services \<le> MAX_SERVICE_CODES
     \<and> area_list_well_formed y areas \<and> service_list_well_formed y (map code_raw services)
     \<and> list_keys C y areas (map code_raw services) = Some (g, u) \<and> length g = 8 \<and> length u = 8
     \<and> length (sys_idi y) = 8 \<and> length (sys_pmi y) = 8"

lemma system_index_settled:
  assumes "system_index_for_idm em idm req = (Some i, em')"
  shows "em_active em' = Some (sys_code (em_systems em' ! i))"
    and "position (\<lambda>y. sys_idm y = idm) (em_systems em') = Some i"
    and "i < length (em_systems em')"
    and "map sys_code (em_systems em') = map sys_code (em_systems em)"
    and "em_store em' = em_store em"
proof -
  obtain p where p: "position (\<lambda>y. sys_idm y = idm) (em_systems em) = Some i" "i < length (em_systems em)"
    using assms by (auto simp: system_index_for_idm_def Let_def split: option.splits if_splits dest: position_Some)
  consider "em' = em" "em_active em = Some (sys_code (em_systems em ! i))"
    | "em' = (update_system em i (reset_mode (em_systems em ! i)))\<lparr>em_active := Some (sys_code (em_systems em ! i))\<rparr>"
    using assms p by (auto simp: system_index_for_idm_def Let_def split: option.splits if_splits)
  then have "em_active em' = Some (sys_code (em_systems em' ! i))
    \<and> map sys_code (em_systems em') = map sys_code (em_systems em)
    \<and> map sys_idm (em_systems em') = map sys_idm (em_systems em)
    \<and> em_store em' = em_store em"
    using p(2) by cases (simp_all add: update_system_def reset_mode_def map_update_same)
  then show "em_active em' = Some (sys_code (em_systems em' ! i))"
    and "position (\<lambda>y. sys_idm y = idm) (em_systems em') = Some i" and "i < length (em_systems em')"
    and "map sys_code (em_systems em') = map sys_code (em_systems em)" and "em_store em' = em_store em"
    using p by (simp_all add: position_by [of sys_idm]) (metis length_map)
qed

lemma system_index_again:
  assumes "system_index_for_idm em idm req = (Some i, em')"
    and "sys_code y = sys_code (em_systems em' ! i)" and "sys_idm y = sys_idm (em_systems em' ! i)"
    and "mode_permits (sys_mode y) req'"
  shows "system_index_for_idm (update_system em' i y) idm req' = (Some i, update_system em' i y)"
proof -
  note s = system_index_settled [OF assms(1)]
  have "position (\<lambda>z. sys_idm z = idm) ((em_systems em')[i := y]) = Some i"
    using s(2,3) assms(3) by (simp add: position_by [of sys_idm] map_update_same)
  then show ?thesis using s(1,3) assms(2,4)
    by (simp add: system_index_for_idm_def update_system_def Let_def)
qed

lemma position_distinct: "distinct xs \<Longrightarrow> i < length xs \<Longrightarrow> position (\<lambda>z. z = xs ! i) xs = Some i"
  by (induction xs arbitrary: i) (auto simp: nth_Cons split: nat.splits)

lemma settled_active_index:
  assumes "system_index_for_idm em idm req = (Some i, em')" and "distinct (system_codes em)"
    and "sys_code y = sys_code (em_systems em' ! i)"
  shows "active_index (update_system em' i y) = Some i"
proof -
  note s = system_index_settled [OF assms(1)]
  have codes: "map sys_code ((em_systems em')[i := y]) = map sys_code (em_systems em')"
    using s(3) assms(3) by (rule map_update_same)
  have d: "distinct (map sys_code (em_systems em'))" using assms(2) s(4) by (simp add: system_codes_def)
  show ?thesis using s(1,3) position_distinct [OF d, of i]
    by (simp add: active_index_codes update_system_def codes Let_def)
qed

lemma authentication1_api:
  assumes "crypto_ok C" and "length (t3_idm (fs_polling_result h)) = 8" and "idm = t3_idm (fs_polling_result h)"
    and "system_index_for_idm (fs_device h) idm AnyMode = (Some i, em)" and "y = em_systems em ! i"
    and "authenticates C y areas services g u" and "length r1 = 8" and "length r2 = 8"
    and "x = authentication_context_new C idm g u"
  shows "authentication1 (card_environment C A r2) areas services (encrypt_challenge1a C x r1) h =
    (Inr (encrypt_challenge1b C x r1, encrypt_challenge2a C x r2),
     h\<lparr>fs_device := update_system em i (y\<lparr>sys_pending := Some \<lparr>pa_context = x, pa_random_1 = r1, pa_random_2 = r2,
          pa_service_codes = services\<rparr>, sys_session := None, sys_mode := Mode1\<rparr>)\<rparr>)"
proof -
  have idm: "length idm = 8" using assms(2,3) by simp
  have a: "areas \<noteq> []" "length areas \<le> 32" "length services \<le> 32" "length g = 8" "length u = 8"
    and lists: "area_list_well_formed y areas" "service_list_well_formed y (map code_raw services)"
      "list_keys C y areas (map code_raw services) = Some (g, u)"
    using assms(6) by (auto simp: authenticates_def)
  note ch = challenges_opened [OF assms(1) idm a(4,5) assms(9,7,8)]
  let ?c = "CmdAuthentication1 idm areas (map code_raw services) (encrypt_challenge1a C x r1)"
  let ?r = "RespAuthentication1 idm (encrypt_challenge1b C x r1) (encrypt_challenge2a C x r2)"
  have enc: "\<exists>f. encoding ?c = Inr (Plain f)"
    using a idm ch(2) by (simp add: plain_def frame_with_length_prefix_def extend_u16_list_le_def u16_to_le_def
        length_concat comp_def sum_list_triv)
  then obtain f where f: "encoding ?c = Inr (Plain f)" by blast
  have wc: "wf_command ?c" using a idm ch(2) by (simp add: count_in_def)
  have raw: "map ServiceCode (map code_raw services) = services" by (simp add: comp_def)
  obtain rf where rf: "encode_response_frame ?r = Inr (Some rf)"
      "handle_authentication1 C r2 y idm areas (map code_raw services) (encrypt_challenge1a C x r1) = Inr (Some rf,
        y\<lparr>sys_pending := Some \<lparr>pa_context = x, pa_random_1 = r1, pa_random_2 = r2,
          pa_service_codes = services\<rparr>, sys_session := None, sys_mode := Mode1\<rparr>)"
    using authentication1_answered [OF assms(1) idm assms(7,8) lists a(4,5) assms(9)] encode_authentication1 [OF idm ch(3,4)]
    unfolding raw by auto
  have h: "handle_command C r2 (fs_device h) ?c = Inr (Some rf, update_system em i (y\<lparr>sys_pending := Some \<lparr>pa_context = x, pa_random_1 = r1, pa_random_2 = r2,
          pa_service_codes = services\<rparr>, sys_session := None, sys_mode := Mode1\<rparr>))"
    by (simp add: handle_command_def with_system_def assms(4) assms(5) [symmetric] rf(2))
  have wr: "wf_response ?r" using idm ch(3,4) by simp
  note exec = card_plain_exchange [OF f wc h rf(1) [unfolded encode_response_frame_Some] wr]
  show ?thesis
    using a(2,3) exec by (simp add: authentication1_def with_reader_idm [OF assms(2)] assms(3) [symmetric] guardE_def bindH_Inr)
qed

lemma authentication2_api:
  assumes "crypto_ok C" and "length (t3_idm (fs_polling_result h)) = 8" and "idm = t3_idm (fs_polling_result h)"
    and "system_index_for_idm (fs_device h) idm AuthenticationStarted = (Some i, fs_device h)"
    and "y = em_systems (fs_device h) ! i" and "sys_pending y = Some p" and "sys_session y = None"
    and "length (sys_idi y) = 8" and "length (sys_pmi y) = 8"
    and "length (pa_random_1 p) = 8" and "length (pa_random_2 p) = 8"
    and "ch = encrypt_challenge2b C (pa_context p) (pa_random_2 p)" and "length ch = 8"
  shows "\<exists>e. authentication2 (card_environment C A r2) ch h = (Inr e, h\<lparr>fs_device := update_system (fs_device h) i
        (y\<lparr>sys_session := Some \<lparr>ss_transaction_number = 0, ss_transaction_id = take 6 (drop 2 (pa_random_1 p)),
            ss_transaction_key = pa_random_2 p, ss_service_codes = pa_service_codes p\<rparr>, sys_mode := Mode2\<rparr>)\<rparr>)
    \<and> auth2_decrypt_payload C e (pa_random_2 p)
      = Inr (u16_to_le 0 @ take 6 (drop 2 (pa_random_1 p)) @ sys_idi y @ sys_pmi y)"
proof -
  let ?tid = "take 6 (drop 2 (pa_random_1 p))"
  have tid: "length ?tid = 6" using assms(10) by simp
  obtain e where e: "encrypt_authentication2_payload C (build_authentication2_payload 0 ?tid (sys_idi y) (sys_pmi y))
      (pa_random_2 p) = Some e" "length e = 32"
    using authentication2_sealed [OF assms(1,11) tid assms(8,9)] by blast
  let ?c = "CmdAuthentication2 idm ch"
  let ?y = "y\<lparr>sys_session := Some \<lparr>ss_transaction_number = 0, ss_transaction_id = ?tid,
    ss_transaction_key = pa_random_2 p, ss_service_codes = pa_service_codes p\<rparr>, sys_mode := Mode2\<rparr>"
  obtain f where f: "encoding ?c = Inr (Plain f)"
    using assms(2,3,13) by (simp add: plain_def frame_with_length_prefix_def)
  have wc: "wf_command ?c" using assms(2,3,13) by simp
  obtain rf where rf: "encode_response_frame (RespAuthentication2 e) = Inr (Some rf)"
      "handle_authentication2 C y ch = Inr (Some rf, ?y)"
    using authentication2_accepted [OF assms(6,7) e(2,1)] encode_authentication2 [OF e(2)] assms(12) by auto
  have hc: "handle_command C r2 (fs_device h) ?c = Inr (Some rf, update_system (fs_device h) i ?y)"
    by (simp add: handle_command_def with_system_def assms(4) assms(5) [symmetric] rf(2))
  note exec = card_plain_exchange [OF f wc hc rf(1) [unfolded encode_response_frame_Some]]
  have "authentication2 (card_environment C A r2) ch h = (Inr e, h\<lparr>fs_device := update_system (fs_device h) i ?y\<rparr>)"
    using exec by (simp add: authentication2_def with_reader_idm [OF assms(2)] assms(3) [symmetric] bindH_Inr)
  then show ?thesis using authentication2_opened [OF assms(1,11) tid assms(8,9) e(1)] by blast
qed

lemma session_opened:
  assumes "crypto_ok C" and "wf_card (fs_device h)" and "distinct (system_codes (fs_device h))"
    and "length (t3_idm (fs_polling_result h)) = 8"
    and "system_index_for_idm (fs_device h) (t3_idm (fs_polling_result h)) AnyMode = (Some i, em)"
    and "authenticates C (em_systems em ! i) areas services g u" and "length r1 = 8" and "length r2 = 8"
  shows "\<exists>h' s x. mutual_authentication (card_environment C A r2) r1 areas services g u h =
      (Inr \<lparr>issue_id = sys_idi (em_systems em ! i), issue_parameter = sys_pmi (em_systems em ! i)\<rparr>, h')
    \<and> synchronised h' i s x \<and> ss_transaction_number s = 0 \<and> ss_service_codes s = services
    \<and> em_store (fs_device h') = em_store (fs_device h)"
proof -
  let ?E = "card_environment C A r2" and ?idm = "t3_idm (fs_polling_result h)" and ?y = "em_systems em ! i"
  define x where "x = authentication_context_new C ?idm g u"
  let ?tid = "take 6 (drop 2 r1)"
  let ?p = "\<lparr>pa_context = x, pa_random_1 = r1, pa_random_2 = r2, pa_service_codes = services\<rparr>"
  define y1 where "y1 = ?y\<lparr>sys_pending := Some ?p, sys_session := None, sys_mode := Mode1\<rparr>"
  define s where "s = \<lparr>ss_transaction_number = 0, ss_transaction_id = ?tid, ss_transaction_key = r2, ss_service_codes = services\<rparr>"
  define y2 where "y2 = y1\<lparr>sys_session := Some s, sys_mode := Mode2\<rparr>"
  define h1 where "h1 = h\<lparr>fs_device := update_system em i y1\<rparr>"
  define h2 where "h2 = h1\<lparr>fs_device := update_system (fs_device h1) i y2\<rparr>"
  define ax where "ax = with_nodes (authenticated_context_new 0 ?tid (CredDes r2)) (map code_raw services)"
  note settled = system_index_settled [OF assms(5)]
  have keys: "length g = 8" "length u = 8" "length (sys_idi ?y) = 8" "length (sys_pmi ?y) = 8" "areas \<noteq> []"
    using assms(6) by (auto simp: authenticates_def)
  note ch = challenges_opened [OF assms(1,4) keys(1,2) x_def assms(7,8)]
  have a1: "authentication1 ?E areas services (encrypt_challenge1a C x r1) h
      = (Inr (encrypt_challenge1b C x r1, encrypt_challenge2a C x r2), h1)"
    unfolding h1_def y1_def by (rule authentication1_api [OF assms(1,4) refl assms(5) refl assms(6-8) x_def])
  have y: "em_systems (fs_device h1) ! i = y1" "i < length (em_systems (fs_device h1))"
    using settled(3) by (simp_all add: h1_def update_system_def)
  have again: "system_index_for_idm (fs_device h1) ?idm AuthenticationStarted = (Some i, fs_device h1)"
    using system_index_again [OF assms(5), of y1] by (simp add: h1_def y1_def)
  have pr: "fs_polling_result h1 = fs_polling_result h" by (simp add: h1_def)
  have idm: "length (t3_idm (fs_polling_result h1)) = 8" "?idm = t3_idm (fs_polling_result h1)"
    unfolding pr using assms(4) by simp_all
  have y1: "sys_pending y1 = Some ?p" "sys_session y1 = None" "length (sys_idi y1) = 8" "length (sys_pmi y1) = 8"
    using keys(3,4) by (simp_all add: y1_def)
  have r: "length (pa_random_1 ?p) = 8" "length (pa_random_2 ?p) = 8" using assms(7,8) by simp_all
  obtain e where a2: "authentication2 ?E (encrypt_challenge2b C x r2) h1 = (Inr e, h2)"
    and opened: "auth2_decrypt_payload C e r2 = Inr (u16_to_le 0 @ ?tid @ sys_idi ?y @ sys_pmi ?y)"
    using authentication2_api [OF assms(1) idm again y(1) [symmetric] y1 r, of "encrypt_challenge2b C x r2" A r2] ch(5)
    by (auto simp: h2_def y2_def s_def y1_def)
  define h3 where "h3 = h2\<lparr>fs_authenticated_context := Some ax\<rparr>"
  have run: "mutual_authentication ?E r1 areas services g u h = (Inr \<lparr>issue_id = sys_idi ?y, issue_parameter = sys_pmi ?y\<rparr>, h3)"
    using keys(3-5) assms(4,7) ch(1)
    by (simp add: mutual_authentication_def guardE_def with_reader_idm bindH_Inr a1 a2 opened x_def [symmetric]
        bindH_put_context u16_to_le_def u16_from_le_def h3_def ax_def Let_def)
  have dev: "fs_device h3 = update_system em i y2"
    by (simp add: h3_def h2_def h1_def update_system_def)
  have wf: "wf_card em" using system_index_for_idm_card [OF assms(5,2)] by blast
  then have "wf_tree y2 (em_store em)" using wf_card_nth [OF wf settled(3)] by (simp add: y2_def y1_def wf_tree_def)
  then have "wf_card (fs_device h3)" using wf
    by (auto simp: dev wf_card_def update_system_def dest!: set_update_subset_insert [THEN subsetD])
  moreover have "active_index (fs_device h3) = Some i"
    unfolding dev by (rule settled_active_index [OF assms(5,3)]) (simp add: y2_def y1_def)
  moreover have "em_systems (fs_device h3) ! i = y2" using settled(3) by (simp add: dev update_system_def)
  ultimately have "synchronised h3 i s ax"
    using assms(7,8)
    by (simp add: synchronised_def y2_def s_def h3_def ax_def with_nodes_def authenticated_context_new_def)
  then show ?thesis using run settled(5) dev by (auto simp: s_def update_system_def)
qed

text \<open>
  C6. Mutual authentication puts reader and card into the same session: against a card with one system per
  code, a reader that holds the keys of the lists gets the card's issue ID and issue parameter, and the
  two sides agree on key, transaction ID and transaction number; the session names exactly the
  services of the reader's list, and no data of the card has changed.
\<close>

theorem mutual_authentication_synchronises:
  assumes "crypto_ok C" and "wf_card (fs_device h)" and "distinct (system_codes (fs_device h))"
    and "length (t3_idm (fs_polling_result h)) = 8"
    and "system_index_for_idm (fs_device h) (t3_idm (fs_polling_result h)) AnyMode = (Some i, em)"
    and "authenticates C (em_systems em ! i) areas services g u" and "length r1 = 8" and "length r2 = 8"
  shows "\<exists>h' s x. mutual_authentication (card_environment C A r2) r1 areas services g u h =
      (Inr \<lparr>issue_id = sys_idi (em_systems em ! i), issue_parameter = sys_pmi (em_systems em ! i)\<rparr>, h')
    \<and> synchronised h' i s x \<and> ss_transaction_number s = 0 \<and> ss_service_codes s = services
    \<and> em_store (fs_device h') = em_store (fs_device h)"
  using assms by (rule session_opened)

section \<open>Witnesses\<close>

lemma demo_index: "system_index_for_idm (fs_device demo_host) (t3_idm (fs_polling_result demo_host)) AnyMode = (Some 0, demo_card)"
proof -
  have "case system_index_for_idm demo_card [1, 2, 3, 4, 5, 6, 7, 8] AnyMode of
      (io, em) \<Rightarrow> io = Some 0 \<and> em_active em = em_active demo_card \<and> em_systems em = em_systems demo_card
        \<and> em_store em = em_store demo_card" by code_simp
  then show ?thesis
    by (cases "system_index_for_idm demo_card [1, 2, 3, 4, 5, 6, 7, 8] AnyMode") (simp add: demo_host_def)
qed

theorem mutual_authentication_synchronises_witness:
  "\<exists>h' s x. mutual_authentication (card_environment xor_cipher xor_aes demo_key) demo_random_1 [0] [ServiceCode 0x1048]
      (replicate 8 0x11) (replicate 8 0x11) demo_host
      = (Inr \<lparr>issue_id = replicate 8 0x22, issue_parameter = replicate 8 0x33\<rparr>, h')
    \<and> synchronised h' 0 s x \<and> ss_service_codes s = [ServiceCode 0x1048]"
proof -
  have dev: "fs_device demo_host = demo_card" and idm: "length (t3_idm (fs_polling_result demo_host)) = 8"
    by (simp_all add: demo_host_def)
  have d: "distinct (system_codes demo_card)"
    and a: "authenticates xor_cipher (em_systems demo_card ! 0) [0] [ServiceCode 0x1048] (replicate 8 0x11) (replicate 8 0x11)"
    and l: "length demo_random_1 = 8" "length demo_key = 8"
    and i: "sys_idi (em_systems demo_card ! 0) = replicate 8 0x22" "sys_pmi (em_systems demo_card ! 0) = replicate 8 0x33"
    by code_simp+
  from mutual_authentication_synchronises [OF xor_cipher_ok _ _ idm demo_index a l, where A = xor_aes] dev d i demo_wf_card
  show ?thesis by auto
qed

definition demo_session_host :: "emulator felica_standard" where
  "demo_session_host = demo_host\<lparr>fs_device := demo_session, fs_authenticated_context :=
     Some \<lparr>ax_transaction_number = 0, ax_transaction_id = take 6 (drop 2 demo_random_1),
       ax_credentials = CredDes demo_key, ax_nodes = [0x1048]\<rparr>\<rparr>"

definition demo_element :: block_list_element where
  "demo_element = \<lparr>block_number_or_key_version = 0, service_code_list_index = 0, access_mode = 0\<rparr>"

lemma demo_synchronised:
  "synchronised demo_session_host 0 (the (sys_session (em_systems demo_session ! 0)))
     (the (fs_authenticated_context demo_session_host))"
proof -
  have "sys_session (em_systems demo_session ! 0) \<noteq> None"
    "wf_card demo_session" "active_index demo_session = Some 0" "sys_mode (em_systems demo_session ! 0) = Mode2"
    "ss_transaction_key (the (sys_session (em_systems demo_session ! 0))) = demo_key" "length demo_key = 8"
    "ss_transaction_id (the (sys_session (em_systems demo_session ! 0))) = take 6 (drop 2 demo_random_1)"
    "length (take 6 (drop 2 demo_random_1)) = 6"
    "ss_transaction_number (the (sys_session (em_systems demo_session ! 0))) = 0"
    by code_simp+
  then show ?thesis by (auto simp: synchronised_def demo_session_host_def)
qed

theorem session_is_direct_access_witness:
  "fst (api_accesses (card_environment xor_cipher xor_aes demo_key)
      [WriteAccess [demo_element] (replicate 16 0xEE), ReadAccess [demo_element]] demo_session_host)
    = [Inr [], Inr [replicate 16 0xEE]]"
proof -
  let ?as = "[WriteAccess [demo_element] (replicate 16 0xEE), ReadAccess [demo_element]]"
  let ?y = "em_systems demo_session ! 0" and ?s = "the (sys_session (em_systems demo_session ! 0))"
  have ok: "\<forall>a \<in> set ?as. access_ok a" by (simp add: block_arguments_def demo_element_def)
  have "ss_transaction_number ?s = 0" by code_simp
  then have room: "unat (ss_transaction_number ?s) + 2 * length ?as \<le> 0xFFFF" by simp
  have "fst (direct_accesses ?y (ss_service_codes ?s) (em_store demo_session) ?as) = [Inr [], Inr [replicate 16 0xEE]]"
    by code_simp
  then obtain st where d: "direct_accesses ?y (ss_service_codes ?s) (em_store demo_session) ?as
      = ([Inr [], Inr [replicate 16 0xEE]], st)" by (metis prod.collapse)
  have "fs_device demo_session_host = demo_session" by (simp add: demo_session_host_def)
  with session_is_direct_access [OF xor_cipher_ok demo_synchronised ok room, of _ st xor_aes demo_key] d
  show ?thesis by fastforce
qed

end
