(* ===== verification/Node_Authentication.thy ===== *)
theory Node_Authentication
  imports Keys Reader_Session
begin

text \<open>
  Authentication by node against the emulated card. The key store of the reader and the key hierarchy of
  the card are two implementations of one derivation: \<open>derive_des\<close> folds the keys it finds in a store,
  \<open>handle_authentication1\<close> those of the system's tree. The theorems say that they agree on every list the
  card accepts, and that \<open>authenticate_node\<close> therefore opens a session.
\<close>

section \<open>Classification of nodes\<close>

lemma areas_validated:
  "wf_area a \<Longrightarrow> x \<in> set (areas_of a) \<Longrightarrow> validate_area_range (ea_code x) (ea_end x) = Inr () \<and> length (ea_key x) = 8"
  "wf_children c e ch \<Longrightarrow> x \<in> set (areas_in ch) \<Longrightarrow> validate_area_range (ea_code x) (ea_end x) = Inr () \<and> length (ea_key x) = 8"
  by (induction a and c e ch rule: wf_area_wf_children.induct) auto

lemma services_validated:
  "wf_area a \<Longrightarrow> s \<in> set (services_of a) \<Longrightarrow>
     code_attribute (es_code s) \<noteq> None \<and> code_raw (es_code s) \<le> 0xFFFE \<and> length (es_key s) = 8"
  "wf_children c e ch \<Longrightarrow> s \<in> set (services_in ch) \<Longrightarrow>
     code_attribute (es_code s) \<noteq> None \<and> code_raw (es_code s) \<le> 0xFFFE \<and> length (es_key s) = 8"
  by (induction a and c e ch rule: wf_area_wf_children.induct) auto

lemma area_code_not_key_free:
  assumes "validate_area_range c e = Inr ()"
  shows "\<not> is_key_free_service (ServiceCode c)"
proof -
  have "(ucast (c AND 0x3F) :: u8) \<in> {0, 1}"
    using assms by (auto simp: validate_area_range_def bindE_eq_Inr Let_def split: if_splits)
  then have "code_attribute (ServiceCode c) = None"
    by (auto simp: code_attribute_def code_attributes_def from_attribute_bits_def Let_def)
  then show ?thesis by (simp add: is_key_free_service_def)
qed

lemma system_node_not_key_free: "\<not> is_key_free_service (ServiceCode 0xFFFF)"
  by code_simp

text \<open>The store holds the DES keys of the system: its own, those of the areas and those of the services
  that need one.\<close>

definition keys_of_system :: "resolved_node_keys \<Rightarrow> emulated_system \<Rightarrow> bool" where
  "keys_of_system rk y \<longleftrightarrow>
     get_by_algorithm rk SYSTEM_NODE_CODE AlgDes = Some (NkDes (sys_key y))
     \<and> (\<forall>code a. sys_find_area y code = Some a \<longrightarrow> get_by_algorithm rk code AlgDes = Some (NkDes (ea_key a)))
     \<and> (\<forall>code s. sys_find_service y code = Some s \<and> requires_key code \<longrightarrow>
          get_by_algorithm rk (code_raw code) AlgDes = Some (NkDes (es_key s)))"

lemma require_des_found: "get_by_algorithm rk n AlgDes = Some (NkDes k) \<Longrightarrow> require_des rk n = Inr k"
  by (simp add: require_des_def)

lemma mapE_those:
  assumes "\<forall>x \<in> set xs. \<exists>k. f x = Inr k \<and> g x = Some k"
  shows "\<exists>ks. mapE f xs = Inr ks \<and> those (map g xs) = Some ks \<and> (\<forall>k \<in> set ks. \<exists>x \<in> set xs. g x = Some k)"
  using assms by (induction xs) auto

lemma area_keys_agree:
  assumes "keys_of_system rk y" and "area_list_well_formed y areas"
  shows "\<exists>ks. mapE (require_des rk) areas = Inr ks \<and> those (map (area_key y) areas) = Some ks
    \<and> (\<forall>k \<in> set ks. \<exists>x \<in> set areas. area_key y x = Some k)"
proof (rule mapE_those, rule ballI)
  fix a assume "a \<in> set areas"
  then have "a = SYSTEM_NODE_CODE \<or> sys_find_area y a \<noteq> None"
    using assms(2) by (auto simp: area_list_well_formed_def list_all_iff split: list.splits if_splits)
  then show "\<exists>k. require_des rk a = Inr k \<and> area_key y a = Some k"
    using assms(1) by (auto simp: keys_of_system_def area_key_def require_des_found)
qed

text \<open>One entry of the service list: both sides skip it, or both use the same key.\<close>

lemma service_entry_agrees:
  assumes "wf_tree y st" and "keys_of_system rk y" and "resolve_service_list_node y (code_raw c) = Some n"
  shows "if is_key_free_service c then n = KeyFree else \<exists>k. n = Keyed k \<and> require_des rk (code_raw c) = Inr k"
proof -
  have c: "ServiceCode (code_raw c) = c" by (cases c) simp
  have wf: "wf_area (sys_root y)" using assms(1) by (simp add: wf_tree_def)
  show ?thesis
  proof (cases "code_raw c = SYSTEM_NODE_CODE")
    case True
    then have "\<not> is_key_free_service c" using system_node_not_key_free c by metis
    then show ?thesis using True assms(2,3)
      by (auto simp: resolve_service_list_node_def keys_of_system_def require_des_found)
  next
    case other: False
    show ?thesis
    proof (cases "sys_find_service y c")
      case (Some s)
      then have "code_attribute c \<noteq> None"
        using services_validated(1) [OF wf] find_service_in_tree by blast
      then have "is_key_free_service c \<longleftrightarrow> \<not> requires_key c" by (simp add: is_key_free_service_def)
      then show ?thesis using other Some assms(2,3)
        by (auto simp: resolve_service_list_node_def c keys_of_system_def require_des_found Let_def)
    next
      case None
      then obtain a where a: "sys_find_area y (code_raw c) = Some a" "n = Keyed (ea_key a)"
        using assms(3) other by (auto simp: resolve_service_list_node_def c Let_def)
      then have "a \<in> set (areas_of (sys_root y))" "ea_code a = code_raw c"
        using find_area_Some by (auto simp: sys_find_area_def)
      then have "\<not> is_key_free_service c"
        using areas_validated(1) [OF wf] area_code_not_key_free c by metis
      then show ?thesis using a assms(2) by (auto simp: keys_of_system_def require_des_found)
    qed
  qed
qed

lemma service_keys_agree:
  assumes "wf_tree y st" and "keys_of_system rk y" and "\<forall>c \<in> set cs. resolve_service_list_node y (code_raw c) \<noteq> None"
  shows "\<exists>ns. those (map (resolve_service_list_node y) (map code_raw cs)) = Some ns
    \<and> mapE (\<lambda>c. require_des rk (code_raw c)) (filter (\<lambda>c. \<not> is_key_free_service c) cs) = Inr (keyed_keys ns)"
  using assms(3)
proof (induction cs)
  case (Cons c cs)
  obtain n where n: "resolve_service_list_node y (code_raw c) = Some n" using Cons.prems by auto
  obtain ns where "those (map (resolve_service_list_node y) (map code_raw cs)) = Some ns"
    "mapE (\<lambda>c. require_des rk (code_raw c)) (filter (\<lambda>c. \<not> is_key_free_service c) cs) = Inr (keyed_keys ns)"
    using Cons by auto
  then show ?case using n service_entry_agrees [OF assms(1,2) n] by (auto split: if_splits)
qed simp

lemma service_list_resolves:
  "service_list_loop y h f raws \<Longrightarrow> (\<forall>r \<in> set raws. resolve_service_list_node y r \<noteq> None)
    \<and> (h \<or> (\<exists>r \<in> set raws. \<exists>k. resolve_service_list_node y r = Some (Keyed k)))"
  by (induction y h f raws rule: service_list_loop.induct)
    (auto split: option.splits service_list_node.splits if_splits)

lemma contributing_service:
  assumes "wf_tree y st" and "keys_of_system rk y" and "service_list_well_formed y (map code_raw services)"
  obtains c where "c \<in> set services" and "\<not> is_key_free_service c"
proof -
  obtain c k where c: "c \<in> set services" "resolve_service_list_node y (code_raw c) = Some (Keyed k)"
    using service_list_resolves [OF assms(3) [unfolded service_list_well_formed_def]] by auto
  then show thesis using that service_entry_agrees [OF assms(1,2) c(2)] by (auto split: if_splits)
qed

lemma derivation_agrees:
  assumes "wf_tree y st" and "keys_of_system rk y"
    and "area_list_well_formed y areas" and "service_list_well_formed y (map code_raw services)"
  shows "\<exists>g u. derive_des C rk areas services = Inr (AuthDes areas services g u)
    \<and> list_keys C y areas (map code_raw services) = Some (g, u)"
proof -
  obtain ks where ks: "mapE (require_des rk) areas = Inr ks" "those (map (area_key y) areas) = Some ks"
    using area_keys_agree [OF assms(2,3)] by blast
  have all: "\<forall>c \<in> set services. resolve_service_list_node y (code_raw c) \<noteq> None"
    using service_list_resolves [OF assms(4) [unfolded service_list_well_formed_def]] by simp
  obtain ns where ns: "those (map (resolve_service_list_node y) (map code_raw services)) = Some ns"
    "mapE (\<lambda>c. require_des rk (code_raw c)) (filter (\<lambda>c. \<not> is_key_free_service c) services) = Inr (keyed_keys ns)"
    using service_keys_agree [OF assms(1,2) all] by blast
  obtain c where c: "c \<in> set services" "\<not> is_key_free_service c"
    by (rule contributing_service [OF assms(1,2,4)])
  have sys: "require_des rk SYSTEM_NODE_CODE = Inr (sys_key y)"
    using assms(2) by (simp add: keys_of_system_def require_des_found)
  have "areas \<noteq> []" "list_ex (\<lambda>s. \<not> is_key_free_service s) services"
    using assms(3) c by (auto simp: area_list_well_formed_def list_ex_iff)
  then show ?thesis using ks ns sys
    by (cases "generate_service_keys_des C (sys_key y) ks (keyed_keys ns)")
      (simp add: derive_des_def list_keys_def)
qed

text \<open>
  Reader and card derive the same keys: for a store that holds the DES keys of a system, every area
  list and service list that the card accepts yields through \<open>derive_des\<close> the very pair of keys that the
  card's own derivation yields, key-free services, areas and the system node in the list included.
\<close>

theorem derived_keys_agree:
  assumes "wf_tree y st" and "keys_of_system rk y"
    and "area_list_well_formed y areas" and "service_list_well_formed y (map code_raw services)"
  shows "\<exists>g u. derive_des C rk areas services = Inr (AuthDes areas services g u)
    \<and> list_keys C y areas (map code_raw services) = Some (g, u)"
  using assms by (rule derivation_agrees)

section \<open>Opening a session by node\<close>

lemma fold_keys_length:
  assumes "crypto_ok C" and "\<forall>k \<in> set ks. length k = 8" and "length k0 = 8"
  shows "length (foldl (\<lambda>current k. encrypt_des_block C current k) k0 ks) = 8"
  using service_keys_length [OF assms(1,3)] assms(2) by blast

lemma keyed_keys_set: "k \<in> set (keyed_keys ns) \<longleftrightarrow> Keyed k \<in> set ns"
  by (induction ns rule: keyed_keys.induct) auto

lemma those_set: "those xs = Some ys \<Longrightarrow> set xs = Some ` set ys"
  by (induction xs arbitrary: ys) (auto split: option.splits)

lemma list_keys_length:
  assumes "crypto_ok C" and "wf_tree y st" and "length (sys_key y) = 8"
    and "list_keys C y areas raws = Some (g, u)"
  shows "length g = 8 \<and> length u = 8"
proof -
  obtain ks ns where k: "those (map (area_key y) areas) = Some ks" "those (map (resolve_service_list_node y) raws) = Some ns"
      "generate_service_keys_des C (sys_key y) ks (keyed_keys ns) = (g, u)"
    using assms(4) by (auto simp: list_keys_def split: option.splits)
  have wf: "wf_area (sys_root y)" using assms(2) by (simp add: wf_tree_def)
  have area: "sys_find_area y c = Some a \<Longrightarrow> length (ea_key a) = 8" for c a
    using areas_validated(1) [OF wf] find_area_Some by (auto simp: sys_find_area_def)
  have "length k = 8" if "k \<in> set ks" for k
  proof -
    have "Some k \<in> area_key y ` set areas" using those_set [OF k(1)] that by auto
    then obtain x where "area_key y x = Some k" by force
    then show ?thesis using area assms(3) by (auto simp: area_key_def split: if_splits)
  qed
  moreover have "length k = 8" if "k \<in> set (keyed_keys ns)" for k
  proof -
    have "Some (Keyed k) \<in> resolve_service_list_node y ` set raws"
      using those_set [OF k(2)] that by (auto simp: keyed_keys_set)
    then obtain r where "resolve_service_list_node y r = Some (Keyed k)" by force
    then show ?thesis using area assms(3) services_validated(1) [OF wf] find_service_in_tree
      by (fastforce simp: resolve_service_list_node_def Let_def split: if_splits option.splits)
  qed
  ultimately show ?thesis
    using k(3) assms(3) fold_keys_length [OF assms(1)]
    by (auto simp: generate_service_keys_des_def Let_def)
qed

lemma chain_is_des:
  assumes "wf_tree y st" and "keys_of_system rk y" and "\<forall>n. get_by_algorithm rk n AlgAes128 = None"
    and "service_list_well_formed y (map code_raw services)"
  shows "chain_algorithm rk areas services = Inr AlgDes"
proof -
  obtain c where c: "c \<in> set services" "\<not> is_key_free_service c"
    by (rule contributing_service [OF assms(1,2,4)])
  then obtain t where t: "List.find (\<lambda>s. \<not> is_key_free_service s) (rev services) = Some t"
    by (cases "List.find (\<lambda>s. \<not> is_key_free_service s) (rev services)") (auto simp: find_None_iff)
  then have t': "t \<in> set services" "\<not> is_key_free_service t" by (auto simp: find_Some_iff) (metis nth_mem set_rev length_rev)
  then obtain n where n: "resolve_service_list_node y (code_raw t) = Some n"
    using service_list_resolves [OF assms(4) [unfolded service_list_well_formed_def]] by auto
  then obtain k where "require_des rk (code_raw t) = Inr k"
    using service_entry_agrees [OF assms(1,2) n] t'(2) by auto
  then have "get_key rk (code_raw t) = Some (NkDes k)"
    using assms(3) by (auto simp: require_des_def get_key_def split: option.splits node_key.splits)
  then show ?thesis by (simp add: chain_algorithm_def t)
qed

text \<open>
  C7. \<open>authenticate_node\<close> opens a session: a reader whose store holds the DES keys of the system, and no
  AES keys, is authenticated by the card for every area path and service list that the card accepts, and
  both sides are then in the same session.
\<close>

theorem authenticate_node_opens_session:
  assumes "crypto_ok C" and "wf_card (fs_device h)" and "distinct (system_codes (fs_device h))"
    and "length (t3_idm (fs_polling_result h)) = 8"
    and "system_index_for_idm (fs_device h) (t3_idm (fs_polling_result h)) AnyMode = (Some i, em)"
    and "y = em_systems em ! i" and "length (sys_key y) = 8" and "length (sys_idi y) = 8" and "length (sys_pmi y) = 8"
    and "keys_of_system rk y" and "\<forall>n. get_by_algorithm rk n AlgAes128 = None"
    and "area_list_well_formed y areas" and "service_list_well_formed y (map code_raw services)"
    and "length areas \<le> 32" and "length services \<le> 32" and "length r1 = 8" and "length r2 = 8"
  shows "\<exists>h' s x. authenticate_node (card_environment C A r2) r1 rk areas services None h =
      (Inr \<lparr>issue_id = sys_idi y, issue_parameter = sys_pmi y\<rparr>, h')
    \<and> synchronised h' i s x \<and> ss_service_codes s = services"
proof -
  note settled = system_index_settled [OF assms(5)]
  have "wf_card em" using system_index_for_idm_card [OF assms(5,2)] by blast
  then have wf: "wf_tree y (em_store em)" using wf_card_nth settled(3) assms(6) by blast
  obtain g u where gu: "derive_des C rk areas services = Inr (AuthDes areas services g u)"
      "list_keys C y areas (map code_raw services) = Some (g, u)"
    using derivation_agrees [OF wf assms(10,12,13)] by blast
  have len: "length g = 8 \<and> length u = 8" by (rule list_keys_length [OF assms(1) wf assms(7) gu(2)])
  have "areas \<noteq> []" using assms(12) by (auto simp: area_list_well_formed_def)
  then have auth: "authenticates C (em_systems em ! i) areas services g u"
    using assms(6-15) gu(2) len by (simp add: authenticates_def)
  have "derive_auth_keys C A rk areas services None = Inr (AuthDes areas services g u)"
    using chain_is_des [OF wf assms(10,11,13)] gu(1) by (simp add: derive_auth_keys_def)
  then have "authenticate_node (card_environment C A r2) r1 rk areas services None h
      = mutual_authentication (card_environment C A r2) r1 areas services g u h"
    by (simp add: authenticate_node_def)
  then show ?thesis
    using session_opened [OF assms(1-5) auth assms(16,17)] assms(6) by fastforce
qed

section \<open>Witnesses\<close>

lemma keys_of_systemI:
  assumes "get_by_algorithm rk SYSTEM_NODE_CODE AlgDes = Some (NkDes (sys_key y))"
    and "list_all (\<lambda>a. get_by_algorithm rk (ea_code a) AlgDes = Some (NkDes (ea_key a))) (areas_of (sys_root y))"
    and "list_all (\<lambda>s. requires_key (es_code s) \<longrightarrow>
      get_by_algorithm rk (code_raw (es_code s)) AlgDes = Some (NkDes (es_key s))) (services_of (sys_root y))"
  shows "keys_of_system rk y"
  using assms find_area_Some find_service_Some
  by (fastforce simp: keys_of_system_def sys_find_area_def sys_find_service_def list_all_iff)

definition demo_keys :: resolved_node_keys where
  "demo_keys = from_keys [(0xFFFF, NkDes (replicate 8 0x11)), (0x0000, NkDes (replicate 8 0)),
     (0x1000, NkDes (replicate 8 1)), (0x1048, NkDes (replicate 8 0))]"

lemma demo_keys_of_system: "keys_of_system demo_keys demo_system"
  by (rule keys_of_systemI) code_simp+

lemma demo_keys_des: "get_by_algorithm demo_keys n AlgAes128 = None"
  by (simp add: demo_keys_def from_keys_def get_by_algorithm_def node_key_id_new_def)

theorem derived_keys_agree_witness:
  "derive_des xor_cipher demo_keys [0x0000] [ServiceCode 0x1048, ServiceCode 0x0009]
    = Inr (AuthDes [0x0000] [ServiceCode 0x1048, ServiceCode 0x0009] (replicate 8 0x11) (replicate 8 0x11))"
proof -
  have "area_list_well_formed demo_system [0x0000]"
    and "service_list_well_formed demo_system (map code_raw [ServiceCode 0x1048, ServiceCode 0x0009])"
    and "list_keys xor_cipher demo_system [0x0000] (map code_raw [ServiceCode 0x1048, ServiceCode 0x0009])
      = Some (replicate 8 0x11, replicate 8 0x11)"
    by code_simp+
  with derived_keys_agree [OF demo_wf_tree demo_keys_of_system, of "[0x0000]" "[ServiceCode 0x1048, ServiceCode 0x0009]" xor_cipher]
  show ?thesis by auto
qed

theorem authenticate_node_opens_session_witness:
  "\<exists>h' s x. authenticate_node (card_environment xor_cipher xor_aes demo_key) demo_random_1 demo_keys [0x0000]
      [ServiceCode 0x1048] None demo_host
      = (Inr \<lparr>issue_id = replicate 8 0x22, issue_parameter = replicate 8 0x33\<rparr>, h') \<and> synchronised h' 0 s x"
proof -
  have dev: "fs_device demo_host = demo_card" and idm: "length (t3_idm (fs_polling_result demo_host)) = 8"
    by (simp_all add: demo_host_def)
  have d: "distinct (system_codes demo_card)"
    and a: "area_list_well_formed demo_system [0x0000]" "service_list_well_formed demo_system (map code_raw [ServiceCode 0x1048])"
    and l: "length demo_random_1 = 8" "length demo_key = 8" "length (sys_key demo_system) = 8"
      "sys_idi demo_system = replicate 8 0x22" "sys_pmi demo_system = replicate 8 0x33"
    by code_simp+
  from authenticate_node_opens_session [OF xor_cipher_ok _ _ idm demo_index demo_tree(1) [symmetric] l(3) _ _ demo_keys_of_system _ a
      _ _ l(1,2), where A = xor_aes] dev d demo_wf_card demo_keys_des l(4,5)
  show ?thesis by auto
qed

end
