(* ===== verification/Driver_Io.thy ===== *)
theory Driver_Io
  imports Errors
begin

text \<open>
  What every reader driver shares: the transport below it (the trait \<open>Transport\<close> of
  \<open>src/transport/mod.rs\<close>), the buffered reads with a deadline and the recovery of a chipset
  (\<open>src/driver/io.rs\<close>). The transport and the clock are parameters: an operation takes the state of the
  world and returns the one it leaves; a read is given the nanoseconds that it may take. Time passes in
  the operations of the transport, and the clock is read off the world. A loop that polls the
  transport is a partial function, so a driver operation that does not return is \<open>None\<close>; the last
  section shows when the loops return. Log messages are left out.
\<close>

section \<open>Transports\<close>

record 'w transport =
  tr_write :: "bytes \<Rightarrow> 'w \<Rightarrow> (io_error + unit) \<times> 'w"
  tr_read :: "nat \<Rightarrow> 'w \<Rightarrow> (io_error + bytes) \<times> 'w"
  tr_close :: "'w \<Rightarrow> (io_error + unit) \<times> 'w"
  tr_now :: "'w \<Rightarrow> nat"
  tr_sleep :: "nat \<Rightarrow> 'w \<Rightarrow> 'w"
  manufacturer_name :: "'w \<Rightarrow> string option"
  product_name :: "'w \<Rightarrow> string option"

text \<open>The fields that each chipset has: its transport and the bytes read too early.\<close>

record 'w channel =
  ch_world :: 'w
  ch_buffer :: bytes

definition millis :: "nat \<Rightarrow> nat" where
  "millis n = n * 1000000"

section \<open>Sequencing\<close>

text \<open>
  An operation of a driver acts on the state of its chipset, also when it fails. \<open>None\<close> is an
  operation that never returns.
\<close>

type_synonym ('s, 'a) driver_op = "'s \<Rightarrow> ((driver_error + 'a) \<times> 's) option"

definition bindD :: "('s, 'a) driver_op \<Rightarrow> ('a \<Rightarrow> ('s, 'b) driver_op) \<Rightarrow> ('s, 'b) driver_op" where
  "bindD m f s =
     (case m s of None \<Rightarrow> None
      | Some (Inl e, s') \<Rightarrow> Some (Inl e, s')
      | Some (Inr x, s') \<Rightarrow> f x s')"

definition liftD :: "driver_error + 'a \<Rightarrow> ('s, 'a) driver_op" where
  "liftD r s = Some (r, s)"

definition readD :: "('s \<Rightarrow> 'a) \<Rightarrow> ('s, 'a) driver_op" where
  "readD f s = Some (Inr (f s), s)"

definition modifyD :: "('s \<Rightarrow> 's) \<Rightarrow> ('s, unit) driver_op" where
  "modifyD f s = Some (Inr (), f s)"

text \<open>A call whose result is inspected, not passed on with \<open>?\<close>.\<close>

definition tryD :: "('s, 'a) driver_op \<Rightarrow> (driver_error + 'a \<Rightarrow> ('s, 'b) driver_op) \<Rightarrow> ('s, 'b) driver_op" where
  "tryD m f s = (case m s of None \<Rightarrow> None | Some (r, s') \<Rightarrow> f r s')"

lemma liftD_simp [simp]: "liftD r s = Some (r, s)"
  by (simp add: liftD_def)

lemma readD_simp [simp]: "readD f s = Some (Inr (f s), s)"
  by (simp add: readD_def)

lemma modifyD_simp [simp]: "modifyD f s = Some (Inr (), f s)"
  by (simp add: modifyD_def)

lemma bindD_liftD [simp]: "bindD (liftD (Inr x)) f = f x" "bindD (liftD (Inl e)) f = liftD (Inl e)"
  by (rule ext, simp add: bindD_def)+

lemma bindD_readD [simp]: "bindD (readD g) f s = f (g s) s"
  by (simp add: bindD_def)

lemma bindD_modifyD [simp]: "bindD (modifyD g) f s = f () (g s)"
  by (simp add: bindD_def)

lemma bindD_Inr: "m s = Some (Inr x, s') \<Longrightarrow> bindD m f s = f x s'"
  by (simp add: bindD_def)

lemma bindD_Inl: "m s = Some (Inl e, s') \<Longrightarrow> bindD m f s = Some (Inl e, s')"
  by (simp add: bindD_def)

lemma tryD_Some: "m s = Some (r, s') \<Longrightarrow> tryD m f s = f r s'"
  by (simp add: tryD_def)

lemma bindD_eq_Inr:
  "bindD m f c = Some (Inr y, c') \<longleftrightarrow> (\<exists>x c1. m c = Some (Inr x, c1) \<and> f x c1 = Some (Inr y, c'))"
  by (auto simp: bindD_def split: option.splits prod.splits sum.splits)

text \<open>Loops may call themselves behind \<open>bindD\<close>.\<close>

lemma bindD_mono [partial_function_mono]:
  assumes "monotone option.le_fun option_ord (\<lambda>f. B f s)" and "\<And>x s'. monotone option.le_fun option_ord (\<lambda>f. C x f s')"
  shows "monotone option.le_fun option_ord (\<lambda>f. bindD (B f) (\<lambda>x. C x f) s)"
proof -
  have eq: "bindD m g s = Option.bind (m s) (\<lambda>(r, s'). case r of Inl e \<Rightarrow> Some (Inl e, s') | Inr x \<Rightarrow> g x s')" for m g s
    by (cases "m s") (auto simp: bindD_def split: sum.splits)
  show ?thesis unfolding eq
  proof (rule bind_mono [OF assms(1)])
    fix y
    show "monotone option.le_fun option_ord (\<lambda>f. case y of (r, s') \<Rightarrow> case r of Inl e \<Rightarrow> Some (Inl e, s') | Inr x \<Rightarrow> C x f s')"
      using assms(2) by (cases y, cases "fst y") (auto simp: monotone_def option.leq_refl)
  qed
qed

section \<open>Calls of the transport\<close>

text \<open>\<open>?\<close> turns an I/O error into a driver error.\<close>

definition write_transport :: "'w transport \<Rightarrow> bytes \<Rightarrow> (('w, 'z) channel_scheme, unit) driver_op" where
  "write_transport T data c =
     (let (r, w) = tr_write T data (ch_world c) in Some (map_err Io r, c\<lparr>ch_world := w\<rparr>))"

definition read_transport :: "'w transport \<Rightarrow> nat \<Rightarrow> (('w, 'z) channel_scheme, bytes) driver_op" where
  "read_transport T t c =
     (let (r, w) = tr_read T t (ch_world c) in Some (map_err Io r, c\<lparr>ch_world := w\<rparr>))"

definition close_transport :: "'w transport \<Rightarrow> (('w, 'z) channel_scheme, unit) driver_op" where
  "close_transport T c =
     (let (r, w) = tr_close T (ch_world c) in Some (map_err Io r, c\<lparr>ch_world := w\<rparr>))"

definition sleep :: "'w transport \<Rightarrow> nat \<Rightarrow> (('w, 'z) channel_scheme, unit) driver_op" where
  "sleep T t = modifyD (\<lambda>c. c\<lparr>ch_world := tr_sleep T t (ch_world c)\<rparr>)"

definition deadline_in :: "'w transport \<Rightarrow> nat \<Rightarrow> (('w, 'z) channel_scheme, nat) driver_op" where
  "deadline_in T t = readD (\<lambda>c. tr_now T (ch_world c) + t)"

section \<open>Reading with a deadline\<close>

definition remaining_until :: "'w transport \<Rightarrow> nat \<Rightarrow> 'w \<Rightarrow> nat option" where
  "remaining_until T deadline w = (if tr_now T w < deadline then Some (deadline - tr_now T w) else None)"

definition timeout_error :: io_error where
  "timeout_error = IoError TimedOut ''timeout while waiting for data''"

fun take_from_buffer :: "bytes \<Rightarrow> bytes \<Rightarrow> nat \<Rightarrow> bytes \<times> bytes" where
  "take_from_buffer [] out n = ([], out)"
| "take_from_buffer (b # buffer) out n =
     (if length out < n then take_from_buffer buffer (out @ [b]) n else (b # buffer, out))"

partial_function (option) read_exact_from ::
    "'w transport \<Rightarrow> nat \<Rightarrow> nat \<Rightarrow> bytes \<Rightarrow> (('w, 'z) channel_scheme, bytes) driver_op" where
  "read_exact_from T n deadline out c =
     (if \<not> length out < n then Some (Inr out, c)
      else
        let (buffer, out) = take_from_buffer (ch_buffer c) out n; c = c\<lparr>ch_buffer := buffer\<rparr> in
        if length out = n then Some (Inr out, c)
        else
          case remaining_until T deadline (ch_world c) of
            None \<Rightarrow> Some (Inl (Io timeout_error), c)
          | Some remaining \<Rightarrow>
              (case tr_read T remaining (ch_world c) of
                 (Inr chunk, w) \<Rightarrow>
                   read_exact_from T n deadline out (c\<lparr>ch_world := w, ch_buffer := buffer @ chunk\<rparr>)
               | (Inl e, w) \<Rightarrow>
                   Some (Inl (Io (if io_kind e = TimedOut then timeout_error else e)), c\<lparr>ch_world := w\<rparr>)))"

definition read_exact :: "'w transport \<Rightarrow> nat \<Rightarrow> nat \<Rightarrow> (('w, 'z) channel_scheme, bytes) driver_op" where
  "read_exact T n deadline = read_exact_from T n deadline []"

section \<open>Recovery\<close>

definition BUFFER_CLEAR_TIMEOUT :: nat where
  "BUFFER_CLEAR_TIMEOUT = millis 50"

partial_function (option) drain_until :: "'w transport \<Rightarrow> nat \<Rightarrow> (('w, 'z) channel_scheme, unit) driver_op" where
  "drain_until T deadline c =
     (case remaining_until T deadline (ch_world c) of
        None \<Rightarrow> Some (Inr (), c)
      | Some remaining \<Rightarrow>
          (case tr_read T remaining (ch_world c) of
             (Inr [], w) \<Rightarrow> Some (Inr (), c\<lparr>ch_world := w\<rparr>)
           | (Inr (b # chunk), w) \<Rightarrow> drain_until T deadline (c\<lparr>ch_world := w\<rparr>)
           | (Inl e, w) \<Rightarrow>
               if io_kind e = TimedOut then Some (Inr (), c\<lparr>ch_world := w\<rparr>)
               else drain_until T deadline (c\<lparr>ch_world := w\<rparr>)))"

definition drain_input :: "'w transport \<Rightarrow> nat \<Rightarrow> (('w, 'z) channel_scheme, unit) driver_op" where
  "drain_input T t =
     bindD (modifyD (\<lambda>c. c\<lparr>ch_buffer := []\<rparr>)) (\<lambda>_.
     bindD (deadline_in T t) (drain_until T))"

definition recover_after_error ::
    "'w transport \<Rightarrow> bytes \<Rightarrow> bool \<Rightarrow> (('w, 'z) channel_scheme, unit) driver_op" where
  "recover_after_error T ack drain_buffer =
     tryD (write_transport T ack) (\<lambda>_.
     bindD (if drain_buffer then drain_input T BUFFER_CLEAR_TIMEOUT else liftD (Inr ())) (\<lambda>_.
     modifyD (\<lambda>c. c\<lparr>ch_buffer := []\<rparr>)))"

text \<open>\<open>with_recovery\<close> of the chipsets: run an action and hand its result to this.\<close>

definition recover_on_error ::
    "'w transport \<Rightarrow> bytes \<Rightarrow> bool \<Rightarrow> (('w, 'z) channel_scheme, 'a) driver_op \<Rightarrow> (('w, 'z) channel_scheme, 'a) driver_op" where
  "recover_on_error T ack drain_buffer m =
     tryD m (\<lambda>r. case r of
         Inl e \<Rightarrow> bindD (recover_after_error T ack drain_buffer) (\<lambda>_. liftD (Inl e))
       | Inr x \<Rightarrow> liftD (Inr x))"

section \<open>A transport that replays a script\<close>

text \<open>
  The transport of the driver tests (\<open>DummyTransport\<close> of \<open>src/driver/testing.rs\<close>), with a clock on which
  every read takes a millisecond.
\<close>

datatype when_exhausted = ExhaustedEmpty | ExhaustedTimeout

record dummy_transport =
  dt_reads :: "(io_error + bytes) list"
  dt_writes :: "bytes list"
  dt_when_exhausted :: when_exhausted
  dt_manufacturer :: "string option"
  dt_product :: "string option"
  dt_clock :: nat

definition with_reads :: "(io_error + bytes) list \<Rightarrow> dummy_transport" where
  "with_reads rs = \<lparr>dt_reads = rs, dt_writes = [], dt_when_exhausted = ExhaustedEmpty,
     dt_manufacturer = None, dt_product = None, dt_clock = 0\<rparr>"

definition timing_out_when_exhausted :: "dummy_transport \<Rightarrow> dummy_transport" where
  "timing_out_when_exhausted w = w\<lparr>dt_when_exhausted := ExhaustedTimeout\<rparr>"

definition dummy_read :: "nat \<Rightarrow> dummy_transport \<Rightarrow> (io_error + bytes) \<times> dummy_transport" where
  "dummy_read t w =
     (let w' = w\<lparr>dt_clock := dt_clock w + millis 1\<rparr> in
      case dt_reads w of
        r # rs \<Rightarrow> (r, w'\<lparr>dt_reads := rs\<rparr>)
      | [] \<Rightarrow> (case dt_when_exhausted w of
                ExhaustedEmpty \<Rightarrow> Inr []
              | ExhaustedTimeout \<Rightarrow> Inl (IoError TimedOut ''no more reads''), w'))"

definition dummy :: "dummy_transport transport" where
  "dummy = \<lparr>tr_write = (\<lambda>data w. (Inr (), w\<lparr>dt_writes := dt_writes w @ [data]\<rparr>)), tr_read = dummy_read,
     tr_close = (\<lambda>w. (Inr (), w)), tr_now = dt_clock, tr_sleep = (\<lambda>t w. w\<lparr>dt_clock := dt_clock w + t\<rparr>),
     manufacturer_name = dt_manufacturer, product_name = dt_product\<rparr>"

section \<open>Exactly the bytes that arrive\<close>

lemma take_from_buffer_eq: "take_from_buffer buffer out n = (drop (n - length out) buffer, out @ take (n - length out) buffer)"
proof (induction buffer out n rule: take_from_buffer.induct)
  case (2 b buffer out n)
  moreover have "n - Suc (length out) = n - length out - 1" by simp
  ultimately show ?case by (cases "n - length out") auto
qed simp

text \<open>The bytes that successive reads deliver, whatever time each was given and whatever pauses lie between.\<close>

inductive delivers :: "'w transport \<Rightarrow> 'w \<Rightarrow> bytes \<Rightarrow> 'w \<Rightarrow> bool" for T where
  nothing: "delivers T w [] w"
| chunk: "tr_read T t w = (Inr bs, w1) \<Longrightarrow> delivers T w1 bs' w2 \<Longrightarrow> delivers T w (bs @ bs') w2"
| pause: "delivers T (tr_sleep T t w) bs w2 \<Longrightarrow> delivers T w bs w2"

lemma delivers_trans: "delivers T w bs w1 \<Longrightarrow> delivers T w1 bs' w2 \<Longrightarrow> delivers T w (bs @ bs') w2"
  by (induction rule: delivers.induct) (auto intro: delivers.intros)

lemma read_exact_from_fifo:
  assumes "read_exact_from T n d out c = Some (r, c')" and "r = Inr result" and "length out \<le> n"
  shows "length result = n \<and> (\<exists>bs. delivers T (ch_world c) bs (ch_world c') \<and> out @ ch_buffer c @ bs = result @ ch_buffer c')"
proof -
  let ?P = "\<lambda>T n d out c y. \<forall>result. fst y = Inr result \<longrightarrow> length out \<le> n \<longrightarrow>
      length result = n \<and> (\<exists>bs. delivers T (ch_world c) bs (ch_world (snd y)) \<and> out @ ch_buffer c @ bs = result @ ch_buffer (snd y))"
  have "?P T n d out c (r, c')"
  proof (rule read_exact_from.raw_induct [where P = ?P, OF _ assms(1)], goal_cases)
    case (1 f T n d out c y)
    let ?k = "n - length out"
    let ?out = "out @ take ?k (ch_buffer c)" and ?c = "c\<lparr>ch_buffer := drop ?k (ch_buffer c)\<rparr>"
    note step = 1(2) [unfolded take_from_buffer_eq Let_def, simplified]
    show ?case
    proof (intro allI impI)
      fix result assume ok: "fst y = Inr result" and le: "length out \<le> n"
      show "length result = n \<and> (\<exists>bs. delivers T (ch_world c) bs (ch_world (snd y)) \<and> out @ ch_buffer c @ bs = result @ ch_buffer (snd y))"
      proof (cases "length out < n \<and> length ?out \<noteq> n")
        case False
        with step ok le show ?thesis
          by (auto split: if_splits intro!: exI [of _ "[]"] delivers.nothing)
      next
        case True
        with step ok obtain t chunk w where read: "tr_read T t (ch_world c) = (Inr chunk, w)"
          and rec: "f T n d ?out (?c\<lparr>ch_world := w, ch_buffer := drop ?k (ch_buffer c) @ chunk\<rparr>) = Some y"
          by (auto split: option.splits prod.splits sum.splits if_splits)
        have short: "length ?out \<le> n" using le by simp
        from 1(1) [OF rec, rule_format, OF ok short] obtain bs where n: "length result = n"
          and bs: "delivers T w bs (ch_world (snd y))"
            "?out @ (drop ?k (ch_buffer c) @ chunk) @ bs = result @ ch_buffer (snd y)"
          by auto
        from bs(2) have "out @ ch_buffer c @ chunk @ bs = result @ ch_buffer (snd y)"
          by (metis append.assoc append_take_drop_id)
        with n delivers.chunk [OF read bs(1)] show ?thesis by auto
      qed
    qed
  qed
  with assms(2,3) show ?thesis by simp
qed

section \<open>The loops return\<close>

text \<open>The clock never goes back, and a read takes time: the clock has moved on when it returns.\<close>

definition ticking :: "'w transport \<Rightarrow> bool" where
  "ticking T \<longleftrightarrow> (\<forall>t w. tr_now T w < tr_now T (snd (tr_read T t w)))
    \<and> (\<forall>t w. tr_now T w \<le> tr_now T (tr_sleep T t w))
    \<and> (\<forall>data w. tr_now T w \<le> tr_now T (snd (tr_write T data w)))"

lemma ticking_read: "ticking T \<Longrightarrow> tr_read T t w = (r, w') \<Longrightarrow> tr_now T w < tr_now T w'"
  by (metis ticking_def snd_conv)

lemma ticking_write: "ticking T \<Longrightarrow> tr_write T data w = (r, w') \<Longrightarrow> tr_now T w \<le> tr_now T w'"
  by (metis ticking_def snd_conv)

lemma read_exact_from_returns: "ticking T \<Longrightarrow> \<exists>r c'. read_exact_from T n d out c = Some (r, c')"
proof (induction "d - tr_now T (ch_world c)" arbitrary: out c rule: less_induct)
  case less
  have "\<exists>r c'. read_exact_from T n d out' (c\<lparr>ch_world := w, ch_buffer := b\<rparr>) = Some (r, c')"
    if "tr_now T (ch_world c) < d" and "tr_read T t (ch_world c) = (x, w)" for out' t x w b
    using that ticking_read [OF less.prems that(2)] by (intro less.hyps less.prems) auto
  then show ?case
    by (subst read_exact_from.simps) (auto simp: Let_def remaining_until_def split: prod.splits sum.splits option.splits)
qed

text \<open>A read that succeeds brings the deadline nearer or is served from the buffer.\<close>

lemma read_exact_from_progress:
  assumes "read_exact_from T n d out c = Some (r, c')" and "ticking T"
  shows "d - tr_now T (ch_world c') < d - tr_now T (ch_world c) \<or>
    ch_world c' = ch_world c \<and> (\<forall>x. r = Inr x \<longrightarrow> length (ch_buffer c') + (n - length out) = length (ch_buffer c))"
proof -
  let ?P = "\<lambda>T n d out c y. ticking T \<longrightarrow> d - tr_now T (ch_world (snd y)) < d - tr_now T (ch_world c) \<or>
    ch_world (snd y) = ch_world c \<and>
      (\<forall>x. (fst y :: driver_error + bytes) = Inr x \<longrightarrow> length (ch_buffer (snd y)) + (n - length out) = length (ch_buffer c))"
  have "?P T n d out c (r, c')"
  proof (rule read_exact_from.raw_induct [where P = ?P, OF _ assms(1)], goal_cases)
    case (1 f T n d out c y)
    show ?case
    proof
      assume T: "ticking T"
      have read: "d - tr_now T w < d - tr_now T (ch_world c)"
        if "tr_now T (ch_world c) < d" and "tr_read T t (ch_world c) = (x, w)" for t x w
        using ticking_read [OF T that(2)] that(1) by linarith
      have rec: "d - tr_now T (ch_world (snd y)) < d - tr_now T (ch_world c)"
        if now: "tr_now T (ch_world c) < d" "tr_read T t (ch_world c) = (x, w)"
          and "f T n d out' (c\<lparr>ch_world := w, ch_buffer := b\<rparr>) = Some y" for t x w out' b
      proof -
        from 1(1) [OF that(3)] T have "d - tr_now T (ch_world (snd y)) \<le> d - tr_now T w" by auto
        with read [OF now] show ?thesis by linarith
      qed
      from 1(2) [unfolded take_from_buffer_eq Let_def, simplified]
      show "d - tr_now T (ch_world (snd y)) < d - tr_now T (ch_world c) \<or> ch_world (snd y) = ch_world c \<and>
          (\<forall>x. fst y = Inr x \<longrightarrow> length (ch_buffer (snd y)) + (n - length out) = length (ch_buffer c))"
        by (auto simp: remaining_until_def split: if_splits prod.splits sum.splits dest: read rec)
    qed
  qed
  with assms(2) show ?thesis by simp
qed

lemma drain_until_returns: "ticking T \<Longrightarrow> \<exists>c'. drain_until T d c = Some (Inr (), c')"
proof (induction "d - tr_now T (ch_world c)" arbitrary: c rule: less_induct)
  case less
  have "\<exists>c'. drain_until T d (c\<lparr>ch_world := w\<rparr>) = Some (Inr (), c')"
    if "tr_now T (ch_world c) < d" and "tr_read T t (ch_world c) = (x, w)" for t x w
    using that ticking_read [OF less.prems that(2)] by (intro less.hyps less.prems) auto
  then show ?case
    by (subst drain_until.simps) (auto simp: remaining_until_def split: prod.splits sum.splits option.splits list.splits)
qed

lemma dummy_ticking: "ticking dummy"
  by (auto simp: ticking_def dummy_def dummy_read_def millis_def Let_def split: list.splits)

section \<open>A stream of bytes\<close>

text \<open>
  What a frame reader relies on: the channel is a queue of bytes, some buffered and some still to come
  before the deadline, however the transport cuts them into chunks.
\<close>

inductive offers :: "'w transport \<Rightarrow> nat \<Rightarrow> 'w \<Rightarrow> bytes \<Rightarrow> bool" for T d where
  exhausted: "offers T d w []"
| chunk: "tr_now T w < d \<Longrightarrow> (\<And>t. 0 < t \<Longrightarrow> tr_read T t w = (Inr bs, w')) \<Longrightarrow> tr_now T w \<le> tr_now T w' \<Longrightarrow>
    offers T d w' bs' \<Longrightarrow> offers T d w (bs @ bs')"

lemma offers_later: "offers T d w bs \<Longrightarrow> d \<le> d' \<Longrightarrow> offers T d' w bs"
  by (induction rule: offers.induct) (auto intro: offers.intros)

definition available :: "'w transport \<Rightarrow> nat \<Rightarrow> ('w, 'z) channel_scheme \<Rightarrow> bytes \<Rightarrow> bool" where
  "available T d c bs \<longleftrightarrow> (\<exists>rest. bs = ch_buffer c @ rest \<and> offers T d (ch_world c) rest)"

lemma available_later: "available T d c bs \<Longrightarrow> d \<le> d' \<Longrightarrow> available T d' c bs"
  unfolding available_def by (blast intro: offers_later)

lemma dummy_offers:
  "dt_reads w = map Inr chunks @ rs \<Longrightarrow> dt_clock w + length chunks * millis 1 \<le> d \<Longrightarrow> offers dummy d w (concat chunks)"
proof (induction chunks arbitrary: w)
  case Nil
  show ?case by (simp add: offers.exhausted)
next
  case (Cons bs chunks)
  let ?w = "w\<lparr>dt_clock := dt_clock w + millis 1, dt_reads := map Inr chunks @ rs\<rparr>"
  have "offers dummy d w (bs @ concat chunks)"
  proof (rule offers.chunk)
    show "tr_now dummy w < d" using Cons.prems(2) by (simp add: dummy_def millis_def)
    show "tr_read dummy t w = (Inr bs, ?w)" for t
      using Cons.prems(1) by (simp add: dummy_def dummy_read_def Let_def)
    show "tr_now dummy w \<le> tr_now dummy ?w" by (simp add: dummy_def)
    show "offers dummy d ?w (concat chunks)" using Cons.prems(2) by (intro Cons.IH) simp_all
  qed
  then show ?case by simp
qed

text \<open>What reading changes of a chipset: its world and its buffer.\<close>

definition same_chipset :: "('w, 'z) channel_scheme \<Rightarrow> ('w, 'z) channel_scheme \<Rightarrow> bool" where
  "same_chipset c c' \<longleftrightarrow> (\<exists>w b. c' = c\<lparr>ch_world := w, ch_buffer := b\<rparr>)"

lemma same_chipset_refl [simp]: "same_chipset c c"
  unfolding same_chipset_def by (rule exI [of _ "ch_world c"], rule exI [of _ "ch_buffer c"]) simp

lemma same_chipset_update [simp]:
  "same_chipset c (c\<lparr>ch_world := w\<rparr>)" "same_chipset c (c\<lparr>ch_buffer := b\<rparr>)"
  "same_chipset c (c\<lparr>ch_world := w, ch_buffer := b\<rparr>)" "same_chipset c (c\<lparr>ch_buffer := b, ch_world := w\<rparr>)"
  unfolding same_chipset_def by (metis channel.update_convs(1,2) channel.surjective)+

lemma same_chipset_trans: "same_chipset c c' \<Longrightarrow> same_chipset c' c'' \<Longrightarrow> same_chipset c c''"
  unfolding same_chipset_def by (metis channel.update_convs(1,2) channel.surjective)

lemma read_exact_from_same: "read_exact_from T n d out c = Some (r, c') \<Longrightarrow> same_chipset c c'"
proof (rule read_exact_from.raw_induct [where P = "\<lambda>T n d out c y. same_chipset c (snd y)", of T n d out c "(r, c')", simplified], goal_cases)
  case (1 f T n d out c y)
  let ?k = "n - length out"
  have rec: "same_chipset c (snd y)"
    if "f T n d out' (c\<lparr>ch_world := w, ch_buffer := b\<rparr>) = Some y" for out' w b
    using 1(2) [OF that] by (rule same_chipset_trans [OF same_chipset_update(3)])
  show ?case using 1(3) [unfolded take_from_buffer_eq Let_def, simplified]
    by (auto split: if_splits option.splits prod.splits sum.splits dest: rec)
qed

text \<open>Operations that touch nothing but the channel, whatever their result.\<close>

named_theorems channel_only_intros

definition channel_only :: "(('w, 'z) channel_scheme, 'a) driver_op \<Rightarrow> bool" where
  "channel_only m \<longleftrightarrow> (\<forall>c r c'. m c = Some (r, c') \<longrightarrow> same_chipset c c')"

lemma channel_onlyD: "channel_only m \<Longrightarrow> m c = Some (r, c') \<Longrightarrow> same_chipset c c'"
  by (simp add: channel_only_def)

lemma channel_only_liftD [channel_only_intros]: "channel_only (liftD r)"
  by (simp add: channel_only_def)

lemma channel_only_readD [channel_only_intros]: "channel_only (readD f)"
  by (simp add: channel_only_def)

lemma channel_only_bindD [channel_only_intros]:
  "channel_only m \<Longrightarrow> (\<And>x. channel_only (f x)) \<Longrightarrow> channel_only (bindD m f)"
  unfolding channel_only_def bindD_def
  by (fastforce split: option.splits prod.splits sum.splits intro: same_chipset_trans)

lemma channel_only_tryD [channel_only_intros]:
  "channel_only m \<Longrightarrow> (\<And>r. channel_only (f r)) \<Longrightarrow> channel_only (tryD m f)"
  unfolding channel_only_def tryD_def
  by (fastforce split: option.splits prod.splits intro: same_chipset_trans)

lemma channel_only_transport [channel_only_intros]:
  "channel_only (write_transport T bs)" "channel_only (read_transport T t)" "channel_only (close_transport T)"
  "channel_only (sleep T t)" "channel_only (deadline_in T t)" "channel_only (modifyD (\<lambda>c. c\<lparr>ch_buffer := b\<rparr>))"
  by (auto simp: channel_only_def write_transport_def read_transport_def close_transport_def sleep_def deadline_in_def
      split: prod.splits)

lemma channel_only_read_exact [channel_only_intros]: "channel_only (read_exact T n d)"
  unfolding channel_only_def read_exact_def by (blast dest: read_exact_from_same)

lemma drain_until_same: "drain_until T d c = Some (r, c') \<Longrightarrow> same_chipset c c'"
proof (rule drain_until.raw_induct [where P = "\<lambda>T d c y. same_chipset c (snd y)", of T d c "(r, c')", simplified], goal_cases)
  case (1 f T d c y)
  have rec: "same_chipset c (snd y)" if "f T d (c\<lparr>ch_world := w\<rparr>) = Some y" for w
    using 1(2) [OF that] by (rule same_chipset_trans [OF same_chipset_update(1)])
  show ?case using 1(3) by (auto split: if_splits option.splits prod.splits sum.splits list.splits dest: rec)
qed

lemma channel_only_recovery [channel_only_intros]: "channel_only (recover_after_error T ack drain)"
proof -
  have "channel_only (drain_until T d)" for d
    unfolding channel_only_def by (blast dest: drain_until_same)
  then show ?thesis
    unfolding recover_after_error_def drain_input_def by (intro channel_only_intros) (auto intro: channel_only_intros)
qed

lemma channel_only_recover_on_error [channel_only_intros]:
  "channel_only m \<Longrightarrow> channel_only (recover_on_error T ack drain m)"
  unfolding recover_on_error_def by (intro channel_only_intros) (auto intro: channel_only_intros split: sum.splits)

lemma read_exact_from_buffered:
  assumes "out @ ch_buffer c = xs @ zs" and "length out \<le> length xs"
  shows "read_exact_from T (length xs) d out c = Some (Inr xs, c\<lparr>ch_buffer := zs\<rparr>)"
proof -
  from assms obtain us where xs: "xs = out @ us" and b: "ch_buffer c = us @ zs"
    by (metis append_eq_append_conv_if append_take_drop_id append_eq_conv_conj)
  show ?thesis
  proof (cases us)
    case Nil
    with b have "c\<lparr>ch_buffer := zs\<rparr> = c" by simp
    with Nil xs show ?thesis by (subst read_exact_from.simps) simp
  next
    case (Cons u vs)
    with xs b show ?thesis by (subst read_exact_from.simps) (simp add: take_from_buffer_eq)
  qed
qed

lemma read_exact_from_offered:
  assumes "offers T d w rest" and "ch_world c = w" and "out @ ch_buffer c @ rest = xs @ ys" and "length out \<le> length xs"
    and "d \<le> D"
  shows "\<exists>c'. read_exact_from T (length xs) D out c = Some (Inr xs, c') \<and> available T d c' ys
    \<and> same_chipset c c' \<and> tr_now T (ch_world c) \<le> tr_now T (ch_world c')"
  using assms
proof (induction arbitrary: c out rule: offers.induct)
  case (exhausted w)
  then have "out @ ch_buffer c = xs @ ys" by simp
  from read_exact_from_buffered [OF this exhausted(3)] show ?case
    by (auto simp: available_def intro: offers.exhausted)
next
  case (chunk w bs w' rest)
  let ?n = "length xs"
  show ?case
  proof (cases "?n \<le> length out + length (ch_buffer c)")
    case True
    from chunk.prems(2) have "(out @ ch_buffer c) @ bs @ rest = xs @ ys" by simp
    with True obtain zs where zs: "out @ ch_buffer c = xs @ zs" and ys: "ys = zs @ bs @ rest"
      by (subst (asm) append_eq_append_conv2) fastforce
    from offers.chunk [OF chunk.hyps] chunk.prems(1) ys
    have "available T d (c\<lparr>ch_buffer := zs\<rparr>) ys" by (auto simp: available_def)
    with read_exact_from_buffered [OF zs chunk.prems(3)] show ?thesis by auto
  next
    case False
    let ?out = "out @ ch_buffer c" and ?c = "c\<lparr>ch_world := w', ch_buffer := bs\<rparr>"
    have "?out @ ch_buffer ?c @ rest = xs @ ys" "length ?out \<le> ?n"
      using chunk.prems(2) False by simp_all
    from chunk.IH [of ?c ?out, OF _ this chunk.prems(4)] obtain c' where
      rec: "read_exact_from T ?n D ?out ?c = Some (Inr xs, c')" "available T d c' ys" "same_chipset ?c c'"
        "tr_now T w' \<le> tr_now T (ch_world c')"
      by auto
    have "read_exact_from T ?n D out c = read_exact_from T ?n D ?out ?c"
      using False chunk.hyps(1,2) chunk.prems(1,4)
      by (subst read_exact_from.simps) (simp add: take_from_buffer_eq remaining_until_def)
    with rec chunk.hyps(3) chunk.prems(1) show ?thesis
      by (auto intro: same_chipset_trans [OF same_chipset_update(3)])
  qed
qed

lemma read_exact_available:
  assumes "available T d c (xs @ ys)" and "d \<le> D"
  obtains c' where "read_exact T (length xs) D c = Some (Inr xs, c')" and "available T d c' ys"
    and "same_chipset c c'" and "tr_now T (ch_world c) \<le> tr_now T (ch_world c')"
  using assms read_exact_from_offered [of T d "ch_world c" _ c "[]" xs ys D]
  by (fastforce simp: available_def read_exact_def)

text \<open>A channel that has moved on: the stream behind what was read, the other fields untouched.\<close>

definition after_reading :: "'w transport \<Rightarrow> ('w, 'z) channel_scheme \<Rightarrow> ('w, 'z) channel_scheme \<Rightarrow> bool" where
  "after_reading T c c' \<longleftrightarrow> same_chipset c c' \<and> tr_now T (ch_world c) \<le> tr_now T (ch_world c')"

lemma after_reading_trans: "after_reading T c c' \<Longrightarrow> after_reading T c' c'' \<Longrightarrow> after_reading T c c''"
  unfolding after_reading_def by (auto intro: same_chipset_trans)

lemma read_stream:
  assumes "available T d c (xs @ ys)" and "n = length xs"
  obtains c' where "read_exact T n d c = Some (Inr xs, c')" and "available T d c' ys" and "after_reading T c c'"
  using read_exact_available [OF assms(1) order.refl] assms(2) unfolding after_reading_def by blast

lemma read_stream_until:
  assumes "available T d c (xs @ ys)" and "n = length xs" and "d \<le> D"
  obtains c' where "read_exact T n D c = Some (Inr xs, c')" and "available T d c' ys" and "after_reading T c c'"
  using read_exact_available [OF assms(1,3)] assms(2) unfolding after_reading_def by blast

lemma read_exact_delivers:
  assumes "read_exact T n d c = Some (Inr result, c')"
  shows "length result = n" and "\<exists>bs. delivers T (ch_world c) bs (ch_world c') \<and> ch_buffer c @ bs = result @ ch_buffer c'"
  using read_exact_from_fifo [of T n d "[]" c "Inr result" c' result] assms by (simp_all add: read_exact_def)

text \<open>
  A read that succeeds returns as many bytes as were asked for, and no byte is lost, repeated or
  reordered: what was buffered, followed by what the transport delivered in the meantime, is the result
  followed by what is buffered now.
\<close>

theorem read_exact_fifo:
  assumes "read_exact T n d c = Some (Inr result, c')"
  shows "length result = n \<and> (\<exists>bs. delivers T (ch_world c) bs (ch_world c') \<and> ch_buffer c @ bs = result @ ch_buffer c')"
  using read_exact_from_fifo [of T n d "[]" c "Inr result" c' result] assms by (simp add: read_exact_def)

text \<open>Evaluating a driver on a scripted transport.\<close>

lemma dummy_selectors:
  "tr_write dummy data w = (Inr (), w\<lparr>dt_writes := dt_writes w @ [data]\<rparr>)" "tr_read dummy = dummy_read"
  "tr_close dummy w = (Inr (), w)" "tr_now dummy = dt_clock" "tr_sleep dummy t w = w\<lparr>dt_clock := dt_clock w + t\<rparr>"
  by (simp_all add: dummy_def)

lemmas script_simps = Let_def read_exact_def read_exact_from.simps remaining_until_def dummy_selectors dummy_read_def with_reads_def
  millis_def deadline_in_def bindD_def liftD_def readD_def modifyD_def tryD_def write_transport_def

theorem read_exact_fifo_witness:
  "\<exists>bs. delivers dummy (with_reads [Inr [1, 2], Inr [3, 4, 5]]) bs (with_reads []\<lparr>dt_clock := millis 2\<rparr>) \<and> bs = [1, 2, 3, 4] @ [5]"
proof -
  have "read_exact dummy 4 (millis 50) \<lparr>ch_world = with_reads [Inr [1, 2], Inr [3, 4, 5]], ch_buffer = []\<rparr>
    = Some (Inr [1, 2, 3, 4], \<lparr>ch_world = with_reads []\<lparr>dt_clock := millis 2\<rparr>, ch_buffer = [5]\<rparr>)"
    by (simp add: read_exact_def read_exact_from.simps remaining_until_def dummy_def dummy_read_def with_reads_def millis_def)
  from read_exact_fifo [OF this] show ?thesis by simp
qed

lemma recovery_returns:
  assumes "ticking T"
  shows "\<exists>c'. recover_after_error T ack drain c = Some (Inr (), c') \<and> ch_buffer c' = []"
proof -
  obtain r w where w: "tr_write T ack (ch_world c) = (r, w)" by (cases "tr_write T ack (ch_world c)")
  let ?c = "c\<lparr>ch_world := w, ch_buffer := []\<rparr>"
  obtain c' where "drain_until T (tr_now T w + BUFFER_CLEAR_TIMEOUT) ?c = Some (Inr (), c')"
    using drain_until_returns [OF assms] by blast
  with w show ?thesis
    by (cases drain) (auto simp: recover_after_error_def tryD_def bindD_def write_transport_def drain_input_def
        deadline_in_def modifyD_def liftD_def readD_def)
qed

text \<open>
  The polling loops end: where a read takes time, reading to a deadline returns, with the bytes or an
  error, and so does the recovery of a chipset, whatever the transport answers.
\<close>

theorem polling_loops_return:
  assumes "ticking T"
  shows "(\<exists>r c'. read_exact T n d c = Some (r, c')) \<and>
    (\<exists>c'. recover_after_error T ack drain c = Some (Inr (), c') \<and> ch_buffer c' = [])"
  unfolding read_exact_def using read_exact_from_returns [OF assms] recovery_returns [OF assms] by blast

theorem polling_loops_return_witness:
  "\<exists>c'. recover_after_error dummy [0x00] True \<lparr>ch_world = with_reads [Inr [1]], ch_buffer = [2]\<rparr> = Some (Inr (), c') \<and> ch_buffer c' = []"
  using polling_loops_return [OF dummy_ticking] by blast

end
