(* ===== verification/Driver_Common.thy ===== *)
theory Driver_Common
  imports Driver_Io Host_Types
begin

text \<open>
  What the reader devices share: their metadata, the opening of the first USB product that answers and
  the test for a Type 2 tag (\<open>src/driver/common.rs\<close>), and the printed forms of the errors
  (\<open>src/driver/errors.rs\<close>, \<open>src/felica_standard/error.rs\<close>) that drivers quote in their own messages.
\<close>

section \<open>Metadata\<close>

definition SONY_VENDOR_ID :: u16 where "SONY_VENDOR_ID = 0x054C"

record device_metadata =
  dm_vendor_name :: "string option"
  dm_product_name :: "string option"
  dm_chipset_name :: string

text \<open>
  \<open>open_usb_device\<close>: the first product id that opens is built, the last failure is reported. Opening
  (\<open>UsbTransport::open\<close>) and building are parameters; a build that does not return is \<open>None\<close>.
\<close>

fun open_first ::
    "(u16 \<Rightarrow> u16 \<Rightarrow> 'e \<Rightarrow> (io_error + 't) \<times> 'e) \<Rightarrow> ('t \<Rightarrow> ('e, 'd) driver_op) \<Rightarrow> u16 \<Rightarrow> u16 list \<Rightarrow> string \<Rightarrow>
     io_error option \<Rightarrow> ('e, 'd) driver_op" where
  "open_first opn build vendor [] not_found last_error =
     liftD (Inl (Io (case last_error of Some e \<Rightarrow> e | None \<Rightarrow> IoError NotFound not_found)))"
| "open_first opn build vendor (pid # pids) not_found last_error = (\<lambda>e.
     case opn vendor pid e of
       (Inr t, e') \<Rightarrow> build t e'
     | (Inl err, e') \<Rightarrow> open_first opn build vendor pids not_found (Some err) e')"

definition open_usb_device ::
    "(u16 \<Rightarrow> u16 \<Rightarrow> 'e \<Rightarrow> (io_error + 't) \<times> 'e) \<Rightarrow> ('t \<Rightarrow> ('e, 'd) driver_op) \<Rightarrow> u16 \<Rightarrow> u16 list \<Rightarrow> string \<Rightarrow> ('e, 'd) driver_op" where
  "open_usb_device opn build vendor product_ids not_found = open_first opn build vendor product_ids not_found None"

definition is_type2_106a :: "remote_target \<Rightarrow> bool" where
  "is_type2_106a target \<longleftrightarrow>
     remote_bitrate target = ''106A'' \<and>
     (case Option.bind (sel_res (rt_data target)) (\<lambda>bs. nth_opt bs 0) of Some b \<Rightarrow> b AND 0x60 = 0 | None \<Rightarrow> False)"

text \<open>\<open>RemoteTarget::new(bitrate)?\<close> and \<open>LocalTarget::new(bitrate)?\<close>; a panic stays one.\<close>

definition target_driver_error :: "target_error \<Rightarrow> driver_error" where
  "target_driver_error e = (case e of TargetPanicked m \<Rightarrow> DriverPanicked m | UnsupportedTargetError m \<Rightarrow> DriverUnsupported m)"

definition new_target :: "string \<Rightarrow> driver_error + remote_target" where
  "new_target rate = map_err target_driver_error (remote_target_new rate)"

definition new_local_target :: "string \<Rightarrow> driver_error + local_target" where
  "new_local_target rate = map_err target_driver_error (local_target_new rate)"

section \<open>Printed errors\<close>

text \<open>\<open>{:x}\<close> of a byte: no leading zero.\<close>

definition hex_lower :: "u8 \<Rightarrow> string" where
  "hex_lower b =
     (let n = unat b in
      if n < 16 then [hex_digit_lower n] else [hex_digit_lower (n div 16), hex_digit_lower (n mod 16)])"

text \<open>\<open>{:02x}\<close>.\<close>

definition hex2_lower :: "u8 \<Rightarrow> string" where
  "hex2_lower b = [hex_digit_lower (unat b div 16), hex_digit_lower (unat b mod 16)]"

fun communication_error_text :: "communication_error \<Rightarrow> string" where
  "communication_error_text (CommProtocol m) = ''protocol error: '' @ m"
| "communication_error_text (Transmission m) = ''transmission error: '' @ m"
| "communication_error_text (Timeout m) = ''timeout error: '' @ m"
| "communication_error_text (BrokenLink m) = ''broken link: '' @ m"

fun chipset_error_text :: "chipset_error \<Rightarrow> string" where
  "chipset_error_text (ChipsetStatus code) = ''chipset status error '' @ hex2_prefixed code"
| "chipset_error_text (ChipsetFault f) = fault_to_string f"

fun driver_error_text :: "driver_error \<Rightarrow> string" where
  "driver_error_text (DriverUnsupported m) = ''unsupported target: '' @ m"
| "driver_error_text (Communication e) = communication_error_text e"
| "driver_error_text (Chipset e) = chipset_error_text e"
| "driver_error_text (Io e) = io_message e"
| "driver_error_text (Other m) = m"
| "driver_error_text (DriverPanicked m) = m"

fun felica_error_text :: "felica_error \<Rightarrow> string" where
  "felica_error_text (Driver e) = driver_error_text e"
| "felica_error_text (UnsupportedTarget m) = ''unsupported target: '' @ m"
| "felica_error_text (InvalidParameter m) = ''Felica parameter error: '' @ m"
| "felica_error_text (Status cmd sf1 sf2 detail) =
     cmd @ '' failed with status '' @ hex2 sf1 @ '' '' @ hex2 sf2 @ '': '' @ detail"
| "felica_error_text AuthenticationRequired = ''secure command requires mutual authentication''"
| "felica_error_text (AuthenticationFailed m) = ''authentication failed: '' @ m"
| "felica_error_text (SecureSessionError m) = ''secure session error: '' @ m"
| "felica_error_text (Protocol m) = ''Felica protocol error: '' @ m"
| "felica_error_text (Panicked m) = m"

section \<open>Polling for a FeliCa card\<close>

text \<open>
  The drivers build the polling frame and parse the answer alike; each wraps the errors of both in its
  own message. A panic stays a panic. The derived \<open>Debug\<close> text of a response is a parameter.
\<close>

definition sensf_req :: "u16 \<Rightarrow> u8 \<Rightarrow> u8 \<Rightarrow> driver_error + bytes" where
  "sensf_req system_code request_code time_slots =
     map_err (\<lambda>e. case e of Panicked m \<Rightarrow> DriverPanicked m | _ \<Rightarrow> Other (''failed to build SENSF_REQ: '' @ felica_error_text e))
       (to_frame (CmdPolling system_code request_code time_slots))"

definition parse_sensf_res :: "(response \<Rightarrow> string) \<Rightarrow> bytes \<Rightarrow> driver_error + type3_tag_polling_result" where
  "parse_sensf_res debug_response data =
     (case from_bytes data of
        Inr (RespPolling idm pmm optional) \<Rightarrow> Inr \<lparr>t3_idm = idm, t3_pmm = pmm, t3_optional = optional\<rparr>
      | Inr other \<Rightarrow> driver_other (''unexpected Felica response: '' @ debug_response other)
      | Inl (DriverPanicked m) \<Rightarrow> Inl (DriverPanicked m)
      | Inl e \<Rightarrow> driver_other (''failed to parse Felica response: '' @ driver_error_text e))"

section \<open>Errors that are looked at\<close>

text \<open>A call whose error the driver handles itself. A panic is not an error it could handle.\<close>

definition catchD :: "('s, 'a) driver_op \<Rightarrow> (driver_error + 'a \<Rightarrow> ('s, 'b) driver_op) \<Rightarrow> ('s, 'b) driver_op" where
  "catchD m f = tryD m (\<lambda>r. case r of Inl (DriverPanicked p) \<Rightarrow> liftD (Inl (DriverPanicked p)) | _ \<Rightarrow> f r)"

end
