(* ===== verification/Framing.thy ===== *)
theory Framing
  imports Prelude "HOL-Library.Sublist"
begin

text \<open>
  The SOF frame envelope of \<open>src/driver/framing.rs\<close>, shared by the Port-100, RC-S320 and
  RC-S956 drivers: checksums, the three length encodings, building, classification and
  parsing of frames, and the three dialects declared in the drivers' \<open>frame.rs\<close> files.
  A format is the record of the two constants of the trait \<open>FrameFormat\<close>. The one panic of the
  source (the \<open>assert!\<close> of \<open>push_length\<close>) is the value None of \<open>build\<close>; sums of
  bytes are \<open>u16\<close> sums that wrap, as in a build without overflow checks, and
  \<open>checksum_checked\<close> is the same function with the checks on.
\<close>

section \<open>Constants and checksums\<close>

definition SOF :: bytes where "SOF = [0x00, 0x00, 0xFF]"
definition ACK_BYTES :: bytes where "ACK_BYTES = [0x00, 0x00, 0xFF, 0x00, 0xFF, 0x00]"
definition ERROR_BYTES :: bytes where "ERROR_BYTES = [0x00, 0x00, 0xFF, 0xFF, 0xFF, 0x00]"
definition POSTAMBLE :: u8 where "POSTAMBLE = 0x00"
definition EXTENDED_LENGTH_MARKER :: bytes where "EXTENDED_LENGTH_MARKER = [0xFF, 0xFF]"
definition LENGTH_OFFSET :: nat where "LENGTH_OFFSET = 3"
definition NORMAL_DATA_START :: nat where "NORMAL_DATA_START = 5"
definition EXTENDED_DATA_START :: nat where "EXTENDED_DATA_START = 8"
definition NORMAL_LENGTH_LIMIT :: nat where "NORMAL_LENGTH_LIMIT = 256"
definition STATUS_ERROR_BYTE :: u8 where "STATUS_ERROR_BYTE = 0x7F"

lemmas framing_consts = SOF_def ACK_BYTES_def ERROR_BYTES_def POSTAMBLE_def
  EXTENDED_LENGTH_MARKER_def LENGTH_OFFSET_def NORMAL_DATA_START_def EXTENDED_DATA_START_def
  NORMAL_LENGTH_LIMIT_def STATUS_ERROR_BYTE_def

definition byte_sum :: "bytes \<Rightarrow> u16" where
  "byte_sum bs = sum_list (map ucast bs)"

definition checksum :: "bytes \<Rightarrow> u8" where
  "checksum bs = ucast ((256 - (byte_sum bs mod 256)) mod 256)"

definition length_checksum :: "u8 \<Rightarrow> u8" where
  "length_checksum len = checksum [len]"

definition checksum_matches :: "bytes \<Rightarrow> u8 \<Rightarrow> bool" where
  "checksum_matches bs c \<longleftrightarrow> (byte_sum bs + ucast c) mod 256 = 0"

text \<open>With overflow checks on, the \<open>u16\<close> sum panics (None) once it leaves the type.\<close>

definition checksum_checked :: "bytes \<Rightarrow> u8 option" where
  "checksum_checked bs =
     (if sum_list (map unat bs) < 65536 then Some (checksum bs) else None)"

definition has_sof :: "bytes \<Rightarrow> bool" where
  "has_sof data \<longleftrightarrow> slice_opt data 0 (length SOF) = Some SOF"

section \<open>Formats and frames\<close>

datatype length_encoding = Normal | ExtendedLittleEndian | NormalOrExtendedBigEndian

datatype error_detection = ErrorFrame | StatusByte

record frame_format =
  LENGTH_ENC :: length_encoding
  ERROR_DET :: error_detection

definition Port100Format :: frame_format where
  "Port100Format = \<lparr>LENGTH_ENC = ExtendedLittleEndian, ERROR_DET = ErrorFrame\<rparr>"

definition Rcs320Format :: frame_format where
  "Rcs320Format = \<lparr>LENGTH_ENC = Normal, ERROR_DET = StatusByte\<rparr>"

definition Rcs956Format :: frame_format where
  "Rcs956Format = \<lparr>LENGTH_ENC = NormalOrExtendedBigEndian, ERROR_DET = ErrorFrame\<rparr>"

datatype frame_type = Ack | Error | Data bytes

record frame =
  raw :: bytes
  frame_type :: frame_type

definition ack :: frame where
  "ack = \<lparr>raw = ACK_BYTES, frame_type = Ack\<rparr>"

fun payload :: "frame \<Rightarrow> bytes option" where
  "payload f = (case frame_type f of Data p \<Rightarrow> Some p | _ \<Rightarrow> None)"

section \<open>Building\<close>

definition normal_length :: "nat \<Rightarrow> bytes" where
  "normal_length len = [u8_of len, length_checksum (u8_of len)]"

definition extended_length :: "bytes \<Rightarrow> bytes" where
  "extended_length len_bytes = EXTENDED_LENGTH_MARKER @ len_bytes @ [checksum len_bytes]"

fun push_length :: "nat \<Rightarrow> length_encoding \<Rightarrow> bytes option" where
  "push_length len Normal =
     (if len < NORMAL_LENGTH_LIMIT then Some (normal_length len) else None)"
| "push_length len ExtendedLittleEndian = Some (extended_length (u16_to_le (u16_of len)))"
| "push_length len NormalOrExtendedBigEndian =
     (if len < NORMAL_LENGTH_LIMIT then Some (normal_length len)
      else Some (extended_length (u16_to_be (u16_of len))))"

definition build :: "frame_format \<Rightarrow> bytes \<Rightarrow> frame option" where
  "build F p = do {
     len \<leftarrow> push_length (length p) (LENGTH_ENC F);
     Some \<lparr>raw = SOF @ len @ p @ [checksum p] @ [POSTAMBLE], frame_type = Data p\<rparr>
   }"

text \<open>\<open>rcs956::frame::build_command\<close>.\<close>

definition HOST_TO_CONTROLLER :: u8 where "HOST_TO_CONTROLLER = 0xD4"

definition build_command :: "u8 \<Rightarrow> bytes \<Rightarrow> frame option" where
  "build_command cmd_code data = build Rcs956Format (HOST_TO_CONTROLLER # cmd_code # data)"

section \<open>Parsing\<close>

record frame_layout =
  fl_length :: nat
  length_bytes :: bytes
  lcs :: u8
  data_start :: nat

fun is_extended :: "length_encoding \<Rightarrow> bytes \<Rightarrow> bool" where
  "is_extended Normal data = False"
| "is_extended _ data =
     (slice_opt data LENGTH_OFFSET (LENGTH_OFFSET + 2) = Some EXTENDED_LENGTH_MARKER)"

fun extended_length_value :: "length_encoding \<Rightarrow> u8 \<Rightarrow> u8 \<Rightarrow> u16" where
  "extended_length_value ExtendedLittleEndian a b = u16_from_le a b"
| "extended_length_value _ a b = u16_from_be a b"

definition layout_parse :: "length_encoding \<Rightarrow> bytes \<Rightarrow> frame_layout option" where
  "layout_parse enc data =
     (if \<not> is_extended enc data then do {
        len \<leftarrow> nth_opt data LENGTH_OFFSET;
        lb \<leftarrow> slice_opt data LENGTH_OFFSET (LENGTH_OFFSET + 1);
        c \<leftarrow> nth_opt data (LENGTH_OFFSET + 1);
        Some \<lparr>fl_length = unat len, length_bytes = lb, lcs = c, data_start = NORMAL_DATA_START\<rparr>
      } else do {
        lb \<leftarrow> slice_opt data (LENGTH_OFFSET + 2) (LENGTH_OFFSET + 4);
        c \<leftarrow> nth_opt data (LENGTH_OFFSET + 4);
        Some \<lparr>fl_length = unat (extended_length_value enc (lb ! 0) (lb ! 1)), length_bytes = lb,
          lcs = c, data_start = EXTENDED_DATA_START\<rparr>
      })"

definition frame_len :: "frame_layout \<Rightarrow> nat" where
  "frame_len l = data_start l + fl_length l + 2"

definition validated_payload :: "frame_layout \<Rightarrow> bytes \<Rightarrow> bytes option" where
  "validated_payload l data =
     (if \<not> checksum_matches (length_bytes l) (lcs l) then None
      else let data_end = data_start l + fl_length l in do {
        p \<leftarrow> slice_opt data (data_start l) data_end;
        dcs \<leftarrow> nth_opt data data_end;
        if \<not> checksum_matches p dcs then None
        else if nth_opt data (data_end + 1) \<noteq> Some POSTAMBLE then None
        else Some p
      })"

definition classify :: "frame_format \<Rightarrow> bytes \<Rightarrow> (frame_type \<times> nat) option" where
  "classify F data =
     (if data = ACK_BYTES then Some (Ack, length ACK_BYTES)
      else if ERROR_DET F = ErrorFrame \<and> data = ERROR_BYTES then Some (Error, length ERROR_BYTES)
      else if ERROR_DET F = StatusByte \<and> nth_opt data NORMAL_DATA_START = Some STATUS_ERROR_BYTE
        then Some (Error, length data)
      else do {
        l \<leftarrow> layout_parse (LENGTH_ENC F) data;
        p \<leftarrow> validated_payload l data;
        Some (Data p, frame_len l)
      })"

definition parse :: "frame_format \<Rightarrow> bytes \<Rightarrow> frame option" where
  "parse F data =
     (if \<not> has_sof data then None
      else do {
        (t, n) \<leftarrow> classify F data;
        Some \<lparr>raw = take n data, frame_type = t\<rparr>
      })"

section \<open>Checksum lemmas\<close>

text \<open>The sum of a byte string and its checksum is zero on bytes; a byte matches exactly when it is
  the checksum.\<close>

lemma unat_byte_sum: "unat (byte_sum bs) = sum_list (map unat bs) mod 65536"
  by (induction bs) (auto simp: byte_sum_def unat_word_ariths mod_simps)

lemma unat_sum_list_u8: "unat (sum_list (bs :: bytes)) = sum_list (map unat bs) mod 256"
  by (induction bs) (auto simp: unat_word_ariths mod_simps)

lemma unat_checksum:
  "unat (checksum bs) = (256 - sum_list (map unat bs) mod 256) mod 256"
proof -
  let ?S = "sum_list (map unat bs)"
  have m: "unat (byte_sum bs mod 256) = ?S mod 256"
    by (simp add: unat_mod unat_byte_sum mod_mod_cancel)
  have "byte_sum bs mod 256 \<le> 256"
    unfolding word_le_nat_alt m by simp
  then have "unat (256 - byte_sum bs mod 256) = 256 - ?S mod 256"
    by (simp add: unat_sub m)
  then have "unat ((256 - byte_sum bs mod 256) mod 256) = (256 - ?S mod 256) mod 256"
    by (simp add: unat_mod)
  then show ?thesis
    by (simp add: checksum_def)
qed

lemma mod_256_neg: "((S::nat) mod 256 + (256 - S mod 256) mod 256) mod 256 = 0"
proof (cases "S mod 256 = 0")
  case False
  moreover have "S mod 256 < 256" by simp
  ultimately show ?thesis by simp
qed simp

lemma checksum_eq: "checksum bs = - sum_list bs"
proof -
  have "sum_list bs + checksum bs = 0"
    unfolding word_unat_eq_iff unat_word_ariths unat_sum_list_u8 unat_checksum
    by (simp add: mod_256_neg)
  then show ?thesis by (metis add_eq_0_iff)
qed

lemma checksum_matches_iff: "checksum_matches bs c \<longleftrightarrow> c = checksum bs"
proof -
  let ?S = "sum_list (map unat bs)"
  have "checksum_matches bs c \<longleftrightarrow> (?S mod 65536 + unat c) mod 65536 mod 256 = 0"
    unfolding checksum_matches_def word_unat_eq_iff
    by (simp add: unat_mod unat_word_ariths unat_byte_sum)
  also have "\<dots> \<longleftrightarrow> (?S + unat c) mod 256 = 0"
    by (simp add: mod_mod_cancel mod_add_left_eq)
  also have "\<dots> \<longleftrightarrow> sum_list bs + c = 0"
    unfolding word_unat_eq_iff unat_word_ariths unat_sum_list_u8 by (simp add: mod_simps)
  also have "\<dots> \<longleftrightarrow> c = checksum bs"
    by (metis checksum_eq add_eq_0_iff)
  finally show ?thesis .
qed
section \<open>Frames decode to what was framed\<close>

text \<open>
  \<open>normal_header\<close> and \<open>extended_header\<close> are the two length fields a frame can
  carry; the following lemmas evaluate the parser on each of them.
\<close>

lemma length_checksum_neq_FF: "u8_of n = 0xFF \<Longrightarrow> length_checksum (u8_of n) \<noteq> 0xFF"
  by (simp add: length_checksum_def checksum_eq)

lemma layout_parse_normal:
  assumes "h = normal_length n" and "n < 256"
  shows "layout_parse enc (SOF @ h @ rest) =
    Some \<lparr>fl_length = n, length_bytes = [u8_of n], lcs = length_checksum (u8_of n), data_start = 5\<rparr>"
proof -
  have "\<not> is_extended enc (SOF @ h @ rest)"
    using length_checksum_neq_FF [of n] assms
    by (cases enc) (auto simp: framing_consts slice_opt_def normal_length_def)
  then show ?thesis
    using assms by (simp add: layout_parse_def framing_consts normal_length_def slice_opt_def)
qed

lemma layout_parse_extended:
  assumes "h = extended_length [a, b]" and "enc \<noteq> Normal"
  shows "layout_parse enc (SOF @ h @ rest) =
    Some \<lparr>fl_length = unat (extended_length_value enc a b), length_bytes = [a, b],
      lcs = checksum [a, b], data_start = 8\<rparr>"
proof -
  have "is_extended enc (SOF @ h @ rest)"
    using assms by (cases enc) (auto simp: framing_consts slice_opt_def extended_length_def)
  then show ?thesis
    using assms
    by (simp add: layout_parse_def framing_consts extended_length_def slice_opt_def)
qed

lemma validated_payload_frame:
  assumes "data_start l = length pre" and "fl_length l = length p"
    and "lcs l = checksum (length_bytes l)"
  shows "validated_payload l (pre @ p @ checksum p # POSTAMBLE # rest) = Some p"
  using assms
  by (simp add: validated_payload_def checksum_matches_iff slice_opt_middle)

lemma has_sof_SOF [simp]: "has_sof (SOF @ rest)"
  by (simp add: has_sof_def)

lemma not_ack_error_frame:
  "h = normal_length n \<or> h = extended_length lb \<Longrightarrow>
    SOF @ h @ p @ [c, POSTAMBLE] @ rest \<noteq> ACK_BYTES \<and>
    SOF @ h @ p @ [c, POSTAMBLE] @ rest \<noteq> ERROR_BYTES"
  by (auto simp: framing_consts normal_length_def extended_length_def length_checksum_def
      checksum_eq)

lemma push_length_cases:
  assumes "push_length n enc = Some h" and "n < 65536"
  obtains (normal) "h = normal_length n" and "n < 256"
  | (extended) a b where "h = extended_length [a, b]" and "enc \<noteq> Normal"
      and "unat (extended_length_value enc a b) = n"
  using assms
  by (cases enc) (auto simp: framing_consts u16_to_le_def u16_to_be_def split: if_splits)

text \<open>A format reports no fault on a frame of \<open>p\<close>: only the status byte of the RC-S320 can.\<close>

definition no_fault :: "frame_format \<Rightarrow> bytes \<Rightarrow> bool" where
  "no_fault F p \<longleftrightarrow> ERROR_DET F = ErrorFrame \<or>
     (LENGTH_ENC F = Normal \<and> (p = [] \<or> hd p \<noteq> STATUS_ERROR_BYTE))"

lemma not_status_fault:
  assumes "no_fault F q" and "push_length (length q) (LENGTH_ENC F) = Some h" and "q = [] \<Longrightarrow> c = 0"
  shows "ERROR_DET F = StatusByte \<Longrightarrow>
    nth_opt (SOF @ h @ q @ [c, POSTAMBLE] @ rest) NORMAL_DATA_START \<noteq> Some STATUS_ERROR_BYTE"
  using assms
  by (cases q)
    (auto simp: no_fault_def framing_consts normal_length_def nth_opt_def split: if_splits)

lemma classify_data:
  assumes "data \<noteq> ACK_BYTES \<and> data \<noteq> ERROR_BYTES"
    and "ERROR_DET F = StatusByte \<Longrightarrow> nth_opt data NORMAL_DATA_START \<noteq> Some STATUS_ERROR_BYTE"
    and "layout_parse (LENGTH_ENC F) data = Some l"
    and "validated_payload l data = r"
  shows "classify F data = map_option (\<lambda>p. (Data p, frame_len l)) r"
  using assms by (cases r) (auto simp: classify_def)

text \<open>What the parser makes of a frame body \<open>q\<close> with check byte \<open>c\<close> behind a matching length.\<close>

lemma classify_frame:
  assumes len: "push_length (length q) (LENGTH_ENC F) = Some h" "length q < 65536"
    and nf: "no_fault F q" and c: "q = [] \<Longrightarrow> c = 0"
  shows "classify F (SOF @ h @ q @ [c, POSTAMBLE] @ rest) =
    (if c = checksum q then Some (Data q, length (SOF @ h @ q @ [c, POSTAMBLE])) else None)"
proof -
  let ?data = "SOF @ h @ q @ [c, POSTAMBLE] @ rest"
  from len show ?thesis
  proof (cases rule: push_length_cases)
    case normal
    let ?l = "\<lparr>fl_length = length q, length_bytes = [u8_of (length q)],
      lcs = length_checksum (u8_of (length q)), data_start = 5\<rparr>"
    have l: "layout_parse (LENGTH_ENC F) ?data = Some ?l"
      using normal by (rule layout_parse_normal)
    have h: "length h = 2" using normal by (simp add: normal_length_def)
    have "validated_payload ?l ?data = (if c = checksum q then Some q else None)"
      using h by (simp add: validated_payload_def checksum_matches_iff length_checksum_def
          slice_opt_def SOF_def nth_append)
    from classify_data [OF _ _ l this]
      not_ack_error_frame [of h "length q" _ q c rest] normal(1) not_status_fault [OF nf len(1) c]
    have "classify F ?data = map_option (\<lambda>p. (Data p, frame_len ?l))
      (if c = checksum q then Some q else None)" by blast
    then show ?thesis using h by (simp add: frame_len_def SOF_def)
  next
    case (extended a b)
    let ?l = "\<lparr>fl_length = length q, length_bytes = [a, b], lcs = checksum [a, b], data_start = 8\<rparr>"
    have l: "layout_parse (LENGTH_ENC F) ?data = Some ?l"
      using extended layout_parse_extended [of h a b "LENGTH_ENC F"] by simp
    have h: "length h = 5" using extended by (simp add: extended_length_def framing_consts)
    have "validated_payload ?l ?data = (if c = checksum q then Some q else None)"
      using h by (simp add: validated_payload_def checksum_matches_iff
          slice_opt_def SOF_def nth_append)
    from classify_data [OF _ _ l this]
      not_ack_error_frame [of h _ "[a, b]" q c rest] extended(1) not_status_fault [OF nf len(1) c]
    have "classify F ?data = map_option (\<lambda>p. (Data p, frame_len ?l))
      (if c = checksum q then Some q else None)" by blast
    then show ?thesis using h by (simp add: frame_len_def SOF_def)
  qed
qed

lemma build_eq_Some:
  "build F p = Some f \<longleftrightarrow>
    (\<exists>h. push_length (length p) (LENGTH_ENC F) = Some h \<and>
      f = \<lparr>raw = SOF @ h @ p @ [checksum p, POSTAMBLE], frame_type = Data p\<rparr>)"
  by (auto simp: build_def bind_eq_Some_conv)

lemma frame_roundtrip:
  assumes "build F p = Some f" and "length p < 65536" and "no_fault F p"
  shows "parse F (raw f @ rest) = Some f"
proof -
  from assms(1) obtain h where h: "push_length (length p) (LENGTH_ENC F) = Some h"
    and f: "f = \<lparr>raw = SOF @ h @ p @ [checksum p, POSTAMBLE], frame_type = Data p\<rparr>"
    by (auto simp: build_eq_Some)
  have "checksum [] = 0" by (simp add: checksum_eq)
  then show ?thesis
    using classify_frame [OF h assms(2,3), of "checksum p" rest] f
    by (simp add: parse_def)
qed

text \<open>Swapping the body of a frame for another of the same length but another byte sum.\<close>

lemma frame_corrupted:
  assumes "build F p = Some f" and "length p < 65536" and "no_fault F q"
    and "length q = length p" and "sum_list q \<noteq> sum_list p"
  shows "raw f = SOF @ h @ p @ t \<Longrightarrow> length t = 2 \<Longrightarrow> parse F (SOF @ h @ q @ t @ rest) = None"
proof -
  assume r: "raw f = SOF @ h @ p @ t" and t: "length t = 2"
  from assms(1) obtain h' where h: "push_length (length p) (LENGTH_ENC F) = Some h'"
    and f: "raw f = SOF @ h' @ p @ [checksum p, POSTAMBLE]"
    by (auto simp: build_eq_Some)
  from r f t have "length h = length h'"
    by (auto dest!: arg_cong [where f = length])
  with r f have ht: "h = h'" "t = [checksum p, POSTAMBLE]" by simp_all
  have "q \<noteq> []" using assms(4,5) by auto
  then show ?thesis
    using classify_frame [of q F h "checksum p" rest] h ht assms(2-5)
    by (simp add: parse_def checksum_eq)
qed

section \<open>Only well-formed frames are accepted\<close>

text \<open>The length fields the parser accepts for a body of \<open>n\<close> bytes.\<close>

definition wf_header :: "length_encoding \<Rightarrow> bytes \<Rightarrow> nat \<Rightarrow> bool" where
  "wf_header enc h n \<longleftrightarrow>
     (\<exists>l. h = [l, length_checksum l] \<and> unat l = n) \<or>
     (enc \<noteq> Normal \<and> (\<exists>a b. h = extended_length [a, b] \<and> unat (extended_length_value enc a b) = n))"

lemma has_sofE:
  assumes "has_sof data" obtains d where "data = SOF @ d"
  using assms by (metis append_take_drop_id drop0 diff_zero has_sof_def slice_opt_eq_Some)

lemma take_two_tail:
  assumes "n \<le> length d" and "nth_opt d n = Some x" and "nth_opt d (Suc n) = Some y"
  shows "d = take n d @ [x, y] @ drop (n + 2) d"
proof -
  from assms have "Suc n < length d" by (simp add: nth_opt_eq_Some)
  with assms show ?thesis
    by (metis Cons_nth_drop_Suc Suc_lessD add_2_eq_Suc' append_Cons append_Nil append_take_drop_id
        nth_opt_Some option.inject)
qed

lemma validated_payload_sound:
  assumes "validated_payload l (pre @ d) = Some p" and "data_start l = length pre"
  shows "lcs l = checksum (length_bytes l) \<and> length p = fl_length l \<and>
    (\<exists>rest. d = p @ [checksum p, POSTAMBLE] @ rest)"
proof -
  from assms have l: "lcs l = checksum (length_bytes l)"
    and n: "fl_length l \<le> length d" and p: "p = take (fl_length l) d"
    and c: "nth_opt d (fl_length l) = Some (checksum p)"
    and z: "nth_opt d (Suc (fl_length l)) = Some POSTAMBLE"
    by (auto simp: validated_payload_def checksum_matches_iff Let_def bind_eq_Some_conv
        slice_opt_eq_Some split: if_splits)
  then show ?thesis
    using take_two_tail [OF n c z] by (auto simp: min_def)
qed

lemma layout_parse_sound:
  assumes "layout_parse enc (SOF @ d) = Some l" and "lcs l = checksum (length_bytes l)"
  obtains h d' where "d = h @ d'" and "data_start l = length (SOF @ h)"
    and "wf_header enc h (fl_length l)"
proof (cases "is_extended enc (SOF @ d)")
  case False
  with assms(1) obtain a b d' where "d = a # b # d'"
    and "l = \<lparr>fl_length = unat a, length_bytes = [a], lcs = b, data_start = 5\<rparr>"
    by (auto simp: layout_parse_def framing_consts bind_eq_Some_conv slice_opt_eq_Some
        nth_opt_eq_Some neq_Nil_conv Suc_le_eq length_Suc_conv less_Suc_eq_0_disj
        dest!: length_Suc_conv [THEN iffD1])
  then show ?thesis
    using assms(2) that [of "[a, b]" d']
    by (auto simp: wf_header_def length_checksum_def SOF_def)
next
  case True
  then have enc: "enc \<noteq> Normal" by auto
  from True enc have "slice_opt (SOF @ d) 3 5 = Some [0xFF, 0xFF]"
    by (cases enc) (auto simp: framing_consts)
  moreover from assms(1) True have "5 \<le> length d"
    by (auto simp: layout_parse_def framing_consts bind_eq_Some_conv nth_opt_eq_Some)
  then obtain x y a b c d' where "d = [x, y, a, b, c] @ d'"
    by (auto simp: Suc_le_length_iff numeral_eq_Suc)
  ultimately have "d = [0xFF, 0xFF, a, b, c] @ d'"
    and "l = \<lparr>fl_length = unat (extended_length_value enc a b), length_bytes = [a, b], lcs = c,
      data_start = 8\<rparr>"
    using assms(1) True
    by (auto simp: layout_parse_def framing_consts bind_eq_Some_conv slice_opt_def nth_opt_eq_Some)
  then show ?thesis
    using assms(2) enc that [of "[0xFF, 0xFF, a, b, c]" d']
    by (auto simp: wf_header_def extended_length_def framing_consts)
qed

lemma parse_sound:
  assumes "parse F data = Some f" and "frame_type f = Data p"
  shows "\<exists>h rest. data = raw f @ rest \<and> raw f = SOF @ h @ p @ [checksum p, POSTAMBLE] \<and>
    wf_header (LENGTH_ENC F) h (length p)"
proof -
  from assms obtain d n where d: "data = SOF @ d" and c: "classify F data = Some (Data p, n)"
    and raw: "raw f = take n data"
    by (auto simp: parse_def bind_eq_Some_conv elim!: has_sofE split: if_splits)
  from c obtain l where l: "layout_parse (LENGTH_ENC F) data = Some l"
    and v: "validated_payload l data = Some p" and n: "n = frame_len l"
    by (auto simp: classify_def bind_eq_Some_conv split: if_splits)
  from v have "lcs l = checksum (length_bytes l)"
    by (auto simp: validated_payload_def checksum_matches_iff split: if_splits)
  with l d obtain h d' where h: "d = h @ d'" "data_start l = length (SOF @ h)"
    and w: "wf_header (LENGTH_ENC F) h (fl_length l)"
    by (auto elim: layout_parse_sound)
  from validated_payload_sound [of l "SOF @ h" d' p] v d h obtain rest where
    "length p = fl_length l" and "d' = p @ [checksum p, POSTAMBLE] @ rest"
    by auto
  then show ?thesis
    using d h w raw n by (intro exI [of _ h] exI [of _ rest]) (simp add: frame_len_def)
qed

section \<open>The stream interface\<close>

text \<open>
  What the drivers rely on when they cut frames out of a byte stream: encoding a body and
  decoding the stream behind it returns the body and the length of its own frame.
  Frame sequences are then uniquely decodable.
\<close>

locale frame_stream =
  fixes encode :: "bytes \<Rightarrow> bytes option"
    and decode :: "bytes \<Rightarrow> (bytes \<times> nat) option"
    and sendable :: "bytes \<Rightarrow> bool"
  assumes encode_sendable: "sendable p \<Longrightarrow> \<exists>r. encode p = Some r \<and> r \<noteq> []"
    and decode_encode: "sendable p \<Longrightarrow> encode p = Some r \<Longrightarrow> decode (r @ rest) = Some (p, length r)"
begin

fun send_all :: "bytes list \<Rightarrow> bytes" where
  "send_all [] = []"
| "send_all (p # ps) = (case encode p of None \<Rightarrow> [] | Some r \<Rightarrow> r @ send_all ps)"

lemma send_all_inj:
  "list_all sendable ps \<Longrightarrow> list_all sendable qs \<Longrightarrow> send_all ps = send_all qs \<Longrightarrow> ps = qs"
proof (induction ps arbitrary: qs)
  case Nil
  then show ?case by (cases qs) (auto dest!: encode_sendable)
next
  case (Cons p ps)
  then obtain r where r: "encode p = Some r" "r \<noteq> []"
    using encode_sendable by auto
  with Cons.prems obtain q qs' where qs: "qs = q # qs'" by (cases qs) auto
  with Cons.prems obtain r' where r': "encode q = Some r'"
    using encode_sendable by fastforce
  from Cons.prems qs r r' have eq: "r @ send_all ps = r' @ send_all qs'" by simp
  from decode_encode [of p r "send_all ps"] decode_encode [of q r' "send_all qs'"] Cons.prems qs r r' eq
  have "p = q" by simp
  with r r' eq have "send_all ps = send_all qs'" by simp
  with Cons.IH Cons.prems qs \<open>p = q\<close> show ?case by simp
qed

end

definition encode_frame :: "frame_format \<Rightarrow> bytes \<Rightarrow> bytes option" where
  "encode_frame F p = map_option raw (build F p)"

definition decode_frame :: "frame_format \<Rightarrow> bytes \<Rightarrow> (bytes \<times> nat) option" where
  "decode_frame F data = do {
     f \<leftarrow> parse F data;
     p \<leftarrow> payload f;
     Some (p, length (raw f))
   }"

definition max_body :: "frame_format \<Rightarrow> nat" where
  "max_body F = (if LENGTH_ENC F = Normal then 256 else 65536)"

lemma build_sendable: "length p < max_body F \<Longrightarrow> \<exists>f. build F p = Some f \<and> raw f \<noteq> []"
  by (cases "LENGTH_ENC F") (auto simp: build_def max_body_def framing_consts)

lemma frame_stream_format:
  "frame_stream (encode_frame F) (decode_frame F) (\<lambda>p. length p < max_body F \<and> no_fault F p)"
proof
  fix p assume "length p < max_body F \<and> no_fault F p"
  then show "\<exists>r. encode_frame F p = Some r \<and> r \<noteq> []"
    using build_sendable [of p F] by (auto simp: encode_frame_def)
next
  fix p r rest assume p: "length p < max_body F \<and> no_fault F p" and "encode_frame F p = Some r"
  then obtain f where "build F p = Some f" "r = raw f" by (auto simp: encode_frame_def)
  moreover from this have "frame_type f = Data p" by (auto simp: build_eq_Some)
  moreover have "length p < 65536" using p by (simp add: max_body_def split: if_splits)
  ultimately show "decode_frame F (r @ rest) = Some (p, length r)"
    using p by (simp add: decode_frame_def frame_roundtrip)
qed

interpretation port100: frame_stream "encode_frame Port100Format" "decode_frame Port100Format"
    "\<lambda>p. length p < max_body Port100Format \<and> no_fault Port100Format p"
  by (rule frame_stream_format)

interpretation rcs320: frame_stream "encode_frame Rcs320Format" "decode_frame Rcs320Format"
    "\<lambda>p. length p < max_body Rcs320Format \<and> no_fault Rcs320Format p"
  by (rule frame_stream_format)

interpretation rcs956: frame_stream "encode_frame Rcs956Format" "decode_frame Rcs956Format"
    "\<lambda>p. length p < max_body Rcs956Format \<and> no_fault Rcs956Format p"
  by (rule frame_stream_format)

lemma byte_sum_bound: "sum_list (map unat (bs :: bytes)) \<le> 255 * length bs"
proof (induction bs)
  case (Cons b bs)
  then show ?case by (simp add: add_mono)
qed simp

section \<open>Properties\<close>

lemma sum_list_update_u8:
  "i < length p \<Longrightarrow> sum_list (p[i := b]) = sum_list p - p ! i + (b :: u8)"
proof (induction p arbitrary: i)
  case (Cons x p)
  then show ?case by (cases i) (simp_all add: algebra_simps)
qed simp

lemma list_update_middle:
  "i < length ys \<Longrightarrow> (xs @ ys @ zs)[length xs + i := b] = xs @ ys[i := b] @ zs"
  by (simp add: list_update_append)



text \<open>The parser accepts only well-formed frames: a data frame it returns is a prefix of the
  input made of the SOF, a length field with a correct checksum that states the body's length,
  the body, the body's checksum and the postamble.\<close>

theorem parse_well_formed:
  assumes "parse F data = Some f" and "frame_type f = Data p"
  shows "\<exists>h rest. data = raw f @ rest \<and> raw f = SOF @ h @ p @ [checksum p, POSTAMBLE] \<and>
    wf_header (LENGTH_ENC F) h (length p)"
  using assms by (rule parse_sound)

theorem parse_well_formed_witness:
  "\<exists>h rest. [0, 0, 0xFF, 1, 0xFF, 0xAA, 0x56, 0, 0x99] = SOF @ h @ [0xAA] @ [checksum [0xAA], POSTAMBLE] @ rest
     \<and> wf_header ExtendedLittleEndian h 1"
proof -
  let ?f = "\<lparr>raw = [0, 0, 0xFF, 1, 0xFF, 0xAA, 0x56, 0], frame_type = Data [0xAA]\<rparr>"
  have "parse Port100Format [0, 0, 0xFF, 1, 0xFF, 0xAA, 0x56, 0, 0x99] = Some ?f"
    by (simp add: parse_def has_sof_def classify_def layout_parse_def validated_payload_def
        framing_consts slice_opt_def Port100Format_def checksum_matches_iff checksum_eq frame_len_def)
  from parse_well_formed [OF this] obtain h rest where
    "[0, 0, 0xFF, 1, 0xFF, 0xAA, 0x56, 0, 0x99] = raw ?f @ rest"
    "raw ?f = SOF @ h @ [0xAA] @ [checksum [0xAA], POSTAMBLE]"
    "wf_header ExtendedLittleEndian h 1"
    by (auto simp: Port100Format_def)
  then show ?thesis by (metis append.assoc)
qed

text \<open>The checks detect corruption: a frame in which one body byte is replaced by a different one
  is rejected, whatever follows it on the wire.\<close>

theorem parse_rejects_corrupted_body:
  assumes "build F p = Some f" and "length p < 65536"
    and "i < length p" and "b \<noteq> p ! i" and "no_fault F (p[i := b])"
  shows "parse F ((raw f)[length (raw f) - 2 - length p + i := b] @ rest) = None"
proof -
  from assms(1) obtain h where r: "raw f = SOF @ h @ p @ [checksum p, POSTAMBLE]"
    by (auto simp: build_eq_Some)
  have k: "(raw f)[length (raw f) - 2 - length p + i := b]
      = SOF @ h @ p[i := b] @ [checksum p, POSTAMBLE]"
    using list_update_middle [OF assms(3), of "SOF @ h" "[checksum p, POSTAMBLE]" b]
    by (simp add: r add.assoc)
  have "sum_list (p[i := b]) \<noteq> sum_list p"
    using assms(3,4) by (simp add: sum_list_update_u8)
  from frame_corrupted [OF assms(1,2,5) _ this r] show ?thesis
    unfolding k by simp
qed

theorem parse_rejects_corrupted_body_witness:
  "\<exists>f. build Rcs956Format [0xD5, 0x03] = Some f \<and> parse Rcs956Format ((raw f)[5 := 0xD4]) = None"
proof -
  obtain f where f: "build Rcs956Format [0xD5, 0x03] = Some f"
    using build_sendable [of "[0xD5, 0x03]" Rcs956Format] by (auto simp: max_body_def Rcs956Format_def)
  then have "length (raw f) = 9"
    by (auto simp: build_eq_Some Rcs956Format_def framing_consts normal_length_def)
  with parse_rejects_corrupted_body [OF f, of 0 "0xD4" "[]"] f show ?thesis
    by (auto simp: no_fault_def Rcs956Format_def)
qed

text \<open>The \<open>u16\<close> sum behind the checksums stays in range for bodies of up to 257 bytes, so builds
  with and without overflow checks agree there; at 258 bytes a build with overflow checks can
  panic on a body that the extended length field can describe.\<close>

theorem checksum_no_overflow:
  "(length bs \<le> 257 \<longrightarrow> checksum_checked bs = Some (checksum bs)) \<and>
   checksum_checked (replicate 258 0xFF) = None"
proof (intro conjI impI)
  assume "length bs \<le> 257"
  then have "sum_list (map unat bs) < 65536"
    using byte_sum_bound [of bs] by linarith
  then show "checksum_checked bs = Some (checksum bs)" by (simp add: checksum_checked_def)
qed (simp add: checksum_checked_def sum_list_replicate)

theorem checksum_no_overflow_witness:
  "checksum_checked [0xD4, 0x02] = Some (checksum [0xD4, 0x02]) \<and> checksum [0xD4, 0x02] = 0x2A"
  using checksum_no_overflow [of "[0xD4, 0x02]"] by (simp add: checksum_eq)

end
