(* ===== verification/Port100_Chipset.thy ===== *)
theory Port100_Chipset
  imports Driver_Io Framing
begin

text \<open>
  The chipset of the NFC Port-100, \<open>src/driver/port100/chipset.rs\<close>: commands travel in frames, each is
  acknowledged and then answered, and a failed exchange is followed by a recovery. The chipset keeps what
  it knows of the reader's settings, so that a setting already in place is not written again.
\<close>

section \<open>Constants and state\<close>

definition IN_SET_PROTOCOL_DEFAULTS :: "(u8 \<times> u8) list" where
  "IN_SET_PROTOCOL_DEFAULTS =
     [(0x00, 0x18), (0x01, 0x01), (0x02, 0x01), (0x03, 0x00), (0x04, 0x00), (0x05, 0x00), (0x06, 0x00), (0x07, 0x08),
      (0x08, 0x00), (0x09, 0x00), (0x0A, 0x00), (0x0B, 0x00), (0x0C, 0x00), (0x0E, 0x04), (0x0F, 0x00), (0x10, 0x00),
      (0x11, 0x00), (0x12, 0x00), (0x13, 0x06)]"

definition TG_SET_PROTOCOL_DEFAULTS :: bytes where
  "TG_SET_PROTOCOL_DEFAULTS = [0x00, 0x01, 0x01, 0x01, 0x02, 0x07]"

definition RF_NOISE_RESISTANT_IMPROVEMENT :: "u8 \<times> u8 \<times> u8" where
  "RF_NOISE_RESISTANT_IMPROVEMENT = (0x1A, 0xC0, 0x40)"

definition IN_SET_RCT_SETTING_NUM_MAX :: nat where
  "IN_SET_RCT_SETTING_NUM_MAX = 16"

definition INITIATOR_PROTOCOL_KEYS :: nat where
  "INITIATOR_PROTOCOL_KEYS = 0x14"

definition LT_INFO_TABLE :: "bytes list" where
  "LT_INFO_TABLE =
     [[0, 0, 1, 1, 139, 91, 9, 236, 122, 221, 197, 129, 0, 151, 75, 95, 164, 118, 161, 213],
      [0, 1, 1, 0, 213, 159, 243, 133, 168, 199, 47, 105, 44, 65, 173, 1, 230, 180, 145, 103],
      [0, 6, 1, 0, 106, 206, 150, 130, 181, 221, 246, 214, 152, 205, 55, 232, 219, 31, 152, 186],
      [0, 8, 1, 0, 71, 212, 66, 85, 79, 225, 65, 241, 115, 21, 127, 202, 181, 114, 86, 210]]"

definition ACK_TIMEOUT :: nat where "ACK_TIMEOUT = millis 1000"
definition RESPONSE_TIMEOUT :: nat where "RESPONSE_TIMEOUT = millis 1500"

record 'w port100 = "'w channel" +
  firmware_version :: "u8 \<times> u8"
  initiator_bitrate :: "(string \<times> string) option"
  noise_resistance_attempted :: bool
  initiator_protocol :: "u8 option list"

type_synonym ('w, 'a) port100_op = "('w port100, 'a) driver_op"

section \<open>Frames\<close>

definition read_ack_frame :: "'w transport \<Rightarrow> ('w, unit) port100_op" where
  "read_ack_frame T =
     bindD (deadline_in T ACK_TIMEOUT) (\<lambda>deadline.
     bindD (read_exact T (length ACK_BYTES) deadline) (\<lambda>bytes.
     liftD (bindE (ok_or (parse Port100Format bytes) (Other ''invalid ack frame'')) (\<lambda>f.
            if frame_type f \<noteq> Ack then driver_other ''unexpected frame type'' else Inr ()))))"

definition read_frame_bytes :: "'w transport \<Rightarrow> nat \<Rightarrow> ('w, bytes) port100_op" where
  "read_frame_bytes T deadline =
     bindD (read_exact T 5 deadline) (\<lambda>frame.
     if slice_opt frame 0 3 \<noteq> Some SOF then liftD (driver_other ''invalid frame preamble'')
     else
       bindD (if frame ! 3 = 0xFF \<and> frame ! 4 = 0xFF
              then bindD (read_exact T 3 deadline) (\<lambda>extended.
                   liftD (Inr (frame @ extended, unat (u16_from_le (extended ! 0) (extended ! 1)))))
              else liftD (Inr (frame, unat (frame ! 3)))) (\<lambda>(frame, len).
       bindD (read_exact T (len + 2) deadline) (\<lambda>tail.
       liftD (Inr (frame @ tail)))))"

definition read_response_frame :: "'w transport \<Rightarrow> ('w, frame) port100_op" where
  "read_response_frame T =
     bindD (deadline_in T RESPONSE_TIMEOUT) (\<lambda>deadline.
     bindD (read_frame_bytes T deadline) (\<lambda>bytes.
     liftD (ok_or (parse Port100Format bytes) (Other ''invalid response frame''))))"

definition extract_response_payload :: "frame \<Rightarrow> u8 \<Rightarrow> driver_error + bytes" where
  "extract_response_payload f code =
     bindE (ok_or (payload f) (Other ''unexpected frame type'')) (\<lambda>p.
     if nth_opt p 0 = Some 0xD7 \<and> nth_opt p 1 = Some (code + 1) then Inr (drop 2 p)
     else driver_other ''unexpected response'')"

definition build_command_payload :: "u8 \<Rightarrow> bytes \<Rightarrow> bytes" where
  "build_command_payload code p = 0xD6 # code # p"

definition read_command_response :: "'w transport \<Rightarrow> u8 \<Rightarrow> ('w, bytes) port100_op" where
  "read_command_response T code =
     bindD (recover_on_error T ACK_BYTES False (read_ack_frame T)) (\<lambda>_.
     bindD (recover_on_error T ACK_BYTES True (read_response_frame T)) (\<lambda>response.
     liftD (extract_response_payload response code)))"

definition write_frame :: "'w transport \<Rightarrow> frame \<Rightarrow> ('w, unit) port100_op" where
  "write_frame T f = recover_on_error T ACK_BYTES False (write_transport T (raw f))"

text \<open>A payload too long for a frame makes the builder panic.\<close>

definition send_command :: "'w transport \<Rightarrow> u8 \<Rightarrow> bytes \<Rightarrow> ('w, bytes) port100_op" where
  "send_command T code p =
     (case build Port100Format (build_command_payload code p) of
        None \<Rightarrow> liftD (Inl (DriverPanicked ''frame payload too long''))
      | Some f \<Rightarrow>
          bindD (write_frame T f) (\<lambda>_.
          read_command_response T code))"

text \<open>A command whose answer is only a status.\<close>

definition status_command :: "'w transport \<Rightarrow> u8 \<Rightarrow> bytes \<Rightarrow> ('w, unit) port100_op" where
  "status_command T code p =
     bindD (send_command T code p) (\<lambda>rsp. liftD (ensure_status_ok (nth_opt rsp 0)))"

section \<open>Settings\<close>

definition forget_initiator_settings :: "('w, unit) port100_op" where
  "forget_initiator_settings =
     modifyD (\<lambda>c. c\<lparr>initiator_bitrate := None,
       initiator_protocol := replicate INITIATOR_PROTOCOL_KEYS None\<rparr>)"

definition initiator_param_index :: "string \<Rightarrow> u8 option" where
  "initiator_param_index name =
     map_of [(''initial_guard_time'', 0), (''add_crc'', 1), (''check_crc'', 2), (''multi_card'', 3),
       (''add_parity'', 4), (''check_parity'', 5), (''bitwise_anticoll'', 6), (''last_byte_bit_count'', 7),
       (''mifare_crypto'', 8), (''add_sof'', 9), (''check_sof'', 10), (''add_eof'', 11), (''check_eof'', 12),
       (''rfu'', 13), (''deaf_time'', 14), (''continuous_receive_mode'', 15), (''min_len_for_crm'', 16),
       (''type_1_tag_rrdd'', 17), (''rfca'', 18), (''guard_time'', 19)] name"

definition target_param_index :: "string \<Rightarrow> u8 option" where
  "target_param_index name =
     map_of [(''send_timeout_time_unit'', 0), (''rf_off_error'', 1), (''continuous_receive_mode'', 2)] name"

definition pair_bytes :: "(u8 \<times> u8) list \<Rightarrow> bytes" where
  "pair_bytes entries = concat (map (\<lambda>(k, v). [k, v]) entries)"

definition unknown_entries :: "u8 option list \<Rightarrow> (u8 \<times> u8) list \<Rightarrow> (u8 \<times> u8) list" where
  "unknown_entries known entries =
     filter (\<lambda>(k, v). Option.bind (nth_opt known (unat k)) id \<noteq> Some v) entries"

definition record_entries :: "u8 option list \<Rightarrow> (u8 \<times> u8) list \<Rightarrow> u8 option list" where
  "record_entries known entries = foldl (\<lambda>p (k, v). p[unat k := Some v]) known entries"

definition write_initiator_protocol :: "'w transport \<Rightarrow> (u8 \<times> u8) list \<Rightarrow> ('w, unit) port100_op" where
  "write_initiator_protocol T entries =
     bindD (readD (\<lambda>c. unknown_entries (initiator_protocol c) entries)) (\<lambda>entries.
     if entries = [] then liftD (Inr ())
     else
       bindD (status_command T 0x02 (pair_bytes entries)) (\<lambda>_.
       modifyD (\<lambda>c. c\<lparr>initiator_protocol := record_entries (initiator_protocol c) entries\<rparr>)))"

definition apply_initiator_defaults :: "'w transport \<Rightarrow> ('w, unit) port100_op" where
  "apply_initiator_defaults T = write_initiator_protocol T IN_SET_PROTOCOL_DEFAULTS"

definition configure_initiator :: "'w transport \<Rightarrow> (string \<times> u8) list \<Rightarrow> ('w, unit) port100_op" where
  "configure_initiator T params =
     bindD (liftD (mapE (\<lambda>(name, v).
         bindE (ok_or (initiator_param_index name) (Other (''invalid initiator protocol key '' @ name))) (\<lambda>k. Inr (k, v)))
       params)) (write_initiator_protocol T)"

definition configure_protocol ::
    "'w transport \<Rightarrow> u8 \<Rightarrow> bytes option \<Rightarrow> (string \<times> u8) list \<Rightarrow> (string \<Rightarrow> u8 option) \<Rightarrow> string \<Rightarrow> ('w, unit) port100_op" where
  "configure_protocol T command data params lookup key_kind =
     bindD (liftD (mapE (\<lambda>(name, v).
         bindE (ok_or (lookup name) (Other (''invalid '' @ key_kind @ '' '' @ name))) (\<lambda>k. Inr (k, v)))
       params)) (\<lambda>entries.
     let p = (case data of Some bytes \<Rightarrow> bytes | None \<Rightarrow> []) @ pair_bytes entries in
     if p = [] then liftD (Inr ()) else status_command T command p)"

definition tg_set_protocol :: "'w transport \<Rightarrow> bytes option \<Rightarrow> (string \<times> u8) list \<Rightarrow> ('w, unit) port100_op" where
  "tg_set_protocol T data params = configure_protocol T 0x42 data params target_param_index ''target key''"

definition apply_target_defaults :: "'w transport \<Rightarrow> ('w, unit) port100_op" where
  "apply_target_defaults T = tg_set_protocol T (Some TG_SET_PROTOCOL_DEFAULTS) []"

definition configure_target :: "'w transport \<Rightarrow> (string \<times> u8) list \<Rightarrow> ('w, unit) port100_op" where
  "configure_target T params = tg_set_protocol T None params"

section \<open>Device commands\<close>

definition set_command_type :: "'w transport \<Rightarrow> u8 \<Rightarrow> ('w, unit) port100_op" where
  "set_command_type T value =
     bindD (status_command T 0x2A [value]) (\<lambda>_. forget_initiator_settings)"

definition get_firmware_version :: "'w transport \<Rightarrow> u8 option \<Rightarrow> ('w, bytes) port100_op" where
  "get_firmware_version T opt = send_command T 0x20 (case opt of Some b \<Rightarrow> [b] | None \<Rightarrow> [])"

definition get_pd_data_version :: "'w transport \<Rightarrow> ('w, bytes) port100_op" where
  "get_pd_data_version T = send_command T 0x22 []"

definition get_property :: "'w transport \<Rightarrow> ('w, bytes) port100_op" where
  "get_property T = send_command T 0x24 []"

definition reset_device :: "'w transport \<Rightarrow> u16 \<Rightarrow> ('w, unit) port100_op" where
  "reset_device T startup_delay =
     bindD (send_command T 0x12 (u16_to_le startup_delay)) (\<lambda>_.
     bindD (write_transport T ACK_BYTES) (\<lambda>_.
     bindD (sleep T (millis (unat startup_delay + 500))) (\<lambda>_.
     forget_initiator_settings)))"

definition get_command_type :: "'w transport \<Rightarrow> ('w, 64 word) port100_op" where
  "get_command_type T =
     bindD (send_command T 0x28 []) (\<lambda>data.
     liftD (if length data \<ge> 8 then Inr (foldl (\<lambda>acc b. push_bit 8 acc OR ucast b) 0 (take 8 data))
            else driver_other ''short command type response''))"

definition switch_rf :: "'w transport \<Rightarrow> bool \<Rightarrow> ('w, unit) port100_op" where
  "switch_rf T on =
     bindD (status_command T 0x06 [if on then 1 else 0]) (\<lambda>_. forget_initiator_settings)"

section \<open>Register settings\<close>

text \<open>A slice that starts past the end panics.\<close>

definition take_rct_block :: "bytes \<Rightarrow> nat \<Rightarrow> driver_error + bytes" where
  "take_rct_block body offset =
     bindE (ok_or (nth_opt body offset) (Other ''RCT block count is missing'')) (\<lambda>count.
     let start = offset + 1 in
     ok_or (slice_opt body start (start + unat count * 3)) (Other ''RCT block is truncated''))"

text \<open>The first setting of the register, and whether the block has to be written back.\<close>

fun update_existing :: "bytes \<Rightarrow> u8 \<times> u8 \<times> u8 \<Rightarrow> (bool \<times> bytes) option" where
  "update_existing (r # m # v # rest) (r', m', v') =
     (if r \<noteq> r' \<or> m \<noteq> m'
      then map_option (\<lambda>(changed, settings). (changed, r # m # v # settings)) (update_existing rest (r', m', v'))
      else if v = v' then Some (False, r # m # v # rest)
      else Some (True, r # m # v' # rest))"
| "update_existing _ _ = None"

definition update_rct_setting :: "bytes \<Rightarrow> u8 \<times> u8 \<times> u8 \<Rightarrow> bool \<times> bytes" where
  "update_rct_setting settings entry =
     (case update_existing settings entry of
        Some updated \<Rightarrow> updated
      | None \<Rightarrow>
          if length settings div 3 \<ge> IN_SET_RCT_SETTING_NUM_MAX then (False, settings)
          else (case entry of (r, m, v) \<Rightarrow> (True, settings @ [r, m, v])))"

definition in_get_rct :: "'w transport \<Rightarrow> bytes \<Rightarrow> ('w, bytes \<times> bytes) port100_op" where
  "in_get_rct T info =
     bindD (send_command T 0x32 info) (\<lambda>rsp.
     bindD (liftD (ensure_status_ok (nth_opt rsp 0))) (\<lambda>_.
     if rsp = [] then liftD (Inl (DriverPanicked ''range start index 1 out of range''))
     else
       let body = drop 1 rsp in
       liftD (bindE (take_rct_block body 0) (\<lambda>send.
              bindE (take_rct_block body (1 + length send)) (\<lambda>receive.
              Inr (send, receive))))))"

definition in_set_rct :: "'w transport \<Rightarrow> bytes \<Rightarrow> bytes \<Rightarrow> bytes \<Rightarrow> ('w, unit) port100_op" where
  "in_set_rct T info send_setting receive_setting =
     status_command T 0x30
       (info @ [u8_of (length send_setting div 3)] @ send_setting
         @ [u8_of (length receive_setting div 3)] @ receive_setting)"

definition lt_info :: "'w transport \<Rightarrow> ('w, bytes) port100_op" where
  "lt_info T =
     bindD (get_property T) (\<lambda>property.
     bindD (liftD (ok_or (slice_opt property 14 16) (Other ''property block is too short''))) (\<lambda>model.
     bindD (get_pd_data_version T) (\<lambda>version.
     bindD (liftD (case version of
              low # high # _ \<Rightarrow> Inr [high, low]
            | _ \<Rightarrow> driver_other ''PD data version is too short'')) (\<lambda>version.
     liftD (ok_or (map_option (drop 4)
         (List.find (\<lambda>entry. take 2 entry = model \<and> take 2 (drop 2 entry) = version) LT_INFO_TABLE))
       (Other ''LT-Info unsupported reader/writer''))))))"

definition tune_felica_receive_settings :: "'w transport \<Rightarrow> ('w, unit) port100_op" where
  "tune_felica_receive_settings T =
     bindD (lt_info T) (\<lambda>info.
     bindD (in_get_rct T info) (\<lambda>(send_setting, receive_setting).
     let (changed, receive_setting) = update_rct_setting receive_setting RF_NOISE_RESISTANT_IMPROVEMENT in
     if \<not> changed then liftD (Inr ())
     else in_set_rct T info send_setting receive_setting))"

text \<open>A panic is no error that the caller could ignore.\<close>

fun is_panic :: "driver_error \<Rightarrow> bool" where
  "is_panic (DriverPanicked _) = True"
| "is_panic _ = False"

definition ignore_errors :: "('s, 'a) driver_op \<Rightarrow> ('s, unit) driver_op" where
  "ignore_errors m =
     tryD m (\<lambda>r. case r of
         Inl e \<Rightarrow> liftD (if is_panic e then Inl e else Inr ())
       | Inr _ \<Rightarrow> liftD (Inr ()))"

definition apply_felica_noise_resistance :: "'w transport \<Rightarrow> ('w, unit) port100_op" where
  "apply_felica_noise_resistance T =
     bindD (readD noise_resistance_attempted) (\<lambda>attempted.
     if attempted then liftD (Inr ())
     else
       bindD (modifyD (\<lambda>c. c\<lparr>noise_resistance_attempted := True\<rparr>)) (\<lambda>_.
       ignore_errors (tune_felica_receive_settings T)))"

section \<open>Radio\<close>

definition rf_settings :: "string \<Rightarrow> (u8 \<times> u8 \<times> u8 \<times> u8) option" where
  "rf_settings b =
     map_of [(''212F'', (1, 1, 15, 1)), (''424F'', (1, 2, 15, 2)), (''106A'', (2, 3, 15, 3)),
       (''212A'', (4, 4, 15, 4)), (''424A'', (5, 5, 15, 5)), (''106B'', (3, 7, 15, 7)),
       (''212B'', (3, 8, 15, 8)), (''424B'', (3, 9, 15, 9))] b"

definition set_initiator_rf :: "'w transport \<Rightarrow> string \<Rightarrow> string option \<Rightarrow> ('w, unit) port100_op" where
  "set_initiator_rf T bitrate_send bitrate_recv =
     (let recv = (case bitrate_recv of Some b \<Rightarrow> b | None \<Rightarrow> bitrate_send) in
      bindD (readD initiator_bitrate) (\<lambda>current.
      if current = Some (bitrate_send, recv) then liftD (Inr ())
      else
        bindD (liftD (ok_or (rf_settings bitrate_send) (Other (''unsupported bitrate '' @ bitrate_send)))) (\<lambda>(s0, s1, _, _).
        bindD (liftD (ok_or (rf_settings recv) (Other (''unsupported bitrate '' @ recv)))) (\<lambda>(_, _, r2, r3).
        bindD (status_command T 0x00 [s0, s1, r2, r3]) (\<lambda>_.
        bindD forget_initiator_settings (\<lambda>_.
        bindD (modifyD (\<lambda>c. c\<lparr>initiator_bitrate := Some (bitrate_send, recv)\<rparr>)) (\<lambda>_.
        if bitrate_send \<noteq> [] \<and> last bitrate_send = CHR ''F'' then apply_felica_noise_resistance T
        else liftD (Inr ()))))))))"

definition timeout_units :: "u16 \<Rightarrow> u16" where
  "timeout_units t = (if t > 0 then u16_of (min ((unat t + 1) * 10) 0xFFFF) else 0)"

definition initiator_exchange_rf :: "'w transport \<Rightarrow> bytes \<Rightarrow> u16 \<Rightarrow> ('w, bytes) port100_op" where
  "initiator_exchange_rf T data t =
     bindD (send_command T 0x04 (u16_to_le (timeout_units t) @ data)) (\<lambda>rsp.
     liftD (if length rsp \<ge> 4 \<and> take 4 rsp \<noteq> [0, 0, 0, 0] then
              Inl (Chipset (ChipsetFault (case fault_from_status (take 4 rsp) of
                  Some f \<Rightarrow> f | None \<Rightarrow> CommunicationFault 0)))
            else Inr (drop 5 rsp)))"

definition set_target_rf :: "'w transport \<Rightarrow> string \<Rightarrow> ('w, unit) port100_op" where
  "set_target_rf T comm_type =
     bindD (liftD (ok_or (map_of [(''106A'', (8, 11)), (''212F'', (8, 12)), (''424F'', (8, 13)),
         (''212A'', (8, 14)), (''424A'', (8, 15))] comm_type) (Other (''unsupported comm type '' @ comm_type)))) (\<lambda>(a, b).
     bindD (status_command T 0x40 [a, b]) (\<lambda>_. forget_initiator_settings))"

definition pad_to :: "nat \<Rightarrow> bytes \<Rightarrow> bytes" where
  "pad_to n bs = take n bs @ replicate (n - length bs) 0"

definition flag_byte :: "bool \<Rightarrow> u8" where
  "flag_byte b = (if b then 1 else 0)"

definition target_exchange_rf ::
    "'w transport \<Rightarrow> u16 \<Rightarrow> u16 \<Rightarrow> bool \<Rightarrow> bytes \<Rightarrow> bytes \<Rightarrow> bool \<Rightarrow> bool \<Rightarrow> u16 \<Rightarrow> bytes option \<Rightarrow> ('w, bytes) port100_op" where
  "target_exchange_rf T guard_time send_timeout mdaa nfca_params nfcf_params mf_halted arae recv_timeout transmit_data =
     bindD (send_command T 0x48
         (u16_to_le guard_time @ u16_to_le send_timeout @ [flag_byte mdaa] @ pad_to 6 nfca_params
           @ pad_to 18 nfcf_params @ [flag_byte mf_halted, flag_byte arae] @ u16_to_le recv_timeout
           @ (case transmit_data of Some data \<Rightarrow> data | None \<Rightarrow> []))) (\<lambda>rsp.
     liftD (if length rsp \<ge> 7 \<and> take 4 (drop 3 rsp) \<noteq> [0, 0, 0, 0] then
              (case fault_from_status (take 4 (drop 3 rsp)) of
                 Some f \<Rightarrow> Inl (Chipset (ChipsetFault f)) | None \<Rightarrow> Inr rsp)
            else Inr rsp))"

section \<open>Opening and closing\<close>

partial_function (option) clear_garbage :: "'w transport \<Rightarrow> (('w, 'z) channel_scheme, unit) driver_op" where
  "clear_garbage T c =
     (case tr_read T (millis 10) (ch_world c) of
        (Inr _, w) \<Rightarrow> clear_garbage T (c\<lparr>ch_world := w\<rparr>)
      | (Inl _, w) \<Rightarrow> Some (Inr (), c\<lparr>ch_world := w\<rparr>))"

definition port100_new :: "'w \<Rightarrow> 'w port100" where
  "port100_new w = \<lparr>ch_world = w, ch_buffer = [], firmware_version = (0, 0), initiator_bitrate = None,
     noise_resistance_attempted = False, initiator_protocol = replicate INITIATOR_PROTOCOL_KEYS None\<rparr>"

text \<open>Command type 1, or 0 on a reader that rejects it.\<close>

definition negotiate_command_type :: "'w transport \<Rightarrow> ('w, unit) port100_op" where
  "negotiate_command_type T =
     tryD (set_command_type T 1) (\<lambda>r. case r of
         Inr _ \<Rightarrow> liftD (Inr ())
       | Inl (Chipset (ChipsetStatus _)) \<Rightarrow> set_command_type T 0
       | Inl e \<Rightarrow> liftD (Inl e))"

text \<open>The state the chipset starts in is \<open>port100_new\<close> of the transport.\<close>

definition chipset_new :: "'w transport \<Rightarrow> ('w, unit) port100_op" where
  "chipset_new T =
     bindD (write_transport T ACK_BYTES) (\<lambda>_.
     bindD (clear_garbage T) (\<lambda>_.
     bindD (negotiate_command_type T) (\<lambda>_.
     bindD (get_firmware_version T (Some 0x60)) (\<lambda>version.
     if length version < 2 then liftD (Inl (DriverPanicked ''index out of bounds''))
     else
       bindD (modifyD (\<lambda>c. c\<lparr>firmware_version := (version ! 0, version ! 1)\<rparr>)) (\<lambda>_.
       bindD (get_pd_data_version T) (\<lambda>_.
       switch_rf T False))))))"

definition chipset_close :: "'w transport \<Rightarrow> ('w, unit) port100_op" where
  "chipset_close T =
     bindD (switch_rf T False) (\<lambda>_.
     bindD (write_transport T ACK_BYTES) (\<lambda>_.
     close_transport T))"

section \<open>Commands over a byte stream\<close>

lemma wf_header_cases:
  assumes "wf_header ExtendedLittleEndian h n"
  obtains (normal) l where "h = [l, length_checksum l]" and "unat l = n" and "\<not> (l = 0xFF \<and> length_checksum l = 0xFF)"
  | (extended) a b x where "h = [0xFF, 0xFF, a, b, x]" and "unat (u16_from_le a b) = n"
proof -
  from assms consider l where "h = [l, length_checksum l]" "unat l = n"
    | a b where "h = extended_length [a, b]" "unat (u16_from_le a b) = n"
    by (auto simp: wf_header_def)
  then show thesis
  proof cases
    case 1
    have "\<not> (l = 0xFF \<and> length_checksum l = 0xFF)"
      using length_checksum_neq_FF [of "255"] by (auto simp: u8_of_def)
    with 1 normal show thesis by blast
  next
    case 2
    then show thesis using extended by (simp add: extended_length_def framing_consts)
  qed
qed

text \<open>Cutting a frame out of the stream, whatever form its length has.\<close>

lemma read_frame_bytes_available:
  assumes "parse Port100Format bs = Some g" and "raw g = bs" and "frame_type g = Data p"
    and "available T d c (bs @ rest)"
  obtains c' where "read_frame_bytes T d c = Some (Inr bs, c')" and "available T d c' rest" and "after_reading T c c'"
proof -
  from parse_sound [OF assms(1,3)] assms(2) obtain h where
    bs: "bs = SOF @ h @ p @ [checksum p, POSTAMBLE]" and wf: "wf_header ExtendedLittleEndian h (length p)"
    by (auto simp: Port100Format_def)
  let ?tail = "p @ [checksum p, POSTAMBLE]"
  from wf show thesis
  proof (cases rule: wf_header_cases)
    case (normal l)
    from assms(4) bs normal have "available T d c ((SOF @ [l, length_checksum l]) @ ?tail @ rest)" by simp
    then obtain c1 where c1: "read_exact T 5 d c = Some (Inr ((SOF @ [l, length_checksum l])), c1)"
      and a1: "available T d c1 (?tail @ rest)" and s1: "after_reading T c c1"
      by (rule read_stream [where n = 5]) (simp add: SOF_def, blast)
    from a1 obtain c2 where c2: "read_exact T (unat l + 2) d c1 = Some (Inr (?tail), c2)"
      and a2: "available T d c2 rest" and s2: "after_reading T c1 c2"
      by (rule read_stream [where n = "unat l + 2"]) (simp add: normal, blast)
    have "read_frame_bytes T d c = Some (Inr bs, c2)"
      using normal(3) by (auto simp: read_frame_bytes_def bindD_Inr c1 SOF_def slice_opt_def bs normal(1) c2 [simplified])
    with a2 after_reading_trans [OF s1 s2] show thesis by (intro that)
  next
    case (extended a b x)
    from assms(4) bs extended have "available T d c ((SOF @ [0xFF, 0xFF]) @ [a, b, x] @ ?tail @ rest)" by simp
    then obtain c1 where c1: "read_exact T 5 d c = Some (Inr ((SOF @ [0xFF, 0xFF])), c1)"
      and a1: "available T d c1 ([a, b, x] @ ?tail @ rest)" and s1: "after_reading T c c1"
      by (rule read_stream [where n = 5]) (simp add: SOF_def, blast)
    from a1 obtain c2 where c2: "read_exact T 3 d c1 = Some (Inr ([a, b, x]), c2)"
      and a2: "available T d c2 (?tail @ rest)" and s2: "after_reading T c1 c2"
      by (rule read_stream [where n = 3]) (simp, blast)
    from a2 obtain c3 where c3: "read_exact T (unat (u16_from_le a b) + 2) d c2 = Some (Inr (?tail), c3)"
      and a3: "available T d c3 rest" and s3: "after_reading T c2 c3"
      by (rule read_stream [where n = "unat (u16_from_le a b) + 2"]) (simp add: extended, blast)
    have "read_frame_bytes T d c = Some (Inr bs, c3)"
      by (simp add: read_frame_bytes_def bindD_Inr c1 c2 c3 [simplified] SOF_def slice_opt_def bs extended(1))
    with a3 after_reading_trans [OF after_reading_trans [OF s1 s2] s3] show thesis by (intro that)
  qed
qed

lemma recover_on_success: "m c = Some (Inr x, c') \<Longrightarrow> recover_on_error T a b m c = Some (Inr x, c')"
  by (simp add: recover_on_error_def tryD_def)

lemma read_ack_available:
  assumes "available T (tr_now T (ch_world c) + ACK_TIMEOUT) c (ACK_BYTES @ rest)"
  obtains c' where "read_ack_frame T c = Some (Inr (), c')"
    and "available T (tr_now T (ch_world c) + ACK_TIMEOUT) c' rest" and "after_reading T c c'"
proof -
  have ack: "parse Port100Format ACK_BYTES = Some ack"
    by (simp add: parse_def has_sof_def classify_def framing_consts slice_opt_def ack_def)
  from assms obtain c' where c':
    "read_exact T (length ACK_BYTES) (tr_now T (ch_world c) + ACK_TIMEOUT) c = Some (Inr (ACK_BYTES), c')"
    and a: "available T (tr_now T (ch_world c) + ACK_TIMEOUT) c' rest" "after_reading T c c'"
    by (rule read_stream [where n = "length ACK_BYTES"]) (simp, blast)
  have "read_ack_frame T c = Some (Inr (), c')"
    by (simp add: read_ack_frame_def deadline_in_def bindD_Inr c' ack) (simp add: ack_def)
  with a show thesis by (intro that)
qed

lemma command_answered:
  assumes "build Port100Format (build_command_payload code p) = Some f"
    and "tr_write T (raw f) (ch_world c) = (Inr (), w)"
    and "parse Port100Format bs = Some g" and "raw g = bs" and "frame_type g = Data (0xD7 # (code + 1) # rsp)"
    and "d = tr_now T w + ACK_TIMEOUT" and "available T d (c\<lparr>ch_world := w\<rparr>) (ACK_BYTES @ bs @ rest)"
  obtains c' where "send_command T code p c = Some (Inr rsp, c')" and "\<exists>d' \<ge> d. available T d' c' rest" and "same_chipset c c'"
proof -
  let ?c = "c\<lparr>ch_world := w\<rparr>"
  from assms(6,7) have start: "available T (tr_now T (ch_world ?c) + ACK_TIMEOUT) ?c (ACK_BYTES @ bs @ rest)" by simp
  from read_ack_available [OF this] obtain c1 where ack: "read_ack_frame T ?c = Some (Inr (), c1)"
    and a1: "available T d c1 (bs @ rest)" and s1: "after_reading T ?c c1"
    using assms(6) by auto
  let ?d = "tr_now T (ch_world c1) + RESPONSE_TIMEOUT"
  have later: "d \<le> ?d"
    using s1 assms(6) by (simp add: after_reading_def ACK_TIMEOUT_def RESPONSE_TIMEOUT_def millis_def)
  from read_frame_bytes_available [OF assms(3-5) available_later [OF a1 later]] obtain c2 where
    frame: "read_frame_bytes T ?d c1 = Some (Inr bs, c2)" and a2: "available T ?d c2 rest" and s2: "after_reading T c1 c2"
    by blast
  have "read_response_frame T c1 = Some (Inr g, c2)"
    by (simp add: read_response_frame_def deadline_in_def bindD_def frame assms(3))
  then have "recover_on_error T ACK_BYTES True (read_response_frame T) c1 = Some (Inr g, c2)"
    by (rule recover_on_success)
  moreover have "recover_on_error T ACK_BYTES False (read_ack_frame T) ?c = Some (Inr (), c1)"
    using ack by (rule recover_on_success)
  ultimately have "read_command_response T code ?c = Some (Inr rsp, c2)"
    using assms(5) by (simp add: read_command_response_def bindD_def extract_response_payload_def)
  moreover have "write_frame T f c = Some (Inr (), ?c)"
    unfolding write_frame_def using assms(2)
    by (intro recover_on_success) (simp add: write_transport_def)
  ultimately have "send_command T code p c = Some (Inr rsp, c2)"
    by (simp add: send_command_def assms(1) bindD_Inr)
  moreover have "same_chipset c c2"
    using s1 s2 unfolding after_reading_def by (metis same_chipset_trans [OF same_chipset_update(1) same_chipset_trans])
  ultimately show thesis using a2 later by (intro that) auto
qed

section \<open>What is known of the reader's settings\<close>

lemma channel_only_send_command [channel_only_intros]: "channel_only (send_command T code p :: ('w, bytes) port100_op)"
proof -
  have frame: "channel_only (read_frame_bytes T d :: ('w, bytes) port100_op)" for d
    unfolding read_frame_bytes_def by (intro channel_only_intros) (auto intro!: channel_only_intros)
  have ack: "channel_only (read_ack_frame T :: ('w, unit) port100_op)"
    and resp: "channel_only (read_response_frame T :: ('w, frame) port100_op)"
    unfolding read_ack_frame_def read_response_frame_def by (intro channel_only_intros frame)+
  show ?thesis
    unfolding send_command_def write_frame_def read_command_response_def
    by (auto intro!: channel_only_intros ack resp split: option.splits)
qed

lemma channel_only_status_command [channel_only_intros]: "channel_only (status_command T code p :: ('w, unit) port100_op)"
  unfolding status_command_def by (intro channel_only_intros)

lemma same_chipset_port100:
  "same_chipset (c :: 'w port100) c' \<Longrightarrow> initiator_protocol c' = initiator_protocol c \<and> initiator_bitrate c' = initiator_bitrate c"
  by (auto simp: same_chipset_def)

lemma length_record_entries [simp]: "length (record_entries known es) = length known"
  unfolding record_entries_def by (induction es arbitrary: known) auto

lemma record_entries_other:
  "k \<notin> fst ` set es \<Longrightarrow> record_entries known es ! unat k = known ! unat k"
proof (induction es arbitrary: known)
  case (Cons e es)
  then have "unat (fst e) \<noteq> unat k" by (auto simp: word_unat_eq_iff)
  with Cons show ?case by (cases e) (simp add: record_entries_def)
qed (simp add: record_entries_def)

lemma record_entries_known:
  assumes "distinct (map fst es)" and "(k, v) \<in> set es" and "unat k < length known"
  shows "record_entries known es ! unat k = Some v"
  using assms
proof (induction es arbitrary: known)
  case (Cons e es)
  show ?case
  proof (cases "e = (k, v)")
    case True
    with Cons.prems have "record_entries (known[unat k := Some v]) es ! unat k = Some v"
      by (subst record_entries_other) force+
    with True show ?thesis by (simp add: record_entries_def)
  next
    case False
    with Cons.prems show ?thesis
      using Cons.IH [of "known[unat (fst e) := Some (snd e)]"] by (cases e) (auto simp: record_entries_def)
  qed
qed simp

lemma nothing_unknown:
  assumes "distinct (map fst es)" and "\<forall>(k, v) \<in> set es. unat k < length known"
  shows "unknown_entries (record_entries known (unknown_entries known es)) es = []"
proof -
  let ?new = "unknown_entries known es"
  have "nth_opt (record_entries known ?new) (unat k) = Some (Some v)" if e: "(k, v) \<in> set es" for k v
  proof -
    have k: "unat k < length known" using assms(2) e by auto
    show ?thesis
    proof (cases "(k, v) \<in> set ?new")
      case True
      moreover have "distinct (map fst ?new)"
        unfolding unknown_entries_def using assms(1) by (rule distinct_map_filter)
      ultimately show ?thesis using k by (simp add: nth_opt_eq_Some record_entries_known)
    next
      case False
      with e have "known ! unat k = Some v"
        using k by (auto simp: unknown_entries_def)
      moreover have "k \<notin> fst ` set ?new"
      proof
        assume "k \<in> fst ` set ?new"
        then obtain v' where v': "(k, v') \<in> set ?new" by force
        with e assms(1) have "v' = v" by (auto simp: unknown_entries_def dest: eq_key_imp_eq_value)
        with v' False show False by simp
      qed
      ultimately show ?thesis using k by (simp add: record_entries_other)
    qed
  qed
  then show ?thesis by (auto simp: unknown_entries_def filter_empty_conv)
qed

lemma written_entries_known:
  assumes "write_initiator_protocol T es c = Some (Inr (), c')"
  shows "initiator_protocol c' = record_entries (initiator_protocol c) (unknown_entries (initiator_protocol c) es)"
proof (cases "unknown_entries (initiator_protocol c) es = []")
  case True
  with assms show ?thesis by (simp add: write_initiator_protocol_def record_entries_def)
next
  case False
  with assms obtain c1 where "status_command T 0x02 (pair_bytes (unknown_entries (initiator_protocol c) es)) c = Some (Inr (), c1)"
    and "c' = c1\<lparr>initiator_protocol := record_entries (initiator_protocol c1) (unknown_entries (initiator_protocol c) es)\<rparr>"
    by (auto simp: write_initiator_protocol_def bindD_eq_Inr)
  with same_chipset_port100 [OF channel_onlyD [OF channel_only_status_command this(1)]] show ?thesis by simp
qed

lemma protocol_written_once:
  assumes "write_initiator_protocol T es c = Some (Inr (), c')" and "distinct (map fst es)"
    and "\<forall>(k, v) \<in> set es. unat k < length (initiator_protocol c)"
  shows "write_initiator_protocol T es c' = Some (Inr (), c')"
  using nothing_unknown [OF assms(2,3)] written_entries_known [OF assms(1)]
  by (simp add: write_initiator_protocol_def)

lemma noise_resistance_keeps_settings:
  assumes "apply_felica_noise_resistance T c = Some (r, c')"
  shows "initiator_protocol c' = initiator_protocol c \<and> initiator_bitrate c' = initiator_bitrate c"
proof -
  have "channel_only (ignore_errors (tune_felica_receive_settings T))"
    unfolding ignore_errors_def tune_felica_receive_settings_def lt_info_def in_get_rct_def in_set_rct_def
      get_property_def get_pd_data_version_def
    by (auto intro!: channel_only_intros split: sum.splits prod.splits simp: Let_def)
  from same_chipset_port100 [OF channel_onlyD [OF this]] assms show ?thesis
    by (fastforce simp: apply_felica_noise_resistance_def split: if_splits)
qed

lemma rf_set_once:
  assumes "set_initiator_rf T s r c = Some (Inr (), c')" and "b = (s, case r of Some b \<Rightarrow> b | None \<Rightarrow> s)"
  shows "initiator_bitrate c' = Some b"
    and "initiator_bitrate c \<noteq> Some b \<Longrightarrow> initiator_protocol c' = replicate INITIATOR_PROTOCOL_KEYS None"
    and "set_initiator_rf T s r c' = Some (Inr (), c')"
proof -
  have "initiator_bitrate c' = Some b \<and>
    (initiator_bitrate c \<noteq> Some b \<longrightarrow> initiator_protocol c' = replicate INITIATOR_PROTOCOL_KEYS None)"
  proof (cases "initiator_bitrate c = Some b")
    case True
    with assms show ?thesis by (simp add: set_initiator_rf_def Let_def)
  next
    case False
    let ?set = "\<lambda>c. c\<lparr>initiator_protocol := replicate INITIATOR_PROTOCOL_KEYS None, initiator_bitrate := Some b\<rparr>"
    from False assms obtain c1 where "c' = ?set c1 \<or> apply_felica_noise_resistance T (?set c1) = Some (Inr (), c')"
      by (clarsimp simp: set_initiator_rf_def Let_def bindD_eq_Inr forget_initiator_settings_def split: if_splits) blast+
    with noise_resistance_keeps_settings [of T "?set c1" "Inr ()" c'] False show ?thesis by auto
  qed
  then show "initiator_bitrate c' = Some b"
    and "initiator_bitrate c \<noteq> Some b \<Longrightarrow> initiator_protocol c' = replicate INITIATOR_PROTOCOL_KEYS None"
    and "set_initiator_rf T s r c' = Some (Inr (), c')"
    using assms(2) by (simp_all add: set_initiator_rf_def Let_def)
qed

section \<open>Faults of the reader\<close>

text \<open>
  An empty answer to the register command, or a firmware version of less than two bytes, makes the driver
  panic although errors of the receive tuning are meant to be ignored.
\<close>

lemma empty_rct_answer_panics:
  assumes "send_command T 0x32 info c = Some (Inr [], c')"
  shows "in_get_rct T info c = Some (Inl (DriverPanicked ''range start index 1 out of range''), c')"
  using assms by (simp add: in_get_rct_def bindD_Inr nth_opt_def ensure_status_ok_def)

section \<open>Properties\<close>

text \<open>
  A command whose answer arrives is answered: however the transport cuts the acknowledgement and the
  response frame into chunks, and whatever follows them, the command returns the body of the response, keeps
  what follows in the stream and changes nothing else of the chipset.
\<close>

theorem command_over_stream:
  assumes "build Port100Format (build_command_payload code p) = Some f"
    and "tr_write T (raw f) (ch_world c) = (Inr (), w)"
    and "parse Port100Format bs = Some g" and "raw g = bs" and "frame_type g = Data (0xD7 # (code + 1) # rsp)"
    and "d = tr_now T w + ACK_TIMEOUT" and "available T d (c\<lparr>ch_world := w\<rparr>) (ACK_BYTES @ bs @ rest)"
  shows "\<exists>c'. send_command T code p c = Some (Inr rsp, c') \<and> (\<exists>d' \<ge> d. available T d' c' rest) \<and> same_chipset c c'"
  using command_answered [OF assms] by blast

text \<open>
  Settings are written once: after a successful write of protocol settings (each key at most once) or of
  the speed of the radio, the same call succeeds again without any command; a new speed forgets the
  protocol settings, which the reader then no longer holds.
\<close>

theorem settings_written_once:
  assumes "distinct (map fst es)" and "\<forall>(k, v) \<in> set es. unat k < length (initiator_protocol c)"
    and "write_initiator_protocol T es c = Some (Inr (), c1)" and "set_initiator_rf T s r c1 = Some (Inr (), c2)"
  shows "write_initiator_protocol T es c1 = Some (Inr (), c1) \<and> set_initiator_rf T s r c2 = Some (Inr (), c2) \<and>
    (initiator_bitrate c1 \<noteq> initiator_bitrate c2 \<longrightarrow> initiator_protocol c2 = replicate INITIATOR_PROTOCOL_KEYS None)"
  using protocol_written_once [OF assms(3,1,2)] rf_set_once [OF assms(4) refl] by auto

section \<open>Witnesses\<close>

definition demo_response :: bytes where
  "demo_response = [0x00, 0x00, 0xFF, 0xFF, 0xFF, 0x04, 0x00, 0xFC, 0xD7, 0x21, 0x11, 0x01, 0xF6, 0x00]"

theorem command_over_stream_witness:
  "\<exists>c'. send_command dummy 0x20 [0x60]
      (port100_new (with_reads (map Inr [[0x00, 0x00], [0xFF, 0x00, 0xFF, 0x00, 0x00], tl demo_response @ [0x55]])))
    = Some (Inr [0x11, 0x01], c')"
proof -
  let ?chunks = "[[0x00, 0x00], [0xFF, 0x00, 0xFF, 0x00, 0x00], tl demo_response @ [0x55]] :: bytes list"
  let ?c = "port100_new (with_reads (map Inr ?chunks))"
  obtain f where f: "build Port100Format (build_command_payload 0x20 [0x60]) = Some f"
    by (simp add: build_eq_Some build_command_payload_def Port100Format_def)
  have g: "parse Port100Format demo_response = Some \<lparr>raw = demo_response, frame_type = Data [0xD7, 0x21, 0x11, 0x01]\<rparr>"
    by (simp add: parse_def demo_response_def has_sof_def classify_def layout_parse_def validated_payload_def
        framing_consts slice_opt_def Port100Format_def checksum_matches_iff checksum_eq frame_len_def u16_from_le_def)
  let ?w = "ch_world ?c\<lparr>dt_writes := [raw f]\<rparr>"
  have w: "tr_write dummy (raw f) (ch_world ?c) = (Inr (), ?w)"
    by (simp add: dummy_def port100_new_def with_reads_def)
  have "offers dummy ACK_TIMEOUT ?w (concat ?chunks)"
    by (rule dummy_offers [of _ _ "[]"]) (simp_all add: port100_new_def with_reads_def ACK_TIMEOUT_def millis_def)
  then have "available dummy (tr_now dummy ?w + ACK_TIMEOUT) (?c\<lparr>ch_world := ?w\<rparr>) (ACK_BYTES @ demo_response @ [0x55])"
    by (simp add: available_def port100_new_def with_reads_def dummy_def ACK_BYTES_def demo_response_def)
  from command_over_stream [OF f w g _ _ refl this] show ?thesis by auto
qed


definition demo_chipset :: "dummy_transport port100" where
  "demo_chipset = port100_new (with_reads (map Inr
     [ACK_BYTES, [0x00, 0x00, 0xFF, 0x03, 0xFD, 0xD7, 0x03, 0x00, 0x26, 0x00],
      ACK_BYTES, [0x00, 0x00, 0xFF, 0x03, 0xFD, 0xD7, 0x01, 0x00, 0x28, 0x00]]))"

definition result_state :: "((driver_error + 'a) \<times> 's) option \<Rightarrow> 's" where
  "result_state r = snd (the r)"

lemmas port100_script_simps = script_simps demo_chipset_def port100_new_def result_state_def write_initiator_protocol_def
  set_initiator_rf_def rf_settings_def forget_initiator_settings_def unknown_entries_def record_entries_def pair_bytes_def
  INITIATOR_PROTOCOL_KEYS_def status_command_def send_command_def write_frame_def recover_on_error_def
  read_command_response_def read_ack_frame_def read_response_frame_def read_frame_bytes_def extract_response_payload_def
  build_def build_command_payload_def parse_def classify_def layout_parse_def validated_payload_def frame_len_def
  has_sof_def slice_opt_def framing_consts Port100Format_def ACK_TIMEOUT_def RESPONSE_TIMEOUT_def ack_def
  extended_length_def checksum_matches_iff checksum_eq ensure_status_ok_def nth_opt_def u16_from_le_def

theorem settings_written_once_witness:
  "initiator_protocol (result_state (write_initiator_protocol dummy [(1, 1)] demo_chipset)) ! 1 = Some 1 \<and>
   write_initiator_protocol dummy [(1, 1)] (result_state (write_initiator_protocol dummy [(1, 1)] demo_chipset))
     = Some (Inr (), result_state (write_initiator_protocol dummy [(1, 1)] demo_chipset))"
proof -
  define c1 where "c1 = result_state (write_initiator_protocol dummy [(1, 1)] demo_chipset)"
  have 1: "write_initiator_protocol dummy [(1, 1)] demo_chipset = Some (Inr (), c1)"
    and 2: "set_initiator_rf dummy ''106A'' None c1 = Some (Inr (), result_state (set_initiator_rf dummy ''106A'' None c1))"
    and 3: "initiator_protocol c1 ! 1 = Some 1"
    unfolding c1_def
      by (simp_all add: port100_script_simps)
  have "\<forall>(k, v) \<in> set [(1, 1)]. unat k < length (initiator_protocol demo_chipset)" by code_simp
  from settings_written_once [OF _ this 1 2] 3 show ?thesis by (simp add: c1_def)
qed

end
