(* ===== verification/Crc.thy ===== *)
theory Crc
  imports Prelude
begin

text \<open>
  The CRC-16 of ISO/IEC 14443: \<open>src/clf/crc.rs\<close>. The two loops of \<open>calculate_crc\<close> are folds over the
  bytes and the eight bit positions.
\<close>

definition CRC_POLYNOMIAL :: u16 where "CRC_POLYNOMIAL = 0x8408"
definition CRC_A_INIT :: u16 where "CRC_A_INIT = 0x6363"
definition CRC_B_INIT :: u16 where "CRC_B_INIT = 0xFFFF"

definition crc_bit :: "u8 \<Rightarrow> u16 \<Rightarrow> nat \<Rightarrow> u16" where
  "crc_bit octet reg pos =
     (let b = (reg XOR (ucast (drop_bit pos octet) AND 1)) AND 1;
          reg = drop_bit 1 reg in
      if b \<noteq> 0 then reg XOR CRC_POLYNOMIAL else reg)"

definition crc_octet :: "u16 \<Rightarrow> u8 \<Rightarrow> u16" where
  "crc_octet reg octet = foldl (crc_bit octet) reg [0..<8]"

definition calculate_crc :: "bytes \<Rightarrow> nat \<Rightarrow> u16 \<Rightarrow> u16" where
  "calculate_crc data count reg = foldl crc_octet reg (take count data)"

definition append_crc :: "bytes \<Rightarrow> u16 \<Rightarrow> bytes" where
  "append_crc data crc = data @ [ucast (crc AND 0x00FF), ucast (drop_bit 8 crc)]"

definition verify_crc :: "bytes \<Rightarrow> u16 \<Rightarrow> bool" where
  "verify_crc data crc =
     (if length data < 2 then False
      else data ! (length data - 2) = ucast (crc AND 0x00FF) \<and> data ! (length data - 1) = ucast (drop_bit 8 crc))"

definition add_crc_a :: "bytes \<Rightarrow> bytes" where
  "add_crc_a data = append_crc data (calculate_crc data (length data) CRC_A_INIT)"

definition check_crc_a :: "bytes \<Rightarrow> bool" where
  "check_crc_a data =
     (if length data < 2 then False
      else verify_crc data (calculate_crc data (length data - 2) CRC_A_INIT))"

definition add_crc_b :: "bytes \<Rightarrow> bytes" where
  "add_crc_b data = append_crc data (NOT (calculate_crc data (length data) CRC_B_INIT))"

definition check_crc_b :: "bytes \<Rightarrow> bool" where
  "check_crc_b data =
     (if length data < 2 then False
      else verify_crc data (NOT (calculate_crc data (length data - 2) CRC_B_INIT)))"

section \<open>The register is a reversible shift\<close>

text \<open>One shift of the register, with the data bit already added to its lowest bit.\<close>

definition crc_shift :: "u16 \<Rightarrow> u16" where
  "crc_shift r = (if bit r 0 then drop_bit 1 r XOR CRC_POLYNOMIAL else drop_bit 1 r)"

lemma xor_cancel_left: "(a :: u16) XOR (a XOR b) = b"
  by (simp flip: xor.assoc)

lemma xor_cancel_right: "(a :: u16) XOR c = b XOR c \<longleftrightarrow> a = b"
  by (metis xor.commute xor_cancel_left)

lemma bit_crc_shift_15: "bit (crc_shift r) 15 \<longleftrightarrow> bit r 0"
  by (simp add: crc_shift_def CRC_POLYNOMIAL_def bit_xor_iff bit_drop_bit_eq)
    (use bit_imp_le_length [of r 16] in auto)

lemma crc_shift_inject:
  assumes "crc_shift r = crc_shift s"
  shows "r = s"
proof (rule bit_word_eqI)
  have b: "bit r 0 = bit s 0" using bit_crc_shift_15 [of r] bit_crc_shift_15 [of s] assms by simp
  have "drop_bit 1 r = drop_bit 1 s"
    using assms b unfolding crc_shift_def by (auto simp: xor_cancel_right split: if_splits)
  then have d: "bit r (Suc n) = bit s (Suc n)" for n
    by (metis bit_drop_bit_eq comp_apply plus_1_eq_Suc)
  show "bit r n = bit s n" for n using b d by (cases n) auto
qed

lemma crc_shift_xor: "crc_shift (r XOR s) = crc_shift r XOR crc_shift s"
proof -
  have "drop_bit 1 (r XOR s) = drop_bit 1 r XOR drop_bit 1 s" by (simp add: drop_bit_xor)
  then show ?thesis
    by (auto simp: crc_shift_def bit_xor_iff ac_simps xor_cancel_left)
qed

lemma crc_shifts_xor: "(crc_shift ^^ n) (r XOR s) = (crc_shift ^^ n) r XOR (crc_shift ^^ n) s"
  by (induction n) (simp_all add: crc_shift_xor)

lemma crc_shifts_inject: "(crc_shift ^^ n) r = (crc_shift ^^ n) s \<Longrightarrow> r = s"
  by (induction n) (auto dest: crc_shift_inject)

lemma crc_shift_push:
  assumes "Suc n + m \<le> 16" and z: "\<And>k. bit w k \<Longrightarrow> k < m"
  shows "crc_shift (push_bit (Suc n) w) = push_bit n w"
proof -
  have "drop_bit 1 (push_bit (Suc n) w) = push_bit n w"
    by (rule bit_word_eqI) (use assms(1) in \<open>auto simp: bit_drop_bit_eq bit_push_bit_iff simp del: push_bit_Suc dest: z\<close>)
  then show ?thesis by (simp add: crc_shift_def bit_push_bit_iff del: push_bit_Suc)
qed

lemma crc_shifts_push: "n + m \<le> 16 \<Longrightarrow> (\<And>k. bit w k \<Longrightarrow> k < m) \<Longrightarrow> (crc_shift ^^ n) (push_bit n w) = w"
proof (induction n)
  case (Suc n)
  then show ?case using crc_shift_push [of n m w] by (simp add: funpow_swap1 del: funpow.simps add: funpow_Suc_right)
qed simp

lemma and_1_bit: "(w :: u16) AND 1 \<noteq> 0 \<longleftrightarrow> bit w 0"
  by (simp add: and_one_eq bit_0 odd_iff_mod_2_eq_one)

lemma crc_bit_shift: "crc_bit octet reg pos = crc_shift (reg XOR of_bool (bit octet pos))"
proof -
  have "bit (reg XOR (ucast (drop_bit pos octet) AND 1)) 0 \<longleftrightarrow> bit (reg XOR of_bool (bit octet pos)) 0"
    by (simp only: bit_xor_iff bit_and_iff bit_ucast_iff bit_drop_bit_eq) simp
  moreover have "drop_bit 1 (reg XOR of_bool (bit octet pos)) = drop_bit 1 reg"
    by (simp add: drop_bit_xor)
  ultimately show ?thesis by (simp only: crc_bit_def crc_shift_def Let_def and_1_bit)
qed

lemma crc_octet_prefix:
  "n \<le> 8 \<Longrightarrow> foldl (crc_bit octet) reg [0..<n] = (crc_shift ^^ n) (reg XOR ucast (take_bit n octet))"
proof (induction n)
  case (Suc n)
  have p: "(crc_shift ^^ n) (push_bit n (of_bool (bit octet n))) = of_bool (bit octet n)"
    using Suc.prems by (intro crc_shifts_push [of n 1]) (auto simp: of_bool_def bit_1_iff split: if_splits)
  have t: "(ucast (take_bit (Suc n) octet) :: u16) = ucast (take_bit n octet) XOR push_bit n (of_bool (bit octet n))"
  proof (rule bit_word_eqI)
    fix k
    have "k < Suc n \<longleftrightarrow> k < n \<or> k = n" by auto
    then show "bit (ucast (take_bit (Suc n) octet) :: u16) k
        = bit (ucast (take_bit n octet) XOR push_bit n (of_bool (bit octet n)) :: u16) k"
      using Suc.prems by (auto simp: bit_ucast_iff bit_take_bit_iff bit_xor_iff bit_push_bit_iff bit_1_iff)
  qed
  show ?case
    using Suc by (simp add: crc_bit_shift t crc_shifts_xor p xor.assoc)
qed simp

lemma crc_octet_shift: "crc_octet reg octet = (crc_shift ^^ 8) (reg XOR ucast octet)"
  unfolding crc_octet_def using crc_octet_prefix [of 8 octet reg] by (simp add: take_bit_word_eq_self)

lemma crc_inject: "foldl crc_octet r v = foldl crc_octet s v \<Longrightarrow> r = s"
proof (induction v arbitrary: r s)
  case (Cons x v)
  then have "crc_octet r x = crc_octet s x" by simp
  then show ?case unfolding crc_octet_shift by (metis crc_shifts_inject xor_cancel_right)
qed simp

lemma crc_pair: "foldl crc_octet r [a, b] = (crc_shift ^^ 16) (r XOR u16_from_le a b)"
proof -
  have p: "(crc_shift ^^ 8) (push_bit 8 (ucast b)) = (ucast b :: u16)"
    by (intro crc_shifts_push [of 8 8]) (auto simp: bit_ucast_iff dest: bit_imp_le_length)
  have w: "u16_from_le a b = ucast a XOR push_bit 8 (ucast b)"
    by (rule bit_word_eqI) (auto simp: u16_from_le_def bit_or_iff bit_xor_iff bit_push_bit_iff bit_ucast_iff
      dest: bit_imp_le_length)
  have "(crc_shift ^^ 16) = (crc_shift ^^ 8) \<circ> (crc_shift ^^ 8)" by (simp flip: funpow_add)
  then show ?thesis
    by (simp add: crc_octet_shift w p crc_shifts_xor xor.assoc del: funpow.simps)
qed

text \<open>The register after the checksum bytes is a constant of the checksum.\<close>

lemma ucast_low_byte: "(ucast (w AND 0x00FF) :: u8) = ucast (w :: u16)"
proof -
  have "w AND 0x00FF = take_bit 8 w" by (simp add: take_bit_eq_mask mask_eq_exp_minus_1)
  then show ?thesis
    by (intro bit_word_eqI) (simp add: bit_ucast_iff bit_take_bit_iff)
qed

lemma verify_crc_snoc: "verify_crc (p @ [a, b]) crc \<longleftrightarrow> u16_from_le a b = crc"
proof -
  have "verify_crc (p @ [a, b]) crc \<longleftrightarrow> a = ucast crc \<and> b = ucast (drop_bit 8 crc)"
    by (simp add: verify_crc_def ucast_low_byte nth_append)
  then show ?thesis using u16_from_le_lo [of a b] u16_from_le_hi [of a b] u16_le_roundtrip [of crc] by metis
qed

lemma list_of_two: "length xs = 2 \<Longrightarrow> \<exists>a b. xs = [a, b]"
  by (auto simp: numeral_2_eq_2 length_Suc_conv)

lemma frame_snoc:
  assumes "2 \<le> length d"
  obtains p a b where "d = p @ [a, b]"
proof -
  have "length (drop (length d - 2) d) = 2" using assms by simp
  then obtain a b where "drop (length d - 2) d = [a, b]"
    using list_of_two by blast
  then have "d = take (length d - 2) d @ [a, b]" by (metis append_take_drop_id)
  then show thesis by (rule that)
qed

lemma crc_residue: "foldl crc_octet r (p @ [a, b]) = (crc_shift ^^ 16) (foldl crc_octet r p XOR u16_from_le a b)"
  using crc_pair by simp

lemma crc_shifts_0: "(crc_shift ^^ n) 0 = 0"
  by (induction n) (simp_all add: crc_shift_def)

lemma check_crc_a_residue:
  "check_crc_a d \<longleftrightarrow> 2 \<le> length d \<and> foldl crc_octet CRC_A_INIT d = 0"
proof (cases "2 \<le> length d")
  case True
  then obtain p a b where d: "d = p @ [a, b]" by (rule frame_snoc)
  have "(crc_shift ^^ 16) w = 0 \<longleftrightarrow> w = 0" for w using crc_shifts_inject [of 16 w 0] crc_shifts_0 by metis
  moreover have "foldl crc_octet CRC_A_INIT p XOR u16_from_le a b = 0 \<longleftrightarrow> u16_from_le a b = foldl crc_octet CRC_A_INIT p"
    by (metis xor_cancel_right xor_self_eq)
  ultimately show ?thesis
    by (simp add: check_crc_a_def calculate_crc_def d verify_crc_snoc crc_residue del: funpow.simps foldl_append)
next
  case False
  then show ?thesis by (simp add: check_crc_a_def)
qed

lemma check_crc_b_residue:
  "check_crc_b d \<longleftrightarrow> 2 \<le> length d \<and> foldl crc_octet CRC_B_INIT d = (crc_shift ^^ 16) (NOT 0)"
proof (cases "2 \<le> length d")
  case True
  then obtain p a b where d: "d = p @ [a, b]" by (rule frame_snoc)
  have x: "r XOR w = - 1 \<longleftrightarrow> w = NOT r" for r w :: u16
    by (metis bit.xor_one_right xor_cancel_left)
  have "(crc_shift ^^ 16) w = (crc_shift ^^ 16) v \<longleftrightarrow> w = v" for w v using crc_shifts_inject by metis
  then show ?thesis
    by (simp add: check_crc_b_def calculate_crc_def d verify_crc_snoc crc_residue x del: funpow.simps foldl_append)
next
  case False
  then show ?thesis by (simp add: check_crc_b_def)
qed

lemma crc_add_a: "check_crc_a (add_crc_a d)"
  by (simp add: check_crc_a_def add_crc_a_def append_crc_def verify_crc_def calculate_crc_def nth_append)

lemma crc_add_b: "check_crc_b (add_crc_b d)"
  by (simp add: check_crc_b_def add_crc_b_def append_crc_def verify_crc_def calculate_crc_def nth_append)



end
