(* ===== verification/Port100_Device.thy ===== *)
theory Port100_Device
  imports Driver_Common Port100_Chipset Crc
begin

text \<open>
  The NFC Port-100 as a device: the exchange with a target (\<open>src/driver/port100/device.rs\<close>) and the frames
  of the data exchange protocol when the reader itself is the target (\<open>src/driver/port100/dep.rs\<close>). The
  state of a device is that of its chipset; its metadata is fixed when it is made.
\<close>

section \<open>Device\<close>

definition PORT100_PIDS :: "u16 list" where "PORT100_PIDS = [0x06C1, 0x06C2, 0x06C3]"

definition port100_meta :: "'w transport \<Rightarrow> 'w port100 \<Rightarrow> device_metadata" where
  "port100_meta T c =
     \<lparr>dm_vendor_name = manufacturer_name T (ch_world c), dm_product_name = product_name T (ch_world c),
      dm_chipset_name = ''NFC Port-100 v'' @ hex_lower (snd (firmware_version c)) @ ''.'' @ hex2_lower (fst (firmware_version c))\<rparr>"

definition port100_init :: "'w transport \<Rightarrow> ('w, device_metadata) port100_op" where
  "port100_init T = bindD (chipset_new T) (\<lambda>_. readD (port100_meta T))"

definition mute100 :: "'w transport \<Rightarrow> ('w, unit) port100_op" where
  "mute100 T = switch_rf T False"

definition max_data_size100 :: nat where "max_data_size100 = 290"

definition map_fault :: "bool \<Rightarrow> driver_error + 'a \<Rightarrow> driver_error + 'a" where
  "map_fault treat_rf_off_as_broken =
     map_err (\<lambda>e. case e of Chipset (ChipsetFault f) \<Rightarrow> fault_to_driver_error f treat_rf_off_as_broken | _ \<Rightarrow> e)"

definition with_faults_mapped :: "bool \<Rightarrow> ('s, 'a) driver_op \<Rightarrow> ('s, 'a) driver_op" where
  "with_faults_mapped broken m = tryD m (\<lambda>r. liftD (map_fault broken r))"

section \<open>Exchanges with a target\<close>

definition ends_with :: "string \<Rightarrow> char \<Rightarrow> bool" where
  "ends_with s ch \<longleftrightarrow> s \<noteq> [] \<and> last s = ch"

definition initiator_params_for_bitrate :: "string \<Rightarrow> (string \<times> u8) list" where
  "initiator_params_for_bitrate rate =
     (if ends_with rate (CHR ''A'') then [(''add_parity'', 1), (''check_parity'', 1)] else [])
     @ (if ends_with rate (CHR ''B'') then [(''initial_guard_time'', 20), (''add_sof'', 1), (''check_sof'', 1),
          (''add_eof'', 1), (''check_eof'', 1)] else [])"

record exchange_profile =
  ep_params :: "(string \<times> u8) list"
  strip_crc_a :: bool

definition profile_for_target :: "remote_target \<Rightarrow> exchange_profile" where
  "profile_for_target target =
     (let strip = is_type2_106a target in
      \<lparr>ep_params = initiator_params_for_bitrate (remote_bitrate target) @ (if strip then [(''check_crc'', 0)] else []),
       strip_crc_a = strip\<rparr>)"

definition apply_profile :: "'w transport \<Rightarrow> exchange_profile \<Rightarrow> ('w, unit) port100_op" where
  "apply_profile T profile =
     (if ep_params profile = [] then liftD (Inr ()) else configure_initiator T (ep_params profile))"

definition prepare_initiator_exchange :: "'w transport \<Rightarrow> remote_target \<Rightarrow> ('w, exchange_profile) port100_op" where
  "prepare_initiator_exchange T target =
     bindD (set_initiator_rf T (remote_bitrate target) (Some (remote_bitrate_recv target))) (\<lambda>_.
     bindD (apply_initiator_defaults T) (\<lambda>_.
     let profile = profile_for_target target in
     bindD (apply_profile T profile) (\<lambda>_.
     liftD (Inr profile))))"

definition exchange_as_initiator :: "'w transport \<Rightarrow> bytes \<Rightarrow> u16 \<Rightarrow> ('w, bytes) port100_op" where
  "exchange_as_initiator T data timeout = with_faults_mapped False (initiator_exchange_rf T data timeout)"

definition transceive_type2_with_crc :: "'w transport \<Rightarrow> bytes \<Rightarrow> u16 \<Rightarrow> ('w, bytes) port100_op" where
  "transceive_type2_with_crc T data timeout =
     bindD (exchange_as_initiator T data timeout) (\<lambda>rsp.
     liftD (if length rsp > 2 \<and> \<not> check_crc_a rsp then Inl (Communication (Transmission ''crc_a check error''))
            else if length rsp > 2 then Inr (take (length rsp - 2) rsp)
            else Inr rsp))"

definition perform_initiator_exchange :: "'w transport \<Rightarrow> bytes \<Rightarrow> u16 \<Rightarrow> exchange_profile \<Rightarrow> ('w, bytes) port100_op" where
  "perform_initiator_exchange T data timeout profile =
     (if strip_crc_a profile then transceive_type2_with_crc T data timeout else exchange_as_initiator T data timeout)"

definition device_transceive100 :: "'w transport \<Rightarrow> remote_target \<Rightarrow> bytes \<Rightarrow> u16 option \<Rightarrow> ('w, bytes) port100_op" where
  "device_transceive100 T target data timeout_ms =
     (let timeout = (case timeout_ms of Some t \<Rightarrow> t | None \<Rightarrow> 0) in
      bindD (prepare_initiator_exchange T target) (\<lambda>profile.
      perform_initiator_exchange T data timeout profile))"

section \<open>The reader as a target\<close>

definition from_offset :: "bytes \<Rightarrow> nat \<Rightarrow> bytes option" where
  "from_offset bs n = (if n \<le> length bs then Some (drop n bs) else None)"

definition send_response_receive_command :: "'w transport \<Rightarrow> bytes \<Rightarrow> u16 \<Rightarrow> ('w, bytes option) port100_op" where
  "send_response_receive_command T data timeout_ms =
     bindD (with_faults_mapped True (target_exchange_rf T 500 0xFFFF False [] [] False False timeout_ms (Some data))) (\<lambda>p.
     liftD (Inr (from_offset p 7)))"

section \<open>Frames of the data exchange protocol\<close>

record dep_frame =
  df_code :: u8
  df_payload :: bytes

definition dep_offset :: "string \<Rightarrow> nat" where
  "dep_offset rate = (if rate = ''106A'' then 1 else 0)"

definition dep_parse_frame :: "string \<Rightarrow> bytes \<Rightarrow> u8 list \<Rightarrow> dep_frame option" where
  "dep_parse_frame rate data cmd_set =
     (let offset = dep_offset rate in
      if rate = ''106A'' \<and> nth_opt data 0 \<noteq> Some 0xF0 then None
      else do {
        len \<leftarrow> nth_opt data offset;
        if unat len \<noteq> length data - offset then None
        else if nth_opt data (offset + 1) \<noteq> Some 0xD4 then None
        else do {
          code \<leftarrow> nth_opt data (offset + 2);
          if code \<notin> set cmd_set then None else Some \<lparr>df_code = code, df_payload = drop (offset + 1) data\<rparr>
        }
      })"

definition dep_build_frame :: "string \<Rightarrow> bytes \<Rightarrow> bytes" where
  "dep_build_frame rate p = (if rate = ''106A'' then [0xF0] else []) @ [u8_of (length p + 1)] @ p"

definition dep_simple_response_payload :: "u8 \<Rightarrow> bytes \<Rightarrow> bytes" where
  "dep_simple_response_payload code data = [0xD5, code] @ (case nth_opt data 2 of Some b \<Rightarrow> [b] | None \<Rightarrow> [])"

definition dep_send_frame :: "'w transport \<Rightarrow> string \<Rightarrow> bytes option \<Rightarrow> u16 \<Rightarrow> ('w, bytes option) port100_op" where
  "dep_send_frame T rate p timeout =
     bindD (target_exchange_rf T 0 0xFFFF False [] [] False False timeout (map_option (dep_build_frame rate) p)) (\<lambda>response.
     liftD (Inr (if timeout = 0 then None
       else map_option df_payload (dep_parse_frame rate (case from_offset response 7 of Some bs \<Rightarrow> bs | None \<Rightarrow> []) [0, 4, 6, 8, 10]))))"

definition dep_handle_psl :: "'w transport \<Rightarrow> string \<Rightarrow> bytes \<Rightarrow> ('w, (string \<times> bytes) option) port100_op" where
  "dep_handle_psl T rate data =
     (if length data < 4 then liftD (Inr None)
      else
        let dsi = drop_bit 3 (data ! 3) AND 0x07; dri = data ! 3 AND 0x07 in
        if dsi \<noteq> dri then liftD (Inl (Communication (Transmission ''PSL_REQ DSI != DRI is not supported'')))
        else
          bindD (dep_send_frame T rate (Some [0xD5, 0x05, data ! 2]) 0) (\<lambda>_.
          let new_rate = (if dsi = 0 then ''106A'' else if dsi = 1 then ''212F'' else if dsi = 2 then ''424F'' else rate) in
          bindD (set_target_rf T new_rate) (\<lambda>_.
          liftD (Inr (Some (new_rate, data))))))"

definition dep_send_simple_response :: "'w transport \<Rightarrow> string \<Rightarrow> u8 \<Rightarrow> bytes \<Rightarrow> ('w, unit) port100_op" where
  "dep_send_simple_response T rate code data =
     bindD (dep_send_frame T rate (Some (dep_simple_response_payload code data)) 0) (\<lambda>_. liftD (Inr ()))"

section \<open>Round trip of the frames\<close>

text \<open>
  A request is read back from its frame up to 254 bytes; the length byte of a longer one wraps around, and
  its frame is refused.
\<close>

lemma dep_frame_parsed:
  assumes "p = 0xD4 # code # rest" and "code \<in> set cmds"
  shows "dep_parse_frame rate (dep_build_frame rate p) cmds =
    (if length p \<le> 254 then Some \<lparr>df_code = code, df_payload = p\<rparr> else None)"
proof -
  have n: "unat (u8_of (length p + 1)) = (length p + 1) mod 256" by (simp only: u8_of_def unat_of_nat) simp
  have "unat (u8_of (length p + 1)) = length p + 1 \<longleftrightarrow> length p \<le> 254"
  proof
    assume "unat (u8_of (length p + 1)) = length p + 1"
    then show "length p \<le> 254" unfolding n using mod_less_divisor [of 256 "length p + 1"] by linarith
  next
    assume "length p \<le> 254"
    then show "unat (u8_of (length p + 1)) = length p + 1" unfolding n by (intro mod_less) linarith
  qed
  then show ?thesis
    using assms by (simp add: dep_parse_frame_def dep_build_frame_def dep_offset_def Let_def nth_opt_def)
qed

text \<open>
  The frames of the data exchange protocol are exact: a request with a command that is expected is read
  back from the frame built for it, at every bitrate, if and only if it has at most 254 bytes; a longer
  one, whose length byte wraps around, is refused.
\<close>

theorem dep_frame_roundtrip:
  assumes "code \<in> set cmds"
  shows "dep_parse_frame rate (dep_build_frame rate (0xD4 # code # rest)) cmds =
    (if length rest \<le> 252 then Some \<lparr>df_code = code, df_payload = 0xD4 # code # rest\<rparr> else None)"
  using dep_frame_parsed [OF refl assms] by simp

theorem dep_frame_roundtrip_witness:
  "dep_parse_frame ''106A'' (dep_build_frame ''106A'' [0xD4, 4, 0xAA]) [4, 6] = Some \<lparr>df_code = 4, df_payload = [0xD4, 4, 0xAA]\<rparr>"
  using dep_frame_roundtrip [of 4 "[4, 6]" "''106A''" "[0xAA]"] by simp

end
