(* ===== verification/Port100_Initiator.thy ===== *)
theory Port100_Initiator
  imports Port100_Device Type3
begin

text \<open>
  Discovery with the NFC Port-100, first part: what polling and listening share
  (\<open>src/driver/port100/discovery/mod.rs\<close>) and polling for cards
  (\<open>src/driver/port100/discovery/initiator.rs\<close>). A timeout in seconds, an \<open>f32\<close> in the code, is a number of
  nanoseconds here, like every other duration of the drivers.
\<close>

section \<open>Setting the radio for a role\<close>

record sensf_request =
  sr_system_code :: u16
  sr_request_code :: u8
  sr_time_slots :: u8
  sr_raw :: bytes

definition sensf_request_from_frame :: "bytes \<Rightarrow> sensf_request option" where
  "sensf_request_from_frame frame =
     (if length frame < 6 \<or> nth_opt frame 1 \<noteq> Some 0x00 then None
      else Some \<lparr>sr_system_code = u16_from_be (frame ! 2) (frame ! 3), sr_request_code = frame ! 4,
        sr_time_slots = frame ! 5, sr_raw = frame\<rparr>)"

definition configure_initiator_for_poll :: "'w transport \<Rightarrow> string \<Rightarrow> (string \<times> u8) list \<Rightarrow> ('w, unit) port100_op" where
  "configure_initiator_for_poll T rate params =
     bindD (set_initiator_rf T rate None) (\<lambda>_.
     bindD (apply_initiator_defaults T) (\<lambda>_.
     if params \<noteq> [] then configure_initiator T params else liftD (Inr ())))"

definition configure_target_for_listen :: "'w transport \<Rightarrow> string \<Rightarrow> ('w, unit) port100_op" where
  "configure_target_for_listen T rate =
     bindD (set_target_rf T rate) (\<lambda>_.
     bindD (apply_target_defaults T) (\<lambda>_.
     configure_target T [(''rf_off_error'', 0)]))"

definition target_exchange_default ::
    "'w transport \<Rightarrow> bool \<Rightarrow> bytes \<Rightarrow> bytes \<Rightarrow> u16 \<Rightarrow> bytes option \<Rightarrow> ('w, bytes) port100_op" where
  "target_exchange_default T mdaa nfca_params nfcf_params timeout p =
     target_exchange_rf T 0 0xFFFF mdaa nfca_params nfcf_params False False timeout p"

text \<open>A fault of the reader is no answer; the other errors are passed on.\<close>

definition initiator_exchange_optional :: "'w transport \<Rightarrow> bytes \<Rightarrow> u16 \<Rightarrow> ('w, bytes option) port100_op" where
  "initiator_exchange_optional T p timeout =
     tryD (initiator_exchange_rf T p timeout) (\<lambda>r. liftD (case r of
         Inr data \<Rightarrow> Inr (Some data)
       | Inl (Chipset (ChipsetFault f)) \<Rightarrow> Inr None
       | Inl e \<Rightarrow> Inl e))"

definition ensure_supported_bitrate :: "string \<Rightarrow> string list \<Rightarrow> string \<Rightarrow> driver_error + unit" where
  "ensure_supported_bitrate rate allowed error_prefix =
     (if rate \<in> set allowed then Inr () else Inl (DriverUnsupported (error_prefix @ rate)))"

section \<open>Steps until a deadline\<close>

definition clamp_timeout :: "int \<Rightarrow> u16" where
  "clamp_timeout timeout =
     (if timeout \<le> 0 then 0 else of_int (max 1 (min ((timeout + 500000) div 1000000) 0xFFFF)))"

definition remaining_ms :: "'w transport \<Rightarrow> nat \<Rightarrow> 'w \<Rightarrow> u16" where
  "remaining_ms T deadline w = u16_of (min ((deadline - tr_now T w) div 1000000) 0xFFFF)"

text \<open>The state \<open>x\<close> is what the closure of the step has captured.\<close>

partial_function (option) timeout_loop ::
    "'w transport \<Rightarrow> ('x \<Rightarrow> u16 \<Rightarrow> ('w, 'r option \<times> 'x) port100_op) \<Rightarrow> nat \<Rightarrow> u16 \<Rightarrow> 'x \<Rightarrow> ('w, 'r option \<times> 'x) port100_op" where
  "timeout_loop T step deadline remaining x c =
     (if remaining = 0 then Some (Inr (None, x), c)
      else
        bindD (step x remaining) (\<lambda>(outcome, x) c.
          case outcome of
            Some r \<Rightarrow> Some (Inr (Some r, x), c)
          | None \<Rightarrow> timeout_loop T step deadline (remaining_ms T deadline (ch_world c)) x c) c)"

definition run_timeout_loop ::
    "'w transport \<Rightarrow> int \<Rightarrow> ('x \<Rightarrow> u16 \<Rightarrow> ('w, 'r option \<times> 'x) port100_op) \<Rightarrow> 'x \<Rightarrow> ('w, 'r option \<times> 'x) port100_op" where
  "run_timeout_loop T timeout step x =
     (let ms = clamp_timeout timeout in
      if ms = 0 then liftD (Inr (None, x))
      else bindD (deadline_in T (nat timeout)) (\<lambda>deadline. timeout_loop T step deadline ms x))"

section \<open>Type A cards\<close>

definition is_type1_atqa :: "bytes \<Rightarrow> bool" where
  "is_type1_atqa atqa \<longleftrightarrow> (case nth_opt atqa 0 of Some b \<Rightarrow> b AND 0x1F = 0 | None \<Rightarrow> False)"

definition cascade_uid :: "bytes \<Rightarrow> bytes" where
  "cascade_uid uid =
     (let out = (if length uid > 4 then 0x88 # uid else uid) in
      if length out > 8 then take 4 out @ [0x88] @ drop 4 out else out)"

definition handle_type1_activation :: "'w transport \<Rightarrow> string \<Rightarrow> bytes \<Rightarrow> ('w, remote_target option) port100_op" where
  "handle_type1_activation T rate atqa =
     bindD (configure_initiator T [(''last_byte_bit_count'', 8), (''add_crc'', 2), (''check_crc'', 2), (''type_1_tag_rrdd'', 2)]) (\<lambda>_.
     bindD (liftD (new_target rate)) (\<lambda>found.
     let found = found\<lparr>rt_data := (rt_data found)\<lparr>sens_res := Some atqa\<rparr>\<rparr> in
     if atqa ! 1 AND 0x0F = 0x0C then
       bindD (initiator_exchange_optional T [0x78, 0x00, 0x00, 0x00, 0x00, 0x00, 0x00] 30) (\<lambda>rid.
       case rid of
         None \<Rightarrow> liftD (Inr None)
       | Some rid \<Rightarrow> liftD (Inr (Some (found\<lparr>rt_data := (rt_data found)\<lparr>rid_res := Some rid\<rparr>\<rparr>))))
     else liftD (Inr (Some found))))"

text \<open>The select command of one level: the command, \<open>70\<close>, up to four bytes of the UID and their check byte.\<close>

definition select_request :: "u8 \<Rightarrow> bytes \<Rightarrow> bytes" where
  "select_request sel_cmd block = [sel_cmd, 0x70] @ block @ [fold (\<lambda>b acc. acc XOR b) block 0]"

fun select_levels :: "'w transport \<Rightarrow> (u8 \<times> nat) list \<Rightarrow> bytes \<Rightarrow> bytes \<Rightarrow> ('w, bytes option) port100_op" where
  "select_levels T [] uid sak = liftD (Inr (Some sak))"
| "select_levels T ((sel_cmd, start) # levels) uid sak =
     bindD (initiator_exchange_optional T (select_request sel_cmd (take 4 (drop start uid))) 30) (\<lambda>res.
     case res of
       None \<Rightarrow> liftD (Inr None)
     | Some res \<Rightarrow> select_levels T levels uid res)"

text \<open>\<open>(0..n).step_by(4)\<close>.\<close>

definition steps_of_4 :: "nat \<Rightarrow> nat list" where
  "steps_of_4 n = map (\<lambda>i. 4 * i) [0..<(n + 3) div 4]"

definition select_known_uid :: "'w transport \<Rightarrow> bytes \<Rightarrow> ('w, bytes option) port100_op" where
  "select_known_uid T uid =
     (let cascaded = cascade_uid uid in
      bindD (configure_initiator T [(''add_crc'', 1), (''check_crc'', 1)]) (\<lambda>_.
      select_levels T (zip [0x93, 0x95, 0x97] (steps_of_4 (length cascaded))) cascaded []))"

text \<open>A SDD answer and the SEL answer of one level; \<open>None\<close> when one of them does not come.\<close>

definition discover_level :: "'w transport \<Rightarrow> u8 \<Rightarrow> ('w, (bytes \<times> bytes) option) port100_op" where
  "discover_level T sel_cmd =
     bindD (configure_initiator T [(''add_crc'', 0), (''check_crc'', 0)]) (\<lambda>_.
     bindD (initiator_exchange_optional T [sel_cmd, 0x20] 30) (\<lambda>answer.
     case answer of
       None \<Rightarrow> liftD (Inr None)
     | Some sdd \<Rightarrow>
         bindD (configure_initiator T [(''add_crc'', 1), (''check_crc'', 1)]) (\<lambda>_.
         bindD (initiator_exchange_optional T ([sel_cmd, 0x70] @ sdd) 30) (\<lambda>sel.
         liftD (Inr (map_option (\<lambda>res. (sdd, res)) sel))))))"

fun discover_levels :: "'w transport \<Rightarrow> u8 list \<Rightarrow> bytes \<Rightarrow> bytes \<Rightarrow> ('w, (bytes \<times> bytes) option) port100_op" where
  "discover_levels T [] sak uid = liftD (Inr (Some (sak, uid)))"
| "discover_levels T (sel_cmd # levels) sak uid =
     bindD (discover_level T sel_cmd) (\<lambda>answers.
     case answers of
       None \<Rightarrow> liftD (Inr None)
     | Some (sdd, res) \<Rightarrow>
         if res \<noteq> [] \<and> res ! 0 AND 0x04 \<noteq> 0 then
           discover_levels T levels res (if length sdd \<ge> 4 then uid @ take 3 (drop 1 sdd) else uid)
         else liftD (Inr (Some (res, uid @ take 4 sdd))))"

definition discover_uid :: "'w transport \<Rightarrow> ('w, (bytes \<times> bytes) option) port100_op" where
  "discover_uid T = discover_levels T [0x93, 0x95, 0x97] [] []"

definition anticollision100 :: "'w transport \<Rightarrow> remote_target \<Rightarrow> ('w, (bytes \<times> bytes) option) port100_op" where
  "anticollision100 T target =
     (case sel_req (rt_data target) of
        Some uid \<Rightarrow> bindD (select_known_uid T uid) (\<lambda>sak. liftD (Inr (map_option (\<lambda>res. (res, uid)) sak)))
      | None \<Rightarrow> discover_uid T)"

definition detect_type_a100 :: "'w transport \<Rightarrow> remote_target \<Rightarrow> ('w, remote_target option) port100_op" where
  "detect_type_a100 T target =
     (let rate = remote_bitrate target in
      bindD (liftD (ensure_supported_bitrate rate [''106A'', ''212A'', ''424A''] ''unsupported bitrate '')) (\<lambda>_.
      bindD (configure_initiator_for_poll T rate [(''initial_guard_time'', 6), (''add_crc'', 0), (''check_crc'', 0),
        (''check_parity'', 1), (''last_byte_bit_count'', 7)]) (\<lambda>_.
      bindD (initiator_exchange_optional T (case sens_req (rt_data target) of Some r \<Rightarrow> r | None \<Rightarrow> [0x26]) 30) (\<lambda>sens.
      case sens of
        None \<Rightarrow> liftD (Inr None)
      | Some atqa \<Rightarrow>
          if length atqa \<noteq> 2 then liftD (Inr None)
          else if is_type1_atqa atqa then handle_type1_activation T rate atqa
          else
            bindD (configure_initiator T [(''last_byte_bit_count'', 8), (''add_parity'', 1)]) (\<lambda>_.
            bindD (anticollision100 T target) (\<lambda>found.
            case found of
              Some (sak, uid) \<Rightarrow>
                if sak \<noteq> [] \<and> sak ! 0 AND 0x04 = 0 then
                  bindD (liftD (new_target rate)) (\<lambda>found.
                  liftD (Inr (Some (found\<lparr>rt_data := (rt_data found)\<lparr>sens_res := Some atqa, sel_res := Some sak,
                    sdd_res := Some uid\<rparr>\<rparr>))))
                else liftD (Inr None)
            | None \<Rightarrow> liftD (Inr None)))))))"

section \<open>Type B and Type F cards\<close>

definition detect_type_b100 :: "'w transport \<Rightarrow> remote_target \<Rightarrow> ('w, remote_target option) port100_op" where
  "detect_type_b100 T target =
     (let rate = remote_bitrate target in
      bindD (liftD (ensure_supported_bitrate rate [''106B'', ''212B'', ''424B''] ''unsupported bitrate '')) (\<lambda>_.
      bindD (configure_initiator_for_poll T rate [(''initial_guard_time'', 20), (''add_sof'', 1), (''check_sof'', 1),
        (''add_eof'', 1), (''check_eof'', 1)]) (\<lambda>_.
      bindD (initiator_exchange_optional T (case sensb_req (rt_data target) of Some r \<Rightarrow> r | None \<Rightarrow> [0x05, 0x00, 0x10]) 30) (\<lambda>answer.
      case answer of
        None \<Rightarrow> liftD (Inr None)
      | Some sensb \<Rightarrow>
          if length sensb \<ge> 12 \<and> sensb ! 0 = 0x50 then
            bindD (liftD (new_target rate)) (\<lambda>found.
            liftD (Inr (Some (found\<lparr>rt_data := (rt_data found)\<lparr>sensb_res := Some sensb\<rparr>\<rparr>))))
          else liftD (Inr None)))))"

definition plain_sensf_res :: "bytes \<Rightarrow> driver_error + type3_tag_polling_result" where
  "plain_sensf_res data =
     (case from_bytes data of
        Inr (RespPolling idm pmm optional) \<Rightarrow> Inr \<lparr>t3_idm = idm, t3_pmm = pmm, t3_optional = optional\<rparr>
      | Inr _ \<Rightarrow> driver_other ''unexpected Felica response''
      | Inl (DriverPanicked m) \<Rightarrow> Inl (DriverPanicked m)
      | Inl _ \<Rightarrow> driver_other ''failed to parse Felica response'')"

definition detect_type_f100 ::
    "'w transport \<Rightarrow> remote_target \<Rightarrow> u16 \<Rightarrow> u8 \<Rightarrow> u8 \<Rightarrow> ('w, type3_tag_polling_result) port100_op" where
  "detect_type_f100 T target system_code request_code time_slots =
     (let rate = remote_bitrate target in
      bindD (liftD (ensure_supported_bitrate rate [''212F'', ''424F''] ''unsupported bitrate '')) (\<lambda>_.
      bindD (configure_initiator_for_poll T rate [(''initial_guard_time'', 24)]) (\<lambda>_.
      bindD (liftD (sensf_req system_code request_code time_slots)) (\<lambda>frame.
      bindD (initiator_exchange_rf T frame (polling_timeout_ms time_slots)) (\<lambda>rsp.
      liftD (plain_sensf_res rsp))))))"

definition detect_dep_passive :: "remote_target \<Rightarrow> ('w, remote_target option) port100_op" where
  "detect_dep_passive target = liftD (Inl (DriverUnsupported ''device does not support active DEP detect''))"

section \<open>The UID that polling finds\<close>

text \<open>
  How a card of ISO/IEC 14443-3 answers: on each level with a block of its cascaded UID (and a check byte),
  and with the cascade bit in its answer to the selection on all levels but the last.
\<close>

definition answers_as_card :: "bytes \<Rightarrow> (bytes \<times> bytes) list \<Rightarrow> bool" where
  "answers_as_card uid answers \<longleftrightarrow> length answers = length (cascade_uid uid) div 4 \<and>
     (\<forall>i < length answers. take 4 (fst (answers ! i)) = take 4 (drop (4 * i) (cascade_uid uid)) \<and>
        snd (answers ! i) \<noteq> [] \<and> (snd (answers ! i) ! 0 AND 0x04 \<noteq> 0 \<longleftrightarrow> i + 1 < length answers))"

text \<open>The levels of the discovery, one after the other.\<close>

fun levels_answered :: "'w transport \<Rightarrow> u8 list \<Rightarrow> (bytes \<times> bytes) list \<Rightarrow> 'w port100 \<Rightarrow> 'w port100 \<Rightarrow> bool" where
  "levels_answered T (cmd # cmds) (answer # answers) c c' \<longleftrightarrow>
     (\<exists>c1. discover_level T cmd c = Some (Inr (Some answer), c1) \<and> levels_answered T cmds answers c1 c')"
| "levels_answered T cmds answers c c' \<longleftrightarrow> answers = [] \<and> c' = c"

lemma all_less_two: "(\<forall>i < Suc (Suc 0). P i) \<longleftrightarrow> P 0 \<and> P (Suc 0)"
  and all_less_three: "(\<forall>i < Suc (Suc (Suc 0)). Q i) \<longleftrightarrow> Q 0 \<and> Q (Suc 0) \<and> Q (Suc (Suc 0))"
  by (auto simp: less_Suc_eq)

lemma block_bytes: "take 4 sdd = block \<Longrightarrow> length block = 4 \<Longrightarrow> 4 \<le> length sdd \<and> take 3 (drop 1 sdd) = drop 1 block"
  by (auto simp: drop_take)

lemma cascaded_level:
  assumes "discover_level T cmd c = Some (Inr (Some (sdd, sak)), c1)" and "sak \<noteq> []" and "sak ! 0 AND 0x04 \<noteq> 0"
    and "take 4 sdd = b # block" and "length block = 3"
  shows "discover_levels T (cmd # cmds) sak' uid c = discover_levels T cmds sak (uid @ block) c1"
  using block_bytes [OF assms(4)] assms by (simp add: bindD_Inr)

lemma last_level:
  assumes "discover_level T cmd c = Some (Inr (Some (sdd, sak)), c1)" and "\<not> (sak ! 0 AND 0x04 \<noteq> 0)" and "take 4 sdd = block"
  shows "discover_levels T (cmd # cmds) sak' uid c = Some (Inr (Some (sak, uid @ block)), c1)"
  using assms by (simp add: bindD_Inr)

lemma card_levels:
  assumes "answers_as_card uid answers" and "i < length answers"
  shows "take 4 (fst (answers ! i)) = take 4 (drop (4 * i) (cascade_uid uid))" and "snd (answers ! i) \<noteq> []"
    and "snd (answers ! i) ! 0 AND 0x04 \<noteq> 0 \<longleftrightarrow> i + 1 < length answers"
  using assms unfolding answers_as_card_def by blast+

lemma card_discovered_single:
  assumes uid: "length uid = 4" and answers: "answers_as_card uid answers" and levels: "levels_answered T [0x93, 0x95, 0x97] answers c c'"
  shows "discover_uid T c = Some (Inr (Some (snd (last answers), uid)), c')"
proof -
  have casc: "cascade_uid uid = uid" using uid by (simp add: cascade_uid_def)
  have n: "length answers = 1" using answers uid casc by (simp add: answers_as_card_def)
  then obtain sdd sak where a: "answers = [(sdd, sak)]" by (cases answers) auto
  have 1: "take 4 sdd = uid" "\<not> (sak ! 0 AND 0x04 \<noteq> 0)"
    using card_levels [OF answers, of 0] a casc uid by simp_all
  from levels a have "discover_level T 0x93 c = Some (Inr (Some (sdd, sak)), c')" by auto
  from last_level [OF this 1(2,1)] a show ?thesis by (simp add: discover_uid_def del: discover_levels.simps)
qed

lemma card_discovered_double:
  assumes uid: "length uid = 7" and answers: "answers_as_card uid answers" and levels: "levels_answered T [0x93, 0x95, 0x97] answers c c'"
  shows "discover_uid T c = Some (Inr (Some (snd (last answers), uid)), c')"
proof -
  have casc: "cascade_uid uid = 0x88 # uid" using uid by (simp add: cascade_uid_def)
  have n: "length answers = 2" using answers uid casc by (simp add: answers_as_card_def)
  then obtain s k t l where a: "answers = [(s, k), (t, l)]" by (auto simp: length_Suc_conv numeral_2_eq_2)
  have 1: "take 4 s = 0x88 # take 3 uid" "k \<noteq> []" "k ! 0 AND 0x04 \<noteq> 0"
    using card_levels [OF answers, of 0] a casc by simp_all
  have 2: "take 4 t = drop 3 uid" "\<not> (l ! 0 AND 0x04 \<noteq> 0)"
    using card_levels [OF answers, of 1] a casc uid by simp_all
  from levels a obtain c1 where c: "discover_level T 0x93 c = Some (Inr (Some (s, k)), c1)"
    "discover_level T 0x95 c1 = Some (Inr (Some (t, l)), c')" by auto
  have "length (take 3 uid) = 3" using uid by simp
  from cascaded_level [OF c(1) 1(2,3,1) this] last_level [OF c(2) 2(2,1)] a show ?thesis
    by (simp add: discover_uid_def del: discover_levels.simps)
qed

lemma card_discovered_triple:
  assumes uid: "length uid = 10" and answers: "answers_as_card uid answers" and levels: "levels_answered T [0x93, 0x95, 0x97] answers c c'"
  shows "discover_uid T c = Some (Inr (Some (snd (last answers), uid)), c')"
proof -
  have casc: "cascade_uid uid = 0x88 # take 3 uid @ 0x88 # drop 3 uid" using uid by (simp add: cascade_uid_def)
  have n: "length answers = 3" using answers uid casc by (simp add: answers_as_card_def)
  then obtain s k t l u m where a: "answers = [(s, k), (t, l), (u, m)]" by (auto simp: length_Suc_conv numeral_3_eq_3)
  have 1: "take 4 s = 0x88 # take 3 uid" "k \<noteq> []" "k ! 0 AND 0x04 \<noteq> 0"
    using card_levels [OF answers, of 0] a casc uid by simp_all
  have 2: "take 4 t = 0x88 # take 3 (drop 3 uid)" "l \<noteq> []" "l ! 0 AND 0x04 \<noteq> 0"
    using card_levels [OF answers, of 1] a casc uid by simp_all
  have 3: "take 4 u = drop 6 uid" "\<not> (m ! 0 AND 0x04 \<noteq> 0)"
    using card_levels [OF answers, of 2] a casc uid by simp_all
  from levels a obtain c1 c2 where c: "discover_level T 0x93 c = Some (Inr (Some (s, k)), c1)"
    "discover_level T 0x95 c1 = Some (Inr (Some (t, l)), c2)" "discover_level T 0x97 c2 = Some (Inr (Some (u, m)), c')" by auto
  have l: "length (take 3 uid) = 3" "length (take 3 (drop 3 uid)) = 3" using uid by simp_all
  have "take 3 uid @ take 3 (drop 3 uid) @ drop 6 uid = uid"
    using append_take_drop_id [of 3 "drop 3 uid"] by (simp add: )
  with cascaded_level [OF c(1) 1(2,3,1) l(1)] cascaded_level [OF c(2) 2(2,3,1) l(2)] last_level [OF c(3) 3(2,1)] a
  show ?thesis by (simp add: discover_uid_def del: discover_levels.simps)
qed

lemma card_discovered:
  assumes "length uid \<in> {4, 7, 10}" and "answers_as_card uid answers" and "levels_answered T [0x93, 0x95, 0x97] answers c c'"
  shows "discover_uid T c = Some (Inr (Some (snd (last answers), uid)), c')"
  using assms card_discovered_single card_discovered_double card_discovered_triple by blast

section \<open>Properties\<close>

text \<open>
  C39. Polling finds whole identifiers: a card that answers every cascade level with its block of the UID and
  sets the cascade bit on all levels but the last is discovered with its whole UID, for UIDs of 4, 7 and 10
  bytes, and with the answer to the last selection.
\<close>

theorem discovered_uid:
  assumes "length uid \<in> {4, 7, 10}" and "answers_as_card uid answers" and "levels_answered T [0x93, 0x95, 0x97] answers c c'"
  shows "discover_uid T c = Some (Inr (Some (snd (last answers), uid)), c')"
  using assms by (rule card_discovered)

section \<open>Witnesses\<close>

text \<open>A reader with a card of a four-byte UID, which takes two settings and two exchanges.\<close>

definition demo_poll :: "dummy_transport port100" where
  "demo_poll = port100_new (with_reads (map Inr
     [ACK_BYTES, [0x00, 0x00, 0xFF, 0x03, 0xFD, 0xD7, 0x03, 0x00, 0x26, 0x00],
      ACK_BYTES, [0x00, 0x00, 0xFF, 0x0C, 0xF4, 0xD7, 0x05, 0x00, 0x00, 0x00, 0x00, 0x08, 0x04, 0x25, 0xA1, 0x7C, 0xFC, 0xDA, 0x00],
      ACK_BYTES, [0x00, 0x00, 0xFF, 0x03, 0xFD, 0xD7, 0x03, 0x00, 0x26, 0x00],
      ACK_BYTES, [0x00, 0x00, 0xFF, 0x0A, 0xF6, 0xD7, 0x05, 0x00, 0x00, 0x00, 0x00, 0x08, 0x08, 0xB6, 0xDD, 0x81, 0x00]]))"

text \<open>A command of the scripted reader takes its acknowledgement and its answer.\<close>

lemma ack_parsed: "parse Port100Format [0, 0, 0xFF, 0, 0xFF, 0] = Some \<lparr>raw = [0, 0, 0xFF, 0, 0xFF, 0], frame_type = Ack\<rparr>"
  by (simp add: parse_def has_sof_def classify_def framing_consts slice_opt_def Port100Format_def)

lemma scripted_command:
  fixes c :: "dummy_transport port100"
  assumes "build Port100Format (build_command_payload code p) = Some f"
    and "dt_reads (ch_world c) = Inr ACK_BYTES # Inr ([0, 0, 0xFF, n, k] @ tail) # rs" and "ch_buffer c = []"
    and "n \<noteq> 0xFF" and "length tail = unat n + 2"
    and "parse Port100Format ([0, 0, 0xFF, n, k] @ tail) = Some g" and "frame_type g = Data (0xD7 # (code + 1) # rsp)"
  shows "send_command dummy code p c = Some (Inr rsp, c\<lparr>ch_world := (ch_world c)\<lparr>dt_reads := rs,
    dt_writes := dt_writes (ch_world c) @ [raw f], dt_clock := dt_clock (ch_world c) + millis 2\<rparr>\<rparr>)"
  using assms
  by (simp add: send_command_def write_frame_def recover_on_error_def read_command_response_def read_ack_frame_def
      read_response_frame_def read_frame_bytes_def extract_response_payload_def script_simps ok_or_def bindE_def
      nth_opt_def slice_opt_def ACK_BYTES_def SOF_def ACK_TIMEOUT_def RESPONSE_TIMEOUT_def ack_parsed take_from_buffer_eq del: take_from_buffer.simps)

lemma scripted_answer:
  fixes c :: "dummy_transport port100"
  assumes "dt_reads (ch_world c) = Inr ACK_BYTES # Inr ([0, 0, 0xFF, n, k] @ tail) # rs" and "ch_buffer c = []"
    and "build Port100Format (build_command_payload code p) \<noteq> None" and "n \<noteq> 0xFF" and "length tail = unat n + 2"
    and "parse Port100Format ([0, 0, 0xFF, n, k] @ tail)
      = Some \<lparr>raw = [0, 0, 0xFF, n, k] @ tail, frame_type = Data (0xD7 # (code + 1) # rsp)\<rparr>"
  obtains w where "send_command dummy code p c = Some (Inr rsp, c\<lparr>ch_world := w\<rparr>)" and "dt_reads w = rs"
proof -
  from assms(3) obtain f where "build Port100Format (build_command_payload code p) = Some f" by auto
  from scripted_command [OF this assms(1,2,4,5,6), of rsp] that show ?thesis by simp
qed

lemmas demo_frames = build_def parse_def build_command_payload_def has_sof_def classify_def layout_parse_def validated_payload_def
  framing_consts slice_opt_def nth_opt_def Port100Format_def checksum_matches_iff checksum_eq frame_len_def extended_length_def

lemma demo_units: "u16_to_le (timeout_units 30) = [0x36, 0x01]"
  by (simp add: timeout_units_def u16_to_le_def u16_of_def)

lemmas demo_operations = configure_initiator_def initiator_param_index_def mapE.simps bindE_def ok_or_def write_initiator_protocol_def
  status_command_def unknown_entries_def record_entries_def pair_bytes_def ensure_status_ok_def initiator_exchange_optional_def
  initiator_exchange_rf_def demo_units nth_opt_def bindD_def liftD_def readD_def modifyD_def tryD_def

lemma demo_level:
  "\<exists>c'. discover_level dummy 0x93 demo_poll = Some (Inr (Some ([0x04, 0x25, 0xA1, 0x7C, 0xFC], [0x08, 0xB6, 0xDD])), c')"
proof -
  obtain w1 where send: "send_command dummy 2 [1, 0, 2, 0] demo_poll = Some (Inr [0], demo_poll\<lparr>ch_world := w1\<rparr>)"
    and reads: "dt_reads w1 = drop 2 (dt_reads (ch_world demo_poll))"
    by (rule scripted_answer [of demo_poll "0x03" "0xFD" "[0xD7, 0x03, 0x00, 0x26, 0x00]" _ 2 _ "[0]"])
      (simp_all add: demo_poll_def port100_new_def with_reads_def demo_frames)
  obtain c1 where 1: "configure_initiator dummy [(''add_crc'', 0), (''check_crc'', 0)] demo_poll = Some (Inr (), c1)"
    and c1: "ch_world c1 = w1" "ch_buffer c1 = []" "initiator_protocol c1 = (replicate 20 None)[1 := Some 0, 2 := Some 0]"
    using send by (simp add: demo_operations demo_poll_def port100_new_def INITIATOR_PROTOCOL_KEYS_def)
  obtain w2 where send: "send_command dummy 4 [0x36, 0x01, 0x93, 0x20] c1
      = Some (Inr [0, 0, 0, 0, 8, 0x04, 0x25, 0xA1, 0x7C, 0xFC], c1\<lparr>ch_world := w2\<rparr>)"
    and reads: "dt_reads w2 = drop 4 (dt_reads (ch_world demo_poll))"
    by (rule scripted_answer [of c1 "0x0C" "0xF4" "drop 5 (projr (dt_reads (ch_world demo_poll) ! 3))" _ 4 _ "[0, 0, 0, 0, 8, 0x04, 0x25, 0xA1, 0x7C, 0xFC]"])
      (simp_all add: c1 reads demo_poll_def port100_new_def with_reads_def demo_frames)
  have 2: "initiator_exchange_optional dummy [0x93, 0x20] 30 c1 = Some (Inr (Some [0x04, 0x25, 0xA1, 0x7C, 0xFC]), c1\<lparr>ch_world := w2\<rparr>)"
    using send by (simp add: demo_operations)
  obtain w3 where send: "send_command dummy 2 [1, 1, 2, 1] (c1\<lparr>ch_world := w2\<rparr>) = Some (Inr [0], c1\<lparr>ch_world := w3\<rparr>)"
    and reads: "dt_reads w3 = drop 6 (dt_reads (ch_world demo_poll))"
    by (rule scripted_answer [of "c1\<lparr>ch_world := w2\<rparr>" "0x03" "0xFD" "[0xD7, 0x03, 0x00, 0x26, 0x00]" _ 2 _ "[0]"])
      (simp_all add: c1 reads demo_poll_def port100_new_def with_reads_def demo_frames)
  obtain c3 where 3: "configure_initiator dummy [(''add_crc'', 1), (''check_crc'', 1)] (c1\<lparr>ch_world := w2\<rparr>) = Some (Inr (), c3)"
    and c3: "ch_world c3 = w3" "ch_buffer c3 = []"
    using send by (simp add: demo_operations c1)
  obtain w4 where send: "send_command dummy 4 ([0x36, 0x01, 0x93, 0x70, 0x04, 0x25, 0xA1, 0x7C, 0xFC]) c3
      = Some (Inr [0, 0, 0, 0, 8, 0x08, 0xB6, 0xDD], c3\<lparr>ch_world := w4\<rparr>)"
    by (rule scripted_answer [of c3 "0x0A" "0xF6" "drop 5 (projr (dt_reads (ch_world demo_poll) ! 7))" _ 4 _ "[0, 0, 0, 0, 8, 0x08, 0xB6, 0xDD]"])
      (simp_all add: c3 reads demo_poll_def port100_new_def with_reads_def demo_frames)
  have 4: "initiator_exchange_optional dummy ([0x93, 0x70] @ [0x04, 0x25, 0xA1, 0x7C, 0xFC]) 30 c3
      = Some (Inr (Some [0x08, 0xB6, 0xDD]), c3\<lparr>ch_world := w4\<rparr>)"
    using send by (simp add: demo_operations)
  show ?thesis using 4 by (simp add: discover_level_def bindD_Inr 1 2 3 liftD_def)
qed

theorem discovered_uid_witness:
  "\<exists>c'. discover_uid dummy demo_poll = Some (Inr (Some ([0x08, 0xB6, 0xDD], [0x04, 0x25, 0xA1, 0x7C])), c')"
proof -
  let ?answers = "[([0x04, 0x25, 0xA1, 0x7C, 0xFC], [0x08, 0xB6, 0xDD])] :: (bytes \<times> bytes) list"
  obtain c' where "discover_level dummy 0x93 demo_poll = Some (Inr (Some (hd ?answers)), c')" using demo_level by auto
  then have "levels_answered dummy [0x93, 0x95, 0x97] ?answers demo_poll c'" by simp
  from discovered_uid [OF _ _ this, of "[0x04, 0x25, 0xA1, 0x7C]"] show ?thesis
    by (simp add: answers_as_card_def cascade_uid_def)
qed

end
