(* ===== verification/Port100_Target.thy ===== *)
theory Port100_Target
  imports Port100_Initiator
begin

text \<open>
  Discovery with the NFC Port-100, second part: the reader listens as a target
  (\<open>src/driver/port100/discovery/target.rs\<close>): activation as a Type 2, Type 3 or Type 4 tag and the ATR, PSL
  and DEP requests that activate a peer-to-peer link. The responder of a Type F listener is a function with
  a state of its own (\<open>FnMut\<close>). The loops over the requests of a link end only when the peer falls silent,
  and are partial functions.
\<close>

section \<open>Answers of the reader\<close>

definition DEFAULT_RATS_RESPONSE :: bytes where "DEFAULT_RATS_RESPONSE = [0x05, 0x78, 0x80, 0x70, 0x02]"

datatype target_bitrate_code = A106 | F212 | F424 | UnknownRate u8

fun bitrate_as_str :: "target_bitrate_code \<Rightarrow> string" where
  "bitrate_as_str A106 = ''106A''"
| "bitrate_as_str F212 = ''212F''"
| "bitrate_as_str F424 = ''424F''"
| "bitrate_as_str (UnknownRate _) = ''unknown bitrate''"

definition bitrate_from_str :: "string \<Rightarrow> target_bitrate_code" where
  "bitrate_from_str s =
     (if s = ''106A'' then A106 else if s = ''212F'' then F212 else if s = ''424F'' then F424 else UnknownRate 0)"

definition decode_target_bitrate :: "u8 \<Rightarrow> target_bitrate_code" where
  "decode_target_bitrate b =
     (if b = 11 then A106 else if b = 12 then F212 else if b = 13 then F424 else UnknownRate b)"

text \<open>The view of an answer: its bitrate, its payload and its flags.\<close>

definition view_bitrate :: "bytes \<Rightarrow> target_bitrate_code" where
  "view_bitrate data = (case nth_opt data 0 of Some b \<Rightarrow> decode_target_bitrate b | None \<Rightarrow> UnknownRate 0)"

definition view_payload :: "bytes \<Rightarrow> bytes" where
  "view_payload data = (case from_offset data 7 of Some p \<Rightarrow> p | None \<Rightarrow> [])"

definition len_matches_len_byte :: "bytes \<Rightarrow> bool" where
  "len_matches_len_byte data \<longleftrightarrow>
     (case nth_opt (view_payload data) 0 of Some b \<Rightarrow> length (view_payload data) = unat b | None \<Rightarrow> False)"

definition is_activation_frame :: "bytes \<Rightarrow> bool" where
  "is_activation_frame data \<longleftrightarrow> (case nth_opt data 2 of Some b \<Rightarrow> b AND 0x03 = 3 | None \<Rightarrow> False)"

section \<open>The parameters of a listener\<close>

definition expect_exact_field :: "bytes option \<Rightarrow> string \<Rightarrow> nat \<Rightarrow> driver_error + bytes" where
  "expect_exact_field field name expected_len =
     bindE (ok_or field (Other (name @ '' is required''))) (\<lambda>bs.
     if length bs \<noteq> expected_len then
       driver_other (name @ '' must be '' @ dec expected_len @ '' bytes'')
     else Inr bs)"

definition nfca_params_from_local :: "local_target \<Rightarrow> driver_error + bytes" where
  "nfca_params_from_local target =
     bindE (expect_exact_field (sens_res (lt_data target)) ''sens_res'' 2) (\<lambda>atqa.
     bindE (expect_exact_field (sdd_res (lt_data target)) ''sdd_res'' 4) (\<lambda>sdd.
     if sdd ! 0 \<noteq> 0x08 then driver_other ''sdd_res[0] must be 0x08''
     else
       bindE (expect_exact_field (sel_res (lt_data target)) ''sel_res'' 1) (\<lambda>sak.
       Inr (atqa @ take 3 (drop 1 sdd) @ sak))))"

definition build_local_nfca_target :: "bytes \<Rightarrow> driver_error + local_target" where
  "build_local_nfca_target nfca_params =
     bindE (new_local_target ''106A'') (\<lambda>t.
     Inr (t\<lparr>lt_data := (lt_data t)\<lparr>sens_res := Some (take 2 nfca_params),
       sdd_res := Some (0x08 # take 3 (drop 2 nfca_params)), sel_res := Some (take 1 (drop 5 nfca_params))\<rparr>\<rparr>))"

definition build_sensf_res_payload :: "type3_tag_polling_result \<Rightarrow> u8 \<Rightarrow> string \<Rightarrow> bytes" where
  "build_sensf_res_payload res request_code rate =
     [0x01] @ t3_idm res @ t3_pmm res
     @ (if request_code = 0x01 then t3_optional res
        else if request_code = 0x02 then [0x00, if rate = ''424F'' then 0x02 else 0x01]
        else [])"

text \<open>\<open>Err(Fault(_))\<close> of an exchange is handled by the caller, any other error is passed on.\<close>

definition catch_fault :: "('s, 'a) driver_op \<Rightarrow> ('a option \<Rightarrow> ('s, 'b) driver_op) \<Rightarrow> ('s, 'b) driver_op" where
  "catch_fault m f = tryD m (\<lambda>r. case r of
       Inr x \<Rightarrow> f (Some x)
     | Inl (Chipset (ChipsetFault fault)) \<Rightarrow> f None
     | Inl e \<Rightarrow> liftD (Inl e))"

section \<open>Type 2 tags\<close>

definition tt2_step :: "'w transport \<Rightarrow> bytes \<Rightarrow> u16 \<Rightarrow> ('w, local_target option) port100_op" where
  "tt2_step T nfca_params recv_timeout =
     catch_fault (target_exchange_default T True nfca_params [] recv_timeout None) (\<lambda>answer.
     case answer of
       None \<Rightarrow> liftD (Inr None)
     | Some data \<Rightarrow>
         if view_bitrate data = A106 \<and> is_activation_frame data then
           bindD (configure_target T [(''rf_off_error'', 1)]) (\<lambda>_.
           bindD (liftD (build_local_nfca_target nfca_params)) (\<lambda>t.
           liftD (Inr (Some (t\<lparr>lt_data := (lt_data t)\<lparr>tt2_cmd := Some (view_payload data)\<rparr>\<rparr>)))))
         else liftD (Inr None))"

text \<open>A step that keeps no state, and a loop of which only the outcome is wanted.\<close>

definition stateless :: "(u16 \<Rightarrow> ('w, 'r option) port100_op) \<Rightarrow> unit \<Rightarrow> u16 \<Rightarrow> ('w, 'r option \<times> unit) port100_op" where
  "stateless step x t = bindD (step t) (\<lambda>r. liftD (Inr (r, ())))"

definition outcome_of :: "('w, 'r option \<times> 'x) port100_op \<Rightarrow> ('w, 'r option) port100_op" where
  "outcome_of m = bindD m (\<lambda>(r, x). liftD (Inr r))"

definition listen_type_a_tt2 :: "'w transport \<Rightarrow> bytes \<Rightarrow> int \<Rightarrow> ('w, local_target option) port100_op" where
  "listen_type_a_tt2 T nfca_params timeout = outcome_of (run_timeout_loop T timeout (stateless (tt2_step T nfca_params)) ())"

section \<open>Type 4 tags\<close>

record tt4_session =
  tt4_pending :: "bytes option"
  tt4_rats_cmd :: "bytes option"
  tt4_rats_res :: "bytes option"

definition tt4_session_new :: tt4_session where
  "tt4_session_new = \<lparr>tt4_pending = None, tt4_rats_cmd = None, tt4_rats_res = None\<rparr>"

definition tt4_start :: "bytes \<Rightarrow> bytes \<Rightarrow> tt4_session \<Rightarrow> tt4_session" where
  "tt4_start cmd res s = s\<lparr>tt4_rats_cmd := Some cmd, tt4_rats_res := Some res, tt4_pending := Some res\<rparr>"

definition tt4_queue :: "bytes \<Rightarrow> tt4_session \<Rightarrow> tt4_session" where
  "tt4_queue data s = s\<lparr>tt4_pending := Some data\<rparr>"

definition tt4_rats :: "tt4_session \<Rightarrow> (bytes \<times> bytes) option" where
  "tt4_rats s = (case (tt4_rats_cmd s, tt4_rats_res s) of (Some cmd, Some res) \<Rightarrow> Some (cmd, res) | _ \<Rightarrow> None)"

definition tt4_clear :: "tt4_session \<Rightarrow> tt4_session" where
  "tt4_clear s = s\<lparr>tt4_pending := None, tt4_rats_cmd := None, tt4_rats_res := None\<rparr>"

text \<open>The interface bytes TA(1), TB(1) and TC(1), each if T0 announces it and a byte is left.\<close>

definition interface_byte :: "bool \<Rightarrow> bytes \<Rightarrow> u8 option \<times> bytes" where
  "interface_byte present params =
     (case params of b # rest \<Rightarrow> if present then (Some b, rest) else (None, params) | [] \<Rightarrow> (None, []))"

definition is_valid_tt4_command :: "bytes \<Rightarrow> bytes \<Rightarrow> bytes \<Rightarrow> bool" where
  "is_valid_tt4_command cmd_rats res_rats cmd \<longleftrightarrow>
     (if length cmd_rats < 2 \<or> length res_rats < 2 \<or> cmd = [] then False
      else
        let did = cmd_rats ! 1 AND 0x0F;
            t0 = res_rats ! 1;
            (ta, params) = interface_byte (t0 AND 0x10 \<noteq> 0) (drop 2 res_rats);
            (tb, params) = interface_byte (t0 AND 0x20 \<noteq> 0) params;
            (tc, params) = interface_byte (t0 AND 0x40 \<noteq> 0) params;
            did_supported = (case tc of Some b \<Rightarrow> b AND 0x02 \<noteq> 0 | None \<Rightarrow> True);
            cmd_with_did = (cmd ! 0 AND 0x08 \<noteq> 0) in
        (cmd_with_did \<and> did_supported \<and> nth_opt cmd 1 = Some did) \<or> (did = 0 \<and> \<not> cmd_with_did))"

datatype tt4_step_outcome = Tt4Continue | QueueResponse bytes | FoundTarget local_target

definition handle_tt4_frame ::
    "'w transport \<Rightarrow> local_target \<Rightarrow> bytes \<Rightarrow> tt4_session \<Rightarrow> bytes \<Rightarrow> ('w, tt4_step_outcome \<times> tt4_session) port100_op" where
  "handle_tt4_frame T target nfca_params session data =
     (let frame = view_payload data in
      if view_bitrate data \<noteq> A106 then liftD (Inr (Tt4Continue, session))
      else if is_activation_frame data \<and> nth_opt frame 0 = Some 0xE0 then
        let res = (case rats_res (lt_data target) of Some r \<Rightarrow> r | None \<Rightarrow> DEFAULT_RATS_RESPONSE) in
        liftD (Inr (QueueResponse res, tt4_start frame res session))
      else if frame = [] \<or> frame ! 0 = 0xF0 then liftD (Inr (Tt4Continue, session))
      else
        case tt4_rats session of
          None \<Rightarrow> liftD (Inr (Tt4Continue, session))
        | Some (cmd_rats, res_rats) \<Rightarrow>
            if \<not> is_valid_tt4_command cmd_rats res_rats frame then liftD (Inr (Tt4Continue, session))
            else if frame ! 0 = 0xC2 \<or> frame ! 0 = 0xCA then liftD (Inr (QueueResponse frame, tt4_clear session))
            else
              bindD (configure_target T [(''rf_off_error'', 1)]) (\<lambda>_.
              bindD (liftD (build_local_nfca_target nfca_params)) (\<lambda>t.
              liftD (Inr (FoundTarget (t\<lparr>lt_data := (lt_data t)\<lparr>tt4_cmd := Some frame, rats_cmd := Some cmd_rats,
                rats_res := Some res_rats\<rparr>\<rparr>), tt4_clear session)))))"

definition tt4_step ::
    "'w transport \<Rightarrow> local_target \<Rightarrow> bytes \<Rightarrow> tt4_session \<Rightarrow> u16 \<Rightarrow> ('w, local_target option \<times> tt4_session) port100_op" where
  "tt4_step T target nfca_params session recv_timeout =
     (let waiting = session\<lparr>tt4_pending := None\<rparr> in
      catch_fault (target_exchange_default T True nfca_params [] recv_timeout (tt4_pending session)) (\<lambda>answer.
      case answer of
        None \<Rightarrow> liftD (Inr (None, tt4_clear waiting))
      | Some data \<Rightarrow>
          bindD (handle_tt4_frame T target nfca_params waiting data) (\<lambda>(outcome, session).
          liftD (Inr (case outcome of
              QueueResponse bs \<Rightarrow> (None, tt4_queue bs session)
            | FoundTarget t \<Rightarrow> (Some t, session)
            | Tt4Continue \<Rightarrow> (None, session))))))"

definition listen_type_a_tt4 :: "'w transport \<Rightarrow> local_target \<Rightarrow> bytes \<Rightarrow> int \<Rightarrow> ('w, local_target option) port100_op" where
  "listen_type_a_tt4 T target nfca_params timeout =
     outcome_of (run_timeout_loop T timeout (tt4_step T target nfca_params) tt4_session_new)"

definition listen_type_a :: "'w transport \<Rightarrow> local_target \<Rightarrow> int \<Rightarrow> ('w, local_target option) port100_op" where
  "listen_type_a T target timeout =
     bindD (liftD (ensure_supported_bitrate (br_send (lt_bitrate target)) [''106A''] ''unsupported target bitrate: '')) (\<lambda>_.
     if rid_res (lt_data target) \<noteq> None then
       liftD (Inl (DriverUnsupported ''listening for type 1 tag activation is not supported''))
     else
       bindD (liftD (nfca_params_from_local target)) (\<lambda>nfca_params.
       bindD (configure_target_for_listen T ''106A'') (\<lambda>_.
       bindD (liftD (ok_or (Option.bind (sel_res (lt_data target)) (\<lambda>bs. nth_opt bs 0)) (Other ''sel_res is required''))) (\<lambda>sak.
       if sak AND 0x60 = 0x00 then listen_type_a_tt2 T nfca_params timeout
       else if sak AND 0x20 = 0x20 then listen_type_a_tt4 T target nfca_params timeout
       else liftD (Inl (DriverUnsupported ''sel_res does not indicate any tag support''))))))"

definition listen_type_b :: "local_target \<Rightarrow> int \<Rightarrow> ('w, local_target option) port100_op" where
  "listen_type_b target timeout =
     liftD (Inl (DriverUnsupported (local_bitrate target @ '' does not support listen as Type B Target'')))"

section \<open>Type 3 tags\<close>

record 'x listener_f =
  lf_transmit :: "bytes option"
  lf_req :: "sensf_request option"
  lf_res :: "type3_tag_polling_result option"
  lf_responder :: 'x

type_synonym 'x responder = "sensf_request \<Rightarrow> 'x \<Rightarrow> type3_tag_polling_result option \<times> 'x"

text \<open>What a frame makes of the listener: a command for the card it stands for, or a poll that it answers.\<close>

definition is_addressed :: "'x listener_f \<Rightarrow> bytes \<Rightarrow> bool" where
  "is_addressed l data \<longleftrightarrow> len_matches_len_byte data \<and> lf_req l \<noteq> None \<and>
     (case lf_res l of Some res \<Rightarrow> slice_opt (view_payload data) 2 10 = Some (t3_idm res) | None \<Rightarrow> False)"

definition is_tt3_command :: "bytes \<Rightarrow> bool" where
  "is_tt3_command data \<longleftrightarrow>
     len_matches_len_byte data \<and> length (view_payload data) \<ge> 10 \<and> nth_opt (view_payload data) 1 \<noteq> Some 0x00"

definition activated_type_f :: "'w transport \<Rightarrow> local_target \<Rightarrow> 'x listener_f \<Rightarrow> bytes \<Rightarrow> ('w, local_target) port100_op" where
  "activated_type_f T target l frame =
     (let rate = br_send (lt_bitrate target) in
      bindD (configure_target T [(''rf_off_error'', 1)]) (\<lambda>_.
      bindD (liftD (new_local_target rate)) (\<lambda>t.
      liftD (Inr (t\<lparr>lt_data := (lt_data t)\<lparr>sensf_req := map_option sr_raw (lf_req l),
        td_sensf_res := (case (lf_req l, lf_res l) of
          (Some req, Some res) \<Rightarrow> Some (build_sensf_res_payload res (sr_request_code req) rate) | _ \<Rightarrow> None),
        tt3_cmd := Some frame\<rparr>\<rparr>)))))"

definition answer_poll :: "string \<Rightarrow> 'x responder \<Rightarrow> bytes \<Rightarrow> 'x listener_f \<Rightarrow> 'x listener_f" where
  "answer_poll rate responder data l =
     (if length data = 13 \<and> nth_opt data 7 = Some 6 \<and> nth_opt data 8 = Some 0 then
        case sensf_request_from_frame (view_payload data) of
          None \<Rightarrow> l
        | Some req \<Rightarrow>
            (case responder req (lf_responder l) of
               (None, x) \<Rightarrow> l\<lparr>lf_responder := x\<rparr>
             | (Some res, x) \<Rightarrow>
                 let tx = build_sensf_res_payload res (sr_request_code req) rate in
                 l\<lparr>lf_req := Some req, lf_res := Some res, lf_transmit := Some (u8_of (length tx + 1) # tx), lf_responder := x\<rparr>)
      else l)"

definition type_f_step ::
    "'w transport \<Rightarrow> local_target \<Rightarrow> 'x responder \<Rightarrow> 'x listener_f \<Rightarrow> u16 \<Rightarrow> ('w, local_target option \<times> 'x listener_f) port100_op" where
  "type_f_step T target responder l recv_timeout =
     (let l' = l\<lparr>lf_transmit := None\<rparr> in
      catch_fault (target_exchange_default T False [] [] recv_timeout (lf_transmit l)) (\<lambda>answer.
      case answer of
        None \<Rightarrow> liftD (Inr (None, l'))
      | Some data \<Rightarrow>
          if is_addressed l' data \<or> is_tt3_command data then
            bindD (activated_type_f T target l' (view_payload data)) (\<lambda>t. liftD (Inr (Some t, l')))
          else liftD (Inr (None, answer_poll (br_send (lt_bitrate target)) responder data l'))))"

definition listen_type_f_loop ::
    "'w transport \<Rightarrow> local_target \<Rightarrow> int \<Rightarrow> 'x responder \<Rightarrow> 'x \<Rightarrow> ('w, local_target option \<times> 'x) port100_op" where
  "listen_type_f_loop T target timeout responder x =
     bindD (run_timeout_loop T timeout (type_f_step T target responder)
       \<lparr>lf_transmit = None, lf_req = None, lf_res = None, lf_responder = x\<rparr>) (\<lambda>(r, l).
     liftD (Inr (r, lf_responder l)))"

definition listen_type_f ::
    "'w transport \<Rightarrow> local_target \<Rightarrow> int \<Rightarrow> 'x responder \<Rightarrow> 'x \<Rightarrow> ('w, local_target option \<times> 'x) port100_op" where
  "listen_type_f T target timeout responder x =
     bindD (liftD (ensure_supported_bitrate (br_send (lt_bitrate target)) [''212F'', ''424F''] ''unsupported target bitrate: '')) (\<lambda>_.
     bindD (configure_target_for_listen T (br_send (lt_bitrate target))) (\<lambda>_.
     listen_type_f_loop T target timeout responder x))"

section \<open>Peer-to-peer links\<close>

definition await_step ::
    "'w transport \<Rightarrow> bytes \<Rightarrow> bytes \<Rightarrow> u16 \<Rightarrow> ('w, (target_bitrate_code \<times> bytes) option) port100_op" where
  "await_step T nfca_params nfcf_params recv_timeout =
     catch_fault (target_exchange_default T True nfca_params nfcf_params recv_timeout None) (\<lambda>answer.
     liftD (Inr (case answer of
         Some data \<Rightarrow> if is_activation_frame data then Some (view_bitrate data, view_payload data) else None
       | None \<Rightarrow> None)))"

definition await_dep_activation ::
    "'w transport \<Rightarrow> int \<Rightarrow> bytes \<Rightarrow> bytes \<Rightarrow> ('w, (target_bitrate_code \<times> bytes) option) port100_op" where
  "await_dep_activation T timeout nfca_params nfcf_params =
     outcome_of (run_timeout_loop T timeout (stateless (await_step T nfca_params nfcf_params)) ())"

text \<open>Answering ATR requests: the request that comes behind them, and the last of them.\<close>

partial_function (option) handle_dep_atr ::
    "'w transport \<Rightarrow> string \<Rightarrow> local_target \<Rightarrow> bytes option \<Rightarrow> bytes \<Rightarrow> ('w, bytes option \<times> bytes) port100_op" where
  "handle_dep_atr T rate target data atr c =
     (case data of
        None \<Rightarrow> Some (Inr (None, atr), c)
      | Some current \<Rightarrow>
          if nth_opt current 1 \<noteq> Some 0 then Some (Inr (Some current, atr), c)
          else if length current < 16 \<or> length current > 64 then Some (Inr (None, current), c)
          else
            bindD (liftD (ok_or (atr_res (lt_data target)) (Other ''atr_res is required''))) (\<lambda>res.
            bindD (dep_send_frame T rate (Some res) 1000) (\<lambda>data.
            handle_dep_atr T rate target data current)) c)"

definition build_dep_local_target ::
    "string \<Rightarrow> bytes \<Rightarrow> bytes \<Rightarrow> bytes \<Rightarrow> bytes \<Rightarrow> bytes option \<Rightarrow> driver_error + local_target option" where
  "build_dep_local_target rate activation_params nfca_params current atr psl =
     (let did = (case nth_opt atr 12 of Some b \<Rightarrow> if b > 0 then Some b else None | None \<Rightarrow> None);
          recv_did = (if (case nth_opt current 2 of Some b \<Rightarrow> drop_bit 2 b AND 1 | None \<Rightarrow> 0) \<noteq> 0 then nth_opt current 3 else None) in
      if did \<noteq> recv_did then Inr None
      else
        bindE (if activation_params = nfca_params then build_local_nfca_target activation_params
               else bindE (new_local_target rate) (\<lambda>t.
                 Inr (t\<lparr>lt_data := (lt_data t)\<lparr>td_sensf_res := Some (0x01 # activation_params)\<rparr>\<rparr>))) (\<lambda>t.
        Inr (Some (t\<lparr>lt_data := (lt_data t)\<lparr>dep_req := Some current, atr_req := Some atr,
          psl_req := (case psl of Some p \<Rightarrow> Some p | None \<Rightarrow> psl_req (lt_data t))\<rparr>\<rparr>))))"

text \<open>One request of an active link: it is over with a result, or the link goes on.\<close>

datatype dep_outcome = LinkOver "local_target option" | LinkContinues target_bitrate_code "bytes option"

definition dep_request ::
    "'w transport \<Rightarrow> target_bitrate_code \<Rightarrow> bytes \<Rightarrow> bytes \<Rightarrow> bytes \<Rightarrow> bytes \<Rightarrow> bytes option \<Rightarrow> ('w, dep_outcome) port100_op" where
  "dep_request T rate activation_params nfca_params current atr psl =
     (case nth_opt current 1 of
        None \<Rightarrow> liftD (Inr (LinkOver None))
      | Some code \<Rightarrow>
          if code = 4 then
            bindD (dep_handle_psl T (bitrate_as_str rate) current) (\<lambda>r.
            liftD (Inr (case r of
                Some (new_rate, req) \<Rightarrow> LinkContinues (bitrate_from_str new_rate) (Some req)
              | None \<Rightarrow> LinkContinues rate psl)))
          else if code = 6 then
            bindD (liftD (build_dep_local_target (bitrate_as_str rate) activation_params nfca_params current atr psl)) (\<lambda>r.
            liftD (Inr (case r of Some t \<Rightarrow> LinkOver (Some t) | None \<Rightarrow> LinkContinues rate psl)))
          else if code = 8 then
            bindD (dep_send_simple_response T (bitrate_as_str rate) 0x09 current) (\<lambda>_. liftD (Inr (LinkOver None)))
          else if code = 10 then
            bindD (dep_send_simple_response T (bitrate_as_str rate) 0x0B current) (\<lambda>_. liftD (Inr (LinkOver None)))
          else liftD (Inr (LinkContinues rate psl)))"

partial_function (option) process_dep_requests ::
    "'w transport \<Rightarrow> target_bitrate_code \<Rightarrow> bytes \<Rightarrow> bytes \<Rightarrow> bytes option \<Rightarrow> bytes \<Rightarrow> bytes option \<Rightarrow> ('w, local_target option) port100_op" where
  "process_dep_requests T rate activation_params nfca_params data atr psl c =
     (case data of
        None \<Rightarrow> Some (Inr None, c)
      | Some current \<Rightarrow>
          bindD (dep_request T rate activation_params nfca_params current atr psl) (\<lambda>outcome c.
            case outcome of
              LinkOver r \<Rightarrow> Some (Inr r, c)
            | LinkContinues rate psl \<Rightarrow>
                bindD (dep_send_frame T (bitrate_as_str rate) None 1000) (\<lambda>data.
                process_dep_requests T rate activation_params nfca_params data atr psl) c) c)"

definition handle_dep_activation ::
    "'w transport \<Rightarrow> local_target \<Rightarrow> target_bitrate_code \<Rightarrow> bytes \<Rightarrow> bytes \<Rightarrow> bytes \<Rightarrow> ('w, local_target option) port100_op" where
  "handle_dep_activation T target rate frame nfca_params nfcf_params =
     bindD (configure_target T [(''rf_off_error'', 1)]) (\<lambda>_.
     if rate = A106 \<and> length frame > 1 \<and> frame ! 0 \<noteq> 0xF0 then
       bindD (liftD (build_local_nfca_target nfca_params)) (\<lambda>t.
       liftD (Inr (Some (t\<lparr>lt_data := (lt_data t)\<lparr>tt2_cmd := Some frame\<rparr>\<rparr>))))
     else
       let data = map_option df_payload (dep_parse_frame (bitrate_as_str rate) frame [0]);
           activation_params = (if rate = A106 then nfca_params else nfcf_params) in
       bindD (handle_dep_atr T (bitrate_as_str rate) target data []) (\<lambda>(data, atr).
       process_dep_requests T rate activation_params nfca_params data atr None))"

definition listen_dep_loop ::
    "'w transport \<Rightarrow> local_target \<Rightarrow> bytes \<Rightarrow> bytes \<Rightarrow> int \<Rightarrow> ('w, local_target option) port100_op" where
  "listen_dep_loop T target nfca_params nfcf_params timeout =
     bindD (await_dep_activation T timeout nfca_params nfcf_params) (\<lambda>activation.
     case activation of
       None \<Rightarrow> liftD (Inr None)
     | Some (rate, frame) \<Rightarrow> handle_dep_activation T target rate frame nfca_params nfcf_params)"

definition listen_dep :: "'w transport \<Rightarrow> local_target \<Rightarrow> int \<Rightarrow> ('w, local_target option) port100_op" where
  "listen_dep T target timeout =
     bindD (liftD (nfca_params_from_local target)) (\<lambda>nfca_params.
     bindD (liftD (ok_or (td_sensf_res (lt_data target)) (Other ''sensf_res is required''))) (\<lambda>sensf.
     if length sensf < 19 then liftD (driver_other ''sensf_res must be at least 19 bytes'')
     else if (case atr_res (lt_data target) of Some v \<Rightarrow> length v | None \<Rightarrow> 0) < 17 then
       liftD (driver_other ''atr_res is required and must be >= 17 bytes'')
     else
       bindD (configure_target_for_listen T ''106A'') (\<lambda>_.
       listen_dep_loop T target nfca_params (take 18 (drop 1 sensf)) timeout)))"

section \<open>Listening comes to an end\<close>

text \<open>
  Each round of a listener either takes time or uses up buffered input: \<open>moves\<close> is the order in which it
  goes on, \<open>settles\<close> its reflexive form.
\<close>

definition moves :: "'w transport \<Rightarrow> 'w port100 \<Rightarrow> 'w port100 \<Rightarrow> bool" where
  "moves T c c' \<longleftrightarrow> tr_now T (ch_world c) < tr_now T (ch_world c') \<or>
     tr_now T (ch_world c) = tr_now T (ch_world c') \<and> length (ch_buffer c') < length (ch_buffer c)"

definition settles :: "'w transport \<Rightarrow> 'w port100 \<Rightarrow> 'w port100 \<Rightarrow> bool" where
  "settles T c c' \<longleftrightarrow> tr_now T (ch_world c) < tr_now T (ch_world c') \<or>
     tr_now T (ch_world c) = tr_now T (ch_world c') \<and> length (ch_buffer c') \<le> length (ch_buffer c)"

lemma settles_moves: "settles T c c' \<Longrightarrow> moves T c' c'' \<Longrightarrow> moves T c c''"
  unfolding moves_def settles_def by linarith

lemma moves_trans: "moves T c c' \<Longrightarrow> moves T c' c'' \<Longrightarrow> moves T c c''"
  unfolding moves_def by linarith

definition always_returns :: "('s, 'a) driver_op \<Rightarrow> bool" where
  "always_returns m \<longleftrightarrow> (\<forall>s. \<exists>r s'. m s = Some (r, s'))"

text \<open>A fault is something only the answer of a radio exchange reports.\<close>

definition never_faults :: "('s, 'a) driver_op \<Rightarrow> bool" where
  "never_faults m \<longleftrightarrow> (\<forall>s f s'. m s \<noteq> Some (Inl (Chipset (ChipsetFault f)), s'))"

named_theorems returns_intros
named_theorems no_fault_intros

lemma returnsE: "always_returns m \<Longrightarrow> (\<And>r s'. m s = Some (r, s') \<Longrightarrow> P) \<Longrightarrow> P"
  unfolding always_returns_def by blast

lemma returns_basic [returns_intros]: "always_returns (liftD r)" "always_returns (readD g)" "always_returns (modifyD h)"
  by (simp_all add: always_returns_def liftD_def readD_def modifyD_def)

lemma returns_bindD [returns_intros]:
  assumes "always_returns m" and "\<And>x. always_returns (f x)"
  shows "always_returns (bindD m f)"
  unfolding always_returns_def
proof
  fix s
  from assms(1) obtain r s1 where m: "m s = Some (r, s1)" by (rule returnsE)
  show "\<exists>r s'. bindD m f s = Some (r, s')"
  proof (cases r)
    case (Inr x)
    with m assms(2) [of x] show ?thesis by (simp add: bindD_def always_returns_def)
  qed (use m in \<open>simp add: bindD_def\<close>)
qed

lemma returns_tryD [returns_intros]: "always_returns m \<Longrightarrow> (\<And>r. always_returns (f r)) \<Longrightarrow> always_returns (tryD m f)"
  unfolding always_returns_def by (metis tryD_Some)

lemma returns_transport [returns_intros]: "always_returns (write_transport T data)" "always_returns (deadline_in T t)" "always_returns (sleep T t)"
  by (auto simp: always_returns_def write_transport_def deadline_in_def sleep_def readD_def modifyD_def split: prod.split)

lemma returns_read_exact [returns_intros]: "ticking T \<Longrightarrow> always_returns (read_exact T n d)"
  unfolding always_returns_def read_exact_def using read_exact_from_returns by blast

lemma returns_recovery [returns_intros]:
  fixes m :: "(('w, 'z) channel_scheme, 'a) driver_op"
  assumes "ticking T" and "always_returns m"
  shows "always_returns (recover_on_error T cancel drain m)"
proof -
  have "always_returns (recover_after_error T cancel drain :: (('w, 'z) channel_scheme, unit) driver_op)"
    unfolding always_returns_def using recovery_returns [OF assms(1)] by blast
  then show ?thesis
    unfolding recover_on_error_def using assms(2) by (intro returns_intros) (auto split: sum.split intro: returns_intros)
qed

lemma no_fault_liftD [no_fault_intros]: "(\<And>f. r \<noteq> Inl (Chipset (ChipsetFault f))) \<Longrightarrow> never_faults (liftD r)"
  by (simp add: never_faults_def liftD_def)

lemma no_fault_basic [no_fault_intros]: "never_faults (readD g)" "never_faults (modifyD h)" "never_faults (deadline_in T t)"
  by (simp_all add: never_faults_def readD_def modifyD_def deadline_in_def)

lemma no_fault_bindD [no_fault_intros]: "never_faults m \<Longrightarrow> (\<And>x. never_faults (f x)) \<Longrightarrow> never_faults (bindD m f)"
  unfolding never_faults_def bindD_def by (auto split: option.splits sum.splits)

lemma no_fault_write [no_fault_intros]: "never_faults (write_transport T data)"
  by (auto simp: never_faults_def write_transport_def map_err_Inl split: prod.split)

lemma no_fault_recovery [no_fault_intros]:
  fixes m :: "(('w, 'z) channel_scheme, 'a) driver_op"
  assumes "ticking T" and "never_faults m"
  shows "never_faults (recover_on_error T cancel drain m)"
proof -
  show ?thesis
    unfolding never_faults_def
  proof (intro allI notI)
    fix s f s'
    assume run: "recover_on_error T cancel drain m s = Some (Inl (Chipset (ChipsetFault f)), s')"
    then obtain r s1 where m: "m s = Some (r, s1)" by (cases "m s") (auto simp: recover_on_error_def tryD_def)
    show False
    proof (cases r)
      case (Inl e)
      with run m have "bindD (recover_after_error T cancel drain) (\<lambda>_. liftD (Inl e :: driver_error + 'a)) s1 = Some (Inl (Chipset (ChipsetFault f)), s')"
        by (simp add: recover_on_error_def tryD_def)
      moreover obtain s2 where "recover_after_error T cancel drain s1 = Some (Inr (), s2)"
        using recovery_returns [OF assms(1)] by blast
      ultimately have "e = Chipset (ChipsetFault f)" by (simp add: bindD_Inr)
      with m Inl assms(2) show False by (simp add: never_faults_def)
    qed (use run m in \<open>simp add: recover_on_error_def tryD_def\<close>)
  qed
qed

lemma read_exact_from_io_error:
  assumes "read_exact_from T n d out c = Some (r, c')"
  shows "r = Inl e \<Longrightarrow> \<exists>io. e = Io io"
proof -
  let ?P = "\<lambda>T n d out c y. \<forall>e. (fst y :: driver_error + bytes) = Inl e \<longrightarrow> (\<exists>io. e = Io io)"
  have "?P T n d out c (r, c')"
  proof (rule read_exact_from.raw_induct [where P = ?P, OF _ assms], goal_cases)
    case (1 f T n d out c y)
    have rec: "\<exists>io. e = Io io" if "f T n d out' c1 = Some (Inl e, s)" for out' c1 e s
      using 1(1) [OF that] by simp
    show ?case
    proof (intro allI impI)
      fix e
      assume e: "fst y = Inl e"
      obtain s where y: "y = (Inl e, s)" using e by (cases y) simp
      show "\<exists>io. e = Io io"
        using 1(2) [unfolded take_from_buffer_eq Let_def y]
        by (simp split: if_split_asm option.split_asm prod.split_asm sum.split_asm) (auto dest: rec)
    qed
  qed
  then show "r = Inl e \<Longrightarrow> \<exists>io. e = Io io" by simp
qed

lemma no_fault_read_exact [no_fault_intros]: "never_faults (read_exact T n d)"
  unfolding never_faults_def read_exact_def using read_exact_from_io_error by blast

lemma no_fault_send_command: "ticking T \<Longrightarrow> never_faults (send_command T code p)"
  unfolding send_command_def write_frame_def read_command_response_def read_ack_frame_def read_response_frame_def
    read_frame_bytes_def
  by (auto intro!: no_fault_intros simp: extract_response_payload_def bindE_def driver_other_def ok_or_def
      split: option.splits sum.splits if_splits)

lemma returns_send_command [returns_intros]: "ticking T \<Longrightarrow> always_returns (send_command T code p)"
  unfolding send_command_def write_frame_def read_command_response_def read_ack_frame_def read_response_frame_def
    read_frame_bytes_def
  by (auto intro!: returns_intros split: option.split prod.split)

lemma recover_on_error_Inr: "recover_on_error T cancel drain m c = Some (Inr x, c') \<Longrightarrow> ticking T \<Longrightarrow> m c = Some (Inr x, c')"
proof -
  assume run: "recover_on_error T cancel drain m c = Some (Inr x, c')" and T: "ticking T"
  then obtain r c1 where m: "m c = Some (r, c1)" by (cases "m c") (auto simp: recover_on_error_def tryD_def)
  obtain c2 where "recover_after_error T cancel drain c1 = Some (Inr (), c2)" using recovery_returns [OF T] by blast
  with run m show "m c = Some (Inr x, c')"
    by (cases r) (simp_all add: recover_on_error_def tryD_def bindD_Inr)
qed

lemma read_exact_moves:
  assumes "ticking T" and "read_exact T n d c = Some (Inr x, c')" and "0 < n"
  shows "moves T c c'"
  using read_exact_from_progress [OF assms(2) [unfolded read_exact_def] assms(1)] assms(3)
  unfolding moves_def by auto

lemma read_frame_moves:
  assumes "ticking T" and "read_frame_bytes T d c = Some (Inr x, c')"
  shows "moves T c c'"
  using assms(2)
  by (auto simp: read_frame_bytes_def bindD_eq_Inr driver_other_def split: if_splits
      dest!: read_exact_moves [OF assms(1)] intro: moves_trans)

lemma send_command_moves:
  assumes T: "ticking T" and run: "send_command T code p c = Some (Inr rsp, c')"
  shows "moves T c c'"
proof -
  from run obtain f c1 c2 c3 u g where f: "build Port100Format (build_command_payload code p) = Some f"
    and 1: "recover_on_error T ACK_BYTES False (write_transport T (raw f)) c = Some (Inr (), c1)"
    and 2: "recover_on_error T ACK_BYTES False (read_ack_frame T) c1 = Some (Inr u, c2)"
    and 3: "recover_on_error T ACK_BYTES True (read_response_frame T) c2 = Some (Inr g, c3)" and "c' = c3"
    by (auto simp: send_command_def write_frame_def read_command_response_def bindD_eq_Inr split: option.splits)
  from recover_on_error_Inr [OF 1 T] have "settles T c c1"
    by (auto simp: settles_def write_transport_def dest: ticking_write [OF T] split: prod.splits)
  moreover from recover_on_error_Inr [OF 2 T] have "moves T c1 c2"
    by (auto simp: read_ack_frame_def bindD_eq_Inr deadline_in_def ACK_BYTES_def dest: read_exact_moves [OF T])
  moreover from recover_on_error_Inr [OF 3 T] have "moves T c2 c3"
    by (auto simp: read_response_frame_def bindD_eq_Inr deadline_in_def dest: read_frame_moves [OF T])
  ultimately show ?thesis using \<open>c' = c3\<close> by (blast intro: settles_moves moves_trans)
qed

lemma target_exchange_moves:
  assumes "ticking T" and "target_exchange_rf T g st mdaa na nf mh ar rt tx c = Some (r, c')"
    and "r = Inr data \<or> r = Inl (Chipset (ChipsetFault f))"
  shows "moves T c c'"
proof -
  let ?p = "u16_to_le g @ u16_to_le st @ [flag_byte mdaa] @ pad_to 6 na @ pad_to 18 nf @ [flag_byte mh, flag_byte ar] @ u16_to_le rt
    @ (case tx of Some data \<Rightarrow> data | None \<Rightarrow> [])"
  obtain r0 c0 where send: "send_command T 0x48 ?p c = Some (r0, c0)"
    using returns_send_command [OF assms(1)] by (rule returnsE)
  from assms(2) send have "c' = c0"
    by (cases r0) (auto simp: target_exchange_rf_def bindD_def split: option.splits)
  moreover have "\<exists>rsp. r0 = Inr rsp"
  proof (cases r0)
    case (Inl e)
    with assms(2) send have "r = Inl e" by (auto simp: target_exchange_rf_def bindD_def)
    with assms(3) Inl send no_fault_send_command [OF assms(1)] show ?thesis by (auto simp: never_faults_def)
  qed simp
  ultimately show ?thesis using send send_command_moves [OF assms(1)] by blast
qed

lemma returns_target_exchange [returns_intros]: "ticking T \<Longrightarrow> always_returns (target_exchange_rf T g st mdaa na nf mh ar rt tx)"
  unfolding target_exchange_rf_def by (intro returns_intros)

text \<open>A round that goes on has moved.\<close>

definition steps_on :: "'w transport \<Rightarrow> ('x \<Rightarrow> u16 \<Rightarrow> ('w, 'r option \<times> 'x) port100_op) \<Rightarrow> bool" where
  "steps_on T step \<longleftrightarrow> (\<forall>x t. always_returns (step x t)) \<and>
     (\<forall>x t c x' c'. step x t c = Some (Inr (None, x'), c') \<longrightarrow> moves T c c')"

lemma remaining_ms_zero: "D \<le> tr_now T w \<Longrightarrow> remaining_ms T D w = 0"
  by (simp add: remaining_ms_def u16_of_def)

lemma timeout_loop_returns:
  assumes "steps_on T step"
  shows "\<exists>r c'. timeout_loop T step D t x c = Some (r, c')"
proof (induction "(D - tr_now T (ch_world c), length (ch_buffer c))" arbitrary: t x c
    rule: wf_induct_rule [OF wf_lex_prod [OF wf_less_than wf_less_than]])
  case 1
  obtain r c1 where step: "step x t c = Some (r, c1)"
    using assms unfolding steps_on_def always_returns_def by blast
  have rec: "\<exists>r c'. timeout_loop T step D (remaining_ms T D (ch_world c1)) x' c1 = Some (r, c')" if "r = Inr (None, x')" for x'
  proof (cases "remaining_ms T D (ch_world c1) = 0")
    case True
    then show ?thesis by (subst timeout_loop.simps) simp
  next
    case False
    then have "tr_now T (ch_world c1) < D" using remaining_ms_zero [of D T "ch_world c1"] by (metis not_le)
    moreover have "moves T c c1" using assms step that unfolding steps_on_def by blast
    ultimately have "((D - tr_now T (ch_world c1), length (ch_buffer c1)), (D - tr_now T (ch_world c), length (ch_buffer c)))
        \<in> less_than <*lex*> less_than"
      by (auto simp: moves_def)
    then show ?thesis by (rule 1)
  qed
  show ?case
    by (subst timeout_loop.simps) (use step rec in \<open>auto simp: bindD_def split: sum.split option.split\<close>)
qed

lemma returns_timeout_loop [returns_intros]: "steps_on T step \<Longrightarrow> always_returns (run_timeout_loop T timeout step x)"
  unfolding run_timeout_loop_def
  by (auto simp: Let_def intro!: returns_intros) (simp add: always_returns_def timeout_loop_returns)

lemma catch_fault_moves:
  assumes T: "ticking T" and run: "catch_fault (target_exchange_default T mdaa na nf t p) f c = Some (Inr y, c')"
    and stays: "\<And>answer c1. f answer c1 = Some (Inr y, c') \<Longrightarrow> c' = c1"
  shows "moves T c c'"
proof -
  let ?m = "target_exchange_default T mdaa na nf t p"
  obtain r c1 where m: "?m c = Some (r, c1)"
    using returns_target_exchange [OF T] unfolding target_exchange_default_def by (rule returnsE)
  note exchange = m [unfolded target_exchange_default_def]
  show ?thesis
  proof (cases r)
    case (Inr data)
    with run m have "c' = c1" by (intro stays [of "Some data"]) (simp add: catch_fault_def tryD_def)
    with target_exchange_moves [OF T exchange, of data] Inr show ?thesis by simp
  next
    case (Inl e)
    with run m obtain fault where e: "e = Chipset (ChipsetFault fault)" and "f None c1 = Some (Inr y, c')"
      by (auto simp: catch_fault_def tryD_def split: driver_error.splits chipset_error.splits)
    then have "c' = c1" by (intro stays)
    with target_exchange_moves [OF T exchange, of "[]" fault] Inl e show ?thesis by simp
  qed
qed

lemma returns_catch_fault [returns_intros]: "always_returns m \<Longrightarrow> (\<And>answer. always_returns (f answer)) \<Longrightarrow> always_returns (catch_fault m f)"
  unfolding catch_fault_def
  by (intro returns_intros) (auto split: sum.split driver_error.split chipset_error.split intro: returns_intros)

lemma returns_commands [returns_intros]:
  assumes "ticking T"
  shows "always_returns (target_exchange_default T mdaa na nf t p)" "always_returns (configure_target T params)"
    "always_returns (set_target_rf T rate)" "always_returns (configure_target_for_listen T rate)"
proof -
  have status: "always_returns (status_command T code q)" for code q
    unfolding status_command_def using assms by (intro returns_intros)
  have protocol: "always_returns (tg_set_protocol T data ps)" for data ps
    unfolding tg_set_protocol_def configure_protocol_def by (intro returns_intros) (auto simp: Let_def intro: returns_intros status)
  show "always_returns (target_exchange_default T mdaa na nf t p)"
    unfolding target_exchange_default_def using assms by (intro returns_intros)
  show "always_returns (configure_target T params)" unfolding configure_target_def by (rule protocol)
  show rf: "always_returns (set_target_rf T rate)" for rate
    unfolding set_target_rf_def forget_initiator_settings_def
    by (auto intro!: returns_intros status split: prod.split)
  show "always_returns (configure_target_for_listen T rate)"
    unfolding configure_target_for_listen_def configure_target_def apply_target_defaults_def by (intro returns_intros rf protocol)
qed

lemma tt2_steps_on: "ticking T \<Longrightarrow> steps_on T (stateless (tt2_step T na))"
  unfolding steps_on_def
proof (intro conjI allI impI)
  assume T: "ticking T"
  show "always_returns (stateless (tt2_step T na) x t)" for x t
    unfolding stateless_def tt2_step_def using T by (auto intro!: returns_intros split: option.split)
  show "moves T c c'" if "stateless (tt2_step T na) x t c = Some (Inr (None, x'), c')" for x t c x' c'
  proof -
    from that have "tt2_step T na t c = Some (Inr None, c')" by (auto simp: stateless_def bindD_eq_Inr)
    then show ?thesis
      unfolding tt2_step_def by (rule catch_fault_moves [OF T]) (auto simp: bindD_eq_Inr split: option.splits if_splits)
  qed
qed

lemma tt4_frame_stays:
  "handle_tt4_frame T target na session data c = Some (Inr (outcome, session'), c') \<Longrightarrow> (\<forall>t. outcome \<noteq> FoundTarget t) \<Longrightarrow> c' = c"
  by (auto simp: handle_tt4_frame_def Let_def bindD_eq_Inr split: if_splits option.splits)

lemma tt4_steps_on: "ticking T \<Longrightarrow> steps_on T (tt4_step T target na)"
  unfolding steps_on_def
proof (intro conjI allI impI)
  assume T: "ticking T"
  have "always_returns (handle_tt4_frame T target na session data)" for session data
    unfolding handle_tt4_frame_def using T by (auto simp: Let_def intro!: returns_intros split: option.split)
  with T show "always_returns (tt4_step T target na x t)" for x t
    unfolding tt4_step_def by (auto simp: Let_def intro!: returns_intros split: option.split prod.split)
  show "moves T c c'" if "tt4_step T target na x t c = Some (Inr (None, x'), c')" for x t c x' c'
    using that unfolding tt4_step_def Let_def
  proof (rule catch_fault_moves [OF T])
    fix answer c1
    assume run: "(case answer of None \<Rightarrow> liftD (Inr (None, tt4_clear (x\<lparr>tt4_pending := None\<rparr>)))
        | Some data \<Rightarrow> bindD (handle_tt4_frame T target na (x\<lparr>tt4_pending := None\<rparr>) data) (\<lambda>(outcome, session).
            liftD (Inr (case outcome of QueueResponse bs \<Rightarrow> (None, tt4_queue bs session)
              | FoundTarget t \<Rightarrow> (Some t, session) | Tt4Continue \<Rightarrow> (None, session))))) c1 = Some (Inr (None, x'), c')"
    show "c' = c1"
    proof (cases answer)
      case (Some data)
      with run obtain outcome session where
        "handle_tt4_frame T target na (x\<lparr>tt4_pending := None\<rparr>) data c1 = Some (Inr (outcome, session), c')"
        and "\<forall>t. outcome \<noteq> FoundTarget t"
        by (cases "handle_tt4_frame T target na (x\<lparr>tt4_pending := None\<rparr>) data c1")
          (auto simp: bindD_def split: tt4_step_outcome.splits sum.splits)
      then show ?thesis by (rule tt4_frame_stays)
    qed (use run in simp)
  qed
qed

lemma type_f_steps_on: "ticking T \<Longrightarrow> steps_on T (type_f_step T target responder)"
  unfolding steps_on_def
proof (intro conjI allI impI)
  assume T: "ticking T"
  show "always_returns (type_f_step T target responder x t)" for x t
    unfolding type_f_step_def activated_type_f_def using T by (auto simp: Let_def intro!: returns_intros split: option.split)
  show "moves T c c'" if "type_f_step T target responder x t c = Some (Inr (None, x'), c')" for x t c x' c'
    using that unfolding type_f_step_def Let_def
    by (rule catch_fault_moves [OF T]) (auto simp: bindD_eq_Inr split: option.splits if_splits)
qed

lemma await_steps_on: "ticking T \<Longrightarrow> steps_on T (stateless (await_step T na nf))"
  unfolding steps_on_def
proof (intro conjI allI impI)
  assume T: "ticking T"
  show "always_returns (stateless (await_step T na nf) x t)" for x t
    unfolding stateless_def await_step_def using T by (auto intro!: returns_intros)
  show "moves T c c'" if "stateless (await_step T na nf) x t c = Some (Inr (None, x'), c')" for x t c x' c'
  proof -
    from that have "await_step T na nf t c = Some (Inr None, c')" by (auto simp: stateless_def bindD_eq_Inr)
    then show ?thesis
      unfolding await_step_def by (rule catch_fault_moves [OF T]) simp
  qed
qed

section \<open>Properties\<close>


section \<open>Witnesses\<close>

definition demo_local :: local_target where
  "demo_local = \<lparr>lt_bitrate = \<lparr>br_send = ''212F'', br_recv = ''212F''\<rparr>, lt_data = target_data_default\<rparr>"


end
