(* ===== verification/Ccid.thy ===== *)
theory Ccid
  imports Driver_Io
begin

text \<open>
  The CCID escape framing of the Port-400, \<open>src/driver/port400/pcsc/ccid.rs\<close>: the ten byte header, the
  sequence numbers, and the retries of a busy slot, of a time extension and of a stale answer.
\<close>

section \<open>State\<close>

definition CCID_SLOT_NUMBER :: u8 where "CCID_SLOT_NUMBER = 0"
definition CCID_HEADER_LEN :: nat where "CCID_HEADER_LEN = 10"
definition SLOT_BUSY_ERROR :: u8 where "SLOT_BUSY_ERROR = 0xE0"
definition SLOT_BUSY_WAIT_TIME :: nat where "SLOT_BUSY_WAIT_TIME = millis 50"
definition TIME_EXTENSION_WAIT :: nat where "TIME_EXTENSION_WAIT = millis 20"
definition SEQUENCE_ERROR_RETRY_COUNT :: nat where "SEQUENCE_ERROR_RETRY_COUNT = 2"

record 'w ccid = "'w channel" +
  ccid_sequence :: u8

section \<open>Frames\<close>

definition build_escape_frame :: "bytes \<Rightarrow> u8 \<Rightarrow> bytes" where
  "build_escape_frame p seq =
     [0x6B] @ u32_to_le (word_of_nat (length p)) @ [CCID_SLOT_NUMBER, seq, 0, 0, 0] @ p"

datatype command_status = Success | Failure u8 | SlotBusy | TimeExtension | SequenceMismatch

text \<open>The length of the body and the status of an answer.\<close>

definition ccid_response_parse :: "bytes \<Rightarrow> u8 \<Rightarrow> driver_error + (nat \<times> command_status)" where
  "ccid_response_parse data expected_seq =
     (if length data < CCID_HEADER_LEN then driver_other ''short CCID header''
      else if data ! 0 \<noteq> 0x83 then driver_other ''invalid CCID message''
      else
        let len = unat (u32_from_le (data ! 1) (data ! 2) (data ! 3) (data ! 4)) in
        if data ! 5 \<noteq> CCID_SLOT_NUMBER then driver_other ''invalid CCID slot number''
        else if data ! 6 \<noteq> expected_seq then Inr (len, SequenceMismatch)
        else
          let command_status = drop_bit 6 (data ! 7) AND 0x03; error = data ! 8 in
          Inr (len,
            if command_status = 0 then Success
            else if command_status = 1 then (if error = SLOT_BUSY_ERROR then SlotBusy else Failure error)
            else if command_status = 2 then TimeExtension
            else Failure error))"

record escape_command =
  ec_ins :: u8
  ec_p1 :: u8
  ec_p2 :: u8
  ec_data :: bytes

definition escape_command_into_bytes :: "escape_command \<Rightarrow> bytes" where
  "escape_command_into_bytes e =
     [0xFF, ec_ins e, ec_p1 e, ec_p2 e]
       @ (if ec_data e = [] then [] else u8_of (length (ec_data e)) # ec_data e)"

section \<open>The escape exchange\<close>

definition next_sequence :: "(('w, 'z) ccid_scheme, u8) driver_op" where
  "next_sequence c = Some (Inr (ccid_sequence c + 1), c\<lparr>ccid_sequence := ccid_sequence c + 1\<rparr>)"

text \<open>The body of an answer, which is read only where there is one.\<close>

definition read_body :: "'w transport \<Rightarrow> nat \<Rightarrow> nat \<Rightarrow> (('w, 'z) ccid_scheme, bytes) driver_op" where
  "read_body T len deadline = (if len > 0 then read_exact T len deadline else liftD (Inr []))"

text \<open>The inner loop: the data of the answer, or \<open>None\<close> for a busy slot.\<close>

partial_function (option) read_answer_from ::
    "'w transport \<Rightarrow> nat \<Rightarrow> u8 \<Rightarrow> nat \<Rightarrow> (('w, 'z) ccid_scheme, bytes option) driver_op" where
  "read_answer_from T deadline seq seq_retry c =
     bindD (read_exact T CCID_HEADER_LEN deadline) (\<lambda>header c.
     bindD (liftD (ccid_response_parse header seq)) (\<lambda>response c.
     case response of (len, status) \<Rightarrow>
     if status = SequenceMismatch then
       (if seq_retry - 1 = 0 then liftD (driver_other ''CCID sequence mismatch'') c
        else bindD (read_body T len deadline) (\<lambda>_ c. read_answer_from T deadline seq (seq_retry - 1) c) c)
     else
       bindD (read_body T len deadline) (\<lambda>data c.
       case status of
         Success \<Rightarrow>
           if length data < 2 then liftD (driver_other ''escape response too short'') c
           else liftD (Inr (Some data)) c
       | SlotBusy \<Rightarrow> liftD (Inr None) c
       | TimeExtension \<Rightarrow>
           bindD (sleep T TIME_EXTENSION_WAIT) (\<lambda>_ c. read_answer_from T deadline seq seq_retry c) c
       | Failure code \<Rightarrow> liftD (driver_other (''CCID failure '' @ hex2_prefixed code)) c
       | SequenceMismatch \<Rightarrow> liftD (Inl (DriverPanicked ''unreachable'')) c) c) c) c"

definition escape_once ::
    "'w transport \<Rightarrow> bytes \<Rightarrow> nat \<Rightarrow> (('w, 'z) ccid_scheme, bytes option) driver_op" where
  "escape_once T p timeout =
     bindD (deadline_in T timeout) (\<lambda>deadline.
     bindD next_sequence (\<lambda>seq.
     bindD (write_transport T (build_escape_frame p seq)) (\<lambda>_.
     bindD (modifyD (\<lambda>c. c\<lparr>ch_buffer := []\<rparr>)) (\<lambda>_.
     read_answer_from T deadline seq (SEQUENCE_ERROR_RETRY_COUNT + 1)))))"

text \<open>The outer loop, with the number of retries left.\<close>

fun escape_retries ::
    "'w transport \<Rightarrow> bytes \<Rightarrow> nat \<Rightarrow> nat \<Rightarrow> (('w, 'z) ccid_scheme, bytes) driver_op" where
  "escape_retries T p timeout 0 = liftD (driver_other ''slot busy'')"
| "escape_retries T p timeout (Suc remaining) =
     bindD (escape_once T p timeout) (\<lambda>answer.
     case answer of
       Some data \<Rightarrow> liftD (Inr data)
     | None \<Rightarrow>
         if remaining = 0 then liftD (driver_other ''slot busy'')
         else
           bindD (sleep T SLOT_BUSY_WAIT_TIME) (\<lambda>_.
           escape_retries T p timeout remaining))"

definition escape :: "'w transport \<Rightarrow> bytes \<Rightarrow> nat \<Rightarrow> nat \<Rightarrow> (('w, 'z) ccid_scheme, bytes) driver_op" where
  "escape T p timeout slot_busy_retries = escape_retries T p timeout (slot_busy_retries + 1)"

section \<open>The answer belongs to the command\<close>

text \<open>The answers that the inner loop passes over: stale ones and requests for more time, with their bodies.\<close>

inductive passed_over :: "u8 \<Rightarrow> bytes \<Rightarrow> bool" for seq where
  none: "passed_over seq []"
| more: "length header = CCID_HEADER_LEN \<Longrightarrow> ccid_response_parse header seq = Inr (length body, status) \<Longrightarrow>
    status \<in> {SequenceMismatch, TimeExtension} \<Longrightarrow> passed_over seq rest \<Longrightarrow> passed_over seq (header @ body @ rest)"

text \<open>What a successful exchange has read.\<close>

definition answered_by :: "u8 \<Rightarrow> bytes \<Rightarrow> bytes \<Rightarrow> bool" where
  "answered_by seq bs data \<longleftrightarrow>
     (\<exists>pre header. bs = pre @ header @ data \<and> passed_over seq pre \<and> length header = CCID_HEADER_LEN
       \<and> ccid_response_parse header seq = Inr (length data, Success) \<and> 2 \<le> length data)"

lemma answered_by_more:
  assumes "length header = CCID_HEADER_LEN" and "ccid_response_parse header seq = Inr (length body, status)"
    and "status \<in> {SequenceMismatch, TimeExtension}" and "answered_by seq bs data"
  shows "answered_by seq (header @ body @ bs) data"
proof -
  from assms(4) obtain pre h where bs: "bs = pre @ h @ data" and pre: "passed_over seq pre"
    and h: "length h = CCID_HEADER_LEN" "ccid_response_parse h seq = Inr (length data, Success)" "2 \<le> length data"
    unfolding answered_by_def by blast
  from passed_over.more [OF assms(1-3) pre] have "passed_over seq (header @ body @ pre)" .
  with bs h show ?thesis
    unfolding answered_by_def by (intro exI [of _ "header @ body @ pre"] exI [of _ h]) simp
qed

text \<open>The channel has moved on by the bytes \<open>bs\<close>.\<close>

definition consumed :: "'w transport \<Rightarrow> ('w, 'z) ccid_scheme \<Rightarrow> bytes \<Rightarrow> ('w, 'z) ccid_scheme \<Rightarrow> bool" where
  "consumed T c bs c' \<longleftrightarrow> ccid_sequence c' = ccid_sequence c \<and>
     (\<exists>new. delivers T (ch_world c) new (ch_world c') \<and> ch_buffer c @ new = bs @ ch_buffer c')"

lemma consumed_nothing: "consumed T c [] c"
  by (auto simp: consumed_def intro: delivers.nothing)

lemma consumed_trans:
  assumes "consumed T c bs c1" and "consumed T c1 bs' c2"
  shows "consumed T c (bs @ bs') c2"
proof -
  from assms obtain new new' where "delivers T (ch_world c) new (ch_world c1)" "ch_buffer c @ new = bs @ ch_buffer c1"
    and "delivers T (ch_world c1) new' (ch_world c2)" "ch_buffer c1 @ new' = bs' @ ch_buffer c2"
    unfolding consumed_def by blast
  then have "delivers T (ch_world c) (new @ new') (ch_world c2)" and "ch_buffer c @ new @ new' = (bs @ bs') @ ch_buffer c2"
    by (auto intro: delivers_trans) (metis append.assoc)
  with assms show ?thesis unfolding consumed_def by auto
qed

lemma same_chipset_sequence: "same_chipset (c :: ('w, 'z) ccid_scheme) c' \<Longrightarrow> ccid_sequence c' = ccid_sequence c"
  by (auto simp: same_chipset_def)

lemma consumed_read_exact: "read_exact T n d c = Some (Inr bs, c') \<Longrightarrow> consumed T c bs c' \<and> length bs = n"
  using read_exact_delivers same_chipset_sequence [OF channel_onlyD [OF channel_only_read_exact]]
  unfolding consumed_def by metis

lemma consumed_read_body: "read_body T n d c = Some (Inr bs, c') \<Longrightarrow> consumed T c bs c' \<and> length bs = n"
  by (auto simp: read_body_def consumed_nothing dest: consumed_read_exact split: if_splits)

lemma consumed_sleep: "sleep T t c = Some (Inr u, c') \<Longrightarrow> consumed T c [] c'"
  using delivers.pause [OF delivers.nothing] by (auto simp: sleep_def consumed_def)

lemma read_answer_from_sound:
  assumes "read_answer_from T d seq k c = Some (Inr (Some data), c')"
  shows "\<exists>bs. consumed T c bs c' \<and> answered_by seq bs data"
proof -
  let ?P = "\<lambda>T d seq k c y. \<forall>data. (fst y :: driver_error + bytes option) = Inr (Some data) \<longrightarrow> (\<exists>bs. consumed T c bs (snd y) \<and> answered_by seq bs data)"
  have "?P T d seq k c (Inr (Some data), c')"
  proof (rule read_answer_from.raw_induct [where P = ?P, OF _ assms], goal_cases)
    case (1 f T d seq k c y)
    show ?case
    proof (intro allI impI)
      fix data assume "fst y = Inr (Some data)"
      with 1(2) obtain c' where y: "y = (Inr (Some data), c')" by (cases y) simp
      from 1(2) [unfolded y bindD_eq_Inr] obtain header c1 len status c2 where
        header: "read_exact T CCID_HEADER_LEN d c = Some (Inr header, c1)"
        and parse: "ccid_response_parse header seq = Inr (len, status)"
        and rest: "(if status = SequenceMismatch then
            (if k - 1 = 0 then liftD (driver_other ''CCID sequence mismatch'') c1
             else bindD (read_body T len d) (\<lambda>_ c. f T d seq (k - 1) c) c1)
          else bindD (read_body T len d) (\<lambda>data c. case status of
              Success \<Rightarrow> if length data < 2 then liftD (driver_other ''escape response too short'') c else liftD (Inr (Some data)) c
            | Failure code \<Rightarrow> liftD (driver_other (''CCID failure '' @ hex2_prefixed code)) c
            | SlotBusy \<Rightarrow> liftD (Inr None) c
            | TimeExtension \<Rightarrow> bindD (sleep T TIME_EXTENSION_WAIT) (\<lambda>_ c. f T d seq k c) c
            | SequenceMismatch \<Rightarrow> liftD (Inl (DriverPanicked ''unreachable'')) c) c1) = Some (Inr (Some data), c')"
        by auto
      note h = consumed_read_exact [OF header]
      have again: "\<exists>bs. consumed T c bs c' \<and> answered_by seq bs data"
        if body: "read_body T len d c1 = Some (Inr body, c2)" and pause: "consumed T c2 [] c3"
          and rec: "f T d seq k' c3 = Some (Inr (Some data), c')" and st: "status \<in> {SequenceMismatch, TimeExtension}"
        for body c2 c3 k'
      proof -
        note b = consumed_read_body [OF body]
        from 1(1) [OF rec] obtain bs where bs: "consumed T c3 bs c'" "answered_by seq bs data" by auto
        have "consumed T c (header @ body @ [] @ bs) c'"
          using h b pause bs(1) by (blast intro: consumed_trans)
        moreover have "answered_by seq (header @ body @ bs) data"
          using h b parse st bs(2) by (intro answered_by_more) auto
        ultimately show ?thesis by auto
      qed
      show "\<exists>bs. consumed T c bs (snd y) \<and> answered_by seq bs data"
      proof (cases status)
        case SequenceMismatch
        with rest obtain body c2 where "read_body T len d c1 = Some (Inr body, c2)" "f T d seq (k - 1) c2 = Some (Inr (Some data), c')"
          by (auto simp: bindD_eq_Inr driver_other_def split: if_splits)
        with again [OF _ consumed_nothing] SequenceMismatch show ?thesis by (simp add: y)
      next
        case TimeExtension
        with rest obtain body c2 c3 where "read_body T len d c1 = Some (Inr body, c2)"
          "sleep T TIME_EXTENSION_WAIT c2 = Some (Inr (), c3)" "f T d seq k c3 = Some (Inr (Some data), c')"
          by (auto simp: bindD_eq_Inr)
        with again [OF _ consumed_sleep] TimeExtension show ?thesis by (simp add: y)
      next
        case Success
        with rest have body: "read_body T len d c1 = Some (Inr data, c')" and "2 \<le> length data"
          by (auto simp: bindD_eq_Inr driver_other_def split: if_splits)
        with consumed_read_body [OF body] h parse Success
        have "consumed T c (header @ data) c'" and "answered_by seq (header @ data) data"
          by (auto simp: answered_by_def intro: consumed_trans passed_over.none)
        then show ?thesis by (auto simp: y)
      qed (use rest in \<open>auto simp: bindD_eq_Inr driver_other_def\<close>)
    qed
  qed
  then show ?thesis by simp
qed

text \<open>
  An escape has been exchanged: behind the write of a frame with the current sequence number the
  reader sent an answer to that number, possibly behind stale ones; nothing else was read.
\<close>

definition exchanged :: "'w transport \<Rightarrow> bytes \<Rightarrow> bytes \<Rightarrow> ('w, 'z) ccid_scheme \<Rightarrow> bool" where
  "exchanged T p data c \<longleftrightarrow>
     (\<exists>w w' bs. tr_write T (build_escape_frame p (ccid_sequence c)) w = (Inr (), w')
       \<and> delivers T w' (bs @ ch_buffer c) (ch_world c) \<and> answered_by (ccid_sequence c) bs data)"

lemma escape_once_sound:
  assumes "escape_once T p t c = Some (Inr (Some data), c')"
  shows "exchanged T p data c'"
proof -
  let ?seq = "ccid_sequence c + 1"
  from assms obtain w where w: "tr_write T (build_escape_frame p ?seq) (ch_world c) = (Inr (), w)"
    and "read_answer_from T (tr_now T (ch_world c) + t) ?seq (SEQUENCE_ERROR_RETRY_COUNT + 1)
      (c\<lparr>ccid_sequence := ?seq, ch_world := w, ch_buffer := []\<rparr>) = Some (Inr (Some data), c')"
    by (auto simp: escape_once_def bindD_eq_Inr deadline_in_def next_sequence_def write_transport_def split: prod.splits sum.splits)
  from read_answer_from_sound [OF this(2)] obtain bs where "consumed T (c\<lparr>ccid_sequence := ?seq, ch_world := w, ch_buffer := []\<rparr>) bs c'"
    and "answered_by ?seq bs data" by blast
  with w show ?thesis unfolding exchanged_def consumed_def by auto
qed

lemma escape_retries_sound: "escape_retries T p t n c = Some (Inr data, c') \<Longrightarrow> exchanged T p data c'"
proof (induction n arbitrary: c)
  case (Suc n)
  then show ?case
    by (auto simp: bindD_eq_Inr driver_other_def split: option.splits if_splits dest: escape_once_sound)
qed (simp add: driver_other_def)

section \<open>The exchange ends\<close>

text \<open>Progress to the deadline, or through the buffer.\<close>

definition nearer :: "'w transport \<Rightarrow> nat \<Rightarrow> ('w, 'z) ccid_scheme \<Rightarrow> nat \<Rightarrow> ('w, 'z) ccid_scheme \<Rightarrow> bool" where
  "nearer T d c n c' \<longleftrightarrow> d - tr_now T (ch_world c') < d - tr_now T (ch_world c)
    \<or> d - tr_now T (ch_world c') = d - tr_now T (ch_world c) \<and> length (ch_buffer c') + n \<le> length (ch_buffer c)"

lemma nearer_trans: "nearer T d c m c' \<Longrightarrow> nearer T d c' n c'' \<Longrightarrow> nearer T d c m c''"
  by (auto simp: nearer_def)

lemma nearer_read_exact: "read_exact T n d c = Some (Inr bs, c') \<Longrightarrow> ticking T \<Longrightarrow> nearer T d c n c'"
  using read_exact_from_progress [of T n d "[]" c "Inr bs" c'] by (auto simp: read_exact_def nearer_def)

lemma nearer_read_body: "read_body T n d c = Some (Inr bs, c') \<Longrightarrow> ticking T \<Longrightarrow> nearer T d c n c'"
  by (auto simp: read_body_def nearer_def dest: nearer_read_exact [unfolded nearer_def] split: if_splits)

lemma nearer_sleep: "sleep T t c = Some (Inr u, c') \<Longrightarrow> ticking T \<Longrightarrow> nearer T d c 0 c'"
  using diff_le_mono2 [of "tr_now T (ch_world c)" "tr_now T (tr_sleep T t (ch_world c))" d]
  by (auto simp: sleep_def nearer_def ticking_def)

lemma read_exact_returns: "ticking T \<Longrightarrow> \<exists>r c'. read_exact T n d c = Some (r, c')"
  unfolding read_exact_def by (rule read_exact_from_returns)

lemma bindD_returns:
  "\<exists>r c'. m c = Some (r, c') \<Longrightarrow> (\<And>x c'. m c = Some (Inr x, c') \<Longrightarrow> \<exists>r c''. f x c' = Some (r, c'')) \<Longrightarrow>
    \<exists>r c'. bindD m f c = Some (r, c')"
  by (auto simp: bindD_def split: sum.splits)

lemma read_body_returns: "ticking T \<Longrightarrow> \<exists>r c'. read_body T n d c = Some (r, c')"
  using read_exact_returns by (auto simp: read_body_def)

lemma read_answer_from_returns:
  assumes "ticking T"
  shows "\<exists>r c'. read_answer_from T d seq k c = Some (r, c')"
proof (induction c arbitrary: k rule: wf_induct_rule
    [OF wf_measures [of "[\<lambda>c. d - tr_now T (ch_world c), \<lambda>c. length (ch_buffer c)]"]])
  case (1 c)
  have again: "\<exists>r c'. read_answer_from T d seq k' c3 = Some (r, c')" if "nearer T d c CCID_HEADER_LEN c3" for c3 k'
    using that by (intro 1) (auto simp: nearer_def CCID_HEADER_LEN_def)
  show ?case
  proof (subst read_answer_from.simps, rule bindD_returns [OF read_exact_returns [OF assms]], goal_cases)
    case (1 header c1)
    note near1 = nearer_read_exact [OF this assms]
    show ?case
    proof (rule bindD_returns, goal_cases)
      case (2 response c1')
      then have c1': "c1' = c1" by simp
      obtain len status where response: "response = (len, status)" by (cases response)
      have body: "\<exists>r c'. bindD (read_body T len d) f c1 = Some (r, c')"
        if "\<And>data c2. nearer T d c CCID_HEADER_LEN c2 \<Longrightarrow> \<exists>r c'. f data c2 = Some (r, c')"
        for f :: "bytes \<Rightarrow> (('a, 'b) ccid_scheme, bytes option) driver_op"
        by (rule bindD_returns [OF read_body_returns [OF assms]])
          (rule that, rule nearer_trans [OF near1], erule nearer_read_body [OF _ assms])
      have pause: "\<exists>r c'. bindD (sleep T TIME_EXTENSION_WAIT) (\<lambda>_ c. read_answer_from T d seq k c) c2 = Some (r, c')"
        if "nearer T d c CCID_HEADER_LEN c2" for c2
        by (rule bindD_returns) (auto simp: sleep_def intro!: again nearer_trans [OF that] nearer_sleep [OF _ assms])
      show ?case unfolding response c1' prod.case
        by (auto intro!: body again pause split: command_status.splits)
    qed simp
  qed
qed

lemma escape_once_returns:
  assumes "ticking T"
  shows "\<exists>r c'. escape_once T p t c = Some (r, c')"
proof -
  have "\<exists>r c'. write_transport T bs c1 = Some (r, c')" for bs and c1 :: "('a, 'b) ccid_scheme"
    by (simp add: write_transport_def split: prod.splits)
  then show ?thesis unfolding escape_once_def deadline_in_def
    by (auto simp: next_sequence_def intro!: bindD_returns read_answer_from_returns [OF assms])
qed

lemma escape_retries_return: "ticking T \<Longrightarrow> \<exists>r c'. escape_retries T p t n c = Some (r, c')"
proof (induction n arbitrary: c)
  case (Suc n)
  then show ?case
    by (auto simp: sleep_def intro!: bindD_returns escape_once_returns split: option.splits)
qed simp

section \<open>An answer that arrives is found\<close>

definition stale :: "u8 \<Rightarrow> bytes \<times> bytes \<Rightarrow> bool" where
  "stale seq answer \<longleftrightarrow> length (fst answer) = CCID_HEADER_LEN
     \<and> ccid_response_parse (fst answer) seq = Inr (length (snd answer), SequenceMismatch)"

definition answer_bytes :: "bytes \<times> bytes \<Rightarrow> bytes" where
  "answer_bytes answer = fst answer @ snd answer"

lemma read_body_stream:
  assumes "available T d c (body @ ys)"
  obtains c' where "read_body T (length body) d c = Some (Inr body, c')" and "available T d c' ys" and "after_reading T c c'"
proof (cases body)
  case Nil
  with assms show thesis by (intro that [of c]) (simp_all add: read_body_def after_reading_def)
next
  case Cons
  from read_stream [OF assms refl] obtain c' where "read_exact T (length body) d c = Some (Inr body, c')"
    "available T d c' ys" "after_reading T c c'" by blast
  with Cons show thesis by (intro that [of c']) (simp_all add: read_body_def)
qed

lemma answer_found:
  assumes "\<forall>a \<in> set olds. stale seq a" and "length olds < k" and "length header = CCID_HEADER_LEN"
    and "ccid_response_parse header seq = Inr (length data, Success)" and "2 \<le> length data"
    and "available T d c (concat (map answer_bytes olds) @ header @ data @ rest)"
  shows "\<exists>c'. read_answer_from T d seq k c = Some (Inr (Some data), c') \<and> available T d c' rest \<and> same_chipset c c'"
  using assms
proof (induction olds arbitrary: k c)
  case Nil
  then have "available T d c (header @ data @ rest)" by simp
  from read_stream [OF this Nil.prems(3) [symmetric]] obtain c1 where header: "read_exact T CCID_HEADER_LEN d c = Some (Inr header, c1)"
    and "available T d c1 (data @ rest)" and s1: "after_reading T c c1" by blast
  from read_body_stream [OF this(2)] obtain c2 where body: "read_body T (length data) d c1 = Some (Inr data, c2)"
    and a: "available T d c2 rest" and s2: "after_reading T c1 c2" by blast
  have "read_answer_from T d seq k c = Some (Inr (Some data), c2)"
    using Nil.prems(4,5) by (subst read_answer_from.simps) (simp add: bindD_Inr header body)
  with a after_reading_trans [OF s1 s2] show ?case by (auto simp: after_reading_def)
next
  case (Cons old olds)
  obtain h b where old: "old = (h, b)" by (cases old)
  with Cons.prems(1) have h: "CCID_HEADER_LEN = length h" "ccid_response_parse h seq = Inr (length b, SequenceMismatch)"
    by (simp_all add: stale_def)
  let ?rest = "concat (map answer_bytes olds) @ header @ data @ rest"
  from Cons.prems(6) have "available T d c (h @ b @ ?rest)" by (simp add: old answer_bytes_def [of "(h, b)"])
  from read_stream [OF this h(1)] obtain c1 where header: "read_exact T CCID_HEADER_LEN d c = Some (Inr h, c1)"
    and "available T d c1 (b @ ?rest)" and s1: "after_reading T c c1" by blast
  from read_body_stream [OF this(2)] obtain c2 where body: "read_body T (length b) d c1 = Some (Inr b, c2)"
    and a: "available T d c2 ?rest" and s2: "after_reading T c1 c2" by blast
  have "read_answer_from T d seq k c = read_answer_from T d seq (k - 1) c2"
    using Cons.prems(2) h(2) by (subst read_answer_from.simps) (simp add: bindD_Inr header body)
  moreover have "length olds < k - 1" and "\<forall>a \<in> set olds. stale seq a" using Cons.prems(1,2) by auto
  with Cons.IH [OF _ _ Cons.prems(3-5) a, of "k - 1"] obtain c' where
    "read_answer_from T d seq (k - 1) c2 = Some (Inr (Some data), c')" "available T d c' rest" "same_chipset c2 c'" by auto
  ultimately show ?case
    using after_reading_trans [OF s1 s2] by (auto simp: after_reading_def intro: same_chipset_trans)
qed

text \<open>What an answered exchange leaves: the sequence number has advanced, the rest of the chipset is as before.\<close>

definition after_exchange :: "('w, 'z) ccid_scheme \<Rightarrow> ('w, 'z) ccid_scheme \<Rightarrow> bool" where
  "after_exchange c c' \<longleftrightarrow> same_chipset (c\<lparr>ccid_sequence := ccid_sequence c + 1\<rparr>) c'"

lemma escape_found:
  assumes "\<forall>a \<in> set olds. stale (ccid_sequence c + 1) a" and "length olds \<le> SEQUENCE_ERROR_RETRY_COUNT"
    and "length header = CCID_HEADER_LEN" and "ccid_response_parse header (ccid_sequence c + 1) = Inr (length data, Success)"
    and "2 \<le> length data" and "tr_write T (build_escape_frame p (ccid_sequence c + 1)) (ch_world c) = (Inr (), w)"
    and "offers T (tr_now T (ch_world c) + t) w (concat (map answer_bytes olds) @ header @ data @ rest)"
  shows "\<exists>c'. escape T p t n c = Some (Inr data, c') \<and> after_exchange c c'"
proof -
  let ?seq = "ccid_sequence c + 1"
  let ?c = "c\<lparr>ccid_sequence := ?seq, ch_world := w, ch_buffer := []\<rparr>"
  have "available T (tr_now T (ch_world c) + t) ?c (concat (map answer_bytes olds) @ header @ data @ rest)"
    using assms(7) by (simp add: available_def)
  from answer_found [OF assms(1) _ assms(3-5) this, of "SEQUENCE_ERROR_RETRY_COUNT + 1"] assms(2) obtain c' where
    "read_answer_from T (tr_now T (ch_world c) + t) ?seq (SEQUENCE_ERROR_RETRY_COUNT + 1) ?c = Some (Inr (Some data), c')"
    and same: "same_chipset ?c c'" by auto
  then have "escape_once T p t c = Some (Inr (Some data), c')"
    using assms(6) by (simp add: escape_once_def deadline_in_def bindD_Inr next_sequence_def write_transport_def)
  then have "escape T p t n c = Some (Inr data, c')"
    by (simp add: escape_def bindD_Inr)
  moreover have "after_exchange c c'"
    using same unfolding after_exchange_def
    by (rule same_chipset_trans [rotated]) (simp add: same_chipset_def, metis)
  ultimately show ?thesis by blast
qed

section \<open>Properties\<close>


text \<open>
  An escape ends: where reads take time and the clock does not go back, the retries of busy slots, time
  extensions and stale answers come to an end, whatever the reader sends.
\<close>

theorem escape_returns:
  assumes "ticking T"
  shows "\<exists>r c'. escape T p t n c = Some (r, c')"
  using escape_retries_return [OF assms] unfolding escape_def by blast

definition demo_answer :: "u8 \<Rightarrow> bytes" where
  "demo_answer seq = [0x83, 3, 0, 0, 0, 0, seq, 0, 0, 0]"

definition demo_ccid :: "dummy_transport ccid" where
  "demo_ccid = \<lparr>ch_world = with_reads (map Inr [demo_answer 0x09 @ [7, 7], [7] @ demo_answer 1, [0xAB, 0x90, 0x00]]),
     ch_buffer = [], ccid_sequence = 0\<rparr>"


theorem escape_returns_witness: "\<exists>r c'. escape dummy [0xFF] (millis 100) 1 demo_ccid = Some (r, c')"
  by (rule escape_returns [OF dummy_ticking])

end
