(* ===== verification/Tlv.thy ===== *)
theory Tlv
  imports Errors
begin

text \<open>
  The tag/length/value fields of the Port-400's answers, \<open>src/driver/port400/pcsc/tlv.rs\<close>. A parser walks
  over the response with an index; a slice out of bounds is a panic of the source and \<open>DriverPanicked\<close>
  here. Log messages are left out. The last section shows that no response makes a parser panic.
\<close>

section \<open>Tags\<close>

definition STATUS_TLV_TAG :: u8 where "STATUS_TLV_TAG = 0xC0"
definition DEVICE_STATE_TLV_TAG :: u8 where "DEVICE_STATE_TLV_TAG = 0x80"
definition SWITCH_PROTOCOL_METADATA_TAG :: u8 where "SWITCH_PROTOCOL_METADATA_TAG = 0x8F"
definition EXTENDED_TAG_PREFIX :: u8 where "EXTENDED_TAG_PREFIX = 0x5F"
definition ATR_TLV_TAG :: u8 where "ATR_TLV_TAG = 0x51"
definition RESPONSE_BIT_FRAMING_TAG :: u8 where "RESPONSE_BIT_FRAMING_TAG = 0x92"
definition RESPONSE_STATUS_TAG :: u8 where "RESPONSE_STATUS_TAG = 0x96"
definition RESPONSE_DATA_TAG :: u8 where "RESPONSE_DATA_TAG = 0x97"
definition VENDOR_SPECIFIC_TAG :: u8 where "VENDOR_SPECIFIC_TAG = 0xFF"
definition VENDOR_TAG_RESPONSE :: u8 where "VENDOR_TAG_RESPONSE = 0x6D"

lemmas tlv_tags = STATUS_TLV_TAG_def DEVICE_STATE_TLV_TAG_def SWITCH_PROTOCOL_METADATA_TAG_def
  EXTENDED_TAG_PREFIX_def ATR_TLV_TAG_def RESPONSE_BIT_FRAMING_TAG_def RESPONSE_STATUS_TAG_def
  RESPONSE_DATA_TAG_def VENDOR_SPECIFIC_TAG_def VENDOR_TAG_RESPONSE_def

record transparent_exchange_result =
  te_payload :: bytes
  rf_status :: "u8 option"
  valid_bits :: "u8 option"

section \<open>Fields\<close>

definition push_extended_tlv :: "u8 \<Rightarrow> bytes \<Rightarrow> bytes" where
  "push_extended_tlv tag value =
     [tag, 0x82, u8_of (length value div 256), u8_of (length value)] @ value"

definition verify_status :: "bytes \<Rightarrow> driver_error + unit" where
  "verify_status data =
     (if length data < 2 then driver_other ''short CCID status''
      else
        let sw1 = data ! (length data - 2); sw2 = data ! (length data - 1) in
        if sw1 = 0x90 \<and> sw2 = 0x00 then Inr ()
        else driver_other (''CCID status '' @ hex2 sw1 @ hex2 sw2))"

definition take_tlv_value :: "bytes \<Rightarrow> nat \<Rightarrow> string \<Rightarrow> driver_error + (bytes \<times> nat)" where
  "take_tlv_value data len_index ctx =
     bindE (ok_or (nth_opt data len_index) (Other (ctx @ '': TLV length missing''))) (\<lambda>b.
     let len = unat b in
     if len_index + len \<ge> length data then driver_other (ctx @ '': TLV length out of range'')
     else
       let start = len_index + 1 in
       bindE (ok_or (slice_opt data start (start + len)) (DriverPanicked ''slice out of range'')) (\<lambda>value.
       Inr (value, start + len)))"

definition status_error :: "bytes \<Rightarrow> driver_error" where
  "status_error value =
     (let byte = (\<lambda>i. case nth_opt value i of Some b \<Rightarrow> b | None \<Rightarrow> 0);
          sw1 = byte 1; sw2 = byte 2;
          txt = ''status '' @ hex2 (byte 0) @ hex2 sw1 @ hex2 sw2 in
      if sw1 = 0x64 \<and> (sw2 = 0x00 \<or> sw2 = 0x01) then
        Communication (Timeout (txt @ '' (no response packet received)''))
      else if sw1 = 0x63 \<and> sw2 = 0x01 then
        Communication (CommProtocol (txt @ '' (invalid status)''))
      else if sw1 = 0x69 \<and> sw2 = 0x8A then Other (txt @ '' (failed to get access authority)'')
      else Other txt)"

definition take_status_tlv :: "bytes \<Rightarrow> nat \<Rightarrow> string \<Rightarrow> driver_error + nat" where
  "take_status_tlv data idx ctx =
     bindE (take_tlv_value data idx ctx) (\<lambda>(value, idx).
     if length value \<noteq> 3 then driver_other (ctx @ '': malformed status TLV'')
     else if value \<noteq> [0x00, 0x90, 0x00] then Inl (status_error value)
     else Inr idx)"

text \<open>\<open>None\<close> where the rest of the response is not parsed any further.\<close>

definition skip_vendor_tlv :: "bytes \<Rightarrow> nat \<Rightarrow> string \<Rightarrow> driver_error + nat option" where
  "skip_vendor_tlv data idx ctx =
     (case nth_opt data idx of
        None \<Rightarrow> Inr None
      | Some subtag \<Rightarrow>
          if subtag \<noteq> VENDOR_TAG_RESPONSE then Inr None
          else
            bindE (take_tlv_value data (idx + 1) ctx) (\<lambda>(value, idx).
            if length value \<noteq> 3 \<and> length value \<noteq> 6 then driver_other (ctx @ '': malformed vendor TLV'')
            else Inr (Some idx)))"

definition parse_length :: "bytes \<Rightarrow> driver_error + (nat \<times> nat)" where
  "parse_length data =
     (case data of
        [] \<Rightarrow> driver_other ''missing length field''
      | first # rest \<Rightarrow>
          if first < 0x80 then Inr (unat first, 1)
          else
            bindE (ok_or (map_of [(0x81, 1), (0x82, 2), (0x83, 3), (0x84, 4)] first)
              (Other ''unsupported TLV length encoding'')) (\<lambda>count.
            if length data < 1 + count then driver_other ''incomplete TLV length field''
            else Inr (foldl (\<lambda>len b. len * 256 + unat b) 0 (take count rest), 1 + count)))"

section \<open>One step of each parser\<close>

text \<open>
  The body of a parser's loop behind the tag at \<open>idx - 1\<close>: the index it leaves, or \<open>None\<close> where it breaks
  off.
\<close>

definition manage_session_field :: "bytes \<Rightarrow> u8 \<Rightarrow> nat \<Rightarrow> driver_error + nat option" where
  "manage_session_field data tag idx =
     (let ctx = ''manageSession'' in
      if tag = STATUS_TLV_TAG then bindE (take_status_tlv data idx ctx) (Inr \<circ> Some)
      else if tag = DEVICE_STATE_TLV_TAG then
        bindE (take_tlv_value data idx ctx) (\<lambda>(value, idx).
        if length value \<noteq> 3 then driver_other (ctx @ '': malformed device state TLV'') else Inr (Some idx))
      else if tag = VENDOR_SPECIFIC_TAG then skip_vendor_tlv data idx ctx
      else Inr None)"

definition switch_protocol_field :: "bytes \<Rightarrow> u8 \<Rightarrow> nat \<Rightarrow> driver_error + nat option" where
  "switch_protocol_field data tag idx =
     (let ctx = ''switchProtocol'' in
      if tag = STATUS_TLV_TAG then bindE (take_status_tlv data idx ctx) (Inr \<circ> Some)
      else if tag = SWITCH_PROTOCOL_METADATA_TAG then
        bindE (take_tlv_value data idx ctx) (\<lambda>(value, idx).
        if length value \<noteq> 1 \<and> length value \<noteq> 3 then driver_other (ctx @ '': malformed protocol TLV'')
        else Inr (Some idx))
      else if tag = EXTENDED_TAG_PREFIX then
        (if nth_opt data idx \<noteq> Some ATR_TLV_TAG then driver_other (ctx @ '': ATR error'')
         else bindE (take_tlv_value data (idx + 1) ctx) (\<lambda>(_, idx). Inr (Some idx)))
      else if tag = VENDOR_SPECIFIC_TAG then skip_vendor_tlv data idx ctx
      else Inr None)"

definition take_response_data :: "bytes \<Rightarrow> nat \<Rightarrow> string \<Rightarrow> driver_error + (bytes \<times> nat)" where
  "take_response_data data idx ctx =
     bindE (map_err (\<lambda>_. Other (ctx @ '': Response Data error'')) (parse_length (drop idx data))) (\<lambda>(len, consumed).
     let idx = idx + consumed in
     if idx + len > length data then driver_other (ctx @ '': Response Data out of range'')
     else
       bindE (ok_or (slice_opt data idx (idx + len)) (DriverPanicked ''slice out of range'')) (\<lambda>value.
       Inr (value, idx + len)))"

definition transparent_field ::
    "bytes \<Rightarrow> u8 \<Rightarrow> nat \<Rightarrow> transparent_exchange_result \<Rightarrow> driver_error + (nat \<times> transparent_exchange_result) option" where
  "transparent_field data tag idx result =
     (let ctx = ''transparentExchange'' in
      if tag = STATUS_TLV_TAG then bindE (take_status_tlv data idx ctx) (\<lambda>idx. Inr (Some (idx, result)))
      else if tag = RESPONSE_BIT_FRAMING_TAG then
        bindE (take_tlv_value data idx ctx) (\<lambda>(value, idx).
        case value of
          [bits] \<Rightarrow> Inr (Some (idx, result\<lparr>valid_bits := Some (if bits = 0 then 8 else bits)\<rparr>))
        | _ \<Rightarrow> driver_other (ctx @ '': Reception Bit Framing error''))
      else if tag = RESPONSE_STATUS_TAG then
        bindE (take_tlv_value data idx ctx) (\<lambda>(value, idx).
        case value of
          [status, _] \<Rightarrow> Inr (Some (idx, result\<lparr>rf_status := Some status\<rparr>))
        | _ \<Rightarrow> driver_other (ctx @ '': Response Status error''))
      else if tag = RESPONSE_DATA_TAG then
        bindE (take_response_data data idx ctx) (\<lambda>(value, idx).
        Inr (Some (idx, result\<lparr>te_payload := te_payload result @ value\<rparr>)))
      else if tag = VENDOR_SPECIFIC_TAG then
        bindE (skip_vendor_tlv data idx ctx) (\<lambda>next. Inr (map_option (\<lambda>idx. (idx, result)) next))
      else Inr None)"

section \<open>Progress\<close>

text \<open>Every field moves the index forward, so the loops end.\<close>

lemma take_tlv_value_forward: "take_tlv_value data idx ctx = Inr (value, i) \<Longrightarrow> idx < i \<and> i \<le> length data"
  by (auto simp: take_tlv_value_def Let_def slice_opt_eq_Some driver_other_def res_simps split: if_splits)

lemma take_status_tlv_forward: "take_status_tlv data idx ctx = Inr i \<Longrightarrow> idx < i"
  by (auto simp: take_status_tlv_def driver_other_def res_simps split: if_splits dest: take_tlv_value_forward)

lemma skip_vendor_tlv_forward: "skip_vendor_tlv data idx ctx = Inr (Some i) \<Longrightarrow> idx < i"
  by (fastforce simp: skip_vendor_tlv_def driver_other_def res_simps split: option.splits if_splits dest: take_tlv_value_forward)

lemma manage_session_field_forward: "manage_session_field data tag idx = Inr (Some i) \<Longrightarrow> idx < i"
  by (auto simp: manage_session_field_def Let_def driver_other_def res_simps split: if_splits
      dest: take_tlv_value_forward take_status_tlv_forward skip_vendor_tlv_forward)

lemma switch_protocol_field_forward: "switch_protocol_field data tag idx = Inr (Some i) \<Longrightarrow> idx < i"
  by (fastforce simp: switch_protocol_field_def Let_def driver_other_def res_simps split: if_splits
      dest: take_tlv_value_forward take_status_tlv_forward skip_vendor_tlv_forward)

lemma parse_length_consumes: "parse_length bs = Inr (len, consumed) \<Longrightarrow> 0 < consumed \<and> consumed \<le> length bs"
  by (auto simp: parse_length_def driver_other_def res_simps Suc_le_eq split: list.splits if_splits)

lemma take_response_data_forward: "take_response_data data idx ctx = Inr (value, i) \<Longrightarrow> idx < i"
  by (auto simp: take_response_data_def Let_def driver_other_def res_simps split: if_splits dest: parse_length_consumes)

lemma transparent_field_forward:
  assumes "transparent_field data tag idx result = Inr (Some (i, result'))"
  shows "idx < i"
proof -
  have took: "bindE (take_tlv_value data idx ctx) f = Inr (Some (i, result')) \<Longrightarrow>
      (\<And>v j. f (v, j) = Inr (Some (i, result')) \<Longrightarrow> i = j) \<Longrightarrow> idx < i" for ctx f
    by (auto simp: res_simps dest: take_tlv_value_forward)
  consider "tag = STATUS_TLV_TAG" | "tag = RESPONSE_BIT_FRAMING_TAG" | "tag = RESPONSE_STATUS_TAG"
    | "tag = RESPONSE_DATA_TAG" | "tag = VENDOR_SPECIFIC_TAG"
    using assms unfolding transparent_field_def Let_def by (auto split: if_splits)
  then show ?thesis
  proof cases
    case 1
    with assms show ?thesis by (auto simp: transparent_field_def Let_def res_simps dest: take_status_tlv_forward)
  next
    case 2
    from assms [unfolded transparent_field_def Let_def 2] show ?thesis
      by (simp add: tlv_tags) (erule took, auto simp: driver_other_def split: list.splits)
  next
    case 3
    from assms [unfolded transparent_field_def Let_def 3] show ?thesis
      by (simp add: tlv_tags) (erule took, auto simp: driver_other_def split: list.splits)
  next
    case 4
    from assms [unfolded transparent_field_def Let_def 4] show ?thesis
      by (auto simp: tlv_tags res_simps dest: take_response_data_forward)
  next
    case 5
    from assms [unfolded transparent_field_def Let_def 5] show ?thesis
      by (auto simp: tlv_tags res_simps dest: skip_vendor_tlv_forward)
  qed
qed

section \<open>The parsers\<close>

function parse_manage_session_from :: "bytes \<Rightarrow> nat \<Rightarrow> driver_error + unit" where
  "parse_manage_session_from data idx =
     (if \<not> idx + 1 < length data then Inr ()
      else
        case manage_session_field data (data ! idx) (idx + 1) of
          Inl e \<Rightarrow> Inl e
        | Inr None \<Rightarrow> Inr ()
        | Inr (Some idx') \<Rightarrow> parse_manage_session_from data idx')"
  by pat_completeness auto
termination
  by (relation "measure (\<lambda>(data, idx). length data - idx)") (auto dest: manage_session_field_forward)

definition parse_manage_session_response :: "bytes \<Rightarrow> driver_error + unit" where
  "parse_manage_session_response data = parse_manage_session_from data 0"

function parse_switch_protocol_from :: "bytes \<Rightarrow> nat \<Rightarrow> driver_error + unit" where
  "parse_switch_protocol_from data idx =
     (if \<not> idx + 1 < length data then Inr ()
      else
        case switch_protocol_field data (data ! idx) (idx + 1) of
          Inl e \<Rightarrow> Inl e
        | Inr None \<Rightarrow> Inr ()
        | Inr (Some idx') \<Rightarrow> parse_switch_protocol_from data idx')"
  by pat_completeness auto
termination
  by (relation "measure (\<lambda>(data, idx). length data - idx)") (auto dest: switch_protocol_field_forward)

definition parse_switch_protocol_response :: "bytes \<Rightarrow> driver_error + unit" where
  "parse_switch_protocol_response data = parse_switch_protocol_from data 0"

function parse_transparent_from ::
    "bytes \<Rightarrow> nat \<Rightarrow> transparent_exchange_result \<Rightarrow> driver_error + transparent_exchange_result" where
  "parse_transparent_from data idx result =
     (if \<not> idx + 1 < length data then Inr result
      else
        case transparent_field data (data ! idx) (idx + 1) result of
          Inl e \<Rightarrow> Inl e
        | Inr None \<Rightarrow> Inr result
        | Inr (Some (idx', result')) \<Rightarrow> parse_transparent_from data idx' result')"
  by pat_completeness auto
termination
  by (relation "measure (\<lambda>(data, idx, result). length data - idx)") (auto dest: transparent_field_forward)

definition parse_transparent_response :: "bytes \<Rightarrow> driver_error + transparent_exchange_result" where
  "parse_transparent_response data =
     parse_transparent_from data 0 \<lparr>te_payload = [], rf_status = None, valid_bits = None\<rparr>"

declare parse_manage_session_from.simps [simp del] parse_switch_protocol_from.simps [simp del]
  parse_transparent_from.simps [simp del]

section \<open>No panics\<close>

named_theorems no_panic_intros

definition no_panic :: "driver_error + 'a \<Rightarrow> bool" where
  "no_panic r \<longleftrightarrow> (\<forall>m. r \<noteq> Inl (DriverPanicked m))"

lemma no_panic_simps [simp]: "no_panic (Inr x)" "no_panic (driver_other m)" "no_panic (Inl e) \<longleftrightarrow> (\<forall>m. e \<noteq> DriverPanicked m)"
  by (simp_all add: no_panic_def driver_other_def)

lemma no_panic_bindE: "no_panic r \<Longrightarrow> (\<And>x. r = Inr x \<Longrightarrow> no_panic (f x)) \<Longrightarrow> no_panic (bindE r f)"
  by (cases r) (simp_all add: no_panic_def)

lemma no_panic_ok_or: "(opt = None \<Longrightarrow> no_panic (Inl e)) \<Longrightarrow> no_panic (ok_or opt e)"
  by (cases opt) simp_all

lemma no_panic_take_tlv_value: "no_panic (take_tlv_value data idx ctx)"
  unfolding take_tlv_value_def Let_def
  by (intro no_panic_bindE no_panic_ok_or) (auto simp: slice_opt_def intro!: no_panic_bindE no_panic_ok_or)

lemma no_panic_status_error: "no_panic (Inl (status_error v))"
  by (simp add: status_error_def Let_def)

lemma no_panic_take_status_tlv: "no_panic (take_status_tlv data idx ctx)"
  unfolding take_status_tlv_def
  using no_panic_status_error by (intro no_panic_bindE no_panic_take_tlv_value) (auto split: prod.splits)

lemma no_panic_skip_vendor_tlv: "no_panic (skip_vendor_tlv data idx ctx)"
  unfolding skip_vendor_tlv_def
  by (auto intro!: no_panic_bindE no_panic_take_tlv_value split: option.splits)

lemma no_panic_take_response_data: "no_panic (take_response_data data idx ctx)"
proof -
  have "no_panic (map_err (\<lambda>_. Other m) r)" for m and r :: "driver_error + nat \<times> nat"
    by (cases r) simp_all
  then show ?thesis
    unfolding take_response_data_def Let_def
    by (intro no_panic_bindE) (auto simp: slice_opt_def intro!: no_panic_bindE no_panic_ok_or split: prod.splits)
qed

lemmas no_panic_fields = no_panic_take_tlv_value no_panic_take_status_tlv no_panic_skip_vendor_tlv no_panic_take_response_data

lemma no_panic_manage_session: "no_panic (parse_manage_session_from data idx)"
proof (induction data idx rule: parse_manage_session_from.induct)
  case (1 data idx)
  have "no_panic (manage_session_field data tag i)" for tag i
    unfolding manage_session_field_def Let_def by (auto intro!: no_panic_bindE no_panic_fields)
  with 1 show ?case
    by (subst parse_manage_session_from.simps) (force simp: no_panic_def split: sum.splits option.splits)
qed

lemma no_panic_switch_protocol: "no_panic (parse_switch_protocol_from data idx)"
proof (induction data idx rule: parse_switch_protocol_from.induct)
  case (1 data idx)
  have "no_panic (switch_protocol_field data tag i)" for tag i
    unfolding switch_protocol_field_def Let_def by (auto intro!: no_panic_bindE no_panic_fields)
  with 1 show ?case
    by (subst parse_switch_protocol_from.simps) (force simp: no_panic_def split: sum.splits option.splits)
qed

lemma no_panic_transparent_field: "no_panic (transparent_field data tag idx result)"
  unfolding transparent_field_def Let_def
  by (auto intro!: no_panic_bindE no_panic_fields split: list.splits)

lemma no_panic_transparent: "no_panic (parse_transparent_from data idx result)"
proof (induction data idx result rule: parse_transparent_from.induct)
  case (1 data idx result)
  with no_panic_transparent_field show ?case
    by (subst parse_transparent_from.simps) (force simp: no_panic_def split: sum.splits option.splits)
qed

section \<open>What the reader says\<close>

text \<open>The fields of an answer, how the reader writes them and what each adds to the result.\<close>

datatype reader_field =
    StatusField
  | BitFramingField u8
  | RfStatusField u8 u8
  | DataField bytes
  | VendorField bytes

fun encode_field :: "reader_field \<Rightarrow> bytes" where
  "encode_field StatusField = [STATUS_TLV_TAG, 3, 0x00, 0x90, 0x00]"
| "encode_field (BitFramingField bits) = [RESPONSE_BIT_FRAMING_TAG, 1, bits]"
| "encode_field (RfStatusField s x) = [RESPONSE_STATUS_TAG, 2, s, x]"
| "encode_field (DataField v) = push_extended_tlv RESPONSE_DATA_TAG v"
| "encode_field (VendorField v) = [VENDOR_SPECIFIC_TAG, VENDOR_TAG_RESPONSE, u8_of (length v)] @ v"

fun field_ok :: "reader_field \<Rightarrow> bool" where
  "field_ok (DataField v) \<longleftrightarrow> length v < 65536"
| "field_ok (VendorField v) \<longleftrightarrow> length v = 3 \<or> length v = 6"
| "field_ok _ \<longleftrightarrow> True"

fun apply_field :: "reader_field \<Rightarrow> transparent_exchange_result \<Rightarrow> transparent_exchange_result" where
  "apply_field (BitFramingField bits) r = r\<lparr>valid_bits := Some (if bits = 0 then 8 else bits)\<rparr>"
| "apply_field (RfStatusField s x) r = r\<lparr>rf_status := Some s\<rparr>"
| "apply_field (DataField v) r = r\<lparr>te_payload := te_payload r @ v\<rparr>"
| "apply_field _ r = r"

lemma take_tlv_value_at:
  assumes "data = pre @ u8_of (length v) # v @ rest" and "idx = length pre" and "length v < 256"
  shows "take_tlv_value data idx ctx = Inr (v, length pre + 1 + length v)"
  using assms by (simp add: take_tlv_value_def Let_def slice_opt_def)

lemma parse_length_extended:
  assumes "length v < 65536"
  shows "parse_length (0x82 # u8_of (length v div 256) # u8_of (length v) # rest) = Inr (length v, 3)"
proof -
  have "length v div 256 < 256" using assms by simp
  then show ?thesis by (simp add: parse_length_def unat_u8_of_mod)
qed

lemma field_parsed:
  assumes "field_ok f"
  shows "transparent_field (pre @ encode_field f @ rest) (hd (encode_field f)) (length pre + 1) r
    = Inr (Some (length pre + length (encode_field f), apply_field f r))"
proof (cases f)
  case StatusField
  have "take_tlv_value (pre @ encode_field f @ rest) (length pre + 1) ctx = Inr ([0x00, 0x90, 0x00], length pre + 5)" for ctx
    by (subst take_tlv_value_at [of _ "pre @ [STATUS_TLV_TAG]" "[0x00, 0x90, 0x00]" rest]) (simp_all add: StatusField u8_of_def)
  then show ?thesis by (simp add: StatusField transparent_field_def Let_def take_status_tlv_def)
next
  case (BitFramingField bits)
  have "take_tlv_value (pre @ encode_field f @ rest) (length pre + 1) ctx = Inr ([bits], length pre + 3)" for ctx
    by (subst take_tlv_value_at [of _ "pre @ [RESPONSE_BIT_FRAMING_TAG]" "[bits]" rest]) (simp_all add: BitFramingField u8_of_def)
  then show ?thesis by (simp add: BitFramingField transparent_field_def Let_def tlv_tags)
next
  case (RfStatusField s x)
  have "take_tlv_value (pre @ encode_field f @ rest) (length pre + 1) ctx = Inr ([s, x], length pre + 4)" for ctx
    by (subst take_tlv_value_at [of _ "pre @ [RESPONSE_STATUS_TAG]" "[s, x]" rest]) (simp_all add: RfStatusField u8_of_def)
  then show ?thesis by (simp add: RfStatusField transparent_field_def Let_def tlv_tags)
next
  case (DataField v)
  with assms have "take_response_data (pre @ encode_field f @ rest) (length pre + 1) ctx = Inr (v, length pre + 4 + length v)" for ctx
    by (simp add: take_response_data_def push_extended_tlv_def parse_length_extended slice_opt_def Let_def)
  then show ?thesis
    by (simp add: DataField transparent_field_def Let_def push_extended_tlv_def RESPONSE_DATA_TAG_def STATUS_TLV_TAG_def
        RESPONSE_BIT_FRAMING_TAG_def RESPONSE_STATUS_TAG_def)
next
  case (VendorField v)
  with assms have short: "length v < 256" and v: "length v = 3 \<or> length v = 6" by auto
  have "take_tlv_value (pre @ encode_field f @ rest) (length pre + 2) ctx = Inr (v, length pre + 3 + length v)" for ctx
    by (subst take_tlv_value_at [of _ "pre @ [VENDOR_SPECIFIC_TAG, VENDOR_TAG_RESPONSE]" v rest])
      (simp_all add: VendorField short)
  moreover have "nth_opt (pre @ encode_field f @ rest) (length pre + 1) = Some VENDOR_TAG_RESPONSE"
    by (simp add: VendorField nth_opt_def nth_append)
  ultimately have "skip_vendor_tlv (pre @ encode_field f @ rest) (length pre + 1) ctx = Inr (Some (length pre + 3 + length v))" for ctx
    using v by (auto simp: skip_vendor_tlv_def)
  then show ?thesis
    by (simp add: VendorField transparent_field_def Let_def VENDOR_SPECIFIC_TAG_def STATUS_TLV_TAG_def
        RESPONSE_BIT_FRAMING_TAG_def RESPONSE_STATUS_TAG_def RESPONSE_DATA_TAG_def)
qed

lemma encode_field_tag: "\<exists>t b bs. encode_field f = t # b # bs"
  by (cases f) (simp_all add: push_extended_tlv_def)

lemma fields_parsed:
  assumes "\<forall>f \<in> set fs. field_ok f"
  shows "parse_transparent_from (pre @ concat (map encode_field fs)) (length pre) r = Inr (fold apply_field fs r)"
  using assms
proof (induction fs arbitrary: pre r)
  case Nil
  show ?case by (subst parse_transparent_from.simps) simp
next
  case (Cons f fs)
  from encode_field_tag obtain t b bs where tag: "encode_field f = t # b # bs" by blast
  let ?rest = "concat (map encode_field fs)"
  have "transparent_field (pre @ encode_field f @ ?rest) t (length pre + 1) r
    = Inr (Some (length pre + length (encode_field f), apply_field f r))"
    using field_parsed [of f pre ?rest r] Cons.prems by (simp add: tag)
  moreover have "(pre @ encode_field f @ ?rest) ! length pre = t" by (simp add: tag)
  ultimately have "parse_transparent_from (pre @ encode_field f @ ?rest) (length pre) r
    = parse_transparent_from (pre @ encode_field f @ ?rest) (length (pre @ encode_field f)) (apply_field f r)"
    by (subst parse_transparent_from.simps) (simp add: tag)
  with Cons.IH [of "pre @ encode_field f" "apply_field f r"] Cons.prems show ?case by simp
qed

section \<open>Properties\<close>

text \<open>
  Whatever bytes the reader sends, none of the three parsers of its answers panics: a length that
  points outside the answer is an error.
\<close>

theorem tlv_parsers_never_panic:
  "no_panic (parse_manage_session_response data) \<and> no_panic (parse_switch_protocol_response data)
    \<and> no_panic (parse_transparent_response data)"
  by (simp add: parse_manage_session_response_def parse_switch_protocol_response_def parse_transparent_response_def
      no_panic_manage_session no_panic_switch_protocol no_panic_transparent)

text \<open>
  An answer to a transparent exchange is read as the reader wrote it: the parser returns the data of all
  data fields in order, with the last radio status and the last bit framing, wherever status and
  vendor fields stand between them.
\<close>

theorem transparent_response_roundtrip:
  assumes "\<forall>f \<in> set fs. field_ok f"
  shows "parse_transparent_response (concat (map encode_field fs))
    = Inr (fold apply_field fs \<lparr>te_payload = [], rf_status = None, valid_bits = None\<rparr>)"
  using fields_parsed [OF assms, of "[]"] by (simp add: parse_transparent_response_def)

theorem transparent_response_roundtrip_witness:
  "parse_transparent_response
     [0xC0, 3, 0x00, 0x90, 0x00, 0x92, 1, 0, 0xFF, 0x6D, 3, 1, 2, 3, 0x97, 0x82, 0, 2, 0xAA, 0xBB, 0x96, 2, 5, 6]
   = Inr \<lparr>te_payload = [0xAA, 0xBB], rf_status = Some 5, valid_bits = Some 8\<rparr>"
  using transparent_response_roundtrip [of "[StatusField, BitFramingField 0, VendorField [1, 2, 3], DataField [0xAA, 0xBB], RfStatusField 5 6]"]
  by (simp add: push_extended_tlv_def tlv_tags u8_of_def)

end
