(* ===== verification/Pcsc.thy ===== *)
theory Pcsc
  imports Ccid Tlv
begin

text \<open>
  The PC/SC commands of the Port-400, \<open>src/driver/port400/pcsc/mod.rs\<close>: sessions, protocol switches and
  transparent exchanges with a card, each an APDU inside a CCID escape. The timeouts are nanoseconds.
\<close>

section \<open>Constants and state\<close>

definition START_TRANSPARENT_SESSION_TAG :: u8 where "START_TRANSPARENT_SESSION_TAG = 0x81"
definition END_TRANSPARENT_SESSION_TAG :: u8 where "END_TRANSPARENT_SESSION_TAG = 0x82"
definition TURN_OFF_RF_TAG :: u8 where "TURN_OFF_RF_TAG = 0x83"
definition TURN_ON_RF_TAG :: u8 where "TURN_ON_RF_TAG = 0x84"
definition TRANSMISSION_AND_RECEPTION_FLAG_TAG :: u8 where "TRANSMISSION_AND_RECEPTION_FLAG_TAG = 0x90"
definition TRANSMISSION_BIT_FRAMING_TAG :: u8 where "TRANSMISSION_BIT_FRAMING_TAG = 0x91"
definition TRANSCEIVE_TAG :: u8 where "TRANSCEIVE_TAG = 0x95"
definition FDT_TLV_TAG :: u8 where "FDT_TLV_TAG = 0x46"
definition GET_DATA_INS :: u8 where "GET_DATA_INS = 0xCA"
definition GET_FIRMWARE_VERSION_INS :: u8 where "GET_FIRMWARE_VERSION_INS = 0x56"
definition GET_PROPERTY_INS :: u8 where "GET_PROPERTY_INS = 0x5F"
definition MANAGE_SESSION_INS :: u8 where "MANAGE_SESSION_INS = 0x50"
definition TRANSPARENT_SESSION_CHANNEL :: u8 where "TRANSPARENT_SESSION_CHANNEL = 0x01"
definition DIAGNOSE_INS :: u8 where "DIAGNOSE_INS = 0x57"
definition PREPARE_FIRMWARE_UPDATE_INS :: u8 where "PREPARE_FIRMWARE_UPDATE_INS = 0x53"
definition UPDATE_FIRMWARE_INS :: u8 where "UPDATE_FIRMWARE_INS = 0x54"
definition RESET_DEVICE_INS :: u8 where "RESET_DEVICE_INS = 0x55"
definition LOAD_KEYS_INS :: u8 where "LOAD_KEYS_INS = 0x82"
definition GENERAL_AUTHENTICATE_INS :: u8 where "GENERAL_AUTHENTICATE_INS = 0x86"
definition READ_RFFE_PARAMETER_INS :: u8 where "READ_RFFE_PARAMETER_INS = 0x61"
definition WRITE_RFFE_PARAMETER_INS :: u8 where "WRITE_RFFE_PARAMETER_INS = 0x62"
definition RFFE_PARAM_EEPROM :: u8 where "RFFE_PARAM_EEPROM = 0x01"
definition RFFE_PARAM_PD_SC_DPC :: u8 where "RFFE_PARAM_PD_SC_DPC = 0x02"
definition RFFE_PARAM_PROTOCOL_CONFIGURATION :: u8 where "RFFE_PARAM_PROTOCOL_CONFIGURATION = 0x03"

definition DEFAULT_RECEIVE_TIMEOUT :: nat where "DEFAULT_RECEIVE_TIMEOUT = millis 1500"
definition KEEP_ALIVE_TIMEOUT :: nat where "KEEP_ALIVE_TIMEOUT = millis 100"
definition RF_ON_GUARD_TIME :: nat where "RF_ON_GUARD_TIME = millis 21"
definition RF_OFF_GUARD_TIME :: nat where "RF_OFF_GUARD_TIME = millis 30"
definition SWITCH_PROTOCOL_GUARD_TIME :: nat where "SWITCH_PROTOCOL_GUARD_TIME = millis 20"
definition SLOT_BUSY_RETRY_COUNT :: nat where "SLOT_BUSY_RETRY_COUNT = 1"
definition SLOT_BUSY_END_SESSION_RETRIES :: nat where "SLOT_BUSY_END_SESSION_RETRIES = 4"

record transmission_flags =
  append_crc :: bool
  discard_crc :: bool
  insert_parity :: bool
  expect_parity :: bool
  append_protocol_prologue :: bool
  tx_valid_bits :: "u8 option"

definition flags_felica :: transmission_flags where
  "flags_felica = \<lparr>append_crc = True, discard_crc = True, insert_parity = False, expect_parity = False,
     append_protocol_prologue = False, tx_valid_bits = None\<rparr>"

definition flags_iso14443_type_a :: transmission_flags where
  "flags_iso14443_type_a = \<lparr>append_crc = True, discard_crc = True, insert_parity = True, expect_parity = True,
     append_protocol_prologue = False, tx_valid_bits = None\<rparr>"

definition flags_iso14443_type_b :: transmission_flags where
  "flags_iso14443_type_b = \<lparr>append_crc = True, discard_crc = True, insert_parity = False, expect_parity = False,
     append_protocol_prologue = False, tx_valid_bits = None\<rparr>"

definition flags_iso15693 :: transmission_flags where
  "flags_iso15693 = \<lparr>append_crc = True, discard_crc = True, insert_parity = False, expect_parity = False,
     append_protocol_prologue = False, tx_valid_bits = None\<rparr>"

record type_b_info =
  tb_pupi :: bytes
  tb_application_data :: bytes
  tb_protocol_info :: bytes

record 'w pcsc = "'w ccid" +
  receive_timeout :: nat
  modified_bit_framing :: bool
  mifare_auth_key_number :: u8

definition pcsc_new :: "'w \<Rightarrow> 'w pcsc" where
  "pcsc_new w = \<lparr>ch_world = w, ch_buffer = [], ccid_sequence = 0, receive_timeout = DEFAULT_RECEIVE_TIMEOUT,
     modified_bit_framing = False, mifare_auth_key_number = 0\<rparr>"

type_synonym ('w, 'z, 'a) pcsc_op = "(('w, 'z) pcsc_scheme, 'a) driver_op"

definition set_receive_timeout :: "nat \<Rightarrow> ('w, 'z, unit) pcsc_op" where
  "set_receive_timeout t = modifyD (\<lambda>c. c\<lparr>receive_timeout := t\<rparr>)"

section \<open>Escapes with a status word\<close>

text \<open>The response without its last two bytes, once they are \<open>9000\<close>.\<close>

definition without_status :: "bytes \<Rightarrow> driver_error + bytes" where
  "without_status response = bindE (verify_status response) (\<lambda>_. Inr (take (length response - 2) response))"

definition send_extended_escape :: "'w transport \<Rightarrow> bytes \<Rightarrow> ('w, 'z, bytes) pcsc_op" where
  "send_extended_escape T frame =
     bindD (readD receive_timeout) (\<lambda>t.
     bindD (escape T frame t SLOT_BUSY_RETRY_COUNT) (\<lambda>response.
     liftD (without_status response)))"

definition send_escape_command :: "'w transport \<Rightarrow> escape_command \<Rightarrow> ('w, 'z, bytes) pcsc_op" where
  "send_escape_command T command = send_extended_escape T (escape_command_into_bytes command)"

definition manage_session_raw :: "'w transport \<Rightarrow> bytes \<Rightarrow> u8 \<Rightarrow> nat \<Rightarrow> ('w, 'z, bytes) pcsc_op" where
  "manage_session_raw T p channel slot_busy_retries =
     bindD (readD receive_timeout) (\<lambda>t.
     bindD (escape T ([0xFF, MANAGE_SESSION_INS, 0x00, channel, u8_of (length p)] @ p @ [0x00]) t slot_busy_retries) (\<lambda>response.
     liftD (without_status response)))"

definition manage_session :: "'w transport \<Rightarrow> (u8 \<times> bytes) list \<Rightarrow> nat \<Rightarrow> ('w, 'z, bytes) pcsc_op" where
  "manage_session T commands slot_busy_retries =
     bindD (manage_session_raw T (concat (map (\<lambda>(tag, v). tag # u8_of (length v) # v) commands)) 0x00 slot_busy_retries) (\<lambda>response.
     bindD (liftD (parse_manage_session_response response)) (\<lambda>_.
     liftD (Inr response)))"

definition ignore_result :: "('s, 'a) driver_op \<Rightarrow> ('s, unit) driver_op" where
  "ignore_result m = bindD m (\<lambda>_. liftD (Inr ()))"

section \<open>Sessions\<close>

definition turn_off_rf :: "'w transport \<Rightarrow> ('w, 'z, unit) pcsc_op" where
  "turn_off_rf T = ignore_result (manage_session T [(TURN_OFF_RF_TAG, [])] SLOT_BUSY_RETRY_COUNT)"

definition turn_on_rf :: "'w transport \<Rightarrow> ('w, 'z, unit) pcsc_op" where
  "turn_on_rf T = ignore_result (manage_session T [(TURN_ON_RF_TAG, [])] SLOT_BUSY_RETRY_COUNT)"

definition full_bytes_again :: "('w, 'z, unit) pcsc_op" where
  "full_bytes_again = modifyD (\<lambda>c. c\<lparr>modified_bit_framing := False\<rparr>)"

definition start_transparent_session :: "'w transport \<Rightarrow> bool \<Rightarrow> ('w, 'z, unit) pcsc_op" where
  "start_transparent_session T priority =
     bindD (if priority
            then tryD (manage_session T [(END_TRANSPARENT_SESSION_TAG, [])] SLOT_BUSY_END_SESSION_RETRIES) (\<lambda>_. liftD (Inr ()))
            else liftD (Inr ())) (\<lambda>_.
     bindD (manage_session T [(START_TRANSPARENT_SESSION_TAG, [])] SLOT_BUSY_RETRY_COUNT) (\<lambda>_.
     bindD (turn_off_rf T) (\<lambda>_.
     bindD (sleep T RF_OFF_GUARD_TIME) (\<lambda>_.
     bindD (turn_on_rf T) (\<lambda>_.
     bindD (sleep T RF_ON_GUARD_TIME) (\<lambda>_.
     full_bytes_again))))))"

definition end_transparent_session :: "'w transport \<Rightarrow> ('w, 'z, unit) pcsc_op" where
  "end_transparent_session T =
     tryD (turn_off_rf T) (\<lambda>_.
     bindD (manage_session T [(END_TRANSPARENT_SESSION_TAG, [])] SLOT_BUSY_END_SESSION_RETRIES) (\<lambda>_.
     full_bytes_again))"

definition switch_protocol :: "'w transport \<Rightarrow> u8 \<Rightarrow> u8 \<Rightarrow> u8 option \<Rightarrow> u8 option \<Rightarrow> ('w, 'z, unit) pcsc_op" where
  "switch_protocol T mode parameter fsdi cid =
     bindD (manage_session_raw T
         ((case fsdi of Some v \<Rightarrow> [0xFF, 0x6E, 0x03, 0x01, 0x01, v] | None \<Rightarrow> [])
           @ (case cid of Some v \<Rightarrow> [0xFF, 0x6E, 0x03, 0x08, 0x01, v] | None \<Rightarrow> [])
           @ [SWITCH_PROTOCOL_METADATA_TAG, 2, mode, parameter]) 0x02 SLOT_BUSY_RETRY_COUNT) (\<lambda>response.
     bindD (liftD (parse_switch_protocol_response response)) (\<lambda>_.
     bindD full_bytes_again (\<lambda>_.
     sleep T SWITCH_PROTOCOL_GUARD_TIME)))"

definition switch_protocol_type_f :: "'w transport \<Rightarrow> bool \<Rightarrow> ('w, 'z, unit) pcsc_op" where
  "switch_protocol_type_f T auto_baud = switch_protocol T 3 (if auto_baud then 1 else 0) None None"

definition switch_protocol_iso14443_3a :: "'w transport \<Rightarrow> ('w, 'z, unit) pcsc_op" where
  "switch_protocol_iso14443_3a T = switch_protocol T 0 3 None None"

definition switch_protocol_iso14443_4a :: "'w transport \<Rightarrow> u8 \<Rightarrow> u8 \<Rightarrow> u8 \<Rightarrow> ('w, 'z, unit) pcsc_op" where
  "switch_protocol_iso14443_4a T fsdi cid parameter = switch_protocol T 0 parameter (Some fsdi) (Some cid)"

definition switch_protocol_iso14443_4b :: "'w transport \<Rightarrow> u8 \<Rightarrow> u8 \<Rightarrow> u8 \<Rightarrow> ('w, 'z, unit) pcsc_op" where
  "switch_protocol_iso14443_4b T fsdi cid parameter = switch_protocol T 1 parameter (Some fsdi) (Some cid)"

definition switch_protocol_iso15693 :: "'w transport \<Rightarrow> ('w, 'z, unit) pcsc_op" where
  "switch_protocol_iso15693 T = switch_protocol T 2 3 None None"

definition set_comm_speed :: "'w transport \<Rightarrow> u8 \<Rightarrow> ('w, 'z, unit) pcsc_op" where
  "set_comm_speed T speed =
     ignore_result (manage_session_raw T [VENDOR_SPECIFIC_TAG, 0x6E, 0x03, 0x05, 0x01, speed] 0x00 SLOT_BUSY_RETRY_COUNT)"

section \<open>Transparent exchanges\<close>

definition build_flag_mask :: "transmission_flags \<Rightarrow> u16" where
  "build_flag_mask f =
     (if append_crc f then 0 else 0x0001) OR (if discard_crc f then 0 else 0x0002)
       OR (if insert_parity f then 0 else 0x0004) OR (if expect_parity f then 0 else 0x0008)
       OR (if append_protocol_prologue f then 0 else 0x0010)"

text \<open>The frame delay time in microseconds, of the whole milliseconds of the timeout.\<close>

definition fdt_micros :: "nat \<Rightarrow> u32" where
  "fdt_micros timeout = word_of_nat (min (timeout div 1000000 * 1000) 0xFFFFFFFF)"

definition flag_fields :: "transmission_flags option \<Rightarrow> bytes" where
  "flag_fields flags =
     (case flags of
        Some f \<Rightarrow> [TRANSMISSION_AND_RECEPTION_FLAG_TAG, 2] @ u16_to_be (build_flag_mask f)
      | None \<Rightarrow> [])"

text \<open>The bit framing, which is reset where the last command had shortened it.\<close>

definition bit_framing_fields :: "u8 option \<Rightarrow> bool \<Rightarrow> driver_error + bytes" where
  "bit_framing_fields tx_bits modified =
     (case tx_bits of
        Some bits \<Rightarrow>
          if \<not> (1 \<le> bits \<and> bits \<le> 8) then
            driver_other (''invalid TX number of valid bits '' @ dec (unat bits))
          else Inr [TRANSMISSION_BIT_FRAMING_TAG, 1, if bits < 8 then bits else 0]
      | None \<Rightarrow> Inr (if modified then [TRANSMISSION_BIT_FRAMING_TAG, 1, 0] else []))"

definition timeout_fields :: "nat \<Rightarrow> bytes" where
  "timeout_fields timeout =
     (if timeout > 0 then [EXTENDED_TAG_PREFIX, FDT_TLV_TAG, 4] @ u32_to_le (fdt_micros timeout) else [])"

definition transparent_frame :: "bytes \<Rightarrow> bytes" where
  "transparent_frame tlvs =
     [0xFF, MANAGE_SESSION_INS, 0x00, TRANSPARENT_SESSION_CHANNEL, 0x00, u8_of (length tlvs div 256), u8_of (length tlvs)]
       @ tlvs @ [0x00, 0x00, 0x00]"

definition transparent_exchange ::
    "'w transport \<Rightarrow> u8 \<Rightarrow> bytes \<Rightarrow> nat \<Rightarrow> transmission_flags option \<Rightarrow> ('w, 'z, transparent_exchange_result) pcsc_op" where
  "transparent_exchange T tag p timeout flags =
     (let tx_bits = Option.bind flags tx_valid_bits in
      bindD (readD modified_bit_framing) (\<lambda>modified.
      bindD (liftD (bit_framing_fields tx_bits modified)) (\<lambda>framing.
      bindD (modifyD (\<lambda>c. c\<lparr>modified_bit_framing := tx_bits \<noteq> None\<rparr>)) (\<lambda>_.
      bindD (send_extended_escape T (transparent_frame
          (flag_fields flags @ framing @ timeout_fields timeout @ (if p = [] then [] else push_extended_tlv tag p)))) (\<lambda>response.
      liftD (parse_transparent_response response))))))"

definition execute_payload :: "('w, 'z, transparent_exchange_result) pcsc_op \<Rightarrow> ('w, 'z, bytes) pcsc_op" where
  "execute_payload m = bindD m (\<lambda>result. liftD (Inr (te_payload result)))"

definition pcsc_transceive :: "'w transport \<Rightarrow> bytes \<Rightarrow> nat \<Rightarrow> transmission_flags \<Rightarrow> ('w, 'z, bytes) pcsc_op" where
  "pcsc_transceive T p timeout flags = execute_payload (transparent_exchange T TRANSCEIVE_TAG p timeout (Some flags))"

definition set_tx_rx_flag :: "'w transport \<Rightarrow> bytes \<Rightarrow> ('w, 'z, bytes) pcsc_op" where
  "set_tx_rx_flag T data = execute_payload (transparent_exchange T TRANSMISSION_AND_RECEPTION_FLAG_TAG data 0 None)"

definition set_tx_bit_framing :: "'w transport \<Rightarrow> bytes \<Rightarrow> ('w, 'z, bytes) pcsc_op" where
  "set_tx_bit_framing T data = execute_payload (transparent_exchange T TRANSMISSION_BIT_FRAMING_TAG data 0 None)"

definition request_type_b_info :: "'w transport \<Rightarrow> u8 \<Rightarrow> u8 \<Rightarrow> ('w, 'z, type_b_info) pcsc_op" where
  "request_type_b_info T afi param =
     bindD (pcsc_transceive T [0x05, afi, param] (millis 10) flags_iso14443_type_b) (\<lambda>response.
     liftD (if length response < 13 \<or> response ! 0 \<noteq> 0x50 then driver_other ''invalid or unsupported SENSB_RES response''
            else Inr \<lparr>tb_pupi = take 4 (drop 1 response), tb_application_data = take 4 (drop 5 response),
              tb_protocol_info = drop 9 response\<rparr>))"

section \<open>Data of the reader and of the card\<close>

definition escape_new :: "u8 \<Rightarrow> u8 \<Rightarrow> u8 \<Rightarrow> escape_command" where
  "escape_new ins p1 p2 = \<lparr>ec_ins = ins, ec_p1 = p1, ec_p2 = p2, ec_data = []\<rparr>"

definition escape_with_data :: "u8 \<Rightarrow> u8 \<Rightarrow> u8 \<Rightarrow> bytes \<Rightarrow> escape_command" where
  "escape_with_data ins p1 p2 data = \<lparr>ec_ins = ins, ec_p1 = p1, ec_p2 = p2, ec_data = data\<rparr>"

definition get_data :: "'w transport \<Rightarrow> u8 \<Rightarrow> ('w, 'z, bytes) pcsc_op" where
  "get_data T selector = send_escape_command T (escape_new GET_DATA_INS selector 0x00)"

definition pcsc_get_firmware_version :: "'w transport \<Rightarrow> ('w, 'z, bytes) pcsc_op" where
  "pcsc_get_firmware_version T = send_extended_escape T [0xFF, GET_FIRMWARE_VERSION_INS, 0x00, 0x00]"

definition card_baudrate :: "'w transport \<Rightarrow> ('w, 'z, nat option) pcsc_op" where
  "card_baudrate T =
     bindD (get_data T 0xF2) (\<lambda>data.
     liftD (Inr (Option.bind (nth_opt data 0) (map_of [(1, 106), (2, 212), (3, 424), (4, 848)]))))"

definition card_id :: "'w transport \<Rightarrow> ('w, 'z, bytes) pcsc_op" where "card_id T = get_data T 0xF0"
definition card_name :: "'w transport \<Rightarrow> ('w, 'z, bytes) pcsc_op" where "card_name T = get_data T 0xF1"
definition card_type :: "'w transport \<Rightarrow> ('w, 'z, bytes) pcsc_op" where "card_type T = get_data T 0xF3"
definition card_type_name :: "'w transport \<Rightarrow> ('w, 'z, bytes) pcsc_op" where "card_type_name T = get_data T 0xF4"
definition get_uid :: "'w transport \<Rightarrow> ('w, 'z, bytes) pcsc_op" where "get_uid T = get_data T 0x00"
definition get_historical_bytes :: "'w transport \<Rightarrow> ('w, 'z, bytes) pcsc_op" where "get_historical_bytes T = get_data T 0x01"

definition set_detection_target :: "'w transport \<Rightarrow> u8 \<Rightarrow> ('w, 'z, unit) pcsc_op" where
  "set_detection_target T selector = ignore_result (send_escape_command T (escape_with_data 0x5A 0 0 [selector]))"

definition set_rf_speed :: "'w transport \<Rightarrow> u8 \<Rightarrow> u8 \<Rightarrow> u8 \<Rightarrow> ('w, 'z, unit) pcsc_op" where
  "set_rf_speed T protocol rw_to_card card_to_rw =
     ignore_result (send_escape_command T (escape_with_data 0x5C 0 0 [protocol, rw_to_card, card_to_rw]))"

definition get_rf_speed :: "'w transport \<Rightarrow> u8 \<Rightarrow> ('w, 'z, bytes) pcsc_op" where
  "get_rf_speed T protocol = send_escape_command T (escape_with_data 0x5D 0 0 [protocol])"

definition pcsc_get_property :: "'w transport \<Rightarrow> u8 \<Rightarrow> ('w, 'z, bytes) pcsc_op" where
  "pcsc_get_property T selector = send_escape_command T (escape_new GET_PROPERTY_INS selector 0x00)"

section \<open>Maintenance\<close>

definition prepare_firmware_update :: "'w transport \<Rightarrow> bytes \<Rightarrow> ('w, 'z, bytes) pcsc_op" where
  "prepare_firmware_update T data =
     send_extended_escape T ([0xFF, PREPARE_FIRMWARE_UPDATE_INS, 0x00, 0x00, 0x00, 0x01, 0x00] @ data)"

definition update_firmware :: "'w transport \<Rightarrow> u16 \<Rightarrow> bytes \<Rightarrow> ('w, 'z, bytes) pcsc_op" where
  "update_firmware T sequence data =
     send_extended_escape T ([0xFF, UPDATE_FIRMWARE_INS] @ u16_to_le sequence @ [0x00, 0x01, 0x00] @ data)"

definition pcsc_reset_device :: "'w transport \<Rightarrow> u16 \<Rightarrow> ('w, 'z, bytes) pcsc_op" where
  "pcsc_reset_device T delay_ms =
     send_extended_escape T ([0xFF, RESET_DEVICE_INS, 0x00, 0x00, 0x02] @ u16_to_le delay_ms)"

definition diagnose_communication_line :: "'w transport \<Rightarrow> bytes \<Rightarrow> ('w, 'z, bytes) pcsc_op" where
  "diagnose_communication_line T pattern =
     (let total_len = length pattern + 1 in
      if total_len > 0xFFFF then liftD (driver_other ''diagnose payload too large'')
      else
        bindD (send_extended_escape T ([0xFF, DIAGNOSE_INS, 0x00, 0x00, 0x00] @ u16_to_be (u16_of total_len)
          @ [0x00] @ pattern @ [0x00, 0x00, 0x00])) (\<lambda>p.
        liftD (if length p \<noteq> total_len then driver_other ''diagnose response length mismatch''
               else if nth_opt p 0 \<noteq> Some 0x00 then driver_other ''diagnose test mismatch''
               else Inr (drop 1 p))))"

definition diagnose_rom :: "'w transport \<Rightarrow> ('w, 'z, u8) pcsc_op" where
  "diagnose_rom T =
     bindD (send_extended_escape T [0xFF, DIAGNOSE_INS, 0x00, 0x00, 0x01, 0x01]) (\<lambda>p.
     liftD (if length p \<noteq> 2 \<or> p ! 0 \<noteq> 0x01 then driver_other ''diagnose ROM response invalid'' else Inr (p ! 1)))"

definition diagnose_ram :: "'w transport \<Rightarrow> ('w, 'z, bytes) pcsc_op" where
  "diagnose_ram T =
     bindD (send_extended_escape T [0xFF, DIAGNOSE_INS, 0x00, 0x00, 0x01, 0x02]) (\<lambda>p.
     liftD (if p = [] \<or> length p > 7 then driver_other ''diagnose RAM response length invalid''
            else if p ! 0 \<noteq> 0x02 then driver_other ''diagnose RAM response invalid''
            else Inr (drop 1 p)))"

definition diagnose_polling :: "'w transport \<Rightarrow> u8 \<Rightarrow> u8 \<Rightarrow> ('w, 'z, u8) pcsc_op" where
  "diagnose_polling T protocol_code count =
     bindD (send_extended_escape T [0xFF, DIAGNOSE_INS, 0x00, 0x00, 0x03, 0x03, protocol_code, count]) (\<lambda>p.
     liftD (if length p \<noteq> 2 \<or> p ! 0 \<noteq> 0x03 then driver_other ''diagnose polling response invalid'' else Inr (p ! 1)))"

definition start_rffe_parameter_mode :: "'w transport \<Rightarrow> ('w, 'z, unit) pcsc_op" where
  "start_rffe_parameter_mode T = end_transparent_session T"

definition end_rffe_parameter_mode :: "'w transport \<Rightarrow> ('w, 'z, unit) pcsc_op" where
  "end_rffe_parameter_mode T = start_transparent_session T False"

definition ensure_pd_sc_dpc_selector :: "u8 \<Rightarrow> bool \<Rightarrow> driver_error + unit" where
  "ensure_pd_sc_dpc_selector selector write_access =
     (if selector = 0x01 \<and> \<not> write_access \<or> selector = 0x02 \<or> selector = 0x03 then Inr ()
      else driver_other (''unsupported PD/SC/DPC parameter selector '' @ dec (unat selector)))"

definition rffe_command :: "'w transport \<Rightarrow> u8 \<Rightarrow> u8 \<Rightarrow> u8 \<Rightarrow> bytes \<Rightarrow> ('w, 'z, bytes) pcsc_op" where
  "rffe_command T ins category selector p = send_escape_command T (escape_with_data ins category selector p)"

definition read_rffe_parameter :: "'w transport \<Rightarrow> u8 \<Rightarrow> u8 \<Rightarrow> bytes \<Rightarrow> ('w, 'z, bytes) pcsc_op" where
  "read_rffe_parameter T category selector data =
     bindD (liftD (
       if category = RFFE_PARAM_EEPROM then
         (if selector \<noteq> 0 then driver_other ''EEPROM parameters use selector 0'' else Inr data)
       else if category = RFFE_PARAM_PD_SC_DPC then
         bindE (ensure_pd_sc_dpc_selector selector False) (\<lambda>_. Inr [])
       else if category = RFFE_PARAM_PROTOCOL_CONFIGURATION then Inr []
       else driver_other (''unsupported RFFE parameter category '' @ dec (unat category))))
     (rffe_command T READ_RFFE_PARAMETER_INS category selector)"

definition write_rffe_parameter :: "'w transport \<Rightarrow> u8 \<Rightarrow> u8 \<Rightarrow> bytes \<Rightarrow> ('w, 'z, bytes) pcsc_op" where
  "write_rffe_parameter T category selector data =
     bindD (liftD (
       if category = RFFE_PARAM_EEPROM then
         (if selector \<noteq> 0 then driver_other ''EEPROM parameters use selector 0'' else Inr ())
       else if category = RFFE_PARAM_PD_SC_DPC then ensure_pd_sc_dpc_selector selector True
       else if category = RFFE_PARAM_PROTOCOL_CONFIGURATION then Inr ()
       else driver_other (''unsupported RFFE parameter category '' @ dec (unat category))))
     (\<lambda>_. rffe_command T WRITE_RFFE_PARAMETER_INS category selector data)"

text \<open>The text of \<open>verify_status\<close>'s error, which is always \<open>DriverError::Other\<close>.\<close>

definition status_failed :: "string \<Rightarrow> bytes \<Rightarrow> driver_error + unit" where
  "status_failed command response =
     map_err (\<lambda>e. case e of Other m \<Rightarrow> Other (command @ '' failed: '' @ m) | _ \<Rightarrow> e) (verify_status response)"

definition load_keys :: "'w transport \<Rightarrow> bytes \<Rightarrow> ('w, 'z, unit) pcsc_op" where
  "load_keys T key =
     bindD (readD receive_timeout) (\<lambda>t.
     bindD (readD mifare_auth_key_number) (\<lambda>number.
     bindD (escape T ([0xFF, LOAD_KEYS_INS, 0x00, number, u8_of (length key)] @ key) t SLOT_BUSY_RETRY_COUNT) (\<lambda>response.
     liftD (status_failed ''loadKeys'' response))))"

definition general_authenticate :: "'w transport \<Rightarrow> u8 \<Rightarrow> u8 \<Rightarrow> ('w, 'z, unit) pcsc_op" where
  "general_authenticate T block_number key_type =
     bindD (readD receive_timeout) (\<lambda>t.
     bindD (readD mifare_auth_key_number) (\<lambda>number.
     bindD (escape T [0xFF, GENERAL_AUTHENTICATE_INS, 0x00, 0x00, 0x05, 0x00, 0x00, block_number, key_type, number] t
       SLOT_BUSY_RETRY_COUNT) (\<lambda>response.
     liftD (status_failed ''generateAutheticate'' response))))"

definition keep_alive :: "'w transport \<Rightarrow> ('w, 'z, unit) pcsc_op" where
  "keep_alive T =
     ignore_result (escape T [0xFF, GET_FIRMWARE_VERSION_INS, 0x00, 0x00, 0x00] KEEP_ALIVE_TIMEOUT SLOT_BUSY_RETRY_COUNT)"

definition pcsc_close :: "'w transport \<Rightarrow> ('w, 'z, unit) pcsc_op" where
  "pcsc_close T = close_transport T"

section \<open>An exchange through all layers\<close>

lemma without_status_ok: "without_status (data @ [0x90, 0x00]) = Inr data"
  by (simp add: without_status_def verify_status_def Let_def nth_append)

text \<open>The frame that a transparent exchange sends.\<close>

definition exchange_frame :: "('w, 'z) pcsc_scheme \<Rightarrow> bytes \<Rightarrow> nat \<Rightarrow> transmission_flags \<Rightarrow> bytes \<Rightarrow> bytes" where
  "exchange_frame c p timeout flags framing =
     transparent_frame (flag_fields (Some flags) @ framing @ timeout_fields timeout
       @ (if p = [] then [] else push_extended_tlv TRANSCEIVE_TAG p))"

lemma transceive_found:
  fixes c :: "('w, 'z) pcsc_scheme"
  assumes "bit_framing_fields (tx_valid_bits flags) (modified_bit_framing c) = Inr framing"
    and "\<forall>a \<in> set olds. stale (ccid_sequence c + 1) a" and "length olds \<le> SEQUENCE_ERROR_RETRY_COUNT"
    and "data = concat (map encode_field fs) @ [0x90, 0x00]" and "\<forall>f \<in> set fs. field_ok f"
    and "length header = CCID_HEADER_LEN" and "ccid_response_parse header (ccid_sequence c + 1) = Inr (length data, Success)"
    and "tr_write T (build_escape_frame (exchange_frame c p timeout flags framing) (ccid_sequence c + 1)) (ch_world c) = (Inr (), w)"
    and "offers T (tr_now T (ch_world c) + receive_timeout c) w (concat (map answer_bytes olds) @ header @ data @ rest)"
  shows "\<exists>c'. pcsc_transceive T p timeout flags c
      = Some (Inr (te_payload (fold apply_field fs \<lparr>te_payload = [], rf_status = None, valid_bits = None\<rparr>)), c')
    \<and> modified_bit_framing c' = (tx_valid_bits flags \<noteq> None)"
proof -
  let ?c = "c\<lparr>modified_bit_framing := tx_valid_bits flags \<noteq> None\<rparr>"
  from assms(4) have long: "2 \<le> length data" by simp
  have "\<exists>c'. escape T (exchange_frame c p timeout flags framing) (receive_timeout c) SLOT_BUSY_RETRY_COUNT ?c = Some (Inr data, c') \<and> after_exchange ?c c'"
    by (rule escape_found [where olds = olds and header = header and w = w and rest = rest]) (use assms long in simp_all)
  then obtain c' where run: "escape T (exchange_frame c p timeout flags framing) (receive_timeout c) SLOT_BUSY_RETRY_COUNT ?c = Some (Inr data, c')"
    and after: "after_exchange ?c c'" by blast
  have parsed: "parse_transparent_response (concat (map encode_field fs))
    = Inr (fold apply_field fs \<lparr>te_payload = [], rf_status = None, valid_bits = None\<rparr>)"
    using fields_parsed [OF assms(5), of "[]"] by (simp add: parse_transparent_response_def)
  have "send_extended_escape T (exchange_frame c p timeout flags framing) ?c = Some (Inr (concat (map encode_field fs)), c')"
    by (simp add: send_extended_escape_def bindD_Inr run [simplified] without_status_ok assms(4))
  then have "pcsc_transceive T p timeout flags c
      = Some (Inr (te_payload (fold apply_field fs \<lparr>te_payload = [], rf_status = None, valid_bits = None\<rparr>)), c')"
    using assms(1)
    by (cases "p = []") (simp_all add: pcsc_transceive_def execute_payload_def transparent_exchange_def bindD_Inr exchange_frame_def parsed Let_def)
  moreover have "modified_bit_framing c' = (tx_valid_bits flags \<noteq> None)"
    using after by (auto simp: after_exchange_def same_chipset_def)
  ultimately show ?thesis by blast
qed

section \<open>The reader's bit framing\<close>

text \<open>The number of valid bits that the reader keeps, with zero for whole bytes, after the fields of a command.\<close>

fun framing_after :: "bytes \<Rightarrow> u8 \<Rightarrow> u8" where
  "framing_after [tag, len, bits] old = (if tag = TRANSMISSION_BIT_FRAMING_TAG then bits else old)"
| "framing_after _ old = old"

text \<open>
  The frame length that the caller asks for is the one that the reader uses: as long as the host knows
  of every shortened framing that the reader keeps, a command brings the reader to the asked number of valid
  bits, or back to whole bytes where none is asked for, and the host knows again.
\<close>

theorem bit_framing_follows_request:
  assumes "old \<noteq> 0 \<longrightarrow> modified" and "bit_framing_fields tx_bits modified = Inr framing"
  shows "framing_after framing old = (case tx_bits of Some bits \<Rightarrow> if bits < 8 then bits else 0 | None \<Rightarrow> 0)
    \<and> (framing_after framing old \<noteq> 0 \<longrightarrow> tx_bits \<noteq> None)"
  using assms by (auto simp: bit_framing_fields_def driver_other_def split: option.splits if_splits)

theorem bit_framing_follows_request_witness:
  "framing_after [TRANSMISSION_BIT_FRAMING_TAG, 1, 0] 7 = 0"
  using bit_framing_follows_request [of 7 True None "[TRANSMISSION_BIT_FRAMING_TAG, 1, 0]"]
  by (simp add: bit_framing_fields_def)



end
