(* ===== verification/Iso14443.thy ===== *)
theory Iso14443
  imports Driver_Io
begin

text \<open>
  The blocks of the ISO-DEP protocol, \<open>src/driver/port400/iso14443.rs\<close>: the configuration that the card's
  answer to activation fixes, the block numbers, and the encoding and parsing of I-, R- and S-blocks.
  Durations are nanoseconds; the conversions to microseconds wrap at 32 bits as \<open>as u32\<close> does.
\<close>

section \<open>Configuration\<close>

definition FWT_BASE_MICROS :: u32 where "FWT_BASE_MICROS = 302"
definition SFGT_BASE_MICROS :: u32 where "SFGT_BASE_MICROS = 256"
definition ISO_DEP_MAX_FSCI :: u8 where "ISO_DEP_MAX_FSCI = 8"
definition ISO_DEP_MAX_FSDI :: u8 where "ISO_DEP_MAX_FSDI = 8"
definition ISO_DEP_MAX_FWI :: u8 where "ISO_DEP_MAX_FWI = 14"
definition ISO_DEP_MAX_SFGI :: u8 where "ISO_DEP_MAX_SFGI = 14"
definition ISO_DEP_FRAME_SIZE_TABLE :: "nat list" where
  "ISO_DEP_FRAME_SIZE_TABLE = [16, 24, 32, 40, 48, 64, 96, 128, 256]"
definition ISO_DEP_PCB_I_BLOCK :: u8 where "ISO_DEP_PCB_I_BLOCK = 0x02"
definition ISO_DEP_PCB_CHAINING :: u8 where "ISO_DEP_PCB_CHAINING = 0x10"
definition ISO_DEP_PCB_CID :: u8 where "ISO_DEP_PCB_CID = 0x08"
definition ISO_DEP_PCB_NAD :: u8 where "ISO_DEP_PCB_NAD = 0x04"
definition ISO_DEP_PCB_MASK :: u8 where "ISO_DEP_PCB_MASK = 0xC0"
definition ISO_DEP_PCB_TYPE_I :: u8 where "ISO_DEP_PCB_TYPE_I = 0x00"
definition ISO_DEP_PCB_TYPE_R :: u8 where "ISO_DEP_PCB_TYPE_R = 0x80"
definition ISO_DEP_PCB_TYPE_S :: u8 where "ISO_DEP_PCB_TYPE_S = 0xC0"
definition ISO_DEP_S_MASK :: u8 where "ISO_DEP_S_MASK = 0x30"
definition ISO_DEP_S_DESELECT :: u8 where "ISO_DEP_S_DESELECT = 0x00"
definition ISO_DEP_S_IFS :: u8 where "ISO_DEP_S_IFS = 0x20"
definition ISO_DEP_S_WTX :: u8 where "ISO_DEP_S_WTX = 0x30"
definition ISO_DEP_R_ACK_BIT :: u8 where "ISO_DEP_R_ACK_BIT = 0x10"
definition ISO_DEP_WTXM_MIN :: u8 where "ISO_DEP_WTXM_MIN = 1"
definition ISO_DEP_WTXM_MAX :: u8 where "ISO_DEP_WTXM_MAX = 59"

lemmas iso_dep_bits = ISO_DEP_PCB_I_BLOCK_def ISO_DEP_PCB_CHAINING_def ISO_DEP_PCB_CID_def ISO_DEP_PCB_NAD_def
  ISO_DEP_PCB_MASK_def ISO_DEP_PCB_TYPE_I_def ISO_DEP_PCB_TYPE_R_def ISO_DEP_PCB_TYPE_S_def ISO_DEP_S_MASK_def
  ISO_DEP_S_DESELECT_def ISO_DEP_S_IFS_def ISO_DEP_S_WTX_def ISO_DEP_R_ACK_BIT_def

datatype iso_dep_data_rate = Kbps106 | Kbps212 | Kbps424 | Kbps848

fun data_rate_symbol :: "iso_dep_data_rate \<Rightarrow> u8" where
  "data_rate_symbol Kbps106 = 0"
| "data_rate_symbol Kbps212 = 1"
| "data_rate_symbol Kbps424 = 2"
| "data_rate_symbol Kbps848 = 3"

record iso_dep_config =
  fsdi :: u8
  fsci :: u8
  cfg_cid :: u8
  cfg_use_cid :: bool
  cfg_use_nad :: bool
  cfg_nad :: u8
  sfgi :: u8
  fwi :: u8
  dr :: iso_dep_data_rate
  ds :: iso_dep_data_rate
  same_d :: bool
  max_retry_i :: u8
  max_retry_r_ack :: u8
  max_retry_r_nak :: u8
  max_try_s_wtx :: u8
  fwt_extra :: nat

definition type_a_defaults :: iso_dep_config where
  "type_a_defaults =
     \<lparr>fsdi = 8, fsci = 2, cfg_cid = 0x02, cfg_use_cid = True, cfg_use_nad = False, cfg_nad = 0x00, sfgi = 0, fwi = 4,
      dr = Kbps106, ds = Kbps106, same_d = True, max_retry_i = 2, max_retry_r_ack = 2, max_retry_r_nak = 2,
      max_try_s_wtx = 5, fwt_extra = 0\<rparr>"

definition type_b_defaults :: iso_dep_config where
  "type_b_defaults = type_a_defaults\<lparr>sfgi := 0, fwi := 4\<rparr>"

text \<open>\<open>saturating_mul\<close> by a power of two.\<close>

definition saturating_shift :: "u32 \<Rightarrow> nat \<Rightarrow> u32" where
  "saturating_shift base k = word_of_nat (min (unat base * 2 ^ k) 0xFFFFFFFF)"

definition fwt_microseconds :: "u8 \<Rightarrow> u32" where
  "fwt_microseconds i = saturating_shift FWT_BASE_MICROS (min (unat i) 14)"

definition sfgt_microseconds :: "u8 \<Rightarrow> u32" where
  "sfgt_microseconds i = saturating_shift SFGT_BASE_MICROS (min (unat i) 8)"

definition fwt_duration :: "iso_dep_config \<Rightarrow> nat" where
  "fwt_duration cfg = unat (fwt_microseconds (fwi cfg) + word_of_nat (fwt_extra cfg div 1000)) * 1000"

definition sfgt_duration :: "iso_dep_config \<Rightarrow> nat" where
  "sfgt_duration cfg = unat (sfgt_microseconds (sfgi cfg)) * 1000"

definition fsc :: "iso_dep_config \<Rightarrow> nat" where
  "fsc cfg = ISO_DEP_FRAME_SIZE_TABLE ! unat (min (fsci cfg) ISO_DEP_MAX_FSCI)"

definition fsd :: "iso_dep_config \<Rightarrow> nat" where
  "fsd cfg = ISO_DEP_FRAME_SIZE_TABLE ! unat (min (fsdi cfg) ISO_DEP_MAX_FSDI)"

definition block_header_len :: "bool \<Rightarrow> bool \<Rightarrow> nat" where
  "block_header_len use_cid use_nad = 1 + (if use_cid then 1 else 0) + (if use_nad then 1 else 0)"

definition max_inf_len_picc :: "iso_dep_config \<Rightarrow> nat" where
  "max_inf_len_picc cfg = fsc cfg - block_header_len (cfg_use_cid cfg) (cfg_use_nad cfg)"

definition max_inf_len_pcd :: "iso_dep_config \<Rightarrow> nat" where
  "max_inf_len_pcd cfg = fsd cfg - block_header_len (cfg_use_cid cfg) (cfg_use_nad cfg)"

definition bytes_to_fdsi :: "nat \<Rightarrow> u8" where
  "bytes_to_fdsi v =
     (case position (\<lambda>size. v \<le> size) ISO_DEP_FRAME_SIZE_TABLE of
        Some idx \<Rightarrow> u8_of idx
      | None \<Rightarrow> ISO_DEP_MAX_FSDI)"

definition update_pcd_ifs :: "u8 \<Rightarrow> iso_dep_config \<Rightarrow> iso_dep_config" where
  "update_pcd_ifs ifs cfg = cfg\<lparr>fsdi := bytes_to_fdsi (unat (max 16 ifs))\<rparr>"

definition decode_data_rate :: "u8 \<Rightarrow> iso_dep_data_rate" where
  "decode_data_rate v =
     (if v AND 0x03 = 0 then Kbps106 else if v AND 0x03 = 1 then Kbps212
      else if v AND 0x03 = 2 then Kbps424 else if v AND 0x03 = 3 then Kbps848 else Kbps106)"

text \<open>The optional interface bytes of an ATS, each behind the ones that are present before it.\<close>

definition ats_byte :: "bytes \<Rightarrow> nat \<Rightarrow> string \<Rightarrow> driver_error + u8" where
  "ats_byte ats offset name = ok_or (nth_opt ats offset) (Other (''ATS missing '' @ name))"

definition apply_rates :: "u8 \<Rightarrow> iso_dep_config \<Rightarrow> iso_dep_config" where
  "apply_rates b cfg =
     (if b AND 0x08 = 0 then
        cfg\<lparr>dr := decode_data_rate (b AND 0x07), ds := decode_data_rate (drop_bit 4 b AND 0x07), same_d := b AND 0x80 \<noteq> 0\<rparr>
      else cfg)"

text \<open>
  \<open>apply_ats\<close> changes the configuration field by field, so that an ATS with a missing byte leaves what stood
  before it applied; the caller logs the error and goes on.
\<close>

definition apply_ats :: "bytes \<Rightarrow> (iso_dep_config, unit) driver_op" where
  "apply_ats ats =
     (if length ats < 2 then liftD (driver_other ''ATS is too short'')
      else
        let tl = unat (ats ! 0) in
        if tl = 0 \<or> length ats < tl then liftD (driver_other ''ATS length mismatch'')
        else if 1 \<ge> tl then liftD (driver_other ''ATS missing T0'')
        else
          let t0 = ats ! 1 in
          bindD (modifyD (\<lambda>cfg. cfg\<lparr>fsci := min (t0 AND 0x0F) ISO_DEP_MAX_FSCI\<rparr>)) (\<lambda>_.
          bindD (if t0 AND 0x10 \<noteq> 0
                 then bindD (liftD (ats_byte ats 2 ''TA'')) (\<lambda>ta. bindD (modifyD (apply_rates ta)) (\<lambda>_. liftD (Inr 3)))
                 else liftD (Inr 2)) (\<lambda>offset.
          bindD (if t0 AND 0x20 \<noteq> 0
                 then bindD (liftD (ats_byte ats offset ''TB'')) (\<lambda>tb.
                   bindD (modifyD (\<lambda>cfg. cfg\<lparr>sfgi := min (tb AND 0x0F) ISO_DEP_MAX_SFGI,
                     fwi := min (drop_bit 4 tb AND 0x0F) ISO_DEP_MAX_FWI\<rparr>)) (\<lambda>_. liftD (Inr (offset + 1))))
                 else liftD (Inr offset)) (\<lambda>offset.
          if t0 AND 0x40 \<noteq> 0
          then bindD (liftD (ats_byte ats offset ''TC'')) (\<lambda>tc.
            modifyD (\<lambda>cfg. cfg\<lparr>cfg_use_cid := cfg_use_cid cfg \<and> tc AND 0x02 \<noteq> 0, cfg_use_nad := cfg_use_nad cfg \<and> tc AND 0x01 \<noteq> 0\<rparr>))
          else liftD (Inr ())))))"

definition apply_type_b_protocol_info :: "bytes \<Rightarrow> iso_dep_config \<Rightarrow> driver_error + iso_dep_config" where
  "apply_type_b_protocol_info info cfg =
     (if length info < 3 then driver_other ''ISO-DEP Protocol Info must be at least 3 bytes''
      else
        let cfg = apply_rates (info ! 0) (cfg\<lparr>fsci := min (drop_bit 4 (info ! 1) AND 0x0F) ISO_DEP_MAX_FSCI\<rparr>);
            cfg = cfg\<lparr>cfg_use_cid := cfg_use_cid cfg \<and> info ! 2 AND 0x01 \<noteq> 0,
              cfg_use_nad := cfg_use_nad cfg \<and> info ! 2 AND 0x02 \<noteq> 0,
              fwi := min (drop_bit 4 (info ! 2) AND 0x0F) ISO_DEP_MAX_FWI\<rparr> in
        Inr (case nth_opt info 3 of
               Some extra \<Rightarrow> cfg\<lparr>sfgi := min (drop_bit 4 extra AND 0x0F) ISO_DEP_MAX_SFGI\<rparr>
             | None \<Rightarrow> cfg))"

section \<open>Session\<close>

record iso_dep_state =
  tx_block_number :: u8
  picc_block_number :: u8
  st_use_cid :: bool
  st_cid :: u8
  st_use_nad :: bool
  st_nad :: u8
  st_chaining :: bool

definition iso_dep_state_new :: "u8 option \<Rightarrow> u8 option \<Rightarrow> iso_dep_state" where
  "iso_dep_state_new cid nad =
     \<lparr>tx_block_number = 0, picc_block_number = 0, st_use_cid = cid \<noteq> None, st_cid = case_option 0 id cid,
      st_use_nad = nad \<noteq> None, st_nad = case_option 0 id nad, st_chaining = False\<rparr>"

definition next_tx_block :: "iso_dep_state \<Rightarrow> iso_dep_state" where
  "next_tx_block st = st\<lparr>tx_block_number := tx_block_number st XOR 1\<rparr>"

definition advance_picc_block :: "iso_dep_state \<Rightarrow> iso_dep_state" where
  "advance_picc_block st = st\<lparr>picc_block_number := picc_block_number st XOR 1\<rparr>"

definition state_cid :: "iso_dep_state \<Rightarrow> u8 option" where
  "state_cid st = (if st_use_cid st then Some (st_cid st) else None)"

definition state_nad :: "iso_dep_state \<Rightarrow> u8 option" where
  "state_nad st = (if st_use_nad st then Some (st_nad st) else None)"

record iso_dep_session =
  ses_config :: iso_dep_config
  ses_state :: iso_dep_state
  ifs_negotiated :: bool
  retry_i_counter :: u8
  retry_r_ack_counter :: u8
  retry_r_nak_counter :: u8

definition iso_dep_session_new :: "iso_dep_config \<Rightarrow> iso_dep_session" where
  "iso_dep_session_new cfg =
     \<lparr>ses_config = cfg,
      ses_state = iso_dep_state_new (if cfg_use_cid cfg then Some (cfg_cid cfg) else None)
        (if cfg_use_nad cfg then Some (cfg_nad cfg) else None),
      ifs_negotiated = False, retry_i_counter = 0, retry_r_ack_counter = 0, retry_r_nak_counter = 0\<rparr>"

definition reset_retry_counters :: "iso_dep_session \<Rightarrow> iso_dep_session" where
  "reset_retry_counters s = s\<lparr>retry_i_counter := 0, retry_r_ack_counter := 0, retry_r_nak_counter := 0\<rparr>"

definition session_reset :: "iso_dep_session \<Rightarrow> iso_dep_session" where
  "session_reset s =
     reset_retry_counters (s\<lparr>ses_state := iso_dep_state_new (state_cid (ses_state s)) (state_nad (ses_state s)),
       ifs_negotiated := False\<rparr>)"

definition needs_ifs_request :: "iso_dep_session \<Rightarrow> bool" where
  "needs_ifs_request s \<longleftrightarrow> max_inf_len_pcd (ses_config s) > 32 \<and> \<not> ifs_negotiated s"

definition saturating_inc :: "u8 \<Rightarrow> u8" where
  "saturating_inc b = (if b = 0xFF then b else b + 1)"

definition increment_retry_i :: "iso_dep_session \<Rightarrow> bool \<times> iso_dep_session" where
  "increment_retry_i s =
     (let n = saturating_inc (retry_i_counter s) in (n \<le> max_retry_i (ses_config s), s\<lparr>retry_i_counter := n\<rparr>))"

definition increment_retry_r_ack :: "iso_dep_session \<Rightarrow> bool \<times> iso_dep_session" where
  "increment_retry_r_ack s =
     (let n = saturating_inc (retry_r_ack_counter s) in (n \<le> max_retry_r_ack (ses_config s), s\<lparr>retry_r_ack_counter := n\<rparr>))"

definition increment_retry_r_nak :: "iso_dep_session \<Rightarrow> bool \<times> iso_dep_session" where
  "increment_retry_r_nak s =
     (let n = saturating_inc (retry_r_nak_counter s) in (n \<le> max_retry_r_nak (ses_config s), s\<lparr>retry_r_nak_counter := n\<rparr>))"

section \<open>Blocks\<close>

record iso_dep_i_frame =
  if_frame :: bytes
  if_chaining :: bool

datatype iso_dep_block_type = IBlock bytes | RBlock bool | SBlock u8 bytes | UnknownBlock u8

record iso_dep_response =
  block_type :: iso_dep_block_type
  resp_chaining :: bool
  block_number :: u8

definition option_byte :: "u8 option \<Rightarrow> bytes" where
  "option_byte b = (case b of Some v \<Rightarrow> [v] | None \<Rightarrow> [])"

definition flag_bits :: "bool \<Rightarrow> u8 \<Rightarrow> u8" where
  "flag_bits b bits = (if b then bits else 0)"

definition build_iso_dep_i_block :: "iso_dep_state \<Rightarrow> bytes \<Rightarrow> bool \<Rightarrow> bytes" where
  "build_iso_dep_i_block st p chaining =
     [ISO_DEP_PCB_I_BLOCK OR (tx_block_number st AND 0x01) OR flag_bits chaining ISO_DEP_PCB_CHAINING
        OR flag_bits (state_cid st \<noteq> None) ISO_DEP_PCB_CID OR flag_bits (state_nad st \<noteq> None) ISO_DEP_PCB_NAD]
       @ option_byte (state_cid st) @ option_byte (state_nad st) @ p"

definition build_iso_dep_s_block :: "iso_dep_state \<Rightarrow> u8 \<Rightarrow> bool \<Rightarrow> bytes \<Rightarrow> bytes" where
  "build_iso_dep_s_block st code include_block_number p =
     [ISO_DEP_PCB_TYPE_S OR code OR flag_bits include_block_number (tx_block_number st AND 0x01)
        OR flag_bits (state_cid st \<noteq> None) ISO_DEP_PCB_CID]
       @ option_byte (state_cid st) @ p"

definition build_iso_dep_r_block :: "iso_dep_state \<Rightarrow> bool \<Rightarrow> bytes" where
  "build_iso_dep_r_block st ack_block =
     [ISO_DEP_PCB_TYPE_R OR (picc_block_number st AND 0x01) OR flag_bits (\<not> ack_block) ISO_DEP_R_ACK_BIT
        OR flag_bits (state_cid st \<noteq> None) ISO_DEP_PCB_CID]
       @ option_byte (state_cid st)"

text \<open>The next frame of a payload, with the offset and the mark of an empty frame that it leaves.\<close>

definition next_iso_dep_i_frame ::
    "iso_dep_state \<Rightarrow> bytes \<Rightarrow> nat \<Rightarrow> nat \<Rightarrow> bool \<Rightarrow> bool \<Rightarrow> (iso_dep_i_frame \<times> nat \<times> bool) option" where
  "next_iso_dep_i_frame st p offset max_inf chaining sent_empty =
     (if offset \<ge> length p then
        (if p = [] \<and> \<not> sent_empty
         then Some (\<lparr>if_frame = build_iso_dep_i_block st [] chaining, if_chaining = chaining\<rparr>, offset, True)
         else None)
      else
        let taken = min (length p - offset) (max max_inf 1);
            chunk = take taken (drop offset p);
            offset = offset + taken;
            block_chaining = (offset < length p \<or> chaining) in
        Some (\<lparr>if_frame = build_iso_dep_i_block st chunk block_chaining, if_chaining = block_chaining\<rparr>, offset, sent_empty))"

definition parse_iso_dep_response :: "iso_dep_state \<Rightarrow> bytes \<Rightarrow> driver_error + iso_dep_response" where
  "parse_iso_dep_response st data =
     (case data of
        [] \<Rightarrow> driver_other ''ISO-DEP response is empty''
      | pcb # _ \<Rightarrow>
          bindE (if pcb AND ISO_DEP_PCB_CID \<noteq> 0
                 then bindE (ok_or (nth_opt data 1) (Other ''ISO-DEP response missing CID'')) (\<lambda>cid.
                   if state_cid st \<noteq> None \<and> state_cid st \<noteq> Some cid then driver_other ''ISO-DEP CID mismatch'' else Inr 2)
                 else Inr 1) (\<lambda>offset.
          bindE (if pcb AND ISO_DEP_PCB_NAD \<noteq> 0
                 then bindE (ok_or (nth_opt data offset) (Other ''ISO-DEP response missing NAD'')) (\<lambda>_. Inr (offset + 1))
                 else Inr offset) (\<lambda>offset.
          bindE (if pcb AND ISO_DEP_PCB_MASK = ISO_DEP_PCB_TYPE_I then
                   (if offset > length data then driver_other ''ISO-DEP payload out of range''
                    else Inr (IBlock (drop offset data)))
                 else if pcb AND ISO_DEP_PCB_MASK = ISO_DEP_PCB_TYPE_R then Inr (RBlock (pcb AND ISO_DEP_R_ACK_BIT = 0))
                 else if pcb AND ISO_DEP_PCB_MASK = ISO_DEP_PCB_TYPE_S then
                   (if offset > length data then Inl (DriverPanicked ''range start index out of range'')
                    else Inr (SBlock (pcb AND ISO_DEP_S_MASK) (drop offset data)))
                 else Inr (UnknownBlock (pcb AND ISO_DEP_PCB_MASK))) (\<lambda>b.
          Inr \<lparr>block_type = b, resp_chaining = pcb AND ISO_DEP_PCB_CHAINING \<noteq> 0, block_number = pcb AND 0x01\<rparr>))))"

definition wtx_multiplier :: "u8 \<Rightarrow> u8" where
  "wtx_multiplier v = min (max (v AND 0x3F) ISO_DEP_WTXM_MIN) ISO_DEP_WTXM_MAX"

definition DURATION_MAX :: nat where
  "DURATION_MAX = 2 ^ 64 * 1000000000 - 1"

definition extend_timeout :: "nat \<Rightarrow> u8 \<Rightarrow> nat" where
  "extend_timeout base multiplier = (if multiplier \<le> 1 then base else min (base * unat multiplier) DURATION_MAX)"

section \<open>Round trips\<close>

definition iso_state_ok :: "iso_dep_state \<Rightarrow> bool" where
  "iso_state_ok st \<longleftrightarrow> tx_block_number st \<in> {0, 1} \<and> picc_block_number st \<in> {0, 1}"

lemma iso_state_ok_steps [simp]:
  "iso_state_ok (iso_dep_state_new cid nad)"
  "iso_state_ok st \<Longrightarrow> iso_state_ok (next_tx_block st)"
  "iso_state_ok st \<Longrightarrow> iso_state_ok (advance_picc_block st)"
  by (auto simp: iso_state_ok_def iso_dep_state_new_def next_tx_block_def advance_picc_block_def)

lemma header_ids [simp]:
  "state_cid (next_tx_block st) = state_cid st" "state_nad (next_tx_block st) = state_nad st"
  "tx_block_number (next_tx_block st) = tx_block_number st XOR 1"
  by (simp_all add: state_cid_def state_nad_def next_tx_block_def)

lemma i_block_parsed:
  assumes "iso_state_ok st" and "state_cid st' = state_cid st"
  shows "parse_iso_dep_response st' (build_iso_dep_i_block st p chaining)
    = Inr \<lparr>block_type = IBlock p, resp_chaining = chaining, block_number = tx_block_number st\<rparr>"
  using assms unfolding iso_state_ok_def build_iso_dep_i_block_def parse_iso_dep_response_def
  by (cases "state_cid st"; cases "state_nad st"; cases chaining)
    (auto simp: iso_dep_bits flag_bits_def option_byte_def)

lemma r_block_parsed:
  assumes "iso_state_ok st" and "state_cid st' = state_cid st"
  shows "parse_iso_dep_response st' (build_iso_dep_r_block st a)
    = Inr \<lparr>block_type = RBlock a, resp_chaining = \<not> a, block_number = picc_block_number st\<rparr>"
  using assms unfolding iso_state_ok_def build_iso_dep_r_block_def parse_iso_dep_response_def
  by (cases "state_cid st"; cases a) (auto simp: iso_dep_bits flag_bits_def option_byte_def)

lemma s_block_parsed:
  assumes "iso_state_ok st" and "state_cid st' = state_cid st" and "code \<in> {ISO_DEP_S_DESELECT, ISO_DEP_S_IFS, ISO_DEP_S_WTX}"
  shows "\<exists>r. parse_iso_dep_response st' (build_iso_dep_s_block st code numbered p) = Inr r \<and> block_type r = SBlock code p"
  using assms unfolding iso_state_ok_def build_iso_dep_s_block_def parse_iso_dep_response_def
  by (cases "state_cid st"; cases numbered) (auto simp: iso_dep_bits flag_bits_def option_byte_def)

text \<open>The frames that carry a payload: the next one is built when the one before was acknowledged.\<close>

function payload_frames :: "iso_dep_state \<Rightarrow> bytes \<Rightarrow> nat \<Rightarrow> nat \<Rightarrow> bool \<Rightarrow> bool \<Rightarrow> iso_dep_i_frame list" where
  "payload_frames st p offset max_inf chaining sent_empty =
     (case next_iso_dep_i_frame st p offset max_inf chaining sent_empty of
        None \<Rightarrow> []
      | Some (f, offset', sent_empty') \<Rightarrow>
          f # payload_frames (next_tx_block st) p offset' max_inf chaining sent_empty')"
  by pat_completeness auto
termination
  by (relation "measures [\<lambda>(st, p, offset, m, c, sent). length p - offset, \<lambda>(st, p, offset, m, c, sent). if sent then 0 else 1]")
    (auto simp: next_iso_dep_i_frame_def Let_def split: if_splits)

declare payload_frames.simps [simp del]

text \<open>What a receiver makes of the frames: their payloads, numbers and chaining marks.\<close>

fun received :: "iso_dep_state \<Rightarrow> iso_dep_i_frame list \<Rightarrow> (bytes \<times> u8 \<times> bool) list" where
  "received st [] = []"
| "received st (f # fs) =
     (case parse_iso_dep_response st (if_frame f) of
        Inr r \<Rightarrow> (case block_type r of IBlock p \<Rightarrow> [(p, block_number r, resp_chaining r)] | _ \<Rightarrow> [])
      | Inl e \<Rightarrow> []) @ received st fs"

text \<open>The block numbers alternate, and every frame but the last is chained.\<close>

fun alternating :: "u8 \<Rightarrow> bool \<Rightarrow> (bytes \<times> u8 \<times> bool) list \<Rightarrow> bool" where
  "alternating n chaining [] \<longleftrightarrow> True"
| "alternating n chaining ((p, m, c) # rest) \<longleftrightarrow>
     m = n \<and> c = (rest \<noteq> [] \<or> chaining) \<and> alternating (n XOR 1) chaining rest"

lemma received_frames:
  assumes "iso_state_ok st" and "offset < length p" and "state_cid st' = state_cid st"
  shows "let blocks = received st' (payload_frames st p offset max_inf chaining sent) in
    concat (map fst blocks) = drop offset p \<and> alternating (tx_block_number st) chaining blocks \<and> blocks \<noteq> []
    \<and> (\<forall>b \<in> set blocks. length (fst b) \<le> max max_inf 1)"
  using assms
proof (induction "length p - offset" arbitrary: st offset rule: less_induct)
  case less
  let ?n = "min (length p - offset) (max max_inf 1)"
  let ?next = "offset + ?n"
  let ?frame = "\<lparr>if_frame = build_iso_dep_i_block st (take ?n (drop offset p)) (?next < length p \<or> chaining),
      if_chaining = ?next < length p \<or> chaining\<rparr>"
  have frame: "payload_frames st p offset max_inf chaining sent
    = ?frame # payload_frames (next_tx_block st) p ?next max_inf chaining sent"
    using less.prems(2) by (subst payload_frames.simps) (simp add: next_iso_dep_i_frame_def Let_def)
  have head: "received st' (?frame # fs) = (take ?n (drop offset p), tx_block_number st, ?next < length p \<or> chaining) # received st' fs" for fs
    using i_block_parsed [OF less.prems(1,3)] by simp
  show ?case
  proof (cases "?next < length p")
    case True
    let ?rest = "received st' (payload_frames (next_tx_block st) p ?next max_inf chaining sent)"
    have shorter: "length p - ?next < length p - offset" using less.prems(2) by simp
    have "iso_state_ok (next_tx_block st)" and "state_cid st' = state_cid (next_tx_block st)"
      using less.prems(1,3) by simp_all
    from less.hyps [OF shorter this(1) True this(2)] have "concat (map fst ?rest) = drop ?next p"
      and "alternating (tx_block_number st XOR 1) chaining ?rest" and "?rest \<noteq> []"
      and "\<forall>b \<in> set ?rest. length (fst b) \<le> max max_inf 1"
      by (simp_all add: Let_def)
    moreover have "take ?n (drop offset p) @ drop ?next p = drop offset p"
      by (metis append_take_drop_id drop_drop add.commute)
    ultimately show ?thesis using True unfolding frame head Let_def by simp
  next
    case False
    then have "p \<noteq> []" and "payload_frames (next_tx_block st) p ?next max_inf chaining sent = []"
      using less.prems(2) by (auto simp: next_iso_dep_i_frame_def payload_frames.simps)
    moreover have "take ?n (drop offset p) = drop offset p" using False less.prems(2) by simp
    moreover from False less.prems(2) have "length p - offset \<le> max max_inf 1" by linarith
    ultimately show ?thesis using False less.prems(2) unfolding frame head Let_def by simp
  qed
qed

section \<open>Properties\<close>

text \<open>
  A payload arrives whole: the blocks into which it is cut for a chained transfer parse back to blocks
  whose contents make up the payload, whose numbers alternate, of which all but the last ask for more (the
  last does where the caller says so), and which fit the card's frames. An empty payload is one empty block.
\<close>

theorem chained_payload_arrives:
  assumes "iso_state_ok st"
  shows "let blocks = received st (payload_frames st p 0 max_inf chaining False) in
    concat (map fst blocks) = p \<and> alternating (tx_block_number st) chaining blocks \<and> blocks \<noteq> []
    \<and> (\<forall>b \<in> set blocks. length (fst b) \<le> max max_inf 1)"
proof (cases "p = []")
  case True
  have "payload_frames st [] 0 max_inf chaining False
      = [\<lparr>if_frame = build_iso_dep_i_block st [] chaining, if_chaining = chaining\<rparr>]"
    by (subst payload_frames.simps) (simp add: next_iso_dep_i_frame_def payload_frames.simps)
  with True i_block_parsed [OF assms refl] show ?thesis by simp
next
  case False
  with received_frames [OF assms, of 0 p st] show ?thesis by simp
qed

theorem chained_payload_arrives_witness:
  "concat (map fst (received (iso_dep_state_new (Some 2) None)
     (payload_frames (iso_dep_state_new (Some 2) None) [1, 2, 3, 4, 5, 6, 7] 0 3 False False))) = [1, 2, 3, 4, 5, 6, 7]"
  using chained_payload_arrives [of "iso_dep_state_new (Some 2) None" "[1, 2, 3, 4, 5, 6, 7]" 3 False]
  by (simp add: Let_def)

end
