(* ===== verification/Port400_Device.thy ===== *)
theory Port400_Device
  imports Driver_Common Pcsc Iso14443
begin

text \<open>
  The Port-400 as a device (\<open>src/driver/port400/device/mod.rs\<close>): opening and closing, the radio speeds it
  changes and gives back, polling for FeliCa cards, through commands, the detection of Type A, B and V
  cards and the maintenance commands. The last section is the frame by frame activation of Type A and
  Type B cards (\<open>src/driver/port400/device/activation.rs\<close>). The exchange of ISO-DEP blocks is the theory
  Iso_Dep.
\<close>

section \<open>Constants and state\<close>

definition PORT400_PIDS :: "u16 list" where "PORT400_PIDS = [0x0DC8, 0x0DC9, 0x0D8F]"
definition MAX_THROUGH_PAYLOAD :: nat where "MAX_THROUGH_PAYLOAD = 290"
definition DEFAULT_THROUGH_TIMEOUT_MS :: u16 where "DEFAULT_THROUGH_TIMEOUT_MS = 400"
definition TYPE_A_CMD_TIMEOUT_MS :: u16 where "TYPE_A_CMD_TIMEOUT_MS = 30"
definition TYPE_B_CMD_TIMEOUT_MS :: u16 where "TYPE_B_CMD_TIMEOUT_MS = 30"
definition PROPERTY_HARDWARE_VERSION :: u8 where "PROPERTY_HARDWARE_VERSION = 1"
definition PROPERTY_MODEL_ID :: u8 where "PROPERTY_MODEL_ID = 2"
definition PROPERTY_SERIAL_NO :: u8 where "PROPERTY_SERIAL_NO = 3"
definition PROPERTY_GROUP_NO :: u8 where "PROPERTY_GROUP_NO = 8"
definition DIAG_COMMUNICATION_LINE_SIZE_MAX :: nat where "DIAG_COMMUNICATION_LINE_SIZE_MAX = 500"
definition DIAG_POLLING_COUNT_MIN :: u8 where "DIAG_POLLING_COUNT_MIN = 1"
definition FELICA_POLLING_OPTION_NONE :: u8 where "FELICA_POLLING_OPTION_NONE = 0"
definition FELICA_POLLING_OPTION_REQ_BAUDRATE :: u8 where "FELICA_POLLING_OPTION_REQ_BAUDRATE = 2"
definition RF_SPEED_PROTOCOLS :: nat where "RF_SPEED_PROTOCOLS = 3"
definition RF_SPEED_PROTOCOL_TYPE_F :: u8 where "RF_SPEED_PROTOCOL_TYPE_F = 2"
definition RF_SPEED_CODE_424K :: u8 where "RF_SPEED_CODE_424K = 3"
definition RF_SPEED_FIXED_VALUE :: "(u8 \<times> u8) list" where "RF_SPEED_FIXED_VALUE = [(1, 1), (1, 1), (2, 2)]"
definition GROUP_NO_DEVICE_TYPE_OFFSET :: nat where "GROUP_NO_DEVICE_TYPE_OFFSET = 4"
definition MIFARE_KEY_TYPE_A :: u8 where "MIFARE_KEY_TYPE_A = 0x60"
definition MIFARE_KEY_TYPE_B :: u8 where "MIFARE_KEY_TYPE_B = 0x61"

datatype device_type = Internal | External | UnknownDevice

datatype through_protocol = ThroughFelica | Iso14443TypeA | Iso14443TypeB | Iso15693

record 'w port400 = "'w pcsc" +
  meta :: device_metadata
  session_slot :: "iso_dep_session option"
  iso_dep_protocol :: "through_protocol option"
  update_mode :: bool
  session_open :: bool
  original_rf_speed :: "(u8 \<times> u8) option list"
  type_f_rf_speed :: "u8 option"
  device_type_of :: device_type
  serial_number :: "string option"
  firmware_version_text :: "string option"

type_synonym ('w, 'a) port400_op = "('w port400, 'a) driver_op"

section \<open>Through commands\<close>

record through_options =
  to_protocol :: through_protocol
  to_append_crc :: "bool option"
  to_discard_crc :: "bool option"
  to_insert_parity :: "bool option"
  to_expect_parity :: "bool option"
  to_append_protocol_prologue :: "bool option"
  to_tx_valid_bits :: "u8 option"

definition through_options_default :: through_options where
  "through_options_default = \<lparr>to_protocol = ThroughFelica, to_append_crc = None, to_discard_crc = None,
     to_insert_parity = None, to_expect_parity = None, to_append_protocol_prologue = None, to_tx_valid_bits = None\<rparr>"

fun protocol_flags :: "through_protocol \<Rightarrow> transmission_flags" where
  "protocol_flags ThroughFelica = flags_felica"
| "protocol_flags Iso14443TypeA = flags_iso14443_type_a"
| "protocol_flags Iso14443TypeB = flags_iso14443_type_b"
| "protocol_flags Iso15693 = flags_iso15693"

definition iso_dep_flags :: "through_protocol \<Rightarrow> transmission_flags" where
  "iso_dep_flags p = (if p = Iso14443TypeB then flags_iso14443_type_b else flags_iso14443_type_a)"

definition or_keep :: "'a option \<Rightarrow> 'a \<Rightarrow> 'a" where
  "or_keep opt x = (case opt of Some y \<Rightarrow> y | None \<Rightarrow> x)"

definition through_flags :: "through_options \<Rightarrow> transmission_flags" where
  "through_flags opts =
     (let f = protocol_flags (to_protocol opts) in
      \<lparr>append_crc = or_keep (to_append_crc opts) (append_crc f),
       discard_crc = or_keep (to_discard_crc opts) (discard_crc f),
       insert_parity = or_keep (to_insert_parity opts) (insert_parity f),
       expect_parity = or_keep (to_expect_parity opts) (expect_parity f),
       append_protocol_prologue = or_keep (to_append_protocol_prologue opts) (append_protocol_prologue f),
       tx_valid_bits = (case to_tx_valid_bits opts of Some bits \<Rightarrow> Some bits | None \<Rightarrow> tx_valid_bits f)\<rparr>)"

definition through_timeout :: "u16 option \<Rightarrow> nat" where
  "through_timeout t = millis (unat (or_keep t DEFAULT_THROUGH_TIMEOUT_MS))"

definition ensure_through_command :: "bytes \<Rightarrow> driver_error + unit" where
  "ensure_through_command data =
     (if data = [] then driver_other ''through command is empty''
      else if length data > MAX_THROUGH_PAYLOAD then
        driver_other (''through command is '' @ dec (length data) @ '' bytes, the maximum is '' @ dec MAX_THROUGH_PAYLOAD)
      else Inr ())"

definition device_transceive400 :: "'w transport \<Rightarrow> bytes \<Rightarrow> u16 option \<Rightarrow> ('w, bytes) port400_op" where
  "device_transceive400 T data timeout_ms =
     bindD (liftD (ensure_through_command data)) (\<lambda>_.
     pcsc_transceive T data (through_timeout timeout_ms) flags_felica)"

definition communicate_thru :: "'w transport \<Rightarrow> bytes \<Rightarrow> u16 option \<Rightarrow> through_options option \<Rightarrow> ('w, bytes) port400_op" where
  "communicate_thru T data timeout_ms options =
     bindD (liftD (ensure_through_command data)) (\<lambda>_.
     pcsc_transceive T data (through_timeout timeout_ms) (through_flags (or_keep options through_options_default)))"

section \<open>ISO-DEP sessions\<close>

definition start_iso_dep_session :: "through_protocol \<Rightarrow> iso_dep_config \<Rightarrow> ('w, unit) port400_op" where
  "start_iso_dep_session p cfg =
     modifyD (\<lambda>c. c\<lparr>session_slot := Some (iso_dep_session_new cfg), iso_dep_protocol := Some p\<rparr>)"

definition reset_iso_dep_session :: "('w, unit) port400_op" where
  "reset_iso_dep_session = (\<lambda>c.
     case session_slot c of
       Some s \<Rightarrow> Some (Inr (), c\<lparr>session_slot := Some (session_reset s)\<rparr>)
     | None \<Rightarrow> Some (driver_other ''ISO-DEP session is not active'', c))"

definition end_iso_dep_session :: "('w, unit) port400_op" where
  "end_iso_dep_session = modifyD (\<lambda>c. c\<lparr>session_slot := None, iso_dep_protocol := None\<rparr>)"

definition iso_dep_protocol_or_default :: "('w, through_protocol) port400_op" where
  "iso_dep_protocol_or_default = readD (\<lambda>c. or_keep (iso_dep_protocol c) Iso14443TypeA)"

definition take_iso_dep_session :: "('w, iso_dep_session) port400_op" where
  "take_iso_dep_session = (\<lambda>c.
     Some (ok_or (session_slot c) (Other ''ISO-DEP session is not active''), c\<lparr>session_slot := None\<rparr>))"

section \<open>Radio speeds\<close>

text \<open>\<open>without_transparent_session\<close>: the reader takes speed commands only outside a session.\<close>

definition without_transparent_session :: "'w transport \<Rightarrow> ('w, 'a) port400_op \<Rightarrow> ('w, 'a) port400_op" where
  "without_transparent_session T f =
     bindD (readD session_open) (\<lambda>open.
     if \<not> open then f
     else
       bindD (end_transparent_session T) (\<lambda>_.
       bindD (modifyD (\<lambda>c. c\<lparr>session_open := False\<rparr>)) (\<lambda>_.
       catchD f (\<lambda>result.
       bindD (start_transparent_session T False) (\<lambda>_.
       bindD (modifyD (\<lambda>c. c\<lparr>session_open := True\<rparr>)) (\<lambda>_.
       bindD (switch_protocol_type_f T False) (\<lambda>_.
       bindD end_iso_dep_session (\<lambda>_.
       liftD result))))))))"

definition device_set_rf_speed :: "'w transport \<Rightarrow> u8 \<Rightarrow> u8 \<Rightarrow> u8 \<Rightarrow> ('w, unit) port400_op" where
  "device_set_rf_speed T protocol rw_to_card card_to_rw =
     bindD (without_transparent_session T (set_rf_speed T protocol rw_to_card card_to_rw)) (\<lambda>_.
     modifyD (\<lambda>c. if protocol = RF_SPEED_PROTOCOL_TYPE_F
                  then c\<lparr>type_f_rf_speed := if rw_to_card = card_to_rw then Some rw_to_card else None\<rparr> else c))"

definition device_get_rf_speed :: "'w transport \<Rightarrow> u8 \<Rightarrow> ('w, bytes) port400_op" where
  "device_get_rf_speed T protocol = without_transparent_session T (get_rf_speed T protocol)"

definition note_speed :: "nat \<Rightarrow> (u8 \<times> u8) option \<Rightarrow> ('w, unit) port400_op" where
  "note_speed slot speed = modifyD (\<lambda>c. c\<lparr>original_rf_speed := (original_rf_speed c)[slot := speed]\<rparr>)"

definition pin_rf_speed :: "'w transport \<Rightarrow> u8 \<Rightarrow> u8 \<Rightarrow> u8 \<Rightarrow> ('w, unit) port400_op" where
  "pin_rf_speed T protocol rw_to_card card_to_rw =
     bindD (readD (\<lambda>c. original_rf_speed c ! unat protocol)) (\<lambda>known.
     bindD (if known = None then
              bindD (device_get_rf_speed T protocol) (\<lambda>current.
                case current of
                  before_rw # before_cr # _ \<Rightarrow> note_speed (unat protocol) (Some (before_rw, before_cr))
                | _ \<Rightarrow> liftD (driver_other ''reader reported a malformed RF speed''))
            else liftD (Inr ())) (\<lambda>_.
     device_set_rf_speed T protocol rw_to_card card_to_rw))"

fun pin_speeds :: "'w transport \<Rightarrow> nat \<Rightarrow> (u8 \<times> u8) list \<Rightarrow> ('w, unit) port400_op" where
  "pin_speeds T protocol [] = liftD (Inr ())"
| "pin_speeds T protocol ((rw, cr) # fixed) =
     bindD (catchD (pin_rf_speed T (u8_of protocol) rw cr) (\<lambda>r. case r of
         Inl _ \<Rightarrow> note_speed protocol None
       | Inr _ \<Rightarrow> liftD (Inr ()))) (\<lambda>_.
     pin_speeds T (protocol + 1) fixed)"

definition set_fixed_rf_speed :: "'w transport \<Rightarrow> ('w, unit) port400_op" where
  "set_fixed_rf_speed T = pin_speeds T 0 RF_SPEED_FIXED_VALUE"

fun restore_speeds :: "'w transport \<Rightarrow> nat list \<Rightarrow> ('w, unit) port400_op" where
  "restore_speeds T [] = liftD (Inr ())"
| "restore_speeds T (protocol # protocols) =
     bindD (readD (\<lambda>c. original_rf_speed c ! protocol)) (\<lambda>original.
     bindD (note_speed protocol None) (\<lambda>_.
     bindD (case original of
         Some (rw, cr) \<Rightarrow> catchD (device_set_rf_speed T (u8_of protocol) rw cr) (\<lambda>_. liftD (Inr ()))
       | None \<Rightarrow> liftD (Inr ())) (\<lambda>_.
     restore_speeds T protocols)))"

definition reset_rf_speed :: "'w transport \<Rightarrow> ('w, unit) port400_op" where
  "reset_rf_speed T = restore_speeds T [0..<RF_SPEED_PROTOCOLS]"

definition ensure_type_f_rf_speed :: "'w transport \<Rightarrow> u8 \<Rightarrow> ('w, unit) port400_op" where
  "ensure_type_f_rf_speed T speed_code =
     (let slot = unat RF_SPEED_PROTOCOL_TYPE_F in
      bindD (readD type_f_rf_speed) (\<lambda>current_speed.
      if current_speed = Some speed_code then liftD (Inr ())
      else
        bindD (readD (\<lambda>c. original_rf_speed c ! slot)) (\<lambda>known.
        if known = None then
          bindD (device_get_rf_speed T RF_SPEED_PROTOCOL_TYPE_F) (\<lambda>current.
            case current of
              rw_to_card # card_to_rw # _ \<Rightarrow>
                if rw_to_card = speed_code \<and> card_to_rw = speed_code
                then modifyD (\<lambda>c. c\<lparr>type_f_rf_speed := Some speed_code\<rparr>)
                else bindD (note_speed slot (Some (rw_to_card, card_to_rw))) (\<lambda>_.
                     device_set_rf_speed T RF_SPEED_PROTOCOL_TYPE_F speed_code speed_code)
            | _ \<Rightarrow> liftD (driver_other ''reader reported a malformed Type-F RF speed''))
        else device_set_rf_speed T RF_SPEED_PROTOCOL_TYPE_F speed_code speed_code)))"

section \<open>Opening and closing\<close>

definition is_firmware_update_state_normal :: "bytes \<Rightarrow> bool" where
  "is_firmware_update_state_normal version \<longleftrightarrow> slice_opt version 14 16 = Some [0xFF, 0xFF]"

definition format_firmware :: "bytes \<Rightarrow> string option" where
  "format_firmware bs =
     (if length bs < 4 then None
      else Some (''v'' @ hex2 (bs ! 0) @ ''.'' @ hex2 (bs ! 1) @ ''.'' @ hex2 (bs ! 2) @ ''.'' @ hex2 (bs ! 3)))"

definition device_type_from_group_number :: "bytes \<Rightarrow> device_type" where
  "device_type_from_group_number number =
     (case nth_opt number GROUP_NO_DEVICE_TYPE_OFFSET of
        Some b \<Rightarrow> if b = 1 then Internal else if b = 2 then External else UnknownDevice
      | None \<Rightarrow> UnknownDevice)"

text \<open>\<open>byte as char\<close>, in UTF-8.\<close>

definition latin1_char :: "u8 \<Rightarrow> string" where
  "latin1_char b =
     (if b < 0x80 then [char_of (unat b)]
      else [char_of (unat (0xC0 OR drop_bit 6 b)), char_of (unat (0x80 OR (b AND 0x3F)))])"

text \<open>The state before \<open>new\<close> has learned anything of the reader.\<close>

definition port400_initial :: "'w transport \<Rightarrow> 'w \<Rightarrow> 'w port400" where
  "port400_initial T w = pcsc.extend (pcsc_new w)
     \<lparr>meta = \<lparr>dm_vendor_name = manufacturer_name T w, dm_product_name = product_name T w, dm_chipset_name = []\<rparr>,
      session_slot = None, iso_dep_protocol = None, update_mode = False, session_open = False,
      original_rf_speed = replicate RF_SPEED_PROTOCOLS None, type_f_rf_speed = None,
      device_type_of = UnknownDevice, serial_number = None, firmware_version_text = None\<rparr>"

definition port400_setup :: "'w transport \<Rightarrow> ('w, unit) port400_op" where
  "port400_setup T =
     bindD (set_receive_timeout (millis 1500)) (\<lambda>_.
     bindD (pcsc_get_firmware_version T) (\<lambda>version.
     let update = \<not> is_firmware_update_state_normal version;
         fw = format_firmware version;
         chipset = (case fw of Some t \<Rightarrow> ''NFC Port-400 '' @ t | None \<Rightarrow> ''NFC Port-400'') in
     bindD (modifyD (\<lambda>c. c\<lparr>update_mode := update, firmware_version_text := fw, meta := (meta c)\<lparr>dm_chipset_name := chipset\<rparr>\<rparr>)) (\<lambda>_.
     if update then liftD (Inr ())
     else
       bindD (start_transparent_session T True) (\<lambda>_.
       bindD (modifyD (\<lambda>c. c\<lparr>session_open := True\<rparr>)) (\<lambda>_.
       bindD (switch_protocol_type_f T False) (\<lambda>_.
       bindD (catchD (pcsc_get_property T PROPERTY_GROUP_NO) (\<lambda>r.
         modifyD (\<lambda>c. c\<lparr>device_type_of := case r of Inr number \<Rightarrow> device_type_from_group_number number | Inl _ \<Rightarrow> UnknownDevice\<rparr>))) (\<lambda>_.
       bindD (catchD (pcsc_get_property T PROPERTY_SERIAL_NO) (\<lambda>r.
         modifyD (\<lambda>c. c\<lparr>serial_number := case r of Inr bs \<Rightarrow> Some (concat (map latin1_char bs)) | Inl _ \<Rightarrow> None\<rparr>))) (\<lambda>_.
       catchD (card_baudrate T) (\<lambda>_. liftD (Inr ())))))))))) "

definition port400_new :: "'w transport \<Rightarrow> 'w \<Rightarrow> ((driver_error + unit) \<times> 'w port400) option" where
  "port400_new T w = port400_setup T (port400_initial T w)"

definition release_reader :: "'w transport \<Rightarrow> ('w, unit) port400_op" where
  "release_reader T =
     bindD (readD session_open) (\<lambda>open.
     bindD (if open then catchD (end_transparent_session T) (\<lambda>_. modifyD (\<lambda>c. c\<lparr>session_open := False\<rparr>))
            else liftD (Inr ())) (\<lambda>_.
     reset_rf_speed T))"

definition device_close400 :: "'w transport \<Rightarrow> ('w, unit) port400_op" where
  "device_close400 T = bindD (release_reader T) (\<lambda>_. pcsc_close T)"

definition device_switch_rf400 :: "'w transport \<Rightarrow> bool \<Rightarrow> ('w, unit) port400_op" where
  "device_switch_rf400 T on = (if on then turn_on_rf T else turn_off_rf T)"

definition start_rffe_mode :: "'w transport \<Rightarrow> ('w, unit) port400_op" where
  "start_rffe_mode T = bindD (start_rffe_parameter_mode T) (\<lambda>_. modifyD (\<lambda>c. c\<lparr>session_open := False\<rparr>))"

definition end_rffe_mode :: "'w transport \<Rightarrow> ('w, unit) port400_op" where
  "end_rffe_mode T = bindD (end_rffe_parameter_mode T) (\<lambda>_. modifyD (\<lambda>c. c\<lparr>session_open := True\<rparr>))"

section \<open>MIFARE authentication\<close>

datatype mifare_key_type = MifareA | MifareB

fun mifare_key_code :: "mifare_key_type \<Rightarrow> u8" where
  "mifare_key_code MifareA = MIFARE_KEY_TYPE_A"
| "mifare_key_code MifareB = MIFARE_KEY_TYPE_B"

record mifare_authentication =
  ma_key :: bytes
  ma_key_type :: mifare_key_type
  ma_block_number :: u8
  ma_uid :: bytes

definition mifare_authenticate :: "'w transport \<Rightarrow> mifare_authentication \<Rightarrow> ('w, unit) port400_op" where
  "mifare_authenticate T auth =
     (if ma_uid auth = [] then liftD (driver_other ''MIFARE authentication requires the card's UID'')
      else
        bindD (load_keys T (ma_key auth)) (\<lambda>_.
        general_authenticate T (ma_block_number auth) (mifare_key_code (ma_key_type auth))))"

section \<open>FeliCa cards\<close>

definition set_type_f_auto_baud :: "'w transport \<Rightarrow> bool \<Rightarrow> ('w, unit) port400_op" where
  "set_type_f_auto_baud T auto_baud = switch_protocol_type_f T auto_baud"

definition detect_type_f400 ::
    "'w transport \<Rightarrow> (response \<Rightarrow> string) \<Rightarrow> remote_target \<Rightarrow> u16 \<Rightarrow> u8 \<Rightarrow> u8 \<Rightarrow> ('w, type3_tag_polling_result) port400_op" where
  "detect_type_f400 T debug_response target system_code request_code time_slots =
     (let rate = remote_bitrate target in
      if rate \<noteq> ''212F'' \<and> rate \<noteq> ''424F'' then liftD (Inl (DriverUnsupported (''unsupported bitrate '' @ rate)))
      else
        let auto_baud = (rate = ''424F'') in
        bindD (if auto_baud then ensure_type_f_rf_speed T RF_SPEED_CODE_424K else liftD (Inr ())) (\<lambda>_.
        bindD (set_type_f_auto_baud T False) (\<lambda>_.
        let request_code = (if auto_baud \<and> request_code = FELICA_POLLING_OPTION_NONE
                            then FELICA_POLLING_OPTION_REQ_BAUDRATE else request_code) in
        bindD (liftD (sensf_req system_code request_code time_slots)) (\<lambda>frame.
        bindD (pcsc_transceive T frame (millis (unat (polling_timeout_ms time_slots))) flags_felica) (\<lambda>answer.
        bindD (liftD (parse_sensf_res debug_response answer)) (\<lambda>result.
        bindD (if auto_baud then set_type_f_auto_baud T True else liftD (Inr ())) (\<lambda>_.
        catchD (card_baudrate T) (\<lambda>_.
        liftD (Inr result)))))))))"

section \<open>Type A, Type B and Type V cards\<close>

record type_b_detect_options =
  tbo_iso_dep :: "iso_dep_config option"
  tbo_afi :: "u8 option"
  tbo_param :: "u8 option"

text \<open>An ATS that cannot be applied is logged; what of it was applied stays.\<close>

definition apply_ats_config :: "bytes \<Rightarrow> iso_dep_config \<Rightarrow> iso_dep_config" where
  "apply_ats_config ats cfg = (case apply_ats ats cfg of Some (_, cfg') \<Rightarrow> cfg' | None \<Rightarrow> cfg)"

definition apply_type_b_protocol_details :: "bytes \<Rightarrow> iso_dep_config \<Rightarrow> iso_dep_config" where
  "apply_type_b_protocol_details info cfg =
     (case apply_type_b_protocol_info info cfg of Inr cfg' \<Rightarrow> cfg' | Inl _ \<Rightarrow> cfg)"

definition refresh_card_baudrate :: "'w transport \<Rightarrow> ('w, unit) port400_op" where
  "refresh_card_baudrate T = ignore_result (card_baudrate T)"

definition prepare_type_a_polling :: "'w transport \<Rightarrow> ('w, unit) port400_op" where
  "prepare_type_a_polling T = bindD (switch_protocol_iso14443_3a T) (\<lambda>_. end_iso_dep_session)"

definition enable_type_a_iso_dep :: "'w transport \<Rightarrow> iso_dep_config \<Rightarrow> ('w, unit) port400_op" where
  "enable_type_a_iso_dep T cfg =
     bindD (switch_protocol_iso14443_4a T (fsdi cfg) (cfg_cid cfg) 4) (\<lambda>_.
     catchD (get_historical_bytes T) (\<lambda>r.
     start_iso_dep_session Iso14443TypeA (case r of Inr ats \<Rightarrow> apply_ats_config ats cfg | Inl _ \<Rightarrow> cfg)))"

definition detect_type_a :: "'w transport \<Rightarrow> iso_dep_config option \<Rightarrow> ('w, bytes) port400_op" where
  "detect_type_a T iso_dep =
     bindD (case iso_dep of Some cfg \<Rightarrow> enable_type_a_iso_dep T cfg | None \<Rightarrow> prepare_type_a_polling T) (\<lambda>_.
     bindD (refresh_card_baudrate T) (\<lambda>_.
     get_uid T))"

definition prepare_type_b_link ::
    "'w transport \<Rightarrow> iso_dep_config \<Rightarrow> type_b_detect_options \<Rightarrow> ('w, type_b_info \<times> iso_dep_config) port400_op" where
  "prepare_type_b_link T cfg opts =
     bindD (switch_protocol_iso14443_4b T (fsdi cfg) (cfg_cid cfg) 4) (\<lambda>_.
     bindD (request_type_b_info T (or_keep (tbo_afi opts) 0) (or_keep (tbo_param opts) 0)) (\<lambda>info.
     liftD (Inr (info, apply_type_b_protocol_details (tb_protocol_info info) cfg))))"

definition detect_type_b :: "'w transport \<Rightarrow> type_b_detect_options option \<Rightarrow> ('w, bytes) port400_op" where
  "detect_type_b T options =
     (let opts = or_keep options \<lparr>tbo_iso_dep = None, tbo_afi = None, tbo_param = None\<rparr> in
      bindD (prepare_type_b_link T (or_keep (tbo_iso_dep opts) type_b_defaults) opts) (\<lambda>(info, cfg).
      bindD (start_iso_dep_session Iso14443TypeB cfg) (\<lambda>_.
      bindD (refresh_card_baudrate T) (\<lambda>_.
      liftD (Inr (tb_pupi info))))))"

definition detect_type_v :: "'w transport \<Rightarrow> ('w, bytes) port400_op" where
  "detect_type_v T = bindD (switch_protocol_iso15693 T) (\<lambda>_. get_uid T)"

section \<open>Maintenance\<close>

definition ensure_rffe_category :: "u8 \<Rightarrow> driver_error + unit" where
  "ensure_rffe_category category =
     (if category = RFFE_PARAM_EEPROM \<or> category = RFFE_PARAM_PD_SC_DPC \<or> category = RFFE_PARAM_PROTOCOL_CONFIGURATION
      then Inr () else driver_other (''unsupported RFFE parameter category '' @ dec (unat category)))"

definition device_read_rffe :: "'w transport \<Rightarrow> u8 \<Rightarrow> u8 \<Rightarrow> bytes \<Rightarrow> ('w, bytes) port400_op" where
  "device_read_rffe T category selector data =
     bindD (liftD (ensure_rffe_category category)) (\<lambda>_. read_rffe_parameter T category selector data)"

definition device_write_rffe :: "'w transport \<Rightarrow> u8 \<Rightarrow> u8 \<Rightarrow> bytes \<Rightarrow> ('w, bytes) port400_op" where
  "device_write_rffe T category selector data =
     bindD (liftD (ensure_rffe_category category)) (\<lambda>_. write_rffe_parameter T category selector data)"

definition device_prepare_update :: "'w transport \<Rightarrow> bytes \<Rightarrow> ('w, u8) port400_op" where
  "device_prepare_update T data =
     bindD (prepare_firmware_update T data) (\<lambda>response.
     liftD (ok_or (nth_opt response 0) (Other ''prepareUpdateFirmware returned no status'')))"

definition device_update_firmware :: "'w transport \<Rightarrow> u16 \<Rightarrow> bytes \<Rightarrow> ('w, u16) port400_op" where
  "device_update_firmware T sequence data =
     bindD (update_firmware T sequence data) (\<lambda>response.
     case response of
       low # high # _ \<Rightarrow> liftD (Inr (u16_from_le low high))
     | _ \<Rightarrow> liftD (driver_other ''updateFirmware returned no packet number''))"

definition device_reset400 :: "'w transport \<Rightarrow> u16 \<Rightarrow> ('w, bytes) port400_op" where
  "device_reset400 T delay_ms =
     catchD (pcsc_reset_device T delay_ms) (\<lambda>r.
     bindD (readD update_mode) (\<lambda>update.
     liftD (case r of Inr rsp \<Rightarrow> Inr rsp | Inl e \<Rightarrow> if update then Inr [] else Inl e)))"

datatype diagnose_polling_protocol = DiagFelica | DiagIso18092 | DiagIso14443TypeA | DiagIso14443TypeB | DiagIso15693

fun diagnose_protocol_code :: "diagnose_polling_protocol \<Rightarrow> u8" where
  "diagnose_protocol_code DiagFelica = 0x02"
| "diagnose_protocol_code DiagIso18092 = 0x02"
| "diagnose_protocol_code DiagIso14443TypeA = 0x00"
| "diagnose_protocol_code DiagIso14443TypeB = 0x01"
| "diagnose_protocol_code DiagIso15693 = 0x03"

datatype diagnose_command = DiagnoseLine bytes | DiagnoseRom | DiagnoseRam | DiagnosePolling diagnose_polling_protocol u8

datatype diagnose_result = LineResult bytes | RomResult u8 | RamResult bytes | PollingResult u8

fun self_diagnose :: "'w transport \<Rightarrow> diagnose_command \<Rightarrow> ('w, diagnose_result) port400_op" where
  "self_diagnose T (DiagnoseLine data) =
     (if data = [] \<or> length data > DIAG_COMMUNICATION_LINE_SIZE_MAX then liftD (driver_other ''diagnostic data size is invalid'')
      else bindD (diagnose_communication_line T data) (\<lambda>r. liftD (Inr (LineResult r))))"
| "self_diagnose T DiagnoseRom = bindD (diagnose_rom T) (\<lambda>r. liftD (Inr (RomResult r)))"
| "self_diagnose T DiagnoseRam = bindD (diagnose_ram T) (\<lambda>r. liftD (Inr (RamResult r)))"
| "self_diagnose T (DiagnosePolling p count) =
     (if count < DIAG_POLLING_COUNT_MIN then liftD (driver_other ''diagnostic polling count out of range'')
      else bindD (diagnose_polling T (diagnose_protocol_code p) count) (\<lambda>r. liftD (Inr (PollingResult r))))"

section \<open>Activation frame by frame\<close>

definition data_rate_symbols :: "iso_dep_config \<Rightarrow> u8 \<times> u8" where
  "data_rate_symbols cfg = (min (data_rate_symbol (dr cfg)) 3, min (data_rate_symbol (ds cfg)) 3)"

definition build_speed_code :: "u8 \<Rightarrow> u8 \<Rightarrow> u8" where
  "build_speed_code dri dsi = push_bit 3 (dri AND 0x07) OR (dsi AND 0x07)"

definition apply_comm_speed :: "'w transport \<Rightarrow> u8 \<Rightarrow> u8 \<Rightarrow> ('w, unit) port400_op" where
  "apply_comm_speed T dri dsi =
     (let speed_code = build_speed_code dri dsi in
      if speed_code \<noteq> 0 then set_comm_speed T speed_code else liftD (Inr ()))"

definition send_type_a_frame :: "'w transport \<Rightarrow> bytes \<Rightarrow> u8 option \<Rightarrow> bool \<Rightarrow> bool \<Rightarrow> ('w, bytes) port400_op" where
  "send_type_a_frame T p tx_bits crc_out crc_in =
     communicate_thru T p (Some TYPE_A_CMD_TIMEOUT_MS)
       (Some \<lparr>to_protocol = Iso14443TypeA, to_append_crc = Some crc_out, to_discard_crc = Some crc_in,
          to_insert_parity = Some True, to_expect_parity = Some True, to_append_protocol_prologue = Some False,
          to_tx_valid_bits = tx_bits\<rparr>)"

definition send_type_b_frame :: "'w transport \<Rightarrow> bytes \<Rightarrow> bool \<Rightarrow> bool \<Rightarrow> u16 \<Rightarrow> ('w, bytes) port400_op" where
  "send_type_b_frame T p crc_out crc_in timeout_ms =
     communicate_thru T p (Some timeout_ms)
       (Some \<lparr>to_protocol = Iso14443TypeB, to_append_crc = Some crc_out, to_discard_crc = Some crc_in,
          to_insert_parity = Some False, to_expect_parity = Some False, to_append_protocol_prologue = Some False,
          to_tx_valid_bits = None\<rparr>)"

definition validate_bcc :: "bytes \<Rightarrow> u8 \<Rightarrow> driver_error + unit" where
  "validate_bcc block bcc = (if bcc = fold (XOR) block 0 then Inr () else driver_other ''UID BCC mismatch'')"

definition next_cascade_code :: "u8 \<Rightarrow> driver_error + u8" where
  "next_cascade_code sel_code =
     (if sel_code = 0x93 then Inr 0x95 else if sel_code = 0x95 then Inr 0x97
      else driver_other ''unsupported Type-A cascade level'')"

definition append_uid_block :: "bytes \<Rightarrow> bytes \<Rightarrow> bytes" where
  "append_uid_block uid block =
     (if nth_opt block 0 = Some 0x88 \<and> length block \<ge> 4 then uid @ take 3 (drop 1 block) else uid @ block)"

definition send_type_a_select :: "'w transport \<Rightarrow> u8 \<Rightarrow> bytes \<Rightarrow> ('w, u8) port400_op" where
  "send_type_a_select T sel_code anticollision =
     bindD (send_type_a_frame T ([sel_code, 0x70] @ take 5 anticollision) None True True) (\<lambda>sak_resp.
     liftD (ok_or (nth_opt sak_resp 0) (Other ''missing SAK'')))"

text \<open>One level of the loop: the UID block of the level and the SAK.\<close>

definition cascade_level :: "'w transport \<Rightarrow> u8 \<Rightarrow> ('w, bytes \<times> u8) port400_op" where
  "cascade_level T sel_code =
     bindD (send_type_a_frame T [sel_code, 0x20] None False False) (\<lambda>anticollision.
     if length anticollision < 5 then liftD (driver_other ''invalid anticollision response'')
     else
       let uid_block = take 4 anticollision; bcc = anticollision ! 4 in
       bindD (liftD (validate_bcc uid_block bcc)) (\<lambda>_.
       bindD (send_type_a_select T sel_code anticollision) (\<lambda>sak.
       liftD (Inr (uid_block, sak)))))"

text \<open>
  The loop over the cascade levels. Its code runs from \<open>93\<close> over \<open>95\<close> to \<open>97\<close>, behind which
  \<open>next_cascade_code\<close> fails; \<open>n\<close> counts the levels that are left, one more than the loop can take.
\<close>

fun anticollision_loop :: "'w transport \<Rightarrow> nat \<Rightarrow> u8 \<Rightarrow> bytes \<Rightarrow> ('w, bytes \<times> u8) port400_op" where
  "anticollision_loop T 0 sel_code uid = liftD (driver_other ''unsupported Type-A cascade level'')"
| "anticollision_loop T (Suc n) sel_code uid =
     bindD (cascade_level T sel_code) (\<lambda>(uid_block, sak).
     let uid = append_uid_block uid uid_block in
     if sak AND 0x04 = 0 then liftD (Inr (uid, sak))
     else bindD (liftD (next_cascade_code sel_code)) (\<lambda>code. anticollision_loop T n code []))"

definition perform_type_a_anticollision :: "'w transport \<Rightarrow> ('w, bytes \<times> u8) port400_op" where
  "perform_type_a_anticollision T = anticollision_loop T 4 0x93 []"

definition send_type_a_pps :: "'w transport \<Rightarrow> iso_dep_config \<Rightarrow> ('w, unit) port400_op" where
  "send_type_a_pps T cfg =
     (let (dri, dsi) = data_rate_symbols cfg in
      if dri = 0 \<and> dsi = 0 then liftD (Inr ())
      else
        let ppss = 0xD0 OR (cfg_cid cfg AND 0x0F);
            pps1 = push_bit 2 (dsi AND 0x03) OR (dri AND 0x03) in
        bindD (send_type_a_frame T [ppss, 0x11, pps1] None True True) (\<lambda>response.
        if nth_opt response 0 \<noteq> Some ppss then liftD (driver_other ''PPS response mismatch'')
        else apply_comm_speed T dri dsi))"

record type_a_card_info =
  ta_atqa :: bytes
  ta_sak :: u8
  ta_uid :: bytes
  ta_ats :: bytes
  ta_config :: iso_dep_config

definition detect_type_a_low_level :: "'w transport \<Rightarrow> ('w, type_a_card_info) port400_op" where
  "detect_type_a_low_level T =
     bindD (prepare_type_a_polling T) (\<lambda>_.
     bindD (send_type_a_frame T [0x26] (Some 7) False False) (\<lambda>atqa.
     if length atqa \<noteq> 2 then liftD (driver_other ''invalid ATQA length'')
     else
       bindD (perform_type_a_anticollision T) (\<lambda>(uid, sak).
       let cfg = type_a_defaults;
           rats_param = push_bit 4 (fsdi cfg AND 0x0F) OR (cfg_cid cfg AND 0x0F) in
       bindD (send_type_a_frame T [0xE0, rats_param] None True True) (\<lambda>ats.
       let cfg = apply_ats_config ats cfg in
       bindD (sleep T (sfgt_duration cfg)) (\<lambda>_.
       bindD (send_type_a_pps T cfg) (\<lambda>_.
       liftD (Inr \<lparr>ta_atqa = atqa, ta_sak = sak, ta_uid = uid, ta_ats = ats, ta_config = cfg\<rparr>)))))))"

record type_b_card_info =
  tbc_pupi :: bytes
  tbc_application_data :: bytes
  tbc_protocol_info :: bytes
  tbc_attrib_response :: bytes

definition build_type_b_attrib_command :: "type_b_info \<Rightarrow> iso_dep_config \<Rightarrow> u8 \<Rightarrow> u8 \<Rightarrow> bytes" where
  "build_type_b_attrib_command info cfg dri dsi =
     (let param2 = push_bit 6 (dsi AND 0x03) OR push_bit 4 (dri AND 0x03) OR (fsdi cfg AND 0x0F);
          param3 = or_keep (nth_opt (tb_protocol_info info) 1) 0x02 AND 0x0F in
      [0x1D] @ tb_pupi info @ [0x00, param2, param3, cfg_cid cfg AND 0x0F])"

definition detect_type_b_low_level :: "'w transport \<Rightarrow> type_b_detect_options option \<Rightarrow> ('w, type_b_card_info) port400_op" where
  "detect_type_b_low_level T options =
     (let opts = or_keep options \<lparr>tbo_iso_dep = None, tbo_afi = None, tbo_param = None\<rparr> in
      bindD (prepare_type_b_link T (or_keep (tbo_iso_dep opts) type_b_defaults) opts) (\<lambda>(info, cfg).
      let (dri, dsi) = data_rate_symbols cfg in
      bindD (send_type_b_frame T (build_type_b_attrib_command info cfg dri dsi) True True TYPE_B_CMD_TIMEOUT_MS) (\<lambda>attrib.
      if attrib = [] then liftD (driver_other ''invalid ATTRIB response'')
      else
        bindD (apply_comm_speed T dri dsi) (\<lambda>_.
        bindD (sleep T (sfgt_duration cfg)) (\<lambda>_.
        liftD (Inr \<lparr>tbc_pupi = tb_pupi info, tbc_application_data = tb_application_data info,
          tbc_protocol_info = tb_protocol_info info, tbc_attrib_response = attrib\<rparr>))))))"

section \<open>The UID of the anticollision\<close>

lemma cascade_level_block: "cascade_level T code c = Some (Inr (block, sak), c') \<Longrightarrow> length block = 4"
  by (auto simp: cascade_level_def bindD_eq_Inr Let_def driver_other_def split: if_splits)

lemma append_first_block: "length block = 4 \<Longrightarrow> length (append_uid_block [] block) \<le> 4"
  by (simp add: append_uid_block_def)

text \<open>Each level starts with an empty UID, so that only the block of the last one is left.\<close>

lemma anticollision_last_level:
  assumes "anticollision_loop T n code [] c = Some (Inr (uid, sak), c')" and "code \<in> {0x93, 0x95, 0x97}"
  shows "\<exists>code block c1. code \<in> {0x93, 0x95, 0x97} \<and> cascade_level T code c1 = Some (Inr (block, sak), c') \<and>
    uid = append_uid_block [] block \<and> sak AND 0x04 = 0"
  using assms
proof (induction n arbitrary: code c)
  case (Suc n)
  from Suc.prems(1) obtain block s c1 where level: "cascade_level T code c = Some (Inr (block, s), c1)"
    and rest: "(if s AND 0x04 = 0 then liftD (Inr (append_uid_block [] block, s))
      else bindD (liftD (next_cascade_code code)) (\<lambda>code. anticollision_loop T n code [])) c1 = Some (Inr (uid, sak), c')"
    by (auto simp: bindD_eq_Inr Let_def)
  show ?case
  proof (cases "s AND 0x04 = 0")
    case True
    with rest level Suc.prems(2) show ?thesis by auto
  next
    case False
    with rest obtain code' where "next_cascade_code code = Inr code'"
      and "anticollision_loop T n code' [] c1 = Some (Inr (uid, sak), c')"
      by (auto simp: bindD_eq_Inr)
    then show ?thesis
      by (intro Suc.IH [of code' c1]) (auto simp: next_cascade_code_def driver_other_def split: if_splits)
  qed
qed (simp add: driver_other_def)

lemma last_level_uid:
  assumes "perform_type_a_anticollision T c = Some (Inr (uid, sak), c')"
  shows "\<exists>code block c1. code \<in> {0x93, 0x95, 0x97} \<and> cascade_level T code c1 = Some (Inr (block, sak), c') \<and>
    uid = append_uid_block [] block \<and> length uid \<le> 4 \<and> sak AND 0x04 = 0"
proof -
  from assms have "anticollision_loop T 4 0x93 [] c = Some (Inr (uid, sak), c')" by (simp only: perform_type_a_anticollision_def)
  from anticollision_last_level [OF this] obtain code block c1 where
    1: "code \<in> {0x93, 0x95, 0x97}" "cascade_level T code c1 = Some (Inr (block, sak), c')" "uid = append_uid_block [] block"
      "sak AND 0x04 = 0" by auto
  with append_first_block [OF cascade_level_block [OF 1(2)]] show ?thesis by (intro exI) simp
qed

text \<open>Three levels are all there can be: a larger bound makes no difference.\<close>

lemma anticollision_step:
  "anticollision_loop T (Suc n) code uid = bindD (cascade_level T code) (\<lambda>(block, s).
     if s AND 0x04 = 0 then liftD (Inr (append_uid_block uid block, s))
     else bindD (liftD (next_cascade_code code)) (\<lambda>code. anticollision_loop T n code []))"
  by (simp add: Let_def)

lemma next_codes:
  "bindD (liftD (next_cascade_code 0x93)) f = f 0x95" "bindD (liftD (next_cascade_code 0x95)) f = f 0x97"
  "bindD (liftD (next_cascade_code 0x97)) f = liftD (driver_other ''unsupported Type-A cascade level'')"
  by (simp_all add: next_cascade_code_def driver_other_def)

lemma anticollision_bound:
  assumes "3 \<le> n"
  shows "anticollision_loop T n 0x93 uid = anticollision_loop T 3 0x93 uid"
proof -
  from assms obtain m where n: "n = Suc (Suc (Suc m))" by (auto simp: numeral_3_eq_3 dest!: le_Suc_ex)
  have last: "anticollision_loop T (Suc m) 0x97 uid' = anticollision_loop T (Suc 0) 0x97 uid'" for uid'
    unfolding anticollision_step next_codes ..
  have middle: "anticollision_loop T (Suc (Suc m)) 0x95 uid' = anticollision_loop T (Suc (Suc 0)) 0x95 uid'" for uid'
    unfolding anticollision_step [of T "Suc m"] anticollision_step [of T "Suc 0"] next_codes last ..
  show ?thesis
    unfolding n numeral_3_eq_3 anticollision_step [of T "Suc (Suc m)"] anticollision_step [of T "Suc (Suc 0)"] next_codes middle ..
qed

section \<open>Answers of the reader\<close>

text \<open>The answer of a reader to a transparent exchange with the data \<open>p\<close>, and what evaluates the layers below.\<close>

definition reader_answer :: "u8 \<Rightarrow> bytes \<Rightarrow> bytes" where
  "reader_answer seq p = [0x83, u8_of (length p + 11), 0, 0, 0, 0, seq, 0, 0, 0, 0xC0, 3, 0x00, 0x90, 0x00, 0x97, 0x82, 0, u8_of (length p)] @ p @ [0x90, 0x00]"

definition scripted_port400 :: "bytes list \<Rightarrow> dummy_transport port400" where
  "scripted_port400 answers = port400_initial dummy (with_reads (map Inr answers))"

lemmas port400_script_simps = script_simps pcsc_transceive_def execute_payload_def transparent_exchange_def
    bit_framing_fields_def send_extended_escape_def escape_def reader_answer_def scripted_port400_def port400_initial_def
    pcsc_new_def pcsc.extend_def SLOT_BUSY_RETRY_COUNT_def escape_once_def next_sequence_def escape_retries.simps
    SEQUENCE_ERROR_RETRY_COUNT_def read_answer_from.simps read_body_def ccid_response_parse_def CCID_HEADER_LEN_def
    CCID_SLOT_NUMBER_def u32_from_le_def u8_of_def without_status_def verify_status_def DEFAULT_RECEIVE_TIMEOUT_def

section \<open>Properties\<close>

text \<open>
  C37. The anticollision ends with the block of the last cascade level: a UID it returns is that block alone
  and has at most four bytes, whatever the levels before it contributed.
\<close>

theorem uid_of_last_level:
  assumes "perform_type_a_anticollision T c = Some (Inr (uid, sak), c')"
  shows "\<exists>code block c1. code \<in> {0x93, 0x95, 0x97} \<and> cascade_level T code c1 = Some (Inr (block, sak), c') \<and>
    uid = append_uid_block [] block \<and> length uid \<le> 4 \<and> sak AND 0x04 = 0"
  by (rule last_level_uid [OF assms])

section \<open>Witnesses\<close>

text \<open>A card with the UID \<open>04 11 22 33 44 55 66\<close>.\<close>

definition demo_cascade :: "dummy_transport port400" where
  "demo_cascade = scripted_port400
     [reader_answer 1 [0x88, 0x04, 0x11, 0x22, 0xBF], reader_answer 2 [0x04],
      reader_answer 3 [0x33, 0x44, 0x55, 0x66, 0x44], reader_answer 4 [0x20]]"

lemma demo_cascade_parsed:
  "parse_transparent_response [0xC0, 3, 0, 0x90, 0, 0x97, 0x82, 0, 5, 0x88, 0x04, 0x11, 0x22, 0xBF]
    = Inr \<lparr>te_payload = [0x88, 0x04, 0x11, 0x22, 0xBF], rf_status = None, valid_bits = None\<rparr>"
  "parse_transparent_response [0xC0, 3, 0, 0x90, 0, 0x97, 0x82, 0, 1, 0x04]
    = Inr \<lparr>te_payload = [0x04], rf_status = None, valid_bits = None\<rparr>"
  "parse_transparent_response [0xC0, 3, 0, 0x90, 0, 0x97, 0x82, 0, 5, 0x33, 0x44, 0x55, 0x66, 0x44]
    = Inr \<lparr>te_payload = [0x33, 0x44, 0x55, 0x66, 0x44], rf_status = None, valid_bits = None\<rparr>"
  "parse_transparent_response [0xC0, 3, 0, 0x90, 0, 0x97, 0x82, 0, 1, 0x20]
    = Inr \<lparr>te_payload = [0x20], rf_status = None, valid_bits = None\<rparr>"
  by code_simp+

lemma two_levels: "anticollision_loop T 4 0x93 uid = anticollision_loop T (Suc (Suc (Suc 0))) 0x93 uid"
  using anticollision_bound [of 4] by (simp only: numeral_3_eq_3) simp

lemma demo_cascade_run:
  "\<exists>c'. perform_type_a_anticollision dummy demo_cascade = Some (Inr ([0x33, 0x44, 0x55, 0x66], 0x20), c')"
  unfolding perform_type_a_anticollision_def two_levels
  by (simp add: demo_cascade_def port400_script_simps demo_cascade_parsed
      cascade_level_def send_type_a_frame_def send_type_a_select_def communicate_thru_def ensure_through_command_def
      through_flags_def flags_iso14443_type_a_def or_keep_def MAX_THROUGH_PAYLOAD_def validate_bcc_def next_cascade_code_def append_uid_block_def)

theorem uid_of_last_level_witness: "\<exists>code block. append_uid_block [] block = [0x33, 0x44, 0x55, 0x66] \<and> code \<in> {0x93, 0x95, 0x97 :: u8}"
  using demo_cascade_run uid_of_last_level by metis

end
