(* ===== verification/Iso_Dep.thy ===== *)
theory Iso_Dep
  imports Port400_Device
begin

text \<open>
  The ISO-DEP exchange of the Port-400, \<open>src/driver/port400/device/iso_dep.rs\<close>: one payload is sent in
  I-blocks, each acknowledged, and the card's answer is collected from its I-blocks, with waiting time
  extensions, frame size requests and retries in between. The block loop may not end (a card may repeat a
  block for ever), so it is a partial function and \<open>None\<close> is an exchange that never returns.
\<close>

section \<open>The state of an exchange\<close>

record exchange_state =
  pcd_payload :: bytes
  ex_chaining :: bool
  tx_offset :: nat
  sent_empty_frame :: bool
  pending_response :: "bytes option"
  aggregated_response :: bytes
  current_frame :: iso_dep_i_frame
  last_frame_chaining :: bool
  ex_base_timeout :: nat
  current_timeout :: nat
  wtx_attempts :: u8
  nak_retries :: int
  max_picc_inf :: nat

definition exchange_state_new :: "iso_dep_session \<Rightarrow> bytes \<Rightarrow> bool \<Rightarrow> driver_error + exchange_state" where
  "exchange_state_new session p chaining =
     (let cfg = ses_config session in
      bindE (ok_or (next_iso_dep_i_frame (ses_state session) p 0 (max_inf_len_pcd cfg) chaining False)
        (Other ''ISO-DEP empty frame generation failed'')) (\<lambda>(frame, offset, sent_empty).
      Inr \<lparr>pcd_payload = p, ex_chaining = chaining, tx_offset = offset, sent_empty_frame = sent_empty,
        pending_response = None, aggregated_response = [], current_frame = frame, last_frame_chaining = if_chaining frame,
        ex_base_timeout = fwt_duration cfg, current_timeout = fwt_duration cfg, wtx_attempts = 0,
        nak_retries = int (unat (max (max_retry_r_nak cfg) 1)), max_picc_inf = max_inf_len_picc cfg\<rparr>))"

definition validate_picc_payload :: "exchange_state \<Rightarrow> bytes \<Rightarrow> driver_error + unit" where
  "validate_picc_payload x p =
     (if length p > max_picc_inf x then driver_other ''ISO-DEP PICC payload exceeds FSC''
      else if length (aggregated_response x) + length p > MAX_THROUGH_PAYLOAD then
        driver_other ''ISO-DEP response exceeds receive buffer''
      else Inr ())"

definition reset_progress :: "exchange_state \<Rightarrow> exchange_state" where
  "reset_progress x = x\<lparr>wtx_attempts := 0, current_timeout := ex_base_timeout x\<rparr>"

definition accumulate_payload :: "bytes \<Rightarrow> exchange_state \<Rightarrow> exchange_state" where
  "accumulate_payload p x = x\<lparr>aggregated_response := aggregated_response x @ p\<rparr>"

definition update_frame :: "iso_dep_i_frame \<Rightarrow> exchange_state \<Rightarrow> exchange_state" where
  "update_frame f x = x\<lparr>last_frame_chaining := if_chaining f, current_frame := f\<rparr>"

definition schedule_pending :: "bytes \<Rightarrow> exchange_state \<Rightarrow> exchange_state" where
  "schedule_pending bs x = x\<lparr>pending_response := Some bs\<rparr>"

definition retry_after_nak :: "exchange_state \<Rightarrow> driver_error + exchange_state" where
  "retry_after_nak x =
     (if nak_retries x = 0 then driver_other ''ISO-DEP retry limit reached''
      else Inr (x\<lparr>nak_retries := nak_retries x - 1\<rparr>))"

definition record_wtx_attempt :: "u8 \<Rightarrow> exchange_state \<Rightarrow> (driver_error + unit) \<times> exchange_state" where
  "record_wtx_attempt max_attempts x =
     (let n = saturating_inc (wtx_attempts x); x = x\<lparr>wtx_attempts := n\<rparr> in
      (if n > max_attempts then driver_other ''ISO-DEP WTX retry limit reached'' else Inr (), x))"

text \<open>The device, the session that was taken out of it and the state of the exchange.\<close>

record 'w exchange =
  ex_device :: "'w port400"
  ex_session :: iso_dep_session
  ex_state :: exchange_state

type_synonym ('w, 'a) exchange_op = "('w exchange, 'a) driver_op"

definition on_device :: "('w, 'a) port400_op \<Rightarrow> ('w, 'a) exchange_op" where
  "on_device m e = (case m (ex_device e) of None \<Rightarrow> None | Some (r, c) \<Rightarrow> Some (r, e\<lparr>ex_device := c\<rparr>))"

definition modify_state :: "(exchange_state \<Rightarrow> exchange_state) \<Rightarrow> ('w, unit) exchange_op" where
  "modify_state f = modifyD (\<lambda>e. e\<lparr>ex_state := f (ex_state e)\<rparr>)"

definition modify_session :: "(iso_dep_session \<Rightarrow> iso_dep_session) \<Rightarrow> ('w, unit) exchange_op" where
  "modify_session f = modifyD (\<lambda>e. e\<lparr>ex_session := f (ex_session e)\<rparr>)"

definition session_state :: "('w, iso_dep_state) exchange_op" where
  "session_state = readD (\<lambda>e. ses_state (ex_session e))"

section \<open>Sending blocks\<close>

definition iso_dep_transceive :: "'w transport \<Rightarrow> bytes \<Rightarrow> through_protocol \<Rightarrow> nat \<Rightarrow> ('w, bytes) port400_op" where
  "iso_dep_transceive T frame protocol timeout = pcsc_transceive T frame timeout (iso_dep_flags protocol)"

definition send_s_block_wtx :: "'w transport \<Rightarrow> iso_dep_state \<Rightarrow> u8 \<Rightarrow> through_protocol \<Rightarrow> nat \<Rightarrow> ('w, bytes) port400_op" where
  "send_s_block_wtx T st wtxm protocol timeout =
     iso_dep_transceive T (build_iso_dep_s_block st ISO_DEP_S_WTX True [wtxm]) protocol timeout"

definition send_s_block_ifs :: "'w transport \<Rightarrow> iso_dep_state \<Rightarrow> u8 \<Rightarrow> through_protocol \<Rightarrow> ('w, bytes) port400_op" where
  "send_s_block_ifs T st ifs protocol =
     iso_dep_transceive T (build_iso_dep_s_block st ISO_DEP_S_IFS False [ifs]) protocol (millis 10)"

definition send_s_block_deselect :: "'w transport \<Rightarrow> iso_dep_state \<Rightarrow> through_protocol \<Rightarrow> ('w, bytes) port400_op" where
  "send_s_block_deselect T st protocol =
     iso_dep_transceive T (build_iso_dep_s_block st ISO_DEP_S_DESELECT False []) protocol (millis 10)"

definition send_iso_dep_ack :: "'w transport \<Rightarrow> through_protocol \<Rightarrow> ('w, unit) exchange_op" where
  "send_iso_dep_ack T protocol =
     bindD session_state (\<lambda>st.
     bindD (readD (\<lambda>e. current_timeout (ex_state e))) (\<lambda>t.
     bindD (on_device (iso_dep_transceive T (build_iso_dep_r_block st True) protocol t)) (\<lambda>answer.
     modify_state (schedule_pending answer))))"

definition next_response :: "'w transport \<Rightarrow> through_protocol \<Rightarrow> ('w, bytes) exchange_op" where
  "next_response T protocol =
     bindD (readD ex_state) (\<lambda>x.
     case pending_response x of
       Some bs \<Rightarrow> bindD (modify_state (\<lambda>x. x\<lparr>pending_response := None\<rparr>)) (\<lambda>_. liftD (Inr bs))
     | None \<Rightarrow> on_device (iso_dep_transceive T (if_frame (current_frame x)) protocol (current_timeout x)))"

section \<open>Handling blocks\<close>

datatype iso_dep_outcome = Continue | Finished bytes

definition accept_picc_payload :: "bytes \<Rightarrow> ('w, unit) exchange_op" where
  "accept_picc_payload p =
     bindD (readD ex_state) (\<lambda>x.
     bindD (liftD (validate_picc_payload x p)) (\<lambda>_.
     modify_state (accumulate_payload p)))"

definition take_aggregated :: "('w, bytes) exchange_op" where
  "take_aggregated = (\<lambda>e.
     Some (Inr (aggregated_response (ex_state e)), e\<lparr>ex_state := (ex_state e)\<lparr>aggregated_response := []\<rparr>\<rparr>))"

definition handle_iso_dep_i_block ::
    "'w transport \<Rightarrow> through_protocol \<Rightarrow> u8 \<Rightarrow> bytes \<Rightarrow> bool \<Rightarrow> ('w, iso_dep_outcome) exchange_op" where
  "handle_iso_dep_i_block T protocol number p chaining =
     bindD session_state (\<lambda>st.
     let expected = picc_block_number st in
     if number \<noteq> expected then
       (if number = expected XOR 0x01
        then bindD (send_iso_dep_ack T protocol) (\<lambda>_. liftD (Inr Continue))
        else liftD (driver_other ''ISO-DEP PICC block number mismatch''))
     else
       bindD (accept_picc_payload p) (\<lambda>_.
       bindD (modify_session (\<lambda>s. s\<lparr>ses_state := advance_picc_block (ses_state s)\<rparr>)) (\<lambda>_.
       bindD (modify_state reset_progress) (\<lambda>_.
       if chaining then bindD (send_iso_dep_ack T protocol) (\<lambda>_. liftD (Inr Continue))
       else
         bindD (modify_session (\<lambda>s. s\<lparr>ses_state := next_tx_block (ses_state s)\<rparr>)) (\<lambda>_.
         bindD take_aggregated (\<lambda>data.
         liftD (Inr (Finished data))))))))"

text \<open>\<open>next_frame\<close>: the next frame of the payload, if there is one, and the progress it makes.\<close>

definition next_frame :: "('w, iso_dep_i_frame option) exchange_op" where
  "next_frame = (\<lambda>e.
     let x = ex_state e; s = ex_session e in
     case next_iso_dep_i_frame (ses_state s) (pcd_payload x) (tx_offset x) (max_inf_len_pcd (ses_config s))
         (ex_chaining x) (sent_empty_frame x) of
       None \<Rightarrow> Some (Inr None, e)
     | Some (f, offset, sent_empty) \<Rightarrow>
         Some (Inr (Some f), e\<lparr>ex_state := x\<lparr>tx_offset := offset, sent_empty_frame := sent_empty\<rparr>\<rparr>))"

definition note_nak :: "('w, unit) exchange_op" where
  "note_nak =
     bindD (readD ex_state) (\<lambda>x.
     bindD (liftD (retry_after_nak x)) (\<lambda>x'.
     modify_state (\<lambda>_. x')))"

definition handle_iso_dep_r_block :: "bool \<Rightarrow> u8 \<Rightarrow> ('w, iso_dep_outcome) exchange_op" where
  "handle_iso_dep_r_block ack_block number =
     bindD (modify_state reset_progress) (\<lambda>_.
     bindD session_state (\<lambda>st.
     if number \<noteq> tx_block_number st XOR 0x01 then liftD (driver_other ''ISO-DEP R-Block NR mismatch'')
     else if ack_block then
       bindD (modify_session (\<lambda>s. s\<lparr>ses_state := next_tx_block (ses_state s)\<rparr>)) (\<lambda>_.
       bindD next_frame (\<lambda>frame.
       case frame of
         Some f \<Rightarrow> bindD (modify_state (update_frame f)) (\<lambda>_. liftD (Inr Continue))
       | None \<Rightarrow>
           bindD (readD (\<lambda>e. last_frame_chaining (ex_state e))) (\<lambda>chained.
           liftD (if chained then Inr (Finished []) else driver_other ''ISO-DEP unexpected ACK without pending data''))))
     else
       bindD note_nak (\<lambda>_.
       liftD (Inr Continue))))"

definition note_wtx_attempt :: "('w, unit) exchange_op" where
  "note_wtx_attempt = (\<lambda>e.
     let (r, x) = record_wtx_attempt (max_try_s_wtx (ses_config (ex_session e))) (ex_state e) in
     Some (r, e\<lparr>ex_state := x\<rparr>))"

definition handle_iso_dep_s_block ::
    "'w transport \<Rightarrow> through_protocol \<Rightarrow> u8 \<Rightarrow> bytes \<Rightarrow> ('w, iso_dep_outcome) exchange_op" where
  "handle_iso_dep_s_block T protocol code p =
     (if code = ISO_DEP_S_WTX then
        bindD (liftD (ok_or (nth_opt p 0) (Other ''Invalid WTX block''))) (\<lambda>wtxm.
        bindD note_wtx_attempt (\<lambda>_.
        bindD (modify_state (\<lambda>x. x\<lparr>current_timeout := extend_timeout (ex_base_timeout x) (wtx_multiplier wtxm)\<rparr>)) (\<lambda>_.
        bindD (readD (\<lambda>e. current_timeout (ex_state e))) (\<lambda>timeout.
        bindD session_state (\<lambda>st.
        bindD (on_device (send_s_block_wtx T st wtxm protocol timeout)) (\<lambda>answer.
        bindD (modify_state (schedule_pending answer)) (\<lambda>_.
        liftD (Inr Continue))))))))
      else if code = ISO_DEP_S_IFS then
        bindD (liftD (ok_or (nth_opt p 0) (Other ''Invalid IFS block''))) (\<lambda>new_ifs.
        bindD (modify_session (\<lambda>s. s\<lparr>ses_config := update_pcd_ifs new_ifs (ses_config s), ifs_negotiated := True\<rparr>)) (\<lambda>_.
        bindD session_state (\<lambda>st.
        bindD (on_device (send_s_block_ifs T st new_ifs protocol)) (\<lambda>_.
        liftD (Inr Continue)))))
      else if code = ISO_DEP_S_DESELECT then
        bindD session_state (\<lambda>st.
        bindD (on_device (send_s_block_deselect T st protocol)) (\<lambda>_.
        bindD (on_device end_iso_dep_session) (\<lambda>_.
        liftD (driver_other ''ISO-DEP deselected by PICC''))))
      else liftD (driver_other (''ISO-DEP S-Block '' @ hex2 code @ '' handling not implemented'')))"

definition handle_iso_dep_block ::
    "'w transport \<Rightarrow> through_protocol \<Rightarrow> iso_dep_response \<Rightarrow> ('w, iso_dep_outcome) exchange_op" where
  "handle_iso_dep_block T protocol r =
     (case block_type r of
        IBlock p \<Rightarrow> handle_iso_dep_i_block T protocol (block_number r) p (resp_chaining r)
      | RBlock ack_block \<Rightarrow> handle_iso_dep_r_block ack_block (block_number r)
      | SBlock code p \<Rightarrow> handle_iso_dep_s_block T protocol code p
      | UnknownBlock code \<Rightarrow> liftD (driver_other (''Unknown ISO-DEP block type '' @ hex2 code)))"

text \<open>One turn of the loop.\<close>

definition iso_dep_turn :: "'w transport \<Rightarrow> through_protocol \<Rightarrow> ('w, iso_dep_outcome) exchange_op" where
  "iso_dep_turn T protocol =
     bindD (next_response T protocol) (\<lambda>bs.
     bindD session_state (\<lambda>st.
     bindD (liftD (parse_iso_dep_response st bs)) (\<lambda>r.
     handle_iso_dep_block T protocol r)))"

partial_function (option) run_iso_dep_loop :: "'w transport \<Rightarrow> through_protocol \<Rightarrow> ('w, bytes) exchange_op" where
  "run_iso_dep_loop T protocol e =
     bindD (iso_dep_turn T protocol) (\<lambda>outcome e.
       case outcome of Finished data \<Rightarrow> Some (Inr data, e) | Continue \<Rightarrow> run_iso_dep_loop T protocol e) e"

section \<open>An exchange\<close>

definition ensure_iso_dep_link_parameters :: "'w transport \<Rightarrow> iso_dep_session \<Rightarrow> ('w, iso_dep_session) port400_op" where
  "ensure_iso_dep_link_parameters T session =
     (if \<not> needs_ifs_request session then liftD (Inr session)
      else
        bindD iso_dep_protocol_or_default (\<lambda>protocol.
        let desired_ifs = u8_of (min (max_inf_len_pcd (ses_config session)) 0xFE) in
        bindD (send_s_block_ifs T (ses_state session) desired_ifs protocol) (\<lambda>response.
        bindD (liftD (parse_iso_dep_response (ses_state session) response)) (\<lambda>parsed.
        liftD (if block_type parsed = RBlock True then Inr (session\<lparr>ifs_negotiated := True\<rparr>)
               else driver_other ''unexpected response to S(IFS) request'')))))"

definition iso_dep_exchange :: "'w transport \<Rightarrow> bytes \<Rightarrow> bool \<Rightarrow> ('w, bytes) port400_op" where
  "iso_dep_exchange T p chaining =
     bindD take_iso_dep_session (\<lambda>session.
     bindD (ensure_iso_dep_link_parameters T session) (\<lambda>session.
     bindD iso_dep_protocol_or_default (\<lambda>protocol.
     bindD (liftD (exchange_state_new session p chaining)) (\<lambda>x c.
     case run_iso_dep_loop T protocol \<lparr>ex_device = c, ex_session = session, ex_state = x\<rparr> of
       None \<Rightarrow> None
     | Some (r, e) \<Rightarrow>
         let c = ex_device e in
         Some (r, if iso_dep_protocol c \<noteq> None then c\<lparr>session_slot := Some (ex_session e)\<rparr> else c)))))"

section \<open>A conversation in blocks\<close>

text \<open>
  What the card answers when: each frame is sent with the timeout that stands next to it, and answered. Every
  turn runs through the transparent exchange below.
\<close>

fun conversation :: "'w transport \<Rightarrow> through_protocol \<Rightarrow> 'w port400 \<Rightarrow> (bytes \<times> nat \<times> bytes) list \<Rightarrow> 'w port400 \<Rightarrow> bool" where
  "conversation T pr c [] c' \<longleftrightarrow> c' = c"
| "conversation T pr c ((frame, t, answer) # turns) c' \<longleftrightarrow>
     (\<exists>c1. iso_dep_transceive T frame pr t c = Some (Inr answer, c1) \<and> conversation T pr c1 turns c')"

text \<open>The reader sends its frames; the card acknowledges each but the last, which it answers.\<close>

fun request_turns :: "iso_dep_state \<Rightarrow> nat \<Rightarrow> iso_dep_i_frame list \<Rightarrow> bytes \<Rightarrow> (bytes \<times> nat \<times> bytes) list" where
  "request_turns st t [] answer = []"
| "request_turns st t [f] answer = [(if_frame f, t, answer)]"
| "request_turns st t (f # g # fs) answer =
     (if_frame f, t, build_iso_dep_r_block (st\<lparr>picc_block_number := tx_block_number st XOR 1\<rparr>) True)
       # request_turns (next_tx_block st) t (g # fs) answer"

text \<open>The card sends the further frames of its answer, each for an acknowledgement of the reader.\<close>

fun answer_turns :: "iso_dep_state \<Rightarrow> nat \<Rightarrow> iso_dep_i_frame list \<Rightarrow> (bytes \<times> nat \<times> bytes) list" where
  "answer_turns st t [] = []"
| "answer_turns st t (g # gs) =
     (build_iso_dep_r_block (advance_picc_block st) True, t, if_frame g) # answer_turns (advance_picc_block st) t gs"

lemma payload_frames_Cons:
  assumes "payload_frames st p offset m chaining sent = f # fs"
  obtains chunk offset' sent' where "next_iso_dep_i_frame st p offset m chaining sent = Some (f, offset', sent')"
    and "f = \<lparr>if_frame = build_iso_dep_i_block st chunk (fs \<noteq> [] \<or> chaining), if_chaining = (fs \<noteq> [] \<or> chaining)\<rparr>"
    and "fs = payload_frames (next_tx_block st) p offset' m chaining sent'"
    and "drop offset p = chunk @ drop offset' p" and "length chunk \<le> max m 1" and "fs = [] \<longrightarrow> drop offset' p = []"
proof -
  obtain offset' sent' where nxt: "next_iso_dep_i_frame st p offset m chaining sent = Some (f, offset', sent')"
    and fs: "fs = payload_frames (next_tx_block st) p offset' m chaining sent'"
    using assms by (subst (asm) payload_frames.simps) (auto split: option.splits)
  show thesis
  proof (cases "offset < length p")
    case True
    let ?n = "min (length p - offset) (max m 1)"
    from nxt True have f: "f = \<lparr>if_frame = build_iso_dep_i_block st (take ?n (drop offset p)) (offset' < length p \<or> chaining),
        if_chaining = (offset' < length p \<or> chaining)\<rparr>" and offset': "offset' = offset + ?n" and sent': "sent' = sent"
      by (auto simp: next_iso_dep_i_frame_def Let_def)
    have more: "fs \<noteq> [] \<longleftrightarrow> offset' < length p"
      unfolding fs by (subst payload_frames.simps) (use True in \<open>auto simp: next_iso_dep_i_frame_def Let_def split: option.splits\<close>)
    have "drop offset p = take ?n (drop offset p) @ drop offset' p"
      unfolding offset' by (metis add.commute append_take_drop_id drop_drop)
    with f more nxt fs show thesis by (intro that [of offset' sent' "take ?n (drop offset p)"]) auto
  next
    case False
    with nxt have p: "p = []" "f = \<lparr>if_frame = build_iso_dep_i_block st [] chaining, if_chaining = chaining\<rparr>" "sent' = True"
      by (auto simp: next_iso_dep_i_frame_def split: if_splits)
    then have "fs = []"
      unfolding fs by (subst payload_frames.simps) (simp add: next_iso_dep_i_frame_def)
    with p nxt fs show thesis by (intro that [of offset' sent' "[]"]) auto
  qed
qed

text \<open>The loop, turn by turn.\<close>

lemma loop_continues: "iso_dep_turn T pr e = Some (Inr Continue, e') \<Longrightarrow> run_iso_dep_loop T pr e = run_iso_dep_loop T pr e'"
  by (subst run_iso_dep_loop.simps) (simp add: bindD_Inr)

lemma loop_finished: "iso_dep_turn T pr e = Some (Inr (Finished data), e') \<Longrightarrow> run_iso_dep_loop T pr e = Some (Inr data, e')"
  by (subst run_iso_dep_loop.simps) (simp add: bindD_Inr)

lemma turn_pending:
  assumes "pending_response (ex_state e) = Some a" and "parse_iso_dep_response (ses_state (ex_session e)) a = Inr r"
  shows "iso_dep_turn T pr e = handle_iso_dep_block T pr r (e\<lparr>ex_state := (ex_state e)\<lparr>pending_response := None\<rparr>\<rparr>)"
  using assms by (simp add: iso_dep_turn_def next_response_def modify_state_def session_state_def bindD_def)

text \<open>Sending the current frame is having its answer pending.\<close>

lemma sent_is_pending:
  assumes "pending_response (ex_state e) = None"
    and "iso_dep_transceive T (if_frame (current_frame (ex_state e))) pr (current_timeout (ex_state e)) (ex_device e) = Some (Inr a, c1)"
  shows "run_iso_dep_loop T pr e = run_iso_dep_loop T pr (e\<lparr>ex_device := c1, ex_state := schedule_pending a (ex_state e)\<rparr>)"
proof -
  have same: "(ex_state e)\<lparr>pending_response := None\<rparr> = ex_state e" using assms(1) by (cases "ex_state e") simp
  have "iso_dep_turn T pr e = iso_dep_turn T pr (e\<lparr>ex_device := c1, ex_state := schedule_pending a (ex_state e)\<rparr>)"
    using assms by (simp add: iso_dep_turn_def next_response_def on_device_def schedule_pending_def modify_state_def
        session_state_def bindD_def same)
  then show ?thesis by (subst (1 2) run_iso_dep_loop.simps) (simp add: bindD_def)
qed

lemma iso_state_ok_next: "iso_state_ok st \<Longrightarrow> iso_state_ok (next_tx_block st)"
  "iso_state_ok st \<Longrightarrow> iso_state_ok (advance_picc_block st)"
  by (auto simp: iso_state_ok_def next_tx_block_def advance_picc_block_def)

lemma state_cid_next [simp]: "state_cid (next_tx_block st) = state_cid st" "state_cid (advance_picc_block st) = state_cid st"
  "state_cid (st\<lparr>picc_block_number := n\<rparr>) = state_cid st"
  by (simp_all add: state_cid_def next_tx_block_def advance_picc_block_def)

lemma block_numbers_next [simp]: "picc_block_number (next_tx_block st) = picc_block_number st"
  "tx_block_number (next_tx_block st) = tx_block_number st XOR 1"
  "picc_block_number (advance_picc_block st) = picc_block_number st XOR 1"
  by (simp_all add: next_tx_block_def advance_picc_block_def)

lemma next_tx_block_funpow: "picc_block_number ((next_tx_block ^^ n) st) = picc_block_number st \<and> state_cid ((next_tx_block ^^ n) st) = state_cid st"
  by (induction n) simp_all

lemma request_phase:
  assumes "conversation T pr c (request_turns st t (f # fs) a @ rest) c2" and "iso_state_ok st" and "ses_state s = st"
    and "current_frame x = f" and "pending_response x = None" and "current_timeout x = t" and "ex_base_timeout x = t"
    and "payload_frames (next_tx_block st) (pcd_payload x) (tx_offset x) (max_inf_len_pcd (ses_config s)) (ex_chaining x)
      (sent_empty_frame x) = fs"
  obtains c1 x1 where "run_iso_dep_loop T pr \<lparr>ex_device = c, ex_session = s, ex_state = x\<rparr>
      = run_iso_dep_loop T pr \<lparr>ex_device = c1, ex_session = s\<lparr>ses_state := (next_tx_block ^^ length fs) st\<rparr>, ex_state = x1\<rparr>"
    and "pending_response x1 = Some a" and "conversation T pr c1 rest c2" and "aggregated_response x1 = aggregated_response x"
    and "max_picc_inf x1 = max_picc_inf x" and "ex_base_timeout x1 = t"
  using assms
proof (induction fs arbitrary: c s st f x thesis)
  case Nil
  from Nil.prems(2) obtain c1 where sent: "iso_dep_transceive T (if_frame f) pr t c = Some (Inr a, c1)"
    and "conversation T pr c1 rest c2" by auto
  moreover have "s\<lparr>ses_state := st\<rparr> = s" using Nil.prems(4) by auto
  ultimately show ?case
    using Nil.prems(5-8) sent_is_pending [of "\<lparr>ex_device = c, ex_session = s, ex_state = x\<rparr>" T pr a c1]
    by (intro Nil.prems(1) [of c1 "schedule_pending a x"]) (simp_all add: schedule_pending_def)
next
  case (Cons g gs)
  let ?peer = "st\<lparr>picc_block_number := tx_block_number st XOR 1\<rparr>" and ?e = "\<lparr>ex_device = c, ex_session = s, ex_state = x\<rparr>"
  let ?ack = "build_iso_dep_r_block ?peer True"
  from Cons.prems(2) obtain c1 where sent: "iso_dep_transceive T (if_frame f) pr t c = Some (Inr ?ack, c1)"
    and conv: "conversation T pr c1 (request_turns (next_tx_block st) t (g # gs) a @ rest) c2" by auto
  let ?s = "s\<lparr>ses_state := next_tx_block st\<rparr>"
  from Cons.prems(9) obtain offset' sent' where nxt: "next_iso_dep_i_frame (next_tx_block st) (pcd_payload x) (tx_offset x)
      (max_inf_len_pcd (ses_config s)) (ex_chaining x) (sent_empty_frame x) = Some (g, offset', sent')"
    and gs: "gs = payload_frames (next_tx_block (next_tx_block st)) (pcd_payload x) offset' (max_inf_len_pcd (ses_config s))
      (ex_chaining x) sent'"
    by (rule payload_frames_Cons) blast
  let ?x = "update_frame g ((reset_progress x)\<lparr>tx_offset := offset', sent_empty_frame := sent', pending_response := None\<rparr>)"
  have parsed: "parse_iso_dep_response st ?ack = Inr \<lparr>block_type = RBlock True, resp_chaining = False,
      block_number = tx_block_number st XOR 1\<rparr>"
    using r_block_parsed [of ?peer st True] Cons.prems(3) by (auto simp: iso_state_ok_def)
  have "run_iso_dep_loop T pr ?e = run_iso_dep_loop T pr \<lparr>ex_device = c1, ex_session = s, ex_state = schedule_pending ?ack x\<rparr>"
    using sent_is_pending [of ?e T pr ?ack c1] sent Cons.prems(5-7) by simp
  also have "\<dots> = run_iso_dep_loop T pr \<lparr>ex_device = c1, ex_session = ?s, ex_state = ?x\<rparr>"
  proof (rule loop_continues)
    have st: "ses_state s = st" by (rule Cons.prems(4))
    let ?e1 = "\<lparr>ex_device = c1, ex_session = s, ex_state = schedule_pending ?ack x\<rparr>"
    have "iso_dep_turn T pr ?e1 = handle_iso_dep_block T pr \<lparr>block_type = RBlock True, resp_chaining = False,
        block_number = tx_block_number st XOR 1\<rparr> (?e1\<lparr>ex_state := (ex_state ?e1)\<lparr>pending_response := None\<rparr>\<rparr>)"
      using st parsed by (intro turn_pending) (simp_all add: schedule_pending_def)
    also have "\<dots> = Some (Inr Continue, \<lparr>ex_device = c1, ex_session = ?s, ex_state = ?x\<rparr>)"
      using nxt st by (simp add: schedule_pending_def handle_iso_dep_block_def handle_iso_dep_r_block_def
          modify_state_def modify_session_def session_state_def bindD_def next_frame_def reset_progress_def update_frame_def Let_def)
    finally show "iso_dep_turn T pr ?e1 = Some (Inr Continue, \<lparr>ex_device = c1, ex_session = ?s, ex_state = ?x\<rparr>)" .
  qed
  finally have step: "run_iso_dep_loop T pr ?e = run_iso_dep_loop T pr \<lparr>ex_device = c1, ex_session = ?s, ex_state = ?x\<rparr>" .
  have same: "pcd_payload ?x = pcd_payload x" "tx_offset ?x = offset'" "ex_chaining ?x = ex_chaining x" "sent_empty_frame ?x = sent'"
    "current_frame ?x = g" "pending_response ?x = None" "current_timeout ?x = t" "ex_base_timeout ?x = t"
    "aggregated_response ?x = aggregated_response x" "max_picc_inf ?x = max_picc_inf x" "ses_config ?s = ses_config s"
    using Cons.prems(8) by (simp_all add: update_frame_def reset_progress_def)
  show ?case
  proof (rule Cons.IH [OF _ conv iso_state_ok_next(1) [OF Cons.prems(3)], of ?s ?x])
    fix c1' x1
    assume "run_iso_dep_loop T pr \<lparr>ex_device = c1, ex_session = ?s, ex_state = ?x\<rparr>
      = run_iso_dep_loop T pr \<lparr>ex_device = c1', ex_session = ?s\<lparr>ses_state := (next_tx_block ^^ length gs) (next_tx_block st)\<rparr>, ex_state = x1\<rparr>"
      and "pending_response x1 = Some a" and "conversation T pr c1' rest c2" and "aggregated_response x1 = aggregated_response ?x"
      and "max_picc_inf x1 = max_picc_inf ?x" and "ex_base_timeout x1 = t"
    with step same show thesis
      by (intro Cons.prems(1) [of c1' x1]) (simp_all add: funpow_swap1)
  qed (use same gs in simp_all)
qed

lemma answer_phase:
  assumes "conversation T pr c (answer_turns st t gs) c2" and "payload_frames peer q offset m False sent = g # gs"
    and "iso_state_ok peer" and "state_cid peer = state_cid st" and "tx_block_number peer = picc_block_number st"
    and "ses_state s = st" and "pending_response x = Some (if_frame g)" and "ex_base_timeout x = t"
    and "max m 1 \<le> max_picc_inf x" and "length (aggregated_response x) + length (drop offset q) \<le> MAX_THROUGH_PAYLOAD"
  shows "\<exists>x'. run_iso_dep_loop T pr \<lparr>ex_device = c, ex_session = s, ex_state = x\<rparr>
    = Some (Inr (aggregated_response x @ drop offset q), \<lparr>ex_device = c2,
        ex_session = s\<lparr>ses_state := next_tx_block ((advance_picc_block ^^ Suc (length gs)) st)\<rparr>, ex_state = x'\<rparr>)"
  using assms
proof (induction gs arbitrary: c s st peer offset sent g x)
  case Nil
  from Nil.prems(2) obtain chunk offset' where g: "g = \<lparr>if_frame = build_iso_dep_i_block peer chunk False, if_chaining = False\<rparr>"
    and chunk: "drop offset q = chunk" "length chunk \<le> max m 1"
    by (rule payload_frames_Cons) auto
  have parsed: "parse_iso_dep_response st (if_frame g) = Inr \<lparr>block_type = IBlock chunk, resp_chaining = False,
      block_number = picc_block_number st\<rparr>"
    using i_block_parsed [OF Nil.prems(3), of st] Nil.prems(4,5) by (simp add: g)
  from chunk(2) Nil.prems(9) have le: "length chunk \<le> max_picc_inf x" by linarith
  let ?e = "\<lparr>ex_device = c, ex_session = s, ex_state = x\<rparr>"
  have "iso_dep_turn T pr ?e = handle_iso_dep_block T pr \<lparr>block_type = IBlock chunk, resp_chaining = False,
      block_number = picc_block_number st\<rparr> (?e\<lparr>ex_state := x\<lparr>pending_response := None\<rparr>\<rparr>)"
    using Nil.prems(6,7) parsed by (subst turn_pending [where a = "if_frame g"]) simp_all
  also have "\<exists>x'. \<dots> = Some (Inr (Finished (aggregated_response x @ chunk)), \<lparr>ex_device = c,
      ex_session = s\<lparr>ses_state := next_tx_block (advance_picc_block st)\<rparr>, ex_state = x'\<rparr>)"
    using Nil.prems(6,10) chunk(1) le
    by (simp add: handle_iso_dep_block_def handle_iso_dep_i_block_def accept_picc_payload_def take_aggregated_def session_state_def validate_picc_payload_def
        accumulate_payload_def modify_state_def modify_session_def reset_progress_def bindD_def Let_def)
  finally obtain x' where "iso_dep_turn T pr ?e = Some (Inr (Finished (aggregated_response x @ chunk)), \<lparr>ex_device = c,
      ex_session = s\<lparr>ses_state := next_tx_block (advance_picc_block st)\<rparr>, ex_state = x'\<rparr>)" by blast
  from loop_finished [OF this] Nil.prems(1) chunk(1) show ?case by auto
next
  case (Cons g' gs)
  from Cons.prems(2) obtain chunk offset' sent' where
    g0: "g = \<lparr>if_frame = build_iso_dep_i_block peer chunk (g' # gs \<noteq> [] \<or> False), if_chaining = (g' # gs \<noteq> [] \<or> False)\<rparr>"
    and gs: "g' # gs = payload_frames (next_tx_block peer) q offset' m False sent'"
    and chunk: "drop offset q = chunk @ drop offset' q" "length chunk \<le> max m 1"
    by (rule payload_frames_Cons) blast
  from g0 have g: "g = \<lparr>if_frame = build_iso_dep_i_block peer chunk True, if_chaining = True\<rparr>" by simp
  from chunk(2) Cons.prems(9) have le: "length chunk \<le> max_picc_inf x" by linarith
  let ?st = "advance_picc_block st" and ?e = "\<lparr>ex_device = c, ex_session = s, ex_state = x\<rparr>"
  from Cons.prems(1) obtain c1 where sent: "iso_dep_transceive T (build_iso_dep_r_block ?st True) pr t c = Some (Inr (if_frame g'), c1)"
    and conv: "conversation T pr c1 (answer_turns ?st t gs) c2" by auto
  have parsed: "parse_iso_dep_response st (if_frame g) = Inr \<lparr>block_type = IBlock chunk, resp_chaining = True,
      block_number = picc_block_number st\<rparr>"
    using i_block_parsed [OF Cons.prems(3), of st] Cons.prems(4,5) by (simp add: g)
  let ?x = "schedule_pending (if_frame g') (reset_progress (accumulate_payload chunk x))"
  let ?e' = "\<lparr>ex_device = c1, ex_session = s\<lparr>ses_state := ?st\<rparr>, ex_state = ?x\<rparr>"
  have "iso_dep_turn T pr ?e = handle_iso_dep_block T pr \<lparr>block_type = IBlock chunk, resp_chaining = True,
      block_number = picc_block_number st\<rparr> (?e\<lparr>ex_state := x\<lparr>pending_response := None\<rparr>\<rparr>)"
    using Cons.prems(6,7) parsed by (subst turn_pending [where a = "if_frame g"]) simp_all
  also have "\<dots> = Some (Inr Continue, ?e')"
    using Cons.prems(6,8,10) chunk(1) le sent
    by (simp add: handle_iso_dep_block_def handle_iso_dep_i_block_def accept_picc_payload_def take_aggregated_def session_state_def validate_picc_payload_def
        accumulate_payload_def modify_state_def modify_session_def reset_progress_def send_iso_dep_ack_def on_device_def
        schedule_pending_def bindD_def Let_def)
  finally have "run_iso_dep_loop T pr ?e = run_iso_dep_loop T pr ?e'" by (rule loop_continues)
  moreover have "\<exists>x'. run_iso_dep_loop T pr ?e' = Some (Inr (aggregated_response ?x @ drop offset' q), \<lparr>ex_device = c2,
      ex_session = (s\<lparr>ses_state := ?st\<rparr>)\<lparr>ses_state := next_tx_block ((advance_picc_block ^^ Suc (length gs)) ?st)\<rparr>, ex_state = x'\<rparr>)"
    using Cons.prems(3-5,8-10) chunk
    by (intro Cons.IH [OF conv gs [symmetric] iso_state_ok_next(1)])
      (simp_all add: schedule_pending_def reset_progress_def accumulate_payload_def)
  ultimately show ?case
    using chunk(1) by (simp add: schedule_pending_def reset_progress_def accumulate_payload_def funpow_swap1)
qed

section \<open>What a turn keeps\<close>

definition exchange_ok :: "'w exchange \<Rightarrow> bool" where
  "exchange_ok e \<longleftrightarrow> iso_state_ok (ses_state (ex_session e)) \<and> length (aggregated_response (ex_state e)) \<le> MAX_THROUGH_PAYLOAD
     \<and> 0 \<le> nak_retries (ex_state e)"

definition outcome_ok :: "iso_dep_outcome \<Rightarrow> bool" where
  "outcome_ok r = (case r of Continue \<Rightarrow> True | Finished data \<Rightarrow> length data \<le> MAX_THROUGH_PAYLOAD)"

text \<open>An operation that keeps the exchange well formed and returns only results of one kind.\<close>

definition keeps_ok :: "('w, 'a) exchange_op \<Rightarrow> ('a \<Rightarrow> bool) \<Rightarrow> bool" where
  "keeps_ok m Q \<longleftrightarrow> (\<forall>e r e'. exchange_ok e \<longrightarrow> m e = Some (r, e') \<longrightarrow> exchange_ok e' \<and> (\<forall>x. r = Inr x \<longrightarrow> Q x))"

named_theorems keeps_ok_intros

lemma keeps_ok_bind:
  assumes "keeps_ok m R" and "\<And>x. R x \<Longrightarrow> keeps_ok (f x) Q"
  shows "keeps_ok (bindD m f) Q"
  unfolding keeps_ok_def
proof (intro allI impI)
  fix e r e' assume ok: "exchange_ok e" and run: "bindD m f e = Some (r, e')"
  then obtain r1 e1 where m: "m e = Some (r1, e1)" by (cases "m e") (auto simp: bindD_def)
  with ok assms(1) have e1: "exchange_ok e1" "\<And>x. r1 = Inr x \<Longrightarrow> R x" by (auto simp: keeps_ok_def)
  show "exchange_ok e' \<and> (\<forall>x. r = Inr x \<longrightarrow> Q x)"
  proof (cases r1)
    case (Inl err)
    with run m e1 show ?thesis by (auto simp: bindD_def)
  next
    case (Inr x)
    with run m have "f x e1 = Some (r, e')" by (simp add: bindD_def)
    with assms(2) [OF e1(2) [OF Inr]] e1(1) show ?thesis unfolding keeps_ok_def by blast
  qed
qed

lemmas keeps_ok_bindD [keeps_ok_intros] = keeps_ok_bind [where R = "\<lambda>_. True", simplified]

lemma keeps_ok_liftD [keeps_ok_intros]: "(\<And>x. r = Inr x \<Longrightarrow> Q x) \<Longrightarrow> keeps_ok (liftD r) Q"
  by (simp add: keeps_ok_def)

lemma keeps_ok_readD [keeps_ok_intros]: "keeps_ok (readD f) (\<lambda>_. True)" "keeps_ok session_state (\<lambda>_. True)"
  by (simp_all add: keeps_ok_def session_state_def)

lemma keeps_ok_on_device [keeps_ok_intros]: "keeps_ok (on_device m) (\<lambda>_. True)"
  by (auto simp: keeps_ok_def on_device_def exchange_ok_def split: option.splits)

lemma keeps_ok_modify_state [keeps_ok_intros]:
  "(\<And>x. aggregated_response (f x) = aggregated_response x \<and> nak_retries (f x) = nak_retries x) \<Longrightarrow> keeps_ok (modify_state f) (\<lambda>_. True)"
  by (auto simp: keeps_ok_def modify_state_def exchange_ok_def)

lemma keeps_ok_modify_session [keeps_ok_intros]:
  "(\<And>s. iso_state_ok (ses_state s) \<Longrightarrow> iso_state_ok (ses_state (f s))) \<Longrightarrow> keeps_ok (modify_session f) (\<lambda>_. True)"
  by (auto simp: keeps_ok_def modify_session_def exchange_ok_def)

lemma keeps_ok_send_ack [keeps_ok_intros]: "keeps_ok (send_iso_dep_ack T pr) (\<lambda>_. True)"
  unfolding send_iso_dep_ack_def by (intro keeps_ok_intros) (simp add: schedule_pending_def)

lemma keeps_ok_accept [keeps_ok_intros]: "keeps_ok (accept_picc_payload p) (\<lambda>_. True)"
  by (auto simp: keeps_ok_def accept_picc_payload_def bindD_def modify_state_def exchange_ok_def accumulate_payload_def
      validate_picc_payload_def driver_other_def split: if_splits sum.splits)

lemma keeps_ok_finish [keeps_ok_intros]: "keeps_ok (bindD take_aggregated (\<lambda>data. liftD (Inr (Finished data)))) outcome_ok"
  by (auto simp: keeps_ok_def take_aggregated_def bindD_def exchange_ok_def outcome_ok_def)

lemma outcome_ok_Continue [simp]: "outcome_ok Continue"
  by (simp add: outcome_ok_def)

lemma keeps_ok_i_block: "keeps_ok (handle_iso_dep_i_block T pr number p chaining) outcome_ok"
  unfolding handle_iso_dep_i_block_def Let_def
  by (auto intro!: keeps_ok_finish keeps_ok_bindD [OF keeps_ok_accept] keeps_ok_bindD [OF keeps_ok_modify_session]
      keeps_ok_bindD [OF keeps_ok_modify_state] keeps_ok_bindD [OF keeps_ok_send_ack] keeps_ok_bindD [OF keeps_ok_readD(2)]
      keeps_ok_liftD iso_state_ok_next simp: reset_progress_def driver_other_def)

lemma keeps_ok_r_block: "keeps_ok (handle_iso_dep_r_block ack_block number) outcome_ok"
proof -
  have nxt: "keeps_ok next_frame (\<lambda>_. True)"
    by (auto simp: keeps_ok_def next_frame_def exchange_ok_def Let_def split: option.splits)
  have nak: "keeps_ok note_nak (\<lambda>_. True)"
    by (auto simp: keeps_ok_def note_nak_def exchange_ok_def bindD_def retry_after_nak_def driver_other_def modify_state_def
        split: if_splits sum.splits)
  show ?thesis
    unfolding handle_iso_dep_r_block_def
    by (auto intro!: keeps_ok_intros nak nxt iso_state_ok_next split: option.splits if_splits
        simp: reset_progress_def update_frame_def outcome_ok_def driver_other_def)
qed

lemma keeps_ok_s_block: "keeps_ok (handle_iso_dep_s_block T pr code p) outcome_ok"
proof -
  have wtx: "keeps_ok note_wtx_attempt (\<lambda>_. True)"
    by (auto simp: keeps_ok_def note_wtx_attempt_def record_wtx_attempt_def exchange_ok_def Let_def)
  show ?thesis
    unfolding handle_iso_dep_s_block_def
    by (auto intro!: keeps_ok_intros wtx simp: driver_other_def schedule_pending_def)
qed

lemma keeps_ok_turn: "keeps_ok (iso_dep_turn T pr) outcome_ok"
proof -
  have "keeps_ok (next_response T pr) (\<lambda>_. True)"
    unfolding next_response_def by (intro keeps_ok_intros) (auto intro!: keeps_ok_intros split: option.splits)
  then show ?thesis
    unfolding iso_dep_turn_def handle_iso_dep_block_def
    by (auto intro!: keeps_ok_intros keeps_ok_i_block keeps_ok_r_block keeps_ok_s_block simp: driver_other_def
        split: iso_dep_block_type.splits)
qed

section \<open>Properties\<close>

text \<open>The frames of a payload: there is at least one, and the last is not chained.\<close>

lemma payload_frames_not_Nil: "payload_frames st p 0 m chaining False \<noteq> []"
  by (subst payload_frames.simps) (auto simp: next_iso_dep_i_frame_def Let_def)

lemma exchange_through:
  assumes "session_slot c = Some s0" and "ensure_iso_dep_link_parameters T s0 (c\<lparr>session_slot := None\<rparr>) = Some (Inr s, c1)"
    and "pr = or_keep (iso_dep_protocol c1) Iso14443TypeA" and "st = ses_state s" and "iso_state_ok st"
    and "t = fwt_duration (ses_config s)" and "fs = payload_frames st p 0 (max_inf_len_pcd (ses_config s)) False False"
    and "payload_frames peer q 0 m False False = g # gs" and "iso_state_ok peer" and "state_cid peer = state_cid st"
    and "tx_block_number peer = picc_block_number st" and "max m 1 \<le> max_inf_len_picc (ses_config s)"
    and "length q \<le> MAX_THROUGH_PAYLOAD"
    and "conversation T pr c1 (request_turns st t fs (if_frame g) @ answer_turns ((next_tx_block ^^ (length fs - 1)) st) t gs) c2"
  shows "iso_dep_exchange T p False c
    = Some (Inr q, if iso_dep_protocol c2 \<noteq> None
        then c2\<lparr>session_slot := Some (s\<lparr>ses_state := next_tx_block ((advance_picc_block ^^ Suc (length gs))
          ((next_tx_block ^^ (length fs - 1)) st))\<rparr>)\<rparr> else c2)"
proof -
  obtain f fs' where fs: "fs = f # fs'" using payload_frames_not_Nil assms(7) by (cases fs) metis+
  from assms(7) fs obtain offset sent where nxt: "next_iso_dep_i_frame st p 0 (max_inf_len_pcd (ses_config s)) False False = Some (f, offset, sent)"
    and fs': "fs' = payload_frames (next_tx_block st) p offset (max_inf_len_pcd (ses_config s)) False sent"
    using payload_frames_Cons by metis
  obtain x where x: "exchange_state_new s p False = Inr x" and new: "current_frame x = f" "pending_response x = None"
    "current_timeout x = t" "ex_base_timeout x = t" "pcd_payload x = p" "tx_offset x = offset" "ex_chaining x = False"
    "sent_empty_frame x = sent" "aggregated_response x = []" "max_picc_inf x = max_inf_len_picc (ses_config s)"
    using nxt assms(4,6) by (simp add: exchange_state_new_def Let_def)
  let ?st = "(next_tx_block ^^ length fs') st" and ?e = "\<lparr>ex_device = c1, ex_session = s, ex_state = x\<rparr>"
  have conv: "conversation T pr c1 (request_turns st t (f # fs') (if_frame g) @ answer_turns ?st t gs) c2"
    using assms(14) fs by simp
  obtain c3 x1 where run: "run_iso_dep_loop T pr ?e = run_iso_dep_loop T pr \<lparr>ex_device = c3, ex_session = s\<lparr>ses_state := ?st\<rparr>, ex_state = x1\<rparr>"
    and x1: "pending_response x1 = Some (if_frame g)" "conversation T pr c3 (answer_turns ?st t gs) c2"
      "aggregated_response x1 = []" "max_picc_inf x1 = max_inf_len_picc (ses_config s)" "ex_base_timeout x1 = t"
    by (rule request_phase [OF conv assms(5), of s x]) (use new fs' assms(4) in simp_all)
  have st: "picc_block_number ?st = picc_block_number st \<and> state_cid ?st = state_cid st"
    by (rule next_tx_block_funpow)
  have "\<exists>x'. run_iso_dep_loop T pr \<lparr>ex_device = c3, ex_session = s\<lparr>ses_state := ?st\<rparr>, ex_state = x1\<rparr>
    = Some (Inr (aggregated_response x1 @ drop 0 q), \<lparr>ex_device = c2,
        ex_session = (s\<lparr>ses_state := ?st\<rparr>)\<lparr>ses_state := next_tx_block ((advance_picc_block ^^ Suc (length gs)) ?st)\<rparr>, ex_state = x'\<rparr>)"
    by (rule answer_phase [OF x1(2) assms(8,9)]) (use x1 st assms in simp_all)
  with run x1(3) obtain x' where "run_iso_dep_loop T pr ?e = Some (Inr q, \<lparr>ex_device = c2,
      ex_session = s\<lparr>ses_state := next_tx_block ((advance_picc_block ^^ Suc (length gs)) ?st)\<rparr>, ex_state = x'\<rparr>)"
    by auto
  with x assms(1-3) fs show ?thesis
    by (simp add: iso_dep_exchange_def take_iso_dep_session_def iso_dep_protocol_or_default_def bindD_def)
qed

lemma loop_keeps_ok:
  assumes "run_iso_dep_loop T pr e = Some (r, e')" and "exchange_ok e"
  shows "exchange_ok e' \<and> (\<forall>data. r = Inr data \<longrightarrow> length data \<le> MAX_THROUGH_PAYLOAD)"
proof -
  let ?P = "\<lambda>(T :: 'a transport) (pr :: through_protocol) e y. exchange_ok e \<longrightarrow> exchange_ok (snd y) \<and>
    (\<forall>data. (fst y :: driver_error + bytes) = Inr data \<longrightarrow> length data \<le> MAX_THROUGH_PAYLOAD)"
  have "?P T pr e (r, e')"
  proof (rule run_iso_dep_loop.raw_induct [where P = ?P, OF _ assms(1)], goal_cases)
    case (1 f T pr e y)
    show ?case
    proof
      assume ok: "exchange_ok e"
      from 1(2) obtain r1 e1 where turn: "iso_dep_turn T pr e = Some (r1, e1)" by (cases "iso_dep_turn T pr e") (auto simp: bindD_def)
      with ok keeps_ok_turn [of T pr] have e1: "exchange_ok e1" and r1: "\<And>x. r1 = Inr x \<Longrightarrow> outcome_ok x"
        unfolding keeps_ok_def by blast+
      show "exchange_ok (snd y) \<and> (\<forall>data. fst y = Inr data \<longrightarrow> length data \<le> MAX_THROUGH_PAYLOAD)"
      proof (cases r1)
        case (Inl err)
        with 1(2) turn e1 show ?thesis by (auto simp: bindD_def)
      next
        case (Inr outcome)
        show ?thesis
        proof (cases outcome)
          case Continue
          with 1(2) turn Inr have "f T pr e1 = Some y" by (simp add: bindD_def)
          from 1(1) [OF this] e1 show ?thesis by blast
        next
          case (Finished data)
          with 1(2) turn Inr e1 r1 [OF Inr] show ?thesis by (auto simp: bindD_def outcome_ok_def)
        qed
      qed
    qed
  qed
  with assms(2) show ?thesis by simp
qed

lemma link_keeps_state:
  "ensure_iso_dep_link_parameters T s c = Some (Inr s', c') \<Longrightarrow> ses_state s' = ses_state s"
  by (auto simp: ensure_iso_dep_link_parameters_def bindD_eq_Inr Let_def driver_other_def split: if_splits)

lemma exchange_result_bounded:
  assumes "session_slot c = Some s0" and "iso_state_ok (ses_state s0)" and "iso_dep_exchange T p chaining c = Some (Inr data, c')"
  shows "length data \<le> MAX_THROUGH_PAYLOAD \<and> (iso_dep_protocol c' \<noteq> None \<longrightarrow> (\<exists>s. session_slot c' = Some s \<and> iso_state_ok (ses_state s)))"
proof -
  from assms(1,3) obtain s c1 x e where s: "ensure_iso_dep_link_parameters T s0 (c\<lparr>session_slot := None\<rparr>) = Some (Inr s, c1)"
    and x: "exchange_state_new s p chaining = Inr x"
    and run: "run_iso_dep_loop T (or_keep (iso_dep_protocol c1) Iso14443TypeA) \<lparr>ex_device = c1, ex_session = s, ex_state = x\<rparr>
      = Some (Inr data, e)"
    and c': "c' = (if iso_dep_protocol (ex_device e) \<noteq> None then (ex_device e)\<lparr>session_slot := Some (ex_session e)\<rparr> else ex_device e)"
    by (auto simp: iso_dep_exchange_def take_iso_dep_session_def iso_dep_protocol_or_default_def bindD_eq_Inr Let_def split: option.splits)
  have "exchange_ok \<lparr>ex_device = c1, ex_session = s, ex_state = x\<rparr>"
    using x link_keeps_state [OF s] assms(2) by (auto simp: exchange_ok_def exchange_state_new_def Let_def bindE_eq_Inr)
  from loop_keeps_ok [OF run this] c' show ?thesis by (auto simp: exchange_ok_def split: if_splits)
qed




text \<open>
  A card that acknowledges a chained frame with that frame's own number, as ISO/IEC 14443-4 has it, is
  refused: the loop takes only the other number.
\<close>

lemma same_number_ack_refused:
  assumes "pending_response (ex_state e) = Some (build_iso_dep_r_block peer True)" and "iso_state_ok peer"
    and "state_cid (ses_state (ex_session e)) = state_cid peer" and "picc_block_number peer = tx_block_number (ses_state (ex_session e))"
  shows "\<exists>e'. run_iso_dep_loop T pr e = Some (Inl (Other ''ISO-DEP R-Block NR mismatch''), e')"
proof -
  from r_block_parsed [OF assms(2,3), of True] assms(1,2,4)
  have "\<exists>e'. iso_dep_turn T pr e = Some (Inl (Other ''ISO-DEP R-Block NR mismatch''), e')"
    by (subst turn_pending) (auto simp: handle_iso_dep_block_def handle_iso_dep_r_block_def modify_state_def session_state_def
        iso_state_ok_def driver_other_def bindD_def)
  then show ?thesis by (subst run_iso_dep_loop.simps) (auto simp: bindD_def)
qed

section \<open>Witnesses\<close>

text \<open>A card behind the scripted transport: frames of 16 bytes, an acknowledgement and two answers.\<close>

definition demo_iso_config :: iso_dep_config where
  "demo_iso_config = type_b_defaults\<lparr>fsdi := 0, fsci := 0\<rparr>"

definition demo_iso_device :: "dummy_transport port400" where
  "demo_iso_device = (port400_initial dummy (with_reads (map Inr
      [reader_answer 1 [0x89, 0x02], reader_answer 2 [0x1A, 0x02, 7, 8], reader_answer 3 [0x0B, 0x02, 9]])))
     \<lparr>session_slot := Some (iso_dep_session_new demo_iso_config), iso_dep_protocol := Some Iso14443TypeA\<rparr>"

lemmas iso_dep_script_simps = port400_script_simps iso_dep_transceive_def demo_iso_device_def iso_dep_flags_def
  flags_iso14443_type_a_def

lemma demo_parsed:
  "parse_transparent_response [0xC0, 3, 0, 0x90, 0, 0x97, 0x82, 0, 2, 0x89, 2] = Inr \<lparr>te_payload = [0x89, 0x02], rf_status = None, valid_bits = None\<rparr>"
  "parse_transparent_response [0xC0, 3, 0, 0x90, 0, 0x97, 0x82, 0, 4, 0x1A, 2, 7, 8] = Inr \<lparr>te_payload = [0x1A, 0x02, 7, 8], rf_status = None, valid_bits = None\<rparr>"
  "parse_transparent_response [0xC0, 3, 0, 0x90, 0, 0x97, 0x82, 0, 3, 0x0B, 2, 9] = Inr \<lparr>te_payload = [0x0B, 0x02, 9], rf_status = None, valid_bits = None\<rparr>"
  by code_simp+

definition demo_payload :: bytes where "demo_payload = map of_nat [0..<20]"

lemma demo_frames:
  "payload_frames (iso_dep_state_new (Some 2) None) demo_payload 0 14 False False
   = [\<lparr>if_frame = [0x1A, 2] @ take 14 demo_payload, if_chaining = True\<rparr>, \<lparr>if_frame = [0x0B, 2] @ drop 14 demo_payload, if_chaining = False\<rparr>]"
  "payload_frames (iso_dep_state_new (Some 2) None) [7, 8, 9] 0 2 False False
   = [\<lparr>if_frame = [0x1A, 2, 7, 8], if_chaining = True\<rparr>, \<lparr>if_frame = [0x0B, 2, 9], if_chaining = False\<rparr>]"
  by code_simp+

lemma demo_conversation:
  "\<exists>c2. conversation dummy Iso14443TypeA (demo_iso_device\<lparr>session_slot := None\<rparr>) [(x, t, [0x89, 2]), (y, t', [0x1A, 0x02, 7, 8]), (z, t', [0x0B, 0x02, 9])] c2"
  by (simp add: iso_dep_script_simps demo_parsed)

lemma demo_session:
  shows "session_slot demo_iso_device = Some (iso_dep_session_new demo_iso_config)"
    and "ses_state (iso_dep_session_new demo_iso_config) = iso_dep_state_new (Some 2) None"
    and "ses_config (iso_dep_session_new demo_iso_config) = demo_iso_config" and "iso_dep_protocol demo_iso_device = Some Iso14443TypeA"
    and "max_inf_len_pcd demo_iso_config = 14" and "max_inf_len_picc demo_iso_config = 14"
    and "iso_state_ok (iso_dep_state_new (Some 2) None)"
    and "tx_block_number (iso_dep_state_new (Some 2) None) = picc_block_number (iso_dep_state_new (Some 2) None)"
  by (simp_all add: demo_iso_device_def) code_simp+

lemma demo_link:
  "ensure_iso_dep_link_parameters dummy (iso_dep_session_new demo_iso_config) (demo_iso_device\<lparr>session_slot := None\<rparr>)
   = Some (Inr (iso_dep_session_new demo_iso_config), demo_iso_device\<lparr>session_slot := None\<rparr>)"
  by (simp add: ensure_iso_dep_link_parameters_def needs_ifs_request_def demo_session)

lemma demo_turns:
  "\<exists>c2. conversation dummy Iso14443TypeA (demo_iso_device\<lparr>session_slot := None\<rparr>)
    (request_turns (iso_dep_state_new (Some 2) None) t (payload_frames (iso_dep_state_new (Some 2) None) demo_payload 0 14 False False)
        [0x1A, 2, 7, 8]
      @ answer_turns ((next_tx_block ^^ (length (payload_frames (iso_dep_state_new (Some 2) None) demo_payload 0 14 False False) - 1))
          (iso_dep_state_new (Some 2) None)) t [\<lparr>if_frame = [0x0B, 2, 9], if_chaining = False\<rparr>]) c2"
proof -
  let ?st = "iso_dep_state_new (Some 2) None"
  have blocks: "build_iso_dep_r_block (?st\<lparr>picc_block_number := tx_block_number ?st XOR 1\<rparr>) True = [0x89, 2]"
    "build_iso_dep_r_block (advance_picc_block (next_tx_block ?st)) True = [0x89, 2]"
    by code_simp+
  show ?thesis
    using demo_conversation [of "[0x1A, 2] @ take 14 demo_payload" t "[0x0B, 2] @ drop 14 demo_payload" t "[0x89, 2]"]
    by (simp add: demo_frames(1) blocks del: conversation.simps)
qed



end
