(* ===== verification/Rcs320.thy ===== *)
theory Rcs320
  imports Driver_Common Framing
begin

text \<open>
  The RC-S320: its chipset (\<open>src/driver/rcs320/chipset.rs\<close>), which sends a packet, waits for the
  acknowledgement (or finds the answer in its place) and reads the answer, and its device
  (\<open>src/driver/rcs320/device.rs\<close>), which takes the length byte off a FeliCa frame and puts it back.
\<close>

section \<open>Constants and state\<close>

definition RCS320_MAX_DATA_SIZE :: nat where "RCS320_MAX_DATA_SIZE = 255"
definition CMD320_GET_FIRMWARE_VERSION :: u8 where "CMD320_GET_FIRMWARE_VERSION = 0x58"
definition CMD320_GET_FIRMWARE_VERSION_RES :: u8 where "CMD320_GET_FIRMWARE_VERSION_RES = 0x59"
definition CMD320_SEND_PACKET :: u8 where "CMD320_SEND_PACKET = 0x5C"
definition CMD320_SEND_PACKET_RES :: u8 where "CMD320_SEND_PACKET_RES = 0x5D"

definition INIT_SEQUENCE :: "bytes list" where
  "INIT_SEQUENCE = [[0x62, 0x01, 0x82], [0x62, 0x02, 0x80, 0x81], [0x62, 0x22, 0x80, 0xcc, 0x81, 0x88],
     [0x62, 0x02, 0x80, 0x81], [0x62, 0x02, 0x82, 0x87], [0x62, 0x21, 0x25, 0x58], [0x5a, 0x80]]"

definition INIT_RESET :: bytes where "INIT_RESET = [0x54]"

definition RCS320_DEFAULT_TIMEOUT :: nat where "RCS320_DEFAULT_TIMEOUT = millis 1000"
definition RCS320_ACK_TIMEOUT :: nat where "RCS320_ACK_TIMEOUT = millis 1000"

record 'w rcs320 = "'w channel" +
  version320 :: "u8 \<times> u8"
  timeout320 :: nat
  meta320 :: device_metadata

type_synonym ('w, 'a) rcs320_op = "('w rcs320, 'a) driver_op"

section \<open>Packets\<close>

text \<open>\<open>{:02X?}\<close> of a list of bytes and of an optional one.\<close>

fun comma_separated :: "string list \<Rightarrow> string" where
  "comma_separated [] = []"
| "comma_separated [s] = s"
| "comma_separated (s # t # ts) = s @ '', '' @ comma_separated (t # ts)"

definition debug_bytes :: "bytes \<Rightarrow> string" where
  "debug_bytes bs = ''['' @ comma_separated (map hex2 bs) @ '']''"

definition debug_byte_option :: "u8 option \<Rightarrow> string" where
  "debug_byte_option opt = (case opt of Some b \<Rightarrow> ''Some('' @ hex2 b @ '')'' | None \<Rightarrow> ''None'')"

text \<open>An answer that comes instead of the acknowledgement is put back in front of the buffer.\<close>

definition wait_for_ack :: "'w transport \<Rightarrow> ('w, unit) rcs320_op" where
  "wait_for_ack T =
     bindD (deadline_in T RCS320_ACK_TIMEOUT) (\<lambda>deadline.
     bindD (read_exact T (length ACK_BYTES) deadline) (\<lambda>bs.
     if bs \<noteq> ACK_BYTES then
       (if slice_opt bs 0 3 = Some SOF then modifyD (\<lambda>c. c\<lparr>ch_buffer := bs @ ch_buffer c\<rparr>)
        else liftD (driver_other (''expected ACK, got: '' @ debug_bytes bs)))
     else liftD (Inr ())))"

definition read_frame_bytes320 :: "'w transport \<Rightarrow> nat \<Rightarrow> ('w, bytes) rcs320_op" where
  "read_frame_bytes320 T deadline =
     bindD (read_exact T 5 deadline) (\<lambda>frame.
     if slice_opt frame 0 3 \<noteq> Some SOF then liftD (driver_other ''invalid frame preamble'')
     else if frame ! 3 = 0x00 \<and> frame ! 4 = 0xFF then
       bindD (read_exact T 1 deadline) (\<lambda>postamble. liftD (Inr (frame @ postamble)))
     else
       bindD (read_exact T (unat (frame ! 3) + 2) deadline) (\<lambda>tail.
       liftD (Inr (frame @ tail))))"

definition recv_response :: "'w transport \<Rightarrow> nat \<Rightarrow> ('w, bytes) rcs320_op" where
  "recv_response T timeout =
     bindD (deadline_in T timeout) (\<lambda>deadline.
     bindD (read_frame_bytes320 T deadline) (\<lambda>frame_bytes.
     bindD (liftD (ok_or (parse Rcs320Format frame_bytes) (Other ''invalid response frame''))) (\<lambda>f.
     case frame_type f of
       Ack \<Rightarrow>
         bindD (read_frame_bytes320 T deadline) (\<lambda>frame_bytes.
         bindD (liftD (ok_or (parse Rcs320Format frame_bytes) (Other ''invalid response frame after ACK''))) (\<lambda>f.
         liftD (ok_or (payload f) (Other ''no payload in response''))))
     | Error \<Rightarrow> liftD (driver_other ''error frame received'')
     | Data _ \<Rightarrow> liftD (ok_or (payload f) (Other ''no payload in response'')))))"

definition packet_read :: "'w transport \<Rightarrow> nat \<Rightarrow> ('w, bytes) rcs320_op" where
  "packet_read T timeout = recv_response T timeout"

definition packet_write :: "'w transport \<Rightarrow> bytes \<Rightarrow> ('w, unit) rcs320_op" where
  "packet_write T data =
     (case build Rcs320Format data of
        None \<Rightarrow> liftD (Inl (DriverPanicked ''frame payload too long''))
      | Some f \<Rightarrow> bindD (write_transport T (raw f)) (\<lambda>_. wait_for_ack T))"

section \<open>Commands\<close>

definition send_init_command :: "'w transport \<Rightarrow> bytes \<Rightarrow> ('w, bytes) rcs320_op" where
  "send_init_command T data = bindD (packet_write T data) (\<lambda>_. recv_response T RCS320_DEFAULT_TIMEOUT)"

definition reset320 :: "'w transport \<Rightarrow> ('w, unit) rcs320_op" where
  "reset320 T = catchD (send_init_command T INIT_RESET) (\<lambda>_. liftD (Inr ()))"

definition get_firmware_version320 :: "'w transport \<Rightarrow> ('w, u8 \<times> u8) rcs320_op" where
  "get_firmware_version320 T =
     bindD (packet_write T [CMD320_GET_FIRMWARE_VERSION]) (\<lambda>_.
     bindD (packet_read T RCS320_DEFAULT_TIMEOUT) (\<lambda>response.
     liftD (if nth_opt response 0 \<noteq> Some CMD320_GET_FIRMWARE_VERSION_RES then driver_other ''invalid firmware version response''
            else if length response < 3 then driver_other ''firmware version response too short''
            else Inr (response ! 2, response ! 1))))"

fun send_init_commands :: "'w transport \<Rightarrow> bytes list \<Rightarrow> ('w, unit) rcs320_op" where
  "send_init_commands T [] = liftD (Inr ())"
| "send_init_commands T (data # rest) = bindD (send_init_command T data) (\<lambda>_. send_init_commands T rest)"

definition initialize320 :: "'w transport \<Rightarrow> ('w, unit) rcs320_op" where
  "initialize320 T =
     bindD (send_init_commands T INIT_SEQUENCE) (\<lambda>_.
     bindD (get_firmware_version320 T) (\<lambda>version.
     modifyD (\<lambda>c. c\<lparr>version320 := version\<rparr>)))"

definition send_to_card :: "'w transport \<Rightarrow> bytes \<Rightarrow> ('w, unit) rcs320_op" where
  "send_to_card T data =
     (if length data > RCS320_MAX_DATA_SIZE - 2 then liftD (driver_other ''data too long for send_to_card'')
      else packet_write T (CMD320_SEND_PACKET # u8_of (length data + 1) # data))"

definition recv_from_card :: "'w transport \<Rightarrow> nat \<Rightarrow> ('w, bytes) rcs320_op" where
  "recv_from_card T timeout =
     bindD (packet_read T timeout) (\<lambda>response.
     liftD (if nth_opt response 0 \<noteq> Some CMD320_SEND_PACKET_RES then
              driver_other (''invalid card response, expected 0x5D, got: '' @ debug_byte_option (nth_opt response 0))
            else if length response < 2 then driver_other ''card response too short''
            else Inr (take (min (unat (response ! 1)) (length response - 2)) (drop 2 response))))"

definition communicate_thru320 :: "'w transport \<Rightarrow> bytes \<Rightarrow> nat \<Rightarrow> ('w, bytes) rcs320_op" where
  "communicate_thru320 T data timeout = bindD (send_to_card T data) (\<lambda>_. recv_from_card T timeout)"

definition set_timeout320 :: "nat \<Rightarrow> ('w, unit) rcs320_op" where
  "set_timeout320 t = modifyD (\<lambda>c. c\<lparr>timeout320 := t\<rparr>)"

definition close320 :: "'w transport \<Rightarrow> ('w, unit) rcs320_op" where
  "close320 T = bindD (reset320 T) (\<lambda>_. close_transport T)"

section \<open>The device\<close>

definition rcs320_chipset :: "'w transport \<Rightarrow> 'w \<Rightarrow> 'w rcs320" where
  "rcs320_chipset T w = \<lparr>ch_world = w, ch_buffer = [], version320 = (0, 0), timeout320 = RCS320_DEFAULT_TIMEOUT,
     meta320 = \<lparr>dm_vendor_name = manufacturer_name T w, dm_product_name = product_name T w, dm_chipset_name = []\<rparr>\<rparr>"

definition rcs320_init :: "'w transport \<Rightarrow> 'w \<Rightarrow> ((driver_error + unit) \<times> 'w rcs320) option" where
  "rcs320_init T w =
     bindD (initialize320 T) (\<lambda>_.
     modifyD (\<lambda>c. c\<lparr>meta320 := (meta320 c)\<lparr>dm_chipset_name :=
       ''RCS320v'' @ dec (unat (fst (version320 c))) @ ''.'' @ dec (unat (snd (version320 c)))\<rparr>\<rparr>)) (rcs320_chipset T w)"

definition max_data_size320 :: nat where
  "max_data_size320 = RCS320_MAX_DATA_SIZE - 4"

definition detect_type_f320 ::
    "'w transport \<Rightarrow> remote_target \<Rightarrow> u16 \<Rightarrow> u8 \<Rightarrow> u8 \<Rightarrow> ('w, type3_tag_polling_result) rcs320_op" where
  "detect_type_f320 T target system_code request_code time_slots =
     bindD (communicate_thru320 T ([0x00] @ u16_to_be system_code @ [request_code, time_slots]) (millis 1000)) (\<lambda>response.
     liftD (if response = [] then Inl (Communication (Timeout ''no FeliCa card found''))
            else if nth_opt response 0 \<noteq> Some 0x01 then
              driver_other (''unexpected response code: '' @ hex2 (case nth_opt response 0 of Some b \<Rightarrow> b | None \<Rightarrow> 0xFF))
            else if length response < 17 then
              driver_other (''polling response too short: '' @ dec (length response) @ '' bytes'')
            else Inr \<lparr>t3_idm = take 8 (drop 1 response), t3_pmm = take 8 (drop 9 response),
              t3_optional = drop 17 response\<rparr>))"

definition transceive320 :: "'w transport \<Rightarrow> remote_target \<Rightarrow> bytes \<Rightarrow> u16 option \<Rightarrow> ('w, bytes) rcs320_op" where
  "transceive320 T target data timeout_ms =
     (let timeout = millis (unat (case timeout_ms of Some t \<Rightarrow> t | None \<Rightarrow> 1000) + 100) in
      if data = [] then liftD (driver_other ''empty transceive data'')
      else
        let card_data = (if unat (data ! 0) = length data then drop 1 data else data) in
        bindD (communicate_thru320 T card_data timeout) (\<lambda>response.
        liftD (Inr (u8_of (length response + 1) # response))))"

section \<open>Packets over a byte stream\<close>

lemma frame320_bytes:
  assumes "parse Rcs320Format bs = Some g" and "raw g = bs" and "frame_type g = Data p"
  obtains l where "bs = SOF @ [l, length_checksum l] @ p @ [checksum p, POSTAMBLE]" and "unat l = length p"
  using parse_sound [OF assms(1,3)] assms(2) by (auto simp: Rcs320Format_def wf_header_def)

lemma read_frame320_available:
  assumes "parse Rcs320Format bs = Some g" and "raw g = bs" and "frame_type g = Data p"
    and "available T d c (bs @ rest)" and "d \<le> D"
  obtains c' where "read_frame_bytes320 T D c = Some (Inr bs, c')" and "available T d c' rest" and "after_reading T c c'"
proof -
  from assms(1-3) obtain l where
    bs: "bs = SOF @ [l, length_checksum l] @ p @ [checksum p, POSTAMBLE]" and l: "unat l = length p"
    by (rule frame320_bytes)
  let ?tail = "p @ [checksum p, POSTAMBLE]"
  from assms(4) bs have "available T d c ((SOF @ [l, length_checksum l]) @ ?tail @ rest)" by simp
  then obtain c1 where c1: "read_exact T 5 D c = Some (Inr (SOF @ [l, length_checksum l]), c1)"
    and a1: "available T d c1 (?tail @ rest)" and s1: "after_reading T c c1"
    by (rule read_stream_until [where n = 5 and D = D]) (simp_all add: SOF_def assms(5))
  from a1 obtain c2 where c2: "read_exact T (unat l + 2) D c1 = Some (Inr ?tail, c2)"
    and a2: "available T d c2 rest" and s2: "after_reading T c1 c2"
    by (rule read_stream_until [where n = "unat l + 2" and D = D]) (simp_all add: l assms(5))
  have not_ack: "\<not> (l = 0 \<and> length_checksum l = 0xFF)"
    by (auto simp: length_checksum_def checksum_eq)
  have "read_frame_bytes320 T D c = Some (Inr bs, c2)"
    using not_ack by (auto simp: read_frame_bytes320_def bindD_Inr c1 SOF_def slice_opt_def bs c2 [simplified])
  with a2 after_reading_trans [OF s1 s2] show thesis by (intro that)
qed

lemma read_ack320_available:
  assumes "available T d c (ACK_BYTES @ rest)" and "d \<le> D"
  obtains c' where "read_frame_bytes320 T D c = Some (Inr ACK_BYTES, c')" and "available T d c' rest" and "after_reading T c c'"
proof -
  from assms have "available T d c ((SOF @ [0x00, 0xFF]) @ [0x00] @ rest)" by (simp add: framing_consts)
  then obtain c1 where c1: "read_exact T 5 D c = Some (Inr (SOF @ [0x00, 0xFF]), c1)"
    and a1: "available T d c1 ([0x00] @ rest)" and s1: "after_reading T c c1"
    by (rule read_stream_until [where n = 5 and D = D]) (simp_all add: SOF_def assms(2))
  from a1 obtain c2 where c2: "read_exact T 1 D c1 = Some (Inr [0x00], c2)"
    and a2: "available T d c2 rest" and s2: "after_reading T c1 c2"
    by (rule read_stream_until [where n = 1 and D = D]) (simp_all add: assms(2))
  have "read_frame_bytes320 T D c = Some (Inr ACK_BYTES, c2)"
    by (simp add: read_frame_bytes320_def bindD_Inr c1 c2 [simplified] framing_consts slice_opt_def)
  with a2 after_reading_trans [OF s1 s2] show thesis by (intro that)
qed

text \<open>The acknowledgement may be missing, stand once or stand twice in front of the answer.\<close>

lemma wait_for_ack_available:
  assumes frame: "parse Rcs320Format bs = Some g" "raw g = bs" "frame_type g = Data p" and "p \<noteq> []"
    and acks: "acks \<in> {[], ACK_BYTES, ACK_BYTES @ ACK_BYTES}"
    and a: "available T d c (acks @ bs @ rest)" and d: "d \<le> tr_now T (ch_world c) + RCS320_ACK_TIMEOUT"
  obtains acks' c' where "wait_for_ack T c = Some (Inr (), c')" and "acks' \<in> {[], ACK_BYTES}"
    and "available T d c' (acks' @ bs @ rest)" and "after_reading T c c'"
proof -
  from frame obtain l where
    bs: "bs = SOF @ [l, length_checksum l] @ p @ [checksum p, POSTAMBLE]" and l: "unat l = length p"
    by (rule frame320_bytes)
  let ?six = "take 6 (acks @ bs)" and ?more = "drop 6 (acks @ bs) @ rest"
  from a have "available T d c (?six @ ?more)" by (metis append.assoc append_take_drop_id)
  moreover have n: "length ACK_BYTES = length ?six" using \<open>p \<noteq> []\<close> bs by (cases p) (simp_all add: ACK_BYTES_def SOF_def)
  ultimately obtain c1 where c1: "read_exact T (length ACK_BYTES) (tr_now T (ch_world c) + RCS320_ACK_TIMEOUT) c = Some (Inr ?six, c1)"
    and a1: "available T d c1 ?more" and s1: "after_reading T c c1"
    by (rule read_stream_until [OF _ _ d])
  show thesis
  proof (cases "acks = []")
    case True
    have "l \<noteq> 0" using l \<open>p \<noteq> []\<close> by auto
    then have "?six \<noteq> ACK_BYTES" and "slice_opt ?six 0 3 = Some SOF"
      using True \<open>p \<noteq> []\<close> by (cases p; simp add: bs framing_consts slice_opt_def)+
    with c1 have "wait_for_ack T c = Some (Inr (), c1\<lparr>ch_buffer := ?six @ ch_buffer c1\<rparr>)"
      by (simp add: wait_for_ack_def deadline_in_def bindD_Inr)
    moreover from a1 True have "available T d (c1\<lparr>ch_buffer := ?six @ ch_buffer c1\<rparr>) (bs @ rest)"
      by (auto simp: available_def) (metis append.assoc append_take_drop_id)
    moreover have "after_reading T c (c1\<lparr>ch_buffer := ?six @ ch_buffer c1\<rparr>)"
      using s1 by (auto simp: after_reading_def intro: same_chipset_trans)
    ultimately show thesis by (intro that [of _ "[]"]) simp_all
  next
    case False
    with acks obtain acks' where "acks = ACK_BYTES @ acks'" and acks': "acks' \<in> {[], ACK_BYTES}" by auto
    then have six: "?six = ACK_BYTES" and more: "?more = acks' @ bs @ rest" by (simp_all add: ACK_BYTES_def)
    from c1 six have "wait_for_ack T c = Some (Inr (), c1)"
      by (simp add: wait_for_ack_def deadline_in_def bindD_Inr)
    moreover from a1 have "available T d c1 (acks' @ bs @ rest)" unfolding more .
    ultimately show thesis using acks' s1 by (intro that)
  qed
qed

lemma recv_response_available:
  assumes frame: "parse Rcs320Format bs = Some g" "raw g = bs" "frame_type g = Data p"
    and acks: "acks \<in> {[], ACK_BYTES}"
    and a: "available T d c (acks @ bs @ rest)" and d: "d \<le> tr_now T (ch_world c) + timeout"
  obtains c' where "recv_response T timeout c = Some (Inr p, c')" and "available T d c' rest" and "after_reading T c c'"
proof (cases "acks = []")
  case True
  with a have "available T d c (bs @ rest)" by simp
  from read_frame320_available [OF frame this d] obtain c1 where
    c1: "read_frame_bytes320 T (tr_now T (ch_world c) + timeout) c = Some (Inr bs, c1)"
      "available T d c1 rest" "after_reading T c c1" .
  moreover from c1(1) frame have "recv_response T timeout c = Some (Inr p, c1)"
    by (simp add: recv_response_def deadline_in_def bindD_Inr)
  ultimately show thesis by (intro that)
next
  case False
  with acks a have "available T d c (ACK_BYTES @ bs @ rest)" by auto
  from read_ack320_available [OF this d] obtain c1 where
    c1: "read_frame_bytes320 T (tr_now T (ch_world c) + timeout) c = Some (Inr ACK_BYTES, c1)"
      "available T d c1 (bs @ rest)" "after_reading T c c1" .
  from read_frame320_available [OF frame c1(2) d] obtain c2 where
    c2: "read_frame_bytes320 T (tr_now T (ch_world c) + timeout) c1 = Some (Inr bs, c2)"
      "available T d c2 rest" "after_reading T c1 c2" .
  have ack: "parse Rcs320Format ACK_BYTES = Some ack"
    by (simp add: parse_def has_sof_def classify_def framing_consts slice_opt_def ack_def)
  from c1(1) c2(1) frame have "recv_response T timeout c = Some (Inr p, c2)"
    by (simp add: recv_response_def deadline_in_def bindD_Inr ack) (simp add: ack_def bindD_Inr)
  with c2(2) after_reading_trans [OF c1(3) c2(3)] show thesis by (intro that)
qed

lemma packet_answered:
  assumes "build Rcs320Format data = Some f" and "tr_write T (raw f) (ch_world c) = (Inr (), w)"
    and frame: "parse Rcs320Format bs = Some g" "raw g = bs" "frame_type g = Data p" and "p \<noteq> []"
    and "acks \<in> {[], ACK_BYTES, ACK_BYTES @ ACK_BYTES}"
    and "available T d (c\<lparr>ch_world := w\<rparr>) (acks @ bs @ rest)"
    and d: "d \<le> tr_now T w + min RCS320_ACK_TIMEOUT timeout"
  obtains c1 c' where "packet_write T data c = Some (Inr (), c1)" and "packet_read T timeout c1 = Some (Inr p, c')"
    and "available T d c' rest" and "same_chipset c c'"
proof -
  let ?c = "c\<lparr>ch_world := w\<rparr>"
  from d have "d \<le> tr_now T (ch_world ?c) + RCS320_ACK_TIMEOUT" by simp
  from wait_for_ack_available [OF frame assms(6-8) this] obtain acks' c1 where
    c1: "wait_for_ack T ?c = Some (Inr (), c1)" "acks' \<in> {[], ACK_BYTES}" "available T d c1 (acks' @ bs @ rest)" "after_reading T ?c c1" .
  from c1(4) d have "d \<le> tr_now T (ch_world c1) + timeout"
    by (auto simp: after_reading_def min_def split: if_splits)
  from recv_response_available [OF frame c1(2,3) this] obtain c2 where
    c2: "recv_response T timeout c1 = Some (Inr p, c2)" "available T d c2 rest" "after_reading T c1 c2" .
  from c1(1) assms(1,2) have "packet_write T data c = Some (Inr (), c1)"
    by (simp add: packet_write_def bindD_def write_transport_def)
  moreover have "same_chipset c c2"
    using after_reading_trans [OF c1(4) c2(3)] same_chipset_trans [OF same_chipset_update(1) [of c w]]
    by (simp add: after_reading_def)
  ultimately show thesis using c2 by (intro that) (simp_all add: packet_read_def)
qed

section \<open>Properties\<close>

text \<open>
  C35. An exchange with a card returns the card's answer: however the transport cuts the stream, whether the
  reader acknowledges the packet before it answers, answers at once or acknowledges twice, the answer comes
  back with its length byte in front, what follows it stays in the stream, and nothing else of the device
  changes. The timeouts for the acknowledgement and for the answer must not have passed.
\<close>

theorem answer_with_or_without_ack:
  assumes "data \<noteq> []" and "sent = (if unat (hd data) = length data then tl data else data)" and "length sent \<le> 253"
    and "build Rcs320Format (0x5C # u8_of (length sent + 1) # sent) = Some f"
    and "tr_write T (raw f) (ch_world c) = (Inr (), w)"
    and "parse Rcs320Format bs = Some g" and "raw g = bs" and "frame_type g = Data (0x5D # n # body)"
    and "acks \<in> {[], ACK_BYTES, ACK_BYTES @ ACK_BYTES}"
    and "available T d (c\<lparr>ch_world := w\<rparr>) (acks @ bs @ rest)"
    and "d \<le> tr_now T w + min RCS320_ACK_TIMEOUT (millis (unat t + 100))"
  shows "\<exists>c'. transceive320 T target data (Some t) c =
      Some (Inr (u8_of (length (take (unat n) body) + 1) # take (unat n) body), c') \<and>
    available T d c' rest \<and> same_chipset c c'"
proof -
  from packet_answered [OF assms(4-8) _ assms(9-11)] obtain c1 c' where
    "packet_write T (0x5C # u8_of (length sent + 1) # sent) c = Some (Inr (), c1)"
    "packet_read T (millis (unat t + 100)) c1 = Some (Inr (0x5D # n # body), c')"
    and c': "available T d c' rest" "same_chipset c c'" by blast
  moreover have "sent = (if unat (data ! 0) = length data then drop 1 data else data)"
    using assms(1,2) by (cases data) simp_all
  ultimately have "transceive320 T target data (Some t) c =
      Some (Inr (u8_of (length (take (unat n) body) + 1) # take (unat n) body), c')"
    using assms(1,3) by (simp add: transceive320_def Let_def communicate_thru320_def send_to_card_def recv_from_card_def
        bindD_Inr RCS320_MAX_DATA_SIZE_def CMD320_SEND_PACKET_def CMD320_SEND_PACKET_RES_def nth_opt_def min_def)
  with c' show ?thesis by blast
qed

section \<open>Witnesses\<close>

definition demo_rcs320 :: "dummy_transport rcs320" where
  "demo_rcs320 = rcs320_chipset dummy (with_reads (map Inr
     [[0x00, 0x00, 0xFF], [0x04, 0xFC, 0x5D, 0x02, 0x07], [0x00, 0x9A, 0x00, 0x77]]))"

definition demo_target320 :: remote_target where
  "demo_target320 = \<lparr>rt_bitrate = \<lparr>br_send = ''212F'', br_recv = ''212F''\<rparr>, rt_data = target_data_default\<rparr>"

theorem answer_with_or_without_ack_witness:
  "\<exists>c'. transceive320 dummy demo_target320 [0x02, 0x06] (Some 10) demo_rcs320 = Some (Inr [0x03, 0x07, 0x00], c')"
proof -
  let ?bs = "[0x00, 0x00, 0xFF, 0x04, 0xFC, 0x5D, 0x02, 0x07, 0x00, 0x9A, 0x00] :: bytes"
  obtain f where f: "build Rcs320Format (0x5C # u8_of (length [0x06 :: u8] + 1) # [0x06]) = Some f"
    by (simp add: build_eq_Some Rcs320Format_def NORMAL_LENGTH_LIMIT_def)
  let ?w = "ch_world demo_rcs320\<lparr>dt_writes := [raw f]\<rparr>"
  have w: "tr_write dummy (raw f) (ch_world demo_rcs320) = (Inr (), ?w)"
    by (simp add: demo_rcs320_def rcs320_chipset_def dummy_selectors with_reads_def)
  have g: "parse Rcs320Format ?bs = Some \<lparr>raw = ?bs, frame_type = Data (0x5D # 0x02 # [0x07, 0x00])\<rparr>"
    by (simp add: parse_def has_sof_def classify_def layout_parse_def validated_payload_def nth_opt_def
        framing_consts slice_opt_def Rcs320Format_def checksum_matches_iff checksum_eq frame_len_def)
  have "offers dummy (millis 100) ?w (concat [[0x00, 0x00, 0xFF], [0x04, 0xFC, 0x5D, 0x02, 0x07], [0x00, 0x9A, 0x00, 0x77]])"
    by (rule dummy_offers [of _ _ "[]"]) (simp_all add: demo_rcs320_def rcs320_chipset_def with_reads_def millis_def)
  then have "available dummy (millis 100) (demo_rcs320\<lparr>ch_world := ?w\<rparr>) ([] @ ?bs @ [0x77])"
    by (simp add: available_def demo_rcs320_def rcs320_chipset_def)
  from answer_with_or_without_ack [where data = "[0x02, 0x06]" and sent = "[0x06]" and t = 10, OF _ _ _ f w g _ _ _ this]
  show ?thesis
    by (auto simp: demo_rcs320_def rcs320_chipset_def with_reads_def dummy_selectors millis_def RCS320_ACK_TIMEOUT_def u8_of_def)
qed

end
