(* ===== verification/Rcs956_Chipset.thy ===== *)
theory Rcs956_Chipset
  imports Driver_Common Framing
begin

text \<open>
  The chipset of the RC-S956, \<open>src/driver/rcs956/chipset.rs\<close>. A USB read hands over a whole packet, so the
  buffer is only what a recovery may have left; a command is acknowledged, possibly more than once, and then
  answered. A panic (an \<open>assert!\<close>, an index out of range) is \<open>DriverPanicked\<close>. The wait for the answer and
  the clearing of the input poll the transport and are partial functions.
\<close>

section \<open>Constants and state\<close>

definition HOST_COMMAND_FRAME_MAX_SIZE :: nat where "HOST_COMMAND_FRAME_MAX_SIZE = 265"

definition CMD_GET_FIRMWARE_VERSION :: u8 where "CMD_GET_FIRMWARE_VERSION = 0x02"
definition CMD_READ_REGISTER :: u8 where "CMD_READ_REGISTER = 0x06"
definition CMD_WRITE_REGISTER :: u8 where "CMD_WRITE_REGISTER = 0x08"
definition CMD_SET_PARAMETERS :: u8 where "CMD_SET_PARAMETERS = 0x12"
definition CMD_RESET_MODE :: u8 where "CMD_RESET_MODE = 0x18"
definition CMD_RF_CONFIGURATION :: u8 where "CMD_RF_CONFIGURATION = 0x32"
definition CMD_IN_DATA_EXCHANGE :: u8 where "CMD_IN_DATA_EXCHANGE = 0x40"
definition CMD_IN_COMMUNICATE_THRU :: u8 where "CMD_IN_COMMUNICATE_THRU = 0x42"
definition CMD_IN_LIST_PASSIVE_TARGET :: u8 where "CMD_IN_LIST_PASSIVE_TARGET = 0x4A"
definition CMD_IN_JUMP_FOR_DEP :: u8 where "CMD_IN_JUMP_FOR_DEP = 0x56"
definition CMD_TG_GET_INITIATOR_COMMAND :: u8 where "CMD_TG_GET_INITIATOR_COMMAND = 0x88"
definition CMD_TG_GET_TARGET_STATUS :: u8 where "CMD_TG_GET_TARGET_STATUS = 0x8A"
definition CMD_TG_INIT_TARGET :: u8 where "CMD_TG_INIT_TARGET = 0x8C"
definition CMD_TG_RESPONSE_TO_INITIATOR :: u8 where "CMD_TG_RESPONSE_TO_INITIATOR = 0x90"
definition CMD_TG_SET_GENERAL_BYTES :: u8 where "CMD_TG_SET_GENERAL_BYTES = 0x92"

definition ERR_ERROR_FRAME :: u8 where "ERR_ERROR_FRAME = 0x7F"
definition ERR_REGISTER_WRITE_FAILED :: u8 where "ERR_REGISTER_WRITE_FAILED = 0xFE"
definition ERR_NO_DATA :: u8 where "ERR_NO_DATA = 0xFF"

definition CONTROLLER_TO_HOST :: u8 where "CONTROLLER_TO_HOST = 0xD5"

record 'w rcs956 = "'w channel" +
  version956 :: "u8 \<times> u8 \<times> u8"

type_synonym ('w, 'z, 'a) rcs956_op = "(('w, 'z) rcs956_scheme, 'a) driver_op"

definition chipset_status :: "u8 \<Rightarrow> driver_error + 'a" where
  "chipset_status code = Inl (Chipset (ChipsetStatus code))"

section \<open>Packets\<close>

definition read_frame_from_transport :: "'w transport \<Rightarrow> nat \<Rightarrow> ('w, 'z, bytes) rcs956_op" where
  "read_frame_from_transport T t =
     bindD (readD ch_buffer) (\<lambda>buffer.
     if buffer \<noteq> [] then bindD (modifyD (\<lambda>c. c\<lparr>ch_buffer := []\<rparr>)) (\<lambda>_. liftD (Inr buffer))
     else
       bindD (read_transport T t) (\<lambda>bs.
       liftD (if bs = [] then Inl (Io timeout_error) else Inr bs)))"

definition parse_response_frame :: "bytes \<Rightarrow> driver_error + frame" where
  "parse_response_frame frame_bytes =
     bindE (ok_or (parse Rcs956Format frame_bytes) (Other ''invalid response frame'')) (\<lambda>f.
     if length (raw f) \<noteq> length frame_bytes then
       driver_other (''frame length value mismatch: the frame is '' @ dec (length (raw f)) @ '' bytes but the packet is ''
         @ dec (length frame_bytes))
     else Inr f)"

definition extract_response_payload956 :: "frame \<Rightarrow> u8 \<Rightarrow> driver_error + bytes" where
  "extract_response_payload956 f cmd_code =
     bindE (ok_or (payload f) (Other ''unexpected frame type'')) (\<lambda>p.
     if nth_opt p 0 = Some 0x7F then chipset_status ERR_ERROR_FRAME
     else if nth_opt p 0 \<noteq> Some CONTROLLER_TO_HOST then driver_other ''invalid response identifier''
     else if nth_opt p 1 \<noteq> Some (cmd_code + 1) then driver_other ''unexpected response code''
     else Inr (drop 2 p))"

text \<open>Reading on past acknowledgements, until the deadline; when it has passed, an ACK cancels the command.\<close>

partial_function (option) skip_acks :: "'w transport \<Rightarrow> nat \<Rightarrow> ('w, 'z, bytes) rcs956_op" where
  "skip_acks T deadline c =
     (case remaining_until T deadline (ch_world c) of
        None \<Rightarrow> tryD (write_transport T ACK_BYTES) (\<lambda>_. liftD (Inl (Io timeout_error))) c
      | Some remaining \<Rightarrow>
          bindD (read_frame_from_transport T remaining) (\<lambda>frame_bytes c.
            if slice_opt frame_bytes 0 6 \<noteq> Some ACK_BYTES then Some (Inr frame_bytes, c)
            else skip_acks T deadline c) c)"

definition read_command_response956 :: "'w transport \<Rightarrow> u8 \<Rightarrow> nat \<Rightarrow> ('w, 'z, bytes) rcs956_op" where
  "read_command_response956 T cmd_code timeout =
     bindD (read_frame_from_transport T (millis 100)) (\<lambda>frame_bytes.
     if slice_opt frame_bytes 0 3 \<noteq> Some SOF then
       bindD (recover_after_error T ACK_BYTES True) (\<lambda>_. liftD (driver_other ''invalid frame start sequence''))
     else
       bindD (if slice_opt frame_bytes 0 6 \<noteq> Some ACK_BYTES then liftD (Inr frame_bytes)
              else bindD (deadline_in T timeout) (skip_acks T)) (\<lambda>frame_bytes.
       liftD (bindE (parse_response_frame frame_bytes) (\<lambda>f. extract_response_payload956 f cmd_code))))"

definition write_frame956 :: "'w transport \<Rightarrow> frame \<Rightarrow> ('w, 'z, unit) rcs956_op" where
  "write_frame956 T f = recover_on_error T ACK_BYTES False (write_transport T (raw f))"

definition command956 :: "'w transport \<Rightarrow> u8 \<Rightarrow> bytes \<Rightarrow> nat \<Rightarrow> ('w, 'z, bytes) rcs956_op" where
  "command956 T cmd_code data timeout =
     (case build_command cmd_code data of
        None \<Rightarrow> liftD (Inl (DriverPanicked ''frame payload too long''))
      | Some f \<Rightarrow> bindD (write_frame956 T f) (\<lambda>_. read_command_response956 T cmd_code timeout))"

section \<open>Opening and closing\<close>

partial_function (option) clear_garbage956 :: "'w transport \<Rightarrow> ('w, 'z, unit) rcs956_op" where
  "clear_garbage956 T c =
     (case tr_read T (millis 10) (ch_world c) of
        (Inr data, w) \<Rightarrow> clear_garbage956 T (c\<lparr>ch_world := w\<rparr>)
      | (Inl e, w) \<Rightarrow> Some (Inr (), c\<lparr>ch_world := w\<rparr>))"

definition chipset956_new :: "'w transport \<Rightarrow> ('w, 'z, unit) rcs956_op" where
  "chipset956_new T = bindD (write_transport T ACK_BYTES) (\<lambda>_. clear_garbage956 T)"

definition get_firmware_version956 :: "'w transport \<Rightarrow> ('w, 'z, u8 \<times> u8 \<times> u8) rcs956_op" where
  "get_firmware_version956 T =
     bindD (command956 T CMD_GET_FIRMWARE_VERSION [] (millis 100)) (\<lambda>data.
     liftD (if length data \<ge> 4 then Inr (data ! 0, data ! 1, data ! 2)
            else driver_other ''firmware version response too short''))"

definition initialize956 :: "'w transport \<Rightarrow> ('w, 'z, unit) rcs956_op" where
  "initialize956 T = bindD (get_firmware_version956 T) (\<lambda>version. modifyD (\<lambda>c. c\<lparr>version956 := version\<rparr>))"

definition reset_mode956 :: "'w transport \<Rightarrow> ('w, 'z, unit) rcs956_op" where
  "reset_mode956 T =
     catchD (command956 T CMD_RESET_MODE [0x01] (millis 100)) (\<lambda>_.
     bindD (write_transport T ACK_BYTES) (\<lambda>_.
     sleep T (millis 10)))"

definition close956 :: "'w transport \<Rightarrow> ('w, 'z, unit) rcs956_op" where
  "close956 T =
     bindD (reset_mode956 T) (\<lambda>_.
     bindD (write_transport T ACK_BYTES) (\<lambda>_.
     close_transport T))"

section \<open>Commands\<close>

definition set_parameters956 :: "'w transport \<Rightarrow> u8 \<Rightarrow> ('w, 'z, unit) rcs956_op" where
  "set_parameters956 T flags = bindD (command956 T CMD_SET_PARAMETERS [flags] (millis 100)) (\<lambda>_. liftD (Inr ()))"

definition rf_configuration :: "'w transport \<Rightarrow> u8 \<Rightarrow> bytes \<Rightarrow> ('w, 'z, unit) rcs956_op" where
  "rf_configuration T cfg_item cfg_data =
     bindD (command956 T CMD_RF_CONFIGURATION (cfg_item # cfg_data) (millis 100)) (\<lambda>_. liftD (Inr ()))"

definition read_register :: "'w transport \<Rightarrow> u16 list \<Rightarrow> ('w, 'z, bytes) rcs956_op" where
  "read_register T addresses =
     (if length addresses > 64 then liftD (Inl (DriverPanicked ''max 64 registers can be read''))
      else command956 T CMD_READ_REGISTER (concat (map u16_to_be addresses)) (millis 250))"

definition write_register :: "'w transport \<Rightarrow> (u16 \<times> u8) list \<Rightarrow> ('w, 'z, unit) rcs956_op" where
  "write_register T registers =
     (if length registers > 64 then liftD (Inl (DriverPanicked ''max 64 registers can be written''))
      else
        bindD (command956 T CMD_WRITE_REGISTER (concat (map (\<lambda>(addr, v). u16_to_be addr @ [v]) registers)) (millis 250)) (\<lambda>status.
        liftD (if list_ex (\<lambda>b. b \<noteq> 0) status then chipset_status ERR_REGISTER_WRITE_FAILED else Inr ())))"

definition read_single_register :: "'w transport \<Rightarrow> u16 \<Rightarrow> ('w, 'z, u8) rcs956_op" where
  "read_single_register T address =
     bindD (read_register T [address]) (\<lambda>data. liftD (ok_or (nth_opt data 0) (Other ''no register data'')))"

definition write_single_register :: "'w transport \<Rightarrow> u16 \<Rightarrow> u8 \<Rightarrow> ('w, 'z, unit) rcs956_op" where
  "write_single_register T address v = write_register T [(address, v)]"

definition in_list_passive_target :: "'w transport \<Rightarrow> u8 \<Rightarrow> u8 \<Rightarrow> bytes \<Rightarrow> ('w, 'z, bytes option) rcs956_op" where
  "in_list_passive_target T max_tg rate initiator_data =
     bindD (command956 T CMD_IN_LIST_PASSIVE_TARGET ([max_tg, rate] @ initiator_data) (millis 1000)) (\<lambda>response.
     liftD (if response = [] \<or> response ! 0 = 0 then Inr None
            else if length response < 2 then
              driver_other ''InListPassiveTarget response reports a target but is too short''
            else Inr (Some (drop 2 response))))"

definition in_data_exchange :: "'w transport \<Rightarrow> bytes \<Rightarrow> nat \<Rightarrow> ('w, 'z, bytes \<times> bool) rcs956_op" where
  "in_data_exchange T data timeout =
     bindD (command956 T CMD_IN_DATA_EXCHANGE (0x01 # data) timeout) (\<lambda>response.
     liftD (if response = [] then chipset_status ERR_NO_DATA
            else if response ! 0 AND 0x3F \<noteq> 0 then chipset_status (response ! 0 AND 0x3F)
            else Inr (drop 1 response, response ! 0 AND 0x40 \<noteq> 0)))"

definition status_or_no_data :: "bytes \<Rightarrow> driver_error + 'a" where
  "status_or_no_data rsp = chipset_status (case nth_opt rsp 0 of Some e \<Rightarrow> e | None \<Rightarrow> ERR_NO_DATA)"

definition in_communicate_thru :: "'w transport \<Rightarrow> bytes \<Rightarrow> nat \<Rightarrow> ('w, 'z, bytes) rcs956_op" where
  "in_communicate_thru T data timeout =
     bindD (command956 T CMD_IN_COMMUNICATE_THRU data timeout) (\<lambda>response.
     liftD (if response = [] \<or> response ! 0 \<noteq> 0 then status_or_no_data response else Inr (drop 1 response)))"

definition flag_byte956 :: "bool \<Rightarrow> nat \<Rightarrow> u8" where
  "flag_byte956 b n = (if b then push_bit n 1 else 0)"

definition in_jump_for_dep :: "'w transport \<Rightarrow> bool \<Rightarrow> u8 \<Rightarrow> bytes \<Rightarrow> bytes \<Rightarrow> bytes \<Rightarrow> ('w, 'z, bytes) rcs956_op" where
  "in_jump_for_dep T act br passive_data nfcid3 gi =
     (let cm = flag_byte956 act 0;
          nf = flag_byte956 (passive_data \<noteq> []) 0 OR flag_byte956 (nfcid3 \<noteq> []) 1 OR flag_byte956 (gi \<noteq> []) 2 in
      bindD (command956 T CMD_IN_JUMP_FOR_DEP ([cm, br, nf] @ passive_data @ nfcid3 @ gi) (millis 3000)) (\<lambda>response.
      liftD (if response = [] \<or> response ! 0 \<noteq> 0 then status_or_no_data response
             else if length response < 2 then driver_other ''InJumpForDEP response is too short to contain ATR_RES''
             else Inr (drop 2 response))))"

definition tg_init_target ::
    "'w transport \<Rightarrow> u8 \<Rightarrow> bytes \<Rightarrow> bytes \<Rightarrow> bytes \<Rightarrow> bytes \<Rightarrow> nat \<Rightarrow> ('w, 'z, bytes) rcs956_op" where
  "tg_init_target T mode mifare_params felica_params nfcid3t gt timeout =
     (if mode AND 0xFD \<noteq> 0 then liftD (Inl (DriverPanicked ''invalid mode''))
      else if length mifare_params \<noteq> 6 then liftD (Inl (DriverPanicked ''mifare_params must be 6 bytes''))
      else if length felica_params \<noteq> 18 then liftD (Inl (DriverPanicked ''felica_params must be 18 bytes''))
      else if length nfcid3t \<noteq> 10 then liftD (Inl (DriverPanicked ''nfcid3t must be 10 bytes''))
      else command956 T CMD_TG_INIT_TARGET ([mode] @ mifare_params @ felica_params @ nfcid3t @ gt) timeout)"

definition tg_set_general_bytes :: "'w transport \<Rightarrow> bytes \<Rightarrow> ('w, 'z, unit) rcs956_op" where
  "tg_set_general_bytes T gb =
     bindD (command956 T CMD_TG_SET_GENERAL_BYTES gb (millis 100)) (\<lambda>response.
     liftD (if nth_opt response 0 \<noteq> Some 0 then status_or_no_data response else Inr ()))"

definition tg_get_initiator_command :: "'w transport \<Rightarrow> nat \<Rightarrow> ('w, 'z, bytes option) rcs956_op" where
  "tg_get_initiator_command T timeout =
     bindD (command956 T CMD_TG_GET_INITIATOR_COMMAND [] timeout) (\<lambda>response.
     liftD (Inr (if response = [] \<or> response ! 0 \<noteq> 0 then None else Some (drop 1 response))))"

definition tg_response_to_initiator :: "'w transport \<Rightarrow> bytes \<Rightarrow> ('w, 'z, unit) rcs956_op" where
  "tg_response_to_initiator T data =
     bindD (command956 T CMD_TG_RESPONSE_TO_INITIATOR data (millis 1000)) (\<lambda>response.
     liftD (if nth_opt response 0 \<noteq> Some 0 then status_or_no_data response else Inr ()))"

text \<open>The bit rate fields index a table of three entries, which panics for the other five values.\<close>

definition target_bitrate :: "u8 \<Rightarrow> driver_error + u16" where
  "target_bitrate n = ok_or (nth_opt [106, 212, 424] (unat n)) (DriverPanicked ''index out of bounds'')"

definition tg_get_target_status :: "'w transport \<Rightarrow> ('w, 'z, u8 \<times> u16 \<times> u16) rcs956_op" where
  "tg_get_target_status T =
     bindD (command956 T CMD_TG_GET_TARGET_STATUS [] (millis 100)) (\<lambda>data.
     liftD (if length data < 2 then driver_other ''target status response too short''
            else if data ! 0 = 0x01 then
              bindE (target_bitrate (drop_bit 4 (data ! 1) AND 7)) (\<lambda>tx.
              bindE (target_bitrate (data ! 1 AND 7)) (\<lambda>rx.
              Inr (data ! 0, tx, rx)))
            else Inr (data ! 0, 0, 0)))"

definition rf_field_off :: "'w transport \<Rightarrow> ('w, 'z, unit) rcs956_op" where
  "rf_field_off T = rf_configuration T 0x01 [0x02]"

section \<open>Commands over packets\<close>

text \<open>
  The transport hands over these packets, one per read, in reads that start before \<open>d\<close>; the environment is
  \<open>w'\<close> then.
\<close>

inductive hands_over :: "'w transport \<Rightarrow> nat \<Rightarrow> 'w \<Rightarrow> bytes list \<Rightarrow> 'w \<Rightarrow> bool" for T d where
  nothing: "hands_over T d w [] w"
| packet: "tr_now T w < d \<Longrightarrow> (\<And>t. 0 < t \<Longrightarrow> tr_read T t w = (Inr p, u)) \<Longrightarrow> p \<noteq> [] \<Longrightarrow> tr_now T w \<le> tr_now T u \<Longrightarrow>
    hands_over T d u ps w' \<Longrightarrow> hands_over T d w (p # ps) w'"

inductive_cases hands_over_ConsE: "hands_over T d w (p # ps) w'"

lemma dummy_hands_over:
  "dt_reads w = map Inr ps @ rs \<Longrightarrow> [] \<notin> set ps \<Longrightarrow> dt_clock w + length ps * millis 1 \<le> d \<Longrightarrow>
     hands_over dummy d w ps (w\<lparr>dt_reads := rs, dt_clock := dt_clock w + length ps * millis 1\<rparr>)"
proof (induction ps arbitrary: w)
  case Nil
  then have "w\<lparr>dt_reads := rs, dt_clock := dt_clock w + length ([] :: bytes list) * millis 1\<rparr> = w" by simp
  then show ?case by (simp add: hands_over.nothing)
next
  case (Cons p ps)
  let ?w = "w\<lparr>dt_clock := dt_clock w + millis 1, dt_reads := map Inr ps @ rs\<rparr>"
  have "hands_over dummy d ?w ps (?w\<lparr>dt_reads := rs, dt_clock := dt_clock ?w + length ps * millis 1\<rparr>)"
    using Cons.prems by (intro Cons.IH) (simp_all add: algebra_simps)
  moreover have "tr_read dummy t w = (Inr p, ?w)" if "0 < t" for t
    using Cons.prems(1) by (simp add: dummy_selectors dummy_read_def)
  ultimately have "hands_over dummy d w (p # ps) (?w\<lparr>dt_reads := rs, dt_clock := dt_clock ?w + length ps * millis 1\<rparr>)"
    using Cons.prems by (intro hands_over.packet [where u = ?w]) (auto simp: dummy_selectors millis_def)
  then show ?case by (simp add: algebra_simps)
qed

lemma read_packet:
  assumes "ch_buffer c = []" and "tr_read T t (ch_world c) = (Inr p, w)" and "p \<noteq> []"
  shows "read_frame_from_transport T t c = Some (Inr p, c\<lparr>ch_world := w\<rparr>)"
  using assms by (simp add: read_frame_from_transport_def read_transport_def bindD_def liftD_def readD_def)

lemma skip_acks_available:
  assumes "hands_over T d (ch_world c) (replicate k ACK_BYTES @ [bs]) w'" and "ch_buffer c = []"
    and "slice_opt bs 0 6 \<noteq> Some ACK_BYTES" and "d \<le> D"
  shows "skip_acks T D c = Some (Inr bs, c\<lparr>ch_world := w'\<rparr>)"
  using assms
proof (induction k arbitrary: c)
  case 0
  then have read: "tr_now T (ch_world c) < d" "\<And>t. 0 < t \<Longrightarrow> tr_read T t (ch_world c) = (Inr bs, w')" "bs \<noteq> []"
    by (auto elim!: hands_over_ConsE elim: hands_over.cases)
  with 0 have "read_frame_from_transport T (D - tr_now T (ch_world c)) c = Some (Inr bs, c\<lparr>ch_world := w'\<rparr>)"
    by (intro read_packet) simp_all
  with 0 read(1) show ?case
    by (subst skip_acks.simps) (simp add: remaining_until_def bindD_Inr)
next
  case (Suc k)
  then obtain w1 where read: "tr_now T (ch_world c) < d" "\<And>t. 0 < t \<Longrightarrow> tr_read T t (ch_world c) = (Inr ACK_BYTES, w1)"
    and rest: "hands_over T d w1 (replicate k ACK_BYTES @ [bs]) w'"
    by (auto elim!: hands_over_ConsE)
  from read Suc.prems have "read_frame_from_transport T (D - tr_now T (ch_world c)) c = Some (Inr ACK_BYTES, c\<lparr>ch_world := w1\<rparr>)"
    by (intro read_packet) (simp_all add: ACK_BYTES_def)
  moreover have "skip_acks T D (c\<lparr>ch_world := w1\<rparr>) = Some (Inr bs, c\<lparr>ch_world := w1, ch_world := w'\<rparr>)"
    using Suc.prems rest by (intro Suc.IH) simp_all
  ultimately show ?case
    using Suc.prems(4) read(1) by (subst skip_acks.simps) (simp add: remaining_until_def bindD_Inr slice_opt_def ACK_BYTES_def)
qed

lemma data_frame_start:
  assumes "parse F bs = Some g" and "raw g = bs" and "frame_type g = Data p"
  shows "slice_opt bs 0 3 = Some SOF" and "p \<noteq> [] \<Longrightarrow> slice_opt bs 0 6 \<noteq> Some ACK_BYTES"
proof -
  from parse_sound [OF assms(1,3)] assms(2) obtain h where bs: "bs = SOF @ h @ p @ [checksum p, POSTAMBLE]"
    and wf: "wf_header (LENGTH_ENC F) h (length p)" by auto
  from bs show "slice_opt bs 0 3 = Some SOF" by (simp add: slice_opt_def SOF_def)
  show "slice_opt bs 0 6 \<noteq> Some ACK_BYTES" if "p \<noteq> []"
    using wf that unfolding bs wf_header_def
    by (cases p) (auto simp: slice_opt_def framing_consts extended_length_def)
qed

lemma response_read:
  assumes frame: "parse Rcs956Format bs = Some g" "raw g = bs" "frame_type g = Data (CONTROLLER_TO_HOST # (code + 1) # rsp)"
    and read: "hands_over T d (ch_world c) (replicate k ACK_BYTES @ [bs]) w'" and buffer: "ch_buffer c = []"
    and d: "d \<le> tr_now T (ch_world c) + timeout"
  shows "read_command_response956 T code timeout c = Some (Inr rsp, c\<lparr>ch_world := w'\<rparr>)"
proof -
  note start = data_frame_start [OF frame]
  have payload: "bindE (parse_response_frame bs) (\<lambda>f. extract_response_payload956 f code) = Inr rsp"
    using frame by (simp add: parse_response_frame_def extract_response_payload956_def bindE_def nth_opt_def CONTROLLER_TO_HOST_def)
  show ?thesis
  proof (cases k)
    case 0
    with read have "\<And>t. 0 < t \<Longrightarrow> tr_read T t (ch_world c) = (Inr bs, w')" and "bs \<noteq> []"
      by (auto elim!: hands_over_ConsE elim: hands_over.cases)
    then have "read_frame_from_transport T (millis 100) c = Some (Inr bs, c\<lparr>ch_world := w'\<rparr>)"
      using buffer by (intro read_packet) (simp_all add: millis_def)
    then show ?thesis using start payload by (simp add: read_command_response956_def bindD_Inr)
  next
    case (Suc n)
    with read obtain w1 where w1: "\<And>t. 0 < t \<Longrightarrow> tr_read T t (ch_world c) = (Inr ACK_BYTES, w1)"
      "tr_now T (ch_world c) \<le> tr_now T w1" "hands_over T d w1 (replicate n ACK_BYTES @ [bs]) w'"
      by (auto elim!: hands_over_ConsE)
    let ?c = "c\<lparr>ch_world := w1\<rparr>"
    have "read_frame_from_transport T (millis 100) c = Some (Inr ACK_BYTES, ?c)"
      using buffer w1(1) by (intro read_packet) (simp_all add: millis_def ACK_BYTES_def)
    moreover have "skip_acks T (tr_now T w1 + timeout) ?c = Some (Inr bs, ?c\<lparr>ch_world := w'\<rparr>)"
      using w1 buffer start d by (intro skip_acks_available [where d = d and k = n]) simp_all
    ultimately show ?thesis
      using payload by (simp add: read_command_response956_def bindD_Inr deadline_in_def)
        (simp add: slice_opt_def framing_consts bindD_Inr)
  qed
qed

lemma command956_answered:
  assumes "build_command code p = Some f" and "tr_write T (raw f) (ch_world c) = (Inr (), w)"
    and frame: "parse Rcs956Format bs = Some g" "raw g = bs" "frame_type g = Data (CONTROLLER_TO_HOST # (code + 1) # rsp)"
    and "hands_over T d w (replicate k ACK_BYTES @ [bs]) w'" and "ch_buffer c = []" and "d \<le> tr_now T w + timeout"
  shows "command956 T code p timeout c = Some (Inr rsp, c\<lparr>ch_world := w'\<rparr>)"
proof -
  let ?c = "c\<lparr>ch_world := w\<rparr>"
  have "write_frame956 T f c = Some (Inr (), ?c)"
    using assms(2) by (simp add: write_frame956_def recover_on_error_def tryD_def write_transport_def)
  moreover have "read_command_response956 T code timeout ?c = Some (Inr rsp, ?c\<lparr>ch_world := w'\<rparr>)"
    using assms by (intro response_read [OF frame]) simp_all
  ultimately show ?thesis by (simp add: command956_def assms(1) bindD_Inr)
qed

text \<open>Where a read takes time, the wait for an answer comes to an end.\<close>

lemma read_frame_takes_time:
  assumes "ticking T" and "read_frame_from_transport T t c = Some (r, c')" and "ch_buffer c = []"
  shows "tr_now T (ch_world c) < tr_now T (ch_world c') \<and> ch_buffer c' = []"
  using assms ticking_read [OF assms(1)]
  by (auto simp: read_frame_from_transport_def read_transport_def bindD_def liftD_def readD_def split: prod.splits sum.splits if_splits)

lemma read_frame_returns: obtains r c' where "read_frame_from_transport T t c = Some (r, c')"
proof -
  obtain r w where "tr_read T t (ch_world c) = (r, w)" by (cases "tr_read T t (ch_world c)")
  then show thesis
    by (cases r; cases "ch_buffer c = []") (auto simp: read_frame_from_transport_def read_transport_def bindD_def intro: that)
qed

lemma skip_acks_returns: "ticking T \<Longrightarrow> ch_buffer c = [] \<Longrightarrow> \<exists>r c'. skip_acks T D c = Some (r, c')"
proof (induction "D - tr_now T (ch_world c)" arbitrary: c rule: less_induct)
  case less
  show ?case
  proof (cases "remaining_until T D (ch_world c)")
    case None
    then show ?thesis
      by (subst skip_acks.simps) (simp add: tryD_def write_transport_def split: prod.split)
  next
    case (Some t)
    obtain r c1 where read: "read_frame_from_transport T t c = Some (r, c1)"
      by (rule read_frame_returns)
    note time = read_frame_takes_time [OF less.prems(1) read less.prems(2)]
    then have "\<exists>r c'. skip_acks T D c1 = Some (r, c')"
      using less.prems Some by (intro less.hyps) (auto simp: remaining_until_def split: if_splits)
    with read Some show ?thesis
      by (subst skip_acks.simps) (cases r; simp add: bindD_def)
  qed
qed

lemma read_response_returns:
  assumes "ticking T" and "ch_buffer c = []"
  shows "\<exists>r c'. read_command_response956 T code timeout c = Some (r, c')"
proof -
  obtain r c1 where read: "read_frame_from_transport T (millis 100) c = Some (r, c1)" by (rule read_frame_returns)
  show ?thesis
  proof (cases r)
    case (Inl e)
    with read show ?thesis by (simp add: read_command_response956_def bindD_def)
  next
    case (Inr bs)
    from read_frame_takes_time [OF assms(1) read assms(2)] have "ch_buffer c1 = []" by simp
    then obtain r2 c2 where "skip_acks T (tr_now T (ch_world c1) + timeout) c1 = Some (r2, c2)"
      using skip_acks_returns [OF assms(1)] by blast
    moreover obtain c3 where "recover_after_error T ACK_BYTES True c1 = Some (Inr (), c3)"
      using recovery_returns [OF assms(1)] by blast
    ultimately show ?thesis
      using read Inr by (cases r2) (auto simp: read_command_response956_def bindD_def deadline_in_def)
  qed
qed

lemma command956_returns:
  assumes "ticking T" and "ch_buffer c = []"
  shows "\<exists>r c'. command956 T code p timeout c = Some (r, c')"
proof (cases "build_command code p")
  case None
  then show ?thesis by (simp add: command956_def)
next
  case (Some f)
  obtain r w where w: "tr_write T (raw f) (ch_world c) = (r, w)" by (cases "tr_write T (raw f) (ch_world c)")
  obtain c1 where rec: "recover_after_error T ACK_BYTES False (c\<lparr>ch_world := w\<rparr>) = Some (Inr (), c1)"
    using recovery_returns [OF assms(1)] by blast
  have "\<exists>r c'. read_command_response956 T code timeout (c\<lparr>ch_world := w\<rparr>) = Some (r, c')"
    using assms by (intro read_response_returns) simp_all
  with w rec Some show ?thesis
    by (cases r) (auto simp: command956_def write_frame956_def recover_on_error_def tryD_def write_transport_def bindD_def)
qed

section \<open>Properties\<close>

text \<open>
  A command is answered past its acknowledgements: however many acknowledgement packets stand in front of
  the answer, none included, the command returns the body of the answer, having read those packets and no
  more, and nothing else of the chipset changes.
\<close>

theorem command_past_acks:
  assumes "build_command code p = Some f" and "tr_write T (raw f) (ch_world c) = (Inr (), w)" and "ch_buffer c = []"
    and "parse Rcs956Format bs = Some g" and "raw g = bs" and "frame_type g = Data (CONTROLLER_TO_HOST # (code + 1) # rsp)"
    and "hands_over T d w (replicate k ACK_BYTES @ [bs]) w'" and "d \<le> tr_now T w + timeout"
  shows "command956 T code p timeout c = Some (Inr rsp, c\<lparr>ch_world := w'\<rparr>)"
  using command956_answered [OF assms(1,2,4-7,3,8)] .

text \<open>
  A command returns, with an answer or an error, whatever packets the transport hands over, where a read
  takes time.
\<close>

theorem command_returns:
  assumes "ticking T" and "ch_buffer c = []"
  shows "\<exists>r c'. command956 T code p timeout c = Some (r, c')"
  using command956_returns [OF assms] .

section \<open>Witnesses\<close>

definition demo_rcs956 :: "dummy_transport rcs956" where
  "demo_rcs956 = \<lparr>ch_world = with_reads (map Inr [ACK_BYTES, ACK_BYTES,
     [0x00, 0x00, 0xFF, 0x06, 0xFA, 0xD5, 0x03, 0x33, 0x01, 0x30, 0x07, 0xBD, 0x00]]), ch_buffer = [], version956 = (0, 0, 0)\<rparr>"

theorem command_past_acks_witness:
  "\<exists>c'. command956 dummy 0x02 [] (millis 100) demo_rcs956 = Some (Inr [0x33, 0x01, 0x30, 0x07], c')"
proof -
  let ?bs = "[0x00, 0x00, 0xFF, 0x06, 0xFA, 0xD5, 0x03, 0x33, 0x01, 0x30, 0x07, 0xBD, 0x00] :: bytes"
  obtain f where f: "build_command 0x02 [] = Some f"
    by (simp add: build_command_def build_eq_Some Rcs956Format_def NORMAL_LENGTH_LIMIT_def)
  let ?w = "ch_world demo_rcs956\<lparr>dt_writes := [raw f]\<rparr>"
  have w: "tr_write dummy (raw f) (ch_world demo_rcs956) = (Inr (), ?w)"
    by (simp add: demo_rcs956_def dummy_selectors with_reads_def)
  have g: "parse Rcs956Format ?bs = Some \<lparr>raw = ?bs, frame_type = Data (CONTROLLER_TO_HOST # (0x02 + 1) # [0x33, 0x01, 0x30, 0x07])\<rparr>"
    by (simp add: parse_def has_sof_def classify_def layout_parse_def validated_payload_def CONTROLLER_TO_HOST_def
        framing_consts slice_opt_def Rcs956Format_def checksum_matches_iff checksum_eq frame_len_def)
  have "hands_over dummy (millis 100) ?w (replicate (Suc (Suc 0)) ACK_BYTES @ [?bs]) (?w\<lparr>dt_reads := [], dt_clock := dt_clock ?w + 3 * millis 1\<rparr>)"
    using dummy_hands_over [of ?w "[ACK_BYTES, ACK_BYTES, ?bs]" "[]" "millis 100"]
    by (simp add: demo_rcs956_def with_reads_def ACK_BYTES_def millis_def)
  from command_past_acks [OF f w _ g _ _ this] show ?thesis
    by (auto simp: demo_rcs956_def dummy_selectors with_reads_def)
qed

theorem command_returns_witness: "\<exists>r c'. command956 dummy 0x02 [] (millis 100) demo_rcs956 = Some (r, c')"
  by (rule command_returns [OF dummy_ticking]) (simp add: demo_rcs956_def)

end
