(* ===== verification/Rcs956_Device.thy ===== *)
theory Rcs956_Device
  imports Rcs956_Chipset Crc
begin

text \<open>
  The RC-S956 as a device: its set-up and the exchange with Type 1 and Type 2 tags
  (\<open>src/driver/rcs956/device.rs\<close>) and the discovery of Type A, B and F cards and of a DEP target
  (\<open>src/driver/rcs956/discovery.rs\<close>).
\<close>

section \<open>Device\<close>

record 'w device956 = "'w rcs956" +
  meta956 :: device_metadata

type_synonym ('w, 'a) device956_op = "('w device956, 'a) driver_op"

definition PRODUCT_IDS956 :: "u16 list" where "PRODUCT_IDS956 = [0x02E1, 0x0193]"

definition RF_SETTINGS_106A :: bytes where
  "RF_SETTINGS_106A = [0x5A, 0xF4, 0x3F, 0x11, 0x4D, 0x85, 0x61, 0x6F, 0x26, 0x62, 0x87]"

definition device956_new :: "'w transport \<Rightarrow> ('w, unit) device956_op" where
  "device956_new T =
     bindD (reset_mode956 T) (\<lambda>_.
     bindD (initialize956 T) (\<lambda>_.
     bindD (modifyD (\<lambda>c. c\<lparr>meta956 := \<lparr>dm_vendor_name = manufacturer_name T (ch_world c),
        dm_product_name = product_name T (ch_world c),
        dm_chipset_name = (case version956 c of (_, ver, r) \<Rightarrow> ''RCS956v'' @ hex_lower ver @ ''.'' @ hex_lower r)\<rparr>\<rparr>)) (\<lambda>_.
     bindD (rf_field_off T) (\<lambda>_.
     bindD (rf_configuration T 0x02 [0x0B, 0x0B, 0x0A]) (\<lambda>_.
     bindD (rf_configuration T 0x04 [0x00]) (\<lambda>_.
     bindD (rf_configuration T 0x05 [0x00, 0x00, 0x01]) (\<lambda>_.
     bindD (rf_configuration T 0x0A RF_SETTINGS_106A) (\<lambda>_.
     bindD (set_parameters956 T 0x08) (\<lambda>_.
     bindD (reset_mode956 T) (\<lambda>_.
     write_single_register T 0x0328 0x59))))))))))"

definition device956_initial :: "'w \<Rightarrow> 'w device956" where
  "device956_initial w = \<lparr>ch_world = w, ch_buffer = [], version956 = (0, 0, 0),
     meta956 = \<lparr>dm_vendor_name = None, dm_product_name = None, dm_chipset_name = []\<rparr>\<rparr>"

definition rcs956_init :: "'w transport \<Rightarrow> 'w \<Rightarrow> ((driver_error + unit) \<times> 'w device956) option" where
  "rcs956_init T w = bindD (chipset956_new T) (\<lambda>_. device956_new T) (device956_initial w)"

definition mute956 :: "'w transport \<Rightarrow> ('w, unit) device956_op" where
  "mute956 T = bindD (reset_mode956 T) (\<lambda>_. rf_field_off T)"

definition device_close956 :: "'w transport \<Rightarrow> ('w, unit) device956_op" where
  "device_close956 T = bindD (mute956 T) (\<lambda>_. close956 T)"

definition is_type2_target :: "remote_target \<Rightarrow> bool" where
  "is_type2_target target \<longleftrightarrow> is_type2_106a target \<and> rid_res (rt_data target) = None"

definition transceive_type1 :: "'w transport \<Rightarrow> bytes \<Rightarrow> nat \<Rightarrow> ('w, bytes) device956_op" where
  "transceive_type1 T data timeout =
     (if nth_opt data 0 \<in> {Some 0x00, Some 0x01, Some 0x1A, Some 0x53, Some 0x72} then
        bindD (in_data_exchange T data timeout) (\<lambda>(rsp, chained). liftD (Inr rsp))
      else liftD (Inl (Communication (Transmission ''tt1 command cannot be sent with this hardware''))))"

definition checked_type2_response :: "bytes \<Rightarrow> driver_error + bytes" where
  "checked_type2_response rsp =
     (if length rsp > 2 \<and> \<not> check_crc_a rsp then Inl (Communication (Transmission ''crc_a check error''))
      else if length rsp > 2 then Inr (take (length rsp - 2) rsp)
      else Inr rsp)"

definition transceive_type2 :: "'w transport \<Rightarrow> bytes \<Rightarrow> nat \<Rightarrow> ('w, bytes) device956_op" where
  "transceive_type2 T data timeout =
     bindD (in_communicate_thru T data timeout) (\<lambda>response. liftD (checked_type2_response response))"

definition transceive956 :: "'w transport \<Rightarrow> remote_target \<Rightarrow> bytes \<Rightarrow> u16 option \<Rightarrow> ('w, bytes) device956_op" where
  "transceive956 T target data timeout_ms =
     (let timeout = millis (unat (case timeout_ms of Some t \<Rightarrow> t | None \<Rightarrow> 1000) + 100) in
      if is_type2_target target then transceive_type2 T data timeout
      else if rid_res (rt_data target) \<noteq> None then transceive_type1 T data timeout
      else in_communicate_thru T data timeout)"

section \<open>Discovery\<close>

definition CARD_STARTUP_TIME :: nat where "CARD_STARTUP_TIME = 20400000"
definition IN_LIST_PASSIVE_TARGET_BRTY_RANGE :: bytes where "IN_LIST_PASSIVE_TARGET_BRTY_RANGE = [0, 1, 2, 3, 4]"
definition CIU_MODE :: u16 where "CIU_MODE = 0x6301"
definition CIU_RX_MODE :: u16 where "CIU_RX_MODE = 0x6303"
definition CIU_TX_CONTROL :: u16 where "CIU_TX_CONTROL = 0x6304"
definition CIU_FIFO_DATA :: u16 where "CIU_FIFO_DATA = 0x6339"
definition ERR_TIMEOUT :: u8 where "ERR_TIMEOUT = 0x01"
definition ERR_RF_NOT_ACTIVATED :: u8 where "ERR_RF_NOT_ACTIVATED = 0x0A"

definition unsupported_bitrate :: "string \<Rightarrow> driver_error + 'a" where
  "unsupported_bitrate rate = Inl (DriverUnsupported (''unsupported bitrate '' @ rate))"

definition bitrate_code :: "string \<Rightarrow> driver_error + u8" where
  "bitrate_code rate =
     (if rate = ''106A'' then Inr 0 else if rate = ''212F'' then Inr 1 else if rate = ''424F'' then Inr 2
      else if rate = ''106B'' then Inr 3 else unsupported_bitrate rate)"

definition try_type1_detection :: "'w transport \<Rightarrow> ('w, remote_target option) device956_op" where
  "try_type1_detection T =
     (if 4 \<notin> set IN_LIST_PASSIVE_TARGET_BRTY_RANGE then liftD (Inr None)
      else
        bindD (in_list_passive_target T 1 4 []) (\<lambda>response.
        case response of
          None \<Rightarrow> liftD (Inr None)
        | Some data \<Rightarrow>
            catchD (in_data_exchange T [0x78, 0x00, 0x00, 0x00, 0x00, 0x00, 0x00] (millis 100)) (\<lambda>r.
            liftD (case r of
              Inr (rid, chained) \<Rightarrow>
                bindE (new_target ''106A'') (\<lambda>found.
                if length data < 2 then Inl (DriverPanicked ''index out of bounds'')
                else Inr (Some (found\<lparr>rt_data := (rt_data found)\<lparr>sens_res := Some [data ! 1, data ! 0], rid_res := Some rid\<rparr>\<rparr>)))
            | Inl (Chipset (ChipsetStatus status)) \<Rightarrow> Inr None
            | Inl e \<Rightarrow> Inl e))))"

definition prepared_uid :: "bytes \<Rightarrow> bytes" where
  "prepared_uid uid =
     (let uid = (if length uid > 4 then 0x88 # uid else uid) in
      if length uid > 8 then take 4 uid @ [0x88] @ drop 4 uid else uid)"

definition detect_type_a956 :: "'w transport \<Rightarrow> remote_target \<Rightarrow> ('w, remote_target option) device956_op" where
  "detect_type_a956 T target =
     bindD (liftD (bitrate_code (remote_bitrate target))) (\<lambda>rate.
     if rate \<notin> set IN_LIST_PASSIVE_TARGET_BRTY_RANGE then liftD (unsupported_bitrate (remote_bitrate target))
     else
       bindD (in_list_passive_target T 1 rate
           (prepared_uid (case sel_req (rt_data target) of Some uid \<Rightarrow> uid | None \<Rightarrow> []))) (\<lambda>response.
       case response of
         None \<Rightarrow>
           catchD (read_single_register T CIU_FIFO_DATA) (\<lambda>r.
           if r = Inr 0x26 then liftD (Inr None) else try_type1_detection T)
       | Some data \<Rightarrow>
           if length data < 4 then liftD (Inr None)
           else
             bindD (if data ! 2 AND 0x60 = 0 then
                      bindD (read_single_register T CIU_RX_MODE) (\<lambda>rx_mode.
                      write_single_register T CIU_RX_MODE (rx_mode AND 0x7F))
                    else liftD (Inr ())) (\<lambda>_.
             bindD (liftD (new_target (remote_bitrate target))) (\<lambda>found.
             liftD (Inr (Some (found\<lparr>rt_data := (rt_data found)\<lparr>sens_res := Some [data ! 1, data ! 0],
               sel_res := Some [data ! 2], sdd_res := Some (drop 4 data)\<rparr>\<rparr>)))))))"

definition detect_type_b956 :: "'w transport \<Rightarrow> remote_target \<Rightarrow> ('w, remote_target option) device956_op" where
  "detect_type_b956 T target =
     (let rate = remote_bitrate target in
      bindD (liftD (if rate = ''106B'' then Inr 3 else if rate = ''212B'' then Inr 6 else if rate = ''424B'' then Inr 7
        else if rate = ''848B'' then Inr 8 else unsupported_bitrate rate)) (\<lambda>code.
      if code \<notin> set IN_LIST_PASSIVE_TARGET_BRTY_RANGE then liftD (unsupported_bitrate rate)
      else
        let afi = (case Option.bind (sensb_req (rt_data target)) (\<lambda>d. nth_opt d 0) of Some b \<Rightarrow> b | None \<Rightarrow> 0x00) in
        bindD (in_list_passive_target T 1 code [afi]) (\<lambda>response.
        case response of
          None \<Rightarrow> liftD (Inr None)
        | Some data \<Rightarrow>
            if length data < 11 \<or> data ! 10 AND 0x09 \<noteq> 0x01 then liftD (Inr None)
            else
              catchD (in_communicate_thru T [0xC2] (millis 500)) (\<lambda>_.
              catchD (in_communicate_thru T [0x05, afi, 0x08] (millis 500)) (\<lambda>r.
              case r of
                Inr sensb \<Rightarrow>
                  bindD (liftD (new_target rate)) (\<lambda>found.
                  liftD (Inr (Some (found\<lparr>rt_data := (rt_data found)\<lparr>sensb_res := Some sensb\<rparr>\<rparr>))))
              | Inl e \<Rightarrow> liftD (Inr None))))))"

definition build_sensf_req :: "u16 \<Rightarrow> u8 \<Rightarrow> u8 \<Rightarrow> bytes" where
  "build_sensf_req system_code request_code time_slots = [0x00] @ u16_to_be system_code @ [request_code, time_slots]"

definition detect_type_f956 ::
    "'w transport \<Rightarrow> remote_target \<Rightarrow> u16 \<Rightarrow> u8 \<Rightarrow> u8 \<Rightarrow> ('w, type3_tag_polling_result) device956_op" where
  "detect_type_f956 T target system_code request_code time_slots =
     (let rate = remote_bitrate target in
      bindD (liftD (if rate = ''212F'' then Inr 1 else if rate = ''424F'' then Inr 2 else unsupported_bitrate rate)) (\<lambda>code.
      if code \<notin> set IN_LIST_PASSIVE_TARGET_BRTY_RANGE then liftD (unsupported_bitrate rate)
      else
        bindD (read_single_register T CIU_TX_CONTROL) (\<lambda>tx_control.
        bindD (if tx_control AND 0x03 = 0 then
                 bindD (rf_configuration T 0x01 [0x01]) (\<lambda>_. sleep T CARD_STARTUP_TIME)
               else liftD (Inr ())) (\<lambda>_.
        bindD (in_list_passive_target T 1 code (build_sensf_req system_code request_code time_slots)) (\<lambda>response.
        liftD (case response of
            None \<Rightarrow> Inl (Communication (Timeout ''no type F target found''))
          | Some data \<Rightarrow>
              if length data < 18 then driver_other ''SENSF_RES too short''
              else Inr \<lparr>t3_idm = take 8 (drop 2 data), t3_pmm = take 8 (drop 10 data), t3_optional = drop 18 data\<rparr>))))))"

definition detect_dep :: "'w transport \<Rightarrow> remote_target \<Rightarrow> ('w, remote_target option) device956_op" where
  "detect_dep T target =
     (let rate = remote_bitrate target in
      bindD (liftD (ok_or (atr_req (rt_data target)) (Other ''atr_req is required''))) (\<lambda>request.
      if length request < 16 \<or> length request > 64 then liftD (driver_other ''atr_req must be 16 to 64 bytes'')
      else
        bindD (liftD (if rate = ''106A'' then Inr 0 else if rate = ''212F'' then Inr 1 else if rate = ''424F'' then Inr 2
          else Inl (DriverUnsupported (''unsupported bitrate for DEP: '' @ rate)))) (\<lambda>br.
        bindD (rf_configuration T 0x02 [0x0B, 0x0B, 0x0A]) (\<lambda>_.
        catchD (in_jump_for_dep T True br [] (take 10 (drop 2 request)) (drop 16 request)) (\<lambda>r.
        case r of
          Inr rsp \<Rightarrow>
            bindD (write_single_register T CIU_MODE 0x3B) (\<lambda>_.
            bindD (liftD (new_target rate)) (\<lambda>found.
            liftD (Inr (Some (found\<lparr>rt_data := (rt_data found)\<lparr>atr_res := Some ([0xD5, 0x01] @ rsp),
              atr_req := Some request\<rparr>\<rparr>)))))
        | Inl (Chipset (ChipsetStatus status)) \<Rightarrow>
            liftD (if status = ERR_TIMEOUT \<or> status = ERR_RF_NOT_ACTIVATED then Inr None else chipset_status status)
        | Inl e \<Rightarrow> liftD (Inl e))))))"

end
