(* ===== verification/Remote.thy ===== *)
theory Remote
  imports Keys Driver_Common
begin

text \<open>
  A reader at the other end of a TCP connection: the driver \<open>src/driver/remote.rs\<close> and the server it talks
  to, \<open>examples/remote_server.rs\<close>. Messages are lines of JSON. The sockets are a \<open>line_stream\<close>, the serde and
  hex crates are \<open>json_crates\<close> and \<open>text_crates\<close>. A Rust string is its UTF-8 bytes. At the end the two parties
  are put together over a pair of pipes: the remote reader is the reader of the server.
\<close>

section \<open>Messages\<close>

definition MAX_LINE_BYTES :: nat where "MAX_LINE_BYTES = 64 * 1024"

definition newline :: char where "newline = char_of (10 :: nat)"

datatype remote_request =
    RqDetectTypeF (rq_bitrate: string) u16 u8 u8
  | RqTransceive (rq_bitrate: string) string "u16 option"

datatype remote_response_data =
    PollData string string "string option"
  | TransceiveData string

datatype remote_response = RemoteSuccess remote_response_data | RemoteError string

record json_crates =
  request_to_json :: "remote_request \<Rightarrow> string + string"
  request_from_json :: "string \<Rightarrow> string + remote_request"
  response_to_json :: "remote_response \<Rightarrow> string + string"
  response_from_json :: "string \<Rightarrow> string + remote_response"

text \<open>
  What both parties use of a connection: \<open>writeln!\<close> of a text, \<open>flush\<close>, and \<open>take(n).read_line\<close> into an
  empty string, which returns what comes up to and with the next newline, \<open>n\<close> bytes at most, and nothing at
  the end of the stream.
\<close>

record 'n line_stream =
  ls_write_line :: "string \<Rightarrow> 'n \<Rightarrow> (io_error + unit) \<times> 'n"
  ls_flush :: "'n \<Rightarrow> (io_error + unit) \<times> 'n"
  ls_read_line :: "nat \<Rightarrow> 'n \<Rightarrow> (io_error + string) \<times> 'n"

definition ends_with_newline :: "string \<Rightarrow> bool" where
  "ends_with_newline line \<longleftrightarrow> line \<noteq> [] \<and> last line = newline"

definition send_line :: "'n line_stream \<Rightarrow> string \<Rightarrow> 'n \<Rightarrow> (io_error + unit) \<times> 'n" where
  "send_line S text n =
     (case ls_write_line S text n of
        (Inl e, n) \<Rightarrow> (Inl e, n)
      | (Inr _, n) \<Rightarrow> ls_flush S n)"

section \<open>The driver\<close>

definition read_line_bounded :: "'n line_stream \<Rightarrow> 'n \<Rightarrow> (driver_error + string) \<times> 'n" where
  "read_line_bounded S n =
     (case ls_read_line S MAX_LINE_BYTES n of
        (Inl e, n) \<Rightarrow> (Inl (Io e), n)
      | (Inr line, n) \<Rightarrow>
          if length line = MAX_LINE_BYTES \<and> \<not> ends_with_newline line
          then (driver_other ''remote message exceeds maximum line length'', n)
          else (Inr line, n))"

definition send_request :: "'n line_stream \<Rightarrow> json_crates \<Rightarrow> remote_request \<Rightarrow> 'n \<Rightarrow> (driver_error + remote_response) \<times> 'n" where
  "send_request S J request n =
     (case request_to_json J request of
        Inl e \<Rightarrow> (driver_other (''Failed to serialize request: '' @ e), n)
      | Inr json \<Rightarrow>
          (case send_line S json n of
             (Inl e, n) \<Rightarrow> (Inl (Io e), n)
           | (Inr _, n) \<Rightarrow>
               (case read_line_bounded S n of
                  (Inl e, n) \<Rightarrow> (Inl e, n)
                | (Inr line, n) \<Rightarrow>
                    (map_err (\<lambda>e. Other (''Failed to parse response: '' @ e)) (response_from_json J line), n))))"

definition remote_hex_decode :: "text_crates \<Rightarrow> string \<Rightarrow> driver_error + bytes" where
  "remote_hex_decode K s = map_err (\<lambda>e. Other (''Invalid hex: '' @ e)) (hex_decode K s)"

fun polling_result_of :: "text_crates \<Rightarrow> remote_response \<Rightarrow> driver_error + type3_tag_polling_result" where
  "polling_result_of K (RemoteSuccess (PollData idm pmm rd)) =
     bindE (remote_hex_decode K idm) (\<lambda>idm.
     bindE (remote_hex_decode K pmm) (\<lambda>pmm.
     bindE (case rd of Some rd \<Rightarrow> remote_hex_decode K rd | None \<Rightarrow> Inr []) (\<lambda>rd.
     Inr \<lparr>t3_idm = idm, t3_pmm = pmm, t3_optional = rd\<rparr>)))"
| "polling_result_of K (RemoteSuccess (TransceiveData _)) = driver_other ''Unexpected response type''"
| "polling_result_of K (RemoteError m) = driver_other m"

fun transceive_result_of :: "text_crates \<Rightarrow> remote_response \<Rightarrow> driver_error + bytes" where
  "transceive_result_of K (RemoteSuccess (TransceiveData rsp)) = remote_hex_decode K rsp"
| "transceive_result_of K (RemoteSuccess (PollData _ _ _)) = driver_other ''Unexpected response type''"
| "transceive_result_of K (RemoteError m) = driver_other m"

definition remote_detect_type_f ::
    "'n line_stream \<Rightarrow> json_crates \<Rightarrow> text_crates \<Rightarrow> 'n \<Rightarrow> remote_target \<Rightarrow> u16 \<Rightarrow> u8 \<Rightarrow> u8
      \<Rightarrow> (driver_error + type3_tag_polling_result) \<times> 'n" where
  "remote_detect_type_f S J K n target system_code request_code time_slots =
     (case send_request S J (RqDetectTypeF (remote_bitrate target) system_code request_code time_slots) n of
        (Inl e, n) \<Rightarrow> (Inl e, n)
      | (Inr rsp, n) \<Rightarrow> (polling_result_of K rsp, n))"

definition remote_transceive ::
    "'n line_stream \<Rightarrow> json_crates \<Rightarrow> text_crates \<Rightarrow> 'n \<Rightarrow> remote_target \<Rightarrow> bytes \<Rightarrow> u16 option \<Rightarrow> (driver_error + bytes) \<times> 'n" where
  "remote_transceive S J K n target data timeout =
     (case send_request S J (RqTransceive (remote_bitrate target) (hex_encode_upper K data) timeout) n of
        (Inl e, n) \<Rightarrow> (Inl e, n)
      | (Inr rsp, n) \<Rightarrow> (transceive_result_of K rsp, n))"

text \<open>The driver as the API sees it.\<close>

definition remote_environment :: "'n line_stream \<Rightarrow> json_crates \<Rightarrow> text_crates \<Rightarrow> crypto \<Rightarrow> aes_crypto \<Rightarrow> 'n environment" where
  "remote_environment S J K C A =
     \<lparr>detect_type_f = remote_detect_type_f S J K, transceive = remote_transceive S J K, env_des = C, env_aes = A\<rparr>"

section \<open>The server\<close>

text \<open>A panic of the driver ends the thread of the connection: the left result.\<close>

definition poll_response :: "text_crates \<Rightarrow> type3_tag_polling_result \<Rightarrow> remote_response" where
  "poll_response K result =
     RemoteSuccess (PollData (hex_encode_upper K (t3_idm result)) (hex_encode_upper K (t3_pmm result))
       (if t3_optional result = [] then None else Some (hex_encode_upper K (t3_optional result))))"

fun failure_response :: "driver_error \<Rightarrow> string + remote_response" where
  "failure_response (DriverPanicked m) = Inl m"
| "failure_response e = Inr (RemoteError (driver_error_text e))"

fun bad_target_response :: "target_error \<Rightarrow> string + remote_response" where
  "bad_target_response (TargetPanicked m) = Inl m"
| "bad_target_response (UnsupportedTargetError m) = Inr (RemoteError (''Invalid bitrate: unsupported target: '' @ m))"

fun process_request ::
    "text_crates \<Rightarrow> 'd environment \<Rightarrow> remote_request \<Rightarrow> 'd \<Rightarrow> (string + remote_response) \<times> 'd" where
  "process_request K E (RqDetectTypeF rate system_code request_code time_slots) d =
     (case remote_target_new rate of
        Inl e \<Rightarrow> (bad_target_response e, d)
      | Inr target \<Rightarrow>
          (case detect_type_f E d target system_code request_code time_slots of
             (Inr result, d) \<Rightarrow> (Inr (poll_response K result), d)
           | (Inl e, d) \<Rightarrow> (failure_response e, d)))"
| "process_request K E (RqTransceive rate data timeout) d =
     (case remote_target_new rate of
        Inl e \<Rightarrow> (bad_target_response e, d)
      | Inr target \<Rightarrow>
          (case hex_decode K data of
             Inl e \<Rightarrow> (Inr (RemoteError (''Invalid hex data: '' @ e)), d)
           | Inr bs \<Rightarrow>
               (case transceive E d target bs timeout of
                  (Inr rsp, d) \<Rightarrow> (Inr (RemoteSuccess (TransceiveData (hex_encode_upper K rsp))), d)
                | (Inl e, d) \<Rightarrow> (failure_response e, d))))"

definition answer_line :: "json_crates \<Rightarrow> text_crates \<Rightarrow> 'd environment \<Rightarrow> string \<Rightarrow> 'd \<Rightarrow> (string + remote_response) \<times> 'd" where
  "answer_line J K E line d =
     (case request_from_json J line of
        Inr request \<Rightarrow> process_request K E request d
      | Inl e \<Rightarrow> (Inr (RemoteError (''Invalid JSON: '' @ e)), d))"

datatype client_error = ClientIo io_error | ClientJson string | ClientPanicked string

definition send_response :: "'n line_stream \<Rightarrow> json_crates \<Rightarrow> remote_response \<Rightarrow> 'n \<Rightarrow> (client_error + unit) \<times> 'n" where
  "send_response S J rsp n =
     (case response_to_json J rsp of
        Inl e \<Rightarrow> (Inl (ClientJson e), n)
      | Inr json \<Rightarrow> (case send_line S json n of (r, n) \<Rightarrow> (map_err ClientIo r, n)))"

text \<open>The body of the loop behind the read: the loop is left with a result, or goes on.\<close>

definition handle_line ::
    "'n line_stream \<Rightarrow> json_crates \<Rightarrow> text_crates \<Rightarrow> 'd environment \<Rightarrow> string \<Rightarrow> 'n \<Rightarrow> 'd
      \<Rightarrow> (client_error + unit) option \<times> 'n \<times> 'd" where
  "handle_line S J K E line n d =
     (if line = [] then (Some (Inr ()), n, d)
      else if length line = MAX_LINE_BYTES \<and> \<not> ends_with_newline line then
        (case send_response S J (RemoteError ''request line exceeds maximum length'') n of (r, n) \<Rightarrow> (Some r, n, d))
      else if str_trim line = [] then (None, n, d)
      else
        (case answer_line J K E line d of
           (Inl m, d) \<Rightarrow> (Some (Inl (ClientPanicked m)), n, d)
         | (Inr rsp, d) \<Rightarrow>
             (case send_response S J rsp n of
                (Inl e, n) \<Rightarrow> (Some (Inl e), n, d)
              | (Inr _, n) \<Rightarrow> (None, n, d))))"

partial_function (option) handle_client ::
    "'n line_stream \<Rightarrow> json_crates \<Rightarrow> text_crates \<Rightarrow> 'd environment \<Rightarrow> 'n \<Rightarrow> 'd \<Rightarrow> ((client_error + unit) \<times> 'n \<times> 'd) option" where
  "handle_client S J K E n d =
     (case ls_read_line S MAX_LINE_BYTES n of
        (Inl e, n) \<Rightarrow> Some (Inl (ClientIo e), n, d)
      | (Inr line, n) \<Rightarrow>
          (case handle_line S J K E line n d of
             (Some r, n, d) \<Rightarrow> Some (r, n, d)
           | (None, n, d) \<Rightarrow> handle_client S J K E n d))"

section \<open>The two parties together\<close>

text \<open>
  The connection as two pipes. When the client waits for a reply, the thread of the server handles what has
  been sent; it stops reading when nothing is left and goes on at the next call. \<open>utf8\<close> is the validity that
  \<open>read_line\<close> checks.
\<close>

record pipes =
  pp_requests :: string
  pp_replies :: string

definition byte_between :: "nat \<Rightarrow> nat \<Rightarrow> char \<Rightarrow> bool" where
  "byte_between lo hi c \<longleftrightarrow> lo \<le> of_char c \<and> of_char c \<le> hi"

text \<open>The continuation bytes that a first byte asks for.\<close>

definition utf8_tail :: "char \<Rightarrow> (char \<Rightarrow> bool) list option" where
  "utf8_tail c =
     (let k = byte_between 0x80 0xBF in
      if byte_between 0 0x7F c then Some []
      else if byte_between 0xC2 0xDF c then Some [k]
      else if byte_between 0xE0 0xE0 c then Some [byte_between 0xA0 0xBF, k]
      else if byte_between 0xED 0xED c then Some [byte_between 0x80 0x9F, k]
      else if byte_between 0xE1 0xEF c then Some [k, k]
      else if byte_between 0xF0 0xF0 c then Some [byte_between 0x90 0xBF, k, k]
      else if byte_between 0xF1 0xF3 c then Some [k, k, k]
      else if byte_between 0xF4 0xF4 c then Some [byte_between 0x80 0x8F, k, k]
      else None)"

function utf8 :: "string \<Rightarrow> bool" where
  "utf8 s =
     (case s of
        [] \<Rightarrow> True
      | c # cs \<Rightarrow>
          (case utf8_tail c of
             None \<Rightarrow> False
           | Some ks \<Rightarrow> length ks \<le> length cs \<and> list_all2 (\<lambda>k c. k c) ks (take (length ks) cs) \<and> utf8 (drop (length ks) cs)))"
  by pat_completeness auto
termination
  by (relation "measure length") auto

declare utf8.simps [simp del]

fun first_line :: "nat \<Rightarrow> string \<Rightarrow> string" where
  "first_line 0 s = []"
| "first_line (Suc n) [] = []"
| "first_line (Suc n) (c # s) = (if c = newline then [c] else c # first_line n s)"

definition read_pipe :: "nat \<Rightarrow> string \<Rightarrow> (io_error + string) \<times> string" where
  "read_pipe n s =
     (let line = first_line n s in
      (if utf8 line then Inr line else Inl (IoError OtherKind ''stream did not contain valid UTF-8''), drop (length line) s))"

definition server_end :: "pipes line_stream" where
  "server_end =
     \<lparr>ls_write_line = (\<lambda>text p. (Inr (), p\<lparr>pp_replies := pp_replies p @ text @ [newline]\<rparr>)),
      ls_flush = (\<lambda>p. (Inr (), p)),
      ls_read_line = (\<lambda>k p. case read_pipe k (pp_requests p) of (r, rest) \<Rightarrow> (r, p\<lparr>pp_requests := rest\<rparr>))\<rparr>"

definition server_runs :: "json_crates \<Rightarrow> text_crates \<Rightarrow> 'd environment \<Rightarrow> pipes \<times> 'd \<Rightarrow> pipes \<times> 'd" where
  "server_runs J K E = (\<lambda>(p, d). case handle_client server_end J K E p d of Some (_, p, d) \<Rightarrow> (p, d) | None \<Rightarrow> (p, d))"

definition client_end :: "json_crates \<Rightarrow> text_crates \<Rightarrow> 'd environment \<Rightarrow> (pipes \<times> 'd) line_stream" where
  "client_end J K E =
     \<lparr>ls_write_line = (\<lambda>text (p, d). (Inr (), p\<lparr>pp_requests := pp_requests p @ text @ [newline]\<rparr>, d)),
      ls_flush = (\<lambda>n. (Inr (), n)),
      ls_read_line = (\<lambda>k n.
        let (p, d) = (if pp_replies (fst n) = [] then server_runs J K E n else n) in
        case read_pipe k (pp_replies p) of (r, rest) \<Rightarrow> (r, p\<lparr>pp_replies := rest\<rparr>, d))\<rparr>"

section \<open>Lines through a pipe\<close>

text \<open>A text that a line can carry.\<close>

definition line_ok :: "string \<Rightarrow> bool" where
  "line_ok msg \<longleftrightarrow> newline \<notin> set msg \<and> length msg < MAX_LINE_BYTES \<and> utf8 (msg @ [newline]) \<and> str_trim (msg @ [newline]) \<noteq> []"

lemma first_line_complete: "newline \<notin> set msg \<Longrightarrow> length msg < n \<Longrightarrow> first_line n (msg @ newline # rest) = msg @ [newline]"
proof (induction msg arbitrary: n)
  case Nil
  then show ?case by (cases n) auto
next
  case (Cons c msg)
  then show ?case by (cases n) auto
qed

lemma first_line_progress: "first_line n s \<noteq> [] \<Longrightarrow> length s - length (first_line n s) < length s"
  by (cases n; cases s) auto

lemma read_pipe_line:
  assumes "line_ok msg"
  shows "read_pipe MAX_LINE_BYTES (msg @ newline # rest) = (Inr (msg @ [newline]), rest)"
  using assms first_line_complete [of msg MAX_LINE_BYTES rest] by (simp add: line_ok_def read_pipe_def Let_def)

lemma read_pipe_end: "read_pipe n [] = (Inr [], [])"
  by (cases n) (simp_all add: read_pipe_def utf8.simps [of "[]"])

lemma server_end_reads:
  "pp_requests p = msg @ newline # rest \<Longrightarrow> line_ok msg \<Longrightarrow>
    ls_read_line server_end MAX_LINE_BYTES p = (Inr (msg @ [newline]), p\<lparr>pp_requests := rest\<rparr>)"
  by (simp add: server_end_def read_pipe_line)

lemma handle_client_returns: "\<exists>r p' d'. handle_client server_end J K E p d = Some (r, p', d')"
proof (induction "length (pp_requests p)" arbitrary: p d rule: less_induct)
  case less
  obtain r rest where read: "read_pipe MAX_LINE_BYTES (pp_requests p) = (r, rest)" by (cases "read_pipe MAX_LINE_BYTES (pp_requests p)")
  let ?p = "p\<lparr>pp_requests := rest\<rparr>"
  have l: "ls_read_line server_end MAX_LINE_BYTES p = (r, ?p)" using read by (simp add: server_end_def)
  show ?case
  proof (cases r)
    case (Inl e)
    with l show ?thesis by (subst handle_client.simps) simp
  next
    case (Inr line)
    obtain out n d1 where h: "handle_line server_end J K E line ?p d = (out, n, d1)" by (cases "handle_line server_end J K E line ?p d") auto
    show ?thesis
    proof (cases out)
      case None
      with h have "line \<noteq> []" and n: "pp_requests n = rest"
        by (auto simp: handle_line_def send_response_def send_line_def server_end_def split: if_splits sum.splits prod.splits)
      from read Inr have "line = first_line MAX_LINE_BYTES (pp_requests p)" and "rest = drop (length line) (pp_requests p)"
        by (auto simp: read_pipe_def Let_def split: if_splits)
      with \<open>line \<noteq> []\<close> have "length rest < length (pp_requests p)"
        using first_line_progress [of MAX_LINE_BYTES "pp_requests p"] by simp
      with less [of n d1] n have "\<exists>r p' d'. handle_client server_end J K E n d1 = Some (r, p', d')" by simp
      with l Inr h None show ?thesis by (subst handle_client.simps) simp
    next
      case (Some x)
      with l Inr h show ?thesis by (subst handle_client.simps) simp
    qed
  qed
qed

text \<open>The answers to some lines, one after the other.\<close>

fun answers :: "json_crates \<Rightarrow> text_crates \<Rightarrow> 'd environment \<Rightarrow> string list \<Rightarrow> 'd \<Rightarrow> (string list \<times> 'd) option" where
  "answers J K E [] d = Some ([], d)"
| "answers J K E (msg # msgs) d =
     (case answer_line J K E (msg @ [newline]) d of
        (Inl m, d) \<Rightarrow> None
      | (Inr rsp, d) \<Rightarrow>
          (case (response_to_json J rsp, answers J K E msgs d) of
             (Inr json, Some (jsons, d)) \<Rightarrow> Some (json # jsons, d)
           | _ \<Rightarrow> None))"

definition lines :: "string list \<Rightarrow> string" where
  "lines msgs = concat (map (\<lambda>msg. msg @ [newline]) msgs)"

lemma lines_simps [simp]: "lines [] = []" "lines (msg # msgs) = msg @ newline # lines msgs"
  by (simp_all add: lines_def)

lemma lines_answered:
  assumes "list_all line_ok msgs" and "answers J K E msgs d = Some (jsons, d')" and "pp_requests p = lines msgs"
  shows "handle_client server_end J K E p d = Some (Inr (), p\<lparr>pp_requests := [], pp_replies := pp_replies p @ lines jsons\<rparr>, d')"
  using assms
proof (induction msgs arbitrary: p d jsons)
  case Nil
  then show ?case
    by (subst handle_client.simps) (simp add: server_end_def read_pipe_end handle_line_def)
next
  case (Cons msg msgs)
  from Cons.prems(2) obtain rsp d1 json rest where
    a: "answer_line J K E (msg @ [newline]) d = (Inr rsp, d1)" "response_to_json J rsp = Inr json"
    "answers J K E msgs d1 = Some (rest, d')" "jsons = json # rest"
    by (auto split: prod.splits sum.splits option.splits)
  from Cons.prems(1) have ok: "line_ok msg" by simp
  let ?p = "p\<lparr>pp_requests := lines msgs, pp_replies := pp_replies p @ json @ [newline]\<rparr>"
  have read: "ls_read_line server_end MAX_LINE_BYTES p = (Inr (msg @ [newline]), p\<lparr>pp_requests := lines msgs\<rparr>)"
    using server_end_reads [of p msg "lines msgs"] Cons.prems(3) ok by simp
  have handled: "handle_line server_end J K E (msg @ [newline]) (p\<lparr>pp_requests := lines msgs\<rparr>) d = (None, ?p, d1)"
    using a ok by (simp add: handle_line_def ends_with_newline_def line_ok_def send_response_def send_line_def server_end_def)
  have "handle_client server_end J K E p d = handle_client server_end J K E ?p d1"
    by (subst handle_client.simps) (simp add: read handled)
  with Cons.IH [of d1 rest ?p] Cons.prems(1) a show ?case by simp
qed

text \<open>A call of the client is one line there and one line back.\<close>

definition request_carried :: "json_crates \<Rightarrow> remote_request \<Rightarrow> bool" where
  "request_carried J rq \<longleftrightarrow>
     (\<exists>msg. request_to_json J rq = Inr msg \<and> line_ok msg \<and> request_from_json J (msg @ [newline]) = Inr rq)"

definition response_carried :: "json_crates \<Rightarrow> remote_response \<Rightarrow> bool" where
  "response_carried J rsp \<longleftrightarrow>
     (\<exists>msg. response_to_json J rsp = Inr msg \<and> line_ok msg \<and> response_from_json J (msg @ [newline]) = Inr rsp)"

definition idle :: pipes where "idle = \<lparr>pp_requests = [], pp_replies = []\<rparr>"

lemma request_answered:
  assumes "request_carried J rq" and "process_request K E rq d = (Inr rsp, d')" and "response_carried J rsp"
  shows "send_request (client_end J K E) J rq (idle, d) = (Inr rsp, (idle, d'))"
proof -
  from assms(1) obtain q where q: "request_to_json J rq = Inr q" "line_ok q" "request_from_json J (q @ [newline]) = Inr rq"
    by (auto simp: request_carried_def)
  from assms(3) obtain a where a: "response_to_json J rsp = Inr a" "line_ok a" "response_from_json J (a @ [newline]) = Inr rsp"
    by (auto simp: response_carried_def)
  let ?p = "idle\<lparr>pp_requests := q @ [newline]\<rparr>"
  have "handle_client server_end J K E ?p d = Some (Inr (), idle\<lparr>pp_replies := lines [a]\<rparr>, d')"
    using lines_answered [of "[q]" J K E d "[a]" d' ?p] q a(1) assms(2) by (simp add: answer_line_def idle_def)
  then have "server_runs J K E (?p, d) = (idle\<lparr>pp_replies := a @ [newline]\<rparr>, d')" by (simp add: server_runs_def)
  moreover have "read_pipe MAX_LINE_BYTES (a @ [newline]) = (Inr (a @ [newline]), [])" using read_pipe_line [OF a(2), of "[]"] by simp
  ultimately show ?thesis
    using q a by (simp add: send_request_def send_line_def read_line_bounded_def client_end_def ends_with_newline_def idle_def)
qed

text \<open>The reader of the server as the client sees it: the errors are texts.\<close>

definition hex_faithful :: "text_crates \<Rightarrow> bytes \<Rightarrow> bool" where
  "hex_faithful K bs \<longleftrightarrow> hex_decode K (hex_encode_upper K bs) = Inr bs"

definition told :: "driver_error + 'a \<Rightarrow> driver_error + 'a" where
  "told r = map_err (\<lambda>e. Other (driver_error_text e)) r"

fun panicked :: "driver_error + 'a \<Rightarrow> bool" where
  "panicked (Inl (DriverPanicked m)) \<longleftrightarrow> True"
| "panicked r \<longleftrightarrow> False"

definition transceive_response :: "text_crates \<Rightarrow> driver_error + bytes \<Rightarrow> remote_response" where
  "transceive_response K r =
     (case r of Inr bs \<Rightarrow> RemoteSuccess (TransceiveData (hex_encode_upper K bs)) | Inl e \<Rightarrow> RemoteError (driver_error_text e))"

definition detect_response :: "text_crates \<Rightarrow> driver_error + type3_tag_polling_result \<Rightarrow> remote_response" where
  "detect_response K r = (case r of Inr res \<Rightarrow> poll_response K res | Inl e \<Rightarrow> RemoteError (driver_error_text e))"

lemma failure_response_told: "\<not> panicked (Inl e :: driver_error + 'a) \<Longrightarrow> failure_response e = Inr (RemoteError (driver_error_text e))"
  by (cases e) auto

lemma remote_transceive_local:
  assumes "remote_target_new (remote_bitrate t) = Inr t" and "transceive E d t data timeout = (r, d')" and "\<not> panicked r"
    and "hex_faithful K data" and "\<And>bs. r = Inr bs \<Longrightarrow> hex_faithful K bs"
    and "request_carried J (RqTransceive (remote_bitrate t) (hex_encode_upper K data) timeout)"
    and "response_carried J (transceive_response K r)"
  shows "remote_transceive (client_end J K E) J K (idle, d) t data timeout = (told r, (idle, d'))"
proof -
  let ?rq = "RqTransceive (remote_bitrate t) (hex_encode_upper K data) timeout"
  have "process_request K E ?rq d = (Inr (transceive_response K r), d')"
    using assms(1-4) failure_response_told
    by (cases r) (auto simp: hex_faithful_def transceive_response_def)
  from request_answered [OF assms(6) this assms(7)] show ?thesis
    using assms(5) by (cases r) (simp_all add: remote_transceive_def transceive_response_def told_def hex_faithful_def
        remote_hex_decode_def driver_other_def)
qed

lemma remote_detect_local:
  assumes "remote_target_new (remote_bitrate t) = Inr t" and "detect_type_f E d t code request slots = (r, d')" and "\<not> panicked r"
    and "\<And>res. r = Inr res \<Longrightarrow> hex_faithful K (t3_idm res) \<and> hex_faithful K (t3_pmm res) \<and> hex_faithful K (t3_optional res)"
    and "request_carried J (RqDetectTypeF (remote_bitrate t) code request slots)"
    and "response_carried J (detect_response K r)"
  shows "remote_detect_type_f (client_end J K E) J K (idle, d) t code request slots = (told r, (idle, d'))"
proof -
  let ?rq = "RqDetectTypeF (remote_bitrate t) code request slots"
  have "process_request K E ?rq d = (Inr (detect_response K r), d')"
    using assms(1-3) failure_response_told by (cases r) (auto simp: detect_response_def)
  from request_answered [OF assms(5) this assms(6)] show ?thesis
    using assms(4) by (cases r) (auto simp: remote_detect_type_f_def detect_response_def poll_response_def told_def
        hex_faithful_def remote_hex_decode_def driver_other_def bindE_def)
qed

section \<open>Properties\<close>


text \<open>
  The server answers every line, in order: a connection on which some requests stand is read to its end,
  and one line comes back for each, with the answers to the requests taken one after the other.
\<close>

theorem requests_answered_in_order:
  assumes "list_all line_ok msgs" and "answers J K E msgs d = Some (jsons, d')"
  shows "handle_client server_end J K E \<lparr>pp_requests = lines msgs, pp_replies = []\<rparr> d
    = Some (Inr (), \<lparr>pp_requests = [], pp_replies = lines jsons\<rparr>, d') \<and> length jsons = length msgs"
proof -
  have "length jsons = length msgs" if "answers J K E msgs d = Some (jsons, d')" for msgs jsons d
    using that by (induction msgs arbitrary: d jsons) (auto split: prod.splits sum.splits option.splits)
  with assms(2) lines_answered [OF assms, of "\<lparr>pp_requests = lines msgs, pp_replies = []\<rparr>"] show ?thesis by simp
qed

section \<open>Witnesses\<close>

text \<open>Hexadecimal text, a pair of digits for a byte.\<close>

fun demo_hex_decode :: "string \<Rightarrow> string + bytes" where
  "demo_hex_decode [] = Inr []"
| "demo_hex_decode (c # e # s) =
     (case (hex_digit c, hex_digit e) of
        (Some n, Some k) \<Rightarrow> bindE (demo_hex_decode s) (\<lambda>bs. Inr (word_of_nat (16 * n + k) # bs))
      | _ \<Rightarrow> Inl ''Invalid character'')"
| "demo_hex_decode s = Inl ''Odd number of digits''"

definition demo_hex :: text_crates where
  "demo_hex = \<lparr>parse_json = (\<lambda>s. Inl ''unused''), hex_decode = demo_hex_decode,
     hex_encode_upper = (\<lambda>bs. concat (map hex2 bs))\<rparr>"

lemma digit_char_read: "n < 16 \<Longrightarrow> hex_digit (digit_char n) = Some n"
  by (auto simp: digit_char_def hex_digit_def Let_def of_char_of)

lemma demo_hex_read: "hex_decode demo_hex (hex_encode_upper demo_hex bs) = Inr bs"
proof (induction bs)
  case (Cons b bs)
  have "unat b < 256" by (rule unat_u8_less)
  then have "unat b div 16 < 16" by presburger
  with Cons show ?case by (simp add: demo_hex_def hex2_def digit_char_read bindE_def)
qed (simp add: demo_hex_def)

text \<open>A reader that counts its calls, and messages of one letter.\<close>

definition demo_reader :: "nat environment" where
  "demo_reader = \<lparr>detect_type_f = (\<lambda>d t code req slots. (Inl (Communication (Timeout ''no card'')), d + 1)),
     transceive = (\<lambda>d t data timeout. (Inr (rev data), d + 1)), env_des = xor_cipher, env_aes = xor_aes\<rparr>"

definition demo_target :: remote_target where
  "demo_target = projr (remote_target_new ''212F'')"

definition demo_json :: json_crates where
  "demo_json =
     \<lparr>request_to_json = (\<lambda>rq. Inr (case rq of RqTransceive _ _ _ \<Rightarrow> ''T'' | RqDetectTypeF _ _ _ _ \<Rightarrow> ''D'')),
      request_from_json = (\<lambda>s. Inr (if hd s = CHR ''T'' then RqTransceive ''212F'' ''0607'' None else RqDetectTypeF ''212F'' 3 0 0)),
      response_to_json = (\<lambda>rsp. Inr (case rsp of RemoteSuccess _ \<Rightarrow> ''S'' | RemoteError _ \<Rightarrow> ''E'')),
      response_from_json = (\<lambda>s. Inr (if hd s = CHR ''S'' then RemoteSuccess (TransceiveData ''0706'')
        else RemoteError ''timeout error: no card''))\<rparr>"

lemma demo_letter: "c \<in> {CHR ''T'', CHR ''D'', CHR ''S'', CHR ''E''} \<Longrightarrow> line_ok [c]"
proof -
  assume c: "c \<in> {CHR ''T'', CHR ''D'', CHR ''S'', CHR ''E''}"
  have "\<forall>c \<in> {CHR ''T'', CHR ''D'', CHR ''S'', CHR ''E''}. c \<noteq> newline" by code_simp
  moreover have "\<forall>c \<in> {CHR ''T'', CHR ''D'', CHR ''S'', CHR ''E''}. utf8 [c, newline]" by code_simp
  moreover have "\<forall>c \<in> {CHR ''T'', CHR ''D'', CHR ''S'', CHR ''E''}. str_trim [c, newline] \<noteq> []" by code_simp
  ultimately show ?thesis using c by (auto simp: line_ok_def MAX_LINE_BYTES_def)
qed

lemma demo_target_valid: "remote_target_new ''212F'' = Inr demo_target" "remote_bitrate demo_target = ''212F''"
  by code_simp+


theorem requests_answered_in_order_witness:
  "handle_client server_end demo_json demo_hex demo_reader \<lparr>pp_requests = lines [''T'', ''D''], pp_replies = []\<rparr> 0
    = Some (Inr (), \<lparr>pp_requests = [], pp_replies = lines [''S'', ''E'']\<rparr>, 2)"
proof -
  have "answers demo_json demo_hex demo_reader [''T'', ''D''] 0 = Some ([''S'', ''E''], 2)" by code_simp
  from requests_answered_in_order [OF _ this] demo_letter show ?thesis by simp
qed

end
