(* ===== verification/Port100_Card.thy ===== *)
theory Port100_Card
  imports Reader_Card Port100_Target
begin

text \<open>
  The whole way from the reader's API to a card: the Port-100 as the driver of the API
  (\<open>FelicaDriver\<close> as \<open>impl_reader_device\<close> of \<open>src/driver/common.rs\<close> implements it), over a transport that
  delivers a byte stream. What lies between the transport and the card, the reader's firmware and the
  radio, is not part of the sources: \<open>passes_frame\<close> says what it is relied on for.
\<close>

section \<open>The Port-100 as the driver of the API\<close>

text \<open>An operation of the driver as a total function; the lemmas below say when it returns.\<close>

definition port100_environment :: "'w transport \<Rightarrow> crypto \<Rightarrow> aes_crypto \<Rightarrow> 'w port100 environment" where
  "port100_environment T C A =
     \<lparr>detect_type_f = (\<lambda>c t code req slots. the (detect_type_f100 T t code req slots c)),
      transceive = (\<lambda>c t f x. the (device_transceive100 T t f x c)), env_des = C, env_aes = A\<rparr>"

lemma returns_status_command [returns_intros]: "ticking T \<Longrightarrow> always_returns (status_command T code p)"
  unfolding status_command_def by (intro returns_intros)

lemma returns_initiator_protocol [returns_intros]:
  assumes "ticking T"
  shows "always_returns (write_initiator_protocol T es)" and "always_returns (configure_initiator T params)"
    and "always_returns (apply_initiator_defaults T)"
  using assms unfolding configure_initiator_def apply_initiator_defaults_def write_initiator_protocol_def
  by (auto intro!: returns_intros)

lemma returns_initiator_exchange [returns_intros]: "ticking T \<Longrightarrow> always_returns (initiator_exchange_rf T data t)"
  unfolding initiator_exchange_rf_def by (intro returns_intros)

lemma returns_noise_resistance [returns_intros]: "ticking T \<Longrightarrow> always_returns (apply_felica_noise_resistance T)"
  unfolding apply_felica_noise_resistance_def ignore_errors_def tune_felica_receive_settings_def lt_info_def in_get_rct_def
    in_set_rct_def get_property_def get_pd_data_version_def
  by (auto simp: Let_def intro!: returns_intros split: sum.split prod.split option.split)

lemma returns_initiator_rf [returns_intros]: "ticking T \<Longrightarrow> always_returns (set_initiator_rf T s r)"
  unfolding set_initiator_rf_def forget_initiator_settings_def
  by (auto simp: Let_def intro!: returns_intros split: prod.split)

lemma returns_exchanges [returns_intros]:
  assumes "ticking T"
  shows "always_returns (apply_profile T profile)" and "always_returns (exchange_as_initiator T data t)"
  using assms unfolding apply_profile_def exchange_as_initiator_def with_faults_mapped_def by (auto intro!: returns_intros)

lemma port100_returns:
  assumes "ticking T"
  shows "always_returns (device_transceive100 T t f x)" and "always_returns (detect_type_f100 T t code req slots)"
proof -
  have "always_returns (prepare_initiator_exchange T t)"
    unfolding prepare_initiator_exchange_def Let_def using assms by (intro returns_intros)
  moreover have "always_returns (perform_initiator_exchange T f y profile)" for y profile
    unfolding perform_initiator_exchange_def transceive_type2_with_crc_def using assms by (auto intro!: returns_intros)
  ultimately show "always_returns (device_transceive100 T t f x)"
    unfolding device_transceive100_def Let_def by (intro returns_intros)
  show "always_returns (detect_type_f100 T t code req slots)"
    unfolding detect_type_f100_def configure_initiator_for_poll_def Let_def using assms by (auto intro!: returns_intros)
qed

section \<open>A card behind the reader\<close>

text \<open>The reader is set up for the target, so that an exchange is one command.\<close>

definition set_up_for :: "'w transport \<Rightarrow> remote_target \<Rightarrow> 'w port100 \<Rightarrow> bool" where
  "set_up_for T t c \<longleftrightarrow> prepare_initiator_exchange T t c = Some (Inr (profile_for_target t), c) \<and> \<not> strip_crc_a (profile_for_target t)"

text \<open>
  The reader passes a frame to the card and brings back the card's: the exchange command can be written, and
  the stream then delivers an acknowledgement and the answer with that frame, in pieces of any size.
\<close>

definition passes_frame :: "'w transport \<Rightarrow> 'w port100 \<Rightarrow> u16 \<Rightarrow> bytes \<Rightarrow> bytes \<Rightarrow> bool" where
  "passes_frame T c x f rf \<longleftrightarrow>
     (\<exists>command w bs g status rest.
        build Port100Format (build_command_payload 0x04 (u16_to_le (timeout_units x) @ f)) = Some command \<and>
        tr_write T (raw command) (ch_world c) = (Inr (), w) \<and>
        parse Port100Format bs = Some g \<and> raw g = bs \<and> frame_type g = Data (0xD7 # 0x05 # [0, 0, 0, 0, status] @ rf) \<and>
        available T (tr_now T w + ACK_TIMEOUT) (c\<lparr>ch_world := w\<rparr>) (ACK_BYTES @ bs @ rest))"

lemma frame_exchanged:
  assumes "set_up_for T t c" and "passes_frame T c x f rf"
  obtains c' where "device_transceive100 T t f (Some x) c = Some (Inr rf, c')" and "same_chipset c c'"
proof -
  let ?p = "u16_to_le (timeout_units x) @ f"
  from assms(2) obtain command w bs g status rest where
    a: "build Port100Format (build_command_payload 0x04 ?p) = Some command" "tr_write T (raw command) (ch_world c) = (Inr (), w)"
    "parse Port100Format bs = Some g" "raw g = bs" and g: "frame_type g = Data (0xD7 # 0x05 # [0, 0, 0, 0, status] @ rf)"
    and s: "available T (tr_now T w + ACK_TIMEOUT) (c\<lparr>ch_world := w\<rparr>) (ACK_BYTES @ bs @ rest)"
    unfolding passes_frame_def by blast
  have "frame_type g = Data (0xD7 # (0x04 + 1) # [0, 0, 0, 0, status] @ rf)" using g by simp
  from command_answered [OF a this refl s] obtain c' where
    send: "Port100_Chipset.send_command T 0x04 ?p c = Some (Inr ([0, 0, 0, 0, status] @ rf), c')" and same: "same_chipset c c'"
    by blast
  have "exchange_as_initiator T f x c = Some (Inr rf, c')"
    by (simp add: exchange_as_initiator_def with_faults_mapped_def initiator_exchange_rf_def tryD_def bindD_Inr send map_fault_def)
  then have "device_transceive100 T t f (Some x) c = Some (Inr rf, c')"
    using assms(1) by (simp add: device_transceive100_def set_up_for_def bindD_Inr perform_initiator_exchange_def)
  with same show ?thesis using that by blast
qed

section \<open>Properties\<close>

text \<open>
  C12. From the bytes on the wire to the blocks of the card: when the Port-100 passes the frames of a Read
  Without Encryption between the API and a card, the API returns exactly what the direct access to the
  card's file system returns, errors included, whatever the pieces in which the stream arrives; and it
  changes nothing of the reader but the transport and the bytes read ahead.
\<close>

theorem read_through_port100:
  assumes "polled hc i em" and "access_arguments codes bl" and "length bl \<le> 15"
    and "fs_polling_result h = fs_polling_result hc"
    and "encoding (CmdReadWithoutEncryption (t3_idm (fs_polling_result h)) codes bl) = Inr (Plain f)"
    and "handle_frame C2 r2 (fs_device hc) f = Inr (Some rf, em2)"
    and "set_up_for T (fs_target h) (fs_device h)"
    and "passes_frame T (fs_device h) (read_without_encryption_timeout_ms (fs_polling_result h) (length bl)) f rf"
  shows "\<exists>c'. read_without_encryption (port100_environment T C A) codes bl h =
      (access_outcome ''Read Without Encryption'' (read_blocks (em_systems em ! i) (em_store em) codes bl True),
       h\<lparr>fs_device := c'\<rparr>) \<and> same_chipset (fs_device h) c'"
proof -
  note idm = polledD(2) [OF assms(1), folded assms(4)]
  obtain r rf2 where r: "handle_frame C2 r2 (fs_device hc) f = Inr (Some rf2, em)" "response_to_frame r = Inr rf2" "wf_response r"
    "read_answer (length bl) r =
      access_outcome ''Read Without Encryption'' (read_blocks (em_systems em ! i) (em_store em) codes bl True)"
    by (rule card_answers_read [OF assms(1-3) assms(5) [unfolded assms(4)]])
  with assms(6) have rf: "rf2 = rf" by simp
  obtain c' where c': "device_transceive100 T (fs_target h) f
      (Some (read_without_encryption_timeout_ms (fs_polling_result h) (length bl))) (fs_device h) = Some (Inr rf, c')"
    "same_chipset (fs_device h) c'"
    by (rule frame_exchanged [OF assms(7,8)])
  then have "transceive (port100_environment T C A) (fs_device h) (fs_target h) f
      (Some (read_without_encryption_timeout_ms (fs_polling_result h) (length bl))) = (Inr rf, c')"
    by (simp add: port100_environment_def)
  from read_answered_by [OF assms(2,3) idm assms(5) this] r(2,3,4) c'(2) rf show ?thesis by auto
qed

section \<open>Witnesses\<close>

text \<open>A reader that is set up for 212 kbps, with the demonstration card behind it and two frames on the wire.\<close>

definition demo_read_command :: bytes where
  "demo_read_command = frame_of (CmdReadWithoutEncryption [1, 2, 3, 4, 5, 6, 7, 8] [ServiceCode 0x0009] demo_elements)"

definition demo_read_answer :: bytes where
  "demo_read_answer = (case handle_frame xor_cipher demo_key demo_card demo_read_command of Inr (Some rf, _) \<Rightarrow> rf | _ \<Rightarrow> [])"

definition demo_wire_answer :: frame where
  "demo_wire_answer = the (build Port100Format (0xD7 # 0x05 # [0, 0, 0, 0, 8] @ demo_read_answer))"

definition demo_port100 :: "dummy_transport port100" where
  "demo_port100 = (port100_new (with_reads [Inr ACK_BYTES, Inr (raw demo_wire_answer)]))
     \<lparr>initiator_bitrate := Some (''212F'', ''212F''),
      initiator_protocol := record_entries (replicate INITIATOR_PROTOCOL_KEYS None)
        (unknown_entries (replicate INITIATOR_PROTOCOL_KEYS None) IN_SET_PROTOCOL_DEFAULTS)\<rparr>"

definition demo_reader_host :: "dummy_transport port100 felica_standard" where
  "demo_reader_host = \<lparr>fs_device = demo_port100, fs_target = fs_target demo_host,
     fs_polling_result = fs_polling_result demo_host, fs_authenticated_context = None\<rparr>"

lemma demo_set_up: "set_up_for dummy (fs_target demo_host) demo_port100"
proof -
  have "distinct (map fst IN_SET_PROTOCOL_DEFAULTS)"
    and "\<forall>(k, v) \<in> set IN_SET_PROTOCOL_DEFAULTS. unat k < length (replicate INITIATOR_PROTOCOL_KEYS None)"
    by (simp_all add: IN_SET_PROTOCOL_DEFAULTS_def INITIATOR_PROTOCOL_KEYS_def)
  from nothing_unknown [OF this] have "apply_initiator_defaults dummy demo_port100 = Some (Inr (), demo_port100)"
    by (simp add: apply_initiator_defaults_def write_initiator_protocol_def demo_port100_def)
  moreover have "profile_for_target (fs_target demo_host) = \<lparr>ep_params = [], strip_crc_a = False\<rparr>"
    and "remote_bitrate (fs_target demo_host) = ''212F''" "remote_bitrate_recv (fs_target demo_host) = ''212F''"
    by (simp_all add: demo_host_def profile_for_target_def initiator_params_for_bitrate_def remote_bitrate_def
        remote_bitrate_recv_def ends_with_def is_type2_106a_def Let_def)
  moreover have "initiator_bitrate demo_port100 = Some (''212F'', ''212F'')" by (simp add: demo_port100_def)
  ultimately show ?thesis
    by (simp add: set_up_for_def prepare_initiator_exchange_def set_initiator_rf_def apply_profile_def bindD_Inr Let_def)
qed

lemma demo_answered:
  "\<exists>em. handle_frame xor_cipher demo_key demo_card demo_read_command = Inr (Some demo_read_answer, em)"
  "length demo_read_answer < 100"
proof -
  have "case handle_frame xor_cipher demo_key demo_card demo_read_command of Inr (Some rf, _) \<Rightarrow> length rf < 100 | _ \<Rightarrow> False"
    by code_simp
  then show "\<exists>em. handle_frame xor_cipher demo_key demo_card demo_read_command = Inr (Some demo_read_answer, em)"
    "length demo_read_answer < 100"
    by (auto simp: demo_read_answer_def split: sum.splits prod.splits option.splits)
qed

lemma demo_passes: "passes_frame dummy demo_port100 x demo_read_command demo_read_answer"
proof -
  let ?body = "0xD7 # 0x05 # [0, 0, 0, 0, 8] @ demo_read_answer" and ?g = demo_wire_answer
  have "length demo_read_command < 100" by code_simp
  then obtain command where command: "build Port100Format (build_command_payload 0x04 (u16_to_le (timeout_units x) @ demo_read_command))
      = Some command"
    using build_sendable [of "build_command_payload 0x04 (u16_to_le (timeout_units x) @ demo_read_command)" Port100Format]
    by (auto simp: build_command_payload_def max_body_def Port100Format_def u16_to_le_def)
  have built: "build Port100Format ?body = Some ?g"
    using build_sendable [of ?body Port100Format] demo_answered(2)
    by (auto simp: demo_wire_answer_def max_body_def Port100Format_def)
  then have g: "frame_type ?g = Data ?body" by (auto simp: build_eq_Some dest: arg_cong [of _ _ frame_type])
  have parsed: "parse Port100Format (raw ?g) = Some ?g"
    using frame_roundtrip [OF built, of "[]"] demo_answered(2) by (simp add: no_fault_def Port100Format_def)
  let ?w = "(ch_world demo_port100)\<lparr>dt_writes := [raw command]\<rparr>"
  have w: "tr_write dummy (raw command) (ch_world demo_port100) = (Inr (), ?w)"
    by (simp add: dummy_def demo_port100_def port100_new_def with_reads_def)
  have "offers dummy (tr_now dummy ?w + ACK_TIMEOUT) ?w (concat [ACK_BYTES, raw ?g])"
    by (rule dummy_offers [of _ _ "[]"])
      (simp_all add: demo_port100_def port100_new_def with_reads_def dummy_def ACK_TIMEOUT_def millis_def)
  then have "available dummy (tr_now dummy ?w + ACK_TIMEOUT) (demo_port100\<lparr>ch_world := ?w\<rparr>) (ACK_BYTES @ raw ?g @ [])"
    by (simp add: available_def demo_port100_def port100_new_def)
  with command w parsed g show ?thesis unfolding passes_frame_def by blast
qed

theorem read_through_port100_witness:
  "fst (read_without_encryption (port100_environment dummy xor_cipher xor_aes) [ServiceCode 0x0009] demo_elements demo_reader_host)
    = Inr [replicate 16 0xA1, replicate 16 0xA0]"
proof -
  let ?idm = "t3_idm (fs_polling_result demo_reader_host)"
  have "case encoding (CmdReadWithoutEncryption [1, 2, 3, 4, 5, 6, 7, 8] [ServiceCode 0x0009] demo_elements) of
      Inr (Plain f) \<Rightarrow> f = demo_read_command | _ \<Rightarrow> False" by code_simp
  then have f: "encoding (CmdReadWithoutEncryption ?idm [ServiceCode 0x0009] demo_elements) = Inr (Plain demo_read_command)"
    by (auto simp: demo_reader_host_def demo_host_def split: sum.splits command_encoding.splits)
  obtain em where a: "handle_frame xor_cipher demo_key (fs_device demo_host) demo_read_command = Inr (Some demo_read_answer, em)"
    using demo_answered(1) by (auto simp: demo_host_def)
  have up: "set_up_for dummy (fs_target demo_reader_host) (fs_device demo_reader_host)"
    using demo_set_up by (simp add: demo_reader_host_def)
  have pass: "passes_frame dummy (fs_device demo_reader_host) x demo_read_command demo_read_answer" for x
    using demo_passes by (simp add: demo_reader_host_def)
  have "fs_polling_result demo_reader_host = fs_polling_result demo_host" by (simp add: demo_reader_host_def)
  moreover have "read_blocks demo_system demo_store [ServiceCode 0x0009] demo_elements True
      = Inr [replicate 16 0xA1, replicate 16 0xA0]" by code_simp
  moreover have "length demo_elements \<le> 15" by (simp add: demo_elements_def)
  ultimately show ?thesis
    using read_through_port100 [OF demo_polled demo_arguments _ _ f a up pass, of xor_cipher xor_aes]
    by (auto simp: demo_tree access_outcome_def)
qed

end
