(* ===== verification/Usb.thy ===== *)
theory Usb
  imports Driver_Common
begin

text \<open>
  The transports under the readers: \<open>src/transport/usb_common.rs\<close>, \<open>src/transport/usb.rs\<close> and the one of the
  RC-S320, \<open>src/driver/rcs320/transport.rs\<close>. What they call of the rusb crate is the \<open>usb_crate\<close>: a device
  handle of type \<open>'h\<close>, and operations on the state \<open>'u\<close> of the bus. Its descriptors are records of what the
  code reads of them. Debug messages are left out.
\<close>

section \<open>What the code uses of rusb\<close>

datatype rusb_error = RusbTimeout | RusbNoDevice | RusbBusy | RusbAccess | RusbOther nat

datatype transfer_type = TransferControl | TransferIsochronous | TransferBulk | TransferInterrupt

datatype direction = DirIn | DirOut

record endpoint_descriptor =
  ed_address :: u8
  ed_transfer :: transfer_type
  ed_direction :: direction
  ed_max_packet :: u16

record interface_descriptor =
  id_number :: u8
  id_endpoints :: "endpoint_descriptor list"

record config_descriptor =
  cd_number :: u8
  cd_interfaces :: "interface_descriptor list list"

record device_descriptor =
  dd_manufacturer_index :: "u8 option"
  dd_product_index :: "u8 option"

record ('u, 'h) usb_crate =
  us_open :: "u16 \<Rightarrow> u16 \<Rightarrow> 'u \<Rightarrow> 'h option \<times> 'u"
  us_device_descriptor :: "'h \<Rightarrow> 'u \<Rightarrow> (rusb_error + device_descriptor) \<times> 'u"
  us_config_descriptor :: "'h \<Rightarrow> u8 \<Rightarrow> 'u \<Rightarrow> (rusb_error + config_descriptor) \<times> 'u"
  us_kernel_driver_active :: "'h \<Rightarrow> u8 \<Rightarrow> 'u \<Rightarrow> (rusb_error + bool) \<times> 'u"
  us_detach_kernel_driver :: "'h \<Rightarrow> u8 \<Rightarrow> 'u \<Rightarrow> (rusb_error + unit) \<times> 'u"
  us_active_configuration :: "'h \<Rightarrow> 'u \<Rightarrow> (rusb_error + u8) \<times> 'u"
  us_set_active_configuration :: "'h \<Rightarrow> u8 \<Rightarrow> 'u \<Rightarrow> (rusb_error + unit) \<times> 'u"
  us_claim_interface :: "'h \<Rightarrow> u8 \<Rightarrow> 'u \<Rightarrow> (rusb_error + unit) \<times> 'u"
  us_release_interface :: "'h \<Rightarrow> u8 \<Rightarrow> 'u \<Rightarrow> (rusb_error + unit) \<times> 'u"
  us_read_string :: "'h \<Rightarrow> u8 \<Rightarrow> 'u \<Rightarrow> (rusb_error + string) \<times> 'u"
  us_write_bulk :: "'h \<Rightarrow> u8 \<Rightarrow> bytes \<Rightarrow> nat \<Rightarrow> 'u \<Rightarrow> (rusb_error + nat) \<times> 'u"
  us_read_bulk :: "'h \<Rightarrow> u8 \<Rightarrow> nat \<Rightarrow> nat \<Rightarrow> 'u \<Rightarrow> (rusb_error + bytes) \<times> 'u"
  us_write_control :: "'h \<Rightarrow> u8 \<Rightarrow> u8 \<Rightarrow> u16 \<Rightarrow> u16 \<Rightarrow> bytes \<Rightarrow> nat \<Rightarrow> 'u \<Rightarrow> (rusb_error + nat) \<times> 'u"
  us_read_interrupt :: "'h \<Rightarrow> u8 \<Rightarrow> nat \<Rightarrow> nat \<Rightarrow> 'u \<Rightarrow> (rusb_error + bytes) \<times> 'u"
  us_error_text :: "rusb_error \<Rightarrow> string"
  us_now :: "'u \<Rightarrow> nat"
  us_sleep :: "nat \<Rightarrow> 'u \<Rightarrow> 'u"

definition rusb_to_io_error :: "('u, 'h) usb_crate \<Rightarrow> rusb_error \<Rightarrow> io_error" where
  "rusb_to_io_error R e =
     (case e of
        RusbTimeout \<Rightarrow> IoError TimedOut (us_error_text R e)
      | RusbNoDevice \<Rightarrow> IoError NotFound (us_error_text R e)
      | RusbAccess \<Rightarrow> IoError PermissionDenied (us_error_text R e)
      | _ \<Rightarrow> IoError OtherKind (us_error_text R e))"

section \<open>Opening an interface\<close>

text \<open>Calls on the bus in sequence; an error ends them, \<open>bus\<close> turns an error of the crate into one of I/O.\<close>

type_synonym ('u, 'a) usb_op = "'u \<Rightarrow> (io_error + 'a) \<times> 'u"

definition bindU :: "('u, 'a) usb_op \<Rightarrow> ('a \<Rightarrow> ('u, 'b) usb_op) \<Rightarrow> ('u, 'b) usb_op" where
  "bindU m f u = (case m u of (Inl e, u) \<Rightarrow> (Inl e, u) | (Inr x, u) \<Rightarrow> f x u)"

definition liftU :: "io_error + 'a \<Rightarrow> ('u, 'a) usb_op" where
  "liftU r u = (r, u)"

definition bus :: "('u, 'h) usb_crate \<Rightarrow> ('u \<Rightarrow> (rusb_error + 'a) \<times> 'u) \<Rightarrow> ('u, 'a) usb_op" where
  "bus R call u = (case call u of (r, u) \<Rightarrow> (map_err (rusb_to_io_error R) r, u))"

text \<open>A call whose result is looked at.\<close>

definition inspect :: "('u \<Rightarrow> (rusb_error + 'a) \<times> 'u) \<Rightarrow> (rusb_error + 'a \<Rightarrow> 'b) \<Rightarrow> ('u, 'b) usb_op" where
  "inspect call f u = (case call u of (r, u) \<Rightarrow> (Inr (f r), u))"

definition is_ok :: "'e + 'a \<Rightarrow> 'a option" where
  "is_ok r = (case r of Inr x \<Rightarrow> Some x | Inl _ \<Rightarrow> None)"

record ('h, 'e) usb_connection =
  uc_handle :: 'h
  uc_interface :: u8
  uc_manufacturer :: "string option"
  uc_product :: "string option"
  uc_endpoints :: 'e

definition read_name :: "('u, 'h) usb_crate \<Rightarrow> 'h \<Rightarrow> u8 option \<Rightarrow> ('u, string option) usb_op" where
  "read_name R h index =
     (case index of None \<Rightarrow> liftU (Inr None) | Some i \<Rightarrow> inspect (us_read_string R h i) is_ok)"

definition detach_driver :: "('u, 'h) usb_crate \<Rightarrow> 'h \<Rightarrow> u8 \<Rightarrow> ('u, unit) usb_op" where
  "detach_driver R h i =
     bindU (inspect (us_kernel_driver_active R h i) (\<lambda>r. r = Inr True)) (\<lambda>active.
     if active then inspect (us_detach_kernel_driver R h i) (\<lambda>_. ()) else liftU (Inr ()))"

definition ensure_configuration :: "('u, 'h) usb_crate \<Rightarrow> 'h \<Rightarrow> u8 \<Rightarrow> ('u, unit) usb_op" where
  "ensure_configuration R h number =
     bindU (inspect (us_active_configuration R h) (\<lambda>r. case r of Inr active \<Rightarrow> active \<noteq> number | Inl _ \<Rightarrow> True)) (\<lambda>needed.
     if needed then inspect (us_set_active_configuration R h number) (\<lambda>_. ()) else liftU (Inr ()))"

definition open_usb_interface ::
    "('u, 'h) usb_crate \<Rightarrow> u16 \<Rightarrow> u16 \<Rightarrow> string \<Rightarrow> (config_descriptor \<Rightarrow> io_error + u8 \<times> 'e) \<Rightarrow> ('u, ('h, 'e) usb_connection) usb_op" where
  "open_usb_interface R vendor pid not_found select =
     bindU (\<lambda>u. case us_open R vendor pid u of
         (None, u) \<Rightarrow> (Inl (IoError NotFound not_found), u) | (Some h, u) \<Rightarrow> (Inr h, u)) (\<lambda>h.
     bindU (bus R (us_device_descriptor R h)) (\<lambda>descriptor.
     bindU (bus R (us_config_descriptor R h 0)) (\<lambda>config.
     bindU (liftU (select config)) (\<lambda>(i, eps).
     bindU (detach_driver R h i) (\<lambda>_.
     bindU (ensure_configuration R h (cd_number config)) (\<lambda>_.
     bindU (bus R (us_claim_interface R h i)) (\<lambda>_.
     bindU (read_name R h (dd_manufacturer_index descriptor)) (\<lambda>manufacturer.
     bindU (read_name R h (dd_product_index descriptor)) (\<lambda>prod.
     liftU (Inr \<lparr>uc_handle = h, uc_interface = i, uc_manufacturer = manufacturer, uc_product = prod,
       uc_endpoints = eps\<rparr>))))))))))"

section \<open>Choosing the endpoints\<close>

record bulk_scan =
  bs_in :: "u8 option"
  bs_out :: "u8 option"
  bs_packet :: u16

definition scan_endpoint :: "endpoint_descriptor \<Rightarrow> bulk_scan \<Rightarrow> bulk_scan" where
  "scan_endpoint ep s =
     (if ed_transfer ep \<noteq> TransferBulk then s
      else case ed_direction ep of
          DirIn \<Rightarrow> if bs_in s = None then s\<lparr>bs_in := Some (ed_address ep), bs_packet := ed_max_packet ep\<rparr> else s
        | DirOut \<Rightarrow> if bs_out s = None
            then s\<lparr>bs_out := Some (ed_address ep), bs_packet := (if bs_packet s = 0 then ed_max_packet ep else bs_packet s)\<rparr>
            else s)"

text \<open>The scan ends behind the first descriptor at whose end both endpoints are known.\<close>

fun scan_descriptors :: "interface_descriptor list \<Rightarrow> bulk_scan \<Rightarrow> u8 option \<times> bulk_scan" where
  "scan_descriptors [] s = (None, s)"
| "scan_descriptors (d # ds) s =
     (let s = fold scan_endpoint (id_endpoints d) s in
      if bs_in s \<noteq> None \<and> bs_out s \<noteq> None then (Some (id_number d), s) else scan_descriptors ds s)"

record bulk_endpoints =
  be_in :: u8
  be_out :: u8
  be_max_packet :: u16

definition io_other :: "string \<Rightarrow> io_error" where
  "io_other m = IoError OtherKind m"

definition select_bulk_endpoints :: "config_descriptor \<Rightarrow> io_error + u8 \<times> bulk_endpoints" where
  "select_bulk_endpoints config =
     (case scan_descriptors (concat (cd_interfaces config)) \<lparr>bs_in = None, bs_out = None, bs_packet = 0\<rparr> of (i, s) \<Rightarrow>
      bindE (ok_or (bs_in s) (io_other ''missing bulk IN endpoint'')) (\<lambda>in_ep.
      bindE (ok_or (bs_out s) (io_other ''missing bulk OUT endpoint'')) (\<lambda>out_ep.
      Inr (case i of Some i \<Rightarrow> i | None \<Rightarrow> 0, \<lparr>be_in = in_ep, be_out = out_ep, be_max_packet = bs_packet s\<rparr>))))"

definition select_interrupt_in_endpoint :: "config_descriptor \<Rightarrow> io_error + u8 \<times> u8" where
  "select_interrupt_in_endpoint config =
     ok_or (List.find (\<lambda>_. True)
         [(id_number d, ed_address ep). d \<leftarrow> concat (cd_interfaces config), ep \<leftarrow> id_endpoints d,
           ed_transfer ep = TransferInterrupt \<and> ed_direction ep = DirIn])
       (io_other ''missing interrupt IN endpoint'')"

section \<open>Bulk transfers\<close>

record 'h usb_transport =
  ut_handle :: "'h option"
  ut_in :: u8
  ut_out :: u8
  ut_max_packet :: u16
  ut_interface :: u8
  ut_manufacturer :: "string option"
  ut_product :: "string option"

record ('u, 'h) usb_world =
  uw_bus :: 'u
  uw_device :: "'h usb_transport"

definition usb_open :: "('u, 'h) usb_crate \<Rightarrow> u16 \<Rightarrow> u16 \<Rightarrow> ('u, 'h usb_transport) usb_op" where
  "usb_open R vendor pid =
     bindU (open_usb_interface R vendor pid ''USB device not found'' select_bulk_endpoints) (\<lambda>c.
     liftU (Inr \<lparr>ut_handle = Some (uc_handle c), ut_in = be_in (uc_endpoints c), ut_out = be_out (uc_endpoints c),
       ut_max_packet = be_max_packet (uc_endpoints c), ut_interface = uc_interface c,
       ut_manufacturer = uc_manufacturer c, ut_product = uc_product c\<rparr>))"

definition not_connected :: io_error where
  "not_connected = IoError NotConnected ''USB handle closed''"

definition USB_DEFAULT_TIMEOUT :: nat where "USB_DEFAULT_TIMEOUT = millis 100"

text \<open>An operation on the bus, with the transport beside it.\<close>

definition on_bus :: "('u, 'a) usb_op \<Rightarrow> ('u, 'h) usb_world \<Rightarrow> (io_error + 'a) \<times> ('u, 'h) usb_world" where
  "on_bus m w = (case m (uw_bus w) of (r, u) \<Rightarrow> (r, w\<lparr>uw_bus := u\<rparr>))"

text \<open>\<open>is_multiple_of\<close> of the length as \<open>u16\<close>: then a transfer ends with an empty packet.\<close>

definition needs_empty_packet :: "u16 \<Rightarrow> bytes \<Rightarrow> bool" where
  "needs_empty_packet packet data \<longleftrightarrow> packet > 0 \<and> unat (u16_of (length data)) mod unat packet = 0"

definition usb_write :: "('u, 'h) usb_crate \<Rightarrow> bytes \<Rightarrow> ('u, 'h) usb_world \<Rightarrow> (io_error + unit) \<times> ('u, 'h) usb_world" where
  "usb_write R data w =
     (let t = uw_device w in
      case ut_handle t of
        None \<Rightarrow> (Inl not_connected, w)
      | Some h \<Rightarrow>
          on_bus (bindU (bus R (us_write_bulk R h (ut_out t) data USB_DEFAULT_TIMEOUT)) (\<lambda>_.
            if needs_empty_packet (ut_max_packet t) data
            then bindU (bus R (us_write_bulk R h (ut_out t) [] USB_DEFAULT_TIMEOUT)) (\<lambda>_. liftU (Inr ()))
            else liftU (Inr ()))) w)"

definition nonempty_read :: "string \<Rightarrow> bytes \<Rightarrow> ('u, bytes) usb_op" where
  "nonempty_read m data = liftU (if data = [] then Inl (IoError UnexpectedEof m) else Inr data)"

definition usb_read :: "('u, 'h) usb_crate \<Rightarrow> nat \<Rightarrow> ('u, 'h) usb_world \<Rightarrow> (io_error + bytes) \<times> ('u, 'h) usb_world" where
  "usb_read R timeout w =
     (let t = uw_device w in
      case ut_handle t of
        None \<Rightarrow> (Inl not_connected, w)
      | Some h \<Rightarrow>
          on_bus (bindU (bus R (us_read_bulk R h (ut_in t) 512 timeout)) (nonempty_read ''USB bulk read returned zero'')) w)"

definition usb_close :: "('u, 'h) usb_crate \<Rightarrow> ('u, 'h) usb_world \<Rightarrow> (io_error + unit) \<times> ('u, 'h) usb_world" where
  "usb_close R w =
     (case ut_handle (uw_device w) of
        None \<Rightarrow> (Inr (), w)
      | Some h \<Rightarrow>
          on_bus (inspect (us_release_interface R h (ut_interface (uw_device w))) (\<lambda>_. ()))
            (w\<lparr>uw_device := (uw_device w)\<lparr>ut_handle := None\<rparr>\<rparr>))"

definition usb_transport_of :: "('u, 'h) usb_crate \<Rightarrow> ('u, 'h) usb_world transport" where
  "usb_transport_of R =
     \<lparr>tr_write = usb_write R, tr_read = usb_read R, tr_close = usb_close R,
      tr_now = (\<lambda>w. us_now R (uw_bus w)), tr_sleep = (\<lambda>t w. w\<lparr>uw_bus := us_sleep R t (uw_bus w)\<rparr>),
      manufacturer_name = (\<lambda>w. ut_manufacturer (uw_device w)), product_name = (\<lambda>w. ut_product (uw_device w))\<rparr>"

section \<open>Control and interrupt transfers\<close>

definition RCS320_PID :: u16 where "RCS320_PID = 0x01BB"
definition RCS320_USB_TIMEOUT :: nat where "RCS320_USB_TIMEOUT = millis 1000"

record 'h rcs320_transport =
  rt_handle :: "'h option"
  rt_interrupt_in :: u8
  rt_interface :: u8
  rt_manufacturer :: "string option"
  rt_product :: "string option"
  rt_timeout :: nat

record ('u, 'h) rcs320_world =
  rw_bus :: 'u
  rw_device :: "'h rcs320_transport"

definition rcs320_open_with_ids :: "('u, 'h) usb_crate \<Rightarrow> u16 \<Rightarrow> u16 \<Rightarrow> ('u, 'h rcs320_transport) usb_op" where
  "rcs320_open_with_ids R vendor pid =
     bindU (open_usb_interface R vendor pid ''RC-S320 device not found'' select_interrupt_in_endpoint) (\<lambda>c.
     liftU (Inr \<lparr>rt_handle = Some (uc_handle c), rt_interrupt_in = uc_endpoints c, rt_interface = uc_interface c,
       rt_manufacturer = uc_manufacturer c, rt_product = uc_product c, rt_timeout = RCS320_USB_TIMEOUT\<rparr>))"

definition rcs320_open :: "('u, 'h) usb_crate \<Rightarrow> ('u, 'h rcs320_transport) usb_op" where
  "rcs320_open R = rcs320_open_with_ids R SONY_VENDOR_ID RCS320_PID"

definition on_bus320 :: "('u, 'a) usb_op \<Rightarrow> ('u, 'h) rcs320_world \<Rightarrow> (io_error + 'a) \<times> ('u, 'h) rcs320_world" where
  "on_bus320 m w = (case m (rw_bus w) of (r, u) \<Rightarrow> (r, w\<lparr>rw_bus := u\<rparr>))"

text \<open>\<open>0x40\<close>: to a device, vendor request, out.\<close>

definition control_send :: "('u, 'h) usb_crate \<Rightarrow> bytes \<Rightarrow> ('u, 'h) rcs320_world \<Rightarrow> (io_error + nat) \<times> ('u, 'h) rcs320_world" where
  "control_send R data w =
     (let t = rw_device w in
      case rt_handle t of
        None \<Rightarrow> (Inl not_connected, w)
      | Some h \<Rightarrow> on_bus320 (bus R (us_write_control R h 0x40 0 0 0 data (rt_timeout t))) w)"

definition interrupt_recv :: "('u, 'h) usb_crate \<Rightarrow> nat \<Rightarrow> ('u, 'h) rcs320_world \<Rightarrow> (io_error + bytes) \<times> ('u, 'h) rcs320_world" where
  "interrupt_recv R timeout w =
     (let t = rw_device w in
      case rt_handle t of
        None \<Rightarrow> (Inl not_connected, w)
      | Some h \<Rightarrow>
          on_bus320 (bindU (bus R (us_read_interrupt R h (rt_interrupt_in t) 256 timeout))
            (nonempty_read ''USB interrupt read returned zero'')) w)"

definition rcs320_close :: "('u, 'h) usb_crate \<Rightarrow> ('u, 'h) rcs320_world \<Rightarrow> (io_error + unit) \<times> ('u, 'h) rcs320_world" where
  "rcs320_close R w =
     (case rt_handle (rw_device w) of
        None \<Rightarrow> (Inr (), w)
      | Some h \<Rightarrow>
          on_bus320 (inspect (us_release_interface R h (rt_interface (rw_device w))) (\<lambda>_. ()))
            (w\<lparr>rw_device := (rw_device w)\<lparr>rt_handle := None\<rparr>\<rparr>))"

definition rcs320_write :: "('u, 'h) usb_crate \<Rightarrow> bytes \<Rightarrow> ('u, 'h) rcs320_world \<Rightarrow> (io_error + unit) \<times> ('u, 'h) rcs320_world" where
  "rcs320_write R data w = (case control_send R data w of (r, w) \<Rightarrow> (bindE r (\<lambda>_. Inr ()), w))"

definition rcs320_transport_of :: "('u, 'h) usb_crate \<Rightarrow> ('u, 'h) rcs320_world transport" where
  "rcs320_transport_of R =
     \<lparr>tr_write = rcs320_write R, tr_read = interrupt_recv R, tr_close = rcs320_close R,
      tr_now = (\<lambda>w. us_now R (rw_bus w)), tr_sleep = (\<lambda>t w. w\<lparr>rw_bus := us_sleep R t (rw_bus w)\<rparr>),
      manufacturer_name = (\<lambda>w. rt_manufacturer (rw_device w)), product_name = (\<lambda>w. rt_product (rw_device w))\<rparr>"

section \<open>What the scan finds\<close>

definition first_bulk :: "direction \<Rightarrow> endpoint_descriptor list \<Rightarrow> endpoint_descriptor option" where
  "first_bulk dir eps = List.find (\<lambda>ep. ed_transfer ep = TransferBulk \<and> ed_direction ep = dir) eps"

definition endpoints_of :: "interface_descriptor list \<Rightarrow> endpoint_descriptor list" where
  "endpoints_of ds = concat (map id_endpoints ds)"

lemma first_bulk_simps [simp]:
  "first_bulk dir [] = None"
  "first_bulk dir (ep # eps) = (if ed_transfer ep = TransferBulk \<and> ed_direction ep = dir then Some ep else first_bulk dir eps)"
  by (simp_all add: first_bulk_def)

lemma first_bulk_append:
  "first_bulk dir (xs @ ys) = (case first_bulk dir xs of Some ep \<Rightarrow> Some ep | None \<Rightarrow> first_bulk dir ys)"
  by (induction xs) simp_all

lemma scan_endpoints:
  "bs_in (fold scan_endpoint eps s) = (case bs_in s of Some a \<Rightarrow> Some a | None \<Rightarrow> map_option ed_address (first_bulk DirIn eps))"
  "bs_out (fold scan_endpoint eps s) = (case bs_out s of Some a \<Rightarrow> Some a | None \<Rightarrow> map_option ed_address (first_bulk DirOut eps))"
  by (induction eps arbitrary: s) (auto simp: scan_endpoint_def split: option.split direction.split)

text \<open>A scan that has seen \<open>seen\<close> and not found both endpoints there.\<close>

definition scanned :: "endpoint_descriptor list \<Rightarrow> bulk_scan \<Rightarrow> bool" where
  "scanned seen s \<longleftrightarrow> bs_in s = map_option ed_address (first_bulk DirIn seen) \<and>
     bs_out s = map_option ed_address (first_bulk DirOut seen)"

lemma scanned_more: "scanned seen s \<Longrightarrow> scanned (seen @ eps) (fold scan_endpoint eps s)"
  by (auto simp: scanned_def scan_endpoints first_bulk_append split: option.split)

definition incomplete :: "endpoint_descriptor list \<Rightarrow> bool" where
  "incomplete seen \<longleftrightarrow> first_bulk DirIn seen = None \<or> first_bulk DirOut seen = None"

lemma scan_stops:
  assumes "scan_descriptors ds s = (i, s')" and "scanned seen s" and "incomplete seen"
  shows "case i of
      Some k \<Rightarrow> \<exists>before d after. ds = before @ d # after \<and> k = id_number d \<and> scanned (seen @ endpoints_of (before @ [d])) s' \<and>
        incomplete (seen @ endpoints_of before)
    | None \<Rightarrow> bs_in s' = None \<or> bs_out s' = None"
  using assms
proof (induction ds arbitrary: s seen)
  case Nil
  then show ?case by (auto simp: scanned_def incomplete_def)
next
  case (Cons d ds)
  let ?s = "fold scan_endpoint (id_endpoints d) s"
  have here: "scanned (seen @ id_endpoints d) ?s" by (rule scanned_more [OF Cons.prems(2)])
  show ?case
  proof (cases "bs_in ?s \<noteq> None \<and> bs_out ?s \<noteq> None")
    case True
    with Cons.prems(1) have "i = Some (id_number d)" "s' = ?s" by (auto simp: Let_def)
    with here Cons.prems(3) show ?thesis
      by (simp add: endpoints_of_def) (rule exI [of _ "[]"], simp)
  next
    case False
    with Cons.prems(1) have scan: "scan_descriptors ds ?s = (i, s')" by (auto simp: Let_def)
    have "incomplete (seen @ id_endpoints d)" using False here by (auto simp: scanned_def incomplete_def)
    note IH = Cons.IH [OF scan here this]
    show ?thesis
    proof (cases i)
      case (Some k)
      with IH obtain before e after where e: "ds = before @ e # after" "k = id_number e"
        "scanned ((seen @ id_endpoints d) @ endpoints_of (before @ [e])) s'"
        "incomplete ((seen @ id_endpoints d) @ endpoints_of before)" by auto
      then have "d # ds = (d # before) @ e # after" "scanned (seen @ endpoints_of ((d # before) @ [e])) s'"
        "incomplete (seen @ endpoints_of (d # before))"
        by (simp_all add: endpoints_of_def)
      with e(2) Some show ?thesis by (simp only: option.case) blast
    qed (use IH in simp)
  qed
qed

text \<open>
  The endpoints are the first of their direction in all descriptors up to the one whose interface is claimed:
  the first descriptor at whose end both are known.
\<close>

lemma bulk_endpoints_selected:
  assumes "select_bulk_endpoints config = Inr (k, eps)"
  obtains before d after i_ep o_ep where "concat (cd_interfaces config) = before @ d # after" and "k = id_number d"
    and "first_bulk DirIn (endpoints_of (before @ [d])) = Some i_ep" and "be_in eps = ed_address i_ep"
    and "first_bulk DirOut (endpoints_of (before @ [d])) = Some o_ep" and "be_out eps = ed_address o_ep"
    and "first_bulk DirIn (endpoints_of before) = None \<or> first_bulk DirOut (endpoints_of before) = None"
proof -
  let ?ds = "concat (cd_interfaces config)" and ?s = "\<lparr>bs_in = None, bs_out = None, bs_packet = 0\<rparr>"
  obtain i s' where scan: "scan_descriptors ?ds ?s = (i, s')" by (cases "scan_descriptors ?ds ?s")
  have "scanned [] ?s" "incomplete []" by (simp_all add: scanned_def incomplete_def)
  note stop = scan_stops [OF scan this]
  from assms scan obtain a b where ab: "bs_in s' = Some a" "bs_out s' = Some b" and k: "k = (case i of Some i \<Rightarrow> i | None \<Rightarrow> 0)"
    and eps: "be_in eps = a" "be_out eps = b"
    by (auto simp: select_bulk_endpoints_def bindE_def ok_or_def split: sum.splits option.splits)
  with stop obtain m before d after where i: "i = Some m" and d: "?ds = before @ d # after" "m = id_number d"
    "scanned (endpoints_of (before @ [d])) s'" "incomplete (endpoints_of before)"
    by (cases i) auto
  from d(3) ab have "map_option ed_address (first_bulk DirIn (endpoints_of (before @ [d]))) = Some a"
    "map_option ed_address (first_bulk DirOut (endpoints_of (before @ [d]))) = Some b"
    by (simp_all add: scanned_def)
  then obtain i_ep o_ep where "first_bulk DirIn (endpoints_of (before @ [d])) = Some i_ep" "a = ed_address i_ep"
    "first_bulk DirOut (endpoints_of (before @ [d])) = Some o_ep" "b = ed_address o_ep" by auto
  then show ?thesis using that [OF d(1)] d(2,4) k eps i by (simp add: incomplete_def)
qed

text \<open>
  So the two endpoints need not belong to the claimed interface: here the IN endpoint is one of interface 0,
  and interface 1 is claimed.
\<close>

definition split_config :: config_descriptor where
  "split_config = \<lparr>cd_number = 1, cd_interfaces =
     [[\<lparr>id_number = 0, id_endpoints = [\<lparr>ed_address = 0x81, ed_transfer = TransferBulk, ed_direction = DirIn, ed_max_packet = 64\<rparr>]\<rparr>],
      [\<lparr>id_number = 1, id_endpoints = [\<lparr>ed_address = 0x02, ed_transfer = TransferBulk, ed_direction = DirOut, ed_max_packet = 64\<rparr>,
        \<lparr>ed_address = 0x83, ed_transfer = TransferBulk, ed_direction = DirIn, ed_max_packet = 64\<rparr>]\<rparr>]]\<rparr>"

lemma endpoints_across_interfaces:
  "select_bulk_endpoints split_config = Inr (1, \<lparr>be_in = 0x81, be_out = 0x02, be_max_packet = 64\<rparr>)"
  by (simp add: select_bulk_endpoints_def split_config_def scan_endpoint_def Let_def bindE_def ok_or_def)

section \<open>A closed transport\<close>

lemma usb_closed:
  assumes "usb_close R w = (r, w')"
  shows "r = Inr ()" and "ut_handle (uw_device w') = None"
  using assms by (auto simp: usb_close_def on_bus_def inspect_def split: option.splits prod.splits)

lemma usb_closed_refuses:
  assumes "ut_handle (uw_device w) = None"
  shows "usb_write R data w = (Inl not_connected, w)" and "usb_read R t w = (Inl not_connected, w)" and "usb_close R w = (Inr (), w)"
  using assms by (simp_all add: usb_write_def usb_read_def usb_close_def)

lemma rcs320_closed:
  assumes "rcs320_close R w = (r, w')"
  shows "r = Inr ()" and "rt_handle (rw_device w') = None"
  using assms by (auto simp: rcs320_close_def on_bus320_def inspect_def split: option.splits prod.splits)

lemma rcs320_closed_refuses:
  assumes "rt_handle (rw_device w) = None"
  shows "rcs320_write R data w = (Inl not_connected, w)" and "interrupt_recv R t w = (Inl not_connected, w)"
    and "rcs320_close R w = (Inr (), w)"
  using assms by (simp_all add: rcs320_write_def control_send_def interrupt_recv_def rcs320_close_def bindE_def)

text \<open>What a read delivers is never empty, so an empty read is no end of the data that the drivers could miss.\<close>

lemma usb_read_nonempty: "usb_read R t w = (Inr data, w') \<Longrightarrow> data \<noteq> []"
  by (auto simp: usb_read_def Let_def on_bus_def bindU_def bus_def nonempty_read_def liftU_def
      split: option.splits prod.splits sum.splits if_splits)

end
