(* ===== verification/Readers.thy ===== *)
theory Readers
  imports Usb Port100_Initiator Iso_Dep Rcs320 Rcs956_Device
begin

text \<open>
  The facade over the four readers, \<open>src/reader.rs\<close>, with the functions of the drivers that open them over
  USB and the dispatch of \<open>impl_reader_device\<close> (\<open>src/driver/common.rs\<close>). A boxed device is a case of
  \<open>reader_device\<close>; the state of the bus is part of its transport. An error while a device is made drops its
  transport, which closes it.
\<close>

section \<open>Readers\<close>

datatype ('u, 'h) reader_device =
    Port100Reader "('u, 'h) usb_world port100" device_metadata
  | Port400Reader "('u, 'h) usb_world port400"
  | Rcs320Reader "('u, 'h) rcs320_world rcs320"
  | Rcs956Reader "('u, 'h) usb_world device956"

fun reader_metadata :: "('u, 'h) reader_device \<Rightarrow> device_metadata" where
  "reader_metadata (Port100Reader c m) = m"
| "reader_metadata (Port400Reader c) = meta c"
| "reader_metadata (Rcs320Reader c) = meta320 c"
| "reader_metadata (Rcs956Reader c) = meta956 c"

definition reader_vendor_name :: "('u, 'h) reader_device \<Rightarrow> string option" where
  "reader_vendor_name d = dm_vendor_name (reader_metadata d)"

definition reader_product_name :: "('u, 'h) reader_device \<Rightarrow> string option" where
  "reader_product_name d = dm_product_name (reader_metadata d)"

definition reader_chipset_name :: "('u, 'h) reader_device \<Rightarrow> string" where
  "reader_chipset_name d = dm_chipset_name (reader_metadata d)"

text \<open>The result of an operation of the driver, in the case of its reader.\<close>

definition in_case :: "('s \<Rightarrow> ('u, 'h) reader_device) \<Rightarrow> ('s, 'a) driver_op \<Rightarrow> 's \<Rightarrow> ((driver_error + 'a) \<times> ('u, 'h) reader_device) option" where
  "in_case wrap m s = map_option (\<lambda>(r, s). (r, wrap s)) (m s)"

fun reader_detect_type_f ::
    "('u, 'h) usb_crate \<Rightarrow> (response \<Rightarrow> string) \<Rightarrow> remote_target \<Rightarrow> u16 \<Rightarrow> u8 \<Rightarrow> u8 \<Rightarrow>
      (('u, 'h) reader_device, type3_tag_polling_result) driver_op" where
  "reader_detect_type_f R dbg t code req slots (Port100Reader c m) =
     in_case (\<lambda>c. Port100Reader c m) (detect_type_f100 (usb_transport_of R) t code req slots) c"
| "reader_detect_type_f R dbg t code req slots (Port400Reader c) =
     in_case Port400Reader (detect_type_f400 (usb_transport_of R) dbg t code req slots) c"
| "reader_detect_type_f R dbg t code req slots (Rcs320Reader c) =
     in_case Rcs320Reader (detect_type_f320 (rcs320_transport_of R) t code req slots) c"
| "reader_detect_type_f R dbg t code req slots (Rcs956Reader c) =
     in_case Rcs956Reader (detect_type_f956 (usb_transport_of R) t code req slots) c"

fun reader_transceive ::
    "('u, 'h) usb_crate \<Rightarrow> remote_target \<Rightarrow> bytes \<Rightarrow> u16 option \<Rightarrow> (('u, 'h) reader_device, bytes) driver_op" where
  "reader_transceive R t data timeout (Port100Reader c m) =
     in_case (\<lambda>c. Port100Reader c m) (device_transceive100 (usb_transport_of R) t data timeout) c"
| "reader_transceive R t data timeout (Port400Reader c) =
     in_case Port400Reader (device_transceive400 (usb_transport_of R) data timeout) c"
| "reader_transceive R t data timeout (Rcs320Reader c) =
     in_case Rcs320Reader (transceive320 (rcs320_transport_of R) t data timeout) c"
| "reader_transceive R t data timeout (Rcs956Reader c) =
     in_case Rcs956Reader (transceive956 (usb_transport_of R) t data timeout) c"

fun reader_close :: "('u, 'h) usb_crate \<Rightarrow> (('u, 'h) reader_device, unit) driver_op" where
  "reader_close R (Port100Reader c m) = in_case (\<lambda>c. Port100Reader c m) (chipset_close (usb_transport_of R)) c"
| "reader_close R (Port400Reader c) = in_case Port400Reader (device_close400 (usb_transport_of R)) c"
| "reader_close R (Rcs320Reader c) = in_case Rcs320Reader (close320 (rcs320_transport_of R)) c"
| "reader_close R (Rcs956Reader c) = in_case Rcs956Reader (device_close956 (usb_transport_of R)) c"

section \<open>Opening a reader\<close>

text \<open>
  A device made over a transport: an operation on the bus. \<open>drop\<close> is what becomes of the bus when making it
  fails.
\<close>

definition built ::
    "('w \<Rightarrow> 'u) \<Rightarrow> ('w \<Rightarrow> 'u) \<Rightarrow> ('a \<Rightarrow> ('w, 'z) channel_scheme \<Rightarrow> ('u, 'h) reader_device) \<Rightarrow>
      ((driver_error + 'a) \<times> ('w, 'z) channel_scheme) option \<Rightarrow> ((driver_error + ('u, 'h) reader_device) \<times> 'u) option" where
  "built bus_of dropped wrap made =
     (case made of
        None \<Rightarrow> None
      | Some (Inl e, c) \<Rightarrow> Some (Inl e, dropped (ch_world c))
      | Some (Inr x, c) \<Rightarrow> Some (Inr (wrap x c), bus_of (ch_world c)))"

definition usb_dropped :: "('u, 'h) usb_crate \<Rightarrow> ('u, 'h) usb_world \<Rightarrow> 'u" where
  "usb_dropped R w = uw_bus (snd (usb_close R w))"

definition rcs320_dropped :: "('u, 'h) usb_crate \<Rightarrow> ('u, 'h) rcs320_world \<Rightarrow> 'u" where
  "rcs320_dropped R w = rw_bus (snd (rcs320_close R w))"

definition open_port100 :: "('u, 'h) usb_crate \<Rightarrow> ('u, ('u, 'h) reader_device) driver_op" where
  "open_port100 R =
     open_usb_device (usb_open R)
       (\<lambda>t u. built uw_bus (usb_dropped R) (\<lambda>m c. Port100Reader c m)
         (port100_init (usb_transport_of R) (port100_new \<lparr>uw_bus = u, uw_device = t\<rparr>)))
       SONY_VENDOR_ID PORT100_PIDS ''Port-100 reader not found''"

definition open_port400 :: "('u, 'h) usb_crate \<Rightarrow> ('u, ('u, 'h) reader_device) driver_op" where
  "open_port400 R =
     open_usb_device (usb_open R)
       (\<lambda>t u. built uw_bus (usb_dropped R) (\<lambda>_. Port400Reader)
         (port400_new (usb_transport_of R) \<lparr>uw_bus = u, uw_device = t\<rparr>))
       SONY_VENDOR_ID PORT400_PIDS ''NFC Port-400 reader not found''"

definition open_rcs956 :: "('u, 'h) usb_crate \<Rightarrow> ('u, ('u, 'h) reader_device) driver_op" where
  "open_rcs956 R =
     open_usb_device (usb_open R)
       (\<lambda>t u. built uw_bus (usb_dropped R) (\<lambda>_. Rcs956Reader)
         (rcs956_init (usb_transport_of R) \<lparr>uw_bus = u, uw_device = t\<rparr>))
       SONY_VENDOR_ID PRODUCT_IDS956 ''RC-S956 reader not found''"

definition open_rcs320 :: "('u, 'h) usb_crate \<Rightarrow> ('u, ('u, 'h) reader_device) driver_op" where
  "open_rcs320 R u =
     (case rcs320_open R u of
        (Inl e, u) \<Rightarrow> Some (Inl (Io e), u)
      | (Inr t, u) \<Rightarrow> built rw_bus (rcs320_dropped R) (\<lambda>_. Rcs320Reader)
          (rcs320_init (rcs320_transport_of R) \<lparr>rw_bus = u, rw_device = t\<rparr>))"

datatype reader_preference = Auto | ForcePort100 | ForcePort400 | ForceRcs320 | ForceRcs956

definition AUTO_PROBE_ORDER :: "('u, 'h) usb_crate \<Rightarrow> (string \<times> ('u, ('u, 'h) reader_device) driver_op) list" where
  "AUTO_PROBE_ORDER R =
     [(''Port-100'', open_port100 R), (''Port-400'', open_port400 R), (''RC-S956'', open_rcs956 R), (''RC-S320'', open_rcs320 R)]"

fun probe_readers :: "(string \<times> ('u, 'r) driver_op) list \<Rightarrow> string list \<Rightarrow> ('u, 'r) driver_op" where
  "probe_readers [] failures = liftD (Inl (Other (''failed to open '' @ join_with '', '' failures)))"
| "probe_readers ((name, opn) # candidates) failures =
     catchD opn (\<lambda>r. case r of
         Inr reader \<Rightarrow> liftD (Inr reader)
       | Inl err \<Rightarrow> probe_readers candidates (failures @ [name @ '' ('' @ driver_error_text err @ '')'']))"

definition open_first_available :: "('u, 'h) usb_crate \<Rightarrow> ('u, ('u, 'h) reader_device) driver_op" where
  "open_first_available R = probe_readers (AUTO_PROBE_ORDER R) []"

fun open_reader :: "('u, 'h) usb_crate \<Rightarrow> reader_preference \<Rightarrow> ('u, ('u, 'h) reader_device) driver_op" where
  "open_reader R ForcePort100 = open_port100 R"
| "open_reader R ForcePort400 = open_port400 R"
| "open_reader R ForceRcs320 = open_rcs320 R"
| "open_reader R ForceRcs956 = open_rcs956 R"
| "open_reader R Auto = open_first_available R"

section \<open>Probing\<close>

text \<open>Candidates that all fail, without a panic, one after the other.\<close>

fun all_fail :: "(string \<times> ('u, 'r) driver_op) list \<Rightarrow> 'u \<Rightarrow> driver_error list \<Rightarrow> 'u \<Rightarrow> bool" where
  "all_fail [] u errs u' \<longleftrightarrow> errs = [] \<and> u' = u"
| "all_fail ((name, opn) # candidates) u errs u' \<longleftrightarrow>
     (\<exists>err u1 rest. opn u = Some (Inl err, u1) \<and> (\<forall>m. err \<noteq> DriverPanicked m) \<and> errs = err # rest \<and> all_fail candidates u1 rest u')"

definition failure_texts :: "(string \<times> ('u, 'r) driver_op) list \<Rightarrow> driver_error list \<Rightarrow> string list" where
  "failure_texts candidates errs = map2 (\<lambda>(name, _) err. name @ '' ('' @ driver_error_text err @ '')'') candidates errs"

lemma catchD_error:
  "opn u = Some (Inl err, u1) \<Longrightarrow> \<forall>m. err \<noteq> DriverPanicked m \<Longrightarrow> catchD opn f u = f (Inl err) u1"
  by (cases err) (simp_all add: catchD_def tryD_def)

lemma catchD_result: "opn u = Some (Inr x, u1) \<Longrightarrow> catchD opn f u = f (Inr x) u1"
  by (simp add: catchD_def tryD_def)

lemma probe_past:
  "all_fail failing u errs u' \<Longrightarrow> probe_readers (failing @ candidates) texts u = probe_readers candidates (texts @ failure_texts failing errs) u'"
proof (induction failing arbitrary: u errs texts)
  case Nil
  then show ?case by (simp add: failure_texts_def)
next
  case (Cons cand failing)
  obtain name opn where c: "cand = (name, opn)" by (cases cand)
  with Cons.prems obtain err u1 rest where f: "opn u = Some (Inl err, u1)" "\<forall>m. err \<noteq> DriverPanicked m" "errs = err # rest"
    "all_fail failing u1 rest u'" by auto
  show ?case
    using Cons.IH [OF f(4), of "texts @ [name @ '' ('' @ driver_error_text err @ '')'']"] c f(3)
    by (simp add: catchD_error [of opn, OF f(1,2)] failure_texts_def)
qed

lemma probe_first:
  assumes "all_fail failing u errs u'" and "opn u' = Some (Inr reader, u2)"
  shows "probe_readers (failing @ (name, opn) # candidates) [] u = Some (Inr reader, u2)"
  using probe_past [OF assms(1), of "(name, opn) # candidates" "[]"] by (simp add: catchD_result [of opn, OF assms(2)])

lemma probe_none:
  assumes "all_fail candidates u errs u'"
  shows "probe_readers candidates [] u = Some (Inl (Other (''failed to open '' @ join_with '', '' (failure_texts candidates errs))), u')"
  using probe_past [OF assms, of "[]" "[]"] by simp

section \<open>Properties\<close>

text \<open>
  C40. Probing attaches to the first reader that opens, whatever the ones before it answered and left on the
  bus; when none opens, the error names them all, each with its own error, in the order they were tried.
\<close>

theorem auto_probe_reports:
  assumes "AUTO_PROBE_ORDER R = failing @ candidates" and "all_fail failing u errs u'"
  shows "(\<forall>name opn rest reader u2. candidates = (name, opn) # rest \<and> opn u' = Some (Inr reader, u2) \<longrightarrow>
      open_reader R Auto u = Some (Inr reader, u2)) \<and>
    (candidates = [] \<longrightarrow>
      open_reader R Auto u = Some (Inl (Other (''failed to open '' @ join_with '', '' (failure_texts failing errs))), u'))"
  using probe_first [OF assms(2)] probe_none [OF assms(2)] assms(1) by (auto simp: open_first_available_def)

section \<open>Witnesses\<close>

text \<open>A bus with nothing on it; its state counts the attempts to open a device.\<close>

definition empty_bus :: "(nat, unit) usb_crate" where
  "empty_bus =
     \<lparr>us_open = (\<lambda>vendor pid u. (None, Suc u)),
      us_device_descriptor = (\<lambda>h u. (Inl RusbNoDevice, u)), us_config_descriptor = (\<lambda>h i u. (Inl RusbNoDevice, u)),
      us_kernel_driver_active = (\<lambda>h i u. (Inl RusbNoDevice, u)), us_detach_kernel_driver = (\<lambda>h i u. (Inl RusbNoDevice, u)),
      us_active_configuration = (\<lambda>h u. (Inl RusbNoDevice, u)), us_set_active_configuration = (\<lambda>h i u. (Inl RusbNoDevice, u)),
      us_claim_interface = (\<lambda>h i u. (Inl RusbNoDevice, u)), us_release_interface = (\<lambda>h i u. (Inl RusbNoDevice, u)),
      us_read_string = (\<lambda>h i u. (Inl RusbNoDevice, u)), us_write_bulk = (\<lambda>h ep data t u. (Inl RusbNoDevice, u)),
      us_read_bulk = (\<lambda>h ep n t u. (Inl RusbNoDevice, u)), us_write_control = (\<lambda>h a b c d data t u. (Inl RusbNoDevice, u)),
      us_read_interrupt = (\<lambda>h ep n t u. (Inl RusbNoDevice, u)), us_error_text = (\<lambda>e. ''No such device''),
      us_now = (\<lambda>u. 0), us_sleep = (\<lambda>t u. u)\<rparr>"

abbreviation no_device :: "string \<Rightarrow> driver_error" where
  "no_device m \<equiv> Io (IoError NotFound m)"

lemma empty_bus_opens_nothing:
  "usb_open empty_bus vendor pid u = (Inl (IoError NotFound ''USB device not found''), Suc u)"
  "rcs320_open empty_bus u = (Inl (IoError NotFound ''RC-S320 device not found''), Suc u)"
  by (simp_all add: usb_open_def rcs320_open_def rcs320_open_with_ids_def open_usb_interface_def bindU_def empty_bus_def)

theorem auto_probe_reports_witness:
  "open_reader empty_bus Auto 0 = Some (Inl (Other (''failed to open '' @ join_with '', ''
     (failure_texts (AUTO_PROBE_ORDER empty_bus)
       [no_device ''USB device not found'', no_device ''USB device not found'', no_device ''USB device not found'',
        no_device ''RC-S320 device not found'']))), length PORT100_PIDS + length PORT400_PIDS + length PRODUCT_IDS956 + 1)"
proof -
  have "all_fail (AUTO_PROBE_ORDER empty_bus) 0
      [no_device ''USB device not found'', no_device ''USB device not found'', no_device ''USB device not found'',
       no_device ''RC-S320 device not found''] (length PORT100_PIDS + length PORT400_PIDS + length PRODUCT_IDS956 + 1)"
    by (simp add: AUTO_PROBE_ORDER_def open_port100_def open_port400_def open_rcs956_def open_rcs320_def open_usb_device_def
        empty_bus_opens_nothing PORT100_PIDS_def PORT400_PIDS_def PRODUCT_IDS956_def liftD_def)
  from auto_probe_reports [where candidates = "[]", OF _ this] show ?thesis by simp
qed

end
