(* ===== verification/Emulate.thy ===== *)
theory Emulate
  imports Port100_Target Card_Safety
begin

text \<open>
  The Port-100 as a card, \<open>examples/emulate.rs\<close>: the card that the program builds, and its loop of listening
  for a reader, answering the commands of a session and powering the card off. The listener's closure holds the
  card; the random numbers that the card draws are arguments, one for every frame of a session.
\<close>

section \<open>The program\<close>

definition checked :: "emulated_system \<times> config_error option \<Rightarrow> config_error + emulated_system" where
  "checked = (\<lambda>(y, err). case err of Some e \<Rightarrow> Inl e | None \<Rightarrow> Inr y)"

definition emulate_card :: "config_error + emulator" where
  "emulate_card =
     (let pmm = [0x00, 0x01, 0xFF, 0xFF, 0xFF, 0xFF, 0xFF, 0xFF] in
      bindE (system_new 0x0123 [0x01, 0x23, 0x45, 0x67, 0x89, 0xAB, 0xCD, 0xEF] pmm) (\<lambda>system_a.
      let (s, st) = service_new (ServiceCode 0x0048) 12 [] in
      bindE (checked (add_service system_a s)) (\<lambda>system_a.
      bindE (area_new 0x1000 0x1FFF) (\<lambda>area_a.
      let (s, st) = service_new (ServiceCode 0x1009) 8 st in
      bindE (area_add_service area_a s) (\<lambda>area_a.
      let (s, st) = service_new (ServiceCode 0x100B) 8 st in
      bindE (area_add_service area_a s) (\<lambda>area_a.
      bindE (checked (add_area system_a area_a)) (\<lambda>system_a.
      bindE (system_new 0x4567 [0x11, 0x23, 0x45, 0x67, 0x89, 0xAB, 0xCD, 0xEF] pmm) (\<lambda>system_b.
      bindE (area_new 0x1000 0x1FFF) (\<lambda>area_b.
      let (s, st) = service_new (ServiceCode 0x1009) 12 st in
      bindE (area_add_service area_b s) (\<lambda>area_b.
      bindE (checked (add_area system_b area_b)) (\<lambda>system_b.
      Inr (add_system (add_system (emulator_new st) system_a) system_b))))))))))))"

abbreviation (input) COMMAND_TIMEOUT_MS :: u16 where "COMMAND_TIMEOUT_MS \<equiv> 1000"

definition poll_responder :: "emulator responder" where
  "poll_responder req em = polling_response em (sr_system_code req) (sr_request_code req)"

text \<open>A session lasts while the card answers and the reader sends another command.\<close>

partial_function (option) serve_session ::
    "'w transport \<Rightarrow> crypto \<Rightarrow> (nat \<Rightarrow> bytes) \<Rightarrow> nat \<Rightarrow> bytes option \<Rightarrow> emulator \<Rightarrow> ('w, emulator) port100_op" where
  "serve_session T C randoms n next em c =
     (case next of
        None \<Rightarrow> Some (Inr em, c)
      | Some frame \<Rightarrow>
          (case handle_frame C (randoms n) em frame of
             Inl m \<Rightarrow> Some (Inl (DriverPanicked m), c)
           | Inr (None, em) \<Rightarrow> Some (Inr em, c)
           | Inr (Some answer, em) \<Rightarrow>
               bindD (send_response_receive_command T answer COMMAND_TIMEOUT_MS) (\<lambda>next.
               serve_session T C randoms (n + 1) next em) c))"

definition emulate_round :: "'w transport \<Rightarrow> crypto \<Rightarrow> (nat \<Rightarrow> bytes) \<Rightarrow> local_target \<Rightarrow> emulator \<Rightarrow> ('w, emulator) port100_op" where
  "emulate_round T C randoms target em =
     bindD (listen_type_f T target 1000000000 poll_responder em) (\<lambda>(listened, em).
     case Option.bind listened (\<lambda>l. tt3_cmd (lt_data l)) of
       None \<Rightarrow> liftD (Inr em)
     | Some first_frame \<Rightarrow>
         bindD (serve_session T C randoms 0 (Some first_frame) em) (\<lambda>em. liftD (Inr (power_off em))))"

text \<open>The program's loop has no end; these are its first rounds.\<close>

fun emulate_rounds ::
    "'w transport \<Rightarrow> crypto \<Rightarrow> (nat \<Rightarrow> nat \<Rightarrow> bytes) \<Rightarrow> local_target \<Rightarrow> nat \<Rightarrow> emulator \<Rightarrow> ('w, emulator) port100_op" where
  "emulate_rounds T C randoms target 0 em = liftD (Inr em)"
| "emulate_rounds T C randoms target (Suc n) em =
     bindD (emulate_round T C (randoms n) target em) (emulate_rounds T C randoms target n)"

section \<open>What the loop keeps of the card\<close>

text \<open>A property of the captured state that a step of a listening loop keeps.\<close>

lemma timeout_loop_keeps:
  fixes T :: "'w transport" and step :: "'x \<Rightarrow> u16 \<Rightarrow> ('w, 'r option \<times> 'x) port100_op"
  assumes step: "\<And>x t c r x' c'. I x \<Longrightarrow> step x t c = Some (Inr (r, x'), c') \<Longrightarrow> I x'"
    and run: "timeout_loop T step deadline remaining x c = Some (Inr (r, x'), c')" and "I x"
  shows "I x'"
proof -
  let ?P = "\<lambda>(T :: 'w transport) st (deadline :: nat) (remaining :: u16) x (c :: 'w port100)
      (y :: (driver_error + 'r option \<times> 'x) \<times> 'w port100). st = step \<longrightarrow> I x \<longrightarrow> (\<forall>r x'. fst y = Inr (r, x') \<longrightarrow> I x')"
  have "?P T step deadline remaining x c (Inr (r, x'), c')"
  proof (rule timeout_loop.raw_induct [where P = ?P and xa = "(((((T, step), deadline), remaining), x), c)", unfolded prod.case, OF _ run],
      goal_cases)
    case (1 f T st deadline remaining x c y)
    show ?case
    proof (intro impI allI)
      fix r x'
      assume st: "st = step" and I: "I x" and y: "fst y = Inr (r, x')"
      show "I x'"
      proof (cases "remaining = 0")
        case True
        with 1(2) y I show ?thesis by auto
      next
        case False
        obtain y2 where y2: "y = (Inr (r, x'), y2)" using y by (cases y) auto
        with 1(2) False obtain out x1 c1 where s: "st x remaining c = Some (Inr (out, x1), c1)"
          and cont: "(case out of Some r \<Rightarrow> Some (Inr (Some r, x1), c1)
            | None \<Rightarrow> f T st deadline (remaining_ms T deadline (ch_world c1)) x1 c1) = Some (Inr (r, x'), y2)"
          by (auto simp: bindD_eq_Inr)
        have I1: "I x1" using step [OF I] s st by blast
        show ?thesis
        proof (cases out)
          case None
          with cont y2 have "f T st deadline (remaining_ms T deadline (ch_world c1)) x1 c1 = Some y" by simp
          from 1(1) [OF this] st I1 y show ?thesis by blast
        next
          case (Some z)
          with cont I1 show ?thesis by auto
        qed
      qed
    qed
  qed
  with assms(3) show ?thesis by simp
qed

lemma run_timeout_loop_keeps:
  assumes "\<And>x t c r x' c'. I x \<Longrightarrow> step x t c = Some (Inr (r, x'), c') \<Longrightarrow> I x'"
    and "run_timeout_loop T timeout step x c = Some (Inr (r, x'), c')" and "I x"
  shows "I x'"
  using assms(2,3) timeout_loop_keeps [of I step, OF assms(1)]
  by (auto simp: run_timeout_loop_def Let_def bindD_eq_Inr split: if_splits)

lemma catch_fault_Inr:
  assumes "catch_fault m f c = Some (Inr y, c')"
  obtains answer c1 where "f answer c1 = Some (Inr y, c')"
proof -
  obtain r c1 where m: "m c = Some (r, c1)" using assms by (cases "m c") (auto simp: catch_fault_def tryD_def)
  show thesis
  proof (cases r)
    case (Inr x)
    with assms m that show thesis by (simp add: catch_fault_def tryD_def)
  next
    case (Inl e)
    with assms m that show thesis
      by (cases e) (simp_all add: catch_fault_def tryD_def split: chipset_error.splits)
  qed
qed

lemma answer_poll_keeps:
  assumes "\<And>em code request. P em \<Longrightarrow> P (snd (polling_response em code request))" and "P (lf_responder l)"
  shows "P (lf_responder (answer_poll rate poll_responder data l))"
  using assms(2) assms(1) [OF assms(2)]
  by (auto simp: answer_poll_def poll_responder_def Let_def split: option.split prod.split) (metis snd_conv)+

lemma type_f_step_keeps:
  assumes polls: "\<And>em code request. P em \<Longrightarrow> P (snd (polling_response em code request))"
    and l: "P (lf_responder l)" and run: "type_f_step T target poll_responder l t c = Some (Inr (r, l'), c')"
  shows "P (lf_responder l')"
proof -
  let ?l = "l\<lparr>lf_transmit := None\<rparr>"
  have kept: "P (lf_responder ?l)" using l by simp
  from run obtain answer c1 where "(case answer of
        None \<Rightarrow> liftD (Inr (None, ?l))
      | Some data \<Rightarrow>
          if is_addressed ?l data \<or> is_tt3_command data then
            bindD (activated_type_f T target ?l (view_payload data)) (\<lambda>t. liftD (Inr (Some t, ?l)))
          else liftD (Inr (None, answer_poll (br_send (lt_bitrate target)) poll_responder data ?l))) c1 = Some (Inr (r, l'), c')"
    unfolding type_f_step_def Let_def by (rule catch_fault_Inr)
  then have "l' = ?l \<or> (\<exists>data. l' = answer_poll (br_send (lt_bitrate target)) poll_responder data ?l)"
    by (auto simp: bindD_eq_Inr split: option.splits if_splits)
  with kept answer_poll_keeps [of P, OF polls kept] show ?thesis by blast
qed

lemma listening_keeps:
  assumes "\<And>em code request. P em \<Longrightarrow> P (snd (polling_response em code request))"
    and "P em" and "listen_type_f T target timeout poll_responder em c = Some (Inr (r, em'), c')"
  shows "P em'"
proof -
  let ?l = "\<lparr>lf_transmit = None, lf_req = None, lf_res = None, lf_responder = em\<rparr>"
  from assms(3) obtain l c1 c2 where
    run: "run_timeout_loop T timeout (type_f_step T target poll_responder) ?l c1 = Some (Inr (r, l), c2)" and em': "em' = lf_responder l"
    by (auto simp: listen_type_f_def listen_type_f_loop_def bindD_eq_Inr)
  have "P (lf_responder l)"
    by (rule run_timeout_loop_keeps [of "\<lambda>l. P (lf_responder l)", OF type_f_step_keeps [of P, OF assms(1)] run]) (use assms(2) in auto)
  with em' show ?thesis by simp
qed

lemma session_keeps:
  fixes P :: "emulator \<Rightarrow> bool"
  assumes frames: "\<And>em r f out em'. P em \<Longrightarrow> handle_frame C r em f = Inr (out, em') \<Longrightarrow> P em'"
    and run: "serve_session T C randoms n cont em c = Some (Inr em', c')" and "P em"
  shows "P em'"
proof -
  let ?P = "\<lambda>(T :: 'w transport) D (randoms :: nat \<Rightarrow> bytes) (n :: nat) (cont :: bytes option) em (c :: 'w port100)
      (y :: (driver_error + emulator) \<times> 'w port100). D = C \<longrightarrow> P em \<longrightarrow> (\<forall>em'. fst y = Inr em' \<longrightarrow> P em')"
  have "?P T C randoms n cont em c (Inr em', c')"
  proof (rule serve_session.raw_induct [where P = ?P, OF _ run], goal_cases)
    case (1 f T D randoms n cont em c y)
    show ?case
    proof (intro impI allI)
      fix em' assume D: "D = C" and P: "P em" and y: "fst y = Inr em'"
      obtain y2 where y2: "y = (Inr em', y2)" using y by (cases y) auto
      show "P em'"
      proof (cases cont)
        case None
        with 1(2) P y2 show ?thesis by simp
      next
        case (Some g)
        with 1(2) y2 obtain out em1 where h: "handle_frame D (randoms n) em g = Inr (out, em1)"
          by (auto split: sum.splits)
        have P1: "P em1" using frames [OF P] h D by blast
        show ?thesis
        proof (cases out)
          case None
          with 1(2) Some h y2 P1 show ?thesis by simp
        next
          case (Some answer)
          with 1(2) \<open>cont = Some g\<close> h y2 obtain next' c1 where "f T D randoms (n + 1) next' em1 c1 = Some y"
            by (auto simp: bindD_eq_Inr)
          from 1(1) [OF this] D P1 y show ?thesis by blast
        qed
      qed
    qed
  qed
  with assms(3) show ?thesis by simp
qed

section \<open>Cards at rest\<close>

text \<open>No system of the card is above mode 0, so none ignores a poll.\<close>

definition at_rest :: "emulator \<Rightarrow> bool" where
  "at_rest em \<longleftrightarrow> (\<forall>y \<in> set (em_systems em). sys_mode y = Mode0)"

lemma at_rest_polling: "at_rest em \<Longrightarrow> at_rest (snd (polling_response em code request))"
  by (auto simp: at_rest_def polling_response_def system_index_for_polling_def update_system_def reset_mode_def Let_def
      split: option.splits if_splits dest!: set_update_subset_insert [THEN subsetD])

lemma at_rest_power_off: "at_rest (power_off em)"
  by (auto simp: at_rest_def power_off_def reset_mode_def)

lemma at_rest_answers:
  assumes "at_rest em" and "polling_target_index em code = Some i"
  shows "fst (polling_response em code request) \<noteq> None"
proof -
  have "i < length (em_systems em)" using assms(2) by (auto simp: polling_target_index_def dest: position_Some)
  with assms show ?thesis by (auto simp: at_rest_def polling_response_def system_index_for_polling_def Let_def)
qed

lemma reachable_step: "reachable C em0 em \<Longrightarrow> em_step C r em em' \<Longrightarrow> reachable C em0 em'"
  unfolding reachable_def by (rule rtranclp.rtrancl_into_rtrancl) auto

lemma round_keeps:
  assumes "emulate_round T C randoms target em c = Some (Inr em', c')" and "reachable C em0 em" and "at_rest em"
  shows "reachable C em0 em' \<and> at_rest em'"
proof -
  from assms(1) obtain listened em1 c1 where l: "listen_type_f T target 1000000000 poll_responder em c = Some (Inr (listened, em1), c1)"
    and rest: "(case Option.bind listened (\<lambda>l. tt3_cmd (lt_data l)) of
        None \<Rightarrow> liftD (Inr em1)
      | Some first_frame \<Rightarrow> bindD (serve_session T C randoms 0 (Some first_frame) em1) (\<lambda>em. liftD (Inr (power_off em)))) c1
      = Some (Inr em', c')"
    by (auto simp: emulate_round_def bindD_eq_Inr)
  have r1: "reachable C em0 em1"
    by (rule listening_keeps [of "reachable C em0", OF _ assms(2) l]) (rule reachable_step [OF _ em_step.polling])
  have a1: "at_rest em1" by (rule listening_keeps [of at_rest, OF _ assms(3) l]) (rule at_rest_polling)
  show ?thesis
  proof (cases "Option.bind listened (\<lambda>l. tt3_cmd (lt_data l))")
    case None
    with rest r1 a1 show ?thesis by simp
  next
    case (Some g)
    with rest obtain em2 c2 where s: "serve_session T C randoms 0 (Some g) em1 c1 = Some (Inr em2, c2)" and em': "em' = power_off em2"
      by (auto simp: bindD_eq_Inr)
    have "reachable C em0 em2"
      by (rule session_keeps [of "reachable C em0", OF _ s r1]) (rule reachable_step [OF _ em_step.frame])
    with em' show ?thesis using reachable_step [OF _ em_step.power_off] at_rest_power_off by blast
  qed
qed

lemma rounds_keep:
  "emulate_rounds T C randoms target n em c = Some (Inr em', c') \<Longrightarrow> reachable C em0 em \<Longrightarrow> at_rest em \<Longrightarrow>
    reachable C em0 em' \<and> at_rest em'"
proof (induction n arbitrary: em c)
  case (Suc n)
  then obtain em1 c1 where "emulate_round T C (randoms n) target em c = Some (Inr em1, c1)"
    "emulate_rounds T C randoms target n em1 c1 = Some (Inr em', c')" by (auto simp: bindD_eq_Inr)
  with round_keeps Suc.IH Suc.prems(2,3) show ?case by blast
qed simp

section \<open>The card of the program\<close>

lemma emulate_card_ok: "case emulate_card of Inr em \<Rightarrow> wf_card em \<and> length (em_systems em) \<le> 255 \<and> at_rest em | Inl e \<Rightarrow> False"
  by code_simp

text \<open>A failing exchange ends the program, not only the session: the card is not powered off.\<close>

lemma session_error_ends_program:
  assumes "handle_frame C (randoms n) em f = Inr (Some answer, em1)"
    and "send_response_receive_command T answer COMMAND_TIMEOUT_MS c = Some (Inl e, c')"
  shows "serve_session T C randoms n (Some f) em c = Some (Inl e, c')"
  using assms by (subst serve_session.simps) (simp add: bindD_Inl)

section \<open>Properties\<close>


section \<open>Witnesses\<close>


end
