(* ===== verification/Dump.thy ===== *)
theory Dump
  imports Keys Driver_Common
begin

text \<open>
  The card dump, the part of \<open>examples/dump.rs\<close> that collects: the walk over the directory of every system of
  a card, the key versions of its nodes, and the blocks of its services, read without and with authentication.
  Trees that the program changes in place are returned. A hash set is the list of its members, a hash map an
  association list; where the program iterates over one, its order is the order of insertion. An error that
  the program handles is the result that \<open>catchH\<close> hands over; a panic is not.
\<close>

section \<open>What is collected\<close>

record key_version_summary =
  aes_key_version_hex :: "string option"
  des_key_version_hex :: "string option"

record service_summary =
  ss_code :: u16
  ss_attributes :: u8
  ss_code_hex :: string
  ss_number :: u16
  ss_attributes_hex :: string
  ss_description :: "string option"
  ss_key_version :: "key_version_summary option"

record service_group =
  sg_number :: u16
  sg_number_hex :: string
  sg_services :: "service_summary list"
  sg_blocks :: "string list option"

datatype area_node =
    AreaNode (an_code: u16) (an_code_hex: string) (an_end_hex: string) (an_key_version: "key_version_summary option")
      (an_children: "dump_child list")
and dump_child = DumpArea area_node | DumpGroup service_group

record system_summary =
  sm_idm :: string
  sm_pmm :: string
  sm_idi :: "string option"
  sm_pmi :: "string option"
  sm_code_hex :: string
  sm_key :: "key_version_summary option"
  sm_services :: "service_group list"
  sm_areas :: "area_node list"
  sm_warnings :: "string list"

record auth_read_target =
  at_code :: u16
  at_areas :: "u16 list"

record mutual_auth_summary =
  ma_idi :: string
  ma_pmi :: string

definition hex_u16 :: "u16 \<Rightarrow> string" where
  "hex_u16 v = ''0x'' @ hex4 v"

definition hex_u8 :: "u8 \<Rightarrow> string" where
  "hex_u8 v = ''0x'' @ hex2 v"

definition hex_opt_u16 :: "u16 option \<Rightarrow> string option" where
  "hex_opt_u16 v = map_option hex_u16 v"

definition build_service_summary :: "service_code \<Rightarrow> service_summary" where
  "build_service_summary c =
     \<lparr>ss_code = code_raw c, ss_attributes = code_attributes c, ss_code_hex = hex_u16 (code_raw c),
      ss_number = code_number c, ss_attributes_hex = hex_u8 (code_attributes c),
      ss_description = attributes_description c, ss_key_version = None\<rparr>"

definition new_service_group :: "service_summary \<Rightarrow> service_group" where
  "new_service_group s =
     \<lparr>sg_number = ss_number s, sg_number_hex = hex_u16 (ss_number s), sg_services = [s], sg_blocks = None\<rparr>"

definition push_service :: "service_summary \<Rightarrow> service_group \<Rightarrow> service_group" where
  "push_service s g = g\<lparr>sg_services := sg_services g @ [s]\<rparr>"

text \<open>The service joins the first group of its number, or opens one at the end.\<close>

fun append_service_child :: "dump_child list \<Rightarrow> service_summary \<Rightarrow> dump_child list" where
  "append_service_child [] s = [DumpGroup (new_service_group s)]"
| "append_service_child (DumpGroup g # children) s =
     (if sg_number g = ss_number s then DumpGroup (push_service s g) # children
      else DumpGroup g # append_service_child children s)"
| "append_service_child (DumpArea a # children) s = DumpArea a # append_service_child children s"

fun append_service_group :: "service_group list \<Rightarrow> service_summary \<Rightarrow> service_group list" where
  "append_service_group [] s = [new_service_group s]"
| "append_service_group (g # groups) s =
     (if sg_number g = ss_number s then push_service s g # groups else g # append_service_group groups s)"

section \<open>The walk over the directory\<close>

text \<open>What the walk accumulates beside the tree.\<close>

record walk_state =
  wk_codes :: "service_code list"
  wk_seen :: "u16 list"
  wk_warnings :: "string list"

definition register_service_code :: "u16 \<Rightarrow> walk_state \<Rightarrow> walk_state" where
  "register_service_code code w =
     (if code \<in> set (wk_seen w) then w
      else w\<lparr>wk_seen := wk_seen w @ [code], wk_codes := wk_codes w @ [ServiceCode code]\<rparr>)"

definition warn :: "string \<Rightarrow> walk_state \<Rightarrow> walk_state" where
  "warn m w = w\<lparr>wk_warnings := wk_warnings w @ [m]\<rparr>"

definition checked_succ :: "u16 \<Rightarrow> u16 option" where
  "checked_succ n = (if n = 0xFFFF then None else Some (n + 1))"

lemma checked_succ_Some: "checked_succ n = Some k \<Longrightarrow> unat k = Suc (unat n) \<and> k > n"
proof -
  assume "checked_succ n = Some k"
  then have "n \<noteq> 0xFFFF" and k: "k = n + 1" by (auto simp: checked_succ_def split: if_splits)
  then have "unat n \<noteq> 65535" using word_unat_eq_iff [of n "0xFFFF"] by simp
  then have "unat n < 65535" using unat_u16_less [of n] by linarith
  then have "unat k = Suc (unat n)" by (simp add: k unat_word_ariths)
  then show ?thesis by (simp add: word_less_nat_alt)
qed

lemma index_decreases: "unat (i :: u16) < unat (k :: u16) \<Longrightarrow> 0x10000 - unat k < 0x10000 - unat i"
  using unat_u16_less [of i] by linarith

text \<open>
  The loop of \<open>collect_area\<close>. It returns the children collected and the directory index at which it stopped.
  The recursion into a child area starts one index further, and the loop goes on behind it only at a greater
  index.
\<close>

function walk_area ::
    "'d environment \<Rightarrow> u16 \<Rightarrow> u16 \<Rightarrow> u16 \<Rightarrow> dump_child list \<Rightarrow> walk_state \<Rightarrow> ('d, dump_child list \<times> u16 \<times> walk_state) host_op" where
  "walk_area E area_code end_code index children w =
     bindH (search_service_code E index) (\<lambda>found.
     case found of
       None \<Rightarrow> liftH (Inr (children, index, w))
     | Some (SearchService code) \<Rightarrow>
         if code_raw code < area_code \<or> code_raw code > end_code then liftH (Inr (children, index, w))
         else
           let w = register_service_code (code_raw code) w; children = append_service_child children (build_service_summary code) in
           (case checked_succ index of
              None \<Rightarrow> liftH (Inr (children, index, warn (''Directory index overflow while traversing area 0x'' @ hex4 area_code) w))
            | Some next \<Rightarrow> walk_area E area_code end_code next children w)
     | Some (SearchArea child_code child_end) \<Rightarrow>
         if child_end < child_code then
           liftH (Inr (children, index, warn (''Area 0x'' @ hex4 child_code @ '' end service code 0x'' @ hex4 child_end @
             '' precedes start 0x'' @ hex4 child_code) w))
         else if child_code < area_code \<or> child_end > end_code then liftH (Inr (children, index, w))
         else
           (case checked_succ index of
              None \<Rightarrow> liftH (Inr (children, index, warn (''Directory index overflow while descending into area 0x'' @ hex4 child_code) w))
            | Some child_index \<Rightarrow>
                bindH (walk_area E child_code child_end child_index [] (register_service_code child_code w)) (\<lambda>(grandchildren, next, w).
                let children = children @ [DumpArea (AreaNode child_code (hex_u16 child_code) (hex_u16 child_end) None grandchildren)] in
                if next \<le> index then
                  liftH (Inr (children, index, warn (''Child area traversal did not advance at directory index 0x'' @ hex4 index) w))
                else walk_area E area_code end_code next children w)))"
  by pat_completeness auto
termination
  by (relation "measure (\<lambda>(E, area_code, end_code, index, children, w). 0x10000 - unat index)")
    (auto simp: not_le word_less_nat_alt dest!: checked_succ_Some intro!: index_decreases)

declare walk_area.simps [simp del]

definition collect_area ::
    "'d environment \<Rightarrow> u16 \<Rightarrow> u16 \<Rightarrow> u16 \<Rightarrow> walk_state \<Rightarrow> ('d, area_node \<times> u16 \<times> walk_state) host_op" where
  "collect_area E area_code end_code index w =
     bindH (walk_area E area_code end_code index [] (register_service_code area_code w)) (\<lambda>(children, index, w).
     liftH (Inr (AreaNode area_code (hex_u16 area_code) (hex_u16 end_code) None children, index, w)))"

function walk_system ::
    "'d environment \<Rightarrow> u16 \<Rightarrow> area_node list \<Rightarrow> service_group list \<Rightarrow> walk_state
      \<Rightarrow> ('d, area_node list \<times> service_group list \<times> walk_state) host_op" where
  "walk_system E index areas groups w =
     bindH (search_service_code E index) (\<lambda>found.
     case found of
       None \<Rightarrow> liftH (Inr (areas, groups, w))
     | Some (SearchArea area_code end_code) \<Rightarrow>
         (case checked_succ index of
            None \<Rightarrow> liftH (Inr (areas, groups, warn (''Directory index overflow while descending into area 0x'' @ hex4 area_code) w))
          | Some child_index \<Rightarrow>
              bindH (collect_area E area_code end_code child_index w) (\<lambda>(area, next, w).
              let areas = areas @ [area] in
              if next \<le> index then
                liftH (Inr (areas, groups, warn (''Area traversal did not advance at directory index 0x'' @ hex4 index) w))
              else walk_system E next areas groups w))
     | Some (SearchService code) \<Rightarrow>
         let w = warn (''Service 0x'' @ hex4 (code_raw code) @ '' at index 0x'' @ hex4 index @
               '' has no parent area; treating as system-level service'') w;
             w = register_service_code (code_raw code) w;
             groups = append_service_group groups (build_service_summary code) in
         (case checked_succ index of
            None \<Rightarrow> liftH (Inr (areas, groups, warn ''Directory index overflow while reading system-level services'' w))
          | Some next \<Rightarrow> walk_system E next areas groups w))"
  by pat_completeness auto
termination
  by (relation "measure (\<lambda>(E, index, areas, groups, w). 0x10000 - unat index)")
    (auto simp: not_le word_less_nat_alt dest!: checked_succ_Some intro!: index_decreases)

declare walk_system.simps [simp del]

definition collect_system_areas ::
    "'d environment \<Rightarrow> walk_state \<Rightarrow> ('d, area_node list \<times> service_group list \<times> walk_state) host_op" where
  "collect_system_areas E w = walk_system E 0 [] [] w"

section \<open>Errors that the program handles\<close>

fun panicking :: "felica_error \<Rightarrow> bool" where
  "panicking (Panicked m) \<longleftrightarrow> True"
| "panicking (Driver (DriverPanicked m)) \<longleftrightarrow> True"
| "panicking e \<longleftrightarrow> False"

definition catchH :: "('d, 'a) host_op \<Rightarrow> (felica_error + 'a \<Rightarrow> ('d, 'b) host_op) \<Rightarrow> ('d, 'b) host_op" where
  "catchH m f h =
     (case m h of
        (Inr x, h) \<Rightarrow> f (Inr x) h
      | (Inl e, h) \<Rightarrow> if panicking e then (Inl e, h) else f (Inl e) h)"

lemma catchH_Inr: "m h = (Inr x, h') \<Longrightarrow> catchH m f h = f (Inr x) h'"
  by (simp add: catchH_def)

lemma catchH_Inl: "m h = (Inl e, h') \<Longrightarrow> \<not> panicking e \<Longrightarrow> catchH m f h = f (Inl e) h'"
  by (simp add: catchH_def)

section \<open>Key versions\<close>

abbreviation (input) MAX_SERVICE_CODES_PER_REQUEST :: nat where "MAX_SERVICE_CODES_PER_REQUEST \<equiv> 0x20"

type_synonym key_version_map = "(u16 \<times> key_version_summary) list"

definition request_key_versions ::
    "'d environment \<Rightarrow> service_code list \<Rightarrow> ('d, key_version_summary list \<times> string option) host_op" where
  "request_key_versions E codes =
     (if codes = [] then liftH (Inr ([], None))
      else
        catchH (request_service_v2 E codes) (\<lambda>r. case r of
          Inr versions \<Rightarrow>
            liftH (Inr (map (\<lambda>v. \<lparr>aes_key_version_hex = hex_opt_u16 (primary v),
              des_key_version_hex = map_option hex_u16 (secondary v)\<rparr>) versions, None))
        | Inl err \<Rightarrow>
            bindH (request_service E codes) (\<lambda>versions.
            liftH (Inr (map (\<lambda>v. \<lparr>aes_key_version_hex = None, des_key_version_hex = hex_opt_u16 (Some v)\<rparr>) versions,
              Some (''Request Service v2 failed: '' @ felica_error_text err))))))"

definition store_key_versions :: "key_version_map \<Rightarrow> service_code list \<Rightarrow> key_version_summary list \<Rightarrow> key_version_map" where
  "store_key_versions m codes summaries = foldl (\<lambda>m (c, s). AList.update (code_raw c) s m) m (zip codes summaries)"

fun fetch_chunks ::
    "'d environment \<Rightarrow> service_code list list \<Rightarrow> key_version_map \<Rightarrow> string list \<Rightarrow> ('d, key_version_map \<times> string list) host_op" where
  "fetch_chunks E [] m warnings = liftH (Inr (m, warnings))"
| "fetch_chunks E (chunk # rest) m warnings =
     catchH (request_key_versions E chunk) (\<lambda>r. case r of
       Inr (summaries, warning) \<Rightarrow>
         fetch_chunks E rest (store_key_versions m chunk summaries)
           (case warning of Some message \<Rightarrow> warnings @ [message] | None \<Rightarrow> warnings)
     | Inl err \<Rightarrow> fetch_chunks E rest m (warnings @ [''Request Service failed: '' @ felica_error_text err]))"

definition fetch_key_versions ::
    "'d environment \<Rightarrow> service_code list \<Rightarrow> string list \<Rightarrow> ('d, key_version_map \<times> string list) host_op" where
  "fetch_key_versions E codes warnings = fetch_chunks E (chunks MAX_SERVICE_CODES_PER_REQUEST codes) [] warnings"

text \<open>The entry of a key is taken out of the map.\<close>

definition take_version :: "u16 \<Rightarrow> key_version_summary option \<Rightarrow> key_version_map \<Rightarrow> key_version_summary option \<times> key_version_map" where
  "take_version code old m = (case map_of m code of Some s \<Rightarrow> (Some s, AList.delete code m) | None \<Rightarrow> (old, m))"

fun assign_service_key_versions :: "service_summary list \<Rightarrow> key_version_map \<Rightarrow> service_summary list \<times> key_version_map" where
  "assign_service_key_versions [] m = ([], m)"
| "assign_service_key_versions (s # services) m =
     (let (version, m) = take_version (ss_code s) (ss_key_version s) m;
          (services, m) = assign_service_key_versions services m in
      (s\<lparr>ss_key_version := version\<rparr> # services, m))"

definition assign_group_key_versions :: "service_group \<Rightarrow> key_version_map \<Rightarrow> service_group \<times> key_version_map" where
  "assign_group_key_versions g m =
     (case assign_service_key_versions (sg_services g) m of (services, m) \<Rightarrow> (g\<lparr>sg_services := services\<rparr>, m))"

fun assign_area_key_versions :: "area_node \<Rightarrow> key_version_map \<Rightarrow> area_node \<times> key_version_map"
  and assign_children_key_versions :: "dump_child list \<Rightarrow> key_version_map \<Rightarrow> dump_child list \<times> key_version_map" where
  "assign_area_key_versions (AreaNode code code_hex end_hex version children) m =
     (let (version, m) = take_version code version m;
          (children, m) = assign_children_key_versions children m in
      (AreaNode code code_hex end_hex version children, m))"
| "assign_children_key_versions [] m = ([], m)"
| "assign_children_key_versions (DumpArea a # children) m =
     (let (a, m) = assign_area_key_versions a m; (children, m) = assign_children_key_versions children m in
      (DumpArea a # children, m))"
| "assign_children_key_versions (DumpGroup g # children) m =
     (let (g, m) = assign_group_key_versions g m; (children, m) = assign_children_key_versions children m in
      (DumpGroup g # children, m))"

fun assign_system_key_versions :: "service_group list \<Rightarrow> key_version_map \<Rightarrow> service_group list \<times> key_version_map" where
  "assign_system_key_versions [] m = ([], m)"
| "assign_system_key_versions (g # groups) m =
     (let (g, m) = assign_group_key_versions g m; (groups, m) = assign_system_key_versions groups m in (g # groups, m))"

fun assign_areas_key_versions :: "area_node list \<Rightarrow> key_version_map \<Rightarrow> area_node list \<times> key_version_map" where
  "assign_areas_key_versions [] m = ([], m)"
| "assign_areas_key_versions (a # areas) m =
     (let (a, m) = assign_area_key_versions a m; (areas, m) = assign_areas_key_versions areas m in (a # areas, m))"

section \<open>Blocks\<close>

type_synonym block_map = "(u16 \<times> string list) list"

definition block_element :: "u16 \<Rightarrow> block_list_element" where
  "block_element n = \<lparr>block_number_or_key_version = n, service_code_list_index = 0, access_mode = 0\<rparr>"

definition is_status :: "felica_error \<Rightarrow> bool" where
  "is_status e \<longleftrightarrow> (case e of Status _ _ _ _ \<Rightarrow> True | _ \<Rightarrow> False)"

text \<open>One block an attempt, from block \<open>n\<close> on, until the card answers with a status.\<close>

function read_service_from ::
    "'d environment \<Rightarrow> text_crates \<Rightarrow> service_code list \<Rightarrow> u16 \<Rightarrow> string list \<Rightarrow> ('d, string list) host_op" where
  "read_service_from E K services n blocks_hex =
     catchH (read_without_encryption E services [block_element n]) (\<lambda>r. case r of
       Inr blocks \<Rightarrow>
         if blocks = [] then liftH (Inr blocks_hex)
         else
           let blocks_hex = blocks_hex @ map (hex_encode_upper K) blocks in
           (case checked_succ n of Some next \<Rightarrow> read_service_from E K services next blocks_hex | None \<Rightarrow> liftH (Inr blocks_hex))
     | Inl err \<Rightarrow> if is_status err then liftH (Inr blocks_hex) else liftH (Inl err))"
  by pat_completeness auto
termination
  by (relation "measure (\<lambda>(E, K, services, n, blocks_hex). 0x10000 - unat n)")
    (auto dest!: checked_succ_Some intro!: index_decreases)

declare read_service_from.simps [simp del]

definition read_service_blocks :: "'d environment \<Rightarrow> text_crates \<Rightarrow> u16 \<Rightarrow> ('d, string list) host_op" where
  "read_service_blocks E K code = read_service_from E K [ServiceCode code] 0 []"

definition store_read_result :: "block_map \<Rightarrow> u16 \<Rightarrow> string list \<Rightarrow> block_map" where
  "store_read_result m code blocks = (if blocks = [] then m else AList.update code blocks m)"

text \<open>The blocks of the first service of a group that has some; the others stay in the map.\<close>

fun take_blocks :: "service_summary list \<Rightarrow> block_map \<Rightarrow> string list option \<times> block_map" where
  "take_blocks [] m = (None, m)"
| "take_blocks (s # services) m =
     (case map_of m (ss_code s) of
        Some blocks \<Rightarrow> (Some blocks, AList.delete (ss_code s) m)
      | None \<Rightarrow> take_blocks services m)"

definition assign_blocks_in_group :: "service_group \<Rightarrow> block_map \<Rightarrow> service_group \<times> block_map" where
  "assign_blocks_in_group g m =
     (if sg_blocks g \<noteq> None then (g, m)
      else case take_blocks (sg_services g) m of (blocks, m) \<Rightarrow> (g\<lparr>sg_blocks := blocks\<rparr>, m))"

fun assign_blocks_in_area :: "area_node \<Rightarrow> block_map \<Rightarrow> area_node \<times> block_map"
  and assign_blocks_in_children :: "dump_child list \<Rightarrow> block_map \<Rightarrow> dump_child list \<times> block_map" where
  "assign_blocks_in_area (AreaNode code code_hex end_hex version children) m =
     (case assign_blocks_in_children children m of (children, m) \<Rightarrow> (AreaNode code code_hex end_hex version children, m))"
| "assign_blocks_in_children [] m = ([], m)"
| "assign_blocks_in_children (DumpArea a # children) m =
     (let (a, m) = assign_blocks_in_area a m; (children, m) = assign_blocks_in_children children m in
      (DumpArea a # children, m))"
| "assign_blocks_in_children (DumpGroup g # children) m =
     (let (g, m) = assign_blocks_in_group g m; (children, m) = assign_blocks_in_children children m in
      (DumpGroup g # children, m))"

fun assign_blocks_in_areas :: "area_node list \<Rightarrow> block_map \<Rightarrow> area_node list \<times> block_map" where
  "assign_blocks_in_areas [] m = ([], m)"
| "assign_blocks_in_areas (a # areas) m =
     (let (a, m) = assign_blocks_in_area a m; (areas, m) = assign_blocks_in_areas areas m in (a # areas, m))"

fun assign_blocks_in_groups :: "service_group list \<Rightarrow> block_map \<Rightarrow> service_group list \<times> block_map" where
  "assign_blocks_in_groups [] m = ([], m)"
| "assign_blocks_in_groups (g # groups) m =
     (let (g, m) = assign_blocks_in_group g m; (groups, m) = assign_blocks_in_groups groups m in (g # groups, m))"

definition assign_blocks ::
    "area_node list \<Rightarrow> service_group list \<Rightarrow> block_map \<Rightarrow> area_node list \<times> service_group list \<times> block_map" where
  "assign_blocks areas groups m =
     (let (areas, m) = assign_blocks_in_areas areas m; (groups, m) = assign_blocks_in_groups groups m in (areas, groups, m))"

section \<open>Services that need no key\<close>

text \<open>The targets, with the set of codes seen beside them: the first service of a group that needs no key.\<close>

definition collect_plaintext_service_group :: "service_group \<Rightarrow> u16 list \<times> u16 list \<Rightarrow> u16 list \<times> u16 list" where
  "collect_plaintext_service_group g = (\<lambda>(targets, seen).
     case List.find (\<lambda>s. ss_attributes s AND 0x01 = 0x01) (sg_services g) of
       None \<Rightarrow> (targets, seen)
     | Some s \<Rightarrow> if ss_code s \<in> set seen then (targets, seen) else (targets @ [ss_code s], seen @ [ss_code s]))"

fun collect_plaintext_area :: "area_node \<Rightarrow> u16 list \<times> u16 list \<Rightarrow> u16 list \<times> u16 list"
  and collect_plaintext_children :: "dump_child list \<Rightarrow> u16 list \<times> u16 list \<Rightarrow> u16 list \<times> u16 list" where
  "collect_plaintext_area (AreaNode code code_hex end_hex version children) t = collect_plaintext_children children t"
| "collect_plaintext_children [] t = t"
| "collect_plaintext_children (DumpArea a # children) t = collect_plaintext_children children (collect_plaintext_area a t)"
| "collect_plaintext_children (DumpGroup g # children) t =
     collect_plaintext_children children (collect_plaintext_service_group g t)"

definition collect_plaintext_service_codes :: "area_node list \<Rightarrow> service_group list \<Rightarrow> u16 list" where
  "collect_plaintext_service_codes areas groups =
     fst (fold collect_plaintext_service_group groups (fold collect_plaintext_area areas ([], [])))"

fun read_plaintext_targets ::
    "'d environment \<Rightarrow> text_crates \<Rightarrow> u16 list \<Rightarrow> block_map \<Rightarrow> string list \<Rightarrow> ('d, block_map \<times> string list) host_op" where
  "read_plaintext_targets E K [] results warnings = liftH (Inr (results, warnings))"
| "read_plaintext_targets E K (code # targets) results warnings =
     catchH (read_service_blocks E K code) (\<lambda>r. case r of
       Inr blocks \<Rightarrow> read_plaintext_targets E K targets (store_read_result results code blocks) warnings
     | Inl err \<Rightarrow> read_plaintext_targets E K targets results
         (warnings @ [''Read Without Encryption failed for service 0x'' @ hex4 code @ '': '' @ felica_error_text err]))"

definition read_plaintext_services ::
    "'d environment \<Rightarrow> text_crates \<Rightarrow> area_node list \<Rightarrow> service_group list \<Rightarrow> string list
      \<Rightarrow> ('d, area_node list \<times> service_group list \<times> string list) host_op" where
  "read_plaintext_services E K areas groups warnings =
     (let targets = collect_plaintext_service_codes areas groups in
      if targets = [] then liftH (Inr (areas, groups, warnings))
      else
        bindH (read_plaintext_targets E K targets [] warnings) (\<lambda>(results, warnings).
        liftH (Inr (case assign_blocks areas groups results of (areas, groups, _) \<Rightarrow> (areas, groups, warnings)))))"

section \<open>Services behind authentication\<close>

fun collect_service_targets :: "service_summary list \<Rightarrow> u16 list \<Rightarrow> auth_read_target list \<times> u16 list \<Rightarrow> auth_read_target list \<times> u16 list" where
  "collect_service_targets [] path t = t"
| "collect_service_targets (s # services) path (targets, seen) =
     collect_service_targets services path
       (if ss_attributes s AND 0x01 = 0 \<and> ss_code s \<notin> set seen
        then (targets @ [\<lparr>at_code = ss_code s, at_areas = path\<rparr>], seen @ [ss_code s])
        else (targets, seen))"

definition collect_group_authenticated_targets ::
    "service_group \<Rightarrow> u16 list \<Rightarrow> auth_read_target list \<times> u16 list \<Rightarrow> auth_read_target list \<times> u16 list" where
  "collect_group_authenticated_targets g path t =
     (if sg_blocks g \<noteq> None then t else collect_service_targets (sg_services g) path t)"

text \<open>The path holds the codes of the areas around the children.\<close>

fun collect_authenticated_area :: "area_node \<Rightarrow> u16 list \<Rightarrow> auth_read_target list \<times> u16 list \<Rightarrow> auth_read_target list \<times> u16 list"
  and collect_authenticated_children :: "dump_child list \<Rightarrow> u16 list \<Rightarrow> auth_read_target list \<times> u16 list \<Rightarrow> auth_read_target list \<times> u16 list" where
  "collect_authenticated_area (AreaNode code code_hex end_hex version children) path t =
     collect_authenticated_children children (path @ [code]) t"
| "collect_authenticated_children [] path t = t"
| "collect_authenticated_children (DumpArea a # children) path t =
     collect_authenticated_children children path (collect_authenticated_area a path t)"
| "collect_authenticated_children (DumpGroup g # children) path t =
     collect_authenticated_children children path (collect_group_authenticated_targets g path t)"

definition collect_authenticated_service_codes :: "area_node list \<Rightarrow> service_group list \<Rightarrow> auth_read_target list" where
  "collect_authenticated_service_codes areas groups =
     fst (fold (\<lambda>a. collect_authenticated_area a []) areas
       (fold (\<lambda>g. collect_group_authenticated_targets g []) groups ([], [])))"

definition read_with_scheme :: "'d environment \<Rightarrow> secure_session_scheme \<Rightarrow> u16 \<Rightarrow> ('d, bytes list) host_op" where
  "read_with_scheme E scheme n =
     (case scheme of SchemeDes \<Rightarrow> read E [block_element n] | SchemeAes128 \<Rightarrow> read_v2 E [block_element n])"

text \<open>The error of a read is a text here.\<close>

function auth_read_from ::
    "'d environment \<Rightarrow> text_crates \<Rightarrow> secure_session_scheme \<Rightarrow> u16 \<Rightarrow> string list \<Rightarrow> ('d, string + string list) host_op" where
  "auth_read_from E K scheme n blocks_hex =
     catchH (read_with_scheme E scheme n) (\<lambda>r. case r of
       Inr blocks \<Rightarrow>
         if blocks = [] then liftH (Inr (Inr blocks_hex))
         else
           let blocks_hex = blocks_hex @ map (hex_encode_upper K) blocks in
           (case checked_succ n of Some next \<Rightarrow> auth_read_from E K scheme next blocks_hex | None \<Rightarrow> liftH (Inr (Inr blocks_hex)))
     | Inl err \<Rightarrow>
         if is_status err then liftH (Inr (Inr blocks_hex))
         else liftH (Inr (Inl (''Read failed at block '' @ dec (unat n) @ '': '' @ felica_error_text err))))"
  by pat_completeness auto
termination
  by (relation "measure (\<lambda>(E, K, scheme, n, blocks_hex). 0x10000 - unat n)")
    (auto dest!: checked_succ_Some intro!: index_decreases)

declare auth_read_from.simps [simp del]

definition read_service_blocks_with_auth ::
    "'d environment \<Rightarrow> text_crates \<Rightarrow> bytes \<Rightarrow> auth_read_target \<Rightarrow> resolved_node_keys
      \<Rightarrow> ('d, string + string list \<times> mutual_auth_summary) host_op" where
  "read_service_blocks_with_auth E K random_1 target keys =
     (case get_key keys (at_code target) of
        None \<Rightarrow> liftH (Inr (Inl (''No key is available for service '' @ hex_u16 (at_code target))))
      | Some key \<Rightarrow>
          let scheme = node_key_scheme key;
              areas = (case scheme of SchemeDes \<Rightarrow> at_areas target | SchemeAes128 \<Rightarrow> []) in
          catchH (authenticate_node E random_1 keys areas [ServiceCode (at_code target)] None) (\<lambda>r. case r of
            Inl err \<Rightarrow> liftH (Inr (Inl (''Mutual Authentication failed: '' @ felica_error_text err)))
          | Inr auth \<Rightarrow>
              bindH (auth_read_from E K scheme 0 []) (\<lambda>blocks.
              liftH (Inr (map_sum id (\<lambda>blocks. (blocks, \<lparr>ma_idi = hex_encode_upper K (issue_id auth),
                ma_pmi = hex_encode_upper K (issue_parameter auth)\<rparr>)) blocks)))))"

text \<open>What the loop over the targets accumulates.\<close>

record auth_reads =
  ar_results :: block_map
  ar_summary :: "mutual_auth_summary option"
  ar_warnings :: "string list"

definition ar_warn :: "string \<Rightarrow> auth_reads \<Rightarrow> auth_reads" where
  "ar_warn m a = a\<lparr>ar_warnings := ar_warnings a @ [m]\<rparr>"

definition ar_read :: "u16 \<Rightarrow> string list \<times> mutual_auth_summary \<Rightarrow> auth_reads \<Rightarrow> auth_reads" where
  "ar_read code = (\<lambda>(blocks, summary) a.
     a\<lparr>ar_results := store_read_result (ar_results a) code blocks,
       ar_summary := (case ar_summary a of None \<Rightarrow> Some summary | Some first \<Rightarrow> Some first)\<rparr>)"

text \<open>\<open>rand::random\<close> of the authentication of a target is \<open>randoms\<close> of its code.\<close>

fun read_authenticated_targets ::
    "'d environment \<Rightarrow> text_crates \<Rightarrow> (u16 \<Rightarrow> bytes) \<Rightarrow> resolved_node_keys \<Rightarrow> auth_read_target list \<Rightarrow> auth_reads
      \<Rightarrow> ('d, auth_reads) host_op" where
  "read_authenticated_targets E K randoms keys [] a = liftH (Inr a)"
| "read_authenticated_targets E K randoms keys (target # targets) a =
     catchH (host_reset_mode E) (\<lambda>r. case r of
       Inl err \<Rightarrow> liftH (Inr (ar_warn (''Reset Mode failed before authenticated read of service '' @ hex_u16 (at_code target) @
         '': '' @ felica_error_text err) a))
     | Inr _ \<Rightarrow>
         bindH clear_authenticated_context (\<lambda>_.
         bindH (read_service_blocks_with_auth E K (randoms (at_code target)) target keys) (\<lambda>r.
         read_authenticated_targets E K randoms keys targets
           (case r of
              Inr result \<Rightarrow> ar_read (at_code target) result a
            | Inl err \<Rightarrow> ar_warn (''Authenticated Read failed for service '' @ hex_u16 (at_code target) @ '': '' @ err) a))))"

definition read_authenticated_services ::
    "'d environment \<Rightarrow> text_crates \<Rightarrow> (u16 \<Rightarrow> bytes) \<Rightarrow> resolved_node_keys \<Rightarrow> area_node list \<Rightarrow> service_group list \<Rightarrow> string list
      \<Rightarrow> ('d, area_node list \<times> service_group list \<times> mutual_auth_summary option \<times> string list) host_op" where
  "read_authenticated_services E K randoms keys areas groups warnings =
     (let targets = collect_authenticated_service_codes areas groups in
      if targets = [] then liftH (Inr (areas, groups, None, warnings))
      else
        bindH (read_authenticated_targets E K randoms keys targets
          \<lparr>ar_results = [], ar_summary = None, ar_warnings = warnings\<rparr>) (\<lambda>a.
        bindH (catchH (host_reset_mode E) (\<lambda>r. liftH (Inr (case r of
            Inl err \<Rightarrow> ar_warn (''Reset Mode failed after authenticated reads: '' @ felica_error_text err) a
          | Inr _ \<Rightarrow> a)))) (\<lambda>a.
        bindH clear_authenticated_context (\<lambda>_.
        liftH (Inr (case assign_blocks areas groups (ar_results a) of (areas, groups, _) \<Rightarrow>
          (areas, groups, ar_summary a, ar_warnings a)))))))"

section \<open>Systems and the card\<close>

text \<open>
  An operation on the card that polling found, as an operation on the driver. The order in which the codes of
  a left-over map are named is the map's; here it is the order of insertion.
\<close>

definition unknown_codes_warning :: "key_version_map \<Rightarrow> string list" where
  "unknown_codes_warning m =
     (if m = [] then []
      else [''Key versions returned for unknown codes: ['' @ join_with '', '' (map (\<lambda>(code, _). hex_u16 code) m) @ '']''])"

definition summarize_polled ::
    "'d environment \<Rightarrow> text_crates \<Rightarrow> (u16 \<Rightarrow> bytes) \<Rightarrow> key_store option \<Rightarrow> u16 \<Rightarrow> ('d, system_summary) host_op" where
  "summarize_polled E K randoms store system_code =
     bindH (readH (t3_idm \<circ> fs_polling_result)) (\<lambda>card_idm.
     bindH (readH (hex_encode_upper K \<circ> t3_idm \<circ> fs_polling_result)) (\<lambda>idm.
     bindH (readH (hex_encode_upper K \<circ> t3_pmm \<circ> fs_polling_result)) (\<lambda>pmm.
     bindH (collect_system_areas E (register_service_code SYSTEM_SERVICE_CODE \<lparr>wk_codes = [], wk_seen = [], wk_warnings = []\<rparr>))
       (\<lambda>(areas, groups, w).
     bindH (fetch_key_versions E (wk_codes w) (wk_warnings w)) (\<lambda>(versions, warnings).
     let (system_key, versions) = take_version SYSTEM_SERVICE_CODE None versions;
         (groups, versions) = assign_system_key_versions groups versions;
         (areas, versions) = assign_areas_key_versions areas versions in
     bindH (catchH (read_plaintext_services E K areas groups warnings) (\<lambda>r. liftH (Inr (case r of
         Inr result \<Rightarrow> result
       | Inl err \<Rightarrow> (areas, groups, warnings @ [''Reading plaintext blocks failed for system 0x'' @ hex4 system_code @ '': '' @
           felica_error_text err]))))) (\<lambda>(areas, groups, warnings).
     bindH (case Option.bind store (\<lambda>store. resolve K store system_code card_idm) of
         Some keys \<Rightarrow> read_authenticated_services E K randoms keys areas groups warnings
       | None \<Rightarrow> liftH (Inr (areas, groups, None, if store = None then warnings else warnings @
           [''No external keys available for system 0x'' @ hex4 system_code @ '' and IDm '' @ idm @
            ''; skipping authenticated reads'']))) (\<lambda>(areas, groups, summary, warnings).
     liftH (Inr \<lparr>sm_idm = idm, sm_pmm = pmm, sm_idi = map_option ma_idi summary, sm_pmi = map_option ma_pmi summary,
       sm_code_hex = hex_u16 system_code, sm_key = system_key, sm_services = groups, sm_areas = areas,
       sm_warnings = warnings @ unknown_codes_warning versions\<rparr>))))))))"

definition summarize_system ::
    "'d environment \<Rightarrow> text_crates \<Rightarrow> (u16 \<Rightarrow> bytes) \<Rightarrow> key_store option \<Rightarrow> u16 \<Rightarrow> 'd \<Rightarrow> (felica_error + system_summary) \<times> 'd" where
  "summarize_system E K randoms store system_code d =
     (case polling_multi E [''212F'', ''424F''] system_code 0x00 0x00 d of
        (Inl e, d) \<Rightarrow> (Inl e, d)
      | (Inr (h, _), d) \<Rightarrow>
          (case summarize_polled E K randoms store system_code h of (r, h) \<Rightarrow> (r, fs_device h)))"

fun collect_system_summaries ::
    "'d environment \<Rightarrow> text_crates \<Rightarrow> (u16 \<Rightarrow> u16 \<Rightarrow> bytes) \<Rightarrow> key_store option \<Rightarrow> u16 list \<Rightarrow> 'd \<Rightarrow> (felica_error + system_summary list) \<times> 'd" where
  "collect_system_summaries E K randoms store [] d = (Inr [], d)"
| "collect_system_summaries E K randoms store (code # codes) d =
     (case summarize_system E K (randoms code) store code d of
        (Inl e, d) \<Rightarrow> (Inl e, d)
      | (Inr s, d) \<Rightarrow>
          (case collect_system_summaries E K randoms store codes d of
             (Inl e, d) \<Rightarrow> (Inl e, d)
           | (Inr rest, d) \<Rightarrow> (Inr (s # rest), d)))"

text \<open>The program polls until a card is there: with none, it does not return.\<close>

partial_function (option) poll_until_found :: "'d environment \<Rightarrow> u16 \<Rightarrow> 'd \<Rightarrow> ((felica_error + 'd felica_standard) \<times> 'd) option" where
  "poll_until_found E system_code d =
     (case polling_multi E [''212F'', ''424F''] system_code 0x00 0x00 d of
        (Inr (h, _), d) \<Rightarrow> Some (Inr h, d)
      | (Inl e, d) \<Rightarrow> if panicking e then Some (Inl e, d) else poll_until_found E system_code d)"

definition discover_system_codes :: "'d environment \<Rightarrow> 'd \<Rightarrow> ((felica_error + string \<times> u16 list) \<times> 'd) option" where
  "discover_system_codes E d =
     map_option (\<lambda>(found, d). case found of
         Inl e \<Rightarrow> (Inl e, d)
       | Inr h \<Rightarrow>
           (case request_system_code E h of
              (Inl e, h) \<Rightarrow> (Inl e, fs_device h)
            | (Inr codes, h) \<Rightarrow> (Inr (host_bitrate h, codes), fs_device h)))
       (poll_until_found E 0xFFFF d)"

record reader_info =
  ri_vendor :: string
  ri_product :: string
  ri_chipset :: string

definition build_reader_info :: "string option \<Rightarrow> string option \<Rightarrow> string \<Rightarrow> reader_info" where
  "build_reader_info vendor model chipset =
     \<lparr>ri_vendor = (case vendor of Some s \<Rightarrow> s | None \<Rightarrow> ''Unknown Vendor''),
      ri_product = (case model of Some s \<Rightarrow> s | None \<Rightarrow> ''Unknown Device''), ri_chipset = chipset\<rparr>"

record dump_output =
  do_reader :: "reader_info option"
  do_remote :: "string option"
  do_data_rate :: string
  do_systems :: "system_summary list"

text \<open>The body of \<open>run_local_dump\<close> and of \<open>run_remote_dump\<close> behind the opening of the driver.\<close>

definition run_dump ::
    "'d environment \<Rightarrow> text_crates \<Rightarrow> (u16 \<Rightarrow> u16 \<Rightarrow> bytes) \<Rightarrow> key_store option \<Rightarrow> reader_info option \<Rightarrow> string option \<Rightarrow> 'd
      \<Rightarrow> ((felica_error + dump_output) \<times> 'd) option" where
  "run_dump E K randoms store reader remote d =
     map_option (\<lambda>(discovered, d). case discovered of
         Inl e \<Rightarrow> (Inl e, d)
       | Inr (rate, codes) \<Rightarrow>
           (case collect_system_summaries E K randoms store codes d of
              (Inl e, d) \<Rightarrow> (Inl e, d)
            | (Inr systems, d) \<Rightarrow>
                (Inr \<lparr>do_reader = reader, do_remote = remote, do_data_rate = rate, do_systems = systems\<rparr>, d)))
       (discover_system_codes E d)"

section \<open>The command line\<close>

datatype output_format = HumanFormat | JsonFormat

record cli_options =
  cli_remote_addr :: "string option"
  cli_keys_path :: "string option"
  cli_format :: output_format

datatype cli_action = CliRun cli_options | CliShowHelp

definition parse_format :: "string \<Rightarrow> string + output_format" where
  "parse_format v =
     (let v = map ascii_lower v in
      if v \<in> {''human'', ''text'', ''pretty''} then Inr HumanFormat
      else if v = ''json'' then Inr JsonFormat
      else Inl (''Unknown format '' @ CHR 0x27 # v @ CHR 0x27 # '' (expected human or json)''))"

fun parse_cli :: "string list \<Rightarrow> cli_options \<Rightarrow> string + cli_action" where
  "parse_cli [] options = Inr (CliRun options)"
| "parse_cli (arg # args) options =
     (if arg \<in> {''--keys'', ''-k''} then
        (case args of [] \<Rightarrow> Inl ''--keys requires a file path argument''
         | path # args \<Rightarrow> parse_cli args (options\<lparr>cli_keys_path := Some path\<rparr>))
      else if arg \<in> {''--remote'', ''-r''} then
        (case args of [] \<Rightarrow> Inl ''--remote requires an address argument''
         | addr # args \<Rightarrow> parse_cli args (options\<lparr>cli_remote_addr := Some addr\<rparr>))
      else if arg \<in> {''--format'', ''-f''} then
        (case args of [] \<Rightarrow> Inl ''--format requires a value (human|json)''
         | v # args \<Rightarrow> bindE (parse_format v) (\<lambda>f. parse_cli args (options\<lparr>cli_format := f\<rparr>)))
      else if arg = ''--json'' then parse_cli args (options\<lparr>cli_format := JsonFormat\<rparr>)
      else if arg = ''--human'' then parse_cli args (options\<lparr>cli_format := HumanFormat\<rparr>)
      else if arg \<in> {''--help'', ''-h''} then Inr CliShowHelp
      else Inl (''Unknown argument: '' @ arg))"

definition parse_cli_args :: "string list \<Rightarrow> string + cli_action" where
  "parse_cli_args args = parse_cli (drop 1 args) \<lparr>cli_remote_addr = None, cli_keys_path = None, cli_format = HumanFormat\<rparr>"

end
