(* ===== verification/Console.thy ===== *)
theory Console
  imports Prelude
begin

text \<open>
  The text that the example programs print. It is UTF-8, one \<open>char\<close> a byte; \<open>jp\<close> encodes the scalar values of
  the Japanese words and of the drawing characters.
\<close>

section \<open>Text\<close>

text \<open>The UTF-8 encoding of a scalar value.\<close>

definition utf8_char :: "nat \<Rightarrow> string" where
  "utf8_char n = map char_of
     (if n < 0x80 then [n]
      else if n < 0x800 then [0xC0 + n div 0x40, 0x80 + n mod 0x40]
      else if n < 0x10000 then [0xE0 + n div 0x1000, 0x80 + n div 0x40 mod 0x40, 0x80 + n mod 0x40]
      else [0xF0 + n div 0x40000, 0x80 + n div 0x1000 mod 0x40, 0x80 + n div 0x40 mod 0x40, 0x80 + n mod 0x40])"

definition jp :: "nat list \<Rightarrow> string" where
  "jp cs = concat (map utf8_char cs)"

text \<open>The long dash that stands for a missing value.\<close>

definition dash :: string where
  "dash = (jp [0x2014])"

definition zero_padded :: "nat \<Rightarrow> nat \<Rightarrow> string" where
  "zero_padded width n = replicate (width - length (dec n)) (CHR ''0'') @ dec n"

definition left_justified :: "nat \<Rightarrow> string \<Rightarrow> string" where
  "left_justified width s = s @ replicate (width - length s) (CHR '' '')"

definition right_justified :: "nat \<Rightarrow> string \<Rightarrow> string" where
  "right_justified width s = replicate (width - length s) (CHR '' '') @ s"

end
