(* ===== verification/Dump_Print.thy ===== *)
theory Dump_Print
  imports Dump Console
begin

text \<open>
  The human-readable output of the card dump, \<open>print_human\<close> of \<open>examples/dump.rs\<close>: the lines that it prints, with
  or without colours. The drawing of a system has one line for every node and every block below it.
\<close>

section \<open>Colours\<close>

record painter =
  color :: bool

definition wrap_text :: "painter \<Rightarrow> string \<Rightarrow> string \<Rightarrow> string" where
  "wrap_text p code t =
     (if color p then CHR 0x1B # ''['' @ code @ ''m'' @ t @ CHR 0x1B # ''[0m'' else t)"

definition bold :: "painter \<Rightarrow> string \<Rightarrow> string" where "bold p t = wrap_text p ''1'' t"
definition dim :: "painter \<Rightarrow> string \<Rightarrow> string" where "dim p t = wrap_text p ''2'' t"
definition cyan :: "painter \<Rightarrow> string \<Rightarrow> string" where "cyan p t = wrap_text p ''36'' t"
definition bold_cyan :: "painter \<Rightarrow> string \<Rightarrow> string" where "bold_cyan p t = wrap_text p ''1;36'' t"
definition green :: "painter \<Rightarrow> string \<Rightarrow> string" where "green p t = wrap_text p ''32'' t"
definition yellow :: "painter \<Rightarrow> string \<Rightarrow> string" where "yellow p t = wrap_text p ''33'' t"
definition blue :: "painter \<Rightarrow> string \<Rightarrow> string" where "blue p t = wrap_text p ''1;34'' t"
definition magenta :: "painter \<Rightarrow> string \<Rightarrow> string" where "magenta p t = wrap_text p ''35'' t"

section \<open>Labels\<close>

abbreviation (input) RULE_WIDTH :: nat where "RULE_WIDTH \<equiv> 66"

definition branch_parts :: "bool \<Rightarrow> string \<times> string" where
  "branch_parts is_last = (if is_last then ((jp [0x2514, 0x2500] @ '' ''), ''   '') else ((jp [0x251C, 0x2500] @ '' ''), (jp [0x2502] @ ''  '')))"

definition format_key_versions :: "painter \<Rightarrow> key_version_summary \<Rightarrow> string option" where
  "format_key_versions p key =
     (let parts = (case aes_key_version_hex key of Some aes \<Rightarrow> [''AES '' @ aes] | None \<Rightarrow> []) @
          (case des_key_version_hex key of Some des \<Rightarrow> [''DES '' @ des] | None \<Rightarrow> []) in
      if parts = [] then None else Some (magenta p (''key['' @ join_with '' '' parts @ '']'')))"

definition append_key_label :: "painter \<Rightarrow> string \<Rightarrow> key_version_summary option \<Rightarrow> string" where
  "append_key_label p label key =
     (case Option.bind key (format_key_versions p) of
        Some rendered \<Rightarrow> label @ ''  '' @ rendered
      | None \<Rightarrow> label)"

definition area_label :: "painter \<Rightarrow> area_node \<Rightarrow> string" where
  "area_label p area =
     append_key_label p
       (blue p ''Area'' @ '' '' @ bold p (an_code_hex area) @ '' '' @ dim p (''(max service '' @ an_end_hex area @ '')''))
       (an_key_version area)"

definition group_label :: "painter \<Rightarrow> service_group \<Rightarrow> string" where
  "group_label p grp =
     (let count = length (sg_services grp) in
      cyan p ''Service group'' @ '' '' @ bold p (sg_number_hex grp) @ '' '' @
      dim p (''('' @ dec count @ '' service'' @ (if count = 1 then [] else ''s'') @ '')''))"

definition service_label :: "painter \<Rightarrow> service_summary \<Rightarrow> string" where
  "service_label p service =
     (let access = (if ss_attributes service AND 0x01 = 0 then yellow p ''auth'' else green p ''open'');
          description = (case ss_description service of Some s \<Rightarrow> s | None \<Rightarrow> ''unknown attribute'') in
      append_key_label p
        (cyan p ''Service'' @ '' '' @ bold p (ss_code_hex service) @ '' ['' @ access @ ''] '' @ dim p description)
        (ss_key_version service))"

text \<open>A block that is not hexadecimal is shown as no bytes.\<close>

definition hexdump_line :: "painter \<Rightarrow> text_crates \<Rightarrow> nat \<Rightarrow> string \<Rightarrow> string" where
  "hexdump_line p K block_index block_hex =
     (let bytes = (case hex_decode K block_hex of Inr bs \<Rightarrow> bs | Inl _ \<Rightarrow> []);
          hex_cols = concat (map (\<lambda>column. (if column = 8 then '' '' else []) @
            (case nth_opt bytes column of Some b \<Rightarrow> hex2 b @ '' '' | None \<Rightarrow> ''   '')) [0..<16]);
          ascii = map (\<lambda>b. if 0x20 \<le> b \<and> b \<le> 0x7E then char_of (unat b) else CHR ''.'') bytes in
      dim p (right_justified 3 (dec block_index)) @ '' '' @ dim p (jp [0x2502]) @ '' '' @ hex_cols @ dim p (jp [0x2502]) @ '' '' @ green p ascii)"

definition describe_data_rate :: "string \<Rightarrow> string" where
  "describe_data_rate rate =
     (if rate = ''212F'' then ''212F (212 kbps)'' else if rate = ''424F'' then ''424F (424 kbps)'' else rate)"

definition describe_system_code :: "string \<Rightarrow> string option" where
  "describe_system_code code = map_of
     [(''0x0003'', (jp [0x4EA4, 0x901A, 0x7CFB] @ ''IC (Suica / PASMO / ICOCA '' @ jp [0x306A, 0x3069] @ '')'')),
      (''0xFE00'', (jp [0x5171, 0x901A, 0x9818, 0x57DF] @ '' (Edy / nanaco / WAON / QUICPay '' @ jp [0x306A, 0x3069] @ '')'')),
      (''0x88B4'', ''FeliCa Lite-S''),
      (''0x957A'', ''FeliCa Plug / NFC Dynamic Tag'')] code"

section \<open>The tree\<close>

definition print_blocks :: "painter \<Rightarrow> text_crates \<Rightarrow> string list \<Rightarrow> string \<Rightarrow> bool \<Rightarrow> string list" where
  "print_blocks p K blocks indent is_last =
     (case branch_parts is_last of (branch, cont) \<Rightarrow>
      (indent @ dim p branch @
        bold p (''data ('' @ dec (length blocks) @ '' block'' @ (if length blocks = 1 then [] else ''s'') @ '')'')) #
      map (\<lambda>(block_index, block_hex). indent @ dim p cont @ hexdump_line p K block_index block_hex) (enumerate 0 blocks))"

definition print_service_line :: "painter \<Rightarrow> service_summary \<Rightarrow> string \<Rightarrow> bool \<Rightarrow> string list" where
  "print_service_line p service indent is_last = [indent @ dim p (fst (branch_parts is_last)) @ service_label p service]"

definition print_group_node :: "painter \<Rightarrow> text_crates \<Rightarrow> service_group \<Rightarrow> string \<Rightarrow> bool \<Rightarrow> string list" where
  "print_group_node p K grp indent is_last =
     (case branch_parts is_last of (branch, cont) \<Rightarrow>
      let child_indent = indent @ dim p cont;
          blocks = (case sg_blocks grp of Some bs \<Rightarrow> bs | None \<Rightarrow> []);
          child_count = length (sg_services grp) + of_bool (blocks \<noteq> []) in
      (indent @ dim p branch @ group_label p grp) #
      concat (map (\<lambda>(i, service). print_service_line p service child_indent (i + 1 = child_count)) (enumerate 0 (sg_services grp))) @
      (if blocks \<noteq> [] then print_blocks p K blocks child_indent True else []))"

text \<open>The last child of a node is the one with none behind it.\<close>

fun print_area_node :: "painter \<Rightarrow> text_crates \<Rightarrow> area_node \<Rightarrow> string \<Rightarrow> bool \<Rightarrow> string list"
  and print_children :: "painter \<Rightarrow> text_crates \<Rightarrow> dump_child list \<Rightarrow> string \<Rightarrow> string list" where
  "print_area_node p K (AreaNode code code_hex end_hex version children) indent is_last =
     (case branch_parts is_last of (branch, cont) \<Rightarrow>
      (indent @ dim p branch @ area_label p (AreaNode code code_hex end_hex version children)) #
      print_children p K children (indent @ dim p cont))"
| "print_children p K [] indent = []"
| "print_children p K (DumpArea area # rest) indent = print_area_node p K area indent (rest = []) @ print_children p K rest indent"
| "print_children p K (DumpGroup grp # rest) indent = print_group_node p K grp indent (rest = []) @ print_children p K rest indent"

definition print_kv :: "painter \<Rightarrow> string \<Rightarrow> string \<Rightarrow> string" where
  "print_kv p label v = ''  '' @ dim p (left_justified 11 label) @ '' '' @ v"

definition rule :: "nat list \<Rightarrow> string" where
  "rule c = concat (replicate RULE_WIDTH (jp c))"

definition system_structure :: "painter \<Rightarrow> text_crates \<Rightarrow> system_summary \<Rightarrow> string list" where
  "system_structure p K system =
     (let child_count = length (sm_areas system) + length (sm_services system) in
      if child_count = 0 then [[], ''  '' @ dim p ''(no areas or services found)'']
      else [[], ''  '' @ bold p ''Structure''] @
        concat (map (\<lambda>(i, area). print_area_node p K area ''  '' (i + 1 = child_count)) (enumerate 0 (sm_areas system))) @
        concat (map (\<lambda>(i, grp). print_group_node p K grp ''  '' (i + 1 = child_count))
          (enumerate (length (sm_areas system)) (sm_services system))))"

definition print_system :: "painter \<Rightarrow> text_crates \<Rightarrow> system_summary \<Rightarrow> string list" where
  "print_system p K system =
     (let title = (case describe_system_code (sm_code_hex system) of
          Some name \<Rightarrow> ''System '' @ sm_code_hex system @ (''  '' @ jp [0x2014] @ ''  '') @ name
        | None \<Rightarrow> ''System '' @ sm_code_hex system) in
      [[], cyan p (jp [0x2590]) @ '' '' @ bold_cyan p title, dim p (rule [0x2500]),
       print_kv p ''IDm'' (bold p (sm_idm system)), print_kv p ''PMm'' (sm_pmm system)] @
      (case sm_idi system of Some idi \<Rightarrow> [print_kv p ''IDi (issue)'' idi] | None \<Rightarrow> []) @
      (case sm_pmi system of Some pmi \<Rightarrow> [print_kv p ''PMi (issue)'' pmi] | None \<Rightarrow> []) @
      (case Option.bind (sm_key system) (format_key_versions p) of
         Some rendered \<Rightarrow> [print_kv p ''System key'' rendered] | None \<Rightarrow> []) @
      system_structure p K system @
      (if sm_warnings system \<noteq> [] then
         [[], ''  '' @ yellow p (''Warnings ('' @ dec (length (sm_warnings system)) @ '')'')] @
         map (\<lambda>w. ''  '' @ yellow p ''!'' @ '' '' @ dim p w) (sm_warnings system)
       else []))"

definition print_human :: "painter \<Rightarrow> text_crates \<Rightarrow> dump_output \<Rightarrow> string list" where
  "print_human p K output =
     [[], bold_cyan p (rule [0x2501]), bold_cyan p ''  FeliCa Card Dump'', bold_cyan p (rule [0x2501])] @
     (case do_reader output of
        Some reader \<Rightarrow> [print_kv p ''Reader'' (ri_vendor reader @ '' '' @ ri_product reader @ '' ('' @ ri_chipset reader @ '')'')]
      | None \<Rightarrow> []) @
     (case do_remote output of Some address \<Rightarrow> [print_kv p ''Remote'' address] | None \<Rightarrow> []) @
     [print_kv p ''Data rate'' (describe_data_rate (do_data_rate output)),
      print_kv p ''Systems'' (dec (length (do_systems output)))] @
     (if do_systems output = [] then [[], ''  '' @ dim p ''(no systems reported by the card)'']
      else concat (map (print_system p K) (do_systems output)) @ [[]])"

section \<open>One line for every node\<close>

definition group_lines :: "service_group \<Rightarrow> nat" where
  "group_lines grp = 1 + length (sg_services grp) +
     (case sg_blocks grp of None \<Rightarrow> 0 | Some bs \<Rightarrow> if bs = [] then 0 else 1 + length bs)"

fun area_lines :: "area_node \<Rightarrow> nat" and child_lines :: "dump_child list \<Rightarrow> nat" where
  "area_lines (AreaNode code code_hex end_hex version children) = 1 + child_lines children"
| "child_lines [] = 0"
| "child_lines (DumpArea area # rest) = area_lines area + child_lines rest"
| "child_lines (DumpGroup grp # rest) = group_lines grp + child_lines rest"

lemma concat_single: "length (concat (map (\<lambda>x. [f x]) xs)) = length xs"
  by (induction xs) auto

lemma length_print_group: "length (print_group_node p K grp indent is_last) = group_lines grp"
proof -
  have "length (concat (map (\<lambda>(i, service). print_service_line p service w (P i)) (enumerate k xs))) = length xs" for w P k xs
    by (induction xs arbitrary: k) (auto simp: print_service_line_def)
  then show ?thesis
    by (auto simp: print_group_node_def group_lines_def print_blocks_def Let_def split: option.split prod.split)
qed

lemma length_print_area:
  "length (print_area_node p K area indent is_last) = area_lines area"
  "length (print_children p K children indent) = child_lines children"
  by (induction p K area indent is_last and p K children indent rule: print_area_node_print_children.induct)
    (auto simp: length_print_group split: prod.split)

end
