(* ===== verification/Suica_Format.thy ===== *)
theory Suica_Format
  imports Keys Console
begin

text \<open>
  What \<open>examples/dump_suica.rs\<close> makes of the bytes of a card: the names of codes, dates and times, amounts and
  the station table. The main facts are
  that the year taken from the clock is that of the calendar, that amounts are grouped in thousands, and that
  the cache of the station table is not seen from outside.
\<close>

section \<open>Names of codes\<close>

text \<open>\<open>{:X}\<close> of a byte.\<close>

definition hex_short :: "u8 \<Rightarrow> string" where
  "hex_short b = (if unat b < 16 then [digit_char (unat b)] else hex2 b)"

definition code_name :: "(u8 \<times> string) list \<Rightarrow> string \<Rightarrow> u8 \<Rightarrow> string" where
  "code_name names unknown v =
     (case map_of names v of Some s \<Rightarrow> s | None \<Rightarrow> unknown @ '' (0x'' @ hex2 v @ '')'')"

definition equipment_type_to_str :: "u8 \<Rightarrow> string" where
  "equipment_type_to_str = code_name
     [(0x00, (jp [0x672A, 0x5B9A, 0x7FA9])),
      (0x03, (jp [0x306E, 0x308A, 0x3053, 0x3057, 0x7CBE, 0x7B97, 0x6A5F])),
      (0x04, (jp [0x643A, 0x5E2F, 0x7AEF, 0x672B])),
      (0x05, (jp [0x30D0, 0x30B9, 0x7B49, 0x8ECA, 0x8F09, 0x6A5F])),
      (0x07, (jp [0x30AB, 0x30FC, 0x30C9, 0x767A, 0x58F2, 0x6A5F])),
      (0x08, (jp [0x81EA, 0x52D5, 0x5238, 0x58F2, 0x6A5F])),
      (0x09, (''SMART ICOCA '' @ jp [0x30AF, 0x30A4, 0x30C3, 0x30AF, 0x30C1, 0x30E3, 0x30FC, 0x30B8, 0x6A5F] @ ''?'')),
      (0x12, (jp [0x81EA, 0x52D5, 0x5238, 0x58F2, 0x6A5F] @ ''('' @ jp [0x6771, 0x4EAC, 0x30E2, 0x30CE, 0x30EC, 0x30FC, 0x30EB] @ '')'')),
      (0x14, (jp [0x99C5, 0x52D9, 0x6A5F, 0x5668] @ ''(PASMO'' @ jp [0x767A, 0x884C, 0x6A5F] @ ''?)'')),
      (0x15, (jp [0x5B9A, 0x671F, 0x5238, 0x767A, 0x58F2, 0x6A5F])),
      (0x16, (jp [0x81EA, 0x52D5, 0x6539, 0x672D, 0x6A5F])),
      (0x17, (jp [0x7C21, 0x6613, 0x6539, 0x672D, 0x6A5F])),
      (0x18, (jp [0x99C5, 0x52D9, 0x6A5F, 0x5668] @ ''('' @ jp [0x767A, 0x884C, 0x6A5F] @ ''?)'')),
      (0x19, (jp [0x7A93, 0x53E3, 0x51E6, 0x7406, 0x6A5F] @ ''('' @ jp [0x307F, 0x3069, 0x308A, 0x306E, 0x7A93, 0x53E3] @ '')'')),
      (0x1A, (jp [0x7A93, 0x53E3, 0x51E6, 0x7406, 0x6A5F] @ ''('' @ jp [0x6709, 0x4EBA, 0x6539, 0x672D] @ '')'')),
      (0x1B, (jp [0x30E2, 0x30D0, 0x30A4, 0x30EB] @ ''FeliCa'')),
      (0x1C, (jp [0x5165, 0x5834, 0x5238, 0x5238, 0x58F2, 0x6A5F])),
      (0x1D, (jp [0x4ED6, 0x793E, 0x4E57, 0x63DB, 0x81EA, 0x52D5, 0x6539, 0x672D, 0x6A5F])),
      (0x1F, (jp [0x5165, 0x91D1, 0x6A5F])),
      (0x20, (jp [0x767A, 0x884C, 0x6A5F] @ ''?('' @ jp [0x30E2, 0x30CE, 0x30EC, 0x30FC, 0x30EB] @ '')'')),
      (0x22, (jp [0x7C21, 0x6613, 0x6539, 0x672D, 0x6A5F] @ ''('' @ jp [0x3053, 0x3068, 0x3067, 0x3093] @ '')'')),
      (0x34, (jp [0x30AB, 0x30FC, 0x30C9, 0x767A, 0x58F2, 0x6A5F] @ ''('' @ jp [0x305B, 0x305F, 0x307E, 0x308B] @ ''?)'')),
      (0x35, (jp [0x30D0, 0x30B9, 0x7B49, 0x8ECA, 0x8F09, 0x6A5F] @ ''('' @ jp [0x305B, 0x305F, 0x307E, 0x308B, 0x8ECA, 0x5185, 0x5165, 0x91D1, 0x6A5F] @ ''?)'')),
      (0x36, (jp [0x30D0, 0x30B9, 0x7B49, 0x8ECA, 0x8F09, 0x6A5F] @ ''('' @ jp [0x8ECA, 0x5185, 0x7C21, 0x6613, 0x6539, 0x672D, 0x6A5F] @ '')'')),
      (0x46, (jp [0x30D3, 0x30E5, 0x30FC, 0x30A2, 0x30EB, 0x30C3, 0x30C6, 0x7AEF, 0x672B])),
      (0xC7, (jp [0x7269, 0x8CA9, 0x7AEF, 0x672B])),
      (0xC8, (jp [0x7269, 0x8CA9, 0x7AEF, 0x672B]))]
     (jp [0x4E0D, 0x660E, 0x306A, 0x6A5F, 0x5668, 0x7A2E, 0x5225])"

definition transaction_type_to_str :: "u8 \<Rightarrow> string" where
  "transaction_type_to_str = code_name
     [(0x00, (jp [0x672A, 0x5B9A, 0x7FA9])),
      (0x01, (jp [0x81EA, 0x52D5, 0x6539, 0x672D, 0x6A5F, 0x51FA, 0x5834])),
      (0x02, (''SF'' @ jp [0x30C1, 0x30E3, 0x30FC, 0x30B8])),
      (0x03, (jp [0x304D, 0x3063, 0x3077, 0x8CFC, 0x5165])),
      (0x04, (jp [0x78C1, 0x6C17, 0x5238, 0x7CBE, 0x7B97])),
      (0x05, (jp [0x4E57, 0x8D8A, 0x7CBE, 0x7B97])),
      (0x06, (jp [0x7A93, 0x53E3, 0x51FA, 0x5834])),
      (0x07, (jp [0x65B0, 0x898F])),
      (0x08, (jp [0x63A7, 0x9664])),
      (0x0D, (jp [0x30D0, 0x30B9, 0x7B49, 0x5747, 0x4E00, 0x904B, 0x8CC3])),
      (0x0F, (jp [0x30D0, 0x30B9, 0x7B49])),
      (0x11, (jp [0x518D, 0x767A, 0x884C] @ ''?'')),
      (0x13, (jp [0x6599, 0x91D1, 0x51FA, 0x5834])),
      (0x14, (jp [0x30AA, 0x30FC, 0x30C8, 0x30C1, 0x30E3, 0x30FC, 0x30B8])),
      (0x1F, (jp [0x30D0, 0x30B9, 0x7B49, 0x30C1, 0x30E3, 0x30FC, 0x30B8])),
      (0x46, (jp [0x7269, 0x8CA9])),
      (0x48, (jp [0x30DD, 0x30A4, 0x30F3, 0x30C8, 0x30C1, 0x30E3, 0x30FC, 0x30B8])),
      (0x4B, (jp [0x5165, 0x5834, 0x30FB, 0x7269, 0x8CA9]))]
     (jp [0x4E0D, 0x660E, 0x306A, 0x53D6, 0x5F15, 0x7A2E, 0x5225])"

definition pay_type_to_str :: "u8 \<Rightarrow> string" where
  "pay_type_to_str = code_name
     [(0x00, (jp [0x73FE, 0x91D1] @ ''/'' @ jp [0x306A, 0x3057])),
      (0x02, ''VIEW''),
      (0x0B, ''PiTaPa''),
      (0x0D, (jp [0x30AA, 0x30FC, 0x30C8, 0x30C1, 0x30E3, 0x30FC, 0x30B8, 0x5BFE, 0x5FDC] @ ''PASMO'')),
      (0x3F, (jp [0x30E2, 0x30D0, 0x30A4, 0x30EB] @ ''Suica(VIEW'' @ jp [0x6C7A, 0x6E08, 0x4EE5, 0x5916] @ '')''))]
     (jp [0x4E0D, 0x660E, 0x306A, 0x652F, 0x6255, 0x7A2E, 0x5225])"

definition purchase_pay_type_to_str :: "u8 \<Rightarrow> string" where
  "purchase_pay_type_to_str v = (if v = 0x3F then (jp [0x30AF, 0x30EC, 0x30B8, 0x30C3, 0x30C8, 0x30AB, 0x30FC, 0x30C9]) else pay_type_to_str v)"

definition gate_instruction_type_to_str :: "u8 \<Rightarrow> string" where
  "gate_instruction_type_to_str = code_name
     [(0x00, (jp [0x672A, 0x5B9A, 0x7FA9])),
      (0x01, (jp [0x5165, 0x5834])),
      (0x02, (jp [0x5165, 0x5834] @ ''/'' @ jp [0x51FA, 0x5834])),
      (0x03, (jp [0x5B9A, 0x671F, 0x5165, 0x5834] @ ''/'' @ jp [0x51FA, 0x5834])),
      (0x04, (jp [0x5165, 0x5834] @ ''/'' @ jp [0x5B9A, 0x671F, 0x51FA, 0x5834])),
      (0x0E, (jp [0x7A93, 0x53E3, 0x51FA, 0x5834])),
      (0x0F, (jp [0x5165, 0x5834] @ ''/'' @ jp [0x51FA, 0x5834] @ ''('' @ jp [0x30D0, 0x30B9, 0x7B49] @ '')'')),
      (0x12, (jp [0x6599, 0x91D1, 0x5B9A, 0x671F, 0x5165, 0x5834] @ ''/'' @ jp [0x6599, 0x91D1, 0x51FA, 0x5834])),
      (0x17, (jp [0x5165, 0x5834] @ ''/'' @ jp [0x51FA, 0x5834] @ ''('' @ jp [0x4E57, 0x7D99, 0x5272, 0x5F15] @ '')'')),
      (0x21, (jp [0x5165, 0x5834] @ ''/'' @ jp [0x51FA, 0x5834] @ ''('' @ jp [0x30D0, 0x30B9, 0x7B49, 0x4E57, 0x7D99, 0x5272, 0x5F15] @ '')''))]
     (jp [0x4E0D, 0x660E, 0x306A, 0x6539, 0x672D, 0x51E6, 0x7406, 0x7A2E, 0x5225])"

definition gate_in_out_type_to_str :: "u8 \<Rightarrow> string" where
  "gate_in_out_type_to_str = code_name
     [(0x00, (jp [0x7CBE, 0x7B97, 0x51FA, 0x5834])),
      (0x01, (jp [0x7CBE, 0x7B97, 0x51FA, 0x5834] @ ''('' @ jp [0x30D7, 0x30EA, 0x30DA, 0x30A4, 0x30C9, 0x30AB, 0x30FC, 0x30C9, 0x4F75, 0x7528] @ ''?)'')),
      (0x20, (jp [0x51FA, 0x5834])),
      (0x21, (jp [0x99C5, 0x52D9, 0x6A5F, 0x5668, 0x51FA, 0x5834])),
      (0x22, (jp [0x5272, 0x5F15, 0x51FA, 0x5834])),
      (0x24, (jp [0x5272, 0x5F15, 0x51FA, 0x5834] @ ''?'')),
      (0x40, (jp [0x5B9A, 0x671F, 0x51FA, 0x5834])),
      (0x80, (jp [0x5747, 0x4E00, 0x533A, 0x9593, 0x5165, 0x5834] @ ''?'')),
      (0xA0, (jp [0x5165, 0x5834])),
      (0xA2, (jp [0x5272, 0x5F15, 0x5165, 0x5834] @ ''?'')),
      (0xC0, (jp [0x5B9A, 0x671F, 0x5165, 0x5834]))]
     (jp [0x4E0D, 0x660E, 0x306A, 0x6539, 0x672D, 0x5165, 0x51FA, 0x5834, 0x7A2E, 0x5225])"

definition intermediate_gate_instruction_type_to_str :: "u8 \<Rightarrow> string" where
  "intermediate_gate_instruction_type_to_str = code_name
     [(0x00, (jp [0x672A, 0x5B9A, 0x7FA9])),
      (0x04, (jp [0x4E57, 0x7D99, 0x5272, 0x5F15] @ ''?'')),
      (0x08, (jp [0x96FB, 0x8ECA, 0x30D0, 0x30B9, 0x4E57, 0x7D99, 0x5272, 0x5F15] @ ''?'')),
      (0x40, (jp [0x65B0, 0x5E79, 0x7DDA, 0x4E2D, 0x9593, 0x6539, 0x672D] @ ''?''))]
     (jp [0x4E0D, 0x660E, 0x306A, 0x4E2D, 0x9593, 0x6539, 0x672D, 0x51E6, 0x7406, 0x7A2E, 0x5225])"

definition issuer_id_info :: "u16 \<Rightarrow> (string \<times> string) option" where
  "issuer_id_info = map_of
     [(0x0102, ((jp [0x5317, 0x6D77, 0x9053, 0x65C5, 0x5BA2, 0x9244, 0x9053, 0x682A, 0x5F0F, 0x4F1A, 0x793E]), ''JH'')),
      (0x0103, ((jp [0x6771, 0x65E5, 0x672C, 0x65C5, 0x5BA2, 0x9244, 0x9053, 0x682A, 0x5F0F, 0x4F1A, 0x793E]), ''JE'')),
      (0x0104, ((jp [0x6771, 0x6D77, 0x65C5, 0x5BA2, 0x9244, 0x9053, 0x682A, 0x5F0F, 0x4F1A, 0x793E]), ''JC'')),
      (0x0105, ((jp [0x897F, 0x65E5, 0x672C, 0x65C5, 0x5BA2, 0x9244, 0x9053, 0x682A, 0x5F0F, 0x4F1A, 0x793E]), ''JW'')),
      (0x0107, ((jp [0x4E5D, 0x5DDE, 0x65C5, 0x5BA2, 0x9244, 0x9053, 0x682A, 0x5F0F, 0x4F1A, 0x793E]), ''JK'')),
      (0x0252, ((jp [0x682A, 0x5F0F, 0x4F1A, 0x793E, 0x30D1, 0x30B9, 0x30E2]), ''PB'')),
      (0x0387, ((jp [0x682A, 0x5F0F, 0x4F1A, 0x793E, 0x540D, 0x53E4, 0x5C4B, 0x4EA4, 0x901A, 0x958B, 0x767A, 0x6A5F, 0x69CB, 0x30FB, 0x682A, 0x5F0F, 0x4F1A, 0x793E, 0x30A8, 0x30E0, 0x30A2, 0x30A4, 0x30B7, 0x30FC]), ''TP'')),
      (0x04AD, ((jp [0x682A, 0x5F0F, 0x4F1A, 0x793E, 0x30B9, 0x30EB, 0x30C3, 0x3068] @ ''KANSAI''), ''SU'')),
      (0x05D5, ((jp [0x682A, 0x5F0F, 0x4F1A, 0x793E, 0x30CB, 0x30E2, 0x30AB]), ''NR'')),
      (0x05D7, ((jp [0x798F, 0x5CA1, 0x5E02, 0x4EA4, 0x901A, 0x5C40]), ''FC''))]"

definition issuer_id_to_str :: "u16 \<Rightarrow> string" where
  "issuer_id_to_str v =
     (case issuer_id_info v of
        Some (company, identifier) \<Rightarrow> hex4 v @ '' ('' @ company @ '' / '' @ identifier @ '')''
      | None \<Rightarrow> hex4 v)"

section \<open>Fields of a block\<close>

definition be16 :: "bytes \<Rightarrow> nat \<Rightarrow> u16" where
  "be16 block i = u16_from_be (block ! i) (block ! (i + 1))"

definition le16 :: "bytes \<Rightarrow> nat \<Rightarrow> u16" where
  "le16 block i = u16_from_le (block ! i) (block ! (i + 1))"

text \<open>The \<open>hex\<close> crate is a parameter: \<open>encode_upper\<close>.\<close>

definition idi_bytes_to_str :: "(bytes \<Rightarrow> string) \<Rightarrow> bytes \<Rightarrow> string" where
  "idi_bytes_to_str encode_upper idi =
     (if length idi < 8 then encode_upper idi
      else
        let issuer_id = be16 idi 0;
            remainder = encode_upper (sub idi 2 4);
            head = (case issuer_id_info issuer_id of
                Some (_, identifier) \<Rightarrow> identifier @ remainder
              | None \<Rightarrow> hex4 issuer_id @ remainder);
            v = unat (be16 idi 4);
            yy = v div 0x200 mod 0x40 mod 100 in
        head @ zero_padded 2 yy @ zero_padded 2 (v div 0x20 mod 0x10) @ zero_padded 2 (v mod 0x20) @
          zero_padded 5 (unat (be16 idi 6)))"

definition decode_bcd :: "bytes \<Rightarrow> string" where
  "decode_bcd bs = concat (map (\<lambda>b. [char_of (48 + unat b div 16), char_of (48 + unat b mod 16)]) bs)"

definition int_to_date :: "u16 \<Rightarrow> nat \<times> nat \<times> nat" where
  "int_to_date v = (unat (drop_bit 9 v), unat (drop_bit 5 v AND 0x0F), unat (v AND 0x1F))"

definition format_date :: "u16 \<Rightarrow> string" where
  "format_date v =
     (if v = 0 then dash
      else case int_to_date v of (year, month, day) \<Rightarrow>
        zero_padded 4 (2000 + year) @ ''-'' @ zero_padded 2 month @ ''-'' @ zero_padded 2 day)"

text \<open>The year of a date of birth is below 2128, so the year printed is positive.\<close>

definition format_birth_date_with_reference :: "u16 \<Rightarrow> int \<Rightarrow> string" where
  "format_birth_date_with_reference v reference_year =
     (if v = 0 then dash
      else case int_to_date v of (year, month, day) \<Rightarrow>
        let full_year = 2000 + int year;
            full_year = (if full_year > reference_year then full_year - 100 else full_year) in
        zero_padded 4 (nat full_year) @ ''-'' @ zero_padded 2 month @ ''-'' @ zero_padded 2 day)"

text \<open>
  The year of a day, counted from 1970-01-01. The days come from a number of seconds, so the sums stay within 64
  bits and only the last conversion can cut the year.
\<close>

definition civil_year_from_days :: "int \<Rightarrow> int" where
  "civil_year_from_days days =
     (let shifted = days + 719468;
          era = shifted div 146097;
          day_of_era = shifted mod 146097;
          year_of_era = (day_of_era - day_of_era div 1460 + day_of_era div 36524 - day_of_era div 146096) div 365;
          day_of_year = day_of_era - (365 * year_of_era + year_of_era div 4 - year_of_era div 100);
          shifted_month = (5 * day_of_year + 2) div 153;
          year = year_of_era + era * 400 + of_bool (shifted_month \<ge> 10) in
      signed_take_bit 31 year)"

text \<open>The seconds since 1970 that the clock shows; \<open>None\<close> when it stands before that.\<close>

definition current_year :: "int option \<Rightarrow> int" where
  "current_year clock = civil_year_from_days ((case clock of Some seconds \<Rightarrow> seconds | None \<Rightarrow> 0) div 86400)"

definition format_birth_date :: "int option \<Rightarrow> u16 \<Rightarrow> string" where
  "format_birth_date clock v = format_birth_date_with_reference v (current_year clock)"

definition format_time :: "u16 \<Rightarrow> string" where
  "format_time v =
     zero_padded 2 (unat (drop_bit 11 v)) @ '':'' @ zero_padded 2 (unat (drop_bit 5 v AND 0x3F)) @ '':'' @
     zero_padded 2 (unat ((v AND 0x1F) * 2))"

definition thousands :: "int \<Rightarrow> string" where
  "thousands v =
     (let digits = dec (nat \<bar>v\<bar>) in
      (if v < 0 then ''-'' else []) @
      concat (map (\<lambda>(i, c). if 0 < i \<and> (length digits - i) mod 3 = 0 then [CHR '','', c] else [c]) (enumerate 0 digits)))"

definition format_yen :: "int \<Rightarrow> string" where
  "format_yen v = thousands v @ ('' '' @ jp [0x5186])"

definition format_delta :: "int option \<Rightarrow> string" where
  "format_delta change =
     (case change of
        Some v \<Rightarrow> if v > 0 then ''+'' @ thousands v @ ('' '' @ jp [0x5186]) else thousands v @ ('' '' @ jp [0x5186])
      | None \<Rightarrow> dash)"

text \<open>The characters that \<open>char::is_whitespace\<close> takes for white space.\<close>

definition is_whitespace :: "nat \<Rightarrow> bool" where
  "is_whitespace c \<longleftrightarrow> 0x09 \<le> c \<and> c \<le> 0x0D \<or> c \<in> {0x20, 0x85, 0xA0, 0x1680, 0x2028, 0x2029, 0x202F, 0x205F, 0x3000} \<or>
     0x2000 \<le> c \<and> c \<le> 0x200A"

text \<open>The \<open>encoding_rs\<close> crate is a parameter: it decodes Shift JIS to the scalar values of a text.\<close>

definition decode_owner_name :: "(bytes \<Rightarrow> nat list) \<Rightarrow> bytes \<Rightarrow> string" where
  "decode_owner_name shift_jis block = jp (rev (dropWhile (\<lambda>c. c = 0 \<or> is_whitespace c) (rev (shift_jis block))))"

definition is_blank :: "bytes \<Rightarrow> bool" where
  "is_blank block \<longleftrightarrow> list_all (\<lambda>b. b = 0) block"

section \<open>Stations\<close>

record station_info =
  si_company :: string
  si_line :: string
  si_station :: string

text \<open>The cache is an association list; a key is entered once.\<close>

record station_lookup =
  sl_csv_path :: "string option"
  sl_cache :: "((u8 \<times> u8) \<times> station_info option) list"

definition station_lookup_new :: "string option \<Rightarrow> station_lookup" where
  "station_lookup_new path = \<lparr>sl_csv_path = path, sl_cache = []\<rparr>"

fun split_at :: "char \<Rightarrow> string \<Rightarrow> string list" where
  "split_at c [] = [[]]"
| "split_at c (x # xs) = (if x = c then [] # split_at c xs else (case split_at c xs of f # fs \<Rightarrow> (x # f) # fs | [] \<Rightarrow> [[x]]))"

definition ascii_upper :: "char \<Rightarrow> char" where
  "ascii_upper c = (let n = of_char c :: nat in if 97 \<le> n \<and> n \<le> 122 then char_of (n - 32) else c)"

text \<open>A line that cannot be read is \<open>None\<close>. The two code columns are compared as ASCII text.\<close>

fun search_lines :: "string \<Rightarrow> string \<Rightarrow> string option list \<Rightarrow> station_info option" where
  "search_lines line_code station_order [] = None"
| "search_lines line_code station_order (None # rest) = search_lines line_code station_order rest"
| "search_lines line_code station_order (Some row # rest) =
     (let fields = split_at (CHR '','') row in
      if length fields < 6 then search_lines line_code station_order rest
      else if map ascii_upper (str_trim (fields ! 1)) = line_code \<and> map ascii_upper (str_trim (fields ! 2)) = station_order then
        Some \<lparr>si_company = fields ! 3, si_line = fields ! 4, si_station = fields ! 5\<rparr>
      else search_lines line_code station_order rest)"

text \<open>The files of the computer: \<open>None\<close> for one that cannot be opened.\<close>

type_synonym files = "string \<Rightarrow> string option list option"

definition search_in_file :: "files \<Rightarrow> string \<Rightarrow> u8 \<Rightarrow> u8 \<Rightarrow> station_info option" where
  "search_in_file files path line_code station_order =
     Option.bind (files path) (search_lines (hex_short line_code) (hex_short station_order))"

definition lookup_station :: "files \<Rightarrow> station_lookup \<Rightarrow> u8 \<Rightarrow> u8 \<Rightarrow> station_info option \<times> station_lookup" where
  "lookup_station files s line_code station_order =
     (let key = (line_code, station_order) in
      case map_of (sl_cache s) key of
        Some cached \<Rightarrow> (cached, s)
      | None \<Rightarrow>
          let found = (case sl_csv_path s of None \<Rightarrow> None | Some path \<Rightarrow> search_in_file files path line_code station_order) in
          (found, s\<lparr>sl_cache := (key, found) # sl_cache s\<rparr>))"

definition station_text :: "files \<Rightarrow> station_lookup \<Rightarrow> u8 \<Rightarrow> u8 \<Rightarrow> string \<times> station_lookup" where
  "station_text files s line_code station_order =
     (case lookup_station files s line_code station_order of
        (Some info, s) \<Rightarrow> (si_company info @ '' '' @ si_line info @ '' '' @ si_station info, s)
      | (None, s) \<Rightarrow> ((jp [0x4E0D, 0x660E] @ '' ('' @ jp [0x7DDA, 0x533A, 0x30B3, 0x30FC, 0x30C9] @ '': 0x'') @ hex2 line_code @ ('', '' @ jp [0x99C5, 0x9806, 0x30B3, 0x30FC, 0x30C9] @ '': 0x'') @ hex2 station_order @ '')'', s))"

text \<open>The lookup is shared by the program and set up by it first.\<close>

definition format_station :: "files \<Rightarrow> station_lookup option \<Rightarrow> u8 \<Rightarrow> u8 \<Rightarrow> string \<times> station_lookup option" where
  "format_station files stations line_code station_order =
     (case stations of
        Some s \<Rightarrow> (case station_text files s line_code station_order of (t, s) \<Rightarrow> (t, Some s))
      | None \<Rightarrow> ((jp [0x7DDA, 0x533A] @ '': 0x'') @ hex2 line_code @ ('', '' @ jp [0x99C5, 0x9806] @ '': 0x'') @ hex2 station_order, None))"

section \<open>The calendar\<close>

text \<open>The Gregorian calendar from 1970 on: the length of a year, and the day on which the year 1970 + n begins.\<close>

definition leap_year :: "int \<Rightarrow> bool" where
  "leap_year y \<longleftrightarrow> y mod 4 = 0 \<and> (y mod 100 \<noteq> 0 \<or> y mod 400 = 0)"

fun new_year :: "nat \<Rightarrow> int" where
  "new_year 0 = 0"
| "new_year (Suc n) = new_year n + (if leap_year (1970 + int n) then 366 else 365)"

text \<open>In closed form, with the days of March 1 of a year counted as the program counts them.\<close>

definition march_first :: "int \<Rightarrow> int" where
  "march_first y = 365 * y + y div 4 - y div 100 + y div 400 - 719468"

lemma leap_step:
  "(y + 1) div 4 - (y + 1) div 100 + (y + 1) div 400 =
    y div 4 - y div 100 + y div 400 + of_bool ((y + 1) mod 4 = 0 \<and> ((y + 1) mod 100 \<noteq> 0 \<or> (y + 1) mod 400 = 0))"
  for y :: int
proof -
  have step: "(y + 1) div k = y div k + of_bool ((y + 1) mod k = 0)" if k: "0 < k" for k :: int
  proof -
    define q r where "q = (y + 1) div k" and "r = (y + 1) mod k"
    have y: "y = k * q + (r - 1)" using mult_div_mod_eq [of k "y + 1"] unfolding q_def r_def by linarith
    have r: "0 \<le> r" "r < k" using k by (simp_all add: r_def)
    show ?thesis
    proof (cases "r = 0")
      case True
      then have "y = k * (q - 1) + (k - 1)" using y by (simp add: algebra_simps)
      from int_div_pos_eq [OF this] have "y div k = q - 1" using k by simp
      with True show ?thesis by (simp add: q_def r_def)
    next
      case False
      from int_div_pos_eq [OF y] have "y div k = q" using r False by simp
      with False show ?thesis by (simp add: q_def r_def)
    qed
  qed
  have count: "(a + of_bool p) - (b + of_bool q) + (c + of_bool r) = a - b + c + of_bool (p \<and> (\<not> q \<or> r))"
    if "r \<longrightarrow> q" "q \<longrightarrow> p" for a b c :: int and p q r using that by (cases p; cases q; cases r) simp_all
  have multiples: "z mod 400 = 0 \<longrightarrow> z mod 100 = 0" "z mod 100 = 0 \<longrightarrow> z mod 4 = 0" for z :: int by presburger+
  have steps: "(y + 1) div 4 = y div 4 + of_bool ((y + 1) mod 4 = 0)"
    "(y + 1) div 100 = y div 100 + of_bool ((y + 1) mod 100 = 0)"
    "(y + 1) div 400 = y div 400 + of_bool ((y + 1) mod 400 = 0)"
    by (rule step, simp)+
  show ?thesis unfolding steps by (rule count [OF multiples])
qed

lemma march_first_step: "march_first (y + 1) = march_first y + (if leap_year (y + 1) then 366 else 365)"
proof -
  let ?l = "\<lambda>y :: int. y div 4 - y div 100 + y div 400"
  have shape: "march_first z = 365 * z + ?l z - 719468" for z by (simp add: march_first_def)
  have "365 * (y + 1) + (a + c) - 719468 = 365 * y + a - 719468 + (365 + c)" for a c :: int by simp
  from this [of "?l y"] show ?thesis unfolding shape leap_step by (simp add: leap_year_def)
qed

lemma new_year_closed: "new_year n = march_first (1969 + int n) + 306"
proof (induction n)
  case 0
  show ?case by (simp add: march_first_def)
next
  case (Suc n)
  have "1969 + int (Suc n) = (1969 + int n) + 1" "1970 + int n = (1969 + int n) + 1" by simp_all
  with Suc march_first_step [of "1969 + int n"] show ?case by (simp only: new_year.simps)
qed

lemma new_year_mono: "m \<le> n \<Longrightarrow> new_year m \<le> new_year n"
  by (induction rule: dec_induct) (simp_all split: if_splits)

text \<open>An era of 400 years: the year of a day within it, the days of its years, and that they agree.\<close>

definition year_in_era :: "int \<Rightarrow> int" where
  "year_in_era d = (d - d div 1460 + d div 36524 - d div 146096) div 365"

definition era_start :: "int \<Rightarrow> int" where
  "era_start y = 365 * y + y div 4 - y div 100"

lemma year_in_era_mono:
  assumes "0 \<le> a" and "a \<le> b" and "b < 146097"
  shows "year_in_era a \<le> year_in_era b"
proof -
  let ?f = "\<lambda>d :: int. d - d div 1460 + d div 36524 - d div 146096"
  have "0 \<le> a \<longrightarrow> b < 146097 \<longrightarrow> ?f a \<le> ?f b" using assms(2)
  proof (induction b rule: int_ge_induct)
    case (step b)
    have "?f b \<le> ?f (b + 1)" if "0 \<le> b" "b + 1 < 146097"
    proof (cases "b + 1 = 146096")
      case True
      then have "b = 146095" by simp
      then show ?thesis by simp
    next
      case False
      then have "b div 146096 = 0" "(b + 1) div 146096 = 0" using that by simp_all
      moreover have "(b + 1) div 1460 \<le> b div 1460 + 1" by linarith
      moreover have "b div 36524 \<le> (b + 1) div 36524" by (intro zdiv_mono1) simp_all
      ultimately show ?thesis by linarith
    qed
    with step show ?case by auto
  qed simp
  then have "?f a \<le> ?f b" using assms by simp
  then show ?thesis unfolding year_in_era_def by (rule zdiv_mono1) simp
qed

lemma era_years:
  "list_all (\<lambda>y. year_in_era (era_start y) = y \<and> year_in_era (era_start (y + 1) - (if y = 399 then 0 else 1)) = y) [0..399]"
  by code_simp

lemma era_year:
  assumes "0 \<le> y" and "y \<le> 399"
  shows "year_in_era (era_start y) = y" and "y \<noteq> 399 \<Longrightarrow> year_in_era (era_start (y + 1) - 1) = y"
proof -
  have "y \<in> set [0..399]" using assms by simp
  with era_years have both: "year_in_era (era_start y) = y"
    "year_in_era (era_start (y + 1) - (if y = 399 then 0 else 1)) = y" unfolding list_all_iff by blast+
  show "year_in_era (era_start y) = y" by (rule both(1))
  show "y \<noteq> 399 \<Longrightarrow> year_in_era (era_start (y + 1) - 1) = y" using both(2) by simp
qed

lemma era_start_bounds: "0 \<le> y \<Longrightarrow> 0 \<le> era_start y" "0 \<le> y \<Longrightarrow> y \<le> 399 \<Longrightarrow> era_start y - 1 < 146097"
proof -
  assume "0 \<le> y"
  then have "y div 100 \<le> y" "0 \<le> y div 4" by presburger+
  with \<open>0 \<le> y\<close> show "0 \<le> era_start y" by (simp add: era_start_def)
next
  assume y: "0 \<le> y" "y \<le> 399"
  have "y div 4 \<le> 99" "0 \<le> y div 100" using y by simp_all
  with y show "era_start y - 1 < 146097" by (simp add: era_start_def)
qed

lemma within_era:
  assumes "0 \<le> d" and "d < 146097"
  shows "0 \<le> year_in_era d" and "year_in_era d \<le> 399"
    and "era_start (year_in_era d) \<le> d" and "d < era_start (year_in_era d + 1) + of_bool (year_in_era d = 399)"
proof -
  let ?y = "year_in_era d"
  have ends: "year_in_era 0 = 0" "year_in_era 146096 = 399" by (simp_all add: year_in_era_def)
  show y: "0 \<le> ?y" "?y \<le> 399"
    using year_in_era_mono [of 0 d] year_in_era_mono [of d 146096] assms ends by simp_all
  show "era_start ?y \<le> d"
  proof (rule ccontr)
    assume less: "\<not> era_start ?y \<le> d"
    then have "?y \<noteq> 0" using assms(1) by (auto simp: era_start_def)
    with y era_year(2) [of "?y - 1"] have "year_in_era (era_start ?y - 1) = ?y - 1" by simp
    moreover have "era_start ?y - 1 < 146097" using era_start_bounds(2) y by blast
    ultimately show False using year_in_era_mono [of d "era_start ?y - 1"] less assms(1) by simp
  qed
  show "d < era_start (?y + 1) + of_bool (?y = 399)"
  proof (cases "?y = 399")
    case True
    then show ?thesis using assms(2) by (simp add: era_start_def)
  next
    case False
    show ?thesis
    proof (rule ccontr)
      assume "\<not> d < era_start (?y + 1) + of_bool (?y = 399)"
      then have "era_start (?y + 1) \<le> d" using False by simp
      moreover have "0 \<le> era_start (?y + 1)" using era_start_bounds(1) y by simp
      ultimately have "year_in_era (era_start (?y + 1)) \<le> ?y" using year_in_era_mono assms(2) by blast
      then show False using era_year(1) [of "?y + 1"] y False by simp
    qed
  qed
qed

lemma march_first_era:
  assumes "0 \<le> y" and "y \<le> 399"
  shows "march_first (y + era * 400) = 146097 * era + era_start y - 719468"
    and "march_first (y + era * 400 + 1) = 146097 * era + era_start (y + 1) + of_bool (y = 399) - 719468"
proof -
  have parts: "(z + era * 400) div 4 = z div 4 + era * 100" "(z + era * 400) div 100 = z div 100 + era * 4"
    "(z + era * 400) div 400 = z div 400 + era" for z
  proof -
    have "z + era * 400 = z + (era * 100) * 4" "z + era * 400 = z + (era * 4) * 100" by simp_all
    then show "(z + era * 400) div 4 = z div 4 + era * 100" "(z + era * 400) div 100 = z div 100 + era * 4"
      "(z + era * 400) div 400 = z div 400 + era" by (metis div_mult_self1 zero_neq_numeral add.commute)+
  qed
  have era: "march_first (z + era * 400) = 146097 * era + era_start z + z div 400 - 719468" for z
    unfolding march_first_def era_start_def parts by (simp add: algebra_simps)
  show "march_first (y + era * 400) = 146097 * era + era_start y - 719468" using era [of y] assms by simp
  have "(y + 1) div 400 = of_bool (y = 399)" using assms by (cases "y = 399") simp_all
  moreover have "y + era * 400 + 1 = (y + 1) + era * 400" by simp
  ultimately have "march_first (y + era * 400 + 1) = 146097 * era + era_start (y + 1) + of_bool (y = 399) - 719468"
    using era [of "y + 1"] by (simp only:)
  then show "march_first (y + era * 400 + 1) = 146097 * era + era_start (y + 1) + of_bool (y = 399) - 719468"
    .
qed

lemma march_first_mono: "a < b \<Longrightarrow> march_first a + 365 \<le> march_first b"
proof (induction b rule: int_gr_induct)
  case base
  show ?case using march_first_step [of a] by simp
next
  case (step b)
  then show ?case using march_first_step [of b] by simp
qed

lemma calendar_year_unique:
  assumes "march_first (a - 1) + 306 \<le> d" and "d < march_first a + 306"
    and "march_first (b - 1) + 306 \<le> d" and "d < march_first b + 306"
  shows "a = b"
proof (rule ccontr)
  assume "a \<noteq> b"
  then consider "a \<le> b - 1" | "b \<le> a - 1" by linarith
  then show False
  proof cases
    case 1
    then have "march_first a \<le> march_first (b - 1)" using march_first_mono [of a "b - 1"] by (cases "a = b - 1") auto
    with assms show False by linarith
  next
    case 2
    then have "march_first b \<le> march_first (a - 1)" using march_first_mono [of b "a - 1"] by (cases "b = a - 1") auto
    with assms show False by linarith
  qed
qed

lemma year_of_days:
  assumes "march_first (y - 1) + 306 \<le> d" and "d < march_first y + 306"
  shows "civil_year_from_days d = signed_take_bit 31 y"
proof -
  define era doe where "era = (d + 719468) div 146097" and "doe = (d + 719468) mod 146097"
  define z doy where "z = year_in_era doe" and "doy = doe - era_start z"
  have "0 \<le> doe" "doe < 146097" by (simp_all add: doe_def)
  note within = within_era [OF this, folded z_def]
  have d: "d = 146097 * era + doe - 719468" by (simp add: era_def doe_def)
  note march = march_first_era [OF within(1,2), of era]
  have between: "march_first (z + era * 400) \<le> d" "d < march_first (z + era * 400 + 1)"
    using within(3,4) march d by simp_all
  have doy: "doy = d - march_first (z + era * 400)" using march(1) d by (simp add: doy_def)
  have "(10 \<le> (5 * doy + 2) div 153) = (306 \<le> doy)" by linarith
  then have result: "civil_year_from_days d = signed_take_bit 31 (z + era * 400 + of_bool (306 \<le> doy))"
    by (simp only: civil_year_from_days_def Let_def era_def [symmetric] doe_def [symmetric] year_in_era_def [symmetric]
        z_def [symmetric] era_start_def [symmetric] doy_def [symmetric])
  have "z + era * 400 + of_bool (306 \<le> doy) = y"
  proof (rule calendar_year_unique [OF _ _ assms])
    show "march_first (z + era * 400 + of_bool (306 \<le> doy) - 1) + 306 \<le> d"
      using between(1) doy march_first_mono [of "z + era * 400 - 1" "z + era * 400"] by (cases "306 \<le> doy") simp_all
    show "d < march_first (z + era * 400 + of_bool (306 \<le> doy)) + 306"
      using between(2) doy by (cases "306 \<le> doy") simp_all
  qed
  with result show ?thesis by simp
qed

lemma year_of_clock:
  assumes "new_year n \<le> d" and "d < new_year (Suc n)" and "n < 2 ^ 31 - 1970"
  shows "civil_year_from_days d = 1970 + int n"
proof -
  have "march_first (1970 + int n - 1) + 306 \<le> d" "d < march_first (1970 + int n) + 306"
    using assms(1,2) unfolding new_year_closed by (simp_all add: algebra_simps)
  from year_of_days [OF this] show ?thesis using assms(3) by (simp add: signed_take_bit_int_eq_self)
qed

section \<open>Amounts\<close>

text \<open>A number in groups of three digits: the thousands, grouped, in front of the last three.\<close>

fun grouped :: "nat \<Rightarrow> string" where
  "grouped n = (if n < 1000 then dec n else grouped (n div 1000) @ '','' @ zero_padded 3 (n mod 1000))"

declare grouped.simps [simp del]

abbreviation separated :: "string \<Rightarrow> nat \<times> char \<Rightarrow> string" where
  "separated ds \<equiv> \<lambda>(i, c). if 0 < i \<and> (length ds - i) mod 3 = 0 then [CHR '','', c] else [c]"

lemma separated_group:
  "concat (map (separated (ds @ [a, b, c])) (enumerate 0 (ds @ [a, b, c]))) =
    concat (map (separated ds) (enumerate 0 ds)) @ (if ds = [] then [] else '','') @ [a, b, c]"
proof -
  have "separated (ds @ [a, b, c]) (i, x) = separated ds (i, x)" if "i < length ds" for i x
  proof -
    have "length (ds @ [a, b, c]) - i = (length ds - i) + 3" using that by simp
    then have "(length (ds @ [a, b, c]) - i) mod 3 = (length ds - i) mod 3" by (simp only: mod_add_self2)
    then show ?thesis by (simp only: prod.case)
  qed
  then have "map (separated (ds @ [a, b, c])) (enumerate 0 ds) = map (separated ds) (enumerate 0 ds)"
    by (intro map_cong refl) (auto simp: enumerate_eq_zip set_zip)
  moreover have "enumerate 0 (ds @ [a, b, c]) = enumerate 0 ds @ [(length ds, a), (length ds + 1, b), (length ds + 2, c)]"
    by (simp add: enumerate_append_eq)
  moreover have "concat (map (separated (ds @ [a, b, c])) [(length ds, a), (length ds + 1, b), (length ds + 2, c)]) =
      (if ds = [] then [] else '','') @ [a, b, c]" by (simp add: Suc_diff_le)
  ultimately show ?thesis by (simp only: map_append concat_append)
qed

lemma dec_step: "10 \<le> n \<Longrightarrow> dec n = dec (n div 10) @ [digit_char (n mod 10)]"
  by (subst dec.simps) simp

lemma zero_padded_three:
  assumes "r < 1000"
  shows "zero_padded 3 r = [digit_char (r div 100), digit_char (r div 10 mod 10), digit_char (r mod 10)]"
proof -
  let ?digits = "\<lambda>r. [digit_char (r div 100), digit_char (r div 10 mod 10), digit_char (r mod 10)]"
  have zero: "digit_char 0 = CHR ''0''" by code_simp
  consider "r < 10" | "10 \<le> r" "r < 100" | "100 \<le> r" by linarith
  then show ?thesis
  proof cases
    case 1
    then have "dec r = [digit_char r]" by (subst dec.simps) simp
    with 1 zero show ?thesis by (simp add: zero_padded_def numeral_2_eq_2)
  next
    case 2
    then have "dec (r div 10) = [digit_char (r div 10)]" by (subst dec.simps) simp
    with 2 have "dec r = [digit_char (r div 10), digit_char (r mod 10)]" by (simp add: dec_step [of r])
    with 2 zero show ?thesis by (simp add: zero_padded_def)
  next
    case 3
    then have "dec (r div 100) = [digit_char (r div 100)]" using assms by (subst dec.simps) simp
    moreover have "dec (r div 10) = dec (r div 100) @ [digit_char (r div 10 mod 10)]"
      using 3 dec_step [of "r div 10"] by (simp add: div_mult2_eq [symmetric])
    ultimately have "dec r = ?digits r" using 3 dec_step [of r] by simp
    then show ?thesis by (simp add: zero_padded_def)
  qed
qed

lemma dec_thousand:
  assumes "1000 \<le> n"
  shows "dec n = dec (n div 1000) @ zero_padded 3 (n mod 1000)"
proof -
  let ?digits = "\<lambda>r. [digit_char (r div 100), digit_char (r div 10 mod 10), digit_char (r mod 10)]"
  have "dec n = dec (n div 1000) @ [digit_char (n div 100 mod 10), digit_char (n div 10 mod 10), digit_char (n mod 10)]"
  proof -
    have "dec n = dec (n div 10) @ [digit_char (n mod 10)]" using assms by (intro dec_step) simp
    moreover have "dec (n div 10) = dec (n div 100) @ [digit_char (n div 10 mod 10)]"
      using assms dec_step [of "n div 10"] by (simp add: div_mult2_eq [symmetric])
    moreover have "dec (n div 100) = dec (n div 1000) @ [digit_char (n div 100 mod 10)]"
      using assms dec_step [of "n div 100"] by (simp add: div_mult2_eq [symmetric])
    ultimately show ?thesis by simp
  qed
  also have "[digit_char (n div 100 mod 10), digit_char (n div 10 mod 10), digit_char (n mod 10)] = ?digits (n mod 1000)"
  proof -
    have m: "n mod 1000 = 100 * (n div 100 mod 10) + n mod 100" "n mod 1000 = 10 * (n div 10 mod 100) + n mod 10"
      using mod_mult2_eq [of n 100 10] mod_mult2_eq [of n 10 100] by simp_all
    have d: "(100 * a + n mod 100) div 100 = a" "(10 * a + n mod 10) div 10 = a" for a by simp_all
    have "n mod 1000 div 100 = n div 100 mod 10" unfolding m(1) by (rule d(1))
    moreover have "n mod 1000 div 10 = n div 10 mod 100" unfolding m(2) by (rule d(2))
    moreover have "n div 10 mod 100 mod 10 = n div 10 mod 10" "n mod 1000 mod 10 = n mod 10"
      by (simp_all add: mod_mod_cancel)
    ultimately have "?digits (n mod 1000) =
        [digit_char (n div 100 mod 10), digit_char (n div 10 mod 10), digit_char (n mod 10)]" by (simp only:)
    then show ?thesis by simp
  qed
  finally show ?thesis using zero_padded_three [of "n mod 1000"] by simp
qed

lemma grouped_digits: "concat (map (separated (dec n)) (enumerate 0 (dec n))) = grouped n"
proof (induction n rule: grouped.induct)
  case (1 n)
  show ?case
  proof (cases "n < 1000")
    case True
    have short: "length (dec n) \<le> 3"
    proof -
      consider "n < 10" | "10 \<le> n" "n div 10 < 10" | "10 \<le> n div 10" "n div 10 div 10 < 10" using True by linarith
      then show ?thesis
      proof cases
        case 1 then show ?thesis by (subst dec.simps) simp
      next
        case 2
        then have "length (dec (n div 10)) = 1" by (subst dec.simps) simp
        with 2 dec_step [of n] show ?thesis by simp
      next
        case 3
        then have "length (dec (n div 10 div 10)) = 1" by (subst dec.simps) simp
        with 3 dec_step [of n] dec_step [of "n div 10"] show ?thesis by simp
      qed
    qed
    have "separated (dec n) (i, x) = [x]" if "i < length (dec n)" for i x
    proof -
      have "(length (dec n) - i) mod 3 \<noteq> 0" if "0 < i"
        using short that \<open>i < length (dec n)\<close> by (subst mod_less) linarith+
      then show ?thesis by (cases "0 < i") simp_all
    qed
    then have "map (separated (dec n)) (enumerate 0 (dec n)) = map (\<lambda>(i, x). [x]) (enumerate 0 (dec n))"
      by (intro map_cong refl) (auto simp: enumerate_eq_zip set_zip)
    moreover have "concat (map (\<lambda>(i, x). [x]) (enumerate k xs)) = xs" for k and xs :: string
      by (induction xs arbitrary: k) auto
    ultimately show ?thesis using True by (simp only: grouped.simps [of n] if_True)
  next
    case False
    define ds where "ds = dec (n div 1000)"
    have "ds \<noteq> []" unfolding ds_def by (subst dec.simps) simp
    obtain a b c where abc: "zero_padded 3 (n mod 1000) = [a, b, c]" and dec: "dec n = ds @ [a, b, c]"
    proof -
      have "length (zero_padded 3 (n mod 1000)) = 3" by (simp add: zero_padded_three)
      then obtain a b c where "zero_padded 3 (n mod 1000) = [a, b, c]" by (auto simp: length_Suc_conv numeral_3_eq_3)
      with that show thesis using dec_thousand [of n] False by (simp add: ds_def)
    qed
    have "concat (map (separated (dec n)) (enumerate 0 (dec n))) = grouped (n div 1000) @ '','' @ [a, b, c]"
      unfolding dec separated_group using 1 [OF False] \<open>ds \<noteq> []\<close> by (simp add: ds_def)
    also have "\<dots> = grouped n" using False abc by (simp add: grouped.simps [of n])
    finally show ?thesis .
  qed
qed

lemma thousands_are_grouped: "thousands v = (if v < 0 then ''-'' else []) @ grouped (nat \<bar>v\<bar>)"
  unfolding thousands_def Let_def grouped_digits [symmetric] ..

section \<open>The cache of the station table\<close>

fun lookup_stations :: "files \<Rightarrow> (u8 \<times> u8) list \<Rightarrow> station_lookup \<Rightarrow> station_info option list \<times> station_lookup" where
  "lookup_stations files [] s = ([], s)"
| "lookup_stations files ((line_code, station_order) # keys) s =
     (case lookup_station files s line_code station_order of
        (found, s) \<Rightarrow> (case lookup_stations files keys s of (rest, s) \<Rightarrow> (found # rest, s)))"

definition station_in_file :: "files \<Rightarrow> string option \<Rightarrow> u8 \<times> u8 \<Rightarrow> station_info option" where
  "station_in_file files path = (\<lambda>(l, k). case path of None \<Rightarrow> None | Some path \<Rightarrow> search_in_file files path l k)"

definition cache_ok :: "files \<Rightarrow> station_lookup \<Rightarrow> bool" where
  "cache_ok files s \<longleftrightarrow> distinct (map fst (sl_cache s)) \<and>
     (\<forall>(key, found) \<in> set (sl_cache s). found = station_in_file files (sl_csv_path s) key)"

lemma lookup_station_cached:
  assumes "cache_ok files s"
  shows "fst (lookup_station files s l k) = station_in_file files (sl_csv_path s) (l, k)"
    and "cache_ok files (snd (lookup_station files s l k))" and "sl_csv_path (snd (lookup_station files s l k)) = sl_csv_path s"
  using assms
  by (auto simp: lookup_station_def cache_ok_def station_in_file_def Let_def map_of_eq_None_iff rev_image_eqI
      split: option.splits dest!: map_of_SomeD)

lemma lookups_cached:
  "cache_ok files s \<Longrightarrow> fst (lookup_stations files keys s) = map (station_in_file files (sl_csv_path s)) keys \<and>
    cache_ok files (snd (lookup_stations files keys s))"
proof (induction keys arbitrary: s)
  case (Cons x keys)
  obtain l k where x: "x = (l, k)" by (cases x)
  note here = lookup_station_cached [OF Cons.prems, of l k]
  with Cons.IH [OF here(2)] show ?case by (simp add: x split_beta)
qed simp

section \<open>Properties\<close>

text \<open>
  C29. The year is that of the calendar: on every day of a year from 1970 on, counted by adding up the lengths of
  the Gregorian years, the program finds that year.
\<close>

theorem year_of_calendar:
  assumes "new_year n \<le> seconds div 86400" and "seconds div 86400 < new_year (Suc n)" and "n < 2 ^ 31 - 1970"
  shows "current_year (Some seconds) = 1970 + int n"
  using year_of_clock [OF assms] by (simp add: current_year_def)

text \<open>
  Amounts are grouped in thousands: an amount is printed as its sign, the amount in whole thousands printed
  the same way, a comma and the last three digits, and below a thousand as it is.
\<close>

theorem amounts_grouped: "format_yen v = (if v < 0 then ''-'' else []) @ grouped (nat \<bar>v\<bar>) @ '' '' @ jp [0x5186]"
  by (simp add: format_yen_def thousands_are_grouped)

text \<open>
  The cache is transparent: whatever stations are looked up one after the other, each is found as a search of
  the whole file finds it, and no station is entered into the cache twice.
\<close>

theorem stations_cached:
  "fst (lookup_stations files keys (station_lookup_new path)) = map (station_in_file files path) keys \<and>
    distinct (map fst (sl_cache (snd (lookup_stations files keys (station_lookup_new path)))))"
proof -
  have "cache_ok files (station_lookup_new path)" "sl_csv_path (station_lookup_new path) = path"
    by (simp_all add: cache_ok_def station_lookup_new_def)
  with lookups_cached [OF this(1), of keys] show ?thesis by (simp add: cache_ok_def)
qed

section \<open>Witnesses\<close>

theorem year_of_calendar_witness: "current_year (Some 951782400) = 2000"
proof -
  have y: "new_year 30 \<le> 951782400 div 86400" "951782400 div 86400 < new_year (Suc 30)" by code_simp+
  from year_of_calendar [OF y] show ?thesis by simp
qed

end
