(* ===== verification/Suica.thy ===== *)
theory Suica
  imports Suica_Format Dump
begin

text \<open>
  The Suica dump, \<open>examples/dump_suica.rs\<close>: it waits for a card, authenticates to the services of a Suica card
  with the keys of the key store and prints what their blocks hold. What the program prints is a list of lines
  that an operation extends; the shared station lookup is a part of the state. Opening a reader, loading the key
  file and the text of the usage are left out.
\<close>

section \<open>The command line\<close>

record suica_options =
  so_keys_path :: "string option"
  so_remote_addr :: "string option"
  so_station_codes_path :: "string option"

datatype suica_action = SuicaRun suica_options | SuicaShowHelp

fun parse_suica_cli :: "string list \<Rightarrow> suica_options \<Rightarrow> string + suica_action" where
  "parse_suica_cli [] options = Inr (SuicaRun options)"
| "parse_suica_cli (arg # args) options =
     (if arg \<in> {''--keys'', ''-k''} then
        (case args of [] \<Rightarrow> Inl ''--keys requires a file path argument''
         | path # args \<Rightarrow> parse_suica_cli args (options\<lparr>so_keys_path := Some path\<rparr>))
      else if arg \<in> {''--station-codes'', ''-s''} then
        (case args of [] \<Rightarrow> Inl ''--station-codes requires a file path argument''
         | path # args \<Rightarrow> parse_suica_cli args (options\<lparr>so_station_codes_path := Some path\<rparr>))
      else if arg \<in> {''--remote'', ''-r''} then
        (case args of [] \<Rightarrow> Inl ''--remote requires an address argument''
         | addr # args \<Rightarrow> parse_suica_cli args (options\<lparr>so_remote_addr := Some addr\<rparr>))
      else if arg \<in> {''--help'', ''-h''} then Inr SuicaShowHelp
      else Inl (''Unknown argument: '' @ arg))"

definition parse_suica_args :: "string list \<Rightarrow> string + suica_action" where
  "parse_suica_args args = parse_suica_cli (drop 1 args)
     \<lparr>so_keys_path = None, so_remote_addr = None, so_station_codes_path = None\<rparr>"

section \<open>Constants of a Suica card\<close>

abbreviation (input) SUICA_SYSTEM_CODE :: u16 where "SUICA_SYSTEM_CODE \<equiv> 0x0003"
abbreviation (input) AREA_NODE_IDS :: "u16 list" where "AREA_NODE_IDS \<equiv> [0x0000, 0x0040, 0x0800, 0x0FC0, 0x1000]"
abbreviation (input) REQUIRED_SERVICE_NODE_IDS :: "u16 list" where
  "REQUIRED_SERVICE_NODE_IDS \<equiv> [0x0048, 0x0088, 0x0810, 0x08C8, 0x090C, 0x1008, 0x1048, 0x108C, 0x10C8]"
abbreviation (input) ISSUE_SERVICE :: u8 where "ISSUE_SERVICE \<equiv> 0"
abbreviation (input) ATTRIBUTE_SERVICE :: u8 where "ATTRIBUTE_SERVICE \<equiv> 1"
abbreviation (input) MISC_SERVICE :: u8 where "MISC_SERVICE \<equiv> 2"
abbreviation (input) TOPUP_SERVICE :: u8 where "TOPUP_SERVICE \<equiv> 3"
abbreviation (input) HISTORY_SERVICE :: u8 where "HISTORY_SERVICE \<equiv> 4"
abbreviation (input) EXTENDED_SERVICE :: u8 where "EXTENDED_SERVICE \<equiv> 5"
abbreviation (input) COMMUTER_SERVICE :: u8 where "COMMUTER_SERVICE \<equiv> 6"
abbreviation (input) GATE_SERVICE :: u8 where "GATE_SERVICE \<equiv> 7"
abbreviation (input) SF_GATE_SERVICE :: u8 where "SF_GATE_SERVICE \<equiv> 8"
abbreviation (input) PAID_TICKET_SERVICE_NODE_ID :: u16 where "PAID_TICKET_SERVICE_NODE_ID \<equiv> 0x1848"
abbreviation (input) EXTENDED_BLOCK_COUNT :: nat where "EXTENDED_BLOCK_COUNT \<equiv> 10"
abbreviation (input) COLLECTED_FLAG_MASK :: u8 where "COLLECTED_FLAG_MASK \<equiv> 0x40"
abbreviation (input) VOICE_GUIDANCE_MASK :: u8 where "VOICE_GUIDANCE_MASK \<equiv> 0x10"
abbreviation (input) SF_OUTSIDE_COMMUTER_MASK :: u8 where "SF_OUTSIDE_COMMUTER_MASK \<equiv> 0x20"
abbreviation (input) TOUCH_DE_GO_MASK :: u8 where "TOUCH_DE_GO_MASK \<equiv> 0x04"
abbreviation (input) PURCHASE_TRANSACTION_TYPE :: u8 where "PURCHASE_TRANSACTION_TYPE \<equiv> 0x46"

section \<open>Reading blocks\<close>

text \<open>A block is read on its own; a status ends the reading.\<close>

fun read_blocks_from ::
    "'d environment \<Rightarrow> u8 \<Rightarrow> nat list \<Rightarrow> bytes list \<Rightarrow> ('d, bytes list) host_op" where
  "read_blocks_from E service_index [] blocks = liftH (Inr blocks)"
| "read_blocks_from E service_index (n # ns) blocks =
     catchH (read E [\<lparr>block_number_or_key_version = u16_of n, service_code_list_index = service_index, access_mode = 0\<rparr>])
       (\<lambda>r. case r of
          Inr read_blocks \<Rightarrow>
            read_blocks_from E service_index ns (case read_blocks of [] \<Rightarrow> blocks | b # _ \<Rightarrow> blocks @ [b])
        | Inl err \<Rightarrow> if is_status err then liftH (Inr blocks) else liftH (Inl err))"

definition suica_read_blocks :: "'d environment \<Rightarrow> u8 \<Rightarrow> nat \<Rightarrow> ('d, bytes list) host_op" where
  "suica_read_blocks E service_index block_count = read_blocks_from E service_index [0..<block_count] []"

section \<open>Printing\<close>

text \<open>The crates of the program, and what it finds on the computer: its files and its clock.\<close>

record suica_world =
  sw_text :: text_crates
  sw_hex_encode :: "bytes \<Rightarrow> string"
  sw_shift_jis :: "bytes \<Rightarrow> nat list"
  sw_files :: files
  sw_clock :: "int option"

record 'd suica =
  su_host :: "'d felica_standard"
  su_stations :: "station_lookup option"
  su_lines :: "string list"

type_synonym ('d, 'a) suica_op = "'d suica \<Rightarrow> (felica_error + 'a) \<times> 'd suica"

definition bindS :: "('d, 'a) suica_op \<Rightarrow> ('a \<Rightarrow> ('d, 'b) suica_op) \<Rightarrow> ('d, 'b) suica_op" where
  "bindS m f s = (case m s of (Inl e, s) \<Rightarrow> (Inl e, s) | (Inr x, s) \<Rightarrow> f x s)"

definition doneS :: "('d, unit) suica_op" where
  "doneS s = (Inr (), s)"

definition hostS :: "('d, 'a) host_op \<Rightarrow> ('d, 'a) suica_op" where
  "hostS m s = (case m (su_host s) of (r, h) \<Rightarrow> (r, s\<lparr>su_host := h\<rparr>))"

definition say :: "string \<Rightarrow> ('d, unit) suica_op" where
  "say l s = (Inr (), s\<lparr>su_lines := su_lines s @ [l]\<rparr>)"

fun in_turn :: "('d, unit) suica_op list \<Rightarrow> ('d, unit) suica_op" where
  "in_turn [] = doneS"
| "in_turn (m # ms) = bindS m (\<lambda>_. in_turn ms)"

text \<open>The line under a title is as long as the title has bytes.\<close>

definition print_section :: "string \<Rightarrow> ('d, unit) suica_op" where
  "print_section title = in_turn [say [], say title, say (replicate (length title) (CHR ''-''))]"

definition print_item :: "string \<Rightarrow> string \<Rightarrow> ('d, unit) suica_op" where
  "print_item label v = say (''  - '' @ label @ '': '' @ v)"

definition print_note :: "string \<Rightarrow> ('d, unit) suica_op" where
  "print_note note = say (''  ('' @ note @ '')'')"

definition print_station :: "suica_world \<Rightarrow> string \<Rightarrow> u8 \<Rightarrow> u8 \<Rightarrow> ('d, unit) suica_op" where
  "print_station W label line_code station_order s =
     (case format_station (sw_files W) (su_stations s) line_code station_order of
        (t, stations) \<Rightarrow> print_item label t (s\<lparr>su_stations := stations\<rparr>))"

abbreviation (input) amount :: "u16 \<Rightarrow> string" where
  "amount v \<equiv> format_yen (int (unat v))"

section \<open>The services\<close>

text \<open>The blocks that the reader returns are 16 bytes each.\<close>

definition print_issue_information :: "'d environment \<Rightarrow> suica_world \<Rightarrow> ('d, unit) suica_op" where
  "print_issue_information E W =
     bindS (print_section (jp [0x767A, 0x884C, 0x60C5, 0x5831])) (\<lambda>_.
     bindS (hostS (suica_read_blocks E ISSUE_SERVICE 4)) (\<lambda>blocks.
     if length blocks < 4 then print_note (jp [0x30C7, 0x30FC, 0x30BF, 0x304C, 0x4E0D, 0x5341, 0x5206, 0x3067, 0x3059])
     else
       let owner_block = blocks ! 0; personal_block = blocks ! 1; secondary_idi_block = blocks ! 2; metadata_block = blocks ! 3;
           encode_upper = hex_encode_upper (sw_text W) in
       in_turn
        ([print_item (jp [0x6240, 0x6709, 0x8005, 0x540D]) (decode_owner_name (sw_shift_jis W) owner_block),
          print_item (jp [0x7B2C, 0x4E8C, 0x767A, 0x884C] @ ''ID'') (idi_bytes_to_str encode_upper secondary_idi_block),
          print_item (jp [0x6240, 0x6709, 0x8005, 0x96FB, 0x8A71, 0x756A, 0x53F7]) (rev (dropWhile (\<lambda>c. c = CHR ''F'') (rev (encode_upper (sub personal_block 0 8))))),
          print_item (jp [0x6240, 0x6709, 0x8005, 0x5E74, 0x9F62]) (encode_upper (sub personal_block 8 9)),
          print_item (jp [0x6240, 0x6709, 0x8005, 0x751F, 0x5E74, 0x6708, 0x65E5]) (format_birth_date (sw_clock W) (be16 personal_block 9)),
          print_item (jp [0x30C7, 0x30DD, 0x30B8, 0x30C3, 0x30C8, 0x984D]) (amount (le16 personal_block 12)),
          print_item (jp [0x767A, 0x884C, 0x8005] @ ''ID'') (issuer_id_to_str (be16 metadata_block 0)),
          print_item (jp [0x767A, 0x884C, 0x6A5F, 0x5668]) (equipment_type_to_str (metadata_block ! 2)),
          print_station W (jp [0x767A, 0x884C, 0x99C5]) (metadata_block ! 3) (metadata_block ! 4),
          print_item (jp [0x767A, 0x884C, 0x65E5]) (format_date (be16 metadata_block 7)),
          print_item (jp [0x6709, 0x52B9, 0x671F, 0x9650]) (format_date (be16 metadata_block 14))] @
         (if metadata_block ! 9 AND COLLECTED_FLAG_MASK \<noteq> 0 then [print_item (jp [0x53D6, 0x308A, 0x8FBC, 0x307F, 0x6E08, 0x307F]) (jp [0x306F, 0x3044, 0xFF08, 0x7121, 0x52B9, 0x30AB, 0x30FC, 0x30C9, 0xFF09])] else []))))"

definition use_str :: "bool \<Rightarrow> string" where
  "use_str enabled = (if enabled then (jp [0x5229, 0x7528, 0x3059, 0x308B]) else (jp [0x5229, 0x7528, 0x3057, 0x306A, 0x3044]))"

definition print_attribute_information :: "'d environment \<Rightarrow> ('d, unit) suica_op" where
  "print_attribute_information E =
     bindS (print_section (jp [0x5C5E, 0x6027, 0x60C5, 0x5831])) (\<lambda>_.
     bindS (hostS (suica_read_blocks E ATTRIBUTE_SERVICE 1)) (\<lambda>blocks.
     case blocks of
       [] \<Rightarrow> print_note (jp [0x30C7, 0x30FC, 0x30BF, 0x304C, 0x4E0D, 0x5341, 0x5206, 0x3067, 0x3059])
     | block # _ \<Rightarrow>
         let settings = block ! 8 in
         in_turn
          [print_item (jp [0x6B8B, 0x9AD8]) (amount (le16 block 11)),
           print_item (jp [0x53D6, 0x5F15, 0x901A, 0x756A]) (dec (unat (be16 block 14))),
           print_item (jp [0x97F3, 0x58F0, 0x6848, 0x5185, 0x30B5, 0x30FC, 0x30D3, 0x30B9]) (use_str (settings AND VOICE_GUIDANCE_MASK \<noteq> 0)),
           print_item (jp [0x5B9A, 0x671F, 0x6709, 0x52B9, 0x671F, 0x9593, 0x5916, 0x306E] @ ''SF'' @ jp [0x5229, 0x7528]) (use_str (settings AND SF_OUTSIDE_COMMUTER_MASK \<noteq> 0)),
           print_item (jp [0x30BF, 0x30C3, 0x30C1, 0x3067] @ ''Go'' @ jp [0xFF01, 0x65B0, 0x5E79, 0x7DDA]) (use_str (settings AND TOUCH_DE_GO_MASK \<noteq> 0))]))"

definition print_last_topup_information :: "'d environment \<Rightarrow> suica_world \<Rightarrow> ('d, unit) suica_op" where
  "print_last_topup_information E W =
     bindS (print_section (jp [0x6700, 0x7D42, 0x30C1, 0x30E3, 0x30FC, 0x30B8, 0x60C5, 0x5831])) (\<lambda>_.
     bindS (hostS (suica_read_blocks E TOPUP_SERVICE 3)) (\<lambda>blocks.
     case blocks of
       [] \<Rightarrow> print_note (jp [0x30C7, 0x30FC, 0x30BF, 0x304C, 0x3042, 0x308A, 0x307E, 0x305B, 0x3093])
     | detail_block # _ \<Rightarrow>
         in_turn
          [print_item (jp [0x30C1, 0x30E3, 0x30FC, 0x30B8, 0x6A5F, 0x5668]) (equipment_type_to_str (detail_block ! 0)),
           print_station W (jp [0x30C1, 0x30E3, 0x30FC, 0x30B8, 0x99C5]) (detail_block ! 1) (detail_block ! 2),
           print_item (jp [0x30C1, 0x30E3, 0x30FC, 0x30B8, 0x91D1, 0x984D]) (amount (le16 detail_block 5))]))"

definition print_unknown_information :: "'d environment \<Rightarrow> ('d, unit) suica_op" where
  "print_unknown_information E =
     bindS (print_section (jp [0x305D, 0x306E, 0x4ED6, 0x60C5, 0x5831, 0xFF08, 0x7528, 0x9014, 0x672A, 0x78BA, 0x5B9A, 0xFF09])) (\<lambda>_.
     bindS (hostS (suica_read_blocks E MISC_SERVICE 1)) (\<lambda>blocks.
     case blocks of
       [] \<Rightarrow> print_note (jp [0x30C7, 0x30FC, 0x30BF, 0x304C, 0x3042, 0x308A, 0x307E, 0x305B, 0x3093])
     | block # _ \<Rightarrow>
         in_turn
          [print_item (jp [0x4E0D, 0x660E, 0x306A, 0x6B8B, 0x9AD8]) (amount (le16 block 0)),
           print_item (jp [0x4E0D, 0x660E, 0x306A, 0x65E5, 0x4ED8]) (format_date (be16 block 8)),
           print_item (jp [0x4E0D, 0x660E, 0x306A, 0x53D6, 0x5F15, 0x901A, 0x756A]) (dec (unat (be16 block 14)))]))"

text \<open>The transactions from number \<open>index\<close> on; the next one in the list is the one recorded before it.\<close>

fun print_transactions :: "suica_world \<Rightarrow> nat \<Rightarrow> bytes list \<Rightarrow> ('d, unit) suica_op" where
  "print_transactions W index [] = doneS"
| "print_transactions W index (block # older) =
     (let transaction_type = block ! 1 AND 0x7F;
          balance = le16 block 10;
          delta = (case older of [] \<Rightarrow> None | b # _ \<Rightarrow> Some (int (unat balance) - int (unat (le16 b 10)))) in
      bindS (in_turn
       ([say (''['' @ zero_padded 2 index @ ''] '' @ format_date (be16 block 4)),
         print_item (jp [0x6A5F, 0x5668]) (equipment_type_to_str (block ! 0)),
         print_item (jp [0x53D6, 0x5F15, 0x7A2E, 0x5225]) (transaction_type_to_str transaction_type),
         print_item (jp [0x652F, 0x6255, 0x7A2E, 0x5225]) (pay_type_to_str (block ! 2)),
         print_item (jp [0x6539, 0x672D, 0x51E6, 0x7406]) (gate_instruction_type_to_str (block ! 3))] @
        (if transaction_type = PURCHASE_TRANSACTION_TYPE then [print_item (jp [0x53D6, 0x5F15, 0x6642, 0x523B]) (format_time (be16 block 6))]
         else [print_station W (jp [0x5165, 0x5834, 0x99C5]) (block ! 6) (block ! 7), print_station W (jp [0x51FA, 0x5834, 0x99C5]) (block ! 8) (block ! 9)]) @
        [print_item (jp [0x6B8B, 0x9AD8]) (amount balance),
         print_item (jp [0x5DEE, 0x984D]) (format_delta delta),
         print_item (jp [0x53D6, 0x5F15, 0x901A, 0x756A]) (dec (unat (be16 block 13))),
         say []])) (\<lambda>_.
      print_transactions W (index + 1) older))"

definition print_transaction_history :: "'d environment \<Rightarrow> suica_world \<Rightarrow> ('d, unit) suica_op" where
  "print_transaction_history E W =
     bindS (print_section (jp [0x53D6, 0x5F15, 0x5C65, 0x6B74])) (\<lambda>_.
     bindS (hostS (suica_read_blocks E HISTORY_SERVICE 20)) (\<lambda>blocks.
     let entries = takeWhile (\<lambda>block. block ! 0 \<noteq> 0) blocks in
     if entries = [] then print_note (jp [0x5C65, 0x6B74, 0x304C, 0x3042, 0x308A, 0x307E, 0x305B, 0x3093]) else print_transactions W 0 entries))"

definition print_commuter_pass_information :: "'d environment \<Rightarrow> suica_world \<Rightarrow> bytes list \<Rightarrow> ('d, unit) suica_op" where
  "print_commuter_pass_information E W extended_blocks =
     bindS (print_section (jp [0x5B9A, 0x671F, 0x60C5, 0x5831])) (\<lambda>_.
     bindS (hostS (suica_read_blocks E COMMUTER_SERVICE 3)) (\<lambda>blocks.
     if length blocks < 3 then print_note (jp [0x30C7, 0x30FC, 0x30BF, 0x304C, 0x4E0D, 0x5341, 0x5206, 0x3067, 0x3059])
     else
       let primary_block = blocks ! 0; supplemental_block = blocks ! 2;
           start_at = format_date (be16 primary_block 0);
           complete = length extended_blocks \<ge> EXTENDED_BLOCK_COUNT in
       if start_at = dash then print_note (jp [0x5B9A, 0x671F, 0x5238, 0x306A, 0x3057])
       else
         bindS (in_turn
          ((if complete then [print_item (jp [0x767A, 0x884C, 0x4E8B, 0x696D, 0x8005]) (issuer_id_to_str (be16 (extended_blocks ! 0) 0))] else []) @
           [print_item (jp [0x958B, 0x59CB, 0x65E5]) start_at,
            print_item (jp [0x7D42, 0x4E86, 0x65E5]) (format_date (be16 primary_block 2)),
            print_station W (jp [0x59CB, 0x70B9, 0x99C5]) (primary_block ! 8) (primary_block ! 9),
            print_station W (jp [0x7D42, 0x70B9, 0x99C5]) (primary_block ! 10) (primary_block ! 11),
            print_station W (jp [0x7D4C, 0x7531, 0x99C5] @ ''1'') (primary_block ! 12) (primary_block ! 13),
            print_station W (jp [0x7D4C, 0x7531, 0x99C5] @ ''2'') (primary_block ! 14) (primary_block ! 15),
            print_item (jp [0x767A, 0x884C, 0x65E5]) (format_date (be16 supplemental_block 5))])) (\<lambda>_.
         if \<not> complete then print_note (jp [0x62E1, 0x5F35, 0x60C5, 0x5831, 0x304C, 0x8AAD, 0x3081, 0x306A, 0x304B, 0x3063, 0x305F, 0x305F, 0x3081, 0x5238, 0x756A, 0x30FB, 0x767A, 0x58F2, 0x984D, 0x306A, 0x3069, 0x306F, 0x7701, 0x7565, 0x3057, 0x307E, 0x3057, 0x305F])
         else
           let x0 = extended_blocks ! 0; x1 = extended_blocks ! 1;
               sale_price = u32_from_le (x1 ! 7) (x1 ! 8) (x1 ! 9) 0;
               certificate_expiry = format_date (be16 (extended_blocks ! 5) 10) in
           in_turn
            ([print_item (jp [0x5238, 0x756A]) (decode_bcd [x0 ! 15, x1 ! 0, x1 ! 1]),
              print_item (jp [0x767A, 0x58F2, 0x984D]) (format_yen (int (unat sale_price))),
              print_item (jp [0x8CFC, 0x5165, 0x6642, 0x652F, 0x6255, 0x65B9, 0x6CD5]) (purchase_pay_type_to_str (x1 ! 6)),
              print_item (''R'' @ jp [0x901A, 0x756A]) (drop 1 (decode_bcd (sub x1 10 12)))] @
             (if certificate_expiry \<noteq> dash then [print_item (jp [0x901A, 0x5B66, 0x8A3C, 0x660E, 0x66F8, 0x7701, 0x7565, 0x671F, 0x9650]) certificate_expiry] else [])))))"

definition yes_no :: "bool \<Rightarrow> string" where
  "yes_no v = (if v then (jp [0x6709]) else (jp [0x7121]))"

definition print_auto_charge_information :: "bytes list \<Rightarrow> ('d, unit) suica_op" where
  "print_auto_charge_information extended_blocks =
     bindS (print_section (jp [0x30AA, 0x30FC, 0x30C8, 0x30C1, 0x30E3, 0x30FC, 0x30B8])) (\<lambda>_.
     case nth_opt extended_blocks (EXTENDED_BLOCK_COUNT - 1) of
       None \<Rightarrow> print_note (jp [0x30C7, 0x30FC, 0x30BF, 0x304C, 0x3042, 0x308A, 0x307E, 0x305B, 0x3093])
     | Some block \<Rightarrow>
         let contracted = drop_bit 7 (block ! 0) AND 1 = 1; enabled = drop_bit 6 (block ! 0) AND 1 = 1 in
         in_turn
          ([print_item (jp [0x5951, 0x7D04]) (yes_no contracted), print_item (jp [0x6709, 0x52B9]) (yes_no enabled)] @
           (if contracted then
             [print_item (jp [0x30C1, 0x30E3, 0x30FC, 0x30B8, 0x984D]) (format_yen (int (unat (block ! 0 AND 0x0F)) * 1000)),
              print_item (jp [0x3057, 0x304D, 0x3044, 0x5024]) (format_yen (int (unat (drop_bit 2 (block ! 1) AND 0x0F)) * 1000))] else [])))"

text \<open>A time that a block stores in two bytes of decimal digits.\<close>

definition digits_time :: "suica_world \<Rightarrow> bytes \<Rightarrow> nat \<Rightarrow> string" where
  "digits_time W block i = (let t = sw_hex_encode W (sub block i (i + 2)) in take 2 t @ '':'' @ take 2 (drop 2 t))"

definition written_blocks :: "bytes list \<Rightarrow> (nat \<times> bytes) list" where
  "written_blocks blocks = filter (\<lambda>(_, block). \<not> is_blank block) (enumerate 0 blocks)"

definition print_gate_entry :: "suica_world \<Rightarrow> nat \<times> bytes \<Rightarrow> ('d, unit) suica_op" where
  "print_gate_entry W = (\<lambda>(index, block). in_turn
     [say (''['' @ zero_padded 2 index @ ''] '' @ format_date (be16 block 6) @ '' '' @ digits_time W block 8),
      print_item (jp [0x6539, 0x672D, 0x5165, 0x51FA, 0x5834, 0x7A2E, 0x5225]) (gate_in_out_type_to_str (block ! 0)),
      print_item (jp [0x4E2D, 0x9593, 0x6539, 0x672D, 0x51E6, 0x7406, 0x7A2E, 0x5225]) (intermediate_gate_instruction_type_to_str (block ! 1)),
      print_station W (jp [0x5165, 0x51FA, 0x5834, 0x99C5]) (block ! 2) (block ! 3),
      print_item (jp [0x88C5, 0x7F6E, 0x756A, 0x53F7]) (hex_encode_upper (sw_text W) (sub block 4 6)),
      print_item (jp [0x91D1, 0x984D]) (amount (le16 block 10)),
      print_item (jp [0x6700, 0x5BC4, 0x5B9A, 0x671F, 0x533A, 0x9593, 0x307E, 0x3067, 0x306E, 0x904B, 0x8CC3]) (amount (le16 block 12)),
      print_station W (jp [0x6700, 0x5BC4, 0x5B9A, 0x671F, 0x533A, 0x9593, 0x306E, 0x99C5]) (block ! 14) (block ! 15),
      say []])"

definition print_gate_in_out_information :: "'d environment \<Rightarrow> suica_world \<Rightarrow> ('d, unit) suica_op" where
  "print_gate_in_out_information E W =
     bindS (print_section (jp [0x6539, 0x672D, 0x5165, 0x51FA, 0x5834, 0x60C5, 0x5831])) (\<lambda>_.
     bindS (hostS (suica_read_blocks E GATE_SERVICE 3)) (\<lambda>blocks.
     let entries = written_blocks blocks in
     if entries = [] then print_note (jp [0x8A18, 0x9332, 0x304C, 0x3042, 0x308A, 0x307E, 0x305B, 0x3093]) else in_turn (map (print_gate_entry W) entries)))"

definition print_sf_gate_entry_information :: "'d environment \<Rightarrow> suica_world \<Rightarrow> ('d, unit) suica_op" where
  "print_sf_gate_entry_information E W =
     bindS (print_section (''SF'' @ jp [0x6539, 0x672D, 0x5165, 0x5834, 0x60C5, 0x5831])) (\<lambda>_.
     bindS (hostS (suica_read_blocks E SF_GATE_SERVICE 2)) (\<lambda>blocks.
     if length blocks < 2 then print_note (jp [0x30C7, 0x30FC, 0x30BF, 0x304C, 0x4E0D, 0x5341, 0x5206, 0x3067, 0x3059])
     else
       let first_block = blocks ! 0; second_block = blocks ! 1 in
       if is_blank first_block \<and> is_blank second_block then print_note (jp [0x8A18, 0x9332, 0x304C, 0x3042, 0x308A, 0x307E, 0x305B, 0x3093])
       else in_turn
        [print_station W (jp [0x5165, 0x5834, 0x99C5]) (first_block ! 0) (first_block ! 1),
         print_item (jp [0x6599, 0x91D1, 0x53CE, 0x53D7, 0x5BFE, 0x8C61, 0x4E2D, 0x9593, 0x6539, 0x672D, 0x5165, 0x51FA, 0x5834, 0x65E5, 0x4ED8]) (format_date (be16 second_block 0)),
         print_item (jp [0x4E2D, 0x9593, 0x6539, 0x672D, 0x5165, 0x5834, 0x6642, 0x523B]) (digits_time W second_block 2),
         print_station W (jp [0x4E2D, 0x9593, 0x6539, 0x672D, 0x5165, 0x5834, 0x99C5]) (second_block ! 4) (second_block ! 5),
         print_item (jp [0x4E0D, 0x660E, 0x5024] @ ''1'') (''0x'' @ hex2 (second_block ! 6)),
         print_item (jp [0x4E2D, 0x9593, 0x6539, 0x672D, 0x51FA, 0x5834, 0x6642, 0x523B]) (digits_time W second_block 7),
         print_station W (jp [0x4E2D, 0x9593, 0x6539, 0x672D, 0x51FA, 0x5834, 0x99C5]) (second_block ! 9) (second_block ! 10),
         print_item (jp [0x4E0D, 0x660E, 0x5024] @ ''2'') (''0x'' @ hex2 (second_block ! 11))]))"

definition print_paid_ticket :: "suica_world \<Rightarrow> nat \<times> bytes \<Rightarrow> ('d, unit) suica_op" where
  "print_paid_ticket W = (\<lambda>(index, block).
     let encode_upper = hex_encode_upper (sw_text W) in in_turn
     [say (''['' @ zero_padded 2 index @ '']''),
      print_station W (jp [0x767A, 0x99C5]) (block ! 0) (block ! 1),
      print_station W (jp [0x7740, 0x99C5]) (block ! 2) (block ! 3),
      print_item (jp [0x6709, 0x52B9, 0x671F, 0x9650]) (format_date (be16 block 4)),
      print_item (jp [0x767A, 0x5238, 0x6642, 0x9593]) (format_time (be16 block 6)),
      print_item (jp [0x767A, 0x5238, 0x7A2E, 0x5225]) (encode_upper (sub block 8 9)),
      print_item (jp [0x91D1, 0x984D]) (format_yen (int (unat (block ! 9)) * 10)),
      print_item (jp [0x88C5, 0x7F6E, 0x756A, 0x53F7]) (encode_upper (sub block 10 12)),
      print_station W (jp [0x6539, 0x672D, 0x5B9F, 0x65BD, 0x99C5]) (block ! 12) (block ! 13),
      print_item (jp [0x6539, 0x672D, 0x5B9F, 0x65BD, 0x6642, 0x9593]) (format_time (be16 block 14)),
      say []])"

definition print_paid_ticket_issue_information :: "'d environment \<Rightarrow> suica_world \<Rightarrow> u8 \<Rightarrow> ('d, unit) suica_op" where
  "print_paid_ticket_issue_information E W service_index =
     bindS (print_section (jp [0x6599, 0x91D1, 0x767A, 0x5238, 0x30FB, 0x6539, 0x672D, 0x60C5, 0x5831])) (\<lambda>_.
     bindS (hostS (suica_read_blocks E service_index 2)) (\<lambda>blocks.
     let entries = written_blocks blocks in
     if entries = [] then print_note (jp [0x8A18, 0x9332, 0x304C, 0x3042, 0x308A, 0x307E, 0x305B, 0x3093]) else in_turn (map (print_paid_ticket W) entries)))"

definition print_paid_ticket_skip_message :: "string \<Rightarrow> ('d, unit) suica_op" where
  "print_paid_ticket_skip_message reason = in_turn [print_section (jp [0x6599, 0x91D1, 0x767A, 0x5238, 0x30FB, 0x6539, 0x672D, 0x60C5, 0x5831]), print_note reason]"

definition read_and_print_suica_data ::
    "'d environment \<Rightarrow> suica_world \<Rightarrow> u8 option \<Rightarrow> string option \<Rightarrow> ('d, unit) suica_op" where
  "read_and_print_suica_data E W paid_ticket_service_index paid_ticket_skip_reason =
     bindS (print_issue_information E W) (\<lambda>_.
     bindS (print_attribute_information E) (\<lambda>_.
     bindS (print_last_topup_information E W) (\<lambda>_.
     bindS (print_unknown_information E) (\<lambda>_.
     bindS (print_transaction_history E W) (\<lambda>_.
     bindS (hostS (suica_read_blocks E EXTENDED_SERVICE EXTENDED_BLOCK_COUNT)) (\<lambda>extended_blocks.
     bindS (print_commuter_pass_information E W extended_blocks) (\<lambda>_.
     bindS (print_auto_charge_information extended_blocks) (\<lambda>_.
     bindS (print_gate_in_out_information E W) (\<lambda>_.
     bindS (print_sf_gate_entry_information E W) (\<lambda>_.
     case paid_ticket_service_index of
       Some service_index \<Rightarrow> print_paid_ticket_issue_information E W service_index
     | None \<Rightarrow>
         (case paid_ticket_skip_reason of
            Some reason \<Rightarrow> print_paid_ticket_skip_message reason
          | None \<Rightarrow> doneS)))))))))))"

section \<open>The program\<close>

definition build_auth_targets :: "u16 list \<Rightarrow> u16 list \<times> service_code list" where
  "build_auth_targets service_node_ids = (AREA_NODE_IDS, map ServiceCode service_node_ids)"

text \<open>The program ends with the error of the reader or with one of its own.\<close>

datatype suica_error = SuicaCard felica_error | SuicaInput string

definition resolve_card_keys :: "text_crates \<Rightarrow> key_store \<Rightarrow> bytes \<Rightarrow> suica_error + resolved_node_keys" where
  "resolve_card_keys K store idm =
     (case resolve K store SUICA_SYSTEM_CODE idm of
        Some keys \<Rightarrow> Inr keys
      | None \<Rightarrow> Inl (SuicaInput (''No keys found for system code 0x'' @ hex4 SUICA_SYSTEM_CODE @ '' and IDm '' @
          hex_encode_upper K idm @ ''; check keys.jsonl'')))"

definition probe_service_exists :: "'d environment \<Rightarrow> service_code \<Rightarrow> ('d, bool) host_op" where
  "probe_service_exists E service =
     bindH (request_service E [service]) (\<lambda>key_versions.
     liftH (case key_versions of
         [v] \<Rightarrow> Inr (v \<noteq> 0xFFFF)
       | _ \<Rightarrow> Inl (Protocol ''request_service returned unexpected key version count'')))"

text \<open>The services to authenticate, the place of the paid ticket service among them, and why it is skipped.\<close>

definition choose_services ::
    "'d environment \<Rightarrow> resolved_node_keys \<Rightarrow> ('d, u16 list \<times> u8 option \<times> string option) host_op" where
  "choose_services E card_keys =
     (let required = REQUIRED_SERVICE_NODE_IDS; node = ''Service 0x'' @ hex4 PAID_TICKET_SERVICE_NODE_ID in
      catchH (probe_service_exists E (ServiceCode PAID_TICKET_SERVICE_NODE_ID)) (\<lambda>r. liftH (Inr (case r of
          Inr True \<Rightarrow>
            if get_key card_keys PAID_TICKET_SERVICE_NODE_ID \<noteq> None then
              (required @ [PAID_TICKET_SERVICE_NODE_ID], Some (word_of_nat (length required)), None)
            else (required, None, Some (node @ ('' '' @ jp [0x306F, 0x5B58, 0x5728, 0x3057, 0x307E, 0x3059, 0x304C, 0x9375, 0x304C, 0x4E0D, 0x8DB3, 0x3057, 0x3066, 0x3044, 0x308B, 0x305F, 0x3081, 0x30B9, 0x30AD, 0x30C3, 0x30D7, 0x3057, 0x307E, 0x3057, 0x305F])))
        | Inr False \<Rightarrow> (required, None, Some ((jp [0x30AB, 0x30FC, 0x30C9, 0x306B] @ '' '') @ node @ ('' '' @ jp [0x304C, 0x5B58, 0x5728, 0x3057, 0x306A, 0x3044, 0x305F, 0x3081, 0x30B9, 0x30AD, 0x30C3, 0x30D7, 0x3057, 0x307E, 0x3057, 0x305F])))
        | Inl err \<Rightarrow> (required, None, Some (node @ ('' '' @ jp [0x306E, 0x5B58, 0x5728, 0x78BA, 0x8A8D, 0x306B, 0x5931, 0x6557, 0x3057, 0x305F, 0x305F, 0x3081, 0x30B9, 0x30AD, 0x30C3, 0x30D7, 0x3057, 0x307E, 0x3057, 0x305F] @ '': '') @ felica_error_text err))))))"

definition dump_polled_card ::
    "'d environment \<Rightarrow> suica_world \<Rightarrow> bytes \<Rightarrow> key_store \<Rightarrow> 'd suica \<Rightarrow> (suica_error + unit) \<times> 'd suica" where
  "dump_polled_card E W random_1 store s =
     (let encode_upper = hex_encode_upper (sw_text W);
          polled = fs_polling_result (su_host s);
          on_card = (\<lambda>m s. case m s of (Inl e, s) \<Rightarrow> (Inl (SuicaCard e), s) | (Inr x, s) \<Rightarrow> (Inr x, s)) in
      case on_card (in_turn [print_section (jp [0x30AB, 0x30FC, 0x30C9, 0x8B58, 0x5225]), print_item ''IDm'' (encode_upper (t3_idm polled)),
          print_item ''PMm'' (encode_upper (t3_pmm polled))]) s of
        (Inl e, s) \<Rightarrow> (Inl e, s)
      | (Inr _, s) \<Rightarrow>
          (case resolve_card_keys (sw_text W) store (t3_idm polled) of
             Inl e \<Rightarrow> (Inl e, s)
           | Inr card_keys \<Rightarrow>
               on_card
                (bindS (hostS (choose_services E card_keys)) (\<lambda>(node_ids, service_index, skip_reason).
                 case build_auth_targets node_ids of (areas, services) \<Rightarrow>
                 bindS (hostS (authenticate_node E random_1 card_keys areas services None)) (\<lambda>result.
                 bindS (print_item ''IDi'' (idi_bytes_to_str encode_upper (issue_id result))) (\<lambda>_.
                 bindS (print_item ''PMi'' (encode_upper (issue_parameter result))) (\<lambda>_.
                 read_and_print_suica_data E W service_index skip_reason))))) s))"

text \<open>With no card on the reader the program does not return.\<close>

definition run_with_driver ::
    "'d environment \<Rightarrow> suica_world \<Rightarrow> bytes \<Rightarrow> key_store \<Rightarrow> station_lookup option \<Rightarrow> 'd
      \<Rightarrow> ((suica_error + unit) \<times> string list \<times> 'd) option" where
  "run_with_driver E W random_1 store stations d =
     map_option (\<lambda>(found, d). case found of
         Inl e \<Rightarrow> (Inl (SuicaCard e), [''Waiting for Suica card...''], d)
       | Inr h \<Rightarrow>
           (case dump_polled_card E W random_1 store \<lparr>su_host = h, su_stations = stations, su_lines = [''Waiting for Suica card...'']\<rparr> of
              (r, s) \<Rightarrow> (r, su_lines s, fs_device (su_host s))))
       (poll_until_found E SUICA_SYSTEM_CODE d)"

end
