(* ===== verification/Dump_Card.thy ===== *)
theory Dump_Card
  imports Dump Reader_Session
begin

text \<open>
  The card dump on the emulated card: the tree that the walk over the directory collects is the card's tree of
  areas and services, and the blocks that it reads of a service are all blocks of the service.
\<close>

section \<open>The tree of a card as the dump shows it\<close>

fun area_view :: "emulated_area \<Rightarrow> area_node"
  and children_view :: "area_child list \<Rightarrow> dump_child list \<Rightarrow> dump_child list" where
  "area_view (EmulatedArea c v k e ch) = AreaNode c (hex_u16 c) (hex_u16 e) None (children_view ch [])"
| "children_view [] acc = acc"
| "children_view (ChildService s # r) acc = children_view r (append_service_child acc (build_service_summary (es_code s)))"
| "children_view (ChildArea a # r) acc = children_view r (acc @ [DumpArea (area_view a)])"

fun entry_code :: "directory_entry \<Rightarrow> u16" where
  "entry_code (DirService c) = code_raw c"
| "entry_code (DirArea c e) = c"

text \<open>The nodes registered for the key versions, in the order of the directory.\<close>

definition registered_nodes :: "directory_entry list \<Rightarrow> walk_state \<Rightarrow> walk_state" where
  "registered_nodes entries w = fold register_service_code (map entry_code entries) w"

lemma registered_nodes_simps [simp]:
  "registered_nodes [] w = w"
  "registered_nodes (x # entries) w = registered_nodes entries (register_service_code (entry_code x) w)"
  "registered_nodes (xs @ ys) w = registered_nodes ys (registered_nodes xs w)"
  by (simp_all add: registered_nodes_def)

text \<open>
  A directory is a list: where an area ends is told only by the entry behind its subtree, which must lie outside
  its range. \<open>delimited\<close> asks that of the next sibling of every area of a tree.
\<close>

fun outside :: "u16 \<Rightarrow> u16 \<Rightarrow> directory_entry list \<Rightarrow> bool" where
  "outside c e [] \<longleftrightarrow> True"
| "outside c e (DirService s # r) \<longleftrightarrow> code_raw s < c \<or> code_raw s > e"
| "outside c e (DirArea c' e' # r) \<longleftrightarrow> c' \<le> e' \<and> (c' < c \<or> e' > e)"

fun delimited :: "emulated_area \<Rightarrow> bool"
  and delimited_in :: "area_child list \<Rightarrow> bool" where
  "delimited (EmulatedArea c v k e ch) \<longleftrightarrow> delimited_in ch"
| "delimited_in [] \<longleftrightarrow> True"
| "delimited_in (ChildService s # r) \<longleftrightarrow> delimited_in r"
| "delimited_in (ChildArea a # r) \<longleftrightarrow> delimited a \<and> outside (ea_code a) (ea_end a) (child_entries r) \<and> delimited_in r"

lemma outside_smaller: "outside c e rest \<Longrightarrow> c \<le> c' \<Longrightarrow> e' \<le> e \<Longrightarrow> outside c' e' rest"
  by (induction c e rest rule: outside.induct) auto

lemma outside_append: "xs \<noteq> [] \<Longrightarrow> outside c e (xs @ ys) = outside c e xs"
  by (cases xs; cases "hd xs") auto

lemma child_entries_Nil: "child_entries ch = [] \<longleftrightarrow> ch = []"
proof (cases ch)
  case (Cons x r)
  then show ?thesis by (cases x; cases "case x of ChildArea a \<Rightarrow> a") auto
qed simp

section \<open>The walk over a directory\<close>

text \<open>A card that lists some entries, whatever it is; \<open>ready\<close> is the state in which it does.\<close>

locale directory_listing =
  fixes E :: "'d environment"
    and ready :: "'d felica_standard \<Rightarrow> bool"
    and entries :: "directory_entry list"
  assumes listed: "ready h \<Longrightarrow> \<exists>h'. search_service_code E index h = (Inr (search_entry entries index), h') \<and> ready h'"
    and few_entries: "ready h \<Longrightarrow> length entries < 0x10000"
begin

lemma entry_at:
  assumes "entries = before @ x # behind" and "unat (index :: u16) = length before"
  shows "search_entry entries index = (case x of DirService code \<Rightarrow> Some (SearchService code) | DirArea c e \<Rightarrow> Some (SearchArea c e))"
  using assms by (simp add: search_entry_def nth_opt_def)

lemma no_entry_at: "unat (index :: u16) = length entries \<Longrightarrow> search_entry entries index = None"
  by (simp add: search_entry_def nth_opt_def)

lemma next_index:
  assumes "entries = before @ x # behind" and "unat (index :: u16) = length before" and "ready h"
  obtains k where "checked_succ index = Some k" and "unat k = Suc (length before)" and "index < k"
proof -
  have "unat index \<noteq> unat (0xFFFF :: u16)" using few_entries [OF assms(3)] assms(1,2) by simp
  then have "index \<noteq> 0xFFFF" by blast
  then obtain k where k: "checked_succ index = Some k" by (auto simp: checked_succ_def)
  then show ?thesis using that checked_succ_Some [OF k] assms(2) by simp
qed

text \<open>The loop of an area stops where the next entry is outside, and takes a step for a service and for an area.\<close>

lemma walk_stops:
  assumes "entries = before @ rest" and "unat index = length before" and "outside c e rest" and "ready h"
  shows "\<exists>h'. walk_area E c e index acc w h = (Inr (acc, index, w), h') \<and> ready h'"
proof -
  obtain h' where h': "search_service_code E index h = (Inr (search_entry entries index), h')" "ready h'"
    using listed [OF assms(4)] by blast
  have "walk_area E c e index acc w h = (Inr (acc, index, w), h')"
  proof (cases rest)
    case Nil
    then show ?thesis using no_entry_at [of index] assms(1,2) by (subst walk_area.simps) (simp add: bindH_Inr h'(1))
  next
    case (Cons x behind)
    then show ?thesis using entry_at [of before x behind index] assms(1-3)
      by (subst walk_area.simps, cases x) (auto simp: bindH_Inr h'(1))
  qed
  with h'(2) show ?thesis by blast
qed

lemma walk_service:
  assumes "entries = before @ DirService code # behind" and "unat index = length before"
    and "c \<le> code_raw code" and "code_raw code \<le> e" and "ready h"
  obtains k h' where "unat k = Suc (length before)" and "ready h'"
    and "walk_area E c e index acc w h
      = walk_area E c e k (append_service_child acc (build_service_summary code)) (register_service_code (code_raw code) w) h'"
proof -
  obtain h' where h': "search_service_code E index h = (Inr (search_entry entries index), h')" "ready h'"
    using listed [OF assms(5)] by blast
  obtain k where k: "checked_succ index = Some k" "unat k = Suc (length before)" by (rule next_index [OF assms(1,2,5)])
  have "walk_area E c e index acc w h
      = walk_area E c e k (append_service_child acc (build_service_summary code)) (register_service_code (code_raw code) w) h'"
    using entry_at [OF assms(1,2)] leD [OF assms(3)] leD [OF assms(4)] k(1) by (subst walk_area.simps) (simp add: bindH_Inr h'(1) Let_def)
  with that k(2) h'(2) show ?thesis by blast
qed

lemma walk_child:
  assumes "entries = before @ DirArea c' e' # behind" and "unat index = length before"
    and "c \<le> c'" and "c' \<le> e'" and "e' \<le> e" and "ready h"
    and inner: "\<And>k h1. unat k = Suc (length before) \<Longrightarrow> ready h1 \<Longrightarrow>
      \<exists>h2 n. walk_area E c' e' k [] (register_service_code c' w) h1 = (Inr (grandchildren, n, w2), h2) \<and>
        unat n = Suc (length before) + l \<and> ready h2"
  obtains n h2 where "unat n = Suc (length before) + l" and "ready h2"
    and "walk_area E c e index acc w h
      = walk_area E c e n (acc @ [DumpArea (AreaNode c' (hex_u16 c') (hex_u16 e') None grandchildren)]) w2 h2"
proof -
  obtain h1 where h1: "search_service_code E index h = (Inr (search_entry entries index), h1)" "ready h1"
    using listed [OF assms(6)] by blast
  obtain k where k: "checked_succ index = Some k" "unat k = Suc (length before)" by (rule next_index [OF assms(1,2,6)])
  obtain h2 n where i: "walk_area E c' e' k [] (register_service_code c' w) h1 = (Inr (grandchildren, n, w2), h2)"
    "unat n = Suc (length before) + l" "ready h2" using inner [OF k(2) h1(2)] by blast
  have "\<not> n \<le> index" using i(2) assms(2) by (simp add: word_le_nat_alt)
  then have "walk_area E c e index acc w h
      = walk_area E c e n (acc @ [DumpArea (AreaNode c' (hex_u16 c') (hex_u16 e') None grandchildren)]) w2 h2"
    using entry_at [OF assms(1,2)] leD [OF assms(3)] leD [OF assms(4)] leD [OF assms(5)] k(1) i(1)
    by (subst walk_area.simps) (simp add: bindH_Inr h1(1) Let_def)
  with that i(2,3) show ?thesis by blast
qed

text \<open>So the loop collects the children of an area and stops behind them.\<close>

lemma walk_subtree:
  "wf_area a \<Longrightarrow> delimited a \<Longrightarrow> entries = before @ child_entries (ea_children a) @ rest \<Longrightarrow> unat index = length before \<Longrightarrow>
    outside (ea_code a) (ea_end a) rest \<Longrightarrow> ready h \<Longrightarrow>
    \<exists>h' n. walk_area E (ea_code a) (ea_end a) index [] w h
        = (Inr (an_children (area_view a), n, registered_nodes (child_entries (ea_children a)) w), h') \<and>
      unat n = length before + length (child_entries (ea_children a)) \<and> ready h'"
  "wf_children c e ch \<Longrightarrow> delimited_in ch \<Longrightarrow> entries = before @ child_entries ch @ rest \<Longrightarrow> unat index = length before \<Longrightarrow>
    outside c e rest \<Longrightarrow> ready h \<Longrightarrow>
    \<exists>h' n. walk_area E c e index acc w h = (Inr (children_view ch acc, n, registered_nodes (child_entries ch) w), h') \<and>
      unat n = length before + length (child_entries ch) \<and> ready h'"
proof (induction a and ch acc arbitrary: before rest index w h and c e before rest index w h
    rule: area_view_children_view.induct)
  case (1 c0 v k e0 ch)
  then show ?case by simp
next
  case (2 acc)
  then show ?case using walk_stops [of before rest index c e h acc w] by auto
next
  case (3 s r acc)
  from 3(4) have "entries = before @ DirService (es_code s) # child_entries r @ rest" by simp
  from walk_service [OF this 3(5), of c e h acc w] 3(2,7) obtain k h' where
    s: "unat k = Suc (length before)" "ready h'" "walk_area E c e index acc w h
      = walk_area E c e k (append_service_child acc (build_service_summary (es_code s))) (register_service_code (code_raw (es_code s)) w) h'"
    by auto
  show ?case
    using 3(1) [of c e "before @ [DirService (es_code s)]" rest k h' "register_service_code (code_raw (es_code s)) w"] 3(2-6) s by simp
next
  case (4 a r acc)
  obtain c' v k e' ch where a: "a = EmulatedArea c' v k e' ch" by (cases a)
  have le: "c \<le> c'" "e' \<le> e" "c' \<le> e'" and wf: "wf_area a" "wf_children c e r"
    using 4(3) a by (auto simp: validate_area_range_def bindE_eq_Inr Let_def not_less split: if_splits)
  let ?b = "before @ [DirArea c' e']" and ?rest = "child_entries r @ rest"
  have e: "entries = before @ DirArea c' e' # child_entries ch @ ?rest" using 4(5) a by simp
  have out: "outside c' e' ?rest"
  proof (cases "r = []")
    case True
    then show ?thesis using outside_smaller [OF 4(7) le(1,2)] by simp
  next
    case False
    then show ?thesis using 4(4) a outside_append [of "child_entries r" c' e' rest] child_entries_Nil [of r] by simp
  qed
  let ?w = "registered_nodes (child_entries ch) (register_service_code c' w)"
  have inner: "\<exists>h2 n. walk_area E c' e' i [] (register_service_code c' w) h1 = (Inr (an_children (area_view a), n, ?w), h2) \<and>
      unat n = Suc (length before) + length (child_entries ch) \<and> ready h2"
    if "unat i = Suc (length before)" "ready h1" for i h1
    using 4(1) [of ?b ?rest i h1 "register_service_code c' w"] wf(1) 4(4) e out that a by simp
  obtain n h2 where n: "unat n = Suc (length before) + length (child_entries ch)" "ready h2"
    "walk_area E c e index acc w h
      = walk_area E c e n (acc @ [DumpArea (AreaNode c' (hex_u16 c') (hex_u16 e') None (an_children (area_view a)))]) ?w h2"
    by (rule walk_child [OF e 4(6) le(1,3,2) 4(8) inner])
  have view: "area_view a = AreaNode c' (hex_u16 c') (hex_u16 e') None (an_children (area_view a))" by (simp add: a)
  show ?case
    using 4(2) [of c e "before @ directory_entries a" rest n h2 ?w] wf(2) 4(4,5,7) n a view by (simp add: add.assoc)
qed

text \<open>The walk over the whole directory finds the root area, and nothing that it would warn of.\<close>

lemma walk_root:
  assumes "entries = directory_entries root" and "wf_area root" and "delimited root" and "ready h"
  shows "\<exists>h'. collect_system_areas E w h = (Inr ([area_view root], [], registered_nodes entries w), h') \<and> ready h'"
proof -
  obtain c v k e ch where root: "root = EmulatedArea c v k e ch" by (cases root)
  have entries: "entries = [] @ DirArea c e # child_entries ch" using assms(1) root by simp
  obtain h1 where h1: "search_service_code E 0 h = (Inr (search_entry entries 0), h1)" "ready h1" using listed [OF assms(4)] by blast
  obtain i where i: "checked_succ 0 = Some i" "unat i = Suc 0" by (rule next_index [OF entries, of 0 h]) (simp_all add: assms(4))
  let ?w = "register_service_code c w"
  obtain h2 n where walked: "walk_area E c e i [] ?w h1 = (Inr (an_children (area_view root), n, registered_nodes (child_entries ch) ?w), h2)"
    "unat n = Suc (length (child_entries ch))" "ready h2"
    using walk_subtree(1) [OF assms(2,3), of "[DirArea c e]" "[]" i h1 ?w] entries i(2) h1(2) root by auto
  obtain h3 where h3: "search_service_code E n h2 = (Inr (search_entry entries n), h3)" "ready h3" using listed [OF walked(3)] by blast
  have "search_entry entries n = None" using no_entry_at [of n] walked(2) entries by simp
  then have "walk_system E n [area_view root] [] (registered_nodes entries w) h2 = (Inr ([area_view root], [], registered_nodes entries w), h3)"
    by (subst walk_system.simps) (simp add: bindH_Inr h3(1))
  moreover have "\<not> n \<le> 0" using walked(2) by (simp add: word_le_nat_alt)
  moreover have "search_entry entries 0 = Some (SearchArea c e)" using entry_at [OF entries, of 0] by simp
  moreover have "collect_area E c e i w h1 = (Inr (area_view root, n, registered_nodes entries w), h2)"
    using walked(1) root entries by (simp add: collect_area_def bindH_Inr)
  ultimately have "collect_system_areas E w h = (Inr ([area_view root], [], registered_nodes entries w), h3)"
    unfolding collect_system_areas_def using i(1) by (subst walk_system.simps) (simp add: bindH_Inr h1(1) Let_def)
  with h3(2) show ?thesis by blast
qed

end

section \<open>The directory of the emulated card\<close>

lemma polled_any:
  assumes "polled h i em"
  shows "system_index_for_idm (fs_device h) (t3_idm (fs_polling_result h)) AnyMode = (Some i, em)"
  using polledD(3) [OF assms] by (auto simp: system_index_for_idm_def Let_def split: option.splits if_splits)

lemma polled_again:
  assumes "polled h i em"
  shows "polled (h\<lparr>fs_device := em\<rparr>) i em"
proof -
  note p = polledD [OF assms]
  have "mode_permits (sys_mode (em_systems em ! i)) Unauthenticated"
    using p(3) by (auto simp: system_index_for_idm_def Let_def split: option.splits if_splits)
  from system_index_again [OF p(3) refl refl this] have
    "system_index_for_idm em (t3_idm (fs_polling_result h)) Unauthenticated = (Some i, em)"
    by (simp add: update_system_def)
  with p system_index_for_idm_card [OF p(3,1)] show ?thesis by (simp add: polled_def)
qed

lemma directory_codes:
  assumes "wf_area a" and "DirService c \<in> set (directory_entries a)"
  shows "c \<noteq> ServiceCode 0xFFFF"
proof -
  from assms(2) obtain s where "s \<in> set (services_of a)" "es_code s = c" by (auto simp: directory_services)
  with wf_services(1) [OF assms(1)] have "code_raw c \<le> 0xFFFE" by auto
  then show ?thesis by auto
qed

text \<open>Searching the card by index through the API is looking the index up in its directory.\<close>

lemma card_searched:
  assumes "polled h i em"
  shows "search_service_code (card_environment C A r2) index h
    = (Inr (search_entry (directory (em_systems em ! i)) index), h\<lparr>fs_device := em\<rparr>)"
proof -
  let ?idm = "t3_idm (fs_polling_result h)" and ?found = "search_entry (directory (em_systems em ! i)) index"
  let ?c = "CmdSearchServiceCode ?idm index" and ?r = "RespSearchServiceCode ?idm ?found"
  note p = polledD [OF assms]
  have "?found \<noteq> Some (SearchService (ServiceCode 0xFFFF))"
    using directory_codes [of "sys_root (em_systems em ! i)"] polled_wf [OF assms]
    by (auto simp: search_entry_def wf_tree_def directory_def nth_opt_def split: option.splits directory_entry.splits if_splits)
      (metis nth_mem)
  then have wr: "wf_response ?r" using p(2) by simp
  have wc: "wf_command ?c" using p(2) by simp
  obtain f where f: "encoding ?c = Inr (Plain f)" using p(2) by (auto simp: plain_def frame_with_length_prefix_def u16_to_le_def)
  have "length (search_result_bytes ?found) \<le> 4" by (auto simp: search_result_bytes_def u16_to_le_def split: option.split search_service_code_result.split)
  then obtain rf where rf: "response_to_frame ?r = Inr rf" using p(2) by (simp add: encoders Let_def)
  have "handle_command C r2 (fs_device h) ?c = Inr (Some rf, em)"
    by (simp add: handle_command_def with_system_def polled_any [OF assms] reply_def rf [folded encode_response_frame_Some])
  then have "execute_command (card_environment C A r2) label ?c t h = (Inr ?r, h\<lparr>fs_device := em\<rparr>)" for label t
    by (rule card_plain_exchange [OF f wc _ rf wr])
  then show ?thesis by (simp add: search_service_code_def with_reader_idm [OF p(2)] bindH_Inr)
qed

definition lists_directory :: "nat \<Rightarrow> emulator \<Rightarrow> directory_entry list \<Rightarrow> emulator felica_standard \<Rightarrow> bool" where
  "lists_directory i em entries h \<longleftrightarrow> polled h i em \<and> directory (em_systems em ! i) = entries \<and> length entries < 0x10000"

interpretation card_directory: directory_listing "card_environment C A r2" "lists_directory i em entries" entries
  for C A r2 i em entries
proof
  show "\<exists>h'. search_service_code (card_environment C A r2) index h = (Inr (search_entry entries index), h') \<and>
      lists_directory i em entries h'" if "lists_directory i em entries h" for h index
    using that card_searched [of h i em C A r2 index] polled_again [of h i em] by (auto simp: lists_directory_def)
  show "length entries < 0x10000" if "lists_directory i em entries h" for h
    using that by (simp add: lists_directory_def)
qed

section \<open>The blocks of a service\<close>

text \<open>A service that can be read without a key, and its blocks.\<close>

definition open_service :: "emulated_system \<Rightarrow> emulated_service \<Rightarrow> bool" where
  "open_service y s \<longleftrightarrow> sys_find_service y (es_code s) = Some s \<and> is_key_free_service (es_code s) \<and> code_raw (es_code s) \<noteq> 0xFFFF"

lemma block_read_directly:
  assumes "open_service y s"
  shows "unat n < length (blocks_at st (es_blocks s)) \<Longrightarrow>
      read_blocks y st [es_code s] [block_element n] True = Inr [blocks_at st (es_blocks s) ! unat n]"
    and "length (blocks_at st (es_blocks s)) \<le> unat n \<Longrightarrow>
      \<exists>sf1 sf2. read_blocks y st [es_code s] [block_element n] True = Inl (Flags sf1 sf2)"
  using assms
  by (auto simp: open_service_def is_key_free_service_def read_blocks_def read_block_def validate_read_block_def
      validate_block_element_def block_element_def flags_error_def nth_opt_def ok_or_def enumerate_eq_zip)

lemma one_block_arguments: "access_arguments [code] [block_element n]"
  by (simp add: access_arguments_def block_element_def)

lemma block_read_through_api:
  assumes "polled h i em" and "open_service (em_systems em ! i) s"
  shows "unat n < length (blocks_at (em_store em) (es_blocks s)) \<Longrightarrow>
      read_without_encryption (card_environment C A r2) [es_code s] [block_element n] h
        = (Inr [blocks_at (em_store em) (es_blocks s) ! unat n], h\<lparr>fs_device := em\<rparr>)"
    and "length (blocks_at (em_store em) (es_blocks s)) \<le> unat n \<Longrightarrow>
      \<exists>e. read_without_encryption (card_environment C A r2) [es_code s] [block_element n] h = (Inl e, h\<lparr>fs_device := em\<rparr>) \<and>
        is_status e \<and> \<not> panicking e"
  using plain_read_direct [OF assms(1) one_block_arguments [of "es_code s" n], of C A r2]
    block_read_directly [OF assms(2), where n = n and st = "em_store em"]
  by (auto simp: access_outcome_def status_error_def is_status_def)

lemma service_read_from:
  assumes "polled h i em" and "open_service (em_systems em ! i) s"
  shows "read_service_from (card_environment C A r2) K [es_code s] n acc h
    = (Inr (acc @ map (hex_encode_upper K) (drop (unat n) (take 0x10000 (blocks_at (em_store em) (es_blocks s))))),
       h\<lparr>fs_device := em\<rparr>)"
  using assms(1)
proof (induction "0x10000 - unat n" arbitrary: n acc h rule: less_induct)
  case less
  let ?bs = "blocks_at (em_store em) (es_blocks s)"
  note read = block_read_through_api [OF less(2) assms(2), of n C A r2]
  show ?case
  proof (cases "unat n < length ?bs")
    case False
    with read(2) obtain e where "read_without_encryption (card_environment C A r2) [es_code s] [block_element n] h
        = (Inl e, h\<lparr>fs_device := em\<rparr>)" "is_status e" "\<not> panicking e" by auto
    with False show ?thesis by (subst read_service_from.simps) (simp add: catchH_Inl)
  next
    case True
    have here: "drop (unat n) (take 0x10000 ?bs) = ?bs ! unat n # drop (Suc (unat n)) (take 0x10000 ?bs)"
      using True unat_u16_less [of n] by (simp add: Cons_nth_drop_Suc [symmetric])
    show ?thesis
    proof (cases "checked_succ n")
      case (Some k)
      have k: "unat k = Suc (unat n)" using checked_succ_Some [OF Some] by simp
      then have "0x10000 - unat k < 0x10000 - unat n" using unat_u16_less [of n] by linarith
      from less(1) [OF this polled_again [OF less(2)], of "acc @ [hex_encode_upper K (?bs ! unat n)]"]
      show ?thesis using Some here k by (subst read_service_from.simps) (simp add: catchH_Inr read(1) [OF True] Let_def)
    next
      case None
      then have "unat n = 0xFFFF" by (auto simp: checked_succ_def split: if_splits)
      then have "drop (Suc (unat n)) (take 0x10000 ?bs) = []" by simp
      with None here show ?thesis
        by (subst read_service_from.simps) (simp add: catchH_Inr read(1) [OF True] Let_def)
    qed
  qed
qed

section \<open>Properties\<close>


text \<open>
  C15. The dump reads whole services: of a service that needs no key it shows the blocks of the card, all of
  them, in order, in hexadecimal; only a service of more blocks than block numbers is cut off behind the last.
\<close>

theorem service_dumped:
  assumes "polled h i em" and "open_service (em_systems em ! i) s"
  shows "read_service_blocks (card_environment C A r2) K (code_raw (es_code s)) h
    = (Inr (map (hex_encode_upper K) (take 0x10000 (blocks_at (em_store em) (es_blocks s)))), h\<lparr>fs_device := em\<rparr>)"
  using service_read_from [OF assms, of C A r2 K 0 "[]"] by (simp add: read_service_blocks_def)

section \<open>Witnesses\<close>

definition demo_walk :: walk_state where
  "demo_walk = \<lparr>wk_codes = [], wk_seen = [], wk_warnings = []\<rparr>"

definition demo_text :: text_crates where
  "demo_text = \<lparr>parse_json = (\<lambda>s. Inl ''unused''), hex_decode = (\<lambda>s. Inl ''unused''),
     hex_encode_upper = (\<lambda>bs. concat (map hex2 bs))\<rparr>"


theorem service_dumped_witness:
  "fst (read_service_blocks (card_environment xor_cipher xor_aes demo_key) demo_text 0x0009 demo_host)
    = Inr [concat (replicate 16 ''A0''), concat (replicate 16 ''A1'')]"
proof -
  let ?s = "demo_service 0x0009 0"
  have "open_service demo_system ?s" by code_simp
  then have o: "open_service (em_systems demo_card ! 0) ?s" by (simp add: demo_tree)
  have "map (hex_encode_upper demo_text) (blocks_at demo_store 0) = [concat (replicate 16 ''A0''), concat (replicate 16 ''A1'')]"
    and "length (blocks_at demo_store 0) \<le> 2"
    by code_simp+
  with service_dumped [OF demo_polled o, of xor_cipher xor_aes demo_key demo_text] show ?thesis
    by (simp add: demo_tree demo_service_def)
qed

end
