(* ===== verification/Suica_Card.thy ===== *)
theory Suica_Card
  imports Suica Dump_Card
begin

text \<open>
  The Suica dump in a secure session with the emulated card: what it reads of a service is the blocks of the
  service, up to the number it asks for, and the session goes on.
\<close>

section \<open>A service of the session\<close>

definition session_service :: "emulated_system \<Rightarrow> service_code list \<Rightarrow> u8 \<Rightarrow> emulated_service \<Rightarrow> bool" where
  "session_service y codes index s \<longleftrightarrow> index < 16 \<and> nth_opt codes (unat index) = Some (es_code s) \<and>
     sys_find_service y (es_code s) = Some s \<and> code_attribute (es_code s) \<noteq> None \<and> code_raw (es_code s) \<noteq> 0xFFFF"

abbreviation indexed_element :: "u8 \<Rightarrow> nat \<Rightarrow> block_list_element" where
  "indexed_element index n \<equiv> \<lparr>block_number_or_key_version = u16_of n, service_code_list_index = index, access_mode = 0\<rparr>"

lemma session_block:
  assumes "session_service y codes index s" and "n < 0x10000"
  shows "n < length (blocks_at st (es_blocks s)) \<Longrightarrow>
      read_blocks y st codes [indexed_element index n] False = Inr [blocks_at st (es_blocks s) ! n]"
    and "length (blocks_at st (es_blocks s)) \<le> n \<Longrightarrow>
      \<exists>sf1 sf2. read_blocks y st codes [indexed_element index n] False = Inl (Flags sf1 sf2)"
proof -
  have n: "unat (u16_of n) = n" using assms(2) by (simp add: u16_of_def unsigned_of_nat take_bit_nat_eq_self)
  show "n < length (blocks_at st (es_blocks s)) \<Longrightarrow>
      read_blocks y st codes [indexed_element index n] False = Inr [blocks_at st (es_blocks s) ! n]"
    and "length (blocks_at st (es_blocks s)) \<le> n \<Longrightarrow>
      \<exists>sf1 sf2. read_blocks y st codes [indexed_element index n] False = Inl (Flags sf1 sf2)"
    using assms(1) n
    by (auto simp: session_service_def read_blocks_def read_block_def validate_read_block_def
        validate_block_element_def flags_error_def nth_opt_def ok_or_def enumerate_eq_zip)
qed

lemma session_block_read:
  assumes "crypto_ok C" and "synchronised h i s x" and "unat (ss_transaction_number s) < 0xFFFE"
    and "session_service (em_systems (fs_device h) ! i) (ss_service_codes s) index v" and "n < 0x10000"
  shows "n < length (blocks_at (em_store (fs_device h)) (es_blocks v)) \<Longrightarrow>
      read (card_environment C A r2) [indexed_element index n] h =
        (Inr [blocks_at (em_store (fs_device h)) (es_blocks v) ! n], advanced h i s x (em_store (fs_device h)))"
    and "length (blocks_at (em_store (fs_device h)) (es_blocks v)) \<le> n \<Longrightarrow>
      \<exists>e. read (card_environment C A r2) [indexed_element index n] h = (Inl e, advanced h i s x (em_store (fs_device h))) \<and>
        is_status e \<and> \<not> panicking e"
proof -
  have "block_arguments [indexed_element index n]" using assms(4) by (simp add: block_arguments_def session_service_def)
  note direct = secure_read_direct [OF assms(1-3) this, of A r2]
  note block = session_block [OF assms(4,5), of "em_store (fs_device h)"]
  show "n < length (blocks_at (em_store (fs_device h)) (es_blocks v)) \<Longrightarrow>
      read (card_environment C A r2) [indexed_element index n] h =
        (Inr [blocks_at (em_store (fs_device h)) (es_blocks v) ! n], advanced h i s x (em_store (fs_device h)))"
    using direct block(1) by (simp add: access_outcome_def)
  show "length (blocks_at (em_store (fs_device h)) (es_blocks v)) \<le> n \<Longrightarrow>
      \<exists>e. read (card_environment C A r2) [indexed_element index n] h = (Inl e, advanced h i s x (em_store (fs_device h))) \<and>
        is_status e \<and> \<not> panicking e"
    using direct block(2) by (auto simp: access_outcome_def status_error_def is_status_def)
qed

text \<open>The session that an access leaves: the same services and store, a later number.\<close>

lemma session_goes_on:
  assumes "synchronised h i s x"
  defines "h1 \<equiv> advanced h i s x (em_store (fs_device h))" and "s1 \<equiv> s\<lparr>ss_transaction_number := ss_transaction_number s + 2\<rparr>"
  shows "synchronised h1 i s1 (x\<lparr>ax_transaction_number := ss_transaction_number s + 2\<rparr>)"
    and "em_store (fs_device h1) = em_store (fs_device h)" and "ss_service_codes s1 = ss_service_codes s"
    and "session_service (em_systems (fs_device h1) ! i) = session_service (em_systems (fs_device h) ! i)"
proof -
  have "wf_card ((fs_device h)\<lparr>em_store := em_store (fs_device h)\<rparr>)" using assms(1) by (simp add: synchronised_def)
  from synchronised_advanced [OF assms(1) this refl]
  show "synchronised h1 i s1 (x\<lparr>ax_transaction_number := ss_transaction_number s + 2\<rparr>)" by (simp add: h1_def s1_def)
  show "em_store (fs_device h1) = em_store (fs_device h)" "ss_service_codes s1 = ss_service_codes s"
    by (simp_all add: h1_def s1_def advanced_def Let_def)
  have "i < length (em_systems (fs_device h))" using assms(1) active_index_less by (auto simp: synchronised_def)
  then have "sys_find_service (em_systems (fs_device h1) ! i) = sys_find_service (em_systems (fs_device h) ! i)"
    by (simp add: h1_def advanced_def Let_def update_system_def)
  then show "session_service (em_systems (fs_device h1) ! i) = session_service (em_systems (fs_device h) ! i)"
    by (intro ext) (simp add: session_service_def)
qed

lemma session_blocks_from:
  assumes "crypto_ok C" and "m \<le> 0x10000"
  shows "synchronised h i s x \<Longrightarrow> unat (ss_transaction_number s) + 2 * (m - k) \<le> 0xFFFF \<Longrightarrow>
    session_service (em_systems (fs_device h) ! i) (ss_service_codes s) index v \<Longrightarrow>
    \<exists>h' s' x'. read_blocks_from (card_environment C A r2) index [k..<m] acc h
        = (Inr (acc @ drop k (take m (blocks_at (em_store (fs_device h)) (es_blocks v)))), h') \<and>
      synchronised h' i s' x' \<and> em_store (fs_device h') = em_store (fs_device h) \<and>
      unat (ss_transaction_number s') \<le> unat (ss_transaction_number s) + 2 * (m - k)"
proof (induction "m - k" arbitrary: k h s x acc)
  case 0
  then show ?case by auto
next
  case (Suc j)
  let ?bs = "blocks_at (em_store (fs_device h)) (es_blocks v)" and ?h = "advanced h i s x (em_store (fs_device h))"
  let ?s = "s\<lparr>ss_transaction_number := ss_transaction_number s + 2\<rparr>"
  have k: "k < m" "j = m - Suc k" using Suc.hyps(2) by simp_all
  then have upt: "[k..<m] = k # [Suc k..<m]" by (simp add: upt_conv_Cons)
  have room: "unat (ss_transaction_number s) < 0xFFFE" using Suc.prems(2) k by linarith
  have number: "unat (ss_transaction_number ?s) = unat (ss_transaction_number s) + 2"
    using room by (simp add: unat_word_ariths)
  note next_session = session_goes_on [OF Suc.prems(1)]
  note block = session_block_read [OF assms(1) Suc.prems(1) room Suc.prems(3), of k A r2]
  show ?case
  proof (cases "k < length ?bs")
    case True
    have "\<exists>h' s' x'. read_blocks_from (card_environment C A r2) index [Suc k..<m] (acc @ [?bs ! k]) ?h
        = (Inr ((acc @ [?bs ! k]) @ drop (Suc k) (take m ?bs)), h') \<and>
      synchronised h' i s' x' \<and> em_store (fs_device h') = em_store (fs_device ?h) \<and>
      unat (ss_transaction_number s') \<le> unat (ss_transaction_number ?s) + 2 * (m - Suc k)"
      using Suc.hyps(1) [OF k(2) next_session(1), of "acc @ [?bs ! k]"] Suc.prems(2,3) number next_session k by simp
    moreover have "drop k (take m ?bs) = ?bs ! k # drop (Suc k) (take m ?bs)"
      using True k(1) by (simp add: Cons_nth_drop_Suc [symmetric])
    moreover have "read (card_environment C A r2) [indexed_element index k] h = (Inr [?bs ! k], ?h)"
      using block(1) True k(1) assms(2) by simp
    ultimately show ?thesis
      using number k next_session(2) unfolding upt by (fastforce simp: catchH_Inr)
  next
    case False
    then obtain e where "read (card_environment C A r2) [indexed_element index k] h = (Inl e, ?h)" "is_status e" "\<not> panicking e"
      using block(2) k(1) assms(2) by auto
    then have "read_blocks_from (card_environment C A r2) index [k..<m] acc h = (Inr (acc @ drop k (take m ?bs)), ?h)"
      using False unfolding upt by (simp add: catchH_Inl)
    with next_session(1,2) number k show ?thesis by (intro exI conjI) (assumption | simp)+
  qed
qed

section \<open>Properties\<close>

text \<open>
  C16. The Suica dump reads the services of its session: in a session of reader and card, it gets of a service the
  first blocks up to the number it asks for, in order, or all there are when the service has fewer; the store of
  the card is unchanged and both sides stay in the session.
\<close>

theorem suica_blocks_read:
  assumes "crypto_ok C" and "synchronised h i s x" and "block_count \<le> 0x10000"
    and "session_service (em_systems (fs_device h) ! i) (ss_service_codes s) index v"
    and "unat (ss_transaction_number s) + 2 * block_count \<le> 0xFFFF"
  shows "\<exists>h' s' x'. suica_read_blocks (card_environment C A r2) index block_count h
      = (Inr (take block_count (blocks_at (em_store (fs_device h)) (es_blocks v))), h') \<and>
    synchronised h' i s' x' \<and> em_store (fs_device h') = em_store (fs_device h) \<and>
    unat (ss_transaction_number s') \<le> unat (ss_transaction_number s) + 2 * block_count"
  using session_blocks_from [OF assms(1,3,2), of 0 index v A r2 "[]"] assms(4,5) by (simp add: suica_read_blocks_def)

section \<open>Witnesses\<close>

theorem suica_blocks_read_witness:
  "fst (suica_read_blocks (card_environment xor_cipher xor_aes demo_key) 0 20 demo_session_host) = Inr [replicate 16 0xB0]"
proof -
  let ?y = "em_systems demo_session ! 0" and ?s = "the (sys_session (em_systems demo_session ! 0))"
  have dev: "fs_device demo_session_host = demo_session" by (simp add: demo_session_host_def)
  have "ss_transaction_number ?s = 0" by code_simp
  then have room: "unat (ss_transaction_number ?s) + 2 * 20 \<le> 0xFFFF" by simp
  have "case sys_find_service ?y (ServiceCode 0x1048) of None \<Rightarrow> False
    | Some v \<Rightarrow> nth_opt (ss_service_codes ?s) 0 = Some (es_code v) \<and> sys_find_service ?y (es_code v) = Some v \<and>
        code_attribute (es_code v) \<noteq> None \<and> code_raw (es_code v) \<noteq> 0xFFFF \<and>
        take 20 (blocks_at (em_store demo_session) (es_blocks v)) = [replicate 16 0xB0]" by code_simp
  then obtain v where "session_service ?y (ss_service_codes ?s) 0 v"
    and blocks: "take 20 (blocks_at (em_store demo_session) (es_blocks v)) = [replicate 16 0xB0]"
    by (auto simp: session_service_def split: option.splits)
  then have v: "session_service (em_systems (fs_device demo_session_host) ! 0) (ss_service_codes ?s) 0 v" by (simp add: dev)
  have "(20 :: nat) \<le> 0x10000" by simp
  from suica_blocks_read [OF xor_cipher_ok demo_synchronised this v room, of xor_aes demo_key] blocks show ?thesis
    by (auto simp: dev)
qed

end
