(* ===== verification/Remote_Client.thy ===== *)
theory Remote_Client
  imports Dump Console
begin

text \<open>
  The interactive client, \<open>examples/remote_client.rs\<close>: its commands over the remote driver, which is any driver
  here. A command polls for a card, mostly again for every step, and prints lines; it ends well, with an error
  that the loop prints, or with the end of the program. The reading of the standard input is the list of its lines.
\<close>

section \<open>Arguments\<close>

text \<open>\<open>split_whitespace\<close>: the words of a line; \<open>word\<close> is the one that is being read.\<close>

function split_words :: "string \<Rightarrow> string \<Rightarrow> string list" where
  "split_words word [] = (if word = [] then [] else [word])"
| "split_words word (c # cs) =
     (case List.find (\<lambda>w. prefix w (c # cs)) whitespace of
        Some w \<Rightarrow> (if word = [] then [] else [word]) @ split_words [] (drop (length w - 1) cs)
      | None \<Rightarrow> split_words (word @ [c]) cs)"
  by pat_completeness auto
termination by (relation "measure (length \<circ> snd)") auto

fun trim_start_matches :: "string \<Rightarrow> string \<Rightarrow> string" where
  "trim_start_matches p [] = []"
| "trim_start_matches p (c # cs) =
     (if p \<noteq> [] \<and> prefix p (c # cs) then trim_start_matches p (drop (length p - 1) cs) else c # cs)"

definition parse_u16_hex :: "string \<Rightarrow> string + u16" where
  "parse_u16_hex s = u16_from_hex (trim_start_matches ''0X'' (trim_start_matches ''0x'' s))"

text \<open>\<open>str::parse\<close> of a \<open>u16\<close> in decimal.\<close>

fun decimal_value :: "nat \<Rightarrow> string \<Rightarrow> string + u16" where
  "decimal_value acc [] = Inr (u16_of acc)"
| "decimal_value acc (c # cs) =
     (let n = of_char c :: nat in
      if \<not> (48 \<le> n \<and> n \<le> 57) then Inl ''invalid digit found in string''
      else if acc * 10 + (n - 48) > 0xFFFF then Inl ''number too large to fit in target type''
      else decimal_value (acc * 10 + (n - 48)) cs)"

definition parse_u16 :: "string \<Rightarrow> string + u16" where
  "parse_u16 s =
     (if s = [] then Inl ''cannot parse integer from empty string''
      else if s = ''+'' \<or> s = ''-'' then Inl ''invalid digit found in string''
      else decimal_value 0 (if hd s = CHR ''+'' then tl s else s))"

definition bitrates_from_arg :: "string option \<Rightarrow> string list" where
  "bitrates_from_arg arg = (case arg of Some rate \<Rightarrow> [rate] | None \<Rightarrow> [''212F'', ''424F''])"

section \<open>Commands\<close>

text \<open>
  How a command ends; a panic ends the program. A command over a driver returns that, the lines that it has
  printed and the driver.
\<close>

datatype command_end = Finished | Failed string | Quit | Crashed felica_error

type_synonym 'd client_op = "'d \<Rightarrow> command_end \<times> string list \<times> 'd"

definition printed :: "string list \<Rightarrow> 'd client_op \<Rightarrow> 'd client_op" where
  "printed ls m d = (case m d of (e, later, d) \<Rightarrow> (e, ls @ later, d))"

definition ends :: "command_end \<Rightarrow> 'd client_op" where
  "ends e d = (e, [], d)"

definition failed :: "felica_error \<Rightarrow> command_end" where
  "failed e = (if panicking e then Crashed e else Failed (felica_error_text e))"

text \<open>Polling for a card and an operation on it, its result handed on; the polling's error ends the command.\<close>

definition with_card ::
    "'d environment \<Rightarrow> string list \<Rightarrow> u16 \<Rightarrow> ('d, 'a) host_op \<Rightarrow> (felica_error + 'a \<Rightarrow> 'd client_op) \<Rightarrow> 'd client_op" where
  "with_card E bitrates system_code operation f d =
     (case polling_multi E bitrates system_code 0x00 0x00 d of
        (Inl e, d) \<Rightarrow> ends (failed e) d
      | (Inr (h, _), d) \<Rightarrow>
          (case operation h of
             (Inl e, h) \<Rightarrow> if panicking e then ends (Crashed e) (fs_device h) else f (Inl e) (fs_device h)
           | (Inr x, h) \<Rightarrow> f (Inr x) (fs_device h)))"

text \<open>The \<open>?\<close> of an operation: its error is the command's.\<close>

definition or_fail :: "('a \<Rightarrow> 'd client_op) \<Rightarrow> felica_error + 'a \<Rightarrow> 'd client_op" where
  "or_fail f r = (case r of Inl e \<Rightarrow> ends (failed e) | Inr x \<Rightarrow> f x)"

definition parsed :: "string + 'a \<Rightarrow> ('a \<Rightarrow> 'd client_op) \<Rightarrow> 'd client_op" where
  "parsed r f = (case r of Inl m \<Rightarrow> ends (Failed m) | Inr x \<Rightarrow> f x)"

definition finish :: "string list \<Rightarrow> 'd client_op" where
  "finish ls = printed ls (ends Finished)"

definition poll_command :: "'d environment \<Rightarrow> text_crates \<Rightarrow> string list \<Rightarrow> 'd client_op" where
  "poll_command E K parts =
     parsed (parse_u16_hex (case nth_opt parts 1 of Some s \<Rightarrow> s | None \<Rightarrow> ''FFFF'')) (\<lambda>system_code.
     with_card E (bitrates_from_arg (nth_opt parts 2)) system_code (readH fs_polling_result) (or_fail (\<lambda>polling.
     finish ([''Found NFC-F target:'', ''  IDm: '' @ hex_encode_upper K (t3_idm polling),
         ''  PMm: '' @ hex_encode_upper K (t3_pmm polling)] @
       (if t3_optional polling \<noteq> [] then [''  RD:  '' @ hex_encode_upper K (t3_optional polling)] else [])))))"

definition system_code_lines :: "u16 list \<Rightarrow> string list" where
  "system_code_lines codes = map (\<lambda>code. ''  0x'' @ hex4 code) codes"

definition system_code_command :: "'d environment \<Rightarrow> string list \<Rightarrow> 'd client_op" where
  "system_code_command E parts =
     parsed (parse_u16_hex (case nth_opt parts 1 of Some s \<Rightarrow> s | None \<Rightarrow> ''FFFF'')) (\<lambda>system_code.
     with_card E (bitrates_from_arg (nth_opt parts 2)) system_code (request_system_code E) (or_fail (\<lambda>codes.
     finish (''System codes:'' # system_code_lines codes))))"

text \<open>The codes of a request are the arguments that can be parsed; the answers are printed behind all arguments.\<close>

definition requested_codes :: "string list \<Rightarrow> service_code list" where
  "requested_codes args = concat (map (\<lambda>s. case parse_u16_hex s of Inr v \<Rightarrow> [ServiceCode v] | Inl _ \<Rightarrow> []) args)"

definition key_version_lines :: "string list \<Rightarrow> u16 list \<Rightarrow> string list" where
  "key_version_lines args versions = map (\<lambda>(code, version). ''  '' @ code @ '': 0x'' @ hex4 version) (zip args versions)"

definition request_service_command :: "'d environment \<Rightarrow> string list \<Rightarrow> 'd client_op" where
  "request_service_command E parts =
     (if length parts < 2 then ends (Failed ''Usage: request_service <service_code1> [service_code2...]'')
      else
        let codes = requested_codes (drop 1 parts) in
        with_card E [''212F'', ''424F''] 0xFFFF
          (if codes = [] then liftH (Inr None) else bindH (request_service E codes) (\<lambda>versions. liftH (Inr (Some versions))))
          (or_fail (\<lambda>answer. case answer of
             None \<Rightarrow> ends (Failed ''No valid service codes'')
           | Some versions \<Rightarrow> finish (''Key versions:'' # key_version_lines (drop 1 parts) versions))))"

definition read_command :: "'d environment \<Rightarrow> text_crates \<Rightarrow> string list \<Rightarrow> 'd client_op" where
  "read_command E K parts =
     (if length parts < 3 then ends (Failed ''Usage: read <service_code> <block_number>'')
      else
        parsed (parse_u16_hex (parts ! 1)) (\<lambda>service_code.
        parsed (parse_u16 (parts ! 2)) (\<lambda>block_number.
        with_card E [''212F'', ''424F''] 0xFFFF (read_without_encryption E [ServiceCode service_code] [block_element block_number])
          (or_fail (\<lambda>blocks.
        finish ((''Block '' @ dec (unat block_number) @ '' data:'') #
          map (\<lambda>(i, block). ''  Block '' @ dec (unat (block_number + u16_of i)) @ '': '' @ hex_encode_upper K block)
            (enumerate 0 blocks)))))))"

definition search_lines_of :: "u16 \<Rightarrow> search_service_code_result option \<Rightarrow> string list" where
  "search_lines_of service_index result =
     (let here = ''Index '' @ dec (unat service_index) @ '': '' in
      case result of
        Some (SearchService code) \<Rightarrow>
          [here @ ''Service 0x'' @ hex4 (code_raw code), ''  Number: '' @ dec (unat (code_number code)),
           ''  Attributes: 0x'' @ hex2 (code_attributes code)] @
          (case attributes_description code of Some desc \<Rightarrow> [''  Description: '' @ desc] | None \<Rightarrow> [])
      | Some (SearchArea area_code end_service_code) \<Rightarrow>
          [here @ ''Area 0x'' @ hex4 area_code, ''  End service code: 0x'' @ hex4 end_service_code]
      | None \<Rightarrow> [here @ ''No more entries''])"

definition search_command :: "'d environment \<Rightarrow> string list \<Rightarrow> 'd client_op" where
  "search_command E parts =
     (if length parts < 2 then ends (Failed ''Usage: search <service_index>'')
      else
        parsed (parse_u16 (parts ! 1)) (\<lambda>service_index.
        with_card E [''212F'', ''424F''] 0xFFFF (search_service_code E service_index) (or_fail (\<lambda>result.
        finish (search_lines_of service_index result)))))"

text \<open>The entries of the directory from an index on, all of two digits; a readable service is polled for again and read.\<close>

definition read_first_block :: "'d environment \<Rightarrow> text_crates \<Rightarrow> u16 \<Rightarrow> service_code \<Rightarrow> 'd client_op \<Rightarrow> 'd client_op" where
  "read_first_block E K system_code code continue =
     (if code_attributes code AND 0x01 = 0x01 then
        with_card E [''212F'', ''424F''] system_code (read_without_encryption E [code] [block_element 0]) (\<lambda>r. case r of
            Inr blocks \<Rightarrow> printed (map (\<lambda>(i, block). ''        Block '' @ dec i @ '': '' @ hex_encode_upper K block) (enumerate 0 blocks))
              continue
          | Inl _ \<Rightarrow> continue)
      else continue)"

fun dump_entries :: "'d environment \<Rightarrow> text_crates \<Rightarrow> u16 \<Rightarrow> u16 list \<Rightarrow> 'd client_op" where
  "dump_entries E K system_code [] = ends Finished"
| "dump_entries E K system_code (index # indices) =
     (let here = ''  ['' @ hex2 (u8_of (unat index)) @ ''] '' in
      with_card E [''212F'', ''424F''] system_code (search_service_code E index) (\<lambda>r. case r of
          Inr (Some (SearchService code)) \<Rightarrow>
            printed [here @ ''Service 0x'' @ hex4 (code_raw code) @ '' (attr: 0x'' @ hex2 (code_attributes code) @ '')'']
              (read_first_block E K system_code code (dump_entries E K system_code indices))
        | Inr (Some (SearchArea area_code end_service_code)) \<Rightarrow>
            printed [here @ ''Area 0x'' @ hex4 area_code @ '' (end: 0x'' @ hex4 end_service_code @ '')'']
              (dump_entries E K system_code indices)
        | Inr None \<Rightarrow> ends Finished
        | Inl e \<Rightarrow> finish [''  Error at index '' @ dec (unat index) @ '': '' @ felica_error_text e]))"

definition dump_command :: "'d environment \<Rightarrow> text_crates \<Rightarrow> string list \<Rightarrow> 'd client_op" where
  "dump_command E K parts =
     parsed (parse_u16_hex (case nth_opt parts 1 of Some s \<Rightarrow> s | None \<Rightarrow> ''FFFF'')) (\<lambda>system_code.
     printed [''Polling for system code 0x'' @ hex4 system_code @ ''...'']
       (with_card E [''212F'', ''424F''] system_code
         (bindH (readH fs_polling_result) (\<lambda>polled. catchH (request_system_code E) (\<lambda>r. liftH (Inr (polled, r)))))
         (or_fail (\<lambda>(polled, codes).
        printed ([''IDm: '' @ hex_encode_upper K (t3_idm polled), ''PMm: '' @ hex_encode_upper K (t3_pmm polled), [], ''System codes:''] @
            (case codes of Inr codes \<Rightarrow> system_code_lines codes | Inl e \<Rightarrow> [''  Error: '' @ felica_error_text e]) @
            [[], ''Services and Areas:''])
          (dump_entries E K system_code (map u16_of [0..<0x100]))))))"

definition print_help :: "string list" where
  "print_help =
     [''Commands:'',
      ''  poll [system_code] [bitrate]    - Poll for NFC-F target and show IDm/PMm'',
      ''                                 system_code: hex (default: FFFF)'',
      ''                                 bitrate: 212F or 424F'',
      ''                                 (default: both, 424F preferred with 212F fallback)'',
      ''  system_code [sc] [bitrate]      - Request system codes from card'',
      ''  request_service <codes...>   - Request service (hex codes)'',
      ''  read <service> <block>       - Read block without encryption'',
      ''  search <index>               - Search service code by index'',
      ''  dump [system_code]           - Dump all readable blocks'',
      ''  help                         - Show this help'',
      ''  quit                         - Exit the client'',
      []]"

text \<open>The name of a command is compared in lower case; no letter outside ASCII is one of a name in lower case.\<close>

definition execute_client_command :: "'d environment \<Rightarrow> text_crates \<Rightarrow> string \<Rightarrow> 'd client_op" where
  "execute_client_command E K input =
     (let parts = split_words [] input in
      case parts of
        [] \<Rightarrow> ends Finished
      | word # _ \<Rightarrow>
          let cmd = map ascii_lower word in
          if cmd \<in> {''help'', ''h'', ''?''} then finish print_help
          else if cmd \<in> {''quit'', ''exit'', ''q''} then ends Quit
          else if cmd \<in> {''poll'', ''p''} then poll_command E K parts
          else if cmd \<in> {''system_code'', ''sc'', ''systemcode''} then system_code_command E parts
          else if cmd \<in> {''request_service'', ''rs''} then request_service_command E parts
          else if cmd \<in> {''read'', ''r''} then read_command E K parts
          else if cmd \<in> {''search'', ''ssc''} then search_command E parts
          else if cmd = ''dump'' then dump_command E K parts
          else finish [''Unknown command: '' @ cmd @ ''. Type '' @ str_quoted ''help'' @ '' for available commands.''])"

section \<open>The loop\<close>

text \<open>
  The lines of the standard input; the loop ends with the input. The prompt in front of every line is not a line
  of its own and left out.
\<close>

fun client_loop :: "'d environment \<Rightarrow> text_crates \<Rightarrow> string list \<Rightarrow> 'd client_op" where
  "client_loop E K [] = finish [''Goodbye!'']"
| "client_loop E K (input # rest) =
     (let input = str_trim input in
      if input = [] then client_loop E K rest
      else (\<lambda>d. case execute_client_command E K input d of
          (Failed m, ls, d) \<Rightarrow> printed (ls @ [''Error: '' @ m]) (client_loop E K rest) d
        | (Finished, ls, d) \<Rightarrow> printed ls (client_loop E K rest) d
        | (e, ls, d) \<Rightarrow> (e, ls, d)))"

text \<open>
  The versions are printed behind the arguments in their order, also behind those that were left out of the
  request: with an argument that is no code in front, the version of the code behind it is shown for that argument.
\<close>

lemma versions_beside_wrong_codes:
  "requested_codes [''zz'', ''1048''] = [ServiceCode 0x1048]"
  "key_version_lines [''zz'', ''1048''] [v] = [''  zz: 0x'' @ hex4 v]"
  by (simp_all add: requested_codes_def parse_u16_hex_def u16_from_hex_def hex_digit_def u16_of_def Let_def
      key_version_lines_def)

end
