(* ===== verification/Spec2Isabelle.thy ===== *)
theory Spec2Isabelle
  imports Session_Freshness Node_Authentication Port100_Target Iso_Dep Rcs320 Rcs956_Device Remote
    Port100_Card Readers Emulate Dump_Print Suica_Card Remote_Client
begin

text \<open>
  A model of the felica crate.
\<close>

end
